(* ===== verification/Prelude.thy ===== *)
theory Prelude
  imports Main "HOL-Library.Word"
begin

text \<open>
  Shared vocabulary of the development: the machine types of the C++ sources, the
  collections of rules the component proofs draw on, the conversion between
  \<^verbatim>\<open>char\<close> and \<^verbatim>\<open>uint8_t\<close>, the padding arithmetic of XDR, and the outcome of a call
  that may return, throw, or leave the defined behaviour of C++.
\<close>

section \<open>Machine types\<close>

type_synonym byte = "8 word"
type_synonym uint16 = "16 word"
type_synonym uint32 = "32 word"
type_synonym uint64 = "64 word"

text \<open>
  A \<^verbatim>\<open>std::vector<uint8_t>\<close> is a list of bytes. A \<^verbatim>\<open>size_t\<close> is a natural number: every
  \<^verbatim>\<open>size_t\<close> of the sources is the size of an object in memory plus a small constant or a
  32-bit length, which stays below \<open>2 ^ 64\<close>.
\<close>

type_synonym bytes = "byte list"

abbreviation UINT32_MAX :: nat where
  "UINT32_MAX \<equiv> 4294967295"

text \<open>Rule collections: composition rules of encoders, of decoders, and of readers.\<close>

named_theorems xenc
named_theorems xdec
named_theorems xrd

section \<open>Characters and bytes\<close>

text \<open>
  \<^verbatim>\<open>std::string\<close> is a list of characters; copying it into a byte vector and back
  (\<^verbatim>\<open>insert(s.begin(), s.end())\<close>, \<^verbatim>\<open>reinterpret_cast<const char*>\<close>) converts each one.
\<close>

definition byte_of_char :: "char \<Rightarrow> byte" where
  "byte_of_char c = word_of_nat (of_char c)"

definition char_of_byte :: "byte \<Rightarrow> char" where
  "char_of_byte b = char_of (unat b)"

lemma unat_byte_of_char: "unat (byte_of_char c) = of_char c"
proof -
  have "(of_char c :: nat) < 256" by (rule nat_of_char_less_256)
  then show ?thesis by (simp add: byte_of_char_def unat_of_nat)
qed

lemma char_of_byte_of_char [simp]: "char_of_byte (byte_of_char c) = c"
  by (simp add: char_of_byte_def unat_byte_of_char)

lemma byte_of_char_of_byte [simp]: "byte_of_char (char_of_byte b) = b"
proof -
  have "unat b < 256" using unsigned_less [of b, where 'a = nat] by simp
  then show ?thesis by (simp add: byte_of_char_def char_of_byte_def)
qed

lemma map_char_of_byte_of_char [simp]: "map char_of_byte (map byte_of_char s) = s"
  by (simp add: comp_def)

section \<open>Padding\<close>

text \<open>The expression \<^verbatim>\<open>(4 - (n % 4)) % 4\<close>, which the sources write out at every use.\<close>

definition pad4 :: "nat \<Rightarrow> nat" where
  "pad4 n = (4 - n mod 4) mod 4"

lemma pad4_eq: "pad4 n = (if n mod 4 = 0 then 0 else 4 - n mod 4)"
  by (simp add: pad4_def)

lemma pad4_less [simp]: "pad4 n < 4"
  by (simp add: pad4_def)

lemma pad4_sum: "n + pad4 n = (if n mod 4 = 0 then n else 4 * (n div 4 + 1))"
proof (cases "n mod 4 = 0")
  case True
  then show ?thesis by (simp add: pad4_eq)
next
  case False
  define q r where "q = n div 4" and "r = n mod 4"
  then have "n = 4 * q + r" and "r < 4" by simp_all
  then have "n + (4 - r) = 4 * (q + 1)" by simp
  with False show ?thesis by (simp add: pad4_eq q_def r_def)
qed

lemma pad4_aligns [simp]: "4 dvd n + pad4 n"
  unfolding pad4_sum by auto

lemma pad4_dvd [simp]: "4 dvd n \<Longrightarrow> pad4 n = 0"
  by (simp add: pad4_def)

lemma pad4_add_dvd: "4 dvd k \<Longrightarrow> pad4 (k + n) = pad4 n"
  by (auto simp: pad4_def elim!: dvdE)

section \<open>Lists as memory\<close>

text \<open>\<^verbatim>\<open>memcpy(dst, &v[off], n)\<close>: the \<open>n\<close> bytes at offset \<open>off\<close>.\<close>

definition slice :: "nat \<Rightarrow> nat \<Rightarrow> 'a list \<Rightarrow> 'a list" where
  "slice off n xs = take n (drop off xs)"

lemma length_slice: "off + n \<le> length xs \<Longrightarrow> length (slice off n xs) = n"
  by (simp add: slice_def)

lemma slice_at [simp]: "slice (length pre) n (pre @ xs) = take n xs"
  by (simp add: slice_def)

text \<open>\<^verbatim>\<open>memcpy(&v[off], src, n)\<close>, and \<^verbatim>\<open>v.resize(n)\<close> on a vector of integers.\<close>

definition poke :: "nat \<Rightarrow> 'a list \<Rightarrow> 'a list \<Rightarrow> 'a list" where
  "poke off src xs = take off xs @ src @ drop (off + length src) xs"

definition resize :: "nat \<Rightarrow> 'a::zero list \<Rightarrow> 'a list" where
  "resize n xs = take n xs @ replicate (n - length xs) 0"

lemma length_poke [simp]: "off + length src \<le> length xs \<Longrightarrow> length (poke off src xs) = length xs"
  by (simp add: poke_def)

lemma poke_at [simp]: "length old = length src \<Longrightarrow> poke (length pre) src (pre @ old @ post) = pre @ src @ post"
  by (simp add: poke_def)

lemma length_resize [simp]: "length (resize n xs) = n"
  by (simp add: resize_def)

section \<open>Outcomes of calls\<close>

text \<open>
  A call returns, reads memory outside its objects (where C++ defines no behaviour at all), or
  never returns. Exceptions are values: a function that may throw returns a sum, with the
  exception on the left.
\<close>

datatype 'a outcome = Ret 'a | UB | Diverges

definition obind :: "'a outcome \<Rightarrow> ('a \<Rightarrow> 'c outcome) \<Rightarrow> 'c outcome" where
  "obind m f = (case m of Ret a \<Rightarrow> f a | UB \<Rightarrow> UB | Diverges \<Rightarrow> Diverges)"

lemma obind_simps [simp]:
  "obind (Ret a) f = f a" "obind UB f = UB" "obind Diverges f = Diverges"
  by (simp_all add: obind_def)

lemma obind_assoc: "obind (obind m f) g = obind m (\<lambda>a. obind (f a) g)"
  by (cases m) simp_all

lemma obind_Ret_iff: "obind m f = Ret c \<longleftrightarrow> (\<exists>a. m = Ret a \<and> f a = Ret c)"
  by (cases m) simp_all

text \<open>The partial functions that model loops have no value where they do not end.\<close>

definition returns :: "'a option \<Rightarrow> 'a outcome" where
  "returns x = (case x of None \<Rightarrow> Diverges | Some a \<Rightarrow> Ret a)"

lemma returns_simps [simp]: "returns (Some a) = Ret a" "returns None = Diverges"
  by (simp_all add: returns_def)

end
