(* ===== verification/CMemory.thy ===== *)
theory CMemory
  imports Prelude
begin

text \<open>
  Memory as the C port (\<^verbatim>\<open>nfs3_rpc_tests_c\<close>) uses it. Every pointer of that program owns the
  block it points to: no block is reachable through two pointers, so a pointer is modelled by
  the contents of its block. What remains of the address is whether it is null, owns a block,
  or dangles (the block was freed and the pointer not reset). A byte of a block that was
  allocated and never written is \<open>None\<close>. The heap counts the blocks allocated and not
  yet freed, and holds which of the calls of the allocator are refused.

  A C function is a function from its state to a result and a state, or to the fault it commits,
  or it loops for ever.
\<close>

section \<open>Blocks and pointers\<close>

type_synonym block = "byte option list"

datatype 'a ptr = NULL | Owned 'a | Dangling

record heap =
  live :: int
  requests :: nat
  denied :: "nat \<Rightarrow> bool"

text \<open>
  \<open>OutOfBounds\<close>: access outside a block, or through a null pointer. \<open>Uninitialised\<close>: use of a
  local variable or a byte that was never assigned. \<open>InvalidPointer\<close>: use or release of a
  block that was already released.
\<close>

datatype fault = OutOfBounds | Uninitialised | InvalidPointer

datatype 'a crun = Done 'a | Fault fault | Loops

type_synonym ('s, 'a) cm = "'s \<Rightarrow> ('a \<times> 's) crun"

definition cret :: "'a \<Rightarrow> ('s, 'a) cm" where
  "cret a s = Done (a, s)"

definition cfault :: "fault \<Rightarrow> ('s, 'a) cm" where
  "cfault e s = Fault e"

definition cbind :: "('s, 'a) cm \<Rightarrow> ('a \<Rightarrow> ('s, 'c) cm) \<Rightarrow> ('s, 'c) cm" where
  "cbind m f s = (case m s of Done (a, s') \<Rightarrow> f a s' | Fault e \<Rightarrow> Fault e | Loops \<Rightarrow> Loops)"

text \<open>The statements of a function that only has effects, and of one that assigns to the members
  of an object.\<close>

fun cdo :: "('s, unit) cm list \<Rightarrow> ('s, unit) cm" where
  "cdo [] = cret ()"
| "cdo [a] = a"
| "cdo (a # as) = cbind a (\<lambda>_. cdo as)"

fun cseq :: "('o \<Rightarrow> ('s, 'o) cm) list \<Rightarrow> 'o \<Rightarrow> ('s, 'o) cm" where
  "cseq [] ob = cret ob"
| "cseq [t] ob = t ob"
| "cseq (t # ts) ob = cbind (t ob) (cseq ts)"

text \<open>\<^verbatim>\<open>f(buf, &obj->field)\<close>: the member is read, passed by address, and written back.\<close>

definition cfld :: "('o \<Rightarrow> 'f) \<Rightarrow> (('f \<Rightarrow> 'f) \<Rightarrow> 'o \<Rightarrow> 'o) \<Rightarrow> ('f \<Rightarrow> ('s, 'f) cm) \<Rightarrow> 'o \<Rightarrow> ('s, 'o) cm" where
  "cfld get upd f ob = cbind (f (get ob)) (\<lambda>v. cret (upd (\<lambda>_. v) ob))"

lemma cbind_simps [simp]:
  "m s = Done (a, s') \<Longrightarrow> cbind m f s = f a s'"
  "m s = Fault e \<Longrightarrow> cbind m f s = Fault e"
  "m s = Loops \<Longrightarrow> cbind m f s = Loops"
  by (simp_all add: cbind_def)

lemma cbind_cret [simp]: "cbind (cret a) f = f a"
  by (rule ext) (simp add: cbind_def cret_def)

lemma cret_apply [simp]: "cret a s = Done (a, s)"
  by (simp add: cret_def)

lemma cfault_apply [simp]: "cfault e s = Fault e"
  by (simp add: cfault_def)

lemma cbind_assoc: "cbind (cbind m f) g = cbind m (\<lambda>a. cbind (f a) g)"
  by (rule ext) (auto simp: cbind_def split: crun.splits prod.splits)

lemma cbind_Done_iff: "cbind m f s = Done r \<longleftrightarrow> (\<exists>a s'. m s = Done (a, s') \<and> f a s' = Done r)"
  by (auto simp: cbind_def split: crun.splits prod.splits)

lemma cbind_cong [fundef_cong]:
  "m s = m' s' \<Longrightarrow> (\<And>a t. m' s' = Done (a, t) \<Longrightarrow> f a t = f' a t) \<Longrightarrow> cbind m f s = cbind m' f' s'"
  by (auto simp: cbind_def split: crun.splits prod.splits)

lemma cdo_append:
  "cdo xs s = Done ((), t) \<Longrightarrow> ys \<noteq> [] \<Longrightarrow> cdo (xs @ ys) s = cdo ys t"
  by (induction xs arbitrary: s rule: cdo.induct) (auto simp: neq_Nil_conv cbind_Done_iff)

section \<open>The allocator\<close>

definition malloc :: "nat \<Rightarrow> (heap, block ptr) cm" where
  "malloc n h =
     (if denied h (requests h) then Done (NULL, h\<lparr>requests := Suc (requests h)\<rparr>)
      else Done (Owned (replicate n None), h\<lparr>live := live h + 1, requests := Suc (requests h)\<rparr>))"

text \<open>\<^verbatim>\<open>calloc(1, sizeof(T))\<close>, with the object \<open>z\<close> all of whose bytes are zero.\<close>

definition calloc :: "'a \<Rightarrow> (heap, 'a ptr) cm" where
  "calloc z h =
     (if denied h (requests h) then Done (NULL, h\<lparr>requests := Suc (requests h)\<rparr>)
      else Done (Owned z, h\<lparr>live := live h + 1, requests := Suc (requests h)\<rparr>))"

text \<open>On failure \<^verbatim>\<open>realloc\<close> returns null and leaves the old block as it was.\<close>

definition realloc :: "block ptr \<Rightarrow> nat \<Rightarrow> (heap, block ptr) cm" where
  "realloc p n h = (case p of
     NULL \<Rightarrow> malloc n h
   | Owned b \<Rightarrow>
       if denied h (requests h) then Done (NULL, h\<lparr>requests := Suc (requests h)\<rparr>)
       else Done (Owned (take n b @ replicate (n - length b) None), h\<lparr>requests := Suc (requests h)\<rparr>)
   | Dangling \<Rightarrow> Fault InvalidPointer)"

text \<open>\<^verbatim>\<open>free(p)\<close>; the result is what the variable \<^verbatim>\<open>p\<close> holds afterwards.\<close>

definition free :: "'a ptr \<Rightarrow> (heap, 'a ptr) cm" where
  "free p h = (case p of
     NULL \<Rightarrow> Done (NULL, h)
   | Owned _ \<Rightarrow> Done (Dangling, h\<lparr>live := live h - 1\<rparr>)
   | Dangling \<Rightarrow> Fault InvalidPointer)"

text \<open>Reading \<open>n\<close> bytes of a block, and copying bytes into it. Nothing is accessed where \<open>n = 0\<close>.\<close>

definition load_bytes :: "block ptr \<Rightarrow> nat \<Rightarrow> nat \<Rightarrow> ('s, bytes) cm" where
  "load_bytes p off n =
     (if n = 0 then cret []
      else case p of
        NULL \<Rightarrow> cfault OutOfBounds
      | Dangling \<Rightarrow> cfault InvalidPointer
      | Owned b \<Rightarrow>
          if off + n > length b then cfault OutOfBounds
          else if None \<in> set (slice off n b) then cfault Uninitialised
          else cret (map the (slice off n b)))"

definition store_bytes :: "block ptr \<Rightarrow> nat \<Rightarrow> bytes \<Rightarrow> ('s, block ptr) cm" where
  "store_bytes p off bs =
     (if bs = [] then cret p
      else case p of
        NULL \<Rightarrow> cfault OutOfBounds
      | Dangling \<Rightarrow> cfault InvalidPointer
      | Owned b \<Rightarrow>
          if off + length bs > length b then cfault OutOfBounds
          else cret (Owned (poke off (map Some bs) b)))"

section \<open>C strings\<close>

text \<open>\<^verbatim>\<open>strlen(s)\<close>: the bytes before the first zero; a block without one is read past its end.\<close>

fun strlen_block :: "block \<Rightarrow> ('s, nat) cm" where
  "strlen_block [] = cfault OutOfBounds"
| "strlen_block (None # b) = cfault Uninitialised"
| "strlen_block (Some c # b) = (if c = 0 then cret 0 else cbind (strlen_block b) (\<lambda>n. cret (Suc n)))"

definition strlen :: "block ptr \<Rightarrow> ('s, nat) cm" where
  "strlen p = (case p of
     NULL \<Rightarrow> cfault OutOfBounds
   | Dangling \<Rightarrow> cfault InvalidPointer
   | Owned b \<Rightarrow> strlen_block b)"

text \<open>\<^verbatim>\<open>strdup(s)\<close>: a copy of the string in a new block, or null when there is no memory.\<close>

definition strdup :: "block ptr \<Rightarrow> (heap, block ptr) cm" where
  "strdup p =
     cbind (strlen p) (\<lambda>n.
     cbind (load_bytes p 0 n) (\<lambda>cs.
     cbind (malloc (n + 1)) (\<lambda>q.
     if q = NULL then cret NULL
     else store_bytes q 0 (cs @ [0]))))"

text \<open>The block of the string literal with characters \<open>cs\<close>.\<close>

definition cstring :: "bytes \<Rightarrow> block" where
  "cstring cs = map Some (cs @ [0])"

section \<open>What pointers mean\<close>

text \<open>\<open>plenty h\<close>: the allocator refuses nothing. \<open>held p\<close>: the blocks a pointer owns.
  \<open>releasable p\<close>: \<^verbatim>\<open>free(p)\<close> is allowed. \<open>chars p\<close>: the string a pointer holds, a null pointer
  counting as the empty one. \<open>filled p n\<close>: the first \<open>n\<close> bytes can be read.\<close>

definition plenty :: "heap \<Rightarrow> bool" where
  "plenty h \<longleftrightarrow> denied h = (\<lambda>_. False)"

definition held :: "'a ptr \<Rightarrow> int" where
  "held p = (case p of Owned _ \<Rightarrow> 1 | _ \<Rightarrow> 0)"

definition releasable :: "'a ptr \<Rightarrow> bool" where
  "releasable p \<longleftrightarrow> (case p of Dangling \<Rightarrow> False | _ \<Rightarrow> True)"

definition chars :: "block ptr \<Rightarrow> bytes" where
  "chars p = (case p of Owned b \<Rightarrow> map the (takeWhile (\<lambda>c. c \<noteq> Some 0) b) | _ \<Rightarrow> [])"

definition is_cstring :: "block ptr \<Rightarrow> bool" where
  "is_cstring p \<longleftrightarrow> (case p of
     NULL \<Rightarrow> True
   | Owned b \<Rightarrow> Some 0 \<in> set b \<and> None \<notin> set (takeWhile (\<lambda>c. c \<noteq> Some 0) b)
   | Dangling \<Rightarrow> False)"

definition filled :: "block ptr \<Rightarrow> nat \<Rightarrow> bool" where
  "filled p n \<longleftrightarrow> n = 0 \<or> (case p of Owned b \<Rightarrow> n \<le> length b \<and> None \<notin> set (take n b) | _ \<Rightarrow> False)"

definition contents :: "block ptr \<Rightarrow> nat \<Rightarrow> bytes" where
  "contents p n = (case p of Owned b \<Rightarrow> map the (take n b) | _ \<Rightarrow> [])"

lemma held_simps [simp]: "held NULL = 0" "held (Owned b) = 1" "held Dangling = 0"
  by (simp_all add: held_def)

lemma releasable_simps [simp]: "releasable NULL" "releasable (Owned b)" "\<not> releasable Dangling"
  by (simp_all add: releasable_def)

lemma plenty_simps [simp]: "plenty (h\<lparr>live := l\<rparr>) = plenty h" "plenty (h\<lparr>requests := n\<rparr>) = plenty h"
  by (simp_all add: plenty_def)

lemma malloc_plenty:
  "plenty h \<Longrightarrow> malloc n h =
     Done (Owned (replicate n None), h\<lparr>live := live h + 1, requests := Suc (requests h)\<rparr>)"
  by (simp add: malloc_def plenty_def)

lemma calloc_plenty:
  "plenty h \<Longrightarrow> calloc z h = Done (Owned z, h\<lparr>live := live h + 1, requests := Suc (requests h)\<rparr>)"
  by (simp add: calloc_def plenty_def)

lemma free_releasable:
  "releasable p \<Longrightarrow>
   free p h = Done ((if p = NULL then NULL else Dangling), h\<lparr>live := live h - held p\<rparr>)"
  by (cases p) (simp_all add: free_def)

lemma free_twice: "free p h = Done (q, h') \<Longrightarrow> p \<noteq> NULL \<Longrightarrow> free q h' = Fault InvalidPointer"
  by (cases p) (auto simp: free_def)

lemma strlen_block_ok:
  "Some 0 \<in> set b \<Longrightarrow> None \<notin> set (takeWhile (\<lambda>c. c \<noteq> Some 0) b) \<Longrightarrow>
   strlen_block b s = Done (length (takeWhile (\<lambda>c. c \<noteq> Some 0) b), s)"
  by (induction b arbitrary: s rule: strlen_block.induct) auto

lemma strlen_cstring: "is_cstring p \<Longrightarrow> p \<noteq> NULL \<Longrightarrow> strlen p s = Done (length (chars p), s)"
  by (cases p) (simp_all add: is_cstring_def strlen_def chars_def strlen_block_ok)

lemma load_holds: "filled p n \<Longrightarrow> load_bytes p 0 n s = Done (contents p n, s)"
  by (cases p) (auto simp: filled_def load_bytes_def contents_def slice_def)

lemma length_contents: "filled p n \<Longrightarrow> length (contents p n) = n"
  by (cases p) (auto simp: filled_def contents_def)

lemma take_takeWhile: "take (length (takeWhile P xs)) xs = takeWhile P xs"
  by (metis append_eq_conv_conj takeWhile_dropWhile_id)

lemma length_takeWhile_less: "x \<in> set xs \<Longrightarrow> \<not> P x \<Longrightarrow> length (takeWhile P xs) < length xs"
  by (induction xs) auto

lemma holds_cstring: "is_cstring p \<Longrightarrow> filled p (length (chars p))"
  by (cases p)
    (auto simp: is_cstring_def filled_def chars_def take_takeWhile
      intro: length_takeWhile_less [THEN less_imp_le])

lemma contents_cstring: "is_cstring p \<Longrightarrow> contents p (length (chars p)) = chars p"
  by (cases p) (auto simp: is_cstring_def contents_def chars_def take_takeWhile)

lemma chars_nonzero: "is_cstring p \<Longrightarrow> 0 \<notin> set (chars p)"
proof (cases p)
  case (Owned b)
  assume "is_cstring p"
  with Owned have "None \<notin> set (takeWhile (\<lambda>c. c \<noteq> Some 0) b)" by (simp add: is_cstring_def)
  then have "the c \<noteq> 0" if "c \<in> set (takeWhile (\<lambda>c. c \<noteq> Some 0) b)" for c
    using that set_takeWhileD [OF that] by (cases c) auto
  with Owned show ?thesis by (force simp: chars_def)
qed (simp_all add: chars_def)

lemma takeWhile_cstring:
  "0 \<notin> set cs \<Longrightarrow> takeWhile (\<lambda>c. c \<noteq> Some 0) (map Some cs @ Some 0 # r) = map Some cs"
  by (induction cs) auto

lemma chars_of_cstring [simp]: "0 \<notin> set cs \<Longrightarrow> chars (Owned (cstring cs)) = cs"
  by (simp add: chars_def cstring_def takeWhile_cstring comp_def)

lemma is_cstring_of_cstring [simp]: "0 \<notin> set cs \<Longrightarrow> is_cstring (Owned (cstring cs))"
  by (auto simp: is_cstring_def cstring_def takeWhile_cstring)

text \<open>A string that holds a zero byte is cut there by every C function that reads it.\<close>

lemma chars_cut:
  "chars (Owned (cstring cs)) = takeWhile (\<lambda>c. c \<noteq> 0) cs \<and> is_cstring (Owned (cstring cs))"
proof -
  have "takeWhile (\<lambda>c. c \<noteq> Some 0) (map Some (cs @ [0])) = map Some (takeWhile (\<lambda>c. c \<noteq> 0) cs)"
    by (induction cs) auto
  then show ?thesis by (auto simp: chars_def is_cstring_def cstring_def comp_def)
qed

lemma poke_whole: "length src = length b \<Longrightarrow> poke 0 src b = src"
  by (simp add: poke_def)

lemma strdup_cstring:
  assumes "is_cstring p" and "p \<noteq> NULL" and "plenty h"
  shows "strdup p h =
    Done (Owned (cstring (chars p)), h\<lparr>live := live h + 1, requests := Suc (requests h)\<rparr>)"
proof -
  have "poke 0 (map Some (chars p @ [0])) (replicate (length (chars p) + 1) None) = cstring (chars p)"
    by (subst poke_whole) (simp_all add: cstring_def)
  with assms show ?thesis
    by (simp add: strdup_def strlen_cstring load_holds [OF holds_cstring] contents_cstring malloc_plenty
        store_bytes_def)
qed

end
