(* ===== verification/XdrPrimitive.thy ===== *)
theory XdrPrimitive
  imports Prelude
begin

unbundle bit_operations_syntax

text \<open>
  Byte order: \<^verbatim>\<open>nfs3_rpc_tests/include/nfs3/detail/xdr_primitive.hpp\<close>. The definitions take
  the byte order of the host as an argument; \<open>NATIVE_ENDIAN\<close> is the constant of the
  little-endian builds, and the theorems show that what reaches the wire does not depend
  on it.
\<close>

datatype Endianness = BIG | LITTLE

definition swap_bytes32 :: "uint32 \<Rightarrow> uint32" where
  "swap_bytes32 val =
     (drop_bit 24 (val AND 0xFF000000)) OR
     (drop_bit 8 (val AND 0x00FF0000)) OR
     (push_bit 8 (val AND 0x0000FF00)) OR
     (push_bit 24 (val AND 0x000000FF))"

definition swap_bytes64 :: "uint64 \<Rightarrow> uint64" where
  "swap_bytes64 val =
     (drop_bit 56 (val AND 0xFF00000000000000)) OR
     (drop_bit 40 (val AND 0x00FF000000000000)) OR
     (drop_bit 24 (val AND 0x0000FF0000000000)) OR
     (drop_bit 8 (val AND 0x000000FF00000000)) OR
     (push_bit 8 (val AND 0x00000000FF000000)) OR
     (push_bit 24 (val AND 0x0000000000FF0000)) OR
     (push_bit 40 (val AND 0x000000000000FF00)) OR
     (push_bit 56 (val AND 0x00000000000000FF))"

definition host_to_network32 :: "Endianness \<Rightarrow> uint32 \<Rightarrow> uint32" where
  "host_to_network32 e val = (if e = BIG then val else swap_bytes32 val)"

definition network_to_host32 :: "Endianness \<Rightarrow> uint32 \<Rightarrow> uint32" where
  "network_to_host32 e val = host_to_network32 e val"

definition host_to_network64 :: "Endianness \<Rightarrow> uint64 \<Rightarrow> uint64" where
  "host_to_network64 e val = (if e = BIG then val else swap_bytes64 val)"

definition network_to_host64 :: "Endianness \<Rightarrow> uint64 \<Rightarrow> uint64" where
  "network_to_host64 e val = host_to_network64 e val"

definition NATIVE_ENDIAN :: Endianness where
  "NATIVE_ENDIAN = LITTLE"

section \<open>The bytes of an integer in memory\<close>

text \<open>
  \<^verbatim>\<open>reinterpret_cast<const uint8_t*>(&net_val)\<close> exposes the object representation, and
  \<^verbatim>\<open>memcpy(&net_val, p, 4)\<close> sets it: most significant byte first on a big-endian host, last
  on a little-endian one.
\<close>

definition be32 :: "uint32 \<Rightarrow> bytes" where
  "be32 w = [ucast (drop_bit 24 w), ucast (drop_bit 16 w), ucast (drop_bit 8 w), ucast w]"

definition be64 :: "uint64 \<Rightarrow> bytes" where
  "be64 w = [ucast (drop_bit 56 w), ucast (drop_bit 48 w), ucast (drop_bit 40 w),
             ucast (drop_bit 32 w), ucast (drop_bit 24 w), ucast (drop_bit 16 w),
             ucast (drop_bit 8 w), ucast w]"

definition shift_in :: "byte \<Rightarrow> 'a::len word \<Rightarrow> 'a word" where
  "shift_in b acc = push_bit 8 acc OR ucast b"

definition of_be :: "bytes \<Rightarrow> 'a::len word" where
  "of_be bs = fold shift_in bs 0"

definition mem32 :: "Endianness \<Rightarrow> uint32 \<Rightarrow> bytes" where
  "mem32 e w = (if e = BIG then be32 w else rev (be32 w))"

definition mem64 :: "Endianness \<Rightarrow> uint64 \<Rightarrow> bytes" where
  "mem64 e w = (if e = BIG then be64 w else rev (be64 w))"

definition load32 :: "Endianness \<Rightarrow> bytes \<Rightarrow> uint32" where
  "load32 e bs = of_be (if e = BIG then bs else rev bs)"

definition load64 :: "Endianness \<Rightarrow> bytes \<Rightarrow> uint64" where
  "load64 e bs = of_be (if e = BIG then bs else rev bs)"

lemma length_be32 [simp]: "length (be32 w) = 4"
  by (simp add: be32_def)

lemma length_be64 [simp]: "length (be64 w) = 8"
  by (simp add: be64_def)

lemma less_8_cases: "(n::nat) < 8 \<Longrightarrow> n = 0 \<or> n = 1 \<or> n = 2 \<or> n = 3 \<or> n = 4 \<or> n = 5 \<or> n = 6 \<or> n = 7"
  by presburger

lemma quot_rem_8:
  fixes n :: nat
  obtains q r where "n = r + 8 * q" and "r < 8"
  using that [of "n mod 8" "n div 8"] by simp

lemma be32_swap: "be32 (swap_bytes32 w) = rev (be32 w)"
  unfolding be32_def swap_bytes32_def rev.simps append.simps list.inject
  by (intro conjI TrueI refl;
      rule bit_word_eqI, simp, drule less_8_cases, elim disjE; simp add: bit_simps)

lemma be64_swap: "be64 (swap_bytes64 w) = rev (be64 w)"
  unfolding be64_def swap_bytes64_def rev.simps append.simps list.inject
  by (intro conjI TrueI refl;
      rule bit_word_eqI, simp, drule less_8_cases, elim disjE; simp add: bit_simps)

lemma bit_shift_in:
  fixes acc :: "'a::len word" and b :: byte
  assumes "n < LENGTH('a)" and "8 \<le> LENGTH('a)"
  shows "bit (shift_in b acc) n = (if n < 8 then bit b n else bit acc (n - 8))"
  using assms by (auto simp: shift_in_def bit_simps dest: bit_imp_le_length)

lemma of_be_be32 [simp]: "of_be (be32 w) = w"
proof (rule bit_word_eqI)
  fix n assume "n < LENGTH(32)"
  moreover obtain q r where qr: "n = r + 8 * q" "r < 8" by (rule quot_rem_8)
  ultimately have "q < 4" by simp
  then have "q = 0 \<or> q = 1 \<or> q = 2 \<or> q = 3" by auto
  with qr show "bit (of_be (be32 w) :: uint32) n = bit w n"
    by (elim disjE) (simp_all add: of_be_def be32_def bit_shift_in bit_ucast_iff bit_drop_bit_eq ac_simps)
qed

lemma of_be_be64 [simp]: "of_be (be64 w) = w"
proof (rule bit_word_eqI)
  fix n assume "n < LENGTH(64)"
  moreover obtain q r where qr: "n = r + 8 * q" "r < 8" by (rule quot_rem_8)
  ultimately have "q < 8" by simp
  then have "q = 0 \<or> q = 1 \<or> q = 2 \<or> q = 3 \<or> q = 4 \<or> q = 5 \<or> q = 6 \<or> q = 7"
    by (rule less_8_cases)
  with qr show "bit (of_be (be64 w) :: uint64) n = bit w n"
    by (elim disjE) (simp_all add: of_be_def be64_def bit_shift_in bit_ucast_iff bit_drop_bit_eq ac_simps)
qed

lemma length_4_conv: "length bs = 4 \<Longrightarrow> \<exists>a b c d. bs = [a, b, c, d]"
  by (auto simp: length_Suc_conv numeral_eq_Suc)

lemma be32_of_be:
  assumes "length bs = 4"
  shows "be32 (of_be bs) = bs"
proof -
  from assms obtain a b c d where bs: "bs = [a, b, c, d]" using length_4_conv by blast
  let ?w = "of_be bs :: uint32"
  have *: "bit ?w n = (if n < 8 then bit d n else if n - 8 < 8 then bit c (n - 8)
      else if n - 8 - 8 < 8 then bit b (n - 8 - 8) else bit a (n - 8 - 8 - 8))" if "n < 32" for n
    using that by (simp add: bs of_be_def bit_shift_in)
  have "ucast (drop_bit 24 ?w) = a" and "ucast (drop_bit 16 ?w) = b"
    and "ucast (drop_bit 8 ?w) = c" and "ucast ?w = d"
    by (rule bit_word_eqI; simp add: bit_simps * )+
  then show ?thesis by (simp add: be32_def bs)
qed

lemma length_8_conv: "length bs = 8 \<Longrightarrow> \<exists>a b c d e f g h. bs = [a, b, c, d, e, f, g, h]"
  by (auto simp: length_Suc_conv numeral_eq_Suc)

lemma be64_of_be:
  assumes "length bs = 8"
  shows "be64 (of_be bs) = bs"
proof -
  from assms obtain a b c d e f g h where bs: "bs = [a, b, c, d, e, f, g, h]"
    using length_8_conv by blast
  let ?w = "of_be bs :: uint64"
  have "ucast (drop_bit 56 ?w) = a" and "ucast (drop_bit 48 ?w) = b"
    and "ucast (drop_bit 40 ?w) = c" and "ucast (drop_bit 32 ?w) = d"
    and "ucast (drop_bit 24 ?w) = e" and "ucast (drop_bit 16 ?w) = f"
    and "ucast (drop_bit 8 ?w) = g" and "ucast ?w = h"
    by (rule bit_word_eqI; simp add: bit_simps bs of_be_def bit_shift_in)+
  then show ?thesis by (simp add: be64_def bs)
qed

lemma be32_inject [simp]: "be32 v = be32 w \<longleftrightarrow> v = w"
  by (metis of_be_be32)

lemma be64_inject [simp]: "be64 v = be64 w \<longleftrightarrow> v = w"
  by (metis of_be_be64)

lemma swap32_of_be_rev: "length bs = 4 \<Longrightarrow> swap_bytes32 (of_be (rev bs)) = of_be bs"
  by (metis be32_of_be be32_swap length_rev of_be_be32 rev_rev_ident)

lemma swap64_of_be_rev: "length bs = 8 \<Longrightarrow> swap_bytes64 (of_be (rev bs)) = of_be bs"
  by (metis be64_of_be be64_swap length_rev of_be_be64 rev_rev_ident)

text \<open>What the four conversions do to the bytes on the wire, on either kind of host.\<close>

lemma store32 [simp]: "mem32 e (host_to_network32 e v) = be32 v"
  by (cases e) (simp_all add: mem32_def host_to_network32_def be32_swap)

lemma store64 [simp]: "mem64 e (host_to_network64 e v) = be64 v"
  by (cases e) (simp_all add: mem64_def host_to_network64_def be64_swap)

lemma fetch32 [simp]: "length bs = 4 \<Longrightarrow> network_to_host32 e (load32 e bs) = of_be bs"
  by (cases e)
    (simp_all add: load32_def network_to_host32_def host_to_network32_def swap32_of_be_rev)

lemma fetch64 [simp]: "length bs = 8 \<Longrightarrow> network_to_host64 e (load64 e bs) = of_be bs"
  by (cases e)
    (simp_all add: load64_def network_to_host64_def host_to_network64_def swap64_of_be_rev)

end
