(* ===== verification/XdrCodec.thy ===== *)
theory XdrCodec
  imports XdrPrimitive
begin

text \<open>
  The XDR codec: \<^verbatim>\<open>class XdrBuffer\<close> of \<^verbatim>\<open>nfs3_rpc_tests/include/nfs3/xdr_codec.hpp\<close> and
  \<^verbatim>\<open>nfs3_rpc_tests/src/xdr_codec.cpp\<close>. A member function that may throw is a function from
  the buffer to the exception or the result, together with the buffer as it is left: a read
  that throws keeps the position reached so far. \<^verbatim>\<open>unpack(T& val)\<close> takes the old value of
  \<open>val\<close> and returns the new one. The capacity of the vector (\<^verbatim>\<open>ensure_write_space\<close>,
  \<^verbatim>\<open>reserve\<close>) is not observable and not modelled; \<^verbatim>\<open>&buffer_[pos_]\<close> with
  \<^verbatim>\<open>pos_ == size()\<close> and length 0 is taken as the empty range at the end.

  The locale \<open>xdr_codec\<close> is the contract between a \<^verbatim>\<open>serialize\<close>/\<^verbatim>\<open>deserialize\<close> pair
  and its users.
\<close>

record XdrBuffer =
  buffer :: bytes
  pos :: nat

datatype XdrError =
    InsufficientData (need: nat) (at_offset: nat) (have_left: nat)
  | StringTooLong nat
  | OpaqueTooLong nat

section \<open>Sequencing member functions that may throw\<close>

type_synonym 'a xdr = "XdrBuffer \<Rightarrow> (XdrError + 'a) \<times> XdrBuffer"

definition xret :: "'a \<Rightarrow> 'a xdr" where
  "xret a b = (Inr a, b)"

definition xthrow :: "XdrError \<Rightarrow> 'a xdr" where
  "xthrow e b = (Inl e, b)"

definition xbind :: "'a xdr \<Rightarrow> ('a \<Rightarrow> 'c xdr) \<Rightarrow> 'c xdr" where
  "xbind m f b = (case m b of (Inl e, b') \<Rightarrow> (Inl e, b') | (Inr a, b') \<Rightarrow> f a b')"

text \<open>\<open>xdo\<close> runs the statements of a \<^verbatim>\<open>serialize\<close>, \<open>xseq\<close> those of a \<^verbatim>\<open>deserialize\<close>, each
  of which assigns to part of the object it is given.\<close>

fun xdo :: "unit xdr list \<Rightarrow> unit xdr" where
  "xdo [] = xret ()"
| "xdo [a] = a"
| "xdo (a # as) = xbind a (\<lambda>_. xdo as)"

fun xseq :: "('o \<Rightarrow> 'o xdr) list \<Rightarrow> 'o \<Rightarrow> 'o xdr" where
  "xseq [] ob = xret ob"
| "xseq [s] ob = s ob"
| "xseq (s # ss) ob = xbind (s ob) (xseq ss)"

text \<open>\<^verbatim>\<open>buf.unpack(obj.field)\<close>: read into one member.\<close>

definition fld :: "('o \<Rightarrow> 'f) \<Rightarrow> (('f \<Rightarrow> 'f) \<Rightarrow> 'o \<Rightarrow> 'o) \<Rightarrow> ('f \<Rightarrow> 'f xdr) \<Rightarrow> 'o \<Rightarrow> 'o xdr" where
  "fld get upd des ob = xbind (des (get ob)) (\<lambda>v. xret (upd (\<lambda>_. v) ob))"

section \<open>class XdrBuffer\<close>

definition XdrBuffer_new :: XdrBuffer where
  "XdrBuffer_new = \<lparr>buffer = [], pos = 0\<rparr>"

definition XdrBuffer_of :: "bytes \<Rightarrow> XdrBuffer" where
  "XdrBuffer_of data = \<lparr>buffer = data, pos = 0\<rparr>"

definition XdrBuffer_clear :: "XdrBuffer \<Rightarrow> XdrBuffer" where
  "XdrBuffer_clear b = b\<lparr>buffer := [], pos := 0\<rparr>"

definition XdrBuffer_reset_read :: "XdrBuffer \<Rightarrow> XdrBuffer" where
  "XdrBuffer_reset_read b = b\<lparr>pos := 0\<rparr>"

text \<open>The exception carries the three numbers of its message; the last is a \<^verbatim>\<open>size_t\<close>
  difference, which wraps when the position is past the end.\<close>

definition ensure_read_space :: "nat \<Rightarrow> unit xdr" where
  "ensure_read_space n b =
     (if pos b + n > length (buffer b)
      then xthrow (InsufficientData n (pos b)
             (nat ((int (length (buffer b)) - int (pos b)) mod 2 ^ 64))) b
      else xret () b)"

definition insert_end :: "bytes \<Rightarrow> unit xdr" where
  "insert_end bs b = xret () (b\<lparr>buffer := buffer b @ bs\<rparr>)"

definition pad_to_4_bytes :: "unit xdr" where
  "pad_to_4_bytes b = insert_end (replicate (pad4 (length (buffer b))) 0) b"

definition pack_int32 :: "uint32 \<Rightarrow> unit xdr" where
  "pack_int32 val = insert_end (mem32 NATIVE_ENDIAN (host_to_network32 NATIVE_ENDIAN val))"

definition pack_uint32 :: "uint32 \<Rightarrow> unit xdr" where
  "pack_uint32 val = insert_end (mem32 NATIVE_ENDIAN (host_to_network32 NATIVE_ENDIAN val))"

definition pack_uint64 :: "uint64 \<Rightarrow> unit xdr" where
  "pack_uint64 val = insert_end (mem64 NATIVE_ENDIAN (host_to_network64 NATIVE_ENDIAN val))"

definition pack_bool :: "bool \<Rightarrow> unit xdr" where
  "pack_bool val = pack_uint32 (if val then 1 else 0)"

definition pack_string :: "string \<Rightarrow> unit xdr" where
  "pack_string s =
     (if length s > UINT32_MAX then xthrow (StringTooLong (length s))
      else xdo [pack_uint32 (word_of_nat (length s)),
                insert_end (map byte_of_char s),
                pad_to_4_bytes])"

text \<open>\<^verbatim>\<open>pack(const uint8_t* data, size_t len)\<close> and the vector overload that calls it.\<close>

definition pack_opaque :: "bytes \<Rightarrow> nat \<Rightarrow> unit xdr" where
  "pack_opaque data len =
     (if len > UINT32_MAX then xthrow (OpaqueTooLong len)
      else xdo [pack_uint32 (word_of_nat len),
                insert_end (take len data),
                insert_end (replicate (pad4 len) 0)])"

definition pack_vector :: "bytes \<Rightarrow> unit xdr" where
  "pack_vector data = pack_opaque data (length data)"

definition read_mem :: "nat \<Rightarrow> bytes xdr" where
  "read_mem n b = (Inr (slice (pos b) n (buffer b)), b\<lparr>pos := pos b + n\<rparr>)"

definition skip :: "nat \<Rightarrow> unit xdr" where
  "skip n b = (Inr (), b\<lparr>pos := pos b + n\<rparr>)"

definition unpack_uint32 :: "uint32 \<Rightarrow> uint32 xdr" where
  "unpack_uint32 old =
     xbind (ensure_read_space 4) (\<lambda>_.
     xbind (read_mem 4) (\<lambda>net_val.
     xret (network_to_host32 NATIVE_ENDIAN (load32 NATIVE_ENDIAN net_val))))"

definition unpack_int32 :: "uint32 \<Rightarrow> uint32 xdr" where
  "unpack_int32 old =
     xbind (ensure_read_space 4) (\<lambda>_.
     xbind (read_mem 4) (\<lambda>net_val.
     xret (network_to_host32 NATIVE_ENDIAN (load32 NATIVE_ENDIAN net_val))))"

definition unpack_uint64 :: "uint64 \<Rightarrow> uint64 xdr" where
  "unpack_uint64 old =
     xbind (ensure_read_space 8) (\<lambda>_.
     xbind (read_mem 8) (\<lambda>net_val.
     xret (network_to_host64 NATIVE_ENDIAN (load64 NATIVE_ENDIAN net_val))))"

definition unpack_bool :: "bool \<Rightarrow> bool xdr" where
  "unpack_bool old = xbind (unpack_uint32 0) (\<lambda>int_val. xret (int_val \<noteq> 0))"

definition unpack_string :: "string \<Rightarrow> string xdr" where
  "unpack_string old =
     xbind (unpack_uint32 0) (\<lambda>len.
     xbind (ensure_read_space (unat len)) (\<lambda>_.
     xbind (read_mem (unat len)) (\<lambda>s.
     xbind (skip (pad4 (unat len))) (\<lambda>_.
     xret (map char_of_byte s)))))"

definition unpack_vector :: "bytes \<Rightarrow> bytes xdr" where
  "unpack_vector old =
     xbind (unpack_uint32 0) (\<lambda>len.
     xbind (ensure_read_space (unat len)) (\<lambda>_.
     xbind (read_mem (unat len)) (\<lambda>d.
     xbind (skip (pad4 (unat len))) (\<lambda>_.
     xret d))))"

section \<open>Optional members\<close>

text \<open>
  The idiom of \<^verbatim>\<open>nfs3_types.hpp\<close> for \<^verbatim>\<open>std::optional\<close> and \<^verbatim>\<open>std::unique_ptr\<close> members:
  a flag, then the value if there is one. Reading a false flag assigns nothing, so the
  member keeps its old value.
\<close>

definition pack_optional :: "('f \<Rightarrow> unit xdr) \<Rightarrow> 'f option \<Rightarrow> unit xdr" where
  "pack_optional ser x =
     xdo [pack_bool (x \<noteq> None), case x of None \<Rightarrow> xret () | Some v \<Rightarrow> ser v]"

definition unpack_optional :: "'f \<Rightarrow> ('f \<Rightarrow> 'f xdr) \<Rightarrow> 'f option \<Rightarrow> 'f option xdr" where
  "unpack_optional init des old =
     xbind (unpack_bool False) (\<lambda>flag.
       if flag then xbind (des init) (\<lambda>v. xret (Some v)) else xret old)"

section \<open>The wire format\<close>

text \<open>The reference encodings: RFC 4506 integers, booleans, strings and opaque data.\<close>

definition enc_bool :: "bool \<Rightarrow> bytes" where
  "enc_bool v = be32 (if v then 1 else 0)"

definition enc_opaque :: "bytes \<Rightarrow> bytes" where
  "enc_opaque d = be32 (word_of_nat (length d)) @ d @ replicate (pad4 (length d)) 0"

definition enc_string :: "string \<Rightarrow> bytes" where
  "enc_string s = enc_opaque (map byte_of_char s)"

definition enc_optional :: "('f \<Rightarrow> bytes) \<Rightarrow> 'f option \<Rightarrow> bytes" where
  "enc_optional enc x = enc_bool (x \<noteq> None) @ (case x of None \<Rightarrow> [] | Some v \<Rightarrow> enc v)"

text \<open>
  \<open>encodes m bs\<close>: on a buffer that ends on a four-byte boundary, \<open>m\<close> appends exactly \<open>bs\<close>,
  keeps the boundary and does not throw. \<open>decodes m bs y\<close>: where the unread bytes start with
  \<open>bs\<close>, \<open>m\<close> consumes exactly \<open>bs\<close> and returns \<open>y\<close>. \<open>reader m\<close>: on every buffer whatever,
  \<open>m\<close> leaves the data alone, only moves forward, never past the end by more than the
  padding of one item, and fails only for lack of data.
\<close>

definition encodes :: "unit xdr \<Rightarrow> bytes \<Rightarrow> bool" where
  "encodes m bs \<longleftrightarrow> 4 dvd length bs \<and>
     (\<forall>b. 4 dvd length (buffer b) \<longrightarrow> m b = (Inr (), b\<lparr>buffer := buffer b @ bs\<rparr>))"

definition decodes :: "'a xdr \<Rightarrow> bytes \<Rightarrow> 'a \<Rightarrow> bool" where
  "decodes m bs y \<longleftrightarrow>
     (\<forall>pre post. m \<lparr>buffer = pre @ bs @ post, pos = length pre\<rparr> =
        (Inr y, \<lparr>buffer = pre @ bs @ post, pos = length pre + length bs\<rparr>))"

definition moves :: "XdrBuffer \<Rightarrow> XdrBuffer \<Rightarrow> bool" where
  "moves b b' \<longleftrightarrow> buffer b' = buffer b \<and> pos b \<le> pos b' \<and>
     (pos b \<le> length (buffer b) + 3 \<longrightarrow> pos b' \<le> length (buffer b) + 3)"

definition reader :: "'a xdr \<Rightarrow> bool" where
  "reader m \<longleftrightarrow>
     (\<forall>b. moves b (snd (m b)) \<and>
       (\<forall>e. fst (m b) = Inl e \<longrightarrow> (\<exists>n p h. e = InsufficientData n p h)))"

lemma length_enc_opaque: "length (enc_opaque d) = 4 + length d + pad4 (length d)"
  by (simp add: enc_opaque_def)

lemma dvd_enc_opaque [simp]: "4 dvd length (enc_opaque d)"
  using pad4_aligns [of "length d"] by (simp add: length_enc_opaque add.assoc)

lemma unat_of_length: "n \<le> UINT32_MAX \<Longrightarrow> unat (word_of_nat n :: uint32) = n"
  by (simp add: unat_of_nat)

section \<open>Encoders compose\<close>

lemma encodesI:
  assumes "4 dvd length bs"
    and "\<And>b. 4 dvd length (buffer b) \<Longrightarrow> m b = (Inr (), b\<lparr>buffer := buffer b @ bs\<rparr>)"
  shows "encodes m bs"
  using assms by (simp add: encodes_def)

lemma encodesD:
  "encodes m bs \<Longrightarrow> 4 dvd length (buffer b) \<Longrightarrow> m b = (Inr (), b\<lparr>buffer := buffer b @ bs\<rparr>)"
  by (simp add: encodes_def)

lemma encodes_insert_end: "4 dvd length bs \<Longrightarrow> encodes (insert_end bs) bs"
  by (simp add: encodes_def insert_end_def xret_def)

lemma encodes_uint32: "encodes (pack_uint32 v) (be32 v)"
  unfolding pack_uint32_def by (simp add: encodes_insert_end)

lemma encodes_int32: "encodes (pack_int32 v) (be32 v)"
  unfolding pack_int32_def by (simp add: encodes_insert_end)

lemma encodes_uint64: "encodes (pack_uint64 v) (be64 v)"
  unfolding pack_uint64_def by (simp add: encodes_insert_end)

lemma encodes_bool: "encodes (pack_bool v) (enc_bool v)"
  unfolding pack_bool_def enc_bool_def by (rule encodes_uint32)

lemma encodes_string:
  assumes "length s \<le> UINT32_MAX"
  shows "encodes (pack_string s) (enc_string s)"
proof (rule encodesI)
  show "4 dvd length (enc_string s)" by (simp add: enc_string_def)
next
  fix b :: XdrBuffer assume b: "4 dvd length (buffer b)"
  have "pad4 (length (buffer b) + 4 + length s) = pad4 (length s)"
    using b by (intro pad4_add_dvd) simp
  with assms show "pack_string s b = (Inr (), b\<lparr>buffer := buffer b @ enc_string s\<rparr>)"
    by (simp add: pack_string_def pack_uint32_def pad_to_4_bytes_def insert_end_def xbind_def
        xret_def enc_string_def enc_opaque_def add.assoc)
qed

lemma encodes_opaque:
  assumes "length d = len" and "len \<le> UINT32_MAX"
  shows "encodes (pack_opaque d len) (enc_opaque d)"
  using assms by (intro encodesI)
    (simp_all add: pack_opaque_def pack_uint32_def insert_end_def xbind_def xret_def enc_opaque_def
      dvd_enc_opaque [unfolded enc_opaque_def])

lemma encodes_vector:
  "length d \<le> UINT32_MAX \<Longrightarrow> encodes (pack_vector d) (enc_opaque d)"
  unfolding pack_vector_def by (rule encodes_opaque) simp_all

lemma encodes_xret [xenc]: "encodes (xret ()) []"
  by (simp add: encodes_def xret_def)

lemma encodes_xdo_single [xenc]: "encodes a bs \<Longrightarrow> encodes (xdo [a]) bs"
  by simp

lemma encodes_xdo [xenc]:
  assumes a: "encodes a bs" and as: "encodes (xdo (c # cs)) bs'"
  shows "encodes (xdo (a # c # cs)) (bs @ bs')"
proof (rule encodesI)
  show "4 dvd length (bs @ bs')" using a as by (simp add: encodes_def)
next
  fix b :: XdrBuffer assume b: "4 dvd length (buffer b)"
  then have "4 dvd length (buffer (b\<lparr>buffer := buffer b @ bs\<rparr>))"
    using a by (simp add: encodes_def)
  with a as b show "xdo (a # c # cs) b = (Inr (), b\<lparr>buffer := buffer b @ bs @ bs'\<rparr>)"
    by (simp add: xbind_def encodesD)
qed

lemma encodes_if [xenc]:
  "(c \<Longrightarrow> encodes a bs) \<Longrightarrow> encodes (if c then a else xret ()) (if c then bs else [])"
  by (simp add: encodes_xret)

lemma encodes_case_option [xenc]:
  "(\<And>v. x = Some v \<Longrightarrow> encodes (a v) (bs v)) \<Longrightarrow>
   encodes (case x of None \<Rightarrow> xret () | Some v \<Rightarrow> a v) (case x of None \<Rightarrow> [] | Some v \<Rightarrow> bs v)"
  by (auto simp: encodes_xret split: option.split)

section \<open>Decoders compose\<close>

lemma decodesI:
  "(\<And>pre post. m \<lparr>buffer = pre @ bs @ post, pos = length pre\<rparr> =
      (Inr y, \<lparr>buffer = pre @ bs @ post, pos = length pre + length bs\<rparr>)) \<Longrightarrow> decodes m bs y"
  by (simp add: decodes_def)

lemma decodesD:
  "decodes m bs y \<Longrightarrow> m \<lparr>buffer = pre @ bs @ post, pos = length pre\<rparr> =
      (Inr y, \<lparr>buffer = pre @ bs @ post, pos = length pre + length bs\<rparr>)"
  by (simp add: decodes_def)

lemma decodes_cong: "decodes m bs y \<Longrightarrow> y = z \<Longrightarrow> decodes m bs z"
  by simp

lemma decodes_xret [xdec]: "decodes (xret y) [] y"
  by (simp add: decodes_def xret_def)

lemma decodes_bind:
  assumes m: "decodes m bs y" and f: "decodes (f y) bs' z"
  shows "decodes (xbind m f) (bs @ bs') z"
proof (rule decodesI)
  fix pre post
  show "xbind m f \<lparr>buffer = pre @ (bs @ bs') @ post, pos = length pre\<rparr> =
      (Inr z, \<lparr>buffer = pre @ (bs @ bs') @ post, pos = length pre + length (bs @ bs')\<rparr>)"
    using decodesD [OF m, of pre "bs' @ post"] decodesD [OF f, of "pre @ bs" post]
    by (simp add: xbind_def add.assoc)
qed

lemma decodes_bind_ret:
  "decodes m bs y \<Longrightarrow> decodes (xbind m (\<lambda>v. xret (g v))) bs (g y)"
  using decodes_bind [of m bs y "\<lambda>v. xret (g v)" "[]"] by (simp add: decodes_xret)

lemma decodes_read:
  "length bs = n \<Longrightarrow> decodes (xbind (ensure_read_space n) (\<lambda>_. read_mem n)) bs bs"
  by (rule decodesI) (simp add: xbind_def ensure_read_space_def read_mem_def xret_def)

lemma decodes_uint32: "decodes (unpack_uint32 old) (be32 v) v"
  by (rule decodesI)
    (simp add: unpack_uint32_def xbind_def ensure_read_space_def read_mem_def xret_def)

lemma decodes_int32: "decodes (unpack_int32 old) (be32 v) v"
  by (rule decodesI)
    (simp add: unpack_int32_def xbind_def ensure_read_space_def read_mem_def xret_def)

lemma decodes_uint64: "decodes (unpack_uint64 old) (be64 v) v"
  by (rule decodesI)
    (simp add: unpack_uint64_def xbind_def ensure_read_space_def read_mem_def xret_def)

lemma decodes_bool: "decodes (unpack_bool old) (enc_bool v) v"
  unfolding unpack_bool_def enc_bool_def
  by (rule decodes_cong [OF decodes_bind_ret [OF decodes_uint32]]) simp

lemma decodes_opaque_tail:
  assumes "length d = n"
  shows "decodes (xbind (ensure_read_space n) (\<lambda>_. xbind (read_mem n) (\<lambda>d.
           xbind (skip (pad4 n)) (\<lambda>_. xret (g d))))) (d @ replicate (pad4 n) 0) (g d)"
  using assms by (intro decodesI)
    (simp add: xbind_def ensure_read_space_def read_mem_def skip_def xret_def add.assoc)

lemma decodes_vector:
  assumes "length d \<le> UINT32_MAX"
  shows "decodes (unpack_vector old) (enc_opaque d) d"
  unfolding unpack_vector_def enc_opaque_def
  by (rule decodes_bind [OF decodes_uint32])
    (use assms decodes_opaque_tail [of d "length d" "\<lambda>d. d"] in \<open>simp add: unat_of_length\<close>)

lemma decodes_string:
  assumes "length s \<le> UINT32_MAX"
  shows "decodes (unpack_string old) (enc_string s) s"
  unfolding unpack_string_def enc_string_def enc_opaque_def
  by (rule decodes_bind [OF decodes_uint32])
    (use assms decodes_opaque_tail [of "map byte_of_char s" "length s" "map char_of_byte"]
     in \<open>simp add: unat_of_length comp_def\<close>)

lemma decodes_fld [xdec]:
  "decodes (des (get ob)) bs v \<Longrightarrow> decodes (fld get upd des ob) bs (upd (\<lambda>_. v) ob)"
  unfolding fld_def by (rule decodes_bind_ret)

lemma decodes_xseq_single [xdec]: "decodes (s ob) bs y \<Longrightarrow> decodes (xseq [s] ob) bs y"
  by simp

lemma decodes_xseq [xdec]:
  "decodes (s ob) bs y \<Longrightarrow> decodes (xseq (t # ss) y) bs' z \<Longrightarrow>
   decodes (xseq (s # t # ss) ob) (bs @ bs') z"
  by (simp add: decodes_bind)

lemma decodes_if [xdec]:
  "c = d \<Longrightarrow> (d \<Longrightarrow> decodes m bs y) \<Longrightarrow>
   decodes (if c then m else xret ob) (if d then bs else []) (if d then y else ob)"
  by (simp add: decodes_xret)

section \<open>Readers compose\<close>

lemma moves_refl [simp]: "moves b b"
  by (simp add: moves_def)

lemma moves_trans: "moves a b \<Longrightarrow> moves b c \<Longrightarrow> moves a c"
  by (auto simp: moves_def)

lemma readerI:
  assumes "\<And>b. moves b (snd (m b))"
    and "\<And>b e. fst (m b) = Inl e \<Longrightarrow> \<exists>n p h. e = InsufficientData n p h"
  shows "reader m"
  using assms by (simp add: reader_def)

lemma reader_xret [xrd]: "reader (xret y)"
  by (simp add: reader_def xret_def)

lemma reader_bind:
  assumes m: "reader m" and f: "\<And>y. reader (f y)"
  shows "reader (xbind m f)"
proof (rule readerI)
  fix b
  from m have "moves b (snd (m b))" by (simp add: reader_def)
  moreover from f have "moves b' (snd (f y b'))" for y b' by (simp add: reader_def)
  ultimately show "moves b (snd (xbind m f b))"
    by (auto simp: xbind_def split: prod.splits sum.splits intro: moves_trans)
next
  fix b e assume e: "fst (xbind m f b) = Inl e"
  show "\<exists>n p h. e = InsufficientData n p h"
  proof (cases "m b")
    case (Pair r b')
    with e have "fst (m b) = Inl e \<or> (\<exists>y. fst (f y b') = Inl e)"
      by (cases r) (auto simp: xbind_def)
    with m f show ?thesis by (auto simp: reader_def)
  qed
qed

text \<open>The same for one buffer, for the loops whose recursion follows the buffer; and the rule by
  which a recursive call after a read may use what the read returned.\<close>

definition reader_at :: "'a xdr \<Rightarrow> XdrBuffer \<Rightarrow> bool" where
  "reader_at m b \<longleftrightarrow> moves b (snd (m b)) \<and>
     (\<forall>e. fst (m b) = Inl e \<longrightarrow> (\<exists>n p h. e = InsufficientData n p h))"

lemma reader_iff: "reader m \<longleftrightarrow> (\<forall>b. reader_at m b)"
  by (simp add: reader_def reader_at_def)

lemma xbind_cong [fundef_cong]:
  "m b = m' b' \<Longrightarrow> (\<And>a b1. m' b' = (Inr a, b1) \<Longrightarrow> f a b1 = f' a b1) \<Longrightarrow> xbind m f b = xbind m' f' b'"
  by (auto simp: xbind_def split: prod.splits sum.splits)

lemma reader_at_bind:
  assumes m: "reader m" and f: "\<And>a b1. m b = (Inr a, b1) \<Longrightarrow> reader_at (f a) b1"
  shows "reader_at (xbind m f) b"
proof (cases "m b")
  case (Pair r b1)
  with m have "moves b b1" and e: "r = Inl e \<Longrightarrow> \<exists>n p h. e = InsufficientData n p h" for e
    by (auto simp: reader_def dest: spec [of _ b])
  with f Pair show ?thesis
    by (cases r) (auto simp: reader_at_def xbind_def intro: moves_trans)
qed

lemma reader_read:
  "reader (xbind (ensure_read_space n) (\<lambda>_. xbind (read_mem n) (\<lambda>d.
     xbind (skip (pad4 n)) (\<lambda>_. xret (g d)))))"
proof -
  have "pad4 n \<le> 3" using pad4_less [of n] by linarith
  then show ?thesis
    by (intro readerI) (auto simp: xbind_def ensure_read_space_def read_mem_def skip_def xret_def
        xthrow_def moves_def split: if_splits)
qed

lemma reader_uint32: "reader (unpack_uint32 old)"
  by (rule readerI)
    (auto simp: unpack_uint32_def xbind_def ensure_read_space_def read_mem_def xret_def xthrow_def
      moves_def split: if_splits)

lemma reader_int32: "reader (unpack_int32 old)"
  using reader_uint32 by (simp add: unpack_int32_def unpack_uint32_def)

lemma reader_uint64: "reader (unpack_uint64 old)"
  by (rule readerI)
    (auto simp: unpack_uint64_def xbind_def ensure_read_space_def read_mem_def xret_def xthrow_def
      moves_def split: if_splits)

lemma reader_bool: "reader (unpack_bool old)"
  unfolding unpack_bool_def by (intro reader_bind reader_uint32 reader_xret)

lemma reader_vector: "reader (unpack_vector old)"
  unfolding unpack_vector_def by (rule reader_bind [OF reader_uint32 reader_read])

lemma reader_string: "reader (unpack_string old)"
  unfolding unpack_string_def by (rule reader_bind [OF reader_uint32 reader_read])

lemma reader_fld [xrd]: "(\<And>v. reader (des v)) \<Longrightarrow> reader (fld get upd des ob)"
  unfolding fld_def by (intro reader_bind reader_xret)

lemma reader_xseq_Nil [xrd]: "reader (xseq [] ob)"
  by (simp add: reader_xret)

lemma reader_xseq [xrd]:
  assumes "\<And>ob. reader (s ob)" and "\<And>ob. reader (xseq ss ob)"
  shows "reader (xseq (s # ss) ob)"
  using assms by (cases ss) (simp_all add: reader_bind)

lemma reader_if [xrd]: "(c \<Longrightarrow> reader m) \<Longrightarrow> reader m' \<Longrightarrow> reader (if c then m else m')"
  by simp

section \<open>The contract of a serialize/deserialize pair\<close>

text \<open>
  \<open>enc x\<close> is the wire format of \<open>x\<close>; \<open>ovr x0 x\<close> is the object \<open>x0\<close> after \<open>x\<close> has been
  read into it. The two differ from \<open>x\<close> itself where \<^verbatim>\<open>deserialize\<close> leaves members of the
  old object in place; \<open>ok\<close> holds the bounds under which \<^verbatim>\<open>serialize\<close> does not throw.
\<close>

lemmas codec_True [xenc, xdec] = TrueI

locale xdr_codec =
  fixes ser :: "'a \<Rightarrow> unit xdr"
    and des :: "'a \<Rightarrow> 'a xdr"
    and enc :: "'a \<Rightarrow> bytes"
    and ovr :: "'a \<Rightarrow> 'a \<Rightarrow> 'a"
    and ok :: "'a \<Rightarrow> bool"
  assumes ser_encodes [xenc]: "ok x \<Longrightarrow> encodes (ser x) (enc x)"
    and des_decodes [xdec]: "ok x \<Longrightarrow> decodes (des x0) (enc x) (ovr x0 x)"
    and des_reader [xrd]: "reader (des x0)"
begin

lemma pack_new: "ok x \<Longrightarrow> ser x XdrBuffer_new = (Inr (), XdrBuffer_of (enc x))"
  using encodesD [OF ser_encodes, of x XdrBuffer_new]
  by (simp add: XdrBuffer_new_def XdrBuffer_of_def)

lemma unpack_of:
  "ok x \<Longrightarrow> des x0 (XdrBuffer_of (enc x @ rest)) =
     (Inr (ovr x0 x), \<lparr>buffer = enc x @ rest, pos = length (enc x)\<rparr>)"
  using decodesD [OF des_decodes, of x x0 "[]" rest] by (simp add: XdrBuffer_of_def)

lemma enc_aligned: "ok x \<Longrightarrow> 4 dvd length (enc x)"
  using ser_encodes [of x] by (simp add: encodes_def)

text \<open>The format is self-delimiting: a byte stream starts with at most one encoding.\<close>

lemma enc_prefix_free:
  assumes "ok x" and "ok y" and eq: "enc x @ rest = enc y @ rest'"
  shows "enc x = enc y \<and> rest = rest' \<and> ovr x0 x = ovr x0 y"
proof -
  from assms(1,2) eq have "length (enc x) = length (enc y)" and "ovr x0 x = ovr x0 y"
    using unpack_of [of x x0 rest] unpack_of [of y x0 rest'] by simp_all
  with eq show ?thesis by simp
qed

end

text \<open>Where the members that \<^verbatim>\<open>deserialize\<close> may leave in place are canonical, reading into a
  fresh object gives back the value written.\<close>

locale xdr_roundtrip = xdr_codec +
  fixes init :: 'a and canon :: "'a \<Rightarrow> bool"
  assumes ovr_init: "canon x \<Longrightarrow> ovr init x = x"
begin

lemma roundtrip:
  assumes "ok x" and "canon x"
  obtains b where "ser x XdrBuffer_new = (Inr (), b)"
    and "des init (XdrBuffer_of (buffer b)) = (Inr x, b\<lparr>pos := length (buffer b)\<rparr>)"
  using that [OF pack_new [OF assms(1)]] unpack_of [OF assms(1), of init "[]"] ovr_init [OF assms(2)]
  by (simp add: XdrBuffer_of_def)

lemma enc_injective:
  "ok x \<Longrightarrow> canon x \<Longrightarrow> ok y \<Longrightarrow> canon y \<Longrightarrow> enc x = enc y \<Longrightarrow> x = y"
  using enc_prefix_free [of x y "[]" "[]" init] by (simp add: ovr_init)

end

text \<open>An optional member of a type that keeps the contract keeps it too.\<close>

definition ok_optional :: "('f \<Rightarrow> bool) \<Rightarrow> 'f option \<Rightarrow> bool" where
  "ok_optional ok x \<longleftrightarrow> (case x of None \<Rightarrow> True | Some v \<Rightarrow> ok v)"

definition ovr_optional :: "('f \<Rightarrow> 'f) \<Rightarrow> 'f option \<Rightarrow> 'f option \<Rightarrow> 'f option" where
  "ovr_optional fresh x0 x = (case x of None \<Rightarrow> x0 | Some v \<Rightarrow> Some (fresh v))"

lemma ok_optional_True [xenc, xdec]: "ok_optional (\<lambda>_. True) x"
  by (simp add: ok_optional_def split: option.split)

lemma ovr_optional_None [simp]: "ovr_optional (\<lambda>v. v) None x = x"
  by (simp add: ovr_optional_def split: option.split)

lemma encodes_optional:
  assumes "\<And>v. x = Some v \<Longrightarrow> encodes (ser v) (enc v)"
  shows "encodes (pack_optional ser x) (enc_optional enc x)"
  unfolding pack_optional_def enc_optional_def
  by (intro xenc encodes_bool assms)

lemma decodes_optional:
  assumes "\<And>v. x = Some v \<Longrightarrow> decodes (des init) (enc v) (fresh v)"
  shows "decodes (unpack_optional init des old) (enc_optional enc x) (ovr_optional fresh old x)"
  unfolding unpack_optional_def enc_optional_def ovr_optional_def
  by (rule decodes_bind [OF decodes_bool])
    (use assms in \<open>auto split: option.splits intro: decodes_bind_ret decodes_xret\<close>)

lemma reader_optional: "reader (des init) \<Longrightarrow> reader (unpack_optional init des old)"
  unfolding unpack_optional_def by (intro reader_bind reader_bool reader_if reader_xret)

sublocale xdr_roundtrip \<subseteq> opt: xdr_codec
  "pack_optional ser" "unpack_optional init des" "enc_optional enc"
  "ovr_optional (ovr init)" "ok_optional ok"
  by unfold_locales
    (auto simp: ok_optional_def des_reader ser_encodes des_decodes
      intro!: encodes_optional decodes_optional reader_optional)

text \<open>The built-in types keep the contract, and leave nothing of the old value.\<close>

interpretation uint32_xdr: xdr_roundtrip
  pack_uint32 unpack_uint32 be32 "\<lambda>_ v. v" "\<lambda>_. True" 0 "\<lambda>_. True"
  by unfold_locales (simp_all add: encodes_uint32 decodes_uint32 reader_uint32)

interpretation int32_xdr: xdr_roundtrip
  pack_int32 unpack_int32 be32 "\<lambda>_ v. v" "\<lambda>_. True" 0 "\<lambda>_. True"
  by unfold_locales (simp_all add: encodes_int32 decodes_int32 reader_int32)

interpretation uint64_xdr: xdr_roundtrip
  pack_uint64 unpack_uint64 be64 "\<lambda>_ v. v" "\<lambda>_. True" 0 "\<lambda>_. True"
  by unfold_locales (simp_all add: encodes_uint64 decodes_uint64 reader_uint64)

interpretation bool_xdr: xdr_roundtrip
  pack_bool unpack_bool enc_bool "\<lambda>_ v. v" "\<lambda>_. True" False "\<lambda>_. True"
  by unfold_locales (simp_all add: encodes_bool decodes_bool reader_bool)

interpretation string_xdr: xdr_roundtrip
  pack_string unpack_string enc_string "\<lambda>_ v. v" "\<lambda>s. length s \<le> UINT32_MAX" "[]" "\<lambda>_. True"
  by unfold_locales (simp_all add: encodes_string decodes_string reader_string)

interpretation vector_xdr: xdr_roundtrip
  pack_vector unpack_vector enc_opaque "\<lambda>_ v. v" "\<lambda>d. length d \<le> UINT32_MAX" "[]" "\<lambda>_. True"
  by unfold_locales (simp_all add: encodes_vector decodes_vector reader_vector)

end
