(* ===== verification/CXdrCodec.thy ===== *)
theory CXdrCodec
  imports CMemory XdrCodec
begin

unbundle bit_operations_syntax

text \<open>
  The XDR buffer of the C port: \<^verbatim>\<open>nfs3_rpc_tests_c/src/xdr_codec.c\<close> and its header. The buffer
  keeps a block with its capacity, the number of bytes written and the read position; growing
  it calls \<^verbatim>\<open>realloc\<close>. A function \<^verbatim>\<open>xdr_unpack_T(buf, T* val)\<close> returns 0 and leaves \<^verbatim>\<open>*val\<close> alone
  where the buffer is exhausted: it is a function to \<open>None\<close> or \<open>Some\<close> the value it
  assigned. The callers of the port drop that return value; whether the target was an
  uninitialised local or a member with an old value makes their difference.
\<close>

record xdr_buf_t =
  data :: "block ptr"
  bsize :: nat
  capacity :: nat
  rpos :: nat

record cst =
  xbuf :: xdr_buf_t
  mem :: heap

type_synonym 'a cx = "(cst, 'a) cm"

definition on_heap :: "(heap, 'a) cm \<Rightarrow> 'a cx" where
  "on_heap m s = (case m (mem s) of
     Done (a, h) \<Rightarrow> Done (a, s\<lparr>mem := h\<rparr>) | Fault e \<Rightarrow> Fault e | Loops \<Rightarrow> Loops)"

section \<open>Byte order\<close>

definition c_swap_bytes32 :: "uint32 \<Rightarrow> uint32" where
  "c_swap_bytes32 val =
     (drop_bit 24 (val AND 0xFF000000)) OR
     (drop_bit 8 (val AND 0x00FF0000)) OR
     (push_bit 8 (val AND 0x0000FF00)) OR
     (push_bit 24 (val AND 0x000000FF))"

definition c_swap_bytes64 :: "uint64 \<Rightarrow> uint64" where
  "c_swap_bytes64 val =
     (drop_bit 56 (val AND 0xFF00000000000000)) OR
     (drop_bit 40 (val AND 0x00FF000000000000)) OR
     (drop_bit 24 (val AND 0x0000FF0000000000)) OR
     (drop_bit 8 (val AND 0x000000FF00000000)) OR
     (push_bit 8 (val AND 0x00000000FF000000)) OR
     (push_bit 24 (val AND 0x0000000000FF0000)) OR
     (push_bit 40 (val AND 0x000000000000FF00)) OR
     (push_bit 56 (val AND 0x00000000000000FF))"

definition NATIVE_BIG_ENDIAN :: bool where
  "NATIVE_BIG_ENDIAN = False"

definition c_host_to_network32 :: "uint32 \<Rightarrow> uint32" where
  "c_host_to_network32 val = (if NATIVE_BIG_ENDIAN then val else c_swap_bytes32 val)"

definition c_network_to_host32 :: "uint32 \<Rightarrow> uint32" where
  "c_network_to_host32 val = c_host_to_network32 val"

definition c_host_to_network64 :: "uint64 \<Rightarrow> uint64" where
  "c_host_to_network64 val = (if NATIVE_BIG_ENDIAN then val else c_swap_bytes64 val)"

definition c_network_to_host64 :: "uint64 \<Rightarrow> uint64" where
  "c_network_to_host64 val = c_host_to_network64 val"

text \<open>The object representation on the host, as in the C++ sources.\<close>

definition c_endian :: Endianness where
  "c_endian = (if NATIVE_BIG_ENDIAN then BIG else LITTLE)"

section \<open>Making and releasing buffers\<close>

definition XDR_MIN_CAPACITY :: nat where
  "XDR_MIN_CAPACITY = 64"

definition xdr_buf_init :: xdr_buf_t where
  "xdr_buf_init = \<lparr>data = NULL, bsize = 0, capacity = 0, rpos = 0\<rparr>"

text \<open>The result of \<^verbatim>\<open>malloc\<close> is not checked: the capacity is recorded even for a null block.\<close>

definition xdr_buf_init_capacity :: "nat \<Rightarrow> (heap, xdr_buf_t) cm" where
  "xdr_buf_init_capacity cap =
     (let cap = (if cap < XDR_MIN_CAPACITY then XDR_MIN_CAPACITY else cap)
      in cbind (malloc cap) (\<lambda>p. cret (xdr_buf_init\<lparr>data := p, capacity := cap\<rparr>)))"

definition xdr_buf_init_copy :: "bytes \<Rightarrow> (heap, xdr_buf_t) cm" where
  "xdr_buf_init_copy bs =
     (let n = length bs
      in cbind (malloc (if n \<noteq> 0 then n else 1)) (\<lambda>p.
         cbind (store_bytes p 0 bs) (\<lambda>p.
         cret (xdr_buf_init\<lparr>data := p, bsize := n, capacity := n\<rparr>))))"

definition xdr_buf_destroy :: "xdr_buf_t \<Rightarrow> (heap, xdr_buf_t) cm" where
  "xdr_buf_destroy buf =
     cbind (free (data buf)) (\<lambda>_.
     cret (buf\<lparr>data := NULL, bsize := 0, capacity := 0, rpos := 0\<rparr>))"

definition xdr_buf_reset_read :: "xdr_buf_t \<Rightarrow> xdr_buf_t" where
  "xdr_buf_reset_read buf = buf\<lparr>rpos := 0\<rparr>"

definition xdr_buf_clear :: "xdr_buf_t \<Rightarrow> xdr_buf_t" where
  "xdr_buf_clear buf = buf\<lparr>bsize := 0, rpos := 0\<rparr>"

definition xdr_buf_data :: "xdr_buf_t \<Rightarrow> block ptr" where
  "xdr_buf_data buf = data buf"

definition xdr_buf_size :: "xdr_buf_t \<Rightarrow> nat" where
  "xdr_buf_size buf = bsize buf"

definition xdr_buf_empty :: "xdr_buf_t \<Rightarrow> bool" where
  "xdr_buf_empty buf \<longleftrightarrow> bsize buf = 0"

section \<open>Writing\<close>

text \<open>\<^verbatim>\<open>while (new_cap < needed) new_cap *= 2\<close>, which does not end from 0.\<close>

partial_function (option) grow_cap :: "nat \<Rightarrow> nat \<Rightarrow> nat option" where
  "grow_cap new_cap needed =
     (if new_cap < needed then grow_cap (new_cap * 2) needed else Some new_cap)"

declare grow_cap.simps [code]

definition ensure_write_capacity :: "nat \<Rightarrow> unit cx" where
  "ensure_write_capacity n s =
     (let buf = xbuf s; needed = bsize buf + n
      in if needed \<le> capacity buf then Done ((), s)
         else case grow_cap (if capacity buf \<noteq> 0 then capacity buf * 2 else XDR_MIN_CAPACITY) needed of
           None \<Rightarrow> Loops
         | Some new_cap \<Rightarrow>
             cbind (on_heap (realloc (data buf) new_cap)) (\<lambda>p.
               if p = NULL then cret ()
               else (\<lambda>s. cret () (s\<lparr>xbuf := (xbuf s)\<lparr>data := p, capacity := new_cap\<rparr>\<rparr>))) s)"

text \<open>\<^verbatim>\<open>memcpy(buf->data + buf->size, src, n); buf->size += n\<close>\<close>

definition append_bytes :: "bytes \<Rightarrow> unit cx" where
  "append_bytes bs s =
     cbind (store_bytes (data (xbuf s)) (bsize (xbuf s)) bs) (\<lambda>p s.
       cret () (s\<lparr>xbuf := (xbuf s)\<lparr>data := p, bsize := bsize (xbuf s) + length bs\<rparr>\<rparr>)) s"

definition c_pad_to_4_bytes :: "unit cx" where
  "c_pad_to_4_bytes s =
     (let pad = pad4 (bsize (xbuf s))
      in if pad \<noteq> 0 then cdo [ensure_write_capacity pad, append_bytes (replicate pad 0)] s
         else cret () s)"

definition xdr_pack_uint32 :: "uint32 \<Rightarrow> unit cx" where
  "xdr_pack_uint32 val = cdo [
     ensure_write_capacity 4,
     append_bytes (mem32 c_endian (c_host_to_network32 val))]"

definition xdr_pack_int32 :: "uint32 \<Rightarrow> unit cx" where
  "xdr_pack_int32 val = xdr_pack_uint32 val"

definition xdr_pack_uint64 :: "uint64 \<Rightarrow> unit cx" where
  "xdr_pack_uint64 val = cdo [
     ensure_write_capacity 8,
     append_bytes (mem64 c_endian (c_host_to_network64 val))]"

text \<open>A C \<^verbatim>\<open>int\<close> used as a truth value.\<close>

type_synonym cint = "32 word"

definition xdr_pack_bool :: "cint \<Rightarrow> unit cx" where
  "xdr_pack_bool val = xdr_pack_uint32 (if val \<noteq> 0 then 1 else 0)"

text \<open>\<^verbatim>\<open>if (len > 0) { ensure_write_capacity(buf, len); memcpy(...); }\<close>\<close>

definition copy_in :: "block ptr \<Rightarrow> nat \<Rightarrow> unit cx" where
  "copy_in p n = cdo [
     ensure_write_capacity n,
     cbind (load_bytes p 0 n) append_bytes]"

definition xdr_pack_cstring :: "block ptr \<Rightarrow> unit cx" where
  "xdr_pack_cstring p =
     cbind (if p \<noteq> NULL then cbind (strlen p) (\<lambda>n. cret (word_of_nat n)) else cret (0 :: uint32)) (\<lambda>n.
     cdo [xdr_pack_uint32 n,
          if n > 0 then copy_in p (unat n) else cret (),
          c_pad_to_4_bytes])"

definition xdr_pack_opaque :: "block ptr \<Rightarrow> uint32 \<Rightarrow> unit cx" where
  "xdr_pack_opaque p n = cdo [
     xdr_pack_uint32 n,
     if n > 0 \<and> p \<noteq> NULL then copy_in p (unat n) else cret (),
     c_pad_to_4_bytes]"

definition xdr_pack_bytes :: "block ptr \<Rightarrow> nat \<Rightarrow> unit cx" where
  "xdr_pack_bytes p n = (if n > 0 \<and> p \<noteq> NULL then copy_in p n else cret ())"

section \<open>Reading\<close>

definition c_ensure_read_space :: "xdr_buf_t \<Rightarrow> nat \<Rightarrow> bool" where
  "c_ensure_read_space buf n \<longleftrightarrow> rpos buf + n \<le> bsize buf"

text \<open>\<^verbatim>\<open>memcpy(dst, buf->data + buf->pos, n)\<close> and \<^verbatim>\<open>buf->pos += n\<close>\<close>

definition peek_bytes :: "nat \<Rightarrow> bytes cx" where
  "peek_bytes n s = load_bytes (data (xbuf s)) (rpos (xbuf s)) n s"

definition advance :: "nat \<Rightarrow> unit cx" where
  "advance n s = Done ((), s\<lparr>xbuf := (xbuf s)\<lparr>rpos := rpos (xbuf s) + n\<rparr>\<rparr>)"

definition xdr_unpack_uint32 :: "uint32 option cx" where
  "xdr_unpack_uint32 s =
     (if \<not> c_ensure_read_space (xbuf s) 4 then cret None s
      else cbind (peek_bytes 4) (\<lambda>nv.
           cbind (advance 4) (\<lambda>_.
           cret (Some (c_network_to_host32 (load32 c_endian nv))))) s)"

definition xdr_unpack_int32 :: "uint32 option cx" where
  "xdr_unpack_int32 = xdr_unpack_uint32"

definition xdr_unpack_uint64 :: "uint64 option cx" where
  "xdr_unpack_uint64 s =
     (if \<not> c_ensure_read_space (xbuf s) 8 then cret None s
      else cbind (peek_bytes 8) (\<lambda>nv.
           cbind (advance 8) (\<lambda>_.
           cret (Some (c_network_to_host64 (load64 c_endian nv))))) s)"

definition xdr_unpack_bool :: "cint option cx" where
  "xdr_unpack_bool = cbind xdr_unpack_uint32 (\<lambda>r.
     cret (case r of None \<Rightarrow> None | Some u \<Rightarrow> Some (if u \<noteq> 0 then 1 else 0)))"

text \<open>\<^verbatim>\<open>malloc(len + 1)\<close> adds in 32 bits.\<close>

definition xdr_unpack_cstring :: "block ptr option cx" where
  "xdr_unpack_cstring = cbind xdr_unpack_uint32 (\<lambda>r. case r of
     None \<Rightarrow> cret None
   | Some n \<Rightarrow> (\<lambda>s.
       if \<not> c_ensure_read_space (xbuf s) (unat n) then cret None s
       else cbind (on_heap (malloc (unat (n + 1)))) (\<lambda>p.
            cbind (peek_bytes (unat n)) (\<lambda>cs.
            cbind (store_bytes p 0 cs) (\<lambda>p.
            cbind (store_bytes p (unat n) [0]) (\<lambda>p.
            cbind (advance (unat n)) (\<lambda>_.
            cbind (advance (pad4 (unat n))) (\<lambda>_.
            cret (Some p))))))) s))"

text \<open>\<^verbatim>\<open>*len\<close> is assigned before the check, \<^verbatim>\<open>*data\<close> after it.\<close>

definition xdr_unpack_opaque :: "(block ptr option \<times> uint32 option) cx" where
  "xdr_unpack_opaque = cbind xdr_unpack_uint32 (\<lambda>r. case r of
     None \<Rightarrow> cret (None, None)
   | Some n \<Rightarrow> (\<lambda>s.
       if \<not> c_ensure_read_space (xbuf s) (unat n) then cret (None, Some n) s
       else cbind (on_heap (malloc (if n \<noteq> 0 then unat n else 1))) (\<lambda>p.
            cbind (peek_bytes (unat n)) (\<lambda>bs.
            cbind (store_bytes p 0 bs) (\<lambda>p.
            cbind (advance (unat n)) (\<lambda>_.
            cbind (advance (pad4 (unat n))) (\<lambda>_.
            cret (Some p, Some n)))))) s))"

text \<open>How the callers use these: into a member, which keeps its value on failure, or into a local
  with no initial value, which they go on to read.\<close>

definition into :: "'a option cx \<Rightarrow> 'a \<Rightarrow> 'a cx" where
  "into m old = cbind m (\<lambda>r. cret (case r of None \<Rightarrow> old | Some v \<Rightarrow> v))"

definition into_local :: "'a option cx \<Rightarrow> 'a cx" where
  "into_local m = cbind m (\<lambda>r. case r of None \<Rightarrow> cfault Uninitialised | Some v \<Rightarrow> cret v)"

end
