(* ===== verification/CXdrRules.thy ===== *)
theory CXdrRules
  imports CXdrCodec
begin

text \<open>
  The rules by which the C encoders and decoders compose. \<open>buf_ok\<close> is the invariant of a
  buffer; \<open>content\<close> the bytes written so far. Both are related to \<^verbatim>\<open>class XdrBuffer\<close> of the
  C++ sources by \<open>abs_buf\<close>. The locale \<open>c_codec\<close> is the contract of a pair
  \<^verbatim>\<open>xdr_pack_T\<close>, \<^verbatim>\<open>xdr_unpack_T\<close>.
\<close>

named_theorems cxenc
named_theorems cxdec
named_theorems cxrd
named_theorems cxdestroy

section \<open>The invariant of a buffer\<close>

definition buf_ok :: "xdr_buf_t \<Rightarrow> bool" where
  "buf_ok b \<longleftrightarrow> (case data b of
     NULL \<Rightarrow> bsize b = 0 \<and> capacity b = 0
   | Owned blk \<Rightarrow> bsize b \<le> capacity b \<and> capacity b \<le> length blk \<and> None \<notin> set (take (bsize b) blk)
   | Dangling \<Rightarrow> False)"

definition content :: "xdr_buf_t \<Rightarrow> bytes" where
  "content b = contents (data b) (bsize b)"

definition abs_buf :: "xdr_buf_t \<Rightarrow> XdrBuffer" where
  "abs_buf b = \<lparr>buffer = content b, pos = rpos b\<rparr>"

definition good :: "cst \<Rightarrow> bool" where
  "good s \<longleftrightarrow> buf_ok (xbuf s) \<and> plenty (mem s)"

text \<open>The live blocks other than the buffer's own.\<close>

definition spare :: "cst \<Rightarrow> int" where
  "spare s = live (mem s) - held (data (xbuf s))"

lemma length_content: "buf_ok b \<Longrightarrow> length (content b) = bsize b"
  by (auto simp: buf_ok_def content_def contents_def split: ptr.splits)

lemma buf_ok_init [simp]: "buf_ok xdr_buf_init"
  by (simp add: buf_ok_def xdr_buf_init_def)

lemma content_init [simp]: "content xdr_buf_init = []"
  by (simp add: content_def contents_def xdr_buf_init_def)

lemma buf_ok_rpos [simp]: "buf_ok (b\<lparr>rpos := p\<rparr>) = buf_ok b"
  by (simp add: buf_ok_def cong: ptr.case_cong)

lemma content_rpos [simp]: "content (b\<lparr>rpos := p\<rparr>) = content b"
  by (simp add: content_def)

lemma on_heap_Done: "m (mem s) = Done (a, h) \<Longrightarrow> on_heap m s = Done (a, s\<lparr>mem := h\<rparr>)"
  by (simp add: on_heap_def)

section \<open>Growing the buffer\<close>

text \<open>From a positive capacity the doubling ends, at the first power of two times it that is
  large enough.\<close>

lemma grow_cap_returns:
  "0 < c \<Longrightarrow> \<exists>k. grow_cap c n = Some (c * 2 ^ k) \<and> n \<le> c * 2 ^ k \<and> (k = 0 \<or> c * 2 ^ (k - 1) < n)"
proof (induction "n - c" arbitrary: c rule: less_induct)
  case less
  show ?case
  proof (cases "c < n")
    case True
    with less.prems have "n - c * 2 < n - c" by simp
    with less.prems less.hyps [of "c * 2"] obtain k
      where "grow_cap (c * 2) n = Some (c * 2 * 2 ^ k)" and "n \<le> c * 2 * 2 ^ k"
        and "k = 0 \<or> c * 2 * 2 ^ (k - 1) < n" by auto
    with True show ?thesis
      by (intro exI [of _ "Suc k"], subst grow_cap.simps) (cases k, auto simp: mult.assoc)
  next
    case False
    then show ?thesis by (intro exI [of _ 0], subst grow_cap.simps) simp
  qed
qed

lemma ensure_write_capacity_ok:
  assumes "good s"
  shows "\<exists>s'. ensure_write_capacity n s = Done ((), s') \<and> good s' \<and>
     content (xbuf s') = content (xbuf s) \<and> bsize (xbuf s') = bsize (xbuf s) \<and>
     rpos (xbuf s') = rpos (xbuf s) \<and> spare s' = spare s \<and> bsize (xbuf s) + n \<le> capacity (xbuf s')"
proof -
  let ?b = "xbuf s"
  let ?c = "if capacity ?b \<noteq> 0 then capacity ?b * 2 else XDR_MIN_CAPACITY"
  have "0 < ?c" by (simp add: XDR_MIN_CAPACITY_def)
  then obtain c where g: "grow_cap ?c (bsize ?b + n) = Some c" and c: "bsize ?b + n \<le> c"
    using grow_cap_returns by blast
  from assms have ok: "buf_ok ?b" and p: "plenty (mem s)" by (simp_all add: good_def)
  show ?thesis
  proof (cases "bsize ?b + n \<le> capacity ?b")
    case True
    with assms show ?thesis by (simp add: ensure_write_capacity_def)
  next
    case False
    show ?thesis
    proof (cases "data ?b")
      case NULL
      with False ok p g c show ?thesis
        by (auto simp: ensure_write_capacity_def on_heap_Done realloc_def malloc_plenty good_def buf_ok_def
            content_def contents_def spare_def cbind_def)
    next
      case (Owned blk)
      with ok have le: "bsize ?b \<le> capacity ?b" "capacity ?b \<le> length blk"
        and i: "None \<notin> set (take (bsize ?b) blk)" by (simp_all add: buf_ok_def)
      let ?blk = "take c blk @ replicate (c - length blk) None"
      from le c have t: "take (bsize ?b) ?blk = take (bsize ?b) blk" by simp
      have "denied (mem s) (requests (mem s)) = False" using p by (simp add: plenty_def)
      with Owned False g have "ensure_write_capacity n s =
          Done ((), s\<lparr>mem := (mem s)\<lparr>requests := Suc (requests (mem s))\<rparr>,
             xbuf := ?b\<lparr>data := Owned ?blk, capacity := c\<rparr>\<rparr>)"
        by (simp add: ensure_write_capacity_def on_heap_def realloc_def cbind_def)
      moreover have "length ?blk \<ge> c" by simp
      ultimately show ?thesis using Owned le i p c t
        by (auto simp: good_def buf_ok_def content_def contents_def spare_def)
    next
      case Dangling
      with ok show ?thesis by (simp add: buf_ok_def)
    qed
  qed
qed

lemma take_poke_end:
  "off + length bs \<le> length blk \<Longrightarrow>
   take (off + length bs) (poke off bs blk) = take off blk @ bs"
  by (simp add: poke_def)

lemma append_bytes_ok:
  assumes "good s" and "bsize (xbuf s) + length bs \<le> capacity (xbuf s)"
  shows "\<exists>s'. append_bytes bs s = Done ((), s') \<and> good s' \<and>
     content (xbuf s') = content (xbuf s) @ bs \<and>
     rpos (xbuf s') = rpos (xbuf s) \<and> spare s' = spare s"
proof (cases "bs = []")
  case True
  with assms show ?thesis
    by (auto simp: append_bytes_def store_bytes_def cbind_def good_def buf_ok_def content_def spare_def)
next
  case False
  with assms obtain blk where d: "data (xbuf s) = Owned blk"
    by (auto simp: good_def buf_ok_def split: ptr.splits)
  with assms have le: "bsize (xbuf s) + length bs \<le> length blk"
    and c: "capacity (xbuf s) \<le> length blk"
    and i: "None \<notin> set (take (bsize (xbuf s)) blk)" and p: "plenty (mem s)"
    by (simp_all add: good_def buf_ok_def)
  let ?blk = "poke (bsize (xbuf s)) (map Some bs) blk"
  have t: "take (bsize (xbuf s) + length bs) ?blk = take (bsize (xbuf s)) blk @ map Some bs"
    using take_poke_end [of "bsize (xbuf s)" "map Some bs" blk] le by simp
  from d le False have "append_bytes bs s =
      Done ((), s\<lparr>xbuf := (xbuf s)\<lparr>data := Owned ?blk, bsize := bsize (xbuf s) + length bs\<rparr>\<rparr>)"
    by (simp add: append_bytes_def store_bytes_def cbind_def)
  with d i p t le c assms(2) show ?thesis
    by (auto simp: good_def buf_ok_def content_def contents_def spare_def comp_def)
qed

section \<open>Encoders compose\<close>

definition appends :: "cst \<Rightarrow> bytes \<Rightarrow> cst \<Rightarrow> bool" where
  "appends s bs s' \<longleftrightarrow> good s' \<and> content (xbuf s') = content (xbuf s) @ bs \<and>
     rpos (xbuf s') = rpos (xbuf s) \<and> spare s' = spare s"

definition cencodes :: "unit cx \<Rightarrow> bytes \<Rightarrow> bool" where
  "cencodes m bs \<longleftrightarrow> 4 dvd length bs \<and>
     (\<forall>s. good s \<and> 4 dvd length (content (xbuf s)) \<longrightarrow> (\<exists>s'. m s = Done ((), s') \<and> appends s bs s'))"

lemma appends_refl: "good s \<Longrightarrow> appends s [] s"
  by (simp add: appends_def)

lemma appends_trans: "appends s bs t \<Longrightarrow> appends t cs u \<Longrightarrow> appends s (bs @ cs) u"
  by (simp add: appends_def)

lemma cencodesI:
  assumes "4 dvd length bs"
    and "\<And>s. good s \<Longrightarrow> 4 dvd length (content (xbuf s)) \<Longrightarrow> \<exists>s'. m s = Done ((), s') \<and> appends s bs s'"
  shows "cencodes m bs"
  using assms by (simp add: cencodes_def)

lemma cencodesE:
  assumes "cencodes m bs" and "good s" and "4 dvd length (content (xbuf s))"
  obtains s' where "m s = Done ((), s')" and "appends s bs s'"
  using assms by (auto simp: cencodes_def)

text \<open>Reserving room and copying, from any state and any length.\<close>

lemma reserve_append:
  assumes "good s" and "length bs = n"
  shows "\<exists>s'. cdo [ensure_write_capacity n, append_bytes bs] s = Done ((), s') \<and> appends s bs s'"
proof -
  from assms(1) obtain t where t: "ensure_write_capacity n s = Done ((), t)" "good t"
    "content (xbuf t) = content (xbuf s)" "bsize (xbuf t) = bsize (xbuf s)"
    "rpos (xbuf t) = rpos (xbuf s)" "spare t = spare s"
    "bsize (xbuf s) + n \<le> capacity (xbuf t)"
    using ensure_write_capacity_ok by blast
  with assms(2) have "bsize (xbuf t) + length bs \<le> capacity (xbuf t)" by simp
  from append_bytes_ok [OF t(2) this] t show ?thesis
    by (auto simp: cbind_def appends_def)
qed

lemma copy_in_ok:
  assumes "good s" and "filled p n"
  shows "\<exists>s'. copy_in p n s = Done ((), s') \<and> appends s (contents p n) s'"
proof -
  from assms(1) obtain t where t: "ensure_write_capacity n s = Done ((), t)" "good t"
    "content (xbuf t) = content (xbuf s)" "bsize (xbuf t) = bsize (xbuf s)"
    "rpos (xbuf t) = rpos (xbuf s)" "spare t = spare s"
    "bsize (xbuf s) + n \<le> capacity (xbuf t)"
    using ensure_write_capacity_ok by blast
  then have "bsize (xbuf t) + length (contents p n) \<le> capacity (xbuf t)"
    using assms(2) by (simp add: length_contents)
  from append_bytes_ok [OF t(2) this] t assms(2) show ?thesis
    by (auto simp: copy_in_def cbind_def appends_def load_holds)
qed

lemma c_swap_bytes_eq [simp]: "c_swap_bytes32 = swap_bytes32" "c_swap_bytes64 = swap_bytes64"
  by (rule ext, simp add: c_swap_bytes32_def swap_bytes32_def,
      rule ext, simp add: c_swap_bytes64_def swap_bytes64_def)

lemma c_wire32 [simp]: "mem32 c_endian (c_host_to_network32 v) = be32 v"
  by (simp add: c_endian_def c_host_to_network32_def NATIVE_BIG_ENDIAN_def mem32_def be32_swap)

lemma c_wire64 [simp]: "mem64 c_endian (c_host_to_network64 v) = be64 v"
  by (simp add: c_endian_def c_host_to_network64_def NATIVE_BIG_ENDIAN_def mem64_def be64_swap)

lemma cencodes_uint32 [cxenc]: "cencodes (xdr_pack_uint32 v) (be32 v)"
  unfolding xdr_pack_uint32_def c_wire32
  by (rule cencodesI) (simp, rule reserve_append, simp_all)

lemma cencodes_int32 [cxenc]: "cencodes (xdr_pack_int32 v) (be32 v)"
  unfolding xdr_pack_int32_def by (rule cencodes_uint32)

lemma cencodes_uint64 [cxenc]: "cencodes (xdr_pack_uint64 v) (be64 v)"
  unfolding xdr_pack_uint64_def c_wire64
  by (rule cencodesI) (simp, rule reserve_append, simp_all)

lemma cencodes_bool [cxenc]: "cencodes (xdr_pack_bool v) (enc_bool (v \<noteq> 0))"
  unfolding xdr_pack_bool_def enc_bool_def by (simp add: cencodes_uint32)

lemma c_pad_to_4_bytes_ok:
  assumes "good s"
  shows "\<exists>s'. c_pad_to_4_bytes s = Done ((), s') \<and>
    appends s (replicate (pad4 (length (content (xbuf s)))) 0) s'"
proof -
  from assms have l: "bsize (xbuf s) = length (content (xbuf s))" by (simp add: good_def length_content)
  show ?thesis
  proof (cases "pad4 (bsize (xbuf s)) = 0")
    case True
    with assms show ?thesis by (simp add: c_pad_to_4_bytes_def appends_refl l)
  next
    case False
    with reserve_append [OF assms, of "replicate (pad4 (bsize (xbuf s))) 0"] show ?thesis
      by (simp add: c_pad_to_4_bytes_def l Let_def)
  qed
qed

text \<open>A length word, then bytes put after it, then zeros up to the boundary.\<close>

lemma cencodes_counted:
  assumes "length d = unat n"
    and "\<And>s. good s \<Longrightarrow> \<exists>s'. m s = Done ((), s') \<and> appends s d s'"
  shows "cencodes (cdo [xdr_pack_uint32 n, m, c_pad_to_4_bytes]) (enc_opaque d)"
proof (rule cencodesI)
  fix s assume s: "good s" "4 dvd length (content (xbuf s))"
  then obtain t where t: "xdr_pack_uint32 n s = Done ((), t)" "appends s (be32 n) t"
    using cencodes_uint32 by (blast elim: cencodesE)
  then have "good t" by (simp add: appends_def)
  with assms(2) obtain u where u: "m t = Done ((), u)" "appends t d u" by blast
  then have "good u" by (simp add: appends_def)
  then obtain v where v: "c_pad_to_4_bytes u = Done ((), v)"
    "appends u (replicate (pad4 (length (content (xbuf u)))) 0) v" using c_pad_to_4_bytes_ok by blast
  have "length (content (xbuf u)) = length (content (xbuf s)) + 4 + length d"
    using t(2) u(2) by (simp add: appends_def)
  then have "pad4 (length (content (xbuf u))) = pad4 (length d)"
    using s(2) by (simp add: pad4_add_dvd)
  with t u v appends_trans [OF appends_trans [OF t(2) u(2)] v(2)] assms(1)
  show "\<exists>s'. cdo [xdr_pack_uint32 n, m, c_pad_to_4_bytes] s = Done ((), s') \<and> appends s (enc_opaque d) s'"
    by (simp add: cbind_def enc_opaque_def)
qed simp

lemma cencodes_cstring [cxenc]:
  assumes "is_cstring p" and "length (chars p) < UINT32_MAX"
  shows "cencodes (xdr_pack_cstring p) (enc_opaque (chars p))"
proof (cases "p = NULL")
  case True
  have "cencodes (cdo [xdr_pack_uint32 0, cret (), c_pad_to_4_bytes]) (enc_opaque [])"
    by (rule cencodes_counted) (auto intro: appends_refl)
  with True show ?thesis by (simp add: xdr_pack_cstring_def chars_def)
next
  case False
  let ?n = "word_of_nat (length (chars p)) :: uint32"
  have n: "unat ?n = length (chars p)" using assms(2) by (simp add: unat_of_length)
  let ?c = "cdo [xdr_pack_uint32 ?n, if ?n > 0 then copy_in p (unat ?n) else cret (), c_pad_to_4_bytes]"
  have "cencodes ?c (enc_opaque (chars p))"
  proof (rule cencodes_counted)
    show "\<exists>s'. (if ?n > 0 then copy_in p (unat ?n) else cret ()) s = Done ((), s') \<and>
        appends s (chars p) s'" if "good s" for s
    proof (cases "?n > 0")
      case True
      from copy_in_ok [OF that holds_cstring [OF assms(1)]] n True show ?thesis
        by (simp add: contents_cstring [OF assms(1)])
    next
      case False
      then have "?n = 0" by (simp add: word_gt_0)
      then have "unat ?n = 0" by simp
      with n have "chars p = []" by simp
      with False that show ?thesis by (simp add: appends_refl)
    qed
  qed (simp add: n)
  moreover have "xdr_pack_cstring p = ?c"
    using False by (rule_tac ext)
      (simp add: xdr_pack_cstring_def cbind_assoc cbind_def strlen_cstring [OF assms(1) False])
  ultimately show ?thesis by simp
qed

lemma cencodes_opaque [cxenc]:
  assumes "filled p (unat n)"
  shows "cencodes (xdr_pack_opaque p n) (enc_opaque (contents p (unat n)))"
  unfolding xdr_pack_opaque_def
proof (rule cencodes_counted)
  show "length (contents p (unat n)) = unat n" by (rule length_contents [OF assms])
  show "\<exists>s'. (if n > 0 \<and> p \<noteq> NULL then copy_in p (unat n) else cret ()) s = Done ((), s') \<and>
      appends s (contents p (unat n)) s'" if "good s" for s
  proof (cases "n > 0 \<and> p \<noteq> NULL")
    case True
    from copy_in_ok [OF that assms] show ?thesis unfolding if_P [OF True] .
  next
    case False
    then have "n = 0 \<or> p = NULL" by (simp add: word_gt_0)
    with assms have "contents p (unat n) = []" by (auto simp: filled_def contents_def split: ptr.splits)
    with that show ?thesis unfolding if_not_P [OF False] by (simp add: appends_refl)
  qed
qed

lemma cencodes_bytes8 [cxenc]:
  assumes "length d = 8"
  shows "cencodes (xdr_pack_bytes (Owned (map Some d)) 8) d"
proof (rule cencodesI)
  show "4 dvd length d" using assms by simp
  fix s assume "good s"
  with copy_in_ok [of s "Owned (map Some d)" 8] assms
  show "\<exists>s'. xdr_pack_bytes (Owned (map Some d)) 8 s = Done ((), s') \<and> appends s d s'"
    by (simp add: xdr_pack_bytes_def filled_def contents_def comp_def)
qed

lemma cencodes_cret [cxenc]: "cencodes (cret ()) []"
  by (rule cencodesI) (simp_all add: appends_refl)

lemma cencodes_single [cxenc]: "cencodes a bs \<Longrightarrow> cencodes (cdo [a]) bs"
  by simp

lemma cencodes_cdo [cxenc]:
  assumes a: "cencodes a bs" and as: "cencodes (cdo (c # cs)) bs'"
  shows "cencodes (cdo (a # c # cs)) (bs @ bs')"
proof (rule cencodesI)
  show "4 dvd length (bs @ bs')" using a as by (simp add: cencodes_def)
  fix s assume s: "good s" "4 dvd length (content (xbuf s))"
  from a s obtain t where t: "a s = Done ((), t)" "appends s bs t" by (rule cencodesE)
  with a s have "good t" "4 dvd length (content (xbuf t))" by (simp_all add: appends_def cencodes_def)
  with as obtain u where "cdo (c # cs) t = Done ((), u)" "appends t bs' u" by (rule cencodesE)
  with t show "\<exists>s'. cdo (a # c # cs) s = Done ((), s') \<and> appends s (bs @ bs') s'"
    by (auto simp: cbind_def intro: appends_trans)
qed

lemma cencodes_if [cxenc]:
  "(c \<Longrightarrow> cencodes a bs) \<Longrightarrow> (\<not> c \<Longrightarrow> cencodes a' bs') \<Longrightarrow>
   cencodes (if c then a else a') (if c then bs else bs')"
  by simp


section \<open>Decoders compose\<close>

text \<open>\<open>cdecodes m bs y d\<close>: where the unread bytes start with \<open>bs\<close>, \<open>m\<close> consumes exactly \<open>bs\<close>,
  returns \<open>y\<close>, and changes the number of live blocks by \<open>d\<close>.\<close>

definition cdecodes :: "'a cx \<Rightarrow> bytes \<Rightarrow> 'a \<Rightarrow> int \<Rightarrow> bool" where
  "cdecodes m bs y d \<longleftrightarrow>
     (\<forall>s pre post. good s \<longrightarrow> content (xbuf s) = pre @ bs @ post \<longrightarrow> rpos (xbuf s) = length pre \<longrightarrow>
        (\<exists>s'. m s = Done (y, s') \<and> good s' \<and> content (xbuf s') = content (xbuf s) \<and>
           rpos (xbuf s') = rpos (xbuf s) + length bs \<and> spare s' = spare s + d))"

lemma cdecodesI:
  assumes "\<And>s pre post. good s \<Longrightarrow> content (xbuf s) = pre @ bs @ post \<Longrightarrow> rpos (xbuf s) = length pre \<Longrightarrow>
     \<exists>s'. m s = Done (y, s') \<and> good s' \<and> content (xbuf s') = content (xbuf s) \<and>
       rpos (xbuf s') = rpos (xbuf s) + length bs \<and> spare s' = spare s + d"
  shows "cdecodes m bs y d"
  using assms by (simp add: cdecodes_def)

lemma cdecodesE:
  assumes "cdecodes m bs y d" and "good s" and "content (xbuf s) = pre @ bs @ post"
    and "rpos (xbuf s) = length pre"
  obtains s' where "m s = Done (y, s')" and "good s'" and "content (xbuf s') = content (xbuf s)"
    and "rpos (xbuf s') = rpos (xbuf s) + length bs" and "spare s' = spare s + d"
  using assms unfolding cdecodes_def by blast

lemma cdecodes_cong: "cdecodes m bs y d \<Longrightarrow> y = y' \<Longrightarrow> d = d' \<Longrightarrow> cdecodes m bs y' d'"
  by simp

lemma cdecodes_cret: "cdecodes (cret y) [] y 0"
  by (rule cdecodesI) simp

lemma cdecodes_bind:
  assumes m: "cdecodes m bs y d" and f: "cdecodes (f y) bs' z d'"
  shows "cdecodes (cbind m f) (bs @ bs') z (d + d')"
proof (rule cdecodesI)
  fix s pre post
  assume s: "good s" "content (xbuf s) = pre @ (bs @ bs') @ post" "rpos (xbuf s) = length pre"
  then obtain t where t: "m s = Done (y, t)" "good t" "content (xbuf t) = content (xbuf s)"
    "rpos (xbuf t) = rpos (xbuf s) + length bs" "spare t = spare s + d"
    using cdecodesE [OF m, of s pre "bs' @ post"] by auto
  with s obtain u where "f y t = Done (z, u)" "good u" "content (xbuf u) = content (xbuf t)"
    "rpos (xbuf u) = rpos (xbuf t) + length bs'" "spare u = spare t + d'"
    using cdecodesE [OF f, of t "pre @ bs" post] by auto
  with t show "\<exists>s'. cbind m f s = Done (z, s') \<and> good s' \<and> content (xbuf s') = content (xbuf s) \<and>
       rpos (xbuf s') = rpos (xbuf s) + length (bs @ bs') \<and> spare s' = spare s + (d + d')"
    by (simp add: cbind_def)
qed

lemma cdecodes_bind_ret: "cdecodes m bs y d \<Longrightarrow> cdecodes (cbind m (\<lambda>v. cret (g v))) bs (g y) d"
  using cdecodes_bind [of m bs y d "\<lambda>v. cret (g v)" "[]" "g y" 0] by (simp add: cdecodes_cret)

text \<open>An effect on the heap alone.\<close>

lemma cdecodes_on_heap:
  assumes "\<And>h. plenty h \<Longrightarrow> \<exists>h'. m h = Done (y, h') \<and> plenty h' \<and> live h' = live h + d"
  shows "cdecodes (on_heap m) [] y d"
proof (rule cdecodesI)
  fix s assume s: "good s"
  with assms [of "mem s"] obtain h where "m (mem s) = Done (y, h)" "plenty h" "live h = live (mem s) + d"
    by (auto simp: good_def)
  with s show "\<exists>s'. on_heap m s = Done (y, s') \<and> good s' \<and> content (xbuf s') = content (xbuf s) \<and>
      rpos (xbuf s') = rpos (xbuf s) + length [] \<and> spare s' = spare s + d"
    by (simp add: on_heap_Done good_def spare_def)
qed

text \<open>Where the buffer has the bytes, a read gets them.\<close>

lemma peek_content:
  assumes "good s" and "rpos (xbuf s) + n \<le> length (content (xbuf s))"
  shows "peek_bytes n s = Done (slice (rpos (xbuf s)) n (content (xbuf s)), s)"
proof (cases "n = 0")
  case True
  then show ?thesis by (simp add: peek_bytes_def load_bytes_def slice_def)
next
  case False
  with assms obtain blk where d: "data (xbuf s) = Owned blk"
    by (auto simp: good_def buf_ok_def content_def contents_def split: ptr.splits)
  let ?p = "rpos (xbuf s)" and ?k = "bsize (xbuf s)"
  from assms have "length (content (xbuf s)) = ?k" by (simp add: good_def length_content)
  with assms(2) have k: "?p + n \<le> ?k" by simp
  from assms(1) d have le: "?k \<le> length blk" and i: "None \<notin> set (take ?k blk)"
    by (auto simp: good_def buf_ok_def)
  have sl: "slice ?p n (take ?k blk) = slice ?p n blk"
    using k by (simp add: slice_def drop_take min_def)
  have "None \<notin> set (slice ?p n (take ?k blk))"
    using i unfolding slice_def by (meson in_set_dropD in_set_takeD)
  with sl have "None \<notin> set (slice ?p n blk)" by simp
  moreover have "slice ?p n (content (xbuf s)) = map the (slice ?p n (take ?k blk))"
    by (simp add: content_def contents_def d slice_def take_map drop_map)
  ultimately show ?thesis using False d le k sl
    by (simp add: peek_bytes_def load_bytes_def)
qed

lemma advance_effect:
  "good s \<Longrightarrow> \<exists>s'. advance n s = Done ((), s') \<and> good s' \<and> content (xbuf s') = content (xbuf s) \<and>
     rpos (xbuf s') = rpos (xbuf s) + n \<and> spare s' = spare s"
  by (simp add: advance_def good_def spare_def)

lemma cdecodes_peek_advance:
  assumes "length bs = n" and "\<And>t. good t \<Longrightarrow> f bs t = Done (y, t)"
  shows "cdecodes (\<lambda>s. if \<not> c_ensure_read_space (xbuf s) n then r s
      else cbind (peek_bytes n) (\<lambda>nv. cbind (advance n) (\<lambda>_. f nv)) s) bs y 0"
proof (rule cdecodesI)
  fix s pre post
  assume s: "good s" "content (xbuf s) = pre @ bs @ post" "rpos (xbuf s) = length pre"
  from s(1) have l: "length (content (xbuf s)) = bsize (xbuf s)" by (simp add: good_def length_content)
  with s assms(1) have "rpos (xbuf s) + n \<le> length (content (xbuf s))" by simp
  from peek_content [OF s(1) this] s assms(1) have "peek_bytes n s = Done (bs, s)" by simp
  moreover from s(1) obtain t where "advance n s = Done ((), t)" "good t"
    "content (xbuf t) = content (xbuf s)" "rpos (xbuf t) = rpos (xbuf s) + n" "spare t = spare s"
    using advance_effect by blast
  moreover have "c_ensure_read_space (xbuf s) n"
    using s l assms(1) by (simp add: c_ensure_read_space_def)
  ultimately show "\<exists>s'. (if \<not> c_ensure_read_space (xbuf s) n then r s
      else cbind (peek_bytes n) (\<lambda>nv. cbind (advance n) (\<lambda>_. f nv)) s) = Done (y, s') \<and> good s' \<and>
      content (xbuf s') = content (xbuf s) \<and> rpos (xbuf s') = rpos (xbuf s) + length bs \<and>
      spare s' = spare s + 0"
    using assms by (simp add: cbind_def)
qed

lemma c_unwire32 [simp]: "c_network_to_host32 (load32 c_endian (be32 v)) = v"
proof -
  have "rev (be32 v) = be32 (swap_bytes32 v)" by (simp add: be32_swap)
  moreover have "swap_bytes32 (swap_bytes32 v) = v"
    by (metis be32_swap of_be_be32 rev_rev_ident)
  ultimately show ?thesis
    by (simp add: c_network_to_host32_def c_host_to_network32_def c_endian_def NATIVE_BIG_ENDIAN_def
        load32_def)
qed

lemma c_unwire64 [simp]: "c_network_to_host64 (load64 c_endian (be64 v)) = v"
proof -
  have "rev (be64 v) = be64 (swap_bytes64 v)" by (simp add: be64_swap)
  moreover have "swap_bytes64 (swap_bytes64 v) = v"
    by (metis be64_swap of_be_be64 rev_rev_ident)
  ultimately show ?thesis
    by (simp add: c_network_to_host64_def c_host_to_network64_def c_endian_def NATIVE_BIG_ENDIAN_def
        load64_def)
qed

lemma cdecodes_uint32: "cdecodes xdr_unpack_uint32 (be32 v) (Some v) 0"
  unfolding xdr_unpack_uint32_def by (rule cdecodes_peek_advance) simp_all

lemma cdecodes_uint64: "cdecodes xdr_unpack_uint64 (be64 v) (Some v) 0"
  unfolding xdr_unpack_uint64_def by (rule cdecodes_peek_advance) simp_all

definition tv :: "cint \<Rightarrow> cint" where
  "tv v = (if v \<noteq> 0 then 1 else 0)"

lemma tv_simps [simp]: "tv 0 = 0" "tv 1 = 1" "tv (tv v) = tv v" "tv v = 0 \<longleftrightarrow> v = 0"
  by (simp_all add: tv_def)

lemma cdecodes_bool: "cdecodes xdr_unpack_bool (enc_bool (v \<noteq> 0)) (Some (tv v)) 0"
  unfolding xdr_unpack_bool_def enc_bool_def
  by (rule cdecodes_cong [OF cdecodes_bind_ret [OF cdecodes_uint32]]) (simp_all add: tv_def)

text \<open>The bytes after a length word: a new block, filled, and the padding skipped.\<close>

lemma counted_tail:
  assumes s: "good s" "rpos (xbuf s) + n \<le> length (content (xbuf s))"
    and f: "f (slice (rpos (xbuf s)) n (content (xbuf s))) (Owned (replicate k None)) = cret (Owned b)"
  shows "\<exists>s'. cbind (on_heap (malloc k)) (\<lambda>p. cbind (peek_bytes n) (\<lambda>cs. cbind (f cs p) (\<lambda>p.
      cbind (advance n) (\<lambda>_. cbind (advance (pad4 n)) (\<lambda>_. cret (g p)))))) s = Done (g (Owned b), s') \<and>
    good s' \<and> content (xbuf s') = content (xbuf s) \<and>
    rpos (xbuf s') = rpos (xbuf s) + (n + pad4 n) \<and> spare s' = spare s + 1"
proof -
  let ?t = "s\<lparr>mem := (mem s)\<lparr>live := live (mem s) + 1, requests := Suc (requests (mem s))\<rparr>\<rparr>"
  from s(1) have m: "on_heap (malloc k) s = Done (Owned (replicate k None), ?t)"
    by (simp add: on_heap_Done malloc_plenty good_def)
  from s(1) have t: "good ?t" by (simp add: good_def)
  have "peek_bytes n ?t = Done (slice (rpos (xbuf s)) n (content (xbuf s)), ?t)"
    using peek_content [OF t, of n] s by simp
  with m f s(1) show ?thesis
    by (simp add: cbind_def advance_def good_def spare_def)
qed

lemma store_fresh:
  "length d \<le> k \<Longrightarrow> store_bytes (Owned (replicate k None)) 0 d =
     cret (Owned (map Some d @ replicate (k - length d) None))"
  by (rule ext) (auto simp: store_bytes_def poke_def)

lemma cdecodes_opaque:
  assumes n: "length d = unat n"
  shows "cdecodes xdr_unpack_opaque (enc_opaque d)
    (Some (Owned (if n \<noteq> 0 then map Some d else [None])), Some n) 1"
proof -
  have n': "word_of_nat (length d) = n" using n by simp
  define k where "k = (if n \<noteq> 0 then unat n else 1)"
  define b where "b = (if n \<noteq> 0 then map Some d else [None])"
  have st: "store_bytes (Owned (replicate k None)) 0 d = cret (Owned b)"
    using n by (subst store_fresh) (auto simp: k_def b_def unat_eq_0)
  show ?thesis
    unfolding xdr_unpack_opaque_def enc_opaque_def n' b_def [symmetric]
  proof (rule cdecodes_cong [OF cdecodes_bind [OF cdecodes_uint32]])
    show "cdecodes (case Some n of None \<Rightarrow> cret (None, None) | Some n \<Rightarrow> (\<lambda>s.
       if \<not> c_ensure_read_space (xbuf s) (unat n) then cret (None, Some n) s
       else cbind (on_heap (malloc (if n \<noteq> 0 then unat n else 1))) (\<lambda>p.
            cbind (peek_bytes (unat n)) (\<lambda>bs. cbind (store_bytes p 0 bs) (\<lambda>p.
            cbind (advance (unat n)) (\<lambda>_. cbind (advance (pad4 (unat n))) (\<lambda>_.
            cret (Some p, Some n)))))) s))
      (d @ replicate (pad4 (length d)) 0) (Some (Owned b), Some n) 1"
      unfolding option.case k_def [symmetric]
    proof (rule cdecodesI, goal_cases)
      case (1 s pre post)
      then have "c_ensure_read_space (xbuf s) (unat n)"
        using length_content [of "xbuf s"] n by (simp add: c_ensure_read_space_def good_def)
      moreover from 1 n have "slice (rpos (xbuf s)) (unat n) (content (xbuf s)) = d" by simp
      moreover from 1 n have "rpos (xbuf s) + unat n \<le> length (content (xbuf s))" by simp
      ultimately show ?case
        using counted_tail [OF 1(1), where f = "\<lambda>bs p. store_bytes p 0 bs" and n = "unat n"
          and g = "\<lambda>p. (Some p, Some n)" and k = k and b = b] st n by simp
    qed
  qed simp_all
qed

text \<open>The block that holds \<open>n\<close> bytes read: never empty.\<close>

definition block_of :: "bytes \<Rightarrow> uint32 \<Rightarrow> block ptr" where
  "block_of d n = Owned (if n \<noteq> 0 then map Some d else [None])"

lemmas cdecodes_opaque' = cdecodes_opaque [folded block_of_def]

lemma cdecodes_opaque_then:
  assumes "length d = unat n" and "f (Some (block_of d n), Some n) = cret y"
  shows "cdecodes (cbind xdr_unpack_opaque f) (enc_opaque d) y 1"
  using cdecodes_bind [OF cdecodes_opaque' [OF assms(1)], of f "[]" y 0] assms(2)
  by (simp add: cdecodes_cret del: cret_apply)

lemma contents_block_of: "length d = unat n \<Longrightarrow> contents (block_of d n) (unat n) = d"
  by (auto simp: block_of_def contents_def comp_def)

lemma filled_block_of: "length d = unat n \<Longrightarrow> filled (block_of d n) (unat n)"
  by (auto simp: block_of_def filled_def)

lemma block_of_owned [simp]: "releasable (block_of d n)" "held (block_of d n) = 1"
  by (simp_all add: block_of_def)

lemma unat_plus1: "unat (n :: uint32) < UINT32_MAX \<Longrightarrow> unat (n + 1) = unat n + 1"
  by (simp add: unat_word_ariths)

lemma cdecodes_cstring:
  assumes l: "length d < UINT32_MAX"
  shows "cdecodes xdr_unpack_cstring (enc_opaque d) (Some (Owned (cstring d))) 1"
proof -
  let ?n = "word_of_nat (length d) :: uint32"
  have n: "length d = unat ?n" using l by (simp add: unat_of_length)
  have n1: "unat (?n + 1) = length d + 1" using l n by (simp add: unat_plus1)
  have st: "cbind (store_bytes (Owned (replicate (length d + 1) None)) 0 d)
      (\<lambda>p. store_bytes p (length d) [0]) = cret (Owned (cstring d))"
    by (subst store_fresh) (simp_all add: store_bytes_def poke_def cstring_def fun_eq_iff)
  show ?thesis
    unfolding xdr_unpack_cstring_def enc_opaque_def
  proof (rule cdecodes_cong [OF cdecodes_bind [OF cdecodes_uint32]])
    show "cdecodes (case Some ?n of None \<Rightarrow> cret None | Some n \<Rightarrow> (\<lambda>s.
       if \<not> c_ensure_read_space (xbuf s) (unat n) then cret None s
       else cbind (on_heap (malloc (unat (n + 1)))) (\<lambda>p.
            cbind (peek_bytes (unat n)) (\<lambda>cs. cbind (store_bytes p 0 cs) (\<lambda>p.
            cbind (store_bytes p (unat n) [0]) (\<lambda>p.
            cbind (advance (unat n)) (\<lambda>_. cbind (advance (pad4 (unat n))) (\<lambda>_.
            cret (Some p))))))) s))
      (d @ replicate (pad4 (length d)) 0) (Some (Owned (cstring d))) 1"
    proof (rule cdecodesI, goal_cases)
      case (1 s pre post)
      then have "c_ensure_read_space (xbuf s) (unat ?n)"
        using length_content [of "xbuf s"] n by (simp add: c_ensure_read_space_def good_def)
      moreover from 1 have "slice (rpos (xbuf s)) (length d) (content (xbuf s)) = d" by simp
      moreover from 1 have "rpos (xbuf s) + length d \<le> length (content (xbuf s))" by simp
      ultimately show ?case
        using counted_tail [OF 1(1), where k = "length d + 1" and n = "length d"
          and f = "\<lambda>cs p. cbind (store_bytes p 0 cs) (\<lambda>p. store_bytes p (length d) [0])"
          and g = Some] st n1
        by (simp add: n [symmetric] cbind_assoc)
    qed
  qed simp_all
qed

text \<open>Into members and locals.\<close>

lemma cdecodes_into: "cdecodes m bs (Some v) d \<Longrightarrow> cdecodes (into m old) bs v d"
  using cdecodes_bind_ret [of m bs "Some v" d "case_option old (\<lambda>v. v)"] by (simp add: into_def)

lemma cdecodes_into_local: "cdecodes m bs (Some v) d \<Longrightarrow> cdecodes (into_local m) bs v d"
  unfolding into_local_def
  using cdecodes_bind [of m bs "Some v" d _ "[]" v 0] by (simp add: cdecodes_cret)

lemmas cdecodes_prims [cxdec] =
  cdecodes_into [OF cdecodes_uint32] cdecodes_into [OF cdecodes_uint64] cdecodes_into [OF cdecodes_bool]
  cdecodes_into_local [OF cdecodes_uint32] cdecodes_into_local [OF cdecodes_bool]
  cdecodes_into [OF cdecodes_cstring]

lemma cdecodes_cfld [cxdec]:
  "cdecodes (f (get ob)) bs v d \<Longrightarrow> cdecodes (cfld get upd f ob) bs (upd (\<lambda>_. v) ob) d"
  unfolding cfld_def by (rule cdecodes_bind_ret)

lemma cdecodes_single [cxdec]: "cdecodes (t ob) bs y d \<Longrightarrow> cdecodes (cseq [t] ob) bs y d"
  by simp

lemma cdecodes_cseq [cxdec]:
  "cdecodes (t ob) bs y d \<Longrightarrow> cdecodes (cseq (u # us) y) bs' z d' \<Longrightarrow>
   cdecodes (cseq (t # u # us) ob) (bs @ bs') z (d + d')"
  by (simp add: cdecodes_bind)


lemma cdecodes_when [cxdec]:
  "c = c' \<Longrightarrow> (c' \<Longrightarrow> cdecodes m bs y d) \<Longrightarrow>
   cdecodes (if c then m else cret ob) (if c' then bs else []) (if c' then y else ob) (if c' then d else 0)"
  by (simp add: cdecodes_cret)

lemma cdecodes_choose:
  "c = c' \<Longrightarrow> (c' \<Longrightarrow> cdecodes m bs y d) \<Longrightarrow> (\<not> c' \<Longrightarrow> cdecodes m' bs' y' d') \<Longrightarrow>
   cdecodes (if c then m else m') (if c' then bs else bs') (if c' then y else y') (if c' then d else d')"
  by simp

lemma cdecodes_assign:
  "cdecodes (cseq (u # us) (g ob)) bs z d \<Longrightarrow> cdecodes (cseq ((\<lambda>ob. cret (g ob)) # u # us) ob) bs z d"
  by (simp del: cret_apply)

section \<open>Readers compose\<close>

text \<open>\<open>creader m\<close>: on every buffer of less than four gigabytes, whatever its bytes, \<open>m\<close> ends, never
  accesses memory it should not, leaves the data alone, only moves forward, and never past the end by
  more than the padding of one item. The one fault left open is the use of a local that the
  exhausted buffer did not fill.\<close>

definition cmoves :: "cst \<Rightarrow> cst \<Rightarrow> bool" where
  "cmoves s s' \<longleftrightarrow> good s' \<and> content (xbuf s') = content (xbuf s) \<and> rpos (xbuf s) \<le> rpos (xbuf s') \<and>
     (rpos (xbuf s) \<le> length (content (xbuf s)) + 3 \<longrightarrow> rpos (xbuf s') \<le> length (content (xbuf s)) + 3)"

definition readable :: "cst \<Rightarrow> bool" where
  "readable s \<longleftrightarrow> good s \<and> length (content (xbuf s)) \<le> UINT32_MAX"

definition creader_at :: "'a cx \<Rightarrow> cst \<Rightarrow> bool" where
  "creader_at m s \<longleftrightarrow> (case m s of
     Done (y, s') \<Rightarrow> cmoves s s' | Fault e \<Rightarrow> e = Uninitialised | Loops \<Rightarrow> False)"

definition creader :: "'a cx \<Rightarrow> bool" where
  "creader m \<longleftrightarrow> (\<forall>s. readable s \<longrightarrow> creader_at m s)"

lemma cmoves_refl: "good s \<Longrightarrow> cmoves s s"
  by (simp add: cmoves_def)

lemma cmoves_trans: "cmoves s t \<Longrightarrow> cmoves t u \<Longrightarrow> cmoves s u"
  by (auto simp: cmoves_def)

lemma cmoves_readable: "cmoves s t \<Longrightarrow> readable s \<Longrightarrow> readable t"
  by (simp add: cmoves_def readable_def)

lemma creaderI: "(\<And>s. readable s \<Longrightarrow> creader_at m s) \<Longrightarrow> creader m"
  by (simp add: creader_def)

lemma creader_at_cret [cxrd]: "good s \<Longrightarrow> creader_at (cret y) s"
  by (simp add: creader_at_def cmoves_refl)

lemma creader_cret [cxrd]: "creader (cret y)"
  by (rule creaderI) (simp add: creader_at_cret readable_def)

lemma creader_uninit: "creader (cfault Uninitialised)"
  by (rule creaderI) (simp add: creader_at_def)

lemma creader_at_bind:
  assumes m: "creader_at m s"
    and f: "\<And>y t. m s = Done (y, t) \<Longrightarrow> cmoves s t \<Longrightarrow> creader_at (f y) t"
  shows "creader_at (cbind m f) s"
proof (cases "m s")
  case (Done r)
  obtain y t where r: "r = (y, t)" by (cases r)
  with Done m have "cmoves s t" by (simp add: creader_at_def)
  with Done r f [of y t] show ?thesis
    by (auto simp: creader_at_def cbind_def split: crun.splits prod.splits intro: cmoves_trans)
qed (use m in \<open>simp_all add: creader_at_def cbind_def\<close>)

lemma creader_bind:
  assumes "creader m" and "\<And>y. creader (f y)"
  shows "creader (cbind m f)"
  using assms by (auto simp: creader_def intro!: creader_at_bind dest: cmoves_readable)

lemma creader_on_heap:
  assumes "\<And>h. plenty h \<Longrightarrow> \<exists>y h'. m h = Done (y, h') \<and> plenty h'"
  shows "creader (on_heap m)"
proof (rule creaderI)
  fix s assume "readable s"
  then have g: "good s" by (simp add: readable_def)
  with assms [of "mem s"] obtain y h where "m (mem s) = Done (y, h)" "plenty h"
    by (auto simp: good_def)
  with g show "creader_at (on_heap m) s"
    by (simp add: creader_at_def on_heap_Done cmoves_def good_def)
qed

lemma fixed_read_cases:
  assumes "good s" and m: "m = (\<lambda>s. if \<not> c_ensure_read_space (xbuf s) n then cret None s
      else cbind (peek_bytes n) (\<lambda>nv. cbind (advance n) (\<lambda>_. cret (Some (g nv)))) s)"
  shows "m s = Done (None, s) \<or>
    (rpos (xbuf s) + n \<le> length (content (xbuf s)) \<and>
     m s = Done (Some (g (slice (rpos (xbuf s)) n (content (xbuf s)))),
       s\<lparr>xbuf := (xbuf s)\<lparr>rpos := rpos (xbuf s) + n\<rparr>\<rparr>))"
proof (cases "c_ensure_read_space (xbuf s) n")
  case True
  with assms(1) have "rpos (xbuf s) + n \<le> length (content (xbuf s))"
    by (simp add: c_ensure_read_space_def good_def length_content)
  with True assms(1) show ?thesis
    by (simp add: m peek_content cbind_def advance_def)
qed (simp add: m)

lemmas uint32_cases = fixed_read_cases [OF _ xdr_unpack_uint32_def [THEN ext]]
lemmas uint64_cases = fixed_read_cases [OF _ xdr_unpack_uint64_def [THEN ext]]

lemma cmoves_step:
  "good s \<Longrightarrow> rpos (xbuf s) + n \<le> length (content (xbuf s)) \<Longrightarrow>
   cmoves s (s\<lparr>xbuf := (xbuf s)\<lparr>rpos := rpos (xbuf s) + n\<rparr>\<rparr>)"
  by (simp add: cmoves_def good_def)

lemma creader_uint32 [cxrd]: "creader xdr_unpack_uint32"
proof (rule creaderI)
  fix s assume "readable s"
  then have "good s" by (simp add: readable_def)
  from uint32_cases [OF this] this show "creader_at xdr_unpack_uint32 s"
    by (auto simp: creader_at_def cmoves_refl cmoves_step)
qed

lemma creader_uint64 [cxrd]: "creader xdr_unpack_uint64"
proof (rule creaderI)
  fix s assume "readable s"
  then have "good s" by (simp add: readable_def)
  from uint64_cases [OF this] this show "creader_at xdr_unpack_uint64 s"
    by (auto simp: creader_at_def cmoves_refl cmoves_step)
qed

lemma creader_fixed:
  "creader (\<lambda>s. if \<not> c_ensure_read_space (xbuf s) n then cret y s
     else cbind (peek_bytes n) (\<lambda>bs. cbind (advance n) (\<lambda>_. cret (g bs))) s)"
proof (rule creaderI)
  fix s assume "readable s"
  then have g: "good s" by (simp add: readable_def)
  show "creader_at (\<lambda>s. if \<not> c_ensure_read_space (xbuf s) n then cret y s
     else cbind (peek_bytes n) (\<lambda>bs. cbind (advance n) (\<lambda>_. cret (g bs))) s) s"
  proof (cases "c_ensure_read_space (xbuf s) n")
    case True
    with g have le: "rpos (xbuf s) + n \<le> length (content (xbuf s))"
      by (simp add: c_ensure_read_space_def good_def length_content)
    with True g show ?thesis
      by (simp add: creader_at_def peek_content cbind_def advance_def cmoves_step)
  qed (simp add: creader_at_def cmoves_refl g)
qed

lemma creader_bool [cxrd]: "creader xdr_unpack_bool"
  unfolding xdr_unpack_bool_def by (intro creader_bind creader_uint32 creader_cret)

text \<open>After a length word that was read, the items it counts are shorter than four gigabytes.\<close>

lemma creader_counted:
  assumes "\<And>n s. readable s \<Longrightarrow> 4 \<le> rpos (xbuf s) \<Longrightarrow> creader_at (f n) s"
  shows "creader (cbind xdr_unpack_uint32 (\<lambda>r. case r of None \<Rightarrow> cret y | Some n \<Rightarrow> f n))"
proof (rule creaderI)
  fix s assume s: "readable s"
  then have g: "good s" by (simp add: readable_def)
  show "creader_at (cbind xdr_unpack_uint32 (\<lambda>r. case r of None \<Rightarrow> cret y | Some n \<Rightarrow> f n)) s"
  proof (rule creader_at_bind)
    show "creader_at xdr_unpack_uint32 s" using creader_uint32 s by (simp add: creader_def)
    fix r t assume r: "xdr_unpack_uint32 s = Done (r, t)" and st: "cmoves s t"
    then have t: "readable t" using s cmoves_readable by blast
    show "creader_at (case r of None \<Rightarrow> cret y | Some n \<Rightarrow> f n) t"
    proof (cases r)
      case None
      with t show ?thesis by (simp add: creader_at_cret readable_def)
    next
      case (Some n)
      with r uint32_cases [OF g] have "4 \<le> rpos (xbuf t)" by auto
      with Some t assms show ?thesis by simp
    qed
  qed
qed

lemma pad4_le: "pad4 n \<le> 3"
  using pad4_less [of n] by linarith

lemma creader_opaque [cxrd]: "creader xdr_unpack_opaque"
  unfolding xdr_unpack_opaque_def
proof (rule creader_counted)
  fix n :: uint32 and s assume s: "readable s"
  then have g: "good s" by (simp add: readable_def)
  let ?k = "if n \<noteq> 0 then unat n else 1" and ?d = "slice (rpos (xbuf s)) (unat n) (content (xbuf s))"
  let ?m = "\<lambda>s. if \<not> c_ensure_read_space (xbuf s) (unat n) then cret (None, Some n) s
       else cbind (on_heap (malloc ?k)) (\<lambda>p. cbind (peek_bytes (unat n)) (\<lambda>bs.
            cbind (store_bytes p 0 bs) (\<lambda>p. cbind (advance (unat n)) (\<lambda>_.
            cbind (advance (pad4 (unat n))) (\<lambda>_. cret (Some p, Some n)))))) s"
  show "creader_at ?m s"
  proof (cases "c_ensure_read_space (xbuf s) (unat n)")
    case False
    with g show ?thesis by (simp add: creader_at_def cmoves_refl)
  next
    case True
    with g have le: "rpos (xbuf s) + unat n \<le> length (content (xbuf s))"
      by (simp add: c_ensure_read_space_def good_def length_content)
    have "store_bytes (Owned (replicate ?k None)) 0 ?d =
        cret (Owned (map Some ?d @ replicate (?k - length ?d) None))"
      using le by (intro store_fresh) (simp add: length_slice)
    from counted_tail [OF g le, where f = "\<lambda>bs p. store_bytes p 0 bs" and g = "\<lambda>p. (Some p, Some n)", OF this]
    obtain t where "?m s = Done ((Some (Owned (map Some ?d @ replicate (?k - length ?d) None)), Some n), t)"
      "good t" "content (xbuf t) = content (xbuf s)"
      "rpos (xbuf t) = rpos (xbuf s) + (unat n + pad4 (unat n))" using True by auto
    then show ?thesis
      using le pad4_le [of "unat n"] by (simp add: creader_at_def cmoves_def)
  qed
qed

lemma creader_cstring [cxrd]: "creader xdr_unpack_cstring"
  unfolding xdr_unpack_cstring_def
proof (rule creader_counted)
  fix n :: uint32 and s assume s: "readable s" and pos4: "4 \<le> rpos (xbuf s)"
  then have g: "good s" by (simp add: readable_def)
  let ?d = "slice (rpos (xbuf s)) (unat n) (content (xbuf s))"
  let ?m = "\<lambda>s. if \<not> c_ensure_read_space (xbuf s) (unat n) then cret None s
       else cbind (on_heap (malloc (unat (n + 1)))) (\<lambda>p. cbind (peek_bytes (unat n)) (\<lambda>cs.
            cbind (store_bytes p 0 cs) (\<lambda>p. cbind (store_bytes p (unat n) [0]) (\<lambda>p.
            cbind (advance (unat n)) (\<lambda>_. cbind (advance (pad4 (unat n))) (\<lambda>_. cret (Some p))))))) s"
  show "creader_at ?m s"
  proof (cases "c_ensure_read_space (xbuf s) (unat n)")
    case False
    with g show ?thesis by (simp add: creader_at_def cmoves_refl)
  next
    case True
    with g have le: "rpos (xbuf s) + unat n \<le> length (content (xbuf s))"
      by (simp add: c_ensure_read_space_def good_def length_content)
    with s pos4 have n1: "unat (n + 1) = unat n + 1"
      by (intro unat_plus1) (simp add: readable_def)
    have l: "length ?d = unat n" using le by (simp add: length_slice)
    have "cbind (store_bytes (Owned (replicate (unat n + 1) None)) 0 ?d)
        (\<lambda>p. store_bytes p (unat n) [0]) = cret (Owned (cstring ?d))"
      using l by (subst store_fresh) (simp_all add: store_bytes_def poke_def cstring_def fun_eq_iff)
    from counted_tail [OF g le, where g = Some and
        f = "\<lambda>cs p. cbind (store_bytes p 0 cs) (\<lambda>p. store_bytes p (unat n) [0])", OF this]
    obtain t where "?m s = Done (Some (Owned (cstring ?d)), t)"
      "good t" "content (xbuf t) = content (xbuf s)"
      "rpos (xbuf t) = rpos (xbuf s) + (unat n + pad4 (unat n))" using True n1 by (auto simp: cbind_assoc)
    then show ?thesis
      using le pad4_le [of "unat n"] by (simp add: creader_at_def cmoves_def)
  qed
qed

lemma creader_into [cxrd]: "creader m \<Longrightarrow> creader (into m old)"
  unfolding into_def by (intro creader_bind creader_cret)

lemma creader_into_local [cxrd]: "creader m \<Longrightarrow> creader (into_local m)"
  unfolding into_local_def
  by (intro creader_bind) (auto split: option.split intro: creader_cret creader_uninit)

lemma creader_cfld [cxrd]: "(\<And>v. creader (f v)) \<Longrightarrow> creader (cfld get upd f ob)"
  unfolding cfld_def by (intro creader_bind creader_cret)

lemma creader_cseq_Nil [cxrd]: "creader (cseq [] ob)"
  by (simp add: creader_cret)

lemma creader_cseq [cxrd]:
  assumes "\<And>ob. creader (t ob)" and "\<And>ob. creader (cseq ts ob)"
  shows "creader (cseq (t # ts) ob)"
  using assms by (cases ts) (simp_all add: creader_bind)

lemma creader_if [cxrd]: "(c \<Longrightarrow> creader m) \<Longrightarrow> (\<not> c \<Longrightarrow> creader m') \<Longrightarrow> creader (if c then m else m')"
  by simp

text \<open>Where a statement needs something of the object it assigns to, the rules that follow one
  member at a time.\<close>

named_theorems cxrd_at

lemma creader_cfld_at [cxrd_at]: "creader (f (get ob)) \<Longrightarrow> creader (cfld get upd f ob)"
  unfolding cfld_def by (intro creader_bind creader_cret)

lemma creader_single_at [cxrd_at]: "creader (t ob) \<Longrightarrow> creader (cseq [t] ob)"
  by simp

lemma creader_cseq_at [cxrd_at]:
  assumes "creader (f (get ob))" and "\<And>v. creader (cseq (t # ts) (upd (\<lambda>_. v) ob))"
  shows "creader (cseq (cfld get upd f # t # ts) ob)"
  using assms by (simp add: cfld_def cbind_assoc creader_bind)

lemmas [cxrd_at] = creader_if

section \<open>The contract of a pack/unpack pair\<close>

text \<open>
  \<open>enc x\<close> is the wire format of \<open>x\<close>; \<open>ok x\<close> says that the pointers of \<open>x\<close> are readable as
  far as its lengths say; \<open>dst x0\<close> that the pointers the decoder releases may be released;
  \<open>ovr x0 x\<close> is \<open>x0\<close> after the encoding of \<open>x\<close> was read into it; \<open>blocks\<close> counts the blocks an
  object owns, so that decoding neither leaks nor loses one. The object read has the wire
  format of the object written and can be read into again.
\<close>

locale c_pair =
  fixes pack :: "'a \<Rightarrow> unit cx"
    and unpack :: "'a \<Rightarrow> 'a cx"
    and enc :: "'a \<Rightarrow> bytes"
    and ovr :: "'a \<Rightarrow> 'a \<Rightarrow> 'a"
    and ok :: "'a \<Rightarrow> bool"
    and dst :: "'a \<Rightarrow> bool"
    and blocks :: "'a \<Rightarrow> int"
  assumes pack_encodes [cxenc]: "ok x \<Longrightarrow> cencodes (pack x) (enc x)"
    and unpack_decodes [cxdec]:
      "ok x \<Longrightarrow> dst x0 \<Longrightarrow> cdecodes (unpack x0) (enc x) (ovr x0 x) (blocks (ovr x0 x) - blocks x0)"
    and unpack_reader [cxrd]: "dst x0 \<Longrightarrow> creader (unpack x0)"
begin

text \<open>Into a new buffer; and from a buffer made by copying the message.\<close>

lemma pack_fresh:
  assumes "ok x" and "plenty h"
  obtains s where "pack x \<lparr>xbuf = xdr_buf_init, mem = h\<rparr> = Done ((), s)"
    and "good s" and "content (xbuf s) = enc x" and "rpos (xbuf s) = 0" and "spare s = live h"
proof -
  let ?s = "\<lparr>xbuf = xdr_buf_init, mem = h\<rparr>"
  have "good ?s" "4 dvd length (content (xbuf ?s))" using assms(2) by (simp_all add: good_def)
  with pack_encodes [OF assms(1)] obtain s where "pack x ?s = Done ((), s)" "appends ?s (enc x) s"
    by (rule cencodesE)
  with that [of s] show thesis by (simp add: appends_def spare_def xdr_buf_init_def content_def contents_def)
qed

lemma pack_unpack:
  assumes "ok x" and "dst x0" and "plenty h"
  shows "\<exists>s s'. pack x \<lparr>xbuf = xdr_buf_init, mem = h\<rparr> = Done ((), s) \<and>
     content (xbuf s) = enc x \<and> spare s = live h \<and>
     unpack x0 s = Done (ovr x0 x, s') \<and> rpos (xbuf s') = bsize (xbuf s') \<and>
     spare s' = live h + blocks (ovr x0 x) - blocks x0"
proof -
  from assms obtain s where s: "pack x \<lparr>xbuf = xdr_buf_init, mem = h\<rparr> = Done ((), s)"
    "good s" "content (xbuf s) = enc x" "rpos (xbuf s) = 0" "spare s = live h" by (elim pack_fresh)
  from unpack_decodes [OF assms(1,2)] s obtain s' where "unpack x0 s = Done (ovr x0 x, s')" "good s'"
    "content (xbuf s') = content (xbuf s)" "rpos (xbuf s') = rpos (xbuf s) + length (enc x)"
    "spare s' = spare s + (blocks (ovr x0 x) - blocks x0)"
    using cdecodesE [of _ _ _ _ s "[]" "[]"] by (metis append_Nil append_Nil2 list.size(3))
  with s show ?thesis by (auto simp: good_def dest: length_content)
qed

end

locale c_codec = c_pair +
  assumes ovr_ok: "ok x \<Longrightarrow> ok (ovr x0 x)"
    and ovr_enc: "ok x \<Longrightarrow> enc (ovr x0 x) = enc x"
    and ovr_dst: "ok x \<Longrightarrow> dst x0 \<Longrightarrow> dst (ovr x0 x)"

interpretation uint32_c: c_codec
  xdr_pack_uint32 "into xdr_unpack_uint32" be32 "\<lambda>_ v. v" "\<lambda>_. True" "\<lambda>_. True" "\<lambda>_. 0"
  by unfold_locales (auto intro: cencodes_uint32 cdecodes_prims cxrd)

interpretation uint64_c: c_codec
  xdr_pack_uint64 "into xdr_unpack_uint64" be64 "\<lambda>_ v. v" "\<lambda>_. True" "\<lambda>_. True" "\<lambda>_. 0"
  by unfold_locales (auto intro: cencodes_uint64 cdecodes_prims cxrd)

interpretation bool_c: c_codec
  xdr_pack_bool "into xdr_unpack_bool" "\<lambda>v. enc_bool (v \<noteq> 0)" "\<lambda>_ v. tv v" "\<lambda>_. True" "\<lambda>_. True" "\<lambda>_. 0"
  by unfold_locales (auto intro: cencodes_bool cdecodes_prims cxrd)

section \<open>Objects that own blocks\<close>

text \<open>A \<^verbatim>\<open>T_destroy\<close> gives back every block the object owns and leaves it zeroed.\<close>

locale c_object =
  fixes destroy :: "'a \<Rightarrow> (heap, 'a) cm"
    and zero :: 'a
    and dst :: "'a \<Rightarrow> bool"
    and blocks :: "'a \<Rightarrow> int"
  assumes destroy_done [cxdestroy]: "dst x \<Longrightarrow> destroy x h = Done (zero, h\<lparr>live := live h - blocks x\<rparr>)"
    and dst_zero [simp]: "dst zero"
    and blocks_zero [simp]: "blocks zero = 0"
begin

lemma destroy_twice: "dst x \<Longrightarrow> cbind (destroy x) destroy h = destroy x h"
  by (simp add: cbind_def destroy_done)

lemma cdecodes_destroy: "dst x \<Longrightarrow> cdecodes (on_heap (destroy x)) [] zero (- blocks x)"
  by (rule cdecodes_on_heap) (simp add: destroy_done)

lemma creader_destroy: "dst x \<Longrightarrow> creader (on_heap (destroy x))"
  by (rule creader_on_heap) (simp add: destroy_done)

end

text \<open>Some decoders overwrite a pointer without releasing it: they are only for objects that are
  zeroed. Decoding into such an object and destroying it leaves the heap as it was.\<close>

locale c_fresh = c_pair + c_object destroy zero rel blocks for destroy zero rel +
  assumes dst_fresh: "dst zero"
    and fresh_ok: "ok x \<Longrightarrow> ok (ovr zero x)"
    and fresh_enc: "ok x \<Longrightarrow> enc (ovr zero x) = enc x"
    and fresh_rel: "ok x \<Longrightarrow> rel (ovr zero x)"
begin

lemma lifecycle:
  assumes "ok x" and "plenty h"
  shows "\<exists>s y s' s''. pack x \<lparr>xbuf = xdr_buf_init, mem = h\<rparr> = Done ((), s) \<and>
     unpack zero s = Done (y, s') \<and> enc y = enc x \<and>
     on_heap (destroy y) s' = Done (zero, s'') \<and> spare s'' = live h"
proof -
  let ?y = "ovr zero x"
  from pack_unpack [OF assms(1) dst_fresh assms(2)] obtain s s'
    where s: "pack x \<lparr>xbuf = xdr_buf_init, mem = h\<rparr> = Done ((), s)" "unpack zero s = Done (?y, s')"
      "spare s' = live h + blocks ?y" by auto
  moreover have "on_heap (destroy ?y) s' =
      Done (zero, s'\<lparr>mem := (mem s')\<lparr>live := live (mem s') - blocks ?y\<rparr>\<rparr>)"
    using destroy_done [OF fresh_rel [OF assms(1)]] by (simp add: on_heap_Done)
  ultimately show ?thesis using fresh_enc [OF assms(1)] by (force simp: spare_def)
qed

end

locale c_managed = c_codec + c_object destroy zero dst blocks for destroy zero

sublocale c_managed \<subseteq> c_fresh where rel = dst
  by unfold_locales (simp_all add: ovr_ok ovr_enc ovr_dst)

text \<open>\<^verbatim>\<open>free(p); xdr_unpack_cstring(buf, &p)\<close>: where the buffer is exhausted the pointer keeps the
  address just released.\<close>

definition reread_cstring :: "block ptr \<Rightarrow> block ptr cx" where
  "reread_cstring p = cbind (on_heap (free p)) (into xdr_unpack_cstring)"

lemma cdecodes_free:
  "releasable p \<Longrightarrow> cdecodes (on_heap (free p)) [] (if p = NULL then NULL else Dangling) (- held p)"
  by (rule cdecodes_on_heap) (simp add: free_releasable)

lemma cdecodes_reread [cxdec]:
  assumes "releasable p" and "length d < UINT32_MAX"
  shows "cdecodes (reread_cstring p) (enc_opaque d) (Owned (cstring d)) (1 - held p)"
  using cdecodes_bind [OF cdecodes_free [OF assms(1)], of "into xdr_unpack_cstring",
      OF cdecodes_into [OF cdecodes_cstring [OF assms(2)]]]
  by (simp add: reread_cstring_def)

lemma creader_free: "releasable p \<Longrightarrow> creader (on_heap (free p))"
  by (rule creader_on_heap) (simp add: free_releasable)

lemma creader_reread [cxrd]: "releasable p \<Longrightarrow> creader (reread_cstring p)"
  unfolding reread_cstring_def by (intro creader_bind creader_free cxrd)

end
