(* ===== verification/CRefine.thy ===== *)
theory CRefine
  imports CXdrRules
begin

text \<open>
  The buffer of the C port against its specification. The specification is \<^verbatim>\<open>class XdrBuffer\<close> of
  the C++ sources: \<open>simulates\<close> relates the functions that write, \<open>simulates_read\<close> those
  that read, on every state of the buffer and not only on aligned ones. \<open>keeps_buf\<close> is what remains
  when the allocator may refuse any of its calls. The locale \<open>interop\<close> relates the codecs of a type
  in the two languages where they have the same wire format.
\<close>

named_theorems csim
named_theorems ckeep

section \<open>Writing\<close>

definition simulates :: "unit cx \<Rightarrow> unit xdr \<Rightarrow> bool" where
  "simulates m x \<longleftrightarrow> (\<forall>s. good s \<longrightarrow>
     (\<exists>s'. m s = Done ((), s') \<and> good s' \<and> spare s' = spare s \<and>
        x (abs_buf (xbuf s)) = (Inr (), abs_buf (xbuf s'))))"

lemma abs_appends:
  "appends s bs s' \<Longrightarrow> abs_buf (xbuf s') = (abs_buf (xbuf s))\<lparr>buffer := buffer (abs_buf (xbuf s)) @ bs\<rparr>"
  by (simp add: appends_def abs_buf_def)

lemma simulatesI:
  assumes "\<And>s. good s \<Longrightarrow> \<exists>s'. m s = Done ((), s') \<and> appends s (f (abs_buf (xbuf s))) s'"
    and "\<And>b. x b = (Inr (), b\<lparr>buffer := buffer b @ f b\<rparr>)"
  shows "simulates m x"
  unfolding simulates_def
proof (intro allI impI)
  fix s assume "good s"
  with assms(1) obtain s' where "m s = Done ((), s')" and a: "appends s (f (abs_buf (xbuf s))) s'" by blast
  with assms(2) abs_appends [OF a]
  show "\<exists>s'. m s = Done ((), s') \<and> good s' \<and> spare s' = spare s \<and>
      x (abs_buf (xbuf s)) = (Inr (), abs_buf (xbuf s'))"
    by (auto simp: appends_def)
qed

lemma simulates_cret [csim]: "simulates (cret ()) (xret ())"
  by (simp add: simulates_def xret_def)

lemma simulates_single [csim]: "simulates a x \<Longrightarrow> simulates (cdo [a]) (xdo [x])"
  by simp

lemma simulates_cdo [csim]:
  assumes "simulates a x" and "simulates (cdo (b # bs)) (xdo (y # ys))"
  shows "simulates (cdo (a # b # bs)) (xdo (x # y # ys))"
  unfolding simulates_def
proof (intro allI impI)
  fix s assume "good s"
  with assms(1) obtain t where t: "a s = Done ((), t)" "good t" "spare t = spare s"
    "x (abs_buf (xbuf s)) = (Inr (), abs_buf (xbuf t))" by (auto simp: simulates_def)
  with assms(2) show "\<exists>s'. cdo (a # b # bs) s = Done ((), s') \<and> good s' \<and> spare s' = spare s \<and>
      xdo (x # y # ys) (abs_buf (xbuf s)) = (Inr (), abs_buf (xbuf s'))"
    by (fastforce simp: simulates_def xbind_def)
qed

lemma simulates_uint32 [csim]: "simulates (xdr_pack_uint32 v) (pack_uint32 v)"
  unfolding xdr_pack_uint32_def c_wire32
  by (rule simulatesI, rule reserve_append) (simp_all add: pack_uint32_def insert_end_def xret_def)

lemma simulates_uint64 [csim]: "simulates (xdr_pack_uint64 v) (pack_uint64 v)"
  unfolding xdr_pack_uint64_def c_wire64
  by (rule simulatesI, rule reserve_append) (simp_all add: pack_uint64_def insert_end_def xret_def)

lemma simulates_int32 [csim]: "simulates (xdr_pack_int32 v) (pack_int32 v)"
  using simulates_uint32 [of v] by (simp add: xdr_pack_int32_def pack_int32_def pack_uint32_def)

lemma simulates_bool [csim]: "simulates (xdr_pack_bool v) (pack_bool (v \<noteq> 0))"
  using simulates_uint32 [of "if v \<noteq> 0 then 1 else 0"] by (simp add: xdr_pack_bool_def pack_bool_def)

lemma simulates_pad [csim]: "simulates c_pad_to_4_bytes pad_to_4_bytes"
proof (rule simulatesI)
  show "\<exists>s'. c_pad_to_4_bytes s = Done ((), s') \<and>
      appends s (replicate (pad4 (length (buffer (abs_buf (xbuf s))))) 0) s'" if "good s" for s
    using c_pad_to_4_bytes_ok [OF that] by (simp add: abs_buf_def)
qed (simp add: pad_to_4_bytes_def insert_end_def xret_def)

lemma simulates_copy_in [csim]: "filled p n \<Longrightarrow> simulates (copy_in p n) (insert_end (contents p n))"
  by (rule simulatesI, rule copy_in_ok) (simp_all add: insert_end_def xret_def)

lemma insert_end_Nil: "insert_end [] = xret ()"
  by (rule ext) (simp add: insert_end_def xret_def)

lemma simulates_counted:
  assumes "filled p (unat n)" and "n = 0 \<Longrightarrow> contents p (unat n) = []"
  shows "simulates (if n > 0 then copy_in p (unat n) else cret ()) (insert_end (contents p (unat n)))"
proof (cases "n > 0")
  case True
  with assms(1) show ?thesis by (simp only: if_True simulates_copy_in)
next
  case False
  then have "n = 0" by (simp add: word_gt_0)
  with False assms(2) simulates_cret show ?thesis by (simp add: insert_end_Nil del: cret_apply)
qed

text \<open>A C string is packed as the C++ string of its characters.\<close>

lemma simulates_cstring [csim]:
  assumes "is_cstring p" and "length (chars p) < UINT32_MAX"
  shows "simulates (xdr_pack_cstring p) (pack_string (map char_of_byte (chars p)))"
proof -
  let ?n = "word_of_nat (length (chars p)) :: uint32"
  have n: "unat ?n = length (chars p)" using assms(2) by (simp add: unat_of_length)
  have c: "contents p (unat ?n) = chars p" using contents_cstring [OF assms(1)] n by simp
  have x: "pack_string (map char_of_byte (chars p)) =
      xdo [pack_uint32 ?n, insert_end (contents p (unat ?n)), pad_to_4_bytes]"
    unfolding c using assms(2) by (simp add: pack_string_def comp_def)
  have "xdr_pack_cstring p =
      cdo [xdr_pack_uint32 ?n, if ?n > 0 then copy_in p (unat ?n) else cret (), c_pad_to_4_bytes]"
  proof (cases "p = NULL")
    case True
    then show ?thesis by (simp add: xdr_pack_cstring_def chars_def)
  next
    case False
    then show ?thesis
      by (rule_tac ext) (simp add: xdr_pack_cstring_def cbind_assoc cbind_def strlen_cstring [OF assms(1) False])
  qed
  moreover have "simulates (if ?n > 0 then copy_in p (unat ?n) else cret ()) (insert_end (contents p (unat ?n)))"
    using holds_cstring [OF assms(1)] n by (intro simulates_counted) (simp_all add: contents_def split: ptr.split)
  ultimately show ?thesis unfolding x by (simp only:) (intro csim)
qed

section \<open>Reading\<close>

text \<open>Where the specification throws, the C function returns 0 in the state the specification
  stops in.\<close>

definition simulates_read_at :: "('a \<Rightarrow> 'b \<Rightarrow> bool) \<Rightarrow> 'a option cx \<Rightarrow> 'b xdr \<Rightarrow> cst \<Rightarrow> bool" where
  "simulates_read_at R m x s \<longleftrightarrow>
     (\<exists>r s'. m s = Done (r, s') \<and> readable s' \<and> snd (x (abs_buf (xbuf s))) = abs_buf (xbuf s') \<and>
        (case (r, fst (x (abs_buf (xbuf s)))) of
           (None, Inl e) \<Rightarrow> True | (Some v, Inr w) \<Rightarrow> R v w | _ \<Rightarrow> False))"

definition simulates_read :: "('a \<Rightarrow> 'b \<Rightarrow> bool) \<Rightarrow> 'a option cx \<Rightarrow> 'b xdr \<Rightarrow> bool" where
  "simulates_read R m x \<longleftrightarrow> (\<forall>s. readable s \<longrightarrow> simulates_read_at R m x s)"

lemma abs_buf_simps [simp]:
  "buffer (abs_buf b) = content b" "pos (abs_buf b) = rpos b"
  "abs_buf (b\<lparr>rpos := p\<rparr>) = (abs_buf b)\<lparr>pos := p\<rparr>"
  by (simp_all add: abs_buf_def)

lemma readable_advance [simp]: "readable (s\<lparr>xbuf := (xbuf s)\<lparr>rpos := p\<rparr>\<rparr>) = readable s"
  by (simp add: readable_def good_def)

lemma simulates_fixed:
  assumes m: "m = (\<lambda>s. if \<not> c_ensure_read_space (xbuf s) n then cret None s
      else cbind (peek_bytes n) (\<lambda>nv. cbind (advance n) (\<lambda>_. cret (Some (g nv)))) s)"
    and x: "x = xbind (ensure_read_space n) (\<lambda>_. xbind (read_mem n) (\<lambda>bs. xret (f bs)))"
    and R: "\<And>bs. length bs = n \<Longrightarrow> R (g bs) (f bs)"
  shows "simulates_read R m x"
  unfolding simulates_read_def
proof (intro allI impI)
  fix s assume r: "readable s"
  then have g: "good s" by (simp add: readable_def)
  then have l: "length (content (xbuf s)) = bsize (xbuf s)" by (simp add: good_def length_content)
  show "simulates_read_at R m x s"
  proof (cases "rpos (xbuf s) + n \<le> length (content (xbuf s))")
    case True
    with g r l R [of "slice (rpos (xbuf s)) n (content (xbuf s))"] show ?thesis
      by (simp add: simulates_read_at_def m x c_ensure_read_space_def peek_content cbind_def advance_def xbind_def
          ensure_read_space_def read_mem_def xret_def length_slice)
  next
    case False
    with r l show ?thesis
      by (simp add: simulates_read_at_def m x c_ensure_read_space_def xbind_def ensure_read_space_def xthrow_def)
  qed
qed

lemma same_load32:
  "c_network_to_host32 (load32 c_endian bs) = network_to_host32 NATIVE_ENDIAN (load32 NATIVE_ENDIAN bs)"
  by (simp add: c_network_to_host32_def c_host_to_network32_def c_endian_def NATIVE_BIG_ENDIAN_def
      network_to_host32_def host_to_network32_def NATIVE_ENDIAN_def)

lemma same_load64:
  "c_network_to_host64 (load64 c_endian bs) = network_to_host64 NATIVE_ENDIAN (load64 NATIVE_ENDIAN bs)"
  by (simp add: c_network_to_host64_def c_host_to_network64_def c_endian_def NATIVE_BIG_ENDIAN_def
      network_to_host64_def host_to_network64_def NATIVE_ENDIAN_def)

lemma simulates_unpack_uint32: "simulates_read (=) xdr_unpack_uint32 (unpack_uint32 old)"
  by (rule simulates_fixed [OF xdr_unpack_uint32_def [THEN ext] unpack_uint32_def]) (rule same_load32)

lemma simulates_unpack_uint64: "simulates_read (=) xdr_unpack_uint64 (unpack_uint64 old)"
  by (rule simulates_fixed [OF xdr_unpack_uint64_def [THEN ext] unpack_uint64_def]) (rule same_load64)

text \<open>An item with a length word in front: the rest is only reached with four bytes behind.\<close>

lemma simulates_counted_read:
  assumes "\<And>n s. readable s \<Longrightarrow> 4 \<le> rpos (xbuf s) \<Longrightarrow> simulates_read_at R (f n) (g n) s"
  shows "simulates_read R (cbind xdr_unpack_uint32 (\<lambda>r. case r of None \<Rightarrow> cret None | Some n \<Rightarrow> f n))
     (xbind (unpack_uint32 old) g)"
  unfolding simulates_read_def
proof (intro allI impI)
  fix s assume r: "readable s"
  then have "good s" by (simp add: readable_def)
  note c = uint32_cases [OF this]
  from simulates_unpack_uint32 [of old] r obtain v t where m: "xdr_unpack_uint32 s = Done (v, t)" "readable t"
    and x: "snd (unpack_uint32 old (abs_buf (xbuf s))) = abs_buf (xbuf t)"
      "case (v, fst (unpack_uint32 old (abs_buf (xbuf s)))) of
         (None, Inl e) \<Rightarrow> True | (Some v, Inr w) \<Rightarrow> v = w | _ \<Rightarrow> False"
    unfolding simulates_read_def simulates_read_at_def by blast
  show "simulates_read_at R (cbind xdr_unpack_uint32 (\<lambda>r. case r of None \<Rightarrow> cret None | Some n \<Rightarrow> f n))
     (xbind (unpack_uint32 old) g) s"
  proof (cases v)
    case None
    with m x show ?thesis
      by (cases "unpack_uint32 old (abs_buf (xbuf s))")
        (auto simp: simulates_read_at_def cbind_def xbind_def split: sum.splits)
  next
    case (Some n)
    with m c have "4 \<le> rpos (xbuf t)" by auto
    with assms m have "simulates_read_at R (f n) (g n) t" by blast
    moreover from Some x have "unpack_uint32 old (abs_buf (xbuf s)) = (Inr n, abs_buf (xbuf t))"
      by (cases "unpack_uint32 old (abs_buf (xbuf s))") (auto split: sum.splits)
    ultimately show ?thesis using m Some by (simp add: simulates_read_at_def cbind_def xbind_def)
  qed
qed

lemma simulates_unpack_bool: "simulates_read (\<lambda>v w. v = (if w then 1 else 0)) xdr_unpack_bool (unpack_bool old)"
proof -
  have b: "xdr_unpack_bool = cbind xdr_unpack_uint32 (\<lambda>r. case r of
      None \<Rightarrow> cret None | Some u \<Rightarrow> cret (Some (if u \<noteq> 0 then 1 else 0)))"
    unfolding xdr_unpack_bool_def
    by (rule arg_cong [where f = "cbind _"]) (auto simp: fun_eq_iff split: option.split)
  show ?thesis unfolding b unpack_bool_def
    by (rule simulates_counted_read) (simp add: simulates_read_at_def xret_def)
qed

text \<open>A block taken from the allocator and filled with the bytes read.\<close>

lemma simulates_tail:
  assumes s: "readable s"
    and st: "\<And>d. length d = n \<Longrightarrow> rpos (xbuf s) + n \<le> length (content (xbuf s)) \<Longrightarrow>
      st d (Owned (replicate k None)) = cret (Owned (b d)) \<and> R (Owned (b d)) (h d)"
  shows "simulates_read_at R
    (\<lambda>s. if \<not> c_ensure_read_space (xbuf s) n then cret None s
      else cbind (on_heap (malloc k)) (\<lambda>p. cbind (peek_bytes n) (\<lambda>cs. cbind (st cs p) (\<lambda>p.
        cbind (advance n) (\<lambda>_. cbind (advance (pad4 n)) (\<lambda>_. cret (Some p)))))) s)
    (xbind (ensure_read_space n) (\<lambda>_. xbind (read_mem n) (\<lambda>d.
       xbind (skip (pad4 n)) (\<lambda>_. xret (h d))))) s"
proof -
  from s have g: "good s" by (simp add: readable_def)
  then have l: "length (content (xbuf s)) = bsize (xbuf s)" by (simp add: good_def length_content)
  show ?thesis
  proof (cases "rpos (xbuf s) + n \<le> length (content (xbuf s))")
    case True
    let ?d = "slice (rpos (xbuf s)) n (content (xbuf s))"
    have d: "st ?d (Owned (replicate k None)) = cret (Owned (b ?d))" "R (Owned (b ?d)) (h ?d)"
      using st [of ?d] True by (simp_all add: length_slice)
    from counted_tail [OF g True, where f = st and g = Some, OF d(1)] True l d(2) s show ?thesis
      by (auto simp: simulates_read_at_def c_ensure_read_space_def xbind_def ensure_read_space_def read_mem_def
          skip_def xret_def readable_def abs_buf_def add.assoc)
  next
    case False
    with s l show ?thesis
      by (simp add: simulates_read_at_def c_ensure_read_space_def xbind_def ensure_read_space_def xthrow_def)
  qed
qed

lemma simulates_unpack_cstring:
  "simulates_read (\<lambda>p s. p = Owned (cstring (map byte_of_char s))) xdr_unpack_cstring (unpack_string old)"
  unfolding xdr_unpack_cstring_def unpack_string_def
proof (rule simulates_counted_read)
  fix n :: uint32 and s assume s: "readable s" and p: "4 \<le> rpos (xbuf s)"
  have n1: "unat (n + 1) = unat n + 1" if "rpos (xbuf s) + unat n \<le> length (content (xbuf s))"
    using that s p by (intro unat_plus1) (simp add: readable_def)
  have "cbind (store_bytes (Owned (replicate (unat n + 1) None)) 0 d) (\<lambda>p. store_bytes p (unat n) [0]) =
      cret (Owned (cstring d))" if "length d = unat n" for d
    using that by (subst store_fresh) (simp_all add: store_bytes_def poke_def cstring_def fun_eq_iff)
  with n1 have "simulates_read_at (\<lambda>p s. p = Owned (cstring (map byte_of_char s)))
     (\<lambda>s. if \<not> c_ensure_read_space (xbuf s) (unat n) then cret None s
       else cbind (on_heap (malloc (unat (n + 1)))) (\<lambda>p. cbind (peek_bytes (unat n)) (\<lambda>cs.
            cbind (cbind (store_bytes p 0 cs) (\<lambda>p. store_bytes p (unat n) [0])) (\<lambda>p.
            cbind (advance (unat n)) (\<lambda>_. cbind (advance (pad4 (unat n))) (\<lambda>_. cret (Some p)))))) s)
     (xbind (ensure_read_space (unat n)) (\<lambda>_. xbind (read_mem (unat n)) (\<lambda>d.
       xbind (skip (pad4 (unat n))) (\<lambda>_. xret (map char_of_byte d))))) s"
    by (intro simulates_tail [OF s, where b = cstring]) (simp add: comp_def)
  then show "simulates_read_at (\<lambda>p s. p = Owned (cstring (map byte_of_char s)))
     (\<lambda>s. if \<not> c_ensure_read_space (xbuf s) (unat n) then cret None s
       else cbind (on_heap (malloc (unat (n + 1)))) (\<lambda>p.
            cbind (peek_bytes (unat n)) (\<lambda>cs.
            cbind (store_bytes p 0 cs) (\<lambda>p.
            cbind (store_bytes p (unat n) [0]) (\<lambda>p.
            cbind (advance (unat n)) (\<lambda>_.
            cbind (advance (pad4 (unat n))) (\<lambda>_.
            cret (Some p))))))) s)
     (xbind (ensure_read_space (unat n)) (\<lambda>_.
     xbind (read_mem (unat n)) (\<lambda>s.
     xbind (skip (pad4 (unat n))) (\<lambda>_.
     xret (map char_of_byte s))))) s"
    unfolding cbind_assoc .
qed

section \<open>Writing when the allocator may refuse\<close>

text \<open>\<open>buf_mem\<close> is what every write keeps whatever the allocator does: the bytes counted as written
  are there. The capacity recorded need not be, since the results of \<^verbatim>\<open>malloc\<close> and \<^verbatim>\<open>realloc\<close> are not
  acted upon; what a write commits then is an access out of bounds and nothing else.\<close>

definition buf_mem :: "xdr_buf_t \<Rightarrow> bool" where
  "buf_mem b \<longleftrightarrow> (case data b of
     NULL \<Rightarrow> bsize b = 0
   | Owned blk \<Rightarrow> bsize b \<le> length blk \<and> None \<notin> set (take (bsize b) blk)
   | Dangling \<Rightarrow> False)"

lemma filled_le: "filled p n \<Longrightarrow> k \<le> n \<Longrightarrow> filled p k"
  by (cases p) (auto simp: filled_def dest: set_take_subset_set_take [THEN subsetD])

definition keeps_buf :: "unit cx \<Rightarrow> bool" where
  "keeps_buf m \<longleftrightarrow> (\<forall>s. buf_mem (xbuf s) \<longrightarrow> (case m s of
     Done (_, s') \<Rightarrow> buf_mem (xbuf s') \<and> (\<exists>bs. content (xbuf s') = content (xbuf s) @ bs)
   | Fault e \<Rightarrow> e = OutOfBounds
   | Loops \<Rightarrow> False))"

lemma buf_ok_mem: "buf_ok b \<Longrightarrow> buf_mem b"
  by (auto simp: buf_ok_def buf_mem_def split: ptr.splits)

lemma keeps_cret [ckeep]: "keeps_buf (cret ())"
  by (simp add: keeps_buf_def)

lemma keeps_bind:
  assumes "keeps_buf a" and "keeps_buf b"
  shows "keeps_buf (cbind a (\<lambda>_. b))"
  unfolding keeps_buf_def
proof (intro allI impI)
  fix s :: cst assume s: "buf_mem (xbuf s)"
  with assms(1) have a: "case a s of
      Done (_, s') \<Rightarrow> buf_mem (xbuf s') \<and> (\<exists>bs. content (xbuf s') = content (xbuf s) @ bs)
    | Fault e \<Rightarrow> e = OutOfBounds | Loops \<Rightarrow> False" by (simp add: keeps_buf_def)
  show "case cbind a (\<lambda>_. b) s of
      Done (_, s') \<Rightarrow> buf_mem (xbuf s') \<and> (\<exists>bs. content (xbuf s') = content (xbuf s) @ bs)
    | Fault e \<Rightarrow> e = OutOfBounds | Loops \<Rightarrow> False"
  proof (cases "a s")
    case (Done r)
    obtain u t where r: "r = (u, t)" by (cases r)
    with Done a obtain bs where t: "buf_mem (xbuf t)" "content (xbuf t) = content (xbuf s) @ bs"
      by auto
    with assms(2) have "case b t of
        Done (_, s') \<Rightarrow> buf_mem (xbuf s') \<and> (\<exists>bs. content (xbuf s') = content (xbuf t) @ bs)
      | Fault e \<Rightarrow> e = OutOfBounds | Loops \<Rightarrow> False" by (simp add: keeps_buf_def)
    with Done r t(2) show ?thesis by (auto split: crun.splits)
  qed (use a in \<open>simp_all add: cbind_def\<close>)
qed

lemma keeps_single [ckeep]: "keeps_buf a \<Longrightarrow> keeps_buf (cdo [a])"
  by simp

lemma keeps_cdo [ckeep]: "keeps_buf a \<Longrightarrow> keeps_buf (cdo (b # bs)) \<Longrightarrow> keeps_buf (cdo (a # b # bs))"
  by (simp add: keeps_bind)

lemma keeps_if [ckeep]: "(c \<Longrightarrow> keeps_buf a) \<Longrightarrow> (\<not> c \<Longrightarrow> keeps_buf b) \<Longrightarrow> keeps_buf (if c then a else b)"
  by simp

lemma take_realloc:
  "k \<le> n \<Longrightarrow> k \<le> length blk \<Longrightarrow> take k (take n blk @ replicate (n - length blk) None) = take k blk"
  by simp

lemma keeps_ensure [ckeep]: "keeps_buf (ensure_write_capacity n)"
  unfolding keeps_buf_def
proof (intro allI impI)
  fix s :: cst assume s: "buf_mem (xbuf s)"
  let ?b = "xbuf s"
  let ?c = "if capacity ?b \<noteq> 0 then capacity ?b * 2 else XDR_MIN_CAPACITY"
  have "0 < ?c" by (simp add: XDR_MIN_CAPACITY_def)
  then obtain c where g: "grow_cap ?c (bsize ?b + n) = Some c" and c: "bsize ?b + n \<le> c"
    using grow_cap_returns by blast
  show "case ensure_write_capacity n s of
      Done (_, s') \<Rightarrow> buf_mem (xbuf s') \<and> (\<exists>bs. content (xbuf s') = content (xbuf s) @ bs)
    | Fault e \<Rightarrow> e = OutOfBounds | Loops \<Rightarrow> False"
  proof (cases "bsize ?b + n \<le> capacity ?b")
    case True
    with s show ?thesis by (simp add: ensure_write_capacity_def)
  next
    case False
    with s g c show ?thesis
      by (cases "data ?b")
        (auto simp: ensure_write_capacity_def on_heap_def realloc_def malloc_def buf_mem_def content_def
          contents_def cbind_def take_realloc)
  qed
qed

lemma keeps_append [ckeep]: "keeps_buf (append_bytes bs)"
  unfolding keeps_buf_def
proof (intro allI impI)
  fix s :: cst assume s: "buf_mem (xbuf s)"
  let ?k = "bsize (xbuf s)"
  show "case append_bytes bs s of
      Done (_, s') \<Rightarrow> buf_mem (xbuf s') \<and> (\<exists>cs. content (xbuf s') = content (xbuf s) @ cs)
    | Fault e \<Rightarrow> e = OutOfBounds | Loops \<Rightarrow> False"
  proof (cases "data (xbuf s)")
    case (Owned blk)
    have "take (?k + length bs) (poke ?k (map Some bs) blk) = take ?k blk @ map Some bs"
      if "?k + length bs \<le> length blk"
      using take_poke_end [of ?k "map Some bs" blk] that by simp
    with Owned s show ?thesis
      by (cases "bs = []")
        (auto simp: append_bytes_def store_bytes_def buf_mem_def content_def contents_def cbind_def comp_def)
  qed (use s in \<open>auto simp: append_bytes_def store_bytes_def buf_mem_def content_def contents_def cbind_def\<close>)
qed

lemma keeps_copy_in [ckeep]:
  assumes "filled p n"
  shows "keeps_buf (copy_in p n)"
proof -
  have "cbind (load_bytes p 0 n) append_bytes = append_bytes (contents p n)"
    by (rule ext) (simp add: load_holds [OF assms])
  then show ?thesis unfolding copy_in_def by (simp add: keeps_bind keeps_ensure keeps_append)
qed

lemma keeps_uint32 [ckeep]: "keeps_buf (xdr_pack_uint32 v)"
  unfolding xdr_pack_uint32_def by (intro ckeep)

lemma keeps_uint64 [ckeep]: "keeps_buf (xdr_pack_uint64 v)"
  unfolding xdr_pack_uint64_def by (intro ckeep)

lemma keeps_bool [ckeep]: "keeps_buf (xdr_pack_bool v)"
  unfolding xdr_pack_bool_def by (rule keeps_uint32)

lemma keeps_pad [ckeep]: "keeps_buf c_pad_to_4_bytes"
proof -
  have k: "keeps_buf (cdo [ensure_write_capacity p, append_bytes (replicate p 0)])" for p
    by (intro ckeep)
  show ?thesis
    using k keeps_cret by (auto simp: keeps_buf_def c_pad_to_4_bytes_def Let_def simp del: cdo.simps)
qed

lemma keeps_opaque [ckeep]: "filled p (unat n) \<Longrightarrow> keeps_buf (xdr_pack_opaque p n)"
  unfolding xdr_pack_opaque_def by (intro ckeep)

lemma keeps_bytes [ckeep]: "filled p n \<Longrightarrow> keeps_buf (xdr_pack_bytes p n)"
  unfolding xdr_pack_bytes_def by (intro ckeep)

lemma keeps_cstring [ckeep]:
  assumes "is_cstring p"
  shows "keeps_buf (xdr_pack_cstring p)"
proof -
  have k: "keeps_buf (cdo [xdr_pack_uint32 n, if n > 0 then copy_in p (unat n) else cret (), c_pad_to_4_bytes])"
    if "unat n \<le> length (chars p)" for n :: uint32
    using filled_le [OF holds_cstring [OF assms] that] by (intro ckeep)
  show ?thesis
  proof (cases "p = NULL")
    case True
    with k [of 0] show ?thesis by (simp add: xdr_pack_cstring_def)
  next
    case False
    have "xdr_pack_cstring p = cdo [xdr_pack_uint32 (word_of_nat (length (chars p))),
        if (word_of_nat (length (chars p)) :: uint32) > 0
        then copy_in p (unat (word_of_nat (length (chars p)) :: uint32)) else cret (), c_pad_to_4_bytes]"
      using False by (rule_tac ext)
        (simp add: xdr_pack_cstring_def cbind_assoc cbind_def strlen_cstring [OF assms False])
    with k [of "word_of_nat (length (chars p))"] show ?thesis
      by (simp add: unat_of_nat del: cdo.simps)
  qed
qed

section \<open>The two languages on one wire\<close>

text \<open>
  A C type and a C++ type with the same wire format, \<open>cpp\<close> taking an object of the first to the
  one of the second with the same contents. Then the C encoder refines the C++ one, and each
  language reads what the other wrote.
\<close>

lemma init_copy:
  assumes "plenty h"
  shows "\<exists>buf h'. xdr_buf_init_copy bs h = Done (buf, h') \<and> good \<lparr>xbuf = buf, mem = h'\<rparr> \<and>
    content buf = bs \<and> rpos buf = 0 \<and> spare \<lparr>xbuf = buf, mem = h'\<rparr> = live h"
  using assms
  by (auto simp: xdr_buf_init_copy_def Let_def malloc_plenty cbind_def good_def buf_ok_def
      content_def contents_def xdr_buf_init_def spare_def store_bytes_def comp_def poke_whole)

locale interop =
  c: c_pair cpack cunpack cenc covr cok cdst cblocks + x: xdr_codec ser des enc ovr ok
  for cpack :: "'c \<Rightarrow> unit cx" and cunpack cenc covr cok cdst cblocks
    and ser :: "'a \<Rightarrow> unit xdr" and des enc ovr ok +
  fixes cpp :: "'c \<Rightarrow> 'a"
  assumes cpp_ok: "cok x \<Longrightarrow> ok (cpp x)"
    and cpp_enc: "cok x \<Longrightarrow> enc (cpp x) = cenc x"
begin

lemma refines:
  assumes "cok x" and "good s" and "4 dvd bsize (xbuf s)"
  shows "\<exists>s'. cpack x s = Done ((), s') \<and> good s' \<and> spare s' = spare s \<and>
     ser (cpp x) (abs_buf (xbuf s)) = (Inr (), abs_buf (xbuf s'))"
proof -
  from assms(2,3) have l: "4 dvd length (content (xbuf s))" by (simp add: good_def length_content)
  with c.pack_encodes [OF assms(1)] assms(2) obtain s' where s': "cpack x s = Done ((), s')"
    and a: "appends s (cenc x) s'" by (elim cencodesE)
  moreover have "ser (cpp x) (abs_buf (xbuf s)) = (Inr (), abs_buf (xbuf s'))"
    using encodesD [OF x.ser_encodes [OF cpp_ok [OF assms(1)]], of "abs_buf (xbuf s)"] l
    by (simp add: cpp_enc [OF assms(1)] abs_appends [OF a])
  ultimately show ?thesis by (auto simp: appends_def)
qed

lemma c_to_cpp:
  assumes "cok x" and "plenty h"
  shows "\<exists>s. cpack x \<lparr>xbuf = xdr_buf_init, mem = h\<rparr> = Done ((), s) \<and>
     des y0 (abs_buf (xbuf s)) = (Inr (ovr y0 (cpp x)), (abs_buf (xbuf s))\<lparr>pos := bsize (xbuf s)\<rparr>)"
proof -
  from assms obtain s where s: "cpack x \<lparr>xbuf = xdr_buf_init, mem = h\<rparr> = Done ((), s)" "good s"
    "content (xbuf s) = cenc x" "rpos (xbuf s) = 0" by (elim c.pack_fresh)
  then have "abs_buf (xbuf s) = XdrBuffer_of (enc (cpp x) @ [])"
    by (simp add: abs_buf_def XdrBuffer_of_def cpp_enc [OF assms(1)])
  with x.unpack_of [OF cpp_ok [OF assms(1)], of y0 "[]"] s length_content [of "xbuf s"] show ?thesis
    by (simp add: good_def cpp_enc [OF assms(1)] XdrBuffer_of_def abs_buf_def)
qed

lemma cpp_to_c:
  assumes "cok x" and "cdst x0" and "plenty h"
  shows "\<exists>buf h' s. ser (cpp x) XdrBuffer_new = (Inr (), XdrBuffer_of (cenc x)) \<and>
     xdr_buf_init_copy (cenc x) h = Done (buf, h') \<and>
     cunpack x0 \<lparr>xbuf = buf, mem = h'\<rparr> = Done (covr x0 x, s) \<and>
     rpos (xbuf s) = bsize (xbuf s) \<and> spare s = live h + (cblocks (covr x0 x) - cblocks x0)"
proof -
  from init_copy [OF assms(3)] obtain buf h' where b: "xdr_buf_init_copy (cenc x) h = Done (buf, h')"
    "good \<lparr>xbuf = buf, mem = h'\<rparr>" "content buf = cenc x" "rpos buf = 0"
    "spare \<lparr>xbuf = buf, mem = h'\<rparr> = live h" by blast
  from cdecodesE [OF c.unpack_decodes [OF assms(1,2)] b(2), of "[]" "[]"] b obtain s
    where "cunpack x0 \<lparr>xbuf = buf, mem = h'\<rparr> = Done (covr x0 x, s)" "good s"
      "content (xbuf s) = cenc x" "rpos (xbuf s) = length (cenc x)"
      "spare s = live h + (cblocks (covr x0 x) - cblocks x0)" by auto
  moreover from this length_content [of "xbuf s"] have "rpos (xbuf s) = bsize (xbuf s)" by (simp add: good_def)
  ultimately show ?thesis
    using b x.pack_new [OF cpp_ok [OF assms(1)]] by (simp add: cpp_enc [OF assms(1)])
qed

end

end
