(* ===== verification/Nfs3Constants.thy ===== *)
theory Nfs3Constants
  imports Prelude
begin

text \<open>
  \<^verbatim>\<open>nfs3_rpc_tests/include/nfs3/nfs3_constants.hpp\<close> and the enumerations of
  \<^verbatim>\<open>nfs3_types.hpp\<close>. An \<^verbatim>\<open>enum class\<close> with underlying type \<^verbatim>\<open>uint32_t\<close> that is filled by
  \<^verbatim>\<open>static_cast\<close> from the wire holds any 32-bit value, not only its enumerators: these are
  words with named values. Enumerations that are only ever built from their enumerators are
  datatypes.
\<close>

abbreviation NFS_PROGRAM :: uint32 where "NFS_PROGRAM \<equiv> 100003"
abbreviation NFS_V3 :: uint32 where "NFS_V3 \<equiv> 3"

definition NFS3_FHSIZE :: uint32 where "NFS3_FHSIZE = 64"

type_synonym nfsstat3 = uint32

definition NFS3_OK :: nfsstat3 where "NFS3_OK = 0"
definition NFS3ERR_PERM :: nfsstat3 where "NFS3ERR_PERM = 1"
definition NFS3ERR_NOENT :: nfsstat3 where "NFS3ERR_NOENT = 2"
definition NFS3ERR_IO :: nfsstat3 where "NFS3ERR_IO = 5"
definition NFS3ERR_NXIO :: nfsstat3 where "NFS3ERR_NXIO = 6"
definition NFS3ERR_ACCES :: nfsstat3 where "NFS3ERR_ACCES = 13"
definition NFS3ERR_EXIST :: nfsstat3 where "NFS3ERR_EXIST = 17"
definition NFS3ERR_XDEV :: nfsstat3 where "NFS3ERR_XDEV = 18"
definition NFS3ERR_NODEV :: nfsstat3 where "NFS3ERR_NODEV = 19"
definition NFS3ERR_NOTDIR :: nfsstat3 where "NFS3ERR_NOTDIR = 20"
definition NFS3ERR_ISDIR :: nfsstat3 where "NFS3ERR_ISDIR = 21"
definition NFS3ERR_INVAL :: nfsstat3 where "NFS3ERR_INVAL = 22"
definition NFS3ERR_FBIG :: nfsstat3 where "NFS3ERR_FBIG = 27"
definition NFS3ERR_NOSPC :: nfsstat3 where "NFS3ERR_NOSPC = 28"
definition NFS3ERR_ROFS :: nfsstat3 where "NFS3ERR_ROFS = 30"
definition NFS3ERR_MLINK :: nfsstat3 where "NFS3ERR_MLINK = 31"
definition NFS3ERR_NAMETOOLONG :: nfsstat3 where "NFS3ERR_NAMETOOLONG = 63"
definition NFS3ERR_NOTEMPTY :: nfsstat3 where "NFS3ERR_NOTEMPTY = 66"
definition NFS3ERR_DQUOT :: nfsstat3 where "NFS3ERR_DQUOT = 69"
definition NFS3ERR_STALE :: nfsstat3 where "NFS3ERR_STALE = 70"
definition NFS3ERR_REMOTE :: nfsstat3 where "NFS3ERR_REMOTE = 71"
definition NFS3ERR_BADHANDLE :: nfsstat3 where "NFS3ERR_BADHANDLE = 10001"
definition NFS3ERR_NOT_SYNC :: nfsstat3 where "NFS3ERR_NOT_SYNC = 10002"
definition NFS3ERR_BAD_COOKIE :: nfsstat3 where "NFS3ERR_BAD_COOKIE = 10003"
definition NFS3ERR_NOTSUPP :: nfsstat3 where "NFS3ERR_NOTSUPP = 10004"
definition NFS3ERR_TOOSMALL :: nfsstat3 where "NFS3ERR_TOOSMALL = 10005"
definition NFS3ERR_SERVERFAULT :: nfsstat3 where "NFS3ERR_SERVERFAULT = 10006"
definition NFS3ERR_BADTYPE :: nfsstat3 where "NFS3ERR_BADTYPE = 10007"
definition NFS3ERR_JUKEBOX :: nfsstat3 where "NFS3ERR_JUKEBOX = 10008"

type_synonym ftype3 = uint32

definition NF3NON :: ftype3 where "NF3NON = 0"
definition NF3REG :: ftype3 where "NF3REG = 1"
definition NF3DIR :: ftype3 where "NF3DIR = 2"
definition NF3BLK :: ftype3 where "NF3BLK = 3"
definition NF3CHR :: ftype3 where "NF3CHR = 4"
definition NF3LNK :: ftype3 where "NF3LNK = 5"
definition NF3SOCK :: ftype3 where "NF3SOCK = 6"
definition NF3FIFO :: ftype3 where "NF3FIFO = 7"

type_synonym stable_how = uint32

definition UNSTABLE :: stable_how where "UNSTABLE = 0"
definition DATA_SYNC :: stable_how where "DATA_SYNC = 1"
definition FILE_SYNC :: stable_how where "FILE_SYNC = 2"

type_synonym createmode3 = uint32

definition UNCHECKED :: createmode3 where "UNCHECKED = 0"
definition GUARDED :: createmode3 where "GUARDED = 1"
definition EXCLUSIVE :: createmode3 where "EXCLUSIVE = 2"

type_synonym ftype4 = uint32

definition NF4REG :: ftype4 where "NF4REG = 1"
definition NF4DIR :: ftype4 where "NF4DIR = 2"
definition NF4BLK :: ftype4 where "NF4BLK = 3"
definition NF4CHR :: ftype4 where "NF4CHR = 4"
definition NF4LNK :: ftype4 where "NF4LNK = 5"
definition NF4SOCK :: ftype4 where "NF4SOCK = 6"
definition NF4FIFO :: ftype4 where "NF4FIFO = 7"
definition NF4ATTR :: ftype4 where "NF4ATTR = 8"
definition NF4NAMED :: ftype4 where "NF4NAMED = 9"

definition NFS3_ACCESS_READ :: uint32 where "NFS3_ACCESS_READ = 1"
definition NFS3_ACCESS_LOOKUP :: uint32 where "NFS3_ACCESS_LOOKUP = 2"
definition NFS3_ACCESS_MODIFY :: uint32 where "NFS3_ACCESS_MODIFY = 4"
definition NFS3_ACCESS_EXTEND :: uint32 where "NFS3_ACCESS_EXTEND = 8"
definition NFS3_ACCESS_DELETE :: uint32 where "NFS3_ACCESS_DELETE = 16"
definition NFS3_ACCESS_EXECUTE :: uint32 where "NFS3_ACCESS_EXECUTE = 32"

datatype proc_num =
    NFSPROC3_NULL | NFSPROC3_GETATTR | NFSPROC3_SETATTR | NFSPROC3_LOOKUP
  | NFSPROC3_ACCESS | NFSPROC3_READLINK | NFSPROC3_READ | NFSPROC3_WRITE
  | NFSPROC3_CREATE | NFSPROC3_MKDIR | NFSPROC3_SYMLINK | NFSPROC3_MKNOD
  | NFSPROC3_REMOVE | NFSPROC3_RMDIR | NFSPROC3_RENAME | NFSPROC3_LINK
  | NFSPROC3_READDIR | NFSPROC3_READDIRPLUS | NFSPROC3_FSSTAT | NFSPROC3_FSINFO
  | NFSPROC3_PATHCONF | NFSPROC3_COMMIT

text \<open>\<^verbatim>\<open>static_cast<uint32_t>(proc_num::...)\<close>\<close>

primrec proc_val :: "proc_num \<Rightarrow> uint32" where
  "proc_val NFSPROC3_NULL = 0"
| "proc_val NFSPROC3_GETATTR = 1"
| "proc_val NFSPROC3_SETATTR = 2"
| "proc_val NFSPROC3_LOOKUP = 3"
| "proc_val NFSPROC3_ACCESS = 4"
| "proc_val NFSPROC3_READLINK = 5"
| "proc_val NFSPROC3_READ = 6"
| "proc_val NFSPROC3_WRITE = 7"
| "proc_val NFSPROC3_CREATE = 8"
| "proc_val NFSPROC3_MKDIR = 9"
| "proc_val NFSPROC3_SYMLINK = 10"
| "proc_val NFSPROC3_MKNOD = 11"
| "proc_val NFSPROC3_REMOVE = 12"
| "proc_val NFSPROC3_RMDIR = 13"
| "proc_val NFSPROC3_RENAME = 14"
| "proc_val NFSPROC3_LINK = 15"
| "proc_val NFSPROC3_READDIR = 16"
| "proc_val NFSPROC3_READDIRPLUS = 17"
| "proc_val NFSPROC3_FSSTAT = 18"
| "proc_val NFSPROC3_FSINFO = 19"
| "proc_val NFSPROC3_PATHCONF = 20"
| "proc_val NFSPROC3_COMMIT = 21"

lemma proc_val_range: "unat (proc_val p) \<le> 21"
  by (cases p) simp_all

lemma proc_val_inject [simp]: "proc_val p = proc_val q \<longleftrightarrow> p = q"
  by (cases p; cases q) simp_all

text \<open>Procedures are ordered by their numbers.\<close>

instantiation proc_num :: linorder
begin

definition less_eq_proc_num :: "proc_num \<Rightarrow> proc_num \<Rightarrow> bool" where
  "less_eq_proc_num p q \<longleftrightarrow> proc_val p \<le> proc_val q"

definition less_proc_num :: "proc_num \<Rightarrow> proc_num \<Rightarrow> bool" where
  "less_proc_num p q \<longleftrightarrow> proc_val p < proc_val q"

instance
proof
  fix p q r :: proc_num
  show "(p < q) = (p \<le> q \<and> \<not> q \<le> p)"
    unfolding less_eq_proc_num_def less_proc_num_def by (rule less_le_not_le)
  show "p \<le> p" by (simp add: less_eq_proc_num_def)
  show "p \<le> q \<Longrightarrow> q \<le> r \<Longrightarrow> p \<le> r" by (simp add: less_eq_proc_num_def)
  show "p \<le> q \<Longrightarrow> q \<le> p \<Longrightarrow> p = q" by (simp add: less_eq_proc_num_def)
  show "p \<le> q \<or> q \<le> p" by (auto simp: less_eq_proc_num_def)
qed

end

end
