(* ===== verification/CNfs3Types.thy ===== *)
theory CNfs3Types
  imports CXdrRules Nfs3Constants
begin

text \<open>
  The attribute types of the C port: the structs of \<^verbatim>\<open>nfs3_rpc_tests_c/include/nfs3_c/nfs3_types.h\<close>
  as records, their helpers of \<^verbatim>\<open>nfs3_types.c\<close> and their encoders and decoders of \<^verbatim>\<open>nfs3_xdr.c\<close>. For a
  struct \<open>T_t\<close>: \<open>zero_T_t\<close> is the object with all bytes zero, which \<^verbatim>\<open>memset(p, 0, sizeof(*p))\<close> makes;
  \<open>cenc_T\<close> is the wire format; \<open>cok_T\<close>, \<open>covr_T\<close>, \<open>cdst_T\<close> and \<open>cblocks_T\<close> are the conditions,
  the result and the count of blocks of the contract \<open>c_codec\<close>, left out where they are trivial.
  Enumerations are words, as in the C++ model; a helper of \<^verbatim>\<open>nfs3_types.c\<close> carries the prefix
  \<open>c_\<close>. A parameter \<^verbatim>\<open>const char* name\<close> is a pointer of the caller's, never one of the object's own
  members.
\<close>

section \<open>Verifiers\<close>

record writeverf3_t =
  data :: bytes

definition zero_writeverf3_t :: writeverf3_t where
  "zero_writeverf3_t = \<lparr>writeverf3_t.data = replicate 8 0\<rparr>"

definition xdr_pack_writeverf3 :: "writeverf3_t \<Rightarrow> unit cx" where
  "xdr_pack_writeverf3 v = xdr_pack_bytes (Owned (map Some (writeverf3_t.data v))) 8"

definition xdr_unpack_writeverf3 :: "writeverf3_t \<Rightarrow> writeverf3_t cx" where
  "xdr_unpack_writeverf3 v =
     (let v = v\<lparr>writeverf3_t.data := replicate 8 0\<rparr>
      in (\<lambda>s. if rpos (xbuf s) + 8 \<le> bsize (xbuf s)
           then cbind (peek_bytes 8) (\<lambda>bs. cbind (advance 8) (\<lambda>_. cret (v\<lparr>writeverf3_t.data := bs\<rparr>))) s
           else cret v s))"

definition cok_writeverf3 :: "writeverf3_t \<Rightarrow> bool" where
  "cok_writeverf3 v \<longleftrightarrow> length (writeverf3_t.data v) = 8"

lemma xdr_unpack_writeverf3_eq:
  "xdr_unpack_writeverf3 v = (\<lambda>s. if \<not> c_ensure_read_space (xbuf s) 8 then cret (v\<lparr>writeverf3_t.data := replicate 8 0\<rparr>) s
      else cbind (peek_bytes 8) (\<lambda>bs. cbind (advance 8) (\<lambda>_. cret (v\<lparr>writeverf3_t.data := bs\<rparr>))) s)"
  by (rule ext) (simp add: xdr_unpack_writeverf3_def Let_def c_ensure_read_space_def)

interpretation writeverf3_c: c_codec
  xdr_pack_writeverf3 xdr_unpack_writeverf3 writeverf3_t.data
  "\<lambda>_ x. x" cok_writeverf3 "\<lambda>_. True" "\<lambda>_. 0"
proof unfold_locales
  fix x x0 :: writeverf3_t
  show "cencodes (xdr_pack_writeverf3 x) (writeverf3_t.data x)" if "cok_writeverf3 x"
    using that unfolding xdr_pack_writeverf3_def cok_writeverf3_def by (rule cencodes_bytes8)
  show "cdecodes (xdr_unpack_writeverf3 x0) (writeverf3_t.data x) x (0 - 0)" if "cok_writeverf3 x"
    unfolding xdr_unpack_writeverf3_eq using that
    by (intro cdecodes_cong [OF cdecodes_peek_advance]) (cases x, auto simp: cok_writeverf3_def)
  show "creader (xdr_unpack_writeverf3 x0)"
    unfolding xdr_unpack_writeverf3_eq by (rule creader_fixed)
qed simp_all

abbreviation "cenc_writeverf3 \<equiv> writeverf3_t.data"

record createverf3_t =
  data :: bytes

definition zero_createverf3_t :: createverf3_t where
  "zero_createverf3_t = \<lparr>createverf3_t.data = replicate 8 0\<rparr>"

definition xdr_pack_createverf3 :: "createverf3_t \<Rightarrow> unit cx" where
  "xdr_pack_createverf3 v = xdr_pack_bytes (Owned (map Some (createverf3_t.data v))) 8"

definition xdr_unpack_createverf3 :: "createverf3_t \<Rightarrow> createverf3_t cx" where
  "xdr_unpack_createverf3 v =
     (let v = v\<lparr>createverf3_t.data := replicate 8 0\<rparr>
      in (\<lambda>s. if rpos (xbuf s) + 8 \<le> bsize (xbuf s)
           then cbind (peek_bytes 8) (\<lambda>bs. cbind (advance 8) (\<lambda>_. cret (v\<lparr>createverf3_t.data := bs\<rparr>))) s
           else cret v s))"

definition cok_createverf3 :: "createverf3_t \<Rightarrow> bool" where
  "cok_createverf3 v \<longleftrightarrow> length (createverf3_t.data v) = 8"

lemma xdr_unpack_createverf3_eq:
  "xdr_unpack_createverf3 v = (\<lambda>s. if \<not> c_ensure_read_space (xbuf s) 8 then cret (v\<lparr>createverf3_t.data := replicate 8 0\<rparr>) s
      else cbind (peek_bytes 8) (\<lambda>bs. cbind (advance 8) (\<lambda>_. cret (v\<lparr>createverf3_t.data := bs\<rparr>))) s)"
  by (rule ext) (simp add: xdr_unpack_createverf3_def Let_def c_ensure_read_space_def)

interpretation createverf3_c: c_codec
  xdr_pack_createverf3 xdr_unpack_createverf3 createverf3_t.data
  "\<lambda>_ x. x" cok_createverf3 "\<lambda>_. True" "\<lambda>_. 0"
proof unfold_locales
  fix x x0 :: createverf3_t
  show "cencodes (xdr_pack_createverf3 x) (createverf3_t.data x)" if "cok_createverf3 x"
    using that unfolding xdr_pack_createverf3_def cok_createverf3_def by (rule cencodes_bytes8)
  show "cdecodes (xdr_unpack_createverf3 x0) (createverf3_t.data x) x (0 - 0)" if "cok_createverf3 x"
    unfolding xdr_unpack_createverf3_eq using that
    by (intro cdecodes_cong [OF cdecodes_peek_advance]) (cases x, auto simp: cok_createverf3_def)
  show "creader (xdr_unpack_createverf3 x0)"
    unfolding xdr_unpack_createverf3_eq by (rule creader_fixed)
qed simp_all

abbreviation "cenc_createverf3 \<equiv> createverf3_t.data"

section \<open>Handles, times and attributes\<close>

record nfs_fh3_t =
  data :: "block ptr"
  len :: uint32
  cap :: uint32

definition zero_nfs_fh3_t :: nfs_fh3_t where
  "zero_nfs_fh3_t = \<lparr>nfs_fh3_t.data = NULL,
     nfs_fh3_t.len = 0,
     nfs_fh3_t.cap = 0\<rparr>"

definition c_nfs_fh3_init :: nfs_fh3_t where
  "c_nfs_fh3_init = zero_nfs_fh3_t"

definition c_nfs_fh3_destroy :: "nfs_fh3_t \<Rightarrow> (heap, nfs_fh3_t) cm" where
  "c_nfs_fh3_destroy fh = cbind (free (nfs_fh3_t.data fh)) (\<lambda>_. cret zero_nfs_fh3_t)"

definition c_nfs_fh3_set :: "nfs_fh3_t \<Rightarrow> block ptr \<Rightarrow> uint32 \<Rightarrow> (heap, nfs_fh3_t) cm" where
  "c_nfs_fh3_set fh buf n =
     cbind (free (nfs_fh3_t.data fh)) (\<lambda>_.
     let fh = fh\<lparr>nfs_fh3_t.data := NULL, nfs_fh3_t.len := 0, nfs_fh3_t.cap := 0\<rparr>
     in if n > 0
        then cbind (malloc (unat n)) (\<lambda>p.
             cbind (load_bytes buf 0 (unat n)) (\<lambda>bs.
             cbind (store_bytes p 0 bs) (\<lambda>p.
             cret (fh\<lparr>nfs_fh3_t.data := p, nfs_fh3_t.len := n, nfs_fh3_t.cap := n\<rparr>))))
        else cret fh)"

definition c_nfs_fh3_is_empty :: "nfs_fh3_t \<Rightarrow> bool" where
  "c_nfs_fh3_is_empty fh \<longleftrightarrow> nfs_fh3_t.len fh = 0"

definition xdr_pack_nfs_fh3 :: "nfs_fh3_t \<Rightarrow> unit cx" where
  "xdr_pack_nfs_fh3 fh = xdr_pack_opaque (nfs_fh3_t.data fh) (nfs_fh3_t.len fh)"

text \<open>The locals \<^verbatim>\<open>d\<close> and \<^verbatim>\<open>len\<close> are copied into the handle whether or not they were assigned.\<close>

definition xdr_unpack_nfs_fh3 :: "nfs_fh3_t \<Rightarrow> nfs_fh3_t cx" where
  "xdr_unpack_nfs_fh3 fh =
     cbind xdr_unpack_opaque (\<lambda>(d, n).
     cbind (on_heap (c_nfs_fh3_destroy fh)) (\<lambda>fh.
     case (d, n) of
       (Some d, Some n) \<Rightarrow> cret (fh\<lparr>nfs_fh3_t.data := d, nfs_fh3_t.len := n, nfs_fh3_t.cap := n\<rparr>)
     | _ \<Rightarrow> cfault Uninitialised))"

text \<open>The bytes of a handle.\<close>

definition fh_bytes :: "nfs_fh3_t \<Rightarrow> bytes" where
  "fh_bytes fh = contents (nfs_fh3_t.data fh) (unat (nfs_fh3_t.len fh))"

definition cenc_nfs_fh3 :: "nfs_fh3_t \<Rightarrow> bytes" where
  "cenc_nfs_fh3 fh = enc_opaque (fh_bytes fh)"

definition cok_nfs_fh3 :: "nfs_fh3_t \<Rightarrow> bool" where
  "cok_nfs_fh3 fh \<longleftrightarrow> filled (nfs_fh3_t.data fh) (unat (nfs_fh3_t.len fh))"

definition fh_of :: "bytes \<Rightarrow> uint32 \<Rightarrow> nfs_fh3_t" where
  "fh_of bs n = \<lparr>nfs_fh3_t.data = Owned (if n \<noteq> 0 then map Some bs else [None]), len = n, cap = n\<rparr>"

definition covr_nfs_fh3 :: "nfs_fh3_t \<Rightarrow> nfs_fh3_t \<Rightarrow> nfs_fh3_t" where
  "covr_nfs_fh3 x0 x = fh_of (fh_bytes x) (nfs_fh3_t.len x)"

definition cdst_nfs_fh3 :: "nfs_fh3_t \<Rightarrow> bool" where
  "cdst_nfs_fh3 fh \<longleftrightarrow> releasable (nfs_fh3_t.data fh)"

definition cblocks_nfs_fh3 :: "nfs_fh3_t \<Rightarrow> int" where
  "cblocks_nfs_fh3 fh = held (nfs_fh3_t.data fh)"

interpretation nfs_fh3_obj: c_object c_nfs_fh3_destroy zero_nfs_fh3_t cdst_nfs_fh3 cblocks_nfs_fh3
  by unfold_locales
    (simp_all add: c_nfs_fh3_destroy_def cdst_nfs_fh3_def cblocks_nfs_fh3_def cbind_def free_releasable
      zero_nfs_fh3_t_def)

lemma fh_of_bytes:
  assumes "cok_nfs_fh3 x"
  shows "fh_bytes (fh_of (fh_bytes x) (nfs_fh3_t.len x)) = fh_bytes x"
    and "cok_nfs_fh3 (fh_of (fh_bytes x) (nfs_fh3_t.len x))"
proof -
  let ?n = "nfs_fh3_t.len x"
  have l: "length (fh_bytes x) = unat ?n"
    using assms by (simp add: fh_bytes_def cok_nfs_fh3_def length_contents)
  have "fh_bytes (fh_of bs ?n) = bs \<and> cok_nfs_fh3 (fh_of bs ?n)" if "length bs = unat ?n" for bs
    using that by (auto simp: fh_bytes_def fh_of_def contents_def comp_def cok_nfs_fh3_def filled_def)
  from this [OF l] show "fh_bytes (fh_of (fh_bytes x) ?n) = fh_bytes x"
    and "cok_nfs_fh3 (fh_of (fh_bytes x) ?n)" by simp_all
qed

interpretation nfs_fh3_c: c_managed
  xdr_pack_nfs_fh3 xdr_unpack_nfs_fh3 cenc_nfs_fh3
  covr_nfs_fh3 cok_nfs_fh3 cdst_nfs_fh3 cblocks_nfs_fh3 c_nfs_fh3_destroy zero_nfs_fh3_t
proof unfold_locales
  fix x x0 :: nfs_fh3_t
  show "cencodes (xdr_pack_nfs_fh3 x) (cenc_nfs_fh3 x)" if "cok_nfs_fh3 x"
    using that unfolding xdr_pack_nfs_fh3_def cenc_nfs_fh3_def fh_bytes_def cok_nfs_fh3_def
    by (rule cencodes_opaque)
  show "cdecodes (xdr_unpack_nfs_fh3 x0) (cenc_nfs_fh3 x) (covr_nfs_fh3 x0 x)
      (cblocks_nfs_fh3 (covr_nfs_fh3 x0 x) - cblocks_nfs_fh3 x0)" if "cok_nfs_fh3 x" "cdst_nfs_fh3 x0"
  proof -
    have l: "length (fh_bytes x) = unat (nfs_fh3_t.len x)"
      using that(1) by (simp add: fh_bytes_def cok_nfs_fh3_def length_contents)
    let ?d = "Owned (if nfs_fh3_t.len x \<noteq> 0 then map Some (fh_bytes x) else [None])"
    have "cdecodes (cbind (on_heap (c_nfs_fh3_destroy x0)) (\<lambda>fh.
        cret (fh\<lparr>nfs_fh3_t.data := ?d, len := nfs_fh3_t.len x, cap := nfs_fh3_t.len x\<rparr>)))
        [] (fh_of (fh_bytes x) (nfs_fh3_t.len x)) (- cblocks_nfs_fh3 x0)"
      by (rule cdecodes_cong [OF cdecodes_bind_ret [OF nfs_fh3_obj.cdecodes_destroy [OF that(2)]]])
        (simp_all add: fh_of_def zero_nfs_fh3_t_def)
    from cdecodes_bind [OF cdecodes_opaque [OF l], of "\<lambda>(d, n).
        cbind (on_heap (c_nfs_fh3_destroy x0)) (\<lambda>fh. case (d, n) of
          (Some d, Some n) \<Rightarrow> cret (fh\<lparr>nfs_fh3_t.data := d, len := n, cap := n\<rparr>)
        | _ \<Rightarrow> cfault Uninitialised)", simplified, OF this]
    show ?thesis
      unfolding xdr_unpack_nfs_fh3_def cenc_nfs_fh3_def covr_nfs_fh3_def
      by (simp add: cblocks_nfs_fh3_def fh_of_def)
  qed
  show "creader (xdr_unpack_nfs_fh3 x0)" if "cdst_nfs_fh3 x0"
    unfolding xdr_unpack_nfs_fh3_def
    by (intro creader_bind cxrd)
      (auto split: prod.split option.split
        intro!: creader_bind cxrd creader_uninit nfs_fh3_obj.creader_destroy that)
  show "cok_nfs_fh3 (covr_nfs_fh3 x0 x)" if "cok_nfs_fh3 x"
    using fh_of_bytes(2) [OF that] by (simp add: covr_nfs_fh3_def)
  show "cenc_nfs_fh3 (covr_nfs_fh3 x0 x) = cenc_nfs_fh3 x" if "cok_nfs_fh3 x"
    using fh_of_bytes(1) [OF that] by (simp add: covr_nfs_fh3_def cenc_nfs_fh3_def)
  show "cdst_nfs_fh3 (covr_nfs_fh3 x0 x)"
    by (simp add: covr_nfs_fh3_def cdst_nfs_fh3_def fh_of_def)
qed

record nfstime3_t =
  seconds :: uint32
  nseconds :: uint32

definition zero_nfstime3_t :: nfstime3_t where
  "zero_nfstime3_t = \<lparr>nfstime3_t.seconds = 0,
     nfstime3_t.nseconds = 0\<rparr>"

definition xdr_pack_nfstime3 :: "nfstime3_t \<Rightarrow> unit cx" where
  "xdr_pack_nfstime3 ob = cdo [
     xdr_pack_uint32 (nfstime3_t.seconds ob),
     xdr_pack_uint32 (nfstime3_t.nseconds ob)]"

definition xdr_unpack_nfstime3 :: "nfstime3_t \<Rightarrow> nfstime3_t cx" where
  "xdr_unpack_nfstime3 = cseq [
     cfld nfstime3_t.seconds nfstime3_t.seconds_update (into xdr_unpack_uint32),
     cfld nfstime3_t.nseconds nfstime3_t.nseconds_update (into xdr_unpack_uint32)]"

definition cenc_nfstime3 :: "nfstime3_t \<Rightarrow> bytes" where
  "cenc_nfstime3 ob =
     be32 (nfstime3_t.seconds ob) @
     be32 (nfstime3_t.nseconds ob)"

interpretation nfstime3_c: c_codec
  xdr_pack_nfstime3 xdr_unpack_nfstime3 cenc_nfstime3
  "\<lambda>_ x. x" "\<lambda>_. True" "\<lambda>_. True" "\<lambda>_. 0"
proof unfold_locales
  fix x x0 :: nfstime3_t
  show "cencodes (xdr_pack_nfstime3 x) (cenc_nfstime3 x)"
    unfolding xdr_pack_nfstime3_def cenc_nfstime3_def by (intro cxenc TrueI)
  show "cdecodes (xdr_unpack_nfstime3 x0) (cenc_nfstime3 x) x (0 - 0)"
    unfolding xdr_unpack_nfstime3_def cenc_nfstime3_def
    by (rule cdecodes_cong, (rule cxdec TrueI |
        (cases x, cases x0, simp; fail))+)
  show "creader (xdr_unpack_nfstime3 x0)"
    unfolding xdr_unpack_nfstime3_def by (intro cxrd TrueI)
qed simp_all

record specdata3_t =
  specdata1 :: uint32
  specdata2 :: uint32

definition zero_specdata3_t :: specdata3_t where
  "zero_specdata3_t = \<lparr>specdata3_t.specdata1 = 0,
     specdata3_t.specdata2 = 0\<rparr>"

definition xdr_pack_specdata3 :: "specdata3_t \<Rightarrow> unit cx" where
  "xdr_pack_specdata3 ob = cdo [
     xdr_pack_uint32 (specdata3_t.specdata1 ob),
     xdr_pack_uint32 (specdata3_t.specdata2 ob)]"

definition xdr_unpack_specdata3 :: "specdata3_t \<Rightarrow> specdata3_t cx" where
  "xdr_unpack_specdata3 = cseq [
     cfld specdata3_t.specdata1 specdata3_t.specdata1_update (into xdr_unpack_uint32),
     cfld specdata3_t.specdata2 specdata3_t.specdata2_update (into xdr_unpack_uint32)]"

definition cenc_specdata3 :: "specdata3_t \<Rightarrow> bytes" where
  "cenc_specdata3 ob =
     be32 (specdata3_t.specdata1 ob) @
     be32 (specdata3_t.specdata2 ob)"

interpretation specdata3_c: c_codec
  xdr_pack_specdata3 xdr_unpack_specdata3 cenc_specdata3
  "\<lambda>_ x. x" "\<lambda>_. True" "\<lambda>_. True" "\<lambda>_. 0"
proof unfold_locales
  fix x x0 :: specdata3_t
  show "cencodes (xdr_pack_specdata3 x) (cenc_specdata3 x)"
    unfolding xdr_pack_specdata3_def cenc_specdata3_def by (intro cxenc TrueI)
  show "cdecodes (xdr_unpack_specdata3 x0) (cenc_specdata3 x) x (0 - 0)"
    unfolding xdr_unpack_specdata3_def cenc_specdata3_def
    by (rule cdecodes_cong, (rule cxdec TrueI |
        (cases x, cases x0, simp; fail))+)
  show "creader (xdr_unpack_specdata3 x0)"
    unfolding xdr_unpack_specdata3_def by (intro cxrd TrueI)
qed simp_all

record fattr3_t =
  type3 :: uint32
  mode :: uint32
  nlink :: uint32
  uid :: uint32
  gid :: uint32
  size3 :: uint64
  used :: uint64
  rdev :: specdata3_t
  fsid :: uint64
  fileid :: uint64
  atime :: nfstime3_t
  mtime :: nfstime3_t
  ctime :: nfstime3_t

definition zero_fattr3_t :: fattr3_t where
  "zero_fattr3_t = \<lparr>fattr3_t.type3 = 0,
     fattr3_t.mode = 0,
     fattr3_t.nlink = 0,
     fattr3_t.uid = 0,
     fattr3_t.gid = 0,
     fattr3_t.size3 = 0,
     fattr3_t.used = 0,
     fattr3_t.rdev = zero_specdata3_t,
     fattr3_t.fsid = 0,
     fattr3_t.fileid = 0,
     fattr3_t.atime = zero_nfstime3_t,
     fattr3_t.mtime = zero_nfstime3_t,
     fattr3_t.ctime = zero_nfstime3_t\<rparr>"

definition c_fattr3_init :: fattr3_t where
  "c_fattr3_init = zero_fattr3_t"

definition xdr_pack_fattr3 :: "fattr3_t \<Rightarrow> unit cx" where
  "xdr_pack_fattr3 ob = cdo [
     xdr_pack_uint32 (fattr3_t.type3 ob),
     xdr_pack_uint32 (fattr3_t.mode ob),
     xdr_pack_uint32 (fattr3_t.nlink ob),
     xdr_pack_uint32 (fattr3_t.uid ob),
     xdr_pack_uint32 (fattr3_t.gid ob),
     xdr_pack_uint64 (fattr3_t.size3 ob),
     xdr_pack_uint64 (fattr3_t.used ob),
     xdr_pack_specdata3 (fattr3_t.rdev ob),
     xdr_pack_uint64 (fattr3_t.fsid ob),
     xdr_pack_uint64 (fattr3_t.fileid ob),
     xdr_pack_nfstime3 (fattr3_t.atime ob),
     xdr_pack_nfstime3 (fattr3_t.mtime ob),
     xdr_pack_nfstime3 (fattr3_t.ctime ob)]"

definition xdr_unpack_fattr3 :: "fattr3_t \<Rightarrow> fattr3_t cx" where
  "xdr_unpack_fattr3 = cseq [
     cfld fattr3_t.type3 fattr3_t.type3_update (\<lambda>_. into_local xdr_unpack_uint32),
     cfld fattr3_t.mode fattr3_t.mode_update (into xdr_unpack_uint32),
     cfld fattr3_t.nlink fattr3_t.nlink_update (into xdr_unpack_uint32),
     cfld fattr3_t.uid fattr3_t.uid_update (into xdr_unpack_uint32),
     cfld fattr3_t.gid fattr3_t.gid_update (into xdr_unpack_uint32),
     cfld fattr3_t.size3 fattr3_t.size3_update (into xdr_unpack_uint64),
     cfld fattr3_t.used fattr3_t.used_update (into xdr_unpack_uint64),
     cfld fattr3_t.rdev fattr3_t.rdev_update xdr_unpack_specdata3,
     cfld fattr3_t.fsid fattr3_t.fsid_update (into xdr_unpack_uint64),
     cfld fattr3_t.fileid fattr3_t.fileid_update (into xdr_unpack_uint64),
     cfld fattr3_t.atime fattr3_t.atime_update xdr_unpack_nfstime3,
     cfld fattr3_t.mtime fattr3_t.mtime_update xdr_unpack_nfstime3,
     cfld fattr3_t.ctime fattr3_t.ctime_update xdr_unpack_nfstime3]"

definition cenc_fattr3 :: "fattr3_t \<Rightarrow> bytes" where
  "cenc_fattr3 ob =
     be32 (fattr3_t.type3 ob) @
     be32 (fattr3_t.mode ob) @
     be32 (fattr3_t.nlink ob) @
     be32 (fattr3_t.uid ob) @
     be32 (fattr3_t.gid ob) @
     be64 (fattr3_t.size3 ob) @
     be64 (fattr3_t.used ob) @
     cenc_specdata3 (fattr3_t.rdev ob) @
     be64 (fattr3_t.fsid ob) @
     be64 (fattr3_t.fileid ob) @
     cenc_nfstime3 (fattr3_t.atime ob) @
     cenc_nfstime3 (fattr3_t.mtime ob) @
     cenc_nfstime3 (fattr3_t.ctime ob)"

interpretation fattr3_c: c_codec
  xdr_pack_fattr3 xdr_unpack_fattr3 cenc_fattr3
  "\<lambda>_ x. x" "\<lambda>_. True" "\<lambda>_. True" "\<lambda>_. 0"
proof unfold_locales
  fix x x0 :: fattr3_t
  show "cencodes (xdr_pack_fattr3 x) (cenc_fattr3 x)"
    unfolding xdr_pack_fattr3_def cenc_fattr3_def by (intro cxenc TrueI)
  show "cdecodes (xdr_unpack_fattr3 x0) (cenc_fattr3 x) x (0 - 0)"
    unfolding xdr_unpack_fattr3_def cenc_fattr3_def
    by (rule cdecodes_cong, (rule cxdec TrueI |
        (cases x, cases x0, simp; fail))+)
  show "creader (xdr_unpack_fattr3 x0)"
    unfolding xdr_unpack_fattr3_def by (intro cxrd TrueI)
qed simp_all

record post_op_attr_t =
  follow :: cint
  attributes :: fattr3_t

definition zero_post_op_attr_t :: post_op_attr_t where
  "zero_post_op_attr_t = \<lparr>post_op_attr_t.follow = 0,
     post_op_attr_t.attributes = zero_fattr3_t\<rparr>"

definition xdr_pack_post_op_attr :: "post_op_attr_t \<Rightarrow> unit cx" where
  "xdr_pack_post_op_attr ob = cdo [
     xdr_pack_bool (post_op_attr_t.follow ob),
     if post_op_attr_t.follow ob \<noteq> 0 then xdr_pack_fattr3 (post_op_attr_t.attributes ob) else cret ()]"

definition xdr_unpack_post_op_attr :: "post_op_attr_t \<Rightarrow> post_op_attr_t cx" where
  "xdr_unpack_post_op_attr = cseq [
     cfld post_op_attr_t.follow post_op_attr_t.follow_update (into xdr_unpack_bool),
     \<lambda>ob. if post_op_attr_t.follow ob \<noteq> 0 then cfld post_op_attr_t.attributes post_op_attr_t.attributes_update xdr_unpack_fattr3 ob else cret ob]"

definition cenc_post_op_attr :: "post_op_attr_t \<Rightarrow> bytes" where
  "cenc_post_op_attr ob =
     enc_bool (post_op_attr_t.follow ob \<noteq> 0) @
     (if post_op_attr_t.follow ob \<noteq> 0 then cenc_fattr3 (post_op_attr_t.attributes ob) else [])"

definition covr_post_op_attr :: "post_op_attr_t \<Rightarrow> post_op_attr_t \<Rightarrow> post_op_attr_t" where
  "covr_post_op_attr x0 x =
     \<lparr>post_op_attr_t.follow = tv (post_op_attr_t.follow x),
      post_op_attr_t.attributes = (if post_op_attr_t.follow x \<noteq> 0 then post_op_attr_t.attributes x else post_op_attr_t.attributes x0)\<rparr>"

interpretation post_op_attr_c: c_codec
  xdr_pack_post_op_attr xdr_unpack_post_op_attr cenc_post_op_attr
  covr_post_op_attr "\<lambda>_. True" "\<lambda>_. True" "\<lambda>_. 0"
proof unfold_locales
  fix x x0 :: post_op_attr_t
  show "cencodes (xdr_pack_post_op_attr x) (cenc_post_op_attr x)"
    unfolding xdr_pack_post_op_attr_def cenc_post_op_attr_def by (intro cxenc TrueI)
  show "cdecodes (xdr_unpack_post_op_attr x0) (cenc_post_op_attr x) (covr_post_op_attr x0 x) (0 - 0)"
    unfolding xdr_unpack_post_op_attr_def cenc_post_op_attr_def
    by (rule cdecodes_cong, (rule cxdec TrueI |
        (cases x, cases x0, simp add: covr_post_op_attr_def; fail))+)
  show "creader (xdr_unpack_post_op_attr x0)"
    unfolding xdr_unpack_post_op_attr_def by (intro cxrd TrueI)
  show "cenc_post_op_attr (covr_post_op_attr x0 x) = cenc_post_op_attr x"
    by (auto simp: covr_post_op_attr_def cenc_post_op_attr_def  chars_nonzero)
qed simp_all

record wcc_attr_t =
  size3 :: uint64
  mtime :: nfstime3_t
  ctime :: nfstime3_t

definition zero_wcc_attr_t :: wcc_attr_t where
  "zero_wcc_attr_t = \<lparr>wcc_attr_t.size3 = 0,
     wcc_attr_t.mtime = zero_nfstime3_t,
     wcc_attr_t.ctime = zero_nfstime3_t\<rparr>"

definition xdr_pack_wcc_attr :: "wcc_attr_t \<Rightarrow> unit cx" where
  "xdr_pack_wcc_attr ob = cdo [
     xdr_pack_uint64 (wcc_attr_t.size3 ob),
     xdr_pack_nfstime3 (wcc_attr_t.mtime ob),
     xdr_pack_nfstime3 (wcc_attr_t.ctime ob)]"

definition xdr_unpack_wcc_attr :: "wcc_attr_t \<Rightarrow> wcc_attr_t cx" where
  "xdr_unpack_wcc_attr = cseq [
     cfld wcc_attr_t.size3 wcc_attr_t.size3_update (into xdr_unpack_uint64),
     cfld wcc_attr_t.mtime wcc_attr_t.mtime_update xdr_unpack_nfstime3,
     cfld wcc_attr_t.ctime wcc_attr_t.ctime_update xdr_unpack_nfstime3]"

definition cenc_wcc_attr :: "wcc_attr_t \<Rightarrow> bytes" where
  "cenc_wcc_attr ob =
     be64 (wcc_attr_t.size3 ob) @
     cenc_nfstime3 (wcc_attr_t.mtime ob) @
     cenc_nfstime3 (wcc_attr_t.ctime ob)"

interpretation wcc_attr_c: c_codec
  xdr_pack_wcc_attr xdr_unpack_wcc_attr cenc_wcc_attr
  "\<lambda>_ x. x" "\<lambda>_. True" "\<lambda>_. True" "\<lambda>_. 0"
proof unfold_locales
  fix x x0 :: wcc_attr_t
  show "cencodes (xdr_pack_wcc_attr x) (cenc_wcc_attr x)"
    unfolding xdr_pack_wcc_attr_def cenc_wcc_attr_def by (intro cxenc TrueI)
  show "cdecodes (xdr_unpack_wcc_attr x0) (cenc_wcc_attr x) x (0 - 0)"
    unfolding xdr_unpack_wcc_attr_def cenc_wcc_attr_def
    by (rule cdecodes_cong, (rule cxdec TrueI |
        (cases x, cases x0, simp; fail))+)
  show "creader (xdr_unpack_wcc_attr x0)"
    unfolding xdr_unpack_wcc_attr_def by (intro cxrd TrueI)
qed simp_all

record pre_op_attr_t =
  check :: cint
  attributes :: wcc_attr_t

definition zero_pre_op_attr_t :: pre_op_attr_t where
  "zero_pre_op_attr_t = \<lparr>pre_op_attr_t.check = 0,
     pre_op_attr_t.attributes = zero_wcc_attr_t\<rparr>"

definition xdr_pack_pre_op_attr :: "pre_op_attr_t \<Rightarrow> unit cx" where
  "xdr_pack_pre_op_attr ob = cdo [
     xdr_pack_bool (pre_op_attr_t.check ob),
     if pre_op_attr_t.check ob \<noteq> 0 then xdr_pack_wcc_attr (pre_op_attr_t.attributes ob) else cret ()]"

definition xdr_unpack_pre_op_attr :: "pre_op_attr_t \<Rightarrow> pre_op_attr_t cx" where
  "xdr_unpack_pre_op_attr = cseq [
     cfld pre_op_attr_t.check pre_op_attr_t.check_update (into xdr_unpack_bool),
     \<lambda>ob. if pre_op_attr_t.check ob \<noteq> 0 then cfld pre_op_attr_t.attributes pre_op_attr_t.attributes_update xdr_unpack_wcc_attr ob else cret ob]"

definition cenc_pre_op_attr :: "pre_op_attr_t \<Rightarrow> bytes" where
  "cenc_pre_op_attr ob =
     enc_bool (pre_op_attr_t.check ob \<noteq> 0) @
     (if pre_op_attr_t.check ob \<noteq> 0 then cenc_wcc_attr (pre_op_attr_t.attributes ob) else [])"

definition covr_pre_op_attr :: "pre_op_attr_t \<Rightarrow> pre_op_attr_t \<Rightarrow> pre_op_attr_t" where
  "covr_pre_op_attr x0 x =
     \<lparr>pre_op_attr_t.check = tv (pre_op_attr_t.check x),
      pre_op_attr_t.attributes = (if pre_op_attr_t.check x \<noteq> 0 then pre_op_attr_t.attributes x else pre_op_attr_t.attributes x0)\<rparr>"

interpretation pre_op_attr_c: c_codec
  xdr_pack_pre_op_attr xdr_unpack_pre_op_attr cenc_pre_op_attr
  covr_pre_op_attr "\<lambda>_. True" "\<lambda>_. True" "\<lambda>_. 0"
proof unfold_locales
  fix x x0 :: pre_op_attr_t
  show "cencodes (xdr_pack_pre_op_attr x) (cenc_pre_op_attr x)"
    unfolding xdr_pack_pre_op_attr_def cenc_pre_op_attr_def by (intro cxenc TrueI)
  show "cdecodes (xdr_unpack_pre_op_attr x0) (cenc_pre_op_attr x) (covr_pre_op_attr x0 x) (0 - 0)"
    unfolding xdr_unpack_pre_op_attr_def cenc_pre_op_attr_def
    by (rule cdecodes_cong, (rule cxdec TrueI |
        (cases x, cases x0, simp add: covr_pre_op_attr_def; fail))+)
  show "creader (xdr_unpack_pre_op_attr x0)"
    unfolding xdr_unpack_pre_op_attr_def by (intro cxrd TrueI)
  show "cenc_pre_op_attr (covr_pre_op_attr x0 x) = cenc_pre_op_attr x"
    by (auto simp: covr_pre_op_attr_def cenc_pre_op_attr_def  chars_nonzero)
qed simp_all

record wcc_data_t =
  before :: pre_op_attr_t
  after :: post_op_attr_t

definition zero_wcc_data_t :: wcc_data_t where
  "zero_wcc_data_t = \<lparr>wcc_data_t.before = zero_pre_op_attr_t,
     wcc_data_t.after = zero_post_op_attr_t\<rparr>"

definition xdr_pack_wcc_data :: "wcc_data_t \<Rightarrow> unit cx" where
  "xdr_pack_wcc_data ob = cdo [
     xdr_pack_pre_op_attr (wcc_data_t.before ob),
     xdr_pack_post_op_attr (wcc_data_t.after ob)]"

definition xdr_unpack_wcc_data :: "wcc_data_t \<Rightarrow> wcc_data_t cx" where
  "xdr_unpack_wcc_data = cseq [
     cfld wcc_data_t.before wcc_data_t.before_update xdr_unpack_pre_op_attr,
     cfld wcc_data_t.after wcc_data_t.after_update xdr_unpack_post_op_attr]"

definition cenc_wcc_data :: "wcc_data_t \<Rightarrow> bytes" where
  "cenc_wcc_data ob =
     cenc_pre_op_attr (wcc_data_t.before ob) @
     cenc_post_op_attr (wcc_data_t.after ob)"

definition covr_wcc_data :: "wcc_data_t \<Rightarrow> wcc_data_t \<Rightarrow> wcc_data_t" where
  "covr_wcc_data x0 x =
     \<lparr>wcc_data_t.before = covr_pre_op_attr (wcc_data_t.before x0) (wcc_data_t.before x),
      wcc_data_t.after = covr_post_op_attr (wcc_data_t.after x0) (wcc_data_t.after x)\<rparr>"

interpretation wcc_data_c: c_codec
  xdr_pack_wcc_data xdr_unpack_wcc_data cenc_wcc_data
  covr_wcc_data "\<lambda>_. True" "\<lambda>_. True" "\<lambda>_. 0"
proof unfold_locales
  fix x x0 :: wcc_data_t
  show "cencodes (xdr_pack_wcc_data x) (cenc_wcc_data x)"
    unfolding xdr_pack_wcc_data_def cenc_wcc_data_def by (intro cxenc TrueI)
  show "cdecodes (xdr_unpack_wcc_data x0) (cenc_wcc_data x) (covr_wcc_data x0 x) (0 - 0)"
    unfolding xdr_unpack_wcc_data_def cenc_wcc_data_def
    by (rule cdecodes_cong, (rule cxdec TrueI |
        (cases x, cases x0, simp add: covr_wcc_data_def; fail))+)
  show "creader (xdr_unpack_wcc_data x0)"
    unfolding xdr_unpack_wcc_data_def by (intro cxrd TrueI)
  show "cenc_wcc_data (covr_wcc_data x0 x) = cenc_wcc_data x"
    by (auto simp: covr_wcc_data_def cenc_wcc_data_def pre_op_attr_c.ovr_enc post_op_attr_c.ovr_enc chars_nonzero)
qed simp_all

record sattr3_t =
  mode_set :: cint
  mode :: uint32
  uid_set :: cint
  uid :: uint32
  gid_set :: cint
  gid :: uint32
  size_set :: cint
  size3 :: uint64
  atime_set :: cint
  atime :: nfstime3_t
  mtime_set :: cint
  mtime :: nfstime3_t

definition zero_sattr3_t :: sattr3_t where
  "zero_sattr3_t = \<lparr>sattr3_t.mode_set = 0,
     sattr3_t.mode = 0,
     sattr3_t.uid_set = 0,
     sattr3_t.uid = 0,
     sattr3_t.gid_set = 0,
     sattr3_t.gid = 0,
     sattr3_t.size_set = 0,
     sattr3_t.size3 = 0,
     sattr3_t.atime_set = 0,
     sattr3_t.atime = zero_nfstime3_t,
     sattr3_t.mtime_set = 0,
     sattr3_t.mtime = zero_nfstime3_t\<rparr>"

definition c_sattr3_init :: sattr3_t where
  "c_sattr3_init = zero_sattr3_t"

definition xdr_pack_sattr3 :: "sattr3_t \<Rightarrow> unit cx" where
  "xdr_pack_sattr3 ob = cdo [
     xdr_pack_bool (sattr3_t.mode_set ob),
     if sattr3_t.mode_set ob \<noteq> 0 then xdr_pack_uint32 (sattr3_t.mode ob) else cret (),
     xdr_pack_bool (sattr3_t.uid_set ob),
     if sattr3_t.uid_set ob \<noteq> 0 then xdr_pack_uint32 (sattr3_t.uid ob) else cret (),
     xdr_pack_bool (sattr3_t.gid_set ob),
     if sattr3_t.gid_set ob \<noteq> 0 then xdr_pack_uint32 (sattr3_t.gid ob) else cret (),
     xdr_pack_bool (sattr3_t.size_set ob),
     if sattr3_t.size_set ob \<noteq> 0 then xdr_pack_uint64 (sattr3_t.size3 ob) else cret (),
     xdr_pack_uint32 (if sattr3_t.atime_set ob \<noteq> 0 then 2 else 0),
     if sattr3_t.atime_set ob \<noteq> 0 then xdr_pack_nfstime3 (sattr3_t.atime ob) else cret (),
     xdr_pack_uint32 (if sattr3_t.mtime_set ob \<noteq> 0 then 2 else 0),
     if sattr3_t.mtime_set ob \<noteq> 0 then xdr_pack_nfstime3 (sattr3_t.mtime ob) else cret ()]"

text \<open>One local \<^verbatim>\<open>flag\<close> serves four members and one local \<^verbatim>\<open>time_how\<close> two: where the buffer is
  exhausted, a later member gets the value an earlier one left in the local.\<close>

definition xdr_unpack_sattr3 :: "sattr3_t \<Rightarrow> sattr3_t cx" where
  "xdr_unpack_sattr3 ob =
     cbind (into_local xdr_unpack_bool) (\<lambda>flag.
     cbind ((\<lambda>ob. if sattr3_t.mode_set ob \<noteq> 0 then cfld sattr3_t.mode sattr3_t.mode_update (into xdr_unpack_uint32) ob else cret ob) (ob\<lparr>sattr3_t.mode_set := flag\<rparr>)) (\<lambda>ob.
     cbind (into xdr_unpack_bool flag) (\<lambda>flag.
     cbind ((\<lambda>ob. if sattr3_t.uid_set ob \<noteq> 0 then cfld sattr3_t.uid sattr3_t.uid_update (into xdr_unpack_uint32) ob else cret ob) (ob\<lparr>sattr3_t.uid_set := flag\<rparr>)) (\<lambda>ob.
     cbind (into xdr_unpack_bool flag) (\<lambda>flag.
     cbind ((\<lambda>ob. if sattr3_t.gid_set ob \<noteq> 0 then cfld sattr3_t.gid sattr3_t.gid_update (into xdr_unpack_uint32) ob else cret ob) (ob\<lparr>sattr3_t.gid_set := flag\<rparr>)) (\<lambda>ob.
     cbind (into xdr_unpack_bool flag) (\<lambda>flag.
     cbind ((\<lambda>ob. if sattr3_t.size_set ob \<noteq> 0 then cfld sattr3_t.size3 sattr3_t.size3_update (into xdr_unpack_uint64) ob else cret ob) (ob\<lparr>sattr3_t.size_set := flag\<rparr>)) (\<lambda>ob.
     cbind (into_local xdr_unpack_uint32) (\<lambda>time_how.
     cbind ((\<lambda>ob. if sattr3_t.atime_set ob \<noteq> 0 then cfld sattr3_t.atime sattr3_t.atime_update (xdr_unpack_nfstime3) ob else cret ob) (ob\<lparr>sattr3_t.atime_set := (if time_how = 2 then 1 else 0)\<rparr>)) (\<lambda>ob.
     cbind (into xdr_unpack_uint32 time_how) (\<lambda>time_how.
     (\<lambda>ob. if sattr3_t.mtime_set ob \<noteq> 0 then cfld sattr3_t.mtime sattr3_t.mtime_update (xdr_unpack_nfstime3) ob else cret ob) (ob\<lparr>sattr3_t.mtime_set := (if time_how = 2 then 1 else 0)\<rparr>))))))))))))"

definition cenc_sattr3 :: "sattr3_t \<Rightarrow> bytes" where
  "cenc_sattr3 ob =
     enc_bool (sattr3_t.mode_set ob \<noteq> 0) @
     (if sattr3_t.mode_set ob \<noteq> 0 then be32 (sattr3_t.mode ob) else []) @
     enc_bool (sattr3_t.uid_set ob \<noteq> 0) @
     (if sattr3_t.uid_set ob \<noteq> 0 then be32 (sattr3_t.uid ob) else []) @
     enc_bool (sattr3_t.gid_set ob \<noteq> 0) @
     (if sattr3_t.gid_set ob \<noteq> 0 then be32 (sattr3_t.gid ob) else []) @
     enc_bool (sattr3_t.size_set ob \<noteq> 0) @
     (if sattr3_t.size_set ob \<noteq> 0 then be64 (sattr3_t.size3 ob) else []) @
     be32 (if sattr3_t.atime_set ob \<noteq> 0 then 2 else 0) @
     (if sattr3_t.atime_set ob \<noteq> 0 then cenc_nfstime3 (sattr3_t.atime ob) else []) @
     be32 (if sattr3_t.mtime_set ob \<noteq> 0 then 2 else 0) @
     (if sattr3_t.mtime_set ob \<noteq> 0 then cenc_nfstime3 (sattr3_t.mtime ob) else [])"

definition covr_sattr3 :: "sattr3_t \<Rightarrow> sattr3_t \<Rightarrow> sattr3_t" where
  "covr_sattr3 x0 x =
     \<lparr>sattr3_t.mode_set = tv (sattr3_t.mode_set x),
      sattr3_t.mode = (if sattr3_t.mode_set x \<noteq> 0 then sattr3_t.mode x else sattr3_t.mode x0),
      sattr3_t.uid_set = tv (sattr3_t.uid_set x),
      sattr3_t.uid = (if sattr3_t.uid_set x \<noteq> 0 then sattr3_t.uid x else sattr3_t.uid x0),
      sattr3_t.gid_set = tv (sattr3_t.gid_set x),
      sattr3_t.gid = (if sattr3_t.gid_set x \<noteq> 0 then sattr3_t.gid x else sattr3_t.gid x0),
      sattr3_t.size_set = tv (sattr3_t.size_set x),
      sattr3_t.size3 = (if sattr3_t.size_set x \<noteq> 0 then sattr3_t.size3 x else sattr3_t.size3 x0),
      sattr3_t.atime_set = tv (sattr3_t.atime_set x),
      sattr3_t.atime = (if sattr3_t.atime_set x \<noteq> 0 then sattr3_t.atime x else sattr3_t.atime x0),
      sattr3_t.mtime_set = tv (sattr3_t.mtime_set x),
      sattr3_t.mtime = (if sattr3_t.mtime_set x \<noteq> 0 then sattr3_t.mtime x else sattr3_t.mtime x0)\<rparr>"

interpretation sattr3_c: c_codec
  xdr_pack_sattr3 xdr_unpack_sattr3 cenc_sattr3
  covr_sattr3 "\<lambda>_. True" "\<lambda>_. True" "\<lambda>_. 0"
proof unfold_locales
  fix x x0 :: sattr3_t
  show "cencodes (xdr_pack_sattr3 x) (cenc_sattr3 x)"
    unfolding xdr_pack_sattr3_def cenc_sattr3_def by (intro cxenc TrueI)
  show "cdecodes (xdr_unpack_sattr3 x0) (cenc_sattr3 x) (covr_sattr3 x0 x) (0 - 0)"
    unfolding xdr_unpack_sattr3_def cenc_sattr3_def
    by (rule cdecodes_cong, (rule cdecodes_bind cdecodes_prims cdecodes_when cxdec TrueI |
        (simp; fail) | (cases x, cases x0, simp add: covr_sattr3_def tv_def; fail))+)
  show "creader (xdr_unpack_sattr3 x0)"
    unfolding xdr_unpack_sattr3_def by (intro creader_bind cxrd TrueI)
  show "cenc_sattr3 (covr_sattr3 x0 x) = cenc_sattr3 x"
    by (auto simp: covr_sattr3_def cenc_sattr3_def  chars_nonzero)
qed simp_all

end
