(* ===== verification/CNfs3Res.thy ===== *)
theory CNfs3Res
  imports CNfs3Types
begin

text \<open>
  The results of the C port. Every \<^verbatim>\<open>XXX3res_t\<close> but \<^verbatim>\<open>WRITE3res_t\<close> has the three members
  \<^verbatim>\<open>status\<close>, \<^verbatim>\<open>has_resok\<close> and \<^verbatim>\<open>resok\<close>, and the same text in its encoder and its decoder around
  the members of \<^verbatim>\<open>resok\<close>: they are one record and one pair of functions here. The decoders of
  the results that own memory destroy the old result first. \<^verbatim>\<open>set_name\<close> and its like share
  \<open>replace_string\<close>.
\<close>

record 'r nfs_res_t =
  status :: uint32
  has_resok :: cint
  resok :: 'r

definition zero_res :: "'r \<Rightarrow> 'r nfs_res_t" where
  "zero_res z = \<lparr>nfs_res_t.status = 0, has_resok = 0, resok = z\<rparr>"

definition pack_res :: "('r \<Rightarrow> unit cx) \<Rightarrow> 'r nfs_res_t \<Rightarrow> unit cx" where
  "pack_res ser ob = cdo [
     xdr_pack_uint32 (nfs_res_t.status ob),
     if nfs_res_t.status ob = NFS3_OK \<and> nfs_res_t.has_resok ob \<noteq> 0
     then ser (nfs_res_t.resok ob) else cret ()]"

definition unpack_res :: "('r \<Rightarrow> 'r cx) \<Rightarrow> 'r nfs_res_t \<Rightarrow> 'r nfs_res_t cx" where
  "unpack_res des = cseq [
     cfld nfs_res_t.status nfs_res_t.status_update (\<lambda>_. into_local xdr_unpack_uint32),
     \<lambda>ob. cret (ob\<lparr>nfs_res_t.has_resok := (if nfs_res_t.status ob = NFS3_OK then 1 else 0)\<rparr>),
     \<lambda>ob. if nfs_res_t.has_resok ob \<noteq> 0 then cfld nfs_res_t.resok nfs_res_t.resok_update des ob
          else cret ob]"

definition destroy_res :: "('r \<Rightarrow> (heap, 'r) cm) \<Rightarrow> 'r \<Rightarrow> 'r nfs_res_t \<Rightarrow> (heap, 'r nfs_res_t) cm" where
  "destroy_res d z ob = cbind (d (nfs_res_t.resok ob)) (\<lambda>_. cret (zero_res z))"

definition cenc_res :: "('r \<Rightarrow> bytes) \<Rightarrow> 'r nfs_res_t \<Rightarrow> bytes" where
  "cenc_res enc ob =
     be32 (nfs_res_t.status ob) @ (if nfs_res_t.status ob = NFS3_OK then enc (nfs_res_t.resok ob) else [])"

text \<open>A result is well formed when \<^verbatim>\<open>has_resok\<close> is set with the status \<^verbatim>\<open>NFS3_OK\<close>.\<close>

definition cok_res :: "('r \<Rightarrow> bool) \<Rightarrow> 'r nfs_res_t \<Rightarrow> bool" where
  "cok_res ok ob \<longleftrightarrow>
     (nfs_res_t.status ob = NFS3_OK \<longrightarrow> nfs_res_t.has_resok ob \<noteq> 0 \<and> ok (nfs_res_t.resok ob))"

definition covr_res :: "('r \<Rightarrow> 'r \<Rightarrow> 'r) \<Rightarrow> 'r nfs_res_t \<Rightarrow> 'r nfs_res_t \<Rightarrow> 'r nfs_res_t" where
  "covr_res ovr x0 x =
     \<lparr>nfs_res_t.status = nfs_res_t.status x,
      has_resok = (if nfs_res_t.status x = NFS3_OK then 1 else 0),
      resok = (if nfs_res_t.status x = NFS3_OK then ovr (nfs_res_t.resok x0) (nfs_res_t.resok x)
               else nfs_res_t.resok x0)\<rparr>"

lemma cencodes_res:
  assumes "cok_res ok ob" and "\<And>r. ok r \<Longrightarrow> cencodes (ser r) (enc r)"
  shows "cencodes (pack_res ser ob) (cenc_res enc ob)"
proof -
  have "cencodes (if nfs_res_t.status ob = NFS3_OK \<and> nfs_res_t.has_resok ob \<noteq> 0
      then ser (nfs_res_t.resok ob) else cret ())
      (if nfs_res_t.status ob = NFS3_OK then enc (nfs_res_t.resok ob) else [])"
    using assms by (auto simp: cok_res_def intro: cencodes_cret)
  then show ?thesis unfolding pack_res_def cenc_res_def by (intro cxenc)
qed

lemma cdecodes_res:
  assumes "cok_res ok ob"
    and "\<And>r. ok r \<Longrightarrow> cdecodes (des (nfs_res_t.resok x0)) (enc r) (ovr (nfs_res_t.resok x0) r)
          (blocks (ovr (nfs_res_t.resok x0) r) - blocks (nfs_res_t.resok x0))"
  shows "cdecodes (unpack_res des x0) (cenc_res enc ob) (covr_res ovr x0 ob)
     (blocks (nfs_res_t.resok (covr_res ovr x0 ob)) - blocks (nfs_res_t.resok x0))"
proof -
  let ?h = "(if nfs_res_t.status ob = NFS3_OK then 1 else 0) :: cint"
  let ?y = "x0\<lparr>nfs_res_t.status := nfs_res_t.status ob, nfs_res_t.has_resok := ?h\<rparr>"
  have "cdecodes (cseq [\<lambda>ob. if nfs_res_t.has_resok ob \<noteq> 0
      then cfld nfs_res_t.resok nfs_res_t.resok_update des ob else cret ob] ?y)
      (if nfs_res_t.status ob = NFS3_OK then enc (nfs_res_t.resok ob) else [])
      (covr_res ovr x0 ob)
      (blocks (nfs_res_t.resok (covr_res ovr x0 ob)) - blocks (nfs_res_t.resok x0))"
  proof (cases "nfs_res_t.status ob = NFS3_OK")
    case True
    with assms have "cdecodes (des (nfs_res_t.resok ?y)) (enc (nfs_res_t.resok ob))
        (ovr (nfs_res_t.resok x0) (nfs_res_t.resok ob))
        (blocks (ovr (nfs_res_t.resok x0) (nfs_res_t.resok ob)) - blocks (nfs_res_t.resok x0))"
      by (simp add: cok_res_def)
    from cdecodes_cfld [of des nfs_res_t.resok ?y, OF this, of nfs_res_t.resok_update] True
    show ?thesis by (cases x0) (simp add: covr_res_def)
  qed (cases x0, simp add: covr_res_def cdecodes_cret del: cret_apply)
  then have "cdecodes (cseq [\<lambda>ob. cret (ob\<lparr>nfs_res_t.has_resok := (if nfs_res_t.status ob = NFS3_OK then 1 else 0)\<rparr>),
     \<lambda>ob. if nfs_res_t.has_resok ob \<noteq> 0 then cfld nfs_res_t.resok nfs_res_t.resok_update des ob
          else cret ob] (x0\<lparr>nfs_res_t.status := nfs_res_t.status ob\<rparr>))
      (if nfs_res_t.status ob = NFS3_OK then enc (nfs_res_t.resok ob) else [])
      (covr_res ovr x0 ob)
      (blocks (nfs_res_t.resok (covr_res ovr x0 ob)) - blocks (nfs_res_t.resok x0))"
    by (simp del: cret_apply)
  from cdecodes_cseq [where ob = x0 and
      t = "cfld nfs_res_t.status nfs_res_t.status_update (\<lambda>_. into_local xdr_unpack_uint32)",
      OF cdecodes_cfld [of "\<lambda>_. into_local xdr_unpack_uint32" nfs_res_t.status x0,
      OF cdecodes_prims(4), of nfs_res_t.status_update] this]
  show ?thesis unfolding unpack_res_def cenc_res_def by simp
qed

lemma creader_res: "creader (des (nfs_res_t.resok x0)) \<Longrightarrow> creader (unpack_res des x0)"
  unfolding unpack_res_def
  by (rule creader_cseq_at, rule cxrd, rule cxrd)
    (auto simp: cfld_def simp del: cret_apply intro!: creader_bind cxrd)

text \<open>A result of a type that keeps the contract keeps it too.\<close>

context c_codec
begin

lemma res_codec:
  "c_codec (pack_res pack) (unpack_res unpack) (cenc_res enc) (covr_res ovr) (cok_res ok)
     (\<lambda>ob. dst (nfs_res_t.resok ob)) (\<lambda>ob. blocks (nfs_res_t.resok ob))"
proof unfold_locales
  fix x x0 :: "'a nfs_res_t"
  show "cencodes (pack_res pack x) (cenc_res enc x)" if "cok_res ok x"
    using that pack_encodes by (rule cencodes_res)
  show "cdecodes (unpack_res unpack x0) (cenc_res enc x) (covr_res ovr x0 x)
      (blocks (nfs_res_t.resok (covr_res ovr x0 x)) - blocks (nfs_res_t.resok x0))"
    if "cok_res ok x" "dst (nfs_res_t.resok x0)"
    using that(1) unpack_decodes [OF _ that(2)] by (rule cdecodes_res)
  show "creader (unpack_res unpack x0)" if "dst (nfs_res_t.resok x0)"
    using unpack_reader [OF that] by (rule creader_res)
qed (auto simp: covr_res_def cok_res_def cenc_res_def ovr_ok ovr_enc ovr_dst)

end

text \<open>With the old result destroyed first.\<close>

context c_fresh
begin

lemma res_managed:
  "c_managed (pack_res pack) (\<lambda>ob. cbind (on_heap (destroy_res destroy zero ob)) (unpack_res unpack))
     (cenc_res enc) (\<lambda>_. covr_res ovr (zero_res zero)) (cok_res ok)
     (\<lambda>ob. rel (nfs_res_t.resok ob)) (\<lambda>ob. blocks (nfs_res_t.resok ob))
     (destroy_res destroy zero) (zero_res zero)"
proof unfold_locales
  fix x x0 :: "'a nfs_res_t" and h
  let ?z = "zero_res zero"
  show d: "destroy_res destroy zero x h = Done (?z, h\<lparr>live := live h - blocks (nfs_res_t.resok x)\<rparr>)"
    if "rel (nfs_res_t.resok x)" for x h
    using that by (simp add: destroy_res_def cbind_def destroy_done)
  have z: "nfs_res_t.resok ?z = zero" by (simp add: zero_res_def)
  then show "rel (nfs_res_t.resok ?z)" and "blocks (nfs_res_t.resok ?z) = 0" by simp_all
  show "cencodes (pack_res pack x) (cenc_res enc x)" if "cok_res ok x"
    using that pack_encodes by (rule cencodes_res)
  show "cdecodes (cbind (on_heap (destroy_res destroy zero x0)) (unpack_res unpack)) (cenc_res enc x)
      (covr_res ovr ?z x) (blocks (nfs_res_t.resok (covr_res ovr ?z x)) - blocks (nfs_res_t.resok x0))"
    if "cok_res ok x" "rel (nfs_res_t.resok x0)"
  proof -
    have "cdecodes (on_heap (destroy_res destroy zero x0)) [] ?z (- blocks (nfs_res_t.resok x0))"
      by (rule cdecodes_on_heap) (simp add: d [OF that(2)])
    moreover have "cdecodes (unpack_res unpack ?z) (cenc_res enc x) (covr_res ovr ?z x)
        (blocks (nfs_res_t.resok (covr_res ovr ?z x)) - blocks (nfs_res_t.resok ?z))"
      using that(1) by (rule cdecodes_res) (use unpack_decodes [OF _ dst_fresh] in \<open>simp add: z\<close>)
    ultimately show ?thesis
      using cdecodes_bind [of _ "[]" ?z _ "unpack_res unpack"] by (fastforce simp: z intro: cdecodes_cong)
  qed
  show "creader (cbind (on_heap (destroy_res destroy zero x0)) (unpack_res unpack))"
    if "rel (nfs_res_t.resok x0)"
  proof (rule creaderI)
    fix s assume s: "readable s"
    let ?m = "on_heap (destroy_res destroy zero x0)"
    have m: "?m s = Done (?z, s\<lparr>mem := (mem s)\<lparr>live := live (mem s) - blocks (nfs_res_t.resok x0)\<rparr>\<rparr>)"
      by (simp add: on_heap_Done d [OF that])
    show "creader_at (cbind ?m (unpack_res unpack)) s"
    proof (rule creader_at_bind)
      show "creader_at ?m s"
        using s by (simp add: creader_at_def m cmoves_def readable_def good_def)
      fix y t assume "?m s = Done (y, t)" and "cmoves s t"
      with m s have "y = ?z" and "readable t" by (auto intro: cmoves_readable)
      moreover have "creader (unpack_res unpack ?z)"
        by (rule creader_res) (simp add: z unpack_reader dst_fresh)
      ultimately show "creader_at (unpack_res unpack y) t" by (simp add: creader_def)
    qed
  qed
qed (auto simp: cok_res_def covr_res_def cenc_res_def zero_res_def fresh_ok fresh_enc fresh_rel)

end

section \<open>Setting strings\<close>

text \<open>\<^verbatim>\<open>free(m); m = name ? strdup(name) : NULL\<close>\<close>

definition replace_string :: "block ptr \<Rightarrow> block ptr \<Rightarrow> (heap, block ptr) cm" where
  "replace_string name old = cbind (free old) (\<lambda>_. if name \<noteq> NULL then strdup name else cret NULL)"

lemma replace_string_ok:
  assumes "releasable old" and "is_cstring name" and "plenty h"
  shows "\<exists>h'. replace_string name old h =
      Done ((if name = NULL then NULL else Owned (cstring (chars name))), h') \<and> plenty h' \<and>
      live h' = live h - held old + held name"
proof (cases "name = NULL")
  case True
  with assms show ?thesis by (simp add: replace_string_def cbind_def free_releasable)
next
  case False
  with assms(2) have "held name = 1" by (cases name) (simp_all add: is_cstring_def)
  with False assms show ?thesis
    by (simp add: replace_string_def cbind_def free_releasable strdup_cstring)
qed

end
