(* ===== verification/CNfs3ProcsA.thy ===== *)
theory CNfs3ProcsA
  imports CNfs3Res
begin

text \<open>
  The procedures of the C port, first part: GETATTR, SETATTR, LOOKUP, ACCESS, READLINK, READ and
  WRITE. The encoder and decoder of the members of a \<^verbatim>\<open>resok\<close>, which the sources write inside
  those of the result, are functions of their own here.
\<close>

section \<open>GETATTR\<close>

record GETATTR3args_t =
  object :: nfs_fh3_t

definition zero_GETATTR3args_t :: GETATTR3args_t where
  "zero_GETATTR3args_t = \<lparr>GETATTR3args_t.object = zero_nfs_fh3_t\<rparr>"

definition xdr_pack_GETATTR3args :: "GETATTR3args_t \<Rightarrow> unit cx" where
  "xdr_pack_GETATTR3args ob = cdo [
     xdr_pack_nfs_fh3 (GETATTR3args_t.object ob)]"

definition xdr_unpack_GETATTR3args :: "GETATTR3args_t \<Rightarrow> GETATTR3args_t cx" where
  "xdr_unpack_GETATTR3args = cseq [
     cfld GETATTR3args_t.object GETATTR3args_t.object_update xdr_unpack_nfs_fh3]"

definition cenc_GETATTR3args :: "GETATTR3args_t \<Rightarrow> bytes" where
  "cenc_GETATTR3args ob =
     cenc_nfs_fh3 (GETATTR3args_t.object ob)"

definition cok_GETATTR3args :: "GETATTR3args_t \<Rightarrow> bool" where
  "cok_GETATTR3args ob \<longleftrightarrow> cok_nfs_fh3 (GETATTR3args_t.object ob)"

definition covr_GETATTR3args :: "GETATTR3args_t \<Rightarrow> GETATTR3args_t \<Rightarrow> GETATTR3args_t" where
  "covr_GETATTR3args x0 x =
     \<lparr>GETATTR3args_t.object = covr_nfs_fh3 (GETATTR3args_t.object x0) (GETATTR3args_t.object x)\<rparr>"

definition cdst_GETATTR3args :: "GETATTR3args_t \<Rightarrow> bool" where
  "cdst_GETATTR3args ob \<longleftrightarrow> cdst_nfs_fh3 (GETATTR3args_t.object ob)"

definition cblocks_GETATTR3args :: "GETATTR3args_t \<Rightarrow> int" where
  "cblocks_GETATTR3args ob = cblocks_nfs_fh3 (GETATTR3args_t.object ob)"

interpretation GETATTR3args_c: c_codec
  xdr_pack_GETATTR3args xdr_unpack_GETATTR3args cenc_GETATTR3args
  covr_GETATTR3args cok_GETATTR3args cdst_GETATTR3args cblocks_GETATTR3args
proof unfold_locales
  fix x x0 :: GETATTR3args_t
  show "cencodes (xdr_pack_GETATTR3args x) (cenc_GETATTR3args x)" if "cok_GETATTR3args x"
    unfolding xdr_pack_GETATTR3args_def cenc_GETATTR3args_def
    using that [unfolded cok_GETATTR3args_def] by (intro cxenc TrueI) auto
  show "cdecodes (xdr_unpack_GETATTR3args x0) (cenc_GETATTR3args x) (covr_GETATTR3args x0 x) (cblocks_GETATTR3args (covr_GETATTR3args x0 x) - cblocks_GETATTR3args x0)" if "cok_GETATTR3args x" "cdst_GETATTR3args x0"
    unfolding xdr_unpack_GETATTR3args_def cenc_GETATTR3args_def
    by (rule cdecodes_cong, (rule cxdec TrueI |
        (use that in \<open>simp add: cok_GETATTR3args_def cdst_GETATTR3args_def; fail\<close>) |
        (use that in \<open>cases x, cases x0, simp add: covr_GETATTR3args_def cdst_GETATTR3args_def cblocks_GETATTR3args_def; fail\<close>))+)
  show "creader (xdr_unpack_GETATTR3args x0)" if "cdst_GETATTR3args x0"
    unfolding xdr_unpack_GETATTR3args_def 
    by ((rule cxrd_at | rule cxrd | (use that in \<open>simp add: cdst_GETATTR3args_def; fail\<close>))+)
  show "cok_GETATTR3args (covr_GETATTR3args x0 x)" if "cok_GETATTR3args x"
    using that by (auto simp: cok_GETATTR3args_def covr_GETATTR3args_def nfs_fh3_c.ovr_enc nfs_fh3_c.ovr_ok nfs_fh3_c.ovr_dst chars_nonzero)
  show "cenc_GETATTR3args (covr_GETATTR3args x0 x) = cenc_GETATTR3args x" if "cok_GETATTR3args x"
    using that by (auto simp: cok_GETATTR3args_def covr_GETATTR3args_def cenc_GETATTR3args_def nfs_fh3_c.ovr_enc nfs_fh3_c.ovr_ok nfs_fh3_c.ovr_dst chars_nonzero)
  show "cdst_GETATTR3args (covr_GETATTR3args x0 x)" if "cok_GETATTR3args x" "cdst_GETATTR3args x0"
    using that by (auto simp: cok_GETATTR3args_def covr_GETATTR3args_def cdst_GETATTR3args_def nfs_fh3_c.ovr_enc nfs_fh3_c.ovr_ok nfs_fh3_c.ovr_dst)
qed

record GETATTR3resok_t =
  obj_attributes :: fattr3_t

definition zero_GETATTR3resok_t :: GETATTR3resok_t where
  "zero_GETATTR3resok_t = \<lparr>GETATTR3resok_t.obj_attributes = zero_fattr3_t\<rparr>"

definition xdr_pack_GETATTR3resok :: "GETATTR3resok_t \<Rightarrow> unit cx" where
  "xdr_pack_GETATTR3resok ob = cdo [
     xdr_pack_fattr3 (GETATTR3resok_t.obj_attributes ob)]"

definition xdr_unpack_GETATTR3resok :: "GETATTR3resok_t \<Rightarrow> GETATTR3resok_t cx" where
  "xdr_unpack_GETATTR3resok = cseq [
     cfld GETATTR3resok_t.obj_attributes GETATTR3resok_t.obj_attributes_update xdr_unpack_fattr3]"

definition cenc_GETATTR3resok :: "GETATTR3resok_t \<Rightarrow> bytes" where
  "cenc_GETATTR3resok ob =
     cenc_fattr3 (GETATTR3resok_t.obj_attributes ob)"

interpretation GETATTR3resok_c: c_codec
  xdr_pack_GETATTR3resok xdr_unpack_GETATTR3resok cenc_GETATTR3resok
  "\<lambda>_ x. x" "\<lambda>_. True" "\<lambda>_. True" "\<lambda>_. 0"
proof unfold_locales
  fix x x0 :: GETATTR3resok_t
  show "cencodes (xdr_pack_GETATTR3resok x) (cenc_GETATTR3resok x)"
    unfolding xdr_pack_GETATTR3resok_def cenc_GETATTR3resok_def by (intro cxenc TrueI)
  show "cdecodes (xdr_unpack_GETATTR3resok x0) (cenc_GETATTR3resok x) x (0 - 0)"
    unfolding xdr_unpack_GETATTR3resok_def cenc_GETATTR3resok_def
    by (rule cdecodes_cong, (rule cxdec TrueI |
        (cases x, cases x0, simp; fail))+)
  show "creader (xdr_unpack_GETATTR3resok x0)"
    unfolding xdr_unpack_GETATTR3resok_def by (intro cxrd TrueI)
qed simp_all

type_synonym GETATTR3res_t = "GETATTR3resok_t nfs_res_t"

definition xdr_pack_GETATTR3res :: "GETATTR3res_t \<Rightarrow> unit cx" where
  "xdr_pack_GETATTR3res = pack_res xdr_pack_GETATTR3resok"

definition xdr_unpack_GETATTR3res :: "GETATTR3res_t \<Rightarrow> GETATTR3res_t cx" where
  "xdr_unpack_GETATTR3res = unpack_res xdr_unpack_GETATTR3resok"

interpretation GETATTR3res_c: c_codec
  xdr_pack_GETATTR3res xdr_unpack_GETATTR3res "cenc_res cenc_GETATTR3resok" "covr_res (\<lambda>_ x. x)" "cok_res (\<lambda>_. True)" "\<lambda>_. True" "\<lambda>_. 0"
  unfolding xdr_pack_GETATTR3res_def xdr_unpack_GETATTR3res_def by (rule GETATTR3resok_c.res_codec)

section \<open>SETATTR\<close>

record SETATTR3args_t =
  object :: nfs_fh3_t
  new_attributes :: sattr3_t
  has_guard :: cint
  guard :: nfs_fh3_t

definition zero_SETATTR3args_t :: SETATTR3args_t where
  "zero_SETATTR3args_t = \<lparr>SETATTR3args_t.object = zero_nfs_fh3_t,
     SETATTR3args_t.new_attributes = zero_sattr3_t,
     SETATTR3args_t.has_guard = 0,
     SETATTR3args_t.guard = zero_nfs_fh3_t\<rparr>"

definition xdr_pack_SETATTR3args :: "SETATTR3args_t \<Rightarrow> unit cx" where
  "xdr_pack_SETATTR3args ob = cdo [
     xdr_pack_nfs_fh3 (SETATTR3args_t.object ob),
     xdr_pack_sattr3 (SETATTR3args_t.new_attributes ob),
     xdr_pack_bool (SETATTR3args_t.has_guard ob),
     if SETATTR3args_t.has_guard ob \<noteq> 0 then xdr_pack_nfs_fh3 (SETATTR3args_t.guard ob) else cret ()]"

definition xdr_unpack_SETATTR3args :: "SETATTR3args_t \<Rightarrow> SETATTR3args_t cx" where
  "xdr_unpack_SETATTR3args = cseq [
     cfld SETATTR3args_t.object SETATTR3args_t.object_update xdr_unpack_nfs_fh3,
     cfld SETATTR3args_t.new_attributes SETATTR3args_t.new_attributes_update xdr_unpack_sattr3,
     cfld SETATTR3args_t.has_guard SETATTR3args_t.has_guard_update (into xdr_unpack_bool),
     \<lambda>ob. if SETATTR3args_t.has_guard ob \<noteq> 0 then cfld SETATTR3args_t.guard SETATTR3args_t.guard_update xdr_unpack_nfs_fh3 ob else cret ob]"

definition cenc_SETATTR3args :: "SETATTR3args_t \<Rightarrow> bytes" where
  "cenc_SETATTR3args ob =
     cenc_nfs_fh3 (SETATTR3args_t.object ob) @
     cenc_sattr3 (SETATTR3args_t.new_attributes ob) @
     enc_bool (SETATTR3args_t.has_guard ob \<noteq> 0) @
     (if SETATTR3args_t.has_guard ob \<noteq> 0 then cenc_nfs_fh3 (SETATTR3args_t.guard ob) else [])"

definition cok_SETATTR3args :: "SETATTR3args_t \<Rightarrow> bool" where
  "cok_SETATTR3args ob \<longleftrightarrow> cok_nfs_fh3 (SETATTR3args_t.object ob) \<and>
     (SETATTR3args_t.has_guard ob \<noteq> 0 \<longrightarrow> cok_nfs_fh3 (SETATTR3args_t.guard ob))"

definition covr_SETATTR3args :: "SETATTR3args_t \<Rightarrow> SETATTR3args_t \<Rightarrow> SETATTR3args_t" where
  "covr_SETATTR3args x0 x =
     \<lparr>SETATTR3args_t.object = covr_nfs_fh3 (SETATTR3args_t.object x0) (SETATTR3args_t.object x),
      SETATTR3args_t.new_attributes = covr_sattr3 (SETATTR3args_t.new_attributes x0) (SETATTR3args_t.new_attributes x),
      SETATTR3args_t.has_guard = tv (SETATTR3args_t.has_guard x),
      SETATTR3args_t.guard = (if SETATTR3args_t.has_guard x \<noteq> 0 then covr_nfs_fh3 (SETATTR3args_t.guard x0) (SETATTR3args_t.guard x) else SETATTR3args_t.guard x0)\<rparr>"

definition cdst_SETATTR3args :: "SETATTR3args_t \<Rightarrow> bool" where
  "cdst_SETATTR3args ob \<longleftrightarrow> cdst_nfs_fh3 (SETATTR3args_t.object ob) \<and> cdst_nfs_fh3 (SETATTR3args_t.guard ob)"

definition cblocks_SETATTR3args :: "SETATTR3args_t \<Rightarrow> int" where
  "cblocks_SETATTR3args ob = cblocks_nfs_fh3 (SETATTR3args_t.object ob) + cblocks_nfs_fh3 (SETATTR3args_t.guard ob)"

interpretation SETATTR3args_c: c_codec
  xdr_pack_SETATTR3args xdr_unpack_SETATTR3args cenc_SETATTR3args
  covr_SETATTR3args cok_SETATTR3args cdst_SETATTR3args cblocks_SETATTR3args
proof unfold_locales
  fix x x0 :: SETATTR3args_t
  show "cencodes (xdr_pack_SETATTR3args x) (cenc_SETATTR3args x)" if "cok_SETATTR3args x"
    unfolding xdr_pack_SETATTR3args_def cenc_SETATTR3args_def
    using that [unfolded cok_SETATTR3args_def] by (intro cxenc TrueI) auto
  show "cdecodes (xdr_unpack_SETATTR3args x0) (cenc_SETATTR3args x) (covr_SETATTR3args x0 x) (cblocks_SETATTR3args (covr_SETATTR3args x0 x) - cblocks_SETATTR3args x0)" if "cok_SETATTR3args x" "cdst_SETATTR3args x0"
    unfolding xdr_unpack_SETATTR3args_def cenc_SETATTR3args_def
    by (rule cdecodes_cong, (rule cxdec TrueI |
        (use that in \<open>simp add: cok_SETATTR3args_def cdst_SETATTR3args_def; fail\<close>) |
        (use that in \<open>cases x, cases x0, simp add: covr_SETATTR3args_def cdst_SETATTR3args_def cblocks_SETATTR3args_def; fail\<close>))+)
  show "creader (xdr_unpack_SETATTR3args x0)" if "cdst_SETATTR3args x0"
    unfolding xdr_unpack_SETATTR3args_def 
    by ((rule cxrd_at | rule cxrd | (use that in \<open>simp add: cdst_SETATTR3args_def; fail\<close>))+)
  show "cok_SETATTR3args (covr_SETATTR3args x0 x)" if "cok_SETATTR3args x"
    using that by (auto simp: cok_SETATTR3args_def covr_SETATTR3args_def nfs_fh3_c.ovr_enc nfs_fh3_c.ovr_ok nfs_fh3_c.ovr_dst sattr3_c.ovr_enc chars_nonzero)
  show "cenc_SETATTR3args (covr_SETATTR3args x0 x) = cenc_SETATTR3args x" if "cok_SETATTR3args x"
    using that by (auto simp: cok_SETATTR3args_def covr_SETATTR3args_def cenc_SETATTR3args_def nfs_fh3_c.ovr_enc nfs_fh3_c.ovr_ok nfs_fh3_c.ovr_dst sattr3_c.ovr_enc chars_nonzero)
  show "cdst_SETATTR3args (covr_SETATTR3args x0 x)" if "cok_SETATTR3args x" "cdst_SETATTR3args x0"
    using that by (auto simp: cok_SETATTR3args_def covr_SETATTR3args_def cdst_SETATTR3args_def nfs_fh3_c.ovr_enc nfs_fh3_c.ovr_ok nfs_fh3_c.ovr_dst sattr3_c.ovr_enc)
qed

record SETATTR3resok_t =
  obj_wcc :: wcc_data_t

definition zero_SETATTR3resok_t :: SETATTR3resok_t where
  "zero_SETATTR3resok_t = \<lparr>SETATTR3resok_t.obj_wcc = zero_wcc_data_t\<rparr>"

definition xdr_pack_SETATTR3resok :: "SETATTR3resok_t \<Rightarrow> unit cx" where
  "xdr_pack_SETATTR3resok ob = cdo [
     xdr_pack_wcc_data (SETATTR3resok_t.obj_wcc ob)]"

definition xdr_unpack_SETATTR3resok :: "SETATTR3resok_t \<Rightarrow> SETATTR3resok_t cx" where
  "xdr_unpack_SETATTR3resok = cseq [
     cfld SETATTR3resok_t.obj_wcc SETATTR3resok_t.obj_wcc_update xdr_unpack_wcc_data]"

definition cenc_SETATTR3resok :: "SETATTR3resok_t \<Rightarrow> bytes" where
  "cenc_SETATTR3resok ob =
     cenc_wcc_data (SETATTR3resok_t.obj_wcc ob)"

definition covr_SETATTR3resok :: "SETATTR3resok_t \<Rightarrow> SETATTR3resok_t \<Rightarrow> SETATTR3resok_t" where
  "covr_SETATTR3resok x0 x =
     \<lparr>SETATTR3resok_t.obj_wcc = covr_wcc_data (SETATTR3resok_t.obj_wcc x0) (SETATTR3resok_t.obj_wcc x)\<rparr>"

interpretation SETATTR3resok_c: c_codec
  xdr_pack_SETATTR3resok xdr_unpack_SETATTR3resok cenc_SETATTR3resok
  covr_SETATTR3resok "\<lambda>_. True" "\<lambda>_. True" "\<lambda>_. 0"
proof unfold_locales
  fix x x0 :: SETATTR3resok_t
  show "cencodes (xdr_pack_SETATTR3resok x) (cenc_SETATTR3resok x)"
    unfolding xdr_pack_SETATTR3resok_def cenc_SETATTR3resok_def by (intro cxenc TrueI)
  show "cdecodes (xdr_unpack_SETATTR3resok x0) (cenc_SETATTR3resok x) (covr_SETATTR3resok x0 x) (0 - 0)"
    unfolding xdr_unpack_SETATTR3resok_def cenc_SETATTR3resok_def
    by (rule cdecodes_cong, (rule cxdec TrueI |
        (cases x, cases x0, simp add: covr_SETATTR3resok_def; fail))+)
  show "creader (xdr_unpack_SETATTR3resok x0)"
    unfolding xdr_unpack_SETATTR3resok_def by (intro cxrd TrueI)
  show "cenc_SETATTR3resok (covr_SETATTR3resok x0 x) = cenc_SETATTR3resok x"
    by (auto simp: covr_SETATTR3resok_def cenc_SETATTR3resok_def wcc_data_c.ovr_enc chars_nonzero)
qed simp_all

type_synonym SETATTR3res_t = "SETATTR3resok_t nfs_res_t"

definition xdr_pack_SETATTR3res :: "SETATTR3res_t \<Rightarrow> unit cx" where
  "xdr_pack_SETATTR3res = pack_res xdr_pack_SETATTR3resok"

definition xdr_unpack_SETATTR3res :: "SETATTR3res_t \<Rightarrow> SETATTR3res_t cx" where
  "xdr_unpack_SETATTR3res = unpack_res xdr_unpack_SETATTR3resok"

interpretation SETATTR3res_c: c_codec
  xdr_pack_SETATTR3res xdr_unpack_SETATTR3res "cenc_res cenc_SETATTR3resok" "covr_res covr_SETATTR3resok" "cok_res (\<lambda>_. True)" "\<lambda>_. True" "\<lambda>_. 0"
  unfolding xdr_pack_SETATTR3res_def xdr_unpack_SETATTR3res_def by (rule SETATTR3resok_c.res_codec)

section \<open>LOOKUP\<close>

record LOOKUP3args_t =
  what_dir :: nfs_fh3_t
  what_name :: "block ptr"

definition zero_LOOKUP3args_t :: LOOKUP3args_t where
  "zero_LOOKUP3args_t = \<lparr>LOOKUP3args_t.what_dir = zero_nfs_fh3_t,
     LOOKUP3args_t.what_name = NULL\<rparr>"

definition c_lookup3args_init :: LOOKUP3args_t where
  "c_lookup3args_init = zero_LOOKUP3args_t\<lparr>LOOKUP3args_t.what_dir := c_nfs_fh3_init\<rparr>"

definition c_lookup3args_destroy :: "LOOKUP3args_t \<Rightarrow> (heap, LOOKUP3args_t) cm" where
  "c_lookup3args_destroy ob =
     cbind (c_nfs_fh3_destroy (LOOKUP3args_t.what_dir ob)) (\<lambda>_.
     cbind (free (LOOKUP3args_t.what_name ob)) (\<lambda>_.
     cret zero_LOOKUP3args_t))"

definition c_lookup3args_set_name :: "LOOKUP3args_t \<Rightarrow> block ptr \<Rightarrow> (heap, LOOKUP3args_t) cm" where
  "c_lookup3args_set_name ob name = cfld LOOKUP3args_t.what_name LOOKUP3args_t.what_name_update (replace_string name) ob"

definition xdr_pack_LOOKUP3args :: "LOOKUP3args_t \<Rightarrow> unit cx" where
  "xdr_pack_LOOKUP3args ob = cdo [
     xdr_pack_nfs_fh3 (LOOKUP3args_t.what_dir ob),
     xdr_pack_cstring (LOOKUP3args_t.what_name ob)]"

definition xdr_unpack_LOOKUP3args :: "LOOKUP3args_t \<Rightarrow> LOOKUP3args_t cx" where
  "xdr_unpack_LOOKUP3args = cseq [
     cfld LOOKUP3args_t.what_dir LOOKUP3args_t.what_dir_update xdr_unpack_nfs_fh3,
     cfld LOOKUP3args_t.what_name LOOKUP3args_t.what_name_update reread_cstring]"

definition cenc_LOOKUP3args :: "LOOKUP3args_t \<Rightarrow> bytes" where
  "cenc_LOOKUP3args ob =
     cenc_nfs_fh3 (LOOKUP3args_t.what_dir ob) @
     enc_opaque (chars (LOOKUP3args_t.what_name ob))"

definition cok_LOOKUP3args :: "LOOKUP3args_t \<Rightarrow> bool" where
  "cok_LOOKUP3args ob \<longleftrightarrow> cok_nfs_fh3 (LOOKUP3args_t.what_dir ob) \<and>
     is_cstring (LOOKUP3args_t.what_name ob) \<and> length (chars (LOOKUP3args_t.what_name ob)) < UINT32_MAX"

definition covr_LOOKUP3args :: "LOOKUP3args_t \<Rightarrow> LOOKUP3args_t \<Rightarrow> LOOKUP3args_t" where
  "covr_LOOKUP3args x0 x =
     \<lparr>LOOKUP3args_t.what_dir = covr_nfs_fh3 (LOOKUP3args_t.what_dir x0) (LOOKUP3args_t.what_dir x),
      LOOKUP3args_t.what_name = Owned (cstring (chars (LOOKUP3args_t.what_name x)))\<rparr>"

definition cdst_LOOKUP3args :: "LOOKUP3args_t \<Rightarrow> bool" where
  "cdst_LOOKUP3args ob \<longleftrightarrow> cdst_nfs_fh3 (LOOKUP3args_t.what_dir ob) \<and> releasable (LOOKUP3args_t.what_name ob)"

definition cblocks_LOOKUP3args :: "LOOKUP3args_t \<Rightarrow> int" where
  "cblocks_LOOKUP3args ob = cblocks_nfs_fh3 (LOOKUP3args_t.what_dir ob) + held (LOOKUP3args_t.what_name ob)"

interpretation LOOKUP3args_obj: c_object c_lookup3args_destroy zero_LOOKUP3args_t cdst_LOOKUP3args cblocks_LOOKUP3args
  by unfold_locales
    (auto simp: c_lookup3args_destroy_def cdst_LOOKUP3args_def cblocks_LOOKUP3args_def cbind_def free_releasable cxdestroy zero_LOOKUP3args_t_def)

interpretation LOOKUP3args_c: c_managed
  xdr_pack_LOOKUP3args xdr_unpack_LOOKUP3args cenc_LOOKUP3args
  covr_LOOKUP3args cok_LOOKUP3args cdst_LOOKUP3args cblocks_LOOKUP3args c_lookup3args_destroy zero_LOOKUP3args_t
proof unfold_locales
  fix x x0 :: LOOKUP3args_t
  show "cencodes (xdr_pack_LOOKUP3args x) (cenc_LOOKUP3args x)" if "cok_LOOKUP3args x"
    unfolding xdr_pack_LOOKUP3args_def cenc_LOOKUP3args_def
    using that [unfolded cok_LOOKUP3args_def] by (intro cxenc TrueI) auto
  show "cdecodes (xdr_unpack_LOOKUP3args x0) (cenc_LOOKUP3args x) (covr_LOOKUP3args x0 x) (cblocks_LOOKUP3args (covr_LOOKUP3args x0 x) - cblocks_LOOKUP3args x0)" if "cok_LOOKUP3args x" "cdst_LOOKUP3args x0"
    unfolding xdr_unpack_LOOKUP3args_def cenc_LOOKUP3args_def
    by (rule cdecodes_cong, (rule cxdec TrueI |
        (use that in \<open>simp add: cok_LOOKUP3args_def cdst_LOOKUP3args_def; fail\<close>) |
        (use that in \<open>cases x, cases x0, simp add: covr_LOOKUP3args_def cdst_LOOKUP3args_def cblocks_LOOKUP3args_def; fail\<close>))+)
  show "creader (xdr_unpack_LOOKUP3args x0)" if "cdst_LOOKUP3args x0"
    unfolding xdr_unpack_LOOKUP3args_def 
    by ((rule cxrd_at | rule cxrd | (use that in \<open>simp add: cdst_LOOKUP3args_def; fail\<close>))+)
  show "cok_LOOKUP3args (covr_LOOKUP3args x0 x)" if "cok_LOOKUP3args x"
    using that by (auto simp: cok_LOOKUP3args_def covr_LOOKUP3args_def nfs_fh3_c.ovr_enc nfs_fh3_c.ovr_ok nfs_fh3_c.ovr_dst chars_nonzero)
  show "cenc_LOOKUP3args (covr_LOOKUP3args x0 x) = cenc_LOOKUP3args x" if "cok_LOOKUP3args x"
    using that by (auto simp: cok_LOOKUP3args_def covr_LOOKUP3args_def cenc_LOOKUP3args_def nfs_fh3_c.ovr_enc nfs_fh3_c.ovr_ok nfs_fh3_c.ovr_dst chars_nonzero)
  show "cdst_LOOKUP3args (covr_LOOKUP3args x0 x)" if "cok_LOOKUP3args x" "cdst_LOOKUP3args x0"
    using that by (auto simp: cok_LOOKUP3args_def covr_LOOKUP3args_def cdst_LOOKUP3args_def nfs_fh3_c.ovr_enc nfs_fh3_c.ovr_ok nfs_fh3_c.ovr_dst)
qed

record LOOKUP3resok_t =
  object :: nfs_fh3_t
  obj_attributes :: post_op_attr_t
  dir_attributes :: post_op_attr_t

definition zero_LOOKUP3resok_t :: LOOKUP3resok_t where
  "zero_LOOKUP3resok_t = \<lparr>LOOKUP3resok_t.object = zero_nfs_fh3_t,
     LOOKUP3resok_t.obj_attributes = zero_post_op_attr_t,
     LOOKUP3resok_t.dir_attributes = zero_post_op_attr_t\<rparr>"

definition c_lookup3resok_init :: LOOKUP3resok_t where
  "c_lookup3resok_init = zero_LOOKUP3resok_t\<lparr>LOOKUP3resok_t.object := c_nfs_fh3_init\<rparr>"

definition c_lookup3resok_destroy :: "LOOKUP3resok_t \<Rightarrow> (heap, LOOKUP3resok_t) cm" where
  "c_lookup3resok_destroy ob =
     cbind (c_nfs_fh3_destroy (LOOKUP3resok_t.object ob)) (\<lambda>_.
     cret zero_LOOKUP3resok_t)"

definition xdr_pack_LOOKUP3resok :: "LOOKUP3resok_t \<Rightarrow> unit cx" where
  "xdr_pack_LOOKUP3resok ob = cdo [
     xdr_pack_nfs_fh3 (LOOKUP3resok_t.object ob),
     xdr_pack_post_op_attr (LOOKUP3resok_t.obj_attributes ob),
     xdr_pack_post_op_attr (LOOKUP3resok_t.dir_attributes ob)]"

definition xdr_unpack_LOOKUP3resok :: "LOOKUP3resok_t \<Rightarrow> LOOKUP3resok_t cx" where
  "xdr_unpack_LOOKUP3resok = cseq [
     cfld LOOKUP3resok_t.object LOOKUP3resok_t.object_update xdr_unpack_nfs_fh3,
     cfld LOOKUP3resok_t.obj_attributes LOOKUP3resok_t.obj_attributes_update xdr_unpack_post_op_attr,
     cfld LOOKUP3resok_t.dir_attributes LOOKUP3resok_t.dir_attributes_update xdr_unpack_post_op_attr]"

definition cenc_LOOKUP3resok :: "LOOKUP3resok_t \<Rightarrow> bytes" where
  "cenc_LOOKUP3resok ob =
     cenc_nfs_fh3 (LOOKUP3resok_t.object ob) @
     cenc_post_op_attr (LOOKUP3resok_t.obj_attributes ob) @
     cenc_post_op_attr (LOOKUP3resok_t.dir_attributes ob)"

definition cok_LOOKUP3resok :: "LOOKUP3resok_t \<Rightarrow> bool" where
  "cok_LOOKUP3resok ob \<longleftrightarrow> cok_nfs_fh3 (LOOKUP3resok_t.object ob)"

definition covr_LOOKUP3resok :: "LOOKUP3resok_t \<Rightarrow> LOOKUP3resok_t \<Rightarrow> LOOKUP3resok_t" where
  "covr_LOOKUP3resok x0 x =
     \<lparr>LOOKUP3resok_t.object = covr_nfs_fh3 (LOOKUP3resok_t.object x0) (LOOKUP3resok_t.object x),
      LOOKUP3resok_t.obj_attributes = covr_post_op_attr (LOOKUP3resok_t.obj_attributes x0) (LOOKUP3resok_t.obj_attributes x),
      LOOKUP3resok_t.dir_attributes = covr_post_op_attr (LOOKUP3resok_t.dir_attributes x0) (LOOKUP3resok_t.dir_attributes x)\<rparr>"

definition cdst_LOOKUP3resok :: "LOOKUP3resok_t \<Rightarrow> bool" where
  "cdst_LOOKUP3resok ob \<longleftrightarrow> cdst_nfs_fh3 (LOOKUP3resok_t.object ob)"

definition cblocks_LOOKUP3resok :: "LOOKUP3resok_t \<Rightarrow> int" where
  "cblocks_LOOKUP3resok ob = cblocks_nfs_fh3 (LOOKUP3resok_t.object ob)"

interpretation LOOKUP3resok_obj: c_object c_lookup3resok_destroy zero_LOOKUP3resok_t cdst_LOOKUP3resok cblocks_LOOKUP3resok
  by unfold_locales
    (auto simp: c_lookup3resok_destroy_def cdst_LOOKUP3resok_def cblocks_LOOKUP3resok_def cbind_def free_releasable cxdestroy zero_LOOKUP3resok_t_def)

interpretation LOOKUP3resok_c: c_managed
  xdr_pack_LOOKUP3resok xdr_unpack_LOOKUP3resok cenc_LOOKUP3resok
  covr_LOOKUP3resok cok_LOOKUP3resok cdst_LOOKUP3resok cblocks_LOOKUP3resok c_lookup3resok_destroy zero_LOOKUP3resok_t
proof unfold_locales
  fix x x0 :: LOOKUP3resok_t
  show "cencodes (xdr_pack_LOOKUP3resok x) (cenc_LOOKUP3resok x)" if "cok_LOOKUP3resok x"
    unfolding xdr_pack_LOOKUP3resok_def cenc_LOOKUP3resok_def
    using that [unfolded cok_LOOKUP3resok_def] by (intro cxenc TrueI) auto
  show "cdecodes (xdr_unpack_LOOKUP3resok x0) (cenc_LOOKUP3resok x) (covr_LOOKUP3resok x0 x) (cblocks_LOOKUP3resok (covr_LOOKUP3resok x0 x) - cblocks_LOOKUP3resok x0)" if "cok_LOOKUP3resok x" "cdst_LOOKUP3resok x0"
    unfolding xdr_unpack_LOOKUP3resok_def cenc_LOOKUP3resok_def
    by (rule cdecodes_cong, (rule cxdec TrueI |
        (use that in \<open>simp add: cok_LOOKUP3resok_def cdst_LOOKUP3resok_def; fail\<close>) |
        (use that in \<open>cases x, cases x0, simp add: covr_LOOKUP3resok_def cdst_LOOKUP3resok_def cblocks_LOOKUP3resok_def; fail\<close>))+)
  show "creader (xdr_unpack_LOOKUP3resok x0)" if "cdst_LOOKUP3resok x0"
    unfolding xdr_unpack_LOOKUP3resok_def 
    by ((rule cxrd_at | rule cxrd | (use that in \<open>simp add: cdst_LOOKUP3resok_def; fail\<close>))+)
  show "cok_LOOKUP3resok (covr_LOOKUP3resok x0 x)" if "cok_LOOKUP3resok x"
    using that by (auto simp: cok_LOOKUP3resok_def covr_LOOKUP3resok_def nfs_fh3_c.ovr_enc nfs_fh3_c.ovr_ok nfs_fh3_c.ovr_dst post_op_attr_c.ovr_enc chars_nonzero)
  show "cenc_LOOKUP3resok (covr_LOOKUP3resok x0 x) = cenc_LOOKUP3resok x" if "cok_LOOKUP3resok x"
    using that by (auto simp: cok_LOOKUP3resok_def covr_LOOKUP3resok_def cenc_LOOKUP3resok_def nfs_fh3_c.ovr_enc nfs_fh3_c.ovr_ok nfs_fh3_c.ovr_dst post_op_attr_c.ovr_enc chars_nonzero)
  show "cdst_LOOKUP3resok (covr_LOOKUP3resok x0 x)" if "cok_LOOKUP3resok x" "cdst_LOOKUP3resok x0"
    using that by (auto simp: cok_LOOKUP3resok_def covr_LOOKUP3resok_def cdst_LOOKUP3resok_def nfs_fh3_c.ovr_enc nfs_fh3_c.ovr_ok nfs_fh3_c.ovr_dst post_op_attr_c.ovr_enc)
qed

type_synonym LOOKUP3res_t = "LOOKUP3resok_t nfs_res_t"

definition c_lookup3res_init :: LOOKUP3res_t where
  "c_lookup3res_init = (zero_res zero_LOOKUP3resok_t)\<lparr>nfs_res_t.resok := c_lookup3resok_init\<rparr>"

definition c_lookup3res_destroy :: "LOOKUP3res_t \<Rightarrow> (heap, LOOKUP3res_t) cm" where
  "c_lookup3res_destroy = destroy_res c_lookup3resok_destroy zero_LOOKUP3resok_t"

definition xdr_pack_LOOKUP3res :: "LOOKUP3res_t \<Rightarrow> unit cx" where
  "xdr_pack_LOOKUP3res = pack_res xdr_pack_LOOKUP3resok"

definition xdr_unpack_LOOKUP3res :: "LOOKUP3res_t \<Rightarrow> LOOKUP3res_t cx" where
  "xdr_unpack_LOOKUP3res ob = cbind (on_heap (c_lookup3res_destroy ob)) (unpack_res xdr_unpack_LOOKUP3resok)"

interpretation LOOKUP3res_c: c_managed
  xdr_pack_LOOKUP3res xdr_unpack_LOOKUP3res "cenc_res cenc_LOOKUP3resok" "\<lambda>_. covr_res covr_LOOKUP3resok (zero_res zero_LOOKUP3resok_t)"
  "cok_res cok_LOOKUP3resok" "\<lambda>ob. cdst_LOOKUP3resok (nfs_res_t.resok ob)" "\<lambda>ob. cblocks_LOOKUP3resok (nfs_res_t.resok ob)"
  c_lookup3res_destroy "zero_res zero_LOOKUP3resok_t"
  unfolding xdr_pack_LOOKUP3res_def xdr_unpack_LOOKUP3res_def [abs_def] c_lookup3res_destroy_def by (rule LOOKUP3resok_c.res_managed)

section \<open>ACCESS\<close>

record ACCESS3args_t =
  object :: nfs_fh3_t
  access :: uint32

definition zero_ACCESS3args_t :: ACCESS3args_t where
  "zero_ACCESS3args_t = \<lparr>ACCESS3args_t.object = zero_nfs_fh3_t,
     ACCESS3args_t.access = 0\<rparr>"

definition xdr_pack_ACCESS3args :: "ACCESS3args_t \<Rightarrow> unit cx" where
  "xdr_pack_ACCESS3args ob = cdo [
     xdr_pack_nfs_fh3 (ACCESS3args_t.object ob),
     xdr_pack_uint32 (ACCESS3args_t.access ob)]"

definition xdr_unpack_ACCESS3args :: "ACCESS3args_t \<Rightarrow> ACCESS3args_t cx" where
  "xdr_unpack_ACCESS3args = cseq [
     cfld ACCESS3args_t.object ACCESS3args_t.object_update xdr_unpack_nfs_fh3,
     cfld ACCESS3args_t.access ACCESS3args_t.access_update (into xdr_unpack_uint32)]"

definition cenc_ACCESS3args :: "ACCESS3args_t \<Rightarrow> bytes" where
  "cenc_ACCESS3args ob =
     cenc_nfs_fh3 (ACCESS3args_t.object ob) @
     be32 (ACCESS3args_t.access ob)"

definition cok_ACCESS3args :: "ACCESS3args_t \<Rightarrow> bool" where
  "cok_ACCESS3args ob \<longleftrightarrow> cok_nfs_fh3 (ACCESS3args_t.object ob)"

definition covr_ACCESS3args :: "ACCESS3args_t \<Rightarrow> ACCESS3args_t \<Rightarrow> ACCESS3args_t" where
  "covr_ACCESS3args x0 x =
     \<lparr>ACCESS3args_t.object = covr_nfs_fh3 (ACCESS3args_t.object x0) (ACCESS3args_t.object x),
      ACCESS3args_t.access = ACCESS3args_t.access x\<rparr>"

definition cdst_ACCESS3args :: "ACCESS3args_t \<Rightarrow> bool" where
  "cdst_ACCESS3args ob \<longleftrightarrow> cdst_nfs_fh3 (ACCESS3args_t.object ob)"

definition cblocks_ACCESS3args :: "ACCESS3args_t \<Rightarrow> int" where
  "cblocks_ACCESS3args ob = cblocks_nfs_fh3 (ACCESS3args_t.object ob)"

interpretation ACCESS3args_c: c_codec
  xdr_pack_ACCESS3args xdr_unpack_ACCESS3args cenc_ACCESS3args
  covr_ACCESS3args cok_ACCESS3args cdst_ACCESS3args cblocks_ACCESS3args
proof unfold_locales
  fix x x0 :: ACCESS3args_t
  show "cencodes (xdr_pack_ACCESS3args x) (cenc_ACCESS3args x)" if "cok_ACCESS3args x"
    unfolding xdr_pack_ACCESS3args_def cenc_ACCESS3args_def
    using that [unfolded cok_ACCESS3args_def] by (intro cxenc TrueI) auto
  show "cdecodes (xdr_unpack_ACCESS3args x0) (cenc_ACCESS3args x) (covr_ACCESS3args x0 x) (cblocks_ACCESS3args (covr_ACCESS3args x0 x) - cblocks_ACCESS3args x0)" if "cok_ACCESS3args x" "cdst_ACCESS3args x0"
    unfolding xdr_unpack_ACCESS3args_def cenc_ACCESS3args_def
    by (rule cdecodes_cong, (rule cxdec TrueI |
        (use that in \<open>simp add: cok_ACCESS3args_def cdst_ACCESS3args_def; fail\<close>) |
        (use that in \<open>cases x, cases x0, simp add: covr_ACCESS3args_def cdst_ACCESS3args_def cblocks_ACCESS3args_def; fail\<close>))+)
  show "creader (xdr_unpack_ACCESS3args x0)" if "cdst_ACCESS3args x0"
    unfolding xdr_unpack_ACCESS3args_def 
    by ((rule cxrd_at | rule cxrd | (use that in \<open>simp add: cdst_ACCESS3args_def; fail\<close>))+)
  show "cok_ACCESS3args (covr_ACCESS3args x0 x)" if "cok_ACCESS3args x"
    using that by (auto simp: cok_ACCESS3args_def covr_ACCESS3args_def nfs_fh3_c.ovr_enc nfs_fh3_c.ovr_ok nfs_fh3_c.ovr_dst chars_nonzero)
  show "cenc_ACCESS3args (covr_ACCESS3args x0 x) = cenc_ACCESS3args x" if "cok_ACCESS3args x"
    using that by (auto simp: cok_ACCESS3args_def covr_ACCESS3args_def cenc_ACCESS3args_def nfs_fh3_c.ovr_enc nfs_fh3_c.ovr_ok nfs_fh3_c.ovr_dst chars_nonzero)
  show "cdst_ACCESS3args (covr_ACCESS3args x0 x)" if "cok_ACCESS3args x" "cdst_ACCESS3args x0"
    using that by (auto simp: cok_ACCESS3args_def covr_ACCESS3args_def cdst_ACCESS3args_def nfs_fh3_c.ovr_enc nfs_fh3_c.ovr_ok nfs_fh3_c.ovr_dst)
qed

record ACCESS3resok_t =
  obj_attributes :: post_op_attr_t
  access :: uint32

definition zero_ACCESS3resok_t :: ACCESS3resok_t where
  "zero_ACCESS3resok_t = \<lparr>ACCESS3resok_t.obj_attributes = zero_post_op_attr_t,
     ACCESS3resok_t.access = 0\<rparr>"

definition xdr_pack_ACCESS3resok :: "ACCESS3resok_t \<Rightarrow> unit cx" where
  "xdr_pack_ACCESS3resok ob = cdo [
     xdr_pack_post_op_attr (ACCESS3resok_t.obj_attributes ob),
     xdr_pack_uint32 (ACCESS3resok_t.access ob)]"

definition xdr_unpack_ACCESS3resok :: "ACCESS3resok_t \<Rightarrow> ACCESS3resok_t cx" where
  "xdr_unpack_ACCESS3resok = cseq [
     cfld ACCESS3resok_t.obj_attributes ACCESS3resok_t.obj_attributes_update xdr_unpack_post_op_attr,
     cfld ACCESS3resok_t.access ACCESS3resok_t.access_update (into xdr_unpack_uint32)]"

definition cenc_ACCESS3resok :: "ACCESS3resok_t \<Rightarrow> bytes" where
  "cenc_ACCESS3resok ob =
     cenc_post_op_attr (ACCESS3resok_t.obj_attributes ob) @
     be32 (ACCESS3resok_t.access ob)"

definition covr_ACCESS3resok :: "ACCESS3resok_t \<Rightarrow> ACCESS3resok_t \<Rightarrow> ACCESS3resok_t" where
  "covr_ACCESS3resok x0 x =
     \<lparr>ACCESS3resok_t.obj_attributes = covr_post_op_attr (ACCESS3resok_t.obj_attributes x0) (ACCESS3resok_t.obj_attributes x),
      ACCESS3resok_t.access = ACCESS3resok_t.access x\<rparr>"

interpretation ACCESS3resok_c: c_codec
  xdr_pack_ACCESS3resok xdr_unpack_ACCESS3resok cenc_ACCESS3resok
  covr_ACCESS3resok "\<lambda>_. True" "\<lambda>_. True" "\<lambda>_. 0"
proof unfold_locales
  fix x x0 :: ACCESS3resok_t
  show "cencodes (xdr_pack_ACCESS3resok x) (cenc_ACCESS3resok x)"
    unfolding xdr_pack_ACCESS3resok_def cenc_ACCESS3resok_def by (intro cxenc TrueI)
  show "cdecodes (xdr_unpack_ACCESS3resok x0) (cenc_ACCESS3resok x) (covr_ACCESS3resok x0 x) (0 - 0)"
    unfolding xdr_unpack_ACCESS3resok_def cenc_ACCESS3resok_def
    by (rule cdecodes_cong, (rule cxdec TrueI |
        (cases x, cases x0, simp add: covr_ACCESS3resok_def; fail))+)
  show "creader (xdr_unpack_ACCESS3resok x0)"
    unfolding xdr_unpack_ACCESS3resok_def by (intro cxrd TrueI)
  show "cenc_ACCESS3resok (covr_ACCESS3resok x0 x) = cenc_ACCESS3resok x"
    by (auto simp: covr_ACCESS3resok_def cenc_ACCESS3resok_def post_op_attr_c.ovr_enc chars_nonzero)
qed simp_all

type_synonym ACCESS3res_t = "ACCESS3resok_t nfs_res_t"

definition xdr_pack_ACCESS3res :: "ACCESS3res_t \<Rightarrow> unit cx" where
  "xdr_pack_ACCESS3res = pack_res xdr_pack_ACCESS3resok"

definition xdr_unpack_ACCESS3res :: "ACCESS3res_t \<Rightarrow> ACCESS3res_t cx" where
  "xdr_unpack_ACCESS3res = unpack_res xdr_unpack_ACCESS3resok"

interpretation ACCESS3res_c: c_codec
  xdr_pack_ACCESS3res xdr_unpack_ACCESS3res "cenc_res cenc_ACCESS3resok" "covr_res covr_ACCESS3resok" "cok_res (\<lambda>_. True)" "\<lambda>_. True" "\<lambda>_. 0"
  unfolding xdr_pack_ACCESS3res_def xdr_unpack_ACCESS3res_def by (rule ACCESS3resok_c.res_codec)

section \<open>READLINK\<close>

record READLINK3args_t =
  symlink :: nfs_fh3_t

definition zero_READLINK3args_t :: READLINK3args_t where
  "zero_READLINK3args_t = \<lparr>READLINK3args_t.symlink = zero_nfs_fh3_t\<rparr>"

definition xdr_pack_READLINK3args :: "READLINK3args_t \<Rightarrow> unit cx" where
  "xdr_pack_READLINK3args ob = cdo [
     xdr_pack_nfs_fh3 (READLINK3args_t.symlink ob)]"

definition xdr_unpack_READLINK3args :: "READLINK3args_t \<Rightarrow> READLINK3args_t cx" where
  "xdr_unpack_READLINK3args = cseq [
     cfld READLINK3args_t.symlink READLINK3args_t.symlink_update xdr_unpack_nfs_fh3]"

definition cenc_READLINK3args :: "READLINK3args_t \<Rightarrow> bytes" where
  "cenc_READLINK3args ob =
     cenc_nfs_fh3 (READLINK3args_t.symlink ob)"

definition cok_READLINK3args :: "READLINK3args_t \<Rightarrow> bool" where
  "cok_READLINK3args ob \<longleftrightarrow> cok_nfs_fh3 (READLINK3args_t.symlink ob)"

definition covr_READLINK3args :: "READLINK3args_t \<Rightarrow> READLINK3args_t \<Rightarrow> READLINK3args_t" where
  "covr_READLINK3args x0 x =
     \<lparr>READLINK3args_t.symlink = covr_nfs_fh3 (READLINK3args_t.symlink x0) (READLINK3args_t.symlink x)\<rparr>"

definition cdst_READLINK3args :: "READLINK3args_t \<Rightarrow> bool" where
  "cdst_READLINK3args ob \<longleftrightarrow> cdst_nfs_fh3 (READLINK3args_t.symlink ob)"

definition cblocks_READLINK3args :: "READLINK3args_t \<Rightarrow> int" where
  "cblocks_READLINK3args ob = cblocks_nfs_fh3 (READLINK3args_t.symlink ob)"

interpretation READLINK3args_c: c_codec
  xdr_pack_READLINK3args xdr_unpack_READLINK3args cenc_READLINK3args
  covr_READLINK3args cok_READLINK3args cdst_READLINK3args cblocks_READLINK3args
proof unfold_locales
  fix x x0 :: READLINK3args_t
  show "cencodes (xdr_pack_READLINK3args x) (cenc_READLINK3args x)" if "cok_READLINK3args x"
    unfolding xdr_pack_READLINK3args_def cenc_READLINK3args_def
    using that [unfolded cok_READLINK3args_def] by (intro cxenc TrueI) auto
  show "cdecodes (xdr_unpack_READLINK3args x0) (cenc_READLINK3args x) (covr_READLINK3args x0 x) (cblocks_READLINK3args (covr_READLINK3args x0 x) - cblocks_READLINK3args x0)" if "cok_READLINK3args x" "cdst_READLINK3args x0"
    unfolding xdr_unpack_READLINK3args_def cenc_READLINK3args_def
    by (rule cdecodes_cong, (rule cxdec TrueI |
        (use that in \<open>simp add: cok_READLINK3args_def cdst_READLINK3args_def; fail\<close>) |
        (use that in \<open>cases x, cases x0, simp add: covr_READLINK3args_def cdst_READLINK3args_def cblocks_READLINK3args_def; fail\<close>))+)
  show "creader (xdr_unpack_READLINK3args x0)" if "cdst_READLINK3args x0"
    unfolding xdr_unpack_READLINK3args_def 
    by ((rule cxrd_at | rule cxrd | (use that in \<open>simp add: cdst_READLINK3args_def; fail\<close>))+)
  show "cok_READLINK3args (covr_READLINK3args x0 x)" if "cok_READLINK3args x"
    using that by (auto simp: cok_READLINK3args_def covr_READLINK3args_def nfs_fh3_c.ovr_enc nfs_fh3_c.ovr_ok nfs_fh3_c.ovr_dst chars_nonzero)
  show "cenc_READLINK3args (covr_READLINK3args x0 x) = cenc_READLINK3args x" if "cok_READLINK3args x"
    using that by (auto simp: cok_READLINK3args_def covr_READLINK3args_def cenc_READLINK3args_def nfs_fh3_c.ovr_enc nfs_fh3_c.ovr_ok nfs_fh3_c.ovr_dst chars_nonzero)
  show "cdst_READLINK3args (covr_READLINK3args x0 x)" if "cok_READLINK3args x" "cdst_READLINK3args x0"
    using that by (auto simp: cok_READLINK3args_def covr_READLINK3args_def cdst_READLINK3args_def nfs_fh3_c.ovr_enc nfs_fh3_c.ovr_ok nfs_fh3_c.ovr_dst)
qed

record READLINK3resok_t =
  symlink_attributes :: post_op_attr_t
  data :: "block ptr"

definition zero_READLINK3resok_t :: READLINK3resok_t where
  "zero_READLINK3resok_t = \<lparr>READLINK3resok_t.symlink_attributes = zero_post_op_attr_t,
     READLINK3resok_t.data = NULL\<rparr>"

definition c_readlink3resok_init :: READLINK3resok_t where
  "c_readlink3resok_init = zero_READLINK3resok_t"

definition c_readlink3resok_destroy :: "READLINK3resok_t \<Rightarrow> (heap, READLINK3resok_t) cm" where
  "c_readlink3resok_destroy ob =
     cbind (free (READLINK3resok_t.data ob)) (\<lambda>_.
     cret zero_READLINK3resok_t)"

definition xdr_pack_READLINK3resok :: "READLINK3resok_t \<Rightarrow> unit cx" where
  "xdr_pack_READLINK3resok ob = cdo [
     xdr_pack_post_op_attr (READLINK3resok_t.symlink_attributes ob),
     xdr_pack_cstring (READLINK3resok_t.data ob)]"

definition xdr_unpack_READLINK3resok :: "READLINK3resok_t \<Rightarrow> READLINK3resok_t cx" where
  "xdr_unpack_READLINK3resok = cseq [
     cfld READLINK3resok_t.symlink_attributes READLINK3resok_t.symlink_attributes_update xdr_unpack_post_op_attr,
     cfld READLINK3resok_t.data READLINK3resok_t.data_update (into xdr_unpack_cstring)]"

definition cenc_READLINK3resok :: "READLINK3resok_t \<Rightarrow> bytes" where
  "cenc_READLINK3resok ob =
     cenc_post_op_attr (READLINK3resok_t.symlink_attributes ob) @
     enc_opaque (chars (READLINK3resok_t.data ob))"

definition cok_READLINK3resok :: "READLINK3resok_t \<Rightarrow> bool" where
  "cok_READLINK3resok ob \<longleftrightarrow> is_cstring (READLINK3resok_t.data ob) \<and> length (chars (READLINK3resok_t.data ob)) < UINT32_MAX"

definition covr_READLINK3resok :: "READLINK3resok_t \<Rightarrow> READLINK3resok_t \<Rightarrow> READLINK3resok_t" where
  "covr_READLINK3resok x0 x =
     \<lparr>READLINK3resok_t.symlink_attributes = covr_post_op_attr (READLINK3resok_t.symlink_attributes x0) (READLINK3resok_t.symlink_attributes x),
      READLINK3resok_t.data = Owned (cstring (chars (READLINK3resok_t.data x)))\<rparr>"

definition cdst_READLINK3resok :: "READLINK3resok_t \<Rightarrow> bool" where
  "cdst_READLINK3resok ob \<longleftrightarrow> READLINK3resok_t.data ob = NULL"

definition cblocks_READLINK3resok :: "READLINK3resok_t \<Rightarrow> int" where
  "cblocks_READLINK3resok ob = held (READLINK3resok_t.data ob)"

definition crel_READLINK3resok :: "READLINK3resok_t \<Rightarrow> bool" where
  "crel_READLINK3resok ob \<longleftrightarrow> releasable (READLINK3resok_t.data ob)"

interpretation READLINK3resok_obj: c_object c_readlink3resok_destroy zero_READLINK3resok_t crel_READLINK3resok cblocks_READLINK3resok
  by unfold_locales
    (auto simp: c_readlink3resok_destroy_def crel_READLINK3resok_def cblocks_READLINK3resok_def cbind_def free_releasable cxdestroy zero_READLINK3resok_t_def)

interpretation READLINK3resok_c: c_fresh
  xdr_pack_READLINK3resok xdr_unpack_READLINK3resok cenc_READLINK3resok
  covr_READLINK3resok cok_READLINK3resok cdst_READLINK3resok cblocks_READLINK3resok c_readlink3resok_destroy zero_READLINK3resok_t crel_READLINK3resok
proof unfold_locales
  fix x x0 :: READLINK3resok_t
  show "cencodes (xdr_pack_READLINK3resok x) (cenc_READLINK3resok x)" if "cok_READLINK3resok x"
    unfolding xdr_pack_READLINK3resok_def cenc_READLINK3resok_def
    using that [unfolded cok_READLINK3resok_def] by (intro cxenc TrueI) auto
  show "cdecodes (xdr_unpack_READLINK3resok x0) (cenc_READLINK3resok x) (covr_READLINK3resok x0 x) (cblocks_READLINK3resok (covr_READLINK3resok x0 x) - cblocks_READLINK3resok x0)" if "cok_READLINK3resok x" "cdst_READLINK3resok x0"
    unfolding xdr_unpack_READLINK3resok_def cenc_READLINK3resok_def
    by (rule cdecodes_cong, (rule cxdec TrueI |
        (use that in \<open>simp add: cok_READLINK3resok_def cdst_READLINK3resok_def; fail\<close>) |
        (use that in \<open>cases x, cases x0, simp add: covr_READLINK3resok_def cdst_READLINK3resok_def cblocks_READLINK3resok_def; fail\<close>))+)
  show "creader (xdr_unpack_READLINK3resok x0)" if "cdst_READLINK3resok x0"
    unfolding xdr_unpack_READLINK3resok_def 
    by ((rule cxrd_at | rule cxrd | (use that in \<open>simp add: cdst_READLINK3resok_def; fail\<close>))+)
  show "cdst_READLINK3resok zero_READLINK3resok_t" by (simp add: cdst_READLINK3resok_def zero_READLINK3resok_t_def)
  show "cok_READLINK3resok (covr_READLINK3resok zero_READLINK3resok_t x)" if "cok_READLINK3resok x"
    using that by (auto simp: cok_READLINK3resok_def covr_READLINK3resok_def zero_READLINK3resok_t_def post_op_attr_c.ovr_enc  chars_nonzero)
  show "cenc_READLINK3resok (covr_READLINK3resok zero_READLINK3resok_t x) = cenc_READLINK3resok x" if "cok_READLINK3resok x"
    using that by (auto simp: cok_READLINK3resok_def covr_READLINK3resok_def cenc_READLINK3resok_def zero_READLINK3resok_t_def post_op_attr_c.ovr_enc  chars_nonzero)
  show "crel_READLINK3resok (covr_READLINK3resok zero_READLINK3resok_t x)" if "cok_READLINK3resok x"
    using that by (auto simp: cok_READLINK3resok_def covr_READLINK3resok_def crel_READLINK3resok_def zero_READLINK3resok_t_def post_op_attr_c.ovr_enc )
qed

type_synonym READLINK3res_t = "READLINK3resok_t nfs_res_t"

definition c_readlink3res_init :: READLINK3res_t where
  "c_readlink3res_init = (zero_res zero_READLINK3resok_t)\<lparr>nfs_res_t.resok := c_readlink3resok_init\<rparr>"

definition c_readlink3res_destroy :: "READLINK3res_t \<Rightarrow> (heap, READLINK3res_t) cm" where
  "c_readlink3res_destroy = destroy_res c_readlink3resok_destroy zero_READLINK3resok_t"

definition xdr_pack_READLINK3res :: "READLINK3res_t \<Rightarrow> unit cx" where
  "xdr_pack_READLINK3res = pack_res xdr_pack_READLINK3resok"

definition xdr_unpack_READLINK3res :: "READLINK3res_t \<Rightarrow> READLINK3res_t cx" where
  "xdr_unpack_READLINK3res ob = cbind (on_heap (c_readlink3res_destroy ob)) (unpack_res xdr_unpack_READLINK3resok)"

interpretation READLINK3res_c: c_managed
  xdr_pack_READLINK3res xdr_unpack_READLINK3res "cenc_res cenc_READLINK3resok" "\<lambda>_. covr_res covr_READLINK3resok (zero_res zero_READLINK3resok_t)"
  "cok_res cok_READLINK3resok" "\<lambda>ob. crel_READLINK3resok (nfs_res_t.resok ob)" "\<lambda>ob. cblocks_READLINK3resok (nfs_res_t.resok ob)"
  c_readlink3res_destroy "zero_res zero_READLINK3resok_t"
  unfolding xdr_pack_READLINK3res_def xdr_unpack_READLINK3res_def [abs_def] c_readlink3res_destroy_def by (rule READLINK3resok_c.res_managed)

section \<open>READ\<close>

record READ3args_t =
  file3 :: nfs_fh3_t
  offset :: uint64
  count :: uint32

definition zero_READ3args_t :: READ3args_t where
  "zero_READ3args_t = \<lparr>READ3args_t.file3 = zero_nfs_fh3_t,
     READ3args_t.offset = 0,
     READ3args_t.count = 0\<rparr>"

definition xdr_pack_READ3args :: "READ3args_t \<Rightarrow> unit cx" where
  "xdr_pack_READ3args ob = cdo [
     xdr_pack_nfs_fh3 (READ3args_t.file3 ob),
     xdr_pack_uint64 (READ3args_t.offset ob),
     xdr_pack_uint32 (READ3args_t.count ob)]"

definition xdr_unpack_READ3args :: "READ3args_t \<Rightarrow> READ3args_t cx" where
  "xdr_unpack_READ3args = cseq [
     cfld READ3args_t.file3 READ3args_t.file3_update xdr_unpack_nfs_fh3,
     cfld READ3args_t.offset READ3args_t.offset_update (into xdr_unpack_uint64),
     cfld READ3args_t.count READ3args_t.count_update (into xdr_unpack_uint32)]"

definition cenc_READ3args :: "READ3args_t \<Rightarrow> bytes" where
  "cenc_READ3args ob =
     cenc_nfs_fh3 (READ3args_t.file3 ob) @
     be64 (READ3args_t.offset ob) @
     be32 (READ3args_t.count ob)"

definition cok_READ3args :: "READ3args_t \<Rightarrow> bool" where
  "cok_READ3args ob \<longleftrightarrow> cok_nfs_fh3 (READ3args_t.file3 ob)"

definition covr_READ3args :: "READ3args_t \<Rightarrow> READ3args_t \<Rightarrow> READ3args_t" where
  "covr_READ3args x0 x =
     \<lparr>READ3args_t.file3 = covr_nfs_fh3 (READ3args_t.file3 x0) (READ3args_t.file3 x),
      READ3args_t.offset = READ3args_t.offset x,
      READ3args_t.count = READ3args_t.count x\<rparr>"

definition cdst_READ3args :: "READ3args_t \<Rightarrow> bool" where
  "cdst_READ3args ob \<longleftrightarrow> cdst_nfs_fh3 (READ3args_t.file3 ob)"

definition cblocks_READ3args :: "READ3args_t \<Rightarrow> int" where
  "cblocks_READ3args ob = cblocks_nfs_fh3 (READ3args_t.file3 ob)"

interpretation READ3args_c: c_codec
  xdr_pack_READ3args xdr_unpack_READ3args cenc_READ3args
  covr_READ3args cok_READ3args cdst_READ3args cblocks_READ3args
proof unfold_locales
  fix x x0 :: READ3args_t
  show "cencodes (xdr_pack_READ3args x) (cenc_READ3args x)" if "cok_READ3args x"
    unfolding xdr_pack_READ3args_def cenc_READ3args_def
    using that [unfolded cok_READ3args_def] by (intro cxenc TrueI) auto
  show "cdecodes (xdr_unpack_READ3args x0) (cenc_READ3args x) (covr_READ3args x0 x) (cblocks_READ3args (covr_READ3args x0 x) - cblocks_READ3args x0)" if "cok_READ3args x" "cdst_READ3args x0"
    unfolding xdr_unpack_READ3args_def cenc_READ3args_def
    by (rule cdecodes_cong, (rule cxdec TrueI |
        (use that in \<open>simp add: cok_READ3args_def cdst_READ3args_def; fail\<close>) |
        (use that in \<open>cases x, cases x0, simp add: covr_READ3args_def cdst_READ3args_def cblocks_READ3args_def; fail\<close>))+)
  show "creader (xdr_unpack_READ3args x0)" if "cdst_READ3args x0"
    unfolding xdr_unpack_READ3args_def 
    by ((rule cxrd_at | rule cxrd | (use that in \<open>simp add: cdst_READ3args_def; fail\<close>))+)
  show "cok_READ3args (covr_READ3args x0 x)" if "cok_READ3args x"
    using that by (auto simp: cok_READ3args_def covr_READ3args_def nfs_fh3_c.ovr_enc nfs_fh3_c.ovr_ok nfs_fh3_c.ovr_dst chars_nonzero)
  show "cenc_READ3args (covr_READ3args x0 x) = cenc_READ3args x" if "cok_READ3args x"
    using that by (auto simp: cok_READ3args_def covr_READ3args_def cenc_READ3args_def nfs_fh3_c.ovr_enc nfs_fh3_c.ovr_ok nfs_fh3_c.ovr_dst chars_nonzero)
  show "cdst_READ3args (covr_READ3args x0 x)" if "cok_READ3args x" "cdst_READ3args x0"
    using that by (auto simp: cok_READ3args_def covr_READ3args_def cdst_READ3args_def nfs_fh3_c.ovr_enc nfs_fh3_c.ovr_ok nfs_fh3_c.ovr_dst)
qed

record READ3resok_t =
  file_attributes :: post_op_attr_t
  count :: uint32
  eof :: cint
  data :: "block ptr"
  data_len :: uint32

definition zero_READ3resok_t :: READ3resok_t where
  "zero_READ3resok_t = \<lparr>READ3resok_t.file_attributes = zero_post_op_attr_t,
     READ3resok_t.count = 0,
     READ3resok_t.eof = 0,
     READ3resok_t.data = NULL,
     READ3resok_t.data_len = 0\<rparr>"

definition c_read3resok_init :: READ3resok_t where
  "c_read3resok_init = zero_READ3resok_t"

definition c_read3resok_destroy :: "READ3resok_t \<Rightarrow> (heap, READ3resok_t) cm" where
  "c_read3resok_destroy ob =
     cbind (free (READ3resok_t.data ob)) (\<lambda>_.
     cret zero_READ3resok_t)"

text \<open>The locals \<^verbatim>\<open>d\<close> and \<^verbatim>\<open>len\<close> of the decoder, copied whether or not they were assigned.\<close>

definition read3_data :: "READ3resok_t \<Rightarrow> READ3resok_t cx" where
  "read3_data ob = cbind xdr_unpack_opaque (\<lambda>(d, n). case (d, n) of
     (Some d, Some n) \<Rightarrow> cret (ob\<lparr>READ3resok_t.data := d, READ3resok_t.data_len := n\<rparr>)
   | _ \<Rightarrow> cfault Uninitialised)"

lemma cdecodes_read3_data [cxdec]:
  "filled p (unat n) \<Longrightarrow> cdecodes (read3_data ob) (enc_opaque (contents p (unat n)))
     (ob\<lparr>READ3resok_t.data := block_of (contents p (unat n)) n, READ3resok_t.data_len := n\<rparr>) 1"
  unfolding read3_data_def by (rule cdecodes_opaque_then) (simp_all add: length_contents del: cret_apply)

lemma creader_read3_data [cxrd]: "creader (read3_data ob)"
  unfolding read3_data_def
  by (rule creader_bind [OF creader_opaque]) (auto split: option.split intro: cxrd creader_uninit)

definition xdr_pack_READ3resok :: "READ3resok_t \<Rightarrow> unit cx" where
  "xdr_pack_READ3resok ob = cdo [
     xdr_pack_post_op_attr (READ3resok_t.file_attributes ob),
     xdr_pack_uint32 (READ3resok_t.count ob),
     xdr_pack_bool (READ3resok_t.eof ob),
     xdr_pack_opaque (READ3resok_t.data ob) (READ3resok_t.data_len ob)]"

definition xdr_unpack_READ3resok :: "READ3resok_t \<Rightarrow> READ3resok_t cx" where
  "xdr_unpack_READ3resok = cseq [
     cfld READ3resok_t.file_attributes READ3resok_t.file_attributes_update xdr_unpack_post_op_attr,
     cfld READ3resok_t.count READ3resok_t.count_update (into xdr_unpack_uint32),
     cfld READ3resok_t.eof READ3resok_t.eof_update (into xdr_unpack_bool),
     read3_data]"

definition cenc_READ3resok :: "READ3resok_t \<Rightarrow> bytes" where
  "cenc_READ3resok ob =
     cenc_post_op_attr (READ3resok_t.file_attributes ob) @
     be32 (READ3resok_t.count ob) @
     enc_bool (READ3resok_t.eof ob \<noteq> 0) @
     enc_opaque (contents (READ3resok_t.data ob) (unat (READ3resok_t.data_len ob)))"

definition cok_READ3resok :: "READ3resok_t \<Rightarrow> bool" where
  "cok_READ3resok ob \<longleftrightarrow> filled (READ3resok_t.data ob) (unat (READ3resok_t.data_len ob))"

definition covr_READ3resok :: "READ3resok_t \<Rightarrow> READ3resok_t \<Rightarrow> READ3resok_t" where
  "covr_READ3resok x0 x =
     \<lparr>READ3resok_t.file_attributes = covr_post_op_attr (READ3resok_t.file_attributes x0) (READ3resok_t.file_attributes x),
      READ3resok_t.count = READ3resok_t.count x,
      READ3resok_t.eof = tv (READ3resok_t.eof x),
      READ3resok_t.data = block_of (contents (READ3resok_t.data x) (unat (READ3resok_t.data_len x))) (READ3resok_t.data_len x),
      READ3resok_t.data_len = READ3resok_t.data_len x\<rparr>"

definition cdst_READ3resok :: "READ3resok_t \<Rightarrow> bool" where
  "cdst_READ3resok ob \<longleftrightarrow> READ3resok_t.data ob = NULL"

definition cblocks_READ3resok :: "READ3resok_t \<Rightarrow> int" where
  "cblocks_READ3resok ob = held (READ3resok_t.data ob)"

definition crel_READ3resok :: "READ3resok_t \<Rightarrow> bool" where
  "crel_READ3resok ob \<longleftrightarrow> releasable (READ3resok_t.data ob)"

interpretation READ3resok_obj: c_object c_read3resok_destroy zero_READ3resok_t crel_READ3resok cblocks_READ3resok
  by unfold_locales
    (auto simp: c_read3resok_destroy_def crel_READ3resok_def cblocks_READ3resok_def cbind_def free_releasable cxdestroy zero_READ3resok_t_def)

interpretation READ3resok_c: c_fresh
  xdr_pack_READ3resok xdr_unpack_READ3resok cenc_READ3resok
  covr_READ3resok cok_READ3resok cdst_READ3resok cblocks_READ3resok c_read3resok_destroy zero_READ3resok_t crel_READ3resok
proof unfold_locales
  fix x x0 :: READ3resok_t
  show "cencodes (xdr_pack_READ3resok x) (cenc_READ3resok x)" if "cok_READ3resok x"
    unfolding xdr_pack_READ3resok_def cenc_READ3resok_def
    using that [unfolded cok_READ3resok_def] by (intro cxenc TrueI) auto
  show "cdecodes (xdr_unpack_READ3resok x0) (cenc_READ3resok x) (covr_READ3resok x0 x) (cblocks_READ3resok (covr_READ3resok x0 x) - cblocks_READ3resok x0)" if "cok_READ3resok x" "cdst_READ3resok x0"
    unfolding xdr_unpack_READ3resok_def cenc_READ3resok_def
    by (rule cdecodes_cong, (rule cxdec TrueI |
        (use that in \<open>simp add: cok_READ3resok_def cdst_READ3resok_def; fail\<close>) |
        (use that in \<open>cases x, cases x0, simp add: covr_READ3resok_def cdst_READ3resok_def cblocks_READ3resok_def; fail\<close>))+)
  show "creader (xdr_unpack_READ3resok x0)" if "cdst_READ3resok x0"
    unfolding xdr_unpack_READ3resok_def 
    by ((rule cxrd_at | rule cxrd | (use that in \<open>simp add: cdst_READ3resok_def; fail\<close>))+)
  show "cdst_READ3resok zero_READ3resok_t" by (simp add: cdst_READ3resok_def zero_READ3resok_t_def)
  show "cok_READ3resok (covr_READ3resok zero_READ3resok_t x)" if "cok_READ3resok x"
    using that by (auto simp: cok_READ3resok_def covr_READ3resok_def zero_READ3resok_t_def post_op_attr_c.ovr_enc contents_block_of filled_block_of length_contents chars_nonzero)
  show "cenc_READ3resok (covr_READ3resok zero_READ3resok_t x) = cenc_READ3resok x" if "cok_READ3resok x"
    using that by (auto simp: cok_READ3resok_def covr_READ3resok_def cenc_READ3resok_def zero_READ3resok_t_def post_op_attr_c.ovr_enc contents_block_of filled_block_of length_contents chars_nonzero)
  show "crel_READ3resok (covr_READ3resok zero_READ3resok_t x)" if "cok_READ3resok x"
    using that by (auto simp: cok_READ3resok_def covr_READ3resok_def crel_READ3resok_def zero_READ3resok_t_def post_op_attr_c.ovr_enc contents_block_of filled_block_of length_contents)
qed

type_synonym READ3res_t = "READ3resok_t nfs_res_t"

definition c_read3res_init :: READ3res_t where
  "c_read3res_init = (zero_res zero_READ3resok_t)\<lparr>nfs_res_t.resok := c_read3resok_init\<rparr>"

definition c_read3res_destroy :: "READ3res_t \<Rightarrow> (heap, READ3res_t) cm" where
  "c_read3res_destroy = destroy_res c_read3resok_destroy zero_READ3resok_t"

definition xdr_pack_READ3res :: "READ3res_t \<Rightarrow> unit cx" where
  "xdr_pack_READ3res = pack_res xdr_pack_READ3resok"

definition xdr_unpack_READ3res :: "READ3res_t \<Rightarrow> READ3res_t cx" where
  "xdr_unpack_READ3res ob = cbind (on_heap (c_read3res_destroy ob)) (unpack_res xdr_unpack_READ3resok)"

interpretation READ3res_c: c_managed
  xdr_pack_READ3res xdr_unpack_READ3res "cenc_res cenc_READ3resok" "\<lambda>_. covr_res covr_READ3resok (zero_res zero_READ3resok_t)"
  "cok_res cok_READ3resok" "\<lambda>ob. crel_READ3resok (nfs_res_t.resok ob)" "\<lambda>ob. cblocks_READ3resok (nfs_res_t.resok ob)"
  c_read3res_destroy "zero_res zero_READ3resok_t"
  unfolding xdr_pack_READ3res_def xdr_unpack_READ3res_def [abs_def] c_read3res_destroy_def by (rule READ3resok_c.res_managed)

section \<open>WRITE\<close>

record WRITE3args_t =
  file3 :: nfs_fh3_t
  offset :: uint64
  count :: uint32
  stable :: uint32
  data :: "block ptr"
  data_len :: uint32

definition zero_WRITE3args_t :: WRITE3args_t where
  "zero_WRITE3args_t = \<lparr>WRITE3args_t.file3 = zero_nfs_fh3_t,
     WRITE3args_t.offset = 0,
     WRITE3args_t.count = 0,
     WRITE3args_t.stable = 0,
     WRITE3args_t.data = NULL,
     WRITE3args_t.data_len = 0\<rparr>"

definition c_write3args_init :: WRITE3args_t where
  "c_write3args_init = zero_WRITE3args_t\<lparr>WRITE3args_t.file3 := c_nfs_fh3_init\<rparr>"

definition c_write3args_destroy :: "WRITE3args_t \<Rightarrow> (heap, WRITE3args_t) cm" where
  "c_write3args_destroy ob =
     cbind (c_nfs_fh3_destroy (WRITE3args_t.file3 ob)) (\<lambda>_.
     cbind (free (WRITE3args_t.data ob)) (\<lambda>_.
     cret zero_WRITE3args_t))"

text \<open>\<^verbatim>\<open>free(args->data)\<close>, the read into \<^verbatim>\<open>args->data\<close> and the local \<^verbatim>\<open>len\<close>: where the data are cut
  short the pointer keeps the address just released.\<close>

definition write3_data :: "WRITE3args_t \<Rightarrow> WRITE3args_t cx" where
  "write3_data ob =
     cbind (on_heap (free (WRITE3args_t.data ob))) (\<lambda>p.
     cbind xdr_unpack_opaque (\<lambda>(d, n). case n of
       None \<Rightarrow> cfault Uninitialised
     | Some n \<Rightarrow> cret (ob\<lparr>WRITE3args_t.data := (case d of None \<Rightarrow> p | Some d \<Rightarrow> d), WRITE3args_t.data_len := n\<rparr>)))"

lemma cdecodes_write3_data [cxdec]:
  assumes "releasable (WRITE3args_t.data ob)" and "filled q (unat n)"
  shows "cdecodes (write3_data ob) (enc_opaque (contents q (unat n)))
     (ob\<lparr>WRITE3args_t.data := block_of (contents q (unat n)) n, WRITE3args_t.data_len := n\<rparr>) (1 - held (WRITE3args_t.data ob))"
proof -
  have "cdecodes (cbind xdr_unpack_opaque (\<lambda>(d, n). case n of
       None \<Rightarrow> cfault Uninitialised
     | Some n \<Rightarrow> cret (ob\<lparr>WRITE3args_t.data := (case d of None \<Rightarrow> p | Some d \<Rightarrow> d), WRITE3args_t.data_len := n\<rparr>)))
     (enc_opaque (contents q (unat n)))
     (ob\<lparr>WRITE3args_t.data := block_of (contents q (unat n)) n, WRITE3args_t.data_len := n\<rparr>) 1" for p
    using assms(2) by (intro cdecodes_opaque_then) (simp_all add: length_contents del: cret_apply)
  from cdecodes_bind [OF cdecodes_free [OF assms(1)] this] show ?thesis
    by (simp add: write3_data_def)
qed

lemma creader_write3_data: "releasable (WRITE3args_t.data ob) \<Longrightarrow> creader (write3_data ob)"
  unfolding write3_data_def
  by (intro creader_bind creader_free cxrd) (auto split: prod.split option.split intro: cxrd creader_uninit)

definition xdr_pack_WRITE3args :: "WRITE3args_t \<Rightarrow> unit cx" where
  "xdr_pack_WRITE3args ob = cdo [
     xdr_pack_nfs_fh3 (WRITE3args_t.file3 ob),
     xdr_pack_uint64 (WRITE3args_t.offset ob),
     xdr_pack_uint32 (WRITE3args_t.count ob),
     xdr_pack_uint32 (WRITE3args_t.stable ob),
     xdr_pack_opaque (WRITE3args_t.data ob) (WRITE3args_t.count ob)]"

definition xdr_unpack_WRITE3args :: "WRITE3args_t \<Rightarrow> WRITE3args_t cx" where
  "xdr_unpack_WRITE3args = cseq [
     cfld WRITE3args_t.file3 WRITE3args_t.file3_update xdr_unpack_nfs_fh3,
     cfld WRITE3args_t.offset WRITE3args_t.offset_update (into xdr_unpack_uint64),
     cfld WRITE3args_t.count WRITE3args_t.count_update (into xdr_unpack_uint32),
     cfld WRITE3args_t.stable WRITE3args_t.stable_update (\<lambda>_. into_local xdr_unpack_uint32),
     write3_data]"

definition cenc_WRITE3args :: "WRITE3args_t \<Rightarrow> bytes" where
  "cenc_WRITE3args ob =
     cenc_nfs_fh3 (WRITE3args_t.file3 ob) @
     be64 (WRITE3args_t.offset ob) @
     be32 (WRITE3args_t.count ob) @
     be32 (WRITE3args_t.stable ob) @
     enc_opaque (contents (WRITE3args_t.data ob) (unat (WRITE3args_t.count ob)))"

definition cok_WRITE3args :: "WRITE3args_t \<Rightarrow> bool" where
  "cok_WRITE3args ob \<longleftrightarrow> cok_nfs_fh3 (WRITE3args_t.file3 ob) \<and>
     filled (WRITE3args_t.data ob) (unat (WRITE3args_t.count ob))"

definition covr_WRITE3args :: "WRITE3args_t \<Rightarrow> WRITE3args_t \<Rightarrow> WRITE3args_t" where
  "covr_WRITE3args x0 x =
     \<lparr>WRITE3args_t.file3 = covr_nfs_fh3 (WRITE3args_t.file3 x0) (WRITE3args_t.file3 x),
      WRITE3args_t.offset = WRITE3args_t.offset x,
      WRITE3args_t.count = WRITE3args_t.count x,
      WRITE3args_t.stable = WRITE3args_t.stable x,
      WRITE3args_t.data = block_of (contents (WRITE3args_t.data x) (unat (WRITE3args_t.count x))) (WRITE3args_t.count x),
      WRITE3args_t.data_len = WRITE3args_t.count x\<rparr>"

definition cdst_WRITE3args :: "WRITE3args_t \<Rightarrow> bool" where
  "cdst_WRITE3args ob \<longleftrightarrow> cdst_nfs_fh3 (WRITE3args_t.file3 ob) \<and> releasable (WRITE3args_t.data ob)"

definition cblocks_WRITE3args :: "WRITE3args_t \<Rightarrow> int" where
  "cblocks_WRITE3args ob = cblocks_nfs_fh3 (WRITE3args_t.file3 ob) + held (WRITE3args_t.data ob)"

interpretation WRITE3args_obj: c_object c_write3args_destroy zero_WRITE3args_t cdst_WRITE3args cblocks_WRITE3args
  by unfold_locales
    (auto simp: c_write3args_destroy_def cdst_WRITE3args_def cblocks_WRITE3args_def cbind_def free_releasable cxdestroy zero_WRITE3args_t_def)

interpretation WRITE3args_c: c_managed
  xdr_pack_WRITE3args xdr_unpack_WRITE3args cenc_WRITE3args
  covr_WRITE3args cok_WRITE3args cdst_WRITE3args cblocks_WRITE3args c_write3args_destroy zero_WRITE3args_t
proof unfold_locales
  fix x x0 :: WRITE3args_t
  show "cencodes (xdr_pack_WRITE3args x) (cenc_WRITE3args x)" if "cok_WRITE3args x"
    unfolding xdr_pack_WRITE3args_def cenc_WRITE3args_def
    using that [unfolded cok_WRITE3args_def] by (intro cxenc TrueI) auto
  show "cdecodes (xdr_unpack_WRITE3args x0) (cenc_WRITE3args x) (covr_WRITE3args x0 x) (cblocks_WRITE3args (covr_WRITE3args x0 x) - cblocks_WRITE3args x0)" if "cok_WRITE3args x" "cdst_WRITE3args x0"
    unfolding xdr_unpack_WRITE3args_def cenc_WRITE3args_def
    by (rule cdecodes_cong, (rule cxdec TrueI |
        (use that in \<open>simp add: cok_WRITE3args_def cdst_WRITE3args_def; fail\<close>) |
        (use that in \<open>cases x, cases x0, simp add: covr_WRITE3args_def cdst_WRITE3args_def cblocks_WRITE3args_def; fail\<close>))+)
  show "creader (xdr_unpack_WRITE3args x0)" if "cdst_WRITE3args x0"
    unfolding xdr_unpack_WRITE3args_def 
    by ((rule cxrd_at creader_write3_data | rule cxrd | (use that in \<open>simp add: cdst_WRITE3args_def; fail\<close>))+)
  show "cok_WRITE3args (covr_WRITE3args x0 x)" if "cok_WRITE3args x"
    using that by (auto simp: contents_block_of filled_block_of length_contents cok_WRITE3args_def covr_WRITE3args_def nfs_fh3_c.ovr_enc nfs_fh3_c.ovr_ok nfs_fh3_c.ovr_dst chars_nonzero)
  show "cenc_WRITE3args (covr_WRITE3args x0 x) = cenc_WRITE3args x" if "cok_WRITE3args x"
    using that by (auto simp: contents_block_of filled_block_of length_contents cok_WRITE3args_def covr_WRITE3args_def cenc_WRITE3args_def nfs_fh3_c.ovr_enc nfs_fh3_c.ovr_ok nfs_fh3_c.ovr_dst chars_nonzero)
  show "cdst_WRITE3args (covr_WRITE3args x0 x)" if "cok_WRITE3args x" "cdst_WRITE3args x0"
    using that by (auto simp: contents_block_of filled_block_of length_contents cok_WRITE3args_def covr_WRITE3args_def cdst_WRITE3args_def nfs_fh3_c.ovr_enc nfs_fh3_c.ovr_ok nfs_fh3_c.ovr_dst)
qed

record WRITE3resok_t =
  file_wcc :: wcc_data_t
  count :: uint32
  committed :: uint32
  verf :: writeverf3_t

definition zero_WRITE3resok_t :: WRITE3resok_t where
  "zero_WRITE3resok_t = \<lparr>WRITE3resok_t.file_wcc = zero_wcc_data_t,
     WRITE3resok_t.count = 0,
     WRITE3resok_t.committed = 0,
     WRITE3resok_t.verf = zero_writeverf3_t\<rparr>"

definition xdr_pack_WRITE3resok :: "WRITE3resok_t \<Rightarrow> unit cx" where
  "xdr_pack_WRITE3resok ob = cdo [
     xdr_pack_wcc_data (WRITE3resok_t.file_wcc ob),
     xdr_pack_uint32 (WRITE3resok_t.count ob),
     xdr_pack_uint32 (WRITE3resok_t.committed ob),
     xdr_pack_writeverf3 (WRITE3resok_t.verf ob)]"

definition xdr_unpack_WRITE3resok :: "WRITE3resok_t \<Rightarrow> WRITE3resok_t cx" where
  "xdr_unpack_WRITE3resok = cseq [
     cfld WRITE3resok_t.file_wcc WRITE3resok_t.file_wcc_update xdr_unpack_wcc_data,
     cfld WRITE3resok_t.count WRITE3resok_t.count_update (into xdr_unpack_uint32),
     cfld WRITE3resok_t.committed WRITE3resok_t.committed_update (\<lambda>_. into_local xdr_unpack_uint32),
     cfld WRITE3resok_t.verf WRITE3resok_t.verf_update xdr_unpack_writeverf3]"

definition cenc_WRITE3resok :: "WRITE3resok_t \<Rightarrow> bytes" where
  "cenc_WRITE3resok ob =
     cenc_wcc_data (WRITE3resok_t.file_wcc ob) @
     be32 (WRITE3resok_t.count ob) @
     be32 (WRITE3resok_t.committed ob) @
     cenc_writeverf3 (WRITE3resok_t.verf ob)"

definition cok_WRITE3resok :: "WRITE3resok_t \<Rightarrow> bool" where
  "cok_WRITE3resok ob \<longleftrightarrow> cok_writeverf3 (WRITE3resok_t.verf ob)"

definition covr_WRITE3resok :: "WRITE3resok_t \<Rightarrow> WRITE3resok_t \<Rightarrow> WRITE3resok_t" where
  "covr_WRITE3resok x0 x =
     \<lparr>WRITE3resok_t.file_wcc = covr_wcc_data (WRITE3resok_t.file_wcc x0) (WRITE3resok_t.file_wcc x),
      WRITE3resok_t.count = WRITE3resok_t.count x,
      WRITE3resok_t.committed = WRITE3resok_t.committed x,
      WRITE3resok_t.verf = WRITE3resok_t.verf x\<rparr>"

interpretation WRITE3resok_c: c_codec
  xdr_pack_WRITE3resok xdr_unpack_WRITE3resok cenc_WRITE3resok
  covr_WRITE3resok cok_WRITE3resok "\<lambda>_. True" "\<lambda>_. 0"
proof unfold_locales
  fix x x0 :: WRITE3resok_t
  show "cencodes (xdr_pack_WRITE3resok x) (cenc_WRITE3resok x)" if "cok_WRITE3resok x"
    unfolding xdr_pack_WRITE3resok_def cenc_WRITE3resok_def
    using that [unfolded cok_WRITE3resok_def] by (intro cxenc TrueI) auto
  show "cdecodes (xdr_unpack_WRITE3resok x0) (cenc_WRITE3resok x) (covr_WRITE3resok x0 x) (0 - 0)" if "cok_WRITE3resok x"
    unfolding xdr_unpack_WRITE3resok_def cenc_WRITE3resok_def
    by (rule cdecodes_cong, (rule cxdec TrueI |
        (use that in \<open>simp add: cok_WRITE3resok_def; fail\<close>) |
        (cases x, cases x0, simp add: covr_WRITE3resok_def; fail))+)
  show "creader (xdr_unpack_WRITE3resok x0)"
    unfolding xdr_unpack_WRITE3resok_def by (intro cxrd TrueI)
  show "cok_WRITE3resok (covr_WRITE3resok x0 x)" if "cok_WRITE3resok x"
    using that by (auto simp: cok_WRITE3resok_def covr_WRITE3resok_def wcc_data_c.ovr_enc chars_nonzero)
  show "cenc_WRITE3resok (covr_WRITE3resok x0 x) = cenc_WRITE3resok x" if "cok_WRITE3resok x"
    using that by (auto simp: cok_WRITE3resok_def covr_WRITE3resok_def cenc_WRITE3resok_def wcc_data_c.ovr_enc chars_nonzero)
qed simp_all

record WRITE3resfail_t =
  file_wcc :: wcc_data_t

definition zero_WRITE3resfail_t :: WRITE3resfail_t where
  "zero_WRITE3resfail_t = \<lparr>WRITE3resfail_t.file_wcc = zero_wcc_data_t\<rparr>"

definition xdr_pack_WRITE3resfail :: "WRITE3resfail_t \<Rightarrow> unit cx" where
  "xdr_pack_WRITE3resfail ob = cdo [
     xdr_pack_wcc_data (WRITE3resfail_t.file_wcc ob)]"

definition xdr_unpack_WRITE3resfail :: "WRITE3resfail_t \<Rightarrow> WRITE3resfail_t cx" where
  "xdr_unpack_WRITE3resfail = cseq [
     cfld WRITE3resfail_t.file_wcc WRITE3resfail_t.file_wcc_update xdr_unpack_wcc_data]"

definition cenc_WRITE3resfail :: "WRITE3resfail_t \<Rightarrow> bytes" where
  "cenc_WRITE3resfail ob =
     cenc_wcc_data (WRITE3resfail_t.file_wcc ob)"

definition covr_WRITE3resfail :: "WRITE3resfail_t \<Rightarrow> WRITE3resfail_t \<Rightarrow> WRITE3resfail_t" where
  "covr_WRITE3resfail x0 x =
     \<lparr>WRITE3resfail_t.file_wcc = covr_wcc_data (WRITE3resfail_t.file_wcc x0) (WRITE3resfail_t.file_wcc x)\<rparr>"

interpretation WRITE3resfail_c: c_codec
  xdr_pack_WRITE3resfail xdr_unpack_WRITE3resfail cenc_WRITE3resfail
  covr_WRITE3resfail "\<lambda>_. True" "\<lambda>_. True" "\<lambda>_. 0"
proof unfold_locales
  fix x x0 :: WRITE3resfail_t
  show "cencodes (xdr_pack_WRITE3resfail x) (cenc_WRITE3resfail x)"
    unfolding xdr_pack_WRITE3resfail_def cenc_WRITE3resfail_def by (intro cxenc TrueI)
  show "cdecodes (xdr_unpack_WRITE3resfail x0) (cenc_WRITE3resfail x) (covr_WRITE3resfail x0 x) (0 - 0)"
    unfolding xdr_unpack_WRITE3resfail_def cenc_WRITE3resfail_def
    by (rule cdecodes_cong, (rule cxdec TrueI |
        (cases x, cases x0, simp add: covr_WRITE3resfail_def; fail))+)
  show "creader (xdr_unpack_WRITE3resfail x0)"
    unfolding xdr_unpack_WRITE3resfail_def by (intro cxrd TrueI)
  show "cenc_WRITE3resfail (covr_WRITE3resfail x0 x) = cenc_WRITE3resfail x"
    by (auto simp: covr_WRITE3resfail_def cenc_WRITE3resfail_def wcc_data_c.ovr_enc chars_nonzero)
qed simp_all

record WRITE3res_t =
  status :: uint32
  has_resok :: cint
  resok :: WRITE3resok_t
  resfail :: WRITE3resfail_t

definition zero_WRITE3res_t :: WRITE3res_t where
  "zero_WRITE3res_t = \<lparr>WRITE3res_t.status = 0,
     WRITE3res_t.has_resok = 0,
     WRITE3res_t.resok = zero_WRITE3resok_t,
     WRITE3res_t.resfail = zero_WRITE3resfail_t\<rparr>"

definition xdr_pack_WRITE3res :: "WRITE3res_t \<Rightarrow> unit cx" where
  "xdr_pack_WRITE3res ob = cdo [
     xdr_pack_uint32 (WRITE3res_t.status ob),
     if WRITE3res_t.status ob = NFS3_OK \<and> WRITE3res_t.has_resok ob \<noteq> 0 then xdr_pack_WRITE3resok (WRITE3res_t.resok ob)
     else xdr_pack_WRITE3resfail (WRITE3res_t.resfail ob)]"

definition xdr_unpack_WRITE3res :: "WRITE3res_t \<Rightarrow> WRITE3res_t cx" where
  "xdr_unpack_WRITE3res = cseq [
     cfld WRITE3res_t.status WRITE3res_t.status_update (\<lambda>_. into_local xdr_unpack_uint32),
     \<lambda>ob. cret (ob\<lparr>WRITE3res_t.has_resok := (if WRITE3res_t.status ob = NFS3_OK then 1 else 0)\<rparr>),
     \<lambda>ob. if WRITE3res_t.has_resok ob \<noteq> 0 then cfld WRITE3res_t.resok WRITE3res_t.resok_update xdr_unpack_WRITE3resok ob
          else cfld WRITE3res_t.resfail WRITE3res_t.resfail_update xdr_unpack_WRITE3resfail ob]"

definition cenc_WRITE3res :: "WRITE3res_t \<Rightarrow> bytes" where
  "cenc_WRITE3res ob =
     be32 (WRITE3res_t.status ob) @
     (if WRITE3res_t.status ob = NFS3_OK then cenc_WRITE3resok (WRITE3res_t.resok ob) else cenc_WRITE3resfail (WRITE3res_t.resfail ob))"

definition cok_WRITE3res :: "WRITE3res_t \<Rightarrow> bool" where
  "cok_WRITE3res ob \<longleftrightarrow> (WRITE3res_t.status ob = NFS3_OK \<longrightarrow> WRITE3res_t.has_resok ob \<noteq> 0 \<and> cok_WRITE3resok (WRITE3res_t.resok ob))"

definition covr_WRITE3res :: "WRITE3res_t \<Rightarrow> WRITE3res_t \<Rightarrow> WRITE3res_t" where
  "covr_WRITE3res x0 x =
     \<lparr>WRITE3res_t.status = WRITE3res_t.status x,
      WRITE3res_t.has_resok = (if WRITE3res_t.status x = NFS3_OK then 1 else 0),
      WRITE3res_t.resok = (if WRITE3res_t.status x = NFS3_OK then covr_WRITE3resok (WRITE3res_t.resok x0) (WRITE3res_t.resok x) else WRITE3res_t.resok x0),
      WRITE3res_t.resfail = (if WRITE3res_t.status x = NFS3_OK then WRITE3res_t.resfail x0 else covr_WRITE3resfail (WRITE3res_t.resfail x0) (WRITE3res_t.resfail x))\<rparr>"

interpretation WRITE3res_c: c_codec
  xdr_pack_WRITE3res xdr_unpack_WRITE3res cenc_WRITE3res
  covr_WRITE3res cok_WRITE3res "\<lambda>_. True" "\<lambda>_. 0"
proof unfold_locales
  fix x x0 :: WRITE3res_t
  show "cencodes (xdr_pack_WRITE3res x) (cenc_WRITE3res x)" if "cok_WRITE3res x"
  proof -
    have "cencodes (if WRITE3res_t.status x = NFS3_OK \<and> WRITE3res_t.has_resok x \<noteq> 0 then xdr_pack_WRITE3resok (WRITE3res_t.resok x)
        else xdr_pack_WRITE3resfail (WRITE3res_t.resfail x))
      (if WRITE3res_t.status x = NFS3_OK then cenc_WRITE3resok (WRITE3res_t.resok x) else cenc_WRITE3resfail (WRITE3res_t.resfail x))"
      using that by (auto simp: cok_WRITE3res_def intro!: WRITE3resok_c.pack_encodes WRITE3resfail_c.pack_encodes)
    then show ?thesis unfolding xdr_pack_WRITE3res_def cenc_WRITE3res_def by (intro cxenc)
  qed
  show "cdecodes (xdr_unpack_WRITE3res x0) (cenc_WRITE3res x) (covr_WRITE3res x0 x) (0 - 0)" if "cok_WRITE3res x"
    unfolding xdr_unpack_WRITE3res_def cenc_WRITE3res_def
    by (rule cdecodes_cong, rule cdecodes_cseq, rule cdecodes_cfld, rule cxdec, rule cdecodes_assign,
        rule cdecodes_single, rule cdecodes_choose, simp, rule cdecodes_cfld, rule WRITE3resok_c.unpack_decodes)
      (use that in \<open>auto simp: cok_WRITE3res_def covr_WRITE3res_def
        intro: cdecodes_cfld [OF WRITE3resfail_c.unpack_decodes]\<close>)
  show "creader (xdr_unpack_WRITE3res x0)"
    unfolding xdr_unpack_WRITE3res_def by (intro cxrd TrueI)
  show "cok_WRITE3res (covr_WRITE3res x0 x)" if "cok_WRITE3res x"
    using that by (auto simp: cok_WRITE3res_def covr_WRITE3res_def WRITE3resok_c.ovr_enc WRITE3resok_c.ovr_ok WRITE3resfail_c.ovr_enc chars_nonzero)
  show "cenc_WRITE3res (covr_WRITE3res x0 x) = cenc_WRITE3res x" if "cok_WRITE3res x"
    using that by (auto simp: cok_WRITE3res_def covr_WRITE3res_def cenc_WRITE3res_def WRITE3resok_c.ovr_enc WRITE3resok_c.ovr_ok WRITE3resfail_c.ovr_enc chars_nonzero)
qed simp_all

end
