(* ===== verification/CNfs3Dir.thy ===== *)
theory CNfs3Dir
  imports CNfs3Res
begin

text \<open>
  Directory listings of the C port: \<^verbatim>\<open>entry3_t\<close> and \<^verbatim>\<open>entryplus3_t\<close>, linked through pointers to
  calloc'ed entries, and the lists that hold them. A decoder calls itself once per entry on the
  wire; every call reads a flag of four bytes before the next, which bounds the recursion by the
  unread part of the buffer on any input. The locale \<open>c_chain\<close> holds what the two kinds of
  entries share; a list of entries that keep the contract of a codec keeps it too (\<open>dirlist_fresh\<close>).
\<close>

section \<open>Handles that may be absent\<close>

text \<open>A flag and then the handle, as the results of CREATE and the entries of READDIRPLUS have it; the
  empty handle stands for none.\<close>

definition xdr_pack_opt_fh3 :: "nfs_fh3_t \<Rightarrow> unit cx" where
  "xdr_pack_opt_fh3 fh = cdo [
     xdr_pack_bool (if \<not> c_nfs_fh3_is_empty fh then 1 else 0),
     if \<not> c_nfs_fh3_is_empty fh then xdr_pack_nfs_fh3 fh else cret ()]"

definition xdr_unpack_opt_fh3 :: "nfs_fh3_t \<Rightarrow> nfs_fh3_t cx" where
  "xdr_unpack_opt_fh3 fh =
     cbind (into_local xdr_unpack_bool) (\<lambda>has_object.
     if has_object \<noteq> 0 then xdr_unpack_nfs_fh3 fh else cret fh)"

definition cenc_opt_fh3 :: "nfs_fh3_t \<Rightarrow> bytes" where
  "cenc_opt_fh3 fh = enc_bool (nfs_fh3_t.len fh \<noteq> 0) @ (if nfs_fh3_t.len fh \<noteq> 0 then cenc_nfs_fh3 fh else [])"

definition covr_opt_fh3 :: "nfs_fh3_t \<Rightarrow> nfs_fh3_t \<Rightarrow> nfs_fh3_t" where
  "covr_opt_fh3 x0 x = (if nfs_fh3_t.len x \<noteq> 0 then covr_nfs_fh3 x0 x else x0)"

abbreviation "cok_opt_fh3 \<equiv> cok_nfs_fh3"
abbreviation "cdst_opt_fh3 \<equiv> cdst_nfs_fh3"
abbreviation "cblocks_opt_fh3 \<equiv> cblocks_nfs_fh3"

lemma covr_fh_len [simp]: "nfs_fh3_t.len (covr_nfs_fh3 x0 x) = nfs_fh3_t.len x"
  by (simp add: covr_nfs_fh3_def fh_of_def)

lemma cok_zero_fh [simp]: "cok_nfs_fh3 zero_nfs_fh3_t"
  by (simp add: cok_nfs_fh3_def filled_def zero_nfs_fh3_t_def)

interpretation opt_fh3_c: c_fresh
  xdr_pack_opt_fh3 xdr_unpack_opt_fh3 cenc_opt_fh3 covr_opt_fh3 cok_nfs_fh3 cdst_nfs_fh3 cblocks_nfs_fh3
  c_nfs_fh3_destroy zero_nfs_fh3_t cdst_nfs_fh3
proof unfold_locales
  fix x x0 :: nfs_fh3_t
  show "cencodes (xdr_pack_opt_fh3 x) (cenc_opt_fh3 x)" if "cok_nfs_fh3 x"
  proof -
    have "cencodes (xdr_pack_bool (if \<not> c_nfs_fh3_is_empty x then 1 else 0)) (enc_bool (nfs_fh3_t.len x \<noteq> 0))"
      by (simp add: xdr_pack_bool_def enc_bool_def c_nfs_fh3_is_empty_def cencodes_uint32)
    moreover have "cencodes (if \<not> c_nfs_fh3_is_empty x then xdr_pack_nfs_fh3 x else cret ())
        (if nfs_fh3_t.len x \<noteq> 0 then cenc_nfs_fh3 x else [])"
      using that by (auto simp: c_nfs_fh3_is_empty_def intro!: nfs_fh3_c.pack_encodes cencodes_cret)
    ultimately show ?thesis unfolding xdr_pack_opt_fh3_def cenc_opt_fh3_def by (intro cxenc)
  qed
  show "cdecodes (xdr_unpack_opt_fh3 x0) (cenc_opt_fh3 x) (covr_opt_fh3 x0 x)
      (cblocks_nfs_fh3 (covr_opt_fh3 x0 x) - cblocks_nfs_fh3 x0)"
    if "cok_nfs_fh3 x" "cdst_nfs_fh3 x0"
    unfolding xdr_unpack_opt_fh3_def cenc_opt_fh3_def
    by (rule cdecodes_cong, rule cdecodes_bind, rule cdecodes_prims(5), rule cdecodes_when, simp,
        rule nfs_fh3_c.unpack_decodes [OF that]) (simp_all add: covr_opt_fh3_def)
  show "creader (xdr_unpack_opt_fh3 x0)" if "cdst_nfs_fh3 x0"
    unfolding xdr_unpack_opt_fh3_def by (intro creader_bind cxrd that)
  show "cok_nfs_fh3 (covr_opt_fh3 zero_nfs_fh3_t x)" if "cok_nfs_fh3 x"
    using nfs_fh3_c.ovr_ok [OF that] by (simp add: covr_opt_fh3_def)
  show "cenc_opt_fh3 (covr_opt_fh3 zero_nfs_fh3_t x) = cenc_opt_fh3 x" if "cok_nfs_fh3 x"
    using nfs_fh3_c.ovr_enc [OF that] by (simp add: covr_opt_fh3_def cenc_opt_fh3_def zero_nfs_fh3_t_def)
  show "cdst_nfs_fh3 (covr_opt_fh3 zero_nfs_fh3_t x)" if "cok_nfs_fh3 x"
    using nfs_fh3_c.ovr_dst [OF that nfs_fh3_obj.dst_zero] by (simp add: covr_opt_fh3_def)
qed simp

section \<open>Reads only move forward\<close>

text \<open>On any state whatever, a read that returns has not moved backwards; this is what the
  termination of the decoders of entries rests on.\<close>

definition cmono :: "'a cx \<Rightarrow> bool" where
  "cmono m \<longleftrightarrow> (\<forall>s y t. m s = Done (y, t) \<longrightarrow>
     bsize (xbuf t) = bsize (xbuf s) \<and> rpos (xbuf s) \<le> rpos (xbuf t))"

named_theorems cxmono

lemma cmono_cret [cxmono]: "cmono (cret y)"
  by (simp add: cmono_def)

lemma cmono_cfault [cxmono]: "cmono (cfault e)"
  by (simp add: cmono_def)

lemma cmono_bind [cxmono]: "cmono m \<Longrightarrow> (\<And>y. cmono (f y)) \<Longrightarrow> cmono (cbind m f)"
  unfolding cmono_def cbind_Done_iff by (metis order_trans)

lemma cmono_on_heap [cxmono]: "cmono (on_heap m)"
  by (auto simp: cmono_def on_heap_def split: crun.splits prod.splits)

lemma cmono_load [cxmono]: "cmono (load_bytes p off n)"
  by (auto simp: cmono_def load_bytes_def split: if_splits ptr.splits)

lemma cmono_store [cxmono]: "cmono (store_bytes p off bs)"
  by (auto simp: cmono_def store_bytes_def split: if_splits ptr.splits)

lemma cmono_peek [cxmono]: "cmono (peek_bytes n)"
  using cmono_load by (simp add: cmono_def peek_bytes_def)

lemma cmono_advance [cxmono]: "cmono (advance n)"
  by (simp add: cmono_def advance_def)

lemma cmono_test [cxmono]: "cmono m \<Longrightarrow> cmono m' \<Longrightarrow> cmono (\<lambda>s. if c s then m s else m' s)"
  by (simp add: cmono_def)

lemma cmono_if [cxmono]: "cmono m \<Longrightarrow> cmono m' \<Longrightarrow> cmono (if c then m else m')"
  by simp

lemma cmono_uint32 [cxmono]: "cmono xdr_unpack_uint32"
  unfolding xdr_unpack_uint32_def [abs_def] by (intro cxmono)

lemma cmono_uint64 [cxmono]: "cmono xdr_unpack_uint64"
  unfolding xdr_unpack_uint64_def [abs_def] by (intro cxmono)

lemma cmono_bool [cxmono]: "cmono xdr_unpack_bool"
  unfolding xdr_unpack_bool_def by (intro cxmono)

lemma cmono_cstring [cxmono]: "cmono xdr_unpack_cstring"
  unfolding xdr_unpack_cstring_def by (intro cxmono) (auto split: option.split intro!: cxmono)

lemma cmono_opaque [cxmono]: "cmono xdr_unpack_opaque"
  unfolding xdr_unpack_opaque_def by (intro cxmono) (auto split: option.split intro!: cxmono)

lemma cmono_into [cxmono]: "cmono m \<Longrightarrow> cmono (into m old)"
  unfolding into_def by (intro cxmono)

lemma cmono_into_local [cxmono]: "cmono m \<Longrightarrow> cmono (into_local m)"
  unfolding into_local_def by (intro cxmono) (auto split: option.split intro!: cxmono)

lemma cmono_cfld [cxmono]: "(\<And>v. cmono (f v)) \<Longrightarrow> cmono (cfld get upd f ob)"
  unfolding cfld_def by (intro cxmono)

lemma cmono_cseq [cxmono]: "\<forall>t \<in> set ts. \<forall>ob. cmono (t ob) \<Longrightarrow> cmono (cseq ts ob)"
  by (induction ts ob rule: cseq.induct) (auto intro: cxmono)

lemma cmono_nfs_fh3 [cxmono]: "cmono (xdr_unpack_nfs_fh3 fh)"
  unfolding xdr_unpack_nfs_fh3_def
  by (intro cxmono) (auto split: prod.split option.split intro!: cxmono)

lemma cmono_opt_fh3 [cxmono]: "cmono (xdr_unpack_opt_fh3 fh)"
  unfolding xdr_unpack_opt_fh3_def by (intro cxmono)

lemma cmono_post_op_attr [cxmono]: "cmono (xdr_unpack_post_op_attr a)"
  unfolding xdr_unpack_post_op_attr_def xdr_unpack_fattr3_def xdr_unpack_nfstime3_def xdr_unpack_specdata3_def
  by (auto simp del: cseq.simps intro!: cxmono)

text \<open>A flag that was read was there to be read.\<close>

lemma bool_progress:
  assumes "into_local xdr_unpack_bool s = Done (h, t)"
  shows "rpos (xbuf s) + 4 \<le> bsize (xbuf s) \<and> rpos (xbuf t) = rpos (xbuf s) + 4 \<and> bsize (xbuf t) = bsize (xbuf s)"
proof -
  from assms obtain v where "xdr_unpack_uint32 s = Done (Some v, t)"
    by (auto simp: into_local_def xdr_unpack_bool_def cbind_Done_iff split: option.splits)
  then show ?thesis
    by (auto simp: xdr_unpack_uint32_def c_ensure_read_space_def cbind_Done_iff peek_bytes_def load_bytes_def
        advance_def split: if_splits ptr.splits)
qed

section \<open>Chains of entries\<close>

text \<open>The members of an entry and the local \<^verbatim>\<open>has_next\<close>.\<close>

definition with_next :: "('e \<Rightarrow> 'e cx) \<Rightarrow> 'e \<Rightarrow> ('e \<times> cint) cx" where
  "with_next members e =
     cbind (members e) (\<lambda>e. cbind (into_local xdr_unpack_bool) (\<lambda>has_next. cret (e, has_next)))"

lemma with_next_progress:
  assumes "cmono (members e)" and "with_next members e s = Done ((e', h), t)"
  shows "bsize (xbuf t) - rpos (xbuf t) < bsize (xbuf s) - rpos (xbuf s)"
proof -
  from assms(2) obtain u where "members e s = Done (e', u)" and "into_local xdr_unpack_bool u = Done (h, t)"
    by (auto simp: with_next_def cbind_Done_iff)
  with assms(1) bool_progress [of u h t] show ?thesis by (fastforce simp: cmono_def)
qed

lemma cdecodes_with_next:
  assumes "cdecodes (members e) bs e' d"
  shows "cdecodes (with_next members e) (bs @ enc_bool (v \<noteq> 0)) (e', tv v) d"
proof -
  have "cdecodes (cbind (into_local xdr_unpack_bool) (\<lambda>has_next. cret (e', has_next)))
      (enc_bool (v \<noteq> 0)) (e', tv v) 0"
    by (rule cdecodes_bind_ret, rule cdecodes_prims)
  from cdecodes_bind [of "members e" bs e' d "\<lambda>e. cbind (into_local xdr_unpack_bool) (\<lambda>has_next. cret (e, has_next))",
      OF assms this]
  show ?thesis by (simp add: with_next_def)
qed

text \<open>A null result of \<^verbatim>\<open>calloc\<close> is written through.\<close>

definition alloc_then :: "'e \<Rightarrow> ('e \<Rightarrow> 'a cx) \<Rightarrow> 'a cx" where
  "alloc_then z f = cbind (on_heap (calloc z)) (\<lambda>p. case p of Owned e \<Rightarrow> f e | _ \<Rightarrow> cfault OutOfBounds)"

lemma alloc_then_cong [fundef_cong]:
  "z = z' \<Longrightarrow> s = s' \<Longrightarrow>
   (\<And>t. xbuf t = xbuf s' \<Longrightarrow> f z' t = g z' t) \<Longrightarrow> alloc_then z f s = alloc_then z' g s'"
  by (auto simp: alloc_then_def on_heap_def calloc_def cbind_def)

lemma cdecodes_alloc_then:
  assumes "cdecodes (f z) bs y d"
  shows "cdecodes (alloc_then z f) bs y (1 + d)"
proof -
  have "cdecodes (on_heap (calloc z)) [] (Owned z) 1"
    by (rule cdecodes_on_heap) (simp add: calloc_plenty)
  from cdecodes_bind [OF this, of "\<lambda>p. case p of Owned e \<Rightarrow> f e | _ \<Rightarrow> cfault OutOfBounds"] assms
  show ?thesis by (simp add: alloc_then_def)
qed

lemma creader_alloc_then:
  assumes "\<And>t. readable t \<Longrightarrow> bsize (xbuf t) = bsize (xbuf s) \<Longrightarrow> rpos (xbuf t) = rpos (xbuf s) \<Longrightarrow>
      creader_at (f z) t"
    and "readable s"
  shows "creader_at (alloc_then z f) s"
proof -
  let ?t = "s\<lparr>mem := (mem s)\<lparr>live := live (mem s) + 1, requests := Suc (requests (mem s))\<rparr>\<rparr>"
  have c: "on_heap (calloc z) s = Done (Owned z, ?t)"
    using assms(2) by (simp add: on_heap_Done calloc_plenty readable_def good_def)
  have t: "cmoves s ?t" using assms(2) by (simp add: cmoves_def readable_def good_def)
  then have "creader_at (f z) ?t" using assms by (simp add: cmoves_readable)
  with c t show ?thesis unfolding alloc_then_def
    by (intro creader_at_bind) (auto simp: creader_at_def)
qed

locale c_chain =
  fixes members :: "'e \<Rightarrow> 'e cx"
    and unpack :: "'e \<Rightarrow> 'e cx"
    and zero :: 'e
    and link :: "'e \<Rightarrow> 'e \<Rightarrow> 'e"
    and dst :: "'e \<Rightarrow> bool"
  assumes unpack_eq: "unpack e s =
      cbind (with_next members e) (\<lambda>r s.
        if snd r \<noteq> 0 then alloc_then zero (\<lambda>z. cbind (unpack z) (\<lambda>n. cret (link (fst r) n))) s
        else cret (fst r) s) s"
    and members_mono: "cmono (members e)"
    and members_reader: "dst e \<Longrightarrow> creader (members e)"
    and zero_dst: "dst zero"
begin

lemma unpack_unfold:
  "unpack e = cbind (with_next members e) (\<lambda>(e, has_next).
     if has_next \<noteq> 0 then alloc_then zero (\<lambda>z. cbind (unpack z) (\<lambda>n. cret (link e n))) else cret e)"
proof
  show "unpack e s = cbind (with_next members e) (\<lambda>(e, has_next).
     if has_next \<noteq> 0 then alloc_then zero (\<lambda>z. cbind (unpack z) (\<lambda>n. cret (link e n))) else cret e) s" for s
    by (subst unpack_eq, rule cbind_cong) (auto simp del: cret_apply)
qed

lemma decodes_last:
  assumes "cdecodes (members e) bs e' d"
  shows "cdecodes (unpack e) (bs @ enc_bool False) e' d"
proof -
  have "cdecodes (with_next members e) (bs @ enc_bool False) (e', 0) d"
    using cdecodes_with_next [of members e, OF assms, of 0] by simp
  from cdecodes_bind [OF this, of "\<lambda>(e, has_next). if has_next \<noteq> 0
      then alloc_then zero (\<lambda>z. cbind (unpack z) (\<lambda>n. cret (link e n))) else cret e" "[]" e' 0]
  show ?thesis by (subst unpack_unfold) (simp add: cdecodes_cret del: cret_apply)
qed

lemma decodes_more:
  assumes "cdecodes (members e) bs e' d" and "cdecodes (unpack zero) bs' n d'"
  shows "cdecodes (unpack e) ((bs @ enc_bool True) @ bs') (link e' n) (d + (1 + d'))"
proof -
  have "cdecodes (with_next members e) (bs @ enc_bool True) (e', 1) d"
    using cdecodes_with_next [of members e, OF assms(1), of 1] by simp
  moreover have "cdecodes (alloc_then zero (\<lambda>z. cbind (unpack z) (\<lambda>n. cret (link e' n)))) bs' (link e' n) (1 + d')"
    by (rule cdecodes_alloc_then, rule cdecodes_bind_ret, rule assms(2))
  ultimately show ?thesis
    using cdecodes_bind [of "with_next members e" "bs @ enc_bool True" "(e', 1)" d
        "\<lambda>(e, has_next). if has_next \<noteq> 0 then alloc_then zero (\<lambda>z. cbind (unpack z) (\<lambda>n. cret (link e n))) else cret e"
        bs' "link e' n" "1 + d'"]
    by (subst unpack_unfold) simp
qed

lemma unpack_reader_at: "dst e \<Longrightarrow> readable s \<Longrightarrow> creader_at (unpack e) s"
proof (induction "bsize (xbuf s) - rpos (xbuf s)" arbitrary: e s rule: less_induct)
  case less
  have w: "creader (with_next members e)"
    unfolding with_next_def by (intro creader_bind members_reader less.prems cxrd)
  have "creader_at (cbind (with_next members e) (\<lambda>(e, has_next). if has_next \<noteq> 0
      then alloc_then zero (\<lambda>z. cbind (unpack z) (\<lambda>n. cret (link e n))) else cret e)) s"
  proof (rule creader_at_bind)
    show "creader_at (with_next members e) s" using w less.prems by (simp add: creader_def)
    fix r t assume r: "with_next members e s = Done (r, t)" and st: "cmoves s t"
    obtain e' h where p: "r = (e', h)" by (cases r)
    from st less.prems have t: "readable t" by (simp add: cmoves_readable)
    have dec: "bsize (xbuf t) - rpos (xbuf t) < bsize (xbuf s) - rpos (xbuf s)"
      using with_next_progress [of members e, OF members_mono] r p by blast
    have "creader_at (alloc_then zero (\<lambda>z. cbind (unpack z) (\<lambda>n. cret (link e' n)))) t"
    proof (rule creader_alloc_then [OF _ t])
      fix u assume "readable u" "bsize (xbuf u) = bsize (xbuf t)" "rpos (xbuf u) = rpos (xbuf t)"
      with dec less.hyps [of u zero] zero_dst have "creader_at (unpack zero) u" by simp
      then show "creader_at (cbind (unpack zero) (\<lambda>n. cret (link e' n))) u"
        by (rule creader_at_bind) (simp add: creader_at_def cmoves_def)
    qed
    with t p show "creader_at (case r of (e, has_next) \<Rightarrow> if has_next \<noteq> 0
        then alloc_then zero (\<lambda>z. cbind (unpack z) (\<lambda>n. cret (link e n))) else cret e) t"
      by (simp add: creader_at_def readable_def cmoves_refl)
  qed
  then show ?case by (subst unpack_unfold)
qed

lemma unpack_reader: "dst e \<Longrightarrow> creader (unpack e)"
  by (rule creaderI) (rule unpack_reader_at)

end

section \<open>entry3\<close>

datatype entry3_t = Entry3_t
  (e_fileid: uint64) (e_name: "block ptr") (e_cookie: uint64) (e_next: "entry3_t ptr")

definition c_entry3_init :: entry3_t where
  "c_entry3_init = Entry3_t 0 NULL 0 NULL"

fun c_entry3_destroy :: "entry3_t \<Rightarrow> (heap, entry3_t) cm" where
  "c_entry3_destroy (Entry3_t f n c nxt) =
     cbind (free n) (\<lambda>_.
     cbind (case nxt of
         NULL \<Rightarrow> cret ()
       | Owned e \<Rightarrow> cbind (c_entry3_destroy e) (\<lambda>e. cbind (free (Owned e)) (\<lambda>_. cret ()))
       | Dangling \<Rightarrow> cfault InvalidPointer) (\<lambda>_.
     cret c_entry3_init))"

definition c_entry3_set_name :: "entry3_t \<Rightarrow> block ptr \<Rightarrow> (heap, entry3_t) cm" where
  "c_entry3_set_name e name =
     cbind (replace_string name (e_name e)) (\<lambda>p.
     cret (Entry3_t (e_fileid e) p (e_cookie e) (e_next e)))"

fun xdr_pack_entry3 :: "entry3_t \<Rightarrow> unit cx" where
  "xdr_pack_entry3 (Entry3_t f n c nxt) = cdo [
     xdr_pack_uint64 f,
     xdr_pack_cstring n,
     xdr_pack_uint64 c,
     xdr_pack_bool (if nxt \<noteq> NULL then 1 else 0),
     case nxt of NULL \<Rightarrow> cret () | Owned e \<Rightarrow> xdr_pack_entry3 e | Dangling \<Rightarrow> cfault InvalidPointer]"

definition c_entry3_members :: "entry3_t \<Rightarrow> entry3_t cx" where
  "c_entry3_members e =
     cbind (into xdr_unpack_uint64 (e_fileid e)) (\<lambda>f.
     cbind (into xdr_unpack_cstring (e_name e)) (\<lambda>n.
     cbind (into xdr_unpack_uint64 (e_cookie e)) (\<lambda>c.
     cret (Entry3_t f n c (e_next e)))))"

definition c_entry3_link :: "entry3_t \<Rightarrow> entry3_t \<Rightarrow> entry3_t" where
  "c_entry3_link e n = Entry3_t (e_fileid e) (e_name e) (e_cookie e) (Owned n)"

lemma c_entry3_members_mono: "cmono (c_entry3_members e)"
  unfolding c_entry3_members_def by (intro cxmono)

function xdr_unpack_entry3 :: "entry3_t \<Rightarrow> entry3_t cx" where
  "xdr_unpack_entry3 e s =
     cbind (with_next c_entry3_members e) (\<lambda>r s.
       if snd r \<noteq> 0
       then alloc_then c_entry3_init (\<lambda>z. cbind (xdr_unpack_entry3 z) (\<lambda>n. cret (c_entry3_link (fst r) n))) s
       else cret (fst r) s) s"
  by pat_completeness auto
termination
proof (relation "measure (\<lambda>(e, s). bsize (xbuf s) - rpos (xbuf s))", goal_cases)
  case (2 e s r t u)
  then show ?case
    using with_next_progress [of c_entry3_members e s "fst r" "snd r" t, OF c_entry3_members_mono] by simp
qed simp

declare xdr_unpack_entry3.simps [simp del]

interpretation centry3_chain: c_chain
  c_entry3_members xdr_unpack_entry3 c_entry3_init c_entry3_link "\<lambda>_. True"
proof unfold_locales
  show "creader (c_entry3_members e)" for e
    unfolding c_entry3_members_def by (intro creader_bind cxrd)
qed (rule xdr_unpack_entry3.simps c_entry3_members_mono TrueI)+

fun cenc_entry3 :: "entry3_t \<Rightarrow> bytes" where
  "cenc_entry3 (Entry3_t f n c nxt) =
     ((be64 f @ enc_opaque (chars n) @ be64 c) @ enc_bool (nxt \<noteq> NULL)) @
     (case nxt of Owned e \<Rightarrow> cenc_entry3 e | _ \<Rightarrow> [])"

fun cok_entry3 :: "entry3_t \<Rightarrow> bool" where
  "cok_entry3 (Entry3_t f n c nxt) \<longleftrightarrow> is_cstring n \<and> length (chars n) < UINT32_MAX \<and>
     (case nxt of NULL \<Rightarrow> True | Owned e \<Rightarrow> cok_entry3 e | Dangling \<Rightarrow> False)"

fun dec_entry3 :: "entry3_t \<Rightarrow> entry3_t" where
  "dec_entry3 (Entry3_t f n c nxt) =
     Entry3_t f (Owned (cstring (chars n))) c (case nxt of Owned e \<Rightarrow> Owned (dec_entry3 e) | _ \<Rightarrow> NULL)"

fun cblocks_entry3 :: "entry3_t \<Rightarrow> int" where
  "cblocks_entry3 (Entry3_t f n c nxt) =
     held n + (case nxt of Owned e \<Rightarrow> 1 + cblocks_entry3 e | _ \<Rightarrow> 0)"

fun crel_entry3 :: "entry3_t \<Rightarrow> bool" where
  "crel_entry3 (Entry3_t f n c nxt) \<longleftrightarrow> releasable n \<and>
     (case nxt of NULL \<Rightarrow> True | Owned e \<Rightarrow> crel_entry3 e | Dangling \<Rightarrow> False)"

text \<open>The decoder releases nothing: it is for entries with no name and no successor.\<close>

definition cdst_entry3 :: "entry3_t \<Rightarrow> bool" where
  "cdst_entry3 e \<longleftrightarrow> e_name e = NULL \<and> e_next e = NULL"

lemma cencodes_flag: "cencodes (xdr_pack_bool (if c then 1 else 0)) (enc_bool c)"
  by (simp add: xdr_pack_bool_def enc_bool_def cencodes_uint32)

lemma cencodes_entry3: "cok_entry3 e \<Longrightarrow> cencodes (xdr_pack_entry3 e) (cenc_entry3 e)"
proof (induction e)
  case (Entry3_t f n c nxt)
  have "cencodes (case nxt of NULL \<Rightarrow> cret () | Owned e \<Rightarrow> xdr_pack_entry3 e | Dangling \<Rightarrow> cfault InvalidPointer)
      (case nxt of Owned e \<Rightarrow> cenc_entry3 e | _ \<Rightarrow> [])"
    using Entry3_t by (cases nxt) (auto intro: cencodes_cret)
  with Entry3_t.prems show ?case
    unfolding xdr_pack_entry3.simps cenc_entry3.simps append_assoc
    by (intro cxenc cencodes_flag) simp_all
qed

lemma cdecodes_entry3_members:
  assumes "length d < UINT32_MAX"
  shows "cdecodes (c_entry3_members e) (be64 f @ enc_opaque d @ be64 c)
     (Entry3_t f (Owned (cstring d)) c (e_next e)) 1"
proof -
  have "cdecodes (c_entry3_members e) (be64 f @ enc_opaque d @ be64 c)
     (Entry3_t f (Owned (cstring d)) c (e_next e)) (0 + (1 + 0))"
    unfolding c_entry3_members_def
    by (rule cdecodes_bind [OF cdecodes_prims(2)] cdecodes_bind [OF cdecodes_prims(6) [OF assms]]
        cdecodes_bind_ret cdecodes_prims(2))+
  then show ?thesis by simp
qed

lemma cdecodes_entry3:
  "cok_entry3 x \<Longrightarrow> cdst_entry3 x0 \<Longrightarrow>
   cdecodes (xdr_unpack_entry3 x0) (cenc_entry3 x) (dec_entry3 x) (cblocks_entry3 (dec_entry3 x))"
proof (induction x arbitrary: x0)
  case (Entry3_t f n c nxt)
  then have hd: "cdecodes (c_entry3_members x0) (be64 f @ enc_opaque (chars n) @ be64 c)
      (Entry3_t f (Owned (cstring (chars n))) c NULL) 1"
    using cdecodes_entry3_members [of "chars n" x0 f c] by (simp add: cdst_entry3_def)
  show ?case
  proof (cases "\<exists>e. nxt = Owned e")
    case False
    with centry3_chain.decodes_last [OF hd] Entry3_t.prems show ?thesis by (cases nxt) auto
  next
    case True
    then obtain e where e: "nxt = Owned e" ..
    with Entry3_t have "cdecodes (xdr_unpack_entry3 c_entry3_init) (cenc_entry3 e) (dec_entry3 e)
        (cblocks_entry3 (dec_entry3 e))"
      by (simp add: cdst_entry3_def c_entry3_init_def)
    from centry3_chain.decodes_more [OF hd this] e show ?thesis by (simp add: c_entry3_link_def)
  qed
qed

lemma c_entry3_destroy_done:
  "crel_entry3 e \<Longrightarrow> c_entry3_destroy e h = Done (c_entry3_init, h\<lparr>live := live h - cblocks_entry3 e\<rparr>)"
proof (induction e arbitrary: h)
  case (Entry3_t f n c nxt)
  then show ?case
    by (cases nxt) (auto simp: cbind_def free_releasable algebra_simps)
qed

interpretation entry3_obj: c_object c_entry3_destroy c_entry3_init crel_entry3 cblocks_entry3
  by unfold_locales (simp_all add: c_entry3_destroy_done c_entry3_init_def)

lemma cblocks_fresh_entry3: "cdst_entry3 x0 \<Longrightarrow> cblocks_entry3 x0 = 0"
  by (cases x0) (simp add: cdst_entry3_def)

lemma dec_entry3_laws:
  assumes "cok_entry3 x"
  shows "cok_entry3 (dec_entry3 x)" and "cenc_entry3 (dec_entry3 x) = cenc_entry3 x"
    and "crel_entry3 (dec_entry3 x)"
  using assms
proof (induction x)
  case (Entry3_t f n c nxt)
  {
    case 1 then show ?case using Entry3_t(1) by (cases nxt) (auto simp: chars_nonzero)
  next
    case 2 then show ?case using Entry3_t(2) by (cases nxt) (auto simp: chars_nonzero)
  next
    case 3 then show ?case using Entry3_t(3) by (cases nxt) auto
  }
qed

interpretation entry3_c: c_fresh
  xdr_pack_entry3 xdr_unpack_entry3 cenc_entry3 "\<lambda>_. dec_entry3" cok_entry3 cdst_entry3 cblocks_entry3
  c_entry3_destroy c_entry3_init crel_entry3
  by unfold_locales
    (simp_all add: cencodes_entry3 cdecodes_entry3 cblocks_fresh_entry3 centry3_chain.unpack_reader dec_entry3_laws,
      simp add: cdst_entry3_def c_entry3_init_def)

section \<open>entryplus3\<close>

datatype entryplus3_t = Entryplus3_t
  (p_fileid: uint64) (p_name: "block ptr") (p_cookie: uint64) (p_handle: nfs_fh3_t)
  (p_attributes: post_op_attr_t) (p_next: "entryplus3_t ptr")

definition zero_entryplus3_t :: entryplus3_t where
  "zero_entryplus3_t = Entryplus3_t 0 NULL 0 zero_nfs_fh3_t zero_post_op_attr_t NULL"

definition c_entryplus3_init :: entryplus3_t where
  "c_entryplus3_init = Entryplus3_t 0 NULL 0 c_nfs_fh3_init zero_post_op_attr_t NULL"

fun c_entryplus3_destroy :: "entryplus3_t \<Rightarrow> (heap, entryplus3_t) cm" where
  "c_entryplus3_destroy (Entryplus3_t f n c fh a nxt) =
     cbind (free n) (\<lambda>_.
     cbind (c_nfs_fh3_destroy fh) (\<lambda>_.
     cbind (case nxt of
         NULL \<Rightarrow> cret ()
       | Owned e \<Rightarrow> cbind (c_entryplus3_destroy e) (\<lambda>e. cbind (free (Owned e)) (\<lambda>_. cret ()))
       | Dangling \<Rightarrow> cfault InvalidPointer) (\<lambda>_.
     cret zero_entryplus3_t)))"

definition c_entryplus3_set_name :: "entryplus3_t \<Rightarrow> block ptr \<Rightarrow> (heap, entryplus3_t) cm" where
  "c_entryplus3_set_name e name =
     cbind (replace_string name (p_name e)) (\<lambda>p.
     cret (Entryplus3_t (p_fileid e) p (p_cookie e) (p_handle e) (p_attributes e) (p_next e)))"

fun xdr_pack_entryplus3 :: "entryplus3_t \<Rightarrow> unit cx" where
  "xdr_pack_entryplus3 (Entryplus3_t f n c fh a nxt) = cdo [
     xdr_pack_uint64 f,
     xdr_pack_cstring n,
     xdr_pack_uint64 c,
     xdr_pack_post_op_attr a,
     xdr_pack_opt_fh3 fh,
     xdr_pack_bool (if nxt \<noteq> NULL then 1 else 0),
     case nxt of NULL \<Rightarrow> cret () | Owned e \<Rightarrow> xdr_pack_entryplus3 e | Dangling \<Rightarrow> cfault InvalidPointer]"

definition c_entryplus3_members :: "entryplus3_t \<Rightarrow> entryplus3_t cx" where
  "c_entryplus3_members e =
     cbind (into xdr_unpack_uint64 (p_fileid e)) (\<lambda>f.
     cbind (into xdr_unpack_cstring (p_name e)) (\<lambda>n.
     cbind (into xdr_unpack_uint64 (p_cookie e)) (\<lambda>c.
     cbind (xdr_unpack_post_op_attr (p_attributes e)) (\<lambda>a.
     cbind (xdr_unpack_opt_fh3 (p_handle e)) (\<lambda>fh.
     cret (Entryplus3_t f n c fh a (p_next e)))))))"

definition c_entryplus3_link :: "entryplus3_t \<Rightarrow> entryplus3_t \<Rightarrow> entryplus3_t" where
  "c_entryplus3_link e n =
     Entryplus3_t (p_fileid e) (p_name e) (p_cookie e) (p_handle e) (p_attributes e) (Owned n)"

lemma c_entryplus3_members_mono: "cmono (c_entryplus3_members e)"
  unfolding c_entryplus3_members_def by (intro cxmono)

function xdr_unpack_entryplus3 :: "entryplus3_t \<Rightarrow> entryplus3_t cx" where
  "xdr_unpack_entryplus3 e s =
     cbind (with_next c_entryplus3_members e) (\<lambda>r s.
       if snd r \<noteq> 0
       then alloc_then c_entryplus3_init
              (\<lambda>z. cbind (xdr_unpack_entryplus3 z) (\<lambda>n. cret (c_entryplus3_link (fst r) n))) s
       else cret (fst r) s) s"
  by pat_completeness auto
termination
proof (relation "measure (\<lambda>(e, s). bsize (xbuf s) - rpos (xbuf s))", goal_cases)
  case (2 e s r t u)
  then show ?case
    using with_next_progress [of c_entryplus3_members e s "fst r" "snd r" t, OF c_entryplus3_members_mono]
    by simp
qed simp

declare xdr_unpack_entryplus3.simps [simp del]

text \<open>The decoder releases the handle only.\<close>

definition cdst_entryplus3 :: "entryplus3_t \<Rightarrow> bool" where
  "cdst_entryplus3 e \<longleftrightarrow> p_name e = NULL \<and> p_next e = NULL \<and> cdst_nfs_fh3 (p_handle e)"

lemma c_entryplus3_init_eq: "c_entryplus3_init = zero_entryplus3_t"
  by (simp add: c_entryplus3_init_def zero_entryplus3_t_def c_nfs_fh3_init_def)

lemma zero_entryplus3_members [simp]:
  "p_handle zero_entryplus3_t = zero_nfs_fh3_t"
  "p_attributes zero_entryplus3_t = zero_post_op_attr_t"
  by (simp_all add: zero_entryplus3_t_def)

lemma cdst_entryplus3_zero [simp]: "cdst_entryplus3 zero_entryplus3_t"
  by (simp add: cdst_entryplus3_def zero_entryplus3_t_def)

interpretation centryplus3_chain: c_chain
  c_entryplus3_members xdr_unpack_entryplus3 c_entryplus3_init c_entryplus3_link
  "\<lambda>e. cdst_nfs_fh3 (p_handle e)"
proof unfold_locales
  show "creader (c_entryplus3_members e)" if "cdst_nfs_fh3 (p_handle e)" for e
    unfolding c_entryplus3_members_def using that by (intro creader_bind cxrd TrueI)
  show "cdst_nfs_fh3 (p_handle c_entryplus3_init)"
    by (simp add: c_entryplus3_init_eq zero_entryplus3_t_def)
qed (rule xdr_unpack_entryplus3.simps c_entryplus3_members_mono)+

fun cenc_entryplus3 :: "entryplus3_t \<Rightarrow> bytes" where
  "cenc_entryplus3 (Entryplus3_t f n c fh a nxt) =
     ((be64 f @ enc_opaque (chars n) @ be64 c @ cenc_post_op_attr a @ cenc_opt_fh3 fh) @
      enc_bool (nxt \<noteq> NULL)) @
     (case nxt of Owned e \<Rightarrow> cenc_entryplus3 e | _ \<Rightarrow> [])"

fun cok_entryplus3 :: "entryplus3_t \<Rightarrow> bool" where
  "cok_entryplus3 (Entryplus3_t f n c fh a nxt) \<longleftrightarrow>
     is_cstring n \<and> length (chars n) < UINT32_MAX \<and> cok_nfs_fh3 fh \<and>
     (case nxt of NULL \<Rightarrow> True | Owned e \<Rightarrow> cok_entryplus3 e | Dangling \<Rightarrow> False)"

text \<open>\<open>h0\<close> and \<open>a0\<close> are the handle and the attributes the entry read into had.\<close>

fun dec_entryplus3 :: "nfs_fh3_t \<Rightarrow> post_op_attr_t \<Rightarrow> entryplus3_t \<Rightarrow> entryplus3_t" where
  "dec_entryplus3 h0 a0 (Entryplus3_t f n c fh a nxt) =
     Entryplus3_t f (Owned (cstring (chars n))) c (covr_opt_fh3 h0 fh) (covr_post_op_attr a0 a)
       (case nxt of
          Owned e \<Rightarrow> Owned (dec_entryplus3 zero_nfs_fh3_t zero_post_op_attr_t e)
        | _ \<Rightarrow> NULL)"

definition covr_entryplus3 :: "entryplus3_t \<Rightarrow> entryplus3_t \<Rightarrow> entryplus3_t" where
  "covr_entryplus3 x0 = dec_entryplus3 (p_handle x0) (p_attributes x0)"

fun cblocks_entryplus3 :: "entryplus3_t \<Rightarrow> int" where
  "cblocks_entryplus3 (Entryplus3_t f n c fh a nxt) =
     held n + cblocks_nfs_fh3 fh + (case nxt of Owned e \<Rightarrow> 1 + cblocks_entryplus3 e | _ \<Rightarrow> 0)"

fun crel_entryplus3 :: "entryplus3_t \<Rightarrow> bool" where
  "crel_entryplus3 (Entryplus3_t f n c fh a nxt) \<longleftrightarrow> releasable n \<and> cdst_nfs_fh3 fh \<and>
     (case nxt of NULL \<Rightarrow> True | Owned e \<Rightarrow> crel_entryplus3 e | Dangling \<Rightarrow> False)"

lemma cencodes_entryplus3: "cok_entryplus3 e \<Longrightarrow> cencodes (xdr_pack_entryplus3 e) (cenc_entryplus3 e)"
proof (induction e)
  case (Entryplus3_t f n c fh a nxt)
  have "cencodes (case nxt of NULL \<Rightarrow> cret () | Owned e \<Rightarrow> xdr_pack_entryplus3 e | Dangling \<Rightarrow> cfault InvalidPointer)
      (case nxt of Owned e \<Rightarrow> cenc_entryplus3 e | _ \<Rightarrow> [])"
    using Entryplus3_t by (cases nxt) (auto intro: cencodes_cret)
  with Entryplus3_t.prems show ?case
    unfolding xdr_pack_entryplus3.simps cenc_entryplus3.simps append_assoc
    by (intro cencodes_flag cxenc TrueI) simp_all
qed

lemma cdecodes_entryplus3_members:
  assumes "length d < UINT32_MAX" and "cok_nfs_fh3 fh" and "cdst_nfs_fh3 (p_handle e)"
  shows "cdecodes (c_entryplus3_members e)
     (be64 f @ enc_opaque d @ be64 c @ cenc_post_op_attr a @ cenc_opt_fh3 fh)
     (Entryplus3_t f (Owned (cstring d)) c (covr_opt_fh3 (p_handle e) fh)
       (covr_post_op_attr (p_attributes e) a) (p_next e))
     (1 + cblocks_nfs_fh3 (covr_opt_fh3 (p_handle e) fh) - cblocks_nfs_fh3 (p_handle e))"
  unfolding c_entryplus3_members_def
  by (rule cdecodes_cong,
      (rule cdecodes_bind [OF cdecodes_prims(2)] cdecodes_bind [OF cdecodes_prims(6) [OF assms(1)]]
        cdecodes_bind [OF post_op_attr_c.unpack_decodes [OF TrueI TrueI]]
        cdecodes_bind_ret opt_fh3_c.unpack_decodes [OF assms(2,3)])+) simp_all

lemma cdecodes_entryplus3:
  "cok_entryplus3 x \<Longrightarrow> cdst_entryplus3 x0 \<Longrightarrow>
   cdecodes (xdr_unpack_entryplus3 x0) (cenc_entryplus3 x) (covr_entryplus3 x0 x)
     (cblocks_entryplus3 (covr_entryplus3 x0 x) - cblocks_nfs_fh3 (p_handle x0))"
proof (induction x arbitrary: x0)
  case (Entryplus3_t f n c fh a nxt)
  let ?d = "1 + cblocks_nfs_fh3 (covr_opt_fh3 (p_handle x0) fh) - cblocks_nfs_fh3 (p_handle x0)"
  let ?e = "Entryplus3_t f (Owned (cstring (chars n))) c (covr_opt_fh3 (p_handle x0) fh)
      (covr_post_op_attr (p_attributes x0) a) NULL"
  from Entryplus3_t.prems have hd: "cdecodes (c_entryplus3_members x0)
      (be64 f @ enc_opaque (chars n) @ be64 c @ cenc_post_op_attr a @ cenc_opt_fh3 fh) ?e ?d"
    using cdecodes_entryplus3_members [of "chars n" fh x0 f c a] by (simp add: cdst_entryplus3_def)
  show ?case
  proof (cases "\<exists>e. nxt = Owned e")
    case False
    with centryplus3_chain.decodes_last [OF hd] Entryplus3_t.prems show ?thesis
      by (cases nxt) (auto simp: covr_entryplus3_def)
  next
    case True
    then obtain e where e: "nxt = Owned e" ..
    with Entryplus3_t.prems have "cok_entryplus3 e" by simp
    with e have "cdecodes (xdr_unpack_entryplus3 zero_entryplus3_t) (cenc_entryplus3 e)
        (covr_entryplus3 zero_entryplus3_t e)
        (cblocks_entryplus3 (covr_entryplus3 zero_entryplus3_t e) - cblocks_nfs_fh3 (p_handle zero_entryplus3_t))"
      by (intro Entryplus3_t.IH) simp_all
    then have "cdecodes (xdr_unpack_entryplus3 c_entryplus3_init) (cenc_entryplus3 e)
        (dec_entryplus3 zero_nfs_fh3_t zero_post_op_attr_t e)
        (cblocks_entryplus3 (dec_entryplus3 zero_nfs_fh3_t zero_post_op_attr_t e))"
      by (simp add: c_entryplus3_init_eq covr_entryplus3_def)
    from centryplus3_chain.decodes_more [OF hd this] e show ?thesis
      by (simp add: covr_entryplus3_def c_entryplus3_link_def algebra_simps)
  qed
qed

lemma c_entryplus3_destroy_done:
  "crel_entryplus3 e \<Longrightarrow>
   c_entryplus3_destroy e h = Done (zero_entryplus3_t, h\<lparr>live := live h - cblocks_entryplus3 e\<rparr>)"
proof (induction e arbitrary: h)
  case (Entryplus3_t f n c fh a nxt)
  then show ?case
    by (cases nxt) (auto simp: cbind_def free_releasable nfs_fh3_obj.destroy_done algebra_simps)
qed

interpretation entryplus3_obj: c_object c_entryplus3_destroy zero_entryplus3_t crel_entryplus3 cblocks_entryplus3
  by unfold_locales (simp_all add: c_entryplus3_destroy_done zero_entryplus3_t_def)

lemma dec_entryplus3_laws:
  assumes "cok_entryplus3 x"
  shows "cok_entryplus3 (dec_entryplus3 zero_nfs_fh3_t zero_post_op_attr_t x)"
    and "cenc_entryplus3 (dec_entryplus3 zero_nfs_fh3_t zero_post_op_attr_t x) = cenc_entryplus3 x"
    and "crel_entryplus3 (dec_entryplus3 zero_nfs_fh3_t zero_post_op_attr_t x)"
  using assms
proof (induction x)
  case (Entryplus3_t f n c fh a nxt)
  {
    case 1 then show ?case using Entryplus3_t(1)
      by (cases nxt) (auto simp: chars_nonzero opt_fh3_c.fresh_ok)
  next
    case 2 then show ?case using Entryplus3_t(2)
      by (cases nxt) (auto simp: chars_nonzero opt_fh3_c.fresh_enc post_op_attr_c.ovr_enc)
  next
    case 3 then show ?case using Entryplus3_t(3)
      by (cases nxt) (auto simp: opt_fh3_c.fresh_rel)
  }
qed

lemma cblocks_fresh_entryplus3:
  "cdst_entryplus3 x0 \<Longrightarrow> cblocks_entryplus3 x0 = cblocks_nfs_fh3 (p_handle x0)"
  by (cases x0) (simp add: cdst_entryplus3_def)

interpretation entryplus3_c: c_fresh
  xdr_pack_entryplus3 xdr_unpack_entryplus3 cenc_entryplus3 covr_entryplus3 cok_entryplus3 cdst_entryplus3
  cblocks_entryplus3 c_entryplus3_destroy zero_entryplus3_t crel_entryplus3
proof unfold_locales
  fix x x0 :: entryplus3_t
  show "creader (xdr_unpack_entryplus3 x0)" if "cdst_entryplus3 x0"
    using that by (intro centryplus3_chain.unpack_reader) (simp add: cdst_entryplus3_def)
  show "cdecodes (xdr_unpack_entryplus3 x0) (cenc_entryplus3 x) (covr_entryplus3 x0 x)
      (cblocks_entryplus3 (covr_entryplus3 x0 x) - cblocks_entryplus3 x0)"
    if "cok_entryplus3 x" "cdst_entryplus3 x0"
    using cdecodes_entryplus3 [OF that] by (simp add: cblocks_fresh_entryplus3 that)
qed (simp_all add: cencodes_entryplus3 cblocks_fresh_entryplus3 covr_entryplus3_def dec_entryplus3_laws)

section \<open>Lists of entries\<close>

text \<open>\<^verbatim>\<open>dirlist3_t\<close> and \<^verbatim>\<open>dirlistplus3_t\<close> have the same members and the same functions, over the two
  kinds of entries; they are one record and one set of functions here.\<close>

record 'e dirlist_t =
  entries :: "'e ptr"
  eof :: cint

definition zero_dirlist :: "'e dirlist_t" where
  "zero_dirlist = \<lparr>dirlist_t.entries = NULL, eof = 0\<rparr>"

definition pack_dirlist :: "('e \<Rightarrow> unit cx) \<Rightarrow> 'e dirlist_t \<Rightarrow> unit cx" where
  "pack_dirlist pk dl = cdo [
     xdr_pack_bool (if dirlist_t.entries dl \<noteq> NULL then 1 else 0),
     case dirlist_t.entries dl of NULL \<Rightarrow> cret () | Owned e \<Rightarrow> pk e | Dangling \<Rightarrow> cfault InvalidPointer,
     xdr_pack_bool (dirlist_t.eof dl)]"

definition unpack_dirlist :: "'e \<Rightarrow> ('e \<Rightarrow> 'e cx) \<Rightarrow> 'e dirlist_t \<Rightarrow> 'e dirlist_t cx" where
  "unpack_dirlist z up dl =
     cbind (into_local xdr_unpack_bool) (\<lambda>has_entries.
     cbind (if has_entries \<noteq> 0
            then alloc_then z (\<lambda>e. cbind (up e) (\<lambda>e. cret (dl\<lparr>dirlist_t.entries := Owned e\<rparr>)))
            else cret dl)
       (cfld dirlist_t.eof dirlist_t.eof_update (into xdr_unpack_bool)))"

definition destroy_dirlist :: "('e \<Rightarrow> (heap, 'e) cm) \<Rightarrow> 'e dirlist_t \<Rightarrow> (heap, 'e dirlist_t) cm" where
  "destroy_dirlist d dl =
     cbind (case dirlist_t.entries dl of
         NULL \<Rightarrow> cret ()
       | Owned e \<Rightarrow> cbind (d e) (\<lambda>e. cbind (free (Owned e)) (\<lambda>_. cret ()))
       | Dangling \<Rightarrow> cfault InvalidPointer) (\<lambda>_.
     cret zero_dirlist)"

definition cenc_dirlist :: "('e \<Rightarrow> bytes) \<Rightarrow> 'e dirlist_t \<Rightarrow> bytes" where
  "cenc_dirlist enc dl =
     enc_bool (dirlist_t.entries dl \<noteq> NULL) @
     (case dirlist_t.entries dl of Owned e \<Rightarrow> enc e | _ \<Rightarrow> []) @ enc_bool (dirlist_t.eof dl \<noteq> 0)"

definition all_entries :: "('e \<Rightarrow> bool) \<Rightarrow> 'e dirlist_t \<Rightarrow> bool" where
  "all_entries P dl \<longleftrightarrow>
     (case dirlist_t.entries dl of NULL \<Rightarrow> True | Owned e \<Rightarrow> P e | Dangling \<Rightarrow> False)"

definition covr_dirlist :: "('e \<Rightarrow> 'e) \<Rightarrow> 'e dirlist_t \<Rightarrow> 'e dirlist_t \<Rightarrow> 'e dirlist_t" where
  "covr_dirlist fresh x0 x =
     \<lparr>dirlist_t.entries = (case dirlist_t.entries x of Owned e \<Rightarrow> Owned (fresh e) | _ \<Rightarrow> dirlist_t.entries x0),
      eof = tv (dirlist_t.eof x)\<rparr>"

definition cblocks_dirlist :: "('e \<Rightarrow> int) \<Rightarrow> 'e dirlist_t \<Rightarrow> int" where
  "cblocks_dirlist blocks dl = (case dirlist_t.entries dl of Owned e \<Rightarrow> 1 + blocks e | _ \<Rightarrow> 0)"

definition empty_list :: "'e dirlist_t \<Rightarrow> bool" where
  "empty_list dl \<longleftrightarrow> dirlist_t.entries dl = NULL"

lemma empty_zero_dirlist [simp]: "empty_list zero_dirlist"
  by (simp add: empty_list_def zero_dirlist_def)

lemma cencodes_dirlist:
  assumes "all_entries ok dl" and "\<And>e. ok e \<Longrightarrow> cencodes (pk e) (enc e)"
  shows "cencodes (pack_dirlist pk dl) (cenc_dirlist enc dl)"
proof -
  have "cencodes (case dirlist_t.entries dl of NULL \<Rightarrow> cret () | Owned e \<Rightarrow> pk e | Dangling \<Rightarrow> cfault InvalidPointer)
      (case dirlist_t.entries dl of Owned e \<Rightarrow> enc e | _ \<Rightarrow> [])"
    using assms by (cases "dirlist_t.entries dl") (auto simp: all_entries_def intro: cencodes_cret)
  then show ?thesis unfolding pack_dirlist_def cenc_dirlist_def by (intro cencodes_flag cxenc)
qed

lemma cdecodes_dirlist:
  assumes ok: "all_entries ok x" and dst: "empty_list x0"
    and up: "\<And>e. ok e \<Longrightarrow> cdecodes (up z) (enc e) (fresh e) (blocks (fresh e))"
  shows "cdecodes (unpack_dirlist z up x0) (cenc_dirlist enc x) (covr_dirlist fresh x0 x)
     (cblocks_dirlist blocks (covr_dirlist fresh x0 x))"
proof -
  let ?h = "(if dirlist_t.entries x \<noteq> NULL then 1 else 0) :: cint"
  let ?y = "x0\<lparr>dirlist_t.entries := dirlist_t.entries (covr_dirlist fresh x0 x)\<rparr>"
  let ?m = "\<lambda>h. if h \<noteq> 0 then alloc_then z (\<lambda>e. cbind (up e) (\<lambda>e. cret (x0\<lparr>dirlist_t.entries := Owned e\<rparr>)))
      else cret x0"
  have m: "cdecodes (?m (tv ?h)) (case dirlist_t.entries x of Owned e \<Rightarrow> enc e | _ \<Rightarrow> []) ?y
      (cblocks_dirlist blocks (covr_dirlist fresh x0 x))"
  proof (cases "dirlist_t.entries x")
    case NULL
    with dst show ?thesis
      by (cases x0) (simp add: covr_dirlist_def cblocks_dirlist_def empty_list_def cdecodes_cret del: cret_apply)
  next
    case (Owned e)
    with ok up have "cdecodes (up z) (enc e) (fresh e) (blocks (fresh e))" by (simp add: all_entries_def)
    then have "cdecodes (alloc_then z (\<lambda>e. cbind (up e) (\<lambda>e. cret (x0\<lparr>dirlist_t.entries := Owned e\<rparr>))))
        (enc e) (x0\<lparr>dirlist_t.entries := Owned (fresh e)\<rparr>) (1 + blocks (fresh e))"
      by (rule_tac cdecodes_alloc_then, rule_tac cdecodes_bind_ret)
    with Owned show ?thesis by (simp add: covr_dirlist_def cblocks_dirlist_def)
  next
    case Dangling
    with ok show ?thesis by (simp add: all_entries_def)
  qed
  have t: "cdecodes (cfld dirlist_t.eof dirlist_t.eof_update (into xdr_unpack_bool) ?y)
      (enc_bool (dirlist_t.eof x \<noteq> 0)) (?y\<lparr>dirlist_t.eof := tv (dirlist_t.eof x)\<rparr>) 0"
    by (rule cdecodes_cfld, rule cdecodes_prims)
  have f: "enc_bool (?h \<noteq> 0) = enc_bool (dirlist_t.entries x \<noteq> NULL)" by simp
  have "cdecodes (unpack_dirlist z up x0) (cenc_dirlist enc x) (?y\<lparr>dirlist_t.eof := tv (dirlist_t.eof x)\<rparr>)
      (0 + (cblocks_dirlist blocks (covr_dirlist fresh x0 x) + 0))"
    unfolding unpack_dirlist_def cenc_dirlist_def f [symmetric]
    by (rule cdecodes_bind, rule cdecodes_prims(5), rule cdecodes_bind, rule m, rule t)
  then show ?thesis by (cases x0) (simp add: covr_dirlist_def)
qed

lemma creader_alloc: "creader (f z) \<Longrightarrow> creader (alloc_then z f)"
  by (rule creaderI, rule creader_alloc_then) (simp_all add: creader_def)

text \<open>A list of entries that keep the contract keeps it too.\<close>

context c_fresh
begin

lemma dirlist_fresh:
  "c_fresh (pack_dirlist pack) (unpack_dirlist zero unpack) (cenc_dirlist enc) (covr_dirlist (ovr zero))
     (all_entries ok) empty_list (cblocks_dirlist blocks) (destroy_dirlist destroy) zero_dirlist (all_entries rel)"
proof unfold_locales
  fix x x0 :: "'a dirlist_t" and h
  show "cencodes (pack_dirlist pack x) (cenc_dirlist enc x)" if "all_entries ok x"
    using that pack_encodes by (rule cencodes_dirlist)
  show "cdecodes (unpack_dirlist zero unpack x0) (cenc_dirlist enc x) (covr_dirlist (ovr zero) x0 x)
      (cblocks_dirlist blocks (covr_dirlist (ovr zero) x0 x) - cblocks_dirlist blocks x0)"
    if "all_entries ok x" "empty_list x0"
  proof -
    have "cblocks_dirlist blocks x0 = 0" using that(2) by (simp add: cblocks_dirlist_def empty_list_def)
    moreover have "cdecodes (unpack zero) (enc e) (ovr zero e) (blocks (ovr zero e))" if "ok e" for e
      using unpack_decodes [OF that dst_fresh] by simp
    ultimately show ?thesis using cdecodes_dirlist [OF that, of unpack zero enc "ovr zero" blocks] by simp
  qed
  show "creader (unpack_dirlist zero unpack x0)"
    unfolding unpack_dirlist_def
    by (intro creader_bind cxrd creader_alloc unpack_reader dst_fresh)
  show "destroy_dirlist destroy x h = Done (zero_dirlist, h\<lparr>live := live h - cblocks_dirlist blocks x\<rparr>)"
    if "all_entries rel x"
    using that by (cases "dirlist_t.entries x")
      (auto simp: destroy_dirlist_def all_entries_def cblocks_dirlist_def cbind_def destroy_done
        free_releasable algebra_simps)
  show "all_entries ok (covr_dirlist (ovr zero) zero_dirlist x)" if "all_entries ok x"
    using that by (cases "dirlist_t.entries x")
      (auto simp: all_entries_def covr_dirlist_def zero_dirlist_def fresh_ok)
  show "cenc_dirlist enc (covr_dirlist (ovr zero) zero_dirlist x) = cenc_dirlist enc x" if "all_entries ok x"
    using that by (cases "dirlist_t.entries x")
      (auto simp: all_entries_def covr_dirlist_def cenc_dirlist_def zero_dirlist_def fresh_enc)
  show "all_entries rel (covr_dirlist (ovr zero) zero_dirlist x)" if "all_entries ok x"
    using that by (cases "dirlist_t.entries x")
      (auto simp: all_entries_def covr_dirlist_def zero_dirlist_def fresh_rel)
qed (simp_all add: all_entries_def cblocks_dirlist_def empty_list_def zero_dirlist_def)

end

type_synonym dirlist3_t = "entry3_t dirlist_t"
type_synonym dirlistplus3_t = "entryplus3_t dirlist_t"

definition c_dirlist3_init :: dirlist3_t where
  "c_dirlist3_init = zero_dirlist"

definition c_dirlist3_destroy :: "dirlist3_t \<Rightarrow> (heap, dirlist3_t) cm" where
  "c_dirlist3_destroy = destroy_dirlist c_entry3_destroy"

definition xdr_pack_dirlist3 :: "dirlist3_t \<Rightarrow> unit cx" where
  "xdr_pack_dirlist3 = pack_dirlist xdr_pack_entry3"

definition xdr_unpack_dirlist3 :: "dirlist3_t \<Rightarrow> dirlist3_t cx" where
  "xdr_unpack_dirlist3 = unpack_dirlist c_entry3_init xdr_unpack_entry3"

abbreviation "cenc_dirlist3 \<equiv> cenc_dirlist cenc_entry3"
abbreviation "cok_dirlist3 \<equiv> all_entries cok_entry3"
abbreviation "crel_dirlist3 \<equiv> all_entries crel_entry3"
abbreviation "cblocks_dirlist3 \<equiv> cblocks_dirlist cblocks_entry3"
abbreviation "covr_dirlist3 \<equiv> covr_dirlist dec_entry3"
abbreviation "cdst_dirlist3 \<equiv> empty_list :: dirlist3_t \<Rightarrow> bool"

interpretation dirlist3_c: c_fresh
  xdr_pack_dirlist3 xdr_unpack_dirlist3 cenc_dirlist3 covr_dirlist3 cok_dirlist3 cdst_dirlist3 cblocks_dirlist3
  c_dirlist3_destroy zero_dirlist crel_dirlist3
  unfolding xdr_pack_dirlist3_def xdr_unpack_dirlist3_def c_dirlist3_destroy_def
  by (rule entry3_c.dirlist_fresh)

definition c_dirlistplus3_init :: dirlistplus3_t where
  "c_dirlistplus3_init = zero_dirlist"

definition c_dirlistplus3_destroy :: "dirlistplus3_t \<Rightarrow> (heap, dirlistplus3_t) cm" where
  "c_dirlistplus3_destroy = destroy_dirlist c_entryplus3_destroy"

definition xdr_pack_dirlistplus3 :: "dirlistplus3_t \<Rightarrow> unit cx" where
  "xdr_pack_dirlistplus3 = pack_dirlist xdr_pack_entryplus3"

definition xdr_unpack_dirlistplus3 :: "dirlistplus3_t \<Rightarrow> dirlistplus3_t cx" where
  "xdr_unpack_dirlistplus3 = unpack_dirlist c_entryplus3_init xdr_unpack_entryplus3"

abbreviation "cenc_dirlistplus3 \<equiv> cenc_dirlist cenc_entryplus3"
abbreviation "cok_dirlistplus3 \<equiv> all_entries cok_entryplus3"
abbreviation "crel_dirlistplus3 \<equiv> all_entries crel_entryplus3"
abbreviation "cblocks_dirlistplus3 \<equiv> cblocks_dirlist cblocks_entryplus3"
abbreviation "covr_dirlistplus3 \<equiv> covr_dirlist (covr_entryplus3 zero_entryplus3_t)"
abbreviation "cdst_dirlistplus3 \<equiv> empty_list :: dirlistplus3_t \<Rightarrow> bool"

interpretation dirlistplus3_c: c_fresh
  xdr_pack_dirlistplus3 xdr_unpack_dirlistplus3 cenc_dirlistplus3 covr_dirlistplus3 cok_dirlistplus3 cdst_dirlistplus3 cblocks_dirlistplus3
  c_dirlistplus3_destroy zero_dirlist crel_dirlistplus3
  unfolding xdr_pack_dirlistplus3_def xdr_unpack_dirlistplus3_def c_dirlistplus3_destroy_def c_entryplus3_init_eq
  by (rule entryplus3_c.dirlist_fresh)

end
