(* ===== verification/CNfs3ProcsB.thy ===== *)
theory CNfs3ProcsB
  imports CNfs3Dir
begin

text \<open>
  The procedures of the C port, second part: CREATE, REMOVE, RMDIR, RENAME, LINK, MKDIR, SYMLINK and
  MKNOD. The results that carry a handle start from a fresh object, which the decoder makes by
  destroying the one it was given.
\<close>

section \<open>CREATE\<close>

record CREATE3args_t =
  where_dir :: nfs_fh3_t
  where_name :: "block ptr"
  how_mode :: uint32
  how_attributes :: sattr3_t
  how_verf :: createverf3_t

definition zero_CREATE3args_t :: CREATE3args_t where
  "zero_CREATE3args_t = \<lparr>CREATE3args_t.where_dir = zero_nfs_fh3_t,
     CREATE3args_t.where_name = NULL,
     CREATE3args_t.how_mode = 0,
     CREATE3args_t.how_attributes = zero_sattr3_t,
     CREATE3args_t.how_verf = zero_createverf3_t\<rparr>"

definition c_create3args_init :: CREATE3args_t where
  "c_create3args_init = zero_CREATE3args_t\<lparr>CREATE3args_t.where_dir := c_nfs_fh3_init, CREATE3args_t.how_attributes := c_sattr3_init\<rparr>"

definition c_create3args_destroy :: "CREATE3args_t \<Rightarrow> (heap, CREATE3args_t) cm" where
  "c_create3args_destroy ob =
     cbind (c_nfs_fh3_destroy (CREATE3args_t.where_dir ob)) (\<lambda>_.
     cbind (free (CREATE3args_t.where_name ob)) (\<lambda>_.
     cret zero_CREATE3args_t))"

definition c_create3args_set_name :: "CREATE3args_t \<Rightarrow> block ptr \<Rightarrow> (heap, CREATE3args_t) cm" where
  "c_create3args_set_name ob name = cfld CREATE3args_t.where_name CREATE3args_t.where_name_update (replace_string name) ob"

definition xdr_pack_CREATE3args :: "CREATE3args_t \<Rightarrow> unit cx" where
  "xdr_pack_CREATE3args ob = cdo [
     xdr_pack_nfs_fh3 (CREATE3args_t.where_dir ob),
     xdr_pack_cstring (CREATE3args_t.where_name ob),
     xdr_pack_uint32 (CREATE3args_t.how_mode ob),
     if CREATE3args_t.how_mode ob = EXCLUSIVE then xdr_pack_createverf3 (CREATE3args_t.how_verf ob)
     else xdr_pack_sattr3 (CREATE3args_t.how_attributes ob)]"

definition xdr_unpack_CREATE3args :: "CREATE3args_t \<Rightarrow> CREATE3args_t cx" where
  "xdr_unpack_CREATE3args = cseq [
     cfld CREATE3args_t.where_dir CREATE3args_t.where_dir_update xdr_unpack_nfs_fh3,
     cfld CREATE3args_t.where_name CREATE3args_t.where_name_update reread_cstring,
     cfld CREATE3args_t.how_mode CREATE3args_t.how_mode_update (\<lambda>_. into_local xdr_unpack_uint32),
     \<lambda>ob. if CREATE3args_t.how_mode ob = EXCLUSIVE then cfld CREATE3args_t.how_verf CREATE3args_t.how_verf_update xdr_unpack_createverf3 ob
          else cfld CREATE3args_t.how_attributes CREATE3args_t.how_attributes_update xdr_unpack_sattr3 ob]"

definition cenc_CREATE3args :: "CREATE3args_t \<Rightarrow> bytes" where
  "cenc_CREATE3args ob =
     cenc_nfs_fh3 (CREATE3args_t.where_dir ob) @
     enc_opaque (chars (CREATE3args_t.where_name ob)) @
     be32 (CREATE3args_t.how_mode ob) @
     (if CREATE3args_t.how_mode ob = EXCLUSIVE then cenc_createverf3 (CREATE3args_t.how_verf ob) else cenc_sattr3 (CREATE3args_t.how_attributes ob))"

definition cok_CREATE3args :: "CREATE3args_t \<Rightarrow> bool" where
  "cok_CREATE3args ob \<longleftrightarrow> cok_nfs_fh3 (CREATE3args_t.where_dir ob) \<and>
     is_cstring (CREATE3args_t.where_name ob) \<and> length (chars (CREATE3args_t.where_name ob)) < UINT32_MAX \<and>
     (CREATE3args_t.how_mode ob = EXCLUSIVE \<longrightarrow> cok_createverf3 (CREATE3args_t.how_verf ob))"

definition covr_CREATE3args :: "CREATE3args_t \<Rightarrow> CREATE3args_t \<Rightarrow> CREATE3args_t" where
  "covr_CREATE3args x0 x =
     \<lparr>CREATE3args_t.where_dir = covr_nfs_fh3 (CREATE3args_t.where_dir x0) (CREATE3args_t.where_dir x),
      CREATE3args_t.where_name = Owned (cstring (chars (CREATE3args_t.where_name x))),
      CREATE3args_t.how_mode = CREATE3args_t.how_mode x,
      CREATE3args_t.how_attributes = (if CREATE3args_t.how_mode x = EXCLUSIVE then CREATE3args_t.how_attributes x0 else covr_sattr3 (CREATE3args_t.how_attributes x0) (CREATE3args_t.how_attributes x)),
      CREATE3args_t.how_verf = (if CREATE3args_t.how_mode x = EXCLUSIVE then CREATE3args_t.how_verf x else CREATE3args_t.how_verf x0)\<rparr>"

definition cdst_CREATE3args :: "CREATE3args_t \<Rightarrow> bool" where
  "cdst_CREATE3args ob \<longleftrightarrow> cdst_nfs_fh3 (CREATE3args_t.where_dir ob) \<and> releasable (CREATE3args_t.where_name ob)"

definition cblocks_CREATE3args :: "CREATE3args_t \<Rightarrow> int" where
  "cblocks_CREATE3args ob = cblocks_nfs_fh3 (CREATE3args_t.where_dir ob) + held (CREATE3args_t.where_name ob)"

interpretation CREATE3args_obj: c_object c_create3args_destroy zero_CREATE3args_t cdst_CREATE3args cblocks_CREATE3args
  by unfold_locales
    (auto simp: c_create3args_destroy_def cdst_CREATE3args_def cblocks_CREATE3args_def cbind_def free_releasable cxdestroy zero_CREATE3args_t_def)

interpretation CREATE3args_c: c_managed
  xdr_pack_CREATE3args xdr_unpack_CREATE3args cenc_CREATE3args
  covr_CREATE3args cok_CREATE3args cdst_CREATE3args cblocks_CREATE3args c_create3args_destroy zero_CREATE3args_t
proof unfold_locales
  fix x x0 :: CREATE3args_t
  show "cencodes (xdr_pack_CREATE3args x) (cenc_CREATE3args x)" if "cok_CREATE3args x"
    unfolding xdr_pack_CREATE3args_def cenc_CREATE3args_def
    by (intro cxenc) (use that in \<open>auto simp: cok_CREATE3args_def intro!: createverf3_c.pack_encodes sattr3_c.pack_encodes\<close>)
  show "cdecodes (xdr_unpack_CREATE3args x0) (cenc_CREATE3args x) (covr_CREATE3args x0 x)
      (cblocks_CREATE3args (covr_CREATE3args x0 x) - cblocks_CREATE3args x0)"
    if "cok_CREATE3args x" "cdst_CREATE3args x0"
    unfolding xdr_unpack_CREATE3args_def cenc_CREATE3args_def
    by (rule cdecodes_cong, (rule cxdec TrueI cdecodes_choose |
        (use that in \<open>simp add: cok_CREATE3args_def cdst_CREATE3args_def; fail\<close>) |
        (use that in \<open>cases x, cases x0, simp add: covr_CREATE3args_def cblocks_CREATE3args_def; fail\<close>))+)
  show "creader (xdr_unpack_CREATE3args x0)" if "cdst_CREATE3args x0"
    unfolding xdr_unpack_CREATE3args_def 
    by ((rule cxrd_at | rule cxrd | (use that in \<open>simp add: cdst_CREATE3args_def; fail\<close>))+)
  show "cok_CREATE3args (covr_CREATE3args x0 x)" if "cok_CREATE3args x"
    using that by (auto simp: cok_CREATE3args_def covr_CREATE3args_def nfs_fh3_c.ovr_enc nfs_fh3_c.ovr_ok nfs_fh3_c.ovr_dst sattr3_c.ovr_enc chars_nonzero)
  show "cenc_CREATE3args (covr_CREATE3args x0 x) = cenc_CREATE3args x" if "cok_CREATE3args x"
    using that by (auto simp: cok_CREATE3args_def covr_CREATE3args_def cenc_CREATE3args_def nfs_fh3_c.ovr_enc nfs_fh3_c.ovr_ok nfs_fh3_c.ovr_dst sattr3_c.ovr_enc chars_nonzero)
  show "cdst_CREATE3args (covr_CREATE3args x0 x)" if "cok_CREATE3args x" "cdst_CREATE3args x0"
    using that by (auto simp: cok_CREATE3args_def covr_CREATE3args_def cdst_CREATE3args_def nfs_fh3_c.ovr_enc nfs_fh3_c.ovr_ok nfs_fh3_c.ovr_dst sattr3_c.ovr_enc)
qed

record CREATE3resok_t =
  obj_attributes :: post_op_attr_t
  dir_wcc :: wcc_data_t
  object :: nfs_fh3_t

definition zero_CREATE3resok_t :: CREATE3resok_t where
  "zero_CREATE3resok_t = \<lparr>CREATE3resok_t.obj_attributes = zero_post_op_attr_t,
     CREATE3resok_t.dir_wcc = zero_wcc_data_t,
     CREATE3resok_t.object = zero_nfs_fh3_t\<rparr>"

definition c_create3resok_init :: CREATE3resok_t where
  "c_create3resok_init = zero_CREATE3resok_t\<lparr>CREATE3resok_t.object := c_nfs_fh3_init\<rparr>"

definition c_create3resok_destroy :: "CREATE3resok_t \<Rightarrow> (heap, CREATE3resok_t) cm" where
  "c_create3resok_destroy ob =
     cbind (c_nfs_fh3_destroy (CREATE3resok_t.object ob)) (\<lambda>_.
     cret zero_CREATE3resok_t)"

definition xdr_pack_CREATE3resok :: "CREATE3resok_t \<Rightarrow> unit cx" where
  "xdr_pack_CREATE3resok ob = cdo [
     xdr_pack_opt_fh3 (CREATE3resok_t.object ob),
     xdr_pack_post_op_attr (CREATE3resok_t.obj_attributes ob),
     xdr_pack_wcc_data (CREATE3resok_t.dir_wcc ob)]"

definition xdr_unpack_CREATE3resok :: "CREATE3resok_t \<Rightarrow> CREATE3resok_t cx" where
  "xdr_unpack_CREATE3resok = cseq [
     cfld CREATE3resok_t.object CREATE3resok_t.object_update xdr_unpack_opt_fh3,
     cfld CREATE3resok_t.obj_attributes CREATE3resok_t.obj_attributes_update xdr_unpack_post_op_attr,
     cfld CREATE3resok_t.dir_wcc CREATE3resok_t.dir_wcc_update xdr_unpack_wcc_data]"

definition cenc_CREATE3resok :: "CREATE3resok_t \<Rightarrow> bytes" where
  "cenc_CREATE3resok ob =
     cenc_opt_fh3 (CREATE3resok_t.object ob) @
     cenc_post_op_attr (CREATE3resok_t.obj_attributes ob) @
     cenc_wcc_data (CREATE3resok_t.dir_wcc ob)"

definition cok_CREATE3resok :: "CREATE3resok_t \<Rightarrow> bool" where
  "cok_CREATE3resok ob \<longleftrightarrow> cok_opt_fh3 (CREATE3resok_t.object ob)"

definition covr_CREATE3resok :: "CREATE3resok_t \<Rightarrow> CREATE3resok_t \<Rightarrow> CREATE3resok_t" where
  "covr_CREATE3resok x0 x =
     \<lparr>CREATE3resok_t.obj_attributes = covr_post_op_attr (CREATE3resok_t.obj_attributes x0) (CREATE3resok_t.obj_attributes x),
      CREATE3resok_t.dir_wcc = covr_wcc_data (CREATE3resok_t.dir_wcc x0) (CREATE3resok_t.dir_wcc x),
      CREATE3resok_t.object = covr_opt_fh3 (CREATE3resok_t.object x0) (CREATE3resok_t.object x)\<rparr>"

definition cdst_CREATE3resok :: "CREATE3resok_t \<Rightarrow> bool" where
  "cdst_CREATE3resok ob \<longleftrightarrow> cdst_opt_fh3 (CREATE3resok_t.object ob)"

definition cblocks_CREATE3resok :: "CREATE3resok_t \<Rightarrow> int" where
  "cblocks_CREATE3resok ob = cblocks_opt_fh3 (CREATE3resok_t.object ob)"

interpretation CREATE3resok_obj: c_object c_create3resok_destroy zero_CREATE3resok_t cdst_CREATE3resok cblocks_CREATE3resok
  by unfold_locales
    (auto simp: c_create3resok_destroy_def cdst_CREATE3resok_def cblocks_CREATE3resok_def cbind_def free_releasable cxdestroy zero_CREATE3resok_t_def)

interpretation CREATE3resok_c: c_fresh
  xdr_pack_CREATE3resok xdr_unpack_CREATE3resok cenc_CREATE3resok
  covr_CREATE3resok cok_CREATE3resok cdst_CREATE3resok cblocks_CREATE3resok c_create3resok_destroy zero_CREATE3resok_t cdst_CREATE3resok
proof unfold_locales
  fix x x0 :: CREATE3resok_t
  show "cencodes (xdr_pack_CREATE3resok x) (cenc_CREATE3resok x)" if "cok_CREATE3resok x"
    unfolding xdr_pack_CREATE3resok_def cenc_CREATE3resok_def
    using that [unfolded cok_CREATE3resok_def] by (intro cxenc TrueI) auto
  show "cdecodes (xdr_unpack_CREATE3resok x0) (cenc_CREATE3resok x) (covr_CREATE3resok x0 x) (cblocks_CREATE3resok (covr_CREATE3resok x0 x) - cblocks_CREATE3resok x0)" if "cok_CREATE3resok x" "cdst_CREATE3resok x0"
    unfolding xdr_unpack_CREATE3resok_def cenc_CREATE3resok_def
    by (rule cdecodes_cong, (rule cxdec TrueI |
        (use that in \<open>simp add: cok_CREATE3resok_def cdst_CREATE3resok_def; fail\<close>) |
        (use that in \<open>cases x, cases x0, simp add: covr_CREATE3resok_def cdst_CREATE3resok_def cblocks_CREATE3resok_def; fail\<close>))+)
  show "creader (xdr_unpack_CREATE3resok x0)" if "cdst_CREATE3resok x0"
    unfolding xdr_unpack_CREATE3resok_def 
    by ((rule cxrd_at | rule cxrd | (use that in \<open>simp add: cdst_CREATE3resok_def; fail\<close>))+)
  show "cdst_CREATE3resok zero_CREATE3resok_t" by (simp add: cdst_CREATE3resok_def zero_CREATE3resok_t_def)
  show "cok_CREATE3resok (covr_CREATE3resok zero_CREATE3resok_t x)" if "cok_CREATE3resok x"
    using that by (auto simp: cok_CREATE3resok_def covr_CREATE3resok_def zero_CREATE3resok_t_def post_op_attr_c.ovr_enc wcc_data_c.ovr_enc opt_fh3_c.fresh_enc opt_fh3_c.fresh_ok opt_fh3_c.fresh_rel  chars_nonzero)
  show "cenc_CREATE3resok (covr_CREATE3resok zero_CREATE3resok_t x) = cenc_CREATE3resok x" if "cok_CREATE3resok x"
    using that by (auto simp: cok_CREATE3resok_def covr_CREATE3resok_def cenc_CREATE3resok_def zero_CREATE3resok_t_def post_op_attr_c.ovr_enc wcc_data_c.ovr_enc opt_fh3_c.fresh_enc opt_fh3_c.fresh_ok opt_fh3_c.fresh_rel  chars_nonzero)
  show "cdst_CREATE3resok (covr_CREATE3resok zero_CREATE3resok_t x)" if "cok_CREATE3resok x"
    using that by (auto simp: cok_CREATE3resok_def covr_CREATE3resok_def cdst_CREATE3resok_def zero_CREATE3resok_t_def post_op_attr_c.ovr_enc wcc_data_c.ovr_enc opt_fh3_c.fresh_enc opt_fh3_c.fresh_ok opt_fh3_c.fresh_rel )
qed

type_synonym CREATE3res_t = "CREATE3resok_t nfs_res_t"

definition c_create3res_init :: CREATE3res_t where
  "c_create3res_init = (zero_res zero_CREATE3resok_t)\<lparr>nfs_res_t.resok := c_create3resok_init\<rparr>"

definition c_create3res_destroy :: "CREATE3res_t \<Rightarrow> (heap, CREATE3res_t) cm" where
  "c_create3res_destroy = destroy_res c_create3resok_destroy zero_CREATE3resok_t"

definition xdr_pack_CREATE3res :: "CREATE3res_t \<Rightarrow> unit cx" where
  "xdr_pack_CREATE3res = pack_res xdr_pack_CREATE3resok"

definition xdr_unpack_CREATE3res :: "CREATE3res_t \<Rightarrow> CREATE3res_t cx" where
  "xdr_unpack_CREATE3res ob = cbind (on_heap (c_create3res_destroy ob)) (unpack_res xdr_unpack_CREATE3resok)"

interpretation CREATE3res_c: c_managed
  xdr_pack_CREATE3res xdr_unpack_CREATE3res "cenc_res cenc_CREATE3resok" "\<lambda>_. covr_res covr_CREATE3resok (zero_res zero_CREATE3resok_t)"
  "cok_res cok_CREATE3resok" "\<lambda>ob. cdst_CREATE3resok (nfs_res_t.resok ob)" "\<lambda>ob. cblocks_CREATE3resok (nfs_res_t.resok ob)"
  c_create3res_destroy "zero_res zero_CREATE3resok_t"
  unfolding xdr_pack_CREATE3res_def xdr_unpack_CREATE3res_def [abs_def] c_create3res_destroy_def by (rule CREATE3resok_c.res_managed)

section \<open>REMOVE\<close>

record REMOVE3args_t =
  object_dir :: nfs_fh3_t
  object_name :: "block ptr"

definition zero_REMOVE3args_t :: REMOVE3args_t where
  "zero_REMOVE3args_t = \<lparr>REMOVE3args_t.object_dir = zero_nfs_fh3_t,
     REMOVE3args_t.object_name = NULL\<rparr>"

definition c_remove3args_init :: REMOVE3args_t where
  "c_remove3args_init = zero_REMOVE3args_t\<lparr>REMOVE3args_t.object_dir := c_nfs_fh3_init\<rparr>"

definition c_remove3args_destroy :: "REMOVE3args_t \<Rightarrow> (heap, REMOVE3args_t) cm" where
  "c_remove3args_destroy ob =
     cbind (c_nfs_fh3_destroy (REMOVE3args_t.object_dir ob)) (\<lambda>_.
     cbind (free (REMOVE3args_t.object_name ob)) (\<lambda>_.
     cret zero_REMOVE3args_t))"

definition c_remove3args_set_name :: "REMOVE3args_t \<Rightarrow> block ptr \<Rightarrow> (heap, REMOVE3args_t) cm" where
  "c_remove3args_set_name ob name = cfld REMOVE3args_t.object_name REMOVE3args_t.object_name_update (replace_string name) ob"

definition xdr_pack_REMOVE3args :: "REMOVE3args_t \<Rightarrow> unit cx" where
  "xdr_pack_REMOVE3args ob = cdo [
     xdr_pack_nfs_fh3 (REMOVE3args_t.object_dir ob),
     xdr_pack_cstring (REMOVE3args_t.object_name ob)]"

definition xdr_unpack_REMOVE3args :: "REMOVE3args_t \<Rightarrow> REMOVE3args_t cx" where
  "xdr_unpack_REMOVE3args = cseq [
     cfld REMOVE3args_t.object_dir REMOVE3args_t.object_dir_update xdr_unpack_nfs_fh3,
     cfld REMOVE3args_t.object_name REMOVE3args_t.object_name_update reread_cstring]"

definition cenc_REMOVE3args :: "REMOVE3args_t \<Rightarrow> bytes" where
  "cenc_REMOVE3args ob =
     cenc_nfs_fh3 (REMOVE3args_t.object_dir ob) @
     enc_opaque (chars (REMOVE3args_t.object_name ob))"

definition cok_REMOVE3args :: "REMOVE3args_t \<Rightarrow> bool" where
  "cok_REMOVE3args ob \<longleftrightarrow> cok_nfs_fh3 (REMOVE3args_t.object_dir ob) \<and>
     is_cstring (REMOVE3args_t.object_name ob) \<and> length (chars (REMOVE3args_t.object_name ob)) < UINT32_MAX"

definition covr_REMOVE3args :: "REMOVE3args_t \<Rightarrow> REMOVE3args_t \<Rightarrow> REMOVE3args_t" where
  "covr_REMOVE3args x0 x =
     \<lparr>REMOVE3args_t.object_dir = covr_nfs_fh3 (REMOVE3args_t.object_dir x0) (REMOVE3args_t.object_dir x),
      REMOVE3args_t.object_name = Owned (cstring (chars (REMOVE3args_t.object_name x)))\<rparr>"

definition cdst_REMOVE3args :: "REMOVE3args_t \<Rightarrow> bool" where
  "cdst_REMOVE3args ob \<longleftrightarrow> cdst_nfs_fh3 (REMOVE3args_t.object_dir ob) \<and> releasable (REMOVE3args_t.object_name ob)"

definition cblocks_REMOVE3args :: "REMOVE3args_t \<Rightarrow> int" where
  "cblocks_REMOVE3args ob = cblocks_nfs_fh3 (REMOVE3args_t.object_dir ob) + held (REMOVE3args_t.object_name ob)"

interpretation REMOVE3args_obj: c_object c_remove3args_destroy zero_REMOVE3args_t cdst_REMOVE3args cblocks_REMOVE3args
  by unfold_locales
    (auto simp: c_remove3args_destroy_def cdst_REMOVE3args_def cblocks_REMOVE3args_def cbind_def free_releasable cxdestroy zero_REMOVE3args_t_def)

interpretation REMOVE3args_c: c_managed
  xdr_pack_REMOVE3args xdr_unpack_REMOVE3args cenc_REMOVE3args
  covr_REMOVE3args cok_REMOVE3args cdst_REMOVE3args cblocks_REMOVE3args c_remove3args_destroy zero_REMOVE3args_t
proof unfold_locales
  fix x x0 :: REMOVE3args_t
  show "cencodes (xdr_pack_REMOVE3args x) (cenc_REMOVE3args x)" if "cok_REMOVE3args x"
    unfolding xdr_pack_REMOVE3args_def cenc_REMOVE3args_def
    using that [unfolded cok_REMOVE3args_def] by (intro cxenc TrueI) auto
  show "cdecodes (xdr_unpack_REMOVE3args x0) (cenc_REMOVE3args x) (covr_REMOVE3args x0 x) (cblocks_REMOVE3args (covr_REMOVE3args x0 x) - cblocks_REMOVE3args x0)" if "cok_REMOVE3args x" "cdst_REMOVE3args x0"
    unfolding xdr_unpack_REMOVE3args_def cenc_REMOVE3args_def
    by (rule cdecodes_cong, (rule cxdec TrueI |
        (use that in \<open>simp add: cok_REMOVE3args_def cdst_REMOVE3args_def; fail\<close>) |
        (use that in \<open>cases x, cases x0, simp add: covr_REMOVE3args_def cdst_REMOVE3args_def cblocks_REMOVE3args_def; fail\<close>))+)
  show "creader (xdr_unpack_REMOVE3args x0)" if "cdst_REMOVE3args x0"
    unfolding xdr_unpack_REMOVE3args_def 
    by ((rule cxrd_at | rule cxrd | (use that in \<open>simp add: cdst_REMOVE3args_def; fail\<close>))+)
  show "cok_REMOVE3args (covr_REMOVE3args x0 x)" if "cok_REMOVE3args x"
    using that by (auto simp: cok_REMOVE3args_def covr_REMOVE3args_def nfs_fh3_c.ovr_enc nfs_fh3_c.ovr_ok nfs_fh3_c.ovr_dst chars_nonzero)
  show "cenc_REMOVE3args (covr_REMOVE3args x0 x) = cenc_REMOVE3args x" if "cok_REMOVE3args x"
    using that by (auto simp: cok_REMOVE3args_def covr_REMOVE3args_def cenc_REMOVE3args_def nfs_fh3_c.ovr_enc nfs_fh3_c.ovr_ok nfs_fh3_c.ovr_dst chars_nonzero)
  show "cdst_REMOVE3args (covr_REMOVE3args x0 x)" if "cok_REMOVE3args x" "cdst_REMOVE3args x0"
    using that by (auto simp: cok_REMOVE3args_def covr_REMOVE3args_def cdst_REMOVE3args_def nfs_fh3_c.ovr_enc nfs_fh3_c.ovr_ok nfs_fh3_c.ovr_dst)
qed

record REMOVE3resok_t =
  dir_wcc :: wcc_data_t

definition zero_REMOVE3resok_t :: REMOVE3resok_t where
  "zero_REMOVE3resok_t = \<lparr>REMOVE3resok_t.dir_wcc = zero_wcc_data_t\<rparr>"

definition xdr_pack_REMOVE3resok :: "REMOVE3resok_t \<Rightarrow> unit cx" where
  "xdr_pack_REMOVE3resok ob = cdo [
     xdr_pack_wcc_data (REMOVE3resok_t.dir_wcc ob)]"

definition xdr_unpack_REMOVE3resok :: "REMOVE3resok_t \<Rightarrow> REMOVE3resok_t cx" where
  "xdr_unpack_REMOVE3resok = cseq [
     cfld REMOVE3resok_t.dir_wcc REMOVE3resok_t.dir_wcc_update xdr_unpack_wcc_data]"

definition cenc_REMOVE3resok :: "REMOVE3resok_t \<Rightarrow> bytes" where
  "cenc_REMOVE3resok ob =
     cenc_wcc_data (REMOVE3resok_t.dir_wcc ob)"

definition covr_REMOVE3resok :: "REMOVE3resok_t \<Rightarrow> REMOVE3resok_t \<Rightarrow> REMOVE3resok_t" where
  "covr_REMOVE3resok x0 x =
     \<lparr>REMOVE3resok_t.dir_wcc = covr_wcc_data (REMOVE3resok_t.dir_wcc x0) (REMOVE3resok_t.dir_wcc x)\<rparr>"

interpretation REMOVE3resok_c: c_codec
  xdr_pack_REMOVE3resok xdr_unpack_REMOVE3resok cenc_REMOVE3resok
  covr_REMOVE3resok "\<lambda>_. True" "\<lambda>_. True" "\<lambda>_. 0"
proof unfold_locales
  fix x x0 :: REMOVE3resok_t
  show "cencodes (xdr_pack_REMOVE3resok x) (cenc_REMOVE3resok x)"
    unfolding xdr_pack_REMOVE3resok_def cenc_REMOVE3resok_def by (intro cxenc TrueI)
  show "cdecodes (xdr_unpack_REMOVE3resok x0) (cenc_REMOVE3resok x) (covr_REMOVE3resok x0 x) (0 - 0)"
    unfolding xdr_unpack_REMOVE3resok_def cenc_REMOVE3resok_def
    by (rule cdecodes_cong, (rule cxdec TrueI |
        (cases x, cases x0, simp add: covr_REMOVE3resok_def; fail))+)
  show "creader (xdr_unpack_REMOVE3resok x0)"
    unfolding xdr_unpack_REMOVE3resok_def by (intro cxrd TrueI)
  show "cenc_REMOVE3resok (covr_REMOVE3resok x0 x) = cenc_REMOVE3resok x"
    by (auto simp: covr_REMOVE3resok_def cenc_REMOVE3resok_def wcc_data_c.ovr_enc chars_nonzero)
qed simp_all

type_synonym REMOVE3res_t = "REMOVE3resok_t nfs_res_t"

definition xdr_pack_REMOVE3res :: "REMOVE3res_t \<Rightarrow> unit cx" where
  "xdr_pack_REMOVE3res = pack_res xdr_pack_REMOVE3resok"

definition xdr_unpack_REMOVE3res :: "REMOVE3res_t \<Rightarrow> REMOVE3res_t cx" where
  "xdr_unpack_REMOVE3res = unpack_res xdr_unpack_REMOVE3resok"

interpretation REMOVE3res_c: c_codec
  xdr_pack_REMOVE3res xdr_unpack_REMOVE3res "cenc_res cenc_REMOVE3resok" "covr_res covr_REMOVE3resok" "cok_res (\<lambda>_. True)" "\<lambda>_. True" "\<lambda>_. 0"
  unfolding xdr_pack_REMOVE3res_def xdr_unpack_REMOVE3res_def by (rule REMOVE3resok_c.res_codec)

section \<open>RMDIR\<close>

record RMDIR3args_t =
  object_dir :: nfs_fh3_t
  object_name :: "block ptr"

definition zero_RMDIR3args_t :: RMDIR3args_t where
  "zero_RMDIR3args_t = \<lparr>RMDIR3args_t.object_dir = zero_nfs_fh3_t,
     RMDIR3args_t.object_name = NULL\<rparr>"

definition c_rmdir3args_init :: RMDIR3args_t where
  "c_rmdir3args_init = zero_RMDIR3args_t\<lparr>RMDIR3args_t.object_dir := c_nfs_fh3_init\<rparr>"

definition c_rmdir3args_destroy :: "RMDIR3args_t \<Rightarrow> (heap, RMDIR3args_t) cm" where
  "c_rmdir3args_destroy ob =
     cbind (c_nfs_fh3_destroy (RMDIR3args_t.object_dir ob)) (\<lambda>_.
     cbind (free (RMDIR3args_t.object_name ob)) (\<lambda>_.
     cret zero_RMDIR3args_t))"

definition c_rmdir3args_set_name :: "RMDIR3args_t \<Rightarrow> block ptr \<Rightarrow> (heap, RMDIR3args_t) cm" where
  "c_rmdir3args_set_name ob name = cfld RMDIR3args_t.object_name RMDIR3args_t.object_name_update (replace_string name) ob"

definition xdr_pack_RMDIR3args :: "RMDIR3args_t \<Rightarrow> unit cx" where
  "xdr_pack_RMDIR3args ob = cdo [
     xdr_pack_nfs_fh3 (RMDIR3args_t.object_dir ob),
     xdr_pack_cstring (RMDIR3args_t.object_name ob)]"

definition xdr_unpack_RMDIR3args :: "RMDIR3args_t \<Rightarrow> RMDIR3args_t cx" where
  "xdr_unpack_RMDIR3args = cseq [
     cfld RMDIR3args_t.object_dir RMDIR3args_t.object_dir_update xdr_unpack_nfs_fh3,
     cfld RMDIR3args_t.object_name RMDIR3args_t.object_name_update reread_cstring]"

definition cenc_RMDIR3args :: "RMDIR3args_t \<Rightarrow> bytes" where
  "cenc_RMDIR3args ob =
     cenc_nfs_fh3 (RMDIR3args_t.object_dir ob) @
     enc_opaque (chars (RMDIR3args_t.object_name ob))"

definition cok_RMDIR3args :: "RMDIR3args_t \<Rightarrow> bool" where
  "cok_RMDIR3args ob \<longleftrightarrow> cok_nfs_fh3 (RMDIR3args_t.object_dir ob) \<and>
     is_cstring (RMDIR3args_t.object_name ob) \<and> length (chars (RMDIR3args_t.object_name ob)) < UINT32_MAX"

definition covr_RMDIR3args :: "RMDIR3args_t \<Rightarrow> RMDIR3args_t \<Rightarrow> RMDIR3args_t" where
  "covr_RMDIR3args x0 x =
     \<lparr>RMDIR3args_t.object_dir = covr_nfs_fh3 (RMDIR3args_t.object_dir x0) (RMDIR3args_t.object_dir x),
      RMDIR3args_t.object_name = Owned (cstring (chars (RMDIR3args_t.object_name x)))\<rparr>"

definition cdst_RMDIR3args :: "RMDIR3args_t \<Rightarrow> bool" where
  "cdst_RMDIR3args ob \<longleftrightarrow> cdst_nfs_fh3 (RMDIR3args_t.object_dir ob) \<and> releasable (RMDIR3args_t.object_name ob)"

definition cblocks_RMDIR3args :: "RMDIR3args_t \<Rightarrow> int" where
  "cblocks_RMDIR3args ob = cblocks_nfs_fh3 (RMDIR3args_t.object_dir ob) + held (RMDIR3args_t.object_name ob)"

interpretation RMDIR3args_obj: c_object c_rmdir3args_destroy zero_RMDIR3args_t cdst_RMDIR3args cblocks_RMDIR3args
  by unfold_locales
    (auto simp: c_rmdir3args_destroy_def cdst_RMDIR3args_def cblocks_RMDIR3args_def cbind_def free_releasable cxdestroy zero_RMDIR3args_t_def)

interpretation RMDIR3args_c: c_managed
  xdr_pack_RMDIR3args xdr_unpack_RMDIR3args cenc_RMDIR3args
  covr_RMDIR3args cok_RMDIR3args cdst_RMDIR3args cblocks_RMDIR3args c_rmdir3args_destroy zero_RMDIR3args_t
proof unfold_locales
  fix x x0 :: RMDIR3args_t
  show "cencodes (xdr_pack_RMDIR3args x) (cenc_RMDIR3args x)" if "cok_RMDIR3args x"
    unfolding xdr_pack_RMDIR3args_def cenc_RMDIR3args_def
    using that [unfolded cok_RMDIR3args_def] by (intro cxenc TrueI) auto
  show "cdecodes (xdr_unpack_RMDIR3args x0) (cenc_RMDIR3args x) (covr_RMDIR3args x0 x) (cblocks_RMDIR3args (covr_RMDIR3args x0 x) - cblocks_RMDIR3args x0)" if "cok_RMDIR3args x" "cdst_RMDIR3args x0"
    unfolding xdr_unpack_RMDIR3args_def cenc_RMDIR3args_def
    by (rule cdecodes_cong, (rule cxdec TrueI |
        (use that in \<open>simp add: cok_RMDIR3args_def cdst_RMDIR3args_def; fail\<close>) |
        (use that in \<open>cases x, cases x0, simp add: covr_RMDIR3args_def cdst_RMDIR3args_def cblocks_RMDIR3args_def; fail\<close>))+)
  show "creader (xdr_unpack_RMDIR3args x0)" if "cdst_RMDIR3args x0"
    unfolding xdr_unpack_RMDIR3args_def 
    by ((rule cxrd_at | rule cxrd | (use that in \<open>simp add: cdst_RMDIR3args_def; fail\<close>))+)
  show "cok_RMDIR3args (covr_RMDIR3args x0 x)" if "cok_RMDIR3args x"
    using that by (auto simp: cok_RMDIR3args_def covr_RMDIR3args_def nfs_fh3_c.ovr_enc nfs_fh3_c.ovr_ok nfs_fh3_c.ovr_dst chars_nonzero)
  show "cenc_RMDIR3args (covr_RMDIR3args x0 x) = cenc_RMDIR3args x" if "cok_RMDIR3args x"
    using that by (auto simp: cok_RMDIR3args_def covr_RMDIR3args_def cenc_RMDIR3args_def nfs_fh3_c.ovr_enc nfs_fh3_c.ovr_ok nfs_fh3_c.ovr_dst chars_nonzero)
  show "cdst_RMDIR3args (covr_RMDIR3args x0 x)" if "cok_RMDIR3args x" "cdst_RMDIR3args x0"
    using that by (auto simp: cok_RMDIR3args_def covr_RMDIR3args_def cdst_RMDIR3args_def nfs_fh3_c.ovr_enc nfs_fh3_c.ovr_ok nfs_fh3_c.ovr_dst)
qed

record RMDIR3resok_t =
  dir_wcc :: wcc_data_t

definition zero_RMDIR3resok_t :: RMDIR3resok_t where
  "zero_RMDIR3resok_t = \<lparr>RMDIR3resok_t.dir_wcc = zero_wcc_data_t\<rparr>"

definition xdr_pack_RMDIR3resok :: "RMDIR3resok_t \<Rightarrow> unit cx" where
  "xdr_pack_RMDIR3resok ob = cdo [
     xdr_pack_wcc_data (RMDIR3resok_t.dir_wcc ob)]"

definition xdr_unpack_RMDIR3resok :: "RMDIR3resok_t \<Rightarrow> RMDIR3resok_t cx" where
  "xdr_unpack_RMDIR3resok = cseq [
     cfld RMDIR3resok_t.dir_wcc RMDIR3resok_t.dir_wcc_update xdr_unpack_wcc_data]"

definition cenc_RMDIR3resok :: "RMDIR3resok_t \<Rightarrow> bytes" where
  "cenc_RMDIR3resok ob =
     cenc_wcc_data (RMDIR3resok_t.dir_wcc ob)"

definition covr_RMDIR3resok :: "RMDIR3resok_t \<Rightarrow> RMDIR3resok_t \<Rightarrow> RMDIR3resok_t" where
  "covr_RMDIR3resok x0 x =
     \<lparr>RMDIR3resok_t.dir_wcc = covr_wcc_data (RMDIR3resok_t.dir_wcc x0) (RMDIR3resok_t.dir_wcc x)\<rparr>"

interpretation RMDIR3resok_c: c_codec
  xdr_pack_RMDIR3resok xdr_unpack_RMDIR3resok cenc_RMDIR3resok
  covr_RMDIR3resok "\<lambda>_. True" "\<lambda>_. True" "\<lambda>_. 0"
proof unfold_locales
  fix x x0 :: RMDIR3resok_t
  show "cencodes (xdr_pack_RMDIR3resok x) (cenc_RMDIR3resok x)"
    unfolding xdr_pack_RMDIR3resok_def cenc_RMDIR3resok_def by (intro cxenc TrueI)
  show "cdecodes (xdr_unpack_RMDIR3resok x0) (cenc_RMDIR3resok x) (covr_RMDIR3resok x0 x) (0 - 0)"
    unfolding xdr_unpack_RMDIR3resok_def cenc_RMDIR3resok_def
    by (rule cdecodes_cong, (rule cxdec TrueI |
        (cases x, cases x0, simp add: covr_RMDIR3resok_def; fail))+)
  show "creader (xdr_unpack_RMDIR3resok x0)"
    unfolding xdr_unpack_RMDIR3resok_def by (intro cxrd TrueI)
  show "cenc_RMDIR3resok (covr_RMDIR3resok x0 x) = cenc_RMDIR3resok x"
    by (auto simp: covr_RMDIR3resok_def cenc_RMDIR3resok_def wcc_data_c.ovr_enc chars_nonzero)
qed simp_all

type_synonym RMDIR3res_t = "RMDIR3resok_t nfs_res_t"

definition xdr_pack_RMDIR3res :: "RMDIR3res_t \<Rightarrow> unit cx" where
  "xdr_pack_RMDIR3res = pack_res xdr_pack_RMDIR3resok"

definition xdr_unpack_RMDIR3res :: "RMDIR3res_t \<Rightarrow> RMDIR3res_t cx" where
  "xdr_unpack_RMDIR3res = unpack_res xdr_unpack_RMDIR3resok"

interpretation RMDIR3res_c: c_codec
  xdr_pack_RMDIR3res xdr_unpack_RMDIR3res "cenc_res cenc_RMDIR3resok" "covr_res covr_RMDIR3resok" "cok_res (\<lambda>_. True)" "\<lambda>_. True" "\<lambda>_. 0"
  unfolding xdr_pack_RMDIR3res_def xdr_unpack_RMDIR3res_def by (rule RMDIR3resok_c.res_codec)

section \<open>RENAME\<close>

record RENAME3args_t =
  from_dir :: nfs_fh3_t
  from_name :: "block ptr"
  to_dir :: nfs_fh3_t
  to_name :: "block ptr"

definition zero_RENAME3args_t :: RENAME3args_t where
  "zero_RENAME3args_t = \<lparr>RENAME3args_t.from_dir = zero_nfs_fh3_t,
     RENAME3args_t.from_name = NULL,
     RENAME3args_t.to_dir = zero_nfs_fh3_t,
     RENAME3args_t.to_name = NULL\<rparr>"

definition c_rename3args_init :: RENAME3args_t where
  "c_rename3args_init = zero_RENAME3args_t\<lparr>RENAME3args_t.from_dir := c_nfs_fh3_init, RENAME3args_t.to_dir := c_nfs_fh3_init\<rparr>"

definition c_rename3args_destroy :: "RENAME3args_t \<Rightarrow> (heap, RENAME3args_t) cm" where
  "c_rename3args_destroy ob =
     cbind (c_nfs_fh3_destroy (RENAME3args_t.from_dir ob)) (\<lambda>_.
     cbind (free (RENAME3args_t.from_name ob)) (\<lambda>_.
     cbind (c_nfs_fh3_destroy (RENAME3args_t.to_dir ob)) (\<lambda>_.
     cbind (free (RENAME3args_t.to_name ob)) (\<lambda>_.
     cret zero_RENAME3args_t))))"

definition c_rename3args_set_from_name :: "RENAME3args_t \<Rightarrow> block ptr \<Rightarrow> (heap, RENAME3args_t) cm" where
  "c_rename3args_set_from_name ob name = cfld RENAME3args_t.from_name RENAME3args_t.from_name_update (replace_string name) ob"

definition c_rename3args_set_to_name :: "RENAME3args_t \<Rightarrow> block ptr \<Rightarrow> (heap, RENAME3args_t) cm" where
  "c_rename3args_set_to_name ob name = cfld RENAME3args_t.to_name RENAME3args_t.to_name_update (replace_string name) ob"

definition xdr_pack_RENAME3args :: "RENAME3args_t \<Rightarrow> unit cx" where
  "xdr_pack_RENAME3args ob = cdo [
     xdr_pack_nfs_fh3 (RENAME3args_t.from_dir ob),
     xdr_pack_cstring (RENAME3args_t.from_name ob),
     xdr_pack_nfs_fh3 (RENAME3args_t.to_dir ob),
     xdr_pack_cstring (RENAME3args_t.to_name ob)]"

definition xdr_unpack_RENAME3args :: "RENAME3args_t \<Rightarrow> RENAME3args_t cx" where
  "xdr_unpack_RENAME3args = cseq [
     cfld RENAME3args_t.from_dir RENAME3args_t.from_dir_update xdr_unpack_nfs_fh3,
     cfld RENAME3args_t.from_name RENAME3args_t.from_name_update reread_cstring,
     cfld RENAME3args_t.to_dir RENAME3args_t.to_dir_update xdr_unpack_nfs_fh3,
     cfld RENAME3args_t.to_name RENAME3args_t.to_name_update reread_cstring]"

definition cenc_RENAME3args :: "RENAME3args_t \<Rightarrow> bytes" where
  "cenc_RENAME3args ob =
     cenc_nfs_fh3 (RENAME3args_t.from_dir ob) @
     enc_opaque (chars (RENAME3args_t.from_name ob)) @
     cenc_nfs_fh3 (RENAME3args_t.to_dir ob) @
     enc_opaque (chars (RENAME3args_t.to_name ob))"

definition cok_RENAME3args :: "RENAME3args_t \<Rightarrow> bool" where
  "cok_RENAME3args ob \<longleftrightarrow> cok_nfs_fh3 (RENAME3args_t.from_dir ob) \<and>
     is_cstring (RENAME3args_t.from_name ob) \<and> length (chars (RENAME3args_t.from_name ob)) < UINT32_MAX \<and>
     cok_nfs_fh3 (RENAME3args_t.to_dir ob) \<and>
     is_cstring (RENAME3args_t.to_name ob) \<and> length (chars (RENAME3args_t.to_name ob)) < UINT32_MAX"

definition covr_RENAME3args :: "RENAME3args_t \<Rightarrow> RENAME3args_t \<Rightarrow> RENAME3args_t" where
  "covr_RENAME3args x0 x =
     \<lparr>RENAME3args_t.from_dir = covr_nfs_fh3 (RENAME3args_t.from_dir x0) (RENAME3args_t.from_dir x),
      RENAME3args_t.from_name = Owned (cstring (chars (RENAME3args_t.from_name x))),
      RENAME3args_t.to_dir = covr_nfs_fh3 (RENAME3args_t.to_dir x0) (RENAME3args_t.to_dir x),
      RENAME3args_t.to_name = Owned (cstring (chars (RENAME3args_t.to_name x)))\<rparr>"

definition cdst_RENAME3args :: "RENAME3args_t \<Rightarrow> bool" where
  "cdst_RENAME3args ob \<longleftrightarrow> cdst_nfs_fh3 (RENAME3args_t.from_dir ob) \<and> releasable (RENAME3args_t.from_name ob) \<and> cdst_nfs_fh3 (RENAME3args_t.to_dir ob) \<and> releasable (RENAME3args_t.to_name ob)"

definition cblocks_RENAME3args :: "RENAME3args_t \<Rightarrow> int" where
  "cblocks_RENAME3args ob = cblocks_nfs_fh3 (RENAME3args_t.from_dir ob) + held (RENAME3args_t.from_name ob) + cblocks_nfs_fh3 (RENAME3args_t.to_dir ob) + held (RENAME3args_t.to_name ob)"

interpretation RENAME3args_obj: c_object c_rename3args_destroy zero_RENAME3args_t cdst_RENAME3args cblocks_RENAME3args
  by unfold_locales
    (auto simp: c_rename3args_destroy_def cdst_RENAME3args_def cblocks_RENAME3args_def cbind_def free_releasable cxdestroy zero_RENAME3args_t_def)

interpretation RENAME3args_c: c_managed
  xdr_pack_RENAME3args xdr_unpack_RENAME3args cenc_RENAME3args
  covr_RENAME3args cok_RENAME3args cdst_RENAME3args cblocks_RENAME3args c_rename3args_destroy zero_RENAME3args_t
proof unfold_locales
  fix x x0 :: RENAME3args_t
  show "cencodes (xdr_pack_RENAME3args x) (cenc_RENAME3args x)" if "cok_RENAME3args x"
    unfolding xdr_pack_RENAME3args_def cenc_RENAME3args_def
    using that [unfolded cok_RENAME3args_def] by (intro cxenc TrueI) auto
  show "cdecodes (xdr_unpack_RENAME3args x0) (cenc_RENAME3args x) (covr_RENAME3args x0 x) (cblocks_RENAME3args (covr_RENAME3args x0 x) - cblocks_RENAME3args x0)" if "cok_RENAME3args x" "cdst_RENAME3args x0"
    unfolding xdr_unpack_RENAME3args_def cenc_RENAME3args_def
    by (rule cdecodes_cong, (rule cxdec TrueI |
        (use that in \<open>simp add: cok_RENAME3args_def cdst_RENAME3args_def; fail\<close>) |
        (use that in \<open>cases x, cases x0, simp add: covr_RENAME3args_def cdst_RENAME3args_def cblocks_RENAME3args_def; fail\<close>))+)
  show "creader (xdr_unpack_RENAME3args x0)" if "cdst_RENAME3args x0"
    unfolding xdr_unpack_RENAME3args_def 
    by ((rule cxrd_at | rule cxrd | (use that in \<open>simp add: cdst_RENAME3args_def; fail\<close>))+)
  show "cok_RENAME3args (covr_RENAME3args x0 x)" if "cok_RENAME3args x"
    using that by (auto simp: cok_RENAME3args_def covr_RENAME3args_def nfs_fh3_c.ovr_enc nfs_fh3_c.ovr_ok nfs_fh3_c.ovr_dst chars_nonzero)
  show "cenc_RENAME3args (covr_RENAME3args x0 x) = cenc_RENAME3args x" if "cok_RENAME3args x"
    using that by (auto simp: cok_RENAME3args_def covr_RENAME3args_def cenc_RENAME3args_def nfs_fh3_c.ovr_enc nfs_fh3_c.ovr_ok nfs_fh3_c.ovr_dst chars_nonzero)
  show "cdst_RENAME3args (covr_RENAME3args x0 x)" if "cok_RENAME3args x" "cdst_RENAME3args x0"
    using that by (auto simp: cok_RENAME3args_def covr_RENAME3args_def cdst_RENAME3args_def nfs_fh3_c.ovr_enc nfs_fh3_c.ovr_ok nfs_fh3_c.ovr_dst)
qed

record RENAME3resok_t =
  fromdir_wcc :: wcc_data_t
  todir_wcc :: wcc_data_t

definition zero_RENAME3resok_t :: RENAME3resok_t where
  "zero_RENAME3resok_t = \<lparr>RENAME3resok_t.fromdir_wcc = zero_wcc_data_t,
     RENAME3resok_t.todir_wcc = zero_wcc_data_t\<rparr>"

definition xdr_pack_RENAME3resok :: "RENAME3resok_t \<Rightarrow> unit cx" where
  "xdr_pack_RENAME3resok ob = cdo [
     xdr_pack_wcc_data (RENAME3resok_t.fromdir_wcc ob),
     xdr_pack_wcc_data (RENAME3resok_t.todir_wcc ob)]"

definition xdr_unpack_RENAME3resok :: "RENAME3resok_t \<Rightarrow> RENAME3resok_t cx" where
  "xdr_unpack_RENAME3resok = cseq [
     cfld RENAME3resok_t.fromdir_wcc RENAME3resok_t.fromdir_wcc_update xdr_unpack_wcc_data,
     cfld RENAME3resok_t.todir_wcc RENAME3resok_t.todir_wcc_update xdr_unpack_wcc_data]"

definition cenc_RENAME3resok :: "RENAME3resok_t \<Rightarrow> bytes" where
  "cenc_RENAME3resok ob =
     cenc_wcc_data (RENAME3resok_t.fromdir_wcc ob) @
     cenc_wcc_data (RENAME3resok_t.todir_wcc ob)"

definition covr_RENAME3resok :: "RENAME3resok_t \<Rightarrow> RENAME3resok_t \<Rightarrow> RENAME3resok_t" where
  "covr_RENAME3resok x0 x =
     \<lparr>RENAME3resok_t.fromdir_wcc = covr_wcc_data (RENAME3resok_t.fromdir_wcc x0) (RENAME3resok_t.fromdir_wcc x),
      RENAME3resok_t.todir_wcc = covr_wcc_data (RENAME3resok_t.todir_wcc x0) (RENAME3resok_t.todir_wcc x)\<rparr>"

interpretation RENAME3resok_c: c_codec
  xdr_pack_RENAME3resok xdr_unpack_RENAME3resok cenc_RENAME3resok
  covr_RENAME3resok "\<lambda>_. True" "\<lambda>_. True" "\<lambda>_. 0"
proof unfold_locales
  fix x x0 :: RENAME3resok_t
  show "cencodes (xdr_pack_RENAME3resok x) (cenc_RENAME3resok x)"
    unfolding xdr_pack_RENAME3resok_def cenc_RENAME3resok_def by (intro cxenc TrueI)
  show "cdecodes (xdr_unpack_RENAME3resok x0) (cenc_RENAME3resok x) (covr_RENAME3resok x0 x) (0 - 0)"
    unfolding xdr_unpack_RENAME3resok_def cenc_RENAME3resok_def
    by (rule cdecodes_cong, (rule cxdec TrueI |
        (cases x, cases x0, simp add: covr_RENAME3resok_def; fail))+)
  show "creader (xdr_unpack_RENAME3resok x0)"
    unfolding xdr_unpack_RENAME3resok_def by (intro cxrd TrueI)
  show "cenc_RENAME3resok (covr_RENAME3resok x0 x) = cenc_RENAME3resok x"
    by (auto simp: covr_RENAME3resok_def cenc_RENAME3resok_def wcc_data_c.ovr_enc chars_nonzero)
qed simp_all

type_synonym RENAME3res_t = "RENAME3resok_t nfs_res_t"

definition xdr_pack_RENAME3res :: "RENAME3res_t \<Rightarrow> unit cx" where
  "xdr_pack_RENAME3res = pack_res xdr_pack_RENAME3resok"

definition xdr_unpack_RENAME3res :: "RENAME3res_t \<Rightarrow> RENAME3res_t cx" where
  "xdr_unpack_RENAME3res = unpack_res xdr_unpack_RENAME3resok"

interpretation RENAME3res_c: c_codec
  xdr_pack_RENAME3res xdr_unpack_RENAME3res "cenc_res cenc_RENAME3resok" "covr_res covr_RENAME3resok" "cok_res (\<lambda>_. True)" "\<lambda>_. True" "\<lambda>_. 0"
  unfolding xdr_pack_RENAME3res_def xdr_unpack_RENAME3res_def by (rule RENAME3resok_c.res_codec)

section \<open>LINK\<close>

record LINK3args_t =
  file3 :: nfs_fh3_t
  link_dir :: nfs_fh3_t
  link_name :: "block ptr"

definition zero_LINK3args_t :: LINK3args_t where
  "zero_LINK3args_t = \<lparr>LINK3args_t.file3 = zero_nfs_fh3_t,
     LINK3args_t.link_dir = zero_nfs_fh3_t,
     LINK3args_t.link_name = NULL\<rparr>"

definition c_link3args_init :: LINK3args_t where
  "c_link3args_init = zero_LINK3args_t\<lparr>LINK3args_t.file3 := c_nfs_fh3_init, LINK3args_t.link_dir := c_nfs_fh3_init\<rparr>"

definition c_link3args_destroy :: "LINK3args_t \<Rightarrow> (heap, LINK3args_t) cm" where
  "c_link3args_destroy ob =
     cbind (c_nfs_fh3_destroy (LINK3args_t.file3 ob)) (\<lambda>_.
     cbind (c_nfs_fh3_destroy (LINK3args_t.link_dir ob)) (\<lambda>_.
     cbind (free (LINK3args_t.link_name ob)) (\<lambda>_.
     cret zero_LINK3args_t)))"

definition c_link3args_set_name :: "LINK3args_t \<Rightarrow> block ptr \<Rightarrow> (heap, LINK3args_t) cm" where
  "c_link3args_set_name ob name = cfld LINK3args_t.link_name LINK3args_t.link_name_update (replace_string name) ob"

definition xdr_pack_LINK3args :: "LINK3args_t \<Rightarrow> unit cx" where
  "xdr_pack_LINK3args ob = cdo [
     xdr_pack_nfs_fh3 (LINK3args_t.file3 ob),
     xdr_pack_nfs_fh3 (LINK3args_t.link_dir ob),
     xdr_pack_cstring (LINK3args_t.link_name ob)]"

definition xdr_unpack_LINK3args :: "LINK3args_t \<Rightarrow> LINK3args_t cx" where
  "xdr_unpack_LINK3args = cseq [
     cfld LINK3args_t.file3 LINK3args_t.file3_update xdr_unpack_nfs_fh3,
     cfld LINK3args_t.link_dir LINK3args_t.link_dir_update xdr_unpack_nfs_fh3,
     cfld LINK3args_t.link_name LINK3args_t.link_name_update reread_cstring]"

definition cenc_LINK3args :: "LINK3args_t \<Rightarrow> bytes" where
  "cenc_LINK3args ob =
     cenc_nfs_fh3 (LINK3args_t.file3 ob) @
     cenc_nfs_fh3 (LINK3args_t.link_dir ob) @
     enc_opaque (chars (LINK3args_t.link_name ob))"

definition cok_LINK3args :: "LINK3args_t \<Rightarrow> bool" where
  "cok_LINK3args ob \<longleftrightarrow> cok_nfs_fh3 (LINK3args_t.file3 ob) \<and>
     cok_nfs_fh3 (LINK3args_t.link_dir ob) \<and>
     is_cstring (LINK3args_t.link_name ob) \<and> length (chars (LINK3args_t.link_name ob)) < UINT32_MAX"

definition covr_LINK3args :: "LINK3args_t \<Rightarrow> LINK3args_t \<Rightarrow> LINK3args_t" where
  "covr_LINK3args x0 x =
     \<lparr>LINK3args_t.file3 = covr_nfs_fh3 (LINK3args_t.file3 x0) (LINK3args_t.file3 x),
      LINK3args_t.link_dir = covr_nfs_fh3 (LINK3args_t.link_dir x0) (LINK3args_t.link_dir x),
      LINK3args_t.link_name = Owned (cstring (chars (LINK3args_t.link_name x)))\<rparr>"

definition cdst_LINK3args :: "LINK3args_t \<Rightarrow> bool" where
  "cdst_LINK3args ob \<longleftrightarrow> cdst_nfs_fh3 (LINK3args_t.file3 ob) \<and> cdst_nfs_fh3 (LINK3args_t.link_dir ob) \<and> releasable (LINK3args_t.link_name ob)"

definition cblocks_LINK3args :: "LINK3args_t \<Rightarrow> int" where
  "cblocks_LINK3args ob = cblocks_nfs_fh3 (LINK3args_t.file3 ob) + cblocks_nfs_fh3 (LINK3args_t.link_dir ob) + held (LINK3args_t.link_name ob)"

interpretation LINK3args_obj: c_object c_link3args_destroy zero_LINK3args_t cdst_LINK3args cblocks_LINK3args
  by unfold_locales
    (auto simp: c_link3args_destroy_def cdst_LINK3args_def cblocks_LINK3args_def cbind_def free_releasable cxdestroy zero_LINK3args_t_def)

interpretation LINK3args_c: c_managed
  xdr_pack_LINK3args xdr_unpack_LINK3args cenc_LINK3args
  covr_LINK3args cok_LINK3args cdst_LINK3args cblocks_LINK3args c_link3args_destroy zero_LINK3args_t
proof unfold_locales
  fix x x0 :: LINK3args_t
  show "cencodes (xdr_pack_LINK3args x) (cenc_LINK3args x)" if "cok_LINK3args x"
    unfolding xdr_pack_LINK3args_def cenc_LINK3args_def
    using that [unfolded cok_LINK3args_def] by (intro cxenc TrueI) auto
  show "cdecodes (xdr_unpack_LINK3args x0) (cenc_LINK3args x) (covr_LINK3args x0 x) (cblocks_LINK3args (covr_LINK3args x0 x) - cblocks_LINK3args x0)" if "cok_LINK3args x" "cdst_LINK3args x0"
    unfolding xdr_unpack_LINK3args_def cenc_LINK3args_def
    by (rule cdecodes_cong, (rule cxdec TrueI |
        (use that in \<open>simp add: cok_LINK3args_def cdst_LINK3args_def; fail\<close>) |
        (use that in \<open>cases x, cases x0, simp add: covr_LINK3args_def cdst_LINK3args_def cblocks_LINK3args_def; fail\<close>))+)
  show "creader (xdr_unpack_LINK3args x0)" if "cdst_LINK3args x0"
    unfolding xdr_unpack_LINK3args_def 
    by ((rule cxrd_at | rule cxrd | (use that in \<open>simp add: cdst_LINK3args_def; fail\<close>))+)
  show "cok_LINK3args (covr_LINK3args x0 x)" if "cok_LINK3args x"
    using that by (auto simp: cok_LINK3args_def covr_LINK3args_def nfs_fh3_c.ovr_enc nfs_fh3_c.ovr_ok nfs_fh3_c.ovr_dst chars_nonzero)
  show "cenc_LINK3args (covr_LINK3args x0 x) = cenc_LINK3args x" if "cok_LINK3args x"
    using that by (auto simp: cok_LINK3args_def covr_LINK3args_def cenc_LINK3args_def nfs_fh3_c.ovr_enc nfs_fh3_c.ovr_ok nfs_fh3_c.ovr_dst chars_nonzero)
  show "cdst_LINK3args (covr_LINK3args x0 x)" if "cok_LINK3args x" "cdst_LINK3args x0"
    using that by (auto simp: cok_LINK3args_def covr_LINK3args_def cdst_LINK3args_def nfs_fh3_c.ovr_enc nfs_fh3_c.ovr_ok nfs_fh3_c.ovr_dst)
qed

record LINK3resok_t =
  file_attributes :: post_op_attr_t
  linkdir_wcc :: wcc_data_t

definition zero_LINK3resok_t :: LINK3resok_t where
  "zero_LINK3resok_t = \<lparr>LINK3resok_t.file_attributes = zero_post_op_attr_t,
     LINK3resok_t.linkdir_wcc = zero_wcc_data_t\<rparr>"

definition xdr_pack_LINK3resok :: "LINK3resok_t \<Rightarrow> unit cx" where
  "xdr_pack_LINK3resok ob = cdo [
     xdr_pack_post_op_attr (LINK3resok_t.file_attributes ob),
     xdr_pack_wcc_data (LINK3resok_t.linkdir_wcc ob)]"

definition xdr_unpack_LINK3resok :: "LINK3resok_t \<Rightarrow> LINK3resok_t cx" where
  "xdr_unpack_LINK3resok = cseq [
     cfld LINK3resok_t.file_attributes LINK3resok_t.file_attributes_update xdr_unpack_post_op_attr,
     cfld LINK3resok_t.linkdir_wcc LINK3resok_t.linkdir_wcc_update xdr_unpack_wcc_data]"

definition cenc_LINK3resok :: "LINK3resok_t \<Rightarrow> bytes" where
  "cenc_LINK3resok ob =
     cenc_post_op_attr (LINK3resok_t.file_attributes ob) @
     cenc_wcc_data (LINK3resok_t.linkdir_wcc ob)"

definition covr_LINK3resok :: "LINK3resok_t \<Rightarrow> LINK3resok_t \<Rightarrow> LINK3resok_t" where
  "covr_LINK3resok x0 x =
     \<lparr>LINK3resok_t.file_attributes = covr_post_op_attr (LINK3resok_t.file_attributes x0) (LINK3resok_t.file_attributes x),
      LINK3resok_t.linkdir_wcc = covr_wcc_data (LINK3resok_t.linkdir_wcc x0) (LINK3resok_t.linkdir_wcc x)\<rparr>"

interpretation LINK3resok_c: c_codec
  xdr_pack_LINK3resok xdr_unpack_LINK3resok cenc_LINK3resok
  covr_LINK3resok "\<lambda>_. True" "\<lambda>_. True" "\<lambda>_. 0"
proof unfold_locales
  fix x x0 :: LINK3resok_t
  show "cencodes (xdr_pack_LINK3resok x) (cenc_LINK3resok x)"
    unfolding xdr_pack_LINK3resok_def cenc_LINK3resok_def by (intro cxenc TrueI)
  show "cdecodes (xdr_unpack_LINK3resok x0) (cenc_LINK3resok x) (covr_LINK3resok x0 x) (0 - 0)"
    unfolding xdr_unpack_LINK3resok_def cenc_LINK3resok_def
    by (rule cdecodes_cong, (rule cxdec TrueI |
        (cases x, cases x0, simp add: covr_LINK3resok_def; fail))+)
  show "creader (xdr_unpack_LINK3resok x0)"
    unfolding xdr_unpack_LINK3resok_def by (intro cxrd TrueI)
  show "cenc_LINK3resok (covr_LINK3resok x0 x) = cenc_LINK3resok x"
    by (auto simp: covr_LINK3resok_def cenc_LINK3resok_def post_op_attr_c.ovr_enc wcc_data_c.ovr_enc chars_nonzero)
qed simp_all

type_synonym LINK3res_t = "LINK3resok_t nfs_res_t"

definition xdr_pack_LINK3res :: "LINK3res_t \<Rightarrow> unit cx" where
  "xdr_pack_LINK3res = pack_res xdr_pack_LINK3resok"

definition xdr_unpack_LINK3res :: "LINK3res_t \<Rightarrow> LINK3res_t cx" where
  "xdr_unpack_LINK3res = unpack_res xdr_unpack_LINK3resok"

interpretation LINK3res_c: c_codec
  xdr_pack_LINK3res xdr_unpack_LINK3res "cenc_res cenc_LINK3resok" "covr_res covr_LINK3resok" "cok_res (\<lambda>_. True)" "\<lambda>_. True" "\<lambda>_. 0"
  unfolding xdr_pack_LINK3res_def xdr_unpack_LINK3res_def by (rule LINK3resok_c.res_codec)

section \<open>MKDIR\<close>

record MKDIR3args_t =
  where_dir :: nfs_fh3_t
  where_name :: "block ptr"
  attributes :: sattr3_t

definition zero_MKDIR3args_t :: MKDIR3args_t where
  "zero_MKDIR3args_t = \<lparr>MKDIR3args_t.where_dir = zero_nfs_fh3_t,
     MKDIR3args_t.where_name = NULL,
     MKDIR3args_t.attributes = zero_sattr3_t\<rparr>"

definition c_mkdir3args_init :: MKDIR3args_t where
  "c_mkdir3args_init = zero_MKDIR3args_t\<lparr>MKDIR3args_t.where_dir := c_nfs_fh3_init, MKDIR3args_t.attributes := c_sattr3_init\<rparr>"

definition c_mkdir3args_destroy :: "MKDIR3args_t \<Rightarrow> (heap, MKDIR3args_t) cm" where
  "c_mkdir3args_destroy ob =
     cbind (c_nfs_fh3_destroy (MKDIR3args_t.where_dir ob)) (\<lambda>_.
     cbind (free (MKDIR3args_t.where_name ob)) (\<lambda>_.
     cret zero_MKDIR3args_t))"

definition c_mkdir3args_set_name :: "MKDIR3args_t \<Rightarrow> block ptr \<Rightarrow> (heap, MKDIR3args_t) cm" where
  "c_mkdir3args_set_name ob name = cfld MKDIR3args_t.where_name MKDIR3args_t.where_name_update (replace_string name) ob"

definition xdr_pack_MKDIR3args :: "MKDIR3args_t \<Rightarrow> unit cx" where
  "xdr_pack_MKDIR3args ob = cdo [
     xdr_pack_nfs_fh3 (MKDIR3args_t.where_dir ob),
     xdr_pack_cstring (MKDIR3args_t.where_name ob),
     xdr_pack_sattr3 (MKDIR3args_t.attributes ob)]"

definition xdr_unpack_MKDIR3args :: "MKDIR3args_t \<Rightarrow> MKDIR3args_t cx" where
  "xdr_unpack_MKDIR3args = cseq [
     cfld MKDIR3args_t.where_dir MKDIR3args_t.where_dir_update xdr_unpack_nfs_fh3,
     cfld MKDIR3args_t.where_name MKDIR3args_t.where_name_update reread_cstring,
     cfld MKDIR3args_t.attributes MKDIR3args_t.attributes_update xdr_unpack_sattr3]"

definition cenc_MKDIR3args :: "MKDIR3args_t \<Rightarrow> bytes" where
  "cenc_MKDIR3args ob =
     cenc_nfs_fh3 (MKDIR3args_t.where_dir ob) @
     enc_opaque (chars (MKDIR3args_t.where_name ob)) @
     cenc_sattr3 (MKDIR3args_t.attributes ob)"

definition cok_MKDIR3args :: "MKDIR3args_t \<Rightarrow> bool" where
  "cok_MKDIR3args ob \<longleftrightarrow> cok_nfs_fh3 (MKDIR3args_t.where_dir ob) \<and>
     is_cstring (MKDIR3args_t.where_name ob) \<and> length (chars (MKDIR3args_t.where_name ob)) < UINT32_MAX"

definition covr_MKDIR3args :: "MKDIR3args_t \<Rightarrow> MKDIR3args_t \<Rightarrow> MKDIR3args_t" where
  "covr_MKDIR3args x0 x =
     \<lparr>MKDIR3args_t.where_dir = covr_nfs_fh3 (MKDIR3args_t.where_dir x0) (MKDIR3args_t.where_dir x),
      MKDIR3args_t.where_name = Owned (cstring (chars (MKDIR3args_t.where_name x))),
      MKDIR3args_t.attributes = covr_sattr3 (MKDIR3args_t.attributes x0) (MKDIR3args_t.attributes x)\<rparr>"

definition cdst_MKDIR3args :: "MKDIR3args_t \<Rightarrow> bool" where
  "cdst_MKDIR3args ob \<longleftrightarrow> cdst_nfs_fh3 (MKDIR3args_t.where_dir ob) \<and> releasable (MKDIR3args_t.where_name ob)"

definition cblocks_MKDIR3args :: "MKDIR3args_t \<Rightarrow> int" where
  "cblocks_MKDIR3args ob = cblocks_nfs_fh3 (MKDIR3args_t.where_dir ob) + held (MKDIR3args_t.where_name ob)"

interpretation MKDIR3args_obj: c_object c_mkdir3args_destroy zero_MKDIR3args_t cdst_MKDIR3args cblocks_MKDIR3args
  by unfold_locales
    (auto simp: c_mkdir3args_destroy_def cdst_MKDIR3args_def cblocks_MKDIR3args_def cbind_def free_releasable cxdestroy zero_MKDIR3args_t_def)

interpretation MKDIR3args_c: c_managed
  xdr_pack_MKDIR3args xdr_unpack_MKDIR3args cenc_MKDIR3args
  covr_MKDIR3args cok_MKDIR3args cdst_MKDIR3args cblocks_MKDIR3args c_mkdir3args_destroy zero_MKDIR3args_t
proof unfold_locales
  fix x x0 :: MKDIR3args_t
  show "cencodes (xdr_pack_MKDIR3args x) (cenc_MKDIR3args x)" if "cok_MKDIR3args x"
    unfolding xdr_pack_MKDIR3args_def cenc_MKDIR3args_def
    using that [unfolded cok_MKDIR3args_def] by (intro cxenc TrueI) auto
  show "cdecodes (xdr_unpack_MKDIR3args x0) (cenc_MKDIR3args x) (covr_MKDIR3args x0 x) (cblocks_MKDIR3args (covr_MKDIR3args x0 x) - cblocks_MKDIR3args x0)" if "cok_MKDIR3args x" "cdst_MKDIR3args x0"
    unfolding xdr_unpack_MKDIR3args_def cenc_MKDIR3args_def
    by (rule cdecodes_cong, (rule cxdec TrueI |
        (use that in \<open>simp add: cok_MKDIR3args_def cdst_MKDIR3args_def; fail\<close>) |
        (use that in \<open>cases x, cases x0, simp add: covr_MKDIR3args_def cdst_MKDIR3args_def cblocks_MKDIR3args_def; fail\<close>))+)
  show "creader (xdr_unpack_MKDIR3args x0)" if "cdst_MKDIR3args x0"
    unfolding xdr_unpack_MKDIR3args_def 
    by ((rule cxrd_at | rule cxrd | (use that in \<open>simp add: cdst_MKDIR3args_def; fail\<close>))+)
  show "cok_MKDIR3args (covr_MKDIR3args x0 x)" if "cok_MKDIR3args x"
    using that by (auto simp: cok_MKDIR3args_def covr_MKDIR3args_def nfs_fh3_c.ovr_enc nfs_fh3_c.ovr_ok nfs_fh3_c.ovr_dst sattr3_c.ovr_enc chars_nonzero)
  show "cenc_MKDIR3args (covr_MKDIR3args x0 x) = cenc_MKDIR3args x" if "cok_MKDIR3args x"
    using that by (auto simp: cok_MKDIR3args_def covr_MKDIR3args_def cenc_MKDIR3args_def nfs_fh3_c.ovr_enc nfs_fh3_c.ovr_ok nfs_fh3_c.ovr_dst sattr3_c.ovr_enc chars_nonzero)
  show "cdst_MKDIR3args (covr_MKDIR3args x0 x)" if "cok_MKDIR3args x" "cdst_MKDIR3args x0"
    using that by (auto simp: cok_MKDIR3args_def covr_MKDIR3args_def cdst_MKDIR3args_def nfs_fh3_c.ovr_enc nfs_fh3_c.ovr_ok nfs_fh3_c.ovr_dst sattr3_c.ovr_enc)
qed

record MKDIR3resok_t =
  obj_attributes :: post_op_attr_t
  dir_wcc :: wcc_data_t
  object :: nfs_fh3_t

definition zero_MKDIR3resok_t :: MKDIR3resok_t where
  "zero_MKDIR3resok_t = \<lparr>MKDIR3resok_t.obj_attributes = zero_post_op_attr_t,
     MKDIR3resok_t.dir_wcc = zero_wcc_data_t,
     MKDIR3resok_t.object = zero_nfs_fh3_t\<rparr>"

definition c_mkdir3resok_init :: MKDIR3resok_t where
  "c_mkdir3resok_init = zero_MKDIR3resok_t\<lparr>MKDIR3resok_t.object := c_nfs_fh3_init\<rparr>"

definition c_mkdir3resok_destroy :: "MKDIR3resok_t \<Rightarrow> (heap, MKDIR3resok_t) cm" where
  "c_mkdir3resok_destroy ob =
     cbind (c_nfs_fh3_destroy (MKDIR3resok_t.object ob)) (\<lambda>_.
     cret zero_MKDIR3resok_t)"

definition xdr_pack_MKDIR3resok :: "MKDIR3resok_t \<Rightarrow> unit cx" where
  "xdr_pack_MKDIR3resok ob = cdo [
     xdr_pack_opt_fh3 (MKDIR3resok_t.object ob),
     xdr_pack_post_op_attr (MKDIR3resok_t.obj_attributes ob),
     xdr_pack_wcc_data (MKDIR3resok_t.dir_wcc ob)]"

definition xdr_unpack_MKDIR3resok :: "MKDIR3resok_t \<Rightarrow> MKDIR3resok_t cx" where
  "xdr_unpack_MKDIR3resok = cseq [
     cfld MKDIR3resok_t.object MKDIR3resok_t.object_update xdr_unpack_opt_fh3,
     cfld MKDIR3resok_t.obj_attributes MKDIR3resok_t.obj_attributes_update xdr_unpack_post_op_attr,
     cfld MKDIR3resok_t.dir_wcc MKDIR3resok_t.dir_wcc_update xdr_unpack_wcc_data]"

definition cenc_MKDIR3resok :: "MKDIR3resok_t \<Rightarrow> bytes" where
  "cenc_MKDIR3resok ob =
     cenc_opt_fh3 (MKDIR3resok_t.object ob) @
     cenc_post_op_attr (MKDIR3resok_t.obj_attributes ob) @
     cenc_wcc_data (MKDIR3resok_t.dir_wcc ob)"

definition cok_MKDIR3resok :: "MKDIR3resok_t \<Rightarrow> bool" where
  "cok_MKDIR3resok ob \<longleftrightarrow> cok_opt_fh3 (MKDIR3resok_t.object ob)"

definition covr_MKDIR3resok :: "MKDIR3resok_t \<Rightarrow> MKDIR3resok_t \<Rightarrow> MKDIR3resok_t" where
  "covr_MKDIR3resok x0 x =
     \<lparr>MKDIR3resok_t.obj_attributes = covr_post_op_attr (MKDIR3resok_t.obj_attributes x0) (MKDIR3resok_t.obj_attributes x),
      MKDIR3resok_t.dir_wcc = covr_wcc_data (MKDIR3resok_t.dir_wcc x0) (MKDIR3resok_t.dir_wcc x),
      MKDIR3resok_t.object = covr_opt_fh3 (MKDIR3resok_t.object x0) (MKDIR3resok_t.object x)\<rparr>"

definition cdst_MKDIR3resok :: "MKDIR3resok_t \<Rightarrow> bool" where
  "cdst_MKDIR3resok ob \<longleftrightarrow> cdst_opt_fh3 (MKDIR3resok_t.object ob)"

definition cblocks_MKDIR3resok :: "MKDIR3resok_t \<Rightarrow> int" where
  "cblocks_MKDIR3resok ob = cblocks_opt_fh3 (MKDIR3resok_t.object ob)"

interpretation MKDIR3resok_obj: c_object c_mkdir3resok_destroy zero_MKDIR3resok_t cdst_MKDIR3resok cblocks_MKDIR3resok
  by unfold_locales
    (auto simp: c_mkdir3resok_destroy_def cdst_MKDIR3resok_def cblocks_MKDIR3resok_def cbind_def free_releasable cxdestroy zero_MKDIR3resok_t_def)

interpretation MKDIR3resok_c: c_fresh
  xdr_pack_MKDIR3resok xdr_unpack_MKDIR3resok cenc_MKDIR3resok
  covr_MKDIR3resok cok_MKDIR3resok cdst_MKDIR3resok cblocks_MKDIR3resok c_mkdir3resok_destroy zero_MKDIR3resok_t cdst_MKDIR3resok
proof unfold_locales
  fix x x0 :: MKDIR3resok_t
  show "cencodes (xdr_pack_MKDIR3resok x) (cenc_MKDIR3resok x)" if "cok_MKDIR3resok x"
    unfolding xdr_pack_MKDIR3resok_def cenc_MKDIR3resok_def
    using that [unfolded cok_MKDIR3resok_def] by (intro cxenc TrueI) auto
  show "cdecodes (xdr_unpack_MKDIR3resok x0) (cenc_MKDIR3resok x) (covr_MKDIR3resok x0 x) (cblocks_MKDIR3resok (covr_MKDIR3resok x0 x) - cblocks_MKDIR3resok x0)" if "cok_MKDIR3resok x" "cdst_MKDIR3resok x0"
    unfolding xdr_unpack_MKDIR3resok_def cenc_MKDIR3resok_def
    by (rule cdecodes_cong, (rule cxdec TrueI |
        (use that in \<open>simp add: cok_MKDIR3resok_def cdst_MKDIR3resok_def; fail\<close>) |
        (use that in \<open>cases x, cases x0, simp add: covr_MKDIR3resok_def cdst_MKDIR3resok_def cblocks_MKDIR3resok_def; fail\<close>))+)
  show "creader (xdr_unpack_MKDIR3resok x0)" if "cdst_MKDIR3resok x0"
    unfolding xdr_unpack_MKDIR3resok_def 
    by ((rule cxrd_at | rule cxrd | (use that in \<open>simp add: cdst_MKDIR3resok_def; fail\<close>))+)
  show "cdst_MKDIR3resok zero_MKDIR3resok_t" by (simp add: cdst_MKDIR3resok_def zero_MKDIR3resok_t_def)
  show "cok_MKDIR3resok (covr_MKDIR3resok zero_MKDIR3resok_t x)" if "cok_MKDIR3resok x"
    using that by (auto simp: cok_MKDIR3resok_def covr_MKDIR3resok_def zero_MKDIR3resok_t_def post_op_attr_c.ovr_enc wcc_data_c.ovr_enc opt_fh3_c.fresh_enc opt_fh3_c.fresh_ok opt_fh3_c.fresh_rel  chars_nonzero)
  show "cenc_MKDIR3resok (covr_MKDIR3resok zero_MKDIR3resok_t x) = cenc_MKDIR3resok x" if "cok_MKDIR3resok x"
    using that by (auto simp: cok_MKDIR3resok_def covr_MKDIR3resok_def cenc_MKDIR3resok_def zero_MKDIR3resok_t_def post_op_attr_c.ovr_enc wcc_data_c.ovr_enc opt_fh3_c.fresh_enc opt_fh3_c.fresh_ok opt_fh3_c.fresh_rel  chars_nonzero)
  show "cdst_MKDIR3resok (covr_MKDIR3resok zero_MKDIR3resok_t x)" if "cok_MKDIR3resok x"
    using that by (auto simp: cok_MKDIR3resok_def covr_MKDIR3resok_def cdst_MKDIR3resok_def zero_MKDIR3resok_t_def post_op_attr_c.ovr_enc wcc_data_c.ovr_enc opt_fh3_c.fresh_enc opt_fh3_c.fresh_ok opt_fh3_c.fresh_rel )
qed

type_synonym MKDIR3res_t = "MKDIR3resok_t nfs_res_t"

definition c_mkdir3res_init :: MKDIR3res_t where
  "c_mkdir3res_init = (zero_res zero_MKDIR3resok_t)\<lparr>nfs_res_t.resok := c_mkdir3resok_init\<rparr>"

definition c_mkdir3res_destroy :: "MKDIR3res_t \<Rightarrow> (heap, MKDIR3res_t) cm" where
  "c_mkdir3res_destroy = destroy_res c_mkdir3resok_destroy zero_MKDIR3resok_t"

definition xdr_pack_MKDIR3res :: "MKDIR3res_t \<Rightarrow> unit cx" where
  "xdr_pack_MKDIR3res = pack_res xdr_pack_MKDIR3resok"

definition xdr_unpack_MKDIR3res :: "MKDIR3res_t \<Rightarrow> MKDIR3res_t cx" where
  "xdr_unpack_MKDIR3res ob = cbind (on_heap (c_mkdir3res_destroy ob)) (unpack_res xdr_unpack_MKDIR3resok)"

interpretation MKDIR3res_c: c_managed
  xdr_pack_MKDIR3res xdr_unpack_MKDIR3res "cenc_res cenc_MKDIR3resok" "\<lambda>_. covr_res covr_MKDIR3resok (zero_res zero_MKDIR3resok_t)"
  "cok_res cok_MKDIR3resok" "\<lambda>ob. cdst_MKDIR3resok (nfs_res_t.resok ob)" "\<lambda>ob. cblocks_MKDIR3resok (nfs_res_t.resok ob)"
  c_mkdir3res_destroy "zero_res zero_MKDIR3resok_t"
  unfolding xdr_pack_MKDIR3res_def xdr_unpack_MKDIR3res_def [abs_def] c_mkdir3res_destroy_def by (rule MKDIR3resok_c.res_managed)

section \<open>SYMLINK\<close>

record SYMLINK3args_t =
  where_dir :: nfs_fh3_t
  where_name :: "block ptr"
  symlink_attributes :: sattr3_t
  symlink_data :: "block ptr"

definition zero_SYMLINK3args_t :: SYMLINK3args_t where
  "zero_SYMLINK3args_t = \<lparr>SYMLINK3args_t.where_dir = zero_nfs_fh3_t,
     SYMLINK3args_t.where_name = NULL,
     SYMLINK3args_t.symlink_attributes = zero_sattr3_t,
     SYMLINK3args_t.symlink_data = NULL\<rparr>"

definition c_symlink3args_init :: SYMLINK3args_t where
  "c_symlink3args_init = zero_SYMLINK3args_t\<lparr>SYMLINK3args_t.where_dir := c_nfs_fh3_init, SYMLINK3args_t.symlink_attributes := c_sattr3_init\<rparr>"

definition c_symlink3args_destroy :: "SYMLINK3args_t \<Rightarrow> (heap, SYMLINK3args_t) cm" where
  "c_symlink3args_destroy ob =
     cbind (c_nfs_fh3_destroy (SYMLINK3args_t.where_dir ob)) (\<lambda>_.
     cbind (free (SYMLINK3args_t.where_name ob)) (\<lambda>_.
     cbind (free (SYMLINK3args_t.symlink_data ob)) (\<lambda>_.
     cret zero_SYMLINK3args_t)))"

definition c_symlink3args_set_name :: "SYMLINK3args_t \<Rightarrow> block ptr \<Rightarrow> (heap, SYMLINK3args_t) cm" where
  "c_symlink3args_set_name ob name = cfld SYMLINK3args_t.where_name SYMLINK3args_t.where_name_update (replace_string name) ob"

definition c_symlink3args_set_data :: "SYMLINK3args_t \<Rightarrow> block ptr \<Rightarrow> (heap, SYMLINK3args_t) cm" where
  "c_symlink3args_set_data ob name = cfld SYMLINK3args_t.symlink_data SYMLINK3args_t.symlink_data_update (replace_string name) ob"

definition xdr_pack_SYMLINK3args :: "SYMLINK3args_t \<Rightarrow> unit cx" where
  "xdr_pack_SYMLINK3args ob = cdo [
     xdr_pack_nfs_fh3 (SYMLINK3args_t.where_dir ob),
     xdr_pack_cstring (SYMLINK3args_t.where_name ob),
     xdr_pack_sattr3 (SYMLINK3args_t.symlink_attributes ob),
     xdr_pack_cstring (SYMLINK3args_t.symlink_data ob)]"

definition xdr_unpack_SYMLINK3args :: "SYMLINK3args_t \<Rightarrow> SYMLINK3args_t cx" where
  "xdr_unpack_SYMLINK3args = cseq [
     cfld SYMLINK3args_t.where_dir SYMLINK3args_t.where_dir_update xdr_unpack_nfs_fh3,
     cfld SYMLINK3args_t.where_name SYMLINK3args_t.where_name_update reread_cstring,
     cfld SYMLINK3args_t.symlink_attributes SYMLINK3args_t.symlink_attributes_update xdr_unpack_sattr3,
     cfld SYMLINK3args_t.symlink_data SYMLINK3args_t.symlink_data_update reread_cstring]"

definition cenc_SYMLINK3args :: "SYMLINK3args_t \<Rightarrow> bytes" where
  "cenc_SYMLINK3args ob =
     cenc_nfs_fh3 (SYMLINK3args_t.where_dir ob) @
     enc_opaque (chars (SYMLINK3args_t.where_name ob)) @
     cenc_sattr3 (SYMLINK3args_t.symlink_attributes ob) @
     enc_opaque (chars (SYMLINK3args_t.symlink_data ob))"

definition cok_SYMLINK3args :: "SYMLINK3args_t \<Rightarrow> bool" where
  "cok_SYMLINK3args ob \<longleftrightarrow> cok_nfs_fh3 (SYMLINK3args_t.where_dir ob) \<and>
     is_cstring (SYMLINK3args_t.where_name ob) \<and> length (chars (SYMLINK3args_t.where_name ob)) < UINT32_MAX \<and>
     is_cstring (SYMLINK3args_t.symlink_data ob) \<and> length (chars (SYMLINK3args_t.symlink_data ob)) < UINT32_MAX"

definition covr_SYMLINK3args :: "SYMLINK3args_t \<Rightarrow> SYMLINK3args_t \<Rightarrow> SYMLINK3args_t" where
  "covr_SYMLINK3args x0 x =
     \<lparr>SYMLINK3args_t.where_dir = covr_nfs_fh3 (SYMLINK3args_t.where_dir x0) (SYMLINK3args_t.where_dir x),
      SYMLINK3args_t.where_name = Owned (cstring (chars (SYMLINK3args_t.where_name x))),
      SYMLINK3args_t.symlink_attributes = covr_sattr3 (SYMLINK3args_t.symlink_attributes x0) (SYMLINK3args_t.symlink_attributes x),
      SYMLINK3args_t.symlink_data = Owned (cstring (chars (SYMLINK3args_t.symlink_data x)))\<rparr>"

definition cdst_SYMLINK3args :: "SYMLINK3args_t \<Rightarrow> bool" where
  "cdst_SYMLINK3args ob \<longleftrightarrow> cdst_nfs_fh3 (SYMLINK3args_t.where_dir ob) \<and> releasable (SYMLINK3args_t.where_name ob) \<and> releasable (SYMLINK3args_t.symlink_data ob)"

definition cblocks_SYMLINK3args :: "SYMLINK3args_t \<Rightarrow> int" where
  "cblocks_SYMLINK3args ob = cblocks_nfs_fh3 (SYMLINK3args_t.where_dir ob) + held (SYMLINK3args_t.where_name ob) + held (SYMLINK3args_t.symlink_data ob)"

interpretation SYMLINK3args_obj: c_object c_symlink3args_destroy zero_SYMLINK3args_t cdst_SYMLINK3args cblocks_SYMLINK3args
  by unfold_locales
    (auto simp: c_symlink3args_destroy_def cdst_SYMLINK3args_def cblocks_SYMLINK3args_def cbind_def free_releasable cxdestroy zero_SYMLINK3args_t_def)

interpretation SYMLINK3args_c: c_managed
  xdr_pack_SYMLINK3args xdr_unpack_SYMLINK3args cenc_SYMLINK3args
  covr_SYMLINK3args cok_SYMLINK3args cdst_SYMLINK3args cblocks_SYMLINK3args c_symlink3args_destroy zero_SYMLINK3args_t
proof unfold_locales
  fix x x0 :: SYMLINK3args_t
  show "cencodes (xdr_pack_SYMLINK3args x) (cenc_SYMLINK3args x)" if "cok_SYMLINK3args x"
    unfolding xdr_pack_SYMLINK3args_def cenc_SYMLINK3args_def
    using that [unfolded cok_SYMLINK3args_def] by (intro cxenc TrueI) auto
  show "cdecodes (xdr_unpack_SYMLINK3args x0) (cenc_SYMLINK3args x) (covr_SYMLINK3args x0 x) (cblocks_SYMLINK3args (covr_SYMLINK3args x0 x) - cblocks_SYMLINK3args x0)" if "cok_SYMLINK3args x" "cdst_SYMLINK3args x0"
    unfolding xdr_unpack_SYMLINK3args_def cenc_SYMLINK3args_def
    by (rule cdecodes_cong, (rule cxdec TrueI |
        (use that in \<open>simp add: cok_SYMLINK3args_def cdst_SYMLINK3args_def; fail\<close>) |
        (use that in \<open>cases x, cases x0, simp add: covr_SYMLINK3args_def cdst_SYMLINK3args_def cblocks_SYMLINK3args_def; fail\<close>))+)
  show "creader (xdr_unpack_SYMLINK3args x0)" if "cdst_SYMLINK3args x0"
    unfolding xdr_unpack_SYMLINK3args_def 
    by ((rule cxrd_at | rule cxrd | (use that in \<open>simp add: cdst_SYMLINK3args_def; fail\<close>))+)
  show "cok_SYMLINK3args (covr_SYMLINK3args x0 x)" if "cok_SYMLINK3args x"
    using that by (auto simp: cok_SYMLINK3args_def covr_SYMLINK3args_def nfs_fh3_c.ovr_enc nfs_fh3_c.ovr_ok nfs_fh3_c.ovr_dst sattr3_c.ovr_enc chars_nonzero)
  show "cenc_SYMLINK3args (covr_SYMLINK3args x0 x) = cenc_SYMLINK3args x" if "cok_SYMLINK3args x"
    using that by (auto simp: cok_SYMLINK3args_def covr_SYMLINK3args_def cenc_SYMLINK3args_def nfs_fh3_c.ovr_enc nfs_fh3_c.ovr_ok nfs_fh3_c.ovr_dst sattr3_c.ovr_enc chars_nonzero)
  show "cdst_SYMLINK3args (covr_SYMLINK3args x0 x)" if "cok_SYMLINK3args x" "cdst_SYMLINK3args x0"
    using that by (auto simp: cok_SYMLINK3args_def covr_SYMLINK3args_def cdst_SYMLINK3args_def nfs_fh3_c.ovr_enc nfs_fh3_c.ovr_ok nfs_fh3_c.ovr_dst sattr3_c.ovr_enc)
qed

record SYMLINK3resok_t =
  obj_attributes :: post_op_attr_t
  dir_wcc :: wcc_data_t
  object :: nfs_fh3_t

definition zero_SYMLINK3resok_t :: SYMLINK3resok_t where
  "zero_SYMLINK3resok_t = \<lparr>SYMLINK3resok_t.obj_attributes = zero_post_op_attr_t,
     SYMLINK3resok_t.dir_wcc = zero_wcc_data_t,
     SYMLINK3resok_t.object = zero_nfs_fh3_t\<rparr>"

definition c_symlink3resok_init :: SYMLINK3resok_t where
  "c_symlink3resok_init = zero_SYMLINK3resok_t\<lparr>SYMLINK3resok_t.object := c_nfs_fh3_init\<rparr>"

definition c_symlink3resok_destroy :: "SYMLINK3resok_t \<Rightarrow> (heap, SYMLINK3resok_t) cm" where
  "c_symlink3resok_destroy ob =
     cbind (c_nfs_fh3_destroy (SYMLINK3resok_t.object ob)) (\<lambda>_.
     cret zero_SYMLINK3resok_t)"

definition xdr_pack_SYMLINK3resok :: "SYMLINK3resok_t \<Rightarrow> unit cx" where
  "xdr_pack_SYMLINK3resok ob = cdo [
     xdr_pack_opt_fh3 (SYMLINK3resok_t.object ob),
     xdr_pack_post_op_attr (SYMLINK3resok_t.obj_attributes ob),
     xdr_pack_wcc_data (SYMLINK3resok_t.dir_wcc ob)]"

definition xdr_unpack_SYMLINK3resok :: "SYMLINK3resok_t \<Rightarrow> SYMLINK3resok_t cx" where
  "xdr_unpack_SYMLINK3resok = cseq [
     cfld SYMLINK3resok_t.object SYMLINK3resok_t.object_update xdr_unpack_opt_fh3,
     cfld SYMLINK3resok_t.obj_attributes SYMLINK3resok_t.obj_attributes_update xdr_unpack_post_op_attr,
     cfld SYMLINK3resok_t.dir_wcc SYMLINK3resok_t.dir_wcc_update xdr_unpack_wcc_data]"

definition cenc_SYMLINK3resok :: "SYMLINK3resok_t \<Rightarrow> bytes" where
  "cenc_SYMLINK3resok ob =
     cenc_opt_fh3 (SYMLINK3resok_t.object ob) @
     cenc_post_op_attr (SYMLINK3resok_t.obj_attributes ob) @
     cenc_wcc_data (SYMLINK3resok_t.dir_wcc ob)"

definition cok_SYMLINK3resok :: "SYMLINK3resok_t \<Rightarrow> bool" where
  "cok_SYMLINK3resok ob \<longleftrightarrow> cok_opt_fh3 (SYMLINK3resok_t.object ob)"

definition covr_SYMLINK3resok :: "SYMLINK3resok_t \<Rightarrow> SYMLINK3resok_t \<Rightarrow> SYMLINK3resok_t" where
  "covr_SYMLINK3resok x0 x =
     \<lparr>SYMLINK3resok_t.obj_attributes = covr_post_op_attr (SYMLINK3resok_t.obj_attributes x0) (SYMLINK3resok_t.obj_attributes x),
      SYMLINK3resok_t.dir_wcc = covr_wcc_data (SYMLINK3resok_t.dir_wcc x0) (SYMLINK3resok_t.dir_wcc x),
      SYMLINK3resok_t.object = covr_opt_fh3 (SYMLINK3resok_t.object x0) (SYMLINK3resok_t.object x)\<rparr>"

definition cdst_SYMLINK3resok :: "SYMLINK3resok_t \<Rightarrow> bool" where
  "cdst_SYMLINK3resok ob \<longleftrightarrow> cdst_opt_fh3 (SYMLINK3resok_t.object ob)"

definition cblocks_SYMLINK3resok :: "SYMLINK3resok_t \<Rightarrow> int" where
  "cblocks_SYMLINK3resok ob = cblocks_opt_fh3 (SYMLINK3resok_t.object ob)"

interpretation SYMLINK3resok_obj: c_object c_symlink3resok_destroy zero_SYMLINK3resok_t cdst_SYMLINK3resok cblocks_SYMLINK3resok
  by unfold_locales
    (auto simp: c_symlink3resok_destroy_def cdst_SYMLINK3resok_def cblocks_SYMLINK3resok_def cbind_def free_releasable cxdestroy zero_SYMLINK3resok_t_def)

interpretation SYMLINK3resok_c: c_fresh
  xdr_pack_SYMLINK3resok xdr_unpack_SYMLINK3resok cenc_SYMLINK3resok
  covr_SYMLINK3resok cok_SYMLINK3resok cdst_SYMLINK3resok cblocks_SYMLINK3resok c_symlink3resok_destroy zero_SYMLINK3resok_t cdst_SYMLINK3resok
proof unfold_locales
  fix x x0 :: SYMLINK3resok_t
  show "cencodes (xdr_pack_SYMLINK3resok x) (cenc_SYMLINK3resok x)" if "cok_SYMLINK3resok x"
    unfolding xdr_pack_SYMLINK3resok_def cenc_SYMLINK3resok_def
    using that [unfolded cok_SYMLINK3resok_def] by (intro cxenc TrueI) auto
  show "cdecodes (xdr_unpack_SYMLINK3resok x0) (cenc_SYMLINK3resok x) (covr_SYMLINK3resok x0 x) (cblocks_SYMLINK3resok (covr_SYMLINK3resok x0 x) - cblocks_SYMLINK3resok x0)" if "cok_SYMLINK3resok x" "cdst_SYMLINK3resok x0"
    unfolding xdr_unpack_SYMLINK3resok_def cenc_SYMLINK3resok_def
    by (rule cdecodes_cong, (rule cxdec TrueI |
        (use that in \<open>simp add: cok_SYMLINK3resok_def cdst_SYMLINK3resok_def; fail\<close>) |
        (use that in \<open>cases x, cases x0, simp add: covr_SYMLINK3resok_def cdst_SYMLINK3resok_def cblocks_SYMLINK3resok_def; fail\<close>))+)
  show "creader (xdr_unpack_SYMLINK3resok x0)" if "cdst_SYMLINK3resok x0"
    unfolding xdr_unpack_SYMLINK3resok_def 
    by ((rule cxrd_at | rule cxrd | (use that in \<open>simp add: cdst_SYMLINK3resok_def; fail\<close>))+)
  show "cdst_SYMLINK3resok zero_SYMLINK3resok_t" by (simp add: cdst_SYMLINK3resok_def zero_SYMLINK3resok_t_def)
  show "cok_SYMLINK3resok (covr_SYMLINK3resok zero_SYMLINK3resok_t x)" if "cok_SYMLINK3resok x"
    using that by (auto simp: cok_SYMLINK3resok_def covr_SYMLINK3resok_def zero_SYMLINK3resok_t_def post_op_attr_c.ovr_enc wcc_data_c.ovr_enc opt_fh3_c.fresh_enc opt_fh3_c.fresh_ok opt_fh3_c.fresh_rel  chars_nonzero)
  show "cenc_SYMLINK3resok (covr_SYMLINK3resok zero_SYMLINK3resok_t x) = cenc_SYMLINK3resok x" if "cok_SYMLINK3resok x"
    using that by (auto simp: cok_SYMLINK3resok_def covr_SYMLINK3resok_def cenc_SYMLINK3resok_def zero_SYMLINK3resok_t_def post_op_attr_c.ovr_enc wcc_data_c.ovr_enc opt_fh3_c.fresh_enc opt_fh3_c.fresh_ok opt_fh3_c.fresh_rel  chars_nonzero)
  show "cdst_SYMLINK3resok (covr_SYMLINK3resok zero_SYMLINK3resok_t x)" if "cok_SYMLINK3resok x"
    using that by (auto simp: cok_SYMLINK3resok_def covr_SYMLINK3resok_def cdst_SYMLINK3resok_def zero_SYMLINK3resok_t_def post_op_attr_c.ovr_enc wcc_data_c.ovr_enc opt_fh3_c.fresh_enc opt_fh3_c.fresh_ok opt_fh3_c.fresh_rel )
qed

type_synonym SYMLINK3res_t = "SYMLINK3resok_t nfs_res_t"

definition c_symlink3res_init :: SYMLINK3res_t where
  "c_symlink3res_init = (zero_res zero_SYMLINK3resok_t)\<lparr>nfs_res_t.resok := c_symlink3resok_init\<rparr>"

definition c_symlink3res_destroy :: "SYMLINK3res_t \<Rightarrow> (heap, SYMLINK3res_t) cm" where
  "c_symlink3res_destroy = destroy_res c_symlink3resok_destroy zero_SYMLINK3resok_t"

definition xdr_pack_SYMLINK3res :: "SYMLINK3res_t \<Rightarrow> unit cx" where
  "xdr_pack_SYMLINK3res = pack_res xdr_pack_SYMLINK3resok"

definition xdr_unpack_SYMLINK3res :: "SYMLINK3res_t \<Rightarrow> SYMLINK3res_t cx" where
  "xdr_unpack_SYMLINK3res ob = cbind (on_heap (c_symlink3res_destroy ob)) (unpack_res xdr_unpack_SYMLINK3resok)"

interpretation SYMLINK3res_c: c_managed
  xdr_pack_SYMLINK3res xdr_unpack_SYMLINK3res "cenc_res cenc_SYMLINK3resok" "\<lambda>_. covr_res covr_SYMLINK3resok (zero_res zero_SYMLINK3resok_t)"
  "cok_res cok_SYMLINK3resok" "\<lambda>ob. cdst_SYMLINK3resok (nfs_res_t.resok ob)" "\<lambda>ob. cblocks_SYMLINK3resok (nfs_res_t.resok ob)"
  c_symlink3res_destroy "zero_res zero_SYMLINK3resok_t"
  unfolding xdr_pack_SYMLINK3res_def xdr_unpack_SYMLINK3res_def [abs_def] c_symlink3res_destroy_def by (rule SYMLINK3resok_c.res_managed)

section \<open>MKNOD\<close>

record MKNOD3args_t =
  where_dir :: nfs_fh3_t
  where_name :: "block ptr"
  what_type :: uint32
  what_attributes :: sattr3_t

definition zero_MKNOD3args_t :: MKNOD3args_t where
  "zero_MKNOD3args_t = \<lparr>MKNOD3args_t.where_dir = zero_nfs_fh3_t,
     MKNOD3args_t.where_name = NULL,
     MKNOD3args_t.what_type = 0,
     MKNOD3args_t.what_attributes = zero_sattr3_t\<rparr>"

definition c_mknod3args_init :: MKNOD3args_t where
  "c_mknod3args_init = zero_MKNOD3args_t\<lparr>MKNOD3args_t.where_dir := c_nfs_fh3_init, MKNOD3args_t.what_attributes := c_sattr3_init\<rparr>"

definition c_mknod3args_destroy :: "MKNOD3args_t \<Rightarrow> (heap, MKNOD3args_t) cm" where
  "c_mknod3args_destroy ob =
     cbind (c_nfs_fh3_destroy (MKNOD3args_t.where_dir ob)) (\<lambda>_.
     cbind (free (MKNOD3args_t.where_name ob)) (\<lambda>_.
     cret zero_MKNOD3args_t))"

definition c_mknod3args_set_name :: "MKNOD3args_t \<Rightarrow> block ptr \<Rightarrow> (heap, MKNOD3args_t) cm" where
  "c_mknod3args_set_name ob name = cfld MKNOD3args_t.where_name MKNOD3args_t.where_name_update (replace_string name) ob"

definition xdr_pack_MKNOD3args :: "MKNOD3args_t \<Rightarrow> unit cx" where
  "xdr_pack_MKNOD3args ob = cdo [
     xdr_pack_nfs_fh3 (MKNOD3args_t.where_dir ob),
     xdr_pack_cstring (MKNOD3args_t.where_name ob),
     xdr_pack_uint32 (MKNOD3args_t.what_type ob),
     xdr_pack_sattr3 (MKNOD3args_t.what_attributes ob)]"

definition xdr_unpack_MKNOD3args :: "MKNOD3args_t \<Rightarrow> MKNOD3args_t cx" where
  "xdr_unpack_MKNOD3args = cseq [
     cfld MKNOD3args_t.where_dir MKNOD3args_t.where_dir_update xdr_unpack_nfs_fh3,
     cfld MKNOD3args_t.where_name MKNOD3args_t.where_name_update reread_cstring,
     cfld MKNOD3args_t.what_type MKNOD3args_t.what_type_update (\<lambda>_. into_local xdr_unpack_uint32),
     cfld MKNOD3args_t.what_attributes MKNOD3args_t.what_attributes_update xdr_unpack_sattr3]"

definition cenc_MKNOD3args :: "MKNOD3args_t \<Rightarrow> bytes" where
  "cenc_MKNOD3args ob =
     cenc_nfs_fh3 (MKNOD3args_t.where_dir ob) @
     enc_opaque (chars (MKNOD3args_t.where_name ob)) @
     be32 (MKNOD3args_t.what_type ob) @
     cenc_sattr3 (MKNOD3args_t.what_attributes ob)"

definition cok_MKNOD3args :: "MKNOD3args_t \<Rightarrow> bool" where
  "cok_MKNOD3args ob \<longleftrightarrow> cok_nfs_fh3 (MKNOD3args_t.where_dir ob) \<and>
     is_cstring (MKNOD3args_t.where_name ob) \<and> length (chars (MKNOD3args_t.where_name ob)) < UINT32_MAX"

definition covr_MKNOD3args :: "MKNOD3args_t \<Rightarrow> MKNOD3args_t \<Rightarrow> MKNOD3args_t" where
  "covr_MKNOD3args x0 x =
     \<lparr>MKNOD3args_t.where_dir = covr_nfs_fh3 (MKNOD3args_t.where_dir x0) (MKNOD3args_t.where_dir x),
      MKNOD3args_t.where_name = Owned (cstring (chars (MKNOD3args_t.where_name x))),
      MKNOD3args_t.what_type = MKNOD3args_t.what_type x,
      MKNOD3args_t.what_attributes = covr_sattr3 (MKNOD3args_t.what_attributes x0) (MKNOD3args_t.what_attributes x)\<rparr>"

definition cdst_MKNOD3args :: "MKNOD3args_t \<Rightarrow> bool" where
  "cdst_MKNOD3args ob \<longleftrightarrow> cdst_nfs_fh3 (MKNOD3args_t.where_dir ob) \<and> releasable (MKNOD3args_t.where_name ob)"

definition cblocks_MKNOD3args :: "MKNOD3args_t \<Rightarrow> int" where
  "cblocks_MKNOD3args ob = cblocks_nfs_fh3 (MKNOD3args_t.where_dir ob) + held (MKNOD3args_t.where_name ob)"

interpretation MKNOD3args_obj: c_object c_mknod3args_destroy zero_MKNOD3args_t cdst_MKNOD3args cblocks_MKNOD3args
  by unfold_locales
    (auto simp: c_mknod3args_destroy_def cdst_MKNOD3args_def cblocks_MKNOD3args_def cbind_def free_releasable cxdestroy zero_MKNOD3args_t_def)

interpretation MKNOD3args_c: c_managed
  xdr_pack_MKNOD3args xdr_unpack_MKNOD3args cenc_MKNOD3args
  covr_MKNOD3args cok_MKNOD3args cdst_MKNOD3args cblocks_MKNOD3args c_mknod3args_destroy zero_MKNOD3args_t
proof unfold_locales
  fix x x0 :: MKNOD3args_t
  show "cencodes (xdr_pack_MKNOD3args x) (cenc_MKNOD3args x)" if "cok_MKNOD3args x"
    unfolding xdr_pack_MKNOD3args_def cenc_MKNOD3args_def
    using that [unfolded cok_MKNOD3args_def] by (intro cxenc TrueI) auto
  show "cdecodes (xdr_unpack_MKNOD3args x0) (cenc_MKNOD3args x) (covr_MKNOD3args x0 x) (cblocks_MKNOD3args (covr_MKNOD3args x0 x) - cblocks_MKNOD3args x0)" if "cok_MKNOD3args x" "cdst_MKNOD3args x0"
    unfolding xdr_unpack_MKNOD3args_def cenc_MKNOD3args_def
    by (rule cdecodes_cong, (rule cxdec TrueI |
        (use that in \<open>simp add: cok_MKNOD3args_def cdst_MKNOD3args_def; fail\<close>) |
        (use that in \<open>cases x, cases x0, simp add: covr_MKNOD3args_def cdst_MKNOD3args_def cblocks_MKNOD3args_def; fail\<close>))+)
  show "creader (xdr_unpack_MKNOD3args x0)" if "cdst_MKNOD3args x0"
    unfolding xdr_unpack_MKNOD3args_def 
    by ((rule cxrd_at | rule cxrd | (use that in \<open>simp add: cdst_MKNOD3args_def; fail\<close>))+)
  show "cok_MKNOD3args (covr_MKNOD3args x0 x)" if "cok_MKNOD3args x"
    using that by (auto simp: cok_MKNOD3args_def covr_MKNOD3args_def nfs_fh3_c.ovr_enc nfs_fh3_c.ovr_ok nfs_fh3_c.ovr_dst sattr3_c.ovr_enc chars_nonzero)
  show "cenc_MKNOD3args (covr_MKNOD3args x0 x) = cenc_MKNOD3args x" if "cok_MKNOD3args x"
    using that by (auto simp: cok_MKNOD3args_def covr_MKNOD3args_def cenc_MKNOD3args_def nfs_fh3_c.ovr_enc nfs_fh3_c.ovr_ok nfs_fh3_c.ovr_dst sattr3_c.ovr_enc chars_nonzero)
  show "cdst_MKNOD3args (covr_MKNOD3args x0 x)" if "cok_MKNOD3args x" "cdst_MKNOD3args x0"
    using that by (auto simp: cok_MKNOD3args_def covr_MKNOD3args_def cdst_MKNOD3args_def nfs_fh3_c.ovr_enc nfs_fh3_c.ovr_ok nfs_fh3_c.ovr_dst sattr3_c.ovr_enc)
qed

record MKNOD3resok_t =
  obj_attributes :: post_op_attr_t
  dir_wcc :: wcc_data_t
  object :: nfs_fh3_t

definition zero_MKNOD3resok_t :: MKNOD3resok_t where
  "zero_MKNOD3resok_t = \<lparr>MKNOD3resok_t.obj_attributes = zero_post_op_attr_t,
     MKNOD3resok_t.dir_wcc = zero_wcc_data_t,
     MKNOD3resok_t.object = zero_nfs_fh3_t\<rparr>"

definition c_mknod3resok_init :: MKNOD3resok_t where
  "c_mknod3resok_init = zero_MKNOD3resok_t\<lparr>MKNOD3resok_t.object := c_nfs_fh3_init\<rparr>"

definition c_mknod3resok_destroy :: "MKNOD3resok_t \<Rightarrow> (heap, MKNOD3resok_t) cm" where
  "c_mknod3resok_destroy ob =
     cbind (c_nfs_fh3_destroy (MKNOD3resok_t.object ob)) (\<lambda>_.
     cret zero_MKNOD3resok_t)"

definition xdr_pack_MKNOD3resok :: "MKNOD3resok_t \<Rightarrow> unit cx" where
  "xdr_pack_MKNOD3resok ob = cdo [
     xdr_pack_opt_fh3 (MKNOD3resok_t.object ob),
     xdr_pack_post_op_attr (MKNOD3resok_t.obj_attributes ob),
     xdr_pack_wcc_data (MKNOD3resok_t.dir_wcc ob)]"

definition xdr_unpack_MKNOD3resok :: "MKNOD3resok_t \<Rightarrow> MKNOD3resok_t cx" where
  "xdr_unpack_MKNOD3resok = cseq [
     cfld MKNOD3resok_t.object MKNOD3resok_t.object_update xdr_unpack_opt_fh3,
     cfld MKNOD3resok_t.obj_attributes MKNOD3resok_t.obj_attributes_update xdr_unpack_post_op_attr,
     cfld MKNOD3resok_t.dir_wcc MKNOD3resok_t.dir_wcc_update xdr_unpack_wcc_data]"

definition cenc_MKNOD3resok :: "MKNOD3resok_t \<Rightarrow> bytes" where
  "cenc_MKNOD3resok ob =
     cenc_opt_fh3 (MKNOD3resok_t.object ob) @
     cenc_post_op_attr (MKNOD3resok_t.obj_attributes ob) @
     cenc_wcc_data (MKNOD3resok_t.dir_wcc ob)"

definition cok_MKNOD3resok :: "MKNOD3resok_t \<Rightarrow> bool" where
  "cok_MKNOD3resok ob \<longleftrightarrow> cok_opt_fh3 (MKNOD3resok_t.object ob)"

definition covr_MKNOD3resok :: "MKNOD3resok_t \<Rightarrow> MKNOD3resok_t \<Rightarrow> MKNOD3resok_t" where
  "covr_MKNOD3resok x0 x =
     \<lparr>MKNOD3resok_t.obj_attributes = covr_post_op_attr (MKNOD3resok_t.obj_attributes x0) (MKNOD3resok_t.obj_attributes x),
      MKNOD3resok_t.dir_wcc = covr_wcc_data (MKNOD3resok_t.dir_wcc x0) (MKNOD3resok_t.dir_wcc x),
      MKNOD3resok_t.object = covr_opt_fh3 (MKNOD3resok_t.object x0) (MKNOD3resok_t.object x)\<rparr>"

definition cdst_MKNOD3resok :: "MKNOD3resok_t \<Rightarrow> bool" where
  "cdst_MKNOD3resok ob \<longleftrightarrow> cdst_opt_fh3 (MKNOD3resok_t.object ob)"

definition cblocks_MKNOD3resok :: "MKNOD3resok_t \<Rightarrow> int" where
  "cblocks_MKNOD3resok ob = cblocks_opt_fh3 (MKNOD3resok_t.object ob)"

interpretation MKNOD3resok_obj: c_object c_mknod3resok_destroy zero_MKNOD3resok_t cdst_MKNOD3resok cblocks_MKNOD3resok
  by unfold_locales
    (auto simp: c_mknod3resok_destroy_def cdst_MKNOD3resok_def cblocks_MKNOD3resok_def cbind_def free_releasable cxdestroy zero_MKNOD3resok_t_def)

interpretation MKNOD3resok_c: c_fresh
  xdr_pack_MKNOD3resok xdr_unpack_MKNOD3resok cenc_MKNOD3resok
  covr_MKNOD3resok cok_MKNOD3resok cdst_MKNOD3resok cblocks_MKNOD3resok c_mknod3resok_destroy zero_MKNOD3resok_t cdst_MKNOD3resok
proof unfold_locales
  fix x x0 :: MKNOD3resok_t
  show "cencodes (xdr_pack_MKNOD3resok x) (cenc_MKNOD3resok x)" if "cok_MKNOD3resok x"
    unfolding xdr_pack_MKNOD3resok_def cenc_MKNOD3resok_def
    using that [unfolded cok_MKNOD3resok_def] by (intro cxenc TrueI) auto
  show "cdecodes (xdr_unpack_MKNOD3resok x0) (cenc_MKNOD3resok x) (covr_MKNOD3resok x0 x) (cblocks_MKNOD3resok (covr_MKNOD3resok x0 x) - cblocks_MKNOD3resok x0)" if "cok_MKNOD3resok x" "cdst_MKNOD3resok x0"
    unfolding xdr_unpack_MKNOD3resok_def cenc_MKNOD3resok_def
    by (rule cdecodes_cong, (rule cxdec TrueI |
        (use that in \<open>simp add: cok_MKNOD3resok_def cdst_MKNOD3resok_def; fail\<close>) |
        (use that in \<open>cases x, cases x0, simp add: covr_MKNOD3resok_def cdst_MKNOD3resok_def cblocks_MKNOD3resok_def; fail\<close>))+)
  show "creader (xdr_unpack_MKNOD3resok x0)" if "cdst_MKNOD3resok x0"
    unfolding xdr_unpack_MKNOD3resok_def 
    by ((rule cxrd_at | rule cxrd | (use that in \<open>simp add: cdst_MKNOD3resok_def; fail\<close>))+)
  show "cdst_MKNOD3resok zero_MKNOD3resok_t" by (simp add: cdst_MKNOD3resok_def zero_MKNOD3resok_t_def)
  show "cok_MKNOD3resok (covr_MKNOD3resok zero_MKNOD3resok_t x)" if "cok_MKNOD3resok x"
    using that by (auto simp: cok_MKNOD3resok_def covr_MKNOD3resok_def zero_MKNOD3resok_t_def post_op_attr_c.ovr_enc wcc_data_c.ovr_enc opt_fh3_c.fresh_enc opt_fh3_c.fresh_ok opt_fh3_c.fresh_rel  chars_nonzero)
  show "cenc_MKNOD3resok (covr_MKNOD3resok zero_MKNOD3resok_t x) = cenc_MKNOD3resok x" if "cok_MKNOD3resok x"
    using that by (auto simp: cok_MKNOD3resok_def covr_MKNOD3resok_def cenc_MKNOD3resok_def zero_MKNOD3resok_t_def post_op_attr_c.ovr_enc wcc_data_c.ovr_enc opt_fh3_c.fresh_enc opt_fh3_c.fresh_ok opt_fh3_c.fresh_rel  chars_nonzero)
  show "cdst_MKNOD3resok (covr_MKNOD3resok zero_MKNOD3resok_t x)" if "cok_MKNOD3resok x"
    using that by (auto simp: cok_MKNOD3resok_def covr_MKNOD3resok_def cdst_MKNOD3resok_def zero_MKNOD3resok_t_def post_op_attr_c.ovr_enc wcc_data_c.ovr_enc opt_fh3_c.fresh_enc opt_fh3_c.fresh_ok opt_fh3_c.fresh_rel )
qed

type_synonym MKNOD3res_t = "MKNOD3resok_t nfs_res_t"

definition c_mknod3res_init :: MKNOD3res_t where
  "c_mknod3res_init = (zero_res zero_MKNOD3resok_t)\<lparr>nfs_res_t.resok := c_mknod3resok_init\<rparr>"

definition c_mknod3res_destroy :: "MKNOD3res_t \<Rightarrow> (heap, MKNOD3res_t) cm" where
  "c_mknod3res_destroy = destroy_res c_mknod3resok_destroy zero_MKNOD3resok_t"

definition xdr_pack_MKNOD3res :: "MKNOD3res_t \<Rightarrow> unit cx" where
  "xdr_pack_MKNOD3res = pack_res xdr_pack_MKNOD3resok"

definition xdr_unpack_MKNOD3res :: "MKNOD3res_t \<Rightarrow> MKNOD3res_t cx" where
  "xdr_unpack_MKNOD3res ob = cbind (on_heap (c_mknod3res_destroy ob)) (unpack_res xdr_unpack_MKNOD3resok)"

interpretation MKNOD3res_c: c_managed
  xdr_pack_MKNOD3res xdr_unpack_MKNOD3res "cenc_res cenc_MKNOD3resok" "\<lambda>_. covr_res covr_MKNOD3resok (zero_res zero_MKNOD3resok_t)"
  "cok_res cok_MKNOD3resok" "\<lambda>ob. cdst_MKNOD3resok (nfs_res_t.resok ob)" "\<lambda>ob. cblocks_MKNOD3resok (nfs_res_t.resok ob)"
  c_mknod3res_destroy "zero_res zero_MKNOD3resok_t"
  unfolding xdr_pack_MKNOD3res_def xdr_unpack_MKNOD3res_def [abs_def] c_mknod3res_destroy_def by (rule MKNOD3resok_c.res_managed)

end
