(* ===== verification/CNfs3ProcsC.thy ===== *)
theory CNfs3ProcsC
  imports CNfs3Dir
begin

text \<open>
  The procedures of the C port, last part: READDIR, READDIRPLUS, FSSTAT, FSINFO, PATHCONF and COMMIT.
\<close>

section \<open>READDIR\<close>

record READDIR3args_t =
  dir :: nfs_fh3_t
  cookie :: uint64
  cookieverf :: uint64
  count :: uint32

definition zero_READDIR3args_t :: READDIR3args_t where
  "zero_READDIR3args_t = \<lparr>READDIR3args_t.dir = zero_nfs_fh3_t,
     READDIR3args_t.cookie = 0,
     READDIR3args_t.cookieverf = 0,
     READDIR3args_t.count = 0\<rparr>"

definition xdr_pack_READDIR3args :: "READDIR3args_t \<Rightarrow> unit cx" where
  "xdr_pack_READDIR3args ob = cdo [
     xdr_pack_nfs_fh3 (READDIR3args_t.dir ob),
     xdr_pack_uint64 (READDIR3args_t.cookie ob),
     xdr_pack_uint64 (READDIR3args_t.cookieverf ob),
     xdr_pack_uint32 (READDIR3args_t.count ob)]"

definition xdr_unpack_READDIR3args :: "READDIR3args_t \<Rightarrow> READDIR3args_t cx" where
  "xdr_unpack_READDIR3args = cseq [
     cfld READDIR3args_t.dir READDIR3args_t.dir_update xdr_unpack_nfs_fh3,
     cfld READDIR3args_t.cookie READDIR3args_t.cookie_update (into xdr_unpack_uint64),
     cfld READDIR3args_t.cookieverf READDIR3args_t.cookieverf_update (into xdr_unpack_uint64),
     cfld READDIR3args_t.count READDIR3args_t.count_update (into xdr_unpack_uint32)]"

definition cenc_READDIR3args :: "READDIR3args_t \<Rightarrow> bytes" where
  "cenc_READDIR3args ob =
     cenc_nfs_fh3 (READDIR3args_t.dir ob) @
     be64 (READDIR3args_t.cookie ob) @
     be64 (READDIR3args_t.cookieverf ob) @
     be32 (READDIR3args_t.count ob)"

definition cok_READDIR3args :: "READDIR3args_t \<Rightarrow> bool" where
  "cok_READDIR3args ob \<longleftrightarrow> cok_nfs_fh3 (READDIR3args_t.dir ob)"

definition covr_READDIR3args :: "READDIR3args_t \<Rightarrow> READDIR3args_t \<Rightarrow> READDIR3args_t" where
  "covr_READDIR3args x0 x =
     \<lparr>READDIR3args_t.dir = covr_nfs_fh3 (READDIR3args_t.dir x0) (READDIR3args_t.dir x),
      READDIR3args_t.cookie = READDIR3args_t.cookie x,
      READDIR3args_t.cookieverf = READDIR3args_t.cookieverf x,
      READDIR3args_t.count = READDIR3args_t.count x\<rparr>"

definition cdst_READDIR3args :: "READDIR3args_t \<Rightarrow> bool" where
  "cdst_READDIR3args ob \<longleftrightarrow> cdst_nfs_fh3 (READDIR3args_t.dir ob)"

definition cblocks_READDIR3args :: "READDIR3args_t \<Rightarrow> int" where
  "cblocks_READDIR3args ob = cblocks_nfs_fh3 (READDIR3args_t.dir ob)"

interpretation READDIR3args_c: c_codec
  xdr_pack_READDIR3args xdr_unpack_READDIR3args cenc_READDIR3args
  covr_READDIR3args cok_READDIR3args cdst_READDIR3args cblocks_READDIR3args
proof unfold_locales
  fix x x0 :: READDIR3args_t
  show "cencodes (xdr_pack_READDIR3args x) (cenc_READDIR3args x)" if "cok_READDIR3args x"
    unfolding xdr_pack_READDIR3args_def cenc_READDIR3args_def
    using that [unfolded cok_READDIR3args_def] by (intro cxenc TrueI) auto
  show "cdecodes (xdr_unpack_READDIR3args x0) (cenc_READDIR3args x) (covr_READDIR3args x0 x) (cblocks_READDIR3args (covr_READDIR3args x0 x) - cblocks_READDIR3args x0)" if "cok_READDIR3args x" "cdst_READDIR3args x0"
    unfolding xdr_unpack_READDIR3args_def cenc_READDIR3args_def
    by (rule cdecodes_cong, (rule cxdec TrueI |
        (use that in \<open>simp add: cok_READDIR3args_def cdst_READDIR3args_def; fail\<close>) |
        (use that in \<open>cases x, cases x0, simp add: covr_READDIR3args_def cdst_READDIR3args_def cblocks_READDIR3args_def; fail\<close>))+)
  show "creader (xdr_unpack_READDIR3args x0)" if "cdst_READDIR3args x0"
    unfolding xdr_unpack_READDIR3args_def 
    by ((rule cxrd_at | rule cxrd | (use that in \<open>simp add: cdst_READDIR3args_def; fail\<close>))+)
  show "cok_READDIR3args (covr_READDIR3args x0 x)" if "cok_READDIR3args x"
    using that by (auto simp: cok_READDIR3args_def covr_READDIR3args_def nfs_fh3_c.ovr_enc nfs_fh3_c.ovr_ok nfs_fh3_c.ovr_dst chars_nonzero)
  show "cenc_READDIR3args (covr_READDIR3args x0 x) = cenc_READDIR3args x" if "cok_READDIR3args x"
    using that by (auto simp: cok_READDIR3args_def covr_READDIR3args_def cenc_READDIR3args_def nfs_fh3_c.ovr_enc nfs_fh3_c.ovr_ok nfs_fh3_c.ovr_dst chars_nonzero)
  show "cdst_READDIR3args (covr_READDIR3args x0 x)" if "cok_READDIR3args x" "cdst_READDIR3args x0"
    using that by (auto simp: cok_READDIR3args_def covr_READDIR3args_def cdst_READDIR3args_def nfs_fh3_c.ovr_enc nfs_fh3_c.ovr_ok nfs_fh3_c.ovr_dst)
qed

record READDIR3resok_t =
  dir_attributes :: post_op_attr_t
  cookieverf :: uint64
  reply :: dirlist3_t

definition zero_READDIR3resok_t :: READDIR3resok_t where
  "zero_READDIR3resok_t = \<lparr>READDIR3resok_t.dir_attributes = zero_post_op_attr_t,
     READDIR3resok_t.cookieverf = 0,
     READDIR3resok_t.reply = zero_dirlist\<rparr>"

definition c_readdir3resok_init :: READDIR3resok_t where
  "c_readdir3resok_init = zero_READDIR3resok_t\<lparr>READDIR3resok_t.reply := c_dirlist3_init\<rparr>"

definition c_readdir3resok_destroy :: "READDIR3resok_t \<Rightarrow> (heap, READDIR3resok_t) cm" where
  "c_readdir3resok_destroy ob =
     cbind (c_dirlist3_destroy (READDIR3resok_t.reply ob)) (\<lambda>_.
     cret zero_READDIR3resok_t)"

definition xdr_pack_READDIR3resok :: "READDIR3resok_t \<Rightarrow> unit cx" where
  "xdr_pack_READDIR3resok ob = cdo [
     xdr_pack_post_op_attr (READDIR3resok_t.dir_attributes ob),
     xdr_pack_uint64 (READDIR3resok_t.cookieverf ob),
     xdr_pack_dirlist3 (READDIR3resok_t.reply ob)]"

definition xdr_unpack_READDIR3resok :: "READDIR3resok_t \<Rightarrow> READDIR3resok_t cx" where
  "xdr_unpack_READDIR3resok = cseq [
     cfld READDIR3resok_t.dir_attributes READDIR3resok_t.dir_attributes_update xdr_unpack_post_op_attr,
     cfld READDIR3resok_t.cookieverf READDIR3resok_t.cookieverf_update (into xdr_unpack_uint64),
     cfld READDIR3resok_t.reply READDIR3resok_t.reply_update xdr_unpack_dirlist3]"

definition cenc_READDIR3resok :: "READDIR3resok_t \<Rightarrow> bytes" where
  "cenc_READDIR3resok ob =
     cenc_post_op_attr (READDIR3resok_t.dir_attributes ob) @
     be64 (READDIR3resok_t.cookieverf ob) @
     cenc_dirlist3 (READDIR3resok_t.reply ob)"

definition cok_READDIR3resok :: "READDIR3resok_t \<Rightarrow> bool" where
  "cok_READDIR3resok ob \<longleftrightarrow> cok_dirlist3 (READDIR3resok_t.reply ob)"

definition covr_READDIR3resok :: "READDIR3resok_t \<Rightarrow> READDIR3resok_t \<Rightarrow> READDIR3resok_t" where
  "covr_READDIR3resok x0 x =
     \<lparr>READDIR3resok_t.dir_attributes = covr_post_op_attr (READDIR3resok_t.dir_attributes x0) (READDIR3resok_t.dir_attributes x),
      READDIR3resok_t.cookieverf = READDIR3resok_t.cookieverf x,
      READDIR3resok_t.reply = covr_dirlist3 (READDIR3resok_t.reply x0) (READDIR3resok_t.reply x)\<rparr>"

definition cdst_READDIR3resok :: "READDIR3resok_t \<Rightarrow> bool" where
  "cdst_READDIR3resok ob \<longleftrightarrow> cdst_dirlist3 (READDIR3resok_t.reply ob)"

definition cblocks_READDIR3resok :: "READDIR3resok_t \<Rightarrow> int" where
  "cblocks_READDIR3resok ob = cblocks_dirlist3 (READDIR3resok_t.reply ob)"

definition crel_READDIR3resok :: "READDIR3resok_t \<Rightarrow> bool" where
  "crel_READDIR3resok ob \<longleftrightarrow> crel_dirlist3 (READDIR3resok_t.reply ob)"

interpretation READDIR3resok_obj: c_object c_readdir3resok_destroy zero_READDIR3resok_t crel_READDIR3resok cblocks_READDIR3resok
  by unfold_locales
    (auto simp: c_readdir3resok_destroy_def crel_READDIR3resok_def cblocks_READDIR3resok_def cbind_def free_releasable cxdestroy zero_READDIR3resok_t_def)

interpretation READDIR3resok_c: c_fresh
  xdr_pack_READDIR3resok xdr_unpack_READDIR3resok cenc_READDIR3resok
  covr_READDIR3resok cok_READDIR3resok cdst_READDIR3resok cblocks_READDIR3resok c_readdir3resok_destroy zero_READDIR3resok_t crel_READDIR3resok
proof unfold_locales
  fix x x0 :: READDIR3resok_t
  show "cencodes (xdr_pack_READDIR3resok x) (cenc_READDIR3resok x)" if "cok_READDIR3resok x"
    unfolding xdr_pack_READDIR3resok_def cenc_READDIR3resok_def
    using that [unfolded cok_READDIR3resok_def] by (intro cxenc TrueI) auto
  show "cdecodes (xdr_unpack_READDIR3resok x0) (cenc_READDIR3resok x) (covr_READDIR3resok x0 x) (cblocks_READDIR3resok (covr_READDIR3resok x0 x) - cblocks_READDIR3resok x0)" if "cok_READDIR3resok x" "cdst_READDIR3resok x0"
    unfolding xdr_unpack_READDIR3resok_def cenc_READDIR3resok_def
    by (rule cdecodes_cong, (rule cxdec TrueI |
        (use that in \<open>simp add: cok_READDIR3resok_def cdst_READDIR3resok_def; fail\<close>) |
        (use that in \<open>cases x, cases x0, simp add: covr_READDIR3resok_def cdst_READDIR3resok_def cblocks_READDIR3resok_def; fail\<close>))+)
  show "creader (xdr_unpack_READDIR3resok x0)" if "cdst_READDIR3resok x0"
    unfolding xdr_unpack_READDIR3resok_def 
    by ((rule cxrd_at | rule cxrd | (use that in \<open>simp add: cdst_READDIR3resok_def; fail\<close>))+)
  show "cdst_READDIR3resok zero_READDIR3resok_t" by (simp add: cdst_READDIR3resok_def zero_READDIR3resok_t_def)
  show "cok_READDIR3resok (covr_READDIR3resok zero_READDIR3resok_t x)" if "cok_READDIR3resok x"
    using that by (auto simp: cok_READDIR3resok_def covr_READDIR3resok_def zero_READDIR3resok_t_def post_op_attr_c.ovr_enc dirlist3_c.fresh_enc dirlist3_c.fresh_ok dirlist3_c.fresh_rel  chars_nonzero)
  show "cenc_READDIR3resok (covr_READDIR3resok zero_READDIR3resok_t x) = cenc_READDIR3resok x" if "cok_READDIR3resok x"
    using that by (auto simp: cok_READDIR3resok_def covr_READDIR3resok_def cenc_READDIR3resok_def zero_READDIR3resok_t_def post_op_attr_c.ovr_enc dirlist3_c.fresh_enc dirlist3_c.fresh_ok dirlist3_c.fresh_rel  chars_nonzero)
  show "crel_READDIR3resok (covr_READDIR3resok zero_READDIR3resok_t x)" if "cok_READDIR3resok x"
    using that by (auto simp: cok_READDIR3resok_def covr_READDIR3resok_def crel_READDIR3resok_def zero_READDIR3resok_t_def post_op_attr_c.ovr_enc dirlist3_c.fresh_enc dirlist3_c.fresh_ok dirlist3_c.fresh_rel )
qed

type_synonym READDIR3res_t = "READDIR3resok_t nfs_res_t"

definition c_readdir3res_init :: READDIR3res_t where
  "c_readdir3res_init = (zero_res zero_READDIR3resok_t)\<lparr>nfs_res_t.resok := c_readdir3resok_init\<rparr>"

definition c_readdir3res_destroy :: "READDIR3res_t \<Rightarrow> (heap, READDIR3res_t) cm" where
  "c_readdir3res_destroy = destroy_res c_readdir3resok_destroy zero_READDIR3resok_t"

definition xdr_pack_READDIR3res :: "READDIR3res_t \<Rightarrow> unit cx" where
  "xdr_pack_READDIR3res = pack_res xdr_pack_READDIR3resok"

definition xdr_unpack_READDIR3res :: "READDIR3res_t \<Rightarrow> READDIR3res_t cx" where
  "xdr_unpack_READDIR3res ob = cbind (on_heap (c_readdir3res_destroy ob)) (unpack_res xdr_unpack_READDIR3resok)"

interpretation READDIR3res_c: c_managed
  xdr_pack_READDIR3res xdr_unpack_READDIR3res "cenc_res cenc_READDIR3resok" "\<lambda>_. covr_res covr_READDIR3resok (zero_res zero_READDIR3resok_t)"
  "cok_res cok_READDIR3resok" "\<lambda>ob. crel_READDIR3resok (nfs_res_t.resok ob)" "\<lambda>ob. cblocks_READDIR3resok (nfs_res_t.resok ob)"
  c_readdir3res_destroy "zero_res zero_READDIR3resok_t"
  unfolding xdr_pack_READDIR3res_def xdr_unpack_READDIR3res_def [abs_def] c_readdir3res_destroy_def by (rule READDIR3resok_c.res_managed)

section \<open>READDIRPLUS\<close>

record READDIRPLUS3args_t =
  dir :: nfs_fh3_t
  cookie :: uint64
  cookieverf :: uint64
  dircount :: uint32
  maxcount :: uint32

definition zero_READDIRPLUS3args_t :: READDIRPLUS3args_t where
  "zero_READDIRPLUS3args_t = \<lparr>READDIRPLUS3args_t.dir = zero_nfs_fh3_t,
     READDIRPLUS3args_t.cookie = 0,
     READDIRPLUS3args_t.cookieverf = 0,
     READDIRPLUS3args_t.dircount = 0,
     READDIRPLUS3args_t.maxcount = 0\<rparr>"

definition xdr_pack_READDIRPLUS3args :: "READDIRPLUS3args_t \<Rightarrow> unit cx" where
  "xdr_pack_READDIRPLUS3args ob = cdo [
     xdr_pack_nfs_fh3 (READDIRPLUS3args_t.dir ob),
     xdr_pack_uint64 (READDIRPLUS3args_t.cookie ob),
     xdr_pack_uint64 (READDIRPLUS3args_t.cookieverf ob),
     xdr_pack_uint32 (READDIRPLUS3args_t.dircount ob),
     xdr_pack_uint32 (READDIRPLUS3args_t.maxcount ob)]"

definition xdr_unpack_READDIRPLUS3args :: "READDIRPLUS3args_t \<Rightarrow> READDIRPLUS3args_t cx" where
  "xdr_unpack_READDIRPLUS3args = cseq [
     cfld READDIRPLUS3args_t.dir READDIRPLUS3args_t.dir_update xdr_unpack_nfs_fh3,
     cfld READDIRPLUS3args_t.cookie READDIRPLUS3args_t.cookie_update (into xdr_unpack_uint64),
     cfld READDIRPLUS3args_t.cookieverf READDIRPLUS3args_t.cookieverf_update (into xdr_unpack_uint64),
     cfld READDIRPLUS3args_t.dircount READDIRPLUS3args_t.dircount_update (into xdr_unpack_uint32),
     cfld READDIRPLUS3args_t.maxcount READDIRPLUS3args_t.maxcount_update (into xdr_unpack_uint32)]"

definition cenc_READDIRPLUS3args :: "READDIRPLUS3args_t \<Rightarrow> bytes" where
  "cenc_READDIRPLUS3args ob =
     cenc_nfs_fh3 (READDIRPLUS3args_t.dir ob) @
     be64 (READDIRPLUS3args_t.cookie ob) @
     be64 (READDIRPLUS3args_t.cookieverf ob) @
     be32 (READDIRPLUS3args_t.dircount ob) @
     be32 (READDIRPLUS3args_t.maxcount ob)"

definition cok_READDIRPLUS3args :: "READDIRPLUS3args_t \<Rightarrow> bool" where
  "cok_READDIRPLUS3args ob \<longleftrightarrow> cok_nfs_fh3 (READDIRPLUS3args_t.dir ob)"

definition covr_READDIRPLUS3args :: "READDIRPLUS3args_t \<Rightarrow> READDIRPLUS3args_t \<Rightarrow> READDIRPLUS3args_t" where
  "covr_READDIRPLUS3args x0 x =
     \<lparr>READDIRPLUS3args_t.dir = covr_nfs_fh3 (READDIRPLUS3args_t.dir x0) (READDIRPLUS3args_t.dir x),
      READDIRPLUS3args_t.cookie = READDIRPLUS3args_t.cookie x,
      READDIRPLUS3args_t.cookieverf = READDIRPLUS3args_t.cookieverf x,
      READDIRPLUS3args_t.dircount = READDIRPLUS3args_t.dircount x,
      READDIRPLUS3args_t.maxcount = READDIRPLUS3args_t.maxcount x\<rparr>"

definition cdst_READDIRPLUS3args :: "READDIRPLUS3args_t \<Rightarrow> bool" where
  "cdst_READDIRPLUS3args ob \<longleftrightarrow> cdst_nfs_fh3 (READDIRPLUS3args_t.dir ob)"

definition cblocks_READDIRPLUS3args :: "READDIRPLUS3args_t \<Rightarrow> int" where
  "cblocks_READDIRPLUS3args ob = cblocks_nfs_fh3 (READDIRPLUS3args_t.dir ob)"

interpretation READDIRPLUS3args_c: c_codec
  xdr_pack_READDIRPLUS3args xdr_unpack_READDIRPLUS3args cenc_READDIRPLUS3args
  covr_READDIRPLUS3args cok_READDIRPLUS3args cdst_READDIRPLUS3args cblocks_READDIRPLUS3args
proof unfold_locales
  fix x x0 :: READDIRPLUS3args_t
  show "cencodes (xdr_pack_READDIRPLUS3args x) (cenc_READDIRPLUS3args x)" if "cok_READDIRPLUS3args x"
    unfolding xdr_pack_READDIRPLUS3args_def cenc_READDIRPLUS3args_def
    using that [unfolded cok_READDIRPLUS3args_def] by (intro cxenc TrueI) auto
  show "cdecodes (xdr_unpack_READDIRPLUS3args x0) (cenc_READDIRPLUS3args x) (covr_READDIRPLUS3args x0 x) (cblocks_READDIRPLUS3args (covr_READDIRPLUS3args x0 x) - cblocks_READDIRPLUS3args x0)" if "cok_READDIRPLUS3args x" "cdst_READDIRPLUS3args x0"
    unfolding xdr_unpack_READDIRPLUS3args_def cenc_READDIRPLUS3args_def
    by (rule cdecodes_cong, (rule cxdec TrueI |
        (use that in \<open>simp add: cok_READDIRPLUS3args_def cdst_READDIRPLUS3args_def; fail\<close>) |
        (use that in \<open>cases x, cases x0, simp add: covr_READDIRPLUS3args_def cdst_READDIRPLUS3args_def cblocks_READDIRPLUS3args_def; fail\<close>))+)
  show "creader (xdr_unpack_READDIRPLUS3args x0)" if "cdst_READDIRPLUS3args x0"
    unfolding xdr_unpack_READDIRPLUS3args_def 
    by ((rule cxrd_at | rule cxrd | (use that in \<open>simp add: cdst_READDIRPLUS3args_def; fail\<close>))+)
  show "cok_READDIRPLUS3args (covr_READDIRPLUS3args x0 x)" if "cok_READDIRPLUS3args x"
    using that by (auto simp: cok_READDIRPLUS3args_def covr_READDIRPLUS3args_def nfs_fh3_c.ovr_enc nfs_fh3_c.ovr_ok nfs_fh3_c.ovr_dst chars_nonzero)
  show "cenc_READDIRPLUS3args (covr_READDIRPLUS3args x0 x) = cenc_READDIRPLUS3args x" if "cok_READDIRPLUS3args x"
    using that by (auto simp: cok_READDIRPLUS3args_def covr_READDIRPLUS3args_def cenc_READDIRPLUS3args_def nfs_fh3_c.ovr_enc nfs_fh3_c.ovr_ok nfs_fh3_c.ovr_dst chars_nonzero)
  show "cdst_READDIRPLUS3args (covr_READDIRPLUS3args x0 x)" if "cok_READDIRPLUS3args x" "cdst_READDIRPLUS3args x0"
    using that by (auto simp: cok_READDIRPLUS3args_def covr_READDIRPLUS3args_def cdst_READDIRPLUS3args_def nfs_fh3_c.ovr_enc nfs_fh3_c.ovr_ok nfs_fh3_c.ovr_dst)
qed

record READDIRPLUS3resok_t =
  dir_attributes :: post_op_attr_t
  cookieverf :: uint64
  reply :: dirlistplus3_t

definition zero_READDIRPLUS3resok_t :: READDIRPLUS3resok_t where
  "zero_READDIRPLUS3resok_t = \<lparr>READDIRPLUS3resok_t.dir_attributes = zero_post_op_attr_t,
     READDIRPLUS3resok_t.cookieverf = 0,
     READDIRPLUS3resok_t.reply = zero_dirlist\<rparr>"

definition c_readdirplus3resok_init :: READDIRPLUS3resok_t where
  "c_readdirplus3resok_init = zero_READDIRPLUS3resok_t\<lparr>READDIRPLUS3resok_t.reply := c_dirlistplus3_init\<rparr>"

definition c_readdirplus3resok_destroy :: "READDIRPLUS3resok_t \<Rightarrow> (heap, READDIRPLUS3resok_t) cm" where
  "c_readdirplus3resok_destroy ob =
     cbind (c_dirlistplus3_destroy (READDIRPLUS3resok_t.reply ob)) (\<lambda>_.
     cret zero_READDIRPLUS3resok_t)"

definition xdr_pack_READDIRPLUS3resok :: "READDIRPLUS3resok_t \<Rightarrow> unit cx" where
  "xdr_pack_READDIRPLUS3resok ob = cdo [
     xdr_pack_post_op_attr (READDIRPLUS3resok_t.dir_attributes ob),
     xdr_pack_uint64 (READDIRPLUS3resok_t.cookieverf ob),
     xdr_pack_dirlistplus3 (READDIRPLUS3resok_t.reply ob)]"

definition xdr_unpack_READDIRPLUS3resok :: "READDIRPLUS3resok_t \<Rightarrow> READDIRPLUS3resok_t cx" where
  "xdr_unpack_READDIRPLUS3resok = cseq [
     cfld READDIRPLUS3resok_t.dir_attributes READDIRPLUS3resok_t.dir_attributes_update xdr_unpack_post_op_attr,
     cfld READDIRPLUS3resok_t.cookieverf READDIRPLUS3resok_t.cookieverf_update (into xdr_unpack_uint64),
     cfld READDIRPLUS3resok_t.reply READDIRPLUS3resok_t.reply_update xdr_unpack_dirlistplus3]"

definition cenc_READDIRPLUS3resok :: "READDIRPLUS3resok_t \<Rightarrow> bytes" where
  "cenc_READDIRPLUS3resok ob =
     cenc_post_op_attr (READDIRPLUS3resok_t.dir_attributes ob) @
     be64 (READDIRPLUS3resok_t.cookieverf ob) @
     cenc_dirlistplus3 (READDIRPLUS3resok_t.reply ob)"

definition cok_READDIRPLUS3resok :: "READDIRPLUS3resok_t \<Rightarrow> bool" where
  "cok_READDIRPLUS3resok ob \<longleftrightarrow> cok_dirlistplus3 (READDIRPLUS3resok_t.reply ob)"

definition covr_READDIRPLUS3resok :: "READDIRPLUS3resok_t \<Rightarrow> READDIRPLUS3resok_t \<Rightarrow> READDIRPLUS3resok_t" where
  "covr_READDIRPLUS3resok x0 x =
     \<lparr>READDIRPLUS3resok_t.dir_attributes = covr_post_op_attr (READDIRPLUS3resok_t.dir_attributes x0) (READDIRPLUS3resok_t.dir_attributes x),
      READDIRPLUS3resok_t.cookieverf = READDIRPLUS3resok_t.cookieverf x,
      READDIRPLUS3resok_t.reply = covr_dirlistplus3 (READDIRPLUS3resok_t.reply x0) (READDIRPLUS3resok_t.reply x)\<rparr>"

definition cdst_READDIRPLUS3resok :: "READDIRPLUS3resok_t \<Rightarrow> bool" where
  "cdst_READDIRPLUS3resok ob \<longleftrightarrow> cdst_dirlistplus3 (READDIRPLUS3resok_t.reply ob)"

definition cblocks_READDIRPLUS3resok :: "READDIRPLUS3resok_t \<Rightarrow> int" where
  "cblocks_READDIRPLUS3resok ob = cblocks_dirlistplus3 (READDIRPLUS3resok_t.reply ob)"

definition crel_READDIRPLUS3resok :: "READDIRPLUS3resok_t \<Rightarrow> bool" where
  "crel_READDIRPLUS3resok ob \<longleftrightarrow> crel_dirlistplus3 (READDIRPLUS3resok_t.reply ob)"

interpretation READDIRPLUS3resok_obj: c_object c_readdirplus3resok_destroy zero_READDIRPLUS3resok_t crel_READDIRPLUS3resok cblocks_READDIRPLUS3resok
  by unfold_locales
    (auto simp: c_readdirplus3resok_destroy_def crel_READDIRPLUS3resok_def cblocks_READDIRPLUS3resok_def cbind_def free_releasable cxdestroy zero_READDIRPLUS3resok_t_def)

interpretation READDIRPLUS3resok_c: c_fresh
  xdr_pack_READDIRPLUS3resok xdr_unpack_READDIRPLUS3resok cenc_READDIRPLUS3resok
  covr_READDIRPLUS3resok cok_READDIRPLUS3resok cdst_READDIRPLUS3resok cblocks_READDIRPLUS3resok c_readdirplus3resok_destroy zero_READDIRPLUS3resok_t crel_READDIRPLUS3resok
proof unfold_locales
  fix x x0 :: READDIRPLUS3resok_t
  show "cencodes (xdr_pack_READDIRPLUS3resok x) (cenc_READDIRPLUS3resok x)" if "cok_READDIRPLUS3resok x"
    unfolding xdr_pack_READDIRPLUS3resok_def cenc_READDIRPLUS3resok_def
    using that [unfolded cok_READDIRPLUS3resok_def] by (intro cxenc TrueI) auto
  show "cdecodes (xdr_unpack_READDIRPLUS3resok x0) (cenc_READDIRPLUS3resok x) (covr_READDIRPLUS3resok x0 x) (cblocks_READDIRPLUS3resok (covr_READDIRPLUS3resok x0 x) - cblocks_READDIRPLUS3resok x0)" if "cok_READDIRPLUS3resok x" "cdst_READDIRPLUS3resok x0"
    unfolding xdr_unpack_READDIRPLUS3resok_def cenc_READDIRPLUS3resok_def
    by (rule cdecodes_cong, (rule cxdec TrueI |
        (use that in \<open>simp add: cok_READDIRPLUS3resok_def cdst_READDIRPLUS3resok_def; fail\<close>) |
        (use that in \<open>cases x, cases x0, simp add: covr_READDIRPLUS3resok_def cdst_READDIRPLUS3resok_def cblocks_READDIRPLUS3resok_def; fail\<close>))+)
  show "creader (xdr_unpack_READDIRPLUS3resok x0)" if "cdst_READDIRPLUS3resok x0"
    unfolding xdr_unpack_READDIRPLUS3resok_def 
    by ((rule cxrd_at | rule cxrd | (use that in \<open>simp add: cdst_READDIRPLUS3resok_def; fail\<close>))+)
  show "cdst_READDIRPLUS3resok zero_READDIRPLUS3resok_t" by (simp add: cdst_READDIRPLUS3resok_def zero_READDIRPLUS3resok_t_def)
  show "cok_READDIRPLUS3resok (covr_READDIRPLUS3resok zero_READDIRPLUS3resok_t x)" if "cok_READDIRPLUS3resok x"
    using that by (auto simp: cok_READDIRPLUS3resok_def covr_READDIRPLUS3resok_def zero_READDIRPLUS3resok_t_def post_op_attr_c.ovr_enc dirlistplus3_c.fresh_enc dirlistplus3_c.fresh_ok dirlistplus3_c.fresh_rel  chars_nonzero)
  show "cenc_READDIRPLUS3resok (covr_READDIRPLUS3resok zero_READDIRPLUS3resok_t x) = cenc_READDIRPLUS3resok x" if "cok_READDIRPLUS3resok x"
    using that by (auto simp: cok_READDIRPLUS3resok_def covr_READDIRPLUS3resok_def cenc_READDIRPLUS3resok_def zero_READDIRPLUS3resok_t_def post_op_attr_c.ovr_enc dirlistplus3_c.fresh_enc dirlistplus3_c.fresh_ok dirlistplus3_c.fresh_rel  chars_nonzero)
  show "crel_READDIRPLUS3resok (covr_READDIRPLUS3resok zero_READDIRPLUS3resok_t x)" if "cok_READDIRPLUS3resok x"
    using that by (auto simp: cok_READDIRPLUS3resok_def covr_READDIRPLUS3resok_def crel_READDIRPLUS3resok_def zero_READDIRPLUS3resok_t_def post_op_attr_c.ovr_enc dirlistplus3_c.fresh_enc dirlistplus3_c.fresh_ok dirlistplus3_c.fresh_rel )
qed

type_synonym READDIRPLUS3res_t = "READDIRPLUS3resok_t nfs_res_t"

definition c_readdirplus3res_init :: READDIRPLUS3res_t where
  "c_readdirplus3res_init = (zero_res zero_READDIRPLUS3resok_t)\<lparr>nfs_res_t.resok := c_readdirplus3resok_init\<rparr>"

definition c_readdirplus3res_destroy :: "READDIRPLUS3res_t \<Rightarrow> (heap, READDIRPLUS3res_t) cm" where
  "c_readdirplus3res_destroy = destroy_res c_readdirplus3resok_destroy zero_READDIRPLUS3resok_t"

definition xdr_pack_READDIRPLUS3res :: "READDIRPLUS3res_t \<Rightarrow> unit cx" where
  "xdr_pack_READDIRPLUS3res = pack_res xdr_pack_READDIRPLUS3resok"

definition xdr_unpack_READDIRPLUS3res :: "READDIRPLUS3res_t \<Rightarrow> READDIRPLUS3res_t cx" where
  "xdr_unpack_READDIRPLUS3res ob = cbind (on_heap (c_readdirplus3res_destroy ob)) (unpack_res xdr_unpack_READDIRPLUS3resok)"

interpretation READDIRPLUS3res_c: c_managed
  xdr_pack_READDIRPLUS3res xdr_unpack_READDIRPLUS3res "cenc_res cenc_READDIRPLUS3resok" "\<lambda>_. covr_res covr_READDIRPLUS3resok (zero_res zero_READDIRPLUS3resok_t)"
  "cok_res cok_READDIRPLUS3resok" "\<lambda>ob. crel_READDIRPLUS3resok (nfs_res_t.resok ob)" "\<lambda>ob. cblocks_READDIRPLUS3resok (nfs_res_t.resok ob)"
  c_readdirplus3res_destroy "zero_res zero_READDIRPLUS3resok_t"
  unfolding xdr_pack_READDIRPLUS3res_def xdr_unpack_READDIRPLUS3res_def [abs_def] c_readdirplus3res_destroy_def by (rule READDIRPLUS3resok_c.res_managed)

section \<open>FSSTAT\<close>

record FSSTAT3args_t =
  fsroot :: nfs_fh3_t

definition zero_FSSTAT3args_t :: FSSTAT3args_t where
  "zero_FSSTAT3args_t = \<lparr>FSSTAT3args_t.fsroot = zero_nfs_fh3_t\<rparr>"

definition xdr_pack_FSSTAT3args :: "FSSTAT3args_t \<Rightarrow> unit cx" where
  "xdr_pack_FSSTAT3args ob = cdo [
     xdr_pack_nfs_fh3 (FSSTAT3args_t.fsroot ob)]"

definition xdr_unpack_FSSTAT3args :: "FSSTAT3args_t \<Rightarrow> FSSTAT3args_t cx" where
  "xdr_unpack_FSSTAT3args = cseq [
     cfld FSSTAT3args_t.fsroot FSSTAT3args_t.fsroot_update xdr_unpack_nfs_fh3]"

definition cenc_FSSTAT3args :: "FSSTAT3args_t \<Rightarrow> bytes" where
  "cenc_FSSTAT3args ob =
     cenc_nfs_fh3 (FSSTAT3args_t.fsroot ob)"

definition cok_FSSTAT3args :: "FSSTAT3args_t \<Rightarrow> bool" where
  "cok_FSSTAT3args ob \<longleftrightarrow> cok_nfs_fh3 (FSSTAT3args_t.fsroot ob)"

definition covr_FSSTAT3args :: "FSSTAT3args_t \<Rightarrow> FSSTAT3args_t \<Rightarrow> FSSTAT3args_t" where
  "covr_FSSTAT3args x0 x =
     \<lparr>FSSTAT3args_t.fsroot = covr_nfs_fh3 (FSSTAT3args_t.fsroot x0) (FSSTAT3args_t.fsroot x)\<rparr>"

definition cdst_FSSTAT3args :: "FSSTAT3args_t \<Rightarrow> bool" where
  "cdst_FSSTAT3args ob \<longleftrightarrow> cdst_nfs_fh3 (FSSTAT3args_t.fsroot ob)"

definition cblocks_FSSTAT3args :: "FSSTAT3args_t \<Rightarrow> int" where
  "cblocks_FSSTAT3args ob = cblocks_nfs_fh3 (FSSTAT3args_t.fsroot ob)"

interpretation FSSTAT3args_c: c_codec
  xdr_pack_FSSTAT3args xdr_unpack_FSSTAT3args cenc_FSSTAT3args
  covr_FSSTAT3args cok_FSSTAT3args cdst_FSSTAT3args cblocks_FSSTAT3args
proof unfold_locales
  fix x x0 :: FSSTAT3args_t
  show "cencodes (xdr_pack_FSSTAT3args x) (cenc_FSSTAT3args x)" if "cok_FSSTAT3args x"
    unfolding xdr_pack_FSSTAT3args_def cenc_FSSTAT3args_def
    using that [unfolded cok_FSSTAT3args_def] by (intro cxenc TrueI) auto
  show "cdecodes (xdr_unpack_FSSTAT3args x0) (cenc_FSSTAT3args x) (covr_FSSTAT3args x0 x) (cblocks_FSSTAT3args (covr_FSSTAT3args x0 x) - cblocks_FSSTAT3args x0)" if "cok_FSSTAT3args x" "cdst_FSSTAT3args x0"
    unfolding xdr_unpack_FSSTAT3args_def cenc_FSSTAT3args_def
    by (rule cdecodes_cong, (rule cxdec TrueI |
        (use that in \<open>simp add: cok_FSSTAT3args_def cdst_FSSTAT3args_def; fail\<close>) |
        (use that in \<open>cases x, cases x0, simp add: covr_FSSTAT3args_def cdst_FSSTAT3args_def cblocks_FSSTAT3args_def; fail\<close>))+)
  show "creader (xdr_unpack_FSSTAT3args x0)" if "cdst_FSSTAT3args x0"
    unfolding xdr_unpack_FSSTAT3args_def 
    by ((rule cxrd_at | rule cxrd | (use that in \<open>simp add: cdst_FSSTAT3args_def; fail\<close>))+)
  show "cok_FSSTAT3args (covr_FSSTAT3args x0 x)" if "cok_FSSTAT3args x"
    using that by (auto simp: cok_FSSTAT3args_def covr_FSSTAT3args_def nfs_fh3_c.ovr_enc nfs_fh3_c.ovr_ok nfs_fh3_c.ovr_dst chars_nonzero)
  show "cenc_FSSTAT3args (covr_FSSTAT3args x0 x) = cenc_FSSTAT3args x" if "cok_FSSTAT3args x"
    using that by (auto simp: cok_FSSTAT3args_def covr_FSSTAT3args_def cenc_FSSTAT3args_def nfs_fh3_c.ovr_enc nfs_fh3_c.ovr_ok nfs_fh3_c.ovr_dst chars_nonzero)
  show "cdst_FSSTAT3args (covr_FSSTAT3args x0 x)" if "cok_FSSTAT3args x" "cdst_FSSTAT3args x0"
    using that by (auto simp: cok_FSSTAT3args_def covr_FSSTAT3args_def cdst_FSSTAT3args_def nfs_fh3_c.ovr_enc nfs_fh3_c.ovr_ok nfs_fh3_c.ovr_dst)
qed

record FSSTAT3resok_t =
  obj_attributes :: post_op_attr_t
  tbytes :: uint64
  fbytes :: uint64
  abytes :: uint64
  tfiles :: uint64
  ffiles :: uint64
  afiles :: uint64
  invarsec :: uint32

definition zero_FSSTAT3resok_t :: FSSTAT3resok_t where
  "zero_FSSTAT3resok_t = \<lparr>FSSTAT3resok_t.obj_attributes = zero_post_op_attr_t,
     FSSTAT3resok_t.tbytes = 0,
     FSSTAT3resok_t.fbytes = 0,
     FSSTAT3resok_t.abytes = 0,
     FSSTAT3resok_t.tfiles = 0,
     FSSTAT3resok_t.ffiles = 0,
     FSSTAT3resok_t.afiles = 0,
     FSSTAT3resok_t.invarsec = 0\<rparr>"

definition xdr_pack_FSSTAT3resok :: "FSSTAT3resok_t \<Rightarrow> unit cx" where
  "xdr_pack_FSSTAT3resok ob = cdo [
     xdr_pack_post_op_attr (FSSTAT3resok_t.obj_attributes ob),
     xdr_pack_uint64 (FSSTAT3resok_t.tbytes ob),
     xdr_pack_uint64 (FSSTAT3resok_t.fbytes ob),
     xdr_pack_uint64 (FSSTAT3resok_t.abytes ob),
     xdr_pack_uint64 (FSSTAT3resok_t.tfiles ob),
     xdr_pack_uint64 (FSSTAT3resok_t.ffiles ob),
     xdr_pack_uint64 (FSSTAT3resok_t.afiles ob),
     xdr_pack_uint32 (FSSTAT3resok_t.invarsec ob)]"

definition xdr_unpack_FSSTAT3resok :: "FSSTAT3resok_t \<Rightarrow> FSSTAT3resok_t cx" where
  "xdr_unpack_FSSTAT3resok = cseq [
     cfld FSSTAT3resok_t.obj_attributes FSSTAT3resok_t.obj_attributes_update xdr_unpack_post_op_attr,
     cfld FSSTAT3resok_t.tbytes FSSTAT3resok_t.tbytes_update (into xdr_unpack_uint64),
     cfld FSSTAT3resok_t.fbytes FSSTAT3resok_t.fbytes_update (into xdr_unpack_uint64),
     cfld FSSTAT3resok_t.abytes FSSTAT3resok_t.abytes_update (into xdr_unpack_uint64),
     cfld FSSTAT3resok_t.tfiles FSSTAT3resok_t.tfiles_update (into xdr_unpack_uint64),
     cfld FSSTAT3resok_t.ffiles FSSTAT3resok_t.ffiles_update (into xdr_unpack_uint64),
     cfld FSSTAT3resok_t.afiles FSSTAT3resok_t.afiles_update (into xdr_unpack_uint64),
     cfld FSSTAT3resok_t.invarsec FSSTAT3resok_t.invarsec_update (into xdr_unpack_uint32)]"

definition cenc_FSSTAT3resok :: "FSSTAT3resok_t \<Rightarrow> bytes" where
  "cenc_FSSTAT3resok ob =
     cenc_post_op_attr (FSSTAT3resok_t.obj_attributes ob) @
     be64 (FSSTAT3resok_t.tbytes ob) @
     be64 (FSSTAT3resok_t.fbytes ob) @
     be64 (FSSTAT3resok_t.abytes ob) @
     be64 (FSSTAT3resok_t.tfiles ob) @
     be64 (FSSTAT3resok_t.ffiles ob) @
     be64 (FSSTAT3resok_t.afiles ob) @
     be32 (FSSTAT3resok_t.invarsec ob)"

definition covr_FSSTAT3resok :: "FSSTAT3resok_t \<Rightarrow> FSSTAT3resok_t \<Rightarrow> FSSTAT3resok_t" where
  "covr_FSSTAT3resok x0 x =
     \<lparr>FSSTAT3resok_t.obj_attributes = covr_post_op_attr (FSSTAT3resok_t.obj_attributes x0) (FSSTAT3resok_t.obj_attributes x),
      FSSTAT3resok_t.tbytes = FSSTAT3resok_t.tbytes x,
      FSSTAT3resok_t.fbytes = FSSTAT3resok_t.fbytes x,
      FSSTAT3resok_t.abytes = FSSTAT3resok_t.abytes x,
      FSSTAT3resok_t.tfiles = FSSTAT3resok_t.tfiles x,
      FSSTAT3resok_t.ffiles = FSSTAT3resok_t.ffiles x,
      FSSTAT3resok_t.afiles = FSSTAT3resok_t.afiles x,
      FSSTAT3resok_t.invarsec = FSSTAT3resok_t.invarsec x\<rparr>"

interpretation FSSTAT3resok_c: c_codec
  xdr_pack_FSSTAT3resok xdr_unpack_FSSTAT3resok cenc_FSSTAT3resok
  covr_FSSTAT3resok "\<lambda>_. True" "\<lambda>_. True" "\<lambda>_. 0"
proof unfold_locales
  fix x x0 :: FSSTAT3resok_t
  show "cencodes (xdr_pack_FSSTAT3resok x) (cenc_FSSTAT3resok x)"
    unfolding xdr_pack_FSSTAT3resok_def cenc_FSSTAT3resok_def by (intro cxenc TrueI)
  show "cdecodes (xdr_unpack_FSSTAT3resok x0) (cenc_FSSTAT3resok x) (covr_FSSTAT3resok x0 x) (0 - 0)"
    unfolding xdr_unpack_FSSTAT3resok_def cenc_FSSTAT3resok_def
    by (rule cdecodes_cong, (rule cxdec TrueI |
        (cases x, cases x0, simp add: covr_FSSTAT3resok_def; fail))+)
  show "creader (xdr_unpack_FSSTAT3resok x0)"
    unfolding xdr_unpack_FSSTAT3resok_def by (intro cxrd TrueI)
  show "cenc_FSSTAT3resok (covr_FSSTAT3resok x0 x) = cenc_FSSTAT3resok x"
    by (auto simp: covr_FSSTAT3resok_def cenc_FSSTAT3resok_def post_op_attr_c.ovr_enc chars_nonzero)
qed simp_all

type_synonym FSSTAT3res_t = "FSSTAT3resok_t nfs_res_t"

definition xdr_pack_FSSTAT3res :: "FSSTAT3res_t \<Rightarrow> unit cx" where
  "xdr_pack_FSSTAT3res = pack_res xdr_pack_FSSTAT3resok"

definition xdr_unpack_FSSTAT3res :: "FSSTAT3res_t \<Rightarrow> FSSTAT3res_t cx" where
  "xdr_unpack_FSSTAT3res = unpack_res xdr_unpack_FSSTAT3resok"

interpretation FSSTAT3res_c: c_codec
  xdr_pack_FSSTAT3res xdr_unpack_FSSTAT3res "cenc_res cenc_FSSTAT3resok" "covr_res covr_FSSTAT3resok" "cok_res (\<lambda>_. True)" "\<lambda>_. True" "\<lambda>_. 0"
  unfolding xdr_pack_FSSTAT3res_def xdr_unpack_FSSTAT3res_def by (rule FSSTAT3resok_c.res_codec)

section \<open>FSINFO\<close>

record FSINFO3args_t =
  fsroot :: nfs_fh3_t

definition zero_FSINFO3args_t :: FSINFO3args_t where
  "zero_FSINFO3args_t = \<lparr>FSINFO3args_t.fsroot = zero_nfs_fh3_t\<rparr>"

definition xdr_pack_FSINFO3args :: "FSINFO3args_t \<Rightarrow> unit cx" where
  "xdr_pack_FSINFO3args ob = cdo [
     xdr_pack_nfs_fh3 (FSINFO3args_t.fsroot ob)]"

definition xdr_unpack_FSINFO3args :: "FSINFO3args_t \<Rightarrow> FSINFO3args_t cx" where
  "xdr_unpack_FSINFO3args = cseq [
     cfld FSINFO3args_t.fsroot FSINFO3args_t.fsroot_update xdr_unpack_nfs_fh3]"

definition cenc_FSINFO3args :: "FSINFO3args_t \<Rightarrow> bytes" where
  "cenc_FSINFO3args ob =
     cenc_nfs_fh3 (FSINFO3args_t.fsroot ob)"

definition cok_FSINFO3args :: "FSINFO3args_t \<Rightarrow> bool" where
  "cok_FSINFO3args ob \<longleftrightarrow> cok_nfs_fh3 (FSINFO3args_t.fsroot ob)"

definition covr_FSINFO3args :: "FSINFO3args_t \<Rightarrow> FSINFO3args_t \<Rightarrow> FSINFO3args_t" where
  "covr_FSINFO3args x0 x =
     \<lparr>FSINFO3args_t.fsroot = covr_nfs_fh3 (FSINFO3args_t.fsroot x0) (FSINFO3args_t.fsroot x)\<rparr>"

definition cdst_FSINFO3args :: "FSINFO3args_t \<Rightarrow> bool" where
  "cdst_FSINFO3args ob \<longleftrightarrow> cdst_nfs_fh3 (FSINFO3args_t.fsroot ob)"

definition cblocks_FSINFO3args :: "FSINFO3args_t \<Rightarrow> int" where
  "cblocks_FSINFO3args ob = cblocks_nfs_fh3 (FSINFO3args_t.fsroot ob)"

interpretation FSINFO3args_c: c_codec
  xdr_pack_FSINFO3args xdr_unpack_FSINFO3args cenc_FSINFO3args
  covr_FSINFO3args cok_FSINFO3args cdst_FSINFO3args cblocks_FSINFO3args
proof unfold_locales
  fix x x0 :: FSINFO3args_t
  show "cencodes (xdr_pack_FSINFO3args x) (cenc_FSINFO3args x)" if "cok_FSINFO3args x"
    unfolding xdr_pack_FSINFO3args_def cenc_FSINFO3args_def
    using that [unfolded cok_FSINFO3args_def] by (intro cxenc TrueI) auto
  show "cdecodes (xdr_unpack_FSINFO3args x0) (cenc_FSINFO3args x) (covr_FSINFO3args x0 x) (cblocks_FSINFO3args (covr_FSINFO3args x0 x) - cblocks_FSINFO3args x0)" if "cok_FSINFO3args x" "cdst_FSINFO3args x0"
    unfolding xdr_unpack_FSINFO3args_def cenc_FSINFO3args_def
    by (rule cdecodes_cong, (rule cxdec TrueI |
        (use that in \<open>simp add: cok_FSINFO3args_def cdst_FSINFO3args_def; fail\<close>) |
        (use that in \<open>cases x, cases x0, simp add: covr_FSINFO3args_def cdst_FSINFO3args_def cblocks_FSINFO3args_def; fail\<close>))+)
  show "creader (xdr_unpack_FSINFO3args x0)" if "cdst_FSINFO3args x0"
    unfolding xdr_unpack_FSINFO3args_def 
    by ((rule cxrd_at | rule cxrd | (use that in \<open>simp add: cdst_FSINFO3args_def; fail\<close>))+)
  show "cok_FSINFO3args (covr_FSINFO3args x0 x)" if "cok_FSINFO3args x"
    using that by (auto simp: cok_FSINFO3args_def covr_FSINFO3args_def nfs_fh3_c.ovr_enc nfs_fh3_c.ovr_ok nfs_fh3_c.ovr_dst chars_nonzero)
  show "cenc_FSINFO3args (covr_FSINFO3args x0 x) = cenc_FSINFO3args x" if "cok_FSINFO3args x"
    using that by (auto simp: cok_FSINFO3args_def covr_FSINFO3args_def cenc_FSINFO3args_def nfs_fh3_c.ovr_enc nfs_fh3_c.ovr_ok nfs_fh3_c.ovr_dst chars_nonzero)
  show "cdst_FSINFO3args (covr_FSINFO3args x0 x)" if "cok_FSINFO3args x" "cdst_FSINFO3args x0"
    using that by (auto simp: cok_FSINFO3args_def covr_FSINFO3args_def cdst_FSINFO3args_def nfs_fh3_c.ovr_enc nfs_fh3_c.ovr_ok nfs_fh3_c.ovr_dst)
qed

record FSINFO3resok_t =
  obj_attributes :: post_op_attr_t
  rtmax :: uint32
  rtpref :: uint32
  rtmult :: uint32
  wtmax :: uint32
  wtpref :: uint32
  wtmult :: uint32
  dtpref :: uint32
  maxfilesize :: uint64
  time_delta_seconds :: uint32
  time_delta_nseconds :: uint32
  properties :: uint32

definition zero_FSINFO3resok_t :: FSINFO3resok_t where
  "zero_FSINFO3resok_t = \<lparr>FSINFO3resok_t.obj_attributes = zero_post_op_attr_t,
     FSINFO3resok_t.rtmax = 0,
     FSINFO3resok_t.rtpref = 0,
     FSINFO3resok_t.rtmult = 0,
     FSINFO3resok_t.wtmax = 0,
     FSINFO3resok_t.wtpref = 0,
     FSINFO3resok_t.wtmult = 0,
     FSINFO3resok_t.dtpref = 0,
     FSINFO3resok_t.maxfilesize = 0,
     FSINFO3resok_t.time_delta_seconds = 0,
     FSINFO3resok_t.time_delta_nseconds = 0,
     FSINFO3resok_t.properties = 0\<rparr>"

definition xdr_pack_FSINFO3resok :: "FSINFO3resok_t \<Rightarrow> unit cx" where
  "xdr_pack_FSINFO3resok ob = cdo [
     xdr_pack_post_op_attr (FSINFO3resok_t.obj_attributes ob),
     xdr_pack_uint32 (FSINFO3resok_t.rtmax ob),
     xdr_pack_uint32 (FSINFO3resok_t.rtpref ob),
     xdr_pack_uint32 (FSINFO3resok_t.rtmult ob),
     xdr_pack_uint32 (FSINFO3resok_t.wtmax ob),
     xdr_pack_uint32 (FSINFO3resok_t.wtpref ob),
     xdr_pack_uint32 (FSINFO3resok_t.wtmult ob),
     xdr_pack_uint32 (FSINFO3resok_t.dtpref ob),
     xdr_pack_uint64 (FSINFO3resok_t.maxfilesize ob),
     xdr_pack_uint32 (FSINFO3resok_t.time_delta_seconds ob),
     xdr_pack_uint32 (FSINFO3resok_t.time_delta_nseconds ob),
     xdr_pack_uint32 (FSINFO3resok_t.properties ob)]"

definition xdr_unpack_FSINFO3resok :: "FSINFO3resok_t \<Rightarrow> FSINFO3resok_t cx" where
  "xdr_unpack_FSINFO3resok = cseq [
     cfld FSINFO3resok_t.obj_attributes FSINFO3resok_t.obj_attributes_update xdr_unpack_post_op_attr,
     cfld FSINFO3resok_t.rtmax FSINFO3resok_t.rtmax_update (into xdr_unpack_uint32),
     cfld FSINFO3resok_t.rtpref FSINFO3resok_t.rtpref_update (into xdr_unpack_uint32),
     cfld FSINFO3resok_t.rtmult FSINFO3resok_t.rtmult_update (into xdr_unpack_uint32),
     cfld FSINFO3resok_t.wtmax FSINFO3resok_t.wtmax_update (into xdr_unpack_uint32),
     cfld FSINFO3resok_t.wtpref FSINFO3resok_t.wtpref_update (into xdr_unpack_uint32),
     cfld FSINFO3resok_t.wtmult FSINFO3resok_t.wtmult_update (into xdr_unpack_uint32),
     cfld FSINFO3resok_t.dtpref FSINFO3resok_t.dtpref_update (into xdr_unpack_uint32),
     cfld FSINFO3resok_t.maxfilesize FSINFO3resok_t.maxfilesize_update (into xdr_unpack_uint64),
     cfld FSINFO3resok_t.time_delta_seconds FSINFO3resok_t.time_delta_seconds_update (into xdr_unpack_uint32),
     cfld FSINFO3resok_t.time_delta_nseconds FSINFO3resok_t.time_delta_nseconds_update (into xdr_unpack_uint32),
     cfld FSINFO3resok_t.properties FSINFO3resok_t.properties_update (into xdr_unpack_uint32)]"

definition cenc_FSINFO3resok :: "FSINFO3resok_t \<Rightarrow> bytes" where
  "cenc_FSINFO3resok ob =
     cenc_post_op_attr (FSINFO3resok_t.obj_attributes ob) @
     be32 (FSINFO3resok_t.rtmax ob) @
     be32 (FSINFO3resok_t.rtpref ob) @
     be32 (FSINFO3resok_t.rtmult ob) @
     be32 (FSINFO3resok_t.wtmax ob) @
     be32 (FSINFO3resok_t.wtpref ob) @
     be32 (FSINFO3resok_t.wtmult ob) @
     be32 (FSINFO3resok_t.dtpref ob) @
     be64 (FSINFO3resok_t.maxfilesize ob) @
     be32 (FSINFO3resok_t.time_delta_seconds ob) @
     be32 (FSINFO3resok_t.time_delta_nseconds ob) @
     be32 (FSINFO3resok_t.properties ob)"

definition covr_FSINFO3resok :: "FSINFO3resok_t \<Rightarrow> FSINFO3resok_t \<Rightarrow> FSINFO3resok_t" where
  "covr_FSINFO3resok x0 x =
     \<lparr>FSINFO3resok_t.obj_attributes = covr_post_op_attr (FSINFO3resok_t.obj_attributes x0) (FSINFO3resok_t.obj_attributes x),
      FSINFO3resok_t.rtmax = FSINFO3resok_t.rtmax x,
      FSINFO3resok_t.rtpref = FSINFO3resok_t.rtpref x,
      FSINFO3resok_t.rtmult = FSINFO3resok_t.rtmult x,
      FSINFO3resok_t.wtmax = FSINFO3resok_t.wtmax x,
      FSINFO3resok_t.wtpref = FSINFO3resok_t.wtpref x,
      FSINFO3resok_t.wtmult = FSINFO3resok_t.wtmult x,
      FSINFO3resok_t.dtpref = FSINFO3resok_t.dtpref x,
      FSINFO3resok_t.maxfilesize = FSINFO3resok_t.maxfilesize x,
      FSINFO3resok_t.time_delta_seconds = FSINFO3resok_t.time_delta_seconds x,
      FSINFO3resok_t.time_delta_nseconds = FSINFO3resok_t.time_delta_nseconds x,
      FSINFO3resok_t.properties = FSINFO3resok_t.properties x\<rparr>"

interpretation FSINFO3resok_c: c_codec
  xdr_pack_FSINFO3resok xdr_unpack_FSINFO3resok cenc_FSINFO3resok
  covr_FSINFO3resok "\<lambda>_. True" "\<lambda>_. True" "\<lambda>_. 0"
proof unfold_locales
  fix x x0 :: FSINFO3resok_t
  show "cencodes (xdr_pack_FSINFO3resok x) (cenc_FSINFO3resok x)"
    unfolding xdr_pack_FSINFO3resok_def cenc_FSINFO3resok_def by (intro cxenc TrueI)
  show "cdecodes (xdr_unpack_FSINFO3resok x0) (cenc_FSINFO3resok x) (covr_FSINFO3resok x0 x) (0 - 0)"
    unfolding xdr_unpack_FSINFO3resok_def cenc_FSINFO3resok_def
    by (rule cdecodes_cong, (rule cxdec TrueI |
        (cases x, cases x0, simp add: covr_FSINFO3resok_def; fail))+)
  show "creader (xdr_unpack_FSINFO3resok x0)"
    unfolding xdr_unpack_FSINFO3resok_def by (intro cxrd TrueI)
  show "cenc_FSINFO3resok (covr_FSINFO3resok x0 x) = cenc_FSINFO3resok x"
    by (auto simp: covr_FSINFO3resok_def cenc_FSINFO3resok_def post_op_attr_c.ovr_enc chars_nonzero)
qed simp_all

type_synonym FSINFO3res_t = "FSINFO3resok_t nfs_res_t"

definition xdr_pack_FSINFO3res :: "FSINFO3res_t \<Rightarrow> unit cx" where
  "xdr_pack_FSINFO3res = pack_res xdr_pack_FSINFO3resok"

definition xdr_unpack_FSINFO3res :: "FSINFO3res_t \<Rightarrow> FSINFO3res_t cx" where
  "xdr_unpack_FSINFO3res = unpack_res xdr_unpack_FSINFO3resok"

interpretation FSINFO3res_c: c_codec
  xdr_pack_FSINFO3res xdr_unpack_FSINFO3res "cenc_res cenc_FSINFO3resok" "covr_res covr_FSINFO3resok" "cok_res (\<lambda>_. True)" "\<lambda>_. True" "\<lambda>_. 0"
  unfolding xdr_pack_FSINFO3res_def xdr_unpack_FSINFO3res_def by (rule FSINFO3resok_c.res_codec)

section \<open>PATHCONF\<close>

record PATHCONF3args_t =
  object :: nfs_fh3_t

definition zero_PATHCONF3args_t :: PATHCONF3args_t where
  "zero_PATHCONF3args_t = \<lparr>PATHCONF3args_t.object = zero_nfs_fh3_t\<rparr>"

definition xdr_pack_PATHCONF3args :: "PATHCONF3args_t \<Rightarrow> unit cx" where
  "xdr_pack_PATHCONF3args ob = cdo [
     xdr_pack_nfs_fh3 (PATHCONF3args_t.object ob)]"

definition xdr_unpack_PATHCONF3args :: "PATHCONF3args_t \<Rightarrow> PATHCONF3args_t cx" where
  "xdr_unpack_PATHCONF3args = cseq [
     cfld PATHCONF3args_t.object PATHCONF3args_t.object_update xdr_unpack_nfs_fh3]"

definition cenc_PATHCONF3args :: "PATHCONF3args_t \<Rightarrow> bytes" where
  "cenc_PATHCONF3args ob =
     cenc_nfs_fh3 (PATHCONF3args_t.object ob)"

definition cok_PATHCONF3args :: "PATHCONF3args_t \<Rightarrow> bool" where
  "cok_PATHCONF3args ob \<longleftrightarrow> cok_nfs_fh3 (PATHCONF3args_t.object ob)"

definition covr_PATHCONF3args :: "PATHCONF3args_t \<Rightarrow> PATHCONF3args_t \<Rightarrow> PATHCONF3args_t" where
  "covr_PATHCONF3args x0 x =
     \<lparr>PATHCONF3args_t.object = covr_nfs_fh3 (PATHCONF3args_t.object x0) (PATHCONF3args_t.object x)\<rparr>"

definition cdst_PATHCONF3args :: "PATHCONF3args_t \<Rightarrow> bool" where
  "cdst_PATHCONF3args ob \<longleftrightarrow> cdst_nfs_fh3 (PATHCONF3args_t.object ob)"

definition cblocks_PATHCONF3args :: "PATHCONF3args_t \<Rightarrow> int" where
  "cblocks_PATHCONF3args ob = cblocks_nfs_fh3 (PATHCONF3args_t.object ob)"

interpretation PATHCONF3args_c: c_codec
  xdr_pack_PATHCONF3args xdr_unpack_PATHCONF3args cenc_PATHCONF3args
  covr_PATHCONF3args cok_PATHCONF3args cdst_PATHCONF3args cblocks_PATHCONF3args
proof unfold_locales
  fix x x0 :: PATHCONF3args_t
  show "cencodes (xdr_pack_PATHCONF3args x) (cenc_PATHCONF3args x)" if "cok_PATHCONF3args x"
    unfolding xdr_pack_PATHCONF3args_def cenc_PATHCONF3args_def
    using that [unfolded cok_PATHCONF3args_def] by (intro cxenc TrueI) auto
  show "cdecodes (xdr_unpack_PATHCONF3args x0) (cenc_PATHCONF3args x) (covr_PATHCONF3args x0 x) (cblocks_PATHCONF3args (covr_PATHCONF3args x0 x) - cblocks_PATHCONF3args x0)" if "cok_PATHCONF3args x" "cdst_PATHCONF3args x0"
    unfolding xdr_unpack_PATHCONF3args_def cenc_PATHCONF3args_def
    by (rule cdecodes_cong, (rule cxdec TrueI |
        (use that in \<open>simp add: cok_PATHCONF3args_def cdst_PATHCONF3args_def; fail\<close>) |
        (use that in \<open>cases x, cases x0, simp add: covr_PATHCONF3args_def cdst_PATHCONF3args_def cblocks_PATHCONF3args_def; fail\<close>))+)
  show "creader (xdr_unpack_PATHCONF3args x0)" if "cdst_PATHCONF3args x0"
    unfolding xdr_unpack_PATHCONF3args_def 
    by ((rule cxrd_at | rule cxrd | (use that in \<open>simp add: cdst_PATHCONF3args_def; fail\<close>))+)
  show "cok_PATHCONF3args (covr_PATHCONF3args x0 x)" if "cok_PATHCONF3args x"
    using that by (auto simp: cok_PATHCONF3args_def covr_PATHCONF3args_def nfs_fh3_c.ovr_enc nfs_fh3_c.ovr_ok nfs_fh3_c.ovr_dst chars_nonzero)
  show "cenc_PATHCONF3args (covr_PATHCONF3args x0 x) = cenc_PATHCONF3args x" if "cok_PATHCONF3args x"
    using that by (auto simp: cok_PATHCONF3args_def covr_PATHCONF3args_def cenc_PATHCONF3args_def nfs_fh3_c.ovr_enc nfs_fh3_c.ovr_ok nfs_fh3_c.ovr_dst chars_nonzero)
  show "cdst_PATHCONF3args (covr_PATHCONF3args x0 x)" if "cok_PATHCONF3args x" "cdst_PATHCONF3args x0"
    using that by (auto simp: cok_PATHCONF3args_def covr_PATHCONF3args_def cdst_PATHCONF3args_def nfs_fh3_c.ovr_enc nfs_fh3_c.ovr_ok nfs_fh3_c.ovr_dst)
qed

record pathconf3_resok_info_t =
  linkmax :: uint32
  name_max :: uint32
  no_trunc :: cint
  chown_restricted :: cint
  case_insensitive :: cint
  case_preserving :: cint

definition zero_pathconf3_resok_info_t :: pathconf3_resok_info_t where
  "zero_pathconf3_resok_info_t = \<lparr>pathconf3_resok_info_t.linkmax = 0,
     pathconf3_resok_info_t.name_max = 0,
     pathconf3_resok_info_t.no_trunc = 0,
     pathconf3_resok_info_t.chown_restricted = 0,
     pathconf3_resok_info_t.case_insensitive = 0,
     pathconf3_resok_info_t.case_preserving = 0\<rparr>"

text \<open>The local \<^verbatim>\<open>val\<close>, into which both limits are read: where the second is missing it
  takes the value of the first.\<close>

definition pathconf3_limits :: "pathconf3_resok_info_t \<Rightarrow> pathconf3_resok_info_t cx" where
  "pathconf3_limits info =
     cbind (into_local xdr_unpack_uint32) (\<lambda>val.
     cbind (into xdr_unpack_uint32 val) (\<lambda>val'.
     cret (info\<lparr>pathconf3_resok_info_t.linkmax := val, pathconf3_resok_info_t.name_max := val'\<rparr>)))"

lemma cdecodes_pathconf3_limits:
  "cdecodes (pathconf3_limits info) (be32 l @ be32 n) (info\<lparr>pathconf3_resok_info_t.linkmax := l, pathconf3_resok_info_t.name_max := n\<rparr>) 0"
  unfolding pathconf3_limits_def
  by (rule cdecodes_cong, rule cdecodes_bind, rule cdecodes_prims, rule cdecodes_bind_ret, rule cdecodes_prims) simp_all

lemma creader_pathconf3_limits [cxrd]: "creader (pathconf3_limits info)"
  unfolding pathconf3_limits_def by (intro creader_bind cxrd)

definition xdr_pack_pathconf3_resok_info :: "pathconf3_resok_info_t \<Rightarrow> unit cx" where
  "xdr_pack_pathconf3_resok_info ob = cdo [
     xdr_pack_uint32 (pathconf3_resok_info_t.linkmax ob),
     xdr_pack_uint32 (pathconf3_resok_info_t.name_max ob),
     xdr_pack_bool (pathconf3_resok_info_t.no_trunc ob),
     xdr_pack_bool (pathconf3_resok_info_t.chown_restricted ob),
     xdr_pack_bool (pathconf3_resok_info_t.case_insensitive ob),
     xdr_pack_bool (pathconf3_resok_info_t.case_preserving ob)]"

definition xdr_unpack_pathconf3_resok_info :: "pathconf3_resok_info_t \<Rightarrow> pathconf3_resok_info_t cx" where
  "xdr_unpack_pathconf3_resok_info = cseq [
     pathconf3_limits,
     cfld pathconf3_resok_info_t.no_trunc pathconf3_resok_info_t.no_trunc_update (into xdr_unpack_bool),
     cfld pathconf3_resok_info_t.chown_restricted pathconf3_resok_info_t.chown_restricted_update (into xdr_unpack_bool),
     cfld pathconf3_resok_info_t.case_insensitive pathconf3_resok_info_t.case_insensitive_update (into xdr_unpack_bool),
     cfld pathconf3_resok_info_t.case_preserving pathconf3_resok_info_t.case_preserving_update (into xdr_unpack_bool)]"

definition cenc_pathconf3_resok_info :: "pathconf3_resok_info_t \<Rightarrow> bytes" where
  "cenc_pathconf3_resok_info ob =
     be32 (pathconf3_resok_info_t.linkmax ob) @
     be32 (pathconf3_resok_info_t.name_max ob) @
     enc_bool (pathconf3_resok_info_t.no_trunc ob \<noteq> 0) @
     enc_bool (pathconf3_resok_info_t.chown_restricted ob \<noteq> 0) @
     enc_bool (pathconf3_resok_info_t.case_insensitive ob \<noteq> 0) @
     enc_bool (pathconf3_resok_info_t.case_preserving ob \<noteq> 0)"

definition covr_pathconf3_resok_info :: "pathconf3_resok_info_t \<Rightarrow> pathconf3_resok_info_t \<Rightarrow> pathconf3_resok_info_t" where
  "covr_pathconf3_resok_info x0 x =
     \<lparr>pathconf3_resok_info_t.linkmax = pathconf3_resok_info_t.linkmax x,
      pathconf3_resok_info_t.name_max = pathconf3_resok_info_t.name_max x,
      pathconf3_resok_info_t.no_trunc = tv (pathconf3_resok_info_t.no_trunc x),
      pathconf3_resok_info_t.chown_restricted = tv (pathconf3_resok_info_t.chown_restricted x),
      pathconf3_resok_info_t.case_insensitive = tv (pathconf3_resok_info_t.case_insensitive x),
      pathconf3_resok_info_t.case_preserving = tv (pathconf3_resok_info_t.case_preserving x)\<rparr>"

interpretation pathconf3_resok_info_c: c_codec
  xdr_pack_pathconf3_resok_info xdr_unpack_pathconf3_resok_info cenc_pathconf3_resok_info
  covr_pathconf3_resok_info "\<lambda>_. True" "\<lambda>_. True" "\<lambda>_. 0"
proof unfold_locales
  fix x x0 :: pathconf3_resok_info_t
  show "cencodes (xdr_pack_pathconf3_resok_info x) (cenc_pathconf3_resok_info x)"
    unfolding xdr_pack_pathconf3_resok_info_def cenc_pathconf3_resok_info_def by (intro cxenc TrueI)
  show "cdecodes (xdr_unpack_pathconf3_resok_info x0) (cenc_pathconf3_resok_info x)
      (covr_pathconf3_resok_info x0 x) (0 - 0)"
    unfolding xdr_unpack_pathconf3_resok_info_def cenc_pathconf3_resok_info_def append_assoc [symmetric, of "be32 (linkmax x)"]
    by (rule cdecodes_cong, rule cdecodes_cseq, rule cdecodes_pathconf3_limits, (rule cxdec |
        (cases x, cases x0, simp add: covr_pathconf3_resok_info_def; fail))+)
  show "creader (xdr_unpack_pathconf3_resok_info x0)"
    unfolding xdr_unpack_pathconf3_resok_info_def by (intro cxrd TrueI)
  show "cenc_pathconf3_resok_info (covr_pathconf3_resok_info x0 x) = cenc_pathconf3_resok_info x"
    by (auto simp: covr_pathconf3_resok_info_def cenc_pathconf3_resok_info_def  chars_nonzero)
qed simp_all

record PATHCONF3resok_t =
  obj_attributes :: post_op_attr_t
  info :: pathconf3_resok_info_t

definition zero_PATHCONF3resok_t :: PATHCONF3resok_t where
  "zero_PATHCONF3resok_t = \<lparr>PATHCONF3resok_t.obj_attributes = zero_post_op_attr_t,
     PATHCONF3resok_t.info = zero_pathconf3_resok_info_t\<rparr>"

definition xdr_pack_PATHCONF3resok :: "PATHCONF3resok_t \<Rightarrow> unit cx" where
  "xdr_pack_PATHCONF3resok ob = cdo [
     xdr_pack_post_op_attr (PATHCONF3resok_t.obj_attributes ob),
     xdr_pack_pathconf3_resok_info (PATHCONF3resok_t.info ob)]"

definition xdr_unpack_PATHCONF3resok :: "PATHCONF3resok_t \<Rightarrow> PATHCONF3resok_t cx" where
  "xdr_unpack_PATHCONF3resok = cseq [
     cfld PATHCONF3resok_t.obj_attributes PATHCONF3resok_t.obj_attributes_update xdr_unpack_post_op_attr,
     cfld PATHCONF3resok_t.info PATHCONF3resok_t.info_update xdr_unpack_pathconf3_resok_info]"

definition cenc_PATHCONF3resok :: "PATHCONF3resok_t \<Rightarrow> bytes" where
  "cenc_PATHCONF3resok ob =
     cenc_post_op_attr (PATHCONF3resok_t.obj_attributes ob) @
     cenc_pathconf3_resok_info (PATHCONF3resok_t.info ob)"

definition covr_PATHCONF3resok :: "PATHCONF3resok_t \<Rightarrow> PATHCONF3resok_t \<Rightarrow> PATHCONF3resok_t" where
  "covr_PATHCONF3resok x0 x =
     \<lparr>PATHCONF3resok_t.obj_attributes = covr_post_op_attr (PATHCONF3resok_t.obj_attributes x0) (PATHCONF3resok_t.obj_attributes x),
      PATHCONF3resok_t.info = covr_pathconf3_resok_info (PATHCONF3resok_t.info x0) (PATHCONF3resok_t.info x)\<rparr>"

interpretation PATHCONF3resok_c: c_codec
  xdr_pack_PATHCONF3resok xdr_unpack_PATHCONF3resok cenc_PATHCONF3resok
  covr_PATHCONF3resok "\<lambda>_. True" "\<lambda>_. True" "\<lambda>_. 0"
proof unfold_locales
  fix x x0 :: PATHCONF3resok_t
  show "cencodes (xdr_pack_PATHCONF3resok x) (cenc_PATHCONF3resok x)"
    unfolding xdr_pack_PATHCONF3resok_def cenc_PATHCONF3resok_def by (intro cxenc TrueI)
  show "cdecodes (xdr_unpack_PATHCONF3resok x0) (cenc_PATHCONF3resok x) (covr_PATHCONF3resok x0 x) (0 - 0)"
    unfolding xdr_unpack_PATHCONF3resok_def cenc_PATHCONF3resok_def
    by (rule cdecodes_cong, (rule cxdec TrueI |
        (cases x, cases x0, simp add: covr_PATHCONF3resok_def; fail))+)
  show "creader (xdr_unpack_PATHCONF3resok x0)"
    unfolding xdr_unpack_PATHCONF3resok_def by (intro cxrd TrueI)
  show "cenc_PATHCONF3resok (covr_PATHCONF3resok x0 x) = cenc_PATHCONF3resok x"
    by (auto simp: covr_PATHCONF3resok_def cenc_PATHCONF3resok_def post_op_attr_c.ovr_enc pathconf3_resok_info_c.ovr_enc chars_nonzero)
qed simp_all

type_synonym PATHCONF3res_t = "PATHCONF3resok_t nfs_res_t"

definition xdr_pack_PATHCONF3res :: "PATHCONF3res_t \<Rightarrow> unit cx" where
  "xdr_pack_PATHCONF3res = pack_res xdr_pack_PATHCONF3resok"

definition xdr_unpack_PATHCONF3res :: "PATHCONF3res_t \<Rightarrow> PATHCONF3res_t cx" where
  "xdr_unpack_PATHCONF3res = unpack_res xdr_unpack_PATHCONF3resok"

interpretation PATHCONF3res_c: c_codec
  xdr_pack_PATHCONF3res xdr_unpack_PATHCONF3res "cenc_res cenc_PATHCONF3resok" "covr_res covr_PATHCONF3resok" "cok_res (\<lambda>_. True)" "\<lambda>_. True" "\<lambda>_. 0"
  unfolding xdr_pack_PATHCONF3res_def xdr_unpack_PATHCONF3res_def by (rule PATHCONF3resok_c.res_codec)

section \<open>COMMIT\<close>

record COMMIT3args_t =
  file3 :: nfs_fh3_t
  offset :: uint64
  count :: uint32

definition zero_COMMIT3args_t :: COMMIT3args_t where
  "zero_COMMIT3args_t = \<lparr>COMMIT3args_t.file3 = zero_nfs_fh3_t,
     COMMIT3args_t.offset = 0,
     COMMIT3args_t.count = 0\<rparr>"

definition xdr_pack_COMMIT3args :: "COMMIT3args_t \<Rightarrow> unit cx" where
  "xdr_pack_COMMIT3args ob = cdo [
     xdr_pack_nfs_fh3 (COMMIT3args_t.file3 ob),
     xdr_pack_uint64 (COMMIT3args_t.offset ob),
     xdr_pack_uint32 (COMMIT3args_t.count ob)]"

definition xdr_unpack_COMMIT3args :: "COMMIT3args_t \<Rightarrow> COMMIT3args_t cx" where
  "xdr_unpack_COMMIT3args = cseq [
     cfld COMMIT3args_t.file3 COMMIT3args_t.file3_update xdr_unpack_nfs_fh3,
     cfld COMMIT3args_t.offset COMMIT3args_t.offset_update (into xdr_unpack_uint64),
     cfld COMMIT3args_t.count COMMIT3args_t.count_update (into xdr_unpack_uint32)]"

definition cenc_COMMIT3args :: "COMMIT3args_t \<Rightarrow> bytes" where
  "cenc_COMMIT3args ob =
     cenc_nfs_fh3 (COMMIT3args_t.file3 ob) @
     be64 (COMMIT3args_t.offset ob) @
     be32 (COMMIT3args_t.count ob)"

definition cok_COMMIT3args :: "COMMIT3args_t \<Rightarrow> bool" where
  "cok_COMMIT3args ob \<longleftrightarrow> cok_nfs_fh3 (COMMIT3args_t.file3 ob)"

definition covr_COMMIT3args :: "COMMIT3args_t \<Rightarrow> COMMIT3args_t \<Rightarrow> COMMIT3args_t" where
  "covr_COMMIT3args x0 x =
     \<lparr>COMMIT3args_t.file3 = covr_nfs_fh3 (COMMIT3args_t.file3 x0) (COMMIT3args_t.file3 x),
      COMMIT3args_t.offset = COMMIT3args_t.offset x,
      COMMIT3args_t.count = COMMIT3args_t.count x\<rparr>"

definition cdst_COMMIT3args :: "COMMIT3args_t \<Rightarrow> bool" where
  "cdst_COMMIT3args ob \<longleftrightarrow> cdst_nfs_fh3 (COMMIT3args_t.file3 ob)"

definition cblocks_COMMIT3args :: "COMMIT3args_t \<Rightarrow> int" where
  "cblocks_COMMIT3args ob = cblocks_nfs_fh3 (COMMIT3args_t.file3 ob)"

interpretation COMMIT3args_c: c_codec
  xdr_pack_COMMIT3args xdr_unpack_COMMIT3args cenc_COMMIT3args
  covr_COMMIT3args cok_COMMIT3args cdst_COMMIT3args cblocks_COMMIT3args
proof unfold_locales
  fix x x0 :: COMMIT3args_t
  show "cencodes (xdr_pack_COMMIT3args x) (cenc_COMMIT3args x)" if "cok_COMMIT3args x"
    unfolding xdr_pack_COMMIT3args_def cenc_COMMIT3args_def
    using that [unfolded cok_COMMIT3args_def] by (intro cxenc TrueI) auto
  show "cdecodes (xdr_unpack_COMMIT3args x0) (cenc_COMMIT3args x) (covr_COMMIT3args x0 x) (cblocks_COMMIT3args (covr_COMMIT3args x0 x) - cblocks_COMMIT3args x0)" if "cok_COMMIT3args x" "cdst_COMMIT3args x0"
    unfolding xdr_unpack_COMMIT3args_def cenc_COMMIT3args_def
    by (rule cdecodes_cong, (rule cxdec TrueI |
        (use that in \<open>simp add: cok_COMMIT3args_def cdst_COMMIT3args_def; fail\<close>) |
        (use that in \<open>cases x, cases x0, simp add: covr_COMMIT3args_def cdst_COMMIT3args_def cblocks_COMMIT3args_def; fail\<close>))+)
  show "creader (xdr_unpack_COMMIT3args x0)" if "cdst_COMMIT3args x0"
    unfolding xdr_unpack_COMMIT3args_def 
    by ((rule cxrd_at | rule cxrd | (use that in \<open>simp add: cdst_COMMIT3args_def; fail\<close>))+)
  show "cok_COMMIT3args (covr_COMMIT3args x0 x)" if "cok_COMMIT3args x"
    using that by (auto simp: cok_COMMIT3args_def covr_COMMIT3args_def nfs_fh3_c.ovr_enc nfs_fh3_c.ovr_ok nfs_fh3_c.ovr_dst chars_nonzero)
  show "cenc_COMMIT3args (covr_COMMIT3args x0 x) = cenc_COMMIT3args x" if "cok_COMMIT3args x"
    using that by (auto simp: cok_COMMIT3args_def covr_COMMIT3args_def cenc_COMMIT3args_def nfs_fh3_c.ovr_enc nfs_fh3_c.ovr_ok nfs_fh3_c.ovr_dst chars_nonzero)
  show "cdst_COMMIT3args (covr_COMMIT3args x0 x)" if "cok_COMMIT3args x" "cdst_COMMIT3args x0"
    using that by (auto simp: cok_COMMIT3args_def covr_COMMIT3args_def cdst_COMMIT3args_def nfs_fh3_c.ovr_enc nfs_fh3_c.ovr_ok nfs_fh3_c.ovr_dst)
qed

record COMMIT3resok_t =
  file_wcc :: post_op_attr_t
  verf :: writeverf3_t

definition zero_COMMIT3resok_t :: COMMIT3resok_t where
  "zero_COMMIT3resok_t = \<lparr>COMMIT3resok_t.file_wcc = zero_post_op_attr_t,
     COMMIT3resok_t.verf = zero_writeverf3_t\<rparr>"

definition xdr_pack_COMMIT3resok :: "COMMIT3resok_t \<Rightarrow> unit cx" where
  "xdr_pack_COMMIT3resok ob = cdo [
     xdr_pack_post_op_attr (COMMIT3resok_t.file_wcc ob),
     xdr_pack_writeverf3 (COMMIT3resok_t.verf ob)]"

definition xdr_unpack_COMMIT3resok :: "COMMIT3resok_t \<Rightarrow> COMMIT3resok_t cx" where
  "xdr_unpack_COMMIT3resok = cseq [
     cfld COMMIT3resok_t.file_wcc COMMIT3resok_t.file_wcc_update xdr_unpack_post_op_attr,
     cfld COMMIT3resok_t.verf COMMIT3resok_t.verf_update xdr_unpack_writeverf3]"

definition cenc_COMMIT3resok :: "COMMIT3resok_t \<Rightarrow> bytes" where
  "cenc_COMMIT3resok ob =
     cenc_post_op_attr (COMMIT3resok_t.file_wcc ob) @
     cenc_writeverf3 (COMMIT3resok_t.verf ob)"

definition cok_COMMIT3resok :: "COMMIT3resok_t \<Rightarrow> bool" where
  "cok_COMMIT3resok ob \<longleftrightarrow> cok_writeverf3 (COMMIT3resok_t.verf ob)"

definition covr_COMMIT3resok :: "COMMIT3resok_t \<Rightarrow> COMMIT3resok_t \<Rightarrow> COMMIT3resok_t" where
  "covr_COMMIT3resok x0 x =
     \<lparr>COMMIT3resok_t.file_wcc = covr_post_op_attr (COMMIT3resok_t.file_wcc x0) (COMMIT3resok_t.file_wcc x),
      COMMIT3resok_t.verf = COMMIT3resok_t.verf x\<rparr>"

interpretation COMMIT3resok_c: c_codec
  xdr_pack_COMMIT3resok xdr_unpack_COMMIT3resok cenc_COMMIT3resok
  covr_COMMIT3resok cok_COMMIT3resok "\<lambda>_. True" "\<lambda>_. 0"
proof unfold_locales
  fix x x0 :: COMMIT3resok_t
  show "cencodes (xdr_pack_COMMIT3resok x) (cenc_COMMIT3resok x)" if "cok_COMMIT3resok x"
    unfolding xdr_pack_COMMIT3resok_def cenc_COMMIT3resok_def
    using that [unfolded cok_COMMIT3resok_def] by (intro cxenc TrueI) auto
  show "cdecodes (xdr_unpack_COMMIT3resok x0) (cenc_COMMIT3resok x) (covr_COMMIT3resok x0 x) (0 - 0)" if "cok_COMMIT3resok x"
    unfolding xdr_unpack_COMMIT3resok_def cenc_COMMIT3resok_def
    by (rule cdecodes_cong, (rule cxdec TrueI |
        (use that in \<open>simp add: cok_COMMIT3resok_def; fail\<close>) |
        (cases x, cases x0, simp add: covr_COMMIT3resok_def; fail))+)
  show "creader (xdr_unpack_COMMIT3resok x0)"
    unfolding xdr_unpack_COMMIT3resok_def by (intro cxrd TrueI)
  show "cok_COMMIT3resok (covr_COMMIT3resok x0 x)" if "cok_COMMIT3resok x"
    using that by (auto simp: cok_COMMIT3resok_def covr_COMMIT3resok_def post_op_attr_c.ovr_enc chars_nonzero)
  show "cenc_COMMIT3resok (covr_COMMIT3resok x0 x) = cenc_COMMIT3resok x" if "cok_COMMIT3resok x"
    using that by (auto simp: cok_COMMIT3resok_def covr_COMMIT3resok_def cenc_COMMIT3resok_def post_op_attr_c.ovr_enc chars_nonzero)
qed simp_all

type_synonym COMMIT3res_t = "COMMIT3resok_t nfs_res_t"

definition xdr_pack_COMMIT3res :: "COMMIT3res_t \<Rightarrow> unit cx" where
  "xdr_pack_COMMIT3res = pack_res xdr_pack_COMMIT3resok"

definition xdr_unpack_COMMIT3res :: "COMMIT3res_t \<Rightarrow> COMMIT3res_t cx" where
  "xdr_unpack_COMMIT3res = unpack_res xdr_unpack_COMMIT3resok"

interpretation COMMIT3res_c: c_codec
  xdr_pack_COMMIT3res xdr_unpack_COMMIT3res "cenc_res cenc_COMMIT3resok" "covr_res covr_COMMIT3resok" "cok_res cok_COMMIT3resok" "\<lambda>_. True" "\<lambda>_. 0"
  unfolding xdr_pack_COMMIT3res_def xdr_unpack_COMMIT3res_def by (rule COMMIT3resok_c.res_codec)

end
