(* ===== verification/Nfs3Types.thy ===== *)
theory Nfs3Types
  imports XdrCodec Nfs3Constants
begin

text \<open>
  The attribute types of \<^verbatim>\<open>nfs3_rpc_tests/include/nfs3/nfs3_types.hpp\<close>, each a record with its
  \<^verbatim>\<open>serialize\<close> and \<^verbatim>\<open>deserialize\<close>. For a type \<open>T\<close>: \<open>T_init\<close> is the object its default
  member initialisers build (a member with no initialiser is an argument); \<open>enc_T\<close> is the
  wire format; \<open>ovr_T x0 x\<close> is the object \<open>x0\<close> after \<open>x\<close> has been read into it, where that
  is not \<open>x\<close>; \<open>ok_T\<close> holds the length bounds under which \<^verbatim>\<open>serialize\<close> does not throw;
  \<open>canon_T\<close> says that the members that are not on the wire have their initial values. The
  interpretation \<open>T_xdr\<close> proves the contract of the codec for \<open>T\<close>. A member called
  \<^verbatim>\<open>size\<close> or \<^verbatim>\<open>type_\<close> in the source is \<open>size3\<close> or \<open>type3\<close> here.
\<close>

section \<open>Verifiers: arrays of eight bytes\<close>

record writeverf3 =
  data :: bytes

definition writeverf3_init :: "bytes \<Rightarrow> writeverf3" where
  "writeverf3_init ind = \<lparr>writeverf3.data = ind\<rparr>"

definition serialize_writeverf3 :: "writeverf3 \<Rightarrow> unit xdr" where
  "serialize_writeverf3 ob = pack_opaque (writeverf3.data ob) 8"

definition deserialize_writeverf3 :: "writeverf3 \<Rightarrow> writeverf3 xdr" where
  "deserialize_writeverf3 ob =
     xbind (unpack_vector []) (\<lambda>v.
       xret (if length v \<ge> 8 then ob\<lparr>writeverf3.data := take 8 v\<rparr> else ob))"

definition enc_writeverf3 :: "writeverf3 \<Rightarrow> bytes" where
  "enc_writeverf3 ob = enc_opaque (writeverf3.data ob)"

definition ok_writeverf3 :: "writeverf3 \<Rightarrow> bool" where
  "ok_writeverf3 ob \<longleftrightarrow> length (writeverf3.data ob) = 8"

interpretation writeverf3_xdr: xdr_roundtrip
  serialize_writeverf3 deserialize_writeverf3 enc_writeverf3
  "\<lambda>_ x. x" ok_writeverf3 "writeverf3_init ind" "\<lambda>_. True" for ind
proof unfold_locales
  fix x x0 :: writeverf3
  show "encodes (serialize_writeverf3 x) (enc_writeverf3 x)" if "ok_writeverf3 x"
    unfolding serialize_writeverf3_def enc_writeverf3_def using that [unfolded ok_writeverf3_def]
    by (intro encodes_opaque) simp_all
  show "decodes (deserialize_writeverf3 x0) (enc_writeverf3 x) x" if "ok_writeverf3 x"
    unfolding deserialize_writeverf3_def enc_writeverf3_def
    by (rule decodes_cong [OF decodes_bind_ret [OF decodes_vector]])
      (use that in \<open>auto simp: ok_writeverf3_def\<close>)
  show "reader (deserialize_writeverf3 x0)"
    unfolding deserialize_writeverf3_def by (intro reader_bind xrd)
qed simp_all

record createverf3 =
  data :: bytes

definition createverf3_init :: "bytes \<Rightarrow> createverf3" where
  "createverf3_init ind = \<lparr>createverf3.data = ind\<rparr>"

definition serialize_createverf3 :: "createverf3 \<Rightarrow> unit xdr" where
  "serialize_createverf3 ob = pack_opaque (createverf3.data ob) 8"

definition deserialize_createverf3 :: "createverf3 \<Rightarrow> createverf3 xdr" where
  "deserialize_createverf3 ob =
     xbind (unpack_vector []) (\<lambda>v.
       xret (if length v \<ge> 8 then ob\<lparr>createverf3.data := take 8 v\<rparr> else ob))"

definition enc_createverf3 :: "createverf3 \<Rightarrow> bytes" where
  "enc_createverf3 ob = enc_opaque (createverf3.data ob)"

definition ok_createverf3 :: "createverf3 \<Rightarrow> bool" where
  "ok_createverf3 ob \<longleftrightarrow> length (createverf3.data ob) = 8"

interpretation createverf3_xdr: xdr_roundtrip
  serialize_createverf3 deserialize_createverf3 enc_createverf3
  "\<lambda>_ x. x" ok_createverf3 "createverf3_init ind" "\<lambda>_. True" for ind
proof unfold_locales
  fix x x0 :: createverf3
  show "encodes (serialize_createverf3 x) (enc_createverf3 x)" if "ok_createverf3 x"
    unfolding serialize_createverf3_def enc_createverf3_def using that [unfolded ok_createverf3_def]
    by (intro encodes_opaque) simp_all
  show "decodes (deserialize_createverf3 x0) (enc_createverf3 x) x" if "ok_createverf3 x"
    unfolding deserialize_createverf3_def enc_createverf3_def
    by (rule decodes_cong [OF decodes_bind_ret [OF decodes_vector]])
      (use that in \<open>auto simp: ok_createverf3_def\<close>)
  show "reader (deserialize_createverf3 x0)"
    unfolding deserialize_createverf3_def by (intro reader_bind xrd)
qed simp_all

section \<open>Handles, times and attributes\<close>

record nfs_fh3 =
  data :: bytes

definition nfs_fh3_init :: nfs_fh3 where
  "nfs_fh3_init = \<lparr>nfs_fh3.data = []\<rparr>"

definition serialize_nfs_fh3 :: "nfs_fh3 \<Rightarrow> unit xdr" where
  "serialize_nfs_fh3 ob = xdo [
     pack_vector (nfs_fh3.data ob)]"

definition deserialize_nfs_fh3 :: "nfs_fh3 \<Rightarrow> nfs_fh3 xdr" where
  "deserialize_nfs_fh3 = xseq [
     fld nfs_fh3.data nfs_fh3.data_update unpack_vector]"

definition enc_nfs_fh3 :: "nfs_fh3 \<Rightarrow> bytes" where
  "enc_nfs_fh3 ob =
     enc_opaque (nfs_fh3.data ob)"

definition ok_nfs_fh3 :: "nfs_fh3 \<Rightarrow> bool" where
  "ok_nfs_fh3 ob \<longleftrightarrow> length (nfs_fh3.data ob) \<le> UINT32_MAX"

interpretation nfs_fh3_xdr: xdr_roundtrip
  serialize_nfs_fh3 deserialize_nfs_fh3 enc_nfs_fh3
  "\<lambda>_ x. x" ok_nfs_fh3 nfs_fh3_init "\<lambda>_. True"
proof unfold_locales
  fix x x0 :: nfs_fh3
  show "encodes (serialize_nfs_fh3 x) (enc_nfs_fh3 x)" if "ok_nfs_fh3 x"
    unfolding serialize_nfs_fh3_def enc_nfs_fh3_def using that [unfolded ok_nfs_fh3_def]
    by (intro xenc) auto
  show "decodes (deserialize_nfs_fh3 x0) (enc_nfs_fh3 x) x" if "ok_nfs_fh3 x"
    unfolding deserialize_nfs_fh3_def enc_nfs_fh3_def
    by (rule decodes_cong, (rule xdec |
        (use that in \<open>simp add: ok_nfs_fh3_def; fail\<close>) |
        (cases x, cases x0, simp; fail))+)
  show "reader (deserialize_nfs_fh3 x0)"
    unfolding deserialize_nfs_fh3_def by (intro xrd)
qed simp_all

definition is_zero_length :: "nfs_fh3 \<Rightarrow> bool" where
  "is_zero_length ob \<longleftrightarrow> nfs_fh3.data ob = []"

record nfstime3 =
  seconds :: uint32
  nseconds :: uint32

definition nfstime3_init :: nfstime3 where
  "nfstime3_init = \<lparr>nfstime3.seconds = 0,
     nfstime3.nseconds = 0\<rparr>"

definition serialize_nfstime3 :: "nfstime3 \<Rightarrow> unit xdr" where
  "serialize_nfstime3 ob = xdo [
     pack_uint32 (nfstime3.seconds ob),
     pack_uint32 (nfstime3.nseconds ob)]"

definition deserialize_nfstime3 :: "nfstime3 \<Rightarrow> nfstime3 xdr" where
  "deserialize_nfstime3 = xseq [
     fld nfstime3.seconds nfstime3.seconds_update unpack_uint32,
     fld nfstime3.nseconds nfstime3.nseconds_update unpack_uint32]"

definition enc_nfstime3 :: "nfstime3 \<Rightarrow> bytes" where
  "enc_nfstime3 ob =
     be32 (nfstime3.seconds ob) @
     be32 (nfstime3.nseconds ob)"

interpretation nfstime3_xdr: xdr_roundtrip
  serialize_nfstime3 deserialize_nfstime3 enc_nfstime3
  "\<lambda>_ x. x" "\<lambda>_. True" nfstime3_init "\<lambda>_. True"
proof unfold_locales
  fix x x0 :: nfstime3
  show "encodes (serialize_nfstime3 x) (enc_nfstime3 x)"
    unfolding serialize_nfstime3_def enc_nfstime3_def
    by (intro xenc)
  show "decodes (deserialize_nfstime3 x0) (enc_nfstime3 x) x"
    unfolding deserialize_nfstime3_def enc_nfstime3_def
    by (rule decodes_cong, (rule xdec |
        (cases x, cases x0, simp; fail))+)
  show "reader (deserialize_nfstime3 x0)"
    unfolding deserialize_nfstime3_def by (intro xrd)
qed simp_all

record specdata3 =
  specdata1 :: uint32
  specdata2 :: uint32

definition specdata3_init :: specdata3 where
  "specdata3_init = \<lparr>specdata3.specdata1 = 0,
     specdata3.specdata2 = 0\<rparr>"

definition serialize_specdata3 :: "specdata3 \<Rightarrow> unit xdr" where
  "serialize_specdata3 ob = xdo [
     pack_uint32 (specdata3.specdata1 ob),
     pack_uint32 (specdata3.specdata2 ob)]"

definition deserialize_specdata3 :: "specdata3 \<Rightarrow> specdata3 xdr" where
  "deserialize_specdata3 = xseq [
     fld specdata3.specdata1 specdata3.specdata1_update unpack_uint32,
     fld specdata3.specdata2 specdata3.specdata2_update unpack_uint32]"

definition enc_specdata3 :: "specdata3 \<Rightarrow> bytes" where
  "enc_specdata3 ob =
     be32 (specdata3.specdata1 ob) @
     be32 (specdata3.specdata2 ob)"

interpretation specdata3_xdr: xdr_roundtrip
  serialize_specdata3 deserialize_specdata3 enc_specdata3
  "\<lambda>_ x. x" "\<lambda>_. True" specdata3_init "\<lambda>_. True"
proof unfold_locales
  fix x x0 :: specdata3
  show "encodes (serialize_specdata3 x) (enc_specdata3 x)"
    unfolding serialize_specdata3_def enc_specdata3_def
    by (intro xenc)
  show "decodes (deserialize_specdata3 x0) (enc_specdata3 x) x"
    unfolding deserialize_specdata3_def enc_specdata3_def
    by (rule decodes_cong, (rule xdec |
        (cases x, cases x0, simp; fail))+)
  show "reader (deserialize_specdata3 x0)"
    unfolding deserialize_specdata3_def by (intro xrd)
qed simp_all

record fattr3 =
  type3 :: ftype3
  mode :: uint32
  nlink :: uint32
  uid :: uint32
  gid :: uint32
  size3 :: uint64
  used :: uint64
  rdev :: specdata3
  fsid :: uint64
  fileid :: uint64
  atime :: nfstime3
  mtime :: nfstime3
  ctime :: nfstime3

definition fattr3_init :: fattr3 where
  "fattr3_init = \<lparr>fattr3.type3 = NF3NON,
     fattr3.mode = 0,
     fattr3.nlink = 0,
     fattr3.uid = 0,
     fattr3.gid = 0,
     fattr3.size3 = 0,
     fattr3.used = 0,
     fattr3.rdev = specdata3_init,
     fattr3.fsid = 0,
     fattr3.fileid = 0,
     fattr3.atime = nfstime3_init,
     fattr3.mtime = nfstime3_init,
     fattr3.ctime = nfstime3_init\<rparr>"

definition serialize_fattr3 :: "fattr3 \<Rightarrow> unit xdr" where
  "serialize_fattr3 ob = xdo [
     pack_uint32 (fattr3.type3 ob),
     pack_uint32 (fattr3.mode ob),
     pack_uint32 (fattr3.nlink ob),
     pack_uint32 (fattr3.uid ob),
     pack_uint32 (fattr3.gid ob),
     pack_uint64 (fattr3.size3 ob),
     pack_uint64 (fattr3.used ob),
     serialize_specdata3 (fattr3.rdev ob),
     pack_uint64 (fattr3.fsid ob),
     pack_uint64 (fattr3.fileid ob),
     serialize_nfstime3 (fattr3.atime ob),
     serialize_nfstime3 (fattr3.mtime ob),
     serialize_nfstime3 (fattr3.ctime ob)]"

definition deserialize_fattr3 :: "fattr3 \<Rightarrow> fattr3 xdr" where
  "deserialize_fattr3 = xseq [
     fld fattr3.type3 fattr3.type3_update unpack_uint32,
     fld fattr3.mode fattr3.mode_update unpack_uint32,
     fld fattr3.nlink fattr3.nlink_update unpack_uint32,
     fld fattr3.uid fattr3.uid_update unpack_uint32,
     fld fattr3.gid fattr3.gid_update unpack_uint32,
     fld fattr3.size3 fattr3.size3_update unpack_uint64,
     fld fattr3.used fattr3.used_update unpack_uint64,
     fld fattr3.rdev fattr3.rdev_update deserialize_specdata3,
     fld fattr3.fsid fattr3.fsid_update unpack_uint64,
     fld fattr3.fileid fattr3.fileid_update unpack_uint64,
     fld fattr3.atime fattr3.atime_update deserialize_nfstime3,
     fld fattr3.mtime fattr3.mtime_update deserialize_nfstime3,
     fld fattr3.ctime fattr3.ctime_update deserialize_nfstime3]"

definition enc_fattr3 :: "fattr3 \<Rightarrow> bytes" where
  "enc_fattr3 ob =
     be32 (fattr3.type3 ob) @
     be32 (fattr3.mode ob) @
     be32 (fattr3.nlink ob) @
     be32 (fattr3.uid ob) @
     be32 (fattr3.gid ob) @
     be64 (fattr3.size3 ob) @
     be64 (fattr3.used ob) @
     enc_specdata3 (fattr3.rdev ob) @
     be64 (fattr3.fsid ob) @
     be64 (fattr3.fileid ob) @
     enc_nfstime3 (fattr3.atime ob) @
     enc_nfstime3 (fattr3.mtime ob) @
     enc_nfstime3 (fattr3.ctime ob)"

interpretation fattr3_xdr: xdr_roundtrip
  serialize_fattr3 deserialize_fattr3 enc_fattr3
  "\<lambda>_ x. x" "\<lambda>_. True" fattr3_init "\<lambda>_. True"
proof unfold_locales
  fix x x0 :: fattr3
  show "encodes (serialize_fattr3 x) (enc_fattr3 x)"
    unfolding serialize_fattr3_def enc_fattr3_def
    by (intro xenc)
  show "decodes (deserialize_fattr3 x0) (enc_fattr3 x) x"
    unfolding deserialize_fattr3_def enc_fattr3_def
    by (rule decodes_cong, (rule xdec |
        (cases x, cases x0, simp; fail))+)
  show "reader (deserialize_fattr3 x0)"
    unfolding deserialize_fattr3_def by (intro xrd)
qed simp_all

section \<open>Attributes that may be absent\<close>

record post_op_attr =
  follow :: bool
  attributes :: fattr3

definition post_op_attr_init :: post_op_attr where
  "post_op_attr_init = \<lparr>post_op_attr.follow = False, post_op_attr.attributes = fattr3_init\<rparr>"

definition serialize_post_op_attr :: "post_op_attr \<Rightarrow> unit xdr" where
  "serialize_post_op_attr ob = xdo [
     pack_bool (post_op_attr.follow ob),
     if post_op_attr.follow ob then serialize_fattr3 (post_op_attr.attributes ob) else xret ()]"

definition deserialize_post_op_attr :: "post_op_attr \<Rightarrow> post_op_attr xdr" where
  "deserialize_post_op_attr = xseq [
     fld post_op_attr.follow post_op_attr.follow_update unpack_bool,
     \<lambda>ob. if post_op_attr.follow ob
          then fld post_op_attr.attributes post_op_attr.attributes_update deserialize_fattr3 ob
          else xret ob]"

definition enc_post_op_attr :: "post_op_attr \<Rightarrow> bytes" where
  "enc_post_op_attr ob =
     enc_bool (post_op_attr.follow ob) @
     (if post_op_attr.follow ob then enc_fattr3 (post_op_attr.attributes ob) else [])"

text \<open>A false flag leaves the attributes of the old object.\<close>

definition ovr_post_op_attr :: "post_op_attr \<Rightarrow> post_op_attr \<Rightarrow> post_op_attr" where
  "ovr_post_op_attr x0 x = (if post_op_attr.follow x then x else x0\<lparr>post_op_attr.follow := False\<rparr>)"

definition canon_post_op_attr :: "post_op_attr \<Rightarrow> bool" where
  "canon_post_op_attr ob \<longleftrightarrow> post_op_attr.follow ob \<or> post_op_attr.attributes ob = fattr3_init"

interpretation post_op_attr_xdr: xdr_roundtrip
  serialize_post_op_attr deserialize_post_op_attr enc_post_op_attr
  ovr_post_op_attr "\<lambda>_. True" post_op_attr_init canon_post_op_attr
proof unfold_locales
  fix x x0 :: post_op_attr
  show "encodes (serialize_post_op_attr x) (enc_post_op_attr x)"
    unfolding serialize_post_op_attr_def enc_post_op_attr_def
    by (intro xenc)
  show "decodes (deserialize_post_op_attr x0) (enc_post_op_attr x) (ovr_post_op_attr x0 x)"
    unfolding deserialize_post_op_attr_def enc_post_op_attr_def
    by (rule decodes_cong, (rule xdec |
        (cases x, cases x0, simp add: ovr_post_op_attr_def; fail))+)
  show "reader (deserialize_post_op_attr x0)"
    unfolding deserialize_post_op_attr_def by (intro xrd)
  show "ovr_post_op_attr post_op_attr_init x = x" if "canon_post_op_attr x"
    using that [unfolded canon_post_op_attr_def]
    by (cases x) (auto simp: ovr_post_op_attr_def post_op_attr_init_def)
qed

record wcc_attr =
  size3 :: uint64
  mtime :: nfstime3
  ctime :: nfstime3

definition wcc_attr_init :: wcc_attr where
  "wcc_attr_init = \<lparr>wcc_attr.size3 = 0,
     wcc_attr.mtime = nfstime3_init,
     wcc_attr.ctime = nfstime3_init\<rparr>"

definition serialize_wcc_attr :: "wcc_attr \<Rightarrow> unit xdr" where
  "serialize_wcc_attr ob = xdo [
     pack_uint64 (wcc_attr.size3 ob),
     serialize_nfstime3 (wcc_attr.mtime ob),
     serialize_nfstime3 (wcc_attr.ctime ob)]"

definition deserialize_wcc_attr :: "wcc_attr \<Rightarrow> wcc_attr xdr" where
  "deserialize_wcc_attr = xseq [
     fld wcc_attr.size3 wcc_attr.size3_update unpack_uint64,
     fld wcc_attr.mtime wcc_attr.mtime_update deserialize_nfstime3,
     fld wcc_attr.ctime wcc_attr.ctime_update deserialize_nfstime3]"

definition enc_wcc_attr :: "wcc_attr \<Rightarrow> bytes" where
  "enc_wcc_attr ob =
     be64 (wcc_attr.size3 ob) @
     enc_nfstime3 (wcc_attr.mtime ob) @
     enc_nfstime3 (wcc_attr.ctime ob)"

interpretation wcc_attr_xdr: xdr_roundtrip
  serialize_wcc_attr deserialize_wcc_attr enc_wcc_attr
  "\<lambda>_ x. x" "\<lambda>_. True" wcc_attr_init "\<lambda>_. True"
proof unfold_locales
  fix x x0 :: wcc_attr
  show "encodes (serialize_wcc_attr x) (enc_wcc_attr x)"
    unfolding serialize_wcc_attr_def enc_wcc_attr_def
    by (intro xenc)
  show "decodes (deserialize_wcc_attr x0) (enc_wcc_attr x) x"
    unfolding deserialize_wcc_attr_def enc_wcc_attr_def
    by (rule decodes_cong, (rule xdec |
        (cases x, cases x0, simp; fail))+)
  show "reader (deserialize_wcc_attr x0)"
    unfolding deserialize_wcc_attr_def by (intro xrd)
qed simp_all

record pre_op_attr =
  check :: bool
  attributes :: wcc_attr

definition pre_op_attr_init :: pre_op_attr where
  "pre_op_attr_init = \<lparr>pre_op_attr.check = False, pre_op_attr.attributes = wcc_attr_init\<rparr>"

definition serialize_pre_op_attr :: "pre_op_attr \<Rightarrow> unit xdr" where
  "serialize_pre_op_attr ob = xdo [
     pack_bool (pre_op_attr.check ob),
     if pre_op_attr.check ob then serialize_wcc_attr (pre_op_attr.attributes ob) else xret ()]"

definition deserialize_pre_op_attr :: "pre_op_attr \<Rightarrow> pre_op_attr xdr" where
  "deserialize_pre_op_attr = xseq [
     fld pre_op_attr.check pre_op_attr.check_update unpack_bool,
     \<lambda>ob. if pre_op_attr.check ob
          then fld pre_op_attr.attributes pre_op_attr.attributes_update deserialize_wcc_attr ob
          else xret ob]"

definition enc_pre_op_attr :: "pre_op_attr \<Rightarrow> bytes" where
  "enc_pre_op_attr ob =
     enc_bool (pre_op_attr.check ob) @
     (if pre_op_attr.check ob then enc_wcc_attr (pre_op_attr.attributes ob) else [])"

text \<open>A false flag leaves the attributes of the old object.\<close>

definition ovr_pre_op_attr :: "pre_op_attr \<Rightarrow> pre_op_attr \<Rightarrow> pre_op_attr" where
  "ovr_pre_op_attr x0 x = (if pre_op_attr.check x then x else x0\<lparr>pre_op_attr.check := False\<rparr>)"

definition canon_pre_op_attr :: "pre_op_attr \<Rightarrow> bool" where
  "canon_pre_op_attr ob \<longleftrightarrow> pre_op_attr.check ob \<or> pre_op_attr.attributes ob = wcc_attr_init"

interpretation pre_op_attr_xdr: xdr_roundtrip
  serialize_pre_op_attr deserialize_pre_op_attr enc_pre_op_attr
  ovr_pre_op_attr "\<lambda>_. True" pre_op_attr_init canon_pre_op_attr
proof unfold_locales
  fix x x0 :: pre_op_attr
  show "encodes (serialize_pre_op_attr x) (enc_pre_op_attr x)"
    unfolding serialize_pre_op_attr_def enc_pre_op_attr_def
    by (intro xenc)
  show "decodes (deserialize_pre_op_attr x0) (enc_pre_op_attr x) (ovr_pre_op_attr x0 x)"
    unfolding deserialize_pre_op_attr_def enc_pre_op_attr_def
    by (rule decodes_cong, (rule xdec |
        (cases x, cases x0, simp add: ovr_pre_op_attr_def; fail))+)
  show "reader (deserialize_pre_op_attr x0)"
    unfolding deserialize_pre_op_attr_def by (intro xrd)
  show "ovr_pre_op_attr pre_op_attr_init x = x" if "canon_pre_op_attr x"
    using that [unfolded canon_pre_op_attr_def]
    by (cases x) (auto simp: ovr_pre_op_attr_def pre_op_attr_init_def)
qed

record wcc_data =
  before :: pre_op_attr
  after :: post_op_attr

definition wcc_data_init :: wcc_data where
  "wcc_data_init = \<lparr>wcc_data.before = pre_op_attr_init,
     wcc_data.after = post_op_attr_init\<rparr>"

definition serialize_wcc_data :: "wcc_data \<Rightarrow> unit xdr" where
  "serialize_wcc_data ob = xdo [
     serialize_pre_op_attr (wcc_data.before ob),
     serialize_post_op_attr (wcc_data.after ob)]"

definition deserialize_wcc_data :: "wcc_data \<Rightarrow> wcc_data xdr" where
  "deserialize_wcc_data = xseq [
     fld wcc_data.before wcc_data.before_update deserialize_pre_op_attr,
     fld wcc_data.after wcc_data.after_update deserialize_post_op_attr]"

definition enc_wcc_data :: "wcc_data \<Rightarrow> bytes" where
  "enc_wcc_data ob =
     enc_pre_op_attr (wcc_data.before ob) @
     enc_post_op_attr (wcc_data.after ob)"

definition ovr_wcc_data :: "wcc_data \<Rightarrow> wcc_data \<Rightarrow> wcc_data" where
  "ovr_wcc_data x0 x = \<lparr>wcc_data.before = ovr_pre_op_attr (wcc_data.before x0) (wcc_data.before x),
     wcc_data.after = ovr_post_op_attr (wcc_data.after x0) (wcc_data.after x)\<rparr>"

definition canon_wcc_data :: "wcc_data \<Rightarrow> bool" where
  "canon_wcc_data ob \<longleftrightarrow> canon_pre_op_attr (wcc_data.before ob) \<and>
     canon_post_op_attr (wcc_data.after ob)"

interpretation wcc_data_xdr: xdr_roundtrip
  serialize_wcc_data deserialize_wcc_data enc_wcc_data
  ovr_wcc_data "\<lambda>_. True" wcc_data_init canon_wcc_data
proof unfold_locales
  fix x x0 :: wcc_data
  show "encodes (serialize_wcc_data x) (enc_wcc_data x)"
    unfolding serialize_wcc_data_def enc_wcc_data_def
    by (intro xenc)
  show "decodes (deserialize_wcc_data x0) (enc_wcc_data x) (ovr_wcc_data x0 x)"
    unfolding deserialize_wcc_data_def enc_wcc_data_def
    by (rule decodes_cong, (rule xdec |
        (cases x, cases x0, simp add: ovr_wcc_data_def; fail))+)
  show "reader (deserialize_wcc_data x0)"
    unfolding deserialize_wcc_data_def by (intro xrd)
  show "ovr_wcc_data wcc_data_init x = x" if "canon_wcc_data x"
    using that [unfolded canon_wcc_data_def]
    by (cases x) (auto simp: ovr_wcc_data_def wcc_data_init_def pre_op_attr_xdr.ovr_init post_op_attr_xdr.ovr_init)
qed

section \<open>Settable attributes\<close>

text \<open>
  \<^verbatim>\<open>sattr3\<close> writes an absent mode, uid or gid as the value \<^verbatim>\<open>(uint32_t)-1\<close>, with no flag, and
  reads that value back as "not set": a value that is all ones cannot be told from an
  absent one.
\<close>

definition pack_sentinel :: "uint32 option \<Rightarrow> unit xdr" where
  "pack_sentinel x = pack_uint32 (case x of Some v \<Rightarrow> v | None \<Rightarrow> - 1)"

definition unpack_sentinel :: "uint32 option \<Rightarrow> uint32 option xdr" where
  "unpack_sentinel old = xbind (unpack_uint32 0) (\<lambda>val. xret (if val \<noteq> - 1 then Some val else old))"

definition enc_sentinel :: "uint32 option \<Rightarrow> bytes" where
  "enc_sentinel x = be32 (case x of Some v \<Rightarrow> v | None \<Rightarrow> - 1)"

definition ovr_sentinel :: "uint32 option \<Rightarrow> uint32 option \<Rightarrow> uint32 option" where
  "ovr_sentinel x0 x = (if x = None \<or> x = Some (- 1) then x0 else x)"

interpretation sentinel_xdr: xdr_roundtrip
  pack_sentinel unpack_sentinel enc_sentinel
  ovr_sentinel "\<lambda>_. True" None "\<lambda>x. x \<noteq> Some (- 1)"
proof unfold_locales
  fix x x0 :: "uint32 option"
  show "encodes (pack_sentinel x) (enc_sentinel x)"
    unfolding pack_sentinel_def enc_sentinel_def by (intro xenc)
  show "decodes (unpack_sentinel x0) (enc_sentinel x) (ovr_sentinel x0 x)"
    unfolding unpack_sentinel_def enc_sentinel_def
    by (rule decodes_cong [OF decodes_bind_ret [OF decodes_uint32]])
      (auto simp: ovr_sentinel_def split: option.splits)
  show "reader (unpack_sentinel x0)"
    unfolding unpack_sentinel_def by (intro reader_bind xrd)
qed (auto simp: ovr_sentinel_def)

record sattr3 =
  mode :: "uint32 option"
  uid :: "uint32 option"
  gid :: "uint32 option"
  size3 :: "uint64 option"
  atime :: "nfstime3 option"
  mtime :: "nfstime3 option"

definition sattr3_init :: sattr3 where
  "sattr3_init = \<lparr>sattr3.mode = None,
     sattr3.uid = None,
     sattr3.gid = None,
     sattr3.size3 = None,
     sattr3.atime = None,
     sattr3.mtime = None\<rparr>"

definition serialize_sattr3 :: "sattr3 \<Rightarrow> unit xdr" where
  "serialize_sattr3 ob = xdo [
     pack_sentinel (sattr3.mode ob),
     pack_sentinel (sattr3.uid ob),
     pack_sentinel (sattr3.gid ob),
     pack_optional pack_uint64 (sattr3.size3 ob),
     pack_optional serialize_nfstime3 (sattr3.atime ob),
     pack_optional serialize_nfstime3 (sattr3.mtime ob)]"

definition deserialize_sattr3 :: "sattr3 \<Rightarrow> sattr3 xdr" where
  "deserialize_sattr3 = xseq [
     fld sattr3.mode sattr3.mode_update unpack_sentinel,
     fld sattr3.uid sattr3.uid_update unpack_sentinel,
     fld sattr3.gid sattr3.gid_update unpack_sentinel,
     fld sattr3.size3 sattr3.size3_update (unpack_optional 0 unpack_uint64),
     fld sattr3.atime sattr3.atime_update (unpack_optional nfstime3_init deserialize_nfstime3),
     fld sattr3.mtime sattr3.mtime_update (unpack_optional nfstime3_init deserialize_nfstime3)]"

definition enc_sattr3 :: "sattr3 \<Rightarrow> bytes" where
  "enc_sattr3 ob =
     enc_sentinel (sattr3.mode ob) @
     enc_sentinel (sattr3.uid ob) @
     enc_sentinel (sattr3.gid ob) @
     enc_optional be64 (sattr3.size3 ob) @
     enc_optional enc_nfstime3 (sattr3.atime ob) @
     enc_optional enc_nfstime3 (sattr3.mtime ob)"

definition ovr_sattr3 :: "sattr3 \<Rightarrow> sattr3 \<Rightarrow> sattr3" where
  "ovr_sattr3 x0 x = \<lparr>sattr3.mode = ovr_sentinel (sattr3.mode x0) (sattr3.mode x),
     sattr3.uid = ovr_sentinel (sattr3.uid x0) (sattr3.uid x),
     sattr3.gid = ovr_sentinel (sattr3.gid x0) (sattr3.gid x),
     sattr3.size3 = ovr_optional (\<lambda>v. v) (sattr3.size3 x0) (sattr3.size3 x),
     sattr3.atime = ovr_optional (\<lambda>v. v) (sattr3.atime x0) (sattr3.atime x),
     sattr3.mtime = ovr_optional (\<lambda>v. v) (sattr3.mtime x0) (sattr3.mtime x)\<rparr>"

definition canon_sattr3 :: "sattr3 \<Rightarrow> bool" where
  "canon_sattr3 ob \<longleftrightarrow> sattr3.mode ob \<noteq> Some (- 1) \<and>
     sattr3.uid ob \<noteq> Some (- 1) \<and>
     sattr3.gid ob \<noteq> Some (- 1)"

interpretation sattr3_xdr: xdr_roundtrip
  serialize_sattr3 deserialize_sattr3 enc_sattr3
  ovr_sattr3 "\<lambda>_. True" sattr3_init canon_sattr3
proof unfold_locales
  fix x x0 :: sattr3
  show "encodes (serialize_sattr3 x) (enc_sattr3 x)"
    unfolding serialize_sattr3_def enc_sattr3_def
    by (intro xenc)
  show "decodes (deserialize_sattr3 x0) (enc_sattr3 x) (ovr_sattr3 x0 x)"
    unfolding deserialize_sattr3_def enc_sattr3_def
    by (rule decodes_cong, (rule xdec |
        (cases x, cases x0, simp add: ovr_sattr3_def; fail))+)
  show "reader (deserialize_sattr3 x0)"
    unfolding deserialize_sattr3_def by (intro xrd)
  show "ovr_sattr3 sattr3_init x = x" if "canon_sattr3 x"
    using that [unfolded canon_sattr3_def]
    by (cases x) (auto simp: ovr_sattr3_def sattr3_init_def sentinel_xdr.ovr_init)
qed

end
