(* ===== verification/Nfs3Res.thy ===== *)
theory Nfs3Res
  imports Nfs3Types
begin

text \<open>
  The results of the NFS procedures. Every \<^verbatim>\<open>struct XXX3res\<close> of \<^verbatim>\<open>nfs3_types.hpp\<close> has the
  same two members, a status and an optional \<^verbatim>\<open>XXX3resok\<close>, and the same two member
  functions over them; they are one record and one pair of functions here, with the codec
  of the \<^verbatim>\<open>resok\<close> as arguments. Each procedure instantiates them in its own definitions.
\<close>

record 'r nfs_res =
  status :: nfsstat3
  resok :: "'r option"

definition serialize_res :: "('r \<Rightarrow> unit xdr) \<Rightarrow> 'r nfs_res \<Rightarrow> unit xdr" where
  "serialize_res ser ob = xdo [
     pack_uint32 (status ob),
     if status ob = NFS3_OK \<and> resok ob \<noteq> None then ser (the (resok ob)) else xret ()]"

definition deserialize_res :: "'r \<Rightarrow> ('r \<Rightarrow> 'r xdr) \<Rightarrow> 'r nfs_res \<Rightarrow> 'r nfs_res xdr" where
  "deserialize_res res0 des = xseq [
     fld status status_update unpack_uint32,
     \<lambda>ob. if status ob = NFS3_OK
          then xbind (des res0) (\<lambda>res. xret (ob\<lparr>resok := Some res\<rparr>))
          else xret ob]"

definition enc_res :: "('r \<Rightarrow> bytes) \<Rightarrow> 'r nfs_res \<Rightarrow> bytes" where
  "enc_res enc ob =
     be32 (status ob) @ (if status ob = NFS3_OK then enc (the (resok ob)) else [])"

text \<open>A result is well formed when a status of \<^verbatim>\<open>NFS3_OK\<close> comes with a \<^verbatim>\<open>resok\<close>; with any other
  status the \<^verbatim>\<open>resok\<close> of the old object stays.\<close>

definition ok_res :: "('r \<Rightarrow> bool) \<Rightarrow> 'r nfs_res \<Rightarrow> bool" where
  "ok_res ok ob \<longleftrightarrow> (status ob = NFS3_OK \<longrightarrow> (case resok ob of None \<Rightarrow> False | Some r \<Rightarrow> ok r))"

definition ovr_res :: "('r \<Rightarrow> 'r) \<Rightarrow> 'r nfs_res \<Rightarrow> 'r nfs_res \<Rightarrow> 'r nfs_res" where
  "ovr_res fresh x0 x =
     \<lparr>status = status x,
      resok = if status x = NFS3_OK then Some (fresh (the (resok x))) else resok x0\<rparr>"

lemma ok_resE:
  assumes "ok_res ok ob" and "status ob = NFS3_OK"
  obtains r where "resok ob = Some r" and "ok r"
  using assms by (auto simp: ok_res_def split: option.splits)

lemma encodes_res:
  assumes "ok_res ok ob" and "\<And>r. ok r \<Longrightarrow> encodes (ser r) (enc r)"
  shows "encodes (serialize_res ser ob) (enc_res enc ob)"
proof (cases "status ob = NFS3_OK")
  case True
  with assms(1) obtain r where "resok ob = Some r" "ok r" by (rule ok_resE)
  with True assms(2) show ?thesis
    by (simp add: serialize_res_def enc_res_def encodes_xdo [of _ _ _ "[]", simplified] xenc)
next
  case False
  then show ?thesis
    using encodes_xdo [OF encodes_uint32, of "xret ()" "[]" "[]"]
    by (simp add: serialize_res_def enc_res_def encodes_xret)
qed

lemma decodes_res:
  assumes "ok_res ok ob" and "\<And>r. ok r \<Longrightarrow> decodes (des res0) (enc r) (fresh r)"
  shows "decodes (deserialize_res res0 des x0) (enc_res enc ob) (ovr_res fresh x0 ob)"
proof (cases "status ob = NFS3_OK")
  case True
  with assms(1) obtain r where r: "resok ob = Some r" "ok r" by (rule ok_resE)
  have "decodes (deserialize_res res0 des x0) (be32 (status ob) @ enc r)
      (x0\<lparr>status := status ob, resok := Some (fresh r)\<rparr>)"
    unfolding deserialize_res_def
    by (rule decodes_xseq [OF decodes_fld [OF decodes_uint32]])
      (simp add: True, rule decodes_bind_ret [OF assms(2) [OF r(2)]])
  with True r show ?thesis by (cases x0) (simp add: enc_res_def ovr_res_def)
next
  case False
  have "decodes (deserialize_res res0 des x0) (be32 (status ob) @ []) (x0\<lparr>status := status ob\<rparr>)"
    unfolding deserialize_res_def
    by (rule decodes_xseq [OF decodes_fld [OF decodes_uint32]]) (simp add: False decodes_xret)
  with False show ?thesis by (cases x0) (simp add: enc_res_def ovr_res_def)
qed

lemma reader_res: "reader (des res0) \<Longrightarrow> reader (deserialize_res res0 des x0)"
  unfolding deserialize_res_def by (intro xrd reader_bind)

sublocale xdr_roundtrip \<subseteq> res: xdr_codec
  "serialize_res ser" "deserialize_res init des" "enc_res enc"
  "ovr_res (ovr init)" "ok_res ok"
  by unfold_locales
    (auto simp: des_reader ser_encodes des_decodes
      intro!: encodes_res [where ok = ok] decodes_res [where ok = ok] reader_res)

context xdr_roundtrip
begin

text \<open>What the client gets from a server's reply, given that the reply was written by the
  matching \<^verbatim>\<open>serialize\<close>.\<close>

lemma res_reply:
  assumes "ok r" and "canon r" and "status ob = NFS3_OK" and "resok ob = Some r"
  shows "deserialize_res init des x0 (XdrBuffer_of (enc_res enc ob @ rest)) =
     (Inr ob, \<lparr>buffer = enc_res enc ob @ rest, pos = length (enc_res enc ob)\<rparr>)"
proof -
  have "ok_res ok ob" using assms by (simp add: ok_res_def)
  moreover have "ovr_res (ovr init) x0 ob = ob"
    using assms by (simp add: ovr_res_def ovr_init)
  ultimately show ?thesis using res.unpack_of [of ob x0 rest] by simp
qed

text \<open>An \<^verbatim>\<open>NFS3_OK\<close> with no \<^verbatim>\<open>resok\<close> is written as the bare status, which no reader of the
  result accepts unless an empty result would do.\<close>

lemma res_ok_without_resok:
  assumes "status ob = NFS3_OK" and "resok ob = None"
  shows "encodes (serialize_res ser ob) (be32 NFS3_OK)"
  using encodes_xdo [OF encodes_uint32, of "xret ()" "[]" "[]"] assms
  by (simp add: serialize_res_def encodes_xret)

end

end
