(* ===== verification/Nfs3Dir.thy ===== *)
theory Nfs3Dir
  imports Nfs3Res
begin

text \<open>
  Directory listings: \<^verbatim>\<open>entry3\<close> and \<^verbatim>\<open>entryplus3\<close> of \<^verbatim>\<open>nfs3_types.hpp\<close>, singly linked through
  \<^verbatim>\<open>std::unique_ptr\<close>, and the lists that hold them. \<^verbatim>\<open>deserialize\<close> recurses once per entry on
  the wire; each call reads at least the eight bytes of a file id, which bounds the recursion
  by the unread part of the buffer on any input. The locale \<open>entry_chain\<close> holds what the two
  kinds of entries share.
\<close>

section \<open>Chains of entries\<close>

text \<open>A read that starts with eight bytes and succeeds had them to read.\<close>

lemma uint64_first_moves:
  assumes "xbind (unpack_uint64 old) f b = (Inr y, b')" and "\<And>v. reader (f v)"
  shows "pos b < length (buffer b) \<and> buffer b' = buffer b \<and> pos b < pos b'"
proof -
  from assms(1) obtain v b1 where 1: "unpack_uint64 old b = (Inr v, b1)" and 2: "f v b1 = (Inr y, b')"
    by (auto simp: xbind_def split: prod.splits sum.splits)
  from 1 have "pos b < length (buffer b)" and "buffer b1 = buffer b" and "pos b < pos b1"
    by (auto simp: unpack_uint64_def xbind_def ensure_read_space_def read_mem_def xret_def xthrow_def
        split: if_splits)
  moreover have "moves b1 b'" using assms(2) [of v] 2 by (metis reader_def snd_conv)
  ultimately show ?thesis by (auto simp: moves_def)
qed

locale entry_chain =
  fixes members :: "'e \<Rightarrow> ('e \<times> bool) xdr"
    and des :: "'e \<Rightarrow> 'e xdr"
    and init :: 'e
    and link :: "'e \<Rightarrow> 'e \<Rightarrow> 'e"
  assumes des_eq: "des ob b =
     (case members ob b of
        (Inl e, b') \<Rightarrow> (Inl e, b')
      | (Inr (ob', has_next), b') \<Rightarrow>
          if has_next then
            (case des init b' of
               (Inl e, b'') \<Rightarrow> (Inl e, b'')
             | (Inr entry, b'') \<Rightarrow> (Inr (link ob' entry), b''))
          else (Inr ob', b'))"
    and members_reader: "reader (members ob)"
    and members_progress:
      "members ob b = (Inr y, b') \<Longrightarrow>
       pos b < length (buffer b) \<and> buffer b' = buffer b \<and> pos b < pos b'"
begin

lemma decodes_last: "decodes (members ob) bs (ob', False) \<Longrightarrow> decodes (des ob) bs ob'"
  by (rule decodesI) (simp add: des_eq decodesD)

lemma decodes_more:
  assumes m: "decodes (members ob) bs (ob', True)" and d: "decodes (des init) bs' entry"
  shows "decodes (des ob) (bs @ bs') (link ob' entry)"
proof (rule decodesI)
  fix pre post :: bytes
  from decodesD [OF m, of pre "bs' @ post"] decodesD [OF d, of "pre @ bs" post]
  show "des ob \<lparr>buffer = pre @ (bs @ bs') @ post, pos = length pre\<rparr> =
      (Inr (link ob' entry), \<lparr>buffer = pre @ (bs @ bs') @ post, pos = length pre + length (bs @ bs')\<rparr>)"
    by (subst des_eq) (simp add: add.assoc)
qed

lemma des_moves:
  "moves b (snd (des ob b)) \<and>
   (\<forall>e. fst (des ob b) = Inl e \<longrightarrow> (\<exists>n p h. e = InsufficientData n p h))"
proof (induction "length (buffer b) - pos b" arbitrary: ob b rule: less_induct)
  case less
  obtain r b' where m: "members ob b = (r, b')" by (cases "members ob b")
  from members_reader [of ob] m have mv: "moves b b'"
    and er: "\<And>e. r = Inl e \<Longrightarrow> \<exists>n p h. e = InsufficientData n p h"
    unfolding reader_def by (metis snd_conv, metis fst_conv)
  show ?case
  proof (cases r)
    case (Inl e)
    with m mv er show ?thesis by (subst (1 2) des_eq) simp
  next
    case (Inr p)
    obtain ob' h where p: "p = (ob', h)" by (cases p)
    from members_progress m Inr have "length (buffer b') - pos b' < length (buffer b) - pos b"
      by fastforce
    from less [OF this, of init] m mv show ?thesis
      by (subst (1 2) des_eq)
        (auto simp: Inr p split: prod.splits sum.splits intro: moves_trans)
  qed
qed

lemma des_reader: "reader (des ob)"
  using des_moves by (simp add: reader_def)

end

section \<open>entry3\<close>

datatype entry3 = Entry3
  (fileid: uint64) (name: string) (cookie: uint64) (nextentry: "entry3 option")

definition entry3_init :: entry3 where
  "entry3_init = Entry3 0 [] 0 None"

fun serialize_entry3 :: "entry3 \<Rightarrow> unit xdr" where
  "serialize_entry3 (Entry3 f n c nxt) = xdo [
     pack_uint64 f,
     pack_string n,
     pack_uint64 c,
     pack_bool (nxt \<noteq> None),
     case nxt of None \<Rightarrow> xret () | Some e \<Rightarrow> serialize_entry3 e]"

text \<open>The members of \<^verbatim>\<open>*this\<close> and the local \<^verbatim>\<open>has_next\<close>, then the rest of the chain.\<close>

definition entry3_members :: "entry3 \<Rightarrow> (entry3 \<times> bool) xdr" where
  "entry3_members ob =
     xbind (unpack_uint64 (fileid ob)) (\<lambda>f.
     xbind (unpack_string (name ob)) (\<lambda>n.
     xbind (unpack_uint64 (cookie ob)) (\<lambda>c.
     xbind (unpack_bool False) (\<lambda>has_next.
     xret (Entry3 f n c (nextentry ob), has_next)))))"

definition entry3_link :: "entry3 \<Rightarrow> entry3 \<Rightarrow> entry3" where
  "entry3_link ob entry = Entry3 (fileid ob) (name ob) (cookie ob) (Some entry)"

lemma entry3_members_moves:
  "entry3_members ob b = (Inr y, b') \<Longrightarrow>
   pos b < length (buffer b) \<and> buffer b' = buffer b \<and> pos b < pos b'"
  unfolding entry3_members_def by (erule uint64_first_moves) (intro reader_bind xrd)

function deserialize_entry3 :: "entry3 \<Rightarrow> entry3 xdr" where
  "deserialize_entry3 ob b =
     (case entry3_members ob b of
        (Inl e, b') \<Rightarrow> (Inl e, b')
      | (Inr (ob', has_next), b') \<Rightarrow>
          if has_next then
            (case deserialize_entry3 entry3_init b' of
               (Inl e, b'') \<Rightarrow> (Inl e, b'')
             | (Inr entry, b'') \<Rightarrow> (Inr (entry3_link ob' entry), b''))
          else (Inr ob', b'))"
  by pat_completeness auto
termination
proof (relation "measure (\<lambda>(ob, b). length (buffer b) - pos b)", goal_cases)
  case (2 ob b r b' y ob' has_next)
  then have "entry3_members ob b = (Inr (ob', has_next), b')" by simp
  from entry3_members_moves [OF this] show ?case by auto
qed simp

declare deserialize_entry3.simps [simp del]

interpretation entry3_chain: entry_chain
  entry3_members deserialize_entry3 entry3_init entry3_link
proof unfold_locales
  show "reader (entry3_members ob)" for ob
    unfolding entry3_members_def by (intro reader_bind xrd)
qed (fact deserialize_entry3.simps entry3_members_moves)+

fun enc_entry3 :: "entry3 \<Rightarrow> bytes" where
  "enc_entry3 (Entry3 f n c nxt) =
     (be64 f @ enc_string n @ be64 c @ enc_bool (nxt \<noteq> None)) @
     (case nxt of None \<Rightarrow> [] | Some e \<Rightarrow> enc_entry3 e)"

fun ok_entry3 :: "entry3 \<Rightarrow> bool" where
  "ok_entry3 (Entry3 f n c nxt) \<longleftrightarrow>
     length n \<le> UINT32_MAX \<and> (case nxt of None \<Rightarrow> True | Some e \<Rightarrow> ok_entry3 e)"

definition ovr_entry3 :: "entry3 \<Rightarrow> entry3 \<Rightarrow> entry3" where
  "ovr_entry3 x0 x =
     (if nextentry x = None then Entry3 (fileid x) (name x) (cookie x) (nextentry x0) else x)"

lemma ovr_entry3_init [simp]: "ovr_entry3 entry3_init = (\<lambda>x. x)"
proof
  show "ovr_entry3 entry3_init x = x" for x
    by (cases x) (simp add: ovr_entry3_def entry3_init_def)
qed

lemma encodes_entry3: "ok_entry3 x \<Longrightarrow> encodes (serialize_entry3 x) (enc_entry3 x)"
proof (induction x)
  case (Entry3 f n c nxt)
  show ?case unfolding serialize_entry3.simps enc_entry3.simps append_assoc
    using Entry3 by (intro xenc) auto
qed

lemma decodes_entry3_members:
  assumes "length n \<le> UINT32_MAX"
  shows "decodes (entry3_members ob) (be64 f @ enc_string n @ be64 c @ enc_bool h)
     (Entry3 f n c (nextentry ob), h)"
  unfolding entry3_members_def
  by (rule decodes_bind [OF decodes_uint64] decodes_bind [OF decodes_string [OF assms]]
      decodes_bind_ret decodes_bool)+

lemma decodes_entry3: "ok_entry3 x \<Longrightarrow> decodes (deserialize_entry3 x0) (enc_entry3 x) (ovr_entry3 x0 x)"
proof (induction x arbitrary: x0)
  case (Entry3 f n c nxt)
  from Entry3.prems have hd: "decodes (entry3_members x0)
      (be64 f @ enc_string n @ be64 c @ enc_bool (nxt \<noteq> None))
      (Entry3 f n c (nextentry x0), nxt \<noteq> None)"
    by (intro decodes_entry3_members) simp
  show ?case
  proof (cases nxt)
    case None
    with entry3_chain.decodes_last hd show ?thesis by (simp add: ovr_entry3_def)
  next
    case (Some e)
    with Entry3 have "decodes (deserialize_entry3 entry3_init) (enc_entry3 e) e"
      by (metis ok_entry3.simps option.simps(5) option.set_intros ovr_entry3_init)
    from entry3_chain.decodes_more [OF hd [unfolded Some, simplified] this] Some show ?thesis
      by (simp add: ovr_entry3_def entry3_link_def)
  qed
qed

interpretation entry3_xdr: xdr_roundtrip
  serialize_entry3 deserialize_entry3 enc_entry3
  ovr_entry3 ok_entry3 entry3_init "\<lambda>_. True"
  by unfold_locales (simp_all add: encodes_entry3 decodes_entry3 entry3_chain.des_reader)

section \<open>entryplus3\<close>

datatype entryplus3 = Entryplus3
  (fileid: uint64) (name: string) (cookie: uint64)
  (name_handle: nfs_fh3) (name_attributes: post_op_attr) (nextentry: "entryplus3 option")

definition entryplus3_init :: entryplus3 where
  "entryplus3_init = Entryplus3 0 [] 0 nfs_fh3_init post_op_attr_init None"

fun serialize_entryplus3 :: "entryplus3 \<Rightarrow> unit xdr" where
  "serialize_entryplus3 (Entryplus3 f n c h a nxt) = xdo [
     pack_uint64 f,
     pack_string n,
     pack_uint64 c,
     serialize_nfs_fh3 h,
     serialize_post_op_attr a,
     pack_bool (nxt \<noteq> None),
     case nxt of None \<Rightarrow> xret () | Some e \<Rightarrow> serialize_entryplus3 e]"

definition entryplus3_members :: "entryplus3 \<Rightarrow> (entryplus3 \<times> bool) xdr" where
  "entryplus3_members ob =
     xbind (unpack_uint64 (fileid ob)) (\<lambda>f.
     xbind (unpack_string (name ob)) (\<lambda>n.
     xbind (unpack_uint64 (cookie ob)) (\<lambda>c.
     xbind (deserialize_nfs_fh3 (name_handle ob)) (\<lambda>h.
     xbind (deserialize_post_op_attr (name_attributes ob)) (\<lambda>a.
     xbind (unpack_bool False) (\<lambda>has_next.
     xret (Entryplus3 f n c h a (nextentry ob), has_next)))))))"

definition entryplus3_link :: "entryplus3 \<Rightarrow> entryplus3 \<Rightarrow> entryplus3" where
  "entryplus3_link ob entry =
     Entryplus3 (fileid ob) (name ob) (cookie ob) (name_handle ob) (name_attributes ob) (Some entry)"

lemma entryplus3_members_moves:
  "entryplus3_members ob b = (Inr y, b') \<Longrightarrow>
   pos b < length (buffer b) \<and> buffer b' = buffer b \<and> pos b < pos b'"
  unfolding entryplus3_members_def by (erule uint64_first_moves) (intro reader_bind xrd)

function deserialize_entryplus3 :: "entryplus3 \<Rightarrow> entryplus3 xdr" where
  "deserialize_entryplus3 ob b =
     (case entryplus3_members ob b of
        (Inl e, b') \<Rightarrow> (Inl e, b')
      | (Inr (ob', has_next), b') \<Rightarrow>
          if has_next then
            (case deserialize_entryplus3 entryplus3_init b' of
               (Inl e, b'') \<Rightarrow> (Inl e, b'')
             | (Inr entry, b'') \<Rightarrow> (Inr (entryplus3_link ob' entry), b''))
          else (Inr ob', b'))"
  by pat_completeness auto
termination
proof (relation "measure (\<lambda>(ob, b). length (buffer b) - pos b)", goal_cases)
  case (2 ob b r b' y ob' has_next)
  then have "entryplus3_members ob b = (Inr (ob', has_next), b')" by simp
  from entryplus3_members_moves [OF this] show ?case by auto
qed simp

declare deserialize_entryplus3.simps [simp del]

interpretation entryplus3_chain: entry_chain
  entryplus3_members deserialize_entryplus3 entryplus3_init entryplus3_link
proof unfold_locales
  show "reader (entryplus3_members ob)" for ob
    unfolding entryplus3_members_def by (intro reader_bind xrd)
qed (fact deserialize_entryplus3.simps entryplus3_members_moves)+

fun enc_entryplus3 :: "entryplus3 \<Rightarrow> bytes" where
  "enc_entryplus3 (Entryplus3 f n c h a nxt) =
     (be64 f @ enc_string n @ be64 c @ enc_nfs_fh3 h @ enc_post_op_attr a @ enc_bool (nxt \<noteq> None)) @
     (case nxt of None \<Rightarrow> [] | Some e \<Rightarrow> enc_entryplus3 e)"

fun ok_entryplus3 :: "entryplus3 \<Rightarrow> bool" where
  "ok_entryplus3 (Entryplus3 f n c h a nxt) \<longleftrightarrow>
     length n \<le> UINT32_MAX \<and> ok_nfs_fh3 h \<and>
     (case nxt of None \<Rightarrow> True | Some e \<Rightarrow> ok_entryplus3 e)"

fun canon_entryplus3 :: "entryplus3 \<Rightarrow> bool" where
  "canon_entryplus3 (Entryplus3 f n c h a nxt) \<longleftrightarrow>
     canon_post_op_attr a \<and> (case nxt of None \<Rightarrow> True | Some e \<Rightarrow> canon_entryplus3 e)"

fun ovr_entryplus3 :: "entryplus3 \<Rightarrow> entryplus3 \<Rightarrow> entryplus3" where
  "ovr_entryplus3 x0 (Entryplus3 f n c h a nxt) =
     Entryplus3 f n c h (ovr_post_op_attr (name_attributes x0) a)
       (case nxt of None \<Rightarrow> nextentry x0 | Some e \<Rightarrow> Some (ovr_entryplus3 entryplus3_init e))"

lemma ovr_entryplus3_init: "canon_entryplus3 x \<Longrightarrow> ovr_entryplus3 entryplus3_init x = x"
proof (induction x)
  case (Entryplus3 f n c h a nxt)
  then show ?case
    by (cases nxt) (simp_all add: entryplus3_init_def post_op_attr_xdr.ovr_init)
qed

lemma encodes_entryplus3:
  "ok_entryplus3 x \<Longrightarrow> encodes (serialize_entryplus3 x) (enc_entryplus3 x)"
proof (induction x)
  case (Entryplus3 f n c h a nxt)
  show ?case unfolding serialize_entryplus3.simps enc_entryplus3.simps append_assoc
    using Entryplus3 by (intro xenc) auto
qed

lemma decodes_entryplus3_members:
  assumes "length n \<le> UINT32_MAX" and "ok_nfs_fh3 h"
  shows "decodes (entryplus3_members ob)
     (be64 f @ enc_string n @ be64 c @ enc_nfs_fh3 h @ enc_post_op_attr a @ enc_bool has_next)
     (Entryplus3 f n c h (ovr_post_op_attr (name_attributes ob) a) (nextentry ob), has_next)"
  unfolding entryplus3_members_def
  by (rule decodes_bind [OF decodes_uint64] decodes_bind [OF decodes_string [OF assms(1)]]
      decodes_bind [OF nfs_fh3_xdr.des_decodes [OF assms(2)]]
      decodes_bind [OF post_op_attr_xdr.des_decodes [OF TrueI]] decodes_bind_ret decodes_bool)+

lemma decodes_entryplus3:
  "ok_entryplus3 x \<Longrightarrow> decodes (deserialize_entryplus3 x0) (enc_entryplus3 x) (ovr_entryplus3 x0 x)"
proof (induction x arbitrary: x0)
  case (Entryplus3 f n c h a nxt)
  from Entryplus3.prems have hd: "decodes (entryplus3_members x0)
      (be64 f @ enc_string n @ be64 c @ enc_nfs_fh3 h @ enc_post_op_attr a @ enc_bool (nxt \<noteq> None))
      (Entryplus3 f n c h (ovr_post_op_attr (name_attributes x0) a) (nextentry x0), nxt \<noteq> None)"
    by (intro decodes_entryplus3_members) simp_all
  show ?case
  proof (cases nxt)
    case None
    with entryplus3_chain.decodes_last hd show ?thesis by simp
  next
    case (Some e)
    with Entryplus3 have "decodes (deserialize_entryplus3 entryplus3_init) (enc_entryplus3 e)
        (ovr_entryplus3 entryplus3_init e)"
      by (metis ok_entryplus3.simps option.simps(5) option.set_intros)
    from entryplus3_chain.decodes_more [OF hd [unfolded Some, simplified] this] Some show ?thesis
      by (simp add: entryplus3_link_def)
  qed
qed

interpretation entryplus3_xdr: xdr_roundtrip
  serialize_entryplus3 deserialize_entryplus3 enc_entryplus3
  ovr_entryplus3 ok_entryplus3 entryplus3_init canon_entryplus3
  by unfold_locales
    (simp_all add: encodes_entryplus3 decodes_entryplus3 entryplus3_chain.des_reader ovr_entryplus3_init)

end
