(* ===== verification/Nfs3ProcsA.thy ===== *)
theory Nfs3ProcsA
  imports Nfs3Dir
begin

text \<open>
  Arguments and results of the procedures GETATTR to WRITE: the \<^verbatim>\<open>XXX3args\<close>, \<^verbatim>\<open>XXX3resok\<close> and
  \<^verbatim>\<open>XXX3res\<close> structs of \<^verbatim>\<open>nfs3_types.hpp\<close>, in the naming scheme of \<^verbatim>\<open>Nfs3Types\<close>.
\<close>

section \<open>GETATTR\<close>

record GETATTR3args =
  object :: nfs_fh3

definition GETATTR3args_init :: GETATTR3args where
  "GETATTR3args_init = \<lparr>GETATTR3args.object = nfs_fh3_init\<rparr>"

definition serialize_GETATTR3args :: "GETATTR3args \<Rightarrow> unit xdr" where
  "serialize_GETATTR3args ob = xdo [
     serialize_nfs_fh3 (GETATTR3args.object ob)]"

definition deserialize_GETATTR3args :: "GETATTR3args \<Rightarrow> GETATTR3args xdr" where
  "deserialize_GETATTR3args = xseq [
     fld GETATTR3args.object GETATTR3args.object_update deserialize_nfs_fh3]"

definition enc_GETATTR3args :: "GETATTR3args \<Rightarrow> bytes" where
  "enc_GETATTR3args ob =
     enc_nfs_fh3 (GETATTR3args.object ob)"

definition ok_GETATTR3args :: "GETATTR3args \<Rightarrow> bool" where
  "ok_GETATTR3args ob \<longleftrightarrow> ok_nfs_fh3 (GETATTR3args.object ob)"

interpretation GETATTR3args_xdr: xdr_roundtrip
  serialize_GETATTR3args deserialize_GETATTR3args enc_GETATTR3args
  "\<lambda>_ x. x" ok_GETATTR3args GETATTR3args_init "\<lambda>_. True"
proof unfold_locales
  fix x x0 :: GETATTR3args
  show "encodes (serialize_GETATTR3args x) (enc_GETATTR3args x)" if "ok_GETATTR3args x"
    unfolding serialize_GETATTR3args_def enc_GETATTR3args_def using that [unfolded ok_GETATTR3args_def]
    by (intro xenc) auto
  show "decodes (deserialize_GETATTR3args x0) (enc_GETATTR3args x) x" if "ok_GETATTR3args x"
    unfolding deserialize_GETATTR3args_def enc_GETATTR3args_def
    by (rule decodes_cong, (rule xdec |
        (use that in \<open>simp add: ok_GETATTR3args_def; fail\<close>) |
        (cases x, cases x0, simp; fail))+)
  show "reader (deserialize_GETATTR3args x0)"
    unfolding deserialize_GETATTR3args_def by (intro xrd)
qed simp_all

record GETATTR3resok =
  obj_attributes :: fattr3

definition GETATTR3resok_init :: GETATTR3resok where
  "GETATTR3resok_init = \<lparr>GETATTR3resok.obj_attributes = fattr3_init\<rparr>"

definition serialize_GETATTR3resok :: "GETATTR3resok \<Rightarrow> unit xdr" where
  "serialize_GETATTR3resok ob = xdo [
     serialize_fattr3 (GETATTR3resok.obj_attributes ob)]"

definition deserialize_GETATTR3resok :: "GETATTR3resok \<Rightarrow> GETATTR3resok xdr" where
  "deserialize_GETATTR3resok = xseq [
     fld GETATTR3resok.obj_attributes GETATTR3resok.obj_attributes_update deserialize_fattr3]"

definition enc_GETATTR3resok :: "GETATTR3resok \<Rightarrow> bytes" where
  "enc_GETATTR3resok ob =
     enc_fattr3 (GETATTR3resok.obj_attributes ob)"

interpretation GETATTR3resok_xdr: xdr_roundtrip
  serialize_GETATTR3resok deserialize_GETATTR3resok enc_GETATTR3resok
  "\<lambda>_ x. x" "\<lambda>_. True" GETATTR3resok_init "\<lambda>_. True"
proof unfold_locales
  fix x x0 :: GETATTR3resok
  show "encodes (serialize_GETATTR3resok x) (enc_GETATTR3resok x)"
    unfolding serialize_GETATTR3resok_def enc_GETATTR3resok_def
    by (intro xenc)
  show "decodes (deserialize_GETATTR3resok x0) (enc_GETATTR3resok x) x"
    unfolding deserialize_GETATTR3resok_def enc_GETATTR3resok_def
    by (rule decodes_cong, (rule xdec |
        (cases x, cases x0, simp; fail))+)
  show "reader (deserialize_GETATTR3resok x0)"
    unfolding deserialize_GETATTR3resok_def by (intro xrd)
qed simp_all

type_synonym GETATTR3res = "GETATTR3resok nfs_res"

definition serialize_GETATTR3res :: "GETATTR3res \<Rightarrow> unit xdr" where
  "serialize_GETATTR3res = serialize_res serialize_GETATTR3resok"

definition deserialize_GETATTR3res :: "GETATTR3res \<Rightarrow> GETATTR3res xdr" where
  "deserialize_GETATTR3res = deserialize_res GETATTR3resok_init deserialize_GETATTR3resok"

section \<open>SETATTR\<close>

record SETATTR3args =
  object :: nfs_fh3
  new_attributes :: sattr3
  guard :: "nfs_fh3 option"

definition SETATTR3args_init :: SETATTR3args where
  "SETATTR3args_init = \<lparr>SETATTR3args.object = nfs_fh3_init,
     SETATTR3args.new_attributes = sattr3_init,
     SETATTR3args.guard = None\<rparr>"

definition serialize_SETATTR3args :: "SETATTR3args \<Rightarrow> unit xdr" where
  "serialize_SETATTR3args ob = xdo [
     serialize_nfs_fh3 (SETATTR3args.object ob),
     serialize_sattr3 (SETATTR3args.new_attributes ob),
     pack_optional serialize_nfs_fh3 (SETATTR3args.guard ob)]"

definition deserialize_SETATTR3args :: "SETATTR3args \<Rightarrow> SETATTR3args xdr" where
  "deserialize_SETATTR3args = xseq [
     fld SETATTR3args.object SETATTR3args.object_update deserialize_nfs_fh3,
     fld SETATTR3args.new_attributes SETATTR3args.new_attributes_update deserialize_sattr3,
     fld SETATTR3args.guard SETATTR3args.guard_update (unpack_optional nfs_fh3_init deserialize_nfs_fh3)]"

definition enc_SETATTR3args :: "SETATTR3args \<Rightarrow> bytes" where
  "enc_SETATTR3args ob =
     enc_nfs_fh3 (SETATTR3args.object ob) @
     enc_sattr3 (SETATTR3args.new_attributes ob) @
     enc_optional enc_nfs_fh3 (SETATTR3args.guard ob)"

definition ok_SETATTR3args :: "SETATTR3args \<Rightarrow> bool" where
  "ok_SETATTR3args ob \<longleftrightarrow> ok_nfs_fh3 (SETATTR3args.object ob) \<and>
     ok_optional ok_nfs_fh3 (SETATTR3args.guard ob)"

definition ovr_SETATTR3args :: "SETATTR3args \<Rightarrow> SETATTR3args \<Rightarrow> SETATTR3args" where
  "ovr_SETATTR3args x0 x = \<lparr>SETATTR3args.object = SETATTR3args.object x,
     SETATTR3args.new_attributes = ovr_sattr3 (SETATTR3args.new_attributes x0) (SETATTR3args.new_attributes x),
     SETATTR3args.guard = ovr_optional (\<lambda>v. v) (SETATTR3args.guard x0) (SETATTR3args.guard x)\<rparr>"

definition canon_SETATTR3args :: "SETATTR3args \<Rightarrow> bool" where
  "canon_SETATTR3args ob \<longleftrightarrow> canon_sattr3 (SETATTR3args.new_attributes ob)"

interpretation SETATTR3args_xdr: xdr_roundtrip
  serialize_SETATTR3args deserialize_SETATTR3args enc_SETATTR3args
  ovr_SETATTR3args ok_SETATTR3args SETATTR3args_init canon_SETATTR3args
proof unfold_locales
  fix x x0 :: SETATTR3args
  show "encodes (serialize_SETATTR3args x) (enc_SETATTR3args x)" if "ok_SETATTR3args x"
    unfolding serialize_SETATTR3args_def enc_SETATTR3args_def using that [unfolded ok_SETATTR3args_def]
    by (intro xenc) auto
  show "decodes (deserialize_SETATTR3args x0) (enc_SETATTR3args x) (ovr_SETATTR3args x0 x)" if "ok_SETATTR3args x"
    unfolding deserialize_SETATTR3args_def enc_SETATTR3args_def
    by (rule decodes_cong, (rule xdec |
        (use that in \<open>simp add: ok_SETATTR3args_def; fail\<close>) |
        (cases x, cases x0, simp add: ovr_SETATTR3args_def; fail))+)
  show "reader (deserialize_SETATTR3args x0)"
    unfolding deserialize_SETATTR3args_def by (intro xrd)
  show "ovr_SETATTR3args SETATTR3args_init x = x" if "canon_SETATTR3args x"
    using that [unfolded canon_SETATTR3args_def]
    by (cases x) (auto simp: ovr_SETATTR3args_def SETATTR3args_init_def sattr3_xdr.ovr_init)
qed

record SETATTR3resok =
  obj_wcc :: wcc_data

definition SETATTR3resok_init :: SETATTR3resok where
  "SETATTR3resok_init = \<lparr>SETATTR3resok.obj_wcc = wcc_data_init\<rparr>"

definition serialize_SETATTR3resok :: "SETATTR3resok \<Rightarrow> unit xdr" where
  "serialize_SETATTR3resok ob = xdo [
     serialize_wcc_data (SETATTR3resok.obj_wcc ob)]"

definition deserialize_SETATTR3resok :: "SETATTR3resok \<Rightarrow> SETATTR3resok xdr" where
  "deserialize_SETATTR3resok = xseq [
     fld SETATTR3resok.obj_wcc SETATTR3resok.obj_wcc_update deserialize_wcc_data]"

definition enc_SETATTR3resok :: "SETATTR3resok \<Rightarrow> bytes" where
  "enc_SETATTR3resok ob =
     enc_wcc_data (SETATTR3resok.obj_wcc ob)"

definition ovr_SETATTR3resok :: "SETATTR3resok \<Rightarrow> SETATTR3resok \<Rightarrow> SETATTR3resok" where
  "ovr_SETATTR3resok x0 x = \<lparr>SETATTR3resok.obj_wcc = ovr_wcc_data (SETATTR3resok.obj_wcc x0) (SETATTR3resok.obj_wcc x)\<rparr>"

definition canon_SETATTR3resok :: "SETATTR3resok \<Rightarrow> bool" where
  "canon_SETATTR3resok ob \<longleftrightarrow> canon_wcc_data (SETATTR3resok.obj_wcc ob)"

interpretation SETATTR3resok_xdr: xdr_roundtrip
  serialize_SETATTR3resok deserialize_SETATTR3resok enc_SETATTR3resok
  ovr_SETATTR3resok "\<lambda>_. True" SETATTR3resok_init canon_SETATTR3resok
proof unfold_locales
  fix x x0 :: SETATTR3resok
  show "encodes (serialize_SETATTR3resok x) (enc_SETATTR3resok x)"
    unfolding serialize_SETATTR3resok_def enc_SETATTR3resok_def
    by (intro xenc)
  show "decodes (deserialize_SETATTR3resok x0) (enc_SETATTR3resok x) (ovr_SETATTR3resok x0 x)"
    unfolding deserialize_SETATTR3resok_def enc_SETATTR3resok_def
    by (rule decodes_cong, (rule xdec |
        (cases x, cases x0, simp add: ovr_SETATTR3resok_def; fail))+)
  show "reader (deserialize_SETATTR3resok x0)"
    unfolding deserialize_SETATTR3resok_def by (intro xrd)
  show "ovr_SETATTR3resok SETATTR3resok_init x = x" if "canon_SETATTR3resok x"
    using that [unfolded canon_SETATTR3resok_def]
    by (cases x) (auto simp: ovr_SETATTR3resok_def SETATTR3resok_init_def wcc_data_xdr.ovr_init)
qed

type_synonym SETATTR3res = "SETATTR3resok nfs_res"

definition serialize_SETATTR3res :: "SETATTR3res \<Rightarrow> unit xdr" where
  "serialize_SETATTR3res = serialize_res serialize_SETATTR3resok"

definition deserialize_SETATTR3res :: "SETATTR3res \<Rightarrow> SETATTR3res xdr" where
  "deserialize_SETATTR3res = deserialize_res SETATTR3resok_init deserialize_SETATTR3resok"

section \<open>LOOKUP\<close>

record LOOKUP3args =
  what_dir :: nfs_fh3
  what_name :: string

definition LOOKUP3args_init :: LOOKUP3args where
  "LOOKUP3args_init = \<lparr>LOOKUP3args.what_dir = nfs_fh3_init,
     LOOKUP3args.what_name = []\<rparr>"

definition serialize_LOOKUP3args :: "LOOKUP3args \<Rightarrow> unit xdr" where
  "serialize_LOOKUP3args ob = xdo [
     serialize_nfs_fh3 (LOOKUP3args.what_dir ob),
     pack_string (LOOKUP3args.what_name ob)]"

definition deserialize_LOOKUP3args :: "LOOKUP3args \<Rightarrow> LOOKUP3args xdr" where
  "deserialize_LOOKUP3args = xseq [
     fld LOOKUP3args.what_dir LOOKUP3args.what_dir_update deserialize_nfs_fh3,
     fld LOOKUP3args.what_name LOOKUP3args.what_name_update unpack_string]"

definition enc_LOOKUP3args :: "LOOKUP3args \<Rightarrow> bytes" where
  "enc_LOOKUP3args ob =
     enc_nfs_fh3 (LOOKUP3args.what_dir ob) @
     enc_string (LOOKUP3args.what_name ob)"

definition ok_LOOKUP3args :: "LOOKUP3args \<Rightarrow> bool" where
  "ok_LOOKUP3args ob \<longleftrightarrow> ok_nfs_fh3 (LOOKUP3args.what_dir ob) \<and>
     length (LOOKUP3args.what_name ob) \<le> UINT32_MAX"

interpretation LOOKUP3args_xdr: xdr_roundtrip
  serialize_LOOKUP3args deserialize_LOOKUP3args enc_LOOKUP3args
  "\<lambda>_ x. x" ok_LOOKUP3args LOOKUP3args_init "\<lambda>_. True"
proof unfold_locales
  fix x x0 :: LOOKUP3args
  show "encodes (serialize_LOOKUP3args x) (enc_LOOKUP3args x)" if "ok_LOOKUP3args x"
    unfolding serialize_LOOKUP3args_def enc_LOOKUP3args_def using that [unfolded ok_LOOKUP3args_def]
    by (intro xenc) auto
  show "decodes (deserialize_LOOKUP3args x0) (enc_LOOKUP3args x) x" if "ok_LOOKUP3args x"
    unfolding deserialize_LOOKUP3args_def enc_LOOKUP3args_def
    by (rule decodes_cong, (rule xdec |
        (use that in \<open>simp add: ok_LOOKUP3args_def; fail\<close>) |
        (cases x, cases x0, simp; fail))+)
  show "reader (deserialize_LOOKUP3args x0)"
    unfolding deserialize_LOOKUP3args_def by (intro xrd)
qed simp_all

record LOOKUP3resok =
  object :: nfs_fh3
  obj_attributes :: post_op_attr
  dir_attributes :: post_op_attr

definition LOOKUP3resok_init :: LOOKUP3resok where
  "LOOKUP3resok_init = \<lparr>LOOKUP3resok.object = nfs_fh3_init,
     LOOKUP3resok.obj_attributes = post_op_attr_init,
     LOOKUP3resok.dir_attributes = post_op_attr_init\<rparr>"

definition serialize_LOOKUP3resok :: "LOOKUP3resok \<Rightarrow> unit xdr" where
  "serialize_LOOKUP3resok ob = xdo [
     serialize_nfs_fh3 (LOOKUP3resok.object ob),
     serialize_post_op_attr (LOOKUP3resok.obj_attributes ob),
     serialize_post_op_attr (LOOKUP3resok.dir_attributes ob)]"

definition deserialize_LOOKUP3resok :: "LOOKUP3resok \<Rightarrow> LOOKUP3resok xdr" where
  "deserialize_LOOKUP3resok = xseq [
     fld LOOKUP3resok.object LOOKUP3resok.object_update deserialize_nfs_fh3,
     fld LOOKUP3resok.obj_attributes LOOKUP3resok.obj_attributes_update deserialize_post_op_attr,
     fld LOOKUP3resok.dir_attributes LOOKUP3resok.dir_attributes_update deserialize_post_op_attr]"

definition enc_LOOKUP3resok :: "LOOKUP3resok \<Rightarrow> bytes" where
  "enc_LOOKUP3resok ob =
     enc_nfs_fh3 (LOOKUP3resok.object ob) @
     enc_post_op_attr (LOOKUP3resok.obj_attributes ob) @
     enc_post_op_attr (LOOKUP3resok.dir_attributes ob)"

definition ok_LOOKUP3resok :: "LOOKUP3resok \<Rightarrow> bool" where
  "ok_LOOKUP3resok ob \<longleftrightarrow> ok_nfs_fh3 (LOOKUP3resok.object ob)"

definition ovr_LOOKUP3resok :: "LOOKUP3resok \<Rightarrow> LOOKUP3resok \<Rightarrow> LOOKUP3resok" where
  "ovr_LOOKUP3resok x0 x = \<lparr>LOOKUP3resok.object = LOOKUP3resok.object x,
     LOOKUP3resok.obj_attributes = ovr_post_op_attr (LOOKUP3resok.obj_attributes x0) (LOOKUP3resok.obj_attributes x),
     LOOKUP3resok.dir_attributes = ovr_post_op_attr (LOOKUP3resok.dir_attributes x0) (LOOKUP3resok.dir_attributes x)\<rparr>"

definition canon_LOOKUP3resok :: "LOOKUP3resok \<Rightarrow> bool" where
  "canon_LOOKUP3resok ob \<longleftrightarrow> canon_post_op_attr (LOOKUP3resok.obj_attributes ob) \<and>
     canon_post_op_attr (LOOKUP3resok.dir_attributes ob)"

interpretation LOOKUP3resok_xdr: xdr_roundtrip
  serialize_LOOKUP3resok deserialize_LOOKUP3resok enc_LOOKUP3resok
  ovr_LOOKUP3resok ok_LOOKUP3resok LOOKUP3resok_init canon_LOOKUP3resok
proof unfold_locales
  fix x x0 :: LOOKUP3resok
  show "encodes (serialize_LOOKUP3resok x) (enc_LOOKUP3resok x)" if "ok_LOOKUP3resok x"
    unfolding serialize_LOOKUP3resok_def enc_LOOKUP3resok_def using that [unfolded ok_LOOKUP3resok_def]
    by (intro xenc) auto
  show "decodes (deserialize_LOOKUP3resok x0) (enc_LOOKUP3resok x) (ovr_LOOKUP3resok x0 x)" if "ok_LOOKUP3resok x"
    unfolding deserialize_LOOKUP3resok_def enc_LOOKUP3resok_def
    by (rule decodes_cong, (rule xdec |
        (use that in \<open>simp add: ok_LOOKUP3resok_def; fail\<close>) |
        (cases x, cases x0, simp add: ovr_LOOKUP3resok_def; fail))+)
  show "reader (deserialize_LOOKUP3resok x0)"
    unfolding deserialize_LOOKUP3resok_def by (intro xrd)
  show "ovr_LOOKUP3resok LOOKUP3resok_init x = x" if "canon_LOOKUP3resok x"
    using that [unfolded canon_LOOKUP3resok_def]
    by (cases x) (auto simp: ovr_LOOKUP3resok_def LOOKUP3resok_init_def post_op_attr_xdr.ovr_init)
qed

type_synonym LOOKUP3res = "LOOKUP3resok nfs_res"

definition serialize_LOOKUP3res :: "LOOKUP3res \<Rightarrow> unit xdr" where
  "serialize_LOOKUP3res = serialize_res serialize_LOOKUP3resok"

definition deserialize_LOOKUP3res :: "LOOKUP3res \<Rightarrow> LOOKUP3res xdr" where
  "deserialize_LOOKUP3res = deserialize_res LOOKUP3resok_init deserialize_LOOKUP3resok"

section \<open>ACCESS\<close>

record ACCESS3args =
  object :: nfs_fh3
  access :: uint32

definition ACCESS3args_init :: ACCESS3args where
  "ACCESS3args_init = \<lparr>ACCESS3args.object = nfs_fh3_init,
     ACCESS3args.access = 0\<rparr>"

definition serialize_ACCESS3args :: "ACCESS3args \<Rightarrow> unit xdr" where
  "serialize_ACCESS3args ob = xdo [
     serialize_nfs_fh3 (ACCESS3args.object ob),
     pack_uint32 (ACCESS3args.access ob)]"

definition deserialize_ACCESS3args :: "ACCESS3args \<Rightarrow> ACCESS3args xdr" where
  "deserialize_ACCESS3args = xseq [
     fld ACCESS3args.object ACCESS3args.object_update deserialize_nfs_fh3,
     fld ACCESS3args.access ACCESS3args.access_update unpack_uint32]"

definition enc_ACCESS3args :: "ACCESS3args \<Rightarrow> bytes" where
  "enc_ACCESS3args ob =
     enc_nfs_fh3 (ACCESS3args.object ob) @
     be32 (ACCESS3args.access ob)"

definition ok_ACCESS3args :: "ACCESS3args \<Rightarrow> bool" where
  "ok_ACCESS3args ob \<longleftrightarrow> ok_nfs_fh3 (ACCESS3args.object ob)"

interpretation ACCESS3args_xdr: xdr_roundtrip
  serialize_ACCESS3args deserialize_ACCESS3args enc_ACCESS3args
  "\<lambda>_ x. x" ok_ACCESS3args ACCESS3args_init "\<lambda>_. True"
proof unfold_locales
  fix x x0 :: ACCESS3args
  show "encodes (serialize_ACCESS3args x) (enc_ACCESS3args x)" if "ok_ACCESS3args x"
    unfolding serialize_ACCESS3args_def enc_ACCESS3args_def using that [unfolded ok_ACCESS3args_def]
    by (intro xenc) auto
  show "decodes (deserialize_ACCESS3args x0) (enc_ACCESS3args x) x" if "ok_ACCESS3args x"
    unfolding deserialize_ACCESS3args_def enc_ACCESS3args_def
    by (rule decodes_cong, (rule xdec |
        (use that in \<open>simp add: ok_ACCESS3args_def; fail\<close>) |
        (cases x, cases x0, simp; fail))+)
  show "reader (deserialize_ACCESS3args x0)"
    unfolding deserialize_ACCESS3args_def by (intro xrd)
qed simp_all

record ACCESS3resok =
  obj_attributes :: post_op_attr
  access :: uint32

definition ACCESS3resok_init :: ACCESS3resok where
  "ACCESS3resok_init = \<lparr>ACCESS3resok.obj_attributes = post_op_attr_init,
     ACCESS3resok.access = 0\<rparr>"

definition serialize_ACCESS3resok :: "ACCESS3resok \<Rightarrow> unit xdr" where
  "serialize_ACCESS3resok ob = xdo [
     serialize_post_op_attr (ACCESS3resok.obj_attributes ob),
     pack_uint32 (ACCESS3resok.access ob)]"

definition deserialize_ACCESS3resok :: "ACCESS3resok \<Rightarrow> ACCESS3resok xdr" where
  "deserialize_ACCESS3resok = xseq [
     fld ACCESS3resok.obj_attributes ACCESS3resok.obj_attributes_update deserialize_post_op_attr,
     fld ACCESS3resok.access ACCESS3resok.access_update unpack_uint32]"

definition enc_ACCESS3resok :: "ACCESS3resok \<Rightarrow> bytes" where
  "enc_ACCESS3resok ob =
     enc_post_op_attr (ACCESS3resok.obj_attributes ob) @
     be32 (ACCESS3resok.access ob)"

definition ovr_ACCESS3resok :: "ACCESS3resok \<Rightarrow> ACCESS3resok \<Rightarrow> ACCESS3resok" where
  "ovr_ACCESS3resok x0 x = \<lparr>ACCESS3resok.obj_attributes = ovr_post_op_attr (ACCESS3resok.obj_attributes x0) (ACCESS3resok.obj_attributes x),
     ACCESS3resok.access = ACCESS3resok.access x\<rparr>"

definition canon_ACCESS3resok :: "ACCESS3resok \<Rightarrow> bool" where
  "canon_ACCESS3resok ob \<longleftrightarrow> canon_post_op_attr (ACCESS3resok.obj_attributes ob)"

interpretation ACCESS3resok_xdr: xdr_roundtrip
  serialize_ACCESS3resok deserialize_ACCESS3resok enc_ACCESS3resok
  ovr_ACCESS3resok "\<lambda>_. True" ACCESS3resok_init canon_ACCESS3resok
proof unfold_locales
  fix x x0 :: ACCESS3resok
  show "encodes (serialize_ACCESS3resok x) (enc_ACCESS3resok x)"
    unfolding serialize_ACCESS3resok_def enc_ACCESS3resok_def
    by (intro xenc)
  show "decodes (deserialize_ACCESS3resok x0) (enc_ACCESS3resok x) (ovr_ACCESS3resok x0 x)"
    unfolding deserialize_ACCESS3resok_def enc_ACCESS3resok_def
    by (rule decodes_cong, (rule xdec |
        (cases x, cases x0, simp add: ovr_ACCESS3resok_def; fail))+)
  show "reader (deserialize_ACCESS3resok x0)"
    unfolding deserialize_ACCESS3resok_def by (intro xrd)
  show "ovr_ACCESS3resok ACCESS3resok_init x = x" if "canon_ACCESS3resok x"
    using that [unfolded canon_ACCESS3resok_def]
    by (cases x) (auto simp: ovr_ACCESS3resok_def ACCESS3resok_init_def post_op_attr_xdr.ovr_init)
qed

type_synonym ACCESS3res = "ACCESS3resok nfs_res"

definition serialize_ACCESS3res :: "ACCESS3res \<Rightarrow> unit xdr" where
  "serialize_ACCESS3res = serialize_res serialize_ACCESS3resok"

definition deserialize_ACCESS3res :: "ACCESS3res \<Rightarrow> ACCESS3res xdr" where
  "deserialize_ACCESS3res = deserialize_res ACCESS3resok_init deserialize_ACCESS3resok"

section \<open>READLINK\<close>

record READLINK3args =
  symlink :: nfs_fh3

definition READLINK3args_init :: READLINK3args where
  "READLINK3args_init = \<lparr>READLINK3args.symlink = nfs_fh3_init\<rparr>"

definition serialize_READLINK3args :: "READLINK3args \<Rightarrow> unit xdr" where
  "serialize_READLINK3args ob = xdo [
     serialize_nfs_fh3 (READLINK3args.symlink ob)]"

definition deserialize_READLINK3args :: "READLINK3args \<Rightarrow> READLINK3args xdr" where
  "deserialize_READLINK3args = xseq [
     fld READLINK3args.symlink READLINK3args.symlink_update deserialize_nfs_fh3]"

definition enc_READLINK3args :: "READLINK3args \<Rightarrow> bytes" where
  "enc_READLINK3args ob =
     enc_nfs_fh3 (READLINK3args.symlink ob)"

definition ok_READLINK3args :: "READLINK3args \<Rightarrow> bool" where
  "ok_READLINK3args ob \<longleftrightarrow> ok_nfs_fh3 (READLINK3args.symlink ob)"

interpretation READLINK3args_xdr: xdr_roundtrip
  serialize_READLINK3args deserialize_READLINK3args enc_READLINK3args
  "\<lambda>_ x. x" ok_READLINK3args READLINK3args_init "\<lambda>_. True"
proof unfold_locales
  fix x x0 :: READLINK3args
  show "encodes (serialize_READLINK3args x) (enc_READLINK3args x)" if "ok_READLINK3args x"
    unfolding serialize_READLINK3args_def enc_READLINK3args_def using that [unfolded ok_READLINK3args_def]
    by (intro xenc) auto
  show "decodes (deserialize_READLINK3args x0) (enc_READLINK3args x) x" if "ok_READLINK3args x"
    unfolding deserialize_READLINK3args_def enc_READLINK3args_def
    by (rule decodes_cong, (rule xdec |
        (use that in \<open>simp add: ok_READLINK3args_def; fail\<close>) |
        (cases x, cases x0, simp; fail))+)
  show "reader (deserialize_READLINK3args x0)"
    unfolding deserialize_READLINK3args_def by (intro xrd)
qed simp_all

record READLINK3resok =
  symlink_attributes :: post_op_attr
  data :: string

definition READLINK3resok_init :: READLINK3resok where
  "READLINK3resok_init = \<lparr>READLINK3resok.symlink_attributes = post_op_attr_init,
     READLINK3resok.data = []\<rparr>"

definition serialize_READLINK3resok :: "READLINK3resok \<Rightarrow> unit xdr" where
  "serialize_READLINK3resok ob = xdo [
     serialize_post_op_attr (READLINK3resok.symlink_attributes ob),
     pack_string (READLINK3resok.data ob)]"

definition deserialize_READLINK3resok :: "READLINK3resok \<Rightarrow> READLINK3resok xdr" where
  "deserialize_READLINK3resok = xseq [
     fld READLINK3resok.symlink_attributes READLINK3resok.symlink_attributes_update deserialize_post_op_attr,
     fld READLINK3resok.data READLINK3resok.data_update unpack_string]"

definition enc_READLINK3resok :: "READLINK3resok \<Rightarrow> bytes" where
  "enc_READLINK3resok ob =
     enc_post_op_attr (READLINK3resok.symlink_attributes ob) @
     enc_string (READLINK3resok.data ob)"

definition ok_READLINK3resok :: "READLINK3resok \<Rightarrow> bool" where
  "ok_READLINK3resok ob \<longleftrightarrow> length (READLINK3resok.data ob) \<le> UINT32_MAX"

definition ovr_READLINK3resok :: "READLINK3resok \<Rightarrow> READLINK3resok \<Rightarrow> READLINK3resok" where
  "ovr_READLINK3resok x0 x = \<lparr>READLINK3resok.symlink_attributes = ovr_post_op_attr (READLINK3resok.symlink_attributes x0) (READLINK3resok.symlink_attributes x),
     READLINK3resok.data = READLINK3resok.data x\<rparr>"

definition canon_READLINK3resok :: "READLINK3resok \<Rightarrow> bool" where
  "canon_READLINK3resok ob \<longleftrightarrow> canon_post_op_attr (READLINK3resok.symlink_attributes ob)"

interpretation READLINK3resok_xdr: xdr_roundtrip
  serialize_READLINK3resok deserialize_READLINK3resok enc_READLINK3resok
  ovr_READLINK3resok ok_READLINK3resok READLINK3resok_init canon_READLINK3resok
proof unfold_locales
  fix x x0 :: READLINK3resok
  show "encodes (serialize_READLINK3resok x) (enc_READLINK3resok x)" if "ok_READLINK3resok x"
    unfolding serialize_READLINK3resok_def enc_READLINK3resok_def using that [unfolded ok_READLINK3resok_def]
    by (intro xenc) auto
  show "decodes (deserialize_READLINK3resok x0) (enc_READLINK3resok x) (ovr_READLINK3resok x0 x)" if "ok_READLINK3resok x"
    unfolding deserialize_READLINK3resok_def enc_READLINK3resok_def
    by (rule decodes_cong, (rule xdec |
        (use that in \<open>simp add: ok_READLINK3resok_def; fail\<close>) |
        (cases x, cases x0, simp add: ovr_READLINK3resok_def; fail))+)
  show "reader (deserialize_READLINK3resok x0)"
    unfolding deserialize_READLINK3resok_def by (intro xrd)
  show "ovr_READLINK3resok READLINK3resok_init x = x" if "canon_READLINK3resok x"
    using that [unfolded canon_READLINK3resok_def]
    by (cases x) (auto simp: ovr_READLINK3resok_def READLINK3resok_init_def post_op_attr_xdr.ovr_init)
qed

type_synonym READLINK3res = "READLINK3resok nfs_res"

definition serialize_READLINK3res :: "READLINK3res \<Rightarrow> unit xdr" where
  "serialize_READLINK3res = serialize_res serialize_READLINK3resok"

definition deserialize_READLINK3res :: "READLINK3res \<Rightarrow> READLINK3res xdr" where
  "deserialize_READLINK3res = deserialize_res READLINK3resok_init deserialize_READLINK3resok"

section \<open>READ\<close>

record READ3args =
  file3 :: nfs_fh3
  offset :: uint64
  count :: uint32

definition READ3args_init :: READ3args where
  "READ3args_init = \<lparr>READ3args.file3 = nfs_fh3_init,
     READ3args.offset = 0,
     READ3args.count = 0\<rparr>"

definition serialize_READ3args :: "READ3args \<Rightarrow> unit xdr" where
  "serialize_READ3args ob = xdo [
     serialize_nfs_fh3 (READ3args.file3 ob),
     pack_uint64 (READ3args.offset ob),
     pack_uint32 (READ3args.count ob)]"

definition deserialize_READ3args :: "READ3args \<Rightarrow> READ3args xdr" where
  "deserialize_READ3args = xseq [
     fld READ3args.file3 READ3args.file3_update deserialize_nfs_fh3,
     fld READ3args.offset READ3args.offset_update unpack_uint64,
     fld READ3args.count READ3args.count_update unpack_uint32]"

definition enc_READ3args :: "READ3args \<Rightarrow> bytes" where
  "enc_READ3args ob =
     enc_nfs_fh3 (READ3args.file3 ob) @
     be64 (READ3args.offset ob) @
     be32 (READ3args.count ob)"

definition ok_READ3args :: "READ3args \<Rightarrow> bool" where
  "ok_READ3args ob \<longleftrightarrow> ok_nfs_fh3 (READ3args.file3 ob)"

interpretation READ3args_xdr: xdr_roundtrip
  serialize_READ3args deserialize_READ3args enc_READ3args
  "\<lambda>_ x. x" ok_READ3args READ3args_init "\<lambda>_. True"
proof unfold_locales
  fix x x0 :: READ3args
  show "encodes (serialize_READ3args x) (enc_READ3args x)" if "ok_READ3args x"
    unfolding serialize_READ3args_def enc_READ3args_def using that [unfolded ok_READ3args_def]
    by (intro xenc) auto
  show "decodes (deserialize_READ3args x0) (enc_READ3args x) x" if "ok_READ3args x"
    unfolding deserialize_READ3args_def enc_READ3args_def
    by (rule decodes_cong, (rule xdec |
        (use that in \<open>simp add: ok_READ3args_def; fail\<close>) |
        (cases x, cases x0, simp; fail))+)
  show "reader (deserialize_READ3args x0)"
    unfolding deserialize_READ3args_def by (intro xrd)
qed simp_all

record READ3resok =
  file_attributes :: post_op_attr
  count :: uint64
  eof :: bool
  data :: bytes

definition READ3resok_init :: READ3resok where
  "READ3resok_init = \<lparr>READ3resok.file_attributes = post_op_attr_init,
     READ3resok.count = 0,
     READ3resok.eof = False,
     READ3resok.data = []\<rparr>"

definition serialize_READ3resok :: "READ3resok \<Rightarrow> unit xdr" where
  "serialize_READ3resok ob = xdo [
     serialize_post_op_attr (READ3resok.file_attributes ob),
     pack_uint64 (READ3resok.count ob),
     pack_bool (READ3resok.eof ob),
     pack_vector (READ3resok.data ob)]"

definition deserialize_READ3resok :: "READ3resok \<Rightarrow> READ3resok xdr" where
  "deserialize_READ3resok = xseq [
     fld READ3resok.file_attributes READ3resok.file_attributes_update deserialize_post_op_attr,
     fld READ3resok.count READ3resok.count_update unpack_uint64,
     fld READ3resok.eof READ3resok.eof_update unpack_bool,
     fld READ3resok.data READ3resok.data_update unpack_vector]"

definition enc_READ3resok :: "READ3resok \<Rightarrow> bytes" where
  "enc_READ3resok ob =
     enc_post_op_attr (READ3resok.file_attributes ob) @
     be64 (READ3resok.count ob) @
     enc_bool (READ3resok.eof ob) @
     enc_opaque (READ3resok.data ob)"

definition ok_READ3resok :: "READ3resok \<Rightarrow> bool" where
  "ok_READ3resok ob \<longleftrightarrow> length (READ3resok.data ob) \<le> UINT32_MAX"

definition ovr_READ3resok :: "READ3resok \<Rightarrow> READ3resok \<Rightarrow> READ3resok" where
  "ovr_READ3resok x0 x = \<lparr>READ3resok.file_attributes = ovr_post_op_attr (READ3resok.file_attributes x0) (READ3resok.file_attributes x),
     READ3resok.count = READ3resok.count x,
     READ3resok.eof = READ3resok.eof x,
     READ3resok.data = READ3resok.data x\<rparr>"

definition canon_READ3resok :: "READ3resok \<Rightarrow> bool" where
  "canon_READ3resok ob \<longleftrightarrow> canon_post_op_attr (READ3resok.file_attributes ob)"

interpretation READ3resok_xdr: xdr_roundtrip
  serialize_READ3resok deserialize_READ3resok enc_READ3resok
  ovr_READ3resok ok_READ3resok READ3resok_init canon_READ3resok
proof unfold_locales
  fix x x0 :: READ3resok
  show "encodes (serialize_READ3resok x) (enc_READ3resok x)" if "ok_READ3resok x"
    unfolding serialize_READ3resok_def enc_READ3resok_def using that [unfolded ok_READ3resok_def]
    by (intro xenc) auto
  show "decodes (deserialize_READ3resok x0) (enc_READ3resok x) (ovr_READ3resok x0 x)" if "ok_READ3resok x"
    unfolding deserialize_READ3resok_def enc_READ3resok_def
    by (rule decodes_cong, (rule xdec |
        (use that in \<open>simp add: ok_READ3resok_def; fail\<close>) |
        (cases x, cases x0, simp add: ovr_READ3resok_def; fail))+)
  show "reader (deserialize_READ3resok x0)"
    unfolding deserialize_READ3resok_def by (intro xrd)
  show "ovr_READ3resok READ3resok_init x = x" if "canon_READ3resok x"
    using that [unfolded canon_READ3resok_def]
    by (cases x) (auto simp: ovr_READ3resok_def READ3resok_init_def post_op_attr_xdr.ovr_init)
qed

type_synonym READ3res = "READ3resok nfs_res"

definition serialize_READ3res :: "READ3res \<Rightarrow> unit xdr" where
  "serialize_READ3res = serialize_res serialize_READ3resok"

definition deserialize_READ3res :: "READ3res \<Rightarrow> READ3res xdr" where
  "deserialize_READ3res = deserialize_res READ3resok_init deserialize_READ3resok"

section \<open>WRITE\<close>

record WRITE3args =
  file3 :: nfs_fh3
  offset :: uint64
  count :: uint32
  stable :: stable_how
  data :: bytes

definition WRITE3args_init :: WRITE3args where
  "WRITE3args_init = \<lparr>WRITE3args.file3 = nfs_fh3_init,
     WRITE3args.offset = 0,
     WRITE3args.count = 0,
     WRITE3args.stable = UNSTABLE,
     WRITE3args.data = []\<rparr>"

definition serialize_WRITE3args :: "WRITE3args \<Rightarrow> unit xdr" where
  "serialize_WRITE3args ob = xdo [
     serialize_nfs_fh3 (WRITE3args.file3 ob),
     pack_uint64 (WRITE3args.offset ob),
     pack_uint32 (WRITE3args.count ob),
     pack_uint32 (WRITE3args.stable ob),
     pack_vector (WRITE3args.data ob)]"

definition deserialize_WRITE3args :: "WRITE3args \<Rightarrow> WRITE3args xdr" where
  "deserialize_WRITE3args = xseq [
     fld WRITE3args.file3 WRITE3args.file3_update deserialize_nfs_fh3,
     fld WRITE3args.offset WRITE3args.offset_update unpack_uint64,
     fld WRITE3args.count WRITE3args.count_update unpack_uint32,
     fld WRITE3args.stable WRITE3args.stable_update unpack_uint32,
     fld WRITE3args.data WRITE3args.data_update unpack_vector]"

definition enc_WRITE3args :: "WRITE3args \<Rightarrow> bytes" where
  "enc_WRITE3args ob =
     enc_nfs_fh3 (WRITE3args.file3 ob) @
     be64 (WRITE3args.offset ob) @
     be32 (WRITE3args.count ob) @
     be32 (WRITE3args.stable ob) @
     enc_opaque (WRITE3args.data ob)"

definition ok_WRITE3args :: "WRITE3args \<Rightarrow> bool" where
  "ok_WRITE3args ob \<longleftrightarrow> ok_nfs_fh3 (WRITE3args.file3 ob) \<and>
     length (WRITE3args.data ob) \<le> UINT32_MAX"

interpretation WRITE3args_xdr: xdr_roundtrip
  serialize_WRITE3args deserialize_WRITE3args enc_WRITE3args
  "\<lambda>_ x. x" ok_WRITE3args WRITE3args_init "\<lambda>_. True"
proof unfold_locales
  fix x x0 :: WRITE3args
  show "encodes (serialize_WRITE3args x) (enc_WRITE3args x)" if "ok_WRITE3args x"
    unfolding serialize_WRITE3args_def enc_WRITE3args_def using that [unfolded ok_WRITE3args_def]
    by (intro xenc) auto
  show "decodes (deserialize_WRITE3args x0) (enc_WRITE3args x) x" if "ok_WRITE3args x"
    unfolding deserialize_WRITE3args_def enc_WRITE3args_def
    by (rule decodes_cong, (rule xdec |
        (use that in \<open>simp add: ok_WRITE3args_def; fail\<close>) |
        (cases x, cases x0, simp; fail))+)
  show "reader (deserialize_WRITE3args x0)"
    unfolding deserialize_WRITE3args_def by (intro xrd)
qed simp_all

record WRITE3resok =
  file_attributes :: post_op_attr
  count :: uint32
  committed :: stable_how
  verf :: writeverf3

definition WRITE3resok_init :: "bytes \<Rightarrow> WRITE3resok" where
  "WRITE3resok_init ind = \<lparr>WRITE3resok.file_attributes = post_op_attr_init,
     WRITE3resok.count = 0,
     WRITE3resok.committed = FILE_SYNC,
     WRITE3resok.verf = writeverf3_init ind\<rparr>"

definition serialize_WRITE3resok :: "WRITE3resok \<Rightarrow> unit xdr" where
  "serialize_WRITE3resok ob = xdo [
     serialize_post_op_attr (WRITE3resok.file_attributes ob),
     pack_uint32 (WRITE3resok.count ob),
     pack_uint32 (WRITE3resok.committed ob),
     serialize_writeverf3 (WRITE3resok.verf ob)]"

definition deserialize_WRITE3resok :: "WRITE3resok \<Rightarrow> WRITE3resok xdr" where
  "deserialize_WRITE3resok = xseq [
     fld WRITE3resok.file_attributes WRITE3resok.file_attributes_update deserialize_post_op_attr,
     fld WRITE3resok.count WRITE3resok.count_update unpack_uint32,
     fld WRITE3resok.committed WRITE3resok.committed_update unpack_uint32,
     fld WRITE3resok.verf WRITE3resok.verf_update deserialize_writeverf3]"

definition enc_WRITE3resok :: "WRITE3resok \<Rightarrow> bytes" where
  "enc_WRITE3resok ob =
     enc_post_op_attr (WRITE3resok.file_attributes ob) @
     be32 (WRITE3resok.count ob) @
     be32 (WRITE3resok.committed ob) @
     enc_writeverf3 (WRITE3resok.verf ob)"

definition ok_WRITE3resok :: "WRITE3resok \<Rightarrow> bool" where
  "ok_WRITE3resok ob \<longleftrightarrow> ok_writeverf3 (WRITE3resok.verf ob)"

definition ovr_WRITE3resok :: "WRITE3resok \<Rightarrow> WRITE3resok \<Rightarrow> WRITE3resok" where
  "ovr_WRITE3resok x0 x = \<lparr>WRITE3resok.file_attributes = ovr_post_op_attr (WRITE3resok.file_attributes x0) (WRITE3resok.file_attributes x),
     WRITE3resok.count = WRITE3resok.count x,
     WRITE3resok.committed = WRITE3resok.committed x,
     WRITE3resok.verf = WRITE3resok.verf x\<rparr>"

definition canon_WRITE3resok :: "WRITE3resok \<Rightarrow> bool" where
  "canon_WRITE3resok ob \<longleftrightarrow> canon_post_op_attr (WRITE3resok.file_attributes ob)"

interpretation WRITE3resok_xdr: xdr_roundtrip
  serialize_WRITE3resok deserialize_WRITE3resok enc_WRITE3resok
  ovr_WRITE3resok ok_WRITE3resok "WRITE3resok_init ind" canon_WRITE3resok for ind
proof unfold_locales
  fix x x0 :: WRITE3resok
  show "encodes (serialize_WRITE3resok x) (enc_WRITE3resok x)" if "ok_WRITE3resok x"
    unfolding serialize_WRITE3resok_def enc_WRITE3resok_def using that [unfolded ok_WRITE3resok_def]
    by (intro xenc) auto
  show "decodes (deserialize_WRITE3resok x0) (enc_WRITE3resok x) (ovr_WRITE3resok x0 x)" if "ok_WRITE3resok x"
    unfolding deserialize_WRITE3resok_def enc_WRITE3resok_def
    by (rule decodes_cong, (rule xdec |
        (use that in \<open>simp add: ok_WRITE3resok_def; fail\<close>) |
        (cases x, cases x0, simp add: ovr_WRITE3resok_def; fail))+)
  show "reader (deserialize_WRITE3resok x0)"
    unfolding deserialize_WRITE3resok_def by (intro xrd)
  show "ovr_WRITE3resok (WRITE3resok_init ind) x = x" if "canon_WRITE3resok x"
    using that [unfolded canon_WRITE3resok_def]
    by (cases x) (auto simp: ovr_WRITE3resok_def WRITE3resok_init_def post_op_attr_xdr.ovr_init)
qed

type_synonym WRITE3res = "WRITE3resok nfs_res"

definition serialize_WRITE3res :: "WRITE3res \<Rightarrow> unit xdr" where
  "serialize_WRITE3res = serialize_res serialize_WRITE3resok"

definition deserialize_WRITE3res :: "bytes \<Rightarrow> WRITE3res \<Rightarrow> WRITE3res xdr" where
  "deserialize_WRITE3res ind = deserialize_res (WRITE3resok_init ind) deserialize_WRITE3resok"

end
