(* ===== verification/Nfs3ProcsB.thy ===== *)
theory Nfs3ProcsB
  imports Nfs3Dir
begin

text \<open>
  Arguments and results of the procedures CREATE to LINK, in the naming scheme of
  \<^verbatim>\<open>Nfs3Types\<close>.
\<close>

section \<open>CREATE\<close>

record CREATE3args =
  where_dir :: nfs_fh3
  where_name :: string
  how_mode :: createmode3
  how_attributes :: sattr3
  how_verf :: createverf3

definition CREATE3args_init :: "createmode3 \<Rightarrow> bytes \<Rightarrow> CREATE3args" where
  "CREATE3args_init mode0 ind = \<lparr>CREATE3args.where_dir = nfs_fh3_init,
     CREATE3args.where_name = [],
     CREATE3args.how_mode = mode0,
     CREATE3args.how_attributes = sattr3_init,
     CREATE3args.how_verf = createverf3_init ind\<rparr>"

definition serialize_CREATE3args :: "CREATE3args \<Rightarrow> unit xdr" where
  "serialize_CREATE3args ob = xdo [
     serialize_nfs_fh3 (CREATE3args.where_dir ob),
     pack_string (CREATE3args.where_name ob),
     pack_uint32 (CREATE3args.how_mode ob),
     serialize_sattr3 (CREATE3args.how_attributes ob),
     if CREATE3args.how_mode ob = EXCLUSIVE
     then serialize_createverf3 (CREATE3args.how_verf ob) else xret ()]"

definition deserialize_CREATE3args :: "CREATE3args \<Rightarrow> CREATE3args xdr" where
  "deserialize_CREATE3args = xseq [
     fld CREATE3args.where_dir CREATE3args.where_dir_update deserialize_nfs_fh3,
     fld CREATE3args.where_name CREATE3args.where_name_update unpack_string,
     fld CREATE3args.how_mode CREATE3args.how_mode_update unpack_uint32,
     fld CREATE3args.how_attributes CREATE3args.how_attributes_update deserialize_sattr3,
     \<lambda>ob. if CREATE3args.how_mode ob = EXCLUSIVE
          then fld CREATE3args.how_verf CREATE3args.how_verf_update deserialize_createverf3 ob
          else xret ob]"

definition enc_CREATE3args :: "CREATE3args \<Rightarrow> bytes" where
  "enc_CREATE3args ob =
     enc_nfs_fh3 (CREATE3args.where_dir ob) @
     enc_string (CREATE3args.where_name ob) @
     be32 (CREATE3args.how_mode ob) @
     enc_sattr3 (CREATE3args.how_attributes ob) @
     (if CREATE3args.how_mode ob = EXCLUSIVE
      then enc_createverf3 (CREATE3args.how_verf ob) else [])"

definition ok_CREATE3args :: "CREATE3args \<Rightarrow> bool" where
  "ok_CREATE3args ob \<longleftrightarrow> ok_nfs_fh3 (CREATE3args.where_dir ob) \<and>
     length (CREATE3args.where_name ob) \<le> UINT32_MAX \<and>
     ok_createverf3 (CREATE3args.how_verf ob)"

definition ovr_CREATE3args :: "CREATE3args \<Rightarrow> CREATE3args \<Rightarrow> CREATE3args" where
  "ovr_CREATE3args x0 x = \<lparr>CREATE3args.where_dir = CREATE3args.where_dir x,
     CREATE3args.where_name = CREATE3args.where_name x,
     CREATE3args.how_mode = CREATE3args.how_mode x,
     CREATE3args.how_attributes =
       ovr_sattr3 (CREATE3args.how_attributes x0) (CREATE3args.how_attributes x),
     CREATE3args.how_verf =
       CREATE3args.how_verf (if CREATE3args.how_mode x = EXCLUSIVE then x else x0)\<rparr>"

definition canon_CREATE3args :: "bytes \<Rightarrow> CREATE3args \<Rightarrow> bool" where
  "canon_CREATE3args ind ob \<longleftrightarrow> canon_sattr3 (CREATE3args.how_attributes ob) \<and>
     (CREATE3args.how_mode ob = EXCLUSIVE \<or> CREATE3args.how_verf ob = createverf3_init ind)"

interpretation CREATE3args_xdr: xdr_roundtrip
  serialize_CREATE3args deserialize_CREATE3args enc_CREATE3args
  ovr_CREATE3args ok_CREATE3args "CREATE3args_init mode0 ind" "canon_CREATE3args ind"
  for mode0 ind
proof unfold_locales
  fix x x0 :: CREATE3args
  show "encodes (serialize_CREATE3args x) (enc_CREATE3args x)" if "ok_CREATE3args x"
    unfolding serialize_CREATE3args_def enc_CREATE3args_def using that [unfolded ok_CREATE3args_def]
    by (intro xenc) auto
  show "decodes (deserialize_CREATE3args x0) (enc_CREATE3args x) (ovr_CREATE3args x0 x)"
    if "ok_CREATE3args x"
    unfolding deserialize_CREATE3args_def enc_CREATE3args_def
    by (rule decodes_cong, (rule xdec |
        (use that in \<open>simp add: ok_CREATE3args_def; fail\<close>) |
        (cases x, cases x0, simp add: ovr_CREATE3args_def; fail))+)
  show "reader (deserialize_CREATE3args x0)"
    unfolding deserialize_CREATE3args_def by (intro xrd)
  show "ovr_CREATE3args (CREATE3args_init mode0 ind) x = x" if "canon_CREATE3args ind x"
    using that [unfolded canon_CREATE3args_def]
    by (cases x) (auto simp: ovr_CREATE3args_def CREATE3args_init_def sattr3_xdr.ovr_init)
qed

record CREATE3resok =
  obj_attributes :: post_op_attr
  dir_wcc :: wcc_data
  object :: nfs_fh3

definition CREATE3resok_init :: CREATE3resok where
  "CREATE3resok_init = \<lparr>CREATE3resok.obj_attributes = post_op_attr_init,
     CREATE3resok.dir_wcc = wcc_data_init,
     CREATE3resok.object = nfs_fh3_init\<rparr>"

definition serialize_CREATE3resok :: "CREATE3resok \<Rightarrow> unit xdr" where
  "serialize_CREATE3resok ob = xdo [
     serialize_post_op_attr (CREATE3resok.obj_attributes ob),
     serialize_wcc_data (CREATE3resok.dir_wcc ob),
     serialize_nfs_fh3 (CREATE3resok.object ob)]"

definition deserialize_CREATE3resok :: "CREATE3resok \<Rightarrow> CREATE3resok xdr" where
  "deserialize_CREATE3resok = xseq [
     fld CREATE3resok.obj_attributes CREATE3resok.obj_attributes_update deserialize_post_op_attr,
     fld CREATE3resok.dir_wcc CREATE3resok.dir_wcc_update deserialize_wcc_data,
     fld CREATE3resok.object CREATE3resok.object_update deserialize_nfs_fh3]"

definition enc_CREATE3resok :: "CREATE3resok \<Rightarrow> bytes" where
  "enc_CREATE3resok ob =
     enc_post_op_attr (CREATE3resok.obj_attributes ob) @
     enc_wcc_data (CREATE3resok.dir_wcc ob) @
     enc_nfs_fh3 (CREATE3resok.object ob)"

definition ok_CREATE3resok :: "CREATE3resok \<Rightarrow> bool" where
  "ok_CREATE3resok ob \<longleftrightarrow> ok_nfs_fh3 (CREATE3resok.object ob)"

definition ovr_CREATE3resok :: "CREATE3resok \<Rightarrow> CREATE3resok \<Rightarrow> CREATE3resok" where
  "ovr_CREATE3resok x0 x = \<lparr>CREATE3resok.obj_attributes = ovr_post_op_attr (CREATE3resok.obj_attributes x0) (CREATE3resok.obj_attributes x),
     CREATE3resok.dir_wcc = ovr_wcc_data (CREATE3resok.dir_wcc x0) (CREATE3resok.dir_wcc x),
     CREATE3resok.object = CREATE3resok.object x\<rparr>"

definition canon_CREATE3resok :: "CREATE3resok \<Rightarrow> bool" where
  "canon_CREATE3resok ob \<longleftrightarrow> canon_post_op_attr (CREATE3resok.obj_attributes ob) \<and>
     canon_wcc_data (CREATE3resok.dir_wcc ob)"

interpretation CREATE3resok_xdr: xdr_roundtrip
  serialize_CREATE3resok deserialize_CREATE3resok enc_CREATE3resok
  ovr_CREATE3resok ok_CREATE3resok CREATE3resok_init canon_CREATE3resok
proof unfold_locales
  fix x x0 :: CREATE3resok
  show "encodes (serialize_CREATE3resok x) (enc_CREATE3resok x)" if "ok_CREATE3resok x"
    unfolding serialize_CREATE3resok_def enc_CREATE3resok_def using that [unfolded ok_CREATE3resok_def]
    by (intro xenc) auto
  show "decodes (deserialize_CREATE3resok x0) (enc_CREATE3resok x) (ovr_CREATE3resok x0 x)" if "ok_CREATE3resok x"
    unfolding deserialize_CREATE3resok_def enc_CREATE3resok_def
    by (rule decodes_cong, (rule xdec |
        (use that in \<open>simp add: ok_CREATE3resok_def; fail\<close>) |
        (cases x, cases x0, simp add: ovr_CREATE3resok_def; fail))+)
  show "reader (deserialize_CREATE3resok x0)"
    unfolding deserialize_CREATE3resok_def by (intro xrd)
  show "ovr_CREATE3resok CREATE3resok_init x = x" if "canon_CREATE3resok x"
    using that [unfolded canon_CREATE3resok_def]
    by (cases x) (auto simp: ovr_CREATE3resok_def CREATE3resok_init_def post_op_attr_xdr.ovr_init wcc_data_xdr.ovr_init)
qed

type_synonym CREATE3res = "CREATE3resok nfs_res"

definition serialize_CREATE3res :: "CREATE3res \<Rightarrow> unit xdr" where
  "serialize_CREATE3res = serialize_res serialize_CREATE3resok"

definition deserialize_CREATE3res :: "CREATE3res \<Rightarrow> CREATE3res xdr" where
  "deserialize_CREATE3res = deserialize_res CREATE3resok_init deserialize_CREATE3resok"

section \<open>MKDIR\<close>

record MKDIR3args =
  where_dir :: nfs_fh3
  where_name :: string
  attributes :: sattr3

definition MKDIR3args_init :: MKDIR3args where
  "MKDIR3args_init = \<lparr>MKDIR3args.where_dir = nfs_fh3_init,
     MKDIR3args.where_name = [],
     MKDIR3args.attributes = sattr3_init\<rparr>"

definition serialize_MKDIR3args :: "MKDIR3args \<Rightarrow> unit xdr" where
  "serialize_MKDIR3args ob = xdo [
     serialize_nfs_fh3 (MKDIR3args.where_dir ob),
     pack_string (MKDIR3args.where_name ob),
     serialize_sattr3 (MKDIR3args.attributes ob)]"

definition deserialize_MKDIR3args :: "MKDIR3args \<Rightarrow> MKDIR3args xdr" where
  "deserialize_MKDIR3args = xseq [
     fld MKDIR3args.where_dir MKDIR3args.where_dir_update deserialize_nfs_fh3,
     fld MKDIR3args.where_name MKDIR3args.where_name_update unpack_string,
     fld MKDIR3args.attributes MKDIR3args.attributes_update deserialize_sattr3]"

definition enc_MKDIR3args :: "MKDIR3args \<Rightarrow> bytes" where
  "enc_MKDIR3args ob =
     enc_nfs_fh3 (MKDIR3args.where_dir ob) @
     enc_string (MKDIR3args.where_name ob) @
     enc_sattr3 (MKDIR3args.attributes ob)"

definition ok_MKDIR3args :: "MKDIR3args \<Rightarrow> bool" where
  "ok_MKDIR3args ob \<longleftrightarrow> ok_nfs_fh3 (MKDIR3args.where_dir ob) \<and>
     length (MKDIR3args.where_name ob) \<le> UINT32_MAX"

definition ovr_MKDIR3args :: "MKDIR3args \<Rightarrow> MKDIR3args \<Rightarrow> MKDIR3args" where
  "ovr_MKDIR3args x0 x = \<lparr>MKDIR3args.where_dir = MKDIR3args.where_dir x,
     MKDIR3args.where_name = MKDIR3args.where_name x,
     MKDIR3args.attributes = ovr_sattr3 (MKDIR3args.attributes x0) (MKDIR3args.attributes x)\<rparr>"

definition canon_MKDIR3args :: "MKDIR3args \<Rightarrow> bool" where
  "canon_MKDIR3args ob \<longleftrightarrow> canon_sattr3 (MKDIR3args.attributes ob)"

interpretation MKDIR3args_xdr: xdr_roundtrip
  serialize_MKDIR3args deserialize_MKDIR3args enc_MKDIR3args
  ovr_MKDIR3args ok_MKDIR3args MKDIR3args_init canon_MKDIR3args
proof unfold_locales
  fix x x0 :: MKDIR3args
  show "encodes (serialize_MKDIR3args x) (enc_MKDIR3args x)" if "ok_MKDIR3args x"
    unfolding serialize_MKDIR3args_def enc_MKDIR3args_def using that [unfolded ok_MKDIR3args_def]
    by (intro xenc) auto
  show "decodes (deserialize_MKDIR3args x0) (enc_MKDIR3args x) (ovr_MKDIR3args x0 x)" if "ok_MKDIR3args x"
    unfolding deserialize_MKDIR3args_def enc_MKDIR3args_def
    by (rule decodes_cong, (rule xdec |
        (use that in \<open>simp add: ok_MKDIR3args_def; fail\<close>) |
        (cases x, cases x0, simp add: ovr_MKDIR3args_def; fail))+)
  show "reader (deserialize_MKDIR3args x0)"
    unfolding deserialize_MKDIR3args_def by (intro xrd)
  show "ovr_MKDIR3args MKDIR3args_init x = x" if "canon_MKDIR3args x"
    using that [unfolded canon_MKDIR3args_def]
    by (cases x) (auto simp: ovr_MKDIR3args_def MKDIR3args_init_def sattr3_xdr.ovr_init)
qed

record MKDIR3resok =
  obj_attributes :: post_op_attr
  dir_wcc :: wcc_data
  object :: nfs_fh3

definition MKDIR3resok_init :: MKDIR3resok where
  "MKDIR3resok_init = \<lparr>MKDIR3resok.obj_attributes = post_op_attr_init,
     MKDIR3resok.dir_wcc = wcc_data_init,
     MKDIR3resok.object = nfs_fh3_init\<rparr>"

definition serialize_MKDIR3resok :: "MKDIR3resok \<Rightarrow> unit xdr" where
  "serialize_MKDIR3resok ob = xdo [
     serialize_post_op_attr (MKDIR3resok.obj_attributes ob),
     serialize_wcc_data (MKDIR3resok.dir_wcc ob),
     serialize_nfs_fh3 (MKDIR3resok.object ob)]"

definition deserialize_MKDIR3resok :: "MKDIR3resok \<Rightarrow> MKDIR3resok xdr" where
  "deserialize_MKDIR3resok = xseq [
     fld MKDIR3resok.obj_attributes MKDIR3resok.obj_attributes_update deserialize_post_op_attr,
     fld MKDIR3resok.dir_wcc MKDIR3resok.dir_wcc_update deserialize_wcc_data,
     fld MKDIR3resok.object MKDIR3resok.object_update deserialize_nfs_fh3]"

definition enc_MKDIR3resok :: "MKDIR3resok \<Rightarrow> bytes" where
  "enc_MKDIR3resok ob =
     enc_post_op_attr (MKDIR3resok.obj_attributes ob) @
     enc_wcc_data (MKDIR3resok.dir_wcc ob) @
     enc_nfs_fh3 (MKDIR3resok.object ob)"

definition ok_MKDIR3resok :: "MKDIR3resok \<Rightarrow> bool" where
  "ok_MKDIR3resok ob \<longleftrightarrow> ok_nfs_fh3 (MKDIR3resok.object ob)"

definition ovr_MKDIR3resok :: "MKDIR3resok \<Rightarrow> MKDIR3resok \<Rightarrow> MKDIR3resok" where
  "ovr_MKDIR3resok x0 x = \<lparr>MKDIR3resok.obj_attributes = ovr_post_op_attr (MKDIR3resok.obj_attributes x0) (MKDIR3resok.obj_attributes x),
     MKDIR3resok.dir_wcc = ovr_wcc_data (MKDIR3resok.dir_wcc x0) (MKDIR3resok.dir_wcc x),
     MKDIR3resok.object = MKDIR3resok.object x\<rparr>"

definition canon_MKDIR3resok :: "MKDIR3resok \<Rightarrow> bool" where
  "canon_MKDIR3resok ob \<longleftrightarrow> canon_post_op_attr (MKDIR3resok.obj_attributes ob) \<and>
     canon_wcc_data (MKDIR3resok.dir_wcc ob)"

interpretation MKDIR3resok_xdr: xdr_roundtrip
  serialize_MKDIR3resok deserialize_MKDIR3resok enc_MKDIR3resok
  ovr_MKDIR3resok ok_MKDIR3resok MKDIR3resok_init canon_MKDIR3resok
proof unfold_locales
  fix x x0 :: MKDIR3resok
  show "encodes (serialize_MKDIR3resok x) (enc_MKDIR3resok x)" if "ok_MKDIR3resok x"
    unfolding serialize_MKDIR3resok_def enc_MKDIR3resok_def using that [unfolded ok_MKDIR3resok_def]
    by (intro xenc) auto
  show "decodes (deserialize_MKDIR3resok x0) (enc_MKDIR3resok x) (ovr_MKDIR3resok x0 x)" if "ok_MKDIR3resok x"
    unfolding deserialize_MKDIR3resok_def enc_MKDIR3resok_def
    by (rule decodes_cong, (rule xdec |
        (use that in \<open>simp add: ok_MKDIR3resok_def; fail\<close>) |
        (cases x, cases x0, simp add: ovr_MKDIR3resok_def; fail))+)
  show "reader (deserialize_MKDIR3resok x0)"
    unfolding deserialize_MKDIR3resok_def by (intro xrd)
  show "ovr_MKDIR3resok MKDIR3resok_init x = x" if "canon_MKDIR3resok x"
    using that [unfolded canon_MKDIR3resok_def]
    by (cases x) (auto simp: ovr_MKDIR3resok_def MKDIR3resok_init_def post_op_attr_xdr.ovr_init wcc_data_xdr.ovr_init)
qed

type_synonym MKDIR3res = "MKDIR3resok nfs_res"

definition serialize_MKDIR3res :: "MKDIR3res \<Rightarrow> unit xdr" where
  "serialize_MKDIR3res = serialize_res serialize_MKDIR3resok"

definition deserialize_MKDIR3res :: "MKDIR3res \<Rightarrow> MKDIR3res xdr" where
  "deserialize_MKDIR3res = deserialize_res MKDIR3resok_init deserialize_MKDIR3resok"

section \<open>SYMLINK\<close>

record SYMLINK3args =
  where_dir :: nfs_fh3
  where_name :: string
  symlink_attributes :: sattr3
  symlink_data :: string

definition SYMLINK3args_init :: SYMLINK3args where
  "SYMLINK3args_init = \<lparr>SYMLINK3args.where_dir = nfs_fh3_init,
     SYMLINK3args.where_name = [],
     SYMLINK3args.symlink_attributes = sattr3_init,
     SYMLINK3args.symlink_data = []\<rparr>"

definition serialize_SYMLINK3args :: "SYMLINK3args \<Rightarrow> unit xdr" where
  "serialize_SYMLINK3args ob = xdo [
     serialize_nfs_fh3 (SYMLINK3args.where_dir ob),
     pack_string (SYMLINK3args.where_name ob),
     serialize_sattr3 (SYMLINK3args.symlink_attributes ob),
     pack_string (SYMLINK3args.symlink_data ob)]"

definition deserialize_SYMLINK3args :: "SYMLINK3args \<Rightarrow> SYMLINK3args xdr" where
  "deserialize_SYMLINK3args = xseq [
     fld SYMLINK3args.where_dir SYMLINK3args.where_dir_update deserialize_nfs_fh3,
     fld SYMLINK3args.where_name SYMLINK3args.where_name_update unpack_string,
     fld SYMLINK3args.symlink_attributes SYMLINK3args.symlink_attributes_update deserialize_sattr3,
     fld SYMLINK3args.symlink_data SYMLINK3args.symlink_data_update unpack_string]"

definition enc_SYMLINK3args :: "SYMLINK3args \<Rightarrow> bytes" where
  "enc_SYMLINK3args ob =
     enc_nfs_fh3 (SYMLINK3args.where_dir ob) @
     enc_string (SYMLINK3args.where_name ob) @
     enc_sattr3 (SYMLINK3args.symlink_attributes ob) @
     enc_string (SYMLINK3args.symlink_data ob)"

definition ok_SYMLINK3args :: "SYMLINK3args \<Rightarrow> bool" where
  "ok_SYMLINK3args ob \<longleftrightarrow> ok_nfs_fh3 (SYMLINK3args.where_dir ob) \<and>
     length (SYMLINK3args.where_name ob) \<le> UINT32_MAX \<and>
     length (SYMLINK3args.symlink_data ob) \<le> UINT32_MAX"

definition ovr_SYMLINK3args :: "SYMLINK3args \<Rightarrow> SYMLINK3args \<Rightarrow> SYMLINK3args" where
  "ovr_SYMLINK3args x0 x = \<lparr>SYMLINK3args.where_dir = SYMLINK3args.where_dir x,
     SYMLINK3args.where_name = SYMLINK3args.where_name x,
     SYMLINK3args.symlink_attributes = ovr_sattr3 (SYMLINK3args.symlink_attributes x0) (SYMLINK3args.symlink_attributes x),
     SYMLINK3args.symlink_data = SYMLINK3args.symlink_data x\<rparr>"

definition canon_SYMLINK3args :: "SYMLINK3args \<Rightarrow> bool" where
  "canon_SYMLINK3args ob \<longleftrightarrow> canon_sattr3 (SYMLINK3args.symlink_attributes ob)"

interpretation SYMLINK3args_xdr: xdr_roundtrip
  serialize_SYMLINK3args deserialize_SYMLINK3args enc_SYMLINK3args
  ovr_SYMLINK3args ok_SYMLINK3args SYMLINK3args_init canon_SYMLINK3args
proof unfold_locales
  fix x x0 :: SYMLINK3args
  show "encodes (serialize_SYMLINK3args x) (enc_SYMLINK3args x)" if "ok_SYMLINK3args x"
    unfolding serialize_SYMLINK3args_def enc_SYMLINK3args_def using that [unfolded ok_SYMLINK3args_def]
    by (intro xenc) auto
  show "decodes (deserialize_SYMLINK3args x0) (enc_SYMLINK3args x) (ovr_SYMLINK3args x0 x)" if "ok_SYMLINK3args x"
    unfolding deserialize_SYMLINK3args_def enc_SYMLINK3args_def
    by (rule decodes_cong, (rule xdec |
        (use that in \<open>simp add: ok_SYMLINK3args_def; fail\<close>) |
        (cases x, cases x0, simp add: ovr_SYMLINK3args_def; fail))+)
  show "reader (deserialize_SYMLINK3args x0)"
    unfolding deserialize_SYMLINK3args_def by (intro xrd)
  show "ovr_SYMLINK3args SYMLINK3args_init x = x" if "canon_SYMLINK3args x"
    using that [unfolded canon_SYMLINK3args_def]
    by (cases x) (auto simp: ovr_SYMLINK3args_def SYMLINK3args_init_def sattr3_xdr.ovr_init)
qed

record SYMLINK3resok =
  obj_attributes :: post_op_attr
  dir_wcc :: wcc_data
  object :: nfs_fh3

definition SYMLINK3resok_init :: SYMLINK3resok where
  "SYMLINK3resok_init = \<lparr>SYMLINK3resok.obj_attributes = post_op_attr_init,
     SYMLINK3resok.dir_wcc = wcc_data_init,
     SYMLINK3resok.object = nfs_fh3_init\<rparr>"

definition serialize_SYMLINK3resok :: "SYMLINK3resok \<Rightarrow> unit xdr" where
  "serialize_SYMLINK3resok ob = xdo [
     serialize_post_op_attr (SYMLINK3resok.obj_attributes ob),
     serialize_wcc_data (SYMLINK3resok.dir_wcc ob),
     serialize_nfs_fh3 (SYMLINK3resok.object ob)]"

definition deserialize_SYMLINK3resok :: "SYMLINK3resok \<Rightarrow> SYMLINK3resok xdr" where
  "deserialize_SYMLINK3resok = xseq [
     fld SYMLINK3resok.obj_attributes SYMLINK3resok.obj_attributes_update deserialize_post_op_attr,
     fld SYMLINK3resok.dir_wcc SYMLINK3resok.dir_wcc_update deserialize_wcc_data,
     fld SYMLINK3resok.object SYMLINK3resok.object_update deserialize_nfs_fh3]"

definition enc_SYMLINK3resok :: "SYMLINK3resok \<Rightarrow> bytes" where
  "enc_SYMLINK3resok ob =
     enc_post_op_attr (SYMLINK3resok.obj_attributes ob) @
     enc_wcc_data (SYMLINK3resok.dir_wcc ob) @
     enc_nfs_fh3 (SYMLINK3resok.object ob)"

definition ok_SYMLINK3resok :: "SYMLINK3resok \<Rightarrow> bool" where
  "ok_SYMLINK3resok ob \<longleftrightarrow> ok_nfs_fh3 (SYMLINK3resok.object ob)"

definition ovr_SYMLINK3resok :: "SYMLINK3resok \<Rightarrow> SYMLINK3resok \<Rightarrow> SYMLINK3resok" where
  "ovr_SYMLINK3resok x0 x = \<lparr>SYMLINK3resok.obj_attributes = ovr_post_op_attr (SYMLINK3resok.obj_attributes x0) (SYMLINK3resok.obj_attributes x),
     SYMLINK3resok.dir_wcc = ovr_wcc_data (SYMLINK3resok.dir_wcc x0) (SYMLINK3resok.dir_wcc x),
     SYMLINK3resok.object = SYMLINK3resok.object x\<rparr>"

definition canon_SYMLINK3resok :: "SYMLINK3resok \<Rightarrow> bool" where
  "canon_SYMLINK3resok ob \<longleftrightarrow> canon_post_op_attr (SYMLINK3resok.obj_attributes ob) \<and>
     canon_wcc_data (SYMLINK3resok.dir_wcc ob)"

interpretation SYMLINK3resok_xdr: xdr_roundtrip
  serialize_SYMLINK3resok deserialize_SYMLINK3resok enc_SYMLINK3resok
  ovr_SYMLINK3resok ok_SYMLINK3resok SYMLINK3resok_init canon_SYMLINK3resok
proof unfold_locales
  fix x x0 :: SYMLINK3resok
  show "encodes (serialize_SYMLINK3resok x) (enc_SYMLINK3resok x)" if "ok_SYMLINK3resok x"
    unfolding serialize_SYMLINK3resok_def enc_SYMLINK3resok_def using that [unfolded ok_SYMLINK3resok_def]
    by (intro xenc) auto
  show "decodes (deserialize_SYMLINK3resok x0) (enc_SYMLINK3resok x) (ovr_SYMLINK3resok x0 x)" if "ok_SYMLINK3resok x"
    unfolding deserialize_SYMLINK3resok_def enc_SYMLINK3resok_def
    by (rule decodes_cong, (rule xdec |
        (use that in \<open>simp add: ok_SYMLINK3resok_def; fail\<close>) |
        (cases x, cases x0, simp add: ovr_SYMLINK3resok_def; fail))+)
  show "reader (deserialize_SYMLINK3resok x0)"
    unfolding deserialize_SYMLINK3resok_def by (intro xrd)
  show "ovr_SYMLINK3resok SYMLINK3resok_init x = x" if "canon_SYMLINK3resok x"
    using that [unfolded canon_SYMLINK3resok_def]
    by (cases x) (auto simp: ovr_SYMLINK3resok_def SYMLINK3resok_init_def post_op_attr_xdr.ovr_init wcc_data_xdr.ovr_init)
qed

type_synonym SYMLINK3res = "SYMLINK3resok nfs_res"

definition serialize_SYMLINK3res :: "SYMLINK3res \<Rightarrow> unit xdr" where
  "serialize_SYMLINK3res = serialize_res serialize_SYMLINK3resok"

definition deserialize_SYMLINK3res :: "SYMLINK3res \<Rightarrow> SYMLINK3res xdr" where
  "deserialize_SYMLINK3res = deserialize_res SYMLINK3resok_init deserialize_SYMLINK3resok"

section \<open>MKNOD\<close>

record MKNOD3args =
  where_dir :: nfs_fh3
  where_name :: string
  what_type :: ftype4
  what_attributes :: sattr3

definition MKNOD3args_init :: "ftype4 \<Rightarrow> MKNOD3args" where
  "MKNOD3args_init type0 = \<lparr>MKNOD3args.where_dir = nfs_fh3_init,
     MKNOD3args.where_name = [],
     MKNOD3args.what_type = type0,
     MKNOD3args.what_attributes = sattr3_init\<rparr>"

definition serialize_MKNOD3args :: "MKNOD3args \<Rightarrow> unit xdr" where
  "serialize_MKNOD3args ob = xdo [
     serialize_nfs_fh3 (MKNOD3args.where_dir ob),
     pack_string (MKNOD3args.where_name ob),
     pack_uint32 (MKNOD3args.what_type ob),
     serialize_sattr3 (MKNOD3args.what_attributes ob)]"

definition deserialize_MKNOD3args :: "MKNOD3args \<Rightarrow> MKNOD3args xdr" where
  "deserialize_MKNOD3args = xseq [
     fld MKNOD3args.where_dir MKNOD3args.where_dir_update deserialize_nfs_fh3,
     fld MKNOD3args.where_name MKNOD3args.where_name_update unpack_string,
     fld MKNOD3args.what_type MKNOD3args.what_type_update unpack_uint32,
     fld MKNOD3args.what_attributes MKNOD3args.what_attributes_update deserialize_sattr3]"

definition enc_MKNOD3args :: "MKNOD3args \<Rightarrow> bytes" where
  "enc_MKNOD3args ob =
     enc_nfs_fh3 (MKNOD3args.where_dir ob) @
     enc_string (MKNOD3args.where_name ob) @
     be32 (MKNOD3args.what_type ob) @
     enc_sattr3 (MKNOD3args.what_attributes ob)"

definition ok_MKNOD3args :: "MKNOD3args \<Rightarrow> bool" where
  "ok_MKNOD3args ob \<longleftrightarrow> ok_nfs_fh3 (MKNOD3args.where_dir ob) \<and>
     length (MKNOD3args.where_name ob) \<le> UINT32_MAX"

definition ovr_MKNOD3args :: "MKNOD3args \<Rightarrow> MKNOD3args \<Rightarrow> MKNOD3args" where
  "ovr_MKNOD3args x0 x = \<lparr>MKNOD3args.where_dir = MKNOD3args.where_dir x,
     MKNOD3args.where_name = MKNOD3args.where_name x,
     MKNOD3args.what_type = MKNOD3args.what_type x,
     MKNOD3args.what_attributes = ovr_sattr3 (MKNOD3args.what_attributes x0) (MKNOD3args.what_attributes x)\<rparr>"

definition canon_MKNOD3args :: "MKNOD3args \<Rightarrow> bool" where
  "canon_MKNOD3args ob \<longleftrightarrow> canon_sattr3 (MKNOD3args.what_attributes ob)"

interpretation MKNOD3args_xdr: xdr_roundtrip
  serialize_MKNOD3args deserialize_MKNOD3args enc_MKNOD3args
  ovr_MKNOD3args ok_MKNOD3args "MKNOD3args_init type0" canon_MKNOD3args for type0
proof unfold_locales
  fix x x0 :: MKNOD3args
  show "encodes (serialize_MKNOD3args x) (enc_MKNOD3args x)" if "ok_MKNOD3args x"
    unfolding serialize_MKNOD3args_def enc_MKNOD3args_def using that [unfolded ok_MKNOD3args_def]
    by (intro xenc) auto
  show "decodes (deserialize_MKNOD3args x0) (enc_MKNOD3args x) (ovr_MKNOD3args x0 x)" if "ok_MKNOD3args x"
    unfolding deserialize_MKNOD3args_def enc_MKNOD3args_def
    by (rule decodes_cong, (rule xdec |
        (use that in \<open>simp add: ok_MKNOD3args_def; fail\<close>) |
        (cases x, cases x0, simp add: ovr_MKNOD3args_def; fail))+)
  show "reader (deserialize_MKNOD3args x0)"
    unfolding deserialize_MKNOD3args_def by (intro xrd)
  show "ovr_MKNOD3args (MKNOD3args_init type0) x = x" if "canon_MKNOD3args x"
    using that [unfolded canon_MKNOD3args_def]
    by (cases x) (auto simp: ovr_MKNOD3args_def MKNOD3args_init_def sattr3_xdr.ovr_init)
qed

record MKNOD3resok =
  obj_attributes :: post_op_attr
  dir_wcc :: wcc_data
  object :: nfs_fh3

definition MKNOD3resok_init :: MKNOD3resok where
  "MKNOD3resok_init = \<lparr>MKNOD3resok.obj_attributes = post_op_attr_init,
     MKNOD3resok.dir_wcc = wcc_data_init,
     MKNOD3resok.object = nfs_fh3_init\<rparr>"

definition serialize_MKNOD3resok :: "MKNOD3resok \<Rightarrow> unit xdr" where
  "serialize_MKNOD3resok ob = xdo [
     serialize_post_op_attr (MKNOD3resok.obj_attributes ob),
     serialize_wcc_data (MKNOD3resok.dir_wcc ob),
     serialize_nfs_fh3 (MKNOD3resok.object ob)]"

definition deserialize_MKNOD3resok :: "MKNOD3resok \<Rightarrow> MKNOD3resok xdr" where
  "deserialize_MKNOD3resok = xseq [
     fld MKNOD3resok.obj_attributes MKNOD3resok.obj_attributes_update deserialize_post_op_attr,
     fld MKNOD3resok.dir_wcc MKNOD3resok.dir_wcc_update deserialize_wcc_data,
     fld MKNOD3resok.object MKNOD3resok.object_update deserialize_nfs_fh3]"

definition enc_MKNOD3resok :: "MKNOD3resok \<Rightarrow> bytes" where
  "enc_MKNOD3resok ob =
     enc_post_op_attr (MKNOD3resok.obj_attributes ob) @
     enc_wcc_data (MKNOD3resok.dir_wcc ob) @
     enc_nfs_fh3 (MKNOD3resok.object ob)"

definition ok_MKNOD3resok :: "MKNOD3resok \<Rightarrow> bool" where
  "ok_MKNOD3resok ob \<longleftrightarrow> ok_nfs_fh3 (MKNOD3resok.object ob)"

definition ovr_MKNOD3resok :: "MKNOD3resok \<Rightarrow> MKNOD3resok \<Rightarrow> MKNOD3resok" where
  "ovr_MKNOD3resok x0 x = \<lparr>MKNOD3resok.obj_attributes = ovr_post_op_attr (MKNOD3resok.obj_attributes x0) (MKNOD3resok.obj_attributes x),
     MKNOD3resok.dir_wcc = ovr_wcc_data (MKNOD3resok.dir_wcc x0) (MKNOD3resok.dir_wcc x),
     MKNOD3resok.object = MKNOD3resok.object x\<rparr>"

definition canon_MKNOD3resok :: "MKNOD3resok \<Rightarrow> bool" where
  "canon_MKNOD3resok ob \<longleftrightarrow> canon_post_op_attr (MKNOD3resok.obj_attributes ob) \<and>
     canon_wcc_data (MKNOD3resok.dir_wcc ob)"

interpretation MKNOD3resok_xdr: xdr_roundtrip
  serialize_MKNOD3resok deserialize_MKNOD3resok enc_MKNOD3resok
  ovr_MKNOD3resok ok_MKNOD3resok MKNOD3resok_init canon_MKNOD3resok
proof unfold_locales
  fix x x0 :: MKNOD3resok
  show "encodes (serialize_MKNOD3resok x) (enc_MKNOD3resok x)" if "ok_MKNOD3resok x"
    unfolding serialize_MKNOD3resok_def enc_MKNOD3resok_def using that [unfolded ok_MKNOD3resok_def]
    by (intro xenc) auto
  show "decodes (deserialize_MKNOD3resok x0) (enc_MKNOD3resok x) (ovr_MKNOD3resok x0 x)" if "ok_MKNOD3resok x"
    unfolding deserialize_MKNOD3resok_def enc_MKNOD3resok_def
    by (rule decodes_cong, (rule xdec |
        (use that in \<open>simp add: ok_MKNOD3resok_def; fail\<close>) |
        (cases x, cases x0, simp add: ovr_MKNOD3resok_def; fail))+)
  show "reader (deserialize_MKNOD3resok x0)"
    unfolding deserialize_MKNOD3resok_def by (intro xrd)
  show "ovr_MKNOD3resok MKNOD3resok_init x = x" if "canon_MKNOD3resok x"
    using that [unfolded canon_MKNOD3resok_def]
    by (cases x) (auto simp: ovr_MKNOD3resok_def MKNOD3resok_init_def post_op_attr_xdr.ovr_init wcc_data_xdr.ovr_init)
qed

type_synonym MKNOD3res = "MKNOD3resok nfs_res"

definition serialize_MKNOD3res :: "MKNOD3res \<Rightarrow> unit xdr" where
  "serialize_MKNOD3res = serialize_res serialize_MKNOD3resok"

definition deserialize_MKNOD3res :: "MKNOD3res \<Rightarrow> MKNOD3res xdr" where
  "deserialize_MKNOD3res = deserialize_res MKNOD3resok_init deserialize_MKNOD3resok"

section \<open>REMOVE\<close>

record REMOVE3args =
  object_dir :: nfs_fh3
  object_name :: string

definition REMOVE3args_init :: REMOVE3args where
  "REMOVE3args_init = \<lparr>REMOVE3args.object_dir = nfs_fh3_init,
     REMOVE3args.object_name = []\<rparr>"

definition serialize_REMOVE3args :: "REMOVE3args \<Rightarrow> unit xdr" where
  "serialize_REMOVE3args ob = xdo [
     serialize_nfs_fh3 (REMOVE3args.object_dir ob),
     pack_string (REMOVE3args.object_name ob)]"

definition deserialize_REMOVE3args :: "REMOVE3args \<Rightarrow> REMOVE3args xdr" where
  "deserialize_REMOVE3args = xseq [
     fld REMOVE3args.object_dir REMOVE3args.object_dir_update deserialize_nfs_fh3,
     fld REMOVE3args.object_name REMOVE3args.object_name_update unpack_string]"

definition enc_REMOVE3args :: "REMOVE3args \<Rightarrow> bytes" where
  "enc_REMOVE3args ob =
     enc_nfs_fh3 (REMOVE3args.object_dir ob) @
     enc_string (REMOVE3args.object_name ob)"

definition ok_REMOVE3args :: "REMOVE3args \<Rightarrow> bool" where
  "ok_REMOVE3args ob \<longleftrightarrow> ok_nfs_fh3 (REMOVE3args.object_dir ob) \<and>
     length (REMOVE3args.object_name ob) \<le> UINT32_MAX"

interpretation REMOVE3args_xdr: xdr_roundtrip
  serialize_REMOVE3args deserialize_REMOVE3args enc_REMOVE3args
  "\<lambda>_ x. x" ok_REMOVE3args REMOVE3args_init "\<lambda>_. True"
proof unfold_locales
  fix x x0 :: REMOVE3args
  show "encodes (serialize_REMOVE3args x) (enc_REMOVE3args x)" if "ok_REMOVE3args x"
    unfolding serialize_REMOVE3args_def enc_REMOVE3args_def using that [unfolded ok_REMOVE3args_def]
    by (intro xenc) auto
  show "decodes (deserialize_REMOVE3args x0) (enc_REMOVE3args x) x" if "ok_REMOVE3args x"
    unfolding deserialize_REMOVE3args_def enc_REMOVE3args_def
    by (rule decodes_cong, (rule xdec |
        (use that in \<open>simp add: ok_REMOVE3args_def; fail\<close>) |
        (cases x, cases x0, simp; fail))+)
  show "reader (deserialize_REMOVE3args x0)"
    unfolding deserialize_REMOVE3args_def by (intro xrd)
qed simp_all

record REMOVE3resok =
  dir_wcc :: wcc_data

definition REMOVE3resok_init :: REMOVE3resok where
  "REMOVE3resok_init = \<lparr>REMOVE3resok.dir_wcc = wcc_data_init\<rparr>"

definition serialize_REMOVE3resok :: "REMOVE3resok \<Rightarrow> unit xdr" where
  "serialize_REMOVE3resok ob = xdo [
     serialize_wcc_data (REMOVE3resok.dir_wcc ob)]"

definition deserialize_REMOVE3resok :: "REMOVE3resok \<Rightarrow> REMOVE3resok xdr" where
  "deserialize_REMOVE3resok = xseq [
     fld REMOVE3resok.dir_wcc REMOVE3resok.dir_wcc_update deserialize_wcc_data]"

definition enc_REMOVE3resok :: "REMOVE3resok \<Rightarrow> bytes" where
  "enc_REMOVE3resok ob =
     enc_wcc_data (REMOVE3resok.dir_wcc ob)"

definition ovr_REMOVE3resok :: "REMOVE3resok \<Rightarrow> REMOVE3resok \<Rightarrow> REMOVE3resok" where
  "ovr_REMOVE3resok x0 x = \<lparr>REMOVE3resok.dir_wcc = ovr_wcc_data (REMOVE3resok.dir_wcc x0) (REMOVE3resok.dir_wcc x)\<rparr>"

definition canon_REMOVE3resok :: "REMOVE3resok \<Rightarrow> bool" where
  "canon_REMOVE3resok ob \<longleftrightarrow> canon_wcc_data (REMOVE3resok.dir_wcc ob)"

interpretation REMOVE3resok_xdr: xdr_roundtrip
  serialize_REMOVE3resok deserialize_REMOVE3resok enc_REMOVE3resok
  ovr_REMOVE3resok "\<lambda>_. True" REMOVE3resok_init canon_REMOVE3resok
proof unfold_locales
  fix x x0 :: REMOVE3resok
  show "encodes (serialize_REMOVE3resok x) (enc_REMOVE3resok x)"
    unfolding serialize_REMOVE3resok_def enc_REMOVE3resok_def
    by (intro xenc)
  show "decodes (deserialize_REMOVE3resok x0) (enc_REMOVE3resok x) (ovr_REMOVE3resok x0 x)"
    unfolding deserialize_REMOVE3resok_def enc_REMOVE3resok_def
    by (rule decodes_cong, (rule xdec |
        (cases x, cases x0, simp add: ovr_REMOVE3resok_def; fail))+)
  show "reader (deserialize_REMOVE3resok x0)"
    unfolding deserialize_REMOVE3resok_def by (intro xrd)
  show "ovr_REMOVE3resok REMOVE3resok_init x = x" if "canon_REMOVE3resok x"
    using that [unfolded canon_REMOVE3resok_def]
    by (cases x) (auto simp: ovr_REMOVE3resok_def REMOVE3resok_init_def wcc_data_xdr.ovr_init)
qed

type_synonym REMOVE3res = "REMOVE3resok nfs_res"

definition serialize_REMOVE3res :: "REMOVE3res \<Rightarrow> unit xdr" where
  "serialize_REMOVE3res = serialize_res serialize_REMOVE3resok"

definition deserialize_REMOVE3res :: "REMOVE3res \<Rightarrow> REMOVE3res xdr" where
  "deserialize_REMOVE3res = deserialize_res REMOVE3resok_init deserialize_REMOVE3resok"

section \<open>RMDIR\<close>

record RMDIR3args =
  object_dir :: nfs_fh3
  object_name :: string

definition RMDIR3args_init :: RMDIR3args where
  "RMDIR3args_init = \<lparr>RMDIR3args.object_dir = nfs_fh3_init,
     RMDIR3args.object_name = []\<rparr>"

definition serialize_RMDIR3args :: "RMDIR3args \<Rightarrow> unit xdr" where
  "serialize_RMDIR3args ob = xdo [
     serialize_nfs_fh3 (RMDIR3args.object_dir ob),
     pack_string (RMDIR3args.object_name ob)]"

definition deserialize_RMDIR3args :: "RMDIR3args \<Rightarrow> RMDIR3args xdr" where
  "deserialize_RMDIR3args = xseq [
     fld RMDIR3args.object_dir RMDIR3args.object_dir_update deserialize_nfs_fh3,
     fld RMDIR3args.object_name RMDIR3args.object_name_update unpack_string]"

definition enc_RMDIR3args :: "RMDIR3args \<Rightarrow> bytes" where
  "enc_RMDIR3args ob =
     enc_nfs_fh3 (RMDIR3args.object_dir ob) @
     enc_string (RMDIR3args.object_name ob)"

definition ok_RMDIR3args :: "RMDIR3args \<Rightarrow> bool" where
  "ok_RMDIR3args ob \<longleftrightarrow> ok_nfs_fh3 (RMDIR3args.object_dir ob) \<and>
     length (RMDIR3args.object_name ob) \<le> UINT32_MAX"

interpretation RMDIR3args_xdr: xdr_roundtrip
  serialize_RMDIR3args deserialize_RMDIR3args enc_RMDIR3args
  "\<lambda>_ x. x" ok_RMDIR3args RMDIR3args_init "\<lambda>_. True"
proof unfold_locales
  fix x x0 :: RMDIR3args
  show "encodes (serialize_RMDIR3args x) (enc_RMDIR3args x)" if "ok_RMDIR3args x"
    unfolding serialize_RMDIR3args_def enc_RMDIR3args_def using that [unfolded ok_RMDIR3args_def]
    by (intro xenc) auto
  show "decodes (deserialize_RMDIR3args x0) (enc_RMDIR3args x) x" if "ok_RMDIR3args x"
    unfolding deserialize_RMDIR3args_def enc_RMDIR3args_def
    by (rule decodes_cong, (rule xdec |
        (use that in \<open>simp add: ok_RMDIR3args_def; fail\<close>) |
        (cases x, cases x0, simp; fail))+)
  show "reader (deserialize_RMDIR3args x0)"
    unfolding deserialize_RMDIR3args_def by (intro xrd)
qed simp_all

record RMDIR3resok =
  dir_wcc :: wcc_data

definition RMDIR3resok_init :: RMDIR3resok where
  "RMDIR3resok_init = \<lparr>RMDIR3resok.dir_wcc = wcc_data_init\<rparr>"

definition serialize_RMDIR3resok :: "RMDIR3resok \<Rightarrow> unit xdr" where
  "serialize_RMDIR3resok ob = xdo [
     serialize_wcc_data (RMDIR3resok.dir_wcc ob)]"

definition deserialize_RMDIR3resok :: "RMDIR3resok \<Rightarrow> RMDIR3resok xdr" where
  "deserialize_RMDIR3resok = xseq [
     fld RMDIR3resok.dir_wcc RMDIR3resok.dir_wcc_update deserialize_wcc_data]"

definition enc_RMDIR3resok :: "RMDIR3resok \<Rightarrow> bytes" where
  "enc_RMDIR3resok ob =
     enc_wcc_data (RMDIR3resok.dir_wcc ob)"

definition ovr_RMDIR3resok :: "RMDIR3resok \<Rightarrow> RMDIR3resok \<Rightarrow> RMDIR3resok" where
  "ovr_RMDIR3resok x0 x = \<lparr>RMDIR3resok.dir_wcc = ovr_wcc_data (RMDIR3resok.dir_wcc x0) (RMDIR3resok.dir_wcc x)\<rparr>"

definition canon_RMDIR3resok :: "RMDIR3resok \<Rightarrow> bool" where
  "canon_RMDIR3resok ob \<longleftrightarrow> canon_wcc_data (RMDIR3resok.dir_wcc ob)"

interpretation RMDIR3resok_xdr: xdr_roundtrip
  serialize_RMDIR3resok deserialize_RMDIR3resok enc_RMDIR3resok
  ovr_RMDIR3resok "\<lambda>_. True" RMDIR3resok_init canon_RMDIR3resok
proof unfold_locales
  fix x x0 :: RMDIR3resok
  show "encodes (serialize_RMDIR3resok x) (enc_RMDIR3resok x)"
    unfolding serialize_RMDIR3resok_def enc_RMDIR3resok_def
    by (intro xenc)
  show "decodes (deserialize_RMDIR3resok x0) (enc_RMDIR3resok x) (ovr_RMDIR3resok x0 x)"
    unfolding deserialize_RMDIR3resok_def enc_RMDIR3resok_def
    by (rule decodes_cong, (rule xdec |
        (cases x, cases x0, simp add: ovr_RMDIR3resok_def; fail))+)
  show "reader (deserialize_RMDIR3resok x0)"
    unfolding deserialize_RMDIR3resok_def by (intro xrd)
  show "ovr_RMDIR3resok RMDIR3resok_init x = x" if "canon_RMDIR3resok x"
    using that [unfolded canon_RMDIR3resok_def]
    by (cases x) (auto simp: ovr_RMDIR3resok_def RMDIR3resok_init_def wcc_data_xdr.ovr_init)
qed

type_synonym RMDIR3res = "RMDIR3resok nfs_res"

definition serialize_RMDIR3res :: "RMDIR3res \<Rightarrow> unit xdr" where
  "serialize_RMDIR3res = serialize_res serialize_RMDIR3resok"

definition deserialize_RMDIR3res :: "RMDIR3res \<Rightarrow> RMDIR3res xdr" where
  "deserialize_RMDIR3res = deserialize_res RMDIR3resok_init deserialize_RMDIR3resok"

section \<open>RENAME\<close>

record RENAME3args =
  from_dir :: nfs_fh3
  from_name :: string
  to_dir :: nfs_fh3
  to_name :: string

definition RENAME3args_init :: RENAME3args where
  "RENAME3args_init = \<lparr>RENAME3args.from_dir = nfs_fh3_init,
     RENAME3args.from_name = [],
     RENAME3args.to_dir = nfs_fh3_init,
     RENAME3args.to_name = []\<rparr>"

definition serialize_RENAME3args :: "RENAME3args \<Rightarrow> unit xdr" where
  "serialize_RENAME3args ob = xdo [
     serialize_nfs_fh3 (RENAME3args.from_dir ob),
     pack_string (RENAME3args.from_name ob),
     serialize_nfs_fh3 (RENAME3args.to_dir ob),
     pack_string (RENAME3args.to_name ob)]"

definition deserialize_RENAME3args :: "RENAME3args \<Rightarrow> RENAME3args xdr" where
  "deserialize_RENAME3args = xseq [
     fld RENAME3args.from_dir RENAME3args.from_dir_update deserialize_nfs_fh3,
     fld RENAME3args.from_name RENAME3args.from_name_update unpack_string,
     fld RENAME3args.to_dir RENAME3args.to_dir_update deserialize_nfs_fh3,
     fld RENAME3args.to_name RENAME3args.to_name_update unpack_string]"

definition enc_RENAME3args :: "RENAME3args \<Rightarrow> bytes" where
  "enc_RENAME3args ob =
     enc_nfs_fh3 (RENAME3args.from_dir ob) @
     enc_string (RENAME3args.from_name ob) @
     enc_nfs_fh3 (RENAME3args.to_dir ob) @
     enc_string (RENAME3args.to_name ob)"

definition ok_RENAME3args :: "RENAME3args \<Rightarrow> bool" where
  "ok_RENAME3args ob \<longleftrightarrow> ok_nfs_fh3 (RENAME3args.from_dir ob) \<and>
     length (RENAME3args.from_name ob) \<le> UINT32_MAX \<and>
     ok_nfs_fh3 (RENAME3args.to_dir ob) \<and>
     length (RENAME3args.to_name ob) \<le> UINT32_MAX"

interpretation RENAME3args_xdr: xdr_roundtrip
  serialize_RENAME3args deserialize_RENAME3args enc_RENAME3args
  "\<lambda>_ x. x" ok_RENAME3args RENAME3args_init "\<lambda>_. True"
proof unfold_locales
  fix x x0 :: RENAME3args
  show "encodes (serialize_RENAME3args x) (enc_RENAME3args x)" if "ok_RENAME3args x"
    unfolding serialize_RENAME3args_def enc_RENAME3args_def using that [unfolded ok_RENAME3args_def]
    by (intro xenc) auto
  show "decodes (deserialize_RENAME3args x0) (enc_RENAME3args x) x" if "ok_RENAME3args x"
    unfolding deserialize_RENAME3args_def enc_RENAME3args_def
    by (rule decodes_cong, (rule xdec |
        (use that in \<open>simp add: ok_RENAME3args_def; fail\<close>) |
        (cases x, cases x0, simp; fail))+)
  show "reader (deserialize_RENAME3args x0)"
    unfolding deserialize_RENAME3args_def by (intro xrd)
qed simp_all

record RENAME3resok =
  fromdir_wcc :: wcc_data
  todir_wcc :: wcc_data

definition RENAME3resok_init :: RENAME3resok where
  "RENAME3resok_init = \<lparr>RENAME3resok.fromdir_wcc = wcc_data_init,
     RENAME3resok.todir_wcc = wcc_data_init\<rparr>"

definition serialize_RENAME3resok :: "RENAME3resok \<Rightarrow> unit xdr" where
  "serialize_RENAME3resok ob = xdo [
     serialize_wcc_data (RENAME3resok.fromdir_wcc ob),
     serialize_wcc_data (RENAME3resok.todir_wcc ob)]"

definition deserialize_RENAME3resok :: "RENAME3resok \<Rightarrow> RENAME3resok xdr" where
  "deserialize_RENAME3resok = xseq [
     fld RENAME3resok.fromdir_wcc RENAME3resok.fromdir_wcc_update deserialize_wcc_data,
     fld RENAME3resok.todir_wcc RENAME3resok.todir_wcc_update deserialize_wcc_data]"

definition enc_RENAME3resok :: "RENAME3resok \<Rightarrow> bytes" where
  "enc_RENAME3resok ob =
     enc_wcc_data (RENAME3resok.fromdir_wcc ob) @
     enc_wcc_data (RENAME3resok.todir_wcc ob)"

definition ovr_RENAME3resok :: "RENAME3resok \<Rightarrow> RENAME3resok \<Rightarrow> RENAME3resok" where
  "ovr_RENAME3resok x0 x = \<lparr>RENAME3resok.fromdir_wcc = ovr_wcc_data (RENAME3resok.fromdir_wcc x0) (RENAME3resok.fromdir_wcc x),
     RENAME3resok.todir_wcc = ovr_wcc_data (RENAME3resok.todir_wcc x0) (RENAME3resok.todir_wcc x)\<rparr>"

definition canon_RENAME3resok :: "RENAME3resok \<Rightarrow> bool" where
  "canon_RENAME3resok ob \<longleftrightarrow> canon_wcc_data (RENAME3resok.fromdir_wcc ob) \<and>
     canon_wcc_data (RENAME3resok.todir_wcc ob)"

interpretation RENAME3resok_xdr: xdr_roundtrip
  serialize_RENAME3resok deserialize_RENAME3resok enc_RENAME3resok
  ovr_RENAME3resok "\<lambda>_. True" RENAME3resok_init canon_RENAME3resok
proof unfold_locales
  fix x x0 :: RENAME3resok
  show "encodes (serialize_RENAME3resok x) (enc_RENAME3resok x)"
    unfolding serialize_RENAME3resok_def enc_RENAME3resok_def
    by (intro xenc)
  show "decodes (deserialize_RENAME3resok x0) (enc_RENAME3resok x) (ovr_RENAME3resok x0 x)"
    unfolding deserialize_RENAME3resok_def enc_RENAME3resok_def
    by (rule decodes_cong, (rule xdec |
        (cases x, cases x0, simp add: ovr_RENAME3resok_def; fail))+)
  show "reader (deserialize_RENAME3resok x0)"
    unfolding deserialize_RENAME3resok_def by (intro xrd)
  show "ovr_RENAME3resok RENAME3resok_init x = x" if "canon_RENAME3resok x"
    using that [unfolded canon_RENAME3resok_def]
    by (cases x) (auto simp: ovr_RENAME3resok_def RENAME3resok_init_def wcc_data_xdr.ovr_init)
qed

type_synonym RENAME3res = "RENAME3resok nfs_res"

definition serialize_RENAME3res :: "RENAME3res \<Rightarrow> unit xdr" where
  "serialize_RENAME3res = serialize_res serialize_RENAME3resok"

definition deserialize_RENAME3res :: "RENAME3res \<Rightarrow> RENAME3res xdr" where
  "deserialize_RENAME3res = deserialize_res RENAME3resok_init deserialize_RENAME3resok"

section \<open>LINK\<close>

record LINK3args =
  file3 :: nfs_fh3
  link_dir :: nfs_fh3
  link_name :: string

definition LINK3args_init :: LINK3args where
  "LINK3args_init = \<lparr>LINK3args.file3 = nfs_fh3_init,
     LINK3args.link_dir = nfs_fh3_init,
     LINK3args.link_name = []\<rparr>"

definition serialize_LINK3args :: "LINK3args \<Rightarrow> unit xdr" where
  "serialize_LINK3args ob = xdo [
     serialize_nfs_fh3 (LINK3args.file3 ob),
     serialize_nfs_fh3 (LINK3args.link_dir ob),
     pack_string (LINK3args.link_name ob)]"

definition deserialize_LINK3args :: "LINK3args \<Rightarrow> LINK3args xdr" where
  "deserialize_LINK3args = xseq [
     fld LINK3args.file3 LINK3args.file3_update deserialize_nfs_fh3,
     fld LINK3args.link_dir LINK3args.link_dir_update deserialize_nfs_fh3,
     fld LINK3args.link_name LINK3args.link_name_update unpack_string]"

definition enc_LINK3args :: "LINK3args \<Rightarrow> bytes" where
  "enc_LINK3args ob =
     enc_nfs_fh3 (LINK3args.file3 ob) @
     enc_nfs_fh3 (LINK3args.link_dir ob) @
     enc_string (LINK3args.link_name ob)"

definition ok_LINK3args :: "LINK3args \<Rightarrow> bool" where
  "ok_LINK3args ob \<longleftrightarrow> ok_nfs_fh3 (LINK3args.file3 ob) \<and>
     ok_nfs_fh3 (LINK3args.link_dir ob) \<and>
     length (LINK3args.link_name ob) \<le> UINT32_MAX"

interpretation LINK3args_xdr: xdr_roundtrip
  serialize_LINK3args deserialize_LINK3args enc_LINK3args
  "\<lambda>_ x. x" ok_LINK3args LINK3args_init "\<lambda>_. True"
proof unfold_locales
  fix x x0 :: LINK3args
  show "encodes (serialize_LINK3args x) (enc_LINK3args x)" if "ok_LINK3args x"
    unfolding serialize_LINK3args_def enc_LINK3args_def using that [unfolded ok_LINK3args_def]
    by (intro xenc) auto
  show "decodes (deserialize_LINK3args x0) (enc_LINK3args x) x" if "ok_LINK3args x"
    unfolding deserialize_LINK3args_def enc_LINK3args_def
    by (rule decodes_cong, (rule xdec |
        (use that in \<open>simp add: ok_LINK3args_def; fail\<close>) |
        (cases x, cases x0, simp; fail))+)
  show "reader (deserialize_LINK3args x0)"
    unfolding deserialize_LINK3args_def by (intro xrd)
qed simp_all

record LINK3resok =
  file_attributes :: post_op_attr
  linkdir_wcc :: wcc_data

definition LINK3resok_init :: LINK3resok where
  "LINK3resok_init = \<lparr>LINK3resok.file_attributes = post_op_attr_init,
     LINK3resok.linkdir_wcc = wcc_data_init\<rparr>"

definition serialize_LINK3resok :: "LINK3resok \<Rightarrow> unit xdr" where
  "serialize_LINK3resok ob = xdo [
     serialize_post_op_attr (LINK3resok.file_attributes ob),
     serialize_wcc_data (LINK3resok.linkdir_wcc ob)]"

definition deserialize_LINK3resok :: "LINK3resok \<Rightarrow> LINK3resok xdr" where
  "deserialize_LINK3resok = xseq [
     fld LINK3resok.file_attributes LINK3resok.file_attributes_update deserialize_post_op_attr,
     fld LINK3resok.linkdir_wcc LINK3resok.linkdir_wcc_update deserialize_wcc_data]"

definition enc_LINK3resok :: "LINK3resok \<Rightarrow> bytes" where
  "enc_LINK3resok ob =
     enc_post_op_attr (LINK3resok.file_attributes ob) @
     enc_wcc_data (LINK3resok.linkdir_wcc ob)"

definition ovr_LINK3resok :: "LINK3resok \<Rightarrow> LINK3resok \<Rightarrow> LINK3resok" where
  "ovr_LINK3resok x0 x = \<lparr>LINK3resok.file_attributes = ovr_post_op_attr (LINK3resok.file_attributes x0) (LINK3resok.file_attributes x),
     LINK3resok.linkdir_wcc = ovr_wcc_data (LINK3resok.linkdir_wcc x0) (LINK3resok.linkdir_wcc x)\<rparr>"

definition canon_LINK3resok :: "LINK3resok \<Rightarrow> bool" where
  "canon_LINK3resok ob \<longleftrightarrow> canon_post_op_attr (LINK3resok.file_attributes ob) \<and>
     canon_wcc_data (LINK3resok.linkdir_wcc ob)"

interpretation LINK3resok_xdr: xdr_roundtrip
  serialize_LINK3resok deserialize_LINK3resok enc_LINK3resok
  ovr_LINK3resok "\<lambda>_. True" LINK3resok_init canon_LINK3resok
proof unfold_locales
  fix x x0 :: LINK3resok
  show "encodes (serialize_LINK3resok x) (enc_LINK3resok x)"
    unfolding serialize_LINK3resok_def enc_LINK3resok_def
    by (intro xenc)
  show "decodes (deserialize_LINK3resok x0) (enc_LINK3resok x) (ovr_LINK3resok x0 x)"
    unfolding deserialize_LINK3resok_def enc_LINK3resok_def
    by (rule decodes_cong, (rule xdec |
        (cases x, cases x0, simp add: ovr_LINK3resok_def; fail))+)
  show "reader (deserialize_LINK3resok x0)"
    unfolding deserialize_LINK3resok_def by (intro xrd)
  show "ovr_LINK3resok LINK3resok_init x = x" if "canon_LINK3resok x"
    using that [unfolded canon_LINK3resok_def]
    by (cases x) (auto simp: ovr_LINK3resok_def LINK3resok_init_def post_op_attr_xdr.ovr_init wcc_data_xdr.ovr_init)
qed

type_synonym LINK3res = "LINK3resok nfs_res"

definition serialize_LINK3res :: "LINK3res \<Rightarrow> unit xdr" where
  "serialize_LINK3res = serialize_res serialize_LINK3resok"

definition deserialize_LINK3res :: "LINK3res \<Rightarrow> LINK3res xdr" where
  "deserialize_LINK3res = deserialize_res LINK3resok_init deserialize_LINK3resok"

end
