(* ===== verification/Nfs3ProcsC.thy ===== *)
theory Nfs3ProcsC
  imports Nfs3Dir
begin

text \<open>
  Arguments and results of the procedures READDIR to COMMIT, in the naming scheme of
  \<^verbatim>\<open>Nfs3Types\<close>, and the unused \<^verbatim>\<open>fsinfo3_resok_property\<close>.
\<close>

section \<open>Directory lists\<close>

record dirlist3 =
  entries :: "entry3 option"
  eof :: bool

definition dirlist3_init :: dirlist3 where
  "dirlist3_init = \<lparr>dirlist3.entries = None,
     dirlist3.eof = False\<rparr>"

definition serialize_dirlist3 :: "dirlist3 \<Rightarrow> unit xdr" where
  "serialize_dirlist3 ob = xdo [
     pack_optional serialize_entry3 (dirlist3.entries ob),
     pack_bool (dirlist3.eof ob)]"

definition deserialize_dirlist3 :: "dirlist3 \<Rightarrow> dirlist3 xdr" where
  "deserialize_dirlist3 = xseq [
     fld dirlist3.entries dirlist3.entries_update (unpack_optional entry3_init deserialize_entry3),
     fld dirlist3.eof dirlist3.eof_update unpack_bool]"

definition enc_dirlist3 :: "dirlist3 \<Rightarrow> bytes" where
  "enc_dirlist3 ob =
     enc_optional enc_entry3 (dirlist3.entries ob) @
     enc_bool (dirlist3.eof ob)"

definition ok_dirlist3 :: "dirlist3 \<Rightarrow> bool" where
  "ok_dirlist3 ob \<longleftrightarrow> ok_optional ok_entry3 (dirlist3.entries ob)"

definition ovr_dirlist3 :: "dirlist3 \<Rightarrow> dirlist3 \<Rightarrow> dirlist3" where
  "ovr_dirlist3 x0 x = \<lparr>dirlist3.entries = ovr_optional (\<lambda>v. v) (dirlist3.entries x0) (dirlist3.entries x),
     dirlist3.eof = dirlist3.eof x\<rparr>"

interpretation dirlist3_xdr: xdr_roundtrip
  serialize_dirlist3 deserialize_dirlist3 enc_dirlist3
  ovr_dirlist3 ok_dirlist3 dirlist3_init "\<lambda>_. True"
proof unfold_locales
  fix x x0 :: dirlist3
  show "encodes (serialize_dirlist3 x) (enc_dirlist3 x)" if "ok_dirlist3 x"
    unfolding serialize_dirlist3_def enc_dirlist3_def using that [unfolded ok_dirlist3_def]
    by (intro xenc) auto
  show "decodes (deserialize_dirlist3 x0) (enc_dirlist3 x) (ovr_dirlist3 x0 x)" if "ok_dirlist3 x"
    unfolding deserialize_dirlist3_def enc_dirlist3_def
    by (rule decodes_cong, (rule xdec |
        (use that in \<open>simp add: ok_dirlist3_def; fail\<close>) |
        (cases x, cases x0, simp add: ovr_dirlist3_def; fail))+)
  show "reader (deserialize_dirlist3 x0)"
    unfolding deserialize_dirlist3_def by (intro xrd)
  show "ovr_dirlist3 dirlist3_init x = x"
    by (cases x) (auto simp: ovr_dirlist3_def dirlist3_init_def)
qed

record dirlistplus3 =
  entries :: "entryplus3 option"
  eof :: bool

definition dirlistplus3_init :: dirlistplus3 where
  "dirlistplus3_init = \<lparr>dirlistplus3.entries = None,
     dirlistplus3.eof = False\<rparr>"

definition serialize_dirlistplus3 :: "dirlistplus3 \<Rightarrow> unit xdr" where
  "serialize_dirlistplus3 ob = xdo [
     pack_optional serialize_entryplus3 (dirlistplus3.entries ob),
     pack_bool (dirlistplus3.eof ob)]"

definition deserialize_dirlistplus3 :: "dirlistplus3 \<Rightarrow> dirlistplus3 xdr" where
  "deserialize_dirlistplus3 = xseq [
     fld dirlistplus3.entries dirlistplus3.entries_update (unpack_optional entryplus3_init deserialize_entryplus3),
     fld dirlistplus3.eof dirlistplus3.eof_update unpack_bool]"

definition enc_dirlistplus3 :: "dirlistplus3 \<Rightarrow> bytes" where
  "enc_dirlistplus3 ob =
     enc_optional enc_entryplus3 (dirlistplus3.entries ob) @
     enc_bool (dirlistplus3.eof ob)"

definition ok_dirlistplus3 :: "dirlistplus3 \<Rightarrow> bool" where
  "ok_dirlistplus3 ob \<longleftrightarrow> ok_optional ok_entryplus3 (dirlistplus3.entries ob)"

definition ovr_dirlistplus3 :: "dirlistplus3 \<Rightarrow> dirlistplus3 \<Rightarrow> dirlistplus3" where
  "ovr_dirlistplus3 x0 x = \<lparr>dirlistplus3.entries = ovr_optional (ovr_entryplus3 entryplus3_init) (dirlistplus3.entries x0) (dirlistplus3.entries x),
     dirlistplus3.eof = dirlistplus3.eof x\<rparr>"

definition canon_dirlistplus3 :: "dirlistplus3 \<Rightarrow> bool" where
  "canon_dirlistplus3 ob \<longleftrightarrow> ok_optional canon_entryplus3 (dirlistplus3.entries ob)"

interpretation dirlistplus3_xdr: xdr_roundtrip
  serialize_dirlistplus3 deserialize_dirlistplus3 enc_dirlistplus3
  ovr_dirlistplus3 ok_dirlistplus3 dirlistplus3_init canon_dirlistplus3
proof unfold_locales
  fix x x0 :: dirlistplus3
  show "encodes (serialize_dirlistplus3 x) (enc_dirlistplus3 x)" if "ok_dirlistplus3 x"
    unfolding serialize_dirlistplus3_def enc_dirlistplus3_def using that [unfolded ok_dirlistplus3_def]
    by (intro xenc) auto
  show "decodes (deserialize_dirlistplus3 x0) (enc_dirlistplus3 x) (ovr_dirlistplus3 x0 x)" if "ok_dirlistplus3 x"
    unfolding deserialize_dirlistplus3_def enc_dirlistplus3_def
    by (rule decodes_cong, (rule xdec |
        (use that in \<open>simp add: ok_dirlistplus3_def; fail\<close>) |
        (cases x, cases x0, simp add: ovr_dirlistplus3_def; fail))+)
  show "reader (deserialize_dirlistplus3 x0)"
    unfolding deserialize_dirlistplus3_def by (intro xrd)
  show "ovr_dirlistplus3 dirlistplus3_init x = x" if "canon_dirlistplus3 x"
    using that [unfolded canon_dirlistplus3_def]
    by (cases x) (auto simp: ovr_dirlistplus3_def dirlistplus3_init_def ovr_optional_def ok_optional_def ovr_entryplus3_init split: option.splits)
qed

section \<open>READDIR\<close>

record READDIR3args =
  dir :: nfs_fh3
  cookie :: uint64
  cookieverf :: uint64
  count :: uint32

definition READDIR3args_init :: READDIR3args where
  "READDIR3args_init = \<lparr>READDIR3args.dir = nfs_fh3_init,
     READDIR3args.cookie = 0,
     READDIR3args.cookieverf = 0,
     READDIR3args.count = 0\<rparr>"

definition serialize_READDIR3args :: "READDIR3args \<Rightarrow> unit xdr" where
  "serialize_READDIR3args ob = xdo [
     serialize_nfs_fh3 (READDIR3args.dir ob),
     pack_uint64 (READDIR3args.cookie ob),
     pack_uint64 (READDIR3args.cookieverf ob),
     pack_uint32 (READDIR3args.count ob)]"

definition deserialize_READDIR3args :: "READDIR3args \<Rightarrow> READDIR3args xdr" where
  "deserialize_READDIR3args = xseq [
     fld READDIR3args.dir READDIR3args.dir_update deserialize_nfs_fh3,
     fld READDIR3args.cookie READDIR3args.cookie_update unpack_uint64,
     fld READDIR3args.cookieverf READDIR3args.cookieverf_update unpack_uint64,
     fld READDIR3args.count READDIR3args.count_update unpack_uint32]"

definition enc_READDIR3args :: "READDIR3args \<Rightarrow> bytes" where
  "enc_READDIR3args ob =
     enc_nfs_fh3 (READDIR3args.dir ob) @
     be64 (READDIR3args.cookie ob) @
     be64 (READDIR3args.cookieverf ob) @
     be32 (READDIR3args.count ob)"

definition ok_READDIR3args :: "READDIR3args \<Rightarrow> bool" where
  "ok_READDIR3args ob \<longleftrightarrow> ok_nfs_fh3 (READDIR3args.dir ob)"

interpretation READDIR3args_xdr: xdr_roundtrip
  serialize_READDIR3args deserialize_READDIR3args enc_READDIR3args
  "\<lambda>_ x. x" ok_READDIR3args READDIR3args_init "\<lambda>_. True"
proof unfold_locales
  fix x x0 :: READDIR3args
  show "encodes (serialize_READDIR3args x) (enc_READDIR3args x)" if "ok_READDIR3args x"
    unfolding serialize_READDIR3args_def enc_READDIR3args_def using that [unfolded ok_READDIR3args_def]
    by (intro xenc) auto
  show "decodes (deserialize_READDIR3args x0) (enc_READDIR3args x) x" if "ok_READDIR3args x"
    unfolding deserialize_READDIR3args_def enc_READDIR3args_def
    by (rule decodes_cong, (rule xdec |
        (use that in \<open>simp add: ok_READDIR3args_def; fail\<close>) |
        (cases x, cases x0, simp; fail))+)
  show "reader (deserialize_READDIR3args x0)"
    unfolding deserialize_READDIR3args_def by (intro xrd)
qed simp_all

record READDIR3resok =
  dir_attributes :: post_op_attr
  cookieverf :: uint64
  reply :: dirlist3

definition READDIR3resok_init :: READDIR3resok where
  "READDIR3resok_init = \<lparr>READDIR3resok.dir_attributes = post_op_attr_init,
     READDIR3resok.cookieverf = 0,
     READDIR3resok.reply = dirlist3_init\<rparr>"

definition serialize_READDIR3resok :: "READDIR3resok \<Rightarrow> unit xdr" where
  "serialize_READDIR3resok ob = xdo [
     serialize_post_op_attr (READDIR3resok.dir_attributes ob),
     pack_uint64 (READDIR3resok.cookieverf ob),
     serialize_dirlist3 (READDIR3resok.reply ob)]"

definition deserialize_READDIR3resok :: "READDIR3resok \<Rightarrow> READDIR3resok xdr" where
  "deserialize_READDIR3resok = xseq [
     fld READDIR3resok.dir_attributes READDIR3resok.dir_attributes_update deserialize_post_op_attr,
     fld READDIR3resok.cookieverf READDIR3resok.cookieverf_update unpack_uint64,
     fld READDIR3resok.reply READDIR3resok.reply_update deserialize_dirlist3]"

definition enc_READDIR3resok :: "READDIR3resok \<Rightarrow> bytes" where
  "enc_READDIR3resok ob =
     enc_post_op_attr (READDIR3resok.dir_attributes ob) @
     be64 (READDIR3resok.cookieverf ob) @
     enc_dirlist3 (READDIR3resok.reply ob)"

definition ok_READDIR3resok :: "READDIR3resok \<Rightarrow> bool" where
  "ok_READDIR3resok ob \<longleftrightarrow> ok_dirlist3 (READDIR3resok.reply ob)"

definition ovr_READDIR3resok :: "READDIR3resok \<Rightarrow> READDIR3resok \<Rightarrow> READDIR3resok" where
  "ovr_READDIR3resok x0 x = \<lparr>READDIR3resok.dir_attributes = ovr_post_op_attr (READDIR3resok.dir_attributes x0) (READDIR3resok.dir_attributes x),
     READDIR3resok.cookieverf = READDIR3resok.cookieverf x,
     READDIR3resok.reply = ovr_dirlist3 (READDIR3resok.reply x0) (READDIR3resok.reply x)\<rparr>"

definition canon_READDIR3resok :: "READDIR3resok \<Rightarrow> bool" where
  "canon_READDIR3resok ob \<longleftrightarrow> canon_post_op_attr (READDIR3resok.dir_attributes ob)"

interpretation READDIR3resok_xdr: xdr_roundtrip
  serialize_READDIR3resok deserialize_READDIR3resok enc_READDIR3resok
  ovr_READDIR3resok ok_READDIR3resok READDIR3resok_init canon_READDIR3resok
proof unfold_locales
  fix x x0 :: READDIR3resok
  show "encodes (serialize_READDIR3resok x) (enc_READDIR3resok x)" if "ok_READDIR3resok x"
    unfolding serialize_READDIR3resok_def enc_READDIR3resok_def using that [unfolded ok_READDIR3resok_def]
    by (intro xenc) auto
  show "decodes (deserialize_READDIR3resok x0) (enc_READDIR3resok x) (ovr_READDIR3resok x0 x)" if "ok_READDIR3resok x"
    unfolding deserialize_READDIR3resok_def enc_READDIR3resok_def
    by (rule decodes_cong, (rule xdec |
        (use that in \<open>simp add: ok_READDIR3resok_def; fail\<close>) |
        (cases x, cases x0, simp add: ovr_READDIR3resok_def; fail))+)
  show "reader (deserialize_READDIR3resok x0)"
    unfolding deserialize_READDIR3resok_def by (intro xrd)
  show "ovr_READDIR3resok READDIR3resok_init x = x" if "canon_READDIR3resok x"
    using that [unfolded canon_READDIR3resok_def]
    by (cases x) (auto simp: ovr_READDIR3resok_def READDIR3resok_init_def post_op_attr_xdr.ovr_init dirlist3_xdr.ovr_init)
qed

type_synonym READDIR3res = "READDIR3resok nfs_res"

definition serialize_READDIR3res :: "READDIR3res \<Rightarrow> unit xdr" where
  "serialize_READDIR3res = serialize_res serialize_READDIR3resok"

definition deserialize_READDIR3res :: "READDIR3res \<Rightarrow> READDIR3res xdr" where
  "deserialize_READDIR3res = deserialize_res READDIR3resok_init deserialize_READDIR3resok"

section \<open>READDIRPLUS\<close>

record READDIRPLUS3args =
  dir :: nfs_fh3
  cookie :: uint64
  cookieverf :: uint64
  dircount :: uint32
  maxcount :: uint32

definition READDIRPLUS3args_init :: READDIRPLUS3args where
  "READDIRPLUS3args_init = \<lparr>READDIRPLUS3args.dir = nfs_fh3_init,
     READDIRPLUS3args.cookie = 0,
     READDIRPLUS3args.cookieverf = 0,
     READDIRPLUS3args.dircount = 0,
     READDIRPLUS3args.maxcount = 0\<rparr>"

definition serialize_READDIRPLUS3args :: "READDIRPLUS3args \<Rightarrow> unit xdr" where
  "serialize_READDIRPLUS3args ob = xdo [
     serialize_nfs_fh3 (READDIRPLUS3args.dir ob),
     pack_uint64 (READDIRPLUS3args.cookie ob),
     pack_uint64 (READDIRPLUS3args.cookieverf ob),
     pack_uint32 (READDIRPLUS3args.dircount ob),
     pack_uint32 (READDIRPLUS3args.maxcount ob)]"

definition deserialize_READDIRPLUS3args :: "READDIRPLUS3args \<Rightarrow> READDIRPLUS3args xdr" where
  "deserialize_READDIRPLUS3args = xseq [
     fld READDIRPLUS3args.dir READDIRPLUS3args.dir_update deserialize_nfs_fh3,
     fld READDIRPLUS3args.cookie READDIRPLUS3args.cookie_update unpack_uint64,
     fld READDIRPLUS3args.cookieverf READDIRPLUS3args.cookieverf_update unpack_uint64,
     fld READDIRPLUS3args.dircount READDIRPLUS3args.dircount_update unpack_uint32,
     fld READDIRPLUS3args.maxcount READDIRPLUS3args.maxcount_update unpack_uint32]"

definition enc_READDIRPLUS3args :: "READDIRPLUS3args \<Rightarrow> bytes" where
  "enc_READDIRPLUS3args ob =
     enc_nfs_fh3 (READDIRPLUS3args.dir ob) @
     be64 (READDIRPLUS3args.cookie ob) @
     be64 (READDIRPLUS3args.cookieverf ob) @
     be32 (READDIRPLUS3args.dircount ob) @
     be32 (READDIRPLUS3args.maxcount ob)"

definition ok_READDIRPLUS3args :: "READDIRPLUS3args \<Rightarrow> bool" where
  "ok_READDIRPLUS3args ob \<longleftrightarrow> ok_nfs_fh3 (READDIRPLUS3args.dir ob)"

interpretation READDIRPLUS3args_xdr: xdr_roundtrip
  serialize_READDIRPLUS3args deserialize_READDIRPLUS3args enc_READDIRPLUS3args
  "\<lambda>_ x. x" ok_READDIRPLUS3args READDIRPLUS3args_init "\<lambda>_. True"
proof unfold_locales
  fix x x0 :: READDIRPLUS3args
  show "encodes (serialize_READDIRPLUS3args x) (enc_READDIRPLUS3args x)" if "ok_READDIRPLUS3args x"
    unfolding serialize_READDIRPLUS3args_def enc_READDIRPLUS3args_def using that [unfolded ok_READDIRPLUS3args_def]
    by (intro xenc) auto
  show "decodes (deserialize_READDIRPLUS3args x0) (enc_READDIRPLUS3args x) x" if "ok_READDIRPLUS3args x"
    unfolding deserialize_READDIRPLUS3args_def enc_READDIRPLUS3args_def
    by (rule decodes_cong, (rule xdec |
        (use that in \<open>simp add: ok_READDIRPLUS3args_def; fail\<close>) |
        (cases x, cases x0, simp; fail))+)
  show "reader (deserialize_READDIRPLUS3args x0)"
    unfolding deserialize_READDIRPLUS3args_def by (intro xrd)
qed simp_all

record READDIRPLUS3resok =
  dir_attributes :: post_op_attr
  cookieverf :: uint64
  reply :: dirlistplus3

definition READDIRPLUS3resok_init :: READDIRPLUS3resok where
  "READDIRPLUS3resok_init = \<lparr>READDIRPLUS3resok.dir_attributes = post_op_attr_init,
     READDIRPLUS3resok.cookieverf = 0,
     READDIRPLUS3resok.reply = dirlistplus3_init\<rparr>"

definition serialize_READDIRPLUS3resok :: "READDIRPLUS3resok \<Rightarrow> unit xdr" where
  "serialize_READDIRPLUS3resok ob = xdo [
     serialize_post_op_attr (READDIRPLUS3resok.dir_attributes ob),
     pack_uint64 (READDIRPLUS3resok.cookieverf ob),
     serialize_dirlistplus3 (READDIRPLUS3resok.reply ob)]"

definition deserialize_READDIRPLUS3resok :: "READDIRPLUS3resok \<Rightarrow> READDIRPLUS3resok xdr" where
  "deserialize_READDIRPLUS3resok = xseq [
     fld READDIRPLUS3resok.dir_attributes READDIRPLUS3resok.dir_attributes_update deserialize_post_op_attr,
     fld READDIRPLUS3resok.cookieverf READDIRPLUS3resok.cookieverf_update unpack_uint64,
     fld READDIRPLUS3resok.reply READDIRPLUS3resok.reply_update deserialize_dirlistplus3]"

definition enc_READDIRPLUS3resok :: "READDIRPLUS3resok \<Rightarrow> bytes" where
  "enc_READDIRPLUS3resok ob =
     enc_post_op_attr (READDIRPLUS3resok.dir_attributes ob) @
     be64 (READDIRPLUS3resok.cookieverf ob) @
     enc_dirlistplus3 (READDIRPLUS3resok.reply ob)"

definition ok_READDIRPLUS3resok :: "READDIRPLUS3resok \<Rightarrow> bool" where
  "ok_READDIRPLUS3resok ob \<longleftrightarrow> ok_dirlistplus3 (READDIRPLUS3resok.reply ob)"

definition ovr_READDIRPLUS3resok :: "READDIRPLUS3resok \<Rightarrow> READDIRPLUS3resok \<Rightarrow> READDIRPLUS3resok" where
  "ovr_READDIRPLUS3resok x0 x = \<lparr>READDIRPLUS3resok.dir_attributes = ovr_post_op_attr (READDIRPLUS3resok.dir_attributes x0) (READDIRPLUS3resok.dir_attributes x),
     READDIRPLUS3resok.cookieverf = READDIRPLUS3resok.cookieverf x,
     READDIRPLUS3resok.reply = ovr_dirlistplus3 (READDIRPLUS3resok.reply x0) (READDIRPLUS3resok.reply x)\<rparr>"

definition canon_READDIRPLUS3resok :: "READDIRPLUS3resok \<Rightarrow> bool" where
  "canon_READDIRPLUS3resok ob \<longleftrightarrow> canon_post_op_attr (READDIRPLUS3resok.dir_attributes ob) \<and>
     canon_dirlistplus3 (READDIRPLUS3resok.reply ob)"

interpretation READDIRPLUS3resok_xdr: xdr_roundtrip
  serialize_READDIRPLUS3resok deserialize_READDIRPLUS3resok enc_READDIRPLUS3resok
  ovr_READDIRPLUS3resok ok_READDIRPLUS3resok READDIRPLUS3resok_init canon_READDIRPLUS3resok
proof unfold_locales
  fix x x0 :: READDIRPLUS3resok
  show "encodes (serialize_READDIRPLUS3resok x) (enc_READDIRPLUS3resok x)" if "ok_READDIRPLUS3resok x"
    unfolding serialize_READDIRPLUS3resok_def enc_READDIRPLUS3resok_def using that [unfolded ok_READDIRPLUS3resok_def]
    by (intro xenc) auto
  show "decodes (deserialize_READDIRPLUS3resok x0) (enc_READDIRPLUS3resok x) (ovr_READDIRPLUS3resok x0 x)" if "ok_READDIRPLUS3resok x"
    unfolding deserialize_READDIRPLUS3resok_def enc_READDIRPLUS3resok_def
    by (rule decodes_cong, (rule xdec |
        (use that in \<open>simp add: ok_READDIRPLUS3resok_def; fail\<close>) |
        (cases x, cases x0, simp add: ovr_READDIRPLUS3resok_def; fail))+)
  show "reader (deserialize_READDIRPLUS3resok x0)"
    unfolding deserialize_READDIRPLUS3resok_def by (intro xrd)
  show "ovr_READDIRPLUS3resok READDIRPLUS3resok_init x = x" if "canon_READDIRPLUS3resok x"
    using that [unfolded canon_READDIRPLUS3resok_def]
    by (cases x) (auto simp: ovr_READDIRPLUS3resok_def READDIRPLUS3resok_init_def post_op_attr_xdr.ovr_init dirlistplus3_xdr.ovr_init)
qed

type_synonym READDIRPLUS3res = "READDIRPLUS3resok nfs_res"

definition serialize_READDIRPLUS3res :: "READDIRPLUS3res \<Rightarrow> unit xdr" where
  "serialize_READDIRPLUS3res = serialize_res serialize_READDIRPLUS3resok"

definition deserialize_READDIRPLUS3res :: "READDIRPLUS3res \<Rightarrow> READDIRPLUS3res xdr" where
  "deserialize_READDIRPLUS3res = deserialize_res READDIRPLUS3resok_init deserialize_READDIRPLUS3resok"

section \<open>FSSTAT\<close>

record FSSTAT3args =
  fsroot :: nfs_fh3

definition FSSTAT3args_init :: FSSTAT3args where
  "FSSTAT3args_init = \<lparr>FSSTAT3args.fsroot = nfs_fh3_init\<rparr>"

definition serialize_FSSTAT3args :: "FSSTAT3args \<Rightarrow> unit xdr" where
  "serialize_FSSTAT3args ob = xdo [
     serialize_nfs_fh3 (FSSTAT3args.fsroot ob)]"

definition deserialize_FSSTAT3args :: "FSSTAT3args \<Rightarrow> FSSTAT3args xdr" where
  "deserialize_FSSTAT3args = xseq [
     fld FSSTAT3args.fsroot FSSTAT3args.fsroot_update deserialize_nfs_fh3]"

definition enc_FSSTAT3args :: "FSSTAT3args \<Rightarrow> bytes" where
  "enc_FSSTAT3args ob =
     enc_nfs_fh3 (FSSTAT3args.fsroot ob)"

definition ok_FSSTAT3args :: "FSSTAT3args \<Rightarrow> bool" where
  "ok_FSSTAT3args ob \<longleftrightarrow> ok_nfs_fh3 (FSSTAT3args.fsroot ob)"

interpretation FSSTAT3args_xdr: xdr_roundtrip
  serialize_FSSTAT3args deserialize_FSSTAT3args enc_FSSTAT3args
  "\<lambda>_ x. x" ok_FSSTAT3args FSSTAT3args_init "\<lambda>_. True"
proof unfold_locales
  fix x x0 :: FSSTAT3args
  show "encodes (serialize_FSSTAT3args x) (enc_FSSTAT3args x)" if "ok_FSSTAT3args x"
    unfolding serialize_FSSTAT3args_def enc_FSSTAT3args_def using that [unfolded ok_FSSTAT3args_def]
    by (intro xenc) auto
  show "decodes (deserialize_FSSTAT3args x0) (enc_FSSTAT3args x) x" if "ok_FSSTAT3args x"
    unfolding deserialize_FSSTAT3args_def enc_FSSTAT3args_def
    by (rule decodes_cong, (rule xdec |
        (use that in \<open>simp add: ok_FSSTAT3args_def; fail\<close>) |
        (cases x, cases x0, simp; fail))+)
  show "reader (deserialize_FSSTAT3args x0)"
    unfolding deserialize_FSSTAT3args_def by (intro xrd)
qed simp_all

record FSSTAT3resok =
  obj_attributes :: post_op_attr
  tbytes :: uint64
  fbytes :: uint64
  abytes :: uint64
  tfiles :: uint64
  ffiles :: uint64
  afiles :: uint64
  invarsec :: uint32

definition FSSTAT3resok_init :: FSSTAT3resok where
  "FSSTAT3resok_init = \<lparr>FSSTAT3resok.obj_attributes = post_op_attr_init,
     FSSTAT3resok.tbytes = 0,
     FSSTAT3resok.fbytes = 0,
     FSSTAT3resok.abytes = 0,
     FSSTAT3resok.tfiles = 0,
     FSSTAT3resok.ffiles = 0,
     FSSTAT3resok.afiles = 0,
     FSSTAT3resok.invarsec = 0\<rparr>"

definition serialize_FSSTAT3resok :: "FSSTAT3resok \<Rightarrow> unit xdr" where
  "serialize_FSSTAT3resok ob = xdo [
     serialize_post_op_attr (FSSTAT3resok.obj_attributes ob),
     pack_uint64 (FSSTAT3resok.tbytes ob),
     pack_uint64 (FSSTAT3resok.fbytes ob),
     pack_uint64 (FSSTAT3resok.abytes ob),
     pack_uint64 (FSSTAT3resok.tfiles ob),
     pack_uint64 (FSSTAT3resok.ffiles ob),
     pack_uint64 (FSSTAT3resok.afiles ob),
     pack_uint32 (FSSTAT3resok.invarsec ob)]"

definition deserialize_FSSTAT3resok :: "FSSTAT3resok \<Rightarrow> FSSTAT3resok xdr" where
  "deserialize_FSSTAT3resok = xseq [
     fld FSSTAT3resok.obj_attributes FSSTAT3resok.obj_attributes_update deserialize_post_op_attr,
     fld FSSTAT3resok.tbytes FSSTAT3resok.tbytes_update unpack_uint64,
     fld FSSTAT3resok.fbytes FSSTAT3resok.fbytes_update unpack_uint64,
     fld FSSTAT3resok.abytes FSSTAT3resok.abytes_update unpack_uint64,
     fld FSSTAT3resok.tfiles FSSTAT3resok.tfiles_update unpack_uint64,
     fld FSSTAT3resok.ffiles FSSTAT3resok.ffiles_update unpack_uint64,
     fld FSSTAT3resok.afiles FSSTAT3resok.afiles_update unpack_uint64,
     fld FSSTAT3resok.invarsec FSSTAT3resok.invarsec_update unpack_uint32]"

definition enc_FSSTAT3resok :: "FSSTAT3resok \<Rightarrow> bytes" where
  "enc_FSSTAT3resok ob =
     enc_post_op_attr (FSSTAT3resok.obj_attributes ob) @
     be64 (FSSTAT3resok.tbytes ob) @
     be64 (FSSTAT3resok.fbytes ob) @
     be64 (FSSTAT3resok.abytes ob) @
     be64 (FSSTAT3resok.tfiles ob) @
     be64 (FSSTAT3resok.ffiles ob) @
     be64 (FSSTAT3resok.afiles ob) @
     be32 (FSSTAT3resok.invarsec ob)"

definition ovr_FSSTAT3resok :: "FSSTAT3resok \<Rightarrow> FSSTAT3resok \<Rightarrow> FSSTAT3resok" where
  "ovr_FSSTAT3resok x0 x = \<lparr>FSSTAT3resok.obj_attributes = ovr_post_op_attr (FSSTAT3resok.obj_attributes x0) (FSSTAT3resok.obj_attributes x),
     FSSTAT3resok.tbytes = FSSTAT3resok.tbytes x,
     FSSTAT3resok.fbytes = FSSTAT3resok.fbytes x,
     FSSTAT3resok.abytes = FSSTAT3resok.abytes x,
     FSSTAT3resok.tfiles = FSSTAT3resok.tfiles x,
     FSSTAT3resok.ffiles = FSSTAT3resok.ffiles x,
     FSSTAT3resok.afiles = FSSTAT3resok.afiles x,
     FSSTAT3resok.invarsec = FSSTAT3resok.invarsec x\<rparr>"

definition canon_FSSTAT3resok :: "FSSTAT3resok \<Rightarrow> bool" where
  "canon_FSSTAT3resok ob \<longleftrightarrow> canon_post_op_attr (FSSTAT3resok.obj_attributes ob)"

interpretation FSSTAT3resok_xdr: xdr_roundtrip
  serialize_FSSTAT3resok deserialize_FSSTAT3resok enc_FSSTAT3resok
  ovr_FSSTAT3resok "\<lambda>_. True" FSSTAT3resok_init canon_FSSTAT3resok
proof unfold_locales
  fix x x0 :: FSSTAT3resok
  show "encodes (serialize_FSSTAT3resok x) (enc_FSSTAT3resok x)"
    unfolding serialize_FSSTAT3resok_def enc_FSSTAT3resok_def
    by (intro xenc)
  show "decodes (deserialize_FSSTAT3resok x0) (enc_FSSTAT3resok x) (ovr_FSSTAT3resok x0 x)"
    unfolding deserialize_FSSTAT3resok_def enc_FSSTAT3resok_def
    by (rule decodes_cong, (rule xdec |
        (cases x, cases x0, simp add: ovr_FSSTAT3resok_def; fail))+)
  show "reader (deserialize_FSSTAT3resok x0)"
    unfolding deserialize_FSSTAT3resok_def by (intro xrd)
  show "ovr_FSSTAT3resok FSSTAT3resok_init x = x" if "canon_FSSTAT3resok x"
    using that [unfolded canon_FSSTAT3resok_def]
    by (cases x) (auto simp: ovr_FSSTAT3resok_def FSSTAT3resok_init_def post_op_attr_xdr.ovr_init)
qed

type_synonym FSSTAT3res = "FSSTAT3resok nfs_res"

definition serialize_FSSTAT3res :: "FSSTAT3res \<Rightarrow> unit xdr" where
  "serialize_FSSTAT3res = serialize_res serialize_FSSTAT3resok"

definition deserialize_FSSTAT3res :: "FSSTAT3res \<Rightarrow> FSSTAT3res xdr" where
  "deserialize_FSSTAT3res = deserialize_res FSSTAT3resok_init deserialize_FSSTAT3resok"

section \<open>FSINFO\<close>

record FSINFO3args =
  fsroot :: nfs_fh3

definition FSINFO3args_init :: FSINFO3args where
  "FSINFO3args_init = \<lparr>FSINFO3args.fsroot = nfs_fh3_init\<rparr>"

definition serialize_FSINFO3args :: "FSINFO3args \<Rightarrow> unit xdr" where
  "serialize_FSINFO3args ob = xdo [
     serialize_nfs_fh3 (FSINFO3args.fsroot ob)]"

definition deserialize_FSINFO3args :: "FSINFO3args \<Rightarrow> FSINFO3args xdr" where
  "deserialize_FSINFO3args = xseq [
     fld FSINFO3args.fsroot FSINFO3args.fsroot_update deserialize_nfs_fh3]"

definition enc_FSINFO3args :: "FSINFO3args \<Rightarrow> bytes" where
  "enc_FSINFO3args ob =
     enc_nfs_fh3 (FSINFO3args.fsroot ob)"

definition ok_FSINFO3args :: "FSINFO3args \<Rightarrow> bool" where
  "ok_FSINFO3args ob \<longleftrightarrow> ok_nfs_fh3 (FSINFO3args.fsroot ob)"

interpretation FSINFO3args_xdr: xdr_roundtrip
  serialize_FSINFO3args deserialize_FSINFO3args enc_FSINFO3args
  "\<lambda>_ x. x" ok_FSINFO3args FSINFO3args_init "\<lambda>_. True"
proof unfold_locales
  fix x x0 :: FSINFO3args
  show "encodes (serialize_FSINFO3args x) (enc_FSINFO3args x)" if "ok_FSINFO3args x"
    unfolding serialize_FSINFO3args_def enc_FSINFO3args_def using that [unfolded ok_FSINFO3args_def]
    by (intro xenc) auto
  show "decodes (deserialize_FSINFO3args x0) (enc_FSINFO3args x) x" if "ok_FSINFO3args x"
    unfolding deserialize_FSINFO3args_def enc_FSINFO3args_def
    by (rule decodes_cong, (rule xdec |
        (use that in \<open>simp add: ok_FSINFO3args_def; fail\<close>) |
        (cases x, cases x0, simp; fail))+)
  show "reader (deserialize_FSINFO3args x0)"
    unfolding deserialize_FSINFO3args_def by (intro xrd)
qed simp_all

record FSINFO3resok =
  obj_attributes :: post_op_attr
  rtmax :: uint32
  rtpref :: uint32
  rtmult :: uint32
  wtmax :: uint32
  wtpref :: uint32
  wtmult :: uint32
  dtpref :: uint32
  maxfilesize :: uint64
  time_delta_seconds :: uint32
  time_delta_nseconds :: uint32
  properties :: uint32

definition FSINFO3resok_init :: FSINFO3resok where
  "FSINFO3resok_init = \<lparr>FSINFO3resok.obj_attributes = post_op_attr_init,
     FSINFO3resok.rtmax = 0,
     FSINFO3resok.rtpref = 0,
     FSINFO3resok.rtmult = 0,
     FSINFO3resok.wtmax = 0,
     FSINFO3resok.wtpref = 0,
     FSINFO3resok.wtmult = 0,
     FSINFO3resok.dtpref = 0,
     FSINFO3resok.maxfilesize = 0,
     FSINFO3resok.time_delta_seconds = 0,
     FSINFO3resok.time_delta_nseconds = 0,
     FSINFO3resok.properties = 0\<rparr>"

definition serialize_FSINFO3resok :: "FSINFO3resok \<Rightarrow> unit xdr" where
  "serialize_FSINFO3resok ob = xdo [
     serialize_post_op_attr (FSINFO3resok.obj_attributes ob),
     pack_uint32 (FSINFO3resok.rtmax ob),
     pack_uint32 (FSINFO3resok.rtpref ob),
     pack_uint32 (FSINFO3resok.rtmult ob),
     pack_uint32 (FSINFO3resok.wtmax ob),
     pack_uint32 (FSINFO3resok.wtpref ob),
     pack_uint32 (FSINFO3resok.wtmult ob),
     pack_uint32 (FSINFO3resok.dtpref ob),
     pack_uint64 (FSINFO3resok.maxfilesize ob),
     pack_uint32 (FSINFO3resok.time_delta_seconds ob),
     pack_uint32 (FSINFO3resok.time_delta_nseconds ob),
     pack_uint32 (FSINFO3resok.properties ob)]"

definition deserialize_FSINFO3resok :: "FSINFO3resok \<Rightarrow> FSINFO3resok xdr" where
  "deserialize_FSINFO3resok = xseq [
     fld FSINFO3resok.obj_attributes FSINFO3resok.obj_attributes_update deserialize_post_op_attr,
     fld FSINFO3resok.rtmax FSINFO3resok.rtmax_update unpack_uint32,
     fld FSINFO3resok.rtpref FSINFO3resok.rtpref_update unpack_uint32,
     fld FSINFO3resok.rtmult FSINFO3resok.rtmult_update unpack_uint32,
     fld FSINFO3resok.wtmax FSINFO3resok.wtmax_update unpack_uint32,
     fld FSINFO3resok.wtpref FSINFO3resok.wtpref_update unpack_uint32,
     fld FSINFO3resok.wtmult FSINFO3resok.wtmult_update unpack_uint32,
     fld FSINFO3resok.dtpref FSINFO3resok.dtpref_update unpack_uint32,
     fld FSINFO3resok.maxfilesize FSINFO3resok.maxfilesize_update unpack_uint64,
     fld FSINFO3resok.time_delta_seconds FSINFO3resok.time_delta_seconds_update unpack_uint32,
     fld FSINFO3resok.time_delta_nseconds FSINFO3resok.time_delta_nseconds_update unpack_uint32,
     fld FSINFO3resok.properties FSINFO3resok.properties_update unpack_uint32]"

definition enc_FSINFO3resok :: "FSINFO3resok \<Rightarrow> bytes" where
  "enc_FSINFO3resok ob =
     enc_post_op_attr (FSINFO3resok.obj_attributes ob) @
     be32 (FSINFO3resok.rtmax ob) @
     be32 (FSINFO3resok.rtpref ob) @
     be32 (FSINFO3resok.rtmult ob) @
     be32 (FSINFO3resok.wtmax ob) @
     be32 (FSINFO3resok.wtpref ob) @
     be32 (FSINFO3resok.wtmult ob) @
     be32 (FSINFO3resok.dtpref ob) @
     be64 (FSINFO3resok.maxfilesize ob) @
     be32 (FSINFO3resok.time_delta_seconds ob) @
     be32 (FSINFO3resok.time_delta_nseconds ob) @
     be32 (FSINFO3resok.properties ob)"

definition ovr_FSINFO3resok :: "FSINFO3resok \<Rightarrow> FSINFO3resok \<Rightarrow> FSINFO3resok" where
  "ovr_FSINFO3resok x0 x = \<lparr>FSINFO3resok.obj_attributes = ovr_post_op_attr (FSINFO3resok.obj_attributes x0) (FSINFO3resok.obj_attributes x),
     FSINFO3resok.rtmax = FSINFO3resok.rtmax x,
     FSINFO3resok.rtpref = FSINFO3resok.rtpref x,
     FSINFO3resok.rtmult = FSINFO3resok.rtmult x,
     FSINFO3resok.wtmax = FSINFO3resok.wtmax x,
     FSINFO3resok.wtpref = FSINFO3resok.wtpref x,
     FSINFO3resok.wtmult = FSINFO3resok.wtmult x,
     FSINFO3resok.dtpref = FSINFO3resok.dtpref x,
     FSINFO3resok.maxfilesize = FSINFO3resok.maxfilesize x,
     FSINFO3resok.time_delta_seconds = FSINFO3resok.time_delta_seconds x,
     FSINFO3resok.time_delta_nseconds = FSINFO3resok.time_delta_nseconds x,
     FSINFO3resok.properties = FSINFO3resok.properties x\<rparr>"

definition canon_FSINFO3resok :: "FSINFO3resok \<Rightarrow> bool" where
  "canon_FSINFO3resok ob \<longleftrightarrow> canon_post_op_attr (FSINFO3resok.obj_attributes ob)"

interpretation FSINFO3resok_xdr: xdr_roundtrip
  serialize_FSINFO3resok deserialize_FSINFO3resok enc_FSINFO3resok
  ovr_FSINFO3resok "\<lambda>_. True" FSINFO3resok_init canon_FSINFO3resok
proof unfold_locales
  fix x x0 :: FSINFO3resok
  show "encodes (serialize_FSINFO3resok x) (enc_FSINFO3resok x)"
    unfolding serialize_FSINFO3resok_def enc_FSINFO3resok_def
    by (intro xenc)
  show "decodes (deserialize_FSINFO3resok x0) (enc_FSINFO3resok x) (ovr_FSINFO3resok x0 x)"
    unfolding deserialize_FSINFO3resok_def enc_FSINFO3resok_def
    by (rule decodes_cong, (rule xdec |
        (cases x, cases x0, simp add: ovr_FSINFO3resok_def; fail))+)
  show "reader (deserialize_FSINFO3resok x0)"
    unfolding deserialize_FSINFO3resok_def by (intro xrd)
  show "ovr_FSINFO3resok FSINFO3resok_init x = x" if "canon_FSINFO3resok x"
    using that [unfolded canon_FSINFO3resok_def]
    by (cases x) (auto simp: ovr_FSINFO3resok_def FSINFO3resok_init_def post_op_attr_xdr.ovr_init)
qed

type_synonym FSINFO3res = "FSINFO3resok nfs_res"

definition serialize_FSINFO3res :: "FSINFO3res \<Rightarrow> unit xdr" where
  "serialize_FSINFO3res = serialize_res serialize_FSINFO3resok"

definition deserialize_FSINFO3res :: "FSINFO3res \<Rightarrow> FSINFO3res xdr" where
  "deserialize_FSINFO3res = deserialize_res FSINFO3resok_init deserialize_FSINFO3resok"

section \<open>PATHCONF\<close>

record PATHCONF3args =
  object :: nfs_fh3

definition PATHCONF3args_init :: PATHCONF3args where
  "PATHCONF3args_init = \<lparr>PATHCONF3args.object = nfs_fh3_init\<rparr>"

definition serialize_PATHCONF3args :: "PATHCONF3args \<Rightarrow> unit xdr" where
  "serialize_PATHCONF3args ob = xdo [
     serialize_nfs_fh3 (PATHCONF3args.object ob)]"

definition deserialize_PATHCONF3args :: "PATHCONF3args \<Rightarrow> PATHCONF3args xdr" where
  "deserialize_PATHCONF3args = xseq [
     fld PATHCONF3args.object PATHCONF3args.object_update deserialize_nfs_fh3]"

definition enc_PATHCONF3args :: "PATHCONF3args \<Rightarrow> bytes" where
  "enc_PATHCONF3args ob =
     enc_nfs_fh3 (PATHCONF3args.object ob)"

definition ok_PATHCONF3args :: "PATHCONF3args \<Rightarrow> bool" where
  "ok_PATHCONF3args ob \<longleftrightarrow> ok_nfs_fh3 (PATHCONF3args.object ob)"

interpretation PATHCONF3args_xdr: xdr_roundtrip
  serialize_PATHCONF3args deserialize_PATHCONF3args enc_PATHCONF3args
  "\<lambda>_ x. x" ok_PATHCONF3args PATHCONF3args_init "\<lambda>_. True"
proof unfold_locales
  fix x x0 :: PATHCONF3args
  show "encodes (serialize_PATHCONF3args x) (enc_PATHCONF3args x)" if "ok_PATHCONF3args x"
    unfolding serialize_PATHCONF3args_def enc_PATHCONF3args_def using that [unfolded ok_PATHCONF3args_def]
    by (intro xenc) auto
  show "decodes (deserialize_PATHCONF3args x0) (enc_PATHCONF3args x) x" if "ok_PATHCONF3args x"
    unfolding deserialize_PATHCONF3args_def enc_PATHCONF3args_def
    by (rule decodes_cong, (rule xdec |
        (use that in \<open>simp add: ok_PATHCONF3args_def; fail\<close>) |
        (cases x, cases x0, simp; fail))+)
  show "reader (deserialize_PATHCONF3args x0)"
    unfolding deserialize_PATHCONF3args_def by (intro xrd)
qed simp_all

record pathconf3_resok_info =
  linkmax :: uint32
  name_max :: uint32
  no_trunc :: bool
  chown_restricted :: bool
  case_insensitive :: bool
  case_preserving :: bool

definition pathconf3_resok_info_init :: pathconf3_resok_info where
  "pathconf3_resok_info_init = \<lparr>pathconf3_resok_info.linkmax = 0,
     pathconf3_resok_info.name_max = 0,
     pathconf3_resok_info.no_trunc = False,
     pathconf3_resok_info.chown_restricted = False,
     pathconf3_resok_info.case_insensitive = False,
     pathconf3_resok_info.case_preserving = False\<rparr>"

definition serialize_pathconf3_resok_info :: "pathconf3_resok_info \<Rightarrow> unit xdr" where
  "serialize_pathconf3_resok_info ob = xdo [
     pack_int32 (pathconf3_resok_info.linkmax ob),
     pack_int32 (pathconf3_resok_info.name_max ob),
     pack_bool (pathconf3_resok_info.no_trunc ob),
     pack_bool (pathconf3_resok_info.chown_restricted ob),
     pack_bool (pathconf3_resok_info.case_insensitive ob),
     pack_bool (pathconf3_resok_info.case_preserving ob)]"

definition deserialize_pathconf3_resok_info :: "pathconf3_resok_info \<Rightarrow> pathconf3_resok_info xdr" where
  "deserialize_pathconf3_resok_info = xseq [
     fld pathconf3_resok_info.linkmax pathconf3_resok_info.linkmax_update unpack_int32,
     fld pathconf3_resok_info.name_max pathconf3_resok_info.name_max_update unpack_int32,
     fld pathconf3_resok_info.no_trunc pathconf3_resok_info.no_trunc_update unpack_bool,
     fld pathconf3_resok_info.chown_restricted pathconf3_resok_info.chown_restricted_update unpack_bool,
     fld pathconf3_resok_info.case_insensitive pathconf3_resok_info.case_insensitive_update unpack_bool,
     fld pathconf3_resok_info.case_preserving pathconf3_resok_info.case_preserving_update unpack_bool]"

definition enc_pathconf3_resok_info :: "pathconf3_resok_info \<Rightarrow> bytes" where
  "enc_pathconf3_resok_info ob =
     be32 (pathconf3_resok_info.linkmax ob) @
     be32 (pathconf3_resok_info.name_max ob) @
     enc_bool (pathconf3_resok_info.no_trunc ob) @
     enc_bool (pathconf3_resok_info.chown_restricted ob) @
     enc_bool (pathconf3_resok_info.case_insensitive ob) @
     enc_bool (pathconf3_resok_info.case_preserving ob)"

interpretation pathconf3_resok_info_xdr: xdr_roundtrip
  serialize_pathconf3_resok_info deserialize_pathconf3_resok_info enc_pathconf3_resok_info
  "\<lambda>_ x. x" "\<lambda>_. True" pathconf3_resok_info_init "\<lambda>_. True"
proof unfold_locales
  fix x x0 :: pathconf3_resok_info
  show "encodes (serialize_pathconf3_resok_info x) (enc_pathconf3_resok_info x)"
    unfolding serialize_pathconf3_resok_info_def enc_pathconf3_resok_info_def
    by (intro xenc)
  show "decodes (deserialize_pathconf3_resok_info x0) (enc_pathconf3_resok_info x) x"
    unfolding deserialize_pathconf3_resok_info_def enc_pathconf3_resok_info_def
    by (rule decodes_cong, (rule xdec |
        (cases x, cases x0, simp; fail))+)
  show "reader (deserialize_pathconf3_resok_info x0)"
    unfolding deserialize_pathconf3_resok_info_def by (intro xrd)
qed simp_all

record PATHCONF3resok =
  obj_attributes :: post_op_attr
  info :: pathconf3_resok_info

definition PATHCONF3resok_init :: PATHCONF3resok where
  "PATHCONF3resok_init = \<lparr>PATHCONF3resok.obj_attributes = post_op_attr_init,
     PATHCONF3resok.info = pathconf3_resok_info_init\<rparr>"

definition serialize_PATHCONF3resok :: "PATHCONF3resok \<Rightarrow> unit xdr" where
  "serialize_PATHCONF3resok ob = xdo [
     serialize_post_op_attr (PATHCONF3resok.obj_attributes ob),
     serialize_pathconf3_resok_info (PATHCONF3resok.info ob)]"

definition deserialize_PATHCONF3resok :: "PATHCONF3resok \<Rightarrow> PATHCONF3resok xdr" where
  "deserialize_PATHCONF3resok = xseq [
     fld PATHCONF3resok.obj_attributes PATHCONF3resok.obj_attributes_update deserialize_post_op_attr,
     fld PATHCONF3resok.info PATHCONF3resok.info_update deserialize_pathconf3_resok_info]"

definition enc_PATHCONF3resok :: "PATHCONF3resok \<Rightarrow> bytes" where
  "enc_PATHCONF3resok ob =
     enc_post_op_attr (PATHCONF3resok.obj_attributes ob) @
     enc_pathconf3_resok_info (PATHCONF3resok.info ob)"

definition ovr_PATHCONF3resok :: "PATHCONF3resok \<Rightarrow> PATHCONF3resok \<Rightarrow> PATHCONF3resok" where
  "ovr_PATHCONF3resok x0 x = \<lparr>PATHCONF3resok.obj_attributes = ovr_post_op_attr (PATHCONF3resok.obj_attributes x0) (PATHCONF3resok.obj_attributes x),
     PATHCONF3resok.info = PATHCONF3resok.info x\<rparr>"

definition canon_PATHCONF3resok :: "PATHCONF3resok \<Rightarrow> bool" where
  "canon_PATHCONF3resok ob \<longleftrightarrow> canon_post_op_attr (PATHCONF3resok.obj_attributes ob)"

interpretation PATHCONF3resok_xdr: xdr_roundtrip
  serialize_PATHCONF3resok deserialize_PATHCONF3resok enc_PATHCONF3resok
  ovr_PATHCONF3resok "\<lambda>_. True" PATHCONF3resok_init canon_PATHCONF3resok
proof unfold_locales
  fix x x0 :: PATHCONF3resok
  show "encodes (serialize_PATHCONF3resok x) (enc_PATHCONF3resok x)"
    unfolding serialize_PATHCONF3resok_def enc_PATHCONF3resok_def
    by (intro xenc)
  show "decodes (deserialize_PATHCONF3resok x0) (enc_PATHCONF3resok x) (ovr_PATHCONF3resok x0 x)"
    unfolding deserialize_PATHCONF3resok_def enc_PATHCONF3resok_def
    by (rule decodes_cong, (rule xdec |
        (cases x, cases x0, simp add: ovr_PATHCONF3resok_def; fail))+)
  show "reader (deserialize_PATHCONF3resok x0)"
    unfolding deserialize_PATHCONF3resok_def by (intro xrd)
  show "ovr_PATHCONF3resok PATHCONF3resok_init x = x" if "canon_PATHCONF3resok x"
    using that [unfolded canon_PATHCONF3resok_def]
    by (cases x) (auto simp: ovr_PATHCONF3resok_def PATHCONF3resok_init_def post_op_attr_xdr.ovr_init)
qed

type_synonym PATHCONF3res = "PATHCONF3resok nfs_res"

definition serialize_PATHCONF3res :: "PATHCONF3res \<Rightarrow> unit xdr" where
  "serialize_PATHCONF3res = serialize_res serialize_PATHCONF3resok"

definition deserialize_PATHCONF3res :: "PATHCONF3res \<Rightarrow> PATHCONF3res xdr" where
  "deserialize_PATHCONF3res = deserialize_res PATHCONF3resok_init deserialize_PATHCONF3resok"

section \<open>COMMIT\<close>

record COMMIT3args =
  file3 :: nfs_fh3
  offset :: uint64
  count :: uint32

definition COMMIT3args_init :: COMMIT3args where
  "COMMIT3args_init = \<lparr>COMMIT3args.file3 = nfs_fh3_init,
     COMMIT3args.offset = 0,
     COMMIT3args.count = 0\<rparr>"

definition serialize_COMMIT3args :: "COMMIT3args \<Rightarrow> unit xdr" where
  "serialize_COMMIT3args ob = xdo [
     serialize_nfs_fh3 (COMMIT3args.file3 ob),
     pack_uint64 (COMMIT3args.offset ob),
     pack_uint32 (COMMIT3args.count ob)]"

definition deserialize_COMMIT3args :: "COMMIT3args \<Rightarrow> COMMIT3args xdr" where
  "deserialize_COMMIT3args = xseq [
     fld COMMIT3args.file3 COMMIT3args.file3_update deserialize_nfs_fh3,
     fld COMMIT3args.offset COMMIT3args.offset_update unpack_uint64,
     fld COMMIT3args.count COMMIT3args.count_update unpack_uint32]"

definition enc_COMMIT3args :: "COMMIT3args \<Rightarrow> bytes" where
  "enc_COMMIT3args ob =
     enc_nfs_fh3 (COMMIT3args.file3 ob) @
     be64 (COMMIT3args.offset ob) @
     be32 (COMMIT3args.count ob)"

definition ok_COMMIT3args :: "COMMIT3args \<Rightarrow> bool" where
  "ok_COMMIT3args ob \<longleftrightarrow> ok_nfs_fh3 (COMMIT3args.file3 ob)"

interpretation COMMIT3args_xdr: xdr_roundtrip
  serialize_COMMIT3args deserialize_COMMIT3args enc_COMMIT3args
  "\<lambda>_ x. x" ok_COMMIT3args COMMIT3args_init "\<lambda>_. True"
proof unfold_locales
  fix x x0 :: COMMIT3args
  show "encodes (serialize_COMMIT3args x) (enc_COMMIT3args x)" if "ok_COMMIT3args x"
    unfolding serialize_COMMIT3args_def enc_COMMIT3args_def using that [unfolded ok_COMMIT3args_def]
    by (intro xenc) auto
  show "decodes (deserialize_COMMIT3args x0) (enc_COMMIT3args x) x" if "ok_COMMIT3args x"
    unfolding deserialize_COMMIT3args_def enc_COMMIT3args_def
    by (rule decodes_cong, (rule xdec |
        (use that in \<open>simp add: ok_COMMIT3args_def; fail\<close>) |
        (cases x, cases x0, simp; fail))+)
  show "reader (deserialize_COMMIT3args x0)"
    unfolding deserialize_COMMIT3args_def by (intro xrd)
qed simp_all

record COMMIT3resok =
  file_wcc :: post_op_attr
  verf :: writeverf3

definition COMMIT3resok_init :: "bytes \<Rightarrow> COMMIT3resok" where
  "COMMIT3resok_init ind = \<lparr>COMMIT3resok.file_wcc = post_op_attr_init,
     COMMIT3resok.verf = writeverf3_init ind\<rparr>"

definition serialize_COMMIT3resok :: "COMMIT3resok \<Rightarrow> unit xdr" where
  "serialize_COMMIT3resok ob = xdo [
     serialize_post_op_attr (COMMIT3resok.file_wcc ob),
     serialize_writeverf3 (COMMIT3resok.verf ob)]"

definition deserialize_COMMIT3resok :: "COMMIT3resok \<Rightarrow> COMMIT3resok xdr" where
  "deserialize_COMMIT3resok = xseq [
     fld COMMIT3resok.file_wcc COMMIT3resok.file_wcc_update deserialize_post_op_attr,
     fld COMMIT3resok.verf COMMIT3resok.verf_update deserialize_writeverf3]"

definition enc_COMMIT3resok :: "COMMIT3resok \<Rightarrow> bytes" where
  "enc_COMMIT3resok ob =
     enc_post_op_attr (COMMIT3resok.file_wcc ob) @
     enc_writeverf3 (COMMIT3resok.verf ob)"

definition ok_COMMIT3resok :: "COMMIT3resok \<Rightarrow> bool" where
  "ok_COMMIT3resok ob \<longleftrightarrow> ok_writeverf3 (COMMIT3resok.verf ob)"

definition ovr_COMMIT3resok :: "COMMIT3resok \<Rightarrow> COMMIT3resok \<Rightarrow> COMMIT3resok" where
  "ovr_COMMIT3resok x0 x = \<lparr>COMMIT3resok.file_wcc = ovr_post_op_attr (COMMIT3resok.file_wcc x0) (COMMIT3resok.file_wcc x),
     COMMIT3resok.verf = COMMIT3resok.verf x\<rparr>"

definition canon_COMMIT3resok :: "COMMIT3resok \<Rightarrow> bool" where
  "canon_COMMIT3resok ob \<longleftrightarrow> canon_post_op_attr (COMMIT3resok.file_wcc ob)"

interpretation COMMIT3resok_xdr: xdr_roundtrip
  serialize_COMMIT3resok deserialize_COMMIT3resok enc_COMMIT3resok
  ovr_COMMIT3resok ok_COMMIT3resok "COMMIT3resok_init ind" canon_COMMIT3resok for ind
proof unfold_locales
  fix x x0 :: COMMIT3resok
  show "encodes (serialize_COMMIT3resok x) (enc_COMMIT3resok x)" if "ok_COMMIT3resok x"
    unfolding serialize_COMMIT3resok_def enc_COMMIT3resok_def using that [unfolded ok_COMMIT3resok_def]
    by (intro xenc) auto
  show "decodes (deserialize_COMMIT3resok x0) (enc_COMMIT3resok x) (ovr_COMMIT3resok x0 x)" if "ok_COMMIT3resok x"
    unfolding deserialize_COMMIT3resok_def enc_COMMIT3resok_def
    by (rule decodes_cong, (rule xdec |
        (use that in \<open>simp add: ok_COMMIT3resok_def; fail\<close>) |
        (cases x, cases x0, simp add: ovr_COMMIT3resok_def; fail))+)
  show "reader (deserialize_COMMIT3resok x0)"
    unfolding deserialize_COMMIT3resok_def by (intro xrd)
  show "ovr_COMMIT3resok (COMMIT3resok_init ind) x = x" if "canon_COMMIT3resok x"
    using that [unfolded canon_COMMIT3resok_def]
    by (cases x) (auto simp: ovr_COMMIT3resok_def COMMIT3resok_init_def post_op_attr_xdr.ovr_init)
qed

type_synonym COMMIT3res = "COMMIT3resok nfs_res"

definition serialize_COMMIT3res :: "COMMIT3res \<Rightarrow> unit xdr" where
  "serialize_COMMIT3res = serialize_res serialize_COMMIT3resok"

definition deserialize_COMMIT3res :: "bytes \<Rightarrow> COMMIT3res \<Rightarrow> COMMIT3res xdr" where
  "deserialize_COMMIT3res ind = deserialize_res (COMMIT3resok_init ind) deserialize_COMMIT3resok"

section \<open>fsinfo3\_resok\_property\<close>

text \<open>
  In \<^verbatim>\<open>deserialize\<close> the call \<^verbatim>\<open>unpack(name_max)\<close> lacks its \<^verbatim>\<open>buf.\<close> and resolves to a private
  member function of the struct with an empty body: nothing is read.
\<close>

record fsinfo3_resok_property =
  linkmax :: uint32
  name_max :: uint32
  no_trunc :: bool
  chown_restricted :: bool
  case_insensitive :: bool
  case_preserving :: bool

definition serialize_fsinfo3_resok_property :: "fsinfo3_resok_property \<Rightarrow> unit xdr" where
  "serialize_fsinfo3_resok_property ob = xdo [
     pack_uint32 (fsinfo3_resok_property.linkmax ob),
     pack_uint32 (fsinfo3_resok_property.name_max ob),
     pack_bool (fsinfo3_resok_property.no_trunc ob),
     pack_bool (fsinfo3_resok_property.chown_restricted ob),
     pack_bool (fsinfo3_resok_property.case_insensitive ob),
     pack_bool (fsinfo3_resok_property.case_preserving ob)]"

definition fsinfo3_private_unpack :: "uint32 \<Rightarrow> uint32 xdr" where
  "fsinfo3_private_unpack val = xret val"

definition deserialize_fsinfo3_resok_property ::
    "fsinfo3_resok_property \<Rightarrow> fsinfo3_resok_property xdr" where
  "deserialize_fsinfo3_resok_property = xseq [
     fld fsinfo3_resok_property.linkmax fsinfo3_resok_property.linkmax_update unpack_uint32,
     fld fsinfo3_resok_property.name_max fsinfo3_resok_property.name_max_update fsinfo3_private_unpack,
     fld fsinfo3_resok_property.no_trunc fsinfo3_resok_property.no_trunc_update unpack_bool,
     fld fsinfo3_resok_property.chown_restricted fsinfo3_resok_property.chown_restricted_update
       unpack_bool,
     fld fsinfo3_resok_property.case_insensitive fsinfo3_resok_property.case_insensitive_update
       unpack_bool,
     fld fsinfo3_resok_property.case_preserving fsinfo3_resok_property.case_preserving_update
       unpack_bool]"

end
