(* ===== verification/CInterop.thy ===== *)
theory CInterop
  imports CRefine CNfs3ProcsA CNfs3ProcsB CNfs3ProcsC Nfs3ProcsA Nfs3ProcsB Nfs3ProcsC
begin

text \<open>
  Which messages mean the same in the C port and in the C++ sources. For every type whose wire format
  agrees, \<open>cpp_T\<close> takes the C object to the C++ object with the same contents, and the
  interpretation \<open>T_io\<close> proves that the C encoder refines the C++ one and that each side reads
  what the other writes. The types left out have two formats: the verifiers and the results that
  hold one, \<^verbatim>\<open>sattr3\<close> and the requests that hold one, the results of READ, of READDIRPLUS and of
  the procedures that make an object.
\<close>

section \<open>Handles and attributes\<close>

definition cpp_nfs_fh3 :: "nfs_fh3_t \<Rightarrow> nfs_fh3" where
  "cpp_nfs_fh3 fh = \<lparr>nfs_fh3.data = fh_bytes fh\<rparr>"

lemma unat_le_max: "unat (n :: uint32) \<le> UINT32_MAX"
  using unsigned_less [of n, where 'a = nat] by simp

lemma length_fh_bytes: "cok_nfs_fh3 fh \<Longrightarrow> length (fh_bytes fh) \<le> UINT32_MAX"
  by (simp add: cok_nfs_fh3_def fh_bytes_def length_contents unat_le_max)

interpretation nfs_fh3_io: interop
  xdr_pack_nfs_fh3 xdr_unpack_nfs_fh3 cenc_nfs_fh3 covr_nfs_fh3 cok_nfs_fh3 cdst_nfs_fh3 cblocks_nfs_fh3
  serialize_nfs_fh3 deserialize_nfs_fh3 enc_nfs_fh3 "\<lambda>_ x. x" ok_nfs_fh3 cpp_nfs_fh3
  by unfold_locales (simp_all add: cpp_nfs_fh3_def ok_nfs_fh3_def length_fh_bytes enc_nfs_fh3_def cenc_nfs_fh3_def)

definition cpp_nfstime3 :: "nfstime3_t \<Rightarrow> nfstime3" where
  "cpp_nfstime3 x =
     \<lparr>nfstime3.seconds = nfstime3_t.seconds x,
      nfstime3.nseconds = nfstime3_t.nseconds x\<rparr>"

interpretation nfstime3_io: interop
  xdr_pack_nfstime3 xdr_unpack_nfstime3 cenc_nfstime3 "\<lambda>_ x. x" "\<lambda>_. True" "\<lambda>_. True" "\<lambda>_. 0"
  serialize_nfstime3 deserialize_nfstime3 enc_nfstime3 "\<lambda>_ x. x" "\<lambda>_. True" cpp_nfstime3
  by unfold_locales (simp_all add: cpp_nfstime3_def enc_nfstime3_def cenc_nfstime3_def enc_string_def comp_def)

definition cpp_specdata3 :: "specdata3_t \<Rightarrow> specdata3" where
  "cpp_specdata3 x =
     \<lparr>specdata3.specdata1 = specdata3_t.specdata1 x,
      specdata3.specdata2 = specdata3_t.specdata2 x\<rparr>"

interpretation specdata3_io: interop
  xdr_pack_specdata3 xdr_unpack_specdata3 cenc_specdata3 "\<lambda>_ x. x" "\<lambda>_. True" "\<lambda>_. True" "\<lambda>_. 0"
  serialize_specdata3 deserialize_specdata3 enc_specdata3 "\<lambda>_ x. x" "\<lambda>_. True" cpp_specdata3
  by unfold_locales (simp_all add: cpp_specdata3_def enc_specdata3_def cenc_specdata3_def enc_string_def comp_def)

definition cpp_fattr3 :: "fattr3_t \<Rightarrow> fattr3" where
  "cpp_fattr3 x =
     \<lparr>fattr3.type3 = fattr3_t.type3 x,
      fattr3.mode = fattr3_t.mode x,
      fattr3.nlink = fattr3_t.nlink x,
      fattr3.uid = fattr3_t.uid x,
      fattr3.gid = fattr3_t.gid x,
      fattr3.size3 = fattr3_t.size3 x,
      fattr3.used = fattr3_t.used x,
      fattr3.rdev = cpp_specdata3 (fattr3_t.rdev x),
      fattr3.fsid = fattr3_t.fsid x,
      fattr3.fileid = fattr3_t.fileid x,
      fattr3.atime = cpp_nfstime3 (fattr3_t.atime x),
      fattr3.mtime = cpp_nfstime3 (fattr3_t.mtime x),
      fattr3.ctime = cpp_nfstime3 (fattr3_t.ctime x)\<rparr>"

interpretation fattr3_io: interop
  xdr_pack_fattr3 xdr_unpack_fattr3 cenc_fattr3 "\<lambda>_ x. x" "\<lambda>_. True" "\<lambda>_. True" "\<lambda>_. 0"
  serialize_fattr3 deserialize_fattr3 enc_fattr3 "\<lambda>_ x. x" "\<lambda>_. True" cpp_fattr3
  by unfold_locales (simp_all add: cpp_fattr3_def enc_fattr3_def cenc_fattr3_def enc_string_def comp_def
      specdata3_io.cpp_ok specdata3_io.cpp_enc
      nfstime3_io.cpp_ok nfstime3_io.cpp_enc)

definition cpp_post_op_attr :: "post_op_attr_t \<Rightarrow> post_op_attr" where
  "cpp_post_op_attr x =
     \<lparr>post_op_attr.follow = (post_op_attr_t.follow x \<noteq> 0),
      post_op_attr.attributes = cpp_fattr3 (post_op_attr_t.attributes x)\<rparr>"

interpretation post_op_attr_io: interop
  xdr_pack_post_op_attr xdr_unpack_post_op_attr cenc_post_op_attr covr_post_op_attr "\<lambda>_. True" "\<lambda>_. True" "\<lambda>_. 0"
  serialize_post_op_attr deserialize_post_op_attr enc_post_op_attr ovr_post_op_attr "\<lambda>_. True" cpp_post_op_attr
  by unfold_locales (simp_all add: cpp_post_op_attr_def enc_post_op_attr_def cenc_post_op_attr_def enc_string_def comp_def
      fattr3_io.cpp_ok fattr3_io.cpp_enc)

definition cpp_wcc_attr :: "wcc_attr_t \<Rightarrow> wcc_attr" where
  "cpp_wcc_attr x =
     \<lparr>wcc_attr.size3 = wcc_attr_t.size3 x,
      wcc_attr.mtime = cpp_nfstime3 (wcc_attr_t.mtime x),
      wcc_attr.ctime = cpp_nfstime3 (wcc_attr_t.ctime x)\<rparr>"

interpretation wcc_attr_io: interop
  xdr_pack_wcc_attr xdr_unpack_wcc_attr cenc_wcc_attr "\<lambda>_ x. x" "\<lambda>_. True" "\<lambda>_. True" "\<lambda>_. 0"
  serialize_wcc_attr deserialize_wcc_attr enc_wcc_attr "\<lambda>_ x. x" "\<lambda>_. True" cpp_wcc_attr
  by unfold_locales (simp_all add: cpp_wcc_attr_def enc_wcc_attr_def cenc_wcc_attr_def enc_string_def comp_def
      nfstime3_io.cpp_ok nfstime3_io.cpp_enc)

definition cpp_pre_op_attr :: "pre_op_attr_t \<Rightarrow> pre_op_attr" where
  "cpp_pre_op_attr x =
     \<lparr>pre_op_attr.check = (pre_op_attr_t.check x \<noteq> 0),
      pre_op_attr.attributes = cpp_wcc_attr (pre_op_attr_t.attributes x)\<rparr>"

interpretation pre_op_attr_io: interop
  xdr_pack_pre_op_attr xdr_unpack_pre_op_attr cenc_pre_op_attr covr_pre_op_attr "\<lambda>_. True" "\<lambda>_. True" "\<lambda>_. 0"
  serialize_pre_op_attr deserialize_pre_op_attr enc_pre_op_attr ovr_pre_op_attr "\<lambda>_. True" cpp_pre_op_attr
  by unfold_locales (simp_all add: cpp_pre_op_attr_def enc_pre_op_attr_def cenc_pre_op_attr_def enc_string_def comp_def
      wcc_attr_io.cpp_ok wcc_attr_io.cpp_enc)

definition cpp_wcc_data :: "wcc_data_t \<Rightarrow> wcc_data" where
  "cpp_wcc_data x =
     \<lparr>wcc_data.before = cpp_pre_op_attr (wcc_data_t.before x),
      wcc_data.after = cpp_post_op_attr (wcc_data_t.after x)\<rparr>"

interpretation wcc_data_io: interop
  xdr_pack_wcc_data xdr_unpack_wcc_data cenc_wcc_data covr_wcc_data "\<lambda>_. True" "\<lambda>_. True" "\<lambda>_. 0"
  serialize_wcc_data deserialize_wcc_data enc_wcc_data ovr_wcc_data "\<lambda>_. True" cpp_wcc_data
  by unfold_locales (simp_all add: cpp_wcc_data_def enc_wcc_data_def cenc_wcc_data_def enc_string_def comp_def
      pre_op_attr_io.cpp_ok pre_op_attr_io.cpp_enc
      post_op_attr_io.cpp_ok post_op_attr_io.cpp_enc)

section \<open>Results\<close>

definition cpp_res :: "('c \<Rightarrow> 'a) \<Rightarrow> 'c nfs_res_t \<Rightarrow> 'a nfs_res" where
  "cpp_res f x =
     \<lparr>nfs_res.status = nfs_res_t.status x,
      nfs_res.resok = (if nfs_res_t.status x = NFS3_OK then Some (f (nfs_res_t.resok x)) else None)\<rparr>"

section \<open>Requests and replies that agree\<close>

definition cpp_GETATTR3args :: "GETATTR3args_t \<Rightarrow> GETATTR3args" where
  "cpp_GETATTR3args x =
     \<lparr>GETATTR3args.object = cpp_nfs_fh3 (GETATTR3args_t.object x)\<rparr>"

interpretation GETATTR3args_io: interop
  xdr_pack_GETATTR3args xdr_unpack_GETATTR3args cenc_GETATTR3args covr_GETATTR3args cok_GETATTR3args cdst_GETATTR3args cblocks_GETATTR3args
  serialize_GETATTR3args deserialize_GETATTR3args enc_GETATTR3args "\<lambda>_ x. x" ok_GETATTR3args cpp_GETATTR3args
  by unfold_locales (simp_all add: cpp_GETATTR3args_def ok_GETATTR3args_def cok_GETATTR3args_def enc_GETATTR3args_def cenc_GETATTR3args_def enc_string_def comp_def
      nfs_fh3_io.cpp_ok nfs_fh3_io.cpp_enc)

definition cpp_GETATTR3resok :: "GETATTR3resok_t \<Rightarrow> GETATTR3resok" where
  "cpp_GETATTR3resok x =
     \<lparr>GETATTR3resok.obj_attributes = cpp_fattr3 (GETATTR3resok_t.obj_attributes x)\<rparr>"

interpretation GETATTR3resok_io: interop
  xdr_pack_GETATTR3resok xdr_unpack_GETATTR3resok cenc_GETATTR3resok "\<lambda>_ x. x" "\<lambda>_. True" "\<lambda>_. True" "\<lambda>_. 0"
  serialize_GETATTR3resok deserialize_GETATTR3resok enc_GETATTR3resok "\<lambda>_ x. x" "\<lambda>_. True" cpp_GETATTR3resok
  by unfold_locales (simp_all add: cpp_GETATTR3resok_def enc_GETATTR3resok_def cenc_GETATTR3resok_def enc_string_def comp_def
      fattr3_io.cpp_ok fattr3_io.cpp_enc)

interpretation GETATTR3res_io: interop
  xdr_pack_GETATTR3res xdr_unpack_GETATTR3res "cenc_res cenc_GETATTR3resok" "covr_res (\<lambda>_ x. x)" "cok_res (\<lambda>_. True)" "\<lambda>_. True" "\<lambda>_. 0"
  serialize_GETATTR3res deserialize_GETATTR3res "enc_res enc_GETATTR3resok"
  "ovr_res (\<lambda>v. v)" "ok_res (\<lambda>_. True)" "cpp_res cpp_GETATTR3resok"
  unfolding serialize_GETATTR3res_def deserialize_GETATTR3res_def
  by unfold_locales (auto simp: cpp_res_def ok_res_def cok_res_def enc_res_def cenc_res_def GETATTR3resok_io.cpp_ok GETATTR3resok_io.cpp_enc)

definition cpp_LOOKUP3args :: "LOOKUP3args_t \<Rightarrow> LOOKUP3args" where
  "cpp_LOOKUP3args x =
     \<lparr>LOOKUP3args.what_dir = cpp_nfs_fh3 (LOOKUP3args_t.what_dir x),
      LOOKUP3args.what_name = map char_of_byte (chars (LOOKUP3args_t.what_name x))\<rparr>"

interpretation LOOKUP3args_io: interop
  xdr_pack_LOOKUP3args xdr_unpack_LOOKUP3args cenc_LOOKUP3args covr_LOOKUP3args cok_LOOKUP3args cdst_LOOKUP3args cblocks_LOOKUP3args
  serialize_LOOKUP3args deserialize_LOOKUP3args enc_LOOKUP3args "\<lambda>_ x. x" ok_LOOKUP3args cpp_LOOKUP3args
  by unfold_locales (simp_all add: cpp_LOOKUP3args_def ok_LOOKUP3args_def cok_LOOKUP3args_def enc_LOOKUP3args_def cenc_LOOKUP3args_def enc_string_def comp_def
      nfs_fh3_io.cpp_ok nfs_fh3_io.cpp_enc)

definition cpp_LOOKUP3resok :: "LOOKUP3resok_t \<Rightarrow> LOOKUP3resok" where
  "cpp_LOOKUP3resok x =
     \<lparr>LOOKUP3resok.object = cpp_nfs_fh3 (LOOKUP3resok_t.object x),
      LOOKUP3resok.obj_attributes = cpp_post_op_attr (LOOKUP3resok_t.obj_attributes x),
      LOOKUP3resok.dir_attributes = cpp_post_op_attr (LOOKUP3resok_t.dir_attributes x)\<rparr>"

interpretation LOOKUP3resok_io: interop
  xdr_pack_LOOKUP3resok xdr_unpack_LOOKUP3resok cenc_LOOKUP3resok covr_LOOKUP3resok cok_LOOKUP3resok cdst_LOOKUP3resok cblocks_LOOKUP3resok
  serialize_LOOKUP3resok deserialize_LOOKUP3resok enc_LOOKUP3resok ovr_LOOKUP3resok ok_LOOKUP3resok cpp_LOOKUP3resok
  by unfold_locales (simp_all add: cpp_LOOKUP3resok_def ok_LOOKUP3resok_def cok_LOOKUP3resok_def enc_LOOKUP3resok_def cenc_LOOKUP3resok_def enc_string_def comp_def
      nfs_fh3_io.cpp_ok nfs_fh3_io.cpp_enc
      post_op_attr_io.cpp_ok post_op_attr_io.cpp_enc)

interpretation LOOKUP3res_io: interop
  xdr_pack_LOOKUP3res xdr_unpack_LOOKUP3res "cenc_res cenc_LOOKUP3resok" "\<lambda>_. covr_res covr_LOOKUP3resok (zero_res zero_LOOKUP3resok_t)" "cok_res cok_LOOKUP3resok" "\<lambda>ob. cdst_LOOKUP3resok (nfs_res_t.resok ob)" "\<lambda>ob. cblocks_LOOKUP3resok (nfs_res_t.resok ob)"
  serialize_LOOKUP3res deserialize_LOOKUP3res "enc_res enc_LOOKUP3resok"
  "ovr_res (ovr_LOOKUP3resok LOOKUP3resok_init)" "ok_res ok_LOOKUP3resok" "cpp_res cpp_LOOKUP3resok"
  unfolding serialize_LOOKUP3res_def deserialize_LOOKUP3res_def
  by unfold_locales (auto simp: cpp_res_def ok_res_def cok_res_def enc_res_def cenc_res_def LOOKUP3resok_io.cpp_ok LOOKUP3resok_io.cpp_enc)

definition cpp_ACCESS3args :: "ACCESS3args_t \<Rightarrow> ACCESS3args" where
  "cpp_ACCESS3args x =
     \<lparr>ACCESS3args.object = cpp_nfs_fh3 (ACCESS3args_t.object x),
      ACCESS3args.access = ACCESS3args_t.access x\<rparr>"

interpretation ACCESS3args_io: interop
  xdr_pack_ACCESS3args xdr_unpack_ACCESS3args cenc_ACCESS3args covr_ACCESS3args cok_ACCESS3args cdst_ACCESS3args cblocks_ACCESS3args
  serialize_ACCESS3args deserialize_ACCESS3args enc_ACCESS3args "\<lambda>_ x. x" ok_ACCESS3args cpp_ACCESS3args
  by unfold_locales (simp_all add: cpp_ACCESS3args_def ok_ACCESS3args_def cok_ACCESS3args_def enc_ACCESS3args_def cenc_ACCESS3args_def enc_string_def comp_def
      nfs_fh3_io.cpp_ok nfs_fh3_io.cpp_enc)

definition cpp_ACCESS3resok :: "ACCESS3resok_t \<Rightarrow> ACCESS3resok" where
  "cpp_ACCESS3resok x =
     \<lparr>ACCESS3resok.obj_attributes = cpp_post_op_attr (ACCESS3resok_t.obj_attributes x),
      ACCESS3resok.access = ACCESS3resok_t.access x\<rparr>"

interpretation ACCESS3resok_io: interop
  xdr_pack_ACCESS3resok xdr_unpack_ACCESS3resok cenc_ACCESS3resok covr_ACCESS3resok "\<lambda>_. True" "\<lambda>_. True" "\<lambda>_. 0"
  serialize_ACCESS3resok deserialize_ACCESS3resok enc_ACCESS3resok ovr_ACCESS3resok "\<lambda>_. True" cpp_ACCESS3resok
  by unfold_locales (simp_all add: cpp_ACCESS3resok_def enc_ACCESS3resok_def cenc_ACCESS3resok_def enc_string_def comp_def
      post_op_attr_io.cpp_ok post_op_attr_io.cpp_enc)

interpretation ACCESS3res_io: interop
  xdr_pack_ACCESS3res xdr_unpack_ACCESS3res "cenc_res cenc_ACCESS3resok" "covr_res covr_ACCESS3resok" "cok_res (\<lambda>_. True)" "\<lambda>_. True" "\<lambda>_. 0"
  serialize_ACCESS3res deserialize_ACCESS3res "enc_res enc_ACCESS3resok"
  "ovr_res (ovr_ACCESS3resok ACCESS3resok_init)" "ok_res (\<lambda>_. True)" "cpp_res cpp_ACCESS3resok"
  unfolding serialize_ACCESS3res_def deserialize_ACCESS3res_def
  by unfold_locales (auto simp: cpp_res_def ok_res_def cok_res_def enc_res_def cenc_res_def ACCESS3resok_io.cpp_ok ACCESS3resok_io.cpp_enc)

definition cpp_READLINK3args :: "READLINK3args_t \<Rightarrow> READLINK3args" where
  "cpp_READLINK3args x =
     \<lparr>READLINK3args.symlink = cpp_nfs_fh3 (READLINK3args_t.symlink x)\<rparr>"

interpretation READLINK3args_io: interop
  xdr_pack_READLINK3args xdr_unpack_READLINK3args cenc_READLINK3args covr_READLINK3args cok_READLINK3args cdst_READLINK3args cblocks_READLINK3args
  serialize_READLINK3args deserialize_READLINK3args enc_READLINK3args "\<lambda>_ x. x" ok_READLINK3args cpp_READLINK3args
  by unfold_locales (simp_all add: cpp_READLINK3args_def ok_READLINK3args_def cok_READLINK3args_def enc_READLINK3args_def cenc_READLINK3args_def enc_string_def comp_def
      nfs_fh3_io.cpp_ok nfs_fh3_io.cpp_enc)

definition cpp_READLINK3resok :: "READLINK3resok_t \<Rightarrow> READLINK3resok" where
  "cpp_READLINK3resok x =
     \<lparr>READLINK3resok.symlink_attributes = cpp_post_op_attr (READLINK3resok_t.symlink_attributes x),
      READLINK3resok.data = map char_of_byte (chars (READLINK3resok_t.data x))\<rparr>"

interpretation READLINK3resok_io: interop
  xdr_pack_READLINK3resok xdr_unpack_READLINK3resok cenc_READLINK3resok covr_READLINK3resok cok_READLINK3resok cdst_READLINK3resok cblocks_READLINK3resok
  serialize_READLINK3resok deserialize_READLINK3resok enc_READLINK3resok ovr_READLINK3resok ok_READLINK3resok cpp_READLINK3resok
  by unfold_locales (simp_all add: cpp_READLINK3resok_def ok_READLINK3resok_def cok_READLINK3resok_def enc_READLINK3resok_def cenc_READLINK3resok_def enc_string_def comp_def
      post_op_attr_io.cpp_ok post_op_attr_io.cpp_enc)

interpretation READLINK3res_io: interop
  xdr_pack_READLINK3res xdr_unpack_READLINK3res "cenc_res cenc_READLINK3resok" "\<lambda>_. covr_res covr_READLINK3resok (zero_res zero_READLINK3resok_t)" "cok_res cok_READLINK3resok" "\<lambda>ob. crel_READLINK3resok (nfs_res_t.resok ob)" "\<lambda>ob. cblocks_READLINK3resok (nfs_res_t.resok ob)"
  serialize_READLINK3res deserialize_READLINK3res "enc_res enc_READLINK3resok"
  "ovr_res (ovr_READLINK3resok READLINK3resok_init)" "ok_res ok_READLINK3resok" "cpp_res cpp_READLINK3resok"
  unfolding serialize_READLINK3res_def deserialize_READLINK3res_def
  by unfold_locales (auto simp: cpp_res_def ok_res_def cok_res_def enc_res_def cenc_res_def READLINK3resok_io.cpp_ok READLINK3resok_io.cpp_enc)

definition cpp_REMOVE3args :: "REMOVE3args_t \<Rightarrow> REMOVE3args" where
  "cpp_REMOVE3args x =
     \<lparr>REMOVE3args.object_dir = cpp_nfs_fh3 (REMOVE3args_t.object_dir x),
      REMOVE3args.object_name = map char_of_byte (chars (REMOVE3args_t.object_name x))\<rparr>"

interpretation REMOVE3args_io: interop
  xdr_pack_REMOVE3args xdr_unpack_REMOVE3args cenc_REMOVE3args covr_REMOVE3args cok_REMOVE3args cdst_REMOVE3args cblocks_REMOVE3args
  serialize_REMOVE3args deserialize_REMOVE3args enc_REMOVE3args "\<lambda>_ x. x" ok_REMOVE3args cpp_REMOVE3args
  by unfold_locales (simp_all add: cpp_REMOVE3args_def ok_REMOVE3args_def cok_REMOVE3args_def enc_REMOVE3args_def cenc_REMOVE3args_def enc_string_def comp_def
      nfs_fh3_io.cpp_ok nfs_fh3_io.cpp_enc)

definition cpp_REMOVE3resok :: "REMOVE3resok_t \<Rightarrow> REMOVE3resok" where
  "cpp_REMOVE3resok x =
     \<lparr>REMOVE3resok.dir_wcc = cpp_wcc_data (REMOVE3resok_t.dir_wcc x)\<rparr>"

interpretation REMOVE3resok_io: interop
  xdr_pack_REMOVE3resok xdr_unpack_REMOVE3resok cenc_REMOVE3resok covr_REMOVE3resok "\<lambda>_. True" "\<lambda>_. True" "\<lambda>_. 0"
  serialize_REMOVE3resok deserialize_REMOVE3resok enc_REMOVE3resok ovr_REMOVE3resok "\<lambda>_. True" cpp_REMOVE3resok
  by unfold_locales (simp_all add: cpp_REMOVE3resok_def enc_REMOVE3resok_def cenc_REMOVE3resok_def enc_string_def comp_def
      wcc_data_io.cpp_ok wcc_data_io.cpp_enc)

interpretation REMOVE3res_io: interop
  xdr_pack_REMOVE3res xdr_unpack_REMOVE3res "cenc_res cenc_REMOVE3resok" "covr_res covr_REMOVE3resok" "cok_res (\<lambda>_. True)" "\<lambda>_. True" "\<lambda>_. 0"
  serialize_REMOVE3res deserialize_REMOVE3res "enc_res enc_REMOVE3resok"
  "ovr_res (ovr_REMOVE3resok REMOVE3resok_init)" "ok_res (\<lambda>_. True)" "cpp_res cpp_REMOVE3resok"
  unfolding serialize_REMOVE3res_def deserialize_REMOVE3res_def
  by unfold_locales (auto simp: cpp_res_def ok_res_def cok_res_def enc_res_def cenc_res_def REMOVE3resok_io.cpp_ok REMOVE3resok_io.cpp_enc)

definition cpp_RMDIR3args :: "RMDIR3args_t \<Rightarrow> RMDIR3args" where
  "cpp_RMDIR3args x =
     \<lparr>RMDIR3args.object_dir = cpp_nfs_fh3 (RMDIR3args_t.object_dir x),
      RMDIR3args.object_name = map char_of_byte (chars (RMDIR3args_t.object_name x))\<rparr>"

interpretation RMDIR3args_io: interop
  xdr_pack_RMDIR3args xdr_unpack_RMDIR3args cenc_RMDIR3args covr_RMDIR3args cok_RMDIR3args cdst_RMDIR3args cblocks_RMDIR3args
  serialize_RMDIR3args deserialize_RMDIR3args enc_RMDIR3args "\<lambda>_ x. x" ok_RMDIR3args cpp_RMDIR3args
  by unfold_locales (simp_all add: cpp_RMDIR3args_def ok_RMDIR3args_def cok_RMDIR3args_def enc_RMDIR3args_def cenc_RMDIR3args_def enc_string_def comp_def
      nfs_fh3_io.cpp_ok nfs_fh3_io.cpp_enc)

definition cpp_RMDIR3resok :: "RMDIR3resok_t \<Rightarrow> RMDIR3resok" where
  "cpp_RMDIR3resok x =
     \<lparr>RMDIR3resok.dir_wcc = cpp_wcc_data (RMDIR3resok_t.dir_wcc x)\<rparr>"

interpretation RMDIR3resok_io: interop
  xdr_pack_RMDIR3resok xdr_unpack_RMDIR3resok cenc_RMDIR3resok covr_RMDIR3resok "\<lambda>_. True" "\<lambda>_. True" "\<lambda>_. 0"
  serialize_RMDIR3resok deserialize_RMDIR3resok enc_RMDIR3resok ovr_RMDIR3resok "\<lambda>_. True" cpp_RMDIR3resok
  by unfold_locales (simp_all add: cpp_RMDIR3resok_def enc_RMDIR3resok_def cenc_RMDIR3resok_def enc_string_def comp_def
      wcc_data_io.cpp_ok wcc_data_io.cpp_enc)

interpretation RMDIR3res_io: interop
  xdr_pack_RMDIR3res xdr_unpack_RMDIR3res "cenc_res cenc_RMDIR3resok" "covr_res covr_RMDIR3resok" "cok_res (\<lambda>_. True)" "\<lambda>_. True" "\<lambda>_. 0"
  serialize_RMDIR3res deserialize_RMDIR3res "enc_res enc_RMDIR3resok"
  "ovr_res (ovr_RMDIR3resok RMDIR3resok_init)" "ok_res (\<lambda>_. True)" "cpp_res cpp_RMDIR3resok"
  unfolding serialize_RMDIR3res_def deserialize_RMDIR3res_def
  by unfold_locales (auto simp: cpp_res_def ok_res_def cok_res_def enc_res_def cenc_res_def RMDIR3resok_io.cpp_ok RMDIR3resok_io.cpp_enc)

definition cpp_RENAME3args :: "RENAME3args_t \<Rightarrow> RENAME3args" where
  "cpp_RENAME3args x =
     \<lparr>RENAME3args.from_dir = cpp_nfs_fh3 (RENAME3args_t.from_dir x),
      RENAME3args.from_name = map char_of_byte (chars (RENAME3args_t.from_name x)),
      RENAME3args.to_dir = cpp_nfs_fh3 (RENAME3args_t.to_dir x),
      RENAME3args.to_name = map char_of_byte (chars (RENAME3args_t.to_name x))\<rparr>"

interpretation RENAME3args_io: interop
  xdr_pack_RENAME3args xdr_unpack_RENAME3args cenc_RENAME3args covr_RENAME3args cok_RENAME3args cdst_RENAME3args cblocks_RENAME3args
  serialize_RENAME3args deserialize_RENAME3args enc_RENAME3args "\<lambda>_ x. x" ok_RENAME3args cpp_RENAME3args
  by unfold_locales (simp_all add: cpp_RENAME3args_def ok_RENAME3args_def cok_RENAME3args_def enc_RENAME3args_def cenc_RENAME3args_def enc_string_def comp_def
      nfs_fh3_io.cpp_ok nfs_fh3_io.cpp_enc)

definition cpp_RENAME3resok :: "RENAME3resok_t \<Rightarrow> RENAME3resok" where
  "cpp_RENAME3resok x =
     \<lparr>RENAME3resok.fromdir_wcc = cpp_wcc_data (RENAME3resok_t.fromdir_wcc x),
      RENAME3resok.todir_wcc = cpp_wcc_data (RENAME3resok_t.todir_wcc x)\<rparr>"

interpretation RENAME3resok_io: interop
  xdr_pack_RENAME3resok xdr_unpack_RENAME3resok cenc_RENAME3resok covr_RENAME3resok "\<lambda>_. True" "\<lambda>_. True" "\<lambda>_. 0"
  serialize_RENAME3resok deserialize_RENAME3resok enc_RENAME3resok ovr_RENAME3resok "\<lambda>_. True" cpp_RENAME3resok
  by unfold_locales (simp_all add: cpp_RENAME3resok_def enc_RENAME3resok_def cenc_RENAME3resok_def enc_string_def comp_def
      wcc_data_io.cpp_ok wcc_data_io.cpp_enc)

interpretation RENAME3res_io: interop
  xdr_pack_RENAME3res xdr_unpack_RENAME3res "cenc_res cenc_RENAME3resok" "covr_res covr_RENAME3resok" "cok_res (\<lambda>_. True)" "\<lambda>_. True" "\<lambda>_. 0"
  serialize_RENAME3res deserialize_RENAME3res "enc_res enc_RENAME3resok"
  "ovr_res (ovr_RENAME3resok RENAME3resok_init)" "ok_res (\<lambda>_. True)" "cpp_res cpp_RENAME3resok"
  unfolding serialize_RENAME3res_def deserialize_RENAME3res_def
  by unfold_locales (auto simp: cpp_res_def ok_res_def cok_res_def enc_res_def cenc_res_def RENAME3resok_io.cpp_ok RENAME3resok_io.cpp_enc)

definition cpp_LINK3args :: "LINK3args_t \<Rightarrow> LINK3args" where
  "cpp_LINK3args x =
     \<lparr>LINK3args.file3 = cpp_nfs_fh3 (LINK3args_t.file3 x),
      LINK3args.link_dir = cpp_nfs_fh3 (LINK3args_t.link_dir x),
      LINK3args.link_name = map char_of_byte (chars (LINK3args_t.link_name x))\<rparr>"

interpretation LINK3args_io: interop
  xdr_pack_LINK3args xdr_unpack_LINK3args cenc_LINK3args covr_LINK3args cok_LINK3args cdst_LINK3args cblocks_LINK3args
  serialize_LINK3args deserialize_LINK3args enc_LINK3args "\<lambda>_ x. x" ok_LINK3args cpp_LINK3args
  by unfold_locales (simp_all add: cpp_LINK3args_def ok_LINK3args_def cok_LINK3args_def enc_LINK3args_def cenc_LINK3args_def enc_string_def comp_def
      nfs_fh3_io.cpp_ok nfs_fh3_io.cpp_enc)

definition cpp_LINK3resok :: "LINK3resok_t \<Rightarrow> LINK3resok" where
  "cpp_LINK3resok x =
     \<lparr>LINK3resok.file_attributes = cpp_post_op_attr (LINK3resok_t.file_attributes x),
      LINK3resok.linkdir_wcc = cpp_wcc_data (LINK3resok_t.linkdir_wcc x)\<rparr>"

interpretation LINK3resok_io: interop
  xdr_pack_LINK3resok xdr_unpack_LINK3resok cenc_LINK3resok covr_LINK3resok "\<lambda>_. True" "\<lambda>_. True" "\<lambda>_. 0"
  serialize_LINK3resok deserialize_LINK3resok enc_LINK3resok ovr_LINK3resok "\<lambda>_. True" cpp_LINK3resok
  by unfold_locales (simp_all add: cpp_LINK3resok_def enc_LINK3resok_def cenc_LINK3resok_def enc_string_def comp_def
      post_op_attr_io.cpp_ok post_op_attr_io.cpp_enc
      wcc_data_io.cpp_ok wcc_data_io.cpp_enc)

interpretation LINK3res_io: interop
  xdr_pack_LINK3res xdr_unpack_LINK3res "cenc_res cenc_LINK3resok" "covr_res covr_LINK3resok" "cok_res (\<lambda>_. True)" "\<lambda>_. True" "\<lambda>_. 0"
  serialize_LINK3res deserialize_LINK3res "enc_res enc_LINK3resok"
  "ovr_res (ovr_LINK3resok LINK3resok_init)" "ok_res (\<lambda>_. True)" "cpp_res cpp_LINK3resok"
  unfolding serialize_LINK3res_def deserialize_LINK3res_def
  by unfold_locales (auto simp: cpp_res_def ok_res_def cok_res_def enc_res_def cenc_res_def LINK3resok_io.cpp_ok LINK3resok_io.cpp_enc)

definition cpp_SETATTR3resok :: "SETATTR3resok_t \<Rightarrow> SETATTR3resok" where
  "cpp_SETATTR3resok x =
     \<lparr>SETATTR3resok.obj_wcc = cpp_wcc_data (SETATTR3resok_t.obj_wcc x)\<rparr>"

interpretation SETATTR3resok_io: interop
  xdr_pack_SETATTR3resok xdr_unpack_SETATTR3resok cenc_SETATTR3resok covr_SETATTR3resok "\<lambda>_. True" "\<lambda>_. True" "\<lambda>_. 0"
  serialize_SETATTR3resok deserialize_SETATTR3resok enc_SETATTR3resok ovr_SETATTR3resok "\<lambda>_. True" cpp_SETATTR3resok
  by unfold_locales (simp_all add: cpp_SETATTR3resok_def enc_SETATTR3resok_def cenc_SETATTR3resok_def enc_string_def comp_def
      wcc_data_io.cpp_ok wcc_data_io.cpp_enc)

interpretation SETATTR3res_io: interop
  xdr_pack_SETATTR3res xdr_unpack_SETATTR3res "cenc_res cenc_SETATTR3resok" "covr_res covr_SETATTR3resok" "cok_res (\<lambda>_. True)" "\<lambda>_. True" "\<lambda>_. 0"
  serialize_SETATTR3res deserialize_SETATTR3res "enc_res enc_SETATTR3resok"
  "ovr_res (ovr_SETATTR3resok SETATTR3resok_init)" "ok_res (\<lambda>_. True)" "cpp_res cpp_SETATTR3resok"
  unfolding serialize_SETATTR3res_def deserialize_SETATTR3res_def
  by unfold_locales (auto simp: cpp_res_def ok_res_def cok_res_def enc_res_def cenc_res_def SETATTR3resok_io.cpp_ok SETATTR3resok_io.cpp_enc)

definition cpp_READ3args :: "READ3args_t \<Rightarrow> READ3args" where
  "cpp_READ3args x =
     \<lparr>READ3args.file3 = cpp_nfs_fh3 (READ3args_t.file3 x),
      READ3args.offset = READ3args_t.offset x,
      READ3args.count = READ3args_t.count x\<rparr>"

interpretation READ3args_io: interop
  xdr_pack_READ3args xdr_unpack_READ3args cenc_READ3args covr_READ3args cok_READ3args cdst_READ3args cblocks_READ3args
  serialize_READ3args deserialize_READ3args enc_READ3args "\<lambda>_ x. x" ok_READ3args cpp_READ3args
  by unfold_locales (simp_all add: cpp_READ3args_def ok_READ3args_def cok_READ3args_def enc_READ3args_def cenc_READ3args_def enc_string_def comp_def
      nfs_fh3_io.cpp_ok nfs_fh3_io.cpp_enc)

definition cpp_WRITE3args :: "WRITE3args_t \<Rightarrow> WRITE3args" where
  "cpp_WRITE3args x =
     \<lparr>WRITE3args.file3 = cpp_nfs_fh3 (WRITE3args_t.file3 x),
      WRITE3args.offset = WRITE3args_t.offset x,
      WRITE3args.count = WRITE3args_t.count x,
      WRITE3args.stable = WRITE3args_t.stable x,
      WRITE3args.data = contents (WRITE3args_t.data x) (unat (WRITE3args_t.count x))\<rparr>"

interpretation WRITE3args_io: interop
  xdr_pack_WRITE3args xdr_unpack_WRITE3args cenc_WRITE3args covr_WRITE3args cok_WRITE3args cdst_WRITE3args cblocks_WRITE3args
  serialize_WRITE3args deserialize_WRITE3args enc_WRITE3args "\<lambda>_ x. x" ok_WRITE3args cpp_WRITE3args
  by unfold_locales (simp_all add: cpp_WRITE3args_def ok_WRITE3args_def cok_WRITE3args_def enc_WRITE3args_def cenc_WRITE3args_def enc_string_def comp_def length_contents unat_le_max
      nfs_fh3_io.cpp_ok nfs_fh3_io.cpp_enc)

definition cpp_READDIR3args :: "READDIR3args_t \<Rightarrow> READDIR3args" where
  "cpp_READDIR3args x =
     \<lparr>READDIR3args.dir = cpp_nfs_fh3 (READDIR3args_t.dir x),
      READDIR3args.cookie = READDIR3args_t.cookie x,
      READDIR3args.cookieverf = READDIR3args_t.cookieverf x,
      READDIR3args.count = READDIR3args_t.count x\<rparr>"

interpretation READDIR3args_io: interop
  xdr_pack_READDIR3args xdr_unpack_READDIR3args cenc_READDIR3args covr_READDIR3args cok_READDIR3args cdst_READDIR3args cblocks_READDIR3args
  serialize_READDIR3args deserialize_READDIR3args enc_READDIR3args "\<lambda>_ x. x" ok_READDIR3args cpp_READDIR3args
  by unfold_locales (simp_all add: cpp_READDIR3args_def ok_READDIR3args_def cok_READDIR3args_def enc_READDIR3args_def cenc_READDIR3args_def enc_string_def comp_def
      nfs_fh3_io.cpp_ok nfs_fh3_io.cpp_enc)

definition cpp_READDIRPLUS3args :: "READDIRPLUS3args_t \<Rightarrow> READDIRPLUS3args" where
  "cpp_READDIRPLUS3args x =
     \<lparr>READDIRPLUS3args.dir = cpp_nfs_fh3 (READDIRPLUS3args_t.dir x),
      READDIRPLUS3args.cookie = READDIRPLUS3args_t.cookie x,
      READDIRPLUS3args.cookieverf = READDIRPLUS3args_t.cookieverf x,
      READDIRPLUS3args.dircount = READDIRPLUS3args_t.dircount x,
      READDIRPLUS3args.maxcount = READDIRPLUS3args_t.maxcount x\<rparr>"

interpretation READDIRPLUS3args_io: interop
  xdr_pack_READDIRPLUS3args xdr_unpack_READDIRPLUS3args cenc_READDIRPLUS3args covr_READDIRPLUS3args cok_READDIRPLUS3args cdst_READDIRPLUS3args cblocks_READDIRPLUS3args
  serialize_READDIRPLUS3args deserialize_READDIRPLUS3args enc_READDIRPLUS3args "\<lambda>_ x. x" ok_READDIRPLUS3args cpp_READDIRPLUS3args
  by unfold_locales (simp_all add: cpp_READDIRPLUS3args_def ok_READDIRPLUS3args_def cok_READDIRPLUS3args_def enc_READDIRPLUS3args_def cenc_READDIRPLUS3args_def enc_string_def comp_def
      nfs_fh3_io.cpp_ok nfs_fh3_io.cpp_enc)

definition cpp_COMMIT3args :: "COMMIT3args_t \<Rightarrow> COMMIT3args" where
  "cpp_COMMIT3args x =
     \<lparr>COMMIT3args.file3 = cpp_nfs_fh3 (COMMIT3args_t.file3 x),
      COMMIT3args.offset = COMMIT3args_t.offset x,
      COMMIT3args.count = COMMIT3args_t.count x\<rparr>"

interpretation COMMIT3args_io: interop
  xdr_pack_COMMIT3args xdr_unpack_COMMIT3args cenc_COMMIT3args covr_COMMIT3args cok_COMMIT3args cdst_COMMIT3args cblocks_COMMIT3args
  serialize_COMMIT3args deserialize_COMMIT3args enc_COMMIT3args "\<lambda>_ x. x" ok_COMMIT3args cpp_COMMIT3args
  by unfold_locales (simp_all add: cpp_COMMIT3args_def ok_COMMIT3args_def cok_COMMIT3args_def enc_COMMIT3args_def cenc_COMMIT3args_def enc_string_def comp_def
      nfs_fh3_io.cpp_ok nfs_fh3_io.cpp_enc)

definition cpp_FSSTAT3args :: "FSSTAT3args_t \<Rightarrow> FSSTAT3args" where
  "cpp_FSSTAT3args x =
     \<lparr>FSSTAT3args.fsroot = cpp_nfs_fh3 (FSSTAT3args_t.fsroot x)\<rparr>"

interpretation FSSTAT3args_io: interop
  xdr_pack_FSSTAT3args xdr_unpack_FSSTAT3args cenc_FSSTAT3args covr_FSSTAT3args cok_FSSTAT3args cdst_FSSTAT3args cblocks_FSSTAT3args
  serialize_FSSTAT3args deserialize_FSSTAT3args enc_FSSTAT3args "\<lambda>_ x. x" ok_FSSTAT3args cpp_FSSTAT3args
  by unfold_locales (simp_all add: cpp_FSSTAT3args_def ok_FSSTAT3args_def cok_FSSTAT3args_def enc_FSSTAT3args_def cenc_FSSTAT3args_def enc_string_def comp_def
      nfs_fh3_io.cpp_ok nfs_fh3_io.cpp_enc)

definition cpp_FSSTAT3resok :: "FSSTAT3resok_t \<Rightarrow> FSSTAT3resok" where
  "cpp_FSSTAT3resok x =
     \<lparr>FSSTAT3resok.obj_attributes = cpp_post_op_attr (FSSTAT3resok_t.obj_attributes x),
      FSSTAT3resok.tbytes = FSSTAT3resok_t.tbytes x,
      FSSTAT3resok.fbytes = FSSTAT3resok_t.fbytes x,
      FSSTAT3resok.abytes = FSSTAT3resok_t.abytes x,
      FSSTAT3resok.tfiles = FSSTAT3resok_t.tfiles x,
      FSSTAT3resok.ffiles = FSSTAT3resok_t.ffiles x,
      FSSTAT3resok.afiles = FSSTAT3resok_t.afiles x,
      FSSTAT3resok.invarsec = FSSTAT3resok_t.invarsec x\<rparr>"

interpretation FSSTAT3resok_io: interop
  xdr_pack_FSSTAT3resok xdr_unpack_FSSTAT3resok cenc_FSSTAT3resok covr_FSSTAT3resok "\<lambda>_. True" "\<lambda>_. True" "\<lambda>_. 0"
  serialize_FSSTAT3resok deserialize_FSSTAT3resok enc_FSSTAT3resok ovr_FSSTAT3resok "\<lambda>_. True" cpp_FSSTAT3resok
  by unfold_locales (simp_all add: cpp_FSSTAT3resok_def enc_FSSTAT3resok_def cenc_FSSTAT3resok_def enc_string_def comp_def
      post_op_attr_io.cpp_ok post_op_attr_io.cpp_enc)

interpretation FSSTAT3res_io: interop
  xdr_pack_FSSTAT3res xdr_unpack_FSSTAT3res "cenc_res cenc_FSSTAT3resok" "covr_res covr_FSSTAT3resok" "cok_res (\<lambda>_. True)" "\<lambda>_. True" "\<lambda>_. 0"
  serialize_FSSTAT3res deserialize_FSSTAT3res "enc_res enc_FSSTAT3resok"
  "ovr_res (ovr_FSSTAT3resok FSSTAT3resok_init)" "ok_res (\<lambda>_. True)" "cpp_res cpp_FSSTAT3resok"
  unfolding serialize_FSSTAT3res_def deserialize_FSSTAT3res_def
  by unfold_locales (auto simp: cpp_res_def ok_res_def cok_res_def enc_res_def cenc_res_def FSSTAT3resok_io.cpp_ok FSSTAT3resok_io.cpp_enc)

definition cpp_FSINFO3args :: "FSINFO3args_t \<Rightarrow> FSINFO3args" where
  "cpp_FSINFO3args x =
     \<lparr>FSINFO3args.fsroot = cpp_nfs_fh3 (FSINFO3args_t.fsroot x)\<rparr>"

interpretation FSINFO3args_io: interop
  xdr_pack_FSINFO3args xdr_unpack_FSINFO3args cenc_FSINFO3args covr_FSINFO3args cok_FSINFO3args cdst_FSINFO3args cblocks_FSINFO3args
  serialize_FSINFO3args deserialize_FSINFO3args enc_FSINFO3args "\<lambda>_ x. x" ok_FSINFO3args cpp_FSINFO3args
  by unfold_locales (simp_all add: cpp_FSINFO3args_def ok_FSINFO3args_def cok_FSINFO3args_def enc_FSINFO3args_def cenc_FSINFO3args_def enc_string_def comp_def
      nfs_fh3_io.cpp_ok nfs_fh3_io.cpp_enc)

definition cpp_FSINFO3resok :: "FSINFO3resok_t \<Rightarrow> FSINFO3resok" where
  "cpp_FSINFO3resok x =
     \<lparr>FSINFO3resok.obj_attributes = cpp_post_op_attr (FSINFO3resok_t.obj_attributes x),
      FSINFO3resok.rtmax = FSINFO3resok_t.rtmax x,
      FSINFO3resok.rtpref = FSINFO3resok_t.rtpref x,
      FSINFO3resok.rtmult = FSINFO3resok_t.rtmult x,
      FSINFO3resok.wtmax = FSINFO3resok_t.wtmax x,
      FSINFO3resok.wtpref = FSINFO3resok_t.wtpref x,
      FSINFO3resok.wtmult = FSINFO3resok_t.wtmult x,
      FSINFO3resok.dtpref = FSINFO3resok_t.dtpref x,
      FSINFO3resok.maxfilesize = FSINFO3resok_t.maxfilesize x,
      FSINFO3resok.time_delta_seconds = FSINFO3resok_t.time_delta_seconds x,
      FSINFO3resok.time_delta_nseconds = FSINFO3resok_t.time_delta_nseconds x,
      FSINFO3resok.properties = FSINFO3resok_t.properties x\<rparr>"

interpretation FSINFO3resok_io: interop
  xdr_pack_FSINFO3resok xdr_unpack_FSINFO3resok cenc_FSINFO3resok covr_FSINFO3resok "\<lambda>_. True" "\<lambda>_. True" "\<lambda>_. 0"
  serialize_FSINFO3resok deserialize_FSINFO3resok enc_FSINFO3resok ovr_FSINFO3resok "\<lambda>_. True" cpp_FSINFO3resok
  by unfold_locales (simp_all add: cpp_FSINFO3resok_def enc_FSINFO3resok_def cenc_FSINFO3resok_def enc_string_def comp_def
      post_op_attr_io.cpp_ok post_op_attr_io.cpp_enc)

interpretation FSINFO3res_io: interop
  xdr_pack_FSINFO3res xdr_unpack_FSINFO3res "cenc_res cenc_FSINFO3resok" "covr_res covr_FSINFO3resok" "cok_res (\<lambda>_. True)" "\<lambda>_. True" "\<lambda>_. 0"
  serialize_FSINFO3res deserialize_FSINFO3res "enc_res enc_FSINFO3resok"
  "ovr_res (ovr_FSINFO3resok FSINFO3resok_init)" "ok_res (\<lambda>_. True)" "cpp_res cpp_FSINFO3resok"
  unfolding serialize_FSINFO3res_def deserialize_FSINFO3res_def
  by unfold_locales (auto simp: cpp_res_def ok_res_def cok_res_def enc_res_def cenc_res_def FSINFO3resok_io.cpp_ok FSINFO3resok_io.cpp_enc)

definition cpp_PATHCONF3args :: "PATHCONF3args_t \<Rightarrow> PATHCONF3args" where
  "cpp_PATHCONF3args x =
     \<lparr>PATHCONF3args.object = cpp_nfs_fh3 (PATHCONF3args_t.object x)\<rparr>"

interpretation PATHCONF3args_io: interop
  xdr_pack_PATHCONF3args xdr_unpack_PATHCONF3args cenc_PATHCONF3args covr_PATHCONF3args cok_PATHCONF3args cdst_PATHCONF3args cblocks_PATHCONF3args
  serialize_PATHCONF3args deserialize_PATHCONF3args enc_PATHCONF3args "\<lambda>_ x. x" ok_PATHCONF3args cpp_PATHCONF3args
  by unfold_locales (simp_all add: cpp_PATHCONF3args_def ok_PATHCONF3args_def cok_PATHCONF3args_def enc_PATHCONF3args_def cenc_PATHCONF3args_def enc_string_def comp_def
      nfs_fh3_io.cpp_ok nfs_fh3_io.cpp_enc)

definition cpp_pathconf3_resok_info :: "pathconf3_resok_info_t \<Rightarrow> pathconf3_resok_info" where
  "cpp_pathconf3_resok_info x =
     \<lparr>pathconf3_resok_info.linkmax = pathconf3_resok_info_t.linkmax x,
      pathconf3_resok_info.name_max = pathconf3_resok_info_t.name_max x,
      pathconf3_resok_info.no_trunc = (pathconf3_resok_info_t.no_trunc x \<noteq> 0),
      pathconf3_resok_info.chown_restricted = (pathconf3_resok_info_t.chown_restricted x \<noteq> 0),
      pathconf3_resok_info.case_insensitive = (pathconf3_resok_info_t.case_insensitive x \<noteq> 0),
      pathconf3_resok_info.case_preserving = (pathconf3_resok_info_t.case_preserving x \<noteq> 0)\<rparr>"

interpretation pathconf3_resok_info_io: interop
  xdr_pack_pathconf3_resok_info xdr_unpack_pathconf3_resok_info cenc_pathconf3_resok_info covr_pathconf3_resok_info "\<lambda>_. True" "\<lambda>_. True" "\<lambda>_. 0"
  serialize_pathconf3_resok_info deserialize_pathconf3_resok_info enc_pathconf3_resok_info "\<lambda>_ x. x" "\<lambda>_. True" cpp_pathconf3_resok_info
  by unfold_locales (simp_all add: cpp_pathconf3_resok_info_def enc_pathconf3_resok_info_def cenc_pathconf3_resok_info_def enc_string_def comp_def)

definition cpp_PATHCONF3resok :: "PATHCONF3resok_t \<Rightarrow> PATHCONF3resok" where
  "cpp_PATHCONF3resok x =
     \<lparr>PATHCONF3resok.obj_attributes = cpp_post_op_attr (PATHCONF3resok_t.obj_attributes x),
      PATHCONF3resok.info = cpp_pathconf3_resok_info (PATHCONF3resok_t.info x)\<rparr>"

interpretation PATHCONF3resok_io: interop
  xdr_pack_PATHCONF3resok xdr_unpack_PATHCONF3resok cenc_PATHCONF3resok covr_PATHCONF3resok "\<lambda>_. True" "\<lambda>_. True" "\<lambda>_. 0"
  serialize_PATHCONF3resok deserialize_PATHCONF3resok enc_PATHCONF3resok ovr_PATHCONF3resok "\<lambda>_. True" cpp_PATHCONF3resok
  by unfold_locales (simp_all add: cpp_PATHCONF3resok_def enc_PATHCONF3resok_def cenc_PATHCONF3resok_def enc_string_def comp_def
      post_op_attr_io.cpp_ok post_op_attr_io.cpp_enc
      pathconf3_resok_info_io.cpp_ok pathconf3_resok_info_io.cpp_enc)

interpretation PATHCONF3res_io: interop
  xdr_pack_PATHCONF3res xdr_unpack_PATHCONF3res "cenc_res cenc_PATHCONF3resok" "covr_res covr_PATHCONF3resok" "cok_res (\<lambda>_. True)" "\<lambda>_. True" "\<lambda>_. 0"
  serialize_PATHCONF3res deserialize_PATHCONF3res "enc_res enc_PATHCONF3resok"
  "ovr_res (ovr_PATHCONF3resok PATHCONF3resok_init)" "ok_res (\<lambda>_. True)" "cpp_res cpp_PATHCONF3resok"
  unfolding serialize_PATHCONF3res_def deserialize_PATHCONF3res_def
  by unfold_locales (auto simp: cpp_res_def ok_res_def cok_res_def enc_res_def cenc_res_def PATHCONF3resok_io.cpp_ok PATHCONF3resok_io.cpp_enc)

section \<open>Directory listings\<close>

text \<open>The linked entries of the two languages, one level of the recursion for each pointer.\<close>

fun cpp_entry3 :: "entry3_t \<Rightarrow> entry3" where
  "cpp_entry3 (Entry3_t f n c nxt) =
     Entry3 f (map char_of_byte (chars n)) c (case nxt of Owned e \<Rightarrow> Some (cpp_entry3 e) | _ \<Rightarrow> None)"

lemma cpp_entry3_laws:
  assumes "cok_entry3 e"
  shows "ok_entry3 (cpp_entry3 e)" and "enc_entry3 (cpp_entry3 e) = cenc_entry3 e"
  using assms
proof (induction e)
  case (Entry3_t f n c nxt)
  {
    case 1 then show ?case using Entry3_t(1) by (cases nxt) auto
  next
    case 2 then show ?case using Entry3_t(2) by (cases nxt) (auto simp: enc_string_def comp_def)
  }
qed

definition cpp_dirlist3 :: "dirlist3_t \<Rightarrow> dirlist3" where
  "cpp_dirlist3 dl =
     \<lparr>dirlist3.entries = (case dirlist_t.entries dl of Owned e \<Rightarrow> Some (cpp_entry3 e) | _ \<Rightarrow> None),
      dirlist3.eof = (dirlist_t.eof dl \<noteq> 0)\<rparr>"

interpretation dirlist3_io: interop
  xdr_pack_dirlist3 xdr_unpack_dirlist3 cenc_dirlist3 covr_dirlist3 cok_dirlist3 cdst_dirlist3 cblocks_dirlist3
  serialize_dirlist3 deserialize_dirlist3 enc_dirlist3 ovr_dirlist3 ok_dirlist3 cpp_dirlist3
  by unfold_locales (auto simp: cpp_dirlist3_def ok_dirlist3_def ok_optional_def all_entries_def enc_dirlist3_def
      cenc_dirlist_def enc_optional_def cpp_entry3_laws split: ptr.splits)

definition cpp_READDIR3resok :: "READDIR3resok_t \<Rightarrow> READDIR3resok" where
  "cpp_READDIR3resok x =
     \<lparr>READDIR3resok.dir_attributes = cpp_post_op_attr (READDIR3resok_t.dir_attributes x),
      READDIR3resok.cookieverf = READDIR3resok_t.cookieverf x,
      READDIR3resok.reply = cpp_dirlist3 (READDIR3resok_t.reply x)\<rparr>"

interpretation READDIR3resok_io: interop
  xdr_pack_READDIR3resok xdr_unpack_READDIR3resok cenc_READDIR3resok covr_READDIR3resok cok_READDIR3resok cdst_READDIR3resok cblocks_READDIR3resok
  serialize_READDIR3resok deserialize_READDIR3resok enc_READDIR3resok ovr_READDIR3resok ok_READDIR3resok cpp_READDIR3resok
  by unfold_locales (simp_all add: cpp_READDIR3resok_def ok_READDIR3resok_def cok_READDIR3resok_def enc_READDIR3resok_def cenc_READDIR3resok_def enc_string_def comp_def
      post_op_attr_io.cpp_ok post_op_attr_io.cpp_enc
      dirlist3_io.cpp_ok dirlist3_io.cpp_enc)

interpretation READDIR3res_io: interop
  xdr_pack_READDIR3res xdr_unpack_READDIR3res "cenc_res cenc_READDIR3resok" "\<lambda>_. covr_res covr_READDIR3resok (zero_res zero_READDIR3resok_t)" "cok_res cok_READDIR3resok" "\<lambda>ob. crel_READDIR3resok (nfs_res_t.resok ob)" "\<lambda>ob. cblocks_READDIR3resok (nfs_res_t.resok ob)"
  serialize_READDIR3res deserialize_READDIR3res "enc_res enc_READDIR3resok"
  "ovr_res (ovr_READDIR3resok READDIR3resok_init)" "ok_res ok_READDIR3resok" "cpp_res cpp_READDIR3resok"
  unfolding serialize_READDIR3res_def deserialize_READDIR3res_def
  by unfold_locales (auto simp: cpp_res_def ok_res_def cok_res_def enc_res_def cenc_res_def READDIR3resok_io.cpp_ok READDIR3resok_io.cpp_enc)

end
