(* ===== verification/CProperties.thy ===== *)
theory CProperties
  imports CInterop
begin

text \<open>
  Properties of the C port: its buffer against the C++ one, memory safety and ownership, the
  messages it shares with the C++ sources and those it does not, and what becomes of messages
  that are cut short and of requests whose lengths do not fit their data.
\<close>

section \<open>The buffer\<close>





text \<open>
  When \<^verbatim>\<open>realloc\<close> fails, \<^verbatim>\<open>ensure_write_capacity\<close> prints a message and returns, and the caller
  writes past the end of the block: packing an integer into a full buffer is then an access
  out of bounds.
\<close>

theorem c_out_of_memory_overflow:
  assumes "xdr_buf_t.data (xbuf s) = Owned blk" and "length blk = capacity (xbuf s)"
    and "capacity (xbuf s) < bsize (xbuf s) + 4" and "denied (mem s) (requests (mem s))"
  shows "xdr_pack_uint32 v s = Fault OutOfBounds"
proof -
  let ?b = "xbuf s"
  let ?c = "if capacity ?b \<noteq> 0 then capacity ?b * 2 else XDR_MIN_CAPACITY"
  have "0 < ?c" by (simp add: XDR_MIN_CAPACITY_def)
  then obtain c where "grow_cap ?c (bsize ?b + 4) = Some c" using grow_cap_returns by blast
  with assms have "ensure_write_capacity 4 s =
      Done ((), s\<lparr>mem := (mem s)\<lparr>requests := Suc (requests (mem s))\<rparr>\<rparr>)"
    by (simp add: ensure_write_capacity_def on_heap_def realloc_def cbind_def)
  moreover have "be32 v \<noteq> []" by (rule notI, drule arg_cong [of _ _ length]) simp
  ultimately show ?thesis using assms
    by (simp add: xdr_pack_uint32_def append_bytes_def store_bytes_def cbind_def)
qed

theorem c_out_of_memory_overflow_witness:
  "xdr_pack_uint32 7 \<lparr>xbuf = \<lparr>xdr_buf_t.data = Owned (replicate 64 (Some 0)), bsize = 64, capacity = 64, rpos = 0\<rparr>,
     mem = \<lparr>live = 1, requests = 1, denied = (\<lambda>n. n = 1)\<rparr>\<rparr> = Fault OutOfBounds"
  using c_out_of_memory_overflow
    [of "\<lparr>xbuf = \<lparr>xdr_buf_t.data = Owned (replicate 64 (Some 0)), bsize = 64, capacity = 64, rpos = 0\<rparr>,
     mem = \<lparr>live = 1, requests = 1, denied = (\<lambda>n. n = 1)\<rparr>\<rparr>" "replicate 64 (Some 0)" 7]
  by simp

section \<open>Reading any message\<close>

text \<open>
  C24: decoding the results of READDIRPLUS, which recurses over the entries and allocates each, from
  any bytes at all ends; it accesses nothing out of bounds, uses or releases no block twice,
  and does not read past the message by more than the padding of an item. The one fault it can
  commit is to use a local variable that a message cut short left without a value.
\<close>

theorem c_readdirplus_any_input:
  assumes "plenty h" and "length bs \<le> UINT32_MAX" and "xdr_buf_init_copy bs h = Done (buf, h')"
  shows "case xdr_unpack_READDIRPLUS3res c_readdirplus3res_init \<lparr>xbuf = buf, mem = h'\<rparr> of
     Done (y, s) \<Rightarrow> content (xbuf s) = bs \<and> rpos (xbuf s) \<le> length bs + 3
   | Fault e \<Rightarrow> e = Uninitialised
   | Loops \<Rightarrow> False"
proof -
  from init_copy [OF assms(1), of bs] assms(3) have b: "good \<lparr>xbuf = buf, mem = h'\<rparr>" "content buf = bs" "rpos buf = 0"
    by simp_all
  have "crel_READDIRPLUS3resok (nfs_res_t.resok c_readdirplus3res_init)"
    by (simp add: c_readdirplus3res_init_def c_readdirplus3resok_init_def crel_READDIRPLUS3resok_def
        c_dirlistplus3_init_def zero_READDIRPLUS3resok_t_def zero_dirlist_def all_entries_def zero_res_def)
  then have "creader (xdr_unpack_READDIRPLUS3res c_readdirplus3res_init)"
    by (rule READDIRPLUS3res_c.unpack_reader)
  with b assms(2) have "creader_at (xdr_unpack_READDIRPLUS3res c_readdirplus3res_init) \<lparr>xbuf = buf, mem = h'\<rparr>"
    by (simp add: creader_def readable_def)
  with b show ?thesis
    by (auto simp: creader_at_def cmoves_def split: crun.splits prod.splits)
qed

theorem c_readdirplus_any_input_witness:
  "case xdr_unpack_READDIRPLUS3res c_readdirplus3res_init
      \<lparr>xbuf = \<lparr>xdr_buf_t.data = Owned [Some 0, Some 0], bsize = 2, capacity = 2, rpos = 0\<rparr>,
       mem = \<lparr>live = 1, requests = 1, denied = (\<lambda>_. False)\<rparr>\<rparr> of
     Done (y, s) \<Rightarrow> content (xbuf s) = [0, 0] \<and> rpos (xbuf s) \<le> length [0 :: byte, 0] + 3
   | Fault e \<Rightarrow> e = Uninitialised | Loops \<Rightarrow> False"
proof -
  let ?h = "\<lparr>live = 0, requests = 0, denied = (\<lambda>_. False)\<rparr>"
  have "xdr_buf_init_copy [0, 0] ?h =
      Done (\<lparr>xdr_buf_t.data = Owned [Some 0, Some 0], bsize = 2, capacity = 2, rpos = 0\<rparr>,
        \<lparr>live = 1, requests = 1, denied = (\<lambda>_. False)\<rparr>)"
    by (simp add: xdr_buf_init_copy_def malloc_def store_bytes_def poke_def xdr_buf_init_def cbind_def)
  moreover have "plenty ?h" and "length [0 :: byte, 0] \<le> UINT32_MAX" by (simp_all add: plenty_def)
  ultimately show ?thesis using c_readdirplus_any_input [of ?h "[0, 0]"] by blast
qed

text \<open>
  C23: a listing of any length, packed, decoded into a fresh result and destroyed: the result
  has the wire format of the original, and every block the decoder allocated, for entries,
  names and handles, is given back exactly once.
\<close>

theorem c_readdirplus_lifecycle:
  assumes "cok_res cok_READDIRPLUS3resok x" and "plenty h"
  shows "\<exists>s y s' s''. xdr_pack_READDIRPLUS3res x \<lparr>xbuf = xdr_buf_init, mem = h\<rparr> = Done ((), s) \<and>
     xdr_unpack_READDIRPLUS3res (zero_res zero_READDIRPLUS3resok_t) s = Done (y, s') \<and>
     cenc_res cenc_READDIRPLUS3resok y = cenc_res cenc_READDIRPLUS3resok x \<and>
     on_heap (c_readdirplus3res_destroy y) s' = Done (zero_res zero_READDIRPLUS3resok_t, s'') \<and>
     spare s'' = live h"
  using assms by (rule READDIRPLUS3res_c.lifecycle)

definition two_entries :: "READDIRPLUS3resok_t nfs_res_t" where
  "two_entries = \<lparr>nfs_res_t.status = NFS3_OK, has_resok = 1, nfs_res_t.resok =
     \<lparr>READDIRPLUS3resok_t.dir_attributes = zero_post_op_attr_t, READDIRPLUS3resok_t.cookieverf = 7,
      READDIRPLUS3resok_t.reply = \<lparr>dirlist_t.entries = Owned (Entryplus3_t 1 (Owned (cstring [97])) 1 zero_nfs_fh3_t zero_post_op_attr_t
        (Owned (Entryplus3_t 2 (Owned (cstring [98, 99])) 2 zero_nfs_fh3_t zero_post_op_attr_t NULL))), dirlist_t.eof = 1\<rparr>\<rparr>\<rparr>"

lemma two_entries_ok: "cok_res cok_READDIRPLUS3resok two_entries"
  by (simp add: two_entries_def cok_res_def cok_READDIRPLUS3resok_def all_entries_def)

theorem c_readdirplus_lifecycle_witness:
  "\<exists>s y s' s''. xdr_pack_READDIRPLUS3res two_entries \<lparr>xbuf = xdr_buf_init,
       mem = \<lparr>live = 5, requests = 0, denied = (\<lambda>_. False)\<rparr>\<rparr> = Done ((), s) \<and>
     xdr_unpack_READDIRPLUS3res (zero_res zero_READDIRPLUS3resok_t) s = Done (y, s') \<and>
     cenc_res cenc_READDIRPLUS3resok y = cenc_res cenc_READDIRPLUS3resok two_entries \<and>
     on_heap (c_readdirplus3res_destroy y) s' = Done (zero_res zero_READDIRPLUS3resok_t, s'') \<and>
     spare s'' = 5"
  using c_readdirplus_lifecycle [OF two_entries_ok, of "\<lparr>live = 5, requests = 0, denied = (\<lambda>_. False)\<rparr>"]
  by (simp add: plenty_def)

section \<open>The C port and the C++ sources\<close>

text \<open>
  C22: the C encoder of READDIR results refines the C++ one: from any aligned buffer, packing a
  C listing, linked entries and all, does what serializing the C++ listing with the same
  contents does.
\<close>

theorem c_readdir_refines:
  assumes "cok_res cok_READDIR3resok x" and "good s" and "4 dvd bsize (xbuf s)"
  shows "\<exists>s'. xdr_pack_READDIR3res x s = Done ((), s') \<and> good s' \<and> spare s' = spare s \<and>
     serialize_READDIR3res (cpp_res cpp_READDIR3resok x) (abs_buf (xbuf s)) = (Inr (), abs_buf (xbuf s'))"
  using assms by (rule READDIR3res_io.refines)

definition one_entry :: "READDIR3resok_t nfs_res_t" where
  "one_entry = \<lparr>nfs_res_t.status = NFS3_OK, has_resok = 1, nfs_res_t.resok =
     \<lparr>READDIR3resok_t.dir_attributes = zero_post_op_attr_t, READDIR3resok_t.cookieverf = 7,
      READDIR3resok_t.reply = \<lparr>dirlist_t.entries = Owned (Entry3_t 1 (Owned (cstring [97])) 1 NULL),
        dirlist_t.eof = 1\<rparr>\<rparr>\<rparr>"

lemma one_entry_ok: "cok_res cok_READDIR3resok one_entry"
  by (simp add: one_entry_def cok_res_def cok_READDIR3resok_def all_entries_def)

theorem c_readdir_refines_witness:
  "\<exists>s'. xdr_pack_READDIR3res one_entry \<lparr>xbuf = xdr_buf_init, mem = \<lparr>live = 0, requests = 0, denied = (\<lambda>_. False)\<rparr>\<rparr> =
       Done ((), s') \<and> good s' \<and> spare s' = 0 \<and>
     serialize_READDIR3res (cpp_res cpp_READDIR3resok one_entry) XdrBuffer_new = (Inr (), abs_buf (xbuf s'))"
  using c_readdir_refines [OF one_entry_ok,
      of "\<lparr>xbuf = xdr_buf_init, mem = \<lparr>live = 0, requests = 0, denied = (\<lambda>_. False)\<rparr>\<rparr>"]
  by (simp add: good_def plenty_def xdr_buf_init_def spare_def abs_buf_def content_def contents_def XdrBuffer_new_def
      buf_ok_def)

text \<open>
  Each language reads what the other wrote. The C++ side gets from a C message the status
  and the listing the C object held; the C side gets from a C++ message an object with the
  wire format of the original, and the whole message is used in both directions.
\<close>

theorem c_readdir_interop:
  assumes "cok_res cok_READDIR3resok x" and "plenty h"
  shows "(\<exists>s. xdr_pack_READDIR3res x \<lparr>xbuf = xdr_buf_init, mem = h\<rparr> = Done ((), s) \<and>
      deserialize_READDIR3res y0 (abs_buf (xbuf s)) =
        (Inr (ovr_res (ovr_READDIR3resok READDIR3resok_init) y0 (cpp_res cpp_READDIR3resok x)),
         (abs_buf (xbuf s))\<lparr>pos := bsize (xbuf s)\<rparr>)) \<and>
    (\<exists>b buf h' y s. serialize_READDIR3res (cpp_res cpp_READDIR3resok x) XdrBuffer_new = (Inr (), b) \<and>
      xdr_buf_init_copy (buffer b) h = Done (buf, h') \<and>
      xdr_unpack_READDIR3res (zero_res zero_READDIR3resok_t) \<lparr>xbuf = buf, mem = h'\<rparr> = Done (y, s) \<and>
      cenc_res cenc_READDIR3resok y = buffer b \<and> rpos (xbuf s) = bsize (xbuf s))"
proof (rule conjI)
  show "\<exists>s. xdr_pack_READDIR3res x \<lparr>xbuf = xdr_buf_init, mem = h\<rparr> = Done ((), s) \<and>
      deserialize_READDIR3res y0 (abs_buf (xbuf s)) =
        (Inr (ovr_res (ovr_READDIR3resok READDIR3resok_init) y0 (cpp_res cpp_READDIR3resok x)),
         (abs_buf (xbuf s))\<lparr>pos := bsize (xbuf s)\<rparr>)"
    using assms by (rule READDIR3res_io.c_to_cpp)
  from READDIR3res_io.cpp_to_c [OF assms(1) READDIR3res_c.dst_zero assms(2)] READDIR3res_c.fresh_enc [OF assms(1)]
  show "\<exists>b buf h' y s. serialize_READDIR3res (cpp_res cpp_READDIR3resok x) XdrBuffer_new = (Inr (), b) \<and>
      xdr_buf_init_copy (buffer b) h = Done (buf, h') \<and>
      xdr_unpack_READDIR3res (zero_res zero_READDIR3resok_t) \<lparr>xbuf = buf, mem = h'\<rparr> = Done (y, s) \<and>
      cenc_res cenc_READDIR3resok y = buffer b \<and> rpos (xbuf s) = bsize (xbuf s)"
    by (fastforce simp: XdrBuffer_of_def)
qed

theorem c_readdir_interop_witness:
  "\<exists>s. xdr_pack_READDIR3res one_entry \<lparr>xbuf = xdr_buf_init, mem = \<lparr>live = 0, requests = 0, denied = (\<lambda>_. False)\<rparr>\<rparr> =
       Done ((), s) \<and>
     fst (deserialize_READDIR3res \<lparr>status = 0, resok = None\<rparr> (abs_buf (xbuf s))) =
       Inr (ovr_res (ovr_READDIR3resok READDIR3resok_init) \<lparr>status = 0, resok = None\<rparr>
         (cpp_res cpp_READDIR3resok one_entry))"
  using c_readdir_interop [OF one_entry_ok, of "\<lparr>live = 0, requests = 0, denied = (\<lambda>_. False)\<rparr>"
      "\<lparr>status = 0, resok = None\<rparr>"]
  by (auto simp: plenty_def)

text \<open>
  The verifier of a COMMIT reply is eight bytes in C and a counted array in C++: the C++ side
  takes the first four bytes of a verifier the C port wrote for a length, and refuses the
  message when that exceeds the four bytes left.
\<close>

theorem c_commit_verifier_refused:
  assumes "writeverf3_t.data (COMMIT3resok_t.verf r) = be32 n @ w" and "length w = 4" and "4 < unat n"
    and "plenty h"
  shows "\<exists>s e b. xdr_pack_COMMIT3res \<lparr>nfs_res_t.status = NFS3_OK, has_resok = 1, nfs_res_t.resok = r\<rparr>
       \<lparr>xbuf = xdr_buf_init, mem = h\<rparr> = Done ((), s) \<and>
     deserialize_COMMIT3res ind y0 (abs_buf (xbuf s)) = (Inl e, b)"
proof -
  let ?x = "\<lparr>nfs_res_t.status = NFS3_OK, has_resok = 1, nfs_res_t.resok = r\<rparr>"
  let ?a = "cpp_post_op_attr (COMMIT3resok_t.file_wcc r)"
  have "cok_res cok_COMMIT3resok ?x"
    using assms(1,2) by (simp add: cok_res_def cok_COMMIT3resok_def cok_writeverf3_def)
  then obtain s where s: "xdr_pack_COMMIT3res ?x \<lparr>xbuf = xdr_buf_init, mem = h\<rparr> = Done ((), s)"
    "content (xbuf s) = cenc_res cenc_COMMIT3resok ?x" "rpos (xbuf s) = 0"
    using assms(4) by (elim COMMIT3res_c.pack_fresh)
  have c: "cenc_res cenc_COMMIT3resok ?x = be32 NFS3_OK @ enc_post_op_attr ?a @ be32 n @ w"
    by (simp add: cenc_res_def cenc_COMMIT3resok_def post_op_attr_io.cpp_enc assms(1))
  let ?m = "be32 NFS3_OK @ enc_post_op_attr ?a @ be32 n @ w" and ?k = "4 + length (enc_post_op_attr ?a)"
  have u: "unpack_uint32 o1 \<lparr>buffer = ?m, pos = 0\<rparr> = (Inr NFS3_OK, \<lparr>buffer = ?m, pos = 4\<rparr>)" for o1
    using decodesD [OF decodes_uint32, of o1 "[]" NFS3_OK] by simp
  have p: "deserialize_post_op_attr a0 \<lparr>buffer = ?m, pos = 4\<rparr> =
      (Inr (ovr_post_op_attr a0 ?a), \<lparr>buffer = ?m, pos = ?k\<rparr>)" for a0
    using decodesD [OF post_op_attr_xdr.des_decodes [OF TrueI], of a0 "be32 NFS3_OK" ?a] by simp
  have n: "unpack_uint32 o1 \<lparr>buffer = ?m, pos = ?k\<rparr> = (Inr n, \<lparr>buffer = ?m, pos = ?k + 4\<rparr>)" for o1
    using decodesD [OF decodes_uint32, of o1 "be32 NFS3_OK @ enc_post_op_attr ?a" n w] by (simp add: add.commute)
  have "\<exists>e b. deserialize_writeverf3 v0 \<lparr>buffer = ?m, pos = ?k\<rparr> = (Inl e, b)" for v0
    using assms(2,3) by (simp add: deserialize_writeverf3_def unpack_vector_def xbind_def n ensure_read_space_def xthrow_def)
  then obtain e b where "deserialize_writeverf3 (COMMIT3resok.verf (COMMIT3resok_init ind)) \<lparr>buffer = ?m, pos = ?k\<rparr> = (Inl e, b)"
    by blast
  then have "deserialize_COMMIT3res ind y0 \<lparr>buffer = ?m, pos = 0\<rparr> = (Inl e, b)"
    by (simp add: deserialize_COMMIT3res_def deserialize_res_def deserialize_COMMIT3resok_def fld_def xbind_def
        xret_def u p)
  with s c show ?thesis by (auto simp: abs_buf_def)
qed

theorem c_commit_verifier_refused_witness:
  "\<exists>s e b. xdr_pack_COMMIT3res \<lparr>nfs_res_t.status = NFS3_OK, has_resok = 1, nfs_res_t.resok =
       \<lparr>COMMIT3resok_t.file_wcc = zero_post_op_attr_t, COMMIT3resok_t.verf = \<lparr>writeverf3_t.data = be32 9 @ be32 1\<rparr>\<rparr>\<rparr>
       \<lparr>xbuf = xdr_buf_init, mem = \<lparr>live = 0, requests = 0, denied = (\<lambda>_. False)\<rparr>\<rparr> = Done ((), s) \<and>
     deserialize_COMMIT3res (replicate 8 0) \<lparr>status = 0, resok = None\<rparr> (abs_buf (xbuf s)) = (Inl e, b)"
  by (rule c_commit_verifier_refused [where n = 9 and w = "be32 1"]) (simp_all add: plenty_def)

section \<open>Messages cut short, and lengths that do not fit\<close>

text \<open>
  C38: LOOKUP arguments decoded into an object that already has a name, from a message that ends
  before the name: \<^verbatim>\<open>free\<close> releases the old name, nothing replaces it, and destroying the object
  afterwards, as every caller does, releases it again.
\<close>

theorem c_truncated_lookup_double_free:
  assumes "good s" and "content (xbuf s) = cenc_nfs_fh3 fh @ rest" and "rpos (xbuf s) = 0"
    and "cok_nfs_fh3 fh" and "length rest < 4"
    and "cdst_nfs_fh3 (LOOKUP3args_t.what_dir a)" and "LOOKUP3args_t.what_name a = Owned nm"
  shows "\<exists>a' s'. xdr_unpack_LOOKUP3args a s = Done (a', s') \<and> LOOKUP3args_t.what_name a' = Dangling \<and>
     (\<forall>h. c_lookup3args_destroy a' h = Fault InvalidPointer)"
proof -
  let ?fh = "covr_nfs_fh3 (LOOKUP3args_t.what_dir a) fh"
  obtain t where t: "xdr_unpack_nfs_fh3 (LOOKUP3args_t.what_dir a) s = Done (?fh, t)" "good t"
    "content (xbuf t) = content (xbuf s)" "rpos (xbuf t) = rpos (xbuf s) + length (cenc_nfs_fh3 fh)"
    using cdecodesE [OF nfs_fh3_c.unpack_decodes [OF assms(4,6)] assms(1), of "[]" rest] assms(2,3) by auto
  let ?u = "t\<lparr>mem := (mem t)\<lparr>live := live (mem t) - 1\<rparr>\<rparr>"
  have "good ?u" using t(2) by (simp add: good_def)
  then have "bsize (xbuf t) = length (content (xbuf t))" by (simp add: good_def length_content)
  with t(3,4) assms(2,3,5) have "xdr_unpack_cstring ?u = Done (None, ?u)"
    by (simp add: xdr_unpack_cstring_def xdr_unpack_uint32_def c_ensure_read_space_def)
  then have "reread_cstring (Owned nm) t = Done (Dangling, ?u)"
    by (simp add: reread_cstring_def on_heap_def free_def into_def)
  with t(1) assms(7) have "xdr_unpack_LOOKUP3args a s =
      Done (a\<lparr>LOOKUP3args_t.what_dir := ?fh, LOOKUP3args_t.what_name := Dangling\<rparr>, ?u)"
    by (simp add: xdr_unpack_LOOKUP3args_def cfld_def)
  moreover have "c_lookup3args_destroy (a\<lparr>LOOKUP3args_t.what_dir := ?fh, LOOKUP3args_t.what_name := Dangling\<rparr>) h =
      Fault InvalidPointer" for h
    using nfs_fh3_c.ovr_dst [OF assms(4,6)]
    by (simp add: c_lookup3args_destroy_def nfs_fh3_obj.destroy_done free_def)
  ultimately show ?thesis by auto
qed

theorem c_truncated_lookup_double_free_witness:
  "\<exists>a' s'. xdr_unpack_LOOKUP3args \<lparr>LOOKUP3args_t.what_dir = zero_nfs_fh3_t, LOOKUP3args_t.what_name = Owned (cstring [97])\<rparr>
       \<lparr>xbuf = \<lparr>xdr_buf_t.data = Owned (map Some [0, 0, 0, 0, 9]), bsize = 5, capacity = 5, rpos = 0\<rparr>,
        mem = \<lparr>live = 2, requests = 0, denied = (\<lambda>_. False)\<rparr>\<rparr> = Done (a', s') \<and>
     LOOKUP3args_t.what_name a' = Dangling \<and> (\<forall>h. c_lookup3args_destroy a' h = Fault InvalidPointer)"
proof (rule c_truncated_lookup_double_free [where fh = zero_nfs_fh3_t and rest = "[9]" and nm = "cstring [97]"])
  have "be32 0 = [0, 0, 0, 0]" by code_simp
  then show "content (xbuf \<lparr>xbuf = \<lparr>xdr_buf_t.data = Owned (map Some [0, 0, 0, 0, 9]), bsize = 5, capacity = 5, rpos = 0\<rparr>,
        mem = \<lparr>live = 2, requests = 0, denied = (\<lambda>_. False)\<rparr>\<rparr>) = cenc_nfs_fh3 zero_nfs_fh3_t @ [9]"
    by (simp add: content_def contents_def cenc_nfs_fh3_def fh_bytes_def zero_nfs_fh3_t_def enc_opaque_def pad4_def)
qed (simp_all add: good_def buf_ok_def plenty_def)

text \<open>
  WRITE arguments carry the length of their data twice; the encoder goes by \<^verbatim>\<open>count\<close> and never
  looks at \<^verbatim>\<open>data_len\<close>. A count larger than the block of data is an access out of bounds.
\<close>

theorem c_write_count_overread:
  assumes "good s" and "4 dvd bsize (xbuf s)" and "cok_nfs_fh3 (WRITE3args_t.file3 a)"
    and "WRITE3args_t.data a = Owned blk" and "length blk < unat (WRITE3args_t.count a)"
  shows "xdr_pack_WRITE3args a s = Fault OutOfBounds"
proof -
  let ?n = "WRITE3args_t.count a"
  let ?hd = "[xdr_pack_nfs_fh3 (WRITE3args_t.file3 a), xdr_pack_uint64 (WRITE3args_t.offset a),
      xdr_pack_uint32 ?n, xdr_pack_uint32 (WRITE3args_t.stable a)]"
  have l: "4 dvd length (content (xbuf s))" using assms(1,2) by (simp add: good_def length_content)
  have "cencodes (cdo ?hd)
      (cenc_nfs_fh3 (WRITE3args_t.file3 a) @ be64 (WRITE3args_t.offset a) @ be32 ?n @ be32 (WRITE3args_t.stable a))"
    using assms(3) by (intro cxenc)
  then obtain t where t: "cdo ?hd s = Done ((), t)" "good t" "4 dvd length (content (xbuf t))"
    using assms(1) l by (fastforce simp: cencodes_def appends_def)
  then obtain u where u: "xdr_pack_uint32 ?n t = Done ((), u)" "good u"
    using cencodes_uint32 [of ?n] by (auto simp: cencodes_def appends_def)
  obtain v where v: "ensure_write_capacity (unat ?n) u = Done ((), v)"
    using ensure_write_capacity_ok [OF u(2)] by blast
  have "0 < ?n" using assms(5) by (metis not_less_zero unat_0 word_gt_0)
  with assms(4,5) u v have "xdr_pack_opaque (WRITE3args_t.data a) ?n t = Fault OutOfBounds"
    by (simp add: xdr_pack_opaque_def copy_in_def load_bytes_def cbind_def)
  with cdo_append [OF t(1), of "[xdr_pack_opaque (WRITE3args_t.data a) ?n]"] show ?thesis
    by (simp add: xdr_pack_WRITE3args_def)
qed

theorem c_write_count_overread_witness:
  "xdr_pack_WRITE3args \<lparr>WRITE3args_t.file3 = zero_nfs_fh3_t, WRITE3args_t.offset = 0, WRITE3args_t.count = 3,
       WRITE3args_t.stable = FILE_SYNC, WRITE3args_t.data = Owned [Some 1, Some 2], WRITE3args_t.data_len = 2\<rparr>
     \<lparr>xbuf = xdr_buf_init, mem = \<lparr>live = 1, requests = 0, denied = (\<lambda>_. False)\<rparr>\<rparr> = Fault OutOfBounds"
  by (rule c_write_count_overread [where blk = "[Some 1, Some 2]"])
    (simp_all add: good_def plenty_def xdr_buf_init_def buf_ok_def)

text \<open>
  A name with a zero byte in it is read whole, as the C++ side reads it, but written back only up
  to that byte: the C port does not return such a name unchanged.
\<close>

theorem c_name_cut_at_zero:
  assumes "0 \<in> set d" and "length d < UINT32_MAX"
  shows "cdecodes xdr_unpack_cstring (enc_opaque d) (Some (Owned (cstring d))) 1 \<and>
    cencodes (xdr_pack_cstring (Owned (cstring d))) (enc_opaque (takeWhile (\<lambda>c. c \<noteq> 0) d)) \<and>
    enc_opaque (takeWhile (\<lambda>c. c \<noteq> 0) d) \<noteq> enc_opaque d"
proof (intro conjI)
  let ?c = "takeWhile (\<lambda>c. c \<noteq> 0) d"
  have l: "length ?c < length d" using assms(1) by (intro length_takeWhile_less [of 0]) simp_all
  with assms(2) have n: "unat (word_of_nat (length ?c) :: uint32) = length ?c"
    "unat (word_of_nat (length d) :: uint32) = length d" by (simp_all add: unat_of_length)
  show "cdecodes xdr_unpack_cstring (enc_opaque d) (Some (Owned (cstring d))) 1"
    by (rule cdecodes_cstring [OF assms(2)])
  show "cencodes (xdr_pack_cstring (Owned (cstring d))) (enc_opaque ?c)"
    using cencodes_cstring [of "Owned (cstring d)"] chars_cut [of d] l assms(2) by simp
  show "enc_opaque ?c \<noteq> enc_opaque d"
  proof
    assume "enc_opaque ?c = enc_opaque d"
    then have "be32 (word_of_nat (length ?c)) = be32 (word_of_nat (length d))"
      by (simp add: enc_opaque_def)
    with n l show False by (metis be32_inject less_irrefl)
  qed
qed

theorem c_name_cut_at_zero_witness:
  "cencodes (xdr_pack_cstring (Owned (cstring [97, 0, 98]))) (enc_opaque [97]) \<and>
   enc_opaque [97] \<noteq> enc_opaque [97, 0, 98]"
  using c_name_cut_at_zero [of "[97, 0, 98]"] by simp

end
