(* ===== verification/CodecProperties.thy ===== *)
theory CodecProperties
  imports Nfs3ProcsA Nfs3ProcsB Nfs3ProcsC
begin

text \<open>
  Properties of the XDR layer: byte order, the primitive codecs, and representative message types.
  The round trips are instances of the contract each type's interpretation proves.
\<close>

section \<open>Bytes and padding\<close>

text \<open>
  What \<^verbatim>\<open>pack\<close> puts on the wire for an integer is its big-endian representation, on a
  host of either byte order, and \<^verbatim>\<open>unpack\<close> recovers the integer from it on a host of either,
  possibly different, byte order.
\<close>

theorem wire_byte_order:
  "mem32 e (host_to_network32 e v) = be32 v \<and> mem64 e (host_to_network64 e u) = be64 u \<and>
   network_to_host32 e' (load32 e' (mem32 e (host_to_network32 e v))) = v \<and>
   network_to_host64 e' (load64 e' (mem64 e (host_to_network64 e u))) = u"
  by simp

text \<open>
  The two byte swaps undo themselves, and what they do is to reverse the bytes of the
  object.
\<close>

theorem swap_bytes_involutive:
  "swap_bytes32 (swap_bytes32 v) = v \<and> swap_bytes64 (swap_bytes64 u) = u \<and>
   mem32 LITTLE (swap_bytes32 v) = rev (mem32 LITTLE v) \<and>
   mem64 LITTLE (swap_bytes64 u) = rev (mem64 LITTLE u)"
proof -
  have "swap_bytes32 (swap_bytes32 v) = v"
    by (rule be32_inject [THEN iffD1]) (simp add: be32_swap)
  moreover have "swap_bytes64 (swap_bytes64 u) = u"
    by (rule be64_inject [THEN iffD1]) (simp add: be64_swap)
  ultimately show ?thesis by (simp add: mem32_def mem64_def be32_swap be64_swap)
qed

text \<open>
  A string packed after any four-byte aligned content, followed by anything whatever, is
  read back exactly, and the reader stops at the first byte after its padding.
\<close>

theorem string_roundtrip:
  assumes "4 dvd length (buffer b)" and "length s \<le> UINT32_MAX"
  shows "\<exists>b'. pack_string s b = (Inr (), b') \<and> 4 dvd length (buffer b') \<and>
    unpack_string old \<lparr>buffer = buffer b' @ rest, pos = length (buffer b)\<rparr> =
      (Inr s, \<lparr>buffer = buffer b' @ rest, pos = length (buffer b')\<rparr>)"
proof -
  have "pack_string s b = (Inr (), b\<lparr>buffer := buffer b @ enc_string s\<rparr>)"
    using encodesD [OF encodes_string [OF assms(2)] assms(1)] .
  moreover have "4 dvd length (buffer b @ enc_string s)"
    using assms(1) string_xdr.enc_aligned [OF assms(2)] by simp
  ultimately show ?thesis
    using decodesD [OF decodes_string [OF assms(2)], of old "buffer b" rest] by simp
qed

theorem string_roundtrip_witness:
  "\<exists>b'. pack_string ''nfs'' XdrBuffer_new = (Inr (), b') \<and> 4 dvd length (buffer b') \<and>
    unpack_string '''' \<lparr>buffer = buffer b' @ [1, 2], pos = 0\<rparr> =
      (Inr ''nfs'', \<lparr>buffer = buffer b' @ [1, 2], pos = length (buffer b')\<rparr>)"
  using string_roundtrip [of XdrBuffer_new "''nfs''" "''''" "[1, 2]"] by (simp add: XdrBuffer_new_def)

text \<open>
  \<^verbatim>\<open>pack(const std::string&)\<close> pads the whole buffer and \<^verbatim>\<open>pack(data, len)\<close> pads the data; on
  an aligned buffer the two agree, and on no other one do they for a string that fits.
\<close>

theorem string_padding:
  assumes "length s \<le> UINT32_MAX"
  shows "pack_string s b = pack_vector (map byte_of_char s) b \<longleftrightarrow> 4 dvd length (buffer b)"
proof -
  let ?n = "length (buffer b)"
  have "pack_string s b = pack_vector (map byte_of_char s) b \<longleftrightarrow>
      pad4 (?n + (4 + length s)) = pad4 (length s)"
    using assms
    by (cases b) (auto simp: pack_string_def pack_vector_def pack_opaque_def pack_uint32_def pad_to_4_bytes_def
        insert_end_def xbind_def xret_def add.assoc)
  also have "\<dots> \<longleftrightarrow> 4 dvd ?n"
  proof
    assume p: "pad4 (?n + (4 + length s)) = pad4 (length s)"
    have "4 dvd ?n + (4 + length s) + pad4 (length s)" by (metis p pad4_aligns)
    then have "4 dvd (?n + 4) + (length s + pad4 (length s))" by (simp add: ac_simps)
    then have "4 dvd ?n + 4" by (metis dvd_add_left_iff pad4_aligns)
    then show "4 dvd ?n" by simp
  next
    assume "4 dvd ?n"
    then have "4 dvd ?n + 4" by simp
    then show "pad4 (?n + (4 + length s)) = pad4 (length s)"
      using pad4_add_dvd [of "?n + 4" "length s"] by (simp add: add.assoc)
  qed
  finally show ?thesis .
qed

theorem string_padding_witness:
  "pack_string ''a'' \<lparr>buffer = [9], pos = 0\<rparr> \<noteq> pack_vector [97] \<lparr>buffer = [9], pos = 0\<rparr>"
  using string_padding [of "''a''" "\<lparr>buffer = [9], pos = 0\<rparr>"] by (simp add: byte_of_char_def)

text \<open>
  A string or opaque value whose length does not fit the 32-bit length word is refused
  with the matching exception before anything is written.
\<close>

theorem too_long_refused:
  assumes "length s > UINT32_MAX" and "length d > UINT32_MAX"
  shows "pack_string s b = (Inl (StringTooLong (length s)), b) \<and>
    pack_vector d b = (Inl (OpaqueTooLong (length d)), b)"
  using assms by (simp add: pack_string_def pack_vector_def pack_opaque_def xthrow_def)

theorem too_long_refused_witness:
  "pack_string (replicate 4294967296 CHR ''x'') XdrBuffer_new = (Inl (StringTooLong 4294967296), XdrBuffer_new) \<and>
   pack_vector (replicate 4294967297 0) XdrBuffer_new = (Inl (OpaqueTooLong 4294967297), XdrBuffer_new)"
  using too_long_refused [of "replicate 4294967296 CHR ''x''" "replicate 4294967297 0" XdrBuffer_new] by simp

section \<open>Messages\<close>



text \<open>
  WRITE arguments written by \<^verbatim>\<open>serialize\<close> are read back by \<^verbatim>\<open>deserialize\<close>, into any object
  whatever, and the buffer is used up.
\<close>

theorem write_args_roundtrip:
  assumes "ok_WRITE3args x"
  shows "\<exists>b. serialize_WRITE3args x XdrBuffer_new = (Inr (), b) \<and> 4 dvd length (buffer b) \<and>
    deserialize_WRITE3args x0 (XdrBuffer_of (buffer b)) = (Inr x, b\<lparr>pos := length (buffer b)\<rparr>)"
  using WRITE3args_xdr.pack_new [OF assms] WRITE3args_xdr.unpack_of [OF assms, of x0 "[]"]
    WRITE3args_xdr.enc_aligned [OF assms]
  by (auto simp: XdrBuffer_of_def)

definition write_args0 :: WRITE3args where
  "write_args0 = \<lparr>WRITE3args.file3 = \<lparr>nfs_fh3.data = [1, 2, 3]\<rparr>, WRITE3args.offset = 4096,
     WRITE3args.count = 2, WRITE3args.stable = FILE_SYNC, WRITE3args.data = [10, 20]\<rparr>"

theorem write_args_roundtrip_witness:
  "\<exists>b. serialize_WRITE3args write_args0 XdrBuffer_new = (Inr (), b) \<and> 4 dvd length (buffer b) \<and>
    deserialize_WRITE3args WRITE3args_init (XdrBuffer_of (buffer b)) =
      (Inr write_args0, b\<lparr>pos := length (buffer b)\<rparr>)"
  by (rule write_args_roundtrip) (simp add: write_args0_def ok_WRITE3args_def ok_nfs_fh3_def)

text \<open>
  C37: a directory listing of any length, with handles and attributes, survives the round trip;
  the members that are not on the wire must have their initial values.
\<close>

theorem readdirplus_roundtrip:
  assumes "ok_READDIRPLUS3resok x" and "canon_READDIRPLUS3resok x"
  shows "\<exists>b. serialize_READDIRPLUS3resok x XdrBuffer_new = (Inr (), b) \<and>
    deserialize_READDIRPLUS3resok READDIRPLUS3resok_init (XdrBuffer_of (buffer b)) =
      (Inr x, b\<lparr>pos := length (buffer b)\<rparr>)"
  by (rule READDIRPLUS3resok_xdr.roundtrip [OF assms]) blast

definition listing0 :: READDIRPLUS3resok where
  "listing0 = \<lparr>READDIRPLUS3resok.dir_attributes = post_op_attr_init,
     READDIRPLUS3resok.cookieverf = 5,
     READDIRPLUS3resok.reply = \<lparr>dirlistplus3.entries =
       Some (Entryplus3 1 ''.'' 1 nfs_fh3_init post_op_attr_init
         (Some (Entryplus3 2 ''file'' 2 \<lparr>nfs_fh3.data = [7]\<rparr> post_op_attr_init None))),
       dirlistplus3.eof = True\<rparr>\<rparr>"

lemma listing0_ok: "ok_READDIRPLUS3resok listing0" "canon_READDIRPLUS3resok listing0"
  by (simp_all add: listing0_def ok_READDIRPLUS3resok_def ok_dirlistplus3_def ok_optional_def
      canon_READDIRPLUS3resok_def canon_dirlistplus3_def canon_post_op_attr_def post_op_attr_init_def
      ok_nfs_fh3_def nfs_fh3_init_def)

theorem readdirplus_roundtrip_witness:
  "\<exists>b. serialize_READDIRPLUS3resok listing0 XdrBuffer_new = (Inr (), b) \<and>
    deserialize_READDIRPLUS3resok READDIRPLUS3resok_init (XdrBuffer_of (buffer b)) =
      (Inr listing0, b\<lparr>pos := length (buffer b)\<rparr>)"
  by (rule readdirplus_roundtrip [OF listing0_ok])

text \<open>
  The format is self-delimiting: no two LOOKUP requests have encodings one of which is a
  prefix of the other, whatever follows them, so a reader cannot confuse them.
\<close>

theorem lookup_args_prefix_free:
  assumes "ok_LOOKUP3args x" and "ok_LOOKUP3args y"
    and "serialize_LOOKUP3args x XdrBuffer_new = (Inr (), bx)"
    and "serialize_LOOKUP3args y XdrBuffer_new = (Inr (), by)"
    and "buffer bx @ rest = buffer by @ rest'"
  shows "x = y \<and> rest = rest'"
  using assms LOOKUP3args_xdr.pack_new [of x] LOOKUP3args_xdr.pack_new [of y]
    LOOKUP3args_xdr.enc_prefix_free [of x y rest rest']
  by (auto simp: XdrBuffer_of_def)

definition lookup_args0 :: LOOKUP3args where
  "lookup_args0 = \<lparr>LOOKUP3args.what_dir = \<lparr>nfs_fh3.data = [1, 2]\<rparr>, LOOKUP3args.what_name = ''etc''\<rparr>"

theorem lookup_args_prefix_free_witness:
  "ok_LOOKUP3args lookup_args0 \<and>
   serialize_LOOKUP3args lookup_args0 XdrBuffer_new = (Inr (), XdrBuffer_of (enc_LOOKUP3args lookup_args0)) \<and>
   lookup_args0 = lookup_args0 \<and> [5::byte] = [5]"
proof -
  have ok: "ok_LOOKUP3args lookup_args0"
    by (simp add: lookup_args0_def ok_LOOKUP3args_def ok_nfs_fh3_def)
  note pk = LOOKUP3args_xdr.pack_new [OF ok]
  from lookup_args_prefix_free [OF ok ok pk pk refl, of "[5]"] ok pk show ?thesis by blast
qed

text \<open>
  \<^verbatim>\<open>sattr3::serialize\<close> writes an absent mode, uid or gid as the word of all ones, which is
  also what it writes for that value; a request to set it is read as a request to leave the
  attribute alone.
\<close>

theorem sattr3_all_ones_lost:
  "serialize_sattr3 (sattr3_init\<lparr>sattr3.uid := Some (- 1)\<rparr>) = serialize_sattr3 sattr3_init \<and>
   fst (deserialize_sattr3 sattr3_init (XdrBuffer_of (enc_sattr3 (sattr3_init\<lparr>sattr3.uid := Some (- 1)\<rparr>)))) =
     Inr sattr3_init"
  using sattr3_xdr.unpack_of [of sattr3_init "sattr3_init\<lparr>sattr3.uid := Some (- 1)\<rparr>" "[]"]
  by (simp add: serialize_sattr3_def sattr3_init_def pack_sentinel_def ovr_sattr3_def ovr_sentinel_def)

text \<open>
  Reading a failed reply into a result object that already holds a \<^verbatim>\<open>resok\<close> replaces the
  status and keeps the old \<^verbatim>\<open>resok\<close>: the object then reports an error and a handle.
\<close>

theorem failed_reply_keeps_resok:
  "fst (deserialize_LOOKUP3res \<lparr>status = s, resok = Some r\<rparr> (XdrBuffer_of (be32 NFS3ERR_NOENT))) =
     Inr \<lparr>status = NFS3ERR_NOENT, resok = Some r\<rparr>"
proof -
  have "ok_res ok_LOOKUP3resok \<lparr>status = NFS3ERR_NOENT, resok = None\<rparr>"
    by (simp add: ok_res_def NFS3_OK_def NFS3ERR_NOENT_def)
  from LOOKUP3resok_xdr.res.unpack_of [OF this, of "\<lparr>status = s, resok = Some r\<rparr>" "[]"]
  show ?thesis by (simp add: deserialize_LOOKUP3res_def enc_res_def ovr_res_def NFS3_OK_def NFS3ERR_NOENT_def)
qed

text \<open>
  \<^verbatim>\<open>fsinfo3_resok_property::deserialize\<close> does not read \<^verbatim>\<open>name_max\<close>: what \<^verbatim>\<open>serialize\<close> wrote comes
  back with the old \<^verbatim>\<open>name_max\<close>, every flag shifted by one, and a word left over.
\<close>

theorem fsinfo_property_shifted:
  "\<exists>b. serialize_fsinfo3_resok_property x XdrBuffer_new = (Inr (), b) \<and> length (buffer b) = 24 \<and>
    deserialize_fsinfo3_resok_property x0 (XdrBuffer_of (buffer b)) =
      (Inr (x0\<lparr>fsinfo3_resok_property.linkmax := fsinfo3_resok_property.linkmax x,
          fsinfo3_resok_property.no_trunc := fsinfo3_resok_property.name_max x \<noteq> 0,
          fsinfo3_resok_property.chown_restricted := fsinfo3_resok_property.no_trunc x,
          fsinfo3_resok_property.case_insensitive := fsinfo3_resok_property.chown_restricted x,
          fsinfo3_resok_property.case_preserving := fsinfo3_resok_property.case_insensitive x\<rparr>),
       b\<lparr>pos := 20\<rparr>)"
proof -
  let ?pre = "be32 (fsinfo3_resok_property.linkmax x) @ [] @ be32 (fsinfo3_resok_property.name_max x) @
     enc_bool (fsinfo3_resok_property.no_trunc x) @ enc_bool (fsinfo3_resok_property.chown_restricted x) @
     enc_bool (fsinfo3_resok_property.case_insensitive x)"
  have "encodes (serialize_fsinfo3_resok_property x)
      (be32 (fsinfo3_resok_property.linkmax x) @ be32 (fsinfo3_resok_property.name_max x) @
       enc_bool (fsinfo3_resok_property.no_trunc x) @ enc_bool (fsinfo3_resok_property.chown_restricted x) @
       enc_bool (fsinfo3_resok_property.case_insensitive x) @ enc_bool (fsinfo3_resok_property.case_preserving x))"
    unfolding serialize_fsinfo3_resok_property_def by (intro xenc)
  from encodesD [OF this, of XdrBuffer_new]
  have e: "serialize_fsinfo3_resok_property x XdrBuffer_new =
      (Inr (), XdrBuffer_of (?pre @ enc_bool (fsinfo3_resok_property.case_preserving x)))"
    by (simp add: XdrBuffer_new_def XdrBuffer_of_def)
  have word: "decodes (unpack_bool v) (be32 w) (w \<noteq> 0)" for v w
    unfolding unpack_bool_def by (rule decodes_bind_ret [OF decodes_uint32])
  have none: "decodes (fsinfo3_private_unpack v) [] v" for v
    unfolding fsinfo3_private_unpack_def by (rule decodes_xret)
  have "decodes (deserialize_fsinfo3_resok_property x0) ?pre
      (x0\<lparr>fsinfo3_resok_property.linkmax := fsinfo3_resok_property.linkmax x,
          fsinfo3_resok_property.no_trunc := fsinfo3_resok_property.name_max x \<noteq> 0,
          fsinfo3_resok_property.chown_restricted := fsinfo3_resok_property.no_trunc x,
          fsinfo3_resok_property.case_insensitive := fsinfo3_resok_property.chown_restricted x,
          fsinfo3_resok_property.case_preserving := fsinfo3_resok_property.case_insensitive x\<rparr>)"
    unfolding deserialize_fsinfo3_resok_property_def
    by (rule decodes_cong, (rule decodes_xseq decodes_xseq_single decodes_fld none word decodes_uint32
        decodes_bool)+) simp
  from decodesD [OF this, of "[]" "enc_bool (fsinfo3_resok_property.case_preserving x)"] e show ?thesis
    by (auto simp: XdrBuffer_of_def enc_bool_def)
qed

end
