(* ===== verification/RpcProtocol.thy ===== *)
theory RpcProtocol
  imports XdrCodec
begin

text \<open>
  RPC messages: \<^verbatim>\<open>simple_rpc/include/nfstest/rpc_protocol.hpp\<close>. A \<^verbatim>\<open>std::vector<uint8_t>&\<close>
  that a function appends to is passed and returned. A read outside the reply is undefined
  behaviour in C++ and the outcome \<open>UB\<close> here; offsets and lengths keep the widths of the source,
  32 bits for what comes off the wire.
\<close>

section \<open>Constants\<close>

definition MSG_CALL :: uint32 where "MSG_CALL = 0"
definition MSG_REPLY :: uint32 where "MSG_REPLY = 1"
definition RPCVERS :: uint32 where "RPCVERS = 2"
definition AUTH_NONE :: uint32 where "AUTH_NONE = 0"
definition AUTH_SYS :: uint32 where "AUTH_SYS = 1"

lemmas rpc_const_defs = MSG_CALL_def MSG_REPLY_def RPCVERS_def AUTH_NONE_def AUTH_SYS_def

datatype AcceptStat = AS_SUCCESS | AS_PROG_UNAVAIL | AS_PROG_MISMATCH | AS_PROC_UNAVAIL
  | AS_GARBAGE_ARGS | AS_SYSTEM_ERR

fun AcceptStat_val :: "AcceptStat \<Rightarrow> uint32" where
  "AcceptStat_val AS_SUCCESS = 0"
| "AcceptStat_val AS_PROG_UNAVAIL = 1"
| "AcceptStat_val AS_PROG_MISMATCH = 2"
| "AcceptStat_val AS_PROC_UNAVAIL = 3"
| "AcceptStat_val AS_GARBAGE_ARGS = 4"
| "AcceptStat_val AS_SYSTEM_ERR = 5"

datatype RejectStat = RJ_RPC_MISMATCH | RJ_AUTH_ERROR

fun RejectStat_val :: "RejectStat \<Rightarrow> uint32" where
  "RejectStat_val RJ_RPC_MISMATCH = 0"
| "RejectStat_val RJ_AUTH_ERROR = 1"

datatype RpcStatus = OK | CONN_ERR | TIMEOUT | PROG_UNAVAIL | PROG_MISMATCH | PROC_UNAVAIL
  | GARBAGE_ARGS | AUTH_ERROR | PROTO_ERR | SEND_ERR | RECV_ERR

section \<open>Writing a call\<close>

definition htonl :: "uint32 \<Rightarrow> uint32" where
  "htonl v = host_to_network32 NATIVE_ENDIAN v"

definition ntohl :: "uint32 \<Rightarrow> uint32" where
  "ntohl v = network_to_host32 NATIVE_ENDIAN v"

definition write_uint32_be :: "bytes \<Rightarrow> uint32 \<Rightarrow> bytes" where
  "write_uint32_be buf val = buf @ mem32 NATIVE_ENDIAN (htonl val)"

definition read_uint32_be :: "bytes \<Rightarrow> nat \<Rightarrow> uint32 outcome" where
  "read_uint32_be data offset =
     (if offset + 4 \<le> length data
      then Ret (ntohl (load32 NATIVE_ENDIAN (slice offset 4 data))) else UB)"

definition write_auth_none :: "bytes \<Rightarrow> bytes" where
  "write_auth_none buf = write_uint32_be (write_uint32_be buf AUTH_NONE) 0"

text \<open>The three loops that write the host name four characters at a time.\<close>

function copy_chars :: "string \<Rightarrow> nat \<Rightarrow> nat \<Rightarrow> bytes \<Rightarrow> bytes" where
  "copy_chars s i j buf =
     (if j < 4 \<and> i + j < length s
      then copy_chars s i (j + 1) (buf @ [byte_of_char (s ! (i + j))]) else buf)"
  by auto
termination by (relation "measure (\<lambda>(s, i, j, buf). 4 - j)") auto

function zero_fill :: "nat \<Rightarrow> bytes \<Rightarrow> bytes" where
  "zero_fill j buf = (if j < 4 \<and> j < 4 then zero_fill (j + 1) (buf @ [0]) else buf)"
  by auto
termination by (relation "measure (\<lambda>(j, buf). 4 - j)") auto

function write_hostname :: "string \<Rightarrow> nat \<Rightarrow> bytes \<Rightarrow> bytes" where
  "write_hostname s i buf =
     (if i < length s
      then write_hostname s (i + 4) (zero_fill (length s - i) (copy_chars s i 0 buf)) else buf)"
  by auto
termination by (relation "measure (\<lambda>(s, i, buf). length s - i)") auto

declare copy_chars.simps [simp del] zero_fill.simps [simp del] write_hostname.simps [simp del]

definition hostname :: string where
  "hostname = ''localhost''"

definition write_auth_sys_cred ::
    "bytes \<Rightarrow> uint32 \<Rightarrow> uint32 \<Rightarrow> uint32 \<Rightarrow> uint32 list \<Rightarrow> bytes" where
  "write_auth_sys_cred buf stamp uid gid gids =
     (let buf = write_uint32_be buf AUTH_SYS;
          cred_len_offset = length buf;
          buf = write_uint32_be buf 0;
          cred_start = length buf;
          buf = write_uint32_be buf stamp;
          buf = write_uint32_be buf (word_of_nat (length hostname));
          buf = write_hostname hostname 0 buf;
          buf = write_uint32_be buf uid;
          buf = write_uint32_be buf gid;
          buf = write_uint32_be buf (word_of_nat (length gids));
          buf = foldl write_uint32_be buf gids;
          cred_len = htonl (word_of_nat (length buf - cred_start))
      in poke cred_len_offset (mem32 NATIVE_ENDIAN cred_len) buf)"

definition build_call :: "uint32 \<Rightarrow> uint32 \<Rightarrow> uint32 \<Rightarrow> uint32 \<Rightarrow> bytes \<Rightarrow> bytes" where
  "build_call xid prog vers proc args_body =
     (let buf = write_uint32_be [] xid;
          buf = write_uint32_be buf MSG_CALL;
          buf = write_uint32_be buf RPCVERS;
          buf = write_uint32_be buf prog;
          buf = write_uint32_be buf vers;
          buf = write_uint32_be buf proc;
          buf = write_auth_sys_cred buf 0 0 0 [];
          buf = write_auth_none buf
      in buf @ args_body)"

section \<open>Reading a reply\<close>

text \<open>\<^verbatim>\<open>((n + 3) / 4) * 4\<close> in 32-bit arithmetic.\<close>

definition round_up4 :: "uint32 \<Rightarrow> uint32" where
  "round_up4 n = ((n + 3) div 4) * 4"

text \<open>The part of the function after the accept status, and the accepted and the denied branch.\<close>

definition parse_body :: "bytes \<Rightarrow> uint32 \<Rightarrow> nat \<Rightarrow> bytes \<Rightarrow> (RpcStatus \<times> bytes) outcome" where
  "parse_body data auth_flavor offset out_body =
     (if auth_flavor = AUTH_SYS then
        if offset + 4 > length data then Ret (PROTO_ERR, out_body)
        else obind (read_uint32_be data offset) (\<lambda>verf_len.
          let offset = offset + 4 + unat (round_up4 verf_len) in
          if offset > length data then Ret (PROTO_ERR, out_body)
          else Ret (OK, drop offset data))
      else Ret (OK, drop offset data))"

definition parse_accepted :: "bytes \<Rightarrow> bytes \<Rightarrow> (RpcStatus \<times> bytes) outcome" where
  "parse_accepted data out_body =
     obind (read_uint32_be data 12) (\<lambda>auth_flavor.
     obind (read_uint32_be data 16) (\<lambda>auth_len.
       let offset = 20 + unat (round_up4 auth_len) in
       if offset > length data then Ret (PROTO_ERR, out_body)
       else obind (read_uint32_be data offset) (\<lambda>accept_stat.
         if accept_stat = 0 then parse_body data auth_flavor (offset + 4) out_body
         else if accept_stat = 1 then Ret (PROG_UNAVAIL, out_body)
         else if accept_stat = 2 then Ret (PROG_MISMATCH, out_body)
         else if accept_stat = 3 then Ret (PROC_UNAVAIL, out_body)
         else if accept_stat = 4 then Ret (GARBAGE_ARGS, out_body)
         else if accept_stat = 5 then Ret (PROTO_ERR, out_body)
         else Ret (PROTO_ERR, out_body))))"

definition parse_denied :: "bytes \<Rightarrow> bytes \<Rightarrow> (RpcStatus \<times> bytes) outcome" where
  "parse_denied data out_body =
     obind (read_uint32_be data 12) (\<lambda>reject_stat.
       if reject_stat = 0 then Ret (PROG_MISMATCH, out_body)
       else if reject_stat = 1 then Ret (AUTH_ERROR, out_body)
       else Ret (PROTO_ERR, out_body))"

definition parse_reply :: "bytes \<Rightarrow> uint32 \<Rightarrow> bytes \<Rightarrow> (RpcStatus \<times> bytes) outcome" where
  "parse_reply data expected_xid out_body =
     (if length data < 20 then Ret (PROTO_ERR, out_body)
      else obind (read_uint32_be data 0) (\<lambda>xid.
        if xid \<noteq> expected_xid then Ret (PROTO_ERR, out_body)
        else obind (read_uint32_be data 4) (\<lambda>msg_type.
          if msg_type \<noteq> MSG_REPLY then Ret (PROTO_ERR, out_body)
          else obind (read_uint32_be data 8) (\<lambda>reply_stat.
            if reply_stat = 0 then parse_accepted data out_body
            else if reply_stat = 1 then parse_denied data out_body
            else Ret (PROTO_ERR, out_body)))))"

section \<open>What a call looks like\<close>

lemma write_uint32_be_eq [simp]: "write_uint32_be buf v = buf @ be32 v"
  by (simp add: write_uint32_be_def htonl_def)

lemma foldl_write_uint32_be [simp]:
  "foldl write_uint32_be buf ws = buf @ concat (map be32 ws)"
  by (induction ws arbitrary: buf) simp_all

lemma copy_chars_eq:
  "copy_chars s i j buf = buf @ map byte_of_char (take (4 - j) (drop (i + j) s))"
proof (induction s i j buf rule: copy_chars.induct)
  case (1 s i j buf)
  show ?case
  proof (cases "j < 4 \<and> i + j < length s")
    case True
    then have "take (4 - j) (drop (i + j) s) = s ! (i + j) # take (4 - (j + 1)) (drop (i + (j + 1)) s)"
      by (simp add: Cons_nth_drop_Suc [symmetric] take_Cons' )
    with True 1 show ?thesis by (subst copy_chars.simps) simp
  next
    case False
    then show ?thesis by (subst copy_chars.simps) auto
  qed
qed

lemma zero_fill_eq: "zero_fill j buf = buf @ replicate (4 - j) 0"
proof (induction j buf rule: zero_fill.induct)
  case (1 j buf)
  show ?case
  proof (cases "j < 4")
    case True
    then have "replicate (4 - j) (0::byte) = 0 # replicate (4 - (j + 1)) 0"
      by (simp add: Suc_diff_Suc flip: replicate_Suc)
    with True 1 show ?thesis by (subst zero_fill.simps) simp
  qed (subst zero_fill.simps, simp)
qed

text \<open>The loops write the characters once, in order, and pad to a multiple of four.\<close>

lemma write_hostname_drop:
  "write_hostname s i buf =
     buf @ map byte_of_char (drop i s) @ replicate (pad4 (length s - i)) 0"
proof (induction s i buf rule: write_hostname.induct)
  case (1 s i buf)
  consider "length s \<le> i" | "i < length s" "length s < i + 4" | "i + 4 \<le> length s" by linarith
  then show ?case
  proof cases
    case 1
    then show ?thesis by (subst write_hostname.simps) (simp add: pad4_def)
  next
    case 2
    then have "pad4 (length s - i) = 4 - (length s - i)" by (simp add: pad4_def)
    with 2 "1.IH" show ?thesis
      by (subst write_hostname.simps) (simp add: copy_chars_eq zero_fill_eq pad4_def)
  next
    case 3
    then have "length s - i = 4 + (length s - (i + 4))" by simp
    then have "pad4 (length s - i) = pad4 (length s - (i + 4))"
      by (metis dvd_refl pad4_add_dvd)
    moreover have "map byte_of_char (drop i s) =
        map byte_of_char (take 4 (drop i s)) @ map byte_of_char (drop (i + 4) s)"
      by (metis append_take_drop_id drop_drop add.commute map_append)
    moreover have "write_hostname s i buf =
        write_hostname s (i + 4) (zero_fill (length s - i) (copy_chars s i 0 buf))"
      using 3 by (subst write_hostname.simps) simp
    moreover have "zero_fill (length s - i) (copy_chars s i 0 buf) =
        buf @ map byte_of_char (take 4 (drop i s))"
      using 3 by (simp add: copy_chars_eq zero_fill_eq)
    moreover from 3 have "i < length s" by simp
    note "1.IH" [OF this]
    ultimately show ?thesis by (simp only: append_assoc)
  qed
qed

lemma write_hostname_eq:
  "write_hostname s 0 buf = buf @ map byte_of_char s @ replicate (pad4 (length s)) 0"
  by (simp add: write_hostname_drop)

text \<open>The AUTH\_SYS credential of RFC 5531 as a reference encoding: flavor and an opaque body.\<close>

definition enc_authsys_parms :: "uint32 \<Rightarrow> string \<Rightarrow> uint32 \<Rightarrow> uint32 \<Rightarrow> uint32 list \<Rightarrow> bytes" where
  "enc_authsys_parms stamp machinename uid gid gids =
     be32 stamp @ enc_string machinename @ be32 uid @ be32 gid @
     be32 (word_of_nat (length gids)) @ concat (map be32 gids)"

definition enc_opaque_auth :: "uint32 \<Rightarrow> bytes \<Rightarrow> bytes" where
  "enc_opaque_auth flavor body = be32 flavor @ enc_opaque body"

lemma length_concat_be32: "length (concat (map be32 ws)) = 4 * length ws"
  by (induction ws) simp_all

lemma dvd_authsys: "4 dvd length (enc_authsys_parms stamp name uid gid gids)"
  by (simp add: enc_authsys_parms_def enc_string_def length_concat_be32)

lemma write_auth_sys_cred_eq:
  "write_auth_sys_cred buf stamp uid gid gids =
     buf @ enc_opaque_auth AUTH_SYS (enc_authsys_parms stamp hostname uid gid gids)"
proof -
  let ?b = "enc_authsys_parms stamp hostname uid gid gids"
  have b: "?b = be32 stamp @ be32 (word_of_nat (length hostname)) @
      (map byte_of_char hostname @ replicate (pad4 (length hostname)) 0) @ be32 uid @ be32 gid @
      be32 (word_of_nat (length gids)) @ concat (map be32 gids)"
    by (simp add: enc_authsys_parms_def enc_string_def enc_opaque_def)
  have "write_auth_sys_cred buf stamp uid gid gids =
      poke (length (buf @ be32 AUTH_SYS)) (be32 (word_of_nat (length ?b)))
        ((buf @ be32 AUTH_SYS) @ be32 0 @ ?b)"
    unfolding write_auth_sys_cred_def Let_def b
    by (simp add: write_hostname_eq htonl_def)
  also have "\<dots> = (buf @ be32 AUTH_SYS) @ be32 (word_of_nat (length ?b)) @ ?b"
    by (rule poke_at) simp
  finally show ?thesis
    using dvd_authsys [of stamp hostname uid gid gids] by (simp add: enc_opaque_auth_def enc_opaque_def)
qed

lemma write_auth_none_eq: "write_auth_none buf = buf @ enc_opaque_auth AUTH_NONE []"
  by (simp add: write_auth_none_def enc_opaque_auth_def enc_opaque_def pad4_def)

lemma build_call_eq:
  "build_call xid prog vers proc args =
     be32 xid @ be32 MSG_CALL @ be32 RPCVERS @ be32 prog @ be32 vers @ be32 proc @
     enc_opaque_auth AUTH_SYS (enc_authsys_parms 0 hostname 0 0 []) @
     enc_opaque_auth AUTH_NONE [] @ args"
  by (simp add: build_call_def Let_def write_auth_sys_cred_eq write_auth_none_eq)

lemma length_build_call: "length (build_call xid prog vers proc args) = 72 + length args"
  by (simp add: build_call_eq enc_opaque_auth_def enc_authsys_parms_def enc_opaque_def
      enc_string_def hostname_def pad4_def)

section \<open>What a reply may be\<close>

lemma read_uint32_be_at [simp]:
  "read_uint32_be (pre @ be32 v @ post) (length pre) = Ret v"
  by (simp add: read_uint32_be_def ntohl_def)

lemma read_uint32_be_eq:
  "read_uint32_be data off = (if off + 4 \<le> length data then Ret (of_be (slice off 4 data)) else UB)"
  by (simp add: read_uint32_be_def ntohl_def length_slice)

text \<open>The four words at the head of a reply.\<close>

definition word_at :: "bytes \<Rightarrow> nat \<Rightarrow> uint32" where
  "word_at data off = of_be (slice off 4 data)"

lemma read_word_at: "off + 4 \<le> length data \<Longrightarrow> read_uint32_be data off = Ret (word_at data off)"
  by (simp add: read_uint32_be_eq word_at_def)

lemma parse_body_defined: "parse_body data fl off out \<noteq> UB \<and> parse_body data fl off out \<noteq> Diverges"
  by (simp add: parse_body_def read_uint32_be_eq Let_def)

lemma parse_denied_defined:
  "16 \<le> length data \<Longrightarrow> parse_denied data out \<noteq> UB \<and> parse_denied data out \<noteq> Diverges"
  by (simp add: parse_denied_def read_uint32_be_eq)

lemma parse_accepted_UB:
  assumes "20 \<le> length data"
  shows "parse_accepted data out = UB \<longleftrightarrow>
    20 + unat (round_up4 (word_at data 16)) \<le> length data \<and>
    length data < 24 + unat (round_up4 (word_at data 16))"
  using assms parse_body_defined
  by (auto simp: parse_accepted_def read_uint32_be_eq word_at_def Let_def)

text \<open>Exactly the accepted replies that end inside their accept status are read out of bounds.\<close>

lemma parse_reply_UB:
  "parse_reply data xid out = UB \<longleftrightarrow>
     20 \<le> length data \<and> word_at data 0 = xid \<and> word_at data 4 = MSG_REPLY \<and> word_at data 8 = 0 \<and>
     20 + unat (round_up4 (word_at data 16)) \<le> length data \<and>
     length data < 24 + unat (round_up4 (word_at data 16))"
proof (cases "20 \<le> length data")
  case True
  then have "parse_denied data out \<noteq> UB" using parse_denied_defined [of data out] by simp
  with True show ?thesis
    by (auto simp: parse_reply_def read_word_at parse_accepted_UB)
qed (simp add: parse_reply_def)

lemma parse_reply_ends: "parse_reply data xid out \<noteq> Diverges"
  by (auto simp: parse_reply_def parse_accepted_def parse_denied_def read_uint32_be_eq Let_def
      parse_body_defined)

text \<open>An accepted reply of RFC 5531, and a denied one.\<close>

definition enc_accepted_reply :: "uint32 \<Rightarrow> uint32 \<Rightarrow> bytes \<Rightarrow> uint32 \<Rightarrow> bytes \<Rightarrow> bytes" where
  "enc_accepted_reply xid flavor verf stat body =
     be32 xid @ be32 MSG_REPLY @ be32 0 @ enc_opaque_auth flavor verf @ be32 stat @ body"

definition enc_denied_reply :: "uint32 \<Rightarrow> uint32 \<Rightarrow> bytes \<Rightarrow> bytes" where
  "enc_denied_reply xid stat body = be32 xid @ be32 MSG_REPLY @ be32 1 @ be32 stat @ body"

lemma round_nat: "(n + 3) div 4 * 4 = n + pad4 (n::nat)"
proof -
  define q r where "q = n div 4" and "r = n mod 4"
  then have n: "n = 4 * q + r" and r: "r < 4" by simp_all
  from r consider "r = 0" | "r = 1" | "r = 2" | "r = 3" by linarith
  moreover have "pad4 n = (4 - r) mod 4" by (simp add: pad4_def r_def)
  ultimately show ?thesis by cases (simp_all add: n)
qed

lemma unat_round_up4_mod:
  "unat (round_up4 n) = ((unat n + 3) mod 2 ^ 32) div 4 * 4"
proof -
  have "unat (n + 3) = (unat n + 3) mod 2 ^ 32" by (simp add: unat_word_ariths)
  moreover have "unat (n + 3) div 4 * 4 < 2 ^ 32"
    using unsigned_less [of "n + 3", where 'a = nat] by (simp add: div_times_less_eq_dividend le_less_trans)
  ultimately show ?thesis
    by (simp add: round_up4_def unat_word_ariths unat_div)
qed

lemma unat_round_up4:
  "unat n \<le> UINT32_MAX - 3 \<Longrightarrow> unat (round_up4 n) = unat n + pad4 (unat n)"
  by (simp add: unat_round_up4_mod round_nat)

lemma slice_step [simp]:
  "slice (length pre + k) n (pre @ xs) = slice k n xs"
  by (simp add: slice_def)

lemma words_at:
  "word_at (be32 a @ be32 b @ be32 c @ be32 d @ be32 e @ r) 0 = a"
  "word_at (be32 a @ be32 b @ be32 c @ be32 d @ be32 e @ r) 4 = b"
  "word_at (be32 a @ be32 b @ be32 c @ be32 d @ be32 e @ r) 8 = c"
  "word_at (be32 a @ be32 b @ be32 c @ be32 d @ be32 e @ r) 12 = d"
  "word_at (be32 a @ be32 b @ be32 c @ be32 d @ be32 e @ r) 16 = e"
  by (simp_all add: word_at_def slice_def drop_append)

text \<open>The reply header in front of the accept status.\<close>

definition accepted_head :: "uint32 \<Rightarrow> uint32 \<Rightarrow> bytes \<Rightarrow> bytes" where
  "accepted_head xid flavor verf =
     be32 xid @ be32 MSG_REPLY @ be32 0 @ enc_opaque_auth flavor verf"

lemma accepted_head_words:
  "accepted_head xid flavor verf @ r =
     be32 xid @ be32 MSG_REPLY @ be32 0 @ be32 flavor @ be32 (word_of_nat (length verf)) @
     (verf @ replicate (pad4 (length verf)) 0 @ r)"
  by (simp add: accepted_head_def enc_opaque_auth_def enc_opaque_def)

lemma length_accepted_head:
  "length (accepted_head xid flavor verf) = 20 + length verf + pad4 (length verf)"
  by (simp add: accepted_head_def enc_opaque_auth_def enc_opaque_def)

text \<open>Past the header the parser branches on the accept status and nothing else of the reply.\<close>

lemma parse_accepted_reply:
  assumes "length verf \<le> UINT32_MAX - 3"
  shows "parse_reply (enc_accepted_reply xid flavor verf stat body) xid out =
    (if stat = 0 then parse_body (enc_accepted_reply xid flavor verf stat body) flavor
        (length (accepted_head xid flavor verf) + 4) out
     else Ret (if stat = 1 then PROG_UNAVAIL else if stat = 2 then PROG_MISMATCH
       else if stat = 3 then PROC_UNAVAIL else if stat = 4 then GARBAGE_ARGS else PROTO_ERR, out))"
proof -
  let ?h = "accepted_head xid flavor verf"
  let ?d = "?h @ be32 stat @ body"
  have d: "enc_accepted_reply xid flavor verf stat body = ?d"
    by (simp add: enc_accepted_reply_def accepted_head_def)
  have w: "word_at ?d 0 = xid" "word_at ?d 4 = MSG_REPLY" "word_at ?d 8 = 0"
    "word_at ?d 12 = flavor" "word_at ?d 16 = word_of_nat (length verf)"
    unfolding accepted_head_words by (simp_all only: words_at)
  have "unat (word_of_nat (length verf) :: uint32) = length verf"
    using assms by (intro unat_of_length) simp
  with assms have "20 + unat (round_up4 (word_of_nat (length verf))) = length ?h"
    by (simp add: unat_round_up4 length_accepted_head)
  moreover have "24 \<le> length ?d" by (simp add: length_accepted_head)
  moreover have "read_uint32_be ?d (length ?h) = Ret stat" by simp
  ultimately show ?thesis
    unfolding d parse_reply_def parse_accepted_def Let_def
    by (simp add: read_word_at w)
qed

lemma parse_success:
  assumes "length verf \<le> UINT32_MAX - 3" and "flavor \<noteq> AUTH_SYS"
  shows "parse_reply (enc_accepted_reply xid flavor verf 0 body) xid out = Ret (OK, body)"
proof -
  have "drop (length (accepted_head xid flavor verf) + 4)
      (enc_accepted_reply xid flavor verf 0 body) = body"
    by (simp add: enc_accepted_reply_def accepted_head_def)
  with assms show ?thesis by (simp add: parse_accepted_reply parse_body_def)
qed

text \<open>With an AUTH\_SYS verifier the front of the procedure's results is taken for a second
  verifier and dropped.\<close>

lemma parse_success_auth_sys:
  assumes "length verf \<le> UINT32_MAX - 3" and "length d \<le> UINT32_MAX - 3"
  shows "parse_reply (enc_accepted_reply xid AUTH_SYS verf 0 (enc_opaque d @ rest)) xid out =
    Ret (OK, rest)"
proof -
  let ?h = "accepted_head xid AUTH_SYS verf @ be32 0"
  have d: "enc_accepted_reply xid AUTH_SYS verf 0 (enc_opaque d @ rest) =
      ?h @ be32 (word_of_nat (length d)) @ d @ replicate (pad4 (length d)) 0 @ rest"
    by (simp add: enc_accepted_reply_def accepted_head_def enc_opaque_def)
  have "unat (word_of_nat (length d) :: uint32) = length d"
    using assms by (intro unat_of_length) simp
  with assms have n: "unat (round_up4 (word_of_nat (length d))) = length d + pad4 (length d)"
    by (simp add: unat_round_up4)
  have "read_uint32_be (?h @ be32 (word_of_nat (length d)) @ d @ replicate (pad4 (length d)) 0 @ rest)
      (length ?h) = Ret (word_of_nat (length d))" by (rule read_uint32_be_at)
  then have "parse_body (enc_accepted_reply xid AUTH_SYS verf 0 (enc_opaque d @ rest)) AUTH_SYS
      (length ?h) out = Ret (OK, rest)"
    unfolding d parse_body_def Let_def by (simp add: n)
  then show ?thesis using assms(1) by (simp add: parse_accepted_reply)
qed

lemma parse_denied_reply:
  assumes "4 \<le> length body"
  shows "parse_reply (enc_denied_reply xid stat body) xid out =
    Ret (if stat = 0 then PROG_MISMATCH else if stat = 1 then AUTH_ERROR else PROTO_ERR, out)"
proof -
  from assms obtain w r where "body = be32 w @ r"
    by (metis be32_of_be append_take_drop_id length_take min_absorb2)
  then have d: "enc_denied_reply xid stat body =
      be32 xid @ be32 MSG_REPLY @ be32 1 @ be32 stat @ be32 w @ r"
    by (simp add: enc_denied_reply_def)
  let ?d = "enc_denied_reply xid stat body"
  have len: "20 \<le> length ?d" by (simp add: d)
  have w: "word_at ?d 0 = xid" "word_at ?d 4 = MSG_REPLY" "word_at ?d 8 = 1" "word_at ?d 12 = stat"
    by (simp_all only: d words_at)
  have "read_uint32_be ?d 0 = Ret xid" "read_uint32_be ?d 4 = Ret MSG_REPLY"
    "read_uint32_be ?d 8 = Ret 1" "read_uint32_be ?d 12 = Ret stat"
    using len read_word_at [of _ ?d] w by simp_all
  with len show ?thesis by (simp add: parse_reply_def parse_denied_def)
qed

end
