(* ===== verification/RpcTransport.thy ===== *)
theory RpcTransport
  imports RpcProtocol
begin

text \<open>
  The TCP transport: \<^verbatim>\<open>simple_rpc/include/nfstest/rpc_transport.hpp\<close> and
  \<^verbatim>\<open>simple_rpc/src/rpc_transport.cpp\<close>. The operating system is a parameter: \<open>'w posix\<close> holds
  the system calls the class makes, over a state of the outside world \<open>'w\<close>. A call that
  fails with -1 gives the value of \<^verbatim>\<open>errno\<close>. The loops are partial functions: they have no
  value where the loop of the source does not end.
\<close>

unbundle bit_operations_syntax

section \<open>The system calls\<close>

datatype errno = EINTR | EAGAIN | EWOULDBLOCK | EINPROGRESS | EOTHER nat

datatype poll_events = POLLIN | POLLOUT

record sockaddr_in =
  sin_port :: bytes
  sin_addr :: bytes

record 'w posix =
  sys_socket :: "'w \<Rightarrow> int \<times> 'w"
  sys_set_nodelay :: "int \<Rightarrow> 'w \<Rightarrow> 'w"
  sys_gethostbyname :: "string \<Rightarrow> 'w \<Rightarrow> bytes option \<times> 'w"
  sys_getfl :: "int \<Rightarrow> 'w \<Rightarrow> uint32 \<times> 'w"
  sys_setfl :: "int \<Rightarrow> uint32 \<Rightarrow> 'w \<Rightarrow> 'w"
  sys_connect :: "int \<Rightarrow> sockaddr_in \<Rightarrow> 'w \<Rightarrow> errno option \<times> 'w"
  sys_poll :: "int \<Rightarrow> poll_events \<Rightarrow> int \<Rightarrow> 'w \<Rightarrow> int \<times> 'w"
  sys_get_so_error :: "int \<Rightarrow> 'w \<Rightarrow> int option \<times> 'w"
  sys_close :: "int \<Rightarrow> 'w \<Rightarrow> 'w"
  sys_write :: "int \<Rightarrow> bytes \<Rightarrow> 'w \<Rightarrow> (errno + nat) \<times> 'w"
  sys_read :: "int \<Rightarrow> nat \<Rightarrow> 'w \<Rightarrow> (errno + bytes) \<times> 'w"

definition O_NONBLOCK :: uint32 where "O_NONBLOCK = 0x800"

section \<open>class TcpTransport\<close>

record TcpTransport =
  fd :: int

definition TcpTransport_init :: TcpTransport where
  "TcpTransport_init = \<lparr>fd = - 1\<rparr>"

definition LAST_FRAG_FLAG :: uint32 where "LAST_FRAG_FLAG = 0x80000000"
definition FRAG_LEN_MASK :: uint32 where "FRAG_LEN_MASK = 0x7FFFFFFF"

definition TcpTransport_disconnect :: "'w posix \<Rightarrow> TcpTransport \<Rightarrow> 'w \<Rightarrow> TcpTransport \<times> 'w" where
  "TcpTransport_disconnect os t w =
     (if fd t \<ge> 0 then (t\<lparr>fd := - 1\<rparr>, sys_close os (fd t) w) else (t, w))"

definition TcpTransport_is_connected :: "TcpTransport \<Rightarrow> bool" where
  "TcpTransport_is_connected t \<longleftrightarrow> fd t \<ge> 0"

text \<open>The move operations return the object moved to and the object moved from; the argument
  \<open>same\<close> is the test \<^verbatim>\<open>this == &other\<close>.\<close>

definition TcpTransport_move :: "TcpTransport \<Rightarrow> TcpTransport \<times> TcpTransport" where
  "TcpTransport_move other = (\<lparr>fd = fd other\<rparr>, other\<lparr>fd := - 1\<rparr>)"

definition TcpTransport_move_assign ::
    "'w posix \<Rightarrow> bool \<Rightarrow> TcpTransport \<Rightarrow> TcpTransport \<Rightarrow> 'w \<Rightarrow> (TcpTransport \<times> TcpTransport) \<times> 'w" where
  "TcpTransport_move_assign os same t other w =
     (if \<not> same then
        (case TcpTransport_disconnect os t w of
           (t, w) \<Rightarrow> ((t\<lparr>fd := fd other\<rparr>, other\<lparr>fd := - 1\<rparr>), w))
      else ((t, other), w))"

definition htons_bytes :: "uint16 \<Rightarrow> bytes" where
  "htons_bytes p = [ucast (drop_bit 8 p), ucast p]"

definition TcpTransport_connect ::
    "'w posix \<Rightarrow> TcpTransport \<Rightarrow> string \<Rightarrow> uint16 \<Rightarrow> int \<Rightarrow> 'w \<Rightarrow> (bool \<times> TcpTransport) \<times> 'w" where
  "TcpTransport_connect os t host port timeout_ms w =
     (let (t, w) = TcpTransport_disconnect os t w;
          (s, w) = sys_socket os w;
          t = t\<lparr>fd := s\<rparr>;
          fail = (\<lambda>w. case TcpTransport_disconnect os t w of (t, w) \<Rightarrow> ((False, t), w))
      in if s < 0 then ((False, t), w)
      else
        let w = sys_set_nodelay os s w;
            (he, w) = sys_gethostbyname os host w
        in case he of None \<Rightarrow> fail w
        | Some a \<Rightarrow>
          let (flags, w) = sys_getfl os s w;
              w = sys_setfl os s (flags OR O_NONBLOCK) w;
              (ret, w) = sys_connect os s \<lparr>sin_port = htons_bytes port, sin_addr = a\<rparr> w
          in case ret of
            None \<Rightarrow> ((True, t), sys_setfl os s flags w)
          | Some e \<Rightarrow>
            if e \<noteq> EINPROGRESS then fail w
            else
              let (poll_ret, w) = sys_poll os s POLLOUT timeout_ms w
              in if poll_ret \<le> 0 then fail w
              else
                let (err, w) = sys_get_so_error os s w
                in if err \<noteq> Some 0 then fail w
                else ((True, t), sys_setfl os s flags w))"

section \<open>The loops\<close>

text \<open>Both are called with \<open>written\<close> and \<open>readn\<close> at 0.\<close>

partial_function (option) write_all ::
    "'w posix \<Rightarrow> int \<Rightarrow> bytes \<Rightarrow> int \<Rightarrow> nat \<Rightarrow> 'w \<Rightarrow> (bool \<times> 'w) option" where
  "write_all os d data timeout_ms written w =
     (if written < length data then
        case sys_write os d (drop written data) w of
          (Inl e, w) \<Rightarrow>
            if e = EINTR then write_all os d data timeout_ms written w
            else if e = EAGAIN \<or> e = EWOULDBLOCK then
              (case sys_poll os d POLLOUT timeout_ms w of
                 (ret, w) \<Rightarrow>
                   if ret \<le> 0 then Some (False, w)
                   else write_all os d data timeout_ms written w)
            else Some (False, w)
        | (Inr n, w) \<Rightarrow> write_all os d data timeout_ms (written + n) w
      else Some (True, w))"

partial_function (option) read_all ::
    "'w posix \<Rightarrow> int \<Rightarrow> bytes \<Rightarrow> int \<Rightarrow> nat \<Rightarrow> 'w \<Rightarrow> ((bool \<times> bytes) \<times> 'w) option" where
  "read_all os d data timeout_ms readn w =
     (if readn < length data then
        case sys_read os d (length data - readn) w of
          (Inl e, w) \<Rightarrow>
            if e = EINTR then read_all os d data timeout_ms readn w
            else if e = EAGAIN \<or> e = EWOULDBLOCK then
              (case sys_poll os d POLLIN timeout_ms w of
                 (ret, w) \<Rightarrow>
                   if ret \<le> 0 then Some ((False, data), w)
                   else read_all os d data timeout_ms readn w)
            else Some ((False, data), w)
        | (Inr chunk, w) \<Rightarrow>
            if chunk = [] then Some ((False, data), w)
            else read_all os d (poke readn chunk data) timeout_ms (readn + length chunk) w
      else Some ((True, data), w))"

definition TcpTransport_wait_readable :: "'w posix \<Rightarrow> TcpTransport \<Rightarrow> int \<Rightarrow> 'w \<Rightarrow> bool \<times> 'w" where
  "TcpTransport_wait_readable os t timeout_ms w =
     (if fd t < 0 then (False, w)
      else case sys_poll os (fd t) POLLIN timeout_ms w of (ret, w) \<Rightarrow> (ret > 0, w))"

section \<open>Sending and receiving a record\<close>

definition TcpTransport_send ::
    "'w posix \<Rightarrow> TcpTransport \<Rightarrow> bytes \<Rightarrow> int \<Rightarrow> 'w \<Rightarrow> (bool \<times> 'w) outcome" where
  "TcpTransport_send os t message timeout_ms w =
     (if fd t < 0 then Ret (False, w)
      else
        let header = mem32 NATIVE_ENDIAN (htonl (word_of_nat (length message) OR LAST_FRAG_FLAG))
        in obind (returns (write_all os (fd t) header timeout_ms 0 w)) (\<lambda>(ok, w).
           if \<not> ok then Ret (False, w)
           else returns (write_all os (fd t) message timeout_ms 0 w)))"

text \<open>The array \<^verbatim>\<open>header\<close> starts uninitialised and is only used once filled.\<close>

definition TcpTransport_recv ::
    "'w posix \<Rightarrow> TcpTransport \<Rightarrow> bytes \<Rightarrow> int \<Rightarrow> 'w \<Rightarrow> ((bool \<times> bytes) \<times> 'w) outcome" where
  "TcpTransport_recv os t message timeout_ms w =
     (if fd t < 0 then Ret ((False, message), w)
      else obind (returns (read_all os (fd t) (replicate 4 0) timeout_ms 0 w))
        (\<lambda>((ok, header), w).
          if \<not> ok then Ret ((False, message), w)
          else
            let frag_len = ntohl (load32 NATIVE_ENDIAN header) AND FRAG_LEN_MASK;
                message = resize (unat frag_len) message
            in if frag_len > 0
               then returns (read_all os (fd t) message timeout_ms 0 w)
               else Ret ((True, message), w)))"

section \<open>What the class relies on\<close>

text \<open>
  The behaviour of a connected stream socket that POSIX documents, as a predicate on the
  parameter: \<open>out\<close> is what has been written to the connection, \<open>rcv\<close> what has been read from it,
  \<open>inp\<close> what the peer will still deliver (which may depend on what it has been sent), \<open>stall\<close> bounds the interrupted or unready calls before the next byte moves.
  A write of data moves a non-empty prefix of it, a read gives a prefix of what the peer
  delivers, and a call that fails moves nothing.
\<close>

definition stalls ::
    "'w posix \<Rightarrow> int \<Rightarrow> ('w \<Rightarrow> bytes) \<Rightarrow> ('w \<Rightarrow> bytes) \<Rightarrow> ('w \<Rightarrow> bytes) \<Rightarrow> ('w \<Rightarrow> nat) \<Rightarrow> poll_events \<Rightarrow>
     errno \<Rightarrow> 'w \<Rightarrow> 'w \<Rightarrow> bool" where
  "stalls os d out rcv inp stall ev e w w1 \<longleftrightarrow>
     out w1 = out w \<and> rcv w1 = rcv w \<and> (ev = POLLIN \<longrightarrow> inp w1 = inp w) \<and>
     (e = EINTR \<longrightarrow> stall w1 < stall w) \<and>
     (e = EAGAIN \<or> e = EWOULDBLOCK \<longrightarrow>
       (\<forall>tm. case sys_poll os d ev tm w1 of (r, w2) \<Rightarrow>
          out w2 = out w \<and> rcv w2 = rcv w \<and> (ev = POLLIN \<longrightarrow> inp w2 = inp w) \<and> (r > 0 \<longrightarrow> stall w2 < stall w)))"

definition tcp_stream ::
    "'w posix \<Rightarrow> int \<Rightarrow> ('w \<Rightarrow> bytes) \<Rightarrow> ('w \<Rightarrow> bytes) \<Rightarrow> ('w \<Rightarrow> bytes) \<Rightarrow> ('w \<Rightarrow> nat) \<Rightarrow> bool" where
  "tcp_stream os d out rcv inp stall \<longleftrightarrow>
     (\<forall>data w. data \<noteq> [] \<longrightarrow>
       (case sys_write os d data w of
          (Inr n, w1) \<Rightarrow> 0 < n \<and> n \<le> length data \<and> out w1 = out w @ take n data \<and> rcv w1 = rcv w
        | (Inl e, w1) \<Rightarrow> stalls os d out rcv inp stall POLLOUT e w w1)) \<and>
     (\<forall>n w. 0 < n \<longrightarrow>
       (case sys_read os d n w of
          (Inr c, w1) \<Rightarrow> length c \<le> n \<and> inp w = c @ inp w1 \<and> out w1 = out w \<and> rcv w1 = rcv w @ c
        | (Inl e, w1) \<Rightarrow> stalls os d out rcv inp stall POLLIN e w w1))"

text \<open>A connection that stays up: calls fail only for being interrupted or not ready, the wait
  for readiness succeeds, and the end of the data is not reported before it is reached.\<close>

definition tcp_up :: "'w posix \<Rightarrow> int \<Rightarrow> ('w \<Rightarrow> bytes) \<Rightarrow> bool" where
  "tcp_up os d inp \<longleftrightarrow>
     (\<forall>data w e w1. sys_write os d data w = (Inl e, w1) \<longrightarrow> e \<in> {EINTR, EAGAIN, EWOULDBLOCK}) \<and>
     (\<forall>n w e w1. sys_read os d n w = (Inl e, w1) \<longrightarrow> e \<in> {EINTR, EAGAIN, EWOULDBLOCK}) \<and>
     (\<forall>ev tm w. fst (sys_poll os d ev tm w) > 0) \<and>
     (\<forall>n w w1. 0 < n \<longrightarrow> sys_read os d n w = (Inr [], w1) \<longrightarrow> inp w = [])"

lemma tcp_writeE:
  assumes "tcp_stream os d out rcv inp stall" and "data \<noteq> []"
  obtains (moved) n w1 where "sys_write os d data w = (Inr n, w1)" "0 < n" "n \<le> length data"
      "out w1 = out w @ take n data" "rcv w1 = rcv w"
  | (stalled) e w1 where "sys_write os d data w = (Inl e, w1)"
      "stalls os d out rcv inp stall POLLOUT e w w1"
proof -
  obtain r w1 where r: "sys_write os d data w = (r, w1)" by (cases "sys_write os d data w")
  from assms(1) [unfolded tcp_stream_def, THEN conjunct1, rule_format, OF assms(2)]
  have "case sys_write os d data w of
      (Inr n, w1) \<Rightarrow> 0 < n \<and> n \<le> length data \<and> out w1 = out w @ take n data \<and> rcv w1 = rcv w
    | (Inl e, w1) \<Rightarrow> stalls os d out rcv inp stall POLLOUT e w w1"
    .
  with r moved stalled show thesis by (cases r) auto
qed

lemma tcp_readE:
  assumes "tcp_stream os d out rcv inp stall" and "0 < n"
  obtains (moved) c w1 where "sys_read os d n w = (Inr c, w1)" "length c \<le> n"
      "inp w = c @ inp w1" "out w1 = out w"
  | (stalled) e w1 where "sys_read os d n w = (Inl e, w1)"
      "stalls os d out rcv inp stall POLLIN e w w1"
proof -
  obtain r w1 where r: "sys_read os d n w = (r, w1)" by (cases "sys_read os d n w")
  from assms(1) [unfolded tcp_stream_def, THEN conjunct2, rule_format, OF assms(2)]
  have "case sys_read os d n w of
      (Inr c, w1) \<Rightarrow> length c \<le> n \<and> inp w = c @ inp w1 \<and> out w1 = out w \<and> rcv w1 = rcv w @ c
    | (Inl e, w1) \<Rightarrow> stalls os d out rcv inp stall POLLIN e w w1"
    .
  with r moved stalled show thesis by (cases r) auto
qed

text \<open>After a call that moved nothing the loops retry in a state with a smaller bound, or give up
  (which they do not on a connection that stays up).\<close>

definition retry :: "'w posix \<Rightarrow> int \<Rightarrow> poll_events \<Rightarrow> int \<Rightarrow> errno \<Rightarrow> 'w \<Rightarrow> bool \<times> 'w" where
  "retry os d ev tm e w1 =
     (if e = EINTR then (True, w1)
      else if e = EAGAIN \<or> e = EWOULDBLOCK
      then (case sys_poll os d ev tm w1 of (ret, w2) \<Rightarrow> (ret > 0, w2))
      else (False, w1))"

lemma retry_stalls:
  assumes "stalls os d out rcv inp stall ev e w w1" and "retry os d ev tm e w1 = (again, w2)"
  shows "out w2 = out w" and "rcv w2 = rcv w" and "ev = POLLIN \<Longrightarrow> inp w2 = inp w" and "again \<Longrightarrow> stall w2 < stall w"
  using assms unfolding stalls_def retry_def
  by (auto split: if_splits prod.splits)

lemma tcp_upD:
  assumes "tcp_up os d inp"
  shows "sys_write os d data w = (Inl e, w1) \<Longrightarrow> e \<in> {EINTR, EAGAIN, EWOULDBLOCK}"
    and "sys_read os d n w = (Inl e, w1) \<Longrightarrow> e \<in> {EINTR, EAGAIN, EWOULDBLOCK}"
    and "fst (sys_poll os d ev tm w) > 0"
    and "0 < n \<Longrightarrow> sys_read os d n w = (Inr [], w1) \<Longrightarrow> inp w = []"
  using assms unfolding tcp_up_def by blast+

lemma retry_up:
  assumes "tcp_up os d inp" and "e \<in> {EINTR, EAGAIN, EWOULDBLOCK}"
  shows "fst (retry os d ev tm e w1)"
  using assms(2) tcp_upD(3) [OF assms(1), of ev tm w1]
  by (auto simp: retry_def split: prod.splits)

section \<open>The loops end, and move what they say\<close>

lemma write_all_done: "length data \<le> k \<Longrightarrow> write_all os d data tm k w = Some (True, w)"
  by (subst write_all.simps) simp

lemma write_all_moved:
  "k < length data \<Longrightarrow> sys_write os d (drop k data) w = (Inr n, w1) \<Longrightarrow>
   write_all os d data tm k w = write_all os d data tm (k + n) w1"
  by (subst write_all.simps) simp

lemma write_all_stalled:
  "k < length data \<Longrightarrow> sys_write os d (drop k data) w = (Inl e, w1) \<Longrightarrow>
   write_all os d data tm k w =
     (case retry os d POLLOUT tm e w1 of (again, w2) \<Rightarrow>
        if again then write_all os d data tm k w2 else Some (False, w2))"
  by (subst write_all.simps) (auto simp: retry_def split: prod.splits)

lemma write_all_result:
  assumes tcp: "tcp_stream os d out rcv inp stall" and "k \<le> length data"
  shows "\<exists>ok m w'. write_all os d data tm k w = Some (ok, w') \<and> k + m \<le> length data \<and>
    out w' = out w @ take m (drop k data) \<and> rcv w' = rcv w \<and> (ok \<longleftrightarrow> k + m = length data) \<and>
    (tcp_up os d inp \<longrightarrow> ok)"
  using assms(2)
proof (induction "length data - k" arbitrary: k w rule: less_induct)
  case outer: less
  show ?case
  proof (induction "stall w" arbitrary: w rule: less_induct)
    case inner: less
    show ?case
    proof (cases "k < length data")
      case False
      with outer.prems show ?thesis
        by (intro exI [of _ True] exI [of _ 0] exI [of _ w]) (simp add: write_all_done)
    next
      case True
      then have "drop k data \<noteq> []" by simp
      with tcp show ?thesis
      proof (cases rule: tcp_writeE [where w = w])
        case (moved n w1)
        then have "length data - (k + n) < length data - k" "k + n \<le> length data" using True by auto
        from outer.hyps [OF this, of w1] obtain ok m w' where
          "write_all os d data tm (k + n) w1 = Some (ok, w')" "k + n + m \<le> length data"
          "out w' = out w1 @ take m (drop (k + n) data)" "rcv w' = rcv w"
          "ok \<longleftrightarrow> k + n + m = length data" "tcp_up os d inp \<longrightarrow> ok" using moved(5) by auto
        moreover from this(3) moved have "out w' = out w @ take (n + m) (drop k data)"
          by (simp add: take_add ac_simps(2) [of n k])
        ultimately show ?thesis using write_all_moved [OF True moved(1)]
          by (intro exI [of _ ok] exI [of _ "n + m"] exI [of _ w']) (auto simp: add.assoc)
      next
        case (stalled e w1)
        obtain again w2 where r: "retry os d POLLOUT tm e w1 = (again, w2)" by fastforce
        note wa = write_all_stalled [OF True stalled(1), of tm, unfolded r, simplified]
        note st = retry_stalls [OF stalled(2) r]
        show ?thesis
        proof (cases again)
          case True
          with inner [OF st(4)] wa st(1,2) show ?thesis by simp
        next
          case False
          with retry_up [of os d inp e POLLOUT tm w1] tcp_upD(1) [OF _ stalled(1)] r
          have "\<not> tcp_up os d inp" by auto
          with False wa st(1,2) \<open>k < length data\<close> show ?thesis
            by (intro exI [of _ False] exI [of _ 0] exI [of _ w2]) simp
        qed
      qed
    qed
  qed
qed

lemma read_all_done: "length data \<le> k \<Longrightarrow> read_all os d data tm k w = Some ((True, data), w)"
  by (subst read_all.simps) simp

lemma read_all_moved:
  "k < length data \<Longrightarrow> sys_read os d (length data - k) w = (Inr c, w1) \<Longrightarrow>
   read_all os d data tm k w =
     (if c = [] then Some ((False, data), w1)
      else read_all os d (poke k c data) tm (k + length c) w1)"
  by (subst read_all.simps) simp

lemma read_all_stalled:
  "k < length data \<Longrightarrow> sys_read os d (length data - k) w = (Inl e, w1) \<Longrightarrow>
   read_all os d data tm k w =
     (case retry os d POLLIN tm e w1 of (again, w2) \<Rightarrow>
        if again then read_all os d data tm k w2 else Some ((False, data), w2))"
  by (subst read_all.simps) (auto simp: retry_def split: prod.splits)

lemma poke_Nil [simp]: "poke k [] xs = xs"
  by (simp add: poke_def)

lemma poke_poke:
  "k + length c + length c' \<le> length xs \<Longrightarrow> poke (k + length c) c' (poke k c xs) = poke k (c @ c') xs"
  by (simp add: poke_def ac_simps)

text \<open>On a connection that stays up the loop fails only when the peer delivers too little.\<close>

lemma read_all_result:
  assumes tcp: "tcp_stream os d out rcv inp stall" and "k \<le> length data"
  shows "\<exists>ok c w'. read_all os d data tm k w = Some ((ok, poke k c data), w') \<and>
    k + length c \<le> length data \<and> inp w = c @ inp w' \<and> out w' = out w \<and>
    (ok \<longleftrightarrow> k + length c = length data) \<and> (tcp_up os d inp \<longrightarrow> ok \<or> inp w' = [])"
  using assms(2)
proof (induction "length data - k" arbitrary: k data w rule: less_induct)
  case outer: less
  show ?case
  proof (induction "stall w" arbitrary: w rule: less_induct)
    case inner: less
    show ?case
    proof (cases "k < length data")
      case False
      with outer.prems show ?thesis
        by (intro exI [of _ True] exI [of _ "[]"] exI [of _ w]) (simp add: read_all_done)
    next
      case True
      then have "0 < length data - k" by simp
      with tcp show ?thesis
      proof (cases rule: tcp_readE [where w = w])
        case (moved c w1)
        show ?thesis
        proof (cases "c = []")
          case True
          with moved tcp_upD(4) [OF _ \<open>0 < length data - k\<close>, of os d inp w w1]
          have "tcp_up os d inp \<longrightarrow> inp w1 = []" by simp
          with True moved read_all_moved [OF \<open>k < length data\<close> moved(1)] \<open>k < length data\<close> show ?thesis
            by (intro exI [of _ False] exI [of _ "[]"] exI [of _ w1]) simp
        next
          case False
          let ?data = "poke k c data"
          from moved(2) True have l: "length ?data = length data" by simp
          with False moved(2) True have "length ?data - (k + length c) < length data - k"
            "k + length c \<le> length ?data" by (auto simp: neq_Nil_conv)
          from outer.hyps [OF this, of w1] obtain ok c' w' where h:
            "read_all os d ?data tm (k + length c) w1 = Some ((ok, poke (k + length c) c' ?data), w')"
            "k + length c + length c' \<le> length data" "inp w1 = c' @ inp w'" "out w' = out w1"
            "ok \<longleftrightarrow> k + length c + length c' = length data"
            "tcp_up os d inp \<longrightarrow> ok \<or> inp w' = []" unfolding l by auto
          with False moved read_all_moved [OF True moved(1)] show ?thesis
            by (intro exI [of _ ok] exI [of _ "c @ c'"] exI [of _ w'])
              (simp add: poke_poke add.assoc)
        qed
      next
        case (stalled e w1)
        obtain again w2 where r: "retry os d POLLIN tm e w1 = (again, w2)" by fastforce
        note ra = read_all_stalled [OF True stalled(1), of tm, unfolded r, simplified]
        note st = retry_stalls [OF stalled(2) r]
        show ?thesis
        proof (cases again)
          case True
          with inner [OF st(4)] ra st(1,3) show ?thesis by simp
        next
          case False
          with retry_up [of os d inp e POLLIN tm w1] tcp_upD(2) [OF _ stalled(1)] r
          have "\<not> tcp_up os d inp" by auto
          with False ra st(1,3) \<open>k < length data\<close> show ?thesis
            by (intro exI [of _ False] exI [of _ "[]"] exI [of _ w2]) simp
        qed
      qed
    qed
  qed
qed

section \<open>Records on the wire\<close>

text \<open>A fragment of RFC 5531 record marking: the header \<open>h\<close> holds the length and the flag. A
  record sent by the class is a single fragment with the flag set.\<close>

definition frag_length :: "uint32 \<Rightarrow> nat" where
  "frag_length h = unat (h AND FRAG_LEN_MASK)"

definition frame :: "bytes \<Rightarrow> bytes" where
  "frame m = be32 (word_of_nat (length m) OR LAST_FRAG_FLAG) @ m"

lemma length_frame [simp]: "length (frame m) = 4 + length m"
  by (simp add: frame_def)

lemma frag_length_mask: "frag_length h = unat h mod 2 ^ 31"
proof -
  have "FRAG_LEN_MASK = mask 31" by (simp add: FRAG_LEN_MASK_def mask_eq_exp_minus_1)
  then have "h AND FRAG_LEN_MASK = take_bit 31 h" by (simp add: take_bit_eq_mask)
  then show ?thesis by (simp add: frag_length_def unat_mod take_bit_eq_mod)
qed

lemma frag_length_frame:
  assumes "length m < 2 ^ 31"
  shows "frag_length (word_of_nat (length m) OR LAST_FRAG_FLAG) = length m"
proof -
  let ?n = "word_of_nat (length m) :: uint32"
  have "LAST_FRAG_FLAG AND mask 31 = 0" by (simp add: LAST_FRAG_FLAG_def mask_eq_exp_minus_1)
  then have "(?n OR LAST_FRAG_FLAG) AND mask 31 = ?n AND mask 31"
    by (simp add: bit.conj_disj_distrib2)
  moreover have "FRAG_LEN_MASK = mask 31" by (simp add: FRAG_LEN_MASK_def mask_eq_exp_minus_1)
  ultimately have "frag_length (?n OR LAST_FRAG_FLAG) = frag_length ?n"
    by (simp add: frag_length_def)
  also have "\<dots> = length m" using assms by (simp add: frag_length_mask unat_of_nat)
  finally show ?thesis .
qed

lemma send_result:
  assumes tcp: "tcp_stream os (fd t) out rcv inp stall" and "0 \<le> fd t"
  shows "\<exists>ok m w'. TcpTransport_send os t msg tm w = Ret (ok, w') \<and> m \<le> length (frame msg) \<and>
    out w' = out w @ take m (frame msg) \<and> rcv w' = rcv w \<and> (ok \<longleftrightarrow> m = length (frame msg)) \<and>
    (tcp_up os (fd t) inp \<longrightarrow> ok)"
proof -
  let ?h = "be32 (word_of_nat (length msg) OR LAST_FRAG_FLAG)"
  from write_all_result [OF tcp, of 0 ?h tm w] obtain ok1 m1 w1 where h:
    "write_all os (fd t) ?h tm 0 w = Some (ok1, w1)" "m1 \<le> 4" "out w1 = out w @ take m1 ?h"
    "rcv w1 = rcv w"
    "ok1 \<longleftrightarrow> m1 = 4" "tcp_up os (fd t) inp \<longrightarrow> ok1" by auto
  from write_all_result [OF tcp, of 0 msg tm w1] obtain ok2 m2 w2 where b:
    "write_all os (fd t) msg tm 0 w1 = Some (ok2, w2)" "m2 \<le> length msg"
    "out w2 = out w1 @ take m2 msg" "rcv w2 = rcv w1" "ok2 \<longleftrightarrow> m2 = length msg"
    "tcp_up os (fd t) inp \<longrightarrow> ok2" by auto
  show ?thesis
  proof (cases ok1)
    case True
    with assms(2) h b show ?thesis
      by (intro exI [of _ ok2] exI [of _ "4 + m2"] exI [of _ w2])
        (simp add: TcpTransport_send_def htonl_def frame_def)
  next
    case False
    with assms(2) h show ?thesis
      by (intro exI [of _ False] exI [of _ m1] exI [of _ w1])
        (auto simp: TcpTransport_send_def htonl_def frame_def)
  qed
qed

text \<open>A block the peer delivers whole is read whole on a connection that stays up, and is what is
  read whenever the loop succeeds.\<close>

lemma read_all_block:
  assumes tcp: "tcp_stream os d out rcv inp stall" and inp: "inp w = c @ rest"
    and "length data = length c"
  obtains (all) w' where "read_all os d data tm 0 w = Some ((True, c), w')" "inp w' = rest" "out w' = out w"
  | (part) data' w' where "read_all os d data tm 0 w = Some ((False, data'), w')" "\<not> tcp_up os d inp"
      "out w' = out w"
proof -
  from read_all_result [OF tcp, of 0 data tm w] obtain ok c' w' where h:
    "read_all os d data tm 0 w = Some ((ok, poke 0 c' data), w')" "length c' \<le> length data"
    "inp w = c' @ inp w'" "out w' = out w" "ok \<longleftrightarrow> length c' = length data"
    "tcp_up os d inp \<longrightarrow> ok \<or> inp w' = []" by auto
  show thesis
  proof (cases ok)
    case True
    with h assms have "c' = c" "inp w' = rest" by auto
    with h True assms(3) show ?thesis by (intro all [of w']) (simp_all add: poke_def)
  next
    case False
    have "\<not> tcp_up os d inp"
    proof
      assume "tcp_up os d inp"
      with False h inp assms(3) have "c @ rest = c'" by simp
      then have "length c \<le> length c'" by auto
      with False h(2,5) assms(3) show False by simp
    qed
    with h False show ?thesis by (intro part [of "poke 0 c' data" w']) simp_all
  qed
qed

text \<open>\<^verbatim>\<open>recv\<close> returns the first fragment, whatever its flag says.\<close>

lemma recv_fragment:
  assumes tcp: "tcp_stream os (fd t) out rcv inp stall" and "0 \<le> fd t"
    and inp: "inp w = be32 h @ m @ rest" and m: "length m = frag_length h"
  obtains (all) w' where "TcpTransport_recv os t old tm w = Ret ((True, m), w')" "inp w' = rest"
      "out w' = out w"
  | (part) msg w' where "TcpTransport_recv os t old tm w = Ret ((False, msg), w')"
      "\<not> tcp_up os (fd t) inp" "out w' = out w"
proof -
  have l: "length (replicate 4 (0::byte)) = length (be32 h)" by simp
  from assms(2) have fd: "\<not> fd t < 0" by simp
  from tcp inp l show thesis
  proof (cases rule: read_all_block [where tm = tm])
    case h: (all w1)
    show ?thesis
    proof (cases "h AND FRAG_LEN_MASK > 0")
      case True
      have "length (resize (unat (h AND FRAG_LEN_MASK)) old) = length m"
        using m by (simp add: frag_length_def)
      with tcp h(2) show ?thesis
      proof (cases rule: read_all_block [where tm = tm])
        case (all w2)
        with h fd True show ?thesis
          by (intro that(1) [of w2]) (simp_all add: TcpTransport_recv_def ntohl_def)
      next
        case (part data' w2)
        with h fd True show ?thesis
          by (intro that(2) [of data' w2]) (simp_all add: TcpTransport_recv_def ntohl_def)
      qed
    next
      case False
      then have "h AND FRAG_LEN_MASK = 0" by (simp add: word_gt_0)
      moreover from this m have "m = []" by (simp add: frag_length_def)
      ultimately show ?thesis using h fd
        by (intro that(1) [of w1]) (simp_all add: TcpTransport_recv_def ntohl_def resize_def)
    qed
  next
    case (part data' w1)
    with fd show ?thesis
      by (intro that(2) [of old w1]) (simp_all add: TcpTransport_recv_def)
  qed
qed

lemma recv_frame:
  assumes "tcp_stream os (fd t) out rcv inp stall" and "0 \<le> fd t"
    and "inp w = frame m @ rest" and "length m < 2 ^ 31"
  obtains (all) w' where "TcpTransport_recv os t old tm w = Ret ((True, m), w')" "inp w' = rest"
      "out w' = out w"
  | (part) msg w' where "TcpTransport_recv os t old tm w = Ret ((False, msg), w')"
      "\<not> tcp_up os (fd t) inp" "out w' = out w"
proof -
  have "inp w = be32 (word_of_nat (length m) OR LAST_FRAG_FLAG) @ m @ rest"
    using assms(3) by (simp add: frame_def)
  with assms(1,2) show thesis
    by (rule recv_fragment [where old = old and tm = tm])
      (use frag_length_frame [OF assms(4)] that in auto)
qed

text \<open>\<^verbatim>\<open>write_all\<close> relies on \<^verbatim>\<open>write\<close> not returning 0: it does not end where it does.\<close>

lemma write_all_stuck:
  assumes "\<And>w. sys_write os d data w = (Inr 0, w)" and "data \<noteq> []"
  shows "write_all os d data tm 0 w = None"
proof (cases "write_all os d data tm 0 w")
  case (Some y)
  let ?P = "\<lambda>os d data (tm::int) k w (y::bool \<times> 'a).
    k = (0::nat) \<longrightarrow> (\<forall>w. sys_write os d data w = (Inr 0, w)) \<longrightarrow> data = []"
  from Some have "?P os d data tm 0 w y"
    by (rule write_all.raw_induct [where P = ?P, rotated]) (auto split: if_splits)
  with assms show ?thesis by simp
qed

section \<open>Descriptors\<close>

text \<open>What POSIX documents of descriptors: \<open>opn\<close> is the set of open ones; \<^verbatim>\<open>socket\<close> gives a new
  one, \<^verbatim>\<open>close\<close> gives one back, the other calls leave them alone.\<close>

definition keeps_descriptors :: "'w posix \<Rightarrow> ('w \<Rightarrow> int set) \<Rightarrow> bool" where
  "keeps_descriptors os opn \<longleftrightarrow>
     (\<forall>w. case sys_socket os w of (s, w1) \<Rightarrow>
        if s < 0 then opn w1 = opn w else s \<notin> opn w \<and> opn w1 = insert s (opn w)) \<and>
     (\<forall>d w. opn (sys_close os d w) = opn w - {d}) \<and>
     (\<forall>d w. opn (sys_set_nodelay os d w) = opn w) \<and>
     (\<forall>h w. opn (snd (sys_gethostbyname os h w)) = opn w) \<and>
     (\<forall>d w. opn (snd (sys_getfl os d w)) = opn w) \<and>
     (\<forall>d f w. opn (sys_setfl os d f w) = opn w) \<and>
     (\<forall>d a w. opn (snd (sys_connect os d a w)) = opn w) \<and>
     (\<forall>d ev tm w. opn (snd (sys_poll os d ev tm w)) = opn w) \<and>
     (\<forall>d w. opn (snd (sys_get_so_error os d w)) = opn w)"

text \<open>A connected transport owns its descriptor, and no other one is lost: \<open>holds\<close> is that set.\<close>

definition holds :: "TcpTransport \<Rightarrow> int set" where
  "holds t = (if fd t \<ge> 0 then {fd t} else {})"

lemma disconnect_descriptors:
  assumes "keeps_descriptors os opn" and "TcpTransport_disconnect os t w = (t', w')"
  shows "opn w' = opn w - holds t" and "holds t' = {}" and "fd t' < 0"
  using assms by (auto simp: TcpTransport_disconnect_def keeps_descriptors_def holds_def
      split: if_splits)

lemma keeps_descriptorsD:
  assumes "keeps_descriptors os opn"
  shows "opn (sys_close os d w) = opn w - {d}" "opn (sys_set_nodelay os d w) = opn w"
    "opn (snd (sys_gethostbyname os h w)) = opn w" "opn (snd (sys_getfl os d w)) = opn w"
    "opn (sys_setfl os d f w) = opn w" "opn (snd (sys_connect os d a w)) = opn w"
    "opn (snd (sys_poll os d ev tm w)) = opn w" "opn (snd (sys_get_so_error os d w)) = opn w"
    "fst (sys_socket os w) < 0 \<Longrightarrow> opn (snd (sys_socket os w)) = opn w"
    "\<not> fst (sys_socket os w) < 0 \<Longrightarrow> opn (snd (sys_socket os w)) = insert (fst (sys_socket os w)) (opn w)"
    "\<not> fst (sys_socket os w) < 0 \<Longrightarrow> fst (sys_socket os w) \<notin> opn w"
  using assms [unfolded keeps_descriptors_def] by (auto simp: case_prod_beta split: if_splits)

lemma disconnect_open:
  "\<not> s < 0 \<Longrightarrow> TcpTransport_disconnect os (t\<lparr>fd := s\<rparr>) w = (t\<lparr>fd := - 1\<rparr>, sys_close os s w)"
  by (simp add: TcpTransport_disconnect_def)

text \<open>\<^verbatim>\<open>connect\<close> gives back the old descriptor and, when it fails, the new one.\<close>

lemma connect_descriptors:
  assumes kd: "keeps_descriptors os opn"
    and "TcpTransport_connect os t host port tm w = ((ok, t'), w')"
  shows "ok = TcpTransport_is_connected t'" and "opn w' = (opn w - holds t) \<union> holds t'"
    and "ok \<Longrightarrow> fd t' \<notin> opn w - holds t"
proof -
  obtain t1 w1 where d: "TcpTransport_disconnect os t w = (t1, w1)" by fastforce
  note dd = disconnect_descriptors [OF kd d]
  let ?s = "fst (sys_socket os w1)" and ?w = "snd (sys_socket os w1)"
  have "ok = TcpTransport_is_connected t' \<and> opn w' = opn w1 \<union> holds t' \<and> (ok \<longrightarrow> fd t' \<notin> opn w1)"
  proof (cases "?s < 0")
    case True
    with assms(2) d keeps_descriptorsD(9) [OF kd True] show ?thesis
      by (auto simp: TcpTransport_connect_def Let_def case_prod_beta holds_def
          TcpTransport_is_connected_def)
  next
    case False
    note s = keeps_descriptorsD(10,11) [OF kd False]
    from assms(2) d False show ?thesis
      by (auto simp: TcpTransport_connect_def Let_def case_prod_beta holds_def
          TcpTransport_is_connected_def disconnect_open keeps_descriptorsD(1-8) [OF kd] s
          split: option.splits if_splits)
  qed
  with dd show "ok = TcpTransport_is_connected t'" and "opn w' = (opn w - holds t) \<union> holds t'"
    and "ok \<Longrightarrow> fd t' \<notin> opn w - holds t" by auto
qed

text \<open>Moving a transport moves its descriptor: afterwards exactly one of the two objects holds it.\<close>

lemma move_descriptors:
  "TcpTransport_move other = (t, other') \<Longrightarrow> holds t = holds other \<and> holds other' = {}"
  by (auto simp: TcpTransport_move_def holds_def)

lemma move_assign_descriptors:
  assumes "keeps_descriptors os opn"
    and "TcpTransport_move_assign os False t other w = ((t', other'), w')"
  shows "holds t' = holds other" and "holds other' = {}" and "opn w' = opn w - holds t"
  using assms disconnect_descriptors [OF assms(1), of t w]
  by (auto simp: TcpTransport_move_assign_def holds_def split: prod.splits)

end
