(* ===== verification/RpcClient.thy ===== *)
theory RpcClient
  imports RpcTransport
begin

text \<open>
  The RPC client: \<^verbatim>\<open>class RpcClient\<close> of \<^verbatim>\<open>simple_rpc/include/nfstest/rpc_client.hpp\<close> and
  \<^verbatim>\<open>simple_rpc/src/rpc_client.cpp\<close>, and the C interface over it (\<^verbatim>\<open>rpc_client.h\<close>).
\<close>

section \<open>class RpcClient\<close>

record RpcClient =
  transport :: TcpTransport
  xid :: uint32

definition RpcClient_init :: RpcClient where
  "RpcClient_init = \<lparr>transport = TcpTransport_init, xid = 1\<rparr>"

definition RpcClient_disconnect :: "'w posix \<Rightarrow> RpcClient \<Rightarrow> 'w \<Rightarrow> RpcClient \<times> 'w" where
  "RpcClient_disconnect os c w =
     (case TcpTransport_disconnect os (transport c) w of
        (t, w) \<Rightarrow> (c\<lparr>transport := t, xid := 1\<rparr>, w))"

definition RpcClient_move :: "RpcClient \<Rightarrow> RpcClient \<times> RpcClient" where
  "RpcClient_move other =
     (case TcpTransport_move (transport other) of
        (t, t') \<Rightarrow> (\<lparr>transport = t, xid = xid other\<rparr>, other\<lparr>transport := t', xid := 1\<rparr>))"

definition RpcClient_move_assign ::
    "'w posix \<Rightarrow> bool \<Rightarrow> RpcClient \<Rightarrow> RpcClient \<Rightarrow> 'w \<Rightarrow> (RpcClient \<times> RpcClient) \<times> 'w" where
  "RpcClient_move_assign os same c other w =
     (if \<not> same then
        (case TcpTransport_move_assign os False (transport c) (transport other) w of
           ((t, t'), w) \<Rightarrow>
             ((c\<lparr>transport := t, xid := xid other\<rparr>, other\<lparr>transport := t', xid := 1\<rparr>), w))
      else ((c, other), w))"

definition RpcClient_connect ::
    "'w posix \<Rightarrow> RpcClient \<Rightarrow> string \<Rightarrow> uint16 \<Rightarrow> int \<Rightarrow> 'w \<Rightarrow> (bool \<times> RpcClient) \<times> 'w" where
  "RpcClient_connect os c host port timeout_ms w =
     (case TcpTransport_connect os (transport c) host port timeout_ms w of
        ((ok, t), w) \<Rightarrow> ((ok, c\<lparr>transport := t\<rparr>), w))"

definition RpcClient_is_connected :: "RpcClient \<Rightarrow> bool" where
  "RpcClient_is_connected c = TcpTransport_is_connected (transport c)"

definition RpcClient_raw_call ::
    "'w posix \<Rightarrow> RpcClient \<Rightarrow> bytes \<Rightarrow> int \<Rightarrow> 'w \<Rightarrow> ((RpcStatus \<times> bytes) \<times> 'w) outcome" where
  "RpcClient_raw_call os c raw_msg timeout_ms w =
     (if \<not> TcpTransport_is_connected (transport c) then Ret ((CONN_ERR, []), w)
      else obind (TcpTransport_send os (transport c) raw_msg timeout_ms w) (\<lambda>(ok, w).
        if \<not> ok then Ret ((SEND_ERR, []), w)
        else obind (TcpTransport_recv os (transport c) [] timeout_ms w) (\<lambda>((ok, reply_data), w).
          if \<not> ok then Ret ((RECV_ERR, []), w)
          else Ret ((OK, reply_data), w))))"

definition RpcClient_call ::
    "'w posix \<Rightarrow> RpcClient \<Rightarrow> uint32 \<Rightarrow> uint32 \<Rightarrow> uint32 \<Rightarrow> bytes \<Rightarrow> int \<Rightarrow> 'w \<Rightarrow>
     (((RpcStatus \<times> bytes) \<times> RpcClient) \<times> 'w) outcome" where
  "RpcClient_call os c prog vers proc xdr_args timeout_ms w =
     (if \<not> TcpTransport_is_connected (transport c) then Ret (((CONN_ERR, []), c), w)
      else
        let current_xid = xid c;
            c = c\<lparr>xid := xid c + 1\<rparr>;
            call_msg = build_call current_xid prog vers proc xdr_args
        in obind (TcpTransport_send os (transport c) call_msg timeout_ms w) (\<lambda>(ok, w).
          if \<not> ok then Ret (((SEND_ERR, []), c), w)
          else obind (TcpTransport_recv os (transport c) [] timeout_ms w) (\<lambda>((ok, reply_data), w).
            if \<not> ok then Ret (((RECV_ERR, []), c), w)
            else obind (parse_reply reply_data current_xid []) (\<lambda>(status, resp_body).
              Ret (((status, resp_body), c), w)))))"

section \<open>The C interface\<close>

text \<open>
  A null pointer is \<open>None\<close>. \<open>resp_data_ok\<close> and \<open>resp_len_ok\<close> say whether the two out-pointers are
  non-null, \<open>malloc_ok\<close> whether the allocation of the response succeeds. The outputs are \<open>None\<close>
  where the call does not write through the pointers. An array shorter than its stated
  length is read out of bounds.
\<close>

definition NFSTEST_RPC_OK :: int where "NFSTEST_RPC_OK = 0"
definition NFSTEST_RPC_CONN_ERR :: int where "NFSTEST_RPC_CONN_ERR = - 1"
definition NFSTEST_RPC_TIMEOUT :: int where "NFSTEST_RPC_TIMEOUT = - 2"
definition NFSTEST_RPC_PROG_UNAVAIL :: int where "NFSTEST_RPC_PROG_UNAVAIL = - 3"
definition NFSTEST_RPC_PROG_MISMATCH :: int where "NFSTEST_RPC_PROG_MISMATCH = - 4"
definition NFSTEST_RPC_PROC_UNAVAIL :: int where "NFSTEST_RPC_PROC_UNAVAIL = - 5"
definition NFSTEST_RPC_GARBAGE_ARGS :: int where "NFSTEST_RPC_GARBAGE_ARGS = - 6"
definition NFSTEST_RPC_AUTH_ERROR :: int where "NFSTEST_RPC_AUTH_ERROR = - 7"
definition NFSTEST_RPC_PROTO_ERR :: int where "NFSTEST_RPC_PROTO_ERR = - 8"
definition NFSTEST_RPC_SEND_ERR :: int where "NFSTEST_RPC_SEND_ERR = - 9"
definition NFSTEST_RPC_RECV_ERR :: int where "NFSTEST_RPC_RECV_ERR = - 10"

lemmas nfstest_codes = NFSTEST_RPC_OK_def NFSTEST_RPC_CONN_ERR_def NFSTEST_RPC_TIMEOUT_def
  NFSTEST_RPC_PROG_UNAVAIL_def NFSTEST_RPC_PROG_MISMATCH_def NFSTEST_RPC_PROC_UNAVAIL_def
  NFSTEST_RPC_GARBAGE_ARGS_def NFSTEST_RPC_AUTH_ERROR_def NFSTEST_RPC_PROTO_ERR_def
  NFSTEST_RPC_SEND_ERR_def NFSTEST_RPC_RECV_ERR_def

fun map_status :: "RpcStatus \<Rightarrow> int" where
  "map_status OK = NFSTEST_RPC_OK"
| "map_status CONN_ERR = NFSTEST_RPC_CONN_ERR"
| "map_status TIMEOUT = NFSTEST_RPC_TIMEOUT"
| "map_status PROG_UNAVAIL = NFSTEST_RPC_PROG_UNAVAIL"
| "map_status PROG_MISMATCH = NFSTEST_RPC_PROG_MISMATCH"
| "map_status PROC_UNAVAIL = NFSTEST_RPC_PROC_UNAVAIL"
| "map_status GARBAGE_ARGS = NFSTEST_RPC_GARBAGE_ARGS"
| "map_status AUTH_ERROR = NFSTEST_RPC_AUTH_ERROR"
| "map_status PROTO_ERR = NFSTEST_RPC_PROTO_ERR"
| "map_status SEND_ERR = NFSTEST_RPC_SEND_ERR"
| "map_status RECV_ERR = NFSTEST_RPC_RECV_ERR"

definition nfstest_rpc_connect ::
    "'w posix \<Rightarrow> string \<Rightarrow> uint16 \<Rightarrow> int \<Rightarrow> 'w \<Rightarrow> RpcClient option \<times> 'w" where
  "nfstest_rpc_connect os host port timeout_ms w =
     (case RpcClient_connect os RpcClient_init host port timeout_ms w of
        ((ok, c), w) \<Rightarrow>
          if \<not> ok then (None, snd (RpcClient_disconnect os c w)) else (Some c, w))"

text \<open>\<^verbatim>\<open>delete\<close> runs the destructor, which disconnects once more.\<close>

definition nfstest_rpc_disconnect :: "'w posix \<Rightarrow> RpcClient option \<Rightarrow> 'w \<Rightarrow> 'w" where
  "nfstest_rpc_disconnect os client w =
     (case client of None \<Rightarrow> w
      | Some c \<Rightarrow>
          (case RpcClient_disconnect os c w of (c, w) \<Rightarrow> snd (RpcClient_disconnect os c w)))"

text \<open>\<^verbatim>\<open>args.assign(args_data, args_data + args_len)\<close>.\<close>

definition read_array :: "bytes option \<Rightarrow> nat \<Rightarrow> bytes outcome" where
  "read_array p n =
     (case p of None \<Rightarrow> if n = 0 then Ret [] else UB
      | Some d \<Rightarrow> if n \<le> length d then Ret (take n d) else UB)"

text \<open>The code after the call: the return value, \<^verbatim>\<open>*resp_data\<close> and \<^verbatim>\<open>*resp_len\<close>.\<close>

definition hand_out :: "bool \<Rightarrow> RpcStatus \<Rightarrow> bytes \<Rightarrow> int \<times> bytes option \<times> nat" where
  "hand_out malloc_ok status resp =
     (if status \<noteq> OK then (map_status status, None, 0)
      else if resp = [] then (NFSTEST_RPC_OK, None, length resp)
      else if \<not> malloc_ok then (NFSTEST_RPC_CONN_ERR, None, 0)
      else (NFSTEST_RPC_OK, Some resp, length resp))"

definition nfstest_rpc_call ::
    "'w posix \<Rightarrow> bool \<Rightarrow> RpcClient option \<Rightarrow> uint32 \<Rightarrow> uint32 \<Rightarrow> uint32 \<Rightarrow> bytes option \<Rightarrow> nat \<Rightarrow>
     bool \<Rightarrow> bool \<Rightarrow> int \<Rightarrow> 'w \<Rightarrow>
     (((int \<times> (bytes option \<times> nat) option) \<times> RpcClient option) \<times> 'w) outcome" where
  "nfstest_rpc_call os malloc_ok client prog vers proc args_data args_len
       resp_data_ok resp_len_ok timeout_ms w =
     (case client of
        None \<Rightarrow> Ret (((NFSTEST_RPC_CONN_ERR, None), client), w)
      | Some c \<Rightarrow>
          if \<not> resp_data_ok \<or> \<not> resp_len_ok \<or> (args_len > 0 \<and> args_data = None)
          then Ret (((NFSTEST_RPC_CONN_ERR, None), client), w)
          else obind (if args_len > 0 then read_array args_data args_len else Ret []) (\<lambda>args.
            obind (RpcClient_call os c prog vers proc args timeout_ms w) (\<lambda>(((status, resp), c), w).
              case hand_out malloc_ok status resp of
                (r, out) \<Rightarrow> Ret (((r, Some out), Some c), w))))"

definition nfstest_rpc_raw_call ::
    "'w posix \<Rightarrow> bool \<Rightarrow> RpcClient option \<Rightarrow> bytes option \<Rightarrow> nat \<Rightarrow> bool \<Rightarrow> bool \<Rightarrow> int \<Rightarrow> 'w \<Rightarrow>
     ((int \<times> (bytes option \<times> nat) option) \<times> 'w) outcome" where
  "nfstest_rpc_raw_call os malloc_ok client call_data call_len resp_data_ok resp_len_ok
       timeout_ms w =
     (case client of
        None \<Rightarrow> Ret ((NFSTEST_RPC_CONN_ERR, None), w)
      | Some c \<Rightarrow>
          if \<not> resp_data_ok \<or> \<not> resp_len_ok \<or> (call_len > 0 \<and> call_data = None)
          then Ret ((NFSTEST_RPC_CONN_ERR, None), w)
          else obind (read_array call_data call_len) (\<lambda>args.
            obind (RpcClient_raw_call os c args timeout_ms w) (\<lambda>((status, resp), w).
              case hand_out malloc_ok status resp of
                (r, out) \<Rightarrow> Ret ((r, Some out), w))))"

section \<open>The contract of a caller\<close>

text \<open>
  What the layers above rely on: a call on a closed connection changes nothing; a call keeps the
  connection; only a call that succeeds has a body.
\<close>

locale rpc_caller =
  fixes call :: "'c \<Rightarrow> uint32 \<Rightarrow> uint32 \<Rightarrow> uint32 \<Rightarrow> bytes \<Rightarrow> int \<Rightarrow> 'w \<Rightarrow>
      (((RpcStatus \<times> bytes) \<times> 'c) \<times> 'w) outcome"
    and connected :: "'c \<Rightarrow> bool"
  assumes offline: "\<not> connected c \<Longrightarrow> call c prog vers proc args tm w = Ret (((CONN_ERR, []), c), w)"
    and keeps_connection: "call c prog vers proc args tm w = Ret (((st, body), c'), w') \<Longrightarrow>
      connected c' = connected c"
    and body_only_if_ok: "call c prog vers proc args tm w = Ret (((st, body), c'), w') \<Longrightarrow>
      st \<noteq> OK \<Longrightarrow> body = []"
begin

text \<open>A sequence of calls on one client.\<close>

fun calls :: "'c \<Rightarrow> (uint32 \<times> uint32 \<times> uint32 \<times> bytes \<times> int) list \<Rightarrow> 'w \<Rightarrow>
    (((RpcStatus \<times> bytes) list \<times> 'c) \<times> 'w) outcome" where
  "calls c [] w = Ret (([], c), w)"
| "calls c ((prog, vers, proc, args, tm) # rs) w =
     obind (call c prog vers proc args tm w) (\<lambda>((r, c), w).
       obind (calls c rs w) (\<lambda>((out, c), w). Ret ((r # out, c), w)))"

lemma calls_keep_connection:
  "calls c rs w = Ret ((out, c'), w') \<Longrightarrow> connected c' = connected c \<and> length out = length rs"
proof (induction c rs w arbitrary: out rule: calls.induct)
  case (2 c prog vers proc args tm rs w)
  then obtain st body c1 w1 out1 where "call c prog vers proc args tm w = Ret (((st, body), c1), w1)"
    and "calls c1 rs w1 = Ret ((out1, c'), w')" and "out = (st, body) # out1"
    by (fastforce simp: obind_Ret_iff)
  with 2 keeps_connection show ?case by fastforce
qed simp

end

lemma parse_reply_body:
  "parse_reply data current_xid [] = Ret (st, body) \<Longrightarrow> st \<noteq> OK \<Longrightarrow> body = []"
  by (auto simp: parse_reply_def parse_accepted_def parse_denied_def parse_body_def Let_def
      obind_Ret_iff split: if_splits)

interpretation rpc: rpc_caller "RpcClient_call os" RpcClient_is_connected for os :: "'w posix"
proof unfold_locales
  fix c c' :: RpcClient and prog vers proc :: uint32 and args body :: bytes and tm :: int
    and w w' :: 'w and st :: RpcStatus
  show "RpcClient_call os c prog vers proc args tm w = Ret (((CONN_ERR, []), c), w)"
    if "\<not> RpcClient_is_connected c"
    using that by (simp add: RpcClient_call_def RpcClient_is_connected_def)
  assume r: "RpcClient_call os c prog vers proc args tm w = Ret (((st, body), c'), w')"
  then show "RpcClient_is_connected c' = RpcClient_is_connected c"
    by (auto simp: RpcClient_call_def RpcClient_is_connected_def Let_def obind_Ret_iff split: if_splits)
  from r show "body = []" if "st \<noteq> OK"
    using that parse_reply_body
    by (auto simp: RpcClient_call_def Let_def obind_Ret_iff split: if_splits)
qed

section \<open>One call, end to end\<close>

text \<open>
  The environment of one successful exchange: the connection of \<open>c\<close> is a stream that stays up,
  and once the whole request \<open>req\<close> has been written the peer delivers the record \<open>reply\<close>.
\<close>

definition exchange ::
    "'w posix \<Rightarrow> ('w \<Rightarrow> bytes) \<Rightarrow> ('w \<Rightarrow> bytes) \<Rightarrow> ('w \<Rightarrow> bytes) \<Rightarrow> ('w \<Rightarrow> nat) \<Rightarrow> RpcClient \<Rightarrow> 'w \<Rightarrow>
     bytes \<Rightarrow> bytes \<Rightarrow> bytes \<Rightarrow> bool" where
  "exchange os out rcv inp stall c w req reply rest \<longleftrightarrow>
     tcp_stream os (fd (transport c)) out rcv inp stall \<and> tcp_up os (fd (transport c)) inp \<and>
     RpcClient_is_connected c \<and> length reply < 2 ^ 31 \<and>
     (\<forall>w1. out w1 = out w @ frame req \<and> rcv w1 = rcv w \<longrightarrow> inp w1 = frame reply @ rest)"

lemma call_exchange:
  assumes ex: "exchange os out rcv inp stall c w (build_call (xid c) prog vers proc args) reply rest"
  obtains w' where "RpcClient_call os c prog vers proc args tm w =
      obind (parse_reply reply (xid c) []) (\<lambda>r. Ret ((r, c\<lparr>xid := xid c + 1\<rparr>), w'))"
    and "out w' = out w @ frame (build_call (xid c) prog vers proc args)" and "inp w' = rest"
proof -
  let ?msg = "build_call (xid c) prog vers proc args"
  note ex' = ex [unfolded exchange_def]
  from ex' have tcp: "tcp_stream os (fd (transport c)) out rcv inp stall"
    and up: "tcp_up os (fd (transport c)) inp" and conn: "RpcClient_is_connected c"
    and len: "length reply < 2 ^ 31" by blast+
  from conn have fd: "0 \<le> fd (transport c)"
    by (simp add: RpcClient_is_connected_def TcpTransport_is_connected_def)
  from send_result [OF tcp fd, of ?msg tm w] up obtain w1 where s:
    "TcpTransport_send os (transport c) ?msg tm w = Ret (True, w1)"
    "out w1 = out w @ frame ?msg" "rcv w1 = rcv w" by auto
  from ex' s(2,3) have "inp w1 = frame reply @ rest" by blast
  with tcp fd show thesis using len
  proof (cases rule: recv_frame [where old = "[]" and tm = tm])
    case (all w2)
    have "RpcClient_call os c prog vers proc args tm w =
        obind (parse_reply reply (xid c) []) (\<lambda>r. Ret ((r, c\<lparr>xid := xid c + 1\<rparr>), w2))"
      using conn s(1) all(1)
      by (simp add: RpcClient_call_def Let_def RpcClient_is_connected_def case_prod_eta split_def)
    with all s(2) show ?thesis by (intro that [of w2]) simp_all
  next
    case part
    with up show ?thesis by simp
  qed
qed

lemma call_ok:
  assumes "exchange os out rcv inp stall c w (build_call (xid c) prog vers proc args)
      (enc_accepted_reply (xid c) flavor verf 0 body) rest"
    and "flavor \<noteq> AUTH_SYS"
  obtains w' where
    "RpcClient_call os c prog vers proc args tm w = Ret (((OK, body), c\<lparr>xid := xid c + 1\<rparr>), w')"
    and "out w' = out w @ frame (build_call (xid c) prog vers proc args)" and "inp w' = rest"
proof -
  from assms(1) have "length (enc_accepted_reply (xid c) flavor verf 0 body) < 2 ^ 31"
    by (simp add: exchange_def)
  then have "length verf \<le> UINT32_MAX - 3"
    by (simp add: enc_accepted_reply_def enc_opaque_auth_def enc_opaque_def)
  with assms(2) have "parse_reply (enc_accepted_reply (xid c) flavor verf 0 body) (xid c) [] =
      Ret (OK, body)" by (intro parse_success)
  with call_exchange [OF assms(1), of tm] that show thesis by auto
qed

end
