(* ===== verification/NetInstance.thy ===== *)
theory NetInstance
  imports RpcClient
begin

text \<open>
  A concrete operating system and peer, on which the hypotheses of the theorems hold: every
  descriptor is a connection that takes at most three bytes per write, gives at most five per
  read, and interrupts the first calls. The peer is a function from all it has been sent to
  all it will deliver.
\<close>

record net =
  net_sent :: bytes
  net_got :: bytes
  net_interrupts :: nat
  net_open :: "int list"

definition net_coming :: "(bytes \<Rightarrow> bytes) \<Rightarrow> net \<Rightarrow> bytes" where
  "net_coming peer w = drop (length (net_got w)) (peer (net_sent w))"

definition net_os :: "(bytes \<Rightarrow> bytes) \<Rightarrow> net posix" where
  "net_os peer = \<lparr>
     sys_socket = \<lambda>w. (1 + foldr max (net_open w) 2,
       w\<lparr>net_open := (1 + foldr max (net_open w) 2) # net_open w\<rparr>),
     sys_set_nodelay = \<lambda>d w. w,
     sys_gethostbyname = \<lambda>h w. (if h = ''localhost'' then Some [127, 0, 0, 1] else None, w),
     sys_getfl = \<lambda>d w. (2, w),
     sys_setfl = \<lambda>d f w. w,
     sys_connect = \<lambda>d a w. (Some EINPROGRESS, w),
     sys_poll = \<lambda>d ev tm w. (1, w),
     sys_get_so_error = \<lambda>d w. (Some 0, w),
     sys_close = \<lambda>d w. w\<lparr>net_open := removeAll d (net_open w)\<rparr>,
     sys_write = \<lambda>d data w.
       if net_interrupts w > 0 then (Inl EINTR, w\<lparr>net_interrupts := net_interrupts w - 1\<rparr>)
       else (Inr (min 3 (length data)),
         w\<lparr>net_sent := net_sent w @ take (min 3 (length data)) data\<rparr>),
     sys_read = \<lambda>d n w.
       if net_interrupts w > 0 then (Inl EINTR, w\<lparr>net_interrupts := net_interrupts w - 1\<rparr>)
       else (Inr (take (min 5 n) (net_coming peer w)),
         w\<lparr>net_got := net_got w @ take (min 5 n) (net_coming peer w)\<rparr>)\<rparr>"

lemma net_os_tcp: "tcp_stream (net_os peer) d net_sent net_got (net_coming peer) net_interrupts"
proof -
  have "drop (length (net_got w)) (peer (net_sent w)) =
      take k (net_coming peer w) @ drop (length (net_got w) + min (length (net_coming peer w)) k)
        (peer (net_sent w))" for w k
    by (simp add: net_coming_def min_def add.commute)
      (metis append_take_drop_id drop_drop add.commute)
  then show ?thesis
    by (auto simp: tcp_stream_def stalls_def net_os_def net_coming_def)
qed

lemma net_os_up: "tcp_up (net_os peer) d (net_coming peer)"
  by (auto simp: tcp_up_def net_os_def split: if_splits)

lemma le_foldr_max: "x \<in> set xs \<Longrightarrow> (x::int) \<le> foldr max xs y"
  by (induction xs) auto

lemma foldr_max_ge: "(y::int) \<le> foldr max xs y"
  by (induction xs) auto

lemma net_os_descriptors: "keeps_descriptors (net_os peer) (\<lambda>w. set (net_open w))"
proof -
  have "1 + foldr max (net_open w) 2 \<notin> set (net_open w)" for w
    using le_foldr_max [of "1 + foldr max (net_open w) 2" "net_open w" 2] by auto
  moreover have "\<not> 1 + foldr max (net_open w) 2 < 0" for w
    using foldr_max_ge [of 2 "net_open w"] by simp
  ultimately show ?thesis by (auto simp: keeps_descriptors_def net_os_def)
qed

text \<open>A peer that answers the request with the reply makes the exchange of a call possible.\<close>

lemma net_exchange:
  assumes "RpcClient_is_connected c" and "length reply < 2 ^ 31"
    and "drop (length (net_got w)) (peer (net_sent w @ frame req)) = frame reply @ rest"
  shows "exchange (net_os peer) net_sent net_got (net_coming peer) net_interrupts c w req reply rest"
  using assms net_os_tcp net_os_up by (auto simp: exchange_def net_coming_def)

text \<open>A fresh connection on descriptor 3, two calls of which are interrupted, and a client on it.\<close>

definition net0 :: net where
  "net0 = \<lparr>net_sent = [], net_got = [], net_interrupts = 2, net_open = [3]\<rparr>"

definition client0 :: RpcClient where
  "client0 = \<lparr>transport = \<lparr>fd = 3\<rparr>, xid = 7\<rparr>"

lemma client0_connected: "RpcClient_is_connected client0"
  by (simp add: client0_def RpcClient_is_connected_def TcpTransport_is_connected_def)

lemma net0_exchange:
  "length reply < 2 ^ 31 \<Longrightarrow>
   exchange (net_os (\<lambda>_. frame reply)) net_sent net_got (net_coming (\<lambda>_. frame reply)) net_interrupts
     client0 net0 req reply []"
  by (rule net_exchange [OF client0_connected]) (simp_all add: net0_def)

end
