(* ===== verification/RpcProperties.thy ===== *)
theory RpcProperties
  imports NetInstance
begin

text \<open>
  Properties of the RPC layer: what a call looks like, what is made of a reply, the loops over
  the socket, records, descriptors, and the C interface.
\<close>

section \<open>Messages\<close>

text \<open>
  C31: the message \<^verbatim>\<open>build_call\<close> writes, loops over the host name and the length patched in
  afterwards included, is the call of RFC 5531 with the AUTH\_SYS credential of user 0 on
  localhost and an empty verifier, 72 bytes in front of the arguments.
\<close>

theorem build_call_layout:
  "build_call x prog vers proc args =
     be32 x @ be32 MSG_CALL @ be32 RPCVERS @ be32 prog @ be32 vers @ be32 proc @
     enc_opaque_auth AUTH_SYS (enc_authsys_parms 0 ''localhost'' 0 0 []) @
     enc_opaque_auth AUTH_NONE [] @ args \<and>
   length (build_call x prog vers proc args) = 72 + length args"
  using build_call_eq [of x prog vers proc args] length_build_call [of x prog vers proc args]
  by (simp add: hostname_def)

text \<open>
  C28: from a well-formed accepted and successful reply to the expected call, with any verifier
  but an AUTH\_SYS one, \<^verbatim>\<open>parse_reply\<close> returns exactly the results behind the header.
\<close>

theorem parse_reply_success:
  assumes "length verf \<le> 400" and "flavor \<noteq> AUTH_SYS"
  shows "parse_reply (enc_accepted_reply x flavor verf 0 body) x out = Ret (OK, body)"
  using assms by (intro parse_success) simp_all

theorem parse_reply_success_witness:
  "parse_reply (enc_accepted_reply 7 AUTH_NONE [1, 2, 3] 0 [0, 0, 0, 9]) 7 [] = Ret (OK, [0, 0, 0, 9])"
  using parse_reply_success [of "[1, 2, 3]" AUTH_NONE 7 "[0, 0, 0, 9]" "[]"]
  by (simp add: AUTH_NONE_def AUTH_SYS_def)



text \<open>
  C27: \<^verbatim>\<open>parse_reply\<close> reads outside its buffer for exactly these replies: at least 20 bytes, the
  expected call, accepted, and ending within the four bytes after the verifier, where the
  accept status should be. Every other input, however malformed, gets a status.
\<close>

theorem parse_reply_out_of_bounds:
  "parse_reply d x out = UB \<longleftrightarrow>
     20 \<le> length d \<and> word_at d 0 = x \<and> word_at d 4 = MSG_REPLY \<and> word_at d 8 = 0 \<and>
     20 + unat (round_up4 (word_at d 16)) \<le> length d \<and>
     length d < 24 + unat (round_up4 (word_at d 16))"
  by (rule parse_reply_UB)

text \<open>
  C30: when the server's verifier has the AUTH\_SYS flavor, \<^verbatim>\<open>parse_reply\<close> takes the front of the
  results for a second verifier: an opaque value there is dropped, and the caller gets what
  follows it as the whole result.
\<close>

theorem parse_reply_drops_results:
  assumes "length verf \<le> 400" and "length d \<le> 1024"
  shows "parse_reply (enc_accepted_reply x AUTH_SYS verf 0 (enc_opaque d @ rest)) x out = Ret (OK, rest)"
  using assms by (intro parse_success_auth_sys) simp_all

theorem parse_reply_drops_results_witness:
  "parse_reply (enc_accepted_reply 7 AUTH_SYS [] 0 (enc_opaque [1, 2] @ [0, 0, 0, 9])) 7 [] =
     Ret (OK, [0, 0, 0, 9])"
  using parse_reply_drops_results [of "[]" "[1, 2]" 7 "[0, 0, 0, 9]" "[]"] by simp

text \<open>
  The verifier length is rounded up in 32 bits: exactly the three largest lengths wrap to
  zero, and are accepted as an empty verifier.
\<close>

theorem verifier_length_wraps:
  "unat (round_up4 n) = (if unat n \<le> UINT32_MAX - 3 then unat n + pad4 (unat n) else 0)"
proof (cases "unat n \<le> UINT32_MAX - 3")
  case True
  then show ?thesis by (simp add: unat_round_up4)
next
  case False
  moreover have "unat n < 2 ^ 32" using unsigned_less [of n, where 'a = nat] by simp
  ultimately have "unat n = 4294967293 \<or> unat n = 4294967294 \<or> unat n = 4294967295" by auto
  with False show ?thesis by (auto simp: unat_round_up4_mod)
qed

section \<open>The socket loops\<close>

text \<open>
  C32: \<^verbatim>\<open>write_all\<close> returns on every stream socket, with any pattern of short, interrupted and
  unready writes; it has then written a prefix of the data, once and in order, and reports
  success exactly if that is all of it, which it is on a connection that stays up.
\<close>

theorem write_all_complete:
  assumes "tcp_stream os d out rcv inp stall"
  shows "\<exists>ok m w'. write_all os d data tm 0 w = Some (ok, w') \<and> m \<le> length data \<and>
    out w' = out w @ take m data \<and> (ok \<longleftrightarrow> m = length data) \<and> (tcp_up os d inp \<longrightarrow> ok)"
  using write_all_result [OF assms, of 0 data tm w] by auto

theorem write_all_complete_witness:
  "\<exists>w'. write_all (net_os (\<lambda>_. [])) 3 [1, 2, 3, 4, 5] 100 0 net0 = Some (True, w') \<and>
    net_sent w' = [1, 2, 3, 4, 5]"
proof -
  from write_all_complete [OF net_os_tcp, of "\<lambda>_. []" 3 "[1, 2, 3, 4, 5]" 100 net0]
  obtain ok m w' where "write_all (net_os (\<lambda>_. [])) 3 [1, 2, 3, 4, 5] 100 0 net0 = Some (ok, w')"
    "net_sent w' = net_sent net0 @ take m [1, 2, 3, 4, 5]" "ok \<longleftrightarrow> m = length [1, 2, 3, 4, 5::byte]"
    "tcp_up (net_os (\<lambda>_. [])) 3 (net_coming (\<lambda>_. [])) \<longrightarrow> ok" by blast
  with net_os_up show ?thesis by (simp add: net0_def)
qed

text \<open>
  C33: \<^verbatim>\<open>read_all\<close> returns on every stream socket; it has then moved the next bytes of the
  stream, once and in order, to the front of the array, and reports success exactly if the
  array is full; on a connection that stays up it fails only at the end of the stream.
\<close>

theorem read_all_complete:
  assumes "tcp_stream os d out rcv inp stall"
  shows "\<exists>ok c w'. read_all os d data tm 0 w = Some ((ok, c @ drop (length c) data), w') \<and>
    length c \<le> length data \<and> inp w = c @ inp w' \<and> (ok \<longleftrightarrow> length c = length data) \<and>
    (tcp_up os d inp \<longrightarrow> ok \<or> inp w' = [])"
  using read_all_result [OF assms, of 0 data tm w] by (auto simp: poke_def)

theorem read_all_complete_witness:
  "\<exists>w'. read_all (net_os (\<lambda>_. [1, 2, 3, 4, 5, 6, 7])) 3 [0, 0, 0, 0, 0, 0] 100 0 net0 =
    Some ((True, [1, 2, 3, 4, 5, 6]), w')"
proof -
  let ?p = "\<lambda>_::bytes. [1, 2, 3, 4, 5, 6, 7::byte]"
  from read_all_complete [OF net_os_tcp, of ?p 3 "[0, 0, 0, 0, 0, 0]" 100 net0]
  obtain ok c w' where r: "read_all (net_os ?p) 3 [0, 0, 0, 0, 0, 0] 100 0 net0 =
      Some ((ok, c @ drop (length c) [0, 0, 0, 0, 0, 0]), w')"
    and c: "length c \<le> length [0, 0, 0, 0, 0, 0::byte]" "net_coming ?p net0 = c @ net_coming ?p w'"
      "ok \<longleftrightarrow> length c = length [0, 0, 0, 0, 0, 0::byte]" "ok \<or> net_coming ?p w' = []"
    using net_os_up by blast
  from c(2) have "c @ net_coming ?p w' = [1, 2, 3, 4, 5, 6, 7]" by (simp add: net_coming_def net0_def)
  moreover from this c(1,4) have ok: "ok" by auto
  moreover from ok c(3) have "length c = 6" by simp
  ultimately have "take 6 [1, 2, 3, 4, 5, 6, 7] = c" by (metis append_eq_conv_conj)
  then have "c = [1, 2, 3, 4, 5, 6]" by simp
  with r ok show ?thesis by simp
qed



section \<open>Records\<close>

text \<open>
  \<^verbatim>\<open>send\<close> puts exactly one record on the stream, a header with the last-fragment flag and
  the length, then the message; if it reports failure, a proper prefix of the record.
\<close>

theorem send_one_record:
  assumes "tcp_stream os (fd t) out rcv inp stall" and "TcpTransport_is_connected t"
  shows "\<exists>ok m w'. TcpTransport_send os t msg tm w = Ret (ok, w') \<and> m \<le> length (frame msg) \<and>
    out w' = out w @ take m (frame msg) \<and> (ok \<longleftrightarrow> m = length (frame msg)) \<and>
    (tcp_up os (fd t) inp \<longrightarrow> ok)"
  using send_result [OF assms(1), of msg tm w] assms(2) by (auto simp: TcpTransport_is_connected_def)

theorem send_one_record_witness:
  "\<exists>ok m w'. TcpTransport_send (net_os (\<lambda>_. [])) \<lparr>fd = 3\<rparr> [1, 2] 100 net0 = Ret (ok, w') \<and>
    m \<le> length (frame [1, 2]) \<and> net_sent w' = net_sent net0 @ take m (frame [1, 2]) \<and>
    (ok \<longleftrightarrow> m = length (frame [1, 2])) \<and>
    (tcp_up (net_os (\<lambda>_. [])) (fd \<lparr>fd = 3\<rparr>) (net_coming (\<lambda>_. [])) \<longrightarrow> ok)"
  by (rule send_one_record [OF net_os_tcp]) (simp add: TcpTransport_is_connected_def)

text \<open>
  C34: a record of less than \<open>2 ^ 31\<close> bytes that the peer delivers, framed the way \<^verbatim>\<open>send\<close> frames
  it, is what \<^verbatim>\<open>recv\<close> returns, in place of the old content of the vector, and the stream is
  left at the next record.
\<close>

theorem recv_one_record:
  assumes "tcp_stream os (fd t) out rcv inp stall" and "tcp_up os (fd t) inp"
    and "TcpTransport_is_connected t" and "inp w = frame m @ rest" and "length m < 2 ^ 31"
  shows "\<exists>w'. TcpTransport_recv os t old tm w = Ret ((True, m), w') \<and> inp w' = rest \<and> out w' = out w"
proof -
  from assms(3) have "0 \<le> fd t" by (simp add: TcpTransport_is_connected_def)
  with assms(1) show ?thesis using assms(4,5)
    by (rule recv_frame [where old = old and tm = tm]) (use assms(2) in auto)
qed

theorem recv_one_record_witness:
  "\<exists>w'. TcpTransport_recv (net_os (\<lambda>_. frame [1, 2, 3] @ [9])) \<lparr>fd = 3\<rparr> [8] 100 net0 =
      Ret ((True, [1, 2, 3]), w') \<and>
    net_coming (\<lambda>_. frame [1, 2, 3] @ [9]) w' = [9] \<and> net_sent w' = net_sent net0"
  by (rule recv_one_record [OF net_os_tcp net_os_up])
    (simp_all add: TcpTransport_is_connected_def net_coming_def net0_def)

text \<open>
  \<^verbatim>\<open>recv\<close> never looks at the last-fragment flag: of a record the peer sends in several
  fragments it returns the first one as the whole message.
\<close>

theorem recv_first_fragment_only:
  assumes "tcp_stream os (fd t) out rcv inp stall" and "tcp_up os (fd t) inp"
    and "TcpTransport_is_connected t" and "inp w = be32 h @ m @ rest" and "length m = frag_length h"
  shows "\<exists>w'. TcpTransport_recv os t old tm w = Ret ((True, m), w') \<and> inp w' = rest"
proof -
  from assms(3) have "0 \<le> fd t" by (simp add: TcpTransport_is_connected_def)
  with assms(1) show ?thesis using assms(4,5)
    by (rule recv_fragment [where old = old and tm = tm]) (use assms(2) in auto)
qed

theorem recv_first_fragment_only_witness:
  "\<exists>w'. TcpTransport_recv (net_os (\<lambda>_. be32 2 @ [1, 2] @ frame [3])) \<lparr>fd = 3\<rparr> [] 100 net0 =
      Ret ((True, [1, 2]), w') \<and>
    net_coming (\<lambda>_. be32 2 @ [1, 2] @ frame [3]) w' = frame [3]"
  by (rule recv_first_fragment_only [OF net_os_tcp net_os_up, where h = 2])
    (simp_all add: TcpTransport_is_connected_def net_coming_def net0_def frag_length_mask)

section \<open>Descriptors\<close>

text \<open>
  \<^verbatim>\<open>connect\<close> leaks no descriptor on any path: it closes the one the transport held, and
  afterwards exactly the one of a successful connection is open in addition, and held.
\<close>

theorem connect_no_leak:
  assumes "keeps_descriptors os opn"
    and "TcpTransport_connect os t host port tm w = ((ok, t'), w')"
  shows "ok = TcpTransport_is_connected t' \<and> opn w' = (opn w - holds t) \<union> holds t' \<and>
    (ok \<longrightarrow> fd t' \<notin> opn w - holds t)"
  using connect_descriptors [OF assms] by blast

theorem connect_no_leak_witness:
  "\<exists>ok t' w'. TcpTransport_connect (net_os (\<lambda>_. [])) \<lparr>fd = 3\<rparr> ''nowhere'' 111 3000 net0 = ((ok, t'), w') \<and>
    ok = TcpTransport_is_connected t' \<and> set (net_open w') = (set (net_open net0) - holds \<lparr>fd = 3\<rparr>) \<union> holds t'"
proof -
  obtain ok t' w' where
    "TcpTransport_connect (net_os (\<lambda>_. [])) \<lparr>fd = 3\<rparr> ''nowhere'' 111 3000 net0 = ((ok, t'), w')"
    by (metis prod.collapse)
  with connect_no_leak [OF net_os_descriptors this] show ?thesis by blast
qed

text \<open>
  Moving a client moves its connection: the target holds what the source held, with its
  transaction ids, the source holds nothing, and the connection the target held before is
  closed; assigning an object to itself changes nothing.
\<close>

theorem move_transfers_connection:
  assumes "keeps_descriptors os opn"
    and "RpcClient_move_assign os False c other w = ((c', other'), w')"
  shows "holds (transport c') = holds (transport other) \<and> xid c' = xid other \<and>
    holds (transport other') = {} \<and> \<not> RpcClient_is_connected other' \<and>
    opn w' = opn w - holds (transport c) \<and>
    RpcClient_move_assign os True c c w = ((c, c), w)"
proof -
  obtain t t' w1 where m: "TcpTransport_move_assign os False (transport c) (transport other) w = ((t, t'), w1)"
    by (metis prod.collapse)
  with assms(2) have "c' = c\<lparr>transport := t, xid := xid other\<rparr>"
    "other' = other\<lparr>transport := t', xid := 1\<rparr>" "w' = w1"
    by (simp_all add: RpcClient_move_assign_def)
  with move_assign_descriptors [OF assms(1) m] show ?thesis
    by (auto simp: RpcClient_move_assign_def RpcClient_is_connected_def TcpTransport_is_connected_def
        holds_def split: if_splits)
qed

theorem move_transfers_connection_witness:
  "\<exists>c' other' w'. RpcClient_move_assign (net_os (\<lambda>_. [])) False RpcClient_init client0 net0 =
      ((c', other'), w') \<and>
    holds (transport c') = {3} \<and> xid c' = 7 \<and> holds (transport other') = {}"
proof -
  obtain c' other' w' where
    m: "RpcClient_move_assign (net_os (\<lambda>_. [])) False RpcClient_init client0 net0 = ((c', other'), w')"
    by (metis prod.collapse)
  from move_transfers_connection [OF net_os_descriptors m] m show ?thesis
    by (simp add: client0_def holds_def)
qed

section \<open>Calls\<close>

text \<open>
  C26: a call on a connection that stays up, to a server that answers it, puts exactly one record
  with the call on the wire, under the client's transaction id, reads exactly one record,
  returns what \<^verbatim>\<open>parse_reply\<close> makes of it, and moves on to the next transaction id, modulo
  \<open>2 ^ 32\<close>.
\<close>

theorem rpc_call_exchange:
  assumes "exchange os out rcv inp stall c w (build_call (xid c) prog vers proc args) reply rest"
  shows "\<exists>w'. RpcClient_call os c prog vers proc args tm w =
      obind (parse_reply reply (xid c) []) (\<lambda>r. Ret ((r, c\<lparr>xid := xid c + 1\<rparr>), w')) \<and>
    out w' = out w @ frame (build_call (xid c) prog vers proc args) \<and> inp w' = rest"
  by (rule call_exchange [OF assms, of tm]) blast

theorem rpc_call_exchange_witness:
  "\<exists>w'. RpcClient_call (net_os (\<lambda>_. frame (replicate 24 0))) client0 100003 3 0 [] 100 net0 =
      obind (parse_reply (replicate 24 0) (xid client0) []) (\<lambda>r. Ret ((r, client0\<lparr>xid := xid client0 + 1\<rparr>), w')) \<and>
    net_sent w' = net_sent net0 @ frame (build_call (xid client0) 100003 3 0 []) \<and>
    net_coming (\<lambda>_. frame (replicate 24 0)) w' = []"
  by (rule rpc_call_exchange [OF net0_exchange]) simp

text \<open>
  The C interface hands out a successful result whole, with its length, and a null pointer
  for an empty one; if the allocation fails it reports a connection error and length 0.
\<close>

theorem c_interface_call:
  assumes "exchange os out rcv inp stall c w (build_call (xid c) prog vers proc args)
      (enc_accepted_reply (xid c) flavor verf 0 body) rest"
    and "flavor \<noteq> AUTH_SYS"
  shows "\<exists>w'. nfstest_rpc_call os malloc_ok (Some c) prog vers proc (Some (args @ slack)) (length args)
      True True tm w =
    Ret (((if body = [] \<or> malloc_ok then NFSTEST_RPC_OK else NFSTEST_RPC_CONN_ERR,
        Some (if body = [] \<or> \<not> malloc_ok then None else Some body, if malloc_ok then length body else 0)),
      Some (c\<lparr>xid := xid c + 1\<rparr>)), w')"
proof -
  from call_ok [OF assms, of tm] obtain w' where
    "RpcClient_call os c prog vers proc args tm w = Ret (((OK, body), c\<lparr>xid := xid c + 1\<rparr>), w')" by blast
  then show ?thesis
    by (intro exI [of _ w']) (cases args, auto simp: nfstest_rpc_call_def read_array_def hand_out_def)
qed

theorem c_interface_call_witness:
  "\<exists>w'. nfstest_rpc_call (net_os (\<lambda>_. frame (enc_accepted_reply (xid client0) AUTH_NONE [] 0 [5, 6, 7, 8])))
      True (Some client0) 100003 3 0 (Some ([9, 9, 9, 9] @ [1])) (length [9, 9, 9, 9::byte]) True True 100 net0 =
    Ret (((NFSTEST_RPC_OK, Some (Some [5, 6, 7, 8], length [5, 6, 7, 8::byte])), Some (client0\<lparr>xid := xid client0 + 1\<rparr>)), w')"
proof -
  have "length (enc_accepted_reply (xid client0) AUTH_NONE [] 0 [5, 6, 7, 8]) < 2 ^ 31"
    by (simp add: enc_accepted_reply_def enc_opaque_auth_def enc_opaque_def pad4_def)
  from c_interface_call [OF net0_exchange [OF this], where malloc_ok = True and slack = "[1]" and tm = 100
      and prog = 100003 and vers = 3 and proc = 0 and args = "[9, 9, 9, 9]"] show ?thesis
    by (simp add: AUTH_NONE_def AUTH_SYS_def)
qed

end
