(* ===== verification/TirpcXdr.thy ===== *)
theory TirpcXdr
  imports Nfs3Res
begin

text \<open>
  The filters of \<^verbatim>\<open>nfs3_rpc_tests/src/nfs3_xdr.cpp\<close>, which replace the codec where the build
  finds libtirpc: the library they call, the shapes their bodies are made of, and the rules by
  which the properties of the primitives carry over to whole filters.

  libtirpc is not part of the repository. Its stream and its primitives are the record
  \<open>tirpc\<close>, an argument of every filter; \<open>xdr_writer\<close> and \<open>xdr_reader\<close> state what its
  manual pages promise of a stream that encodes or decodes, in terms of a \<open>view\<close> of the
  stream: the bytes written, the room left, the bytes still to be read.
\<close>

named_theorems fput
named_theorems fget
named_theorems fret

section \<open>The library\<close>

datatype xdr_op = XDR_ENCODE | XDR_DECODE | XDR_FREE

text \<open>A \<^verbatim>\<open>char *\<close>: null, the address of storage that belongs to an object of the caller, or of
  storage from \<^verbatim>\<open>malloc\<close>, which alone may be given to \<^verbatim>\<open>free\<close>. A pointer carries the bytes
  it points to.\<close>

datatype cptr = Nullptr | Caller bytes | Alloc bytes

text \<open>Each primitive returns its \<^verbatim>\<open>bool_t\<close>, the values its pointer arguments refer to
  afterwards, and the stream.\<close>

record 'x tirpc =
  x_op :: "'x \<Rightarrow> xdr_op"
  xdr_u_int :: "uint32 \<Rightarrow> 'x \<Rightarrow> bool \<times> uint32 \<times> 'x"
  xdr_int :: "uint32 \<Rightarrow> 'x \<Rightarrow> bool \<times> uint32 \<times> 'x"
  xdr_u_hyper :: "uint64 \<Rightarrow> 'x \<Rightarrow> bool \<times> uint64 \<times> 'x"
  xdr_bool :: "bool \<Rightarrow> 'x \<Rightarrow> bool \<times> bool \<times> 'x"
  xdr_opaque :: "nat \<Rightarrow> bytes \<Rightarrow> 'x \<Rightarrow> bool \<times> bytes \<times> 'x"
  xdr_bytes :: "nat \<Rightarrow> cptr \<Rightarrow> uint32 \<Rightarrow> 'x \<Rightarrow> bool \<times> cptr \<times> uint32 \<times> 'x"
  xdr_string :: "nat \<Rightarrow> cptr \<Rightarrow> 'x \<Rightarrow> bool \<times> cptr \<times> 'x"

section \<open>The shapes of the filters\<close>

text \<open>A filter returns, throws \<^verbatim>\<open>std::bad_optional_access\<close>, leaves the defined behaviour of C++,
  or never returns. What it returns is the object as it is left, the \<^verbatim>\<open>bool_t\<close> and the
  stream.\<close>

datatype 'a fres = Fin 'a | Thrown | Undef | Forever

type_synonym ('o, 'x) filt = "'o \<Rightarrow> 'x \<Rightarrow> ('o \<times> bool \<times> 'x) fres"

fun fbind :: "'a fres \<Rightarrow> ('a \<Rightarrow> 'c fres) \<Rightarrow> 'c fres" where
  "fbind (Fin a) f = f a"
| "fbind Thrown f = Thrown"
| "fbind Undef f = Undef"
| "fbind Forever f = Forever"

text \<open>\<^verbatim>\<open>if (!f(xdrs, ...)) return FALSE;\<close> for each filter in turn, then \<^verbatim>\<open>return TRUE;\<close>.\<close>

fun fseq :: "('o, 'x) filt list \<Rightarrow> ('o, 'x) filt" where
  "fseq [] ob x = Fin (ob, True, x)"
| "fseq (f # fs) ob x =
     fbind (f ob x) (\<lambda>(ob', b, x'). if b then fseq fs ob' x' else Fin (ob', False, x'))"

text \<open>\<^verbatim>\<open>f(xdrs, &obj->field)\<close>, and a call of a primitive.\<close>

definition ffld :: "('o \<Rightarrow> 'f) \<Rightarrow> (('f \<Rightarrow> 'f) \<Rightarrow> 'o \<Rightarrow> 'o) \<Rightarrow> ('f, 'x) filt \<Rightarrow> ('o, 'x) filt" where
  "ffld get upd f ob x = fbind (f (get ob) x) (\<lambda>(v, b, x'). Fin (upd (\<lambda>_. v) ob, b, x'))"

definition prim :: "('v \<Rightarrow> 'x \<Rightarrow> bool \<times> 'v \<times> 'x) \<Rightarrow> ('v, 'x) filt" where
  "prim f v x = (case f v x of (b, v', x') \<Rightarrow> Fin (v', b, x'))"

definition fwhen :: "('o \<Rightarrow> bool) \<Rightarrow> ('o, 'x) filt \<Rightarrow> ('o, 'x) filt" where
  "fwhen c f ob x = (if c ob then f ob x else Fin (ob, True, x))"

text \<open>An enumeration or a \<^verbatim>\<open>bool\<close> goes through a local \<^verbatim>\<open>uint32_t\<close>: set from the member when
  encoding, 0 otherwise, and assigned back when decoding.\<close>

definition via_u_int :: "'x tirpc \<Rightarrow> ('v \<Rightarrow> uint32) \<Rightarrow> (uint32 \<Rightarrow> 'v) \<Rightarrow> ('v, 'x) filt" where
  "via_u_int T to from v x =
     (case xdr_u_int T (if x_op T x = XDR_ENCODE then to v else 0) x of
        (b, w, x') \<Rightarrow> Fin (if b \<and> x_op T x' = XDR_DECODE then from w else v, b, x'))"

definition enum_member :: "'x tirpc \<Rightarrow> (uint32, 'x) filt" where
  "enum_member T = via_u_int T (\<lambda>v. v) (\<lambda>w. w)"

definition bool_member :: "'x tirpc \<Rightarrow> (bool, 'x) filt" where
  "bool_member T = via_u_int T (\<lambda>v. if v then 1 else 0) (\<lambda>w. w \<noteq> 0)"

text \<open>A \<^verbatim>\<open>std::optional\<close> goes through a flag and a local that starts out as \<open>zero\<close>;
  \<^verbatim>\<open>value()\<close> throws when there is none.\<close>

definition optional_member :: "'x tirpc \<Rightarrow> ('f, 'x) filt \<Rightarrow> 'f \<Rightarrow> ('f option, 'x) filt" where
  "optional_member T f zero v x =
     (case xdr_u_int T (if x_op T x = XDR_ENCODE \<and> v \<noteq> None then 1 else 0) x of
        (b, flag, x1) \<Rightarrow>
          if \<not> b then Fin (v, False, x1)
          else if flag = 0 then Fin (if x_op T x1 = XDR_DECODE then None else v, True, x1)
          else fbind (if x_op T x1 = XDR_ENCODE
                      then (case v of None \<Rightarrow> Thrown | Some w \<Rightarrow> Fin w) else Fin zero) (\<lambda>w.
               fbind (f w x1) (\<lambda>(w', b2, x2).
               Fin (if b2 \<and> x_op T x2 = XDR_DECODE then Some w' else v, b2, x2))))"

text \<open>\<^verbatim>\<open>s.c_str()\<close>, and \<^verbatim>\<open>v.data()\<close>, which is taken to be null for an empty vector; the
  \<^verbatim>\<open>size_t\<close> of a vector is cut to a \<^verbatim>\<open>u_int\<close>.\<close>

definition c_str :: "string \<Rightarrow> cptr" where
  "c_str s = Caller (map byte_of_char s @ [0])"

definition vector_data :: "bytes \<Rightarrow> cptr" where
  "vector_data d = (if d = [] then Nullptr else Caller d)"

definition vector_size :: "bytes \<Rightarrow> uint32" where
  "vector_size d = word_of_nat (length d)"

text \<open>\<^verbatim>\<open>v.assign(ptr, ptr + len); free(ptr);\<close> and \<^verbatim>\<open>s = ptr; free(ptr);\<close>.\<close>

definition assign_free :: "cptr \<Rightarrow> uint32 \<Rightarrow> bytes fres" where
  "assign_free p len =
     (case p of
        Nullptr \<Rightarrow> if len = 0 then Fin [] else Undef
      | Caller m \<Rightarrow> Undef
      | Alloc m \<Rightarrow> if unat len \<le> length m then Fin (take (unat len) m) else Undef)"

definition string_free :: "cptr \<Rightarrow> string fres" where
  "string_free p =
     (case p of
        Nullptr \<Rightarrow> Undef
      | Caller m \<Rightarrow> Undef
      | Alloc m \<Rightarrow> if 0 \<in> set m then Fin (map char_of_byte (takeWhile (\<lambda>c. c \<noteq> 0) m)) else Undef)"

text \<open>The storage of the caller given to a primitive: freed by it (it sets the pointer to null
  when asked to free), overrun by it, or holding what it has stored there. Capacity past
  the size of a vector is not counted as storage.\<close>

definition lent :: "xdr_op \<Rightarrow> bytes \<Rightarrow> cptr \<Rightarrow> bytes fres" where
  "lent opr m p =
     (case p of
        Nullptr \<Rightarrow> if opr = XDR_FREE \<and> m \<noteq> [] then Undef else Fin m
      | Caller m' \<Rightarrow> if opr \<noteq> XDR_DECODE then Fin m
                    else if length m' > length m then Undef
                    else Fin (m' @ drop (length m') m)
      | Alloc m' \<Rightarrow> Fin m)"

text \<open>A name of the arguments: \<^verbatim>\<open>c_str()\<close> in every direction, and \<^verbatim>\<open>free\<close> of the pointer after a
  decode.\<close>

definition name_in_place :: "'x tirpc \<Rightarrow> nat \<Rightarrow> (string, 'x) filt" where
  "name_in_place T lim s x =
     (case xdr_string T lim (c_str s) x of
        (b, p, x') \<Rightarrow>
          fbind (lent (x_op T x) (map byte_of_char s @ [0]) p) (\<lambda>m.
          if \<not> b then Fin (map char_of_byte (take (length s) m), False, x')
          else if x_op T x' = XDR_DECODE then fbind (string_free p) (\<lambda>s'. Fin (s', True, x'))
          else Fin (s, True, x')))"

text \<open>A name of a result: \<^verbatim>\<open>c_str()\<close> when encoding, null otherwise.\<close>

definition name_fresh :: "'x tirpc \<Rightarrow> nat \<Rightarrow> (string, 'x) filt" where
  "name_fresh T lim s x =
     (case xdr_string T lim (if x_op T x = XDR_ENCODE then c_str s else Nullptr) x of
        (b, p, x') \<Rightarrow>
          if b \<and> x_op T x' = XDR_DECODE then fbind (string_free p) (\<lambda>s'. Fin (s', True, x'))
          else Fin (s, b, x'))"

text \<open>Opaque data of a result, and of the arguments of WRITE, which never assigns what it has
  read to the vector.\<close>

definition bytes_fresh :: "'x tirpc \<Rightarrow> nat \<Rightarrow> (bytes, 'x) filt" where
  "bytes_fresh T lim d x =
     (case (if x_op T x = XDR_ENCODE then xdr_bytes T lim (vector_data d) (vector_size d) x
            else xdr_bytes T lim Nullptr 0 x) of
        (b, p, len, x') \<Rightarrow>
          if b \<and> x_op T x' = XDR_DECODE then fbind (assign_free p len) (\<lambda>d'. Fin (d', True, x'))
          else Fin (d, b, x'))"

definition bytes_in_place :: "'x tirpc \<Rightarrow> nat \<Rightarrow> (bytes, 'x) filt" where
  "bytes_in_place T lim d x =
     (case xdr_bytes T lim (vector_data d) (vector_size d) x of
        (b, p, len, x') \<Rightarrow> fbind (lent (x_op T x) d p) (\<lambda>d'. Fin (d', b, x')))"

text \<open>A \<^verbatim>\<open>uint64_t\<close> sent as the eight bytes it occupies in memory.\<close>

definition raw8 :: "'x tirpc \<Rightarrow> (uint64, 'x) filt" where
  "raw8 T v x =
     (case xdr_opaque T 8 (mem64 NATIVE_ENDIAN v) x of
        (b, m, x') \<Rightarrow> Fin (load64 NATIVE_ENDIAN m, b, x'))"

text \<open>Every \<^verbatim>\<open>xdr_XXX3res\<close> starts with the status, and goes on only for \<^verbatim>\<open>NFS3_OK\<close>.\<close>

definition xdr_status :: "'x tirpc \<Rightarrow> ('r nfs_res, 'x) filt \<Rightarrow> ('r nfs_res, 'x) filt" where
  "xdr_status T body = fseq [
     ffld status status_update (enum_member T),
     fwhen (\<lambda>ob. status ob = NFS3_OK) body]"

text \<open>The rest of most results: a local \<^verbatim>\<open>resok\<close>, a copy of the object's when encoding (\<open>none\<close>
  says what happens if the object has none), moved into the object when decoding.\<close>

definition resok_body ::
  "'x tirpc \<Rightarrow> 'r fres \<Rightarrow> 'r \<Rightarrow> ('r, 'x) filt \<Rightarrow> ('r nfs_res, 'x) filt" where
  "resok_body T none r0 f ob x =
     fbind (if x_op T x = XDR_ENCODE
            then (case resok ob of None \<Rightarrow> none | Some r \<Rightarrow> Fin r) else Fin r0) (\<lambda>r.
     fbind (f r x) (\<lambda>(r', b, x').
     Fin (if b \<and> x_op T x' = XDR_DECODE then ob\<lparr>resok := Some r'\<rparr> else ob, b, x')))"

definition xdr_result ::
  "'x tirpc \<Rightarrow> 'r fres \<Rightarrow> 'r \<Rightarrow> ('r, 'x) filt \<Rightarrow> ('r nfs_res, 'x) filt" where
  "xdr_result T none r0 f = xdr_status T (resok_body T none r0 f)"

text \<open>The rest of the directory listings: the \<^verbatim>\<open>resok\<close> of the object itself when encoding, which
  must be there; otherwise a local one that is moved into the object.\<close>

definition listing_body :: "'x tirpc \<Rightarrow> 'r \<Rightarrow> ('r, 'x) filt \<Rightarrow> ('r nfs_res, 'x) filt" where
  "listing_body T r0 f ob x =
     (if x_op T x = XDR_ENCODE then
        (case resok ob of
           None \<Rightarrow> Fin (ob, False, x)
         | Some r \<Rightarrow> fbind (f r x) (\<lambda>(r', b, x'). Fin (ob\<lparr>resok := Some r'\<rparr>, b, x')))
      else fbind (f r0 x) (\<lambda>(r', b, x'). Fin (if b then ob\<lparr>resok := Some r'\<rparr> else ob, b, x')))"

definition xdr_listing :: "'x tirpc \<Rightarrow> 'r \<Rightarrow> ('r, 'x) filt \<Rightarrow> ('r nfs_res, 'x) filt" where
  "xdr_listing T r0 f = xdr_status T (listing_body T r0 f)"

section \<open>What the library promises\<close>

record 'x view =
  xdr_out :: "'x \<Rightarrow> bytes"
  xdr_room :: "'x \<Rightarrow> nat"
  xdr_in :: "'x \<Rightarrow> bytes"

text \<open>Encoding: the call appends \<open>bs\<close> and succeeds exactly if there is room, and keeps the value.\<close>

definition put :: "'x tirpc \<Rightarrow> 'x view \<Rightarrow> 'x \<Rightarrow> bytes \<Rightarrow> 'x \<Rightarrow> bool" where
  "put T V x bs x' \<longleftrightarrow> x_op T x' = XDR_ENCODE \<and> xdr_out V x' = xdr_out V x @ bs \<and>
     length bs \<le> xdr_room V x \<and> xdr_room V x' = xdr_room V x - length bs"

definition writes :: "'x tirpc \<Rightarrow> 'x view \<Rightarrow> 'x \<Rightarrow> bytes \<Rightarrow> 'v \<Rightarrow> bool \<times> 'v \<times> 'x \<Rightarrow> bool" where
  "writes T V x bs v r \<longleftrightarrow>
     (length bs \<le> xdr_room V x \<longrightarrow> (\<exists>x'. r = (True, v, x') \<and> put T V x bs x')) \<and>
     (xdr_room V x < length bs \<longrightarrow> \<not> fst r)"

definition regroup :: "bool \<times> 'p \<times> 'l \<times> 'x \<Rightarrow> bool \<times> ('p \<times> 'l) \<times> 'x" where
  "regroup r = (case r of (b, p, len, x') \<Rightarrow> (b, (p, len), x'))"

definition xdr_writer :: "'x tirpc \<Rightarrow> 'x view \<Rightarrow> bool" where
  "xdr_writer T V \<longleftrightarrow> (\<forall>x. x_op T x = XDR_ENCODE \<longrightarrow>
     (\<forall>v. writes T V x (be32 v) v (xdr_u_int T v x)) \<and>
     (\<forall>v. writes T V x (be32 v) v (xdr_int T v x)) \<and>
     (\<forall>v. writes T V x (be64 v) v (xdr_u_hyper T v x)) \<and>
     (\<forall>v. writes T V x (enc_bool v) v (xdr_bool T v x)) \<and>
     (\<forall>d n. length d = n \<longrightarrow> writes T V x (d @ replicate (pad4 n) 0) d (xdr_opaque T n d x)) \<and>
     (\<forall>d lim. length d \<le> lim \<longrightarrow> length d \<le> UINT32_MAX \<longrightarrow>
        writes T V x (enc_opaque d) (vector_data d, vector_size d)
          (regroup (xdr_bytes T lim (vector_data d) (vector_size d) x))) \<and>
     (\<forall>p len lim. lim < unat len \<longrightarrow> \<not> fst (xdr_bytes T lim p len x)) \<and>
     (\<forall>m lim. 0 \<in> set m \<longrightarrow> length (takeWhile (\<lambda>c. c \<noteq> 0) m) \<le> UINT32_MAX \<longrightarrow>
        (if length (takeWhile (\<lambda>c. c \<noteq> 0) m) \<le> lim
         then writes T V x (enc_opaque (takeWhile (\<lambda>c. c \<noteq> 0) m)) (Caller m) (xdr_string T lim (Caller m) x)
         else \<not> fst (xdr_string T lim (Caller m) x))))"

text \<open>
  Decoding: a value at the front of the input is taken off it. Whatever the input is, a call
  keeps the direction of the stream and never gives input back; an integer that was read was
  there to be read. \<^verbatim>\<open>xdr_bytes\<close> and \<^verbatim>\<open>xdr_string\<close> allocate storage when they are given a null
  pointer, and use the storage they are given otherwise.
\<close>

definition stays :: "'x tirpc \<Rightarrow> 'x view \<Rightarrow> 'x \<Rightarrow> 'x \<Rightarrow> bool" where
  "stays T V x x' \<longleftrightarrow> x_op T x' = XDR_DECODE \<and> length (xdr_in V x') \<le> length (xdr_in V x)"

definition takes :: "'x tirpc \<Rightarrow> 'x view \<Rightarrow> 'x \<Rightarrow> bytes \<Rightarrow> 'v \<Rightarrow> bool \<times> 'v \<times> 'x \<Rightarrow> bool" where
  "takes T V x bs v r \<longleftrightarrow>
     (\<forall>rest. xdr_in V x = bs @ rest \<longrightarrow>
        (\<exists>x'. r = (True, v, x') \<and> x_op T x' = XDR_DECODE \<and> xdr_in V x' = rest))"

definition any_input :: "'x tirpc \<Rightarrow> 'x view \<Rightarrow> 'x \<Rightarrow> ('v \<Rightarrow> bool) \<Rightarrow> bool \<times> 'v \<times> 'x \<Rightarrow> bool" where
  "any_input T V x P r \<longleftrightarrow> (case r of (b, v, x') \<Rightarrow> stays T V x x' \<and> (b \<longrightarrow> P v))"

definition reads_u_int :: "'x tirpc \<Rightarrow> 'x view \<Rightarrow> bool" where
  "reads_u_int T V \<longleftrightarrow> (\<forall>x v0. x_op T x = XDR_DECODE \<longrightarrow>
     (\<forall>v. takes T V x (be32 v) v (xdr_u_int T v0 x)) \<and>
     any_input T V x (\<lambda>_. True) (xdr_u_int T v0 x) \<and>
     (fst (xdr_u_int T v0 x) \<longrightarrow>
        length (xdr_in V (snd (snd (xdr_u_int T v0 x)))) < length (xdr_in V x)))"

definition reads_int :: "'x tirpc \<Rightarrow> 'x view \<Rightarrow> bool" where
  "reads_int T V \<longleftrightarrow> (\<forall>x v0. x_op T x = XDR_DECODE \<longrightarrow>
     (\<forall>v. takes T V x (be32 v) v (xdr_int T v0 x)) \<and>
     any_input T V x (\<lambda>_. True) (xdr_int T v0 x))"

definition reads_u_hyper :: "'x tirpc \<Rightarrow> 'x view \<Rightarrow> bool" where
  "reads_u_hyper T V \<longleftrightarrow> (\<forall>x v0. x_op T x = XDR_DECODE \<longrightarrow>
     (\<forall>v. takes T V x (be64 v) v (xdr_u_hyper T v0 x)) \<and>
     any_input T V x (\<lambda>_. True) (xdr_u_hyper T v0 x))"

definition reads_bool :: "'x tirpc \<Rightarrow> 'x view \<Rightarrow> bool" where
  "reads_bool T V \<longleftrightarrow> (\<forall>x v0. x_op T x = XDR_DECODE \<longrightarrow>
     (\<forall>v. takes T V x (enc_bool v) v (xdr_bool T v0 x)) \<and>
     any_input T V x (\<lambda>_. True) (xdr_bool T v0 x) \<and>
     (fst (xdr_bool T v0 x) \<longrightarrow>
        length (xdr_in V (snd (snd (xdr_bool T v0 x)))) < length (xdr_in V x)))"

definition reads_opaque :: "'x tirpc \<Rightarrow> 'x view \<Rightarrow> bool" where
  "reads_opaque T V \<longleftrightarrow> (\<forall>x n m. x_op T x = XDR_DECODE \<longrightarrow>
     (\<forall>d padding. length d = n \<longrightarrow> length padding = pad4 n \<longrightarrow>
        takes T V x (d @ padding) d (xdr_opaque T n m x)) \<and>
     any_input T V x (\<lambda>_. True) (xdr_opaque T n m x))"

definition into :: "cptr \<Rightarrow> bytes \<Rightarrow> cptr" where
  "into p d =
     (case p of
        Nullptr \<Rightarrow> Alloc d
      | Caller m \<Rightarrow> Caller (d @ drop (length d) m)
      | Alloc m \<Rightarrow> Alloc (d @ drop (length d) m))"

definition reads_bytes :: "'x tirpc \<Rightarrow> 'x view \<Rightarrow> bool" where
  "reads_bytes T V \<longleftrightarrow> (\<forall>x lim p l0. x_op T x = XDR_DECODE \<longrightarrow>
     (\<forall>d padding. length d \<le> lim \<longrightarrow> length d \<le> UINT32_MAX \<longrightarrow> length padding = pad4 (length d) \<longrightarrow>
        takes T V x (be32 (vector_size d) @ d @ padding) (if d = [] then p else into p d, vector_size d)
          (regroup (xdr_bytes T lim p l0 x))) \<and>
     (\<forall>n rest. xdr_in V x = be32 n @ rest \<longrightarrow> lim < unat n \<longrightarrow> \<not> fst (xdr_bytes T lim p l0 x)) \<and>
     any_input T V x (\<lambda>(p', len). p = Nullptr \<longrightarrow>
        (if len = 0 then p' = Nullptr else \<exists>d. p' = Alloc d \<and> length d = unat len))
        (regroup (xdr_bytes T lim p l0 x)))"

definition reads_string :: "'x tirpc \<Rightarrow> 'x view \<Rightarrow> bool" where
  "reads_string T V \<longleftrightarrow> (\<forall>x lim p. x_op T x = XDR_DECODE \<longrightarrow> lim < UINT32_MAX \<longrightarrow>
     (\<forall>d padding. length d \<le> lim \<longrightarrow> length padding = pad4 (length d) \<longrightarrow>
        takes T V x (be32 (vector_size d) @ d @ padding) (into p (d @ [0])) (xdr_string T lim p x)) \<and>
     any_input T V x (\<lambda>p'. (\<exists>d. p' = into p (d @ [0]))) (xdr_string T lim p x))"

definition xdr_reader :: "'x tirpc \<Rightarrow> 'x view \<Rightarrow> bool" where
  "xdr_reader T V \<longleftrightarrow> reads_u_int T V \<and> reads_int T V \<and> reads_u_hyper T V \<and> reads_bool T V \<and>
     reads_opaque T V \<and> reads_bytes T V \<and> reads_string T V"

end
