(* ===== verification/TirpcRules.thy ===== *)
theory TirpcRules
  imports TirpcXdr
begin

text \<open>
  Rules for the filters. \<open>fputs T V f ob bs\<close>: encoding \<open>ob\<close> with \<open>f\<close> appends \<open>bs\<close> and
  returns \<^verbatim>\<open>TRUE\<close> if there is room for it, and returns \<^verbatim>\<open>FALSE\<close> otherwise.
  \<open>fgets T V f ob bs y\<close>: decoding into \<open>ob\<close> with \<open>f\<close>, where the input starts with \<open>bs\<close>,
  takes exactly \<open>bs\<close> and leaves \<open>y\<close>. \<open>fsafe T V f\<close>: decoding any input whatever with
  \<open>f\<close> returns. Each primitive has them by the promises of the library, each shape passes
  them on, and the locales \<open>tirpc_writer\<close> and \<open>tirpc_filter\<close> are the contract of a filter.
\<close>

section \<open>Filters that encode, decode and return\<close>

definition encoded :: "'x tirpc \<Rightarrow> 'x view \<Rightarrow> 'x \<Rightarrow> 'o \<Rightarrow> bytes \<Rightarrow> ('o \<times> bool \<times> 'x) fres \<Rightarrow> bool" where
  "encoded T V x ob bs r \<longleftrightarrow>
     (\<exists>x'. length bs \<le> xdr_room V x \<and> r = Fin (ob, True, x') \<and> put T V x bs x') \<or>
     (\<exists>ob' x'. xdr_room V x < length bs \<and> r = Fin (ob', False, x'))"

definition fputs :: "'x tirpc \<Rightarrow> 'x view \<Rightarrow> ('o, 'x) filt \<Rightarrow> 'o \<Rightarrow> bytes \<Rightarrow> bool" where
  "fputs T V f ob bs \<longleftrightarrow> (\<forall>x. x_op T x = XDR_ENCODE \<longrightarrow> encoded T V x ob bs (f ob x))"

definition fgets :: "'x tirpc \<Rightarrow> 'x view \<Rightarrow> ('o, 'x) filt \<Rightarrow> 'o \<Rightarrow> bytes \<Rightarrow> 'o \<Rightarrow> bool" where
  "fgets T V f ob bs y \<longleftrightarrow> (\<forall>x rest. x_op T x = XDR_DECODE \<longrightarrow> xdr_in V x = bs @ rest \<longrightarrow>
     (\<exists>x'. f ob x = Fin (y, True, x') \<and> x_op T x' = XDR_DECODE \<and> xdr_in V x' = rest))"

definition fsafe :: "'x tirpc \<Rightarrow> 'x view \<Rightarrow> ('o, 'x) filt \<Rightarrow> bool" where
  "fsafe T V f \<longleftrightarrow> (\<forall>ob x. x_op T x = XDR_DECODE \<longrightarrow>
     (\<exists>ob' b x'. f ob x = Fin (ob', b, x') \<and> stays T V x x'))"

lemma fputsI: "(\<And>x. x_op T x = XDR_ENCODE \<Longrightarrow> encoded T V x ob bs (f ob x)) \<Longrightarrow> fputs T V f ob bs"
  by (simp add: fputs_def)

lemma fputsE:
  assumes "fputs T V f ob bs" and "x_op T x = XDR_ENCODE"
  obtains (room) x' where "length bs \<le> xdr_room V x" "f ob x = Fin (ob, True, x')" "put T V x bs x'"
  | (full) ob' x' where "xdr_room V x < length bs" "f ob x = Fin (ob', False, x')"
  using assms unfolding fputs_def encoded_def by blast

lemma fgetsE:
  assumes "fgets T V f ob bs y" and "x_op T x = XDR_DECODE" and "xdr_in V x = bs @ rest"
  obtains x' where "f ob x = Fin (y, True, x')" "x_op T x' = XDR_DECODE" "xdr_in V x' = rest"
  using assms by (auto simp: fgets_def)

lemma fsafeE:
  assumes "fsafe T V f" and "x_op T x = XDR_DECODE"
  obtains ob' b x' where "f ob x = Fin (ob', b, x')" "stays T V x x'"
  using assms unfolding fsafe_def by blast

lemma put_trans: "put T V x bs x' \<Longrightarrow> put T V x' bs' x'' \<Longrightarrow> put T V x (bs @ bs') x''"
  by (auto simp: put_def)

lemma stays_trans: "stays T V x x' \<Longrightarrow> stays T V x' x'' \<Longrightarrow> stays T V x x''"
  by (auto simp: stays_def)

lemma put_op: "put T V x bs x' \<Longrightarrow> x_op T x' = XDR_ENCODE"
  by (simp add: put_def)

lemma put_room:
  "put T V x bs x' \<Longrightarrow> length bs' \<le> xdr_room V x' \<longleftrightarrow> length (bs @ bs') \<le> xdr_room V x"
  by (auto simp: put_def)

lemma stays_op: "stays T V x x' \<Longrightarrow> x_op T x' = XDR_DECODE"
  by (simp add: stays_def)

subsection \<open>Sequences, members, conditions\<close>

lemma fputs_fseq [fput]:
  assumes f: "fputs T V f ob bs" and g: "fputs T V (fseq (g # fs)) ob bs'"
  shows "fputs T V (fseq (f # g # fs)) ob (bs @ bs')"
proof (rule fputsI)
  fix x assume x: "x_op T x = XDR_ENCODE"
  have eq: "fseq (f # g # fs) ob x =
      fbind (f ob x) (\<lambda>(ob', b, x'). if b then fseq (g # fs) ob' x' else Fin (ob', False, x'))"
    by (rule fseq.simps)
  from f x show "encoded T V x ob (bs @ bs') (fseq (f # g # fs) ob x)"
  proof (cases rule: fputsE)
    case 1: (room x1)
    from g put_op [OF 1(3)] show ?thesis
    proof (cases rule: fputsE)
      case (room x2)
      with 1 put_room [OF 1(3), of bs'] put_trans [OF 1(3) room(3)] show ?thesis
        unfolding encoded_def eq by simp
    next
      case (full ob' x2)
      with 1 put_room [OF 1(3), of bs'] show ?thesis unfolding encoded_def eq by simp
    qed
  next
    case (full ob' x1)
    then show ?thesis unfolding encoded_def eq by simp
  qed
qed

lemma fseq_single: "fseq [f] = f"
proof (intro ext)
  show "fseq [f] ob x = f ob x" for ob x
  proof (cases "f ob x")
    case (Fin r)
    obtain ob' b x' where "r = (ob', b, x')" by (cases r)
    with Fin show ?thesis by (cases b) simp_all
  qed simp_all
qed

lemma fputs_fseq_single [fput]: "fputs T V f ob bs \<Longrightarrow> fputs T V (fseq [f]) ob bs"
  by (simp add: fseq_single del: fseq.simps)

lemma fputs_ffld [fput]:
  assumes "fputs T V f (get ob) bs" and "upd (\<lambda>_. get ob) ob = ob"
  shows "fputs T V (ffld get upd f) ob bs"
proof (rule fputsI)
  fix x assume "x_op T x = XDR_ENCODE"
  with assms(1) show "encoded T V x ob bs (ffld get upd f ob x)"
    by (cases rule: fputsE) (auto simp: encoded_def ffld_def assms(2))
qed

lemma fputs_Nil: "(\<And>x. x_op T x = XDR_ENCODE \<Longrightarrow> f ob x = Fin (ob, True, x)) \<Longrightarrow> fputs T V f ob []"
  by (auto intro!: fputsI simp: encoded_def put_def)

lemma fputs_fwhen [fput]:
  assumes "c ob \<Longrightarrow> fputs T V f ob bs"
  shows "fputs T V (fwhen c f) ob (if c ob then bs else [])"
proof (cases "c ob")
  case True
  with assms show ?thesis by (simp add: fwhen_def fputs_def)
next
  case False
  then have "fputs T V (fwhen c f) ob []" by (intro fputs_Nil) (simp add: fwhen_def)
  with False show ?thesis by simp
qed

lemma fgets_fseq [fget]:
  assumes f: "fgets T V f ob bs y" and g: "fgets T V (fseq (g # fs)) y bs' z"
  shows "fgets T V (fseq (f # g # fs)) ob (bs @ bs') z"
  unfolding fgets_def
proof (intro allI impI)
  fix x rest assume x: "x_op T x = XDR_DECODE" "xdr_in V x = (bs @ bs') @ rest"
  from fgetsE [OF f x(1), of "bs' @ rest"] x(2) obtain x1
    where 1: "f ob x = Fin (y, True, x1)" "x_op T x1 = XDR_DECODE" "xdr_in V x1 = bs' @ rest"
    by auto
  show "\<exists>x'. fseq (f # g # fs) ob x = Fin (z, True, x') \<and> x_op T x' = XDR_DECODE \<and> xdr_in V x' = rest"
    by (rule fgetsE [OF g 1(2,3)]) (subst fseq.simps, simp add: 1(1))
qed

lemma fgets_fseq_single [fget]: "fgets T V f ob bs y \<Longrightarrow> fgets T V (fseq [f]) ob bs y"
  by (simp add: fseq_single del: fseq.simps)

lemma fgets_ffld [fget]:
  assumes "fgets T V f (get ob) bs v"
  shows "fgets T V (ffld get upd f) ob bs (upd (\<lambda>_. v) ob)"
  unfolding fgets_def
proof (intro allI impI)
  fix x rest assume x: "x_op T x = XDR_DECODE" "xdr_in V x = bs @ rest"
  show "\<exists>x'. ffld get upd f ob x = Fin (upd (\<lambda>_. v) ob, True, x') \<and>
      x_op T x' = XDR_DECODE \<and> xdr_in V x' = rest"
    by (rule fgetsE [OF assms x]) (simp add: ffld_def)
qed

lemma fgets_fwhen [fget]:
  "c ob = d \<Longrightarrow> (d \<Longrightarrow> fgets T V f ob bs y) \<Longrightarrow>
   fgets T V (fwhen c f) ob (if d then bs else []) (if d then y else ob)"
  by (auto simp: fwhen_def fgets_def)

lemma fgets_cong: "fgets T V f ob bs y \<Longrightarrow> y = z \<Longrightarrow> fgets T V f ob bs z"
  by simp

lemma fsafe_Nil: "fsafe T V (fseq [])"
  by (auto simp: fsafe_def stays_def)

lemma fsafe_fseq [fret]:
  assumes f: "fsafe T V f" and fs: "fsafe T V (fseq fs)"
  shows "fsafe T V (fseq (f # fs))"
  unfolding fsafe_def
proof (intro allI impI)
  fix ob x assume x: "x_op T x = XDR_DECODE"
  from fsafeE [OF f x] obtain ob1 b x1 where 1: "f ob x = Fin (ob1, b, x1)" "stays T V x x1" by blast
  from fsafeE [OF fs stays_op [OF 1(2)]] obtain ob2 c x2
    where 2: "fseq fs ob1 x1 = Fin (ob2, c, x2)" "stays T V x1 x2" by blast
  from 1 2 show "\<exists>ob' b x'. fseq (f # fs) ob x = Fin (ob', b, x') \<and> stays T V x x'"
    by (cases b) (auto dest: stays_trans)
qed

lemmas [fret] = fsafe_Nil

lemma fsafe_ffld [fret]:
  assumes "fsafe T V f"
  shows "fsafe T V (ffld get upd f)"
  unfolding fsafe_def
proof (intro allI impI)
  fix ob x assume x: "x_op T x = XDR_DECODE"
  show "\<exists>ob' b x'. ffld get upd f ob x = Fin (ob', b, x') \<and> stays T V x x'"
    by (rule fsafeE [OF assms x, of "get ob"]) (simp add: ffld_def)
qed

lemma fsafe_fwhen [fret]: "fsafe T V f \<Longrightarrow> fsafe T V (fwhen c f)"
  by (auto simp: fwhen_def fsafe_def stays_def)

subsection \<open>Primitives\<close>

lemma writerD:
  assumes "xdr_writer T V" and "x_op T x = XDR_ENCODE"
  shows "writes T V x (be32 w) w (xdr_u_int T w x)"
    and "writes T V x (be32 w) w (xdr_int T w x)"
    and "writes T V x (be64 q) q (xdr_u_hyper T q x)"
    and "length d = n \<Longrightarrow> writes T V x (d @ replicate (pad4 n) 0) d (xdr_opaque T n d x)"
    and "length d \<le> lim \<Longrightarrow> length d \<le> UINT32_MAX \<Longrightarrow>
      writes T V x (enc_opaque d) (vector_data d, vector_size d)
        (regroup (xdr_bytes T lim (vector_data d) (vector_size d) x))"
    and "lim < unat len \<Longrightarrow> \<not> fst (xdr_bytes T lim p len x)"
    and "0 \<in> set m \<Longrightarrow> length (takeWhile (\<lambda>c. c \<noteq> 0) m) \<le> UINT32_MAX \<Longrightarrow>
      (if length (takeWhile (\<lambda>c. c \<noteq> 0) m) \<le> lim
       then writes T V x (enc_opaque (takeWhile (\<lambda>c. c \<noteq> 0) m)) (Caller m) (xdr_string T lim (Caller m) x)
       else \<not> fst (xdr_string T lim (Caller m) x))"
    and "writes T V x (enc_bool bb) bb (xdr_bool T bb x)"
  using assms unfolding xdr_writer_def by blast+

lemma writesE:
  assumes "writes T V x bs v r"
  obtains (room) x' where "length bs \<le> xdr_room V x" "r = (True, v, x')" "put T V x bs x'"
  | (full) v' x' where "xdr_room V x < length bs" "r = (False, v', x')"
proof (cases "length bs \<le> xdr_room V x")
  case True
  with assms room show thesis by (auto simp: writes_def)
next
  case False
  with assms full show thesis by (cases r) (auto simp: writes_def)
qed

lemma fputs_prim:
  assumes "\<And>x. x_op T x = XDR_ENCODE \<Longrightarrow> writes T V x bs v (f v x)"
  shows "fputs T V (prim f) v bs"
proof (rule fputsI)
  fix x assume "x_op T x = XDR_ENCODE"
  from assms [OF this] show "encoded T V x v bs (prim f v x)"
    by (cases rule: writesE) (auto simp: encoded_def prim_def)
qed

lemma fputs_u_int [fput]: "xdr_writer T V \<Longrightarrow> fputs T V (prim (xdr_u_int T)) v (be32 v)"
  by (intro fputs_prim writerD)

lemma fputs_int [fput]: "xdr_writer T V \<Longrightarrow> fputs T V (prim (xdr_int T)) v (be32 v)"
  by (intro fputs_prim writerD)

lemma fputs_u_hyper [fput]: "xdr_writer T V \<Longrightarrow> fputs T V (prim (xdr_u_hyper T)) v (be64 v)"
  by (intro fputs_prim writerD)

lemma fputs_xdr_bool [fput]: "xdr_writer T V \<Longrightarrow> fputs T V (prim (xdr_bool T)) v (enc_bool v)"
  by (intro fputs_prim writerD(8))

lemma fputs_opaque8 [fput]:
  assumes "xdr_writer T V" and "length d = 8"
  shows "fputs T V (prim (xdr_opaque T 8)) d d"
proof (rule fputs_prim)
  fix x assume "x_op T x = XDR_ENCODE"
  from writerD(4) [OF assms(1) this assms(2)] show "writes T V x d d (xdr_opaque T 8 d x)"
    by (simp add: pad4_def)
qed

lemma fputs_via:
  assumes W: "xdr_writer T V"
  shows "fputs T V (via_u_int T to from) v (be32 (to v))"
proof (rule fputsI)
  fix x assume x: "x_op T x = XDR_ENCODE"
  from writerD(1) [OF W x, of "to v"] show "encoded T V x v (be32 (to v)) (via_u_int T to from v x)"
    by (cases rule: writesE) (auto simp: encoded_def via_u_int_def x dest: put_op)
qed

lemma fputs_enum [fput]: "xdr_writer T V \<Longrightarrow> fputs T V (enum_member T) v (be32 v)"
  using fputs_via [of T V "\<lambda>v. v" "\<lambda>w. w" v] by (simp add: enum_member_def)

lemma fputs_bool [fput]: "xdr_writer T V \<Longrightarrow> fputs T V (bool_member T) v (enc_bool v)"
  using fputs_via [of T V "\<lambda>v. if v then 1 else 0" "\<lambda>w. w \<noteq> 0" v]
  by (simp add: bool_member_def enc_bool_def)

lemma length_mem64 [simp]: "length (mem64 e v) = 8"
  by (simp add: mem64_def)

lemma load64_mem64 [simp]: "load64 e (mem64 e v) = v"
  by (cases e) (simp_all add: mem64_def load64_def)

lemma fputs_raw8 [fput]:
  assumes W: "xdr_writer T V"
  shows "fputs T V (raw8 T) v (mem64 NATIVE_ENDIAN v)"
proof (rule fputsI)
  fix x assume x: "x_op T x = XDR_ENCODE"
  have "writes T V x (mem64 NATIVE_ENDIAN v) (mem64 NATIVE_ENDIAN v)
      (xdr_opaque T 8 (mem64 NATIVE_ENDIAN v) x)"
    using writerD(4) [OF W x, of "mem64 NATIVE_ENDIAN v" 8] by (simp add: pad4_def)
  then show "encoded T V x v (mem64 NATIVE_ENDIAN v) (raw8 T v x)"
    by (cases rule: writesE) (auto simp: encoded_def raw8_def)
qed

subsection \<open>Strings and opaque data\<close>

text \<open>A \<^verbatim>\<open>std::string\<close> that a \<^verbatim>\<open>char *\<close> can hold, of at most \<open>lim\<close> characters.\<close>

definition c_name :: "nat \<Rightarrow> string \<Rightarrow> bool" where
  "c_name lim s \<longleftrightarrow> length s \<le> lim \<and> CHR 0x00 \<notin> set s"

lemma byte_of_char_0 [simp]: "byte_of_char c = 0 \<longleftrightarrow> c = CHR 0x00"
proof -
  have "byte_of_char (CHR 0x00) = 0" by (simp add: byte_of_char_def)
  then show ?thesis by (metis char_of_byte_of_char)
qed

lemma takeWhile_c_str:
  "CHR 0x00 \<notin> set s \<Longrightarrow> takeWhile (\<lambda>c. c \<noteq> 0) (map byte_of_char s @ [0]) = map byte_of_char s"
  by (induction s) auto

lemma string_free_Alloc:
  "CHR 0x00 \<notin> set s \<Longrightarrow> string_free (Alloc (map byte_of_char s @ [0])) = Fin s"
  by (simp add: string_free_def takeWhile_c_str comp_def)

lemma writes_name:
  assumes "xdr_writer T V" and "x_op T x = XDR_ENCODE" and "c_name lim s" and "lim \<le> UINT32_MAX"
  shows "writes T V x (enc_string s) (c_str s) (xdr_string T lim (c_str s) x)"
  using writerD(7) [OF assms(1,2), of "map byte_of_char s @ [0]" lim] assms(3,4)
  by (simp add: c_name_def c_str_def enc_string_def takeWhile_c_str)

lemma fputs_name_in_place [fput]:
  assumes "xdr_writer T V" and "c_name lim s" and "lim \<le> UINT32_MAX"
  shows "fputs T V (name_in_place T lim) s (enc_string s)"
proof (rule fputsI)
  fix x assume x: "x_op T x = XDR_ENCODE"
  from writes_name [OF assms(1) x assms(2,3)] show "encoded T V x s (enc_string s) (name_in_place T lim s x)"
  proof (cases rule: writesE)
    case (room x')
    then show ?thesis by (auto simp: encoded_def name_in_place_def lent_def c_str_def x dest: put_op)
  next
    case (full v' x')
    then show ?thesis
      by (cases v') (auto simp: encoded_def name_in_place_def lent_def x)
  qed
qed

lemma fputs_name_fresh [fput]:
  assumes "xdr_writer T V" and "c_name lim s" and "lim \<le> UINT32_MAX"
  shows "fputs T V (name_fresh T lim) s (enc_string s)"
proof (rule fputsI)
  fix x assume x: "x_op T x = XDR_ENCODE"
  from writes_name [OF assms(1) x assms(2,3)] show "encoded T V x s (enc_string s) (name_fresh T lim s x)"
    by (cases rule: writesE) (auto simp: encoded_def name_fresh_def x dest: put_op)
qed

lemma writes_bytesE:
  assumes "writes T V x bs (p, len) (regroup r)"
  obtains (room) x' where "length bs \<le> xdr_room V x" "r = (True, p, len, x')" "put T V x bs x'"
  | (full) p' len' x' where "xdr_room V x < length bs" "r = (False, p', len', x')"
  using assms by (cases rule: writesE; cases r) (auto simp: regroup_def intro: that)

lemma fputs_bytes_fresh [fput]:
  assumes "xdr_writer T V" and "length d \<le> lim" and "lim \<le> UINT32_MAX"
  shows "fputs T V (bytes_fresh T lim) d (enc_opaque d)"
proof (rule fputsI)
  fix x assume x: "x_op T x = XDR_ENCODE"
  from writerD(5) [OF assms(1) x, of d lim] assms(2,3)
  have "writes T V x (enc_opaque d) (vector_data d, vector_size d)
      (regroup (xdr_bytes T lim (vector_data d) (vector_size d) x))" by simp
  then show "encoded T V x d (enc_opaque d) (bytes_fresh T lim d x)"
    by (cases rule: writes_bytesE) (auto simp: encoded_def bytes_fresh_def x dest: put_op)
qed

lemma fputs_bytes_in_place [fput]:
  assumes "xdr_writer T V" and "length d \<le> lim" and "lim \<le> UINT32_MAX"
  shows "fputs T V (bytes_in_place T lim) d (enc_opaque d)"
proof (rule fputsI)
  fix x assume x: "x_op T x = XDR_ENCODE"
  have lent: "lent XDR_ENCODE d p = Fin d" for p by (cases p) (simp_all add: lent_def)
  from writerD(5) [OF assms(1) x, of d lim] assms(2,3)
  have "writes T V x (enc_opaque d) (vector_data d, vector_size d)
      (regroup (xdr_bytes T lim (vector_data d) (vector_size d) x))" by simp
  then show "encoded T V x d (enc_opaque d) (bytes_in_place T lim d x)"
    by (cases rule: writes_bytesE) (auto simp: encoded_def bytes_in_place_def x lent)
qed

section \<open>Decoding\<close>

lemma takesE:
  assumes "takes T V x bs v r" and "xdr_in V x = bs @ rest"
  obtains x' where "r = (True, v, x')" "x_op T x' = XDR_DECODE" "xdr_in V x' = rest"
  using assms by (auto simp: takes_def)

lemma any_inputE:
  assumes "any_input T V x P r"
  obtains b v x' where "r = (b, v, x')" "stays T V x x'" "b \<Longrightarrow> P v"
  using assms by (cases r) (auto simp: any_input_def)

lemma fgets_prim:
  assumes "\<And>x. x_op T x = XDR_DECODE \<Longrightarrow> takes T V x bs v (f old x)"
  shows "fgets T V (prim f) old bs v"
  unfolding fgets_def
proof (intro allI impI)
  fix x rest assume x: "x_op T x = XDR_DECODE" "xdr_in V x = bs @ rest"
  show "\<exists>x'. prim f old x = Fin (v, True, x') \<and> x_op T x' = XDR_DECODE \<and> xdr_in V x' = rest"
    by (rule takesE [OF assms [OF x(1)] x(2)]) (simp add: prim_def)
qed

lemma fsafe_prim:
  assumes "\<And>x old. x_op T x = XDR_DECODE \<Longrightarrow> any_input T V x P (f old x)"
  shows "fsafe T V (prim f)"
  unfolding fsafe_def
proof (intro allI impI)
  fix old x assume x: "x_op T x = XDR_DECODE"
  show "\<exists>v b x'. prim f old x = Fin (v, b, x') \<and> stays T V x x'"
    by (rule any_inputE [OF assms [OF x, of old]]) (auto simp: prim_def)
qed

lemmas readerD =
  xdr_reader_def reads_u_int_def reads_int_def reads_u_hyper_def reads_bool_def reads_opaque_def

lemma fgets_u_int [fget]: "xdr_reader T V \<Longrightarrow> fgets T V (prim (xdr_u_int T)) old (be32 v) v"
  by (rule fgets_prim) (simp add: readerD)

lemma fgets_int [fget]: "xdr_reader T V \<Longrightarrow> fgets T V (prim (xdr_int T)) old (be32 v) v"
  by (rule fgets_prim) (simp add: readerD)

lemma fgets_u_hyper [fget]: "xdr_reader T V \<Longrightarrow> fgets T V (prim (xdr_u_hyper T)) old (be64 v) v"
  by (rule fgets_prim) (simp add: readerD)

lemma fgets_xdr_bool [fget]: "xdr_reader T V \<Longrightarrow> fgets T V (prim (xdr_bool T)) old (enc_bool v) v"
  by (rule fgets_prim) (simp add: readerD)

lemma takes_opaque8:
  assumes "xdr_reader T V" and "length d = 8" and "x_op T x = XDR_DECODE"
  shows "takes T V x d d (xdr_opaque T 8 m x)"
proof -
  from assms have "takes T V x (d @ []) d (xdr_opaque T 8 m x)"
    unfolding readerD by (auto simp: pad4_def simp del: append_Nil2)
  then show ?thesis by simp
qed

lemma fgets_opaque8 [fget]:
  "xdr_reader T V \<Longrightarrow> length d = 8 \<Longrightarrow> fgets T V (prim (xdr_opaque T 8)) d0 d d"
  by (intro fgets_prim takes_opaque8)

lemma fsafe_u_int [fret]: "xdr_reader T V \<Longrightarrow> fsafe T V (prim (xdr_u_int T))"
  by (rule fsafe_prim [where P = "\<lambda>_. True"]) (simp add: readerD)

lemma fsafe_int [fret]: "xdr_reader T V \<Longrightarrow> fsafe T V (prim (xdr_int T))"
  by (rule fsafe_prim [where P = "\<lambda>_. True"]) (simp add: readerD)

lemma fsafe_u_hyper [fret]: "xdr_reader T V \<Longrightarrow> fsafe T V (prim (xdr_u_hyper T))"
  by (rule fsafe_prim [where P = "\<lambda>_. True"]) (simp add: readerD)

lemma fsafe_opaque [fret]: "xdr_reader T V \<Longrightarrow> fsafe T V (prim (xdr_opaque T n))"
  by (rule fsafe_prim [where P = "\<lambda>_. True"]) (simp add: readerD)

lemma takes_u_int:
  "xdr_reader T V \<Longrightarrow> x_op T x = XDR_DECODE \<Longrightarrow> takes T V x (be32 v) v (xdr_u_int T old x)"
  by (simp add: readerD)

lemma any_input_u_int:
  "xdr_reader T V \<Longrightarrow> x_op T x = XDR_DECODE \<Longrightarrow> any_input T V x (\<lambda>_. True) (xdr_u_int T old x)"
  by (simp add: readerD)

lemma fgets_via:
  assumes R: "xdr_reader T V"
  shows "fgets T V (via_u_int T to from) old (be32 w) (from w)"
  unfolding fgets_def
proof (intro allI impI)
  fix x rest assume x: "x_op T x = XDR_DECODE" "xdr_in V x = be32 w @ rest"
  show "\<exists>x'. via_u_int T to from old x = Fin (from w, True, x') \<and>
      x_op T x' = XDR_DECODE \<and> xdr_in V x' = rest"
    by (rule takesE [OF takes_u_int [OF R x(1), of w 0] x(2)]) (simp add: via_u_int_def x(1))
qed

lemma fsafe_via:
  assumes R: "xdr_reader T V"
  shows "fsafe T V (via_u_int T to from)"
  unfolding fsafe_def
proof (intro allI impI)
  fix old x assume x: "x_op T x = XDR_DECODE"
  show "\<exists>v b x'. via_u_int T to from old x = Fin (v, b, x') \<and> stays T V x x'"
    by (rule any_inputE [OF any_input_u_int [OF R x, of 0]]) (simp add: via_u_int_def x)
qed

lemma fgets_enum [fget]: "xdr_reader T V \<Longrightarrow> fgets T V (enum_member T) old (be32 v) v"
  unfolding enum_member_def by (rule fgets_via)

lemma fgets_bool [fget]: "xdr_reader T V \<Longrightarrow> fgets T V (bool_member T) old (enc_bool v) v"
  using fgets_via [of T V "\<lambda>v. if v then 1 else 0" "\<lambda>w. w \<noteq> 0" old "if v then 1 else 0"]
  by (auto simp: bool_member_def enc_bool_def split: if_splits)

lemma fsafe_enum [fret]: "xdr_reader T V \<Longrightarrow> fsafe T V (enum_member T)"
  unfolding enum_member_def by (rule fsafe_via)

lemma fsafe_bool [fret]: "xdr_reader T V \<Longrightarrow> fsafe T V (bool_member T)"
  unfolding bool_member_def by (rule fsafe_via)

lemma fgets_raw8 [fget]:
  assumes R: "xdr_reader T V"
  shows "fgets T V (raw8 T) old (mem64 NATIVE_ENDIAN v) v"
  unfolding fgets_def
proof (intro allI impI)
  fix x rest assume x: "x_op T x = XDR_DECODE" "xdr_in V x = mem64 NATIVE_ENDIAN v @ rest"
  show "\<exists>x'. raw8 T old x = Fin (v, True, x') \<and> x_op T x' = XDR_DECODE \<and> xdr_in V x' = rest"
    by (rule takesE [OF takes_opaque8 [OF R _ x(1), of _ "mem64 NATIVE_ENDIAN old"] x(2)]) (simp_all add: raw8_def)
qed

lemma fsafe_raw8 [fret]:
  assumes R: "xdr_reader T V"
  shows "fsafe T V (raw8 T)"
  unfolding fsafe_def
proof (intro allI impI)
  fix old x assume x: "x_op T x = XDR_DECODE"
  from R x have "any_input T V x (\<lambda>_. True) (xdr_opaque T 8 m x)" for m by (simp add: readerD)
  from this [of "mem64 NATIVE_ENDIAN old"]
  show "\<exists>v b x'. raw8 T old x = Fin (v, b, x') \<and> stays T V x x'"
    by (cases rule: any_inputE) (simp add: raw8_def)
qed

lemma into_simps [simp]:
  "into Nullptr d = Alloc d" "into (Caller m) d = Caller (d @ drop (length d) m)"
  by (simp_all add: into_def)

lemma stringD:
  assumes "xdr_reader T V" and "x_op T x = XDR_DECODE" and "lim < UINT32_MAX"
  shows "length d \<le> lim \<Longrightarrow> length padding = pad4 (length d) \<Longrightarrow>
      takes T V x (be32 (vector_size d) @ d @ padding) (into p (d @ [0])) (xdr_string T lim p x)"
    and "any_input T V x (\<lambda>p'. \<exists>d. p' = into p (d @ [0])) (xdr_string T lim p x)"
  using assms unfolding xdr_reader_def reads_string_def by blast+

lemma enc_opaque_wire: "enc_opaque d = be32 (vector_size d) @ d @ replicate (pad4 (length d)) 0"
  by (simp add: enc_opaque_def vector_size_def)

lemma fgets_name_fresh [fget]:
  assumes R: "xdr_reader T V" and s: "c_name lim s" and lim: "lim < UINT32_MAX"
  shows "fgets T V (name_fresh T lim) old (enc_string s) s"
  unfolding fgets_def
proof (intro allI impI)
  fix x rest assume x: "x_op T x = XDR_DECODE" "xdr_in V x = enc_string s @ rest"
  let ?d = "map byte_of_char s"
  from s have "takes T V x (enc_string s) (Alloc (?d @ [0])) (xdr_string T lim Nullptr x)"
    using stringD(1) [OF R x(1) lim, of ?d "replicate (pad4 (length ?d)) 0" Nullptr]
    by (simp add: c_name_def enc_string_def enc_opaque_wire)
  from this x(2)
  show "\<exists>x'. name_fresh T lim old x = Fin (s, True, x') \<and> x_op T x' = XDR_DECODE \<and> xdr_in V x' = rest"
    by (cases rule: takesE) (use s in \<open>simp add: c_name_def name_fresh_def x(1) string_free_Alloc\<close>)
qed

lemma fsafe_name_fresh [fret]:
  assumes R: "xdr_reader T V" and lim: "lim < UINT32_MAX"
  shows "fsafe T V (name_fresh T lim)"
  unfolding fsafe_def
proof (intro allI impI)
  fix old x assume x: "x_op T x = XDR_DECODE"
  have free: "\<exists>s. string_free (Alloc (d @ [0])) = Fin s" for d by (simp add: string_free_def)
  from stringD(2) [OF R x lim, of Nullptr]
  show "\<exists>v b x'. name_fresh T lim old x = Fin (v, b, x') \<and> stays T V x x'"
  proof (cases rule: any_inputE)
    case (1 b p x')
    show ?thesis
    proof (cases b)
      case True
      with 1 obtain d where "p = Alloc (d @ [0])" by auto
      with 1 True free [of d] show ?thesis by (auto simp: name_fresh_def x dest: stays_op)
    next
      case False
      with 1 show ?thesis by (auto simp: name_fresh_def x)
    qed
  qed
qed

lemma bytesD:
  assumes "xdr_reader T V" and "x_op T x = XDR_DECODE"
  shows "length d \<le> lim \<Longrightarrow> length d \<le> UINT32_MAX \<Longrightarrow> length padding = pad4 (length d) \<Longrightarrow>
      takes T V x (be32 (vector_size d) @ d @ padding) (if d = [] then p else into p d, vector_size d)
        (regroup (xdr_bytes T lim p len x))"
    and "xdr_in V x = be32 n @ rest \<Longrightarrow> lim < unat n \<Longrightarrow> \<not> fst (xdr_bytes T lim p len x)"
    and "any_input T V x (\<lambda>(p', len). p = Nullptr \<longrightarrow>
        (if len = 0 then p' = Nullptr else \<exists>d. p' = Alloc d \<and> length d = unat len))
        (regroup (xdr_bytes T lim p len x))"
  using assms unfolding xdr_reader_def reads_bytes_def by blast+

lemma regroupE:
  assumes "regroup r = (b, v, x')"
  obtains p len where "v = (p, len)" "r = (b, p, len, x')"
  using assms by (cases r) (auto simp: regroup_def)

lemma assign_free_got:
  assumes "length d \<le> UINT32_MAX"
  shows "assign_free Nullptr (vector_size []) = Fin []" "assign_free (Alloc d) (vector_size d) = Fin d"
  using assms by (simp_all add: assign_free_def vector_size_def unat_of_length)

lemma takes_bytes:
  assumes "xdr_reader T V" and "x_op T x = XDR_DECODE" and "length d \<le> lim" and "lim \<le> UINT32_MAX"
    and "xdr_in V x = enc_opaque d @ rest"
  obtains x' where "xdr_bytes T lim p len x = (True, if d = [] then p else into p d, vector_size d, x')"
    "x_op T x' = XDR_DECODE" "xdr_in V x' = rest"
proof -
  from assms(3,4) have "takes T V x (enc_opaque d) (if d = [] then p else into p d, vector_size d)
      (regroup (xdr_bytes T lim p len x))"
    using bytesD(1) [OF assms(1,2), of d lim "replicate (pad4 (length d)) 0" p len]
    by (simp add: enc_opaque_wire split: if_splits)
  from takesE [OF this assms(5)] show thesis
    by (metis (no_types, lifting) regroupE prod.inject that)
qed

lemma fgets_bytes_fresh [fget]:
  assumes "xdr_reader T V" and "length d \<le> lim" and "lim \<le> UINT32_MAX"
  shows "fgets T V (bytes_fresh T lim) old (enc_opaque d) d"
  unfolding fgets_def
proof (intro allI impI)
  fix x rest assume x: "x_op T x = XDR_DECODE" "xdr_in V x = enc_opaque d @ rest"
  from assms have "length d \<le> UINT32_MAX" by simp
  note free = assign_free_got [OF this]
  show "\<exists>x'. bytes_fresh T lim old x = Fin (d, True, x') \<and> x_op T x' = XDR_DECODE \<and> xdr_in V x' = rest"
    by (rule takes_bytes [OF assms(1) x(1) assms(2,3) x(2), of Nullptr 0])
      (simp add: bytes_fresh_def x(1) free)
qed

lemma any_input_bytes:
  assumes "xdr_reader T V" and "x_op T x = XDR_DECODE"
  obtains b p len x' where "xdr_bytes T lim Nullptr 0 x = (b, p, len, x')" "stays T V x x'"
    "b \<Longrightarrow> \<exists>d. assign_free p len = Fin d"
proof -
  from bytesD(3) [OF assms, of Nullptr lim 0] show thesis
  proof (cases rule: any_inputE)
    case (1 b v x')
    from regroupE [OF 1(1)] obtain p len where "v = (p, len)"
      "xdr_bytes T lim Nullptr 0 x = (b, p, len, x')" by blast
    moreover have "\<exists>d. assign_free p len = Fin d" if b
      using 1(3) [OF that] \<open>v = (p, len)\<close> by (auto simp: assign_free_def split: if_splits)
    ultimately show thesis using 1(2) that by blast
  qed
qed

lemma fsafe_bytes_fresh [fret]:
  assumes R: "xdr_reader T V"
  shows "fsafe T V (bytes_fresh T lim)"
  unfolding fsafe_def
proof (intro allI impI)
  fix old x assume x: "x_op T x = XDR_DECODE"
  from any_input_bytes [OF R x, of lim] obtain b p len x' where
    1: "xdr_bytes T lim Nullptr 0 x = (b, p, len, x')" "stays T V x x'"
       "b \<Longrightarrow> \<exists>d. assign_free p len = Fin d" by blast
  then show "\<exists>v b x'. bytes_fresh T lim old x = Fin (v, b, x') \<and> stays T V x x'"
    by (cases b) (auto simp: bytes_fresh_def x dest: stays_op)
qed

section \<open>Optional members and results\<close>

lemma ok_optional_Some [simp]: "ok_optional ok (Some v) \<longleftrightarrow> ok v"
  by (simp add: ok_optional_def)

lemma fputs_optional [fput]:
  assumes W: "xdr_writer T V" and f: "\<And>w. v = Some w \<Longrightarrow> fputs T V f w (enc w)"
  shows "fputs T V (optional_member T f zero) v (enc_optional enc v)"
proof (rule fputsI)
  fix x assume x: "x_op T x = XDR_ENCODE"
  from writerD(1) [OF W x, of "if v \<noteq> None then 1 else 0"]
  show "encoded T V x v (enc_optional enc v) (optional_member T f zero v x)"
  proof (cases rule: writesE)
    case 1: (room x1)
    show ?thesis
    proof (cases v)
      case None
      with 1 show ?thesis
        by (auto simp: encoded_def optional_member_def enc_optional_def enc_bool_def x dest: put_op)
    next
      case (Some w)
      note op1 = put_op [OF 1(3)]
      from f [OF Some] op1 show ?thesis
      proof (cases rule: fputsE)
        case (room x2)
        with 1 Some op1 put_room [OF 1(3), of "enc w"] put_trans [OF 1(3) room(3)] put_op [OF room(3)]
        show ?thesis by (auto simp: encoded_def optional_member_def enc_optional_def enc_bool_def x)
      next
        case (full w' x2)
        with 1 Some op1 put_room [OF 1(3), of "enc w"] show ?thesis
          by (auto simp: encoded_def optional_member_def enc_optional_def enc_bool_def x)
      qed
    qed
  next
    case (full w' x1)
    then show ?thesis
      by (auto simp: encoded_def optional_member_def enc_optional_def enc_bool_def x split: if_splits)
  qed
qed

lemma fgets_optional [fget]:
  assumes R: "xdr_reader T V" and f: "\<And>w. v = Some w \<Longrightarrow> fgets T V f zero (enc w) (fresh w)"
  shows "fgets T V (optional_member T f zero) old (enc_optional enc v) (map_option fresh v)"
  unfolding fgets_def
proof (intro allI impI)
  fix x rest assume x: "x_op T x = XDR_DECODE" "xdr_in V x = enc_optional enc v @ rest"
  let ?n = "if v \<noteq> None then 1 else 0" and ?tl = "(case v of None \<Rightarrow> [] | Some w \<Rightarrow> enc w) @ rest"
  from x(2) have "xdr_in V x = be32 ?n @ ?tl" by (simp add: enc_optional_def enc_bool_def)
  from takes_u_int [OF R x(1), of ?n 0] this
  show "\<exists>x'. optional_member T f zero old x = Fin (map_option fresh v, True, x') \<and>
      x_op T x' = XDR_DECODE \<and> xdr_in V x' = rest"
  proof (cases rule: takesE)
    case (1 x1)
    show ?thesis
    proof (cases v)
      case None
      with 1 show ?thesis by (simp add: optional_member_def x(1))
    next
      case (Some w)
      with 1 have "xdr_in V x1 = enc w @ rest" by simp
      from f [OF Some] 1(2) this show ?thesis
        by (cases rule: fgetsE) (use 1 Some in \<open>simp add: optional_member_def x(1)\<close>)
    qed
  qed
qed

lemma fsafe_optional [fret]:
  assumes R: "xdr_reader T V" and f: "fsafe T V f"
  shows "fsafe T V (optional_member T f zero)"
  unfolding fsafe_def
proof (intro allI impI)
  fix old x assume x: "x_op T x = XDR_DECODE"
  from any_input_u_int [OF R x, of 0]
  show "\<exists>v b x'. optional_member T f zero old x = Fin (v, b, x') \<and> stays T V x x'"
  proof (cases rule: any_inputE)
    case (1 b w x1)
    from fsafeE [OF f stays_op [OF 1(2)], of zero] obtain w' b2 x2
      where "f zero x1 = Fin (w', b2, x2)" "stays T V x1 x2" by blast
    with 1 stays_op [OF 1(2)] show ?thesis
      by (auto simp: optional_member_def x dest: stays_trans)
  qed
qed

lemma fputs_status:
  assumes W: "xdr_writer T V" and ob: "ok_res ok ob"
    and body: "\<And>r. status ob = NFS3_OK \<Longrightarrow> resok ob = Some r \<Longrightarrow> ok r \<Longrightarrow> fputs T V body ob (enc r)"
  shows "fputs T V (xdr_status T body) ob (enc_res enc ob)"
  unfolding xdr_status_def enc_res_def
proof (rule fputs_fseq [OF fputs_ffld [OF fputs_enum [OF W]] fputs_fseq_single [OF fputs_fwhen]])
  assume OK: "status ob = NFS3_OK"
  with ob obtain r where "resok ob = Some r" "ok r" by (rule ok_resE)
  with body [OF OK] show "fputs T V body ob (enc (the (resok ob)))" by simp
qed simp

lemma fgets_status:
  assumes R: "xdr_reader T V" and ob: "ok_res ok ob"
    and body: "\<And>r mid. status ob = NFS3_OK \<Longrightarrow> resok ob = Some r \<Longrightarrow> ok r \<Longrightarrow>
      fgets T V body mid (enc r) (mid\<lparr>resok := Some (fresh r)\<rparr>)"
  shows "fgets T V (xdr_status T body) old (enc_res enc ob) (ovr_res fresh old ob)"
proof -
  let ?mid = "old\<lparr>status := status ob\<rparr>"
  have "fgets T V body ?mid (enc (the (resok ob))) (?mid\<lparr>resok := Some (fresh (the (resok ob)))\<rparr>)"
    if OK: "status ob = NFS3_OK"
  proof -
    from ob OK obtain r where "resok ob = Some r" "ok r" by (rule ok_resE)
    with body [OF OK, of r ?mid] show ?thesis by simp
  qed
  from fgets_fwhen [OF _ this, of "\<lambda>ob. status ob = NFS3_OK"]
  have "fgets T V (fseq [fwhen (\<lambda>ob. status ob = NFS3_OK) body]) ?mid
      (if status ob = NFS3_OK then enc (the (resok ob)) else [])
      (if status ob = NFS3_OK then ?mid\<lparr>resok := Some (fresh (the (resok ob)))\<rparr> else ?mid)"
    by (intro fgets_fseq_single) simp
  then have "fgets T V (xdr_status T body) old (enc_res enc ob)
      (if status ob = NFS3_OK then ?mid\<lparr>resok := Some (fresh (the (resok ob)))\<rparr> else ?mid)"
    unfolding xdr_status_def enc_res_def
    by (rule fgets_fseq [OF fgets_ffld [OF fgets_enum [OF R]]])
  then show ?thesis by (rule fgets_cong) (cases old, simp add: ovr_res_def)
qed

lemma fsafe_status: "xdr_reader T V \<Longrightarrow> fsafe T V body \<Longrightarrow> fsafe T V (xdr_status T body)"
  unfolding xdr_status_def by (intro fret)

lemma fputs_resok:
  assumes "fputs T V f r bs" and "resok ob = Some r"
  shows "fputs T V (resok_body T none r0 f) ob bs" "fputs T V (listing_body T r0 f) ob bs"
proof -
  from assms(2) have same: "ob\<lparr>resok := Some r\<rparr> = ob" by (cases ob) simp
  have "encoded T V x ob bs (resok_body T none r0 f ob x)"
      "encoded T V x ob bs (listing_body T r0 f ob x)" if x: "x_op T x = XDR_ENCODE" for x
    using assms(1) x
    by (cases rule: fputsE;
        auto simp: encoded_def resok_body_def listing_body_def x assms(2) same dest: put_op)+
  then show "fputs T V (resok_body T none r0 f) ob bs" "fputs T V (listing_body T r0 f) ob bs"
    by (auto intro: fputsI)
qed

lemma fgets_resok:
  assumes "fgets T V f r0 bs r"
  shows "fgets T V (resok_body T none r0 f) old bs (old\<lparr>resok := Some r\<rparr>)"
    "fgets T V (listing_body T r0 f) old bs (old\<lparr>resok := Some r\<rparr>)"
  using assms unfolding fgets_def resok_body_def listing_body_def by fastforce+

lemma fsafe_resok:
  assumes "fsafe T V f"
  shows "fsafe T V (resok_body T none r0 f)" "fsafe T V (listing_body T r0 f)"
proof -
  have "\<exists>ob b x'. resok_body T none r0 f old x = Fin (ob, b, x') \<and> stays T V x x'"
      "\<exists>ob b x'. listing_body T r0 f old x = Fin (ob, b, x') \<and> stays T V x x'"
    if x: "x_op T x = XDR_DECODE" for old x
    by (rule fsafeE [OF assms x, of r0]; simp add: resok_body_def listing_body_def x)+
  then show "fsafe T V (resok_body T none r0 f)" "fsafe T V (listing_body T r0 f)"
    by (simp_all add: fsafe_def)
qed

section \<open>The contract of a filter\<close>

text \<open>
  \<open>filt\<close> writes the format \<open>enc\<close> for the objects that satisfy \<open>ok\<close>; a \<open>tirpc_filter\<close> also
  reads it, leaving \<open>ovr old ob\<close> in an object \<open>old\<close>, and returns whatever it is given to read.
\<close>

locale tirpc_writer =
  fixes filt :: "'x tirpc \<Rightarrow> ('o, 'x) filt"
    and enc :: "'o \<Rightarrow> bytes"
    and ok :: "'o \<Rightarrow> bool"
  assumes filt_puts [fput]: "xdr_writer T V \<Longrightarrow> ok ob \<Longrightarrow> fputs T V (filt T) ob (enc ob)"
begin

lemma filt_encode:
  assumes "xdr_writer T V" and "ok ob" and "x_op T x = XDR_ENCODE" and "length (enc ob) \<le> xdr_room V x"
  obtains x' where "filt T ob x = Fin (ob, True, x')" and "xdr_out V x' = xdr_out V x @ enc ob"
  using filt_puts [OF assms(1,2)] assms(3,4) by (cases rule: fputsE) (auto simp: put_def)

lemma filt_no_room:
  assumes "xdr_writer T V" and "ok ob" and "x_op T x = XDR_ENCODE" and "xdr_room V x < length (enc ob)"
  obtains ob' x' where "filt T ob x = Fin (ob', False, x')"
  using filt_puts [OF assms(1,2)] assms(3,4) by (cases rule: fputsE) auto

end

locale tirpc_filter = tirpc_writer filt enc ok
  for filt :: "'x tirpc \<Rightarrow> ('o, 'x) filt" and enc :: "'o \<Rightarrow> bytes" and ok :: "'o \<Rightarrow> bool" +
  fixes ovr :: "'o \<Rightarrow> 'o \<Rightarrow> 'o"
  assumes filt_gets [fget]: "xdr_reader T V \<Longrightarrow> ok ob \<Longrightarrow> fgets T V (filt T) old (enc ob) (ovr old ob)"
    and filt_safe [fret]: "xdr_reader T V \<Longrightarrow> fsafe T V (filt T)"
begin

text \<open>A result whose \<^verbatim>\<open>resok\<close> goes through \<open>filt\<close>.\<close>

lemma result_filter:
  "tirpc_filter (\<lambda>T. xdr_result T none r0 (filt T)) (enc_res enc) (ok_res ok) (ovr_res (ovr r0))"
  unfolding xdr_result_def
  by unfold_locales
    (auto intro!: fputs_status [where ok = ok] fgets_status [where ok = ok] fsafe_status
      fputs_resok fgets_resok fsafe_resok filt_puts filt_gets filt_safe)

lemma listing_filter:
  "tirpc_filter (\<lambda>T. xdr_listing T r0 (filt T)) (enc_res enc) (ok_res ok) (ovr_res (ovr r0))"
  unfolding xdr_listing_def
  by unfold_locales
    (auto intro!: fputs_status [where ok = ok] fgets_status [where ok = ok] fsafe_status
      fputs_resok fgets_resok fsafe_resok filt_puts filt_gets filt_safe)

text \<open>What one stream has been given, another hands back.\<close>

lemma filt_roundtrip:
  assumes "xdr_writer T V" and "xdr_reader T V" and "ok ob"
    and "x_op T x = XDR_ENCODE" and "xdr_out V x = []" and "length (enc ob) \<le> xdr_room V x"
  obtains x' where "filt T ob x = Fin (ob, True, x')"
    and "\<And>y rest. x_op T y = XDR_DECODE \<Longrightarrow> xdr_in V y = xdr_out V x' @ rest \<Longrightarrow>
      \<exists>y'. filt T old y = Fin (ovr old ob, True, y') \<and> xdr_in V y' = rest"
proof -
  from filt_encode [OF assms(1,3,4,6)] assms(5) obtain x' where
    "filt T ob x = Fin (ob, True, x')" "xdr_out V x' = enc ob" by auto
  moreover from filt_gets [OF assms(2,3)]
  have "\<exists>y'. filt T old y = Fin (ovr old ob, True, y') \<and> xdr_in V y' = rest"
    if "x_op T y = XDR_DECODE" "xdr_in V y = enc ob @ rest" for y rest
    using that unfolding fgets_def by blast
  ultimately show thesis using that by simp
qed

end

end
