(* ===== verification/Expected.thy ===== *)
theory Expected
  imports Prelude
begin

text \<open>
  \<^verbatim>\<open>nfs3_rpc_tests/include/nfs3/expected.hpp\<close>: the result of an operation or its error. The
  accessors throw \<^verbatim>\<open>std::runtime_error("bad_expected_access")\<close> on the wrong alternative. The
  reference-qualified overloads of one accessor differ only in what they allow to be moved
  from and are one function here.
\<close>

datatype bad_access = bad_expected_access

text \<open>\<^verbatim>\<open>std::variant<T, unexpected<E>> data_\<close>.\<close>

datatype ('t, 'e) expected = Value 't | Unexpected 'e

fun has_value :: "('t, 'e) expected \<Rightarrow> bool" where
  "has_value (Value _) = True"
| "has_value (Unexpected _) = False"

fun get_value :: "('t, 'e) expected \<Rightarrow> 't option" where
  "get_value (Value v) = Some v"
| "get_value (Unexpected _) = None"

fun get_unexpected :: "('t, 'e) expected \<Rightarrow> 'e option" where
  "get_unexpected (Unexpected e) = Some e"
| "get_unexpected (Value _) = None"

definition value_of :: "('t, 'e) expected \<Rightarrow> bad_access + 't" where
  "value_of x = (if \<not> has_value x then Inl bad_expected_access else Inr (the (get_value x)))"

text \<open>\<^verbatim>\<open>operator*\<close> and \<^verbatim>\<open>operator->\<close> check like \<^verbatim>\<open>value\<close>.\<close>

definition deref_of :: "('t, 'e) expected \<Rightarrow> bad_access + 't" where
  "deref_of x = value_of x"

definition error_of :: "('t, 'e) expected \<Rightarrow> bad_access + 'e" where
  "error_of x = (if has_value x then Inl bad_expected_access else Inr (the (get_unexpected x)))"

text \<open>\<^verbatim>\<open>expected<void, E>\<close>; the default constructor leaves \<^verbatim>\<open>E{}\<close> in \<open>error0\<close>.\<close>

record 'e expected_void =
  has_value0 :: bool
  error0 :: 'e

definition expected_void_ok :: "'e \<Rightarrow> 'e expected_void" where
  "expected_void_ok e0 = \<lparr>has_value0 = True, error0 = e0\<rparr>"

definition expected_void_error :: "'e \<Rightarrow> 'e expected_void" where
  "expected_void_error e = \<lparr>has_value0 = False, error0 = e\<rparr>"

definition void_error_of :: "'e expected_void \<Rightarrow> bad_access + 'e" where
  "void_error_of x = (if has_value0 x then Inl bad_expected_access else Inr (error0 x))"

lemma value_of_simps [simp]:
  "value_of (Value v) = Inr v" "value_of (Unexpected e) = Inl bad_expected_access"
  by (simp_all add: value_of_def)

lemma error_of_simps [simp]:
  "error_of (Unexpected e) = Inr e" "error_of (Value v) = Inl bad_expected_access"
  by (simp_all add: error_of_def)

end
