(* ===== verification/RpcEndpoint.thy ===== *)
theory RpcEndpoint
  imports RpcClient Expected Nfs3Res
begin

text \<open>
  The NFS endpoint of the build without libtirpc: \<^verbatim>\<open>nfs3_rpc_tests/include/nfs3/rpc_endpoint.hpp\<close>
  and \<^verbatim>\<open>nfs3_rpc_tests/src/rpc_endpoint.cpp\<close>. The templates \<^verbatim>\<open>call<ResType, ArgsType>\<close> are
  functions of the \<^verbatim>\<open>serialize\<close> of the argument type, the \<^verbatim>\<open>deserialize\<close> of the result type and
  a fresh result object. \<^verbatim>\<open>pack\<close> is outside the \<^verbatim>\<open>try\<close>: its exception leaves the function, as the
  left of the sum.
\<close>

datatype RpcError = SUCCESS | CONNECTION_FAILED | TIMEOUT | RPC_MISMATCH | PROG_UNAVAIL
  | PROG_MISMATCH | PROC_UNAVAIL | AUTH_ERROR | DECODE_ERROR | ENCODE_ERROR | UNKNOWN

record RPCEndpointImpl =
  rpc_client :: RpcClient
  host :: string
  port :: uint16
  timeout :: int

record RPCEndpoint =
  impl :: "RPCEndpointImpl option"

text \<open>\<^verbatim>\<open>static_cast<int>(timeout.count())\<close>: the low 32 bits, signed.\<close>

definition int_of_count :: "int \<Rightarrow> int" where
  "int_of_count n = (let m = n mod 2 ^ 32 in if m < 2 ^ 31 then m else m - 2 ^ 32)"

definition RPCEndpoint_create ::
    "'w posix \<Rightarrow> string \<Rightarrow> uint16 \<Rightarrow> int \<Rightarrow> 'w \<Rightarrow> RPCEndpoint \<times> 'w" where
  "RPCEndpoint_create os h p tm w =
     (let im = \<lparr>rpc_client = RpcClient_init, host = h, port = p, timeout = tm\<rparr>;
          ((_, c), w) = RpcClient_connect os (rpc_client im) h p (int_of_count tm) w
      in (\<lparr>impl = Some (im\<lparr>rpc_client := c\<rparr>)\<rparr>, w))"

text \<open>Destroying the implementation runs \<^verbatim>\<open>~RpcClient\<close>, then \<^verbatim>\<open>~TcpTransport\<close> on a transport that
  is already closed.\<close>

definition RPCEndpointImpl_destroy :: "'w posix \<Rightarrow> RPCEndpointImpl option \<Rightarrow> 'w \<Rightarrow> 'w" where
  "RPCEndpointImpl_destroy os im w =
     (case im of None \<Rightarrow> w
      | Some i \<Rightarrow> (case RpcClient_disconnect os (rpc_client i) w of
          (c, w) \<Rightarrow> snd (TcpTransport_disconnect os (transport c) w)))"

definition RPCEndpoint_destroy :: "'w posix \<Rightarrow> RPCEndpoint \<Rightarrow> 'w \<Rightarrow> 'w" where
  "RPCEndpoint_destroy os ep w = RPCEndpointImpl_destroy os (impl ep) w"

definition RPCEndpoint_move :: "RPCEndpoint \<Rightarrow> RPCEndpoint \<times> RPCEndpoint" where
  "RPCEndpoint_move other = (\<lparr>impl = impl other\<rparr>, other\<lparr>impl := None\<rparr>)"

definition RPCEndpoint_move_assign ::
    "'w posix \<Rightarrow> bool \<Rightarrow> RPCEndpoint \<Rightarrow> RPCEndpoint \<Rightarrow> 'w \<Rightarrow> (RPCEndpoint \<times> RPCEndpoint) \<times> 'w" where
  "RPCEndpoint_move_assign os same ep other w =
     (if \<not> same
      then ((ep\<lparr>impl := impl other\<rparr>, other\<lparr>impl := None\<rparr>), RPCEndpointImpl_destroy os (impl ep) w)
      else ((ep, other), w))"

definition RPCEndpoint_shutdown :: "'w posix \<Rightarrow> RPCEndpoint \<Rightarrow> 'w \<Rightarrow> RPCEndpoint \<times> 'w" where
  "RPCEndpoint_shutdown os ep w =
     (case impl ep of None \<Rightarrow> (ep, w)
      | Some im \<Rightarrow> (case RpcClient_disconnect os (rpc_client im) w of
          (c, w) \<Rightarrow> (ep\<lparr>impl := Some (im\<lparr>rpc_client := c\<rparr>)\<rparr>, w)))"

definition RPCEndpoint_is_connected :: "RPCEndpoint \<Rightarrow> bool" where
  "RPCEndpoint_is_connected ep \<longleftrightarrow>
     (case impl ep of None \<Rightarrow> False | Some im \<Rightarrow> RpcClient_is_connected (rpc_client im))"

section \<open>The call templates\<close>

text \<open>The two \<^verbatim>\<open>switch\<close> statements over the status: \<open>None\<close> is the \<^verbatim>\<open>break\<close>. The one of
  \<^verbatim>\<open>call_void\<close> has no case for an authentication error.\<close>

fun call_switch :: "RpcStatus \<Rightarrow> RpcError option" where
  "call_switch RpcStatus.OK = None"
| "call_switch RpcStatus.TIMEOUT = Some RpcError.TIMEOUT"
| "call_switch RpcStatus.PROG_UNAVAIL = Some RpcError.PROG_UNAVAIL"
| "call_switch RpcStatus.PROG_MISMATCH = Some RpcError.PROG_MISMATCH"
| "call_switch RpcStatus.PROC_UNAVAIL = Some RpcError.PROC_UNAVAIL"
| "call_switch RpcStatus.AUTH_ERROR = Some RpcError.AUTH_ERROR"
| "call_switch _ = Some CONNECTION_FAILED"

fun call_void_switch :: "RpcStatus \<Rightarrow> RpcError option" where
  "call_void_switch RpcStatus.OK = None"
| "call_void_switch RpcStatus.TIMEOUT = Some RpcError.TIMEOUT"
| "call_void_switch RpcStatus.PROG_UNAVAIL = Some RpcError.PROG_UNAVAIL"
| "call_void_switch RpcStatus.PROG_MISMATCH = Some RpcError.PROG_MISMATCH"
| "call_void_switch RpcStatus.PROC_UNAVAIL = Some RpcError.PROC_UNAVAIL"
| "call_void_switch _ = Some CONNECTION_FAILED"

definition decode_response ::
    "('r \<Rightarrow> 'r xdr) \<Rightarrow> 'r \<Rightarrow> bytes \<Rightarrow> ('r, RpcError) expected" where
  "decode_response des response resp_body =
     (if resp_body = [] then Unexpected DECODE_ERROR
      else case fst (des response (XdrBuffer_of resp_body)) of
        Inl _ \<Rightarrow> Unexpected DECODE_ERROR
      | Inr r \<Rightarrow> Value r)"

definition RPCEndpoint_call ::
    "'w posix \<Rightarrow> ('a \<Rightarrow> unit xdr) \<Rightarrow> ('r \<Rightarrow> 'r xdr) \<Rightarrow> 'r \<Rightarrow> RPCEndpoint \<Rightarrow> uint32 \<Rightarrow> 'a \<Rightarrow> 'w \<Rightarrow>
     (((XdrError + ('r, RpcError) expected) \<times> RPCEndpoint) \<times> 'w) outcome" where
  "RPCEndpoint_call os ser des response ep proc_num args w =
     (if \<not> RPCEndpoint_is_connected ep then Ret ((Inr (Unexpected CONNECTION_FAILED), ep), w)
      else case ser args XdrBuffer_new of
        (Inl e, _) \<Rightarrow> Ret ((Inl e, ep), w)
      | (Inr _, req_buf) \<Rightarrow>
          let im = the (impl ep); timeout_ms = int_of_count (timeout im)
          in obind (RpcClient_call os (rpc_client im) 100003 3 proc_num (buffer req_buf) timeout_ms w)
            (\<lambda>(((status, resp_body), c), w).
              let ep = ep\<lparr>impl := Some (im\<lparr>rpc_client := c\<rparr>)\<rparr>
              in case call_switch status of
                Some e \<Rightarrow> Ret ((Inr (Unexpected e), ep), w)
              | None \<Rightarrow> Ret ((Inr (decode_response des response resp_body), ep), w)))"

definition RPCEndpoint_call_void ::
    "'w posix \<Rightarrow> RPCEndpoint \<Rightarrow> uint32 \<Rightarrow> 'w \<Rightarrow> (((unit, RpcError) expected \<times> RPCEndpoint) \<times> 'w) outcome" where
  "RPCEndpoint_call_void os ep proc_num w =
     (if \<not> RPCEndpoint_is_connected ep then Ret ((Unexpected CONNECTION_FAILED, ep), w)
      else
        let im = the (impl ep); timeout_ms = int_of_count (timeout im)
        in obind (RpcClient_call os (rpc_client im) 100003 3 proc_num [] timeout_ms w)
          (\<lambda>(((status, _), c), w).
            let ep = ep\<lparr>impl := Some (im\<lparr>rpc_client := c\<rparr>)\<rparr>
            in case call_void_switch status of
              Some e \<Rightarrow> Ret ((Unexpected e, ep), w)
            | None \<Rightarrow> Ret ((Value (), ep), w)))"

text \<open>Without libtirpc \<^verbatim>\<open>call_with_xdr\<close> ignores the two libtirpc filters.\<close>

definition RPCEndpoint_call_with_xdr ::
    "'w posix \<Rightarrow> ('a \<Rightarrow> unit xdr) \<Rightarrow> ('r \<Rightarrow> 'r xdr) \<Rightarrow> 'r \<Rightarrow> RPCEndpoint \<Rightarrow> uint32 \<Rightarrow> 'a \<Rightarrow> 'x \<Rightarrow> 'y \<Rightarrow> 'w \<Rightarrow>
     (((XdrError + ('r, RpcError) expected) \<times> RPCEndpoint) \<times> 'w) outcome" where
  "RPCEndpoint_call_with_xdr os ser des response ep proc_num args xdr_arg_func xdr_res_func w =
     RPCEndpoint_call os ser des response ep proc_num args w"

section \<open>What the templates guarantee\<close>

lemma int_of_count_range: "- (2 ^ 31) \<le> int_of_count n" "int_of_count n < 2 ^ 31"
proof -
  define m where "m = n mod 2 ^ 32"
  then have "0 \<le> m" "m < 2 ^ 32" by simp_all
  then show "- (2 ^ 31) \<le> int_of_count n" "int_of_count n < 2 ^ 31"
    unfolding int_of_count_def m_def [symmetric] Let_def by (auto split: if_splits)
qed

lemma int_of_count_id: "0 \<le> n \<Longrightarrow> n < 2 ^ 31 \<Longrightarrow> int_of_count n = n"
  by (simp add: int_of_count_def)

lemma endpoint_offline:
  "\<not> RPCEndpoint_is_connected ep \<Longrightarrow>
   RPCEndpoint_call os ser des response ep p args w = Ret ((Inr (Unexpected CONNECTION_FAILED), ep), w)"
  by (simp add: RPCEndpoint_call_def)

text \<open>A reply that fits the result type is the value returned; the request is on the wire.\<close>

lemma endpoint_call_ok:
  fixes os :: "'w posix"
  assumes im: "impl ep = Some im" and ser: "ser args XdrBuffer_new = (Inr (), XdrBuffer_of req)"
    and ex: "exchange os out rcv inp stall (rpc_client im) w
      (build_call (xid (rpc_client im)) 100003 3 p req)
      (enc_accepted_reply (xid (rpc_client im)) flavor verf 0 body) rest"
    and "flavor \<noteq> AUTH_SYS"
  obtains w' where "RPCEndpoint_call os ser des response ep p args w =
      Ret ((Inr (decode_response des response body),
        ep\<lparr>impl := Some (im\<lparr>rpc_client := (rpc_client im)\<lparr>xid := xid (rpc_client im) + 1\<rparr>\<rparr>)\<rparr>), w')"
    and "out w' = out w @ frame (build_call (xid (rpc_client im)) 100003 3 p req)"
    and "inp w' = rest"
proof -
  from call_ok [OF ex assms(4), of "int_of_count (timeout im)"] obtain w' where w':
    "RpcClient_call os (rpc_client im) 100003 3 p req (int_of_count (timeout im)) w =
      Ret (((RpcStatus.OK, body), (rpc_client im)\<lparr>xid := xid (rpc_client im) + 1\<rparr>), w')"
    "out w' = out w @ frame (build_call (xid (rpc_client im)) 100003 3 p req)" "inp w' = rest"
    by blast
  from ex have "RPCEndpoint_is_connected ep"
    by (simp add: exchange_def RPCEndpoint_is_connected_def im)
  with ser w' show thesis
    by (intro that [of w']) (simp_all add: RPCEndpoint_call_def im XdrBuffer_of_def)
qed

end
