(* ===== verification/TirpcEndpoint.thy ===== *)
theory TirpcEndpoint
  imports TirpcRules RpcEndpoint Nfs3Constants "HOL-Library.Signed_Division"
begin

text \<open>
  The NFS endpoint of the build with libtirpc: the branches under \<^verbatim>\<open>HAVE_LIBTIRPC\<close> of
  \<^verbatim>\<open>rpc_endpoint.hpp\<close> and \<^verbatim>\<open>rpc_endpoint.cpp\<close>. The client functions of the library are parameters:
  the record \<open>clnt_lib\<close> for the life of a handle, and \<open>clnt_call\<close> as an argument of its own,
  because it is used at a different type for every pair of filters. \<open>calls_through\<close> states what
  its manual page promises.
\<close>

section \<open>The library\<close>

text \<open>The states of \<^verbatim>\<open>enum clnt_stat\<close>; those without a name of their own are \<open>RPC_OTHER\<close>.\<close>

datatype clnt_stat = RPC_SUCCESS | RPC_CANTENCODEARGS | RPC_CANTDECODERES | RPC_CANTSEND | RPC_CANTRECV
  | RPC_TIMEDOUT | RPC_VERSMISMATCH | RPC_AUTHERROR | RPC_PROGUNAVAIL | RPC_PROGVERSMISMATCH
  | RPC_PROCUNAVAIL | RPC_OTHER nat

text \<open>\<^verbatim>\<open>struct timeval\<close>: seconds and microseconds.\<close>

type_synonym timeval = "int \<times> int"

text \<open>\<open>clnt_call client proc inproc in outproc out timeout\<close>: the status, and the object \<open>out\<close> as it
  is left. A \<^verbatim>\<open>CLIENT *\<close> or \<^verbatim>\<open>AUTH *\<close> that is not null is a number.\<close>

type_synonym ('a, 'r, 'x, 'w) clnt_call =
  "nat \<Rightarrow> uint32 \<Rightarrow> ('a, 'x) filt \<Rightarrow> 'a \<Rightarrow> ('r, 'x) filt \<Rightarrow> 'r \<Rightarrow> timeval \<Rightarrow> 'w \<Rightarrow> (clnt_stat \<times> 'r \<times> 'w) fres"

record 'w clnt_lib =
  clnt_create :: "string \<Rightarrow> uint32 \<Rightarrow> uint32 \<Rightarrow> string \<Rightarrow> 'w \<Rightarrow> nat option \<times> 'w"
  clnt_set_timeout :: "nat \<Rightarrow> timeval \<Rightarrow> 'w \<Rightarrow> 'w"
  clnt_destroy :: "nat \<Rightarrow> 'w \<Rightarrow> 'w"
  cl_auth :: "nat \<Rightarrow> 'w \<Rightarrow> nat option"
  set_cl_auth :: "nat \<Rightarrow> nat option \<Rightarrow> 'w \<Rightarrow> 'w"
  auth_destroy :: "nat option \<Rightarrow> 'w \<Rightarrow> 'w"
  authunix_create_default :: "'w \<Rightarrow> nat option \<times> 'w"

section \<open>The endpoint\<close>

record TRPCEndpointImpl =
  client :: "nat option"
  thost :: string
  tport :: uint16
  ttimeout :: int
  xid_counter :: uint32

record TRPCEndpoint =
  timpl :: "TRPCEndpointImpl option"

text \<open>\<^verbatim>\<open>tv_sec = t / 1000; tv_usec = (t % 1000) * 1000;\<close> with the division of C++, which rounds
  towards zero.\<close>

definition timeval_of :: "int \<Rightarrow> timeval" where
  "timeval_of t = (t sdiv 1000, (t smod 1000) * 1000)"

definition c_string :: "string \<Rightarrow> string" where
  "c_string s = takeWhile (\<lambda>c. c \<noteq> CHR 0x00) s"

text \<open>The step that a new handle gets in both clients: the default credentials of the user.\<close>

definition use_auth_unix :: "'w clnt_lib \<Rightarrow> nat \<Rightarrow> 'w \<Rightarrow> 'w" where
  "use_auth_unix L c w =
     (let w = auth_destroy L (cl_auth L c w) w;
          (a, w) = authunix_create_default L w
      in set_cl_auth L c a w)"

definition TRPCEndpoint_create :: "'w clnt_lib \<Rightarrow> string \<Rightarrow> uint16 \<Rightarrow> int \<Rightarrow> 'w \<Rightarrow> TRPCEndpoint \<times> 'w" where
  "TRPCEndpoint_create L h p tm w =
     (let im = \<lparr>client = None, thost = h, tport = p, ttimeout = tm, xid_counter = 1\<rparr>;
          (c, w) = clnt_create L (c_string h) NFS_PROGRAM NFS_V3 ''tcp'' w;
          ep = \<lparr>timpl = Some (im\<lparr>client := c\<rparr>)\<rparr>
      in case c of
        None \<Rightarrow> (ep, w)
      | Some cl \<Rightarrow>
          let w = if tm > 0 then clnt_set_timeout L cl (timeval_of tm) w else w
          in (ep, use_auth_unix L cl w))"

definition TRPCEndpoint_impl_destroy :: "'w clnt_lib \<Rightarrow> TRPCEndpointImpl option \<Rightarrow> 'w \<Rightarrow> 'w" where
  "TRPCEndpoint_impl_destroy L im w =
     (case im of None \<Rightarrow> w
      | Some i \<Rightarrow> (case client i of None \<Rightarrow> w | Some c \<Rightarrow> clnt_destroy L c w))"

definition TRPCEndpoint_destroy :: "'w clnt_lib \<Rightarrow> TRPCEndpoint \<Rightarrow> 'w \<Rightarrow> 'w" where
  "TRPCEndpoint_destroy L ep w = TRPCEndpoint_impl_destroy L (timpl ep) w"

definition TRPCEndpoint_move :: "TRPCEndpoint \<Rightarrow> TRPCEndpoint \<times> TRPCEndpoint" where
  "TRPCEndpoint_move other = (\<lparr>timpl = timpl other\<rparr>, other\<lparr>timpl := None\<rparr>)"

definition TRPCEndpoint_move_assign ::
    "'w clnt_lib \<Rightarrow> bool \<Rightarrow> TRPCEndpoint \<Rightarrow> TRPCEndpoint \<Rightarrow> 'w \<Rightarrow> (TRPCEndpoint \<times> TRPCEndpoint) \<times> 'w" where
  "TRPCEndpoint_move_assign L same ep other w =
     (if \<not> same
      then ((ep\<lparr>timpl := timpl other\<rparr>, other\<lparr>timpl := None\<rparr>), TRPCEndpoint_impl_destroy L (timpl ep) w)
      else ((ep, other), w))"

definition TRPCEndpoint_shutdown :: "'w clnt_lib \<Rightarrow> TRPCEndpoint \<Rightarrow> 'w \<Rightarrow> TRPCEndpoint \<times> 'w" where
  "TRPCEndpoint_shutdown L ep w =
     (case timpl ep of None \<Rightarrow> (ep, w)
      | Some im \<Rightarrow>
          (case client im of None \<Rightarrow> (ep, w)
           | Some c \<Rightarrow> (ep\<lparr>timpl := Some (im\<lparr>client := None\<rparr>)\<rparr>, clnt_destroy L c w)))"

definition TRPCEndpoint_is_connected :: "TRPCEndpoint \<Rightarrow> bool" where
  "TRPCEndpoint_is_connected ep \<longleftrightarrow> (case timpl ep of None \<Rightarrow> False | Some im \<Rightarrow> client im \<noteq> None)"

section \<open>The call templates\<close>

text \<open>The \<^verbatim>\<open>switch\<close> over the status, the same in all templates: \<open>None\<close> is the \<^verbatim>\<open>break\<close>.\<close>

fun clnt_switch :: "clnt_stat \<Rightarrow> RpcError option" where
  "clnt_switch RPC_SUCCESS = None"
| "clnt_switch RPC_TIMEDOUT = Some RpcError.TIMEOUT"
| "clnt_switch RPC_PROGUNAVAIL = Some RpcError.PROG_UNAVAIL"
| "clnt_switch RPC_VERSMISMATCH = Some RpcError.PROG_MISMATCH"
| "clnt_switch RPC_PROCUNAVAIL = Some RpcError.PROC_UNAVAIL"
| "clnt_switch _ = Some UNKNOWN"

record nfs_xdr_buffer =
  buf_data :: bytes
  buf_size :: uint32
  buf_max_size :: uint32

text \<open>\<^verbatim>\<open>xdr_opaque(xdrs, obj->data, n)\<close> on the first \<open>n\<close> bytes of the buffer.\<close>

definition buffer_opaque :: "'x tirpc \<Rightarrow> uint32 \<Rightarrow> (nfs_xdr_buffer, 'x) filt" where
  "buffer_opaque T n ob x =
     (if length (buf_data ob) < unat n then Undef
      else case xdr_opaque T (unat n) (take (unat n) (buf_data ob)) x of
        (b, m, x') \<Rightarrow> Fin (ob\<lparr>buf_data := m @ drop (unat n) (buf_data ob)\<rparr>, b, x'))"

definition nfs_xdr_buffer_func :: "'x tirpc \<Rightarrow> (nfs_xdr_buffer, 'x) filt" where
  "nfs_xdr_buffer_func T ob x =
     (if x_op T x = XDR_ENCODE then
        (case xdr_int T (buf_size ob) x of (b, len, x1) \<Rightarrow>
           if \<not> b then Fin (ob, False, x1) else buffer_opaque T (buf_size ob) ob x1)
      else if x_op T x = XDR_DECODE then
        (case xdr_int T 0 x of (b, len, x1) \<Rightarrow>
           if \<not> b then Fin (ob, False, x1)
           else if sint len \<le> 0 \<or> sint len > sint (buf_max_size ob) then Fin (ob, False, x1)
           else fbind (buffer_opaque T len ob x1) (\<lambda>(ob, b, x2).
             Fin (if b then ob\<lparr>buf_size := len\<rparr> else ob, b, x2)))
      else Fin (ob, False, x))"

definition MAX_RESP :: uint32 where
  "MAX_RESP = 65536"

text \<open>\<open>next_xid ep\<close>: \<^verbatim>\<open>impl_->xid_counter_++\<close>.\<close>

definition next_xid :: "TRPCEndpoint \<Rightarrow> TRPCEndpoint" where
  "next_xid ep = ep\<lparr>timpl := map_option (\<lambda>im. im\<lparr>xid_counter := xid_counter im + 1\<rparr>) (timpl ep)\<rparr>"

definition the_client :: "TRPCEndpoint \<Rightarrow> nat" where
  "the_client ep = the (client (the (timpl ep)))"

definition TRPCEndpoint_call ::
    "'x tirpc \<Rightarrow> (nfs_xdr_buffer, nfs_xdr_buffer, 'x, 'w) clnt_call \<Rightarrow> ('a \<Rightarrow> unit xdr) \<Rightarrow> ('r \<Rightarrow> 'r xdr) \<Rightarrow> 'r \<Rightarrow>
     TRPCEndpoint \<Rightarrow> uint32 \<Rightarrow> 'a \<Rightarrow> 'w \<Rightarrow>
     (((XdrError + ('r, RpcError) expected) \<times> TRPCEndpoint) \<times> 'w) fres" where
  "TRPCEndpoint_call T clnt_call ser des response ep proc_num args w =
     (if \<not> TRPCEndpoint_is_connected ep then Fin ((Inr (Unexpected CONNECTION_FAILED), ep), w)
      else let ep = next_xid ep in
      case ser args XdrBuffer_new of
        (Inl e, _) \<Rightarrow> Fin ((Inl e, ep), w)
      | (Inr _, req_buf) \<Rightarrow>
          let req_bytes = buffer req_buf;
              timeout_tv = timeval_of (ttimeout (the (timpl ep)));
              in_buf = \<lparr>buf_data = req_bytes, buf_size = word_of_nat (length req_bytes),
                buf_max_size = word_of_nat (length req_bytes)\<rparr>;
              out_buf = \<lparr>buf_data = replicate (unat MAX_RESP) 0, buf_size = 0, buf_max_size = MAX_RESP\<rparr>
          in fbind (clnt_call (the_client ep) proc_num (nfs_xdr_buffer_func T) in_buf
              (nfs_xdr_buffer_func T) out_buf timeout_tv w)
            (\<lambda>(result, out_buf, w).
              case clnt_switch result of
                Some e \<Rightarrow> Fin ((Inr (Unexpected e), ep), w)
              | None \<Rightarrow>
                  let data = take (unat (buf_size out_buf)) (buf_data out_buf)
                  in Fin ((Inr (decode_response des response data), ep), w)))"

text \<open>\<^verbatim>\<open>xdr_void\<close> is the library's filter for no data.\<close>

definition TRPCEndpoint_call_void ::
    "(unit, 'x) filt \<Rightarrow> (unit, unit, 'x, 'w) clnt_call \<Rightarrow> TRPCEndpoint \<Rightarrow> uint32 \<Rightarrow> 'w \<Rightarrow>
     (((unit, RpcError) expected \<times> TRPCEndpoint) \<times> 'w) fres" where
  "TRPCEndpoint_call_void xdr_void clnt_call ep proc_num w =
     (if \<not> TRPCEndpoint_is_connected ep then Fin ((Unexpected CONNECTION_FAILED, ep), w)
      else
        let ep = next_xid ep; timeout_tv = timeval_of (ttimeout (the (timpl ep)))
        in fbind (clnt_call (the_client ep) proc_num xdr_void () xdr_void () timeout_tv w)
          (\<lambda>(result, _, w).
            case clnt_switch result of
              Some e \<Rightarrow> Fin ((Unexpected e, ep), w)
            | None \<Rightarrow> Fin ((Value (), ep), w)))"

text \<open>The free function takes the handle and the timeout; \<open>zero\<close> is a result all of whose bytes
  \<^verbatim>\<open>memset\<close> has set to zero.\<close>

definition call_with_xdr ::
    "('a, 'r, 'x, 'w) clnt_call \<Rightarrow> nat \<Rightarrow> uint32 \<Rightarrow> 'a \<Rightarrow> ('a, 'x) filt \<Rightarrow> ('r, 'x) filt \<Rightarrow> int \<Rightarrow> 'r \<Rightarrow> 'w \<Rightarrow>
     (('r, RpcError) expected \<times> 'w) fres" where
  "call_with_xdr clnt_call c proc_num args xdr_arg_func xdr_res_func tm zero w =
     fbind (clnt_call c proc_num xdr_arg_func args xdr_res_func zero (timeval_of tm) w)
       (\<lambda>(result, response, w).
         case clnt_switch result of
           Some e \<Rightarrow> Fin (Unexpected e, w)
         | None \<Rightarrow> Fin (Value response, w))"

definition TRPCEndpoint_call_with_xdr ::
    "('a, 'r, 'x, 'w) clnt_call \<Rightarrow> TRPCEndpoint \<Rightarrow> uint32 \<Rightarrow> 'a \<Rightarrow> ('a, 'x) filt \<Rightarrow> ('r, 'x) filt \<Rightarrow> 'r \<Rightarrow> 'w \<Rightarrow>
     ((('r, RpcError) expected \<times> TRPCEndpoint) \<times> 'w) fres" where
  "TRPCEndpoint_call_with_xdr clnt_call ep proc_num args xdr_arg_func xdr_res_func zero w =
     (if \<not> TRPCEndpoint_is_connected ep then Fin ((Unexpected CONNECTION_FAILED, ep), w)
      else
        let ep = next_xid ep; timeout_tv = timeval_of (ttimeout (the (timpl ep)))
        in fbind (clnt_call (the_client ep) proc_num xdr_arg_func args xdr_res_func zero timeout_tv w)
          (\<lambda>(result, response, w).
            case clnt_switch result of
              Some e \<Rightarrow> Fin ((Unexpected e, ep), w)
            | None \<Rightarrow> Fin ((Value response, ep), w)))"

section \<open>What the library promises of a call\<close>

text \<open>
  \<open>calls_through T V lim reqs answer call\<close>: \<open>clnt_call\<close> gives the first filter an empty stream with
  room for at least \<open>lim\<close> bytes, sends what it has written, and gives the second filter a stream
  that holds the results. \<open>reqs\<close> are the calls sent so far, and \<open>answer\<close> is what becomes of a call:
  its status, and the results if that is \<^verbatim>\<open>RPC_SUCCESS\<close>. A filter that fails makes the call fail.
\<close>

type_synonym request = "nat \<times> uint32 \<times> bytes"

definition ran_call ::
    "'x tirpc \<Rightarrow> 'x view \<Rightarrow> ('w \<Rightarrow> request list) \<Rightarrow> (request \<Rightarrow> 'w \<Rightarrow> clnt_stat \<times> bytes) \<Rightarrow>
     nat \<Rightarrow> uint32 \<Rightarrow> ('a \<times> bool \<times> 'x) fres \<Rightarrow> ('r, 'x) filt \<Rightarrow> 'r \<Rightarrow> 'w \<Rightarrow> (clnt_stat \<times> 'r \<times> 'w) fres \<Rightarrow> 'w \<Rightarrow> bool" where
  "ran_call T V reqs answer c p args g r w result w' \<longleftrightarrow>
     (case args of
        Fin (_, b, x') \<Rightarrow>
          if \<not> b then reqs w' = reqs w \<and> result = Fin (RPC_CANTENCODEARGS, r, w')
          else reqs w' = reqs w @ [(c, p, xdr_out V x')] \<and>
            (case answer (c, p, xdr_out V x') w of (st, results) \<Rightarrow>
               if st \<noteq> RPC_SUCCESS then result = Fin (st, r, w')
               else \<exists>y. x_op T y = XDR_DECODE \<and> xdr_in V y = results \<and>
                 result = fbind (g r y) (\<lambda>(r', b, _).
                   Fin (if b then RPC_SUCCESS else RPC_CANTDECODERES, r', w')))
      | Thrown \<Rightarrow> result = Thrown
      | Undef \<Rightarrow> result = Undef
      | Forever \<Rightarrow> result = Forever)"

definition calls_through ::
    "'x tirpc \<Rightarrow> 'x view \<Rightarrow> nat \<Rightarrow> ('w \<Rightarrow> request list) \<Rightarrow> (request \<Rightarrow> 'w \<Rightarrow> clnt_stat \<times> bytes) \<Rightarrow>
     ('a, 'r, 'x, 'w) clnt_call \<Rightarrow> bool" where
  "calls_through T V lim reqs answer call \<longleftrightarrow> (\<forall>c p f a g r tv w. \<exists>x w'.
     x_op T x = XDR_ENCODE \<and> xdr_out V x = [] \<and> lim \<le> xdr_room V x \<and>
     ran_call T V reqs answer c p (f a x) g r w (call c p f a g r tv w) w')"

lemma calls_throughD:
  assumes "calls_through T V lim reqs answer call"
  obtains x w' where "x_op T x = XDR_ENCODE" "xdr_out V x = []" "lim \<le> xdr_room V x"
    "ran_call T V reqs answer c p (f a x) g r w (call c p f a g r tv w) w'"
  using assms unfolding calls_through_def by blast

text \<open>Arguments that fit the stream reach the server once and as a whole.\<close>

lemma calls_throughE:
  assumes "calls_through T V lim reqs answer call" and "fputs T V f a bs" and "length bs \<le> lim"
  obtains (refused) st results w' where "answer (c, p, bs) w = (st, results)" "st \<noteq> RPC_SUCCESS"
      "call c p f a g r tv w = Fin (st, r, w')" "reqs w' = reqs w @ [(c, p, bs)]"
  | (answered) results y w' where "answer (c, p, bs) w = (RPC_SUCCESS, results)"
      "x_op T y = XDR_DECODE" "xdr_in V y = results" "reqs w' = reqs w @ [(c, p, bs)]"
      "call c p f a g r tv w = fbind (g r y) (\<lambda>(r', b, _).
         Fin (if b then RPC_SUCCESS else RPC_CANTDECODERES, r', w'))"
proof -
  obtain x w' where x: "x_op T x = XDR_ENCODE" "xdr_out V x = []" "lim \<le> xdr_room V x"
    and run: "ran_call T V reqs answer c p (f a x) g r w (call c p f a g r tv w) w'"
    by (rule calls_throughD [OF assms(1)])
  from assms(2) x(1) show thesis
  proof (cases rule: fputsE)
    case (room x')
    then have "xdr_out V x' = bs" by (simp add: put_def x(2))
    with run room refused answered show thesis
      by (cases "answer (c, p, bs) w") (auto simp: ran_call_def split: if_splits)
  next
    case full
    with x(3) assms(3) show thesis by simp
  qed
qed

text \<open>A well-formed answer is what the call leaves in the result.\<close>

lemma calls_through_ok:
  assumes "calls_through T V lim reqs answer call" and "fputs T V f a bs" and "length bs \<le> lim"
    and "answer (c, p, bs) w = (RPC_SUCCESS, out @ rest)" and "fgets T V g r out r'"
  obtains w' where "call c p f a g r tv w = Fin (RPC_SUCCESS, r', w')" "reqs w' = reqs w @ [(c, p, bs)]"
  using assms(1-3)
proof (cases rule: calls_throughE [where c = c and p = p and w = w and g = g and r = r and tv = tv])
  case (answered results y w')
  with assms(4) have "xdr_in V y = out @ rest" by simp
  from fgetsE [OF assms(5) answered(2) this] obtain y' where "g r y = Fin (r', True, y')" by metis
  with answered(4,5) show thesis by (intro that [of w']) simp_all
next
  case (refused st results w')
  with assms(4) show thesis by simp
qed

lemma calls_through_refused:
  assumes "calls_through T V lim reqs answer call" and "fputs T V f a bs" and "length bs \<le> lim"
    and "answer (c, p, bs) w = (st, out)" and "st \<noteq> RPC_SUCCESS"
  obtains w' where "call c p f a g r tv w = Fin (st, r, w')" "reqs w' = reqs w @ [(c, p, bs)]"
  using assms(1-3)
  by (cases rule: calls_throughE [where c = c and p = p and w = w and g = g and r = r and tv = tv])
    (use assms(4,5) that in auto)

text \<open>Whatever comes back, a call returns if the filter for the results does.\<close>

lemma calls_through_returns:
  assumes "calls_through T V lim reqs answer call" and "fputs T V f a bs" and "length bs \<le> lim"
    and "fsafe T V g"
  obtains st r' w' where "call c p f a g r tv w = Fin (st, r', w')" "reqs w' = reqs w @ [(c, p, bs)]"
  using assms(1-3)
proof (cases rule: calls_throughE [where c = c and p = p and w = w and g = g and r = r and tv = tv])
  case (answered results y w')
  from fsafeE [OF assms(4) answered(2)] obtain r' b y' where "g r y = Fin (r', b, y')" by metis
  with answered(4,5) show thesis by (intro that) simp_all
next
  case (refused st results w')
  then show thesis by (intro that)
qed

text \<open>Arguments that their filter refuses are not sent.\<close>

lemma calls_through_unsent:
  assumes "calls_through T V lim reqs answer call"
    and "\<And>x. x_op T x = XDR_ENCODE \<Longrightarrow> \<exists>a' x'. f a x = Fin (a', False, x')"
  obtains w' where "call c p f a g r tv w = Fin (RPC_CANTENCODEARGS, r, w')" "reqs w' = reqs w"
proof -
  obtain x w' where x: "x_op T x = XDR_ENCODE"
    and run: "ran_call T V reqs answer c p (f a x) g r w (call c p f a g r tv w) w'"
    by (rule calls_throughD [OF assms(1)])
  from assms(2) [OF x] obtain a' x' where "f a x = Fin (a', False, x')" by blast
  with run show thesis by (intro that [of w']) (simp_all add: ran_call_def)
qed

end
