(* ===== verification/Nfs3Client.thy ===== *)
theory Nfs3Client
  imports RpcEndpoint Nfs3Constants Nfs3ProcsA Nfs3ProcsB Nfs3ProcsC
begin

text \<open>
  The NFS client: \<^verbatim>\<open>class NFS3TestClient\<close> of \<^verbatim>\<open>nfs3_rpc_tests/include/nfs3/nfs3_client.hpp\<close> and
  \<^verbatim>\<open>nfs3_rpc_tests/src/nfs3_client.cpp\<close>, in the build without libtirpc. The 21 methods other than
  \<^verbatim>\<open>null\<close> have the same body up to the argument struct, the result type and the procedure
  number; that body is \<open>nfs3_invoke\<close>, and each method gives it its own. The parameter \<open>a_x\<close> of a
  definition is the parameter \<open>x\<close> of the method. The member \<^verbatim>\<open>status\<close> of a fresh result object is
  indeterminate; \<^verbatim>\<open>deserialize\<close> assigns it before it is read. \<open>ind\<close> is the indeterminate content of
  a \<^verbatim>\<open>writeverf3\<close> before one is read into it.
\<close>

datatype Nfs3Error = OK | BADHANDLE | NOT_SYNC | BAD_COOKIE | NOTSUPP | TOOSMALL | SERVERFAULT
  | BADTYPE | JUKEBOX | RPC_ERROR

record NFS3TestClient =
  endpoint :: RPCEndpoint
  root_fh :: nfs_fh3

definition NFS3TestClient_new :: "RPCEndpoint \<Rightarrow> NFS3TestClient" where
  "NFS3TestClient_new ep = \<lparr>endpoint = ep, root_fh = nfs_fh3_init\<rparr>"

definition root_handle :: "NFS3TestClient \<Rightarrow> nfs_fh3" where
  "root_handle cl = root_fh cl"

definition set_root_handle :: "NFS3TestClient \<Rightarrow> nfs_fh3 \<Rightarrow> NFS3TestClient" where
  "set_root_handle cl fh = cl\<lparr>root_fh := fh\<rparr>"

definition nfs3_null ::
    "'w posix \<Rightarrow> NFS3TestClient \<Rightarrow> 'w \<Rightarrow> (((unit, Nfs3Error) expected \<times> NFS3TestClient) \<times> 'w) outcome" where
  "nfs3_null os cl w =
     obind (RPCEndpoint_call_void os (endpoint cl) (proc_val NFSPROC3_NULL) w) (\<lambda>((result, ep), w).
       let cl = cl\<lparr>endpoint := ep\<rparr>
       in if \<not> has_value result then Ret ((Unexpected Nfs3Error.RPC_ERROR, cl), w)
          else Ret ((Value (), cl), w))"

section \<open>The methods\<close>

text \<open>What a method makes of the endpoint's answer; an exception thrown by \<^verbatim>\<open>pack\<close> passes through.\<close>

definition check_result ::
    "('r nfs_res, RpcError) expected \<Rightarrow> ('r, Nfs3Error) expected" where
  "check_result result =
     (if \<not> has_value result then Unexpected Nfs3Error.RPC_ERROR
      else let r = the (get_value result)
      in if status r \<noteq> NFS3_OK then Unexpected SERVERFAULT
         else if resok r = None then Unexpected SERVERFAULT
         else Value (the (resok r)))"

type_synonym ('r, 'w) nfs3_result =
  "(((XdrError + ('r, Nfs3Error) expected) \<times> NFS3TestClient) \<times> 'w) outcome"

definition nfs3_invoke ::
    "'w posix \<Rightarrow> ('a \<Rightarrow> unit xdr) \<Rightarrow> ('r nfs_res \<Rightarrow> 'r nfs_res xdr) \<Rightarrow> NFS3TestClient \<Rightarrow> proc_num \<Rightarrow> 'a \<Rightarrow>
     'w \<Rightarrow> ('r, 'w) nfs3_result" where
  "nfs3_invoke os ser des cl p args w =
     obind (RPCEndpoint_call os ser des \<lparr>status = 0, resok = None\<rparr> (endpoint cl) (proc_val p) args w)
       (\<lambda>((result, ep), w).
         Ret ((case result of Inl e \<Rightarrow> Inl e | Inr r \<Rightarrow> Inr (check_result r), cl\<lparr>endpoint := ep\<rparr>), w))"

definition nfs3_getattr ::
    "'w posix \<Rightarrow> NFS3TestClient \<Rightarrow> nfs_fh3 \<Rightarrow> 'w \<Rightarrow>
     (GETATTR3resok, 'w) nfs3_result" where
  "nfs3_getattr os cl a_object w =
     nfs3_invoke os serialize_GETATTR3args deserialize_GETATTR3res cl NFSPROC3_GETATTR
       \<lparr>GETATTR3args.object = a_object\<rparr> w"

definition nfs3_setattr ::
    "'w posix \<Rightarrow> NFS3TestClient \<Rightarrow> nfs_fh3 \<Rightarrow> sattr3 \<Rightarrow> 'w \<Rightarrow>
     (SETATTR3resok, 'w) nfs3_result" where
  "nfs3_setattr os cl a_object a_new_attributes w =
     nfs3_invoke os serialize_SETATTR3args deserialize_SETATTR3res cl NFSPROC3_SETATTR
       \<lparr>SETATTR3args.object = a_object,
       SETATTR3args.new_attributes = a_new_attributes,
       SETATTR3args.guard = None\<rparr> w"

definition nfs3_lookup ::
    "'w posix \<Rightarrow> NFS3TestClient \<Rightarrow> nfs_fh3 \<Rightarrow> string \<Rightarrow> 'w \<Rightarrow>
     (LOOKUP3resok, 'w) nfs3_result" where
  "nfs3_lookup os cl a_dir a_name w =
     nfs3_invoke os serialize_LOOKUP3args deserialize_LOOKUP3res cl NFSPROC3_LOOKUP
       \<lparr>LOOKUP3args.what_dir = a_dir,
       LOOKUP3args.what_name = a_name\<rparr> w"

definition nfs3_access ::
    "'w posix \<Rightarrow> NFS3TestClient \<Rightarrow> nfs_fh3 \<Rightarrow> uint32 \<Rightarrow> 'w \<Rightarrow>
     (ACCESS3resok, 'w) nfs3_result" where
  "nfs3_access os cl a_object a_access_mask w =
     nfs3_invoke os serialize_ACCESS3args deserialize_ACCESS3res cl NFSPROC3_ACCESS
       \<lparr>ACCESS3args.object = a_object,
       ACCESS3args.access = a_access_mask\<rparr> w"

definition nfs3_readlink ::
    "'w posix \<Rightarrow> NFS3TestClient \<Rightarrow> nfs_fh3 \<Rightarrow> 'w \<Rightarrow>
     (READLINK3resok, 'w) nfs3_result" where
  "nfs3_readlink os cl a_symlink w =
     nfs3_invoke os serialize_READLINK3args deserialize_READLINK3res cl NFSPROC3_READLINK
       \<lparr>READLINK3args.symlink = a_symlink\<rparr> w"

definition nfs3_read ::
    "'w posix \<Rightarrow> NFS3TestClient \<Rightarrow> nfs_fh3 \<Rightarrow> uint64 \<Rightarrow> uint32 \<Rightarrow> 'w \<Rightarrow>
     (READ3resok, 'w) nfs3_result" where
  "nfs3_read os cl a_file3 a_offset a_count w =
     nfs3_invoke os serialize_READ3args deserialize_READ3res cl NFSPROC3_READ
       \<lparr>READ3args.file3 = a_file3,
       READ3args.offset = a_offset,
       READ3args.count = a_count\<rparr> w"

definition nfs3_write ::
    "'w posix \<Rightarrow> bytes \<Rightarrow> NFS3TestClient \<Rightarrow> nfs_fh3 \<Rightarrow> uint64 \<Rightarrow> stable_how \<Rightarrow> bytes \<Rightarrow> 'w \<Rightarrow>
     (WRITE3resok, 'w) nfs3_result" where
  "nfs3_write os ind cl a_file3 a_offset a_stable a_data w =
     nfs3_invoke os serialize_WRITE3args (deserialize_WRITE3res ind) cl NFSPROC3_WRITE
       \<lparr>WRITE3args.file3 = a_file3,
       WRITE3args.offset = a_offset,
       WRITE3args.count = word_of_nat (length a_data),
       WRITE3args.stable = a_stable,
       WRITE3args.data = a_data\<rparr> w"

definition nfs3_create ::
    "'w posix \<Rightarrow> NFS3TestClient \<Rightarrow> nfs_fh3 \<Rightarrow> string \<Rightarrow> createmode3 \<Rightarrow> sattr3 \<Rightarrow> 'w \<Rightarrow>
     (CREATE3resok, 'w) nfs3_result" where
  "nfs3_create os cl a_dir a_name a_mode a_attributes w =
     nfs3_invoke os serialize_CREATE3args deserialize_CREATE3res cl NFSPROC3_CREATE
       \<lparr>CREATE3args.where_dir = a_dir,
       CREATE3args.where_name = a_name,
       CREATE3args.how_mode = a_mode,
       CREATE3args.how_attributes = a_attributes,
       CREATE3args.how_verf = \<lparr>createverf3.data = replicate 8 0\<rparr>\<rparr> w"

definition nfs3_mkdir ::
    "'w posix \<Rightarrow> NFS3TestClient \<Rightarrow> nfs_fh3 \<Rightarrow> string \<Rightarrow> sattr3 \<Rightarrow> 'w \<Rightarrow>
     (MKDIR3resok, 'w) nfs3_result" where
  "nfs3_mkdir os cl a_dir a_name a_attributes w =
     nfs3_invoke os serialize_MKDIR3args deserialize_MKDIR3res cl NFSPROC3_MKDIR
       \<lparr>MKDIR3args.where_dir = a_dir,
       MKDIR3args.where_name = a_name,
       MKDIR3args.attributes = a_attributes\<rparr> w"

definition nfs3_symlink ::
    "'w posix \<Rightarrow> NFS3TestClient \<Rightarrow> nfs_fh3 \<Rightarrow> string \<Rightarrow> sattr3 \<Rightarrow> string \<Rightarrow> 'w \<Rightarrow>
     (SYMLINK3resok, 'w) nfs3_result" where
  "nfs3_symlink os cl a_dir a_name a_attributes a_data w =
     nfs3_invoke os serialize_SYMLINK3args deserialize_SYMLINK3res cl NFSPROC3_SYMLINK
       \<lparr>SYMLINK3args.where_dir = a_dir,
       SYMLINK3args.where_name = a_name,
       SYMLINK3args.symlink_attributes = a_attributes,
       SYMLINK3args.symlink_data = a_data\<rparr> w"

definition nfs3_mknod ::
    "'w posix \<Rightarrow> NFS3TestClient \<Rightarrow> nfs_fh3 \<Rightarrow> string \<Rightarrow> ftype4 \<Rightarrow> sattr3 \<Rightarrow> 'w \<Rightarrow>
     (MKNOD3resok, 'w) nfs3_result" where
  "nfs3_mknod os cl a_dir a_name a_type a_attributes w =
     nfs3_invoke os serialize_MKNOD3args deserialize_MKNOD3res cl NFSPROC3_MKNOD
       \<lparr>MKNOD3args.where_dir = a_dir,
       MKNOD3args.where_name = a_name,
       MKNOD3args.what_type = a_type,
       MKNOD3args.what_attributes = a_attributes\<rparr> w"

definition nfs3_remove ::
    "'w posix \<Rightarrow> NFS3TestClient \<Rightarrow> nfs_fh3 \<Rightarrow> string \<Rightarrow> 'w \<Rightarrow>
     (REMOVE3resok, 'w) nfs3_result" where
  "nfs3_remove os cl a_dir a_name w =
     nfs3_invoke os serialize_REMOVE3args deserialize_REMOVE3res cl NFSPROC3_REMOVE
       \<lparr>REMOVE3args.object_dir = a_dir,
       REMOVE3args.object_name = a_name\<rparr> w"

definition nfs3_rmdir ::
    "'w posix \<Rightarrow> NFS3TestClient \<Rightarrow> nfs_fh3 \<Rightarrow> string \<Rightarrow> 'w \<Rightarrow>
     (RMDIR3resok, 'w) nfs3_result" where
  "nfs3_rmdir os cl a_dir a_name w =
     nfs3_invoke os serialize_RMDIR3args deserialize_RMDIR3res cl NFSPROC3_RMDIR
       \<lparr>RMDIR3args.object_dir = a_dir,
       RMDIR3args.object_name = a_name\<rparr> w"

definition nfs3_rename_op ::
    "'w posix \<Rightarrow> NFS3TestClient \<Rightarrow> nfs_fh3 \<Rightarrow> string \<Rightarrow> nfs_fh3 \<Rightarrow> string \<Rightarrow> 'w \<Rightarrow>
     (RENAME3resok, 'w) nfs3_result" where
  "nfs3_rename_op os cl a_from_dir a_from_name a_to_dir a_to_name w =
     nfs3_invoke os serialize_RENAME3args deserialize_RENAME3res cl NFSPROC3_RENAME
       \<lparr>RENAME3args.from_dir = a_from_dir,
       RENAME3args.from_name = a_from_name,
       RENAME3args.to_dir = a_to_dir,
       RENAME3args.to_name = a_to_name\<rparr> w"

definition nfs3_link ::
    "'w posix \<Rightarrow> NFS3TestClient \<Rightarrow> nfs_fh3 \<Rightarrow> nfs_fh3 \<Rightarrow> string \<Rightarrow> 'w \<Rightarrow>
     (LINK3resok, 'w) nfs3_result" where
  "nfs3_link os cl a_file3 a_link_dir a_link_name w =
     nfs3_invoke os serialize_LINK3args deserialize_LINK3res cl NFSPROC3_LINK
       \<lparr>LINK3args.file3 = a_file3,
       LINK3args.link_dir = a_link_dir,
       LINK3args.link_name = a_link_name\<rparr> w"

definition nfs3_readdir ::
    "'w posix \<Rightarrow> NFS3TestClient \<Rightarrow> nfs_fh3 \<Rightarrow> uint64 \<Rightarrow> uint64 \<Rightarrow> uint32 \<Rightarrow> 'w \<Rightarrow>
     (READDIR3resok, 'w) nfs3_result" where
  "nfs3_readdir os cl a_dir a_cookie a_cookieverf a_count w =
     nfs3_invoke os serialize_READDIR3args deserialize_READDIR3res cl NFSPROC3_READDIR
       \<lparr>READDIR3args.dir = a_dir,
       READDIR3args.cookie = a_cookie,
       READDIR3args.cookieverf = a_cookieverf,
       READDIR3args.count = a_count\<rparr> w"

definition nfs3_readdirplus ::
    "'w posix \<Rightarrow> NFS3TestClient \<Rightarrow> nfs_fh3 \<Rightarrow> uint64 \<Rightarrow> uint64 \<Rightarrow> uint32 \<Rightarrow> uint32 \<Rightarrow> 'w \<Rightarrow>
     (READDIRPLUS3resok, 'w) nfs3_result" where
  "nfs3_readdirplus os cl a_dir a_cookie a_cookieverf a_dircount a_maxcount w =
     nfs3_invoke os serialize_READDIRPLUS3args deserialize_READDIRPLUS3res cl NFSPROC3_READDIRPLUS
       \<lparr>READDIRPLUS3args.dir = a_dir,
       READDIRPLUS3args.cookie = a_cookie,
       READDIRPLUS3args.cookieverf = a_cookieverf,
       READDIRPLUS3args.dircount = a_dircount,
       READDIRPLUS3args.maxcount = a_maxcount\<rparr> w"

definition nfs3_fsstat ::
    "'w posix \<Rightarrow> NFS3TestClient \<Rightarrow> nfs_fh3 \<Rightarrow> 'w \<Rightarrow>
     (FSSTAT3resok, 'w) nfs3_result" where
  "nfs3_fsstat os cl a_fsroot w =
     nfs3_invoke os serialize_FSSTAT3args deserialize_FSSTAT3res cl NFSPROC3_FSSTAT
       \<lparr>FSSTAT3args.fsroot = a_fsroot\<rparr> w"

definition nfs3_fsinfo ::
    "'w posix \<Rightarrow> NFS3TestClient \<Rightarrow> nfs_fh3 \<Rightarrow> 'w \<Rightarrow>
     (FSINFO3resok, 'w) nfs3_result" where
  "nfs3_fsinfo os cl a_fsroot w =
     nfs3_invoke os serialize_FSINFO3args deserialize_FSINFO3res cl NFSPROC3_FSINFO
       \<lparr>FSINFO3args.fsroot = a_fsroot\<rparr> w"

definition nfs3_pathconf ::
    "'w posix \<Rightarrow> NFS3TestClient \<Rightarrow> nfs_fh3 \<Rightarrow> 'w \<Rightarrow>
     (PATHCONF3resok, 'w) nfs3_result" where
  "nfs3_pathconf os cl a_object w =
     nfs3_invoke os serialize_PATHCONF3args deserialize_PATHCONF3res cl NFSPROC3_PATHCONF
       \<lparr>PATHCONF3args.object = a_object\<rparr> w"

definition nfs3_commit ::
    "'w posix \<Rightarrow> bytes \<Rightarrow> NFS3TestClient \<Rightarrow> nfs_fh3 \<Rightarrow> uint64 \<Rightarrow> uint32 \<Rightarrow> 'w \<Rightarrow>
     (COMMIT3resok, 'w) nfs3_result" where
  "nfs3_commit os ind cl a_file3 a_offset a_count w =
     nfs3_invoke os serialize_COMMIT3args (deserialize_COMMIT3res ind) cl NFSPROC3_COMMIT
       \<lparr>COMMIT3args.file3 = a_file3,
       COMMIT3args.offset = a_offset,
       COMMIT3args.count = a_count\<rparr> w"

section \<open>The contract of a procedure\<close>

text \<open>
  A procedure is a codec for its arguments and one for its \<^verbatim>\<open>resok\<close>; from these alone follows what
  the method that calls it returns.
\<close>

lemma check_result_simps [simp]:
  "check_result (Unexpected e) = Unexpected Nfs3Error.RPC_ERROR"
  "status r \<noteq> NFS3_OK \<Longrightarrow> check_result (Value r) = Unexpected SERVERFAULT"
  "status r = NFS3_OK \<Longrightarrow> resok r = Some x \<Longrightarrow> check_result (Value r) = Value x"
  by (simp_all add: check_result_def)

text \<open>The client after one call.\<close>

definition called :: "NFS3TestClient \<Rightarrow> RPCEndpointImpl \<Rightarrow> NFS3TestClient" where
  "called cl im = cl\<lparr>endpoint := (endpoint cl)\<lparr>impl := Some (im\<lparr>rpc_client :=
     (rpc_client im)\<lparr>xid := xid (rpc_client im) + 1\<rparr>\<rparr>)\<rparr>\<rparr>"

text \<open>The environment of one method call: the request is \<open>req\<close> sent to procedure \<open>p\<close>, and the server
  accepts it and returns \<open>body\<close>.\<close>

definition served ::
    "'w posix \<Rightarrow> ('w \<Rightarrow> bytes) \<Rightarrow> ('w \<Rightarrow> bytes) \<Rightarrow> ('w \<Rightarrow> bytes) \<Rightarrow> ('w \<Rightarrow> nat) \<Rightarrow> NFS3TestClient \<Rightarrow>
     RPCEndpointImpl \<Rightarrow> 'w \<Rightarrow> proc_num \<Rightarrow> bytes \<Rightarrow> bytes \<Rightarrow> bytes \<Rightarrow> bool" where
  "served os out rcv inp stall cl im w p req body rest \<longleftrightarrow>
     impl (endpoint cl) = Some im \<and>
     (\<exists>flavor verf. flavor \<noteq> AUTH_SYS \<and>
       exchange os out rcv inp stall (rpc_client im) w
         (build_call (xid (rpc_client im)) 100003 3 (proc_val p) req)
         (enc_accepted_reply (xid (rpc_client im)) flavor verf 0 body) rest)"

lemma invoke_served:
  assumes "ser args XdrBuffer_new = (Inr (), XdrBuffer_of req)"
    and "served os out rcv inp stall cl im w p req body rest"
  obtains w' where "nfs3_invoke os ser des cl p args w =
      Ret ((Inr (check_result (decode_response des \<lparr>status = 0, resok = None\<rparr> body)), called cl im), w')"
    and "out w' = out w @ frame (build_call (xid (rpc_client im)) 100003 3 (proc_val p) req)"
    and "inp w' = rest"
proof -
  from assms(2) obtain flavor verf where im: "impl (endpoint cl) = Some im"
    and fl: "flavor \<noteq> AUTH_SYS"
    and ex: "exchange os out rcv inp stall (rpc_client im) w
         (build_call (xid (rpc_client im)) 100003 3 (proc_val p) req)
         (enc_accepted_reply (xid (rpc_client im)) flavor verf 0 body) rest"
    by (auto simp: served_def)
  from endpoint_call_ok [where ser = ser and args = args, OF im assms(1) ex fl, of des "\<lparr>status = 0, resok = None\<rparr>"] obtain w' where
    "RPCEndpoint_call os ser des \<lparr>status = 0, resok = None\<rparr> (endpoint cl) (proc_val p) args w =
      Ret ((Inr (decode_response des \<lparr>status = 0, resok = None\<rparr> body), (endpoint cl)\<lparr>impl := Some
        (im\<lparr>rpc_client := (rpc_client im)\<lparr>xid := xid (rpc_client im) + 1\<rparr>\<rparr>)\<rparr>), w')"
    "out w' = out w @ frame (build_call (xid (rpc_client im)) 100003 3 (proc_val p) req)"
    "inp w' = rest" by blast
  then show thesis by (intro that [of w']) (simp_all add: nfs3_invoke_def called_def)
qed

locale nfs_procedure =
  args: xdr_codec ser_a des_a enc_a ovr_a ok_a + res: xdr_roundtrip ser_r des_r enc_r ovr_r ok_r init_r canon_r
  for ser_a :: "'a \<Rightarrow> unit xdr" and des_a enc_a ovr_a ok_a
    and ser_r :: "'r \<Rightarrow> unit xdr" and des_r enc_r ovr_r ok_r init_r canon_r
begin

lemma invoke_ok:
  assumes "ok_a args" and "ok_r r" and "canon_r r"
    and "served os out rcv inp stall cl im w p (enc_a args)
      (enc_res enc_r \<lparr>status = NFS3_OK, resok = Some r\<rparr>) rest"
  shows "\<exists>w'. nfs3_invoke os ser_a (deserialize_res init_r des_r) cl p args w =
      Ret ((Inr (Value r), called cl im), w') \<and>
    out w' = out w @ frame (build_call (xid (rpc_client im)) 100003 3 (proc_val p) (enc_a args)) \<and>
    inp w' = rest"
proof -
  let ?res = "\<lparr>status = NFS3_OK, resok = Some r\<rparr>"
  have "enc_res enc_r ?res \<noteq> []" by (simp add: enc_res_def be32_def)
  moreover have "fst (deserialize_res init_r des_r \<lparr>status = 0, resok = None\<rparr>
      (XdrBuffer_of (enc_res enc_r ?res))) = Inr ?res"
    using res.res_reply [of r ?res _ "[]"] assms(2,3) by simp
  ultimately have "decode_response (deserialize_res init_r des_r) \<lparr>status = 0, resok = None\<rparr>
      (enc_res enc_r ?res) = Value ?res" by (simp add: decode_response_def)
  then show ?thesis
    using invoke_served [where ser = ser_a and args = args, OF args.pack_new [OF assms(1)] assms(4), of "deserialize_res init_r des_r"]
    by (metis check_result_simps(3) nfs_res.select_convs)
qed

lemma invoke_status:
  assumes "ok_a args" and "st \<noteq> NFS3_OK"
    and "served os out rcv inp stall cl im w p (enc_a args) (be32 st @ tail) rest"
  shows "\<exists>w'. nfs3_invoke os ser_a (deserialize_res init_r des_r) cl p args w =
      Ret ((Inr (Unexpected SERVERFAULT), called cl im), w') \<and> inp w' = rest"
proof -
  let ?res = "\<lparr>status = st, resok = None\<rparr>"
  have "fst (deserialize_res init_r des_r \<lparr>status = 0, resok = None\<rparr>
      (XdrBuffer_of (enc_res enc_r ?res @ tail))) = Inr ?res"
    using res.res.unpack_of [of ?res "\<lparr>status = 0, resok = None\<rparr>" tail] assms(2)
    by (simp add: ok_res_def ovr_res_def)
  with assms(2) have "decode_response (deserialize_res init_r des_r) \<lparr>status = 0, resok = None\<rparr>
      (be32 st @ tail) = Value ?res"
    by (simp add: decode_response_def enc_res_def be32_def)
  then show ?thesis
    using invoke_served [where ser = ser_a and args = args, OF args.pack_new [OF assms(1)] assms(3), of "deserialize_res init_r des_r"] assms(2)
    by (metis check_result_simps(2) nfs_res.select_convs(1))
qed

end

text \<open>Every method of the client calls a procedure that keeps the contract.\<close>

interpretation getattr_op: nfs_procedure
  serialize_GETATTR3args deserialize_GETATTR3args enc_GETATTR3args "\<lambda>_ x. x" ok_GETATTR3args
  serialize_GETATTR3resok deserialize_GETATTR3resok enc_GETATTR3resok "\<lambda>_ x. x" "\<lambda>_. True" GETATTR3resok_init "\<lambda>_. True"
  by unfold_locales

interpretation setattr_op: nfs_procedure
  serialize_SETATTR3args deserialize_SETATTR3args enc_SETATTR3args ovr_SETATTR3args ok_SETATTR3args
  serialize_SETATTR3resok deserialize_SETATTR3resok enc_SETATTR3resok ovr_SETATTR3resok "\<lambda>_. True" SETATTR3resok_init canon_SETATTR3resok
  by unfold_locales

interpretation lookup_op: nfs_procedure
  serialize_LOOKUP3args deserialize_LOOKUP3args enc_LOOKUP3args "\<lambda>_ x. x" ok_LOOKUP3args
  serialize_LOOKUP3resok deserialize_LOOKUP3resok enc_LOOKUP3resok ovr_LOOKUP3resok ok_LOOKUP3resok LOOKUP3resok_init canon_LOOKUP3resok
  by unfold_locales

interpretation access_op: nfs_procedure
  serialize_ACCESS3args deserialize_ACCESS3args enc_ACCESS3args "\<lambda>_ x. x" ok_ACCESS3args
  serialize_ACCESS3resok deserialize_ACCESS3resok enc_ACCESS3resok ovr_ACCESS3resok "\<lambda>_. True" ACCESS3resok_init canon_ACCESS3resok
  by unfold_locales

interpretation readlink_op: nfs_procedure
  serialize_READLINK3args deserialize_READLINK3args enc_READLINK3args "\<lambda>_ x. x" ok_READLINK3args
  serialize_READLINK3resok deserialize_READLINK3resok enc_READLINK3resok ovr_READLINK3resok ok_READLINK3resok READLINK3resok_init canon_READLINK3resok
  by unfold_locales

interpretation read_op: nfs_procedure
  serialize_READ3args deserialize_READ3args enc_READ3args "\<lambda>_ x. x" ok_READ3args
  serialize_READ3resok deserialize_READ3resok enc_READ3resok ovr_READ3resok ok_READ3resok READ3resok_init canon_READ3resok
  by unfold_locales

interpretation write_op: nfs_procedure
  serialize_WRITE3args deserialize_WRITE3args enc_WRITE3args "\<lambda>_ x. x" ok_WRITE3args
  serialize_WRITE3resok deserialize_WRITE3resok enc_WRITE3resok ovr_WRITE3resok ok_WRITE3resok "WRITE3resok_init ind" canon_WRITE3resok
  for ind
  by unfold_locales

interpretation create_op: nfs_procedure
  serialize_CREATE3args deserialize_CREATE3args enc_CREATE3args ovr_CREATE3args ok_CREATE3args
  serialize_CREATE3resok deserialize_CREATE3resok enc_CREATE3resok ovr_CREATE3resok ok_CREATE3resok CREATE3resok_init canon_CREATE3resok
  by unfold_locales

interpretation mkdir_op: nfs_procedure
  serialize_MKDIR3args deserialize_MKDIR3args enc_MKDIR3args ovr_MKDIR3args ok_MKDIR3args
  serialize_MKDIR3resok deserialize_MKDIR3resok enc_MKDIR3resok ovr_MKDIR3resok ok_MKDIR3resok MKDIR3resok_init canon_MKDIR3resok
  by unfold_locales

interpretation symlink_op: nfs_procedure
  serialize_SYMLINK3args deserialize_SYMLINK3args enc_SYMLINK3args ovr_SYMLINK3args ok_SYMLINK3args
  serialize_SYMLINK3resok deserialize_SYMLINK3resok enc_SYMLINK3resok ovr_SYMLINK3resok ok_SYMLINK3resok SYMLINK3resok_init canon_SYMLINK3resok
  by unfold_locales

interpretation mknod_op: nfs_procedure
  serialize_MKNOD3args deserialize_MKNOD3args enc_MKNOD3args ovr_MKNOD3args ok_MKNOD3args
  serialize_MKNOD3resok deserialize_MKNOD3resok enc_MKNOD3resok ovr_MKNOD3resok ok_MKNOD3resok MKNOD3resok_init canon_MKNOD3resok
  by unfold_locales

interpretation remove_op: nfs_procedure
  serialize_REMOVE3args deserialize_REMOVE3args enc_REMOVE3args "\<lambda>_ x. x" ok_REMOVE3args
  serialize_REMOVE3resok deserialize_REMOVE3resok enc_REMOVE3resok ovr_REMOVE3resok "\<lambda>_. True" REMOVE3resok_init canon_REMOVE3resok
  by unfold_locales

interpretation rmdir_op: nfs_procedure
  serialize_RMDIR3args deserialize_RMDIR3args enc_RMDIR3args "\<lambda>_ x. x" ok_RMDIR3args
  serialize_RMDIR3resok deserialize_RMDIR3resok enc_RMDIR3resok ovr_RMDIR3resok "\<lambda>_. True" RMDIR3resok_init canon_RMDIR3resok
  by unfold_locales

interpretation rename_op_op: nfs_procedure
  serialize_RENAME3args deserialize_RENAME3args enc_RENAME3args "\<lambda>_ x. x" ok_RENAME3args
  serialize_RENAME3resok deserialize_RENAME3resok enc_RENAME3resok ovr_RENAME3resok "\<lambda>_. True" RENAME3resok_init canon_RENAME3resok
  by unfold_locales

interpretation link_op: nfs_procedure
  serialize_LINK3args deserialize_LINK3args enc_LINK3args "\<lambda>_ x. x" ok_LINK3args
  serialize_LINK3resok deserialize_LINK3resok enc_LINK3resok ovr_LINK3resok "\<lambda>_. True" LINK3resok_init canon_LINK3resok
  by unfold_locales

interpretation readdir_op: nfs_procedure
  serialize_READDIR3args deserialize_READDIR3args enc_READDIR3args "\<lambda>_ x. x" ok_READDIR3args
  serialize_READDIR3resok deserialize_READDIR3resok enc_READDIR3resok ovr_READDIR3resok ok_READDIR3resok READDIR3resok_init canon_READDIR3resok
  by unfold_locales

interpretation readdirplus_op: nfs_procedure
  serialize_READDIRPLUS3args deserialize_READDIRPLUS3args enc_READDIRPLUS3args "\<lambda>_ x. x" ok_READDIRPLUS3args
  serialize_READDIRPLUS3resok deserialize_READDIRPLUS3resok enc_READDIRPLUS3resok ovr_READDIRPLUS3resok ok_READDIRPLUS3resok READDIRPLUS3resok_init canon_READDIRPLUS3resok
  by unfold_locales

interpretation fsstat_op: nfs_procedure
  serialize_FSSTAT3args deserialize_FSSTAT3args enc_FSSTAT3args "\<lambda>_ x. x" ok_FSSTAT3args
  serialize_FSSTAT3resok deserialize_FSSTAT3resok enc_FSSTAT3resok ovr_FSSTAT3resok "\<lambda>_. True" FSSTAT3resok_init canon_FSSTAT3resok
  by unfold_locales

interpretation fsinfo_op: nfs_procedure
  serialize_FSINFO3args deserialize_FSINFO3args enc_FSINFO3args "\<lambda>_ x. x" ok_FSINFO3args
  serialize_FSINFO3resok deserialize_FSINFO3resok enc_FSINFO3resok ovr_FSINFO3resok "\<lambda>_. True" FSINFO3resok_init canon_FSINFO3resok
  by unfold_locales

interpretation pathconf_op: nfs_procedure
  serialize_PATHCONF3args deserialize_PATHCONF3args enc_PATHCONF3args "\<lambda>_ x. x" ok_PATHCONF3args
  serialize_PATHCONF3resok deserialize_PATHCONF3resok enc_PATHCONF3resok ovr_PATHCONF3resok "\<lambda>_. True" PATHCONF3resok_init canon_PATHCONF3resok
  by unfold_locales

interpretation commit_op: nfs_procedure
  serialize_COMMIT3args deserialize_COMMIT3args enc_COMMIT3args "\<lambda>_ x. x" ok_COMMIT3args
  serialize_COMMIT3resok deserialize_COMMIT3resok enc_COMMIT3resok ovr_COMMIT3resok ok_COMMIT3resok "COMMIT3resok_init ind" canon_COMMIT3resok
  for ind
  by unfold_locales

end
