(* ===== verification/TirpcTypes.thy ===== *)
theory TirpcTypes
  imports TirpcRules
begin

text \<open>
  The filters of \<^verbatim>\<open>nfs3_xdr.cpp\<close> for handles and attributes. For a type \<open>X\<close>: \<open>xdr_X\<close> is the
  filter; \<open>fits_X\<close> holds the limits it imposes (64 bytes for a handle, 255 for a name);
  the format is \<open>enc_X\<close>, that of \<^verbatim>\<open>serialize\<close>, or \<open>tenc_X\<close> where the filter's own differs:
  a verifier is eight bytes with no length, and \<^verbatim>\<open>sattr3\<close> has a flag before each value.
  The interpretation \<open>X_tirpc\<close> proves the contract.
\<close>

section \<open>Verifiers and handles\<close>

definition xdr_writeverf3 :: "'x tirpc \<Rightarrow> (writeverf3, 'x) filt" where
  "xdr_writeverf3 T = fseq [
     ffld writeverf3.data writeverf3.data_update (prim (xdr_opaque T 8))]"

definition tenc_writeverf3 :: "writeverf3 \<Rightarrow> bytes" where
  "tenc_writeverf3 ob =
     writeverf3.data ob"

definition fits_writeverf3 :: "writeverf3 \<Rightarrow> bool" where
  "fits_writeverf3 ob \<longleftrightarrow> length (writeverf3.data ob) = 8"

interpretation writeverf3_tirpc: tirpc_filter
  xdr_writeverf3 tenc_writeverf3 fits_writeverf3 "\<lambda>_ ob. ob"
proof unfold_locales
  fix T V and ob old :: writeverf3
  show "fputs T V (xdr_writeverf3 T) ob (tenc_writeverf3 ob)" if W: "xdr_writer T V" and ok: "fits_writeverf3 ob"
    unfolding xdr_writeverf3_def tenc_writeverf3_def using ok [unfolded fits_writeverf3_def]
    by (intro fput W) auto
  show "fgets T V (xdr_writeverf3 T) old (tenc_writeverf3 ob) ob" if R: "xdr_reader T V" and ok: "fits_writeverf3 ob"
    unfolding xdr_writeverf3_def tenc_writeverf3_def
    by (rule fgets_cong, (rule fget R | (simp; fail) |
        (use ok in \<open>simp add: fits_writeverf3_def; fail\<close>) |
        (cases ob, cases old, simp add: option.map_ident; fail))+)
  show "fsafe T V (xdr_writeverf3 T)" if R: "xdr_reader T V"
    unfolding xdr_writeverf3_def by (intro fret R; simp)
qed

definition xdr_createverf3 :: "'x tirpc \<Rightarrow> (createverf3, 'x) filt" where
  "xdr_createverf3 T = fseq [
     ffld createverf3.data createverf3.data_update (prim (xdr_opaque T 8))]"

definition tenc_createverf3 :: "createverf3 \<Rightarrow> bytes" where
  "tenc_createverf3 ob =
     createverf3.data ob"

definition fits_createverf3 :: "createverf3 \<Rightarrow> bool" where
  "fits_createverf3 ob \<longleftrightarrow> length (createverf3.data ob) = 8"

interpretation createverf3_tirpc: tirpc_filter
  xdr_createverf3 tenc_createverf3 fits_createverf3 "\<lambda>_ ob. ob"
proof unfold_locales
  fix T V and ob old :: createverf3
  show "fputs T V (xdr_createverf3 T) ob (tenc_createverf3 ob)" if W: "xdr_writer T V" and ok: "fits_createverf3 ob"
    unfolding xdr_createverf3_def tenc_createverf3_def using ok [unfolded fits_createverf3_def]
    by (intro fput W) auto
  show "fgets T V (xdr_createverf3 T) old (tenc_createverf3 ob) ob" if R: "xdr_reader T V" and ok: "fits_createverf3 ob"
    unfolding xdr_createverf3_def tenc_createverf3_def
    by (rule fgets_cong, (rule fget R | (simp; fail) |
        (use ok in \<open>simp add: fits_createverf3_def; fail\<close>) |
        (cases ob, cases old, simp add: option.map_ident; fail))+)
  show "fsafe T V (xdr_createverf3 T)" if R: "xdr_reader T V"
    unfolding xdr_createverf3_def by (intro fret R; simp)
qed

text \<open>Nothing is done when the stream frees.\<close>

definition xdr_nfs_fh3 :: "'x tirpc \<Rightarrow> (nfs_fh3, 'x) filt" where
  "xdr_nfs_fh3 T ob x =
     (case x_op T x of
        XDR_ENCODE \<Rightarrow>
          (case xdr_bytes T 64 (vector_data (nfs_fh3.data ob)) (vector_size (nfs_fh3.data ob)) x of
             (b, p, len, x') \<Rightarrow> Fin (ob, b, x'))
      | XDR_DECODE \<Rightarrow>
          (case xdr_bytes T 64 Nullptr 0 x of
             (b, p, len, x') \<Rightarrow>
               if \<not> b then Fin (ob, False, x')
               else fbind (assign_free p len) (\<lambda>d. Fin (ob\<lparr>nfs_fh3.data := d\<rparr>, True, x')))
      | XDR_FREE \<Rightarrow> Fin (ob, True, x))"

definition fits_nfs_fh3 :: "nfs_fh3 \<Rightarrow> bool" where
  "fits_nfs_fh3 ob \<longleftrightarrow> length (nfs_fh3.data ob) \<le> 64"

interpretation nfs_fh3_tirpc: tirpc_filter
  xdr_nfs_fh3 enc_nfs_fh3 fits_nfs_fh3 "\<lambda>_ ob. ob"
proof unfold_locales
  fix T V and ob old :: nfs_fh3
  show "fputs T V (xdr_nfs_fh3 T) ob (enc_nfs_fh3 ob)" if W: "xdr_writer T V" and ok: "fits_nfs_fh3 ob"
  proof (rule fputsI)
    fix x assume x: "x_op T x = XDR_ENCODE"
    from writerD(5) [OF W x, of "nfs_fh3.data ob" 64] ok
    have "writes T V x (enc_nfs_fh3 ob) (vector_data (nfs_fh3.data ob), vector_size (nfs_fh3.data ob))
        (regroup (xdr_bytes T 64 (vector_data (nfs_fh3.data ob)) (vector_size (nfs_fh3.data ob)) x))"
      by (simp add: fits_nfs_fh3_def enc_nfs_fh3_def)
    then show "encoded T V x ob (enc_nfs_fh3 ob) (xdr_nfs_fh3 T ob x)"
      by (cases rule: writes_bytesE) (auto simp: encoded_def xdr_nfs_fh3_def x)
  qed
  show "fgets T V (xdr_nfs_fh3 T) old (enc_nfs_fh3 ob) ob" if R: "xdr_reader T V" and ok: "fits_nfs_fh3 ob"
    unfolding fgets_def
  proof (intro allI impI)
    fix x rest assume x: "x_op T x = XDR_DECODE" "xdr_in V x = enc_nfs_fh3 ob @ rest"
    from ok have len: "length (nfs_fh3.data ob) \<le> 64" "length (nfs_fh3.data ob) \<le> UINT32_MAX"
      by (simp_all add: fits_nfs_fh3_def)
    from R x(1) len(1) _ x(2) [unfolded enc_nfs_fh3_def]
    show "\<exists>x'. xdr_nfs_fh3 T old x = Fin (ob, True, x') \<and> x_op T x' = XDR_DECODE \<and> xdr_in V x' = rest"
      by (rule takes_bytes [where p = Nullptr and len = 0]) (simp_all add: xdr_nfs_fh3_def x(1) assign_free_got [OF len(2)])
  qed
  show "fsafe T V (xdr_nfs_fh3 T)" if R: "xdr_reader T V"
    unfolding fsafe_def
  proof (intro allI impI)
    fix old x assume x: "x_op T x = XDR_DECODE"
    from any_input_bytes [OF R x, of 64] obtain b p len x' where
      1: "xdr_bytes T 64 Nullptr 0 x = (b, p, len, x')" "stays T V x x'"
         "b \<Longrightarrow> \<exists>d. assign_free p len = Fin d" by blast
    then show "\<exists>v b x'. xdr_nfs_fh3 T old x = Fin (v, b, x') \<and> stays T V x x'"
      by (cases b) (auto simp: xdr_nfs_fh3_def x)
  qed
qed

section \<open>Attributes\<close>

definition xdr_specdata3 :: "'x tirpc \<Rightarrow> (specdata3, 'x) filt" where
  "xdr_specdata3 T = fseq [
     ffld specdata3.specdata1 specdata3.specdata1_update (prim (xdr_u_int T)),
     ffld specdata3.specdata2 specdata3.specdata2_update (prim (xdr_u_int T))]"

interpretation specdata3_tirpc: tirpc_filter
  xdr_specdata3 enc_specdata3 "\<lambda>_. True" "\<lambda>_ ob. ob"
proof unfold_locales
  fix T V and ob old :: specdata3
  show "fputs T V (xdr_specdata3 T) ob (enc_specdata3 ob)" if W: "xdr_writer T V"
    unfolding xdr_specdata3_def enc_specdata3_def
    by (intro fput W) simp_all
  show "fgets T V (xdr_specdata3 T) old (enc_specdata3 ob) ob" if R: "xdr_reader T V"
    unfolding xdr_specdata3_def enc_specdata3_def
    by (rule fgets_cong, (rule fget R | (simp; fail) |
        (cases ob, cases old, simp add: option.map_ident; fail))+)
  show "fsafe T V (xdr_specdata3 T)" if R: "xdr_reader T V"
    unfolding xdr_specdata3_def by (intro fret R; simp)
qed

definition xdr_nfstime3 :: "'x tirpc \<Rightarrow> (nfstime3, 'x) filt" where
  "xdr_nfstime3 T = fseq [
     ffld nfstime3.seconds nfstime3.seconds_update (prim (xdr_u_int T)),
     ffld nfstime3.nseconds nfstime3.nseconds_update (prim (xdr_u_int T))]"

interpretation nfstime3_tirpc: tirpc_filter
  xdr_nfstime3 enc_nfstime3 "\<lambda>_. True" "\<lambda>_ ob. ob"
proof unfold_locales
  fix T V and ob old :: nfstime3
  show "fputs T V (xdr_nfstime3 T) ob (enc_nfstime3 ob)" if W: "xdr_writer T V"
    unfolding xdr_nfstime3_def enc_nfstime3_def
    by (intro fput W) simp_all
  show "fgets T V (xdr_nfstime3 T) old (enc_nfstime3 ob) ob" if R: "xdr_reader T V"
    unfolding xdr_nfstime3_def enc_nfstime3_def
    by (rule fgets_cong, (rule fget R | (simp; fail) |
        (cases ob, cases old, simp add: option.map_ident; fail))+)
  show "fsafe T V (xdr_nfstime3 T)" if R: "xdr_reader T V"
    unfolding xdr_nfstime3_def by (intro fret R; simp)
qed

definition xdr_fattr3 :: "'x tirpc \<Rightarrow> (fattr3, 'x) filt" where
  "xdr_fattr3 T = fseq [
     ffld fattr3.type3 fattr3.type3_update (enum_member T),
     ffld fattr3.mode fattr3.mode_update (prim (xdr_u_int T)),
     ffld fattr3.nlink fattr3.nlink_update (prim (xdr_u_int T)),
     ffld fattr3.uid fattr3.uid_update (prim (xdr_u_int T)),
     ffld fattr3.gid fattr3.gid_update (prim (xdr_u_int T)),
     ffld fattr3.size3 fattr3.size3_update (prim (xdr_u_hyper T)),
     ffld fattr3.used fattr3.used_update (prim (xdr_u_hyper T)),
     ffld fattr3.rdev fattr3.rdev_update (xdr_specdata3 T),
     ffld fattr3.fsid fattr3.fsid_update (prim (xdr_u_hyper T)),
     ffld fattr3.fileid fattr3.fileid_update (prim (xdr_u_hyper T)),
     ffld fattr3.atime fattr3.atime_update (xdr_nfstime3 T),
     ffld fattr3.mtime fattr3.mtime_update (xdr_nfstime3 T),
     ffld fattr3.ctime fattr3.ctime_update (xdr_nfstime3 T)]"

interpretation fattr3_tirpc: tirpc_filter
  xdr_fattr3 enc_fattr3 "\<lambda>_. True" "\<lambda>_ ob. ob"
proof unfold_locales
  fix T V and ob old :: fattr3
  show "fputs T V (xdr_fattr3 T) ob (enc_fattr3 ob)" if W: "xdr_writer T V"
    unfolding xdr_fattr3_def enc_fattr3_def
    by (intro fput W) simp_all
  show "fgets T V (xdr_fattr3 T) old (enc_fattr3 ob) ob" if R: "xdr_reader T V"
    unfolding xdr_fattr3_def enc_fattr3_def
    by (rule fgets_cong, (rule fget R | (simp; fail) |
        (cases ob, cases old, simp add: option.map_ident; fail))+)
  show "fsafe T V (xdr_fattr3 T)" if R: "xdr_reader T V"
    unfolding xdr_fattr3_def by (intro fret R; simp)
qed

definition xdr_post_op_attr :: "'x tirpc \<Rightarrow> (post_op_attr, 'x) filt" where
  "xdr_post_op_attr T = fseq [
     ffld post_op_attr.follow post_op_attr.follow_update (bool_member T),
     fwhen post_op_attr.follow (ffld post_op_attr.attributes post_op_attr.attributes_update (xdr_fattr3 T))]"

interpretation post_op_attr_tirpc: tirpc_filter
  xdr_post_op_attr enc_post_op_attr "\<lambda>_. True" ovr_post_op_attr
proof unfold_locales
  fix T V and ob old :: post_op_attr
  show "fputs T V (xdr_post_op_attr T) ob (enc_post_op_attr ob)" if W: "xdr_writer T V"
    unfolding xdr_post_op_attr_def enc_post_op_attr_def
    by (intro fput W) simp_all
  show "fgets T V (xdr_post_op_attr T) old (enc_post_op_attr ob) (ovr_post_op_attr old ob)" if R: "xdr_reader T V"
    unfolding xdr_post_op_attr_def enc_post_op_attr_def
    by (rule fgets_cong, (rule fget R | (simp; fail) |
        (cases ob, cases old, simp add: option.map_ident ovr_post_op_attr_def; fail))+)
  show "fsafe T V (xdr_post_op_attr T)" if R: "xdr_reader T V"
    unfolding xdr_post_op_attr_def by (intro fret R; simp)
qed

definition xdr_wcc_attr :: "'x tirpc \<Rightarrow> (wcc_attr, 'x) filt" where
  "xdr_wcc_attr T = fseq [
     ffld wcc_attr.size3 wcc_attr.size3_update (prim (xdr_u_hyper T)),
     ffld wcc_attr.mtime wcc_attr.mtime_update (xdr_nfstime3 T),
     ffld wcc_attr.ctime wcc_attr.ctime_update (xdr_nfstime3 T)]"

interpretation wcc_attr_tirpc: tirpc_filter
  xdr_wcc_attr enc_wcc_attr "\<lambda>_. True" "\<lambda>_ ob. ob"
proof unfold_locales
  fix T V and ob old :: wcc_attr
  show "fputs T V (xdr_wcc_attr T) ob (enc_wcc_attr ob)" if W: "xdr_writer T V"
    unfolding xdr_wcc_attr_def enc_wcc_attr_def
    by (intro fput W) simp_all
  show "fgets T V (xdr_wcc_attr T) old (enc_wcc_attr ob) ob" if R: "xdr_reader T V"
    unfolding xdr_wcc_attr_def enc_wcc_attr_def
    by (rule fgets_cong, (rule fget R | (simp; fail) |
        (cases ob, cases old, simp add: option.map_ident; fail))+)
  show "fsafe T V (xdr_wcc_attr T)" if R: "xdr_reader T V"
    unfolding xdr_wcc_attr_def by (intro fret R; simp)
qed

definition xdr_pre_op_attr :: "'x tirpc \<Rightarrow> (pre_op_attr, 'x) filt" where
  "xdr_pre_op_attr T = fseq [
     ffld pre_op_attr.check pre_op_attr.check_update (bool_member T),
     fwhen pre_op_attr.check (ffld pre_op_attr.attributes pre_op_attr.attributes_update (xdr_wcc_attr T))]"

interpretation pre_op_attr_tirpc: tirpc_filter
  xdr_pre_op_attr enc_pre_op_attr "\<lambda>_. True" ovr_pre_op_attr
proof unfold_locales
  fix T V and ob old :: pre_op_attr
  show "fputs T V (xdr_pre_op_attr T) ob (enc_pre_op_attr ob)" if W: "xdr_writer T V"
    unfolding xdr_pre_op_attr_def enc_pre_op_attr_def
    by (intro fput W) simp_all
  show "fgets T V (xdr_pre_op_attr T) old (enc_pre_op_attr ob) (ovr_pre_op_attr old ob)" if R: "xdr_reader T V"
    unfolding xdr_pre_op_attr_def enc_pre_op_attr_def
    by (rule fgets_cong, (rule fget R | (simp; fail) |
        (cases ob, cases old, simp add: option.map_ident ovr_pre_op_attr_def; fail))+)
  show "fsafe T V (xdr_pre_op_attr T)" if R: "xdr_reader T V"
    unfolding xdr_pre_op_attr_def by (intro fret R; simp)
qed

definition xdr_wcc_data :: "'x tirpc \<Rightarrow> (wcc_data, 'x) filt" where
  "xdr_wcc_data T = fseq [
     ffld wcc_data.before wcc_data.before_update (xdr_pre_op_attr T),
     ffld wcc_data.after wcc_data.after_update (xdr_post_op_attr T)]"

interpretation wcc_data_tirpc: tirpc_filter
  xdr_wcc_data enc_wcc_data "\<lambda>_. True" ovr_wcc_data
proof unfold_locales
  fix T V and ob old :: wcc_data
  show "fputs T V (xdr_wcc_data T) ob (enc_wcc_data ob)" if W: "xdr_writer T V"
    unfolding xdr_wcc_data_def enc_wcc_data_def
    by (intro fput W) simp_all
  show "fgets T V (xdr_wcc_data T) old (enc_wcc_data ob) (ovr_wcc_data old ob)" if R: "xdr_reader T V"
    unfolding xdr_wcc_data_def enc_wcc_data_def
    by (rule fgets_cong, (rule fget R | (simp; fail) |
        (cases ob, cases old, simp add: option.map_ident ovr_wcc_data_def; fail))+)
  show "fsafe T V (xdr_wcc_data T)" if R: "xdr_reader T V"
    unfolding xdr_wcc_data_def by (intro fret R; simp)
qed

section \<open>Settable attributes\<close>

definition xdr_sattr3 :: "'x tirpc \<Rightarrow> (sattr3, 'x) filt" where
  "xdr_sattr3 T = fseq [
     ffld sattr3.mode sattr3.mode_update (optional_member T (prim (xdr_u_int T)) 0),
     ffld sattr3.uid sattr3.uid_update (optional_member T (prim (xdr_u_int T)) 0),
     ffld sattr3.gid sattr3.gid_update (optional_member T (prim (xdr_u_int T)) 0),
     ffld sattr3.size3 sattr3.size3_update (optional_member T (prim (xdr_u_hyper T)) 0),
     ffld sattr3.atime sattr3.atime_update (optional_member T (xdr_nfstime3 T) nfstime3_init),
     ffld sattr3.mtime sattr3.mtime_update (optional_member T (xdr_nfstime3 T) nfstime3_init)]"

definition tenc_sattr3 :: "sattr3 \<Rightarrow> bytes" where
  "tenc_sattr3 ob =
     enc_optional be32 (sattr3.mode ob) @
     enc_optional be32 (sattr3.uid ob) @
     enc_optional be32 (sattr3.gid ob) @
     enc_optional be64 (sattr3.size3 ob) @
     enc_optional enc_nfstime3 (sattr3.atime ob) @
     enc_optional enc_nfstime3 (sattr3.mtime ob)"

interpretation sattr3_tirpc: tirpc_filter
  xdr_sattr3 tenc_sattr3 "\<lambda>_. True" "\<lambda>_ ob. ob"
proof unfold_locales
  fix T V and ob old :: sattr3
  show "fputs T V (xdr_sattr3 T) ob (tenc_sattr3 ob)" if W: "xdr_writer T V"
    unfolding xdr_sattr3_def tenc_sattr3_def
    by (intro fput W) simp_all
  show "fgets T V (xdr_sattr3 T) old (tenc_sattr3 ob) ob" if R: "xdr_reader T V"
    unfolding xdr_sattr3_def tenc_sattr3_def
    by (rule fgets_cong, (rule fget R | (simp; fail) |
        (cases ob, cases old, simp add: option.map_ident; fail))+)
  show "fsafe T V (xdr_sattr3 T)" if R: "xdr_reader T V"
    unfolding xdr_sattr3_def by (intro fret R; simp)
qed

end
