(* ===== verification/TirpcProcsA.thy ===== *)
theory TirpcProcsA
  imports TirpcTypes Nfs3ProcsA
begin

text \<open>
  The filters of \<^verbatim>\<open>nfs3_xdr.cpp\<close> for the arguments and results of GETATTR to WRITE. The part of
  an \<^verbatim>\<open>xdr_XXX3res\<close> that handles the \<^verbatim>\<open>resok\<close> is a definition of its own, \<open>xdr_XXX3resok\<close>.
\<close>

section \<open>GETATTR\<close>

definition xdr_GETATTR3args :: "'x tirpc \<Rightarrow> (GETATTR3args, 'x) filt" where
  "xdr_GETATTR3args T = fseq [
     ffld GETATTR3args.object GETATTR3args.object_update (xdr_nfs_fh3 T)]"

definition fits_GETATTR3args :: "GETATTR3args \<Rightarrow> bool" where
  "fits_GETATTR3args ob \<longleftrightarrow> fits_nfs_fh3 (GETATTR3args.object ob)"

interpretation GETATTR3args_tirpc: tirpc_filter
  xdr_GETATTR3args enc_GETATTR3args fits_GETATTR3args "\<lambda>_ ob. ob"
proof unfold_locales
  fix T V and ob old :: GETATTR3args
  show "fputs T V (xdr_GETATTR3args T) ob (enc_GETATTR3args ob)" if W: "xdr_writer T V" and ok: "fits_GETATTR3args ob"
    unfolding xdr_GETATTR3args_def enc_GETATTR3args_def using ok [unfolded fits_GETATTR3args_def]
    by (intro fput W) auto
  show "fgets T V (xdr_GETATTR3args T) old (enc_GETATTR3args ob) ob" if R: "xdr_reader T V" and ok: "fits_GETATTR3args ob"
    unfolding xdr_GETATTR3args_def enc_GETATTR3args_def
    by (rule fgets_cong, (rule fget R | (simp; fail) |
        (use ok in \<open>simp add: fits_GETATTR3args_def; fail\<close>) |
        (cases ob, cases old, simp add: option.map_ident; fail))+)
  show "fsafe T V (xdr_GETATTR3args T)" if R: "xdr_reader T V"
    unfolding xdr_GETATTR3args_def by (intro fret R; simp)
qed

definition xdr_GETATTR3resok :: "'x tirpc \<Rightarrow> (GETATTR3resok, 'x) filt" where
  "xdr_GETATTR3resok T = fseq [
     ffld GETATTR3resok.obj_attributes GETATTR3resok.obj_attributes_update (xdr_fattr3 T)]"

interpretation GETATTR3resok_tirpc: tirpc_filter
  xdr_GETATTR3resok enc_GETATTR3resok "\<lambda>_. True" "\<lambda>_ ob. ob"
proof unfold_locales
  fix T V and ob old :: GETATTR3resok
  show "fputs T V (xdr_GETATTR3resok T) ob (enc_GETATTR3resok ob)" if W: "xdr_writer T V"
    unfolding xdr_GETATTR3resok_def enc_GETATTR3resok_def
    by (intro fput W) simp_all
  show "fgets T V (xdr_GETATTR3resok T) old (enc_GETATTR3resok ob) ob" if R: "xdr_reader T V"
    unfolding xdr_GETATTR3resok_def enc_GETATTR3resok_def
    by (rule fgets_cong, (rule fget R | (simp; fail) |
        (cases ob, cases old, simp add: option.map_ident; fail))+)
  show "fsafe T V (xdr_GETATTR3resok T)" if R: "xdr_reader T V"
    unfolding xdr_GETATTR3resok_def by (intro fret R; simp)
qed

definition xdr_GETATTR3res :: "'x tirpc \<Rightarrow> (GETATTR3res, 'x) filt" where
  "xdr_GETATTR3res T = xdr_result T Thrown GETATTR3resok_init (xdr_GETATTR3resok T)"

interpretation GETATTR3res_tirpc: tirpc_filter
  xdr_GETATTR3res "enc_res enc_GETATTR3resok" "ok_res (\<lambda>_. True)" "ovr_res (\<lambda>ob. ob)"
  unfolding xdr_GETATTR3res_def [abs_def] by (rule GETATTR3resok_tirpc.result_filter)

section \<open>SETATTR\<close>

definition xdr_SETATTR3args :: "'x tirpc \<Rightarrow> (SETATTR3args, 'x) filt" where
  "xdr_SETATTR3args T = fseq [
     ffld SETATTR3args.object SETATTR3args.object_update (xdr_nfs_fh3 T),
     ffld SETATTR3args.new_attributes SETATTR3args.new_attributes_update (xdr_sattr3 T),
     ffld SETATTR3args.guard SETATTR3args.guard_update (optional_member T (xdr_nfs_fh3 T) nfs_fh3_init)]"

definition tenc_SETATTR3args :: "SETATTR3args \<Rightarrow> bytes" where
  "tenc_SETATTR3args ob =
     enc_nfs_fh3 (SETATTR3args.object ob) @
     tenc_sattr3 (SETATTR3args.new_attributes ob) @
     enc_optional enc_nfs_fh3 (SETATTR3args.guard ob)"

definition fits_SETATTR3args :: "SETATTR3args \<Rightarrow> bool" where
  "fits_SETATTR3args ob \<longleftrightarrow> fits_nfs_fh3 (SETATTR3args.object ob) \<and>
     ok_optional fits_nfs_fh3 (SETATTR3args.guard ob)"

interpretation SETATTR3args_tirpc: tirpc_filter
  xdr_SETATTR3args tenc_SETATTR3args fits_SETATTR3args "\<lambda>_ ob. ob"
proof unfold_locales
  fix T V and ob old :: SETATTR3args
  show "fputs T V (xdr_SETATTR3args T) ob (tenc_SETATTR3args ob)" if W: "xdr_writer T V" and ok: "fits_SETATTR3args ob"
    unfolding xdr_SETATTR3args_def tenc_SETATTR3args_def using ok [unfolded fits_SETATTR3args_def]
    by (intro fput W) auto
  show "fgets T V (xdr_SETATTR3args T) old (tenc_SETATTR3args ob) ob" if R: "xdr_reader T V" and ok: "fits_SETATTR3args ob"
    unfolding xdr_SETATTR3args_def tenc_SETATTR3args_def
    by (rule fgets_cong, (rule fget R | (simp; fail) |
        (use ok in \<open>simp add: fits_SETATTR3args_def; fail\<close>) |
        (cases ob, cases old, simp add: option.map_ident; fail))+)
  show "fsafe T V (xdr_SETATTR3args T)" if R: "xdr_reader T V"
    unfolding xdr_SETATTR3args_def by (intro fret R; simp)
qed

definition xdr_SETATTR3resok :: "'x tirpc \<Rightarrow> (SETATTR3resok, 'x) filt" where
  "xdr_SETATTR3resok T = fseq [
     ffld SETATTR3resok.obj_wcc SETATTR3resok.obj_wcc_update (xdr_wcc_data T)]"

interpretation SETATTR3resok_tirpc: tirpc_filter
  xdr_SETATTR3resok enc_SETATTR3resok "\<lambda>_. True" ovr_SETATTR3resok
proof unfold_locales
  fix T V and ob old :: SETATTR3resok
  show "fputs T V (xdr_SETATTR3resok T) ob (enc_SETATTR3resok ob)" if W: "xdr_writer T V"
    unfolding xdr_SETATTR3resok_def enc_SETATTR3resok_def
    by (intro fput W) simp_all
  show "fgets T V (xdr_SETATTR3resok T) old (enc_SETATTR3resok ob) (ovr_SETATTR3resok old ob)" if R: "xdr_reader T V"
    unfolding xdr_SETATTR3resok_def enc_SETATTR3resok_def
    by (rule fgets_cong, (rule fget R | (simp; fail) |
        (cases ob, cases old, simp add: option.map_ident ovr_SETATTR3resok_def; fail))+)
  show "fsafe T V (xdr_SETATTR3resok T)" if R: "xdr_reader T V"
    unfolding xdr_SETATTR3resok_def by (intro fret R; simp)
qed

definition xdr_SETATTR3res :: "'x tirpc \<Rightarrow> (SETATTR3res, 'x) filt" where
  "xdr_SETATTR3res T = xdr_result T Thrown SETATTR3resok_init (xdr_SETATTR3resok T)"

interpretation SETATTR3res_tirpc: tirpc_filter
  xdr_SETATTR3res "enc_res enc_SETATTR3resok" "ok_res (\<lambda>_. True)" "ovr_res (ovr_SETATTR3resok SETATTR3resok_init)"
  unfolding xdr_SETATTR3res_def [abs_def] by (rule SETATTR3resok_tirpc.result_filter)

section \<open>LOOKUP\<close>

definition xdr_LOOKUP3args :: "'x tirpc \<Rightarrow> (LOOKUP3args, 'x) filt" where
  "xdr_LOOKUP3args T = fseq [
     ffld LOOKUP3args.what_dir LOOKUP3args.what_dir_update (xdr_nfs_fh3 T),
     ffld LOOKUP3args.what_name LOOKUP3args.what_name_update (name_in_place T 255)]"

definition fits_LOOKUP3args :: "LOOKUP3args \<Rightarrow> bool" where
  "fits_LOOKUP3args ob \<longleftrightarrow> fits_nfs_fh3 (LOOKUP3args.what_dir ob) \<and>
     c_name 255 (LOOKUP3args.what_name ob)"

interpretation LOOKUP3args_tirpc: tirpc_writer
  xdr_LOOKUP3args enc_LOOKUP3args fits_LOOKUP3args
proof unfold_locales
  fix T V and ob :: LOOKUP3args
  show "fputs T V (xdr_LOOKUP3args T) ob (enc_LOOKUP3args ob)" if W: "xdr_writer T V" and ok: "fits_LOOKUP3args ob"
    unfolding xdr_LOOKUP3args_def enc_LOOKUP3args_def using ok [unfolded fits_LOOKUP3args_def]
    by (intro fput W) auto
qed

definition xdr_LOOKUP3resok :: "'x tirpc \<Rightarrow> (LOOKUP3resok, 'x) filt" where
  "xdr_LOOKUP3resok T = fseq [
     ffld LOOKUP3resok.object LOOKUP3resok.object_update (xdr_nfs_fh3 T),
     ffld LOOKUP3resok.obj_attributes LOOKUP3resok.obj_attributes_update (xdr_post_op_attr T),
     ffld LOOKUP3resok.dir_attributes LOOKUP3resok.dir_attributes_update (xdr_post_op_attr T)]"

definition fits_LOOKUP3resok :: "LOOKUP3resok \<Rightarrow> bool" where
  "fits_LOOKUP3resok ob \<longleftrightarrow> fits_nfs_fh3 (LOOKUP3resok.object ob)"

interpretation LOOKUP3resok_tirpc: tirpc_filter
  xdr_LOOKUP3resok enc_LOOKUP3resok fits_LOOKUP3resok ovr_LOOKUP3resok
proof unfold_locales
  fix T V and ob old :: LOOKUP3resok
  show "fputs T V (xdr_LOOKUP3resok T) ob (enc_LOOKUP3resok ob)" if W: "xdr_writer T V" and ok: "fits_LOOKUP3resok ob"
    unfolding xdr_LOOKUP3resok_def enc_LOOKUP3resok_def using ok [unfolded fits_LOOKUP3resok_def]
    by (intro fput W) auto
  show "fgets T V (xdr_LOOKUP3resok T) old (enc_LOOKUP3resok ob) (ovr_LOOKUP3resok old ob)" if R: "xdr_reader T V" and ok: "fits_LOOKUP3resok ob"
    unfolding xdr_LOOKUP3resok_def enc_LOOKUP3resok_def
    by (rule fgets_cong, (rule fget R | (simp; fail) |
        (use ok in \<open>simp add: fits_LOOKUP3resok_def; fail\<close>) |
        (cases ob, cases old, simp add: option.map_ident ovr_LOOKUP3resok_def; fail))+)
  show "fsafe T V (xdr_LOOKUP3resok T)" if R: "xdr_reader T V"
    unfolding xdr_LOOKUP3resok_def by (intro fret R; simp)
qed

definition xdr_LOOKUP3res :: "'x tirpc \<Rightarrow> (LOOKUP3res, 'x) filt" where
  "xdr_LOOKUP3res T = xdr_result T (Fin LOOKUP3resok_init) LOOKUP3resok_init (xdr_LOOKUP3resok T)"

interpretation LOOKUP3res_tirpc: tirpc_filter
  xdr_LOOKUP3res "enc_res enc_LOOKUP3resok" "ok_res fits_LOOKUP3resok" "ovr_res (ovr_LOOKUP3resok LOOKUP3resok_init)"
  unfolding xdr_LOOKUP3res_def [abs_def] by (rule LOOKUP3resok_tirpc.result_filter)

section \<open>ACCESS\<close>

definition xdr_ACCESS3args :: "'x tirpc \<Rightarrow> (ACCESS3args, 'x) filt" where
  "xdr_ACCESS3args T = fseq [
     ffld ACCESS3args.object ACCESS3args.object_update (xdr_nfs_fh3 T),
     ffld ACCESS3args.access ACCESS3args.access_update (prim (xdr_u_int T))]"

definition fits_ACCESS3args :: "ACCESS3args \<Rightarrow> bool" where
  "fits_ACCESS3args ob \<longleftrightarrow> fits_nfs_fh3 (ACCESS3args.object ob)"

interpretation ACCESS3args_tirpc: tirpc_filter
  xdr_ACCESS3args enc_ACCESS3args fits_ACCESS3args "\<lambda>_ ob. ob"
proof unfold_locales
  fix T V and ob old :: ACCESS3args
  show "fputs T V (xdr_ACCESS3args T) ob (enc_ACCESS3args ob)" if W: "xdr_writer T V" and ok: "fits_ACCESS3args ob"
    unfolding xdr_ACCESS3args_def enc_ACCESS3args_def using ok [unfolded fits_ACCESS3args_def]
    by (intro fput W) auto
  show "fgets T V (xdr_ACCESS3args T) old (enc_ACCESS3args ob) ob" if R: "xdr_reader T V" and ok: "fits_ACCESS3args ob"
    unfolding xdr_ACCESS3args_def enc_ACCESS3args_def
    by (rule fgets_cong, (rule fget R | (simp; fail) |
        (use ok in \<open>simp add: fits_ACCESS3args_def; fail\<close>) |
        (cases ob, cases old, simp add: option.map_ident; fail))+)
  show "fsafe T V (xdr_ACCESS3args T)" if R: "xdr_reader T V"
    unfolding xdr_ACCESS3args_def by (intro fret R; simp)
qed

definition xdr_ACCESS3resok :: "'x tirpc \<Rightarrow> (ACCESS3resok, 'x) filt" where
  "xdr_ACCESS3resok T = fseq [
     ffld ACCESS3resok.obj_attributes ACCESS3resok.obj_attributes_update (xdr_post_op_attr T),
     ffld ACCESS3resok.access ACCESS3resok.access_update (prim (xdr_u_int T))]"

interpretation ACCESS3resok_tirpc: tirpc_filter
  xdr_ACCESS3resok enc_ACCESS3resok "\<lambda>_. True" ovr_ACCESS3resok
proof unfold_locales
  fix T V and ob old :: ACCESS3resok
  show "fputs T V (xdr_ACCESS3resok T) ob (enc_ACCESS3resok ob)" if W: "xdr_writer T V"
    unfolding xdr_ACCESS3resok_def enc_ACCESS3resok_def
    by (intro fput W) simp_all
  show "fgets T V (xdr_ACCESS3resok T) old (enc_ACCESS3resok ob) (ovr_ACCESS3resok old ob)" if R: "xdr_reader T V"
    unfolding xdr_ACCESS3resok_def enc_ACCESS3resok_def
    by (rule fgets_cong, (rule fget R | (simp; fail) |
        (cases ob, cases old, simp add: option.map_ident ovr_ACCESS3resok_def; fail))+)
  show "fsafe T V (xdr_ACCESS3resok T)" if R: "xdr_reader T V"
    unfolding xdr_ACCESS3resok_def by (intro fret R; simp)
qed

definition xdr_ACCESS3res :: "'x tirpc \<Rightarrow> (ACCESS3res, 'x) filt" where
  "xdr_ACCESS3res T = xdr_result T (Fin ACCESS3resok_init) ACCESS3resok_init (xdr_ACCESS3resok T)"

interpretation ACCESS3res_tirpc: tirpc_filter
  xdr_ACCESS3res "enc_res enc_ACCESS3resok" "ok_res (\<lambda>_. True)" "ovr_res (ovr_ACCESS3resok ACCESS3resok_init)"
  unfolding xdr_ACCESS3res_def [abs_def] by (rule ACCESS3resok_tirpc.result_filter)

section \<open>READLINK\<close>

definition xdr_READLINK3args :: "'x tirpc \<Rightarrow> (READLINK3args, 'x) filt" where
  "xdr_READLINK3args T = fseq [
     ffld READLINK3args.symlink READLINK3args.symlink_update (xdr_nfs_fh3 T)]"

definition fits_READLINK3args :: "READLINK3args \<Rightarrow> bool" where
  "fits_READLINK3args ob \<longleftrightarrow> fits_nfs_fh3 (READLINK3args.symlink ob)"

interpretation READLINK3args_tirpc: tirpc_filter
  xdr_READLINK3args enc_READLINK3args fits_READLINK3args "\<lambda>_ ob. ob"
proof unfold_locales
  fix T V and ob old :: READLINK3args
  show "fputs T V (xdr_READLINK3args T) ob (enc_READLINK3args ob)" if W: "xdr_writer T V" and ok: "fits_READLINK3args ob"
    unfolding xdr_READLINK3args_def enc_READLINK3args_def using ok [unfolded fits_READLINK3args_def]
    by (intro fput W) auto
  show "fgets T V (xdr_READLINK3args T) old (enc_READLINK3args ob) ob" if R: "xdr_reader T V" and ok: "fits_READLINK3args ob"
    unfolding xdr_READLINK3args_def enc_READLINK3args_def
    by (rule fgets_cong, (rule fget R | (simp; fail) |
        (use ok in \<open>simp add: fits_READLINK3args_def; fail\<close>) |
        (cases ob, cases old, simp add: option.map_ident; fail))+)
  show "fsafe T V (xdr_READLINK3args T)" if R: "xdr_reader T V"
    unfolding xdr_READLINK3args_def by (intro fret R; simp)
qed

definition xdr_READLINK3resok :: "'x tirpc \<Rightarrow> (READLINK3resok, 'x) filt" where
  "xdr_READLINK3resok T = fseq [
     ffld READLINK3resok.symlink_attributes READLINK3resok.symlink_attributes_update (xdr_post_op_attr T),
     ffld READLINK3resok.data READLINK3resok.data_update (name_fresh T 4096)]"

definition fits_READLINK3resok :: "READLINK3resok \<Rightarrow> bool" where
  "fits_READLINK3resok ob \<longleftrightarrow> c_name 4096 (READLINK3resok.data ob)"

interpretation READLINK3resok_tirpc: tirpc_filter
  xdr_READLINK3resok enc_READLINK3resok fits_READLINK3resok ovr_READLINK3resok
proof unfold_locales
  fix T V and ob old :: READLINK3resok
  show "fputs T V (xdr_READLINK3resok T) ob (enc_READLINK3resok ob)" if W: "xdr_writer T V" and ok: "fits_READLINK3resok ob"
    unfolding xdr_READLINK3resok_def enc_READLINK3resok_def using ok [unfolded fits_READLINK3resok_def]
    by (intro fput W) auto
  show "fgets T V (xdr_READLINK3resok T) old (enc_READLINK3resok ob) (ovr_READLINK3resok old ob)" if R: "xdr_reader T V" and ok: "fits_READLINK3resok ob"
    unfolding xdr_READLINK3resok_def enc_READLINK3resok_def
    by (rule fgets_cong, (rule fget R | (simp; fail) |
        (use ok in \<open>simp add: fits_READLINK3resok_def; fail\<close>) |
        (cases ob, cases old, simp add: option.map_ident ovr_READLINK3resok_def; fail))+)
  show "fsafe T V (xdr_READLINK3resok T)" if R: "xdr_reader T V"
    unfolding xdr_READLINK3resok_def by (intro fret R; simp)
qed

definition xdr_READLINK3res :: "'x tirpc \<Rightarrow> (READLINK3res, 'x) filt" where
  "xdr_READLINK3res T = xdr_result T (Fin READLINK3resok_init) READLINK3resok_init (xdr_READLINK3resok T)"

interpretation READLINK3res_tirpc: tirpc_filter
  xdr_READLINK3res "enc_res enc_READLINK3resok" "ok_res fits_READLINK3resok" "ovr_res (ovr_READLINK3resok READLINK3resok_init)"
  unfolding xdr_READLINK3res_def [abs_def] by (rule READLINK3resok_tirpc.result_filter)

section \<open>READ\<close>

definition xdr_READ3args :: "'x tirpc \<Rightarrow> (READ3args, 'x) filt" where
  "xdr_READ3args T = fseq [
     ffld READ3args.file3 READ3args.file3_update (xdr_nfs_fh3 T),
     ffld READ3args.offset READ3args.offset_update (prim (xdr_u_hyper T)),
     ffld READ3args.count READ3args.count_update (prim (xdr_u_int T))]"

definition fits_READ3args :: "READ3args \<Rightarrow> bool" where
  "fits_READ3args ob \<longleftrightarrow> fits_nfs_fh3 (READ3args.file3 ob)"

interpretation READ3args_tirpc: tirpc_filter
  xdr_READ3args enc_READ3args fits_READ3args "\<lambda>_ ob. ob"
proof unfold_locales
  fix T V and ob old :: READ3args
  show "fputs T V (xdr_READ3args T) ob (enc_READ3args ob)" if W: "xdr_writer T V" and ok: "fits_READ3args ob"
    unfolding xdr_READ3args_def enc_READ3args_def using ok [unfolded fits_READ3args_def]
    by (intro fput W) auto
  show "fgets T V (xdr_READ3args T) old (enc_READ3args ob) ob" if R: "xdr_reader T V" and ok: "fits_READ3args ob"
    unfolding xdr_READ3args_def enc_READ3args_def
    by (rule fgets_cong, (rule fget R | (simp; fail) |
        (use ok in \<open>simp add: fits_READ3args_def; fail\<close>) |
        (cases ob, cases old, simp add: option.map_ident; fail))+)
  show "fsafe T V (xdr_READ3args T)" if R: "xdr_reader T V"
    unfolding xdr_READ3args_def by (intro fret R; simp)
qed

definition xdr_READ3resok :: "'x tirpc \<Rightarrow> (READ3resok, 'x) filt" where
  "xdr_READ3resok T = fseq [
     ffld READ3resok.file_attributes READ3resok.file_attributes_update (xdr_post_op_attr T),
     ffld READ3resok.count READ3resok.count_update (prim (xdr_u_hyper T)),
     ffld READ3resok.eof READ3resok.eof_update (bool_member T),
     ffld READ3resok.data READ3resok.data_update (bytes_fresh T 65536)]"

definition fits_READ3resok :: "READ3resok \<Rightarrow> bool" where
  "fits_READ3resok ob \<longleftrightarrow> length (READ3resok.data ob) \<le> 65536"

interpretation READ3resok_tirpc: tirpc_filter
  xdr_READ3resok enc_READ3resok fits_READ3resok ovr_READ3resok
proof unfold_locales
  fix T V and ob old :: READ3resok
  show "fputs T V (xdr_READ3resok T) ob (enc_READ3resok ob)" if W: "xdr_writer T V" and ok: "fits_READ3resok ob"
    unfolding xdr_READ3resok_def enc_READ3resok_def using ok [unfolded fits_READ3resok_def]
    by (intro fput W) auto
  show "fgets T V (xdr_READ3resok T) old (enc_READ3resok ob) (ovr_READ3resok old ob)" if R: "xdr_reader T V" and ok: "fits_READ3resok ob"
    unfolding xdr_READ3resok_def enc_READ3resok_def
    by (rule fgets_cong, (rule fget R | (simp; fail) |
        (use ok in \<open>simp add: fits_READ3resok_def; fail\<close>) |
        (cases ob, cases old, simp add: option.map_ident ovr_READ3resok_def; fail))+)
  show "fsafe T V (xdr_READ3resok T)" if R: "xdr_reader T V"
    unfolding xdr_READ3resok_def by (intro fret R; simp)
qed

definition xdr_READ3res :: "'x tirpc \<Rightarrow> (READ3res, 'x) filt" where
  "xdr_READ3res T = xdr_result T (Fin READ3resok_init) READ3resok_init (xdr_READ3resok T)"

interpretation READ3res_tirpc: tirpc_filter
  xdr_READ3res "enc_res enc_READ3resok" "ok_res fits_READ3resok" "ovr_res (ovr_READ3resok READ3resok_init)"
  unfolding xdr_READ3res_def [abs_def] by (rule READ3resok_tirpc.result_filter)

section \<open>WRITE\<close>

definition xdr_WRITE3args :: "'x tirpc \<Rightarrow> (WRITE3args, 'x) filt" where
  "xdr_WRITE3args T = fseq [
     ffld WRITE3args.file3 WRITE3args.file3_update (xdr_nfs_fh3 T),
     ffld WRITE3args.offset WRITE3args.offset_update (prim (xdr_u_hyper T)),
     ffld WRITE3args.count WRITE3args.count_update (prim (xdr_u_int T)),
     ffld WRITE3args.stable WRITE3args.stable_update (enum_member T),
     ffld WRITE3args.data WRITE3args.data_update (bytes_in_place T 65536)]"

definition fits_WRITE3args :: "WRITE3args \<Rightarrow> bool" where
  "fits_WRITE3args ob \<longleftrightarrow> fits_nfs_fh3 (WRITE3args.file3 ob) \<and>
     length (WRITE3args.data ob) \<le> 65536"

interpretation WRITE3args_tirpc: tirpc_writer
  xdr_WRITE3args enc_WRITE3args fits_WRITE3args
proof unfold_locales
  fix T V and ob :: WRITE3args
  show "fputs T V (xdr_WRITE3args T) ob (enc_WRITE3args ob)" if W: "xdr_writer T V" and ok: "fits_WRITE3args ob"
    unfolding xdr_WRITE3args_def enc_WRITE3args_def using ok [unfolded fits_WRITE3args_def]
    by (intro fput W) auto
qed

definition xdr_WRITE3resok :: "'x tirpc \<Rightarrow> (WRITE3resok, 'x) filt" where
  "xdr_WRITE3resok T = fseq [
     ffld WRITE3resok.file_attributes WRITE3resok.file_attributes_update (xdr_post_op_attr T),
     ffld WRITE3resok.count WRITE3resok.count_update (prim (xdr_u_int T)),
     ffld WRITE3resok.committed WRITE3resok.committed_update (enum_member T),
     ffld WRITE3resok.verf WRITE3resok.verf_update (xdr_writeverf3 T)]"

definition tenc_WRITE3resok :: "WRITE3resok \<Rightarrow> bytes" where
  "tenc_WRITE3resok ob =
     enc_post_op_attr (WRITE3resok.file_attributes ob) @
     be32 (WRITE3resok.count ob) @
     be32 (WRITE3resok.committed ob) @
     tenc_writeverf3 (WRITE3resok.verf ob)"

definition fits_WRITE3resok :: "WRITE3resok \<Rightarrow> bool" where
  "fits_WRITE3resok ob \<longleftrightarrow> fits_writeverf3 (WRITE3resok.verf ob)"

interpretation WRITE3resok_tirpc: tirpc_filter
  xdr_WRITE3resok tenc_WRITE3resok fits_WRITE3resok ovr_WRITE3resok
proof unfold_locales
  fix T V and ob old :: WRITE3resok
  show "fputs T V (xdr_WRITE3resok T) ob (tenc_WRITE3resok ob)" if W: "xdr_writer T V" and ok: "fits_WRITE3resok ob"
    unfolding xdr_WRITE3resok_def tenc_WRITE3resok_def using ok [unfolded fits_WRITE3resok_def]
    by (intro fput W) auto
  show "fgets T V (xdr_WRITE3resok T) old (tenc_WRITE3resok ob) (ovr_WRITE3resok old ob)" if R: "xdr_reader T V" and ok: "fits_WRITE3resok ob"
    unfolding xdr_WRITE3resok_def tenc_WRITE3resok_def
    by (rule fgets_cong, (rule fget R | (simp; fail) |
        (use ok in \<open>simp add: fits_WRITE3resok_def; fail\<close>) |
        (cases ob, cases old, simp add: option.map_ident ovr_WRITE3resok_def; fail))+)
  show "fsafe T V (xdr_WRITE3resok T)" if R: "xdr_reader T V"
    unfolding xdr_WRITE3resok_def by (intro fret R; simp)
qed

definition xdr_WRITE3res :: "bytes \<Rightarrow> 'x tirpc \<Rightarrow> (WRITE3res, 'x) filt" where
  "xdr_WRITE3res ind T = xdr_result T (Fin (WRITE3resok_init ind)) (WRITE3resok_init ind) (xdr_WRITE3resok T)"

interpretation WRITE3res_tirpc: tirpc_filter
  "xdr_WRITE3res ind" "enc_res tenc_WRITE3resok" "ok_res fits_WRITE3resok" "ovr_res (ovr_WRITE3resok (WRITE3resok_init ind))" for ind
  unfolding xdr_WRITE3res_def [abs_def] by (rule WRITE3resok_tirpc.result_filter)

end
