(* ===== verification/TirpcProcsB.thy ===== *)
theory TirpcProcsB
  imports TirpcTypes Nfs3ProcsB
begin

text \<open>
  The filters of \<^verbatim>\<open>nfs3_xdr.cpp\<close> for the arguments and results of CREATE to LINK.
\<close>

section \<open>CREATE\<close>

definition xdr_CREATE3args :: "'x tirpc \<Rightarrow> (CREATE3args, 'x) filt" where
  "xdr_CREATE3args T = fseq [
     ffld CREATE3args.where_dir CREATE3args.where_dir_update (xdr_nfs_fh3 T),
     ffld CREATE3args.where_name CREATE3args.where_name_update (name_in_place T 255),
     ffld CREATE3args.how_mode CREATE3args.how_mode_update (enum_member T),
     ffld CREATE3args.how_attributes CREATE3args.how_attributes_update (xdr_sattr3 T),
     fwhen (\<lambda>ob. CREATE3args.how_mode ob = EXCLUSIVE) (ffld CREATE3args.how_verf CREATE3args.how_verf_update (xdr_createverf3 T))]"

definition tenc_CREATE3args :: "CREATE3args \<Rightarrow> bytes" where
  "tenc_CREATE3args ob =
     enc_nfs_fh3 (CREATE3args.where_dir ob) @
     enc_string (CREATE3args.where_name ob) @
     be32 (CREATE3args.how_mode ob) @
     tenc_sattr3 (CREATE3args.how_attributes ob) @
     (if CREATE3args.how_mode ob = EXCLUSIVE then tenc_createverf3 (CREATE3args.how_verf ob) else [])"

definition fits_CREATE3args :: "CREATE3args \<Rightarrow> bool" where
  "fits_CREATE3args ob \<longleftrightarrow> fits_nfs_fh3 (CREATE3args.where_dir ob) \<and>
     c_name 255 (CREATE3args.where_name ob) \<and>
     fits_createverf3 (CREATE3args.how_verf ob)"

interpretation CREATE3args_tirpc: tirpc_writer
  xdr_CREATE3args tenc_CREATE3args fits_CREATE3args
proof unfold_locales
  fix T V and ob :: CREATE3args
  show "fputs T V (xdr_CREATE3args T) ob (tenc_CREATE3args ob)" if W: "xdr_writer T V" and ok: "fits_CREATE3args ob"
    unfolding xdr_CREATE3args_def tenc_CREATE3args_def using ok [unfolded fits_CREATE3args_def]
    by (intro fput W) auto
qed

definition xdr_CREATE3resok :: "'x tirpc \<Rightarrow> (CREATE3resok, 'x) filt" where
  "xdr_CREATE3resok T = fseq [
     ffld CREATE3resok.obj_attributes CREATE3resok.obj_attributes_update (xdr_post_op_attr T),
     ffld CREATE3resok.dir_wcc CREATE3resok.dir_wcc_update (xdr_wcc_data T),
     ffld CREATE3resok.object CREATE3resok.object_update (xdr_nfs_fh3 T)]"

definition fits_CREATE3resok :: "CREATE3resok \<Rightarrow> bool" where
  "fits_CREATE3resok ob \<longleftrightarrow> fits_nfs_fh3 (CREATE3resok.object ob)"

interpretation CREATE3resok_tirpc: tirpc_filter
  xdr_CREATE3resok enc_CREATE3resok fits_CREATE3resok ovr_CREATE3resok
proof unfold_locales
  fix T V and ob old :: CREATE3resok
  show "fputs T V (xdr_CREATE3resok T) ob (enc_CREATE3resok ob)" if W: "xdr_writer T V" and ok: "fits_CREATE3resok ob"
    unfolding xdr_CREATE3resok_def enc_CREATE3resok_def using ok [unfolded fits_CREATE3resok_def]
    by (intro fput W) auto
  show "fgets T V (xdr_CREATE3resok T) old (enc_CREATE3resok ob) (ovr_CREATE3resok old ob)" if R: "xdr_reader T V" and ok: "fits_CREATE3resok ob"
    unfolding xdr_CREATE3resok_def enc_CREATE3resok_def
    by (rule fgets_cong, (rule fget R | (simp; fail) |
        (use ok in \<open>simp add: fits_CREATE3resok_def; fail\<close>) |
        (cases ob, cases old, simp add: option.map_ident ovr_CREATE3resok_def; fail))+)
  show "fsafe T V (xdr_CREATE3resok T)" if R: "xdr_reader T V"
    unfolding xdr_CREATE3resok_def by (intro fret R; simp)
qed

definition xdr_CREATE3res :: "'x tirpc \<Rightarrow> (CREATE3res, 'x) filt" where
  "xdr_CREATE3res T = xdr_result T (Fin CREATE3resok_init) CREATE3resok_init (xdr_CREATE3resok T)"

interpretation CREATE3res_tirpc: tirpc_filter
  xdr_CREATE3res "enc_res enc_CREATE3resok" "ok_res fits_CREATE3resok" "ovr_res (ovr_CREATE3resok CREATE3resok_init)"
  unfolding xdr_CREATE3res_def [abs_def] by (rule CREATE3resok_tirpc.result_filter)

section \<open>MKDIR\<close>

definition xdr_MKDIR3args :: "'x tirpc \<Rightarrow> (MKDIR3args, 'x) filt" where
  "xdr_MKDIR3args T = fseq [
     ffld MKDIR3args.where_dir MKDIR3args.where_dir_update (xdr_nfs_fh3 T),
     ffld MKDIR3args.where_name MKDIR3args.where_name_update (name_in_place T 255),
     ffld MKDIR3args.attributes MKDIR3args.attributes_update (xdr_sattr3 T)]"

definition tenc_MKDIR3args :: "MKDIR3args \<Rightarrow> bytes" where
  "tenc_MKDIR3args ob =
     enc_nfs_fh3 (MKDIR3args.where_dir ob) @
     enc_string (MKDIR3args.where_name ob) @
     tenc_sattr3 (MKDIR3args.attributes ob)"

definition fits_MKDIR3args :: "MKDIR3args \<Rightarrow> bool" where
  "fits_MKDIR3args ob \<longleftrightarrow> fits_nfs_fh3 (MKDIR3args.where_dir ob) \<and>
     c_name 255 (MKDIR3args.where_name ob)"

interpretation MKDIR3args_tirpc: tirpc_writer
  xdr_MKDIR3args tenc_MKDIR3args fits_MKDIR3args
proof unfold_locales
  fix T V and ob :: MKDIR3args
  show "fputs T V (xdr_MKDIR3args T) ob (tenc_MKDIR3args ob)" if W: "xdr_writer T V" and ok: "fits_MKDIR3args ob"
    unfolding xdr_MKDIR3args_def tenc_MKDIR3args_def using ok [unfolded fits_MKDIR3args_def]
    by (intro fput W) auto
qed

definition xdr_MKDIR3resok :: "'x tirpc \<Rightarrow> (MKDIR3resok, 'x) filt" where
  "xdr_MKDIR3resok T = fseq [
     ffld MKDIR3resok.obj_attributes MKDIR3resok.obj_attributes_update (xdr_post_op_attr T),
     ffld MKDIR3resok.dir_wcc MKDIR3resok.dir_wcc_update (xdr_wcc_data T),
     ffld MKDIR3resok.object MKDIR3resok.object_update (xdr_nfs_fh3 T)]"

definition fits_MKDIR3resok :: "MKDIR3resok \<Rightarrow> bool" where
  "fits_MKDIR3resok ob \<longleftrightarrow> fits_nfs_fh3 (MKDIR3resok.object ob)"

interpretation MKDIR3resok_tirpc: tirpc_filter
  xdr_MKDIR3resok enc_MKDIR3resok fits_MKDIR3resok ovr_MKDIR3resok
proof unfold_locales
  fix T V and ob old :: MKDIR3resok
  show "fputs T V (xdr_MKDIR3resok T) ob (enc_MKDIR3resok ob)" if W: "xdr_writer T V" and ok: "fits_MKDIR3resok ob"
    unfolding xdr_MKDIR3resok_def enc_MKDIR3resok_def using ok [unfolded fits_MKDIR3resok_def]
    by (intro fput W) auto
  show "fgets T V (xdr_MKDIR3resok T) old (enc_MKDIR3resok ob) (ovr_MKDIR3resok old ob)" if R: "xdr_reader T V" and ok: "fits_MKDIR3resok ob"
    unfolding xdr_MKDIR3resok_def enc_MKDIR3resok_def
    by (rule fgets_cong, (rule fget R | (simp; fail) |
        (use ok in \<open>simp add: fits_MKDIR3resok_def; fail\<close>) |
        (cases ob, cases old, simp add: option.map_ident ovr_MKDIR3resok_def; fail))+)
  show "fsafe T V (xdr_MKDIR3resok T)" if R: "xdr_reader T V"
    unfolding xdr_MKDIR3resok_def by (intro fret R; simp)
qed

definition xdr_MKDIR3res :: "'x tirpc \<Rightarrow> (MKDIR3res, 'x) filt" where
  "xdr_MKDIR3res T = xdr_result T (Fin MKDIR3resok_init) MKDIR3resok_init (xdr_MKDIR3resok T)"

interpretation MKDIR3res_tirpc: tirpc_filter
  xdr_MKDIR3res "enc_res enc_MKDIR3resok" "ok_res fits_MKDIR3resok" "ovr_res (ovr_MKDIR3resok MKDIR3resok_init)"
  unfolding xdr_MKDIR3res_def [abs_def] by (rule MKDIR3resok_tirpc.result_filter)

section \<open>SYMLINK\<close>

definition xdr_SYMLINK3args :: "'x tirpc \<Rightarrow> (SYMLINK3args, 'x) filt" where
  "xdr_SYMLINK3args T = fseq [
     ffld SYMLINK3args.where_dir SYMLINK3args.where_dir_update (xdr_nfs_fh3 T),
     ffld SYMLINK3args.where_name SYMLINK3args.where_name_update (name_in_place T 255),
     ffld SYMLINK3args.symlink_attributes SYMLINK3args.symlink_attributes_update (xdr_sattr3 T),
     ffld SYMLINK3args.symlink_data SYMLINK3args.symlink_data_update (name_in_place T 4096)]"

definition tenc_SYMLINK3args :: "SYMLINK3args \<Rightarrow> bytes" where
  "tenc_SYMLINK3args ob =
     enc_nfs_fh3 (SYMLINK3args.where_dir ob) @
     enc_string (SYMLINK3args.where_name ob) @
     tenc_sattr3 (SYMLINK3args.symlink_attributes ob) @
     enc_string (SYMLINK3args.symlink_data ob)"

definition fits_SYMLINK3args :: "SYMLINK3args \<Rightarrow> bool" where
  "fits_SYMLINK3args ob \<longleftrightarrow> fits_nfs_fh3 (SYMLINK3args.where_dir ob) \<and>
     c_name 255 (SYMLINK3args.where_name ob) \<and>
     c_name 4096 (SYMLINK3args.symlink_data ob)"

interpretation SYMLINK3args_tirpc: tirpc_writer
  xdr_SYMLINK3args tenc_SYMLINK3args fits_SYMLINK3args
proof unfold_locales
  fix T V and ob :: SYMLINK3args
  show "fputs T V (xdr_SYMLINK3args T) ob (tenc_SYMLINK3args ob)" if W: "xdr_writer T V" and ok: "fits_SYMLINK3args ob"
    unfolding xdr_SYMLINK3args_def tenc_SYMLINK3args_def using ok [unfolded fits_SYMLINK3args_def]
    by (intro fput W) auto
qed

definition xdr_SYMLINK3resok :: "'x tirpc \<Rightarrow> (SYMLINK3resok, 'x) filt" where
  "xdr_SYMLINK3resok T = fseq [
     ffld SYMLINK3resok.obj_attributes SYMLINK3resok.obj_attributes_update (xdr_post_op_attr T),
     ffld SYMLINK3resok.dir_wcc SYMLINK3resok.dir_wcc_update (xdr_wcc_data T),
     ffld SYMLINK3resok.object SYMLINK3resok.object_update (xdr_nfs_fh3 T)]"

definition fits_SYMLINK3resok :: "SYMLINK3resok \<Rightarrow> bool" where
  "fits_SYMLINK3resok ob \<longleftrightarrow> fits_nfs_fh3 (SYMLINK3resok.object ob)"

interpretation SYMLINK3resok_tirpc: tirpc_filter
  xdr_SYMLINK3resok enc_SYMLINK3resok fits_SYMLINK3resok ovr_SYMLINK3resok
proof unfold_locales
  fix T V and ob old :: SYMLINK3resok
  show "fputs T V (xdr_SYMLINK3resok T) ob (enc_SYMLINK3resok ob)" if W: "xdr_writer T V" and ok: "fits_SYMLINK3resok ob"
    unfolding xdr_SYMLINK3resok_def enc_SYMLINK3resok_def using ok [unfolded fits_SYMLINK3resok_def]
    by (intro fput W) auto
  show "fgets T V (xdr_SYMLINK3resok T) old (enc_SYMLINK3resok ob) (ovr_SYMLINK3resok old ob)" if R: "xdr_reader T V" and ok: "fits_SYMLINK3resok ob"
    unfolding xdr_SYMLINK3resok_def enc_SYMLINK3resok_def
    by (rule fgets_cong, (rule fget R | (simp; fail) |
        (use ok in \<open>simp add: fits_SYMLINK3resok_def; fail\<close>) |
        (cases ob, cases old, simp add: option.map_ident ovr_SYMLINK3resok_def; fail))+)
  show "fsafe T V (xdr_SYMLINK3resok T)" if R: "xdr_reader T V"
    unfolding xdr_SYMLINK3resok_def by (intro fret R; simp)
qed

definition xdr_SYMLINK3res :: "'x tirpc \<Rightarrow> (SYMLINK3res, 'x) filt" where
  "xdr_SYMLINK3res T = xdr_result T (Fin SYMLINK3resok_init) SYMLINK3resok_init (xdr_SYMLINK3resok T)"

interpretation SYMLINK3res_tirpc: tirpc_filter
  xdr_SYMLINK3res "enc_res enc_SYMLINK3resok" "ok_res fits_SYMLINK3resok" "ovr_res (ovr_SYMLINK3resok SYMLINK3resok_init)"
  unfolding xdr_SYMLINK3res_def [abs_def] by (rule SYMLINK3resok_tirpc.result_filter)

section \<open>MKNOD\<close>

definition xdr_MKNOD3args :: "'x tirpc \<Rightarrow> (MKNOD3args, 'x) filt" where
  "xdr_MKNOD3args T = fseq [
     ffld MKNOD3args.where_dir MKNOD3args.where_dir_update (xdr_nfs_fh3 T),
     ffld MKNOD3args.where_name MKNOD3args.where_name_update (name_in_place T 255),
     ffld MKNOD3args.what_type MKNOD3args.what_type_update (enum_member T),
     ffld MKNOD3args.what_attributes MKNOD3args.what_attributes_update (xdr_sattr3 T)]"

definition tenc_MKNOD3args :: "MKNOD3args \<Rightarrow> bytes" where
  "tenc_MKNOD3args ob =
     enc_nfs_fh3 (MKNOD3args.where_dir ob) @
     enc_string (MKNOD3args.where_name ob) @
     be32 (MKNOD3args.what_type ob) @
     tenc_sattr3 (MKNOD3args.what_attributes ob)"

definition fits_MKNOD3args :: "MKNOD3args \<Rightarrow> bool" where
  "fits_MKNOD3args ob \<longleftrightarrow> fits_nfs_fh3 (MKNOD3args.where_dir ob) \<and>
     c_name 255 (MKNOD3args.where_name ob)"

interpretation MKNOD3args_tirpc: tirpc_writer
  xdr_MKNOD3args tenc_MKNOD3args fits_MKNOD3args
proof unfold_locales
  fix T V and ob :: MKNOD3args
  show "fputs T V (xdr_MKNOD3args T) ob (tenc_MKNOD3args ob)" if W: "xdr_writer T V" and ok: "fits_MKNOD3args ob"
    unfolding xdr_MKNOD3args_def tenc_MKNOD3args_def using ok [unfolded fits_MKNOD3args_def]
    by (intro fput W) auto
qed

definition xdr_MKNOD3resok :: "'x tirpc \<Rightarrow> (MKNOD3resok, 'x) filt" where
  "xdr_MKNOD3resok T = fseq [
     ffld MKNOD3resok.obj_attributes MKNOD3resok.obj_attributes_update (xdr_post_op_attr T),
     ffld MKNOD3resok.dir_wcc MKNOD3resok.dir_wcc_update (xdr_wcc_data T),
     ffld MKNOD3resok.object MKNOD3resok.object_update (xdr_nfs_fh3 T)]"

definition fits_MKNOD3resok :: "MKNOD3resok \<Rightarrow> bool" where
  "fits_MKNOD3resok ob \<longleftrightarrow> fits_nfs_fh3 (MKNOD3resok.object ob)"

interpretation MKNOD3resok_tirpc: tirpc_filter
  xdr_MKNOD3resok enc_MKNOD3resok fits_MKNOD3resok ovr_MKNOD3resok
proof unfold_locales
  fix T V and ob old :: MKNOD3resok
  show "fputs T V (xdr_MKNOD3resok T) ob (enc_MKNOD3resok ob)" if W: "xdr_writer T V" and ok: "fits_MKNOD3resok ob"
    unfolding xdr_MKNOD3resok_def enc_MKNOD3resok_def using ok [unfolded fits_MKNOD3resok_def]
    by (intro fput W) auto
  show "fgets T V (xdr_MKNOD3resok T) old (enc_MKNOD3resok ob) (ovr_MKNOD3resok old ob)" if R: "xdr_reader T V" and ok: "fits_MKNOD3resok ob"
    unfolding xdr_MKNOD3resok_def enc_MKNOD3resok_def
    by (rule fgets_cong, (rule fget R | (simp; fail) |
        (use ok in \<open>simp add: fits_MKNOD3resok_def; fail\<close>) |
        (cases ob, cases old, simp add: option.map_ident ovr_MKNOD3resok_def; fail))+)
  show "fsafe T V (xdr_MKNOD3resok T)" if R: "xdr_reader T V"
    unfolding xdr_MKNOD3resok_def by (intro fret R; simp)
qed

definition xdr_MKNOD3res :: "'x tirpc \<Rightarrow> (MKNOD3res, 'x) filt" where
  "xdr_MKNOD3res T = xdr_result T (Fin MKNOD3resok_init) MKNOD3resok_init (xdr_MKNOD3resok T)"

interpretation MKNOD3res_tirpc: tirpc_filter
  xdr_MKNOD3res "enc_res enc_MKNOD3resok" "ok_res fits_MKNOD3resok" "ovr_res (ovr_MKNOD3resok MKNOD3resok_init)"
  unfolding xdr_MKNOD3res_def [abs_def] by (rule MKNOD3resok_tirpc.result_filter)

section \<open>REMOVE and RMDIR\<close>

definition xdr_REMOVE3args :: "'x tirpc \<Rightarrow> (REMOVE3args, 'x) filt" where
  "xdr_REMOVE3args T = fseq [
     ffld REMOVE3args.object_dir REMOVE3args.object_dir_update (xdr_nfs_fh3 T),
     ffld REMOVE3args.object_name REMOVE3args.object_name_update (name_in_place T 255)]"

definition fits_REMOVE3args :: "REMOVE3args \<Rightarrow> bool" where
  "fits_REMOVE3args ob \<longleftrightarrow> fits_nfs_fh3 (REMOVE3args.object_dir ob) \<and>
     c_name 255 (REMOVE3args.object_name ob)"

interpretation REMOVE3args_tirpc: tirpc_writer
  xdr_REMOVE3args enc_REMOVE3args fits_REMOVE3args
proof unfold_locales
  fix T V and ob :: REMOVE3args
  show "fputs T V (xdr_REMOVE3args T) ob (enc_REMOVE3args ob)" if W: "xdr_writer T V" and ok: "fits_REMOVE3args ob"
    unfolding xdr_REMOVE3args_def enc_REMOVE3args_def using ok [unfolded fits_REMOVE3args_def]
    by (intro fput W) auto
qed

definition xdr_REMOVE3resok :: "'x tirpc \<Rightarrow> (REMOVE3resok, 'x) filt" where
  "xdr_REMOVE3resok T = fseq [
     ffld REMOVE3resok.dir_wcc REMOVE3resok.dir_wcc_update (xdr_wcc_data T)]"

interpretation REMOVE3resok_tirpc: tirpc_filter
  xdr_REMOVE3resok enc_REMOVE3resok "\<lambda>_. True" ovr_REMOVE3resok
proof unfold_locales
  fix T V and ob old :: REMOVE3resok
  show "fputs T V (xdr_REMOVE3resok T) ob (enc_REMOVE3resok ob)" if W: "xdr_writer T V"
    unfolding xdr_REMOVE3resok_def enc_REMOVE3resok_def
    by (intro fput W) simp_all
  show "fgets T V (xdr_REMOVE3resok T) old (enc_REMOVE3resok ob) (ovr_REMOVE3resok old ob)" if R: "xdr_reader T V"
    unfolding xdr_REMOVE3resok_def enc_REMOVE3resok_def
    by (rule fgets_cong, (rule fget R | (simp; fail) |
        (cases ob, cases old, simp add: option.map_ident ovr_REMOVE3resok_def; fail))+)
  show "fsafe T V (xdr_REMOVE3resok T)" if R: "xdr_reader T V"
    unfolding xdr_REMOVE3resok_def by (intro fret R; simp)
qed

definition xdr_REMOVE3res :: "'x tirpc \<Rightarrow> (REMOVE3res, 'x) filt" where
  "xdr_REMOVE3res T = xdr_result T (Fin REMOVE3resok_init) REMOVE3resok_init (xdr_REMOVE3resok T)"

interpretation REMOVE3res_tirpc: tirpc_filter
  xdr_REMOVE3res "enc_res enc_REMOVE3resok" "ok_res (\<lambda>_. True)" "ovr_res (ovr_REMOVE3resok REMOVE3resok_init)"
  unfolding xdr_REMOVE3res_def [abs_def] by (rule REMOVE3resok_tirpc.result_filter)

definition xdr_RMDIR3args :: "'x tirpc \<Rightarrow> (RMDIR3args, 'x) filt" where
  "xdr_RMDIR3args T = fseq [
     ffld RMDIR3args.object_dir RMDIR3args.object_dir_update (xdr_nfs_fh3 T),
     ffld RMDIR3args.object_name RMDIR3args.object_name_update (name_in_place T 255)]"

definition fits_RMDIR3args :: "RMDIR3args \<Rightarrow> bool" where
  "fits_RMDIR3args ob \<longleftrightarrow> fits_nfs_fh3 (RMDIR3args.object_dir ob) \<and>
     c_name 255 (RMDIR3args.object_name ob)"

interpretation RMDIR3args_tirpc: tirpc_writer
  xdr_RMDIR3args enc_RMDIR3args fits_RMDIR3args
proof unfold_locales
  fix T V and ob :: RMDIR3args
  show "fputs T V (xdr_RMDIR3args T) ob (enc_RMDIR3args ob)" if W: "xdr_writer T V" and ok: "fits_RMDIR3args ob"
    unfolding xdr_RMDIR3args_def enc_RMDIR3args_def using ok [unfolded fits_RMDIR3args_def]
    by (intro fput W) auto
qed

definition xdr_RMDIR3resok :: "'x tirpc \<Rightarrow> (RMDIR3resok, 'x) filt" where
  "xdr_RMDIR3resok T = fseq [
     ffld RMDIR3resok.dir_wcc RMDIR3resok.dir_wcc_update (xdr_wcc_data T)]"

interpretation RMDIR3resok_tirpc: tirpc_filter
  xdr_RMDIR3resok enc_RMDIR3resok "\<lambda>_. True" ovr_RMDIR3resok
proof unfold_locales
  fix T V and ob old :: RMDIR3resok
  show "fputs T V (xdr_RMDIR3resok T) ob (enc_RMDIR3resok ob)" if W: "xdr_writer T V"
    unfolding xdr_RMDIR3resok_def enc_RMDIR3resok_def
    by (intro fput W) simp_all
  show "fgets T V (xdr_RMDIR3resok T) old (enc_RMDIR3resok ob) (ovr_RMDIR3resok old ob)" if R: "xdr_reader T V"
    unfolding xdr_RMDIR3resok_def enc_RMDIR3resok_def
    by (rule fgets_cong, (rule fget R | (simp; fail) |
        (cases ob, cases old, simp add: option.map_ident ovr_RMDIR3resok_def; fail))+)
  show "fsafe T V (xdr_RMDIR3resok T)" if R: "xdr_reader T V"
    unfolding xdr_RMDIR3resok_def by (intro fret R; simp)
qed

definition xdr_RMDIR3res :: "'x tirpc \<Rightarrow> (RMDIR3res, 'x) filt" where
  "xdr_RMDIR3res T = xdr_result T (Fin RMDIR3resok_init) RMDIR3resok_init (xdr_RMDIR3resok T)"

interpretation RMDIR3res_tirpc: tirpc_filter
  xdr_RMDIR3res "enc_res enc_RMDIR3resok" "ok_res (\<lambda>_. True)" "ovr_res (ovr_RMDIR3resok RMDIR3resok_init)"
  unfolding xdr_RMDIR3res_def [abs_def] by (rule RMDIR3resok_tirpc.result_filter)

section \<open>RENAME\<close>

definition xdr_RENAME3args :: "'x tirpc \<Rightarrow> (RENAME3args, 'x) filt" where
  "xdr_RENAME3args T = fseq [
     ffld RENAME3args.from_dir RENAME3args.from_dir_update (xdr_nfs_fh3 T),
     ffld RENAME3args.from_name RENAME3args.from_name_update (name_in_place T 255),
     ffld RENAME3args.to_dir RENAME3args.to_dir_update (xdr_nfs_fh3 T),
     ffld RENAME3args.to_name RENAME3args.to_name_update (name_in_place T 255)]"

definition fits_RENAME3args :: "RENAME3args \<Rightarrow> bool" where
  "fits_RENAME3args ob \<longleftrightarrow> fits_nfs_fh3 (RENAME3args.from_dir ob) \<and>
     c_name 255 (RENAME3args.from_name ob) \<and>
     fits_nfs_fh3 (RENAME3args.to_dir ob) \<and>
     c_name 255 (RENAME3args.to_name ob)"

interpretation RENAME3args_tirpc: tirpc_writer
  xdr_RENAME3args enc_RENAME3args fits_RENAME3args
proof unfold_locales
  fix T V and ob :: RENAME3args
  show "fputs T V (xdr_RENAME3args T) ob (enc_RENAME3args ob)" if W: "xdr_writer T V" and ok: "fits_RENAME3args ob"
    unfolding xdr_RENAME3args_def enc_RENAME3args_def using ok [unfolded fits_RENAME3args_def]
    by (intro fput W) auto
qed

definition xdr_RENAME3resok :: "'x tirpc \<Rightarrow> (RENAME3resok, 'x) filt" where
  "xdr_RENAME3resok T = fseq [
     ffld RENAME3resok.fromdir_wcc RENAME3resok.fromdir_wcc_update (xdr_wcc_data T),
     ffld RENAME3resok.todir_wcc RENAME3resok.todir_wcc_update (xdr_wcc_data T)]"

interpretation RENAME3resok_tirpc: tirpc_filter
  xdr_RENAME3resok enc_RENAME3resok "\<lambda>_. True" ovr_RENAME3resok
proof unfold_locales
  fix T V and ob old :: RENAME3resok
  show "fputs T V (xdr_RENAME3resok T) ob (enc_RENAME3resok ob)" if W: "xdr_writer T V"
    unfolding xdr_RENAME3resok_def enc_RENAME3resok_def
    by (intro fput W) simp_all
  show "fgets T V (xdr_RENAME3resok T) old (enc_RENAME3resok ob) (ovr_RENAME3resok old ob)" if R: "xdr_reader T V"
    unfolding xdr_RENAME3resok_def enc_RENAME3resok_def
    by (rule fgets_cong, (rule fget R | (simp; fail) |
        (cases ob, cases old, simp add: option.map_ident ovr_RENAME3resok_def; fail))+)
  show "fsafe T V (xdr_RENAME3resok T)" if R: "xdr_reader T V"
    unfolding xdr_RENAME3resok_def by (intro fret R; simp)
qed

definition xdr_RENAME3res :: "'x tirpc \<Rightarrow> (RENAME3res, 'x) filt" where
  "xdr_RENAME3res T = xdr_result T (Fin RENAME3resok_init) RENAME3resok_init (xdr_RENAME3resok T)"

interpretation RENAME3res_tirpc: tirpc_filter
  xdr_RENAME3res "enc_res enc_RENAME3resok" "ok_res (\<lambda>_. True)" "ovr_res (ovr_RENAME3resok RENAME3resok_init)"
  unfolding xdr_RENAME3res_def [abs_def] by (rule RENAME3resok_tirpc.result_filter)

section \<open>LINK\<close>

definition xdr_LINK3args :: "'x tirpc \<Rightarrow> (LINK3args, 'x) filt" where
  "xdr_LINK3args T = fseq [
     ffld LINK3args.file3 LINK3args.file3_update (xdr_nfs_fh3 T),
     ffld LINK3args.link_dir LINK3args.link_dir_update (xdr_nfs_fh3 T),
     ffld LINK3args.link_name LINK3args.link_name_update (name_in_place T 255)]"

definition fits_LINK3args :: "LINK3args \<Rightarrow> bool" where
  "fits_LINK3args ob \<longleftrightarrow> fits_nfs_fh3 (LINK3args.file3 ob) \<and>
     fits_nfs_fh3 (LINK3args.link_dir ob) \<and>
     c_name 255 (LINK3args.link_name ob)"

interpretation LINK3args_tirpc: tirpc_writer
  xdr_LINK3args enc_LINK3args fits_LINK3args
proof unfold_locales
  fix T V and ob :: LINK3args
  show "fputs T V (xdr_LINK3args T) ob (enc_LINK3args ob)" if W: "xdr_writer T V" and ok: "fits_LINK3args ob"
    unfolding xdr_LINK3args_def enc_LINK3args_def using ok [unfolded fits_LINK3args_def]
    by (intro fput W) auto
qed

definition xdr_LINK3resok :: "'x tirpc \<Rightarrow> (LINK3resok, 'x) filt" where
  "xdr_LINK3resok T = fseq [
     ffld LINK3resok.file_attributes LINK3resok.file_attributes_update (xdr_post_op_attr T),
     ffld LINK3resok.linkdir_wcc LINK3resok.linkdir_wcc_update (xdr_wcc_data T)]"

interpretation LINK3resok_tirpc: tirpc_filter
  xdr_LINK3resok enc_LINK3resok "\<lambda>_. True" ovr_LINK3resok
proof unfold_locales
  fix T V and ob old :: LINK3resok
  show "fputs T V (xdr_LINK3resok T) ob (enc_LINK3resok ob)" if W: "xdr_writer T V"
    unfolding xdr_LINK3resok_def enc_LINK3resok_def
    by (intro fput W) simp_all
  show "fgets T V (xdr_LINK3resok T) old (enc_LINK3resok ob) (ovr_LINK3resok old ob)" if R: "xdr_reader T V"
    unfolding xdr_LINK3resok_def enc_LINK3resok_def
    by (rule fgets_cong, (rule fget R | (simp; fail) |
        (cases ob, cases old, simp add: option.map_ident ovr_LINK3resok_def; fail))+)
  show "fsafe T V (xdr_LINK3resok T)" if R: "xdr_reader T V"
    unfolding xdr_LINK3resok_def by (intro fret R; simp)
qed

definition xdr_LINK3res :: "'x tirpc \<Rightarrow> (LINK3res, 'x) filt" where
  "xdr_LINK3res T = xdr_result T (Fin LINK3resok_init) LINK3resok_init (xdr_LINK3resok T)"

interpretation LINK3res_tirpc: tirpc_filter
  xdr_LINK3res "enc_res enc_LINK3resok" "ok_res (\<lambda>_. True)" "ovr_res (ovr_LINK3resok LINK3resok_init)"
  unfolding xdr_LINK3res_def [abs_def] by (rule LINK3resok_tirpc.result_filter)

end
