(* ===== verification/TirpcDir.thy ===== *)
theory TirpcDir
  imports TirpcTypes Nfs3ProcsC
begin

text \<open>
  The filters of \<^verbatim>\<open>nfs3_xdr.cpp\<close> for READDIR and READDIRPLUS. The two functions that walk a chain
  of entries have the same loop around the members of the entry; it is \<open>xdr_chain\<close> here, a
  partial function, since nothing but the input bounds it when it decodes.
\<close>

section \<open>The loop over the entries\<close>

text \<open>
  The loop of \<^verbatim>\<open>xdr_entry3_list\<close> and \<^verbatim>\<open>xdr_entryplus3_list\<close>, from the value of \<^verbatim>\<open>first\<close> at its
  top. \<open>members\<close> runs the filters of one entry; \<open>nxt\<close> and \<open>relink\<close> read and store the
  \<^verbatim>\<open>nextentry\<close>. When decoding, each round starts from a new entry, and nothing links the
  entries read so far: the pointer to the one before is overwritten. The chain that is
  returned is the one the loop was given, as its members are left by the primitives.
\<close>

partial_function (option) xdr_chain ::
  "'x tirpc \<Rightarrow> 'e \<Rightarrow> ('e, 'x) filt \<Rightarrow> ('e \<Rightarrow> 'e option) \<Rightarrow> ('e \<Rightarrow> 'e option \<Rightarrow> 'e) \<Rightarrow>
   'e option \<Rightarrow> 'x \<Rightarrow> ('e option \<times> bool \<times> 'x) fres option" where
  "xdr_chain T new members nxt relink first x =
     (case xdr_u_int T (if x_op T x = XDR_ENCODE \<and> first \<noteq> None then 1 else 0) x of
        (b, has_entry, x1) \<Rightarrow>
          if \<not> b then Some (Fin (first, False, x1))
          else if has_entry = 0 then Some (Fin (first, True, x1))
          else (case (if x_op T x1 = XDR_DECODE then Some new else first) of
              None \<Rightarrow> Some Undef
            | Some e \<Rightarrow>
                (case members e x1 of
                   Fin (e', b2, x2) \<Rightarrow>
                     if \<not> b2 then Some (Fin (Some e', False, x2))
                     else if x_op T x2 = XDR_ENCODE then
                       Option.bind (xdr_chain T new members nxt relink (nxt e') x2) (\<lambda>r.
                         Some (fbind r (\<lambda>(rest, b3, x3). Fin (Some (relink e' rest), b3, x3))))
                     else xdr_chain T new members nxt relink (Some e') x2
                 | Thrown \<Rightarrow> Some Thrown
                 | Undef \<Rightarrow> Some Undef
                 | Forever \<Rightarrow> Some Forever)))"

definition ends :: "'a fres option \<Rightarrow> 'a fres" where
  "ends r = (case r of None \<Rightarrow> Forever | Some a \<Rightarrow> a)"

text \<open>The \<^verbatim>\<open>entries\<close> of a list: reset before decoding, and handed to the loop only when encoding.\<close>

definition entries_member :: "'x tirpc \<Rightarrow> ('e option, 'x) filt \<Rightarrow> ('e option, 'x) filt" where
  "entries_member T walk old x =
     (if x_op T x = XDR_ENCODE then walk old x
      else fbind (walk None x) (\<lambda>(_, b, x').
             Fin (if x_op T x = XDR_DECODE then None else old, b, x')))"

text \<open>The wire format of a chain: a flag before each entry, and a zero at the end.\<close>

inductive chain_wire ::
  "('e \<Rightarrow> 'e option) \<Rightarrow> ('e \<Rightarrow> bytes) \<Rightarrow> ('e \<Rightarrow> bool) \<Rightarrow> 'e option \<Rightarrow> bytes \<Rightarrow> bool"
  for nxt :: "'e \<Rightarrow> 'e option" and enc :: "'e \<Rightarrow> bytes" and ok :: "'e \<Rightarrow> bool" where
  last: "chain_wire nxt enc ok None (be32 0)"
| more: "ok e \<Longrightarrow> chain_wire nxt enc ok (nxt e) bs \<Longrightarrow>
    chain_wire nxt enc ok (Some e) (be32 1 @ enc e @ bs)"

lemma chain_wire_optional:
  assumes "\<And>e. first = Some e \<Longrightarrow> chain_wire nxt enc ok (Some e) (be32 1 @ enc_all e)"
  shows "chain_wire nxt enc ok first (enc_optional enc_all first)"
proof (cases first)
  case None
  then show ?thesis by (simp add: enc_optional_def enc_bool_def chain_wire.last)
next
  case (Some e)
  with assms [of e] show ?thesis by (simp add: enc_optional_def enc_bool_def)
qed

lemma chain_wire_step:
  assumes "ok e" and "enc_all e = enc e @ enc_optional enc_all (nxt e)"
    and "\<And>e'. nxt e = Some e' \<Longrightarrow> chain_wire nxt enc ok (Some e') (be32 1 @ enc_all e')"
  shows "chain_wire nxt enc ok (Some e) (be32 1 @ enc_all e)"
  unfolding assms(2) by (rule chain_wire.more, rule assms(1), rule chain_wire_optional, rule assms(3))

locale tirpc_chain =
  fixes new :: 'e
    and members :: "'x tirpc \<Rightarrow> ('e, 'x) filt"
    and nxt :: "'e \<Rightarrow> 'e option"
    and relink :: "'e \<Rightarrow> 'e option \<Rightarrow> 'e"
    and enc :: "'e \<Rightarrow> bytes"
    and ok :: "'e \<Rightarrow> bool"
    and got :: "'e \<Rightarrow> 'e"
  assumes members_puts: "xdr_writer T V \<Longrightarrow> ok e \<Longrightarrow> fputs T V (members T) e (enc e)"
    and members_gets: "xdr_reader T V \<Longrightarrow> ok e \<Longrightarrow> fgets T V (members T) new (enc e) (got e)"
    and members_safe: "xdr_reader T V \<Longrightarrow> fsafe T V (members T)"
    and relink_nxt: "relink e (nxt e) = e"
begin

abbreviation walk :: "'x tirpc \<Rightarrow> ('e option, 'x) filt" where
  "walk T \<equiv> \<lambda>first x. ends (xdr_chain T new (members T) nxt relink first x)"

lemma chain_puts:
  assumes W: "xdr_writer T V" and "chain_wire nxt enc ok first bs"
  shows "fputs T V (walk T) first bs"
  using assms(2)
proof (induction rule: chain_wire.induct)
  case last
  show ?case
  proof (rule fputsI)
    fix x assume x: "x_op T x = XDR_ENCODE"
    from writerD(1) [OF W x, of 0]
    show "encoded T V x None (be32 0) (ends (xdr_chain T new (members T) nxt relink None x))"
      by (cases rule: writesE; subst xdr_chain.simps) (auto simp: encoded_def ends_def x)
  qed
next
  case (more e bs)
  let ?chain = "\<lambda>first x. ends (xdr_chain T new (members T) nxt relink first x)"
  show ?case
  proof (rule fputsI)
    fix x assume x: "x_op T x = XDR_ENCODE"
    let ?all = "be32 1 @ enc e @ bs"
    from writerD(1) [OF W x, of 1] show "encoded T V x (Some e) ?all (?chain (Some e) x)"
    proof (cases rule: writesE)
      case 1: (room x1)
      note op1 = put_op [OF 1(3)]
      from members_puts [OF W more.hyps(1)] op1 show ?thesis
      proof (cases rule: fputsE)
        case 2: (room x2)
        note op2 = put_op [OF 2(3)]
        have eq: "?chain (Some e) x =
            fbind (?chain (nxt e) x2) (\<lambda>(rest, b3, x3). Fin (Some (relink e rest), b3, x3))"
          by (subst xdr_chain.simps) (simp add: 1 2 x op1 op2 ends_def split: option.split)
        note put2 = put_trans [OF 1(3) 2(3)]
        from more.IH op2 show ?thesis
        proof (cases rule: fputsE)
          case (room x3)
          with put_room [OF put2, of bs] put_trans [OF put2 room(3)] show ?thesis
            unfolding encoded_def eq by (simp add: relink_nxt)
        next
          case (full ob' x3)
          with put_room [OF put2, of bs] show ?thesis unfolding encoded_def eq by simp
        qed
      next
        case (full e' x2)
        with 1 op1 put_room [OF 1(3), of "enc e"] show ?thesis
          by (subst xdr_chain.simps) (simp add: encoded_def ends_def x)
      qed
    next
      case (full v x1)
      then show ?thesis by (subst xdr_chain.simps) (simp add: encoded_def ends_def x)
    qed
  qed
qed

text \<open>Decoding a chain consumes it and gives back none of its entries.\<close>

lemma chain_gets:
  assumes R: "xdr_reader T V" and "chain_wire nxt enc ok ch bs"
    and "x_op T x = XDR_DECODE" and "xdr_in V x = bs @ rest"
  shows "\<exists>last x'. ends (xdr_chain T new (members T) nxt relink first x) = Fin (last, True, x') \<and>
    x_op T x' = XDR_DECODE \<and> xdr_in V x' = rest"
  using assms(2-)
proof (induction arbitrary: first x rule: chain_wire.induct)
  case last
  from takes_u_int [OF R last(1), of 0 0] last(2) show ?case
    by (cases rule: takesE) (subst xdr_chain.simps, simp add: ends_def last(1))
next
  case (more e bs)
  from more.prems(2) have "xdr_in V x = be32 1 @ enc e @ bs @ rest" by simp
  from takes_u_int [OF R more.prems(1), of 1 0] this show ?case
  proof (cases rule: takesE)
    case 1: (1 x1)
    from members_gets [OF R more.hyps(1)] 1(2,3) show ?thesis
    proof (cases rule: fgetsE)
      case (1 x2)
      from more.IH [OF 1(2,3), of "Some (got e)"] show ?thesis
        by (subst xdr_chain.simps) (simp add: more.prems(1) \<open>xdr_u_int T 0 x = _\<close> \<open>x_op T x1 = _\<close> 1)
    qed
  qed
qed

text \<open>On any input the loop ends: each round takes at least a flag off the input.\<close>

lemma chain_safe:
  assumes R: "xdr_reader T V" and "x_op T x = XDR_DECODE"
  shows "\<exists>last b x'. xdr_chain T new (members T) nxt relink first x = Some (Fin (last, b, x')) \<and>
    stays T V x x'"
  using assms(2)
proof (induction "length (xdr_in V x)" arbitrary: first x rule: less_induct)
  case less
  obtain b w x1 where 1: "xdr_u_int T 0 x = (b, w, x1)" by (cases "xdr_u_int T 0 x")
  with any_input_u_int [OF R less.prems, of 0] have s1: "stays T V x x1" by (simp add: any_input_def)
  from R less.prems 1 have shorter: "length (xdr_in V x1) < length (xdr_in V x)" if b
    using that unfolding xdr_reader_def reads_u_int_def by (metis fst_conv snd_conv)
  from fsafeE [OF members_safe [OF R] stays_op [OF s1], of new] obtain e' b2 x2
    where 2: "members T new x1 = Fin (e', b2, x2)" "stays T V x1 x2" by blast
  show ?case
  proof (cases "b \<and> w \<noteq> 0 \<and> b2")
    case True
    with shorter 2(2) have "length (xdr_in V x2) < length (xdr_in V x)" by (simp add: stays_def)
    from less.hyps [OF this stays_op [OF 2(2)], of "Some e'"] True show ?thesis
      by (subst xdr_chain.simps)
        (auto simp: 1 2(1) less.prems stays_op [OF s1] stays_op [OF 2(2)]
          intro: stays_trans [OF stays_trans [OF s1 2(2)]])
  next
    case False
    then show ?thesis
      by (subst xdr_chain.simps)
        (auto simp: 1 2(1) less.prems stays_op [OF s1] intro: s1 stays_trans [OF s1 2(2)])
  qed
qed

lemma entries_puts:
  "xdr_writer T V \<Longrightarrow> chain_wire nxt enc ok first bs \<Longrightarrow> fputs T V (entries_member T (walk T)) first bs"
  using chain_puts by (simp add: fputs_def entries_member_def)

lemma entries_gets:
  assumes "xdr_reader T V" and "chain_wire nxt enc ok ch bs"
  shows "fgets T V (entries_member T (walk T)) old bs None"
  unfolding fgets_def
proof (intro allI impI)
  fix x rest assume x: "x_op T x = XDR_DECODE" "xdr_in V x = bs @ rest"
  from chain_gets [OF assms x, of None]
  show "\<exists>x'. entries_member T (walk T) old x = Fin (None, True, x') \<and>
      x_op T x' = XDR_DECODE \<and> xdr_in V x' = rest"
    by (auto simp: entries_member_def x(1))
qed

lemma entries_safe:
  assumes "xdr_reader T V"
  shows "fsafe T V (entries_member T (walk T))"
  unfolding fsafe_def
proof (intro allI impI)
  fix old x assume x: "x_op T x = XDR_DECODE"
  from chain_safe [OF assms x, of None]
  show "\<exists>ch b x'. entries_member T (walk T) old x = Fin (ch, b, x') \<and> stays T V x x'"
    by (auto simp: entries_member_def ends_def x)
qed

end

section \<open>READDIR entries\<close>

text \<open>Assignments to the members of an \<^verbatim>\<open>entry3\<close>.\<close>

definition entry3_fileid_update :: "(uint64 \<Rightarrow> uint64) \<Rightarrow> entry3 \<Rightarrow> entry3" where
  "entry3_fileid_update f e =
     Entry3 (f (entry3.fileid e)) (entry3.name e) (entry3.cookie e) (entry3.nextentry e)"

definition entry3_name_update :: "(string \<Rightarrow> string) \<Rightarrow> entry3 \<Rightarrow> entry3" where
  "entry3_name_update f e =
     Entry3 (entry3.fileid e) (f (entry3.name e)) (entry3.cookie e) (entry3.nextentry e)"

definition entry3_cookie_update :: "(uint64 \<Rightarrow> uint64) \<Rightarrow> entry3 \<Rightarrow> entry3" where
  "entry3_cookie_update f e =
     Entry3 (entry3.fileid e) (entry3.name e) (f (entry3.cookie e)) (entry3.nextentry e)"

definition entry3_relink :: "entry3 \<Rightarrow> entry3 option \<Rightarrow> entry3" where
  "entry3_relink e n = Entry3 (entry3.fileid e) (entry3.name e) (entry3.cookie e) n"

lemmas entry3_updates =
  entry3_fileid_update_def entry3_name_update_def entry3_cookie_update_def entry3_relink_def

definition xdr_entry3 :: "'x tirpc \<Rightarrow> (entry3, 'x) filt" where
  "xdr_entry3 T = fseq [
     ffld entry3.fileid entry3_fileid_update (prim (xdr_u_hyper T)),
     ffld entry3.name entry3_name_update (name_fresh T 255),
     ffld entry3.cookie entry3_cookie_update (prim (xdr_u_hyper T))]"

definition xdr_entry3_list :: "'x tirpc \<Rightarrow> (entry3 option, 'x) filt" where
  "xdr_entry3_list T first x =
     ends (xdr_chain T entry3_init (xdr_entry3 T) entry3.nextentry entry3_relink first x)"

definition xdr_dirlist3_internal :: "'x tirpc \<Rightarrow> (dirlist3, 'x) filt" where
  "xdr_dirlist3_internal T = fseq [
     ffld dirlist3.entries dirlist3.entries_update (entries_member T (xdr_entry3_list T)),
     ffld dirlist3.eof dirlist3.eof_update (bool_member T)]"

definition wire_entry3 :: "entry3 \<Rightarrow> bytes" where
  "wire_entry3 e = be64 (entry3.fileid e) @ enc_string (entry3.name e) @ be64 (entry3.cookie e)"

definition fits_name3 :: "entry3 \<Rightarrow> bool" where
  "fits_name3 e \<longleftrightarrow> c_name 255 (entry3.name e)"

fun fits_entry3 :: "entry3 \<Rightarrow> bool" where
  "fits_entry3 (Entry3 f n c nxt) \<longleftrightarrow> c_name 255 n \<and> (case nxt of None \<Rightarrow> True | Some e \<Rightarrow> fits_entry3 e)"

interpretation entry3_tirpc: tirpc_chain
  entry3_init xdr_entry3 entry3.nextentry entry3_relink wire_entry3 fits_name3
  "\<lambda>e. entry3_relink e None"
proof unfold_locales
  fix T V and e :: entry3
  show "fputs T V (xdr_entry3 T) e (wire_entry3 e)" if W: "xdr_writer T V" and ok: "fits_name3 e"
    unfolding xdr_entry3_def wire_entry3_def using ok [unfolded fits_name3_def]
    by (intro fput W) (simp_all add: entry3_updates)
  show "fgets T V (xdr_entry3 T) entry3_init (wire_entry3 e) (entry3_relink e None)"
    if R: "xdr_reader T V" and ok: "fits_name3 e"
    unfolding xdr_entry3_def wire_entry3_def
    by (rule fgets_cong, (rule fget R | (simp; fail) | (use ok in \<open>simp add: fits_name3_def; fail\<close>) |
        (simp add: entry3_updates entry3_init_def; fail))+)
  show "fsafe T V (xdr_entry3 T)" if R: "xdr_reader T V"
    unfolding xdr_entry3_def by (intro fret R; simp)
qed (simp add: entry3_relink_def)

text \<open>The loop writes the format of \<^verbatim>\<open>serialize\<close>, where the flag stands at the end of the entry before.\<close>

lemma chain_wire_entry3_Some:
  "fits_entry3 e \<Longrightarrow>
   chain_wire entry3.nextentry wire_entry3 fits_name3 (Some e) (be32 1 @ enc_entry3 e)"
proof (induction e)
  case (Entry3 f n c nxt)
  show ?case
  proof (rule chain_wire_step)
    fix e' assume "entry3.nextentry (Entry3 f n c nxt) = Some e'"
    with Entry3 show "chain_wire entry3.nextentry wire_entry3 fits_name3 (Some e') (be32 1 @ enc_entry3 e')"
      by simp
  qed (use Entry3.prems in \<open>simp_all add: fits_name3_def wire_entry3_def enc_optional_def\<close>)
qed

lemma chain_wire_entry3:
  "ok_optional fits_entry3 first \<Longrightarrow>
   chain_wire entry3.nextentry wire_entry3 fits_name3 first (enc_optional enc_entry3 first)"
  by (rule chain_wire_optional) (simp add: chain_wire_entry3_Some)

definition fits_dirlist3 :: "dirlist3 \<Rightarrow> bool" where
  "fits_dirlist3 ob \<longleftrightarrow> ok_optional fits_entry3 (dirlist3.entries ob)"

text \<open>What is left of a list that was read: the flag at its end.\<close>

definition lost_dirlist3 :: "dirlist3 \<Rightarrow> dirlist3 \<Rightarrow> dirlist3" where
  "lost_dirlist3 old ob = \<lparr>dirlist3.entries = None, dirlist3.eof = dirlist3.eof ob\<rparr>"

interpretation dirlist3_tirpc: tirpc_filter
  xdr_dirlist3_internal enc_dirlist3 fits_dirlist3 lost_dirlist3
proof unfold_locales
  fix T V and ob old :: dirlist3
  note wire = chain_wire_entry3 [of "dirlist3.entries ob"]
  show "fputs T V (xdr_dirlist3_internal T) ob (enc_dirlist3 ob)"
    if W: "xdr_writer T V" and ok: "fits_dirlist3 ob"
    unfolding xdr_dirlist3_internal_def enc_dirlist3_def xdr_entry3_list_def [abs_def]
    by (intro fput entry3_tirpc.entries_puts W wire) (use ok in \<open>simp_all add: fits_dirlist3_def\<close>)
  show "fgets T V (xdr_dirlist3_internal T) old (enc_dirlist3 ob) (lost_dirlist3 old ob)"
    if R: "xdr_reader T V" and ok: "fits_dirlist3 ob"
    unfolding xdr_dirlist3_internal_def enc_dirlist3_def xdr_entry3_list_def [abs_def]
    by (rule fgets_cong, (rule fget R entry3_tirpc.entries_gets wire |
        (use ok in \<open>simp add: fits_dirlist3_def; fail\<close>) |
        (cases ob, cases old, simp add: lost_dirlist3_def; fail))+)
  show "fsafe T V (xdr_dirlist3_internal T)" if R: "xdr_reader T V"
    unfolding xdr_dirlist3_internal_def xdr_entry3_list_def [abs_def]
    by (intro fret R entry3_tirpc.entries_safe)
qed

section \<open>READDIRPLUS entries\<close>

text \<open>Assignments to the members of an \<^verbatim>\<open>entryplus3\<close>.\<close>

definition entryplus3_fileid_update :: "(uint64 \<Rightarrow> uint64) \<Rightarrow> entryplus3 \<Rightarrow> entryplus3" where
  "entryplus3_fileid_update f e =
     Entryplus3 (f (entryplus3.fileid e)) (entryplus3.name e) (entryplus3.cookie e)
       (entryplus3.name_handle e) (entryplus3.name_attributes e) (entryplus3.nextentry e)"

definition entryplus3_name_update :: "(string \<Rightarrow> string) \<Rightarrow> entryplus3 \<Rightarrow> entryplus3" where
  "entryplus3_name_update f e =
     Entryplus3 (entryplus3.fileid e) (f (entryplus3.name e)) (entryplus3.cookie e)
       (entryplus3.name_handle e) (entryplus3.name_attributes e) (entryplus3.nextentry e)"

definition entryplus3_cookie_update :: "(uint64 \<Rightarrow> uint64) \<Rightarrow> entryplus3 \<Rightarrow> entryplus3" where
  "entryplus3_cookie_update f e =
     Entryplus3 (entryplus3.fileid e) (entryplus3.name e) (f (entryplus3.cookie e))
       (entryplus3.name_handle e) (entryplus3.name_attributes e) (entryplus3.nextentry e)"

definition entryplus3_name_handle_update :: "(nfs_fh3 \<Rightarrow> nfs_fh3) \<Rightarrow> entryplus3 \<Rightarrow> entryplus3" where
  "entryplus3_name_handle_update f e =
     Entryplus3 (entryplus3.fileid e) (entryplus3.name e) (entryplus3.cookie e)
       (f (entryplus3.name_handle e)) (entryplus3.name_attributes e) (entryplus3.nextentry e)"

definition entryplus3_name_attributes_update :: "(post_op_attr \<Rightarrow> post_op_attr) \<Rightarrow> entryplus3 \<Rightarrow> entryplus3" where
  "entryplus3_name_attributes_update f e =
     Entryplus3 (entryplus3.fileid e) (entryplus3.name e) (entryplus3.cookie e)
       (entryplus3.name_handle e) (f (entryplus3.name_attributes e)) (entryplus3.nextentry e)"

definition entryplus3_relink :: "entryplus3 \<Rightarrow> entryplus3 option \<Rightarrow> entryplus3" where
  "entryplus3_relink e n =
     Entryplus3 (entryplus3.fileid e) (entryplus3.name e) (entryplus3.cookie e)
       (entryplus3.name_handle e) (entryplus3.name_attributes e) n"

lemmas entryplus3_updates =
  entryplus3_fileid_update_def entryplus3_name_update_def entryplus3_cookie_update_def
  entryplus3_name_handle_update_def entryplus3_name_attributes_update_def entryplus3_relink_def

definition xdr_entryplus3 :: "'x tirpc \<Rightarrow> (entryplus3, 'x) filt" where
  "xdr_entryplus3 T = fseq [
     ffld entryplus3.fileid entryplus3_fileid_update (prim (xdr_u_hyper T)),
     ffld entryplus3.name entryplus3_name_update (name_fresh T 255),
     ffld entryplus3.cookie entryplus3_cookie_update (prim (xdr_u_hyper T)),
     ffld entryplus3.name_handle entryplus3_name_handle_update (xdr_nfs_fh3 T),
     ffld entryplus3.name_attributes entryplus3_name_attributes_update (xdr_post_op_attr T)]"

definition xdr_entryplus3_list :: "'x tirpc \<Rightarrow> (entryplus3 option, 'x) filt" where
  "xdr_entryplus3_list T first x =
     ends (xdr_chain T entryplus3_init (xdr_entryplus3 T) entryplus3.nextentry entryplus3_relink first x)"

definition xdr_dirlistplus3_internal :: "'x tirpc \<Rightarrow> (dirlistplus3, 'x) filt" where
  "xdr_dirlistplus3_internal T = fseq [
     ffld dirlistplus3.entries dirlistplus3.entries_update (entries_member T (xdr_entryplus3_list T)),
     ffld dirlistplus3.eof dirlistplus3.eof_update (bool_member T)]"

definition wire_entryplus3 :: "entryplus3 \<Rightarrow> bytes" where
  "wire_entryplus3 e =
     be64 (entryplus3.fileid e) @ enc_string (entryplus3.name e) @ be64 (entryplus3.cookie e) @
     enc_nfs_fh3 (entryplus3.name_handle e) @ enc_post_op_attr (entryplus3.name_attributes e)"

definition fits_nameplus3 :: "entryplus3 \<Rightarrow> bool" where
  "fits_nameplus3 e \<longleftrightarrow> c_name 255 (entryplus3.name e) \<and> fits_nfs_fh3 (entryplus3.name_handle e)"

fun fits_entryplus3 :: "entryplus3 \<Rightarrow> bool" where
  "fits_entryplus3 (Entryplus3 f n c h a nxt) \<longleftrightarrow> c_name 255 n \<and> fits_nfs_fh3 h \<and>
     (case nxt of None \<Rightarrow> True | Some e \<Rightarrow> fits_entryplus3 e)"

definition got_entryplus3 :: "entryplus3 \<Rightarrow> entryplus3" where
  "got_entryplus3 e = entryplus3_relink
     (entryplus3_name_attributes_update (ovr_post_op_attr post_op_attr_init) e) None"

interpretation entryplus3_tirpc: tirpc_chain
  entryplus3_init xdr_entryplus3 entryplus3.nextentry entryplus3_relink wire_entryplus3 fits_nameplus3
  got_entryplus3
proof unfold_locales
  fix T V and e :: entryplus3
  show "fputs T V (xdr_entryplus3 T) e (wire_entryplus3 e)" if W: "xdr_writer T V" and ok: "fits_nameplus3 e"
    unfolding xdr_entryplus3_def wire_entryplus3_def using ok [unfolded fits_nameplus3_def]
    by (intro fput W) (simp_all add: entryplus3_updates)
  show "fgets T V (xdr_entryplus3 T) entryplus3_init (wire_entryplus3 e) (got_entryplus3 e)"
    if R: "xdr_reader T V" and ok: "fits_nameplus3 e"
    unfolding xdr_entryplus3_def wire_entryplus3_def
    by (rule fgets_cong, (rule fget R | (simp; fail) | (use ok in \<open>simp add: fits_nameplus3_def; fail\<close>) |
        (simp add: got_entryplus3_def entryplus3_updates entryplus3_init_def; fail))+)
  show "fsafe T V (xdr_entryplus3 T)" if R: "xdr_reader T V"
    unfolding xdr_entryplus3_def by (intro fret R; simp)
qed (simp add: entryplus3_relink_def)

text \<open>The loop writes the format of \<^verbatim>\<open>serialize\<close>, where the flag stands at the end of the entry before.\<close>

lemma chain_wire_entryplus3_Some:
  "fits_entryplus3 e \<Longrightarrow>
   chain_wire entryplus3.nextentry wire_entryplus3 fits_nameplus3 (Some e) (be32 1 @ enc_entryplus3 e)"
proof (induction e)
  case (Entryplus3 f n c h a nxt)
  show ?case
  proof (rule chain_wire_step)
    fix e' assume "entryplus3.nextentry (Entryplus3 f n c h a nxt) = Some e'"
    with Entryplus3 show "chain_wire entryplus3.nextentry wire_entryplus3 fits_nameplus3 (Some e') (be32 1 @ enc_entryplus3 e')"
      by simp
  qed (use Entryplus3.prems in \<open>simp_all add: fits_nameplus3_def wire_entryplus3_def enc_optional_def\<close>)
qed

lemma chain_wire_entryplus3:
  "ok_optional fits_entryplus3 first \<Longrightarrow>
   chain_wire entryplus3.nextentry wire_entryplus3 fits_nameplus3 first (enc_optional enc_entryplus3 first)"
  by (rule chain_wire_optional) (simp add: chain_wire_entryplus3_Some)

definition fits_dirlistplus3 :: "dirlistplus3 \<Rightarrow> bool" where
  "fits_dirlistplus3 ob \<longleftrightarrow> ok_optional fits_entryplus3 (dirlistplus3.entries ob)"

text \<open>What is left of a list that was read: the flag at its end.\<close>

definition lost_dirlistplus3 :: "dirlistplus3 \<Rightarrow> dirlistplus3 \<Rightarrow> dirlistplus3" where
  "lost_dirlistplus3 old ob = \<lparr>dirlistplus3.entries = None, dirlistplus3.eof = dirlistplus3.eof ob\<rparr>"

interpretation dirlistplus3_tirpc: tirpc_filter
  xdr_dirlistplus3_internal enc_dirlistplus3 fits_dirlistplus3 lost_dirlistplus3
proof unfold_locales
  fix T V and ob old :: dirlistplus3
  note wire = chain_wire_entryplus3 [of "dirlistplus3.entries ob"]
  show "fputs T V (xdr_dirlistplus3_internal T) ob (enc_dirlistplus3 ob)"
    if W: "xdr_writer T V" and ok: "fits_dirlistplus3 ob"
    unfolding xdr_dirlistplus3_internal_def enc_dirlistplus3_def xdr_entryplus3_list_def [abs_def]
    by (intro fput entryplus3_tirpc.entries_puts W wire) (use ok in \<open>simp_all add: fits_dirlistplus3_def\<close>)
  show "fgets T V (xdr_dirlistplus3_internal T) old (enc_dirlistplus3 ob) (lost_dirlistplus3 old ob)"
    if R: "xdr_reader T V" and ok: "fits_dirlistplus3 ob"
    unfolding xdr_dirlistplus3_internal_def enc_dirlistplus3_def xdr_entryplus3_list_def [abs_def]
    by (rule fgets_cong, (rule fget R entryplus3_tirpc.entries_gets wire |
        (use ok in \<open>simp add: fits_dirlistplus3_def; fail\<close>) |
        (cases ob, cases old, simp add: lost_dirlistplus3_def; fail))+)
  show "fsafe T V (xdr_dirlistplus3_internal T)" if R: "xdr_reader T V"
    unfolding xdr_dirlistplus3_internal_def xdr_entryplus3_list_def [abs_def]
    by (intro fret R entryplus3_tirpc.entries_safe)
qed

section \<open>READDIR\<close>

definition xdr_READDIR3args :: "'x tirpc \<Rightarrow> (READDIR3args, 'x) filt" where
  "xdr_READDIR3args T = fseq [
     ffld READDIR3args.dir READDIR3args.dir_update (xdr_nfs_fh3 T),
     ffld READDIR3args.cookie READDIR3args.cookie_update (prim (xdr_u_hyper T)),
     ffld READDIR3args.cookieverf READDIR3args.cookieverf_update (raw8 T),
     ffld READDIR3args.count READDIR3args.count_update (prim (xdr_u_int T))]"

definition tenc_READDIR3args :: "READDIR3args \<Rightarrow> bytes" where
  "tenc_READDIR3args ob =
     enc_nfs_fh3 (READDIR3args.dir ob) @
     be64 (READDIR3args.cookie ob) @
     mem64 NATIVE_ENDIAN (READDIR3args.cookieverf ob) @
     be32 (READDIR3args.count ob)"

definition fits_READDIR3args :: "READDIR3args \<Rightarrow> bool" where
  "fits_READDIR3args ob \<longleftrightarrow> fits_nfs_fh3 (READDIR3args.dir ob)"

interpretation READDIR3args_tirpc: tirpc_filter
  xdr_READDIR3args tenc_READDIR3args fits_READDIR3args "\<lambda>_ ob. ob"
proof unfold_locales
  fix T V and ob old :: READDIR3args
  show "fputs T V (xdr_READDIR3args T) ob (tenc_READDIR3args ob)" if W: "xdr_writer T V" and ok: "fits_READDIR3args ob"
    unfolding xdr_READDIR3args_def tenc_READDIR3args_def using ok [unfolded fits_READDIR3args_def]
    by (intro fput W) auto
  show "fgets T V (xdr_READDIR3args T) old (tenc_READDIR3args ob) ob" if R: "xdr_reader T V" and ok: "fits_READDIR3args ob"
    unfolding xdr_READDIR3args_def tenc_READDIR3args_def
    by (rule fgets_cong, (rule fget R | (simp; fail) |
        (use ok in \<open>simp add: fits_READDIR3args_def; fail\<close>) |
        (cases ob, cases old, simp add: option.map_ident; fail))+)
  show "fsafe T V (xdr_READDIR3args T)" if R: "xdr_reader T V"
    unfolding xdr_READDIR3args_def by (intro fret R; simp)
qed

definition lost_READDIR3resok :: "READDIR3resok \<Rightarrow> READDIR3resok \<Rightarrow> READDIR3resok" where
  "lost_READDIR3resok old ob = \<lparr>READDIR3resok.dir_attributes = ovr_post_op_attr (READDIR3resok.dir_attributes old) (READDIR3resok.dir_attributes ob),
     READDIR3resok.cookieverf = READDIR3resok.cookieverf ob,
     READDIR3resok.reply = lost_dirlist3 (READDIR3resok.reply old) (READDIR3resok.reply ob)\<rparr>"

definition xdr_READDIR3resok :: "'x tirpc \<Rightarrow> (READDIR3resok, 'x) filt" where
  "xdr_READDIR3resok T = fseq [
     ffld READDIR3resok.dir_attributes READDIR3resok.dir_attributes_update (xdr_post_op_attr T),
     ffld READDIR3resok.cookieverf READDIR3resok.cookieverf_update (raw8 T),
     ffld READDIR3resok.reply READDIR3resok.reply_update (xdr_dirlist3_internal T)]"

definition tenc_READDIR3resok :: "READDIR3resok \<Rightarrow> bytes" where
  "tenc_READDIR3resok ob =
     enc_post_op_attr (READDIR3resok.dir_attributes ob) @
     mem64 NATIVE_ENDIAN (READDIR3resok.cookieverf ob) @
     enc_dirlist3 (READDIR3resok.reply ob)"

definition fits_READDIR3resok :: "READDIR3resok \<Rightarrow> bool" where
  "fits_READDIR3resok ob \<longleftrightarrow> fits_dirlist3 (READDIR3resok.reply ob)"

interpretation READDIR3resok_tirpc: tirpc_filter
  xdr_READDIR3resok tenc_READDIR3resok fits_READDIR3resok lost_READDIR3resok
proof unfold_locales
  fix T V and ob old :: READDIR3resok
  show "fputs T V (xdr_READDIR3resok T) ob (tenc_READDIR3resok ob)" if W: "xdr_writer T V" and ok: "fits_READDIR3resok ob"
    unfolding xdr_READDIR3resok_def tenc_READDIR3resok_def using ok [unfolded fits_READDIR3resok_def]
    by (intro fput W) auto
  show "fgets T V (xdr_READDIR3resok T) old (tenc_READDIR3resok ob) (lost_READDIR3resok old ob)" if R: "xdr_reader T V" and ok: "fits_READDIR3resok ob"
    unfolding xdr_READDIR3resok_def tenc_READDIR3resok_def
    by (rule fgets_cong, (rule fget R | (simp; fail) |
        (use ok in \<open>simp add: fits_READDIR3resok_def; fail\<close>) |
        (cases ob, cases old, simp add: option.map_ident lost_READDIR3resok_def; fail))+)
  show "fsafe T V (xdr_READDIR3resok T)" if R: "xdr_reader T V"
    unfolding xdr_READDIR3resok_def by (intro fret R; simp)
qed

definition xdr_READDIR3res :: "'x tirpc \<Rightarrow> (READDIR3res, 'x) filt" where
  "xdr_READDIR3res T = xdr_listing T READDIR3resok_init (xdr_READDIR3resok T)"

interpretation READDIR3res_tirpc: tirpc_filter
  xdr_READDIR3res "enc_res tenc_READDIR3resok" "ok_res fits_READDIR3resok" "ovr_res (lost_READDIR3resok READDIR3resok_init)"
  unfolding xdr_READDIR3res_def [abs_def] by (rule READDIR3resok_tirpc.listing_filter)

section \<open>READDIRPLUS\<close>

definition xdr_READDIRPLUS3args :: "'x tirpc \<Rightarrow> (READDIRPLUS3args, 'x) filt" where
  "xdr_READDIRPLUS3args T = fseq [
     ffld READDIRPLUS3args.dir READDIRPLUS3args.dir_update (xdr_nfs_fh3 T),
     ffld READDIRPLUS3args.cookie READDIRPLUS3args.cookie_update (prim (xdr_u_hyper T)),
     ffld READDIRPLUS3args.cookieverf READDIRPLUS3args.cookieverf_update (raw8 T),
     ffld READDIRPLUS3args.dircount READDIRPLUS3args.dircount_update (prim (xdr_u_int T)),
     ffld READDIRPLUS3args.maxcount READDIRPLUS3args.maxcount_update (prim (xdr_u_int T))]"

definition tenc_READDIRPLUS3args :: "READDIRPLUS3args \<Rightarrow> bytes" where
  "tenc_READDIRPLUS3args ob =
     enc_nfs_fh3 (READDIRPLUS3args.dir ob) @
     be64 (READDIRPLUS3args.cookie ob) @
     mem64 NATIVE_ENDIAN (READDIRPLUS3args.cookieverf ob) @
     be32 (READDIRPLUS3args.dircount ob) @
     be32 (READDIRPLUS3args.maxcount ob)"

definition fits_READDIRPLUS3args :: "READDIRPLUS3args \<Rightarrow> bool" where
  "fits_READDIRPLUS3args ob \<longleftrightarrow> fits_nfs_fh3 (READDIRPLUS3args.dir ob)"

interpretation READDIRPLUS3args_tirpc: tirpc_filter
  xdr_READDIRPLUS3args tenc_READDIRPLUS3args fits_READDIRPLUS3args "\<lambda>_ ob. ob"
proof unfold_locales
  fix T V and ob old :: READDIRPLUS3args
  show "fputs T V (xdr_READDIRPLUS3args T) ob (tenc_READDIRPLUS3args ob)" if W: "xdr_writer T V" and ok: "fits_READDIRPLUS3args ob"
    unfolding xdr_READDIRPLUS3args_def tenc_READDIRPLUS3args_def using ok [unfolded fits_READDIRPLUS3args_def]
    by (intro fput W) auto
  show "fgets T V (xdr_READDIRPLUS3args T) old (tenc_READDIRPLUS3args ob) ob" if R: "xdr_reader T V" and ok: "fits_READDIRPLUS3args ob"
    unfolding xdr_READDIRPLUS3args_def tenc_READDIRPLUS3args_def
    by (rule fgets_cong, (rule fget R | (simp; fail) |
        (use ok in \<open>simp add: fits_READDIRPLUS3args_def; fail\<close>) |
        (cases ob, cases old, simp add: option.map_ident; fail))+)
  show "fsafe T V (xdr_READDIRPLUS3args T)" if R: "xdr_reader T V"
    unfolding xdr_READDIRPLUS3args_def by (intro fret R; simp)
qed

definition lost_READDIRPLUS3resok :: "READDIRPLUS3resok \<Rightarrow> READDIRPLUS3resok \<Rightarrow> READDIRPLUS3resok" where
  "lost_READDIRPLUS3resok old ob = \<lparr>READDIRPLUS3resok.dir_attributes = ovr_post_op_attr (READDIRPLUS3resok.dir_attributes old) (READDIRPLUS3resok.dir_attributes ob),
     READDIRPLUS3resok.cookieverf = READDIRPLUS3resok.cookieverf ob,
     READDIRPLUS3resok.reply = lost_dirlistplus3 (READDIRPLUS3resok.reply old) (READDIRPLUS3resok.reply ob)\<rparr>"

definition xdr_READDIRPLUS3resok :: "'x tirpc \<Rightarrow> (READDIRPLUS3resok, 'x) filt" where
  "xdr_READDIRPLUS3resok T = fseq [
     ffld READDIRPLUS3resok.dir_attributes READDIRPLUS3resok.dir_attributes_update (xdr_post_op_attr T),
     ffld READDIRPLUS3resok.cookieverf READDIRPLUS3resok.cookieverf_update (raw8 T),
     ffld READDIRPLUS3resok.reply READDIRPLUS3resok.reply_update (xdr_dirlistplus3_internal T)]"

definition tenc_READDIRPLUS3resok :: "READDIRPLUS3resok \<Rightarrow> bytes" where
  "tenc_READDIRPLUS3resok ob =
     enc_post_op_attr (READDIRPLUS3resok.dir_attributes ob) @
     mem64 NATIVE_ENDIAN (READDIRPLUS3resok.cookieverf ob) @
     enc_dirlistplus3 (READDIRPLUS3resok.reply ob)"

definition fits_READDIRPLUS3resok :: "READDIRPLUS3resok \<Rightarrow> bool" where
  "fits_READDIRPLUS3resok ob \<longleftrightarrow> fits_dirlistplus3 (READDIRPLUS3resok.reply ob)"

interpretation READDIRPLUS3resok_tirpc: tirpc_filter
  xdr_READDIRPLUS3resok tenc_READDIRPLUS3resok fits_READDIRPLUS3resok lost_READDIRPLUS3resok
proof unfold_locales
  fix T V and ob old :: READDIRPLUS3resok
  show "fputs T V (xdr_READDIRPLUS3resok T) ob (tenc_READDIRPLUS3resok ob)" if W: "xdr_writer T V" and ok: "fits_READDIRPLUS3resok ob"
    unfolding xdr_READDIRPLUS3resok_def tenc_READDIRPLUS3resok_def using ok [unfolded fits_READDIRPLUS3resok_def]
    by (intro fput W) auto
  show "fgets T V (xdr_READDIRPLUS3resok T) old (tenc_READDIRPLUS3resok ob) (lost_READDIRPLUS3resok old ob)" if R: "xdr_reader T V" and ok: "fits_READDIRPLUS3resok ob"
    unfolding xdr_READDIRPLUS3resok_def tenc_READDIRPLUS3resok_def
    by (rule fgets_cong, (rule fget R | (simp; fail) |
        (use ok in \<open>simp add: fits_READDIRPLUS3resok_def; fail\<close>) |
        (cases ob, cases old, simp add: option.map_ident lost_READDIRPLUS3resok_def; fail))+)
  show "fsafe T V (xdr_READDIRPLUS3resok T)" if R: "xdr_reader T V"
    unfolding xdr_READDIRPLUS3resok_def by (intro fret R; simp)
qed

definition xdr_READDIRPLUS3res :: "'x tirpc \<Rightarrow> (READDIRPLUS3res, 'x) filt" where
  "xdr_READDIRPLUS3res T = xdr_listing T READDIRPLUS3resok_init (xdr_READDIRPLUS3resok T)"

interpretation READDIRPLUS3res_tirpc: tirpc_filter
  xdr_READDIRPLUS3res "enc_res tenc_READDIRPLUS3resok" "ok_res fits_READDIRPLUS3resok" "ovr_res (lost_READDIRPLUS3resok READDIRPLUS3resok_init)"
  unfolding xdr_READDIRPLUS3res_def [abs_def] by (rule READDIRPLUS3resok_tirpc.listing_filter)

end
