(* ===== verification/TirpcProcsC.thy ===== *)
theory TirpcProcsC
  imports TirpcDir
begin

text \<open>
  The filters of \<^verbatim>\<open>nfs3_xdr.cpp\<close> for the arguments and results of FSSTAT to COMMIT.
\<close>

section \<open>FSSTAT\<close>

definition xdr_FSSTAT3args :: "'x tirpc \<Rightarrow> (FSSTAT3args, 'x) filt" where
  "xdr_FSSTAT3args T = fseq [
     ffld FSSTAT3args.fsroot FSSTAT3args.fsroot_update (xdr_nfs_fh3 T)]"

definition fits_FSSTAT3args :: "FSSTAT3args \<Rightarrow> bool" where
  "fits_FSSTAT3args ob \<longleftrightarrow> fits_nfs_fh3 (FSSTAT3args.fsroot ob)"

interpretation FSSTAT3args_tirpc: tirpc_filter
  xdr_FSSTAT3args enc_FSSTAT3args fits_FSSTAT3args "\<lambda>_ ob. ob"
proof unfold_locales
  fix T V and ob old :: FSSTAT3args
  show "fputs T V (xdr_FSSTAT3args T) ob (enc_FSSTAT3args ob)" if W: "xdr_writer T V" and ok: "fits_FSSTAT3args ob"
    unfolding xdr_FSSTAT3args_def enc_FSSTAT3args_def using ok [unfolded fits_FSSTAT3args_def]
    by (intro fput W) auto
  show "fgets T V (xdr_FSSTAT3args T) old (enc_FSSTAT3args ob) ob" if R: "xdr_reader T V" and ok: "fits_FSSTAT3args ob"
    unfolding xdr_FSSTAT3args_def enc_FSSTAT3args_def
    by (rule fgets_cong, (rule fget R | (simp; fail) |
        (use ok in \<open>simp add: fits_FSSTAT3args_def; fail\<close>) |
        (cases ob, cases old, simp add: option.map_ident; fail))+)
  show "fsafe T V (xdr_FSSTAT3args T)" if R: "xdr_reader T V"
    unfolding xdr_FSSTAT3args_def by (intro fret R; simp)
qed

definition xdr_FSSTAT3resok :: "'x tirpc \<Rightarrow> (FSSTAT3resok, 'x) filt" where
  "xdr_FSSTAT3resok T = fseq [
     ffld FSSTAT3resok.obj_attributes FSSTAT3resok.obj_attributes_update (xdr_post_op_attr T),
     ffld FSSTAT3resok.tbytes FSSTAT3resok.tbytes_update (prim (xdr_u_hyper T)),
     ffld FSSTAT3resok.fbytes FSSTAT3resok.fbytes_update (prim (xdr_u_hyper T)),
     ffld FSSTAT3resok.abytes FSSTAT3resok.abytes_update (prim (xdr_u_hyper T)),
     ffld FSSTAT3resok.tfiles FSSTAT3resok.tfiles_update (prim (xdr_u_hyper T)),
     ffld FSSTAT3resok.ffiles FSSTAT3resok.ffiles_update (prim (xdr_u_hyper T)),
     ffld FSSTAT3resok.afiles FSSTAT3resok.afiles_update (prim (xdr_u_hyper T)),
     ffld FSSTAT3resok.invarsec FSSTAT3resok.invarsec_update (prim (xdr_u_int T))]"

interpretation FSSTAT3resok_tirpc: tirpc_filter
  xdr_FSSTAT3resok enc_FSSTAT3resok "\<lambda>_. True" ovr_FSSTAT3resok
proof unfold_locales
  fix T V and ob old :: FSSTAT3resok
  show "fputs T V (xdr_FSSTAT3resok T) ob (enc_FSSTAT3resok ob)" if W: "xdr_writer T V"
    unfolding xdr_FSSTAT3resok_def enc_FSSTAT3resok_def
    by (intro fput W) simp_all
  show "fgets T V (xdr_FSSTAT3resok T) old (enc_FSSTAT3resok ob) (ovr_FSSTAT3resok old ob)" if R: "xdr_reader T V"
    unfolding xdr_FSSTAT3resok_def enc_FSSTAT3resok_def
    by (rule fgets_cong, (rule fget R | (simp; fail) |
        (cases ob, cases old, simp add: option.map_ident ovr_FSSTAT3resok_def; fail))+)
  show "fsafe T V (xdr_FSSTAT3resok T)" if R: "xdr_reader T V"
    unfolding xdr_FSSTAT3resok_def by (intro fret R; simp)
qed

definition xdr_FSSTAT3res :: "'x tirpc \<Rightarrow> (FSSTAT3res, 'x) filt" where
  "xdr_FSSTAT3res T = xdr_result T (Fin FSSTAT3resok_init) FSSTAT3resok_init (xdr_FSSTAT3resok T)"

interpretation FSSTAT3res_tirpc: tirpc_filter
  xdr_FSSTAT3res "enc_res enc_FSSTAT3resok" "ok_res (\<lambda>_. True)" "ovr_res (ovr_FSSTAT3resok FSSTAT3resok_init)"
  unfolding xdr_FSSTAT3res_def [abs_def] by (rule FSSTAT3resok_tirpc.result_filter)

section \<open>FSINFO\<close>

definition xdr_FSINFO3args :: "'x tirpc \<Rightarrow> (FSINFO3args, 'x) filt" where
  "xdr_FSINFO3args T = fseq [
     ffld FSINFO3args.fsroot FSINFO3args.fsroot_update (xdr_nfs_fh3 T)]"

definition fits_FSINFO3args :: "FSINFO3args \<Rightarrow> bool" where
  "fits_FSINFO3args ob \<longleftrightarrow> fits_nfs_fh3 (FSINFO3args.fsroot ob)"

interpretation FSINFO3args_tirpc: tirpc_filter
  xdr_FSINFO3args enc_FSINFO3args fits_FSINFO3args "\<lambda>_ ob. ob"
proof unfold_locales
  fix T V and ob old :: FSINFO3args
  show "fputs T V (xdr_FSINFO3args T) ob (enc_FSINFO3args ob)" if W: "xdr_writer T V" and ok: "fits_FSINFO3args ob"
    unfolding xdr_FSINFO3args_def enc_FSINFO3args_def using ok [unfolded fits_FSINFO3args_def]
    by (intro fput W) auto
  show "fgets T V (xdr_FSINFO3args T) old (enc_FSINFO3args ob) ob" if R: "xdr_reader T V" and ok: "fits_FSINFO3args ob"
    unfolding xdr_FSINFO3args_def enc_FSINFO3args_def
    by (rule fgets_cong, (rule fget R | (simp; fail) |
        (use ok in \<open>simp add: fits_FSINFO3args_def; fail\<close>) |
        (cases ob, cases old, simp add: option.map_ident; fail))+)
  show "fsafe T V (xdr_FSINFO3args T)" if R: "xdr_reader T V"
    unfolding xdr_FSINFO3args_def by (intro fret R; simp)
qed

definition xdr_FSINFO3resok :: "'x tirpc \<Rightarrow> (FSINFO3resok, 'x) filt" where
  "xdr_FSINFO3resok T = fseq [
     ffld FSINFO3resok.obj_attributes FSINFO3resok.obj_attributes_update (xdr_post_op_attr T),
     ffld FSINFO3resok.rtmax FSINFO3resok.rtmax_update (prim (xdr_u_int T)),
     ffld FSINFO3resok.rtpref FSINFO3resok.rtpref_update (prim (xdr_u_int T)),
     ffld FSINFO3resok.rtmult FSINFO3resok.rtmult_update (prim (xdr_u_int T)),
     ffld FSINFO3resok.wtmax FSINFO3resok.wtmax_update (prim (xdr_u_int T)),
     ffld FSINFO3resok.wtpref FSINFO3resok.wtpref_update (prim (xdr_u_int T)),
     ffld FSINFO3resok.wtmult FSINFO3resok.wtmult_update (prim (xdr_u_int T)),
     ffld FSINFO3resok.dtpref FSINFO3resok.dtpref_update (prim (xdr_u_int T)),
     ffld FSINFO3resok.maxfilesize FSINFO3resok.maxfilesize_update (prim (xdr_u_hyper T)),
     ffld FSINFO3resok.time_delta_seconds FSINFO3resok.time_delta_seconds_update (prim (xdr_u_int T)),
     ffld FSINFO3resok.time_delta_nseconds FSINFO3resok.time_delta_nseconds_update (prim (xdr_u_int T)),
     ffld FSINFO3resok.properties FSINFO3resok.properties_update (prim (xdr_u_int T))]"

interpretation FSINFO3resok_tirpc: tirpc_filter
  xdr_FSINFO3resok enc_FSINFO3resok "\<lambda>_. True" ovr_FSINFO3resok
proof unfold_locales
  fix T V and ob old :: FSINFO3resok
  show "fputs T V (xdr_FSINFO3resok T) ob (enc_FSINFO3resok ob)" if W: "xdr_writer T V"
    unfolding xdr_FSINFO3resok_def enc_FSINFO3resok_def
    by (intro fput W) simp_all
  show "fgets T V (xdr_FSINFO3resok T) old (enc_FSINFO3resok ob) (ovr_FSINFO3resok old ob)" if R: "xdr_reader T V"
    unfolding xdr_FSINFO3resok_def enc_FSINFO3resok_def
    by (rule fgets_cong, (rule fget R | (simp; fail) |
        (cases ob, cases old, simp add: option.map_ident ovr_FSINFO3resok_def; fail))+)
  show "fsafe T V (xdr_FSINFO3resok T)" if R: "xdr_reader T V"
    unfolding xdr_FSINFO3resok_def by (intro fret R; simp)
qed

definition xdr_FSINFO3res :: "'x tirpc \<Rightarrow> (FSINFO3res, 'x) filt" where
  "xdr_FSINFO3res T = xdr_result T (Fin FSINFO3resok_init) FSINFO3resok_init (xdr_FSINFO3resok T)"

interpretation FSINFO3res_tirpc: tirpc_filter
  xdr_FSINFO3res "enc_res enc_FSINFO3resok" "ok_res (\<lambda>_. True)" "ovr_res (ovr_FSINFO3resok FSINFO3resok_init)"
  unfolding xdr_FSINFO3res_def [abs_def] by (rule FSINFO3resok_tirpc.result_filter)

section \<open>PATHCONF\<close>

definition xdr_PATHCONF3args :: "'x tirpc \<Rightarrow> (PATHCONF3args, 'x) filt" where
  "xdr_PATHCONF3args T = fseq [
     ffld PATHCONF3args.object PATHCONF3args.object_update (xdr_nfs_fh3 T)]"

definition fits_PATHCONF3args :: "PATHCONF3args \<Rightarrow> bool" where
  "fits_PATHCONF3args ob \<longleftrightarrow> fits_nfs_fh3 (PATHCONF3args.object ob)"

interpretation PATHCONF3args_tirpc: tirpc_filter
  xdr_PATHCONF3args enc_PATHCONF3args fits_PATHCONF3args "\<lambda>_ ob. ob"
proof unfold_locales
  fix T V and ob old :: PATHCONF3args
  show "fputs T V (xdr_PATHCONF3args T) ob (enc_PATHCONF3args ob)" if W: "xdr_writer T V" and ok: "fits_PATHCONF3args ob"
    unfolding xdr_PATHCONF3args_def enc_PATHCONF3args_def using ok [unfolded fits_PATHCONF3args_def]
    by (intro fput W) auto
  show "fgets T V (xdr_PATHCONF3args T) old (enc_PATHCONF3args ob) ob" if R: "xdr_reader T V" and ok: "fits_PATHCONF3args ob"
    unfolding xdr_PATHCONF3args_def enc_PATHCONF3args_def
    by (rule fgets_cong, (rule fget R | (simp; fail) |
        (use ok in \<open>simp add: fits_PATHCONF3args_def; fail\<close>) |
        (cases ob, cases old, simp add: option.map_ident; fail))+)
  show "fsafe T V (xdr_PATHCONF3args T)" if R: "xdr_reader T V"
    unfolding xdr_PATHCONF3args_def by (intro fret R; simp)
qed

definition xdr_pathconf3_resok_info :: "'x tirpc \<Rightarrow> (pathconf3_resok_info, 'x) filt" where
  "xdr_pathconf3_resok_info T = fseq [
     ffld pathconf3_resok_info.linkmax pathconf3_resok_info.linkmax_update (prim (xdr_int T)),
     ffld pathconf3_resok_info.name_max pathconf3_resok_info.name_max_update (prim (xdr_int T)),
     ffld pathconf3_resok_info.no_trunc pathconf3_resok_info.no_trunc_update (bool_member T),
     ffld pathconf3_resok_info.chown_restricted pathconf3_resok_info.chown_restricted_update (bool_member T),
     ffld pathconf3_resok_info.case_insensitive pathconf3_resok_info.case_insensitive_update (bool_member T),
     ffld pathconf3_resok_info.case_preserving pathconf3_resok_info.case_preserving_update (bool_member T)]"

interpretation pathconf3_resok_info_tirpc: tirpc_filter
  xdr_pathconf3_resok_info enc_pathconf3_resok_info "\<lambda>_. True" "\<lambda>_ ob. ob"
proof unfold_locales
  fix T V and ob old :: pathconf3_resok_info
  show "fputs T V (xdr_pathconf3_resok_info T) ob (enc_pathconf3_resok_info ob)" if W: "xdr_writer T V"
    unfolding xdr_pathconf3_resok_info_def enc_pathconf3_resok_info_def
    by (intro fput W) simp_all
  show "fgets T V (xdr_pathconf3_resok_info T) old (enc_pathconf3_resok_info ob) ob" if R: "xdr_reader T V"
    unfolding xdr_pathconf3_resok_info_def enc_pathconf3_resok_info_def
    by (rule fgets_cong, (rule fget R | (simp; fail) |
        (cases ob, cases old, simp add: option.map_ident; fail))+)
  show "fsafe T V (xdr_pathconf3_resok_info T)" if R: "xdr_reader T V"
    unfolding xdr_pathconf3_resok_info_def by (intro fret R; simp)
qed

definition xdr_PATHCONF3resok :: "'x tirpc \<Rightarrow> (PATHCONF3resok, 'x) filt" where
  "xdr_PATHCONF3resok T = fseq [
     ffld PATHCONF3resok.obj_attributes PATHCONF3resok.obj_attributes_update (xdr_post_op_attr T),
     ffld PATHCONF3resok.info PATHCONF3resok.info_update (xdr_pathconf3_resok_info T)]"

interpretation PATHCONF3resok_tirpc: tirpc_filter
  xdr_PATHCONF3resok enc_PATHCONF3resok "\<lambda>_. True" ovr_PATHCONF3resok
proof unfold_locales
  fix T V and ob old :: PATHCONF3resok
  show "fputs T V (xdr_PATHCONF3resok T) ob (enc_PATHCONF3resok ob)" if W: "xdr_writer T V"
    unfolding xdr_PATHCONF3resok_def enc_PATHCONF3resok_def
    by (intro fput W) simp_all
  show "fgets T V (xdr_PATHCONF3resok T) old (enc_PATHCONF3resok ob) (ovr_PATHCONF3resok old ob)" if R: "xdr_reader T V"
    unfolding xdr_PATHCONF3resok_def enc_PATHCONF3resok_def
    by (rule fgets_cong, (rule fget R | (simp; fail) |
        (cases ob, cases old, simp add: option.map_ident ovr_PATHCONF3resok_def; fail))+)
  show "fsafe T V (xdr_PATHCONF3resok T)" if R: "xdr_reader T V"
    unfolding xdr_PATHCONF3resok_def by (intro fret R; simp)
qed

definition xdr_PATHCONF3res :: "'x tirpc \<Rightarrow> (PATHCONF3res, 'x) filt" where
  "xdr_PATHCONF3res T = xdr_result T (Fin PATHCONF3resok_init) PATHCONF3resok_init (xdr_PATHCONF3resok T)"

interpretation PATHCONF3res_tirpc: tirpc_filter
  xdr_PATHCONF3res "enc_res enc_PATHCONF3resok" "ok_res (\<lambda>_. True)" "ovr_res (ovr_PATHCONF3resok PATHCONF3resok_init)"
  unfolding xdr_PATHCONF3res_def [abs_def] by (rule PATHCONF3resok_tirpc.result_filter)

section \<open>COMMIT\<close>

definition xdr_COMMIT3args :: "'x tirpc \<Rightarrow> (COMMIT3args, 'x) filt" where
  "xdr_COMMIT3args T = fseq [
     ffld COMMIT3args.file3 COMMIT3args.file3_update (xdr_nfs_fh3 T),
     ffld COMMIT3args.offset COMMIT3args.offset_update (prim (xdr_u_hyper T)),
     ffld COMMIT3args.count COMMIT3args.count_update (prim (xdr_u_int T))]"

definition fits_COMMIT3args :: "COMMIT3args \<Rightarrow> bool" where
  "fits_COMMIT3args ob \<longleftrightarrow> fits_nfs_fh3 (COMMIT3args.file3 ob)"

interpretation COMMIT3args_tirpc: tirpc_filter
  xdr_COMMIT3args enc_COMMIT3args fits_COMMIT3args "\<lambda>_ ob. ob"
proof unfold_locales
  fix T V and ob old :: COMMIT3args
  show "fputs T V (xdr_COMMIT3args T) ob (enc_COMMIT3args ob)" if W: "xdr_writer T V" and ok: "fits_COMMIT3args ob"
    unfolding xdr_COMMIT3args_def enc_COMMIT3args_def using ok [unfolded fits_COMMIT3args_def]
    by (intro fput W) auto
  show "fgets T V (xdr_COMMIT3args T) old (enc_COMMIT3args ob) ob" if R: "xdr_reader T V" and ok: "fits_COMMIT3args ob"
    unfolding xdr_COMMIT3args_def enc_COMMIT3args_def
    by (rule fgets_cong, (rule fget R | (simp; fail) |
        (use ok in \<open>simp add: fits_COMMIT3args_def; fail\<close>) |
        (cases ob, cases old, simp add: option.map_ident; fail))+)
  show "fsafe T V (xdr_COMMIT3args T)" if R: "xdr_reader T V"
    unfolding xdr_COMMIT3args_def by (intro fret R; simp)
qed

definition xdr_COMMIT3resok :: "'x tirpc \<Rightarrow> (COMMIT3resok, 'x) filt" where
  "xdr_COMMIT3resok T = fseq [
     ffld COMMIT3resok.file_wcc COMMIT3resok.file_wcc_update (xdr_post_op_attr T),
     ffld COMMIT3resok.verf COMMIT3resok.verf_update (xdr_writeverf3 T)]"

definition tenc_COMMIT3resok :: "COMMIT3resok \<Rightarrow> bytes" where
  "tenc_COMMIT3resok ob =
     enc_post_op_attr (COMMIT3resok.file_wcc ob) @
     tenc_writeverf3 (COMMIT3resok.verf ob)"

definition fits_COMMIT3resok :: "COMMIT3resok \<Rightarrow> bool" where
  "fits_COMMIT3resok ob \<longleftrightarrow> fits_writeverf3 (COMMIT3resok.verf ob)"

interpretation COMMIT3resok_tirpc: tirpc_filter
  xdr_COMMIT3resok tenc_COMMIT3resok fits_COMMIT3resok ovr_COMMIT3resok
proof unfold_locales
  fix T V and ob old :: COMMIT3resok
  show "fputs T V (xdr_COMMIT3resok T) ob (tenc_COMMIT3resok ob)" if W: "xdr_writer T V" and ok: "fits_COMMIT3resok ob"
    unfolding xdr_COMMIT3resok_def tenc_COMMIT3resok_def using ok [unfolded fits_COMMIT3resok_def]
    by (intro fput W) auto
  show "fgets T V (xdr_COMMIT3resok T) old (tenc_COMMIT3resok ob) (ovr_COMMIT3resok old ob)" if R: "xdr_reader T V" and ok: "fits_COMMIT3resok ob"
    unfolding xdr_COMMIT3resok_def tenc_COMMIT3resok_def
    by (rule fgets_cong, (rule fget R | (simp; fail) |
        (use ok in \<open>simp add: fits_COMMIT3resok_def; fail\<close>) |
        (cases ob, cases old, simp add: option.map_ident ovr_COMMIT3resok_def; fail))+)
  show "fsafe T V (xdr_COMMIT3resok T)" if R: "xdr_reader T V"
    unfolding xdr_COMMIT3resok_def by (intro fret R; simp)
qed

definition xdr_COMMIT3res :: "bytes \<Rightarrow> 'x tirpc \<Rightarrow> (COMMIT3res, 'x) filt" where
  "xdr_COMMIT3res ind T = xdr_result T (Fin (COMMIT3resok_init ind)) (COMMIT3resok_init ind) (xdr_COMMIT3resok T)"

interpretation COMMIT3res_tirpc: tirpc_filter
  "xdr_COMMIT3res ind" "enc_res tenc_COMMIT3resok" "ok_res fits_COMMIT3resok" "ovr_res (ovr_COMMIT3resok (COMMIT3resok_init ind))" for ind
  unfolding xdr_COMMIT3res_def [abs_def] by (rule COMMIT3resok_tirpc.result_filter)

end
