(* ===== verification/TirpcClient.thy ===== *)
theory TirpcClient
  imports TirpcEndpoint Nfs3Client TirpcProcsA TirpcProcsB TirpcProcsC TirpcDir
begin

text \<open>
  The NFS client in the build with libtirpc: the branches under \<^verbatim>\<open>HAVE_LIBTIRPC\<close> of the methods in
  \<^verbatim>\<open>nfs3_rpc_tests/src/nfs3_client.cpp\<close>, which hand the libtirpc filters of their arguments and results
  to \<^verbatim>\<open>call_with_xdr\<close>. The rest of a method is the same in both builds: \<open>check_result\<close>. A result on
  which \<^verbatim>\<open>memset\<close> has been called has the status 0 and no \<^verbatim>\<open>resok\<close>.
\<close>

record TNFS3TestClient =
  tendpoint :: TRPCEndpoint
  troot_fh :: nfs_fh3

definition TNFS3TestClient_new :: "TRPCEndpoint \<Rightarrow> TNFS3TestClient" where
  "TNFS3TestClient_new ep = \<lparr>tendpoint = ep, troot_fh = nfs_fh3_init\<rparr>"

type_synonym ('r, 'w) tirpc_result = "((('r, Nfs3Error) expected \<times> TNFS3TestClient) \<times> 'w) fres"

definition tirpc_null ::
    "(unit, 'x) filt \<Rightarrow> (unit, unit, 'x, 'w) clnt_call \<Rightarrow> TNFS3TestClient \<Rightarrow> 'w \<Rightarrow> (unit, 'w) tirpc_result" where
  "tirpc_null xdr_void clnt_call cl w =
     fbind (TRPCEndpoint_call_void xdr_void clnt_call (tendpoint cl) (proc_val NFSPROC3_NULL) w) (\<lambda>((result, ep), w).
       let cl = cl\<lparr>tendpoint := ep\<rparr>
       in if \<not> has_value result then Fin ((Unexpected Nfs3Error.RPC_ERROR, cl), w)
          else Fin ((Value (), cl), w))"

definition tirpc_invoke ::
    "('a, 'r nfs_res, 'x, 'w) clnt_call \<Rightarrow> ('a, 'x) filt \<Rightarrow> ('r nfs_res, 'x) filt \<Rightarrow> TNFS3TestClient \<Rightarrow>
     proc_num \<Rightarrow> 'a \<Rightarrow> 'w \<Rightarrow> ('r, 'w) tirpc_result" where
  "tirpc_invoke clnt_call xdr_args xdr_res cl p args w =
     fbind (TRPCEndpoint_call_with_xdr clnt_call (tendpoint cl) (proc_val p) args xdr_args xdr_res
         \<lparr>status = 0, resok = None\<rparr> w)
       (\<lambda>((result, ep), w). Fin ((check_result result, cl\<lparr>tendpoint := ep\<rparr>), w))"

definition tirpc_getattr ::
    "'x tirpc \<Rightarrow> (GETATTR3args, GETATTR3res, 'x, 'w) clnt_call \<Rightarrow> TNFS3TestClient \<Rightarrow> nfs_fh3 \<Rightarrow> 'w \<Rightarrow>
     (GETATTR3resok, 'w) tirpc_result" where
  "tirpc_getattr T clnt_call cl a_object w =
     tirpc_invoke clnt_call (xdr_GETATTR3args T) (xdr_GETATTR3res T) cl NFSPROC3_GETATTR
       \<lparr>GETATTR3args.object = a_object\<rparr> w"

definition tirpc_setattr ::
    "'x tirpc \<Rightarrow> (SETATTR3args, SETATTR3res, 'x, 'w) clnt_call \<Rightarrow> TNFS3TestClient \<Rightarrow> nfs_fh3 \<Rightarrow> sattr3 \<Rightarrow> 'w \<Rightarrow>
     (SETATTR3resok, 'w) tirpc_result" where
  "tirpc_setattr T clnt_call cl a_object a_new_attributes w =
     tirpc_invoke clnt_call (xdr_SETATTR3args T) (xdr_SETATTR3res T) cl NFSPROC3_SETATTR
       \<lparr>SETATTR3args.object = a_object,
       SETATTR3args.new_attributes = a_new_attributes,
       SETATTR3args.guard = None\<rparr> w"

definition tirpc_lookup ::
    "'x tirpc \<Rightarrow> (LOOKUP3args, LOOKUP3res, 'x, 'w) clnt_call \<Rightarrow> TNFS3TestClient \<Rightarrow> nfs_fh3 \<Rightarrow> string \<Rightarrow> 'w \<Rightarrow>
     (LOOKUP3resok, 'w) tirpc_result" where
  "tirpc_lookup T clnt_call cl a_dir a_name w =
     tirpc_invoke clnt_call (xdr_LOOKUP3args T) (xdr_LOOKUP3res T) cl NFSPROC3_LOOKUP
       \<lparr>LOOKUP3args.what_dir = a_dir,
       LOOKUP3args.what_name = a_name\<rparr> w"

definition tirpc_access ::
    "'x tirpc \<Rightarrow> (ACCESS3args, ACCESS3res, 'x, 'w) clnt_call \<Rightarrow> TNFS3TestClient \<Rightarrow> nfs_fh3 \<Rightarrow> uint32 \<Rightarrow> 'w \<Rightarrow>
     (ACCESS3resok, 'w) tirpc_result" where
  "tirpc_access T clnt_call cl a_object a_access_mask w =
     tirpc_invoke clnt_call (xdr_ACCESS3args T) (xdr_ACCESS3res T) cl NFSPROC3_ACCESS
       \<lparr>ACCESS3args.object = a_object,
       ACCESS3args.access = a_access_mask\<rparr> w"

definition tirpc_readlink ::
    "'x tirpc \<Rightarrow> (READLINK3args, READLINK3res, 'x, 'w) clnt_call \<Rightarrow> TNFS3TestClient \<Rightarrow> nfs_fh3 \<Rightarrow> 'w \<Rightarrow>
     (READLINK3resok, 'w) tirpc_result" where
  "tirpc_readlink T clnt_call cl a_symlink w =
     tirpc_invoke clnt_call (xdr_READLINK3args T) (xdr_READLINK3res T) cl NFSPROC3_READLINK
       \<lparr>READLINK3args.symlink = a_symlink\<rparr> w"

definition tirpc_read ::
    "'x tirpc \<Rightarrow> (READ3args, READ3res, 'x, 'w) clnt_call \<Rightarrow> TNFS3TestClient \<Rightarrow> nfs_fh3 \<Rightarrow> uint64 \<Rightarrow> uint32 \<Rightarrow> 'w \<Rightarrow>
     (READ3resok, 'w) tirpc_result" where
  "tirpc_read T clnt_call cl a_file3 a_offset a_count w =
     tirpc_invoke clnt_call (xdr_READ3args T) (xdr_READ3res T) cl NFSPROC3_READ
       \<lparr>READ3args.file3 = a_file3,
       READ3args.offset = a_offset,
       READ3args.count = a_count\<rparr> w"

definition tirpc_write ::
    "'x tirpc \<Rightarrow> (WRITE3args, WRITE3res, 'x, 'w) clnt_call \<Rightarrow> bytes \<Rightarrow> TNFS3TestClient \<Rightarrow> nfs_fh3 \<Rightarrow> uint64 \<Rightarrow> stable_how \<Rightarrow> bytes \<Rightarrow> 'w \<Rightarrow>
     (WRITE3resok, 'w) tirpc_result" where
  "tirpc_write T clnt_call ind cl a_file3 a_offset a_stable a_data w =
     tirpc_invoke clnt_call (xdr_WRITE3args T) (xdr_WRITE3res ind T) cl NFSPROC3_WRITE
       \<lparr>WRITE3args.file3 = a_file3,
       WRITE3args.offset = a_offset,
       WRITE3args.count = word_of_nat (length a_data),
       WRITE3args.stable = a_stable,
       WRITE3args.data = a_data\<rparr> w"

definition tirpc_create ::
    "'x tirpc \<Rightarrow> (CREATE3args, CREATE3res, 'x, 'w) clnt_call \<Rightarrow> TNFS3TestClient \<Rightarrow> nfs_fh3 \<Rightarrow> string \<Rightarrow> createmode3 \<Rightarrow> sattr3 \<Rightarrow> 'w \<Rightarrow>
     (CREATE3resok, 'w) tirpc_result" where
  "tirpc_create T clnt_call cl a_dir a_name a_mode a_attributes w =
     tirpc_invoke clnt_call (xdr_CREATE3args T) (xdr_CREATE3res T) cl NFSPROC3_CREATE
       \<lparr>CREATE3args.where_dir = a_dir,
       CREATE3args.where_name = a_name,
       CREATE3args.how_mode = a_mode,
       CREATE3args.how_attributes = a_attributes,
       CREATE3args.how_verf = \<lparr>createverf3.data = replicate 8 0\<rparr>\<rparr> w"

definition tirpc_mkdir ::
    "'x tirpc \<Rightarrow> (MKDIR3args, MKDIR3res, 'x, 'w) clnt_call \<Rightarrow> TNFS3TestClient \<Rightarrow> nfs_fh3 \<Rightarrow> string \<Rightarrow> sattr3 \<Rightarrow> 'w \<Rightarrow>
     (MKDIR3resok, 'w) tirpc_result" where
  "tirpc_mkdir T clnt_call cl a_dir a_name a_attributes w =
     tirpc_invoke clnt_call (xdr_MKDIR3args T) (xdr_MKDIR3res T) cl NFSPROC3_MKDIR
       \<lparr>MKDIR3args.where_dir = a_dir,
       MKDIR3args.where_name = a_name,
       MKDIR3args.attributes = a_attributes\<rparr> w"

definition tirpc_symlink ::
    "'x tirpc \<Rightarrow> (SYMLINK3args, SYMLINK3res, 'x, 'w) clnt_call \<Rightarrow> TNFS3TestClient \<Rightarrow> nfs_fh3 \<Rightarrow> string \<Rightarrow> sattr3 \<Rightarrow> string \<Rightarrow> 'w \<Rightarrow>
     (SYMLINK3resok, 'w) tirpc_result" where
  "tirpc_symlink T clnt_call cl a_dir a_name a_attributes a_data w =
     tirpc_invoke clnt_call (xdr_SYMLINK3args T) (xdr_SYMLINK3res T) cl NFSPROC3_SYMLINK
       \<lparr>SYMLINK3args.where_dir = a_dir,
       SYMLINK3args.where_name = a_name,
       SYMLINK3args.symlink_attributes = a_attributes,
       SYMLINK3args.symlink_data = a_data\<rparr> w"

definition tirpc_mknod ::
    "'x tirpc \<Rightarrow> (MKNOD3args, MKNOD3res, 'x, 'w) clnt_call \<Rightarrow> TNFS3TestClient \<Rightarrow> nfs_fh3 \<Rightarrow> string \<Rightarrow> ftype4 \<Rightarrow> sattr3 \<Rightarrow> 'w \<Rightarrow>
     (MKNOD3resok, 'w) tirpc_result" where
  "tirpc_mknod T clnt_call cl a_dir a_name a_type a_attributes w =
     tirpc_invoke clnt_call (xdr_MKNOD3args T) (xdr_MKNOD3res T) cl NFSPROC3_MKNOD
       \<lparr>MKNOD3args.where_dir = a_dir,
       MKNOD3args.where_name = a_name,
       MKNOD3args.what_type = a_type,
       MKNOD3args.what_attributes = a_attributes\<rparr> w"

definition tirpc_remove ::
    "'x tirpc \<Rightarrow> (REMOVE3args, REMOVE3res, 'x, 'w) clnt_call \<Rightarrow> TNFS3TestClient \<Rightarrow> nfs_fh3 \<Rightarrow> string \<Rightarrow> 'w \<Rightarrow>
     (REMOVE3resok, 'w) tirpc_result" where
  "tirpc_remove T clnt_call cl a_dir a_name w =
     tirpc_invoke clnt_call (xdr_REMOVE3args T) (xdr_REMOVE3res T) cl NFSPROC3_REMOVE
       \<lparr>REMOVE3args.object_dir = a_dir,
       REMOVE3args.object_name = a_name\<rparr> w"

definition tirpc_rmdir ::
    "'x tirpc \<Rightarrow> (RMDIR3args, RMDIR3res, 'x, 'w) clnt_call \<Rightarrow> TNFS3TestClient \<Rightarrow> nfs_fh3 \<Rightarrow> string \<Rightarrow> 'w \<Rightarrow>
     (RMDIR3resok, 'w) tirpc_result" where
  "tirpc_rmdir T clnt_call cl a_dir a_name w =
     tirpc_invoke clnt_call (xdr_RMDIR3args T) (xdr_RMDIR3res T) cl NFSPROC3_RMDIR
       \<lparr>RMDIR3args.object_dir = a_dir,
       RMDIR3args.object_name = a_name\<rparr> w"

definition tirpc_rename_op ::
    "'x tirpc \<Rightarrow> (RENAME3args, RENAME3res, 'x, 'w) clnt_call \<Rightarrow> TNFS3TestClient \<Rightarrow> nfs_fh3 \<Rightarrow> string \<Rightarrow> nfs_fh3 \<Rightarrow> string \<Rightarrow> 'w \<Rightarrow>
     (RENAME3resok, 'w) tirpc_result" where
  "tirpc_rename_op T clnt_call cl a_from_dir a_from_name a_to_dir a_to_name w =
     tirpc_invoke clnt_call (xdr_RENAME3args T) (xdr_RENAME3res T) cl NFSPROC3_RENAME
       \<lparr>RENAME3args.from_dir = a_from_dir,
       RENAME3args.from_name = a_from_name,
       RENAME3args.to_dir = a_to_dir,
       RENAME3args.to_name = a_to_name\<rparr> w"

definition tirpc_link ::
    "'x tirpc \<Rightarrow> (LINK3args, LINK3res, 'x, 'w) clnt_call \<Rightarrow> TNFS3TestClient \<Rightarrow> nfs_fh3 \<Rightarrow> nfs_fh3 \<Rightarrow> string \<Rightarrow> 'w \<Rightarrow>
     (LINK3resok, 'w) tirpc_result" where
  "tirpc_link T clnt_call cl a_file3 a_link_dir a_link_name w =
     tirpc_invoke clnt_call (xdr_LINK3args T) (xdr_LINK3res T) cl NFSPROC3_LINK
       \<lparr>LINK3args.file3 = a_file3,
       LINK3args.link_dir = a_link_dir,
       LINK3args.link_name = a_link_name\<rparr> w"

definition tirpc_readdir ::
    "'x tirpc \<Rightarrow> (READDIR3args, READDIR3res, 'x, 'w) clnt_call \<Rightarrow> TNFS3TestClient \<Rightarrow> nfs_fh3 \<Rightarrow> uint64 \<Rightarrow> uint64 \<Rightarrow> uint32 \<Rightarrow> 'w \<Rightarrow>
     (READDIR3resok, 'w) tirpc_result" where
  "tirpc_readdir T clnt_call cl a_dir a_cookie a_cookieverf a_count w =
     tirpc_invoke clnt_call (xdr_READDIR3args T) (xdr_READDIR3res T) cl NFSPROC3_READDIR
       \<lparr>READDIR3args.dir = a_dir,
       READDIR3args.cookie = a_cookie,
       READDIR3args.cookieverf = a_cookieverf,
       READDIR3args.count = a_count\<rparr> w"

definition tirpc_readdirplus ::
    "'x tirpc \<Rightarrow> (READDIRPLUS3args, READDIRPLUS3res, 'x, 'w) clnt_call \<Rightarrow> TNFS3TestClient \<Rightarrow> nfs_fh3 \<Rightarrow> uint64 \<Rightarrow> uint64 \<Rightarrow> uint32 \<Rightarrow> uint32 \<Rightarrow> 'w \<Rightarrow>
     (READDIRPLUS3resok, 'w) tirpc_result" where
  "tirpc_readdirplus T clnt_call cl a_dir a_cookie a_cookieverf a_dircount a_maxcount w =
     tirpc_invoke clnt_call (xdr_READDIRPLUS3args T) (xdr_READDIRPLUS3res T) cl NFSPROC3_READDIRPLUS
       \<lparr>READDIRPLUS3args.dir = a_dir,
       READDIRPLUS3args.cookie = a_cookie,
       READDIRPLUS3args.cookieverf = a_cookieverf,
       READDIRPLUS3args.dircount = a_dircount,
       READDIRPLUS3args.maxcount = a_maxcount\<rparr> w"

definition tirpc_fsstat ::
    "'x tirpc \<Rightarrow> (FSSTAT3args, FSSTAT3res, 'x, 'w) clnt_call \<Rightarrow> TNFS3TestClient \<Rightarrow> nfs_fh3 \<Rightarrow> 'w \<Rightarrow>
     (FSSTAT3resok, 'w) tirpc_result" where
  "tirpc_fsstat T clnt_call cl a_fsroot w =
     tirpc_invoke clnt_call (xdr_FSSTAT3args T) (xdr_FSSTAT3res T) cl NFSPROC3_FSSTAT
       \<lparr>FSSTAT3args.fsroot = a_fsroot\<rparr> w"

definition tirpc_fsinfo ::
    "'x tirpc \<Rightarrow> (FSINFO3args, FSINFO3res, 'x, 'w) clnt_call \<Rightarrow> TNFS3TestClient \<Rightarrow> nfs_fh3 \<Rightarrow> 'w \<Rightarrow>
     (FSINFO3resok, 'w) tirpc_result" where
  "tirpc_fsinfo T clnt_call cl a_fsroot w =
     tirpc_invoke clnt_call (xdr_FSINFO3args T) (xdr_FSINFO3res T) cl NFSPROC3_FSINFO
       \<lparr>FSINFO3args.fsroot = a_fsroot\<rparr> w"

definition tirpc_pathconf ::
    "'x tirpc \<Rightarrow> (PATHCONF3args, PATHCONF3res, 'x, 'w) clnt_call \<Rightarrow> TNFS3TestClient \<Rightarrow> nfs_fh3 \<Rightarrow> 'w \<Rightarrow>
     (PATHCONF3resok, 'w) tirpc_result" where
  "tirpc_pathconf T clnt_call cl a_object w =
     tirpc_invoke clnt_call (xdr_PATHCONF3args T) (xdr_PATHCONF3res T) cl NFSPROC3_PATHCONF
       \<lparr>PATHCONF3args.object = a_object\<rparr> w"

definition tirpc_commit ::
    "'x tirpc \<Rightarrow> (COMMIT3args, COMMIT3res, 'x, 'w) clnt_call \<Rightarrow> bytes \<Rightarrow> TNFS3TestClient \<Rightarrow> nfs_fh3 \<Rightarrow> uint64 \<Rightarrow> uint32 \<Rightarrow> 'w \<Rightarrow>
     (COMMIT3resok, 'w) tirpc_result" where
  "tirpc_commit T clnt_call ind cl a_file3 a_offset a_count w =
     tirpc_invoke clnt_call (xdr_COMMIT3args T) (xdr_COMMIT3res ind T) cl NFSPROC3_COMMIT
       \<lparr>COMMIT3args.file3 = a_file3,
       COMMIT3args.offset = a_offset,
       COMMIT3args.count = a_count\<rparr> w"

section \<open>The contract of a procedure\<close>

text \<open>A client whose endpoint holds the handle \<open>c\<close>, and the client after a call.\<close>

definition connected_to :: "TNFS3TestClient \<Rightarrow> nat \<Rightarrow> bool" where
  "connected_to cl c \<longleftrightarrow> (\<exists>im. timpl (tendpoint cl) = Some im \<and> client im = Some c)"

definition after_call :: "TNFS3TestClient \<Rightarrow> TNFS3TestClient" where
  "after_call cl = cl\<lparr>tendpoint := next_xid (tendpoint cl)\<rparr>"

text \<open>
  \<open>carried_out m p bs enc ok got\<close>: on every connection, the method \<open>m\<close> sends one call, of the procedure
  \<open>p\<close> with the arguments \<open>bs\<close>. It returns \<open>got r\<close> when the server answers with a result \<open>r\<close> that satisfies
  \<open>ok\<close>, \<^verbatim>\<open>SERVERFAULT\<close> when it answers with an error, \<^verbatim>\<open>RPC_ERROR\<close> when there is no answer, and returns
  some result or error whatever the answer is.
\<close>

definition told ::
    "clnt_stat \<times> bytes \<Rightarrow> ('r \<Rightarrow> bytes) \<Rightarrow> ('r \<Rightarrow> bool) \<Rightarrow> ('r \<Rightarrow> 'r) \<Rightarrow> ('r, Nfs3Error) expected \<Rightarrow> bool" where
  "told ans enc ok got v \<longleftrightarrow> (case ans of (st, out) \<Rightarrow>
     (st \<noteq> RPC_SUCCESS \<longrightarrow> v = Unexpected Nfs3Error.RPC_ERROR) \<and>
     (\<forall>r rest. st = RPC_SUCCESS \<longrightarrow> ok r \<longrightarrow>
        out = enc_res enc \<lparr>status = NFS3_OK, resok = Some r\<rparr> @ rest \<longrightarrow> v = Value (got r)) \<and>
     (\<forall>e rest. st = RPC_SUCCESS \<longrightarrow> e \<noteq> NFS3_OK \<longrightarrow> out = be32 e @ rest \<longrightarrow> v = Unexpected SERVERFAULT))"

definition carried_out ::
    "('x tirpc \<Rightarrow> ('a, 'r nfs_res, 'x, 'w) clnt_call \<Rightarrow> TNFS3TestClient \<Rightarrow> 'w \<Rightarrow> ('r, 'w) tirpc_result) \<Rightarrow>
     proc_num \<Rightarrow> bytes \<Rightarrow> ('r \<Rightarrow> bytes) \<Rightarrow> ('r \<Rightarrow> bool) \<Rightarrow> ('r \<Rightarrow> 'r) \<Rightarrow> bool" where
  "carried_out m p bs enc ok got \<longleftrightarrow>
     (\<forall>T V lim reqs answer call cl c w. xdr_writer T V \<longrightarrow> xdr_reader T V \<longrightarrow>
        calls_through T V lim reqs answer call \<longrightarrow> connected_to cl c \<longrightarrow> length bs \<le> lim \<longrightarrow>
        (\<exists>v w'. m T call cl w = Fin ((v, after_call cl), w') \<and> reqs w' = reqs w @ [(c, proc_val p, bs)] \<and>
          told (answer (c, proc_val p, bs) w) enc ok got v))"

lemma told_value:
  "told (RPC_SUCCESS, enc_res enc \<lparr>status = NFS3_OK, resok = Some r\<rparr> @ rest) enc ok got v \<Longrightarrow> ok r \<Longrightarrow> v = Value (got r)"
  by (simp add: told_def)

lemma told_got:
  assumes "told ans enc ok got v" and "\<And>r. ok' r \<Longrightarrow> ok r \<and> got r = got' r"
  shows "told ans enc ok' got' v"
  using assms by (cases ans) (auto simp: told_def)

lemma carried_out_got:
  assumes "carried_out m p bs enc ok got" and "\<And>r. ok' r \<Longrightarrow> ok r \<and> got r = got' r"
  shows "carried_out m p bs enc ok' got'"
proof -
  have "told ans enc ok' got' v" if "told ans enc ok got v" for ans v
    using that assms(2) by (rule told_got)
  with assms(1) show ?thesis unfolding carried_out_def by blast
qed

lemma carried_outE:
  assumes "carried_out m p bs enc ok got" and "xdr_writer T V" and "xdr_reader T V"
    and "calls_through T V lim reqs answer call" and "connected_to cl c" and "length bs \<le> lim"
  obtains v w' where "m T call cl w = Fin ((v, after_call cl), w')" "reqs w' = reqs w @ [(c, proc_val p, bs)]"
    "told (answer (c, proc_val p, bs) w) enc ok got v"
  using assms unfolding carried_out_def by blast

text \<open>What \<^verbatim>\<open>call_with_xdr\<close> makes of the outcome of \<^verbatim>\<open>clnt_call\<close>, seen by a method.\<close>

lemma clnt_switch_None: "clnt_switch st = None \<longleftrightarrow> st = RPC_SUCCESS"
  by (cases st) simp_all

lemma invoke_outcome:
  assumes "connected_to cl c"
  obtains tv where "\<And>w st r w'. call c (proc_val p) f a g \<lparr>status = 0, resok = None\<rparr> tv w = Fin (st, r, w') \<Longrightarrow>
    tirpc_invoke call f g cl p a w =
      Fin ((if st = RPC_SUCCESS then check_result (Value r) else Unexpected Nfs3Error.RPC_ERROR, after_call cl), w')"
proof -
  from assms(1) obtain im where im: "timpl (tendpoint cl) = Some im" "client im = Some c"
    by (auto simp: connected_to_def)
  then have "TRPCEndpoint_is_connected (tendpoint cl)" "the_client (next_xid (tendpoint cl)) = c"
    "ttimeout (the (timpl (next_xid (tendpoint cl)))) = ttimeout im"
    by (simp_all add: TRPCEndpoint_is_connected_def the_client_def next_xid_def)
  then have "tirpc_invoke call f g cl p a w =
      Fin ((if st = RPC_SUCCESS then check_result (Value r) else Unexpected Nfs3Error.RPC_ERROR, after_call cl), w')"
    if "call c (proc_val p) f a g \<lparr>status = 0, resok = None\<rparr> (timeval_of (ttimeout im)) w = Fin (st, r, w')"
    for w st r w'
    using that clnt_switch_None [of st]
    by (cases "clnt_switch st")
      (auto simp: tirpc_invoke_def TRPCEndpoint_call_with_xdr_def Let_def after_call_def check_result_simps(1))
  then show thesis by (rule that)
qed

locale tirpc_procedure =
  args: tirpc_writer argf enc_a ok_a + res: tirpc_filter resf "enc_res enc_r" "ok_res ok_r" "ovr_res got"
  for argf :: "'x tirpc \<Rightarrow> ('a, 'x) filt" and enc_a ok_a
    and resf :: "'x tirpc \<Rightarrow> ('r nfs_res, 'x) filt" and enc_r ok_r got
begin

lemma results_of:
  assumes "xdr_reader T V" and "x_op T y = XDR_DECODE"
    and "resf T \<lparr>status = 0, resok = None\<rparr> y = Fin (r', b, y')"
  shows "ok_r r \<Longrightarrow> xdr_in V y = enc_res enc_r \<lparr>status = NFS3_OK, resok = Some r\<rparr> @ rest \<Longrightarrow>
      b \<and> r' = \<lparr>status = NFS3_OK, resok = Some (got r)\<rparr>"
    and "e \<noteq> NFS3_OK \<Longrightarrow> xdr_in V y = be32 e @ rest \<Longrightarrow> b \<and> status r' = e"
proof -
  let ?zero = "\<lparr>status = 0, resok = None\<rparr> :: 'r nfs_res"
  have gets: "b \<and> r' = ovr_res got ?zero ob"
    if "ok_res ok_r ob" "xdr_in V y = enc_res enc_r ob @ rest" for ob
    using fgetsE [OF res.filt_gets [OF assms(1) that(1), of ?zero] assms(2) that(2)] assms(3) by auto
  show "b \<and> r' = \<lparr>status = NFS3_OK, resok = Some (got r)\<rparr>"
    if "ok_r r" "xdr_in V y = enc_res enc_r \<lparr>status = NFS3_OK, resok = Some r\<rparr> @ rest"
    using gets [OF _ that(2)] that(1) by (simp add: ok_res_def ovr_res_def)
  show "b \<and> status r' = e" if "e \<noteq> NFS3_OK" "xdr_in V y = be32 e @ rest"
    using gets [of "\<lparr>status = e, resok = None\<rparr>"] that by (simp add: ok_res_def ovr_res_def enc_res_def)
qed

lemma invoke_carried_out:
  assumes "ok_a a"
  shows "carried_out (\<lambda>T call cl w. tirpc_invoke call (argf T) (resf T) cl p a w) p (enc_a a) enc_r ok_r got"
  unfolding carried_out_def
proof (intro allI impI)
  fix T :: "'x tirpc" and V :: "'x view" and lim and reqs :: "'w \<Rightarrow> request list" and answer
    and call :: "('a, 'r nfs_res, 'x, 'w) clnt_call" and cl c w
  assume W: "xdr_writer T V" and R: "xdr_reader T V" and law: "calls_through T V lim reqs answer call"
    and con: "connected_to cl c" and len: "length (enc_a a) \<le> lim"
  show "\<exists>v w'. tirpc_invoke call (argf T) (resf T) cl p a w = Fin ((v, after_call cl), w') \<and>
      reqs w' = reqs w @ [(c, proc_val p, enc_a a)] \<and>
      told (answer (c, proc_val p, enc_a a) w) enc_r ok_r got v"
  proof -
    let ?zero = "\<lparr>status = 0, resok = None\<rparr> :: 'r nfs_res"
    obtain tv where run: "\<And>st r w'. call c (proc_val p) (argf T) a (resf T) ?zero tv w = Fin (st, r, w') \<Longrightarrow>
        tirpc_invoke call (argf T) (resf T) cl p a w =
          Fin ((if st = RPC_SUCCESS then check_result (Value r) else Unexpected Nfs3Error.RPC_ERROR, after_call cl), w')"
      by (rule invoke_outcome [OF con, of call p "argf T" a "resf T"]) blast
    from law args.filt_puts [OF W assms] len show ?thesis
    proof (cases rule: calls_throughE [where c = c and p = "proc_val p" and w = w and g = "resf T" and r = ?zero and tv = tv])
      case (refused st results w')
      with run [OF refused(3)] show ?thesis
        by (intro exI [of _ "Unexpected Nfs3Error.RPC_ERROR"] exI [of _ w']) (simp add: told_def)
    next
      case (answered results y w')
      from fsafeE [OF res.filt_safe [OF R] answered(2)] obtain r' b y' where
        y: "resf T ?zero y = Fin (r', b, y')" by metis
      have "call c (proc_val p) (argf T) a (resf T) ?zero tv w =
          Fin (if b then RPC_SUCCESS else RPC_CANTDECODERES, r', w')"
        using answered(5) y by simp
      from run [OF this] answered(1,3,4) check_result_simps(2,3) [of r'] 
        results_of [OF R answered(2) y]
      show ?thesis
        by (intro exI [of _ "if b then check_result (Value r') else Unexpected Nfs3Error.RPC_ERROR"] exI [of _ w'])
          (auto simp: told_def check_result_simps)
    qed
  qed
qed

end

text \<open>Every method of the client calls a procedure that keeps the contract.\<close>

interpretation getattr_tirpc: tirpc_procedure
  xdr_GETATTR3args enc_GETATTR3args fits_GETATTR3args
  xdr_GETATTR3res enc_GETATTR3resok "\<lambda>_. True" "\<lambda>ob. ob"
  by (intro tirpc_procedure.intro GETATTR3args_tirpc.tirpc_writer_axioms GETATTR3res_tirpc.tirpc_filter_axioms)

interpretation setattr_tirpc: tirpc_procedure
  xdr_SETATTR3args tenc_SETATTR3args fits_SETATTR3args
  xdr_SETATTR3res enc_SETATTR3resok "\<lambda>_. True" "ovr_SETATTR3resok SETATTR3resok_init"
  by (intro tirpc_procedure.intro SETATTR3args_tirpc.tirpc_writer_axioms SETATTR3res_tirpc.tirpc_filter_axioms)

interpretation lookup_tirpc: tirpc_procedure
  xdr_LOOKUP3args enc_LOOKUP3args fits_LOOKUP3args
  xdr_LOOKUP3res enc_LOOKUP3resok fits_LOOKUP3resok "ovr_LOOKUP3resok LOOKUP3resok_init"
  by (intro tirpc_procedure.intro LOOKUP3args_tirpc.tirpc_writer_axioms LOOKUP3res_tirpc.tirpc_filter_axioms)

interpretation access_tirpc: tirpc_procedure
  xdr_ACCESS3args enc_ACCESS3args fits_ACCESS3args
  xdr_ACCESS3res enc_ACCESS3resok "\<lambda>_. True" "ovr_ACCESS3resok ACCESS3resok_init"
  by (intro tirpc_procedure.intro ACCESS3args_tirpc.tirpc_writer_axioms ACCESS3res_tirpc.tirpc_filter_axioms)

interpretation readlink_tirpc: tirpc_procedure
  xdr_READLINK3args enc_READLINK3args fits_READLINK3args
  xdr_READLINK3res enc_READLINK3resok fits_READLINK3resok "ovr_READLINK3resok READLINK3resok_init"
  by (intro tirpc_procedure.intro READLINK3args_tirpc.tirpc_writer_axioms READLINK3res_tirpc.tirpc_filter_axioms)

interpretation read_tirpc: tirpc_procedure
  xdr_READ3args enc_READ3args fits_READ3args
  xdr_READ3res enc_READ3resok fits_READ3resok "ovr_READ3resok READ3resok_init"
  by (intro tirpc_procedure.intro READ3args_tirpc.tirpc_writer_axioms READ3res_tirpc.tirpc_filter_axioms)

interpretation write_tirpc: tirpc_procedure
  xdr_WRITE3args enc_WRITE3args fits_WRITE3args
  "xdr_WRITE3res ind" tenc_WRITE3resok fits_WRITE3resok "ovr_WRITE3resok (WRITE3resok_init ind)" for ind
  by (intro tirpc_procedure.intro WRITE3args_tirpc.tirpc_writer_axioms WRITE3res_tirpc.tirpc_filter_axioms)

interpretation create_tirpc: tirpc_procedure
  xdr_CREATE3args tenc_CREATE3args fits_CREATE3args
  xdr_CREATE3res enc_CREATE3resok fits_CREATE3resok "ovr_CREATE3resok CREATE3resok_init"
  by (intro tirpc_procedure.intro CREATE3args_tirpc.tirpc_writer_axioms CREATE3res_tirpc.tirpc_filter_axioms)

interpretation mkdir_tirpc: tirpc_procedure
  xdr_MKDIR3args tenc_MKDIR3args fits_MKDIR3args
  xdr_MKDIR3res enc_MKDIR3resok fits_MKDIR3resok "ovr_MKDIR3resok MKDIR3resok_init"
  by (intro tirpc_procedure.intro MKDIR3args_tirpc.tirpc_writer_axioms MKDIR3res_tirpc.tirpc_filter_axioms)

interpretation symlink_tirpc: tirpc_procedure
  xdr_SYMLINK3args tenc_SYMLINK3args fits_SYMLINK3args
  xdr_SYMLINK3res enc_SYMLINK3resok fits_SYMLINK3resok "ovr_SYMLINK3resok SYMLINK3resok_init"
  by (intro tirpc_procedure.intro SYMLINK3args_tirpc.tirpc_writer_axioms SYMLINK3res_tirpc.tirpc_filter_axioms)

interpretation mknod_tirpc: tirpc_procedure
  xdr_MKNOD3args tenc_MKNOD3args fits_MKNOD3args
  xdr_MKNOD3res enc_MKNOD3resok fits_MKNOD3resok "ovr_MKNOD3resok MKNOD3resok_init"
  by (intro tirpc_procedure.intro MKNOD3args_tirpc.tirpc_writer_axioms MKNOD3res_tirpc.tirpc_filter_axioms)

interpretation remove_tirpc: tirpc_procedure
  xdr_REMOVE3args enc_REMOVE3args fits_REMOVE3args
  xdr_REMOVE3res enc_REMOVE3resok "\<lambda>_. True" "ovr_REMOVE3resok REMOVE3resok_init"
  by (intro tirpc_procedure.intro REMOVE3args_tirpc.tirpc_writer_axioms REMOVE3res_tirpc.tirpc_filter_axioms)

interpretation rmdir_tirpc: tirpc_procedure
  xdr_RMDIR3args enc_RMDIR3args fits_RMDIR3args
  xdr_RMDIR3res enc_RMDIR3resok "\<lambda>_. True" "ovr_RMDIR3resok RMDIR3resok_init"
  by (intro tirpc_procedure.intro RMDIR3args_tirpc.tirpc_writer_axioms RMDIR3res_tirpc.tirpc_filter_axioms)

interpretation rename_op_tirpc: tirpc_procedure
  xdr_RENAME3args enc_RENAME3args fits_RENAME3args
  xdr_RENAME3res enc_RENAME3resok "\<lambda>_. True" "ovr_RENAME3resok RENAME3resok_init"
  by (intro tirpc_procedure.intro RENAME3args_tirpc.tirpc_writer_axioms RENAME3res_tirpc.tirpc_filter_axioms)

interpretation link_tirpc: tirpc_procedure
  xdr_LINK3args enc_LINK3args fits_LINK3args
  xdr_LINK3res enc_LINK3resok "\<lambda>_. True" "ovr_LINK3resok LINK3resok_init"
  by (intro tirpc_procedure.intro LINK3args_tirpc.tirpc_writer_axioms LINK3res_tirpc.tirpc_filter_axioms)

interpretation readdir_tirpc: tirpc_procedure
  xdr_READDIR3args tenc_READDIR3args fits_READDIR3args
  xdr_READDIR3res tenc_READDIR3resok fits_READDIR3resok "lost_READDIR3resok READDIR3resok_init"
  by (intro tirpc_procedure.intro READDIR3args_tirpc.tirpc_writer_axioms READDIR3res_tirpc.tirpc_filter_axioms)

interpretation readdirplus_tirpc: tirpc_procedure
  xdr_READDIRPLUS3args tenc_READDIRPLUS3args fits_READDIRPLUS3args
  xdr_READDIRPLUS3res tenc_READDIRPLUS3resok fits_READDIRPLUS3resok "lost_READDIRPLUS3resok READDIRPLUS3resok_init"
  by (intro tirpc_procedure.intro READDIRPLUS3args_tirpc.tirpc_writer_axioms READDIRPLUS3res_tirpc.tirpc_filter_axioms)

interpretation fsstat_tirpc: tirpc_procedure
  xdr_FSSTAT3args enc_FSSTAT3args fits_FSSTAT3args
  xdr_FSSTAT3res enc_FSSTAT3resok "\<lambda>_. True" "ovr_FSSTAT3resok FSSTAT3resok_init"
  by (intro tirpc_procedure.intro FSSTAT3args_tirpc.tirpc_writer_axioms FSSTAT3res_tirpc.tirpc_filter_axioms)

interpretation fsinfo_tirpc: tirpc_procedure
  xdr_FSINFO3args enc_FSINFO3args fits_FSINFO3args
  xdr_FSINFO3res enc_FSINFO3resok "\<lambda>_. True" "ovr_FSINFO3resok FSINFO3resok_init"
  by (intro tirpc_procedure.intro FSINFO3args_tirpc.tirpc_writer_axioms FSINFO3res_tirpc.tirpc_filter_axioms)

interpretation pathconf_tirpc: tirpc_procedure
  xdr_PATHCONF3args enc_PATHCONF3args fits_PATHCONF3args
  xdr_PATHCONF3res enc_PATHCONF3resok "\<lambda>_. True" "ovr_PATHCONF3resok PATHCONF3resok_init"
  by (intro tirpc_procedure.intro PATHCONF3args_tirpc.tirpc_writer_axioms PATHCONF3res_tirpc.tirpc_filter_axioms)

interpretation commit_tirpc: tirpc_procedure
  xdr_COMMIT3args enc_COMMIT3args fits_COMMIT3args
  "xdr_COMMIT3res ind" tenc_COMMIT3resok fits_COMMIT3resok "ovr_COMMIT3resok (COMMIT3resok_init ind)" for ind
  by (intro tirpc_procedure.intro COMMIT3args_tirpc.tirpc_writer_axioms COMMIT3res_tirpc.tirpc_filter_axioms)

end
