(* ===== verification/MountClient.thy ===== *)
theory MountClient
  imports RpcClient Expected Nfs3Types
begin

text \<open>
  The MOUNT client of the build without libtirpc: \<^verbatim>\<open>nfs3_rpc_tests/include/nfs3/mount_client.hpp\<close>
  and the second half of \<^verbatim>\<open>nfs3_rpc_tests/src/mount_client.cpp\<close>. Exceptions of the codec leave the
  methods, as the left of the sum. The loop over the export list ends on every input because
  each round reads at least one word.
\<close>

section \<open>Types\<close>

definition MOUNTPROG :: uint32 where "MOUNTPROG = 100005"
definition MOUNTVERS :: uint32 where "MOUNTVERS = 3"
definition MOUNTPROC_MNT :: uint32 where "MOUNTPROC_MNT = 1"
definition MOUNTPROC_UMNT :: uint32 where "MOUNTPROC_UMNT = 3"
definition MOUNTPROC_EXPORT :: uint32 where "MOUNTPROC_EXPORT = 5"

text \<open>The enumerators of \<^verbatim>\<open>enum class MountError\<close> are their values: \<^verbatim>\<open>RPC_ERROR\<close>, which follows
  \<^verbatim>\<open>OK = 0\<close>, and \<^verbatim>\<open>PERM = 1\<close> are the same one.\<close>

type_synonym MountError = int

definition MountError_OK :: MountError where "MountError_OK = 0"
definition MountError_RPC_ERROR :: MountError where "MountError_RPC_ERROR = 1"
definition MountError_PERM :: MountError where "MountError_PERM = 1"
definition MountError_NOENT :: MountError where "MountError_NOENT = 2"
definition MountError_IO :: MountError where "MountError_IO = 5"
definition MountError_ACCES :: MountError where "MountError_ACCES = 13"
definition MountError_NOTDIR :: MountError where "MountError_NOTDIR = 20"
definition MountError_NAMETOOLONG :: MountError where "MountError_NAMETOOLONG = 63"

lemmas MountError_defs = MountError_OK_def MountError_RPC_ERROR_def MountError_PERM_def
  MountError_NOENT_def MountError_IO_def MountError_ACCES_def MountError_NOTDIR_def
  MountError_NAMETOOLONG_def

record MountResult =
  mount_root_handle :: nfs_fh3
  mount_auth_flavors :: "string list"

record MountClient =
  mount_rpc :: RpcClient
  mount_host :: string

record FhstatusNative =
  fhs_status :: uint32
  fhandle :: bytes
  auth_flavors :: "uint32 list"

section \<open>Reading the replies\<close>

function unpack_flavors :: "nat \<Rightarrow> uint32 \<Rightarrow> uint32 list \<Rightarrow> uint32 list xdr" where
  "unpack_flavors i auth_count acc =
     (if i < unat auth_count \<and> i < 10
      then xbind (unpack_int32 0) (\<lambda>flavor. unpack_flavors (i + 1) auth_count (acc @ [flavor]))
      else xret acc)"
  by auto
termination by (relation "measure (\<lambda>(i, n, acc). 10 - i)") auto

declare unpack_flavors.simps [simp del]

definition xdr_unpack_fhstatus :: "bytes \<Rightarrow> XdrError + FhstatusNative" where
  "xdr_unpack_fhstatus resp = fst (
     xbind (unpack_uint32 0) (\<lambda>st.
       if st = 0 then
         xbind (unpack_vector []) (\<lambda>fh.
         xbind (unpack_uint32 0) (\<lambda>auth_count.
         xbind (unpack_flavors 0 auth_count []) (\<lambda>fl.
         xret \<lparr>fhs_status = st, fhandle = fh, auth_flavors = fl\<rparr>)))
       else xret \<lparr>fhs_status = st, fhandle = [], auth_flavors = []\<rparr>) (XdrBuffer_of resp))"

text \<open>What is left to read bounds the two loops.\<close>

definition left_to_read :: "XdrBuffer \<Rightarrow> nat" where
  "left_to_read b = length (buffer b) + 4 - pos b"

lemma left_unpack_bool:
  "unpack_bool old b = (Inr v, b') \<Longrightarrow> left_to_read b' < left_to_read b"
  by (auto simp: unpack_bool_def unpack_uint32_def xbind_def ensure_read_space_def read_mem_def
      xret_def xthrow_def left_to_read_def split: if_splits)

lemma left_reader: "reader m \<Longrightarrow> m b = (r, b') \<Longrightarrow> left_to_read b' \<le> left_to_read b"
  unfolding reader_def moves_def left_to_read_def by (metis diff_le_mono2 snd_conv)

function skip_groups :: "unit xdr" where
  "skip_groups b =
     xbind (unpack_bool False) (\<lambda>has_grp b.
       if \<not> has_grp then xret () b
       else xbind (unpack_string []) (\<lambda>grp b. skip_groups b) b) b"
  by auto
termination
  by (relation "measure left_to_read")
    (auto dest!: left_unpack_bool left_reader [OF reader_string])

declare skip_groups.simps [simp del]

lemma reader_skip_groups: "reader skip_groups"
  unfolding reader_iff
proof
  fix b show "reader_at skip_groups b"
  proof (induction b rule: skip_groups.induct)
    case (1 b)
    have "reader_at (xbind (unpack_bool False) (\<lambda>has_grp b.
       if \<not> has_grp then xret () b else xbind (unpack_string []) (\<lambda>grp b. skip_groups b) b)) b"
    proof (rule reader_at_bind [OF reader_bool])
      fix g b1 assume g: "unpack_bool False b = (Inr g, b1)"
      have "g \<Longrightarrow> reader_at (xbind (unpack_string []) (\<lambda>grp b. skip_groups b)) b1"
        using 1 [OF g] by (intro reader_at_bind [OF reader_string]) auto
      then show "reader_at (\<lambda>b. if \<not> g then xret () b
          else xbind (unpack_string []) (\<lambda>grp b. skip_groups b) b) b1"
        using reader_xret [of "()"] by (cases g) (simp_all add: reader_iff)
    qed
    then show ?case by (simp add: reader_at_def skip_groups.simps [of b])
  qed
qed

function unpack_exports :: "string list \<Rightarrow> string list xdr" where
  "unpack_exports out b =
     xbind (unpack_bool False) (\<lambda>has_entry b.
       if \<not> has_entry then xret out b
       else
         xbind (unpack_string []) (\<lambda>dir.
         xbind (unpack_bool False) (\<lambda>has_groups.
         xbind (if has_groups then skip_groups else xret ()) (\<lambda>_.
         xbind (unpack_bool False) (\<lambda>more_follow b.
           if \<not> more_follow then xret (out @ [dir]) b
           else unpack_exports (out @ [dir]) b)))) b) b"
  by pat_completeness auto
termination
proof (relation "measure (left_to_read o snd)", simp)
  fix out b e b1 dir b2 g b3 u b4 m b5
  assume "unpack_bool False b = (Inr e, b1)" "unpack_string [] b1 = (Inr dir, b2)"
    "unpack_bool False b2 = (Inr g, b3)" "(if g then skip_groups else xret ()) b3 = (Inr u, b4)"
    "unpack_bool False b4 = (Inr m, b5)"
  then have "left_to_read b1 < left_to_read b" "left_to_read b2 \<le> left_to_read b1"
    "left_to_read b3 < left_to_read b2" "left_to_read b4 \<le> left_to_read b3"
    "left_to_read b5 < left_to_read b4"
    by (metis left_unpack_bool left_reader reader_string reader_skip_groups reader_xret)+
  then show "((out @ [dir], b5), (out, b)) \<in> measure (left_to_read o snd)" by simp
qed

declare unpack_exports.simps [simp del]

definition xdr_unpack_exports :: "bytes \<Rightarrow> string list \<Rightarrow> XdrError + string list" where
  "xdr_unpack_exports resp out = fst (unpack_exports out (XdrBuffer_of resp))"

section \<open>class MountClient\<close>

definition MountClient_new :: "'w posix \<Rightarrow> string \<Rightarrow> 'w \<Rightarrow> MountClient \<times> 'w" where
  "MountClient_new os h w =
     (case RpcClient_connect os RpcClient_init h 111 3000 w of
        ((_, c), w) \<Rightarrow> (\<lparr>mount_rpc = c, mount_host = h\<rparr>, w))"

text \<open>\<^verbatim>\<open>~Impl\<close> disconnects, and so do \<^verbatim>\<open>~RpcClient\<close> and \<^verbatim>\<open>~TcpTransport\<close> after it.\<close>

definition MountClient_destroy :: "'w posix \<Rightarrow> MountClient \<Rightarrow> 'w \<Rightarrow> 'w" where
  "MountClient_destroy os m w =
     (let (c, w) = RpcClient_disconnect os (mount_rpc m) w;
          (c, w) = RpcClient_disconnect os c w
      in snd (TcpTransport_disconnect os (transport c) w))"

definition MountClient_is_connected :: "MountClient \<Rightarrow> bool" where
  "MountClient_is_connected m = RpcClient_is_connected (mount_rpc m)"

text \<open>The \<^verbatim>\<open>switch\<close> over a status other than 0.\<close>

definition mount_error :: "uint32 \<Rightarrow> MountError" where
  "mount_error st =
     (if st = 1 then MountError_PERM
      else if st = 2 then MountError_NOENT
      else if st = 5 then MountError_IO
      else if st = 13 then MountError_ACCES
      else if st = 20 then MountError_NOTDIR
      else if st = 63 then MountError_NAMETOOLONG
      else MountError_RPC_ERROR)"

type_synonym ('r, 'w) mount_result =
  "(((XdrError + ('r, MountError) expected) \<times> MountClient) \<times> 'w) outcome"

definition mount_mnt ::
    "'w posix \<Rightarrow> MountClient \<Rightarrow> string \<Rightarrow> 'w \<Rightarrow> (MountResult, 'w) mount_result" where
  "mount_mnt os m path w =
     (if \<not> MountClient_is_connected m then Ret ((Inr (Unexpected MountError_RPC_ERROR), m), w)
      else case pack_string path XdrBuffer_new of
        (Inl e, _) \<Rightarrow> Ret ((Inl e, m), w)
      | (Inr _, args_buf) \<Rightarrow>
          obind (RpcClient_call os (mount_rpc m) MOUNTPROG MOUNTVERS MOUNTPROC_MNT (buffer args_buf) 10000 w)
            (\<lambda>(((st, resp_data), c), w).
              let m = m\<lparr>mount_rpc := c\<rparr>
              in if st \<noteq> RpcStatus.OK then Ret ((Inr (Unexpected MountError_RPC_ERROR), m), w)
              else case xdr_unpack_fhstatus resp_data of
                Inl e \<Rightarrow> Ret ((Inl e, m), w)
              | Inr fhs \<Rightarrow>
                  if fhs_status fhs \<noteq> 0
                  then Ret ((Inr (Unexpected (mount_error (fhs_status fhs))), m), w)
                  else Ret ((Inr (Value \<lparr>mount_root_handle = \<lparr>nfs_fh3.data = fhandle fhs\<rparr>,
                         mount_auth_flavors = []\<rparr>), m), w)))"

definition mount_umnt ::
    "'w posix \<Rightarrow> MountClient \<Rightarrow> string \<Rightarrow> 'w \<Rightarrow> (unit, 'w) mount_result" where
  "mount_umnt os m path w =
     (if \<not> MountClient_is_connected m then Ret ((Inr (Unexpected MountError_RPC_ERROR), m), w)
      else case pack_string path XdrBuffer_new of
        (Inl e, _) \<Rightarrow> Ret ((Inl e, m), w)
      | (Inr _, args_buf) \<Rightarrow>
          obind (RpcClient_call os (mount_rpc m) MOUNTPROG MOUNTVERS MOUNTPROC_UMNT (buffer args_buf) 10000 w)
            (\<lambda>(((st, resp_data), c), w).
              let m = m\<lparr>mount_rpc := c\<rparr>
              in if st \<noteq> RpcStatus.OK then Ret ((Inr (Unexpected MountError_RPC_ERROR), m), w)
                 else Ret ((Inr (Value ()), m), w)))"

definition mount_list_exports ::
    "'w posix \<Rightarrow> MountClient \<Rightarrow> 'w \<Rightarrow> (string list, 'w) mount_result" where
  "mount_list_exports os m w =
     (if \<not> MountClient_is_connected m then Ret ((Inr (Unexpected MountError_RPC_ERROR), m), w)
      else
        obind (RpcClient_call os (mount_rpc m) MOUNTPROG MOUNTVERS MOUNTPROC_EXPORT [] 10000 w)
          (\<lambda>(((st, resp_data), c), w).
            let m = m\<lparr>mount_rpc := c\<rparr>
            in if st \<noteq> RpcStatus.OK then Ret ((Inr (Unexpected MountError_RPC_ERROR), m), w)
            else case xdr_unpack_exports resp_data [] of
              Inl e \<Rightarrow> Ret ((Inl e, m), w)
            | Inr result \<Rightarrow> Ret ((Inr (Value result), m), w)))"

definition mount_dump :: "MountClient \<Rightarrow> (string list, MountError) expected" where
  "mount_dump m =
     (if \<not> MountClient_is_connected m then Unexpected MountError_RPC_ERROR else Value [])"

section \<open>MNT\<close>

text \<open>The reply of RFC 1813 to MNT, for the statuses that carry a handle and those that do not.\<close>

definition enc_mountres :: "bytes \<Rightarrow> uint32 list \<Rightarrow> bytes" where
  "enc_mountres fh flavors =
     be32 0 @ enc_opaque fh @ be32 (word_of_nat (length flavors)) @ concat (map be32 flavors)"

lemma decodes_flavors:
  assumes "i + length fl = unat n" and "unat n \<le> 10"
  shows "decodes (unpack_flavors i n acc) (concat (map be32 fl)) (acc @ fl)"
  using assms(1)
proof (induction fl arbitrary: i acc)
  case Nil
  then show ?case by (subst unpack_flavors.simps) (simp add: decodes_xret)
next
  case (Cons f fl)
  then have "i < unat n \<and> i < 10" using assms(2) by simp
  moreover have "decodes (unpack_flavors (i + 1) n (acc @ [f])) (concat (map be32 fl)) (acc @ f # fl)"
    using Cons.IH [of "i + 1" "acc @ [f]"] Cons.prems by simp
  ultimately show ?case
    by (subst unpack_flavors.simps) (simp add: decodes_bind [OF decodes_int32])
qed

lemma xdr_unpack_fhstatus_ok:
  assumes "length fh \<le> UINT32_MAX" and "length flavors \<le> 10"
  shows "xdr_unpack_fhstatus (enc_mountres fh flavors) =
    Inr \<lparr>fhs_status = 0, fhandle = fh, auth_flavors = flavors\<rparr>"
proof -
  have n: "unat (word_of_nat (length flavors) :: uint32) = length flavors"
    using assms(2) by (intro unat_of_length) simp
  let ?body = "xbind (unpack_vector []) (\<lambda>fh. xbind (unpack_uint32 0) (\<lambda>n.
      xbind (unpack_flavors 0 n []) (\<lambda>fl. xret \<lparr>fhs_status = 0, fhandle = fh, auth_flavors = fl\<rparr>)))"
  have "decodes ?body (enc_opaque fh @ be32 (word_of_nat (length flavors)) @ concat (map be32 flavors))
      \<lparr>fhs_status = 0, fhandle = fh, auth_flavors = flavors\<rparr>"
    using decodes_flavors [of 0 flavors "word_of_nat (length flavors)" "[]"] assms n
    by (intro decodes_bind [OF decodes_vector] decodes_bind [OF decodes_uint32] decodes_bind_ret) simp_all
  then have "decodes (xbind (unpack_uint32 0) (\<lambda>st. if st = 0 then ?body
      else xret \<lparr>fhs_status = st, fhandle = [], auth_flavors = []\<rparr>)) (enc_mountres fh flavors)
      \<lparr>fhs_status = 0, fhandle = fh, auth_flavors = flavors\<rparr>"
    unfolding enc_mountres_def by (intro decodes_bind [OF decodes_uint32]) simp
  then show ?thesis
    unfolding xdr_unpack_fhstatus_def XdrBuffer_of_def
    using decodesD [of _ _ _ "[]" "[]"] by (fastforce cong: if_cong)
qed

text \<open>The environment of one call to the mount service.\<close>

definition mount_served ::
    "'w posix \<Rightarrow> ('w \<Rightarrow> bytes) \<Rightarrow> ('w \<Rightarrow> bytes) \<Rightarrow> ('w \<Rightarrow> bytes) \<Rightarrow> ('w \<Rightarrow> nat) \<Rightarrow> MountClient \<Rightarrow> 'w \<Rightarrow>
     uint32 \<Rightarrow> bytes \<Rightarrow> bytes \<Rightarrow> bytes \<Rightarrow> bool" where
  "mount_served os out rcv inp stall m w proc req body rest \<longleftrightarrow>
     (\<exists>flavor verf. flavor \<noteq> AUTH_SYS \<and>
       exchange os out rcv inp stall (mount_rpc m) w
         (build_call (xid (mount_rpc m)) MOUNTPROG MOUNTVERS proc req)
         (enc_accepted_reply (xid (mount_rpc m)) flavor verf 0 body) rest)"

lemma mount_call:
  assumes "mount_served os out rcv inp stall m w proc req body rest"
  obtains w' where "MountClient_is_connected m"
    and "RpcClient_call os (mount_rpc m) MOUNTPROG MOUNTVERS proc req tm w =
      Ret (((RpcStatus.OK, body), (mount_rpc m)\<lparr>xid := xid (mount_rpc m) + 1\<rparr>), w')"
    and "out w' = out w @ frame (build_call (xid (mount_rpc m)) MOUNTPROG MOUNTVERS proc req)"
    and "inp w' = rest"
proof -
  from assms obtain flavor verf where fl: "flavor \<noteq> AUTH_SYS"
    and ex: "exchange os out rcv inp stall (mount_rpc m) w
         (build_call (xid (mount_rpc m)) MOUNTPROG MOUNTVERS proc req)
         (enc_accepted_reply (xid (mount_rpc m)) flavor verf 0 body) rest"
    by (auto simp: mount_served_def)
  then have "MountClient_is_connected m" by (simp add: exchange_def MountClient_is_connected_def)
  with call_ok [OF ex fl, of tm] that show thesis by blast
qed

lemma mnt_accepted:
  assumes "length path \<le> UINT32_MAX" and "length fh \<le> UINT32_MAX" and "length flavors \<le> 10"
    and "mount_served os out rcv inp stall m w MOUNTPROC_MNT (enc_string path) (enc_mountres fh flavors) rest"
  shows "\<exists>w'. mount_mnt os m path w =
      Ret ((Inr (Value \<lparr>mount_root_handle = \<lparr>nfs_fh3.data = fh\<rparr>, mount_auth_flavors = []\<rparr>),
        m\<lparr>mount_rpc := (mount_rpc m)\<lparr>xid := xid (mount_rpc m) + 1\<rparr>\<rparr>), w') \<and>
    out w' = out w @ frame (build_call (xid (mount_rpc m)) MOUNTPROG MOUNTVERS MOUNTPROC_MNT (enc_string path)) \<and>
    inp w' = rest"
proof -
  from mount_call [OF assms(4), of 10000] obtain w' where "MountClient_is_connected m"
    "RpcClient_call os (mount_rpc m) MOUNTPROG MOUNTVERS MOUNTPROC_MNT (enc_string path) 10000 w =
      Ret (((RpcStatus.OK, enc_mountres fh flavors), (mount_rpc m)\<lparr>xid := xid (mount_rpc m) + 1\<rparr>), w')"
    "out w' = out w @ frame (build_call (xid (mount_rpc m)) MOUNTPROG MOUNTVERS MOUNTPROC_MNT (enc_string path))"
    "inp w' = rest" by blast
  then show ?thesis
    using string_xdr.pack_new [OF assms(1)] xdr_unpack_fhstatus_ok [OF assms(2,3)]
    by (intro exI [of _ w']) (simp add: mount_mnt_def XdrBuffer_of_def)
qed

section \<open>The export list\<close>

lemma reader_exports: "reader (unpack_exports out)"
  unfolding reader_iff
proof
  fix b show "reader_at (unpack_exports out) b"
  proof (induction out b rule: unpack_exports.induct)
    case (1 out b)
    let ?last = "\<lambda>dir m b. if \<not> m then xret (out @ [dir]) b else unpack_exports (out @ [dir]) b"
    let ?rest = "xbind (unpack_string []) (\<lambda>dir. xbind (unpack_bool False) (\<lambda>g.
      xbind (if g then skip_groups else xret ()) (\<lambda>_. xbind (unpack_bool False) (?last dir))))"
    have sg: "reader (if g then skip_groups else xret ())" for g
      using reader_skip_groups reader_xret [of "()"] by simp
    have last: "reader_at (?last dir m) b5" if "m \<Longrightarrow> reader_at (unpack_exports (out @ [dir])) b5"
      for dir m b5
      using that reader_xret [of "out @ [dir]"] by (cases m) (simp_all add: reader_iff)
    have "reader_at (xbind (unpack_bool False) (\<lambda>e b. if \<not> e then xret out b else ?rest b)) b"
    proof (rule reader_at_bind [OF reader_bool])
      fix e b1 assume e: "unpack_bool False b = (Inr e, b1)"
      have "e \<Longrightarrow> reader_at ?rest b1"
        using 1 [OF e]
        by (intro reader_at_bind [OF reader_string] reader_at_bind [OF reader_bool]
            reader_at_bind [OF sg] last) auto
      then show "reader_at (\<lambda>b. if \<not> e then xret out b else ?rest b) b1"
        using reader_xret [of out] by (cases e) (simp_all add: reader_iff)
    qed
    then show ?case by (simp add: reader_at_def unpack_exports.simps [of out b])
  qed
qed

text \<open>The export list of RFC 1813: entries of a directory and its groups, each list ended by a
  false flag.\<close>

fun enc_rfc_groups :: "string list \<Rightarrow> bytes" where
  "enc_rfc_groups [] = enc_bool False"
| "enc_rfc_groups (g # gs) = enc_bool True @ enc_string g @ enc_rfc_groups gs"

fun enc_rfc_exports :: "(string \<times> string list) list \<Rightarrow> bytes" where
  "enc_rfc_exports [] = enc_bool False"
| "enc_rfc_exports ((dir, groups) # es) =
     enc_bool True @ enc_string dir @ enc_rfc_groups groups @ enc_rfc_exports es"

lemma decodes_exports_step:
  assumes "length d \<le> UINT32_MAX"
  shows "decodes (unpack_exports out)
    (enc_bool True @ enc_string d @ enc_bool False @ enc_bool False) (out @ [d])"
proof (rule decodesI)
  let ?last = "\<lambda>dir. xbind (unpack_bool False) (\<lambda>m b.
    if \<not> m then xret (out @ [dir]) b else unpack_exports (out @ [dir]) b)"
  let ?groups = "\<lambda>dir. xbind (unpack_bool False) (\<lambda>g.
    xbind (if g then skip_groups else xret ()) (\<lambda>_. ?last dir))"
  let ?bs = "enc_bool True @ enc_string d @ enc_bool False @ [] @ enc_bool False @ []"
  have "decodes (?last d) (enc_bool False @ []) (out @ [d])"
    by (rule decodes_bind [OF decodes_bool]) (simp add: decodes_xret)
  then have "decodes (xbind (if False then skip_groups else xret ()) (\<lambda>_. ?last d))
      ([] @ enc_bool False @ []) (out @ [d])"
    by (intro decodes_bind [where y = "()"]) (simp_all add: decodes_xret)
  then have "decodes (?groups d) (enc_bool False @ [] @ enc_bool False @ []) (out @ [d])"
    by (rule decodes_bind [OF decodes_bool])
  then have "decodes (xbind (unpack_string []) ?groups)
      (enc_string d @ enc_bool False @ [] @ enc_bool False @ []) (out @ [d])"
    by (rule decodes_bind [OF decodes_string [OF assms]])
  then have "decodes (xbind (unpack_bool False) (\<lambda>e b. if \<not> e then xret out b
      else xbind (unpack_string []) ?groups b)) ?bs (out @ [d])"
    by (intro decodes_bind [OF decodes_bool]) simp
  note * = decodesD [OF this]
  show "unpack_exports out \<lparr>buffer = pre @ (enc_bool True @ enc_string d @ enc_bool False @ enc_bool False) @ post,
      pos = length pre\<rparr> =
    (Inr (out @ [d]), \<lparr>buffer = pre @ (enc_bool True @ enc_string d @ enc_bool False @ enc_bool False) @ post,
      pos = length pre + length (enc_bool True @ enc_string d @ enc_bool False @ enc_bool False)\<rparr>)"
    for pre post
    using * [of pre post] by (subst unpack_exports.simps) simp
qed

text \<open>A second entry, or a group, is out of step: its length word is taken for a flag and the first
  characters of its name for a length.\<close>

lemma xbind_Inr: "m b = (Inr a, b1) \<Longrightarrow> xbind m f b = f a b1"
  by (simp add: xbind_def)

lemma xbind_Inl: "m b = (Inl e, b1) \<Longrightarrow> xbind m f b = (Inl e, b1)"
  by (simp add: xbind_def)

lemma unat_of_be_ge: "length bs = 4 \<Longrightarrow> unat (hd bs) * 2 ^ 24 \<le> unat (of_be bs :: uint32)"
proof -
  assume l: "length bs = 4"
  let ?w = "of_be bs :: uint32"
  have "hd (be32 ?w) = hd bs" using l by (simp add: be32_of_be)
  then have "hd bs = ucast (drop_bit 24 ?w)" by (simp add: be32_def)
  then have "unat (hd bs) = unat ?w div 2 ^ 24 mod 256"
    by (simp add: drop_bit_eq_div unat_div take_bit_eq_mod unsigned_ucast_eq)
  also have "\<dots> \<le> unat ?w div 2 ^ 24" by simp
  finally show ?thesis by (metis div_times_less_eq_dividend le_trans mult_le_mono1)
qed

lemma unpack_string_too_long:
  assumes "length bs = 4" and "length (pre @ bs @ post) < unat (hd bs) * 2 ^ 24"
  shows "\<exists>n p h b'. unpack_string old \<lparr>buffer = pre @ bs @ post, pos = length pre\<rparr> =
    (Inl (InsufficientData n p h), b')"
proof -
  have "unpack_uint32 0 \<lparr>buffer = pre @ bs @ post, pos = length pre\<rparr> =
      (Inr (of_be bs), \<lparr>buffer = pre @ bs @ post, pos = length pre + 4\<rparr>)"
    using decodesD [OF decodes_uint32, of 0 pre "of_be bs" post] assms(1) by (simp add: be32_of_be)
  moreover have "length (pre @ bs @ post) < length pre + 4 + unat (of_be bs :: uint32)"
    using assms unat_of_be_ge [OF assms(1)] by simp
  ultimately show ?thesis
    by (auto simp: unpack_string_def xbind_Inr xbind_def ensure_read_space_def xthrow_def)
qed

lemma exports_two_entries:
  assumes d1: "length d1 \<le> UINT32_MAX" and d2: "d2 = CHR ''/'' # t" "length d2 \<le> UINT32_MAX"
    and len: "length (enc_rfc_exports ((d1, []) # (d2, gs) # es)) < 0x2F000000"
  shows "\<exists>n p h. xdr_unpack_exports (enc_rfc_exports ((d1, []) # (d2, gs) # es)) [] =
    Inl (InsufficientData n p h)"
proof -
  let ?T = "enc_bool True" and ?F = "enc_bool False"
  let ?data = "map byte_of_char d2 @ replicate (pad4 (length d2)) 0"
  let ?tail = "enc_rfc_groups gs @ enc_rfc_exports es"
  let ?L = "be32 (word_of_nat (length d2))"
  let ?all = "?T @ enc_string d1 @ ?F @ ?T @ ?L @ ?data @ ?tail"
  let ?b = "\<lambda>n. \<lparr>buffer = ?all, pos = n\<rparr>"
  have all: "enc_rfc_exports ((d1, []) # (d2, gs) # es) = ?all"
    by (simp add: enc_string_def enc_opaque_def)
  let ?p4 = "length (?T @ enc_string d1 @ ?F @ ?T)"
  have 1: "unpack_bool False (?b 0) = (Inr True, ?b (length ?T))"
    using decodesD [OF decodes_bool, of False "[]" True] by simp
  have 2: "unpack_string [] (?b (length ?T)) = (Inr d1, ?b (length (?T @ enc_string d1)))"
    using decodesD [OF decodes_string [OF d1], of "[]" ?T] by simp
  have 3: "unpack_bool False (?b (length (?T @ enc_string d1))) = (Inr False, ?b (length (?T @ enc_string d1 @ ?F)))"
    using decodesD [OF decodes_bool, of False "?T @ enc_string d1" False] by simp
  have 4: "unpack_bool False (?b (length (?T @ enc_string d1 @ ?F))) = (Inr True, ?b ?p4)"
    using decodesD [OF decodes_bool, of False "?T @ enc_string d1 @ ?F" True] by simp
  have "word_of_nat (length d2) \<noteq> (0 :: uint32)"
    using d2 unat_of_length [of "length d2"] by auto
  then have 5: "unpack_bool False (?b ?p4) = (Inr True, ?b (length (?T @ enc_string d1 @ ?F @ ?T @ ?L)))"
    using decodesD [OF decodes_uint32, of 0 "?T @ enc_string d1 @ ?F @ ?T"]
    by (simp add: unpack_bool_def xbind_Inr xret_def)
  have "4 \<le> length ?data" and hd: "hd ?data = 0x2F"
    using d2(1) pad4_aligns [of "length d2"] by (auto simp: byte_of_char_def dest: dvd_imp_le)
  then obtain bs post where bs: "?data = bs @ post" "length bs = 4" "hd bs = 0x2F"
    by (metis append_take_drop_id hd_take length_take min_absorb2 zero_less_numeral)
  have "\<exists>n p h b'. unpack_string [] (?b (length (?T @ enc_string d1 @ ?F @ ?T @ ?L))) =
      (Inl (InsufficientData n p h), b')"
    using unpack_string_too_long [of bs "?T @ enc_string d1 @ ?F @ ?T @ ?L" "post @ ?tail" "[]"] bs len
    unfolding all by simp
  then obtain n p h b' where 6: "unpack_string [] (?b (length (?T @ enc_string d1 @ ?F @ ?T @ ?L))) =
      (Inl (InsufficientData n p h), b')" by blast
  have "unpack_exports [d1] (?b ?p4) = (Inl (InsufficientData n p h), b')"
    by (subst unpack_exports.simps) (simp only: xbind_Inr [of "unpack_bool False", OF 5] xbind_Inl [of "unpack_string []", OF 6] simp_thms if_False)
  then have "unpack_exports [] (?b 0) = (Inl (InsufficientData n p h), b')"
    by (subst unpack_exports.simps)
      (simp only: xbind_Inr [of "unpack_bool False", OF 1] xbind_Inr [of "unpack_string []", OF 2]
        xbind_Inr [of "unpack_bool False", OF 3] xbind_Inr [of "unpack_bool False", OF 4]
        xbind_Inr [of "xret ()", OF xret_def] simp_thms if_False if_True append_Nil)
  then show ?thesis unfolding all by (simp add: xdr_unpack_exports_def XdrBuffer_of_def)
qed

end
