(* ===== verification/TirpcMount.thy ===== *)
theory TirpcMount
  imports TirpcEndpoint TirpcDir MountClient
begin

text \<open>
  The MOUNT client of the build with libtirpc: the first half of \<^verbatim>\<open>nfs3_rpc_tests/src/mount_client.cpp\<close>.
  Its two filters are only ever given a stream that decodes, but are modelled in every direction.
  The loops over the export list are partial functions; that they end on every input is proved.

  The path goes through \<^verbatim>\<open>xdr_string\<close> cast to \<^verbatim>\<open>xdrproc_t\<close>. The library calls such a function with two
  arguments, and \<^verbatim>\<open>xdr_string\<close> has a third, the longest string it lets through: what it finds
  there is the parameter \<open>maxsize\<close>.
\<close>

section \<open>The filters\<close>

record fhstatus =
  tfhs_status :: uint32
  tfhs_fhandle :: bytes
  tauth_flavors :: "uint32 list"

record TMountClient =
  tmount_client :: "nat option"
  tmount_host :: string

definition FHSIZE :: nat where
  "FHSIZE = 64"

text \<open>\<^verbatim>\<open>fhs_fhandle.assign(ptr, ptr + len)\<close>, with no \<^verbatim>\<open>free\<close>.\<close>

definition assign_from :: "cptr \<Rightarrow> uint32 \<Rightarrow> bytes fres" where
  "assign_from p len =
     (case p of
        Nullptr \<Rightarrow> if len = 0 then Fin [] else Undef
      | Caller m \<Rightarrow> if unat len \<le> length m then Fin (take (unat len) m) else Undef
      | Alloc m \<Rightarrow> if unat len \<le> length m then Fin (take (unat len) m) else Undef)"

text \<open>The loops over the flavors: \<open>n\<close> rounds that read, and one round for each that is written.\<close>

fun get_flavors :: "'x tirpc \<Rightarrow> nat \<Rightarrow> (fhstatus, 'x) filt" where
  "get_flavors T 0 ob x = Fin (ob, True, x)"
| "get_flavors T (Suc n) ob x =
     (case xdr_int T 0 x of (b, flavor, x1) \<Rightarrow>
        if \<not> b then Fin (ob, False, x1)
        else get_flavors T n (ob\<lparr>tauth_flavors := tauth_flavors ob @ [flavor]\<rparr>) x1)"

fun put_flavors :: "'x tirpc \<Rightarrow> uint32 list \<Rightarrow> (fhstatus, 'x) filt" where
  "put_flavors T [] ob x = Fin (ob, True, x)"
| "put_flavors T (f # fs) ob x =
     (case xdr_int T f x of (b, _, x1) \<Rightarrow> if \<not> b then Fin (ob, False, x1) else put_flavors T fs ob x1)"

definition fhstatus_ok :: "'x tirpc \<Rightarrow> (fhstatus, 'x) filt" where
  "fhstatus_ok T ob x =
     (if x_op T x = XDR_DECODE then
        (case xdr_bytes T FHSIZE Nullptr 0 x of (b, ptr, len, x1) \<Rightarrow>
           if \<not> b then Fin (ob, False, x1)
           else fbind (assign_from ptr len) (\<lambda>d.
             let ob = ob\<lparr>tfhs_fhandle := d\<rparr> in
             case xdr_u_int T 0 x1 of (b, auth_count, x2) \<Rightarrow>
               if \<not> b then Fin (ob, False, x2)
               else get_flavors T (min (unat auth_count) 10) ob x2))
      else if x_op T x = XDR_ENCODE then
        (case xdr_bytes T FHSIZE (vector_data (tfhs_fhandle ob)) (vector_size (tfhs_fhandle ob)) x of
           (b, ptr, len, x1) \<Rightarrow>
           if \<not> b then Fin (ob, False, x1)
           else case xdr_u_int T (word_of_nat (length (tauth_flavors ob))) x1 of (b, _, x2) \<Rightarrow>
             if \<not> b then Fin (ob, False, x2)
             else put_flavors T (tauth_flavors ob) ob x2)
      else Fin (ob, True, x))"

definition xdr_fhstatus :: "'x tirpc \<Rightarrow> (fhstatus, 'x) filt" where
  "xdr_fhstatus T = fseq [
     ffld tfhs_status tfhs_status_update (prim (xdr_u_int T)),
     fwhen (\<lambda>ob. tfhs_status ob = 0) (fhstatus_ok T)]"

text \<open>\<^verbatim>\<open>if (dir && *dir) result->push_back(dir);\<close>\<close>

definition push_dir :: "cptr \<Rightarrow> string list \<Rightarrow> string list fres" where
  "push_dir p res =
     (if p = Nullptr then Fin res
      else let m = (case p of Caller m \<Rightarrow> m | Alloc m \<Rightarrow> m | Nullptr \<Rightarrow> []) in
        if m = [] then Undef
        else if hd m = 0 then Fin res
        else if 0 \<notin> set m then Undef
        else Fin (res @ [map char_of_byte (takeWhile (\<lambda>c. c \<noteq> 0) m)]))"

text \<open>The pointer \<^verbatim>\<open>grp\<close> is null for the first group and refers to the storage of the first group
  afterwards: \<^verbatim>\<open>xdr_string\<close> writes every later name there, whether it has room or not.\<close>

definition overruns :: "cptr \<Rightarrow> cptr \<Rightarrow> bool" where
  "overruns p p' = (case (p, p') of (Alloc m, Alloc m') \<Rightarrow> length m < length m' | _ \<Rightarrow> False)"

text \<open>\<open>ind\<close> is the indeterminate value of the flags, which are not initialised.\<close>

partial_function (option) groups_loop ::
  "'x tirpc \<Rightarrow> bool \<Rightarrow> cptr \<Rightarrow> 'x \<Rightarrow> (cptr \<times> bool \<times> 'x) fres option" where
  "groups_loop T ind grp x =
     (case xdr_bool T ind x of (b, has_grp, x1) \<Rightarrow>
        if \<not> b then Some (Fin (grp, False, x1))
        else if \<not> has_grp then Some (Fin (grp, True, x1))
        else case xdr_string T 256 grp x1 of (b, grp', x2) \<Rightarrow>
          if overruns grp grp' then Some Undef
          else if \<not> b then Some (Fin (grp', False, x2))
          else groups_loop T ind grp' x2)"

partial_function (option) exports_loop ::
  "'x tirpc \<Rightarrow> bool \<Rightarrow> string list \<Rightarrow> 'x \<Rightarrow> (string list \<times> bool \<times> 'x) fres option" where
  "exports_loop T ind result x =
     (case xdr_bool T ind x of (b, has_entry, x1) \<Rightarrow>
        if \<not> b then Some (Fin (result, False, x1))
        else if \<not> has_entry then Some (Fin (result, True, x1))
        else case xdr_string T 1024 Nullptr x1 of (b, dir_ptr, x2) \<Rightarrow>
        if \<not> b then Some (Fin (result, False, x2))
        else case push_dir dir_ptr result of
          Fin result' \<Rightarrow>
            (case xdr_bool T ind x2 of (b, has_groups, x3) \<Rightarrow>
               if \<not> b then Some (Fin (result', False, x3))
               else case ends (if has_groups then groups_loop T ind Nullptr x3 else Some (Fin (Nullptr, True, x3))) of
                 Fin (_, b, x4) \<Rightarrow>
                   if \<not> b then Some (Fin (result', False, x4))
                   else (case xdr_bool T True x4 of (b, go_on, x5) \<Rightarrow>
                     if \<not> b then Some (Fin (result', False, x5))
                     else if go_on then exports_loop T ind result' x5
                     else Some (Fin (result', True, x5)))
               | Thrown \<Rightarrow> Some Thrown
               | Undef \<Rightarrow> Some Undef
               | Forever \<Rightarrow> Some Forever)
        | Thrown \<Rightarrow> Some Thrown
        | Undef \<Rightarrow> Some Undef
        | Forever \<Rightarrow> Some Forever)"

definition xdr_exports_list :: "'x tirpc \<Rightarrow> bool \<Rightarrow> (string list, 'x) filt" where
  "xdr_exports_list T ind result x = ends (exports_loop T ind result x)"

section \<open>The client\<close>

definition TMountClient_new :: "'w clnt_lib \<Rightarrow> string \<Rightarrow> 'w \<Rightarrow> TMountClient \<times> 'w" where
  "TMountClient_new L h w =
     (let (c, w) = clnt_create L (c_string h) MOUNTPROG MOUNTVERS ''tcp'' w;
          m = \<lparr>tmount_client = c, tmount_host = h\<rparr>
      in case c of None \<Rightarrow> (m, w) | Some cl \<Rightarrow> (m, use_auth_unix L cl w))"

definition TMountClient_destroy :: "'w clnt_lib \<Rightarrow> TMountClient \<Rightarrow> 'w \<Rightarrow> 'w" where
  "TMountClient_destroy L m w = (case tmount_client m of None \<Rightarrow> w | Some c \<Rightarrow> clnt_destroy L c w)"

definition TMountClient_is_connected :: "TMountClient \<Rightarrow> bool" where
  "TMountClient_is_connected m \<longleftrightarrow> tmount_client m \<noteq> None"

definition tirpc_mnt ::
    "'x tirpc \<Rightarrow> (cptr, fhstatus, 'x, 'w) clnt_call \<Rightarrow> nat \<Rightarrow> TMountClient \<Rightarrow> string \<Rightarrow> 'w \<Rightarrow>
     ((MountResult, MountError) expected \<times> 'w) fres" where
  "tirpc_mnt T clnt_call maxsize m path w =
     (if \<not> TMountClient_is_connected m then Fin (Unexpected MountError_RPC_ERROR, w)
      else
        fbind (clnt_call (the (tmount_client m)) MOUNTPROC_MNT (prim (xdr_string T maxsize)) (c_str path)
            (xdr_fhstatus T) \<lparr>tfhs_status = 0, tfhs_fhandle = [], tauth_flavors = []\<rparr> (10, 0) w)
          (\<lambda>(stat, res, w).
            if stat \<noteq> RPC_SUCCESS then Fin (Unexpected MountError_RPC_ERROR, w)
            else if tfhs_status res \<noteq> 0 then Fin (Unexpected (mount_error (tfhs_status res)), w)
            else Fin (Value \<lparr>mount_root_handle = \<lparr>nfs_fh3.data = tfhs_fhandle res\<rparr>, mount_auth_flavors = []\<rparr>, w)))"

definition tirpc_umnt ::
    "'x tirpc \<Rightarrow> (unit, 'x) filt \<Rightarrow> (cptr, unit, 'x, 'w) clnt_call \<Rightarrow> nat \<Rightarrow> TMountClient \<Rightarrow> string \<Rightarrow> 'w \<Rightarrow>
     ((unit, MountError) expected \<times> 'w) fres" where
  "tirpc_umnt T xdr_void clnt_call maxsize m path w =
     (if \<not> TMountClient_is_connected m then Fin (Unexpected MountError_RPC_ERROR, w)
      else
        fbind (clnt_call (the (tmount_client m)) MOUNTPROC_UMNT (prim (xdr_string T maxsize)) (c_str path)
            xdr_void () (10, 0) w)
          (\<lambda>(stat, _, w).
            if stat \<noteq> RPC_SUCCESS then Fin (Unexpected MountError_RPC_ERROR, w) else Fin (Value (), w)))"

definition tirpc_list_exports ::
    "'x tirpc \<Rightarrow> bool \<Rightarrow> (unit, 'x) filt \<Rightarrow> (unit, string list, 'x, 'w) clnt_call \<Rightarrow> TMountClient \<Rightarrow> 'w \<Rightarrow>
     ((string list, MountError) expected \<times> 'w) fres" where
  "tirpc_list_exports T ind xdr_void clnt_call m w =
     (if \<not> TMountClient_is_connected m then Fin (Unexpected MountError_RPC_ERROR, w)
      else
        fbind (clnt_call (the (tmount_client m)) MOUNTPROC_EXPORT xdr_void () (xdr_exports_list T ind) [] (10, 0) w)
          (\<lambda>(stat, result, w).
            if stat \<noteq> RPC_SUCCESS then Fin (Unexpected MountError_RPC_ERROR, w) else Fin (Value result, w)))"

definition tirpc_dump :: "TMountClient \<Rightarrow> (string list, MountError) expected" where
  "tirpc_dump m = (if \<not> TMountClient_is_connected m then Unexpected MountError_RPC_ERROR else Value [])"

section \<open>Reading the status and the handle\<close>

text \<open>The reply to MNT: a handle and the flavors, of which at most ten are read.\<close>

definition enc_flavors :: "uint32 list \<Rightarrow> bytes" where
  "enc_flavors fs = concat (map be32 fs)"

definition enc_mnt_ok :: "bytes \<Rightarrow> uint32 list \<Rightarrow> bytes" where
  "enc_mnt_ok h fs = be32 0 @ enc_opaque h @ be32 (word_of_nat (length fs)) @ enc_flavors fs"

lemma takes_int:
  "xdr_reader T V \<Longrightarrow> x_op T x = XDR_DECODE \<Longrightarrow> takes T V x (be32 v) v (xdr_int T old x)"
  by (simp add: readerD)

lemma fgets_flavors:
  assumes R: "xdr_reader T V"
  shows "fgets T V (get_flavors T (length fs)) ob (enc_flavors fs)
    (ob\<lparr>tauth_flavors := tauth_flavors ob @ fs\<rparr>)"
proof (induction fs arbitrary: ob)
  case Nil
  show ?case by (auto simp: fgets_def enc_flavors_def)
next
  case (Cons f fs)
  show ?case unfolding fgets_def
  proof (intro allI impI)
    fix x rest assume x: "x_op T x = XDR_DECODE" "xdr_in V x = enc_flavors (f # fs) @ rest"
    then have "xdr_in V x = be32 f @ enc_flavors fs @ rest" by (simp add: enc_flavors_def)
    from takesE [OF takes_int [OF R x(1)] this, of 0] obtain x1 where
      1: "xdr_int T 0 x = (True, f, x1)" "x_op T x1 = XDR_DECODE" "xdr_in V x1 = enc_flavors fs @ rest" by metis
    let ?ob = "ob\<lparr>tauth_flavors := tauth_flavors ob @ [f]\<rparr>"
    from fgetsE [OF Cons.IH [of ?ob] 1(2,3)] obtain x' where
      "get_flavors T (length fs) ?ob x1 = Fin (?ob\<lparr>tauth_flavors := tauth_flavors ?ob @ fs\<rparr>, True, x')"
      "x_op T x' = XDR_DECODE" "xdr_in V x' = rest" by metis
    with 1(1) show "\<exists>x'. get_flavors T (length (f # fs)) ob x =
        Fin (ob\<lparr>tauth_flavors := tauth_flavors ob @ f # fs\<rparr>, True, x') \<and>
        x_op T x' = XDR_DECODE \<and> xdr_in V x' = rest"
      by simp
  qed
qed

lemma fsafe_flavors: "xdr_reader T V \<Longrightarrow> fsafe T V (get_flavors T n)"
proof (induction n)
  case 0
  show ?case by (auto simp: fsafe_def stays_def)
next
  case (Suc n)
  show ?case unfolding fsafe_def
  proof (intro allI impI)
    fix ob x assume x: "x_op T x = XDR_DECODE"
    have "any_input T V x (\<lambda>_. True) (xdr_int T 0 x)" using Suc.prems x by (simp add: readerD)
    then obtain b f x1 where 1: "xdr_int T 0 x = (b, f, x1)" "stays T V x x1" by (rule any_inputE)
    from fsafeE [OF Suc.IH [OF Suc.prems] stays_op [OF 1(2)],
        of "ob\<lparr>tauth_flavors := tauth_flavors ob @ [f]\<rparr>"] obtain ob' b' x' where
      "get_flavors T n (ob\<lparr>tauth_flavors := tauth_flavors ob @ [f]\<rparr>) x1 = Fin (ob', b', x')" "stays T V x1 x'" by metis
    with 1 show "\<exists>ob' b x'. get_flavors T (Suc n) ob x = Fin (ob', b, x') \<and> stays T V x x'"
      by (cases b) (auto intro: stays_trans)
  qed
qed

lemma fgets_fhstatus_ok:
  assumes R: "xdr_reader T V" and "length h \<le> 64" and "length fs = min (unat n) 10"
  shows "fgets T V (fhstatus_ok T) ob (enc_opaque h @ be32 n @ enc_flavors fs)
    (ob\<lparr>tfhs_fhandle := h, tauth_flavors := tauth_flavors ob @ fs\<rparr>)"
  unfolding fgets_def
proof (intro allI impI)
  fix x rest assume x: "x_op T x = XDR_DECODE" "xdr_in V x = (enc_opaque h @ be32 n @ enc_flavors fs) @ rest"
  have "xdr_in V x = enc_opaque h @ be32 n @ enc_flavors fs @ rest" using x(2) by simp
  with assms(2) obtain x1 where
    1: "xdr_bytes T FHSIZE Nullptr 0 x = (True, if h = [] then Nullptr else into Nullptr h, vector_size h, x1)"
       "x_op T x1 = XDR_DECODE" "xdr_in V x1 = be32 n @ enc_flavors fs @ rest"
    by (auto intro: takes_bytes [OF R x(1), of h FHSIZE _ Nullptr 0] simp: FHSIZE_def)
  have h: "assign_from (if h = [] then Nullptr else into Nullptr h) (vector_size h) = Fin h"
    using assms(2) by (simp add: assign_from_def vector_size_def unat_of_length)
  from takesE [OF takes_u_int [OF R 1(2)] 1(3), of 0] obtain x2 where
    2: "xdr_u_int T 0 x1 = (True, n, x2)" "x_op T x2 = XDR_DECODE" "xdr_in V x2 = enc_flavors fs @ rest" by metis
  let ?ob = "ob\<lparr>tfhs_fhandle := h\<rparr>"
  from fgetsE [OF fgets_flavors [OF R, of fs ?ob] 2(2,3)] obtain x3 where
    "get_flavors T (length fs) ?ob x2 = Fin (?ob\<lparr>tauth_flavors := tauth_flavors ?ob @ fs\<rparr>, True, x3)"
    "x_op T x3 = XDR_DECODE" "xdr_in V x3 = rest" by metis
  with 1 2 h assms(3) x(1) show "\<exists>x'. fhstatus_ok T ob x =
      Fin (ob\<lparr>tfhs_fhandle := h, tauth_flavors := tauth_flavors ob @ fs\<rparr>, True, x') \<and>
      x_op T x' = XDR_DECODE \<and> xdr_in V x' = rest"
    by (simp add: fhstatus_ok_def)
qed

lemma fgets_fhstatus:
  assumes R: "xdr_reader T V"
  shows "length h \<le> 64 \<Longrightarrow> length fs = min (unat n) 10 \<Longrightarrow>
      fgets T V (xdr_fhstatus T) ob (be32 0 @ enc_opaque h @ be32 n @ enc_flavors fs)
        (ob\<lparr>tfhs_status := 0, tfhs_fhandle := h, tauth_flavors := tauth_flavors ob @ fs\<rparr>)"
    and "st \<noteq> 0 \<Longrightarrow> fgets T V (xdr_fhstatus T) ob (be32 st) (ob\<lparr>tfhs_status := st\<rparr>)"
proof -
  let ?s = "\<lambda>st. ob\<lparr>tfhs_status := st\<rparr>"
  have st: "fgets T V (ffld tfhs_status tfhs_status_update (prim (xdr_u_int T))) ob (be32 st) (?s st)" for st
    by (rule fgets_cong [OF fgets_ffld [OF fgets_u_int [OF R]]]) simp
  show "fgets T V (xdr_fhstatus T) ob (be32 0 @ enc_opaque h @ be32 n @ enc_flavors fs)
      (ob\<lparr>tfhs_status := 0, tfhs_fhandle := h, tauth_flavors := tauth_flavors ob @ fs\<rparr>)"
    if "length h \<le> 64" "length fs = min (unat n) 10"
    unfolding xdr_fhstatus_def
    using fgets_fseq [OF st [of 0] fgets_fseq_single [OF fgets_fwhen [where c = "\<lambda>ob. tfhs_status ob = 0"
        and ob = "?s 0" and d = True, OF _ fgets_fhstatus_ok [OF R that]]]] by simp
  show "fgets T V (xdr_fhstatus T) ob (be32 st) (?s st)" if "st \<noteq> 0"
    unfolding xdr_fhstatus_def
    using fgets_fseq [OF st [of st] fgets_fseq_single [OF fgets_fwhen [where c = "\<lambda>ob. tfhs_status ob = 0"
        and ob = "?s st" and d = False]]] that by simp
qed

lemma fsafe_fhstatus:
  assumes R: "xdr_reader T V"
  shows "fsafe T V (xdr_fhstatus T)"
proof -
  have "fsafe T V (fhstatus_ok T)" unfolding fsafe_def
  proof (intro allI impI)
    fix ob x assume x: "x_op T x = XDR_DECODE"
    from any_input_bytes [OF R x, of FHSIZE] obtain b p len x1 where
      1: "xdr_bytes T FHSIZE Nullptr 0 x = (b, p, len, x1)" "stays T V x x1"
      and got: "b \<Longrightarrow> \<exists>d. assign_free p len = Fin d" by blast
    have d: "\<exists>d. assign_from p len = Fin d" if b
      using got [OF that] by (cases p) (auto simp: assign_free_def assign_from_def split: if_splits)
    obtain b2 n x2 where 2: "xdr_u_int T 0 x1 = (b2, n, x2)" "stays T V x1 x2"
      by (rule any_inputE [OF any_input_u_int [OF R stays_op [OF 1(2)], of 0]])
    from fsafeE [OF fsafe_flavors [OF R] stays_op [OF 2(2)]] stays_trans [OF stays_trans [OF 1(2) 2(2)]]
    have "\<exists>ob' b x'. get_flavors T k ob x2 = Fin (ob', b, x') \<and> stays T V x x'" for k ob by metis
    with 1 2 x d stays_trans [OF 1(2) 2(2)]
    show "\<exists>ob' b x'. fhstatus_ok T ob x = Fin (ob', b, x') \<and> stays T V x x'"
      by (cases b; cases b2) (auto simp: fhstatus_ok_def Let_def)
  qed
  then show ?thesis unfolding xdr_fhstatus_def by (intro fret R)
qed

text \<open>What a fresh object holds after a reply.\<close>

lemma fhstatus_reply:
  assumes R: "xdr_reader T V" and y: "x_op T y = XDR_DECODE"
    and run: "xdr_fhstatus T \<lparr>tfhs_status = 0, tfhs_fhandle = [], tauth_flavors = []\<rparr> y = Fin (res, b, y')"
  shows "xdr_in V y = enc_mnt_ok h fs @ rest \<Longrightarrow> length h \<le> 64 \<Longrightarrow> length fs \<le> UINT32_MAX \<Longrightarrow>
      b \<and> tfhs_status res = 0 \<and> tfhs_fhandle res = h"
    and "xdr_in V y = be32 e @ rest \<Longrightarrow> e \<noteq> 0 \<Longrightarrow> b \<and> tfhs_status res = e"
proof -
  let ?zero = "\<lparr>tfhs_status = 0, tfhs_fhandle = [], tauth_flavors = []\<rparr>"
  have got: "b \<and> res = v" if "fgets T V (xdr_fhstatus T) ?zero bs v" "xdr_in V y = bs @ rest" for bs v rest
    using fgetsE [OF that(1) y that(2)] run by (metis fres.inject(1) prod.inject)
  show "b \<and> tfhs_status res = 0 \<and> tfhs_fhandle res = h"
    if "xdr_in V y = enc_mnt_ok h fs @ rest" "length h \<le> 64" "length fs \<le> UINT32_MAX"
  proof -
    let ?n = "word_of_nat (length fs) :: uint32"
    have "enc_flavors fs = enc_flavors (take 10 fs) @ enc_flavors (drop 10 fs)"
      unfolding enc_flavors_def by (metis append_take_drop_id concat_append map_append)
    then have "xdr_in V y = (be32 0 @ enc_opaque h @ be32 ?n @ enc_flavors (take 10 fs)) @ enc_flavors (drop 10 fs) @ rest"
      using that(1) by (simp add: enc_mnt_ok_def)
    moreover have "length (take 10 fs) = min (unat ?n) 10" using that(3) by (simp add: unat_of_length)
    ultimately have "b \<and> res = ?zero\<lparr>tfhs_status := 0, tfhs_fhandle := h, tauth_flavors := tauth_flavors ?zero @ take 10 fs\<rparr>"
      by (intro got [OF fgets_fhstatus(1) [OF R that(2)]])
    then show ?thesis by simp
  qed
  show "b \<and> tfhs_status res = e" if "xdr_in V y = be32 e @ rest" "e \<noteq> 0"
    using got [OF fgets_fhstatus(2) [OF R that(2)] that(1)] by simp
qed

section \<open>Reading the export list\<close>

lemma any_input_bool:
  assumes "xdr_reader T V" and "x_op T x = XDR_DECODE"
  obtains b v x' where "xdr_bool T old x = (b, v, x')" "stays T V x x'"
    "b \<Longrightarrow> length (xdr_in V x') < length (xdr_in V x)"
proof -
  obtain b v x' where eq: "xdr_bool T old x = (b, v, x')" by (cases "xdr_bool T old x")
  from assms have law: "any_input T V x (\<lambda>_. True) (xdr_bool T old x)"
    "fst (xdr_bool T old x) \<Longrightarrow> length (xdr_in V (snd (snd (xdr_bool T old x)))) < length (xdr_in V x)"
    by (simp_all add: readerD)
  with that eq show thesis by (simp add: any_input_def)
qed

lemma takes_bool:
  "xdr_reader T V \<Longrightarrow> x_op T x = XDR_DECODE \<Longrightarrow> takes T V x (enc_bool v) v (xdr_bool T old x)"
  by (simp add: readerD)

lemma takes_bool_at:
  assumes "xdr_reader T V" and "x_op T x = XDR_DECODE" and "xdr_in V x = enc_bool v @ rest"
  obtains x' where "xdr_bool T old x = (True, v, x')" "x_op T x' = XDR_DECODE" "xdr_in V x' = rest"
  using takesE [OF takes_bool [OF assms(1,2)] assms(3)] by metis

lemma takes_string_at:
  assumes "xdr_reader T V" and "x_op T x = XDR_DECODE" and "xdr_in V x = enc_string s @ rest"
    and "length s \<le> lim" and "lim < UINT32_MAX"
  obtains x' where "xdr_string T lim p x = (True, into p (map byte_of_char s @ [0]), x')"
    "x_op T x' = XDR_DECODE" "xdr_in V x' = rest"
proof -
  let ?d = "map byte_of_char s"
  have "xdr_in V x = (be32 (vector_size ?d) @ ?d @ replicate (pad4 (length ?d)) 0) @ rest"
    using assms(3) by (simp add: enc_string_def enc_opaque_wire)
  from takesE [OF stringD(1) [OF assms(1,2,5), of ?d] this] assms(4) that show thesis by auto
qed

text \<open>The result of a loop that has ended: a value, or the overrun of a group's storage.\<close>

definition ended :: "'x tirpc \<Rightarrow> 'x view \<Rightarrow> 'x \<Rightarrow> ('a \<times> bool \<times> 'x) fres option \<Rightarrow> bool" where
  "ended T V x r \<longleftrightarrow> r = Some Undef \<or> (\<exists>a b x'. r = Some (Fin (a, b, x')) \<and> stays T V x x')"

lemma endedE:
  assumes "ended T V x r"
  obtains "r = Some Undef" | a b x' where "r = Some (Fin (a, b, x'))" "stays T V x x'"
  using assms unfolding ended_def by blast

lemma ended_later: "stays T V x x' \<Longrightarrow> ended T V x' r \<Longrightarrow> ended T V x r"
  unfolding ended_def by (blast intro: stays_trans)

lemma ended_Fin: "stays T V x x' \<Longrightarrow> ended T V x (Some (Fin (a, b, x')))"
  unfolding ended_def by blast

lemma ended_Undef [simp]: "ended T V x (Some Undef)"
  by (simp add: ended_def)

lemma groups_ended:
  assumes R: "xdr_reader T V" and "x_op T x = XDR_DECODE"
  shows "ended T V x (groups_loop T ind grp x)"
  using assms(2)
proof (induction "length (xdr_in V x)" arbitrary: grp x rule: less_induct)
  case less
  from any_input_bool [OF R less.prems, of ind] obtain b v x1 where
    1: "xdr_bool T ind x = (b, v, x1)" "stays T V x x1" "b \<Longrightarrow> length (xdr_in V x1) < length (xdr_in V x)" by blast
  have "any_input T V x1 (\<lambda>p'. \<exists>d. p' = into grp (d @ [0])) (xdr_string T 256 grp x1)"
    by (rule stringD(2) [OF R stays_op [OF 1(2)]]) simp
  then obtain b2 grp' x2 where 2: "xdr_string T 256 grp x1 = (b2, grp', x2)" "stays T V x1 x2"
    by (rule any_inputE)
  have rest: "ended T V x (groups_loop T ind grp' x2)" if b
  proof (rule ended_later [OF stays_trans [OF 1(2) 2(2)] less.hyps])
    show "length (xdr_in V x2) < length (xdr_in V x)" using 1(3) that 2(2) by (simp add: stays_def)
    show "x_op T x2 = XDR_DECODE" by (rule stays_op [OF 2(2)])
  qed
  show ?case
    by (subst groups_loop.simps)
      (use 1 2 rest stays_trans [OF 1(2) 2(2)] in \<open>auto intro: ended_Fin\<close>)
qed

lemma exports_ended:
  assumes R: "xdr_reader T V" and "x_op T x = XDR_DECODE"
  shows "ended T V x (exports_loop T ind result x)"
  using assms(2)
proof (induction "length (xdr_in V x)" arbitrary: result x rule: less_induct)
  case less
  from any_input_bool [OF R less.prems, of ind] obtain b v x1 where
    1: "xdr_bool T ind x = (b, v, x1)" "stays T V x x1" "b \<Longrightarrow> length (xdr_in V x1) < length (xdr_in V x)" by blast
  have "any_input T V x1 (\<lambda>p'. \<exists>d. p' = into Nullptr (d @ [0])) (xdr_string T 1024 Nullptr x1)"
    by (rule stringD(2) [OF R stays_op [OF 1(2)]]) simp
  then obtain b2 p x2 where 2: "xdr_string T 1024 Nullptr x1 = (b2, p, x2)" "stays T V x1 x2"
    and p: "b2 \<Longrightarrow> \<exists>d. p = Alloc (d @ [0])"
    by (auto elim: any_inputE)
  have push: "\<exists>result'. push_dir p result = Fin result'" if b2
  proof -
    obtain d where "p = Alloc (d @ [0])" using p [OF \<open>b2\<close>] by blast
    then show ?thesis by (auto simp: push_dir_def Let_def)
  qed
  note s2 = stays_trans [OF 1(2) 2(2)]
  from any_input_bool [OF R stays_op [OF 2(2)], of ind] obtain b3 v3 x3 where
    3: "xdr_bool T ind x2 = (b3, v3, x3)" "stays T V x2 x3" by blast
  note s3 = stays_trans [OF s2 3(2)]
  let ?groups = "if v3 then groups_loop T ind Nullptr x3 else Some (Fin (Nullptr, True, x3))"
  have "ended T V x3 ?groups"
    using groups_ended [OF R stays_op [OF 3(2)]] stays_op [OF 3(2)] by (auto intro!: ended_Fin simp: stays_def)
  then consider (undef) "?groups = Some Undef"
    | (fine) g b4 x4 where "?groups = Some (Fin (g, b4, x4))" "stays T V x3 x4" by (rule endedE) blast+
  then show ?case
  proof cases
    case undef
    with 1 2 3 push show ?thesis
      by (subst exports_loop.simps) (auto simp: ends_def s2 s3 intro!: ended_Fin)
  next
    case (fine g b4 x4)
    note s4 = stays_trans [OF s3 fine(2)]
    from any_input_bool [OF R stays_op [OF fine(2)], of True] obtain b5 v5 x5 where
      5: "xdr_bool T True x4 = (b5, v5, x5)" "stays T V x4 x5" by blast
    note s5 = stays_trans [OF s4 5(2)]
    have "length (xdr_in V x5) < length (xdr_in V x)" if b
      using 1(3) [OF that] stays_trans [OF stays_trans [OF stays_trans [OF 2(2) 3(2)] fine(2)] 5(2)]
      by (simp add: stays_def)
    then have rest: "ended T V x (exports_loop T ind result' x5)" if b for result'
      using that by (intro ended_later [OF s5] less.hyps stays_op [OF 5(2)])
    with 1 2 3 5 push fine(1) show ?thesis
      by (subst exports_loop.simps) (auto simp: ends_def s2 s3 s4 s5 intro!: ended_Fin)
  qed
qed

text \<open>A list with no entry, or with one entry that is open to all, in the format of RFC 1813.\<close>

lemma fgets_no_exports:
  assumes R: "xdr_reader T V"
  shows "fgets T V (xdr_exports_list T ind) result (enc_rfc_exports []) result"
  unfolding fgets_def
proof (intro allI impI)
  fix x rest assume "x_op T x = XDR_DECODE" "xdr_in V x = enc_rfc_exports [] @ rest"
  then obtain x' where "xdr_bool T ind x = (True, False, x')" "x_op T x' = XDR_DECODE" "xdr_in V x' = rest"
    by (auto elim: takes_bool_at [OF R])
  then show "\<exists>x'. xdr_exports_list T ind result x = Fin (result, True, x') \<and> x_op T x' = XDR_DECODE \<and> xdr_in V x' = rest"
    unfolding xdr_exports_list_def by (subst exports_loop.simps) (simp add: ends_def)
qed

lemma push_dir_name:
  assumes "c_name lim d"
  shows "push_dir (Alloc (map byte_of_char d @ [0])) result = Fin (if d = [] then result else result @ [d])"
proof (cases d)
  case Nil
  then show ?thesis by (simp add: push_dir_def)
next
  case (Cons c cs)
  with assms have "byte_of_char c \<noteq> 0" by (auto simp: c_name_def)
  moreover have "takeWhile (\<lambda>c. c \<noteq> 0) (map byte_of_char d @ [0]) = map byte_of_char d"
    using assms by (intro takeWhile_c_str) (simp add: c_name_def)
  ultimately show ?thesis using Cons by (simp add: push_dir_def comp_def)
qed

lemma fgets_one_export:
  assumes R: "xdr_reader T V" and d: "c_name 1024 d"
  shows "fgets T V (xdr_exports_list T ind) result (enc_rfc_exports [(d, [])]) (if d = [] then result else result @ [d])"
  unfolding fgets_def
proof (intro allI impI)
  fix x rest assume x: "x_op T x = XDR_DECODE" "xdr_in V x = enc_rfc_exports [(d, [])] @ rest"
  then have "xdr_in V x = enc_bool True @ enc_string d @ enc_bool False @ enc_bool False @ rest" by simp
  then obtain x1 where 1: "xdr_bool T ind x = (True, True, x1)" "x_op T x1 = XDR_DECODE"
      "xdr_in V x1 = enc_string d @ enc_bool False @ enc_bool False @ rest"
    by (rule takes_bool_at [OF R x(1)])
  from d obtain x2 where 2: "xdr_string T 1024 Nullptr x1 = (True, Alloc (map byte_of_char d @ [0]), x2)"
      "x_op T x2 = XDR_DECODE" "xdr_in V x2 = enc_bool False @ enc_bool False @ rest"
    by (auto intro: takes_string_at [OF R 1(2,3), of 1024 Nullptr] simp: c_name_def)
  obtain x3 where 3: "xdr_bool T ind x2 = (True, False, x3)" "x_op T x3 = XDR_DECODE"
      "xdr_in V x3 = enc_bool False @ rest"
    by (rule takes_bool_at [OF R 2(2,3)])
  obtain x4 where "xdr_bool T True x3 = (True, False, x4)" "x_op T x4 = XDR_DECODE" "xdr_in V x4 = rest"
    by (rule takes_bool_at [OF R 3(2,3)])
  with 1 2 3 show "\<exists>x'. xdr_exports_list T ind result x = Fin (if d = [] then result else result @ [d], True, x') \<and>
      x_op T x' = XDR_DECODE \<and> xdr_in V x' = rest"
    unfolding xdr_exports_list_def
    by (subst exports_loop.simps) (simp add: ends_def push_dir_name [OF d])
qed

text \<open>An entry with groups, in the format the loop expects: none of them longer than the first.\<close>

definition enc_grouped :: "string \<Rightarrow> string list \<Rightarrow> bytes" where
  "enc_grouped d gs = enc_bool True @ enc_string d @ enc_bool True @ enc_rfc_groups gs @ enc_bool False"

lemma groups_read_more:
  assumes R: "xdr_reader T V" and "x_op T x = XDR_DECODE" and "xdr_in V x = enc_rfc_groups gs @ rest"
    and "\<And>g. g \<in> set gs \<Longrightarrow> length g < length m \<and> length g \<le> 256"
  shows "\<exists>grp' x'. groups_loop T ind (Alloc m) x = Some (Fin (grp', True, x')) \<and>
    x_op T x' = XDR_DECODE \<and> xdr_in V x' = rest"
  using assms(2-4)
proof (induction gs arbitrary: m x)
  case Nil
  then obtain x' where "xdr_bool T ind x = (True, False, x')" "x_op T x' = XDR_DECODE" "xdr_in V x' = rest"
    by (auto elim: takes_bool_at [OF R])
  then show ?case by (subst groups_loop.simps) simp
next
  case (Cons g gs)
  let ?m = "map byte_of_char g @ 0 # drop (Suc (length g)) m"
  have "xdr_in V x = enc_bool True @ enc_string g @ enc_rfc_groups gs @ rest" using Cons.prems(2) by simp
  then obtain x1 where 1: "xdr_bool T ind x = (True, True, x1)" "x_op T x1 = XDR_DECODE"
      "xdr_in V x1 = enc_string g @ enc_rfc_groups gs @ rest"
    by (rule takes_bool_at [OF R Cons.prems(1)])
  from Cons.prems(3) [of g] obtain x2 where 2: "xdr_string T 256 (Alloc m) x1 = (True, Alloc ?m, x2)"
      "x_op T x2 = XDR_DECODE" "xdr_in V x2 = enc_rfc_groups gs @ rest"
    by (auto intro: takes_string_at [OF R 1(2,3), of 256 "Alloc m"] simp: into_def)
  have len: "length ?m = length m" using Cons.prems(3) [of g] by auto
  then have "\<And>g'. g' \<in> set gs \<Longrightarrow> length g' < length ?m \<and> length g' \<le> 256"
    unfolding len using Cons.prems(3) by simp
  from Cons.IH [OF 2(2,3) this] 1 2(1) len show ?case
    by (subst groups_loop.simps) (simp add: overruns_def)
qed

lemma groups_read:
  assumes R: "xdr_reader T V" and x: "x_op T x = XDR_DECODE" "xdr_in V x = enc_rfc_groups (g # gs) @ rest"
    and len: "length g \<le> 256" "\<And>g'. g' \<in> set gs \<Longrightarrow> length g' \<le> length g"
  shows "\<exists>grp' x'. groups_loop T ind Nullptr x = Some (Fin (grp', True, x')) \<and>
    x_op T x' = XDR_DECODE \<and> xdr_in V x' = rest"
proof -
  let ?m = "map byte_of_char g @ [0]"
  have "xdr_in V x = enc_bool True @ enc_string g @ enc_rfc_groups gs @ rest" using x(2) by simp
  then obtain x1 where 1: "xdr_bool T ind x = (True, True, x1)" "x_op T x1 = XDR_DECODE"
      "xdr_in V x1 = enc_string g @ enc_rfc_groups gs @ rest"
    by (rule takes_bool_at [OF R x(1)])
  from len(1) obtain x2 where 2: "xdr_string T 256 Nullptr x1 = (True, Alloc ?m, x2)"
      "x_op T x2 = XDR_DECODE" "xdr_in V x2 = enc_rfc_groups gs @ rest"
    by (auto intro: takes_string_at [OF R 1(2,3), of 256 Nullptr])
  have "length g' < length ?m \<and> length g' \<le> 256" if "g' \<in> set gs" for g'
    using len(1) len(2) [OF that] by simp
  from groups_read_more [OF R 2(2,3) this] 1 2(1) show ?thesis
    by (subst groups_loop.simps) (simp add: overruns_def)
qed

lemma fgets_grouped:
  assumes R: "xdr_reader T V" and d: "c_name 1024 d" and len: "length g \<le> 256" "\<And>g'. g' \<in> set gs \<Longrightarrow> length g' \<le> length g"
  shows "fgets T V (xdr_exports_list T ind) result (enc_grouped d (g # gs)) (if d = [] then result else result @ [d])"
  unfolding fgets_def
proof (intro allI impI)
  fix x rest assume x: "x_op T x = XDR_DECODE" "xdr_in V x = enc_grouped d (g # gs) @ rest"
  let ?tail = "enc_rfc_groups (g # gs) @ enc_bool False @ rest"
  have "xdr_in V x = enc_bool True @ enc_string d @ enc_bool True @ ?tail" using x(2) by (simp add: enc_grouped_def)
  then obtain x1 where 1: "xdr_bool T ind x = (True, True, x1)" "x_op T x1 = XDR_DECODE"
      "xdr_in V x1 = enc_string d @ enc_bool True @ ?tail"
    by (rule takes_bool_at [OF R x(1)])
  from d obtain x2 where 2: "xdr_string T 1024 Nullptr x1 = (True, Alloc (map byte_of_char d @ [0]), x2)"
      "x_op T x2 = XDR_DECODE" "xdr_in V x2 = enc_bool True @ ?tail"
    by (auto intro: takes_string_at [OF R 1(2,3), of 1024 Nullptr] simp: c_name_def)
  obtain x3 where 3: "xdr_bool T ind x2 = (True, True, x3)" "x_op T x3 = XDR_DECODE" "xdr_in V x3 = ?tail"
    by (rule takes_bool_at [OF R 2(2,3)])
  from groups_read [OF R 3(2,3) len, of ind] obtain grp x4 where 4: "groups_loop T ind Nullptr x3 = Some (Fin (grp, True, x4))"
      "x_op T x4 = XDR_DECODE" "xdr_in V x4 = enc_bool False @ rest" by blast
  obtain x5 where "xdr_bool T True x4 = (True, False, x5)" "x_op T x5 = XDR_DECODE" "xdr_in V x5 = rest"
    by (rule takes_bool_at [OF R 4(2,3)])
  with 1 2 3 4 show "\<exists>x'. xdr_exports_list T ind result x = Fin (if d = [] then result else result @ [d], True, x') \<and>
      x_op T x' = XDR_DECODE \<and> xdr_in V x' = rest"
    unfolding xdr_exports_list_def
    by (subst exports_loop.simps) (simp add: ends_def push_dir_name [OF d])
qed

text \<open>A group whose name is longer than that of the first group of its entry.\<close>

definition enc_two_groups :: "string \<Rightarrow> string \<Rightarrow> string \<Rightarrow> bytes" where
  "enc_two_groups d g h = enc_bool True @ enc_string d @ enc_bool True @
     enc_bool True @ enc_string g @ enc_bool True @ enc_string h"

lemma groups_overrun:
  assumes R: "xdr_reader T V" and x: "x_op T x = XDR_DECODE"
    and "xdr_in V x = enc_bool True @ enc_string g @ enc_bool True @ enc_string h @ rest"
    and "length g < length h" and "length h \<le> 256"
  shows "groups_loop T ind Nullptr x = Some Undef"
proof -
  let ?p = "Alloc (map byte_of_char g @ [0])" and ?q = "Alloc (map byte_of_char h @ [0])"
  obtain x1 where 1: "xdr_bool T ind x = (True, True, x1)" "x_op T x1 = XDR_DECODE"
      "xdr_in V x1 = enc_string g @ enc_bool True @ enc_string h @ rest"
    by (rule takes_bool_at [OF R x assms(3)])
  from assms(4,5) obtain x2 where 2: "xdr_string T 256 Nullptr x1 = (True, ?p, x2)"
      "x_op T x2 = XDR_DECODE" "xdr_in V x2 = enc_bool True @ enc_string h @ rest"
    by (auto intro: takes_string_at [OF R 1(2,3), of 256 Nullptr])
  obtain x3 where 3: "xdr_bool T ind x2 = (True, True, x3)" "x_op T x3 = XDR_DECODE"
      "xdr_in V x3 = enc_string h @ rest"
    by (rule takes_bool_at [OF R 2(2,3)])
  have q: "into ?p (map byte_of_char h @ [0]) = ?q" using assms(4) by (simp add: into_def)
  from assms(5) obtain x4 where "xdr_string T 256 ?p x3 = (True, into ?p (map byte_of_char h @ [0]), x4)"
    by (auto intro: takes_string_at [OF R 3(2,3), of 256 ?p])
  then have 4: "xdr_string T 256 ?p x3 = (True, ?q, x4)" unfolding q .
  have "groups_loop T ind ?p x2 = Some Undef"
    by (subst groups_loop.simps) (simp add: 3 4 overruns_def assms(4))
  then show ?thesis
    by (subst groups_loop.simps) (simp add: 1 2 overruns_def)
qed

lemma exports_overrun:
  assumes R: "xdr_reader T V" and x: "x_op T x = XDR_DECODE"
    and "xdr_in V x = enc_two_groups d g h @ rest"
    and d: "c_name 1024 d" and "length g < length h" and "length h \<le> 256"
  shows "xdr_exports_list T ind result x = Undef"
proof -
  let ?tail = "enc_bool True @ enc_string g @ enc_bool True @ enc_string h @ rest"
  have "xdr_in V x = enc_bool True @ enc_string d @ enc_bool True @ ?tail"
    using assms(3) by (simp add: enc_two_groups_def)
  then obtain x1 where 1: "xdr_bool T ind x = (True, True, x1)" "x_op T x1 = XDR_DECODE"
      "xdr_in V x1 = enc_string d @ enc_bool True @ ?tail"
    by (rule takes_bool_at [OF R x])
  from d obtain x2 where 2: "xdr_string T 1024 Nullptr x1 = (True, Alloc (map byte_of_char d @ [0]), x2)"
      "x_op T x2 = XDR_DECODE" "xdr_in V x2 = enc_bool True @ ?tail"
    by (auto intro: takes_string_at [OF R 1(2,3), of 1024 Nullptr] simp: c_name_def)
  obtain x3 where 3: "xdr_bool T ind x2 = (True, True, x3)" "x_op T x3 = XDR_DECODE" "xdr_in V x3 = ?tail"
    by (rule takes_bool_at [OF R 2(2,3)])
  from groups_overrun [OF R 3(2,3) assms(5,6)] 1 2 3 show ?thesis
    unfolding xdr_exports_list_def
    by (subst exports_loop.simps) (simp add: ends_def push_dir_name [OF d])
qed

end
