(* ===== verification/TirpcMemory.thy ===== *)
theory TirpcMemory
  imports TirpcRules
begin

text \<open>
  A stream in memory that keeps every promise of \<open>xdr_writer\<close> and \<open>xdr_reader\<close>: it appends
  to the bytes written while there is room and takes its input off the front. The theorems
  about filters are applied to it where they are shown at work on concrete data.
\<close>

record mem_stream =
  m_op :: xdr_op
  m_out :: bytes
  m_room :: nat
  m_in :: bytes

definition mem_view :: "mem_stream view" where
  "mem_view = \<lparr>xdr_out = m_out, xdr_room = m_room, xdr_in = m_in\<rparr>"

definition mem_word :: "nat \<Rightarrow> ('a::len word \<Rightarrow> bytes) \<Rightarrow> 'a word \<Rightarrow> mem_stream \<Rightarrow> bool \<times> 'a word \<times> mem_stream" where
  "mem_word n be v x =
     (case m_op x of
        XDR_ENCODE \<Rightarrow>
          if n \<le> m_room x then (True, v, x\<lparr>m_out := m_out x @ be v, m_room := m_room x - n\<rparr>)
          else (False, v, x)
      | XDR_DECODE \<Rightarrow>
          if n \<le> length (m_in x) then (True, of_be (take n (m_in x)), x\<lparr>m_in := drop n (m_in x)\<rparr>)
          else (False, v, x)
      | XDR_FREE \<Rightarrow> (True, v, x))"

definition mem_bool :: "bool \<Rightarrow> mem_stream \<Rightarrow> bool \<times> bool \<times> mem_stream" where
  "mem_bool v x = (case mem_word 4 be32 (if v then 1 else 0) x of (b, w, x') \<Rightarrow> (b, w \<noteq> 0, x'))"

definition mem_opaque :: "nat \<Rightarrow> bytes \<Rightarrow> mem_stream \<Rightarrow> bool \<times> bytes \<times> mem_stream" where
  "mem_opaque n d x =
     (case m_op x of
        XDR_ENCODE \<Rightarrow>
          if n + pad4 n \<le> m_room x
          then (True, d, x\<lparr>m_out := m_out x @ take n d @ replicate (pad4 n) 0,
                           m_room := m_room x - (n + pad4 n)\<rparr>)
          else (False, d, x)
      | XDR_DECODE \<Rightarrow>
          if n + pad4 n \<le> length (m_in x)
          then (True, take n (m_in x), x\<lparr>m_in := drop (n + pad4 n) (m_in x)\<rparr>)
          else (False, d, x)
      | XDR_FREE \<Rightarrow> (True, d, x))"

definition pointee :: "cptr \<Rightarrow> bytes" where
  "pointee p = (case p of Nullptr \<Rightarrow> [] | Caller m \<Rightarrow> m | Alloc m \<Rightarrow> m)"

definition mem_bytes ::
  "nat \<Rightarrow> cptr \<Rightarrow> uint32 \<Rightarrow> mem_stream \<Rightarrow> bool \<times> cptr \<times> uint32 \<times> mem_stream" where
  "mem_bytes lim p len x =
     (if m_op x = XDR_FREE then (True, Nullptr, len, x)
      else case mem_word 4 be32 len x of (b, n, x1) \<Rightarrow>
        if \<not> b \<or> lim < unat n then (False, p, n, x1)
        else if m_op x = XDR_DECODE \<and> n = 0 then (True, p, n, x1)
        else case mem_opaque (unat n) (pointee p) x1 of (b2, d, x2) \<Rightarrow>
          (b2, if m_op x = XDR_DECODE \<and> b2 then into p d else p, n, x2))"

definition mem_string :: "nat \<Rightarrow> cptr \<Rightarrow> mem_stream \<Rightarrow> bool \<times> cptr \<times> mem_stream" where
  "mem_string lim p x =
     (if m_op x = XDR_FREE then (True, Nullptr, x)
      else if m_op x = XDR_ENCODE \<and> p = Nullptr then (False, p, x)
      else let s = takeWhile (\<lambda>c. c \<noteq> 0) (pointee p) in
        case mem_word 4 be32 (vector_size s) x of (b, n, x1) \<Rightarrow>
          if \<not> b \<or> lim < unat n then (False, p, x1)
          else case mem_opaque (unat n) s x1 of (b2, d, x2) \<Rightarrow>
            (b2, if m_op x = XDR_DECODE \<and> b2 then into p (d @ [0]) else p, x2))"

definition mem_tirpc :: "mem_stream tirpc" where
  "mem_tirpc = \<lparr>x_op = m_op, xdr_u_int = mem_word 4 be32, xdr_int = mem_word 4 be32,
     xdr_u_hyper = mem_word 8 be64, xdr_bool = mem_bool, xdr_opaque = mem_opaque, xdr_bytes = mem_bytes,
     xdr_string = mem_string\<rparr>"

definition encoder :: "nat \<Rightarrow> mem_stream" where
  "encoder n = \<lparr>m_op = XDR_ENCODE, m_out = [], m_room = n, m_in = []\<rparr>"

definition decoder :: "bytes \<Rightarrow> mem_stream" where
  "decoder bs = \<lparr>m_op = XDR_DECODE, m_out = [], m_room = 0, m_in = bs\<rparr>"

lemma mem_tirpc_sel [simp]:
  "x_op mem_tirpc = m_op" "xdr_u_int mem_tirpc = mem_word 4 be32" "xdr_int mem_tirpc = mem_word 4 be32"
  "xdr_u_hyper mem_tirpc = mem_word 8 be64" "xdr_bool mem_tirpc = mem_bool" "xdr_opaque mem_tirpc = mem_opaque"
  "xdr_bytes mem_tirpc = mem_bytes" "xdr_string mem_tirpc = mem_string"
  by (simp_all add: mem_tirpc_def)

lemma mem_view_sel [simp]:
  "xdr_out mem_view = m_out" "xdr_room mem_view = m_room" "xdr_in mem_view = m_in"
  by (simp_all add: mem_view_def)

lemmas mem_defs = mem_word_def mem_bool_def mem_opaque_def encoder_def decoder_def

lemma mem_opaque_enc:
  assumes "length d \<le> UINT32_MAX"
  shows "unat (vector_size d) = length d" "length (enc_opaque d) = 4 + (length d + pad4 (length d))"
  using assms by (simp_all add: vector_size_def unat_of_length enc_opaque_wire)

lemma mem_writes_bytes:
  assumes "m_op x = XDR_ENCODE" and "length d \<le> lim" and "length d \<le> UINT32_MAX"
  shows "writes mem_tirpc mem_view x (enc_opaque d) (vector_data d, vector_size d)
     (regroup (mem_bytes lim (vector_data d) (vector_size d) x))"
proof -
  have "pointee (vector_data d) = d" by (simp add: pointee_def vector_data_def)
  with assms mem_opaque_enc [OF assms(3)] show ?thesis
    by (auto simp: writes_def put_def regroup_def mem_bytes_def mem_defs enc_opaque_wire)
qed

lemma mem_writes_string:
  assumes "m_op x = XDR_ENCODE" and "s = takeWhile (\<lambda>c. c \<noteq> 0) m" and "length s \<le> UINT32_MAX"
  shows "if length s \<le> lim
     then writes mem_tirpc mem_view x (enc_opaque s) (Caller m) (mem_string lim (Caller m) x)
     else \<not> fst (mem_string lim (Caller m) x)"
proof -
  from assms have "takeWhile (\<lambda>c. c \<noteq> 0) (pointee (Caller m)) = s" by (simp add: pointee_def)
  with assms mem_opaque_enc [OF assms(3)] show ?thesis
    by (auto simp: writes_def put_def mem_string_def mem_defs enc_opaque_wire Let_def)
qed

lemma mem_writer: "xdr_writer mem_tirpc mem_view"
  unfolding xdr_writer_def
proof (intro allI impI conjI, goal_cases)
  case (6 x d lim)
  with mem_writes_bytes [of x d lim] show ?case by simp
next
  case (8 x m lim)
  then show ?case using mem_writes_string [OF _ refl, of x m lim] by simp
qed (auto simp: writes_def put_def mem_defs mem_bytes_def enc_bool_def split: prod.splits if_splits)

lemma mem_reads_words:
  "reads_u_int mem_tirpc mem_view" "reads_int mem_tirpc mem_view" "reads_u_hyper mem_tirpc mem_view"
  "reads_bool mem_tirpc mem_view"
  by (auto simp: reads_u_int_def reads_int_def reads_u_hyper_def reads_bool_def enc_bool_def takes_def any_input_def stays_def mem_defs
      split: if_splits)

lemma mem_reads_opaque: "reads_opaque mem_tirpc mem_view"
  by (auto simp: reads_opaque_def takes_def any_input_def stays_def mem_defs)

lemma mem_takes_opaque:
  assumes "m_op x = XDR_DECODE" and "m_in x = be32 (vector_size d) @ d @ padding @ rest"
    and "length padding = pad4 (length d)" and "length d \<le> UINT32_MAX"
  shows "mem_word 4 be32 n x = (True, vector_size d, x\<lparr>m_in := d @ padding @ rest\<rparr>)"
    and "mem_opaque (unat (vector_size d)) m (x\<lparr>m_in := d @ padding @ rest\<rparr>) =
      (True, d, x\<lparr>m_in := rest\<rparr>)"
  using assms mem_opaque_enc(1) [OF assms(4)] by (simp_all add: mem_defs)

lemma vector_size_0: "length d \<le> UINT32_MAX \<Longrightarrow> vector_size d = 0 \<longleftrightarrow> d = []"
  using mem_opaque_enc(1) [of d] by (metis length_0_conv unat_eq_zero)

lemma mem_reads_bytes: "reads_bytes mem_tirpc mem_view"
  unfolding reads_bytes_def
proof (intro allI impI conjI, goal_cases)
  case (1 x lim p l0 d padding)
  show ?case unfolding takes_def
  proof (intro allI impI)
    fix rest assume "xdr_in mem_view x = (be32 (vector_size d) @ d @ padding) @ rest"
    with 1 mem_takes_opaque(1) [of x d padding rest l0] mem_takes_opaque(2) [of x d padding rest "pointee p"]
      mem_opaque_enc(1) [of d]
      vector_size_0 [of d]
    show "\<exists>x'. regroup (xdr_bytes mem_tirpc lim p l0 x) =
        (True, (if d = [] then p else into p d, vector_size d), x') \<and>
        x_op mem_tirpc x' = XDR_DECODE \<and> xdr_in mem_view x' = rest"
      by (auto simp: mem_bytes_def regroup_def)
  qed
next
  case (2 x lim p l0 n rest)
  then show ?case by (simp add: mem_bytes_def mem_word_def)
next
  case (3 x lim p l0)
  then show ?case
    by (auto simp: any_input_def stays_def regroup_def mem_bytes_def mem_defs pointee_def split: if_splits)
qed

lemma mem_reads_string: "reads_string mem_tirpc mem_view"
  unfolding reads_string_def
proof (intro allI impI conjI, goal_cases)
  case (1 x lim p d padding)
  let ?s = "takeWhile (\<lambda>c. c \<noteq> 0) (pointee p)"
  show ?case unfolding takes_def
  proof (intro allI impI)
    fix rest assume "xdr_in mem_view x = (be32 (vector_size d) @ d @ padding) @ rest"
    with 1 mem_takes_opaque(1) [of x d padding rest "vector_size ?s"] mem_takes_opaque(2) [of x d padding rest ?s]
      mem_opaque_enc(1) [of d]
    show "\<exists>x'. xdr_string mem_tirpc lim p x = (True, into p (d @ [0]), x') \<and>
        x_op mem_tirpc x' = XDR_DECODE \<and> xdr_in mem_view x' = rest"
      by (auto simp: mem_string_def Let_def)
  qed
next
  case (2 x lim p)
  then show ?case
    by (auto simp: any_input_def stays_def mem_string_def mem_defs Let_def split: if_splits)
qed

lemma mem_reader: "xdr_reader mem_tirpc mem_view"
  unfolding xdr_reader_def
  by (intro conjI mem_reads_words mem_reads_opaque mem_reads_bytes mem_reads_string)

end
