(* ===== verification/TirpcLifetime.thy ===== *)
theory TirpcLifetime
  imports TirpcEndpoint "HOL-Library.Multiset"
begin

text \<open>
  The life of the handles behind the endpoints of the build with libtirpc: a program that creates,
  moves, assigns, shuts down, calls and destroys endpoints in any order, as a step relation on
  the endpoints alive and the library's world. The invariant says that the endpoints own exactly
  the handles that exist, each of them once.
\<close>

section \<open>Programs that use endpoints\<close>

type_synonym 'w program = "TRPCEndpoint list \<times> 'w"

inductive ep_step :: "'w clnt_lib \<Rightarrow> ('a, 'r, 'x, 'w) clnt_call \<Rightarrow> 'w program \<Rightarrow> 'w program \<Rightarrow> bool"
  for L :: "'w clnt_lib" and call :: "('a, 'r, 'x, 'w) clnt_call" where
  create: "TRPCEndpoint_create L h p tm w = (ep, w') \<Longrightarrow> ep_step L call (eps, w) (eps @ [ep], w')"
| move: "i < length eps \<Longrightarrow> TRPCEndpoint_move (eps ! i) = (new, old) \<Longrightarrow>
    ep_step L call (eps, w) (eps[i := old] @ [new], w)"
| assign: "i < length eps \<Longrightarrow> j < length eps \<Longrightarrow> i \<noteq> j \<Longrightarrow>
    TRPCEndpoint_move_assign L False (eps ! i) (eps ! j) w = ((a, b), w') \<Longrightarrow>
    ep_step L call (eps, w) (eps[i := a, j := b], w')"
| assign_self: "i < length eps \<Longrightarrow> TRPCEndpoint_move_assign L True (eps ! i) (eps ! i) w = ((a, b), w') \<Longrightarrow>
    ep_step L call (eps, w) (eps[i := a], w')"
| shutdown: "i < length eps \<Longrightarrow> TRPCEndpoint_shutdown L (eps ! i) w = (ep, w') \<Longrightarrow>
    ep_step L call (eps, w) (eps[i := ep], w')"
| call: "i < length eps \<Longrightarrow> TRPCEndpoint_call_with_xdr call (eps ! i) proc a f g z w = Fin ((r, ep), w') \<Longrightarrow>
    ep_step L call (eps, w) (eps[i := ep], w')"
| destroy: "i < length eps \<Longrightarrow>
    ep_step L call (eps, w) (take i eps @ drop (Suc i) eps, TRPCEndpoint_destroy L (eps ! i) w)"

text \<open>What the library documents: \<^verbatim>\<open>clnt_create\<close> returns null or a handle that did not exist,
  \<^verbatim>\<open>clnt_destroy\<close> ends one that does, and nothing else creates or destroys handles.\<close>

definition keeps_handles :: "'w clnt_lib \<Rightarrow> ('a, 'r, 'x, 'w) clnt_call \<Rightarrow> ('w \<Rightarrow> nat set) \<Rightarrow> bool" where
  "keeps_handles L call live \<longleftrightarrow>
     (\<forall>h p v n w. case clnt_create L h p v n w of
        (None, w') \<Rightarrow> live w' = live w
      | (Some c, w') \<Rightarrow> c \<notin> live w \<and> live w' = insert c (live w)) \<and>
     (\<forall>c w. c \<in> live w \<longrightarrow> live (clnt_destroy L c w) = live w - {c}) \<and>
     (\<forall>c tv w. live (clnt_set_timeout L c tv w) = live w) \<and>
     (\<forall>c a w. live (set_cl_auth L c a w) = live w) \<and>
     (\<forall>a w. live (auth_destroy L a w) = live w) \<and>
     (\<forall>w. live (snd (authunix_create_default L w)) = live w) \<and>
     (\<forall>c p f a g r tv w st r' w'. call c p f a g r tv w = Fin (st, r', w') \<longrightarrow> live w' = live w)"

section \<open>Who owns which handle\<close>

definition handle :: "TRPCEndpoint \<Rightarrow> nat list" where
  "handle ep = (case timpl ep of None \<Rightarrow> [] | Some im \<Rightarrow> (case client im of None \<Rightarrow> [] | Some c \<Rightarrow> [c]))"

definition handles :: "TRPCEndpoint list \<Rightarrow> nat list" where
  "handles eps = concat (map handle eps)"

definition owned :: "('w \<Rightarrow> nat set) \<Rightarrow> 'w program \<Rightarrow> bool" where
  "owned live s \<longleftrightarrow> finite (live (snd s)) \<and> mset (handles (fst s)) = mset_set (live (snd s))"

lemma handles_simps [simp]:
  "handles [] = []" "handles (ep # eps) = handle ep @ handles eps" "handles (eps @ eps') = handles eps @ handles eps'"
  by (simp_all add: handles_def)

lemma mset_handles_update:
  "i < length eps \<Longrightarrow> mset (handles (eps[i := ep])) + mset (handle (eps ! i)) = mset (handles eps) + mset (handle ep)"
  by (induction eps arbitrary: i) (auto simp: nth_Cons' less_Suc_eq_0_disj)

lemma handles_update_same:
  assumes "i < length eps" and "handle ep = handle (eps ! i)"
  shows "mset (handles (eps[i := ep])) = mset (handles eps)"
  using mset_handles_update [OF assms(1), of ep] assms(2) by simp

lemma handles_update_none:
  assumes "i < length eps" and "handle ep = []"
  shows "mset (handles (eps[i := ep])) = mset (handles eps) - mset (handle (eps ! i))" 
    and "mset (handle (eps ! i)) \<subseteq># mset (handles eps)"
proof -
  let ?new = "mset (handles (eps[i := ep]))" and ?old = "mset (handles eps)" and ?h = "mset (handle (eps ! i))"
  have eq: "?old = ?new + ?h" using mset_handles_update [OF assms(1), of ep] assms(2) by simp
  then show "?new = ?old - ?h" by simp
  from eq show "?h \<subseteq># ?old" by simp
qed

lemma handles_remove:
  assumes "i < length eps"
  shows "mset (handles eps) = mset (handle (eps ! i)) + mset (handles (take i eps @ drop (Suc i) eps))"
proof -
  from assms have "eps = take i eps @ eps ! i # drop (Suc i) eps" by (rule id_take_nth_drop)
  then have "mset (handles eps) = mset (handles (take i eps @ eps ! i # drop (Suc i) eps))" by simp
  then show ?thesis by (simp only: handles_simps mset_append ac_simps)
qed

lemma handle_cases:
  obtains (none) "handle ep = []" | (one) c where "handle ep = [c]"
proof -
  have "handle ep = [] \<or> (\<exists>c. handle ep = [c])" by (simp add: handle_def split: option.splits)
  then show thesis using none one by blast
qed

text \<open>Ending the handle of one endpoint, if it has one.\<close>

lemma destroy_handle:
  assumes "keeps_handles L call live" and "mset (handle ep) \<subseteq># M" and "M = mset_set (live w)" and "finite (live w)"
  shows "finite (live (TRPCEndpoint_impl_destroy L (timpl ep) w))"
    and "mset_set (live (TRPCEndpoint_impl_destroy L (timpl ep) w)) = M - mset (handle ep)"
proof -
  let ?w' = "TRPCEndpoint_impl_destroy L (timpl ep) w"
  have "finite (live ?w') \<and> mset_set (live ?w') = M - mset (handle ep)"
  proof (cases rule: handle_cases [of ep])
    case none
    then have "?w' = w" by (auto simp: handle_def TRPCEndpoint_impl_destroy_def split: option.splits)
    with none assms(3,4) show ?thesis by simp
  next
    case (one c)
    with assms(2-4) have "c \<in> live w" by simp
    moreover from one have "?w' = clnt_destroy L c w"
      by (auto simp: handle_def TRPCEndpoint_impl_destroy_def split: option.splits)
    ultimately have "live ?w' = live w - {c}" using assms(1) by (simp add: keeps_handles_def)
    with one assms(3,4) \<open>c \<in> live w\<close> show ?thesis by (simp add: mset_set_Diff)
  qed
  then show "finite (live ?w')" and "mset_set (live ?w') = M - mset (handle ep)" by simp_all
qed

lemma live_use_auth_unix: "keeps_handles L call live \<Longrightarrow> live (use_auth_unix L c w) = live w"
  unfolding use_auth_unix_def keeps_handles_def by (simp add: Let_def split: prod.split) (metis snd_conv)

lemma create_handle:
  assumes "keeps_handles L call live" and "TRPCEndpoint_create L h p tm w = (ep, w')"
  obtains "handle ep = []" "live w' = live w"
  | c where "handle ep = [c]" "c \<notin> live w" "live w' = insert c (live w)"
proof -
  obtain c w1 where c: "clnt_create L (c_string h) NFS_PROGRAM NFS_V3 ''tcp'' w = (c, w1)" by fastforce
  from assms(1) have law: "case clnt_create L (c_string h) NFS_PROGRAM NFS_V3 ''tcp'' w of
        (None, w') \<Rightarrow> live w' = live w
      | (Some c, w') \<Rightarrow> c \<notin> live w \<and> live w' = insert c (live w)"
    unfolding keeps_handles_def by (elim conjE allE)
  from assms(1) have tv: "live (clnt_set_timeout L k (timeval_of tm) w) = live w" for k w
    unfolding keeps_handles_def by (elim conjE) blast
  show thesis
  proof (cases c)
    case None
    with c law assms(2) that(1) show thesis by (auto simp: TRPCEndpoint_create_def handle_def)
  next
    case (Some k)
    with c law assms(2) tv live_use_auth_unix [OF assms(1), of k] that(2) [of k] show thesis
      by (auto simp: TRPCEndpoint_create_def handle_def Let_def)
  qed
qed

lemma call_handle:
  assumes "keeps_handles L call live" and "TRPCEndpoint_call_with_xdr call ep p a f g z w = Fin ((r, ep'), w')"
  shows "handle ep' = handle ep" "live w' = live w"
proof -
  have "handle (next_xid ep) = handle ep"
    by (auto simp: handle_def next_xid_def split: option.splits)
  moreover have "live w2 = live w" if "call c p f a g z tv w = Fin (st, z', w2)" for c tv st z' w2
    using assms(1) that unfolding keeps_handles_def by blast
  ultimately show "handle ep' = handle ep" "live w' = live w"
    using assms(2) unfolding TRPCEndpoint_call_with_xdr_def Let_def
    by (cases "call (the_client (next_xid ep)) p f a g z (timeval_of (ttimeout (the (timpl (next_xid ep))))) w";
        auto split: if_splits option.splits)+
qed

section \<open>The invariant\<close>

lemma owned_step:
  assumes "keeps_handles L call live" and "ep_step L call s s'" and "owned live s"
  shows "owned live s'"
  using assms(2)
proof cases
  case (create h p tm w ep w' eps)
  show ?thesis
    by (rule create_handle [OF assms(1) create(3)])
      (use assms(3) create in \<open>auto simp: owned_def mset_set.insert ac_simps\<close>)
next
  case (move i eps new old w)
  then have "handle old = []" "handle new = handle (eps ! i)" by (auto simp: TRPCEndpoint_move_def handle_def)
  with handles_update_none [OF move(3), of old] assms(3) move show ?thesis by (auto simp: owned_def)
next
  case (assign i eps j w a b w')
  then have ab: "a = (eps ! i)\<lparr>timpl := timpl (eps ! j)\<rparr>" "b = (eps ! j)\<lparr>timpl := None\<rparr>"
      "w' = TRPCEndpoint_impl_destroy L (timpl (eps ! i)) w"
    by (auto simp: TRPCEndpoint_move_assign_def)
  then have h: "handle b = []" "handle a = handle (eps ! j)" by (simp_all add: handle_def)
  from assign(3-5) have "mset (handles (eps[i := a, j := b])) = mset (handles eps) - mset (handle (eps ! i))"
    using handles_update_none(1) [of j "eps[i := a]" b] mset_handles_update [OF assign(3), of a] h
    by (auto simp: add.commute) (metis add_diff_cancel_left' add_diff_cancel_right diff_diff_add_mset)
  moreover have "mset (handle (eps ! i)) \<subseteq># mset (handles eps)"
    using handles_update_none(2) [OF assign(3) h(1)] .
  ultimately show ?thesis
    using destroy_handle [OF assms(1) \<open>mset (handle (eps ! i)) \<subseteq># _\<close>] assms(3) assign ab
    by (auto simp: owned_def)
next
  case (assign_self i eps w a b w')
  then show ?thesis using assms(3) by (auto simp: TRPCEndpoint_move_assign_def)
next
  case (shutdown i eps w ep w')
  then have ep: "handle ep = []" "w' = TRPCEndpoint_impl_destroy L (timpl (eps ! i)) w"
    by (auto simp: TRPCEndpoint_shutdown_def handle_def TRPCEndpoint_impl_destroy_def split: option.splits)
  from handles_update_none [OF shutdown(3) ep(1)]
    destroy_handle [OF assms(1) handles_update_none(2) [OF shutdown(3) ep(1)]] assms(3) shutdown ep
  show ?thesis by (auto simp: owned_def)
next
  case (call i eps proc a f g z w r ep w')
  from call_handle [OF assms(1) call(4)] handles_update_same [OF call(3)] assms(3) call
  show ?thesis by (auto simp: owned_def)
next
  case (destroy i eps w)
  from handles_remove [OF destroy(3)]
  have "mset (handle (eps ! i)) \<subseteq># mset (handles eps)"
    "mset (handles (take i eps @ drop (Suc i) eps)) = mset (handles eps) - mset (handle (eps ! i))" by simp_all
  with destroy_handle [OF assms(1) this(1)] assms(3) destroy show ?thesis
    by (auto simp: owned_def TRPCEndpoint_destroy_def)
qed

lemma owned_reachable:
  assumes "keeps_handles L call live" and "(ep_step L call)\<^sup>*\<^sup>* s s'" and "owned live s"
  shows "owned live s'"
  using assms(2,3) by (induction rule: rtranclp_induct) (auto intro: owned_step [OF assms(1)])

end
