(* ===== verification/TirpcNet.thy ===== *)
theory TirpcNet
  imports TirpcMemory TirpcLifetime
begin

text \<open>
  A library that keeps every promise of \<open>calls_through\<close> and \<open>keeps_handles\<close>: calls go through streams in
  memory to a server that is a function, and a new handle is larger than all that exist. The
  theorems about the clients are applied to it where they are shown at work.
\<close>

record mem_world =
  w_reqs :: "request list"
  w_handles :: "nat list"

definition mem_clnt_call ::
    "(request \<Rightarrow> clnt_stat \<times> bytes) \<Rightarrow> ('a, 'r, mem_stream, mem_world) clnt_call" where
  "mem_clnt_call srv c p f a g r tv w =
     fbind (f a (encoder 8800)) (\<lambda>(_, b, x).
       if \<not> b then Fin (RPC_CANTENCODEARGS, r, w)
       else let q = (c, p, m_out x); w' = w\<lparr>w_reqs := w_reqs w @ [q]\<rparr> in
         case srv q of (st, results) \<Rightarrow>
           if st \<noteq> RPC_SUCCESS then Fin (st, r, w')
           else fbind (g r (decoder results)) (\<lambda>(r', b, _).
             Fin (if b then RPC_SUCCESS else RPC_CANTDECODERES, r', w')))"

definition mem_lib :: "mem_world clnt_lib" where
  "mem_lib =
     \<lparr>clnt_create = \<lambda>h p v n w. let c = Suc (sum_list (w_handles w)) in (Some c, w\<lparr>w_handles := c # w_handles w\<rparr>),
      clnt_set_timeout = \<lambda>c tv w. w,
      clnt_destroy = \<lambda>c w. w\<lparr>w_handles := removeAll c (w_handles w)\<rparr>,
      cl_auth = \<lambda>c w. None,
      set_cl_auth = \<lambda>c a w. w,
      auth_destroy = \<lambda>a w. w,
      authunix_create_default = \<lambda>w. (None, w)\<rparr>"

abbreviation world0 :: mem_world where
  "world0 \<equiv> \<lparr>w_reqs = [], w_handles = []\<rparr>"

lemma mem_calls_through:
  "calls_through mem_tirpc mem_view 8800 w_reqs (\<lambda>q _. srv q) (mem_clnt_call srv)"
  unfolding calls_through_def
proof (intro allI)
  fix c p and f :: "('a, mem_stream) filt" and a and g :: "('r, mem_stream) filt" and r tv and w :: mem_world
  let ?w' = "case f a (encoder 8800) of Fin (_, True, x) \<Rightarrow> w\<lparr>w_reqs := w_reqs w @ [(c, p, m_out x)]\<rparr> | _ \<Rightarrow> w"
  show "\<exists>x w'. x_op mem_tirpc x = XDR_ENCODE \<and> xdr_out mem_view x = [] \<and> 8800 \<le> xdr_room mem_view x \<and>
     ran_call mem_tirpc mem_view w_reqs (\<lambda>q _. srv q) c p (f a x) g r w (mem_clnt_call srv c p f a g r tv w) w'"
    by (intro exI [of _ "encoder 8800"] exI [of _ ?w'])
      (auto simp: ran_call_def mem_clnt_call_def encoder_def decoder_def Let_def
        split: fres.splits bool.splits if_splits
        intro!: exI [of _ "\<lparr>m_op = XDR_DECODE, m_out = [], m_room = 0, m_in = _\<rparr>"])
qed

lemma mem_clnt_call_handles:
  "mem_clnt_call srv c p f a g r tv w = Fin (st, r', w') \<Longrightarrow> w_handles w' = w_handles w"
  by (cases "f a (encoder 8800)")
    (auto simp: mem_clnt_call_def Let_def split: if_splits prod.splits elim!: fbind.elims)

lemma mem_keeps_handles: "keeps_handles mem_lib (mem_clnt_call srv) (\<lambda>w. set (w_handles w))"
proof -
  have "Suc (sum_list cs) \<notin> set cs" for cs :: "nat list"
    using member_le_sum_list [of "Suc (sum_list cs)" cs] by auto
  then show ?thesis
    unfolding keeps_handles_def by (auto simp: mem_lib_def Let_def dest: mem_clnt_call_handles)
qed

end
