(* ===== verification/TirpcProperties.thy ===== *)
theory TirpcProperties
  imports TirpcProcsA TirpcProcsB TirpcProcsC TirpcMemory
begin

text \<open>
  What the libtirpc filters of \<^verbatim>\<open>nfs3_xdr.cpp\<close> promise, and where they fall short: they speak
  the format of \<^verbatim>\<open>class XdrBuffer\<close> wherever no verifier or \<^verbatim>\<open>sattr3\<close> is involved, decode any
  input without leaving defined behaviour as far as results are concerned, but lose the
  entries of a directory listing and must not be used to decode arguments.
\<close>

section \<open>Two codecs of one format\<close>

text \<open>\<open>agrees f ser des ok\<close>: on objects that satisfy \<open>ok\<close>, the filter \<open>f\<close> writes the bytes that
  \<open>ser\<close> writes, and reads from them the object that \<open>des\<close> reads.\<close>

definition agrees ::
  "('x tirpc \<Rightarrow> ('o, 'x) filt) \<Rightarrow> ('o \<Rightarrow> unit xdr) \<Rightarrow> ('o \<Rightarrow> 'o xdr) \<Rightarrow> ('o \<Rightarrow> bool) \<Rightarrow> bool" where
  "agrees f ser des ok \<longleftrightarrow> (\<forall>T V ob old x rest. xdr_writer T V \<longrightarrow> xdr_reader T V \<longrightarrow> ok ob \<longrightarrow>
     (\<exists>bs v. ser ob XdrBuffer_new = (Inr (), XdrBuffer_of bs) \<and>
        fst (des old (XdrBuffer_of (bs @ rest))) = Inr v \<and>
        (x_op T x = XDR_ENCODE \<and> length bs \<le> xdr_room V x \<longrightarrow>
           (\<exists>x'. f T ob x = Fin (ob, True, x') \<and> xdr_out V x' = xdr_out V x @ bs)) \<and>
        (x_op T x = XDR_DECODE \<and> xdr_in V x = bs @ rest \<longrightarrow>
           (\<exists>x'. f T old x = Fin (v, True, x') \<and> xdr_in V x' = rest))))"

locale tirpc_codec = tirpc_filter filt enc fits ovr + codec: xdr_codec ser des enc ovr ok
  for filt :: "'x tirpc \<Rightarrow> ('o, 'x) filt" and enc fits ovr ser des ok +
  assumes fits_ok: "fits ob \<Longrightarrow> ok ob"
begin

lemma filt_agrees: "agrees filt ser des fits"
  unfolding agrees_def
proof (intro allI impI)
  fix T :: "'x tirpc" and V :: "'x view" and x :: 'x and ob old :: 'o and rest :: bytes
  assume W: "xdr_writer T V" and R: "xdr_reader T V" and fit: "fits ob"
  show "\<exists>bs v. ser ob XdrBuffer_new = (Inr (), XdrBuffer_of bs) \<and>
        fst (des old (XdrBuffer_of (bs @ rest))) = Inr v \<and>
        (x_op T x = XDR_ENCODE \<and> length bs \<le> xdr_room V x \<longrightarrow>
           (\<exists>x'. filt T ob x = Fin (ob, True, x') \<and> xdr_out V x' = xdr_out V x @ bs)) \<and>
        (x_op T x = XDR_DECODE \<and> xdr_in V x = bs @ rest \<longrightarrow>
           (\<exists>x'. filt T old x = Fin (v, True, x') \<and> xdr_in V x' = rest))"
    using codec.pack_new [OF fits_ok [OF fit]] codec.unpack_of [OF fits_ok [OF fit], of old rest]
      filt_encode [OF W fit, of x] filt_gets [OF R fit, of old] unfolding fgets_def
    by (intro exI [of _ "enc ob"] exI [of _ "ovr old ob"]) (auto; blast)
qed

end

lemma tirpc_result_codec:
  assumes "tirpc_filter f (enc_res enc) (ok_res fits) ovr" and "xdr_codec ser des (enc_res enc) ovr (ok_res ok)"
    and "\<And>r. fits r \<Longrightarrow> ok r"
  shows "tirpc_codec f (enc_res enc) (ok_res fits) ovr ser des (ok_res ok)"
  using assms by (auto intro!: tirpc_codec.intro tirpc_codec_axioms.intro simp: ok_res_def split: option.splits)

interpretation GETATTR3res_agree: tirpc_codec
  xdr_GETATTR3res "enc_res enc_GETATTR3resok" "ok_res (\<lambda>_. True)" "ovr_res (\<lambda>ob. ob)"
  serialize_GETATTR3res deserialize_GETATTR3res "ok_res (\<lambda>_. True)"
  unfolding serialize_GETATTR3res_def deserialize_GETATTR3res_def
  by (rule tirpc_result_codec [OF GETATTR3res_tirpc.tirpc_filter_axioms GETATTR3resok_xdr.res.xdr_codec_axioms])
    simp

interpretation SETATTR3res_agree: tirpc_codec
  xdr_SETATTR3res "enc_res enc_SETATTR3resok" "ok_res (\<lambda>_. True)" "ovr_res (ovr_SETATTR3resok SETATTR3resok_init)"
  serialize_SETATTR3res deserialize_SETATTR3res "ok_res (\<lambda>_. True)"
  unfolding serialize_SETATTR3res_def deserialize_SETATTR3res_def
  by (rule tirpc_result_codec [OF SETATTR3res_tirpc.tirpc_filter_axioms SETATTR3resok_xdr.res.xdr_codec_axioms])
    simp

interpretation LOOKUP3res_agree: tirpc_codec
  xdr_LOOKUP3res "enc_res enc_LOOKUP3resok" "ok_res fits_LOOKUP3resok" "ovr_res (ovr_LOOKUP3resok LOOKUP3resok_init)"
  serialize_LOOKUP3res deserialize_LOOKUP3res "ok_res ok_LOOKUP3resok"
  unfolding serialize_LOOKUP3res_def deserialize_LOOKUP3res_def
  by (rule tirpc_result_codec [OF LOOKUP3res_tirpc.tirpc_filter_axioms LOOKUP3resok_xdr.res.xdr_codec_axioms])
    (simp add: fits_LOOKUP3resok_def ok_LOOKUP3resok_def fits_nfs_fh3_def ok_nfs_fh3_def c_name_def)

interpretation ACCESS3res_agree: tirpc_codec
  xdr_ACCESS3res "enc_res enc_ACCESS3resok" "ok_res (\<lambda>_. True)" "ovr_res (ovr_ACCESS3resok ACCESS3resok_init)"
  serialize_ACCESS3res deserialize_ACCESS3res "ok_res (\<lambda>_. True)"
  unfolding serialize_ACCESS3res_def deserialize_ACCESS3res_def
  by (rule tirpc_result_codec [OF ACCESS3res_tirpc.tirpc_filter_axioms ACCESS3resok_xdr.res.xdr_codec_axioms])
    simp

interpretation READLINK3res_agree: tirpc_codec
  xdr_READLINK3res "enc_res enc_READLINK3resok" "ok_res fits_READLINK3resok" "ovr_res (ovr_READLINK3resok READLINK3resok_init)"
  serialize_READLINK3res deserialize_READLINK3res "ok_res ok_READLINK3resok"
  unfolding serialize_READLINK3res_def deserialize_READLINK3res_def
  by (rule tirpc_result_codec [OF READLINK3res_tirpc.tirpc_filter_axioms READLINK3resok_xdr.res.xdr_codec_axioms])
    (simp add: fits_READLINK3resok_def ok_READLINK3resok_def fits_nfs_fh3_def ok_nfs_fh3_def c_name_def)

interpretation READ3res_agree: tirpc_codec
  xdr_READ3res "enc_res enc_READ3resok" "ok_res fits_READ3resok" "ovr_res (ovr_READ3resok READ3resok_init)"
  serialize_READ3res deserialize_READ3res "ok_res ok_READ3resok"
  unfolding serialize_READ3res_def deserialize_READ3res_def
  by (rule tirpc_result_codec [OF READ3res_tirpc.tirpc_filter_axioms READ3resok_xdr.res.xdr_codec_axioms])
    (simp add: fits_READ3resok_def ok_READ3resok_def fits_nfs_fh3_def ok_nfs_fh3_def c_name_def)

interpretation CREATE3res_agree: tirpc_codec
  xdr_CREATE3res "enc_res enc_CREATE3resok" "ok_res fits_CREATE3resok" "ovr_res (ovr_CREATE3resok CREATE3resok_init)"
  serialize_CREATE3res deserialize_CREATE3res "ok_res ok_CREATE3resok"
  unfolding serialize_CREATE3res_def deserialize_CREATE3res_def
  by (rule tirpc_result_codec [OF CREATE3res_tirpc.tirpc_filter_axioms CREATE3resok_xdr.res.xdr_codec_axioms])
    (simp add: fits_CREATE3resok_def ok_CREATE3resok_def fits_nfs_fh3_def ok_nfs_fh3_def c_name_def)

interpretation MKDIR3res_agree: tirpc_codec
  xdr_MKDIR3res "enc_res enc_MKDIR3resok" "ok_res fits_MKDIR3resok" "ovr_res (ovr_MKDIR3resok MKDIR3resok_init)"
  serialize_MKDIR3res deserialize_MKDIR3res "ok_res ok_MKDIR3resok"
  unfolding serialize_MKDIR3res_def deserialize_MKDIR3res_def
  by (rule tirpc_result_codec [OF MKDIR3res_tirpc.tirpc_filter_axioms MKDIR3resok_xdr.res.xdr_codec_axioms])
    (simp add: fits_MKDIR3resok_def ok_MKDIR3resok_def fits_nfs_fh3_def ok_nfs_fh3_def c_name_def)

interpretation SYMLINK3res_agree: tirpc_codec
  xdr_SYMLINK3res "enc_res enc_SYMLINK3resok" "ok_res fits_SYMLINK3resok" "ovr_res (ovr_SYMLINK3resok SYMLINK3resok_init)"
  serialize_SYMLINK3res deserialize_SYMLINK3res "ok_res ok_SYMLINK3resok"
  unfolding serialize_SYMLINK3res_def deserialize_SYMLINK3res_def
  by (rule tirpc_result_codec [OF SYMLINK3res_tirpc.tirpc_filter_axioms SYMLINK3resok_xdr.res.xdr_codec_axioms])
    (simp add: fits_SYMLINK3resok_def ok_SYMLINK3resok_def fits_nfs_fh3_def ok_nfs_fh3_def c_name_def)

interpretation MKNOD3res_agree: tirpc_codec
  xdr_MKNOD3res "enc_res enc_MKNOD3resok" "ok_res fits_MKNOD3resok" "ovr_res (ovr_MKNOD3resok MKNOD3resok_init)"
  serialize_MKNOD3res deserialize_MKNOD3res "ok_res ok_MKNOD3resok"
  unfolding serialize_MKNOD3res_def deserialize_MKNOD3res_def
  by (rule tirpc_result_codec [OF MKNOD3res_tirpc.tirpc_filter_axioms MKNOD3resok_xdr.res.xdr_codec_axioms])
    (simp add: fits_MKNOD3resok_def ok_MKNOD3resok_def fits_nfs_fh3_def ok_nfs_fh3_def c_name_def)

interpretation REMOVE3res_agree: tirpc_codec
  xdr_REMOVE3res "enc_res enc_REMOVE3resok" "ok_res (\<lambda>_. True)" "ovr_res (ovr_REMOVE3resok REMOVE3resok_init)"
  serialize_REMOVE3res deserialize_REMOVE3res "ok_res (\<lambda>_. True)"
  unfolding serialize_REMOVE3res_def deserialize_REMOVE3res_def
  by (rule tirpc_result_codec [OF REMOVE3res_tirpc.tirpc_filter_axioms REMOVE3resok_xdr.res.xdr_codec_axioms])
    simp

interpretation RMDIR3res_agree: tirpc_codec
  xdr_RMDIR3res "enc_res enc_RMDIR3resok" "ok_res (\<lambda>_. True)" "ovr_res (ovr_RMDIR3resok RMDIR3resok_init)"
  serialize_RMDIR3res deserialize_RMDIR3res "ok_res (\<lambda>_. True)"
  unfolding serialize_RMDIR3res_def deserialize_RMDIR3res_def
  by (rule tirpc_result_codec [OF RMDIR3res_tirpc.tirpc_filter_axioms RMDIR3resok_xdr.res.xdr_codec_axioms])
    simp

interpretation RENAME3res_agree: tirpc_codec
  xdr_RENAME3res "enc_res enc_RENAME3resok" "ok_res (\<lambda>_. True)" "ovr_res (ovr_RENAME3resok RENAME3resok_init)"
  serialize_RENAME3res deserialize_RENAME3res "ok_res (\<lambda>_. True)"
  unfolding serialize_RENAME3res_def deserialize_RENAME3res_def
  by (rule tirpc_result_codec [OF RENAME3res_tirpc.tirpc_filter_axioms RENAME3resok_xdr.res.xdr_codec_axioms])
    simp

interpretation LINK3res_agree: tirpc_codec
  xdr_LINK3res "enc_res enc_LINK3resok" "ok_res (\<lambda>_. True)" "ovr_res (ovr_LINK3resok LINK3resok_init)"
  serialize_LINK3res deserialize_LINK3res "ok_res (\<lambda>_. True)"
  unfolding serialize_LINK3res_def deserialize_LINK3res_def
  by (rule tirpc_result_codec [OF LINK3res_tirpc.tirpc_filter_axioms LINK3resok_xdr.res.xdr_codec_axioms])
    simp

interpretation FSSTAT3res_agree: tirpc_codec
  xdr_FSSTAT3res "enc_res enc_FSSTAT3resok" "ok_res (\<lambda>_. True)" "ovr_res (ovr_FSSTAT3resok FSSTAT3resok_init)"
  serialize_FSSTAT3res deserialize_FSSTAT3res "ok_res (\<lambda>_. True)"
  unfolding serialize_FSSTAT3res_def deserialize_FSSTAT3res_def
  by (rule tirpc_result_codec [OF FSSTAT3res_tirpc.tirpc_filter_axioms FSSTAT3resok_xdr.res.xdr_codec_axioms])
    simp

interpretation FSINFO3res_agree: tirpc_codec
  xdr_FSINFO3res "enc_res enc_FSINFO3resok" "ok_res (\<lambda>_. True)" "ovr_res (ovr_FSINFO3resok FSINFO3resok_init)"
  serialize_FSINFO3res deserialize_FSINFO3res "ok_res (\<lambda>_. True)"
  unfolding serialize_FSINFO3res_def deserialize_FSINFO3res_def
  by (rule tirpc_result_codec [OF FSINFO3res_tirpc.tirpc_filter_axioms FSINFO3resok_xdr.res.xdr_codec_axioms])
    simp

interpretation PATHCONF3res_agree: tirpc_codec
  xdr_PATHCONF3res "enc_res enc_PATHCONF3resok" "ok_res (\<lambda>_. True)" "ovr_res (ovr_PATHCONF3resok PATHCONF3resok_init)"
  serialize_PATHCONF3res deserialize_PATHCONF3res "ok_res (\<lambda>_. True)"
  unfolding serialize_PATHCONF3res_def deserialize_PATHCONF3res_def
  by (rule tirpc_result_codec [OF PATHCONF3res_tirpc.tirpc_filter_axioms PATHCONF3resok_xdr.res.xdr_codec_axioms])
    simp
section \<open>Properties\<close>

text \<open>Data on which the theorems are shown at work.\<close>

definition sample_handle :: nfs_fh3 where
  "sample_handle = \<lparr>nfs_fh3.data = [1, 2, 3, 4, 5]\<rparr>"

definition sample_lookup :: LOOKUP3res where
  "sample_lookup = \<lparr>status = NFS3_OK, resok = Some (LOOKUP3resok_init\<lparr>LOOKUP3resok.object := sample_handle\<rparr>)\<rparr>"

definition sample_listing :: READDIR3resok where
  "sample_listing = READDIR3resok_init\<lparr>READDIR3resok.reply :=
     \<lparr>dirlist3.entries = Some (Entry3 1 ''a'' 1 (Some (Entry3 2 ''bc'' 2 None))), dirlist3.eof = True\<rparr>\<rparr>"

lemmas sample_defs = sample_handle_def sample_lookup_def sample_listing_def

lemmas length_enc = enc_res_def enc_bool_def enc_opaque_def enc_string_def enc_optional_def
  enc_nfs_fh3_def enc_post_op_attr_def enc_LOOKUP3resok_def LOOKUP3resok_init_def
  READDIR3resok_init_def post_op_attr_init_def nfs_fh3_init_def dirlist3_init_def
  tenc_READDIR3resok_def enc_dirlist3_def pad4_def

lemma fits_sample [simp]:
  "fits_nfs_fh3 sample_handle"
  "ok_res fits_LOOKUP3resok sample_lookup"
  "ok_res fits_READDIR3resok \<lparr>status = NFS3_OK, resok = Some sample_listing\<rparr>"
  by (simp_all add: sample_defs fits_nfs_fh3_def fits_LOOKUP3resok_def fits_READDIR3resok_def
      fits_dirlist3_def ok_res_def c_name_def)

text \<open>
  C39: For the seventeen procedures whose results hold no verifier, the libtirpc filter and
  \<^verbatim>\<open>serialize\<close>/\<^verbatim>\<open>deserialize\<close> are the same codec: on results within the limits of the filter both
  write the same bytes, and from these bytes both read the same result.
\<close>

theorem tirpc_results_agree:
  "agrees xdr_GETATTR3res serialize_GETATTR3res deserialize_GETATTR3res (ok_res (\<lambda>_. True)) \<and>
     agrees xdr_SETATTR3res serialize_SETATTR3res deserialize_SETATTR3res (ok_res (\<lambda>_. True)) \<and>
     agrees xdr_LOOKUP3res serialize_LOOKUP3res deserialize_LOOKUP3res (ok_res fits_LOOKUP3resok) \<and>
     agrees xdr_ACCESS3res serialize_ACCESS3res deserialize_ACCESS3res (ok_res (\<lambda>_. True)) \<and>
     agrees xdr_READLINK3res serialize_READLINK3res deserialize_READLINK3res (ok_res fits_READLINK3resok) \<and>
     agrees xdr_READ3res serialize_READ3res deserialize_READ3res (ok_res fits_READ3resok) \<and>
     agrees xdr_CREATE3res serialize_CREATE3res deserialize_CREATE3res (ok_res fits_CREATE3resok) \<and>
     agrees xdr_MKDIR3res serialize_MKDIR3res deserialize_MKDIR3res (ok_res fits_MKDIR3resok) \<and>
     agrees xdr_SYMLINK3res serialize_SYMLINK3res deserialize_SYMLINK3res (ok_res fits_SYMLINK3resok) \<and>
     agrees xdr_MKNOD3res serialize_MKNOD3res deserialize_MKNOD3res (ok_res fits_MKNOD3resok) \<and>
     agrees xdr_REMOVE3res serialize_REMOVE3res deserialize_REMOVE3res (ok_res (\<lambda>_. True)) \<and>
     agrees xdr_RMDIR3res serialize_RMDIR3res deserialize_RMDIR3res (ok_res (\<lambda>_. True)) \<and>
     agrees xdr_RENAME3res serialize_RENAME3res deserialize_RENAME3res (ok_res (\<lambda>_. True)) \<and>
     agrees xdr_LINK3res serialize_LINK3res deserialize_LINK3res (ok_res (\<lambda>_. True)) \<and>
     agrees xdr_FSSTAT3res serialize_FSSTAT3res deserialize_FSSTAT3res (ok_res (\<lambda>_. True)) \<and>
     agrees xdr_FSINFO3res serialize_FSINFO3res deserialize_FSINFO3res (ok_res (\<lambda>_. True)) \<and>
     agrees xdr_PATHCONF3res serialize_PATHCONF3res deserialize_PATHCONF3res (ok_res (\<lambda>_. True))"
  by (intro conjI
      GETATTR3res_agree.filt_agrees
      SETATTR3res_agree.filt_agrees
      LOOKUP3res_agree.filt_agrees
      ACCESS3res_agree.filt_agrees
      READLINK3res_agree.filt_agrees
      READ3res_agree.filt_agrees
      CREATE3res_agree.filt_agrees
      MKDIR3res_agree.filt_agrees
      SYMLINK3res_agree.filt_agrees
      MKNOD3res_agree.filt_agrees
      REMOVE3res_agree.filt_agrees
      RMDIR3res_agree.filt_agrees
      RENAME3res_agree.filt_agrees
      LINK3res_agree.filt_agrees
      FSSTAT3res_agree.filt_agrees
      FSINFO3res_agree.filt_agrees
      PATHCONF3res_agree.filt_agrees)

theorem tirpc_results_agree_witness:
  "\<exists>bs x'. serialize_LOOKUP3res sample_lookup XdrBuffer_new = (Inr (), XdrBuffer_of bs) \<and>
     xdr_LOOKUP3res mem_tirpc sample_lookup (encoder 100) = Fin (sample_lookup, True, x') \<and> m_out x' = bs"
proof -
  have "agrees (xdr_LOOKUP3res :: mem_stream tirpc \<Rightarrow> _) serialize_LOOKUP3res deserialize_LOOKUP3res
      (ok_res fits_LOOKUP3resok)"
    using tirpc_results_agree by blast
  then obtain bs where bs: "serialize_LOOKUP3res sample_lookup XdrBuffer_new = (Inr (), XdrBuffer_of bs)"
    and room: "length bs \<le> 100 \<Longrightarrow> \<exists>x'. xdr_LOOKUP3res mem_tirpc sample_lookup (encoder 100) =
      Fin (sample_lookup, True, x') \<and> m_out x' = bs"
    unfolding agrees_def using mem_writer mem_reader fits_sample(2)
    by (elim allE [of _ mem_tirpc] allE [of _ mem_view] allE [of _ sample_lookup]
        allE [of _ "encoder 100"] allE [of _ "[]"]) (auto simp: encoder_def)
  from LOOKUP3res_agree.codec.pack_new [OF LOOKUP3res_agree.fits_ok [OF fits_sample(2)]] bs
  have "bs = enc_res enc_LOOKUP3resok sample_lookup" by (simp add: XdrBuffer_of_def)
  then have "length bs \<le> 100" by (simp add: sample_defs length_enc)
  with bs room show ?thesis by blast
qed

text \<open>
  C40: Decoding a result with its filter returns, whatever the bytes of the reply are: no
  exception, no undefined behaviour, no endless loop over the entries of a listing; the
  stream stays a decoder and never gives input back.
\<close>

theorem tirpc_replies_return:
  assumes "xdr_reader T V"
  shows "fsafe T V (xdr_GETATTR3res T) \<and>
     fsafe T V (xdr_SETATTR3res T) \<and>
     fsafe T V (xdr_LOOKUP3res T) \<and>
     fsafe T V (xdr_ACCESS3res T) \<and>
     fsafe T V (xdr_READLINK3res T) \<and>
     fsafe T V (xdr_READ3res T) \<and>
     fsafe T V (xdr_WRITE3res ind T) \<and>
     fsafe T V (xdr_CREATE3res T) \<and>
     fsafe T V (xdr_MKDIR3res T) \<and>
     fsafe T V (xdr_SYMLINK3res T) \<and>
     fsafe T V (xdr_MKNOD3res T) \<and>
     fsafe T V (xdr_REMOVE3res T) \<and>
     fsafe T V (xdr_RMDIR3res T) \<and>
     fsafe T V (xdr_RENAME3res T) \<and>
     fsafe T V (xdr_LINK3res T) \<and>
     fsafe T V (xdr_READDIR3res T) \<and>
     fsafe T V (xdr_READDIRPLUS3res T) \<and>
     fsafe T V (xdr_FSSTAT3res T) \<and>
     fsafe T V (xdr_FSINFO3res T) \<and>
     fsafe T V (xdr_PATHCONF3res T) \<and>
     fsafe T V (xdr_COMMIT3res ind T)"
  using assms by (intro conjI
      GETATTR3res_tirpc.filt_safe
      SETATTR3res_tirpc.filt_safe
      LOOKUP3res_tirpc.filt_safe
      ACCESS3res_tirpc.filt_safe
      READLINK3res_tirpc.filt_safe
      READ3res_tirpc.filt_safe
      WRITE3res_tirpc.filt_safe
      CREATE3res_tirpc.filt_safe
      MKDIR3res_tirpc.filt_safe
      SYMLINK3res_tirpc.filt_safe
      MKNOD3res_tirpc.filt_safe
      REMOVE3res_tirpc.filt_safe
      RMDIR3res_tirpc.filt_safe
      RENAME3res_tirpc.filt_safe
      LINK3res_tirpc.filt_safe
      READDIR3res_tirpc.filt_safe
      READDIRPLUS3res_tirpc.filt_safe
      FSSTAT3res_tirpc.filt_safe
      FSINFO3res_tirpc.filt_safe
      PATHCONF3res_tirpc.filt_safe
      COMMIT3res_tirpc.filt_safe)

theorem tirpc_replies_return_witness:
  "\<exists>v b x'. xdr_READDIRPLUS3res mem_tirpc \<lparr>status = NFS3_OK, resok = None\<rparr>
     (decoder [0, 0, 0, 0, 0, 0, 0, 0, 255, 255, 255]) = Fin (v, b, x')"
proof -
  have "fsafe mem_tirpc mem_view (xdr_READDIRPLUS3res mem_tirpc)"
    using tirpc_replies_return [OF mem_reader] by blast
  then show ?thesis
    by (rule fsafeE [where x = "decoder [0, 0, 0, 0, 0, 0, 0, 0, 255, 255, 255]"
          and ob = "\<lparr>status = NFS3_OK, resok = None\<rparr>"])
      (auto simp: decoder_def)
qed

text \<open>
  A directory listing that is encoded and decoded again comes back without its entries: the
  filter reads all of them, keeps only the flag at the end of the list, and succeeds.
\<close>

theorem tirpc_readdir_loses_entries:
  assumes "xdr_writer T V" and "xdr_reader T V"
    and "ok_res fits_READDIR3resok ob" and "status ob = NFS3_OK" and "resok ob = Some r"
    and "x_op T x = XDR_ENCODE" and "xdr_out V x = []"
    and "length (enc_res tenc_READDIR3resok ob) \<le> xdr_room V x"
  shows "\<exists>x'. xdr_READDIR3res T ob x = Fin (ob, True, x') \<and>
     (\<forall>y old rest. x_op T y = XDR_DECODE \<longrightarrow> xdr_in V y = xdr_out V x' @ rest \<longrightarrow>
       (\<exists>v r' y'. xdr_READDIR3res T old y = Fin (v, True, y') \<and> xdr_in V y' = rest \<and>
          resok v = Some r' \<and>
          READDIR3resok.reply r' = \<lparr>dirlist3.entries = None, dirlist3.eof = dirlist3.eof (READDIR3resok.reply r)\<rparr>))"
proof -
  from READDIR3res_tirpc.filt_encode [OF assms(1,3,6,8)] assms(7) obtain x'
    where enc: "xdr_READDIR3res T ob x = Fin (ob, True, x')"
      and out: "xdr_out V x' = enc_res tenc_READDIR3resok ob" by auto
  have "\<exists>y'. xdr_READDIR3res T old y =
        Fin (ovr_res (lost_READDIR3resok READDIR3resok_init) old ob, True, y') \<and> xdr_in V y' = rest"
    if "x_op T y = XDR_DECODE" "xdr_in V y = xdr_out V x' @ rest" for y old rest
    using fgetsE [OF READDIR3res_tirpc.filt_gets [OF assms(2,3)] that(1)] that(2) out by metis
  with enc assms(4,5) show ?thesis
    by (fastforce simp: ovr_res_def lost_READDIR3resok_def lost_dirlist3_def)
qed

theorem tirpc_readdir_loses_entries_witness:
  "\<exists>x' v r' y'. xdr_READDIR3res mem_tirpc \<lparr>status = NFS3_OK, resok = Some sample_listing\<rparr> (encoder 200) =
       Fin (\<lparr>status = NFS3_OK, resok = Some sample_listing\<rparr>, True, x') \<and>
     xdr_READDIR3res mem_tirpc \<lparr>status = 0, resok = None\<rparr> (decoder (m_out x')) = Fin (v, True, y') \<and>
     m_in y' = [] \<and> resok v = Some r' \<and>
     READDIR3resok.reply r' = \<lparr>dirlist3.entries = None, dirlist3.eof = True\<rparr>"
proof -
  let ?ob = "\<lparr>status = NFS3_OK, resok = Some sample_listing\<rparr>"
  have len: "length (enc_res tenc_READDIR3resok ?ob) \<le> 200" by (simp add: sample_defs length_enc)
  have eof: "dirlist3.eof (READDIR3resok.reply sample_listing) = True" by (simp add: sample_listing_def)
  from tirpc_readdir_loses_entries [OF mem_writer mem_reader fits_sample(3), of sample_listing "encoder 200"] len
  obtain x' where x': "xdr_READDIR3res mem_tirpc ?ob (encoder 200) = Fin (?ob, True, x')"
    and all: "\<forall>y old rest. m_op y = XDR_DECODE \<longrightarrow> m_in y = m_out x' @ rest \<longrightarrow>
       (\<exists>v r' y'. xdr_READDIR3res mem_tirpc old y = Fin (v, True, y') \<and> m_in y' = rest \<and>
          resok v = Some r' \<and> READDIR3resok.reply r' = \<lparr>dirlist3.entries = None, dirlist3.eof = True\<rparr>)"
    by (auto simp: encoder_def eof)
  from all [rule_format, of "decoder (m_out x')" "[]"] x' show ?thesis
    by (simp add: decoder_def)
qed

section \<open>Filters that cannot decode\<close>

text \<open>\<open>undecodable T V f enc fits\<close>: \<open>f\<close> never decodes anything successfully, and has undefined
  behaviour on every well-formed input.\<close>

definition fundef :: "'x tirpc \<Rightarrow> 'x view \<Rightarrow> ('o, 'x) filt \<Rightarrow> 'o \<Rightarrow> bytes \<Rightarrow> bool" where
  "fundef T V f old bs \<longleftrightarrow> (\<forall>x rest. x_op T x = XDR_DECODE \<longrightarrow> xdr_in V x = bs @ rest \<longrightarrow> f old x = Undef)"

definition fnever :: "'x tirpc \<Rightarrow> ('o, 'x) filt \<Rightarrow> bool" where
  "fnever T f \<longleftrightarrow> (\<forall>old x v x'. x_op T x = XDR_DECODE \<longrightarrow> f old x \<noteq> Fin (v, True, x'))"

definition undecodable ::
  "'x tirpc \<Rightarrow> 'x view \<Rightarrow> ('o, 'x) filt \<Rightarrow> ('o \<Rightarrow> bytes) \<Rightarrow> ('o \<Rightarrow> bool) \<Rightarrow> bool" where
  "undecodable T V f enc fits \<longleftrightarrow> fnever T f \<and> (\<forall>ob old. fits ob \<longrightarrow> fundef T V f old (enc ob))"

lemma fundef_ffld: "fundef T V f (get old) bs \<Longrightarrow> fundef T V (ffld get upd f) old bs"
  by (simp add: fundef_def ffld_def)

lemma fundef_here:
  assumes "fundef T V f old bs"
  shows "fundef T V (fseq (f # fs)) old (bs @ bs')"
  using assms by (simp add: fundef_def)

lemma fundef_last: "fundef T V f old bs \<Longrightarrow> fundef T V (fseq [f]) old bs"
  by (simp add: fundef_def)

lemma fundef_later:
  assumes f: "fgets T V f old bs y" and g: "fundef T V (fseq fs) y bs'"
  shows "fundef T V (fseq (f # fs)) old (bs @ bs')"
  unfolding fundef_def
proof (intro allI impI)
  fix x rest assume x: "x_op T x = XDR_DECODE" and "xdr_in V x = (bs @ bs') @ rest"
  then have "xdr_in V x = bs @ bs' @ rest" by simp
  with f x show "fseq (f # fs) old x = Undef"
    by (cases rule: fgetsE) (use g in \<open>auto simp: fundef_def\<close>)
qed

lemma fnever_ffld:
  assumes "fnever T f"
  shows "fnever T (ffld get upd f)"
  unfolding fnever_def
proof (intro allI impI)
  fix old x v x' assume "x_op T x = XDR_DECODE"
  with assms show "ffld get upd f old x \<noteq> Fin (v, True, x')"
    by (cases "f (get old) x") (auto simp: ffld_def fnever_def)
qed

lemma fnever_here:
  assumes "fnever T f"
  shows "fnever T (fseq (f # fs))"
  unfolding fnever_def
proof (intro allI impI)
  fix old x v x' assume "x_op T x = XDR_DECODE"
  with assms show "fseq (f # fs) old x \<noteq> Fin (v, True, x')"
    by (cases "f old x") (auto simp: fnever_def split: if_splits)
qed

lemma fnever_later:
  assumes f: "fsafe T V f" and fs: "fnever T (fseq fs)"
  shows "fnever T (fseq (f # fs))"
  unfolding fnever_def
proof (intro allI impI)
  fix old x v x' assume x: "x_op T x = XDR_DECODE"
  show "fseq (f # fs) old x \<noteq> Fin (v, True, x')"
  proof (rule fsafeE [OF f x, of old])
    fix ob' b x1 assume 1: "f old x = Fin (ob', b, x1)" "stays T V x x1"
    from fs stays_op [OF 1(2)] have "fseq fs ob' x1 \<noteq> Fin (v, True, x')" by (simp add: fnever_def)
    with 1(1) show ?thesis by (cases b) simp_all
  qed
qed

lemma name_in_place_decode:
  assumes R: "xdr_reader T V" and x: "x_op T x = XDR_DECODE" and lim: "lim < UINT32_MAX"
  shows "xdr_in V x = enc_opaque d @ rest \<Longrightarrow> length d \<le> lim \<Longrightarrow> name_in_place T lim s x = Undef"
    and "\<exists>s' x'. name_in_place T lim s x \<in> {Undef, Fin (s', False, x')}"
proof -
  have never: "fbind (lent XDR_DECODE m p) (\<lambda>_. fbind (string_free p) k) = Undef"
    if "p = into (c_str s) d" for m p d and k :: "string \<Rightarrow> (string \<times> bool \<times> 'a) fres"
    using that by (simp add: lent_def c_str_def string_free_def)
  show "name_in_place T lim s x = Undef" if "xdr_in V x = enc_opaque d @ rest" "length d \<le> lim"
  proof -
    from stringD(1) [OF R x lim that(2), of "replicate (pad4 (length d)) 0" "c_str s"]
    have "takes T V x (enc_opaque d) (into (c_str s) (d @ [0])) (xdr_string T lim (c_str s) x)"
      by (simp add: enc_opaque_wire)
    then show ?thesis
      by (rule takesE [OF _ that(1)]) (simp add: name_in_place_def x never [OF refl])
  qed
  from stringD(2) [OF R x lim, of "c_str s"]
  show "\<exists>s' x'. name_in_place T lim s x \<in> {Undef, Fin (s', False, x')}"
  proof (cases rule: any_inputE)
    case (1 b p x')
    show ?thesis
    proof (cases b)
      case True
      with 1 obtain d where "p = into (c_str s) (d @ [0])" by auto
      with 1 True never [OF this] stays_op [OF 1(2)] show ?thesis by (simp add: name_in_place_def x)
    next
      case False
      have "lent XDR_DECODE (map byte_of_char s @ [0]) p = Undef \<or>
          (\<exists>m. lent XDR_DECODE (map byte_of_char s @ [0]) p = Fin m)"
        by (cases p) (simp_all add: lent_def)
      with 1(1) False show ?thesis by (auto simp: name_in_place_def x)
    qed
  qed
qed

lemma fundef_name:
  "xdr_reader T V \<Longrightarrow> c_name lim s \<Longrightarrow> lim < UINT32_MAX \<Longrightarrow>
   fundef T V (name_in_place T lim) old (enc_string s)"
  using name_in_place_decode(1) [of T V _ lim "map byte_of_char s" _ old]
  by (simp add: fundef_def enc_string_def c_name_def)

lemma fnever_name:
  assumes "xdr_reader T V" and "lim < UINT32_MAX"
  shows "fnever T (name_in_place T lim)"
  unfolding fnever_def
proof (intro allI impI)
  fix old x v x' assume "x_op T x = XDR_DECODE"
  from name_in_place_decode(2) [OF assms(1) this assms(2), of old]
  show "name_in_place T lim old x \<noteq> Fin (v, True, x')" by auto
qed

text \<open>Arguments whose second member is a name: the handle is read, the name is not.\<close>

lemma handle_name_undecodable:
  assumes R: "xdr_reader T V"
    and f: "f = fseq (ffld get_h upd_h (xdr_nfs_fh3 T) # ffld get_n upd_n (name_in_place T lim) # fs)"
    and lim: "lim < UINT32_MAX"
    and enc: "\<And>ob. fits ob \<Longrightarrow> fits_nfs_fh3 (get_h ob) \<and> c_name lim (get_n ob) \<and>
      (\<exists>bs. enc ob = enc_nfs_fh3 (get_h ob) @ enc_string (get_n ob) @ bs)"
  shows "undecodable T V f enc fits"
  unfolding undecodable_def
proof (intro conjI allI impI)
  show "fnever T f" unfolding f
    by (rule fnever_later [OF fsafe_ffld [OF nfs_fh3_tirpc.filt_safe [OF R]]
        fnever_here [OF fnever_ffld [OF fnever_name [OF R lim]]]])
  fix ob old assume "fits ob"
  with enc obtain bs where ob: "enc ob = enc_nfs_fh3 (get_h ob) @ enc_string (get_n ob) @ bs"
    "fits_nfs_fh3 (get_h ob)" "c_name lim (get_n ob)" by blast
  show "fundef T V f old (enc ob)" unfolding f ob(1)
    by (rule fundef_later [OF fgets_ffld [OF nfs_fh3_tirpc.filt_gets [OF R ob(2)]]
        fundef_here [OF fundef_ffld [OF fundef_name [OF R ob(3) lim]]]])
qed

text \<open>
  The filters for arguments that hold a name cannot decode. They hand \<^verbatim>\<open>c_str()\<close> to the library
  as the buffer for the name and free it afterwards: well-formed arguments lead to undefined
  behaviour, and no input whatever is decoded successfully.
\<close>

theorem tirpc_names_undecodable:
  assumes R: "xdr_reader T V"
  shows "undecodable T V (xdr_LOOKUP3args T) enc_LOOKUP3args fits_LOOKUP3args \<and>
     undecodable T V (xdr_CREATE3args T) tenc_CREATE3args fits_CREATE3args \<and>
     undecodable T V (xdr_MKDIR3args T) tenc_MKDIR3args fits_MKDIR3args \<and>
     undecodable T V (xdr_SYMLINK3args T) tenc_SYMLINK3args fits_SYMLINK3args \<and>
     undecodable T V (xdr_MKNOD3args T) tenc_MKNOD3args fits_MKNOD3args \<and>
     undecodable T V (xdr_REMOVE3args T) enc_REMOVE3args fits_REMOVE3args \<and>
     undecodable T V (xdr_RMDIR3args T) enc_RMDIR3args fits_RMDIR3args \<and>
     undecodable T V (xdr_RENAME3args T) enc_RENAME3args fits_RENAME3args \<and>
     undecodable T V (xdr_LINK3args T) enc_LINK3args fits_LINK3args"
proof -
  note undec = handle_name_undecodable [OF R, where lim = 255]
  have LINK: "undecodable T V (xdr_LINK3args T) enc_LINK3args fits_LINK3args"
    unfolding undecodable_def xdr_LINK3args_def enc_LINK3args_def
  proof (intro conjI allI impI)
    show "fnever T (fseq [ffld LINK3args.file3 LINK3args.file3_update (xdr_nfs_fh3 T),
        ffld link_dir link_dir_update (xdr_nfs_fh3 T),
        ffld link_name link_name_update (name_in_place T 255)])"
      by (rule fnever_later [OF fsafe_ffld] fnever_here [OF fnever_ffld] nfs_fh3_tirpc.filt_safe
          fnever_name R | simp)+
    show "fundef T V (fseq [ffld LINK3args.file3 LINK3args.file3_update (xdr_nfs_fh3 T),
        ffld link_dir link_dir_update (xdr_nfs_fh3 T),
        ffld link_name link_name_update (name_in_place T 255)]) old
        (enc_nfs_fh3 (LINK3args.file3 ob) @ enc_nfs_fh3 (link_dir ob) @ enc_string (link_name ob))"
      if "fits_LINK3args ob" for ob old
      using that unfolding fits_LINK3args_def
      by - (rule fundef_later [OF fgets_ffld] fundef_last fundef_ffld nfs_fh3_tirpc.filt_gets
          fundef_name R | simp; fail)+
  qed
  have LOOKUP: "undecodable T V (xdr_LOOKUP3args T) enc_LOOKUP3args fits_LOOKUP3args"
    by (rule undec [OF xdr_LOOKUP3args_def]) (simp_all add: enc_LOOKUP3args_def fits_LOOKUP3args_def)
  have CREATE: "undecodable T V (xdr_CREATE3args T) tenc_CREATE3args fits_CREATE3args"
    by (rule undec [OF xdr_CREATE3args_def]) (simp_all add: tenc_CREATE3args_def fits_CREATE3args_def)
  have MKDIR: "undecodable T V (xdr_MKDIR3args T) tenc_MKDIR3args fits_MKDIR3args"
    by (rule undec [OF xdr_MKDIR3args_def]) (simp_all add: tenc_MKDIR3args_def fits_MKDIR3args_def)
  have SYMLINK: "undecodable T V (xdr_SYMLINK3args T) tenc_SYMLINK3args fits_SYMLINK3args"
    by (rule undec [OF xdr_SYMLINK3args_def]) (simp_all add: tenc_SYMLINK3args_def fits_SYMLINK3args_def)
  have MKNOD: "undecodable T V (xdr_MKNOD3args T) tenc_MKNOD3args fits_MKNOD3args"
    by (rule undec [OF xdr_MKNOD3args_def]) (simp_all add: tenc_MKNOD3args_def fits_MKNOD3args_def)
  have REMOVE: "undecodable T V (xdr_REMOVE3args T) enc_REMOVE3args fits_REMOVE3args"
    by (rule undec [OF xdr_REMOVE3args_def]) (simp_all add: enc_REMOVE3args_def fits_REMOVE3args_def)
  have RMDIR: "undecodable T V (xdr_RMDIR3args T) enc_RMDIR3args fits_RMDIR3args"
    by (rule undec [OF xdr_RMDIR3args_def]) (simp_all add: enc_RMDIR3args_def fits_RMDIR3args_def)
  have RENAME: "undecodable T V (xdr_RENAME3args T) enc_RENAME3args fits_RENAME3args"
    by (rule undec [OF xdr_RENAME3args_def]) (simp_all add: enc_RENAME3args_def fits_RENAME3args_def)
  show ?thesis by (intro conjI LOOKUP CREATE MKDIR SYMLINK MKNOD REMOVE RMDIR RENAME LINK)
qed

theorem tirpc_names_undecodable_witness:
  "xdr_LOOKUP3args mem_tirpc LOOKUP3args_init (decoder (enc_LOOKUP3args
     \<lparr>LOOKUP3args.what_dir = sample_handle, LOOKUP3args.what_name = ''a''\<rparr>)) = Undef"
proof -
  have "undecodable mem_tirpc mem_view (xdr_LOOKUP3args mem_tirpc) enc_LOOKUP3args fits_LOOKUP3args"
    using tirpc_names_undecodable [OF mem_reader] by blast
  moreover have "fits_LOOKUP3args \<lparr>LOOKUP3args.what_dir = sample_handle, LOOKUP3args.what_name = ''a''\<rparr>"
    by (simp add: fits_LOOKUP3args_def c_name_def)
  ultimately show ?thesis by (simp add: undecodable_def fundef_def decoder_def)
qed

lemma status_encode:
  assumes "xdr_writer T V" and "x_op T x = XDR_ENCODE" and "4 \<le> xdr_room V x" and "status ob = NFS3_OK"
  obtains x1 where "put T V x (be32 NFS3_OK) x1" and "\<And>body. xdr_status T body ob x = body ob x1"
proof -
  have "fputs T V (ffld status status_update (enum_member T)) ob (be32 NFS3_OK)"
    using fputs_enum [OF assms(1), of NFS3_OK] assms(4) by (intro fputs_ffld) simp_all
  from this assms(2) show thesis
  proof (cases rule: fputsE)
    case (room x1)
    have "xdr_status T body ob x = fseq [fwhen (\<lambda>ob. status ob = NFS3_OK) body] ob x1" for body
      unfolding xdr_status_def by (subst fseq.simps) (simp add: room(2))
    with room(3) assms(4) show thesis by (intro that) (simp_all add: fseq_single fwhen_def del: fseq.simps)
  next
    case full
    with assms(3) show thesis by simp
  qed
qed

text \<open>
  An \<^verbatim>\<open>NFS3_OK\<close> result without a \<^verbatim>\<open>resok\<close> is encoded in three ways: GETATTR throws
  \<^verbatim>\<open>std::bad_optional_access\<close> after the status has gone out, LOOKUP sends a result made of initial
  values as if it were the server's, READDIR returns \<^verbatim>\<open>FALSE\<close> with the status sent.
\<close>

theorem tirpc_missing_resok:
  assumes W: "xdr_writer T V" and x: "x_op T x = XDR_ENCODE"
    and room: "4 + length (enc_LOOKUP3resok LOOKUP3resok_init) \<le> xdr_room V x"
  shows "xdr_GETATTR3res T \<lparr>status = NFS3_OK, resok = None\<rparr> x = Thrown \<and>
     (\<exists>x'. xdr_LOOKUP3res T \<lparr>status = NFS3_OK, resok = None\<rparr> x =
             Fin (\<lparr>status = NFS3_OK, resok = None\<rparr>, True, x') \<and>
           xdr_out V x' = xdr_out V x @ enc_res enc_LOOKUP3resok
             \<lparr>status = NFS3_OK, resok = Some LOOKUP3resok_init\<rparr>) \<and>
     (\<exists>x'. xdr_READDIR3res T \<lparr>status = NFS3_OK, resok = None\<rparr> x =
             Fin (\<lparr>status = NFS3_OK, resok = None\<rparr>, False, x') \<and>
           xdr_out V x' = xdr_out V x @ be32 NFS3_OK)"
proof (intro conjI)
  from room have room4: "4 \<le> xdr_room V x" by simp
  show "xdr_GETATTR3res T \<lparr>status = NFS3_OK, resok = None\<rparr> x = Thrown"
    by (rule status_encode [OF W x room4, of "\<lparr>status = NFS3_OK, resok = None\<rparr> :: GETATTR3res"])
      (simp_all add: xdr_GETATTR3res_def xdr_result_def resok_body_def put_op)
  show "\<exists>x'. xdr_READDIR3res T \<lparr>status = NFS3_OK, resok = None\<rparr> x =
        Fin (\<lparr>status = NFS3_OK, resok = None\<rparr>, False, x') \<and> xdr_out V x' = xdr_out V x @ be32 NFS3_OK"
    by (rule status_encode [OF W x room4, of "\<lparr>status = NFS3_OK, resok = None\<rparr> :: READDIR3res"])
      (auto simp: xdr_READDIR3res_def xdr_listing_def listing_body_def put_def)
  have init: "fits_LOOKUP3resok LOOKUP3resok_init"
    by (simp add: fits_LOOKUP3resok_def LOOKUP3resok_init_def fits_nfs_fh3_def nfs_fh3_init_def)
  obtain x1 where x1: "put T V x (be32 NFS3_OK) x1"
    "\<And>body :: (LOOKUP3res, _) filt.
       xdr_status T body \<lparr>status = NFS3_OK, resok = None\<rparr> x = body \<lparr>status = NFS3_OK, resok = None\<rparr> x1"
    using status_encode [OF W x room4, of "\<lparr>status = NFS3_OK, resok = None\<rparr> :: LOOKUP3res"] by auto
  from room x1(1) have "length (enc_LOOKUP3resok LOOKUP3resok_init) \<le> xdr_room V x1"
    by (simp add: put_def)
  from LOOKUP3resok_tirpc.filt_puts [OF W init] put_op [OF x1(1)]
  show "\<exists>x'. xdr_LOOKUP3res T \<lparr>status = NFS3_OK, resok = None\<rparr> x =
        Fin (\<lparr>status = NFS3_OK, resok = None\<rparr>, True, x') \<and>
      xdr_out V x' = xdr_out V x @ enc_res enc_LOOKUP3resok
        \<lparr>status = NFS3_OK, resok = Some LOOKUP3resok_init\<rparr>"
    by (cases rule: fputsE)
      (use \<open>length _ \<le> _\<close> x1 in \<open>auto simp: xdr_LOOKUP3res_def xdr_result_def resok_body_def
        enc_res_def put_def\<close>)
qed

theorem tirpc_missing_resok_witness:
  "xdr_GETATTR3res mem_tirpc \<lparr>status = NFS3_OK, resok = None\<rparr> (encoder 100) = Thrown \<and>
   (\<exists>x'. xdr_LOOKUP3res mem_tirpc \<lparr>status = NFS3_OK, resok = None\<rparr> (encoder 100) =
      Fin (\<lparr>status = NFS3_OK, resok = None\<rparr>, True, x') \<and> m_out x' = [0, 0, 0, 0, 0, 0, 0, 0, 0, 0, 0, 0, 0, 0, 0, 0]) \<and>
   (\<exists>x'. xdr_READDIR3res mem_tirpc \<lparr>status = NFS3_OK, resok = None\<rparr> (encoder 100) =
      Fin (\<lparr>status = NFS3_OK, resok = None\<rparr>, False, x') \<and> m_out x' = [0, 0, 0, 0])"
proof -
  have "be32 NFS3_OK = [0, 0, 0, 0]" by (simp add: be32_def NFS3_OK_def)
  moreover have "enc_res enc_LOOKUP3resok \<lparr>status = NFS3_OK, resok = Some LOOKUP3resok_init\<rparr> = [0, 0, 0, 0, 0, 0, 0, 0, 0, 0, 0, 0, 0, 0, 0, 0]"
    by (simp add: length_enc be32_def NFS3_OK_def)
  moreover have "4 + length (enc_LOOKUP3resok LOOKUP3resok_init) \<le> 100" by (simp add: length_enc)
  ultimately show ?thesis
    using tirpc_missing_resok [OF mem_writer, of "encoder 100"] by (simp add: encoder_def)
qed

text \<open>
  The filters refuse a file handle of more than 64 bytes, the limit of RFC 1813, in both
  directions; an object that was to be read into is left as it was.
\<close>

theorem tirpc_handle_limit:
  assumes "xdr_writer T V" and "xdr_reader T V"
    and "64 < length (nfs_fh3.data fh)" and "length (nfs_fh3.data fh) \<le> UINT32_MAX"
  shows "(x_op T x = XDR_ENCODE \<longrightarrow> (\<exists>x'. xdr_nfs_fh3 T fh x = Fin (fh, False, x'))) \<and>
     (x_op T x = XDR_DECODE \<longrightarrow> xdr_in V x = enc_nfs_fh3 fh @ rest \<longrightarrow>
        (\<exists>x'. xdr_nfs_fh3 T old x = Fin (old, False, x')))"
proof (intro conjI impI)
  let ?d = "nfs_fh3.data fh"
  from assms(3,4) have big: "64 < unat (vector_size ?d)"
    by (simp add: vector_size_def unat_of_length)
  show "\<exists>x'. xdr_nfs_fh3 T fh x = Fin (fh, False, x')" if "x_op T x = XDR_ENCODE"
    using writerD(6) [OF assms(1) that big, of "vector_data ?d"]
    by (cases "xdr_bytes T 64 (vector_data ?d) (vector_size ?d) x") (simp add: xdr_nfs_fh3_def that)
  show "\<exists>x'. xdr_nfs_fh3 T old x = Fin (old, False, x')"
    if x: "x_op T x = XDR_DECODE" and "xdr_in V x = enc_nfs_fh3 fh @ rest"
  proof -
    from that(2) have "xdr_in V x = be32 (vector_size ?d) @ ?d @ replicate (pad4 (length ?d)) 0 @ rest"
      by (simp add: enc_nfs_fh3_def enc_opaque_wire)
    from bytesD(2) [OF assms(2) x this big, of Nullptr 0] show ?thesis
      by (cases "xdr_bytes T 64 Nullptr 0 x") (simp add: xdr_nfs_fh3_def x)
  qed
qed

theorem tirpc_handle_limit_witness:
  "(\<exists>x'. xdr_nfs_fh3 mem_tirpc \<lparr>nfs_fh3.data = replicate 65 7\<rparr> (encoder 100) =
      Fin (\<lparr>nfs_fh3.data = replicate 65 7\<rparr>, False, x')) \<and>
   (\<exists>x'. xdr_nfs_fh3 mem_tirpc sample_handle (decoder (enc_nfs_fh3 \<lparr>nfs_fh3.data = replicate 65 7\<rparr>)) =
      Fin (sample_handle, False, x'))"
  using tirpc_handle_limit [OF mem_writer mem_reader, of "\<lparr>nfs_fh3.data = replicate 65 7\<rparr>" "encoder 100"]
    tirpc_handle_limit [OF mem_writer mem_reader, of "\<lparr>nfs_fh3.data = replicate 65 7\<rparr>"
      "decoder (enc_nfs_fh3 \<lparr>nfs_fh3.data = replicate 65 7\<rparr>)" "[]" sample_handle]
  by (simp add: encoder_def decoder_def)

lemma fgets_bytes_in_place_empty:
  assumes "xdr_reader T V" and "length d \<le> lim" and "lim \<le> UINT32_MAX"
  shows "fgets T V (bytes_in_place T lim) [] (enc_opaque d) []"
  unfolding fgets_def
proof (intro allI impI)
  fix x rest assume x: "x_op T x = XDR_DECODE" "xdr_in V x = enc_opaque d @ rest"
  show "\<exists>x'. bytes_in_place T lim [] x = Fin ([], True, x') \<and> x_op T x' = XDR_DECODE \<and> xdr_in V x' = rest"
    by (rule takes_bytes [OF assms(1) x(1) assms(2,3) x(2), of "vector_data []" "vector_size []"])
      (simp add: bytes_in_place_def vector_data_def lent_def x(1))
qed

lemma fundef_bytes_in_place:
  assumes "xdr_reader T V" and "length d \<le> lim" and "lim \<le> UINT32_MAX"
    and "m \<noteq> []" and "length m < length d"
  shows "fundef T V (bytes_in_place T lim) m (enc_opaque d)"
  unfolding fundef_def
proof (intro allI impI)
  fix x rest assume x: "x_op T x = XDR_DECODE" "xdr_in V x = enc_opaque d @ rest"
  from assms(5) have "d \<noteq> []" by auto
  show "bytes_in_place T lim m x = Undef"
    by (rule takes_bytes [OF assms(1) x(1) assms(2,3) x(2), of "vector_data m" "vector_size m"])
      (use assms(4,5) \<open>d \<noteq> []\<close> in \<open>simp add: bytes_in_place_def vector_data_def lent_def x(1)\<close>)
qed

text \<open>
  The filter for WRITE arguments does not store the data it decodes. Into an object with no
  data it reads everything else and leaves the data empty; into an object with some data, but
  less than is sent, it writes past the end of the vector.
\<close>

theorem tirpc_write_data_lost:
  assumes R: "xdr_reader T V" and fit: "fits_WRITE3args ob"
  shows "(WRITE3args.data old = [] \<longrightarrow>
        fgets T V (xdr_WRITE3args T) old (enc_WRITE3args ob) (ob\<lparr>WRITE3args.data := []\<rparr>)) \<and>
     (WRITE3args.data old \<noteq> [] \<and> length (WRITE3args.data old) < length (WRITE3args.data ob) \<longrightarrow>
        fundef T V (xdr_WRITE3args T) old (enc_WRITE3args ob))"
proof (intro conjI impI)
  from fit have fh: "fits_nfs_fh3 (WRITE3args.file3 ob)" and len: "length (WRITE3args.data ob) \<le> 65536"
    by (simp_all add: fits_WRITE3args_def)
  show "fgets T V (xdr_WRITE3args T) old (enc_WRITE3args ob) (ob\<lparr>WRITE3args.data := []\<rparr>)"
    if "WRITE3args.data old = []"
    unfolding xdr_WRITE3args_def enc_WRITE3args_def
    by (rule fgets_cong, (rule fget R fh |
        (simp add: that, rule fgets_bytes_in_place_empty [OF R]) | (use len in \<open>simp; fail\<close>) |
        (cases ob, cases old, simp; fail))+)
  show "fundef T V (xdr_WRITE3args T) old (enc_WRITE3args ob)"
    if m: "WRITE3args.data old \<noteq> [] \<and> length (WRITE3args.data old) < length (WRITE3args.data ob)"
    unfolding xdr_WRITE3args_def enc_WRITE3args_def
    by (rule fundef_later [OF fgets_ffld] fundef_last fundef_ffld fundef_bytes_in_place fget R fh | 
        (use len m in \<open>simp; fail\<close>))+
qed

theorem tirpc_write_data_lost_witness:
  "\<exists>x'. xdr_WRITE3args mem_tirpc WRITE3args_init (decoder (enc_WRITE3args
      (WRITE3args_init\<lparr>WRITE3args.count := 3, WRITE3args.data := [1, 2, 3]\<rparr>))) =
      Fin (WRITE3args_init\<lparr>WRITE3args.count := 3\<rparr>, True, x') \<and>
   xdr_WRITE3args mem_tirpc (WRITE3args_init\<lparr>WRITE3args.data := [9]\<rparr>) (decoder (enc_WRITE3args
      (WRITE3args_init\<lparr>WRITE3args.count := 3, WRITE3args.data := [1, 2, 3]\<rparr>))) = Undef"
proof -
  let ?ob = "WRITE3args_init\<lparr>WRITE3args.count := 3, WRITE3args.data := [1, 2, 3]\<rparr>"
  have fit: "fits_WRITE3args ?ob"
    by (simp add: fits_WRITE3args_def WRITE3args_init_def fits_nfs_fh3_def nfs_fh3_init_def)
  have empty: "WRITE3args.data WRITE3args_init = []" by (simp add: WRITE3args_init_def)
  have "fgets mem_tirpc mem_view (xdr_WRITE3args mem_tirpc) WRITE3args_init (enc_WRITE3args ?ob)
      (?ob\<lparr>WRITE3args.data := []\<rparr>)"
    using tirpc_write_data_lost [OF mem_reader fit, of WRITE3args_init] empty by simp
  moreover have "?ob\<lparr>WRITE3args.data := []\<rparr> = WRITE3args_init\<lparr>WRITE3args.count := 3\<rparr>"
    by (simp add: WRITE3args_init_def)
  moreover have "fundef mem_tirpc mem_view (xdr_WRITE3args mem_tirpc)
      (WRITE3args_init\<lparr>WRITE3args.data := [9]\<rparr>) (enc_WRITE3args ?ob)"
    using tirpc_write_data_lost [OF mem_reader fit, of "WRITE3args_init\<lparr>WRITE3args.data := [9]\<rparr>"] by simp
  ultimately show ?thesis
    unfolding fgets_def fundef_def
    by (elim allE [of _ "decoder (enc_WRITE3args ?ob)"] allE [of _ "[]"]) (auto simp: decoder_def)
qed

text \<open>
  The cookie verifier of READDIR goes out in the byte order of the host. On the little-endian
  hosts the library is built for, the \<^verbatim>\<open>XdrBuffer\<close> codec reads the arguments that the filter
  writes with the bytes of the verifier reversed.
\<close>

theorem tirpc_cookieverf_swapped:
  assumes W: "xdr_writer T V" and fit: "fits_READDIR3args ob"
    and x: "x_op T x = XDR_ENCODE" "xdr_out V x = []" "length (tenc_READDIR3args ob) \<le> xdr_room V x"
  shows "\<exists>x'. xdr_READDIR3args T ob x = Fin (ob, True, x') \<and>
     fst (deserialize_READDIR3args old (XdrBuffer_of (xdr_out V x'))) =
       Inr (ob\<lparr>READDIR3args.cookieverf := swap_bytes64 (READDIR3args.cookieverf ob)\<rparr>)"
proof -
  let ?swapped = "ob\<lparr>READDIR3args.cookieverf := swap_bytes64 (READDIR3args.cookieverf ob)\<rparr>"
  have "tenc_READDIR3args ob = enc_READDIR3args ?swapped"
    by (simp add: tenc_READDIR3args_def enc_READDIR3args_def mem64_def NATIVE_ENDIAN_def be64_swap)
  moreover from fit have "ok_READDIR3args ?swapped"
    by (simp add: fits_READDIR3args_def ok_READDIR3args_def fits_nfs_fh3_def ok_nfs_fh3_def)
  ultimately show ?thesis
    using READDIR3args_tirpc.filt_encode [OF W fit x(1,3)] x(2)
      READDIR3args_xdr.unpack_of [of ?swapped old "[]"] by (metis append_Nil append_Nil2 fst_conv)
qed

theorem tirpc_cookieverf_swapped_witness:
  "\<exists>x'. xdr_READDIR3args mem_tirpc (READDIR3args_init\<lparr>READDIR3args.cookieverf := 1\<rparr>) (encoder 100) =
       Fin (READDIR3args_init\<lparr>READDIR3args.cookieverf := 1\<rparr>, True, x') \<and>
     fst (deserialize_READDIR3args READDIR3args_init (XdrBuffer_of (m_out x'))) =
       Inr (READDIR3args_init\<lparr>READDIR3args.cookieverf := 0x0100000000000000\<rparr>)"
proof -
  let ?ob = "READDIR3args_init\<lparr>READDIR3args.cookieverf := 1\<rparr>"
  have fit: "fits_READDIR3args ?ob"
    by (simp add: fits_READDIR3args_def READDIR3args_init_def fits_nfs_fh3_def nfs_fh3_init_def)
  have len: "length (tenc_READDIR3args ?ob) \<le> 100"
    by (simp add: tenc_READDIR3args_def READDIR3args_init_def length_enc)
  have "swap_bytes64 1 = 0x0100000000000000" by (simp add: swap_bytes64_def)
  with tirpc_cookieverf_swapped [OF mem_writer fit, of "encoder 100"] len show ?thesis
    by (simp add: encoder_def)
qed

end
