(* ===== verification/TirpcCallProperties.thy ===== *)
theory TirpcCallProperties
  imports TirpcClient TirpcMount TirpcNet TirpcProperties
begin

text \<open>
  What the clients of the build with libtirpc do: the methods of the NFS client from their
  arguments to the call and back, what is lost on the way, the templates of the endpoint, the
  life of its handles, and the MOUNT client.
\<close>

section \<open>The methods of the NFS client\<close>
















lemma readdir_carried_out:
  "fits_READDIR3args \<lparr>READDIR3args.dir = h, READDIR3args.cookie = u, READDIR3args.cookieverf = v, READDIR3args.count = i\<rparr> \<Longrightarrow>
     carried_out (\<lambda>T call cl w. tirpc_readdir T call cl h u v i w) NFSPROC3_READDIR
       (tenc_READDIR3args \<lparr>READDIR3args.dir = h, READDIR3args.cookie = u, READDIR3args.cookieverf = v, READDIR3args.count = i\<rparr>)
       tenc_READDIR3resok fits_READDIR3resok (lost_READDIR3resok READDIR3resok_init)"
  unfolding tirpc_readdir_def
  by (erule carried_out_got [OF readdir_tirpc.invoke_carried_out])
    (simp)







definition sample_impl :: TRPCEndpointImpl where
  "sample_impl = \<lparr>client = Some 7, thost = ''server'', tport = 2049, ttimeout = 25000, xid_counter = 1\<rparr>"

definition sample_client :: TNFS3TestClient where
  "sample_client = \<lparr>tendpoint = \<lparr>timpl = Some sample_impl\<rparr>, troot_fh = nfs_fh3_init\<rparr>"

lemma sample_client_connected: "connected_to sample_client 7"
  by (simp add: connected_to_def sample_client_def sample_impl_def)

abbreviation lookup_srv :: "request \<Rightarrow> clnt_stat \<times> bytes" where
  "lookup_srv \<equiv> \<lambda>_. (RPC_SUCCESS, enc_res enc_LOOKUP3resok sample_lookup)"



text \<open>
  C12: A method never returns the entries of a directory: whatever listing the server sends,
  \<^verbatim>\<open>readdir\<close> succeeds with the end-of-file flag and the verifier of the server and with no entry.
\<close>

theorem tirpc_readdir_no_entries:
  assumes "xdr_writer T V" and "xdr_reader T V" and "calls_through T V lim reqs answer call"
    and "connected_to cl c"
    and "fits_READDIR3args a" and "a = \<lparr>READDIR3args.dir = h, READDIR3args.cookie = u, READDIR3args.cookieverf = v, READDIR3args.count = i\<rparr>"
    and "length (tenc_READDIR3args a) \<le> lim" and "fits_READDIR3resok r"
    and "answer (c, 16, tenc_READDIR3args a) w =
      (RPC_SUCCESS, enc_res tenc_READDIR3resok \<lparr>status = NFS3_OK, resok = Some r\<rparr> @ rest)"
  shows "\<exists>res w'. tirpc_readdir T call cl h u v i w = Fin ((Value res, after_call cl), w') \<and>
    dirlist3.entries (READDIR3resok.reply res) = None \<and>
    dirlist3.eof (READDIR3resok.reply res) = dirlist3.eof (READDIR3resok.reply r) \<and>
    READDIR3resok.cookieverf res = READDIR3resok.cookieverf r"
proof -
  from readdir_carried_out [of h u v i] assms(5,6) have m: "carried_out (\<lambda>T call cl w. tirpc_readdir T call cl h u v i w)
      NFSPROC3_READDIR (tenc_READDIR3args a) tenc_READDIR3resok fits_READDIR3resok
      (lost_READDIR3resok READDIR3resok_init)" by simp
  obtain res w' where run: "tirpc_readdir T call cl h u v i w = Fin ((res, after_call cl), w')"
    and told: "told (answer (c, proc_val NFSPROC3_READDIR, tenc_READDIR3args a) w) tenc_READDIR3resok
      fits_READDIR3resok (lost_READDIR3resok READDIR3resok_init) res"
    by (rule carried_outE [OF m assms(1-4,7)])
  from told assms(8,9) have "res = Value (lost_READDIR3resok READDIR3resok_init r)" by (simp add: told_value)
  with run show ?thesis by (simp add: lost_READDIR3resok_def lost_dirlist3_def)
qed

abbreviation readdir_args0 :: READDIR3args where
  "readdir_args0 \<equiv> \<lparr>READDIR3args.dir = sample_handle, READDIR3args.cookie = 0, READDIR3args.cookieverf = 0,
     READDIR3args.count = 4096\<rparr>"

abbreviation readdir_srv :: "request \<Rightarrow> clnt_stat \<times> bytes" where
  "readdir_srv \<equiv> \<lambda>_. (RPC_SUCCESS, enc_res tenc_READDIR3resok \<lparr>status = NFS3_OK, resok = Some sample_listing\<rparr>)"

theorem tirpc_readdir_no_entries_witness:
  "dirlist3.entries (READDIR3resok.reply sample_listing) \<noteq> None \<and>
   (\<exists>res w'. tirpc_readdir mem_tirpc (mem_clnt_call readdir_srv) sample_client sample_handle 0 0 4096 world0 =
        Fin ((Value res, after_call sample_client), w') \<and>
      dirlist3.entries (READDIR3resok.reply res) = None \<and> dirlist3.eof (READDIR3resok.reply res))"
proof -
  have "fits_READDIR3args readdir_args0" by (simp add: fits_READDIR3args_def)
  moreover have "length (tenc_READDIR3args readdir_args0) \<le> 8800"
    by (simp add: tenc_READDIR3args_def sample_defs length_enc)
  moreover have "fits_READDIR3resok sample_listing" using fits_sample(3) by (simp add: ok_res_def)
  moreover have "dirlist3.eof (READDIR3resok.reply sample_listing)"
    "dirlist3.entries (READDIR3resok.reply sample_listing) \<noteq> None" by (simp_all add: sample_listing_def READDIR3resok_init_def)
  ultimately show ?thesis
    using tirpc_readdir_no_entries [OF mem_writer mem_reader mem_calls_through [where srv = readdir_srv]
        sample_client_connected _ refl, where r = sample_listing and rest = "[]" and w = world0
        and h = sample_handle and u = 0 and v = 0 and i = 4096]
    by auto
qed

section \<open>The templates of the endpoint\<close>

lemma fputs_xdr_buffer:
  assumes W: "xdr_writer T V" and "length d \<le> UINT32_MAX"
  shows "fputs T V (nfs_xdr_buffer_func T) \<lparr>buf_data = d, buf_size = word_of_nat (length d), buf_max_size = n\<rparr> (enc_opaque d)"
proof (rule fputsI)
  fix x assume x: "x_op T x = XDR_ENCODE"
  let ?ob = "\<lparr>buf_data = d, buf_size = word_of_nat (length d), buf_max_size = n\<rparr> :: nfs_xdr_buffer"
  let ?n = "be32 (word_of_nat (length d) :: uint32)" and ?d = "d @ replicate (pad4 (length d)) 0"
  have size: "unat (word_of_nat (length d) :: uint32) = length d" using assms(2) by (simp add: unat_of_length)
  have all: "enc_opaque d = ?n @ ?d" by (simp add: enc_opaque_wire vector_size_def)
  from writerD(2) [OF W x, of "word_of_nat (length d)"]
  show "encoded T V x ?ob (enc_opaque d) (nfs_xdr_buffer_func T ?ob x)"
  proof (cases rule: writesE)
    case 1: (room x1)
    from writerD(4) [OF W put_op [OF 1(3)] refl, of d] show ?thesis
    proof (cases rule: writesE)
      case (room x2)
      with 1 x size put_trans [OF 1(3) room(3)] put_room [OF 1(3), of ?d] show ?thesis
        unfolding encoded_def all by (simp add: nfs_xdr_buffer_func_def buffer_opaque_def)
    next
      case (full v x2)
      with 1 x size put_room [OF 1(3), of ?d] show ?thesis
        unfolding encoded_def all by (simp add: nfs_xdr_buffer_func_def buffer_opaque_def)
    qed
  next
    case (full v x1)
    with x show ?thesis unfolding encoded_def all by (simp add: nfs_xdr_buffer_func_def)
  qed
qed

lemma xdr_buffer_refuses:
  assumes "xdr_reader T V" and "x_op T x = XDR_DECODE" and "xdr_in V x = be32 0 @ rest"
  obtains x' where "nfs_xdr_buffer_func T ob x = Fin (ob, False, x')"
proof -
  from takesE [OF takes_int [OF assms(1,2)] assms(3), of 0] obtain x' where "xdr_int T 0 x = (True, 0, x')" by metis
  with assms(2) show thesis by (intro that [of x']) (simp add: nfs_xdr_buffer_func_def)
qed

text \<open>
  The template \<^verbatim>\<open>call\<close> cannot succeed against an NFS server. It sends the arguments behind a length
  word that is not part of the protocol, and takes the first word of the results for a
  length: the status of a successful reply is 0, and is refused as a length, so that every
  successful reply becomes \<^verbatim>\<open>UNKNOWN\<close>.
\<close>

theorem tirpc_call_refuses_success:
  assumes "xdr_writer T V" and "xdr_reader T V" and "calls_through T V lim reqs answer call"
    and "timpl ep = Some im" and "client im = Some c"
    and "ser args XdrBuffer_new = (Inr (), XdrBuffer_of req)" and "length req \<le> UINT32_MAX"
    and "length (enc_opaque req) \<le> lim"
    and "answer (c, p, enc_opaque req) w = (RPC_SUCCESS, be32 NFS3_OK @ rest)"
  shows "\<exists>w'. TRPCEndpoint_call T call ser des response ep p args w = Fin ((Inr (Unexpected UNKNOWN), next_xid ep), w') \<and>
    reqs w' = reqs w @ [(c, p, enc_opaque req)]"
proof -
  let ?in = "\<lparr>buf_data = req, buf_size = word_of_nat (length req), buf_max_size = word_of_nat (length req)\<rparr>"
  let ?out = "\<lparr>buf_data = replicate (unat MAX_RESP) 0, buf_size = 0, buf_max_size = MAX_RESP\<rparr>"
  let ?f = "nfs_xdr_buffer_func T" and ?tv = "timeval_of (ttimeout im)"
  have "\<exists>w'. call c p ?f ?in ?f ?out ?tv w = Fin (RPC_CANTDECODERES, ?out, w') \<and> reqs w' = reqs w @ [(c, p, enc_opaque req)]"
    using assms(3) fputs_xdr_buffer [OF assms(1,7), of "word_of_nat (length req)"] assms(8)
  proof (cases rule: calls_throughE [where c = c and p = p and w = w and g = ?f and r = ?out and tv = ?tv])
    case (refused st results w')
    with assms(9) show ?thesis by simp
  next
    case (answered results y w')
    with assms(9) have "xdr_in V y = be32 0 @ rest" by (simp add: NFS3_OK_def)
    from xdr_buffer_refuses [OF assms(2) answered(2) this] obtain y' where "?f ?out y = Fin (?out, False, y')" by metis
    with answered(4,5) show ?thesis by simp
  qed
  then obtain w' where "call c p ?f ?in ?f ?out ?tv w = Fin (RPC_CANTDECODERES, ?out, w')"
    "reqs w' = reqs w @ [(c, p, enc_opaque req)]" by blast
  then show ?thesis
    using assms(4-6)
    by (simp add: TRPCEndpoint_call_def TRPCEndpoint_is_connected_def the_client_def next_xid_def XdrBuffer_of_def)
qed

abbreviation getattr_args0 :: GETATTR3args where
  "getattr_args0 \<equiv> \<lparr>GETATTR3args.object = sample_handle\<rparr>"

theorem tirpc_call_refuses_success_witness:
  "\<exists>w'. TRPCEndpoint_call mem_tirpc (mem_clnt_call (\<lambda>_. (RPC_SUCCESS, be32 NFS3_OK @ replicate 84 0)))
      serialize_GETATTR3args deserialize_GETATTR3res \<lparr>status = 0, resok = None\<rparr>
      (tendpoint sample_client) 1 getattr_args0 world0 =
    Fin ((Inr (Unexpected UNKNOWN), next_xid (tendpoint sample_client)), w')"
proof -
  have "ok_GETATTR3args getattr_args0" by (simp add: ok_GETATTR3args_def sample_handle_def ok_nfs_fh3_def)
  from GETATTR3args_xdr.pack_new [OF this]
  have ser: "serialize_GETATTR3args getattr_args0 XdrBuffer_new = (Inr (), XdrBuffer_of (enc_GETATTR3args getattr_args0))" .
  have "length (enc_GETATTR3args getattr_args0) = 12"
    by (simp add: enc_GETATTR3args_def sample_defs length_enc)
  then show ?thesis
    using tirpc_call_refuses_success [OF mem_writer mem_reader mem_calls_through
        [where srv = "\<lambda>_. (RPC_SUCCESS, be32 NFS3_OK @ replicate 84 0)"], where w = world0 and ep = "tendpoint sample_client"
        and im = sample_impl and c = 7 and p = 1 and ser = serialize_GETATTR3args and args = getattr_args0
        and req = "enc_GETATTR3args getattr_args0" and rest = "replicate 84 0"
        and des = deserialize_GETATTR3res and response = "\<lparr>status = 0, resok = None\<rparr>", OF _ _ ser]
    by (auto simp: sample_client_def sample_impl_def enc_opaque_def pad4_def)
qed

text \<open>
  The timeout in milliseconds becomes a \<^verbatim>\<open>timeval\<close> of the same length with less than a second of
  microseconds. A negative timeout gives negative microseconds, which no \<^verbatim>\<open>timeval\<close> may have.
\<close>

theorem timeval_bounds:
  assumes "timeval_of t = (s, u)"
  shows "s * 1000000 + u = t * 1000 \<and> \<bar>u\<bar> < 1000000 \<and>
    (0 \<le> t \<longrightarrow> 0 \<le> s \<and> 0 \<le> u) \<and> (t < 0 \<and> \<not> 1000 dvd t \<longrightarrow> u < 0)"
proof -
  from assms have s: "s = t sdiv 1000" and u: "u = (t smod 1000) * 1000" by (simp_all add: timeval_of_def)
  define q r where "q = \<bar>t\<bar> div 1000" and "r = \<bar>t\<bar> mod 1000"
  then have qr: "q * 1000 + r = \<bar>t\<bar>" "0 \<le> r" "r < 1000" "0 \<le> q"
    by (simp_all add: div_mult_mod_eq pos_imp_zdiv_nonneg_iff)
  have r0: "r \<noteq> 0" if "\<not> 1000 dvd t"
    using that by (simp add: r_def mod_eq_0_iff_dvd)
  have "s = sgn t * q" "u = sgn t * r * 1000"
    unfolding s u q_def r_def by (simp_all add: signed_divide_int_def signed_modulo_int_def)
  with qr r0 show ?thesis by (cases t "0 :: int" rule: linorder_cases) (auto simp: abs_if)
qed

theorem timeval_bounds_witness:
  "timeval_of 25001 = (25, 1000) \<and> timeval_of (- 1500) = (- 1, - 500000) \<and>
   (- 1) * 1000000 + (- 500000) = (- 1500) * (1000 :: int)"
proof -
  have "timeval_of (- 1500) = (- 1, - 500000)" "timeval_of 25001 = (25, 1000)"
    by (simp_all add: timeval_of_def signed_divide_int_def signed_modulo_int_def)
  with timeval_bounds [OF this(1)] show ?thesis by simp
qed

section \<open>The life of the handles\<close>

text \<open>
  C9: In whatever order a program creates, moves, assigns, shuts down, uses and destroys
  endpoints, the endpoints alive own exactly the handles that exist, each of them once: no
  handle is leaked, and \<^verbatim>\<open>clnt_destroy\<close> is only called on a handle that exists.
\<close>

theorem tirpc_handles_owned:
  assumes "keeps_handles L call live" and "live w0 = {}" and "(ep_step L call)\<^sup>*\<^sup>* ([], w0) (eps, w)"
  shows "distinct (handles eps) \<and> set (handles eps) = live w"
proof -
  have "owned live ([], w0)" by (simp add: owned_def assms(2))
  from owned_reachable [OF assms(1,3) this] have "finite (live w)" "mset (handles eps) = mset_set (live w)"
    by (simp_all add: owned_def)
  then show ?thesis
    by (metis distinct_sorted_list_of_set finite_set_mset_mset_set mset_eq_imp_distinct_iff
        mset_sorted_list_of_multiset set_mset_mset sorted_list_of_mset_set)
qed

theorem tirpc_handles_owned_witness:
  "\<exists>eps w. (ep_step mem_lib (mem_clnt_call lookup_srv :: (LOOKUP3args, LOOKUP3res, mem_stream, mem_world) clnt_call))\<^sup>*\<^sup>*
      ([], world0) (eps, w) \<and> length eps = 2 \<and> handles eps = [1] \<and> distinct (handles eps) \<and>
      set (handles eps) = set (w_handles w)"
proof -
  let ?call = "mem_clnt_call lookup_srv :: (LOOKUP3args, LOOKUP3res, mem_stream, mem_world) clnt_call"
  let ?im = "\<lparr>client = Some 1, thost = ''server'', tport = 2049, ttimeout = 25000, xid_counter = 1\<rparr>"
  let ?ep = "\<lparr>timpl = Some ?im\<rparr>" and ?w = "\<lparr>w_reqs = [], w_handles = [1]\<rparr>"
  have "TRPCEndpoint_create mem_lib ''server'' 2049 25000 world0 = (?ep, ?w)"
    by (simp add: TRPCEndpoint_create_def mem_lib_def use_auth_unix_def)
  then have 1: "ep_step mem_lib ?call ([], world0) ([] @ [?ep], ?w)" by (rule ep_step.create)
  have "TRPCEndpoint_move ([?ep] ! 0) = (?ep, \<lparr>timpl = None\<rparr>)" by (simp add: TRPCEndpoint_move_def)
  then have 2: "ep_step mem_lib ?call ([?ep], ?w) ([?ep][0 := \<lparr>timpl = None\<rparr>] @ [?ep], ?w)"
    by (intro ep_step.move) simp_all
  from 1 2 have run: "(ep_step mem_lib ?call)\<^sup>*\<^sup>* ([], world0) ([\<lparr>timpl = None\<rparr>, ?ep], ?w)"
    by (auto intro: rtranclp.rtrancl_into_rtrancl)
  have "handles [\<lparr>timpl = None\<rparr>, ?ep] = [1]" by (simp add: handle_def)
  with run tirpc_handles_owned [OF mem_keeps_handles _ run] show ?thesis
    by (intro exI [of _ "[\<lparr>timpl = None\<rparr>, ?ep]"] exI [of _ ?w]) simp
qed

section \<open>The MOUNT client\<close>








end
