(* ===== verification/TirpcBridge.thy ===== *)
theory TirpcBridge
  imports TirpcTypes
begin

text \<open>
  \<^verbatim>\<open>nfs3_rpc_tests/include/nfs3/xdr_bridge.hpp\<close>: a second set of filters over libtirpc, which no source
  file includes. Each is its own function here, over the same parameter and laws as the filters
  of \<^verbatim>\<open>nfs3_xdr.cpp\<close>. The filters for integers satisfy the contract of a filter. Those for bytes and
  strings encode, but they pass the storage of the object to a decode as well: they decode only
  what fits into what is there, and bytes only into an empty vector.
\<close>

section \<open>The filters\<close>

definition bridge_uint64 :: "'x tirpc \<Rightarrow> (uint64, 'x) filt" where
  "bridge_uint64 T = prim (xdr_u_hyper T)"

definition bridge_uint32 :: "'x tirpc \<Rightarrow> (uint32, 'x) filt" where
  "bridge_uint32 T = prim (xdr_u_int T)"

definition bridge_int32 :: "'x tirpc \<Rightarrow> (uint32, 'x) filt" where
  "bridge_int32 T = prim (xdr_int T)"

definition bridge_bool_val :: "'x tirpc \<Rightarrow> (bool, 'x) filt" where
  "bridge_bool_val T v x = (case xdr_bool T v x of (b, v', x') \<Rightarrow> Fin (if b then v' else v, b, x'))"

text \<open>\<^verbatim>\<open>data->assign(ptr, ptr + len)\<close>: the range may not be part of the vector itself; storage from the
  library is copied and never freed.\<close>

definition assign_own :: "cptr \<Rightarrow> uint32 \<Rightarrow> bytes fres" where
  "assign_own p len =
     (case p of
        Nullptr \<Rightarrow> if len = 0 then Fin [] else Undef
      | Caller m \<Rightarrow> Undef
      | Alloc m \<Rightarrow> if unat len \<le> length m then Fin (take (unat len) m) else Undef)"

definition bridge_opaque_data :: "'x tirpc \<Rightarrow> nat \<Rightarrow> (bytes, 'x) filt" where
  "bridge_opaque_data T maxlen d x =
     (case xdr_bytes T maxlen (vector_data d) (vector_size d) x of
        (b, p, len, x') \<Rightarrow>
          fbind (lent (x_op T x) d p) (\<lambda>d'.
          if \<not> b then Fin (d', False, x')
          else if x_op T x' = XDR_DECODE then fbind (assign_own p len) (\<lambda>d''. Fin (d'', True, x'))
          else Fin (d', True, x')))"

definition bridge_nfs_fh3 :: "'x tirpc \<Rightarrow> (nfs_fh3, 'x) filt" where
  "bridge_nfs_fh3 T = ffld nfs_fh3.data nfs_fh3.data_update (bridge_opaque_data T 64)"

text \<open>\<^verbatim>\<open>*str = ptr\<close>, where the pointer may be that of the string.\<close>

definition string_own :: "cptr \<Rightarrow> string fres" where
  "string_own p =
     (case p of
        Nullptr \<Rightarrow> Undef
      | Caller m \<Rightarrow> if 0 \<in> set m then Fin (map char_of_byte (takeWhile (\<lambda>c. c \<noteq> 0) m)) else Undef
      | Alloc m \<Rightarrow> if 0 \<in> set m then Fin (map char_of_byte (takeWhile (\<lambda>c. c \<noteq> 0) m)) else Undef)"

definition bridge_string_val :: "'x tirpc \<Rightarrow> nat \<Rightarrow> (string, 'x) filt" where
  "bridge_string_val T maxlen s x =
     (case xdr_string T maxlen (c_str s) x of
        (b, p, x') \<Rightarrow>
          fbind (lent (x_op T x) (map byte_of_char s @ [0]) p) (\<lambda>m.
          if \<not> b then Fin (map char_of_byte (take (length s) m), False, x')
          else if x_op T x' = XDR_DECODE then fbind (string_own p) (\<lambda>s'. Fin (s', True, x'))
          else Fin (s, True, x')))"

section \<open>Integers\<close>

interpretation uint64_bridge: tirpc_filter bridge_uint64 be64 "\<lambda>_. True" "\<lambda>_ v. v"
  by unfold_locales (auto simp: bridge_uint64_def intro: fput fget fret)

interpretation uint32_bridge: tirpc_filter bridge_uint32 be32 "\<lambda>_. True" "\<lambda>_ v. v"
  by unfold_locales (auto simp: bridge_uint32_def intro: fput fget fret)

interpretation int32_bridge: tirpc_filter bridge_int32 be32 "\<lambda>_. True" "\<lambda>_ v. v"
  by unfold_locales (auto simp: bridge_int32_def intro: fput fget fret)

interpretation bool_bridge: tirpc_filter bridge_bool_val enc_bool "\<lambda>_. True" "\<lambda>_ v. v"
proof unfold_locales
  fix T V and v old :: bool
  show "fputs T V (bridge_bool_val T) v (enc_bool v)" if W: "xdr_writer T V"
  proof (rule fputsI)
    fix x assume x: "x_op T x = XDR_ENCODE"
    have "encoded T V x v (enc_bool v) (prim (xdr_bool T) v x)"
      using fputs_xdr_bool [OF W] x by (simp add: fputs_def)
    then show "encoded T V x v (enc_bool v) (bridge_bool_val T v x)"
      by (cases "xdr_bool T v x") (auto simp: encoded_def bridge_bool_val_def prim_def)
  qed
  show "fgets T V (bridge_bool_val T) old (enc_bool v) v" if R: "xdr_reader T V"
    unfolding fgets_def
  proof (intro allI impI)
    fix x rest assume x: "x_op T x = XDR_DECODE" "xdr_in V x = enc_bool v @ rest"
    from R x(1) have "takes T V x (enc_bool v) v (xdr_bool T old x)"
      by (simp add: xdr_reader_def reads_bool_def)
    from this x(2) show "\<exists>x'. bridge_bool_val T old x = Fin (v, True, x') \<and> x_op T x' = XDR_DECODE \<and> xdr_in V x' = rest"
      by (cases rule: takesE) (simp add: bridge_bool_val_def)
  qed
  show "fsafe T V (bridge_bool_val T)" if R: "xdr_reader T V"
    unfolding fsafe_def
  proof (intro allI impI)
    fix ob x assume "x_op T x = XDR_DECODE"
    with R have "any_input T V x (\<lambda>_. True) (xdr_bool T ob x)" by (simp add: xdr_reader_def reads_bool_def)
    then show "\<exists>ob' b x'. bridge_bool_val T ob x = Fin (ob', b, x') \<and> stays T V x x'"
      by (cases rule: any_inputE) (simp add: bridge_bool_val_def)
  qed
qed

section \<open>Bytes and strings\<close>

lemma lent_encode: "lent XDR_ENCODE m p = Fin m"
  by (cases p) (simp_all add: lent_def)

interpretation opaque_bridge: tirpc_writer "\<lambda>T. bridge_opaque_data T 64" enc_opaque "\<lambda>d. length d \<le> 64"
proof
  fix T V and d :: bytes
  assume W: "xdr_writer T V" and ok: "length d \<le> 64"
  show "fputs T V (bridge_opaque_data T 64) d (enc_opaque d)"
  proof (rule fputsI)
    fix x assume x: "x_op T x = XDR_ENCODE"
    from writerD(5) [OF W x, of d 64] ok
    have "writes T V x (enc_opaque d) (vector_data d, vector_size d)
        (regroup (xdr_bytes T 64 (vector_data d) (vector_size d) x))" by simp
    then show "encoded T V x d (enc_opaque d) (bridge_opaque_data T 64 d x)"
      by (cases rule: writes_bytesE)
        (auto simp: encoded_def bridge_opaque_data_def x lent_encode dest: put_op)
  qed
qed

interpretation nfs_fh3_bridge: tirpc_writer bridge_nfs_fh3 enc_nfs_fh3 fits_nfs_fh3
proof
  fix T V and ob :: nfs_fh3
  assume "xdr_writer T V" and "fits_nfs_fh3 ob"
  then show "fputs T V (bridge_nfs_fh3 T) ob (enc_nfs_fh3 ob)"
    unfolding bridge_nfs_fh3_def enc_nfs_fh3_def fits_nfs_fh3_def
    by (intro fputs_ffld opaque_bridge.filt_puts) auto
qed

text \<open>A handle is decoded into an object without one; into one that has one the behaviour is
  undefined, whatever arrives, unless the library refuses it.\<close>

lemma bridge_opaque_decode:
  assumes R: "xdr_reader T V" and d: "length d \<le> lim" "lim \<le> UINT32_MAX"
    and x: "x_op T x = XDR_DECODE" "xdr_in V x = enc_opaque d @ rest"
  shows "\<exists>x'. bridge_opaque_data T lim [] x = Fin (d, True, x') \<and> xdr_in V x' = rest"
    and "old \<noteq> [] \<Longrightarrow> bridge_opaque_data T lim old x = Undef"
proof -
  from takes_bytes [OF R x(1) d x(2)] obtain x' where
    "xdr_bytes T lim Nullptr 0 x = (True, if d = [] then Nullptr else into Nullptr d, vector_size d, x')"
    "x_op T x' = XDR_DECODE" "xdr_in V x' = rest" .
  then show "\<exists>x'. bridge_opaque_data T lim [] x = Fin (d, True, x') \<and> xdr_in V x' = rest"
    using d by (auto simp: bridge_opaque_data_def vector_data_def vector_size_def lent_def x assign_own_def
        unat_of_length)
  assume old: "old \<noteq> []"
  from takes_bytes [OF R x(1) d x(2)] obtain x' where
    "xdr_bytes T lim (Caller old) (vector_size old) x =
       (True, if d = [] then Caller old else into (Caller old) d, vector_size d, x')"
    "x_op T x' = XDR_DECODE" .
  with old show "bridge_opaque_data T lim old x = Undef"
    by (auto simp: bridge_opaque_data_def vector_data_def lent_def x assign_own_def)
qed

text \<open>A string is decoded into one at least as long, and overruns a shorter one.\<close>

lemma bridge_string_decode:
  assumes R: "xdr_reader T V" and s: "c_name lim s" "lim < UINT32_MAX"
    and x: "x_op T x = XDR_DECODE" "xdr_in V x = enc_string s @ rest"
  shows "if length s \<le> length old
    then \<exists>x'. bridge_string_val T lim old x = Fin (s, True, x') \<and> xdr_in V x' = rest
    else bridge_string_val T lim old x = Undef"
proof -
  let ?d = "map byte_of_char s" and ?m = "map byte_of_char old @ [0]"
  from s have "takes T V x (enc_string s) (into (Caller ?m) (?d @ [0])) (xdr_string T lim (Caller ?m) x)"
    using stringD(1) [OF R x(1) s(2), of ?d "replicate (pad4 (length ?d)) 0" "Caller ?m"]
    by (simp add: c_name_def enc_string_def enc_opaque_wire)
  moreover have "takeWhile (\<lambda>c. c \<noteq> 0) (?d @ 0 # r) = ?d" for r
    using takeWhile_c_str [of s] s(1) by (auto simp: c_name_def takeWhile_append split: if_splits)
  ultimately show ?thesis
    by (cases rule: takesE [OF _ x(2)])
      (auto simp: bridge_string_val_def c_str_def lent_def string_own_def x comp_def)
qed

end
