(* ===== verification/TestContext.thy ===== *)
theory TestContext
  imports Nfs3Client MountClient NetInstance "HOL-Library.Sublist"
begin

text \<open>
  The fixture of the tests: \<^verbatim>\<open>class NFS3TestContext\<close> of \<^verbatim>\<open>nfs3_rpc_tests/include/nfs3/test_context.hpp\<close>, in
  the build without libtirpc. Google Test and the process are arguments: the environment is a
  function \<open>env\<close>, the command line a list \<open>argv\<close>, the clock a number. The static members and the one
  of the object are one record; a fixture starts with no client and with the static members as
  the last one left them. An exception is a value, and the assignments made before it stay.
\<close>

section \<open>What the fixture uses of the standard library\<close>

datatype std_exception = Invalid_argument | Out_of_range

definition isspace :: "char \<Rightarrow> bool" where
  "isspace c \<longleftrightarrow> c = CHR '' '' \<or> (9 \<le> (of_char c :: nat) \<and> (of_char c :: nat) \<le> 13)"

definition isdigit :: "char \<Rightarrow> bool" where
  "isdigit c \<longleftrightarrow> 48 \<le> (of_char c :: nat) \<and> (of_char c :: nat) \<le> 57"

definition digits_value :: "string \<Rightarrow> int" where
  "digits_value = foldl (\<lambda>n c. 10 * n + (of_char c - 48)) 0"

definition take_sign :: "string \<Rightarrow> bool \<times> string" where
  "take_sign s =
     (case s of [] \<Rightarrow> (False, [])
      | c # cs \<Rightarrow> if c = CHR ''-'' then (True, cs) else if c = CHR ''+'' then (False, cs) else (False, s))"

text \<open>\<^verbatim>\<open>std::stoi\<close> in base 10: white space, a sign, as many digits as there are; what follows them is
  not looked at.\<close>

definition stoi :: "string \<Rightarrow> std_exception + int" where
  "stoi s =
     (let (neg, rest) = take_sign (dropWhile isspace s);
          ds = takeWhile isdigit rest;
          v = (if neg then - digits_value ds else digits_value ds)
      in if ds = [] then Inl Invalid_argument
      else if v < - (2 ^ 31) \<or> 2 ^ 31 \<le> v then Inl Out_of_range
      else Inr v)"

text \<open>\<^verbatim>\<open>std::to_string\<close> of an integer.\<close>

fun show_nat :: "nat \<Rightarrow> string" where
  "show_nat n = (if n < 10 then [char_of (48 + n)] else show_nat (n div 10) @ [char_of (48 + n mod 10)])"

declare show_nat.simps [simp del]

definition to_string :: "int \<Rightarrow> string" where
  "to_string i = (if i < 0 then CHR ''-'' # show_nat (nat (- i)) else show_nat (nat i))"

section \<open>class NFS3TestContext\<close>

record NFS3TestContext =
  server_host :: string
  server_port :: uint16
  export_path :: string
  require_server :: bool
  ctx_root_fh :: nfs_fh3
  has_root_fh :: bool
  ctx_client :: "NFS3TestClient option"

definition NFS3TestContext_init :: NFS3TestContext where
  "NFS3TestContext_init =
     \<lparr>server_host = [], server_port = 2049, export_path = [], require_server = False,
      ctx_root_fh = nfs_fh3_init, has_root_fh = False, ctx_client = None\<rparr>"

text \<open>\<^verbatim>\<open>server_port = static_cast<uint16_t>(std::stoi(s))\<close>, with what follows it.\<close>

definition with_port ::
    "string \<Rightarrow> NFS3TestContext \<Rightarrow> (NFS3TestContext \<Rightarrow> (std_exception + unit) \<times> NFS3TestContext) \<Rightarrow>
     (std_exception + unit) \<times> NFS3TestContext" where
  "with_port s c k =
     (case stoi s of Inl e \<Rightarrow> (Inl e, c) | Inr n \<Rightarrow> k (c\<lparr>server_port := word_of_int n\<rparr>))"

lemma with_port_cong [fundef_cong]:
  "s = s' \<Longrightarrow> c = c' \<Longrightarrow> (\<And>n. k (c'\<lparr>server_port := n\<rparr>) = k' (c'\<lparr>server_port := n\<rparr>)) \<Longrightarrow>
   with_port s c k = with_port s' c' k'"
  by (simp add: with_port_def split: sum.split)

text \<open>The loop over the command line: \<open>arg\<close> is \<^verbatim>\<open>argvs[i]\<close> and \<open>rest\<close> what follows it; an option that
  takes the next argument consumes it.\<close>

fun load_args :: "string list \<Rightarrow> NFS3TestContext \<Rightarrow> (std_exception + unit) \<times> NFS3TestContext" where
  "load_args [] c = (Inr (), c)"
| "load_args (arg # rest) c =
     (if arg = ''--server'' \<and> rest \<noteq> [] then load_args (tl rest) (c\<lparr>server_host := hd rest\<rparr>)
      else if prefix ''--server='' arg
      then load_args rest (c\<lparr>server_host := drop (length ''--server='') arg\<rparr>)
      else if arg = ''--port'' \<and> rest \<noteq> [] then with_port (hd rest) c (load_args (tl rest))
      else if prefix ''--port='' arg
      then with_port (drop (length ''--port='') arg) c (load_args rest)
      else if arg = ''--export'' \<and> rest \<noteq> [] then load_args (tl rest) (c\<lparr>export_path := hd rest\<rparr>)
      else if prefix ''--export='' arg
      then load_args rest (c\<lparr>export_path := drop (length ''--export='') arg\<rparr>)
      else load_args rest c)"

definition load_configuration ::
    "(string \<Rightarrow> string option) \<Rightarrow> string list \<Rightarrow> NFS3TestContext \<Rightarrow> (std_exception + unit) \<times> NFS3TestContext" where
  "load_configuration env argv c =
     (let c = c\<lparr>server_host := [], export_path := [], server_port := 2049, require_server := False\<rparr>;
          c = (case env ''NFS_TEST_SERVER'' of None \<Rightarrow> c | Some s \<Rightarrow> c\<lparr>server_host := s\<rparr>);
          k = (\<lambda>c. let c = (case env ''NFS_TEST_EXPORT'' of None \<Rightarrow> c | Some s \<Rightarrow> c\<lparr>export_path := s\<rparr>);
                       c = (case env ''NFS_TEST_REQUIRE_SERVER'' of None \<Rightarrow> c
                            | Some s \<Rightarrow> c\<lparr>require_server := (s = ''1'')\<rparr>)
                   in load_args (tl argv) c)
      in case env ''NFS_TEST_PORT'' of None \<Rightarrow> k c | Some s \<Rightarrow> with_port s c k)"

definition unique_name :: "string \<Rightarrow> int \<Rightarrow> string" where
  "unique_name pre ticks = pre @ ''_'' @ to_string ticks"

text \<open>How \<^verbatim>\<open>SetUp\<close> ends: it runs through, skips the test, fails at one of its three assertions, or
  an exception of \<^verbatim>\<open>std::stoi\<close> or of the codec leaves it.\<close>

datatype set_up_end = Ready | Skipped | Not_configured | No_mount_service | Mnt_failed MountError
  | Threw std_exception | Threw_xdr XdrError

text \<open>Assigning a new client destroys the one there was. \<^verbatim>\<open>RPCEndpoint::create\<close> is called with its
  default timeout of 25 seconds.\<close>

definition connect_client :: "'w posix \<Rightarrow> NFS3TestContext \<Rightarrow> 'w \<Rightarrow> NFS3TestContext \<times> 'w" where
  "connect_client os c w =
     (let (ep, w) = RPCEndpoint_create os (server_host c) (server_port c) 25000 w;
          cl = NFS3TestClient_new (fst (RPCEndpoint_move ep));
          w = (case ctx_client c of None \<Rightarrow> w | Some old \<Rightarrow> RPCEndpoint_destroy os (endpoint old) w)
      in (c\<lparr>ctx_client := Some cl\<rparr>, w))"

text \<open>The body of \<^verbatim>\<open>if (!has_root_fh)\<close>: every way out of it destroys the mounter.\<close>

definition fetch_root ::
    "'w posix \<Rightarrow> NFS3TestContext \<Rightarrow> 'w \<Rightarrow> ((set_up_end \<times> NFS3TestContext) \<times> 'w) outcome" where
  "fetch_root os c w =
     (let (mounter, w) = MountClient_new os (server_host c) w
      in if \<not> MountClient_is_connected mounter
      then Ret ((No_mount_service, c), MountClient_destroy os mounter w)
      else obind (mount_mnt os mounter (export_path c) w) (\<lambda>((result, mounter), w).
        let w = MountClient_destroy os mounter w
        in case result of
          Inl e \<Rightarrow> Ret ((Threw_xdr e, c), w)
        | Inr (Unexpected e) \<Rightarrow> Ret ((Mnt_failed e, c), w)
        | Inr (Value r) \<Rightarrow>
            Ret ((Ready, c\<lparr>ctx_root_fh := mount_root_handle r, has_root_fh := True\<rparr>), w)))"

definition SetUp ::
    "'w posix \<Rightarrow> (string \<Rightarrow> string option) \<Rightarrow> string list \<Rightarrow> NFS3TestContext \<Rightarrow> 'w \<Rightarrow>
     ((set_up_end \<times> NFS3TestContext) \<times> 'w) outcome" where
  "SetUp os env argv c w =
     (case load_configuration env argv c of
        (Inl e, c) \<Rightarrow> Ret ((Threw e, c), w)
      | (Inr _, c) \<Rightarrow>
          if server_host c = [] \<or> export_path c = []
          then Ret ((if require_server c then Not_configured else Skipped, c), w)
          else
            let (c, w) = connect_client os c w
            in obind (if \<not> has_root_fh c then fetch_root os c w else Ret ((Ready, c), w))
              (\<lambda>((r, c), w).
                if r \<noteq> Ready then Ret ((r, c), w)
                else Ret ((Ready, c\<lparr>ctx_client :=
                       map_option (\<lambda>cl. set_root_handle cl (ctx_root_fh c)) (ctx_client c)\<rparr>), w)))"

definition TearDown :: "'w posix \<Rightarrow> NFS3TestContext \<Rightarrow> 'w \<Rightarrow> NFS3TestContext \<times> 'w" where
  "TearDown os c w =
     (case ctx_client c of
        None \<Rightarrow> (c, w)
      | Some cl \<Rightarrow>
          (case RPCEndpoint_shutdown os (endpoint cl) w of
             (ep, w) \<Rightarrow> (c\<lparr>ctx_client := None\<rparr>, RPCEndpoint_destroy os ep w)))"

text \<open>The accessors: the client is dereferenced unchecked.\<close>

definition ctx_get_client :: "NFS3TestContext \<Rightarrow> NFS3TestClient outcome" where
  "ctx_get_client c = (case ctx_client c of None \<Rightarrow> UB | Some cl \<Rightarrow> Ret cl)"

definition ctx_get_endpoint :: "NFS3TestContext \<Rightarrow> RPCEndpoint outcome" where
  "ctx_get_endpoint c = obind (ctx_get_client c) (\<lambda>cl. Ret (endpoint cl))"

definition ctx_root :: "NFS3TestContext \<Rightarrow> nfs_fh3" where
  "ctx_root c = ctx_root_fh c"

section \<open>Numbers\<close>

lemma digit_char: "n < 10 \<Longrightarrow> (of_char (char_of (48 + n :: nat)) :: nat) = 48 + n"
  by simp

lemma show_nat_digits: "show_nat n \<noteq> [] \<and> (\<forall>c \<in> set (show_nat n). isdigit c)"
proof (induction n rule: show_nat.induct)
  case (1 n)
  have "isdigit (char_of (48 + k))" if "k < 10" for k :: nat
    using that by (simp add: isdigit_def digit_char)
  with 1 show ?case by (subst (1 2) show_nat.simps) auto
qed

lemma digits_value_snoc: "digits_value (ds @ [c]) = 10 * digits_value ds + (of_char c - 48)"
  by (simp add: digits_value_def)

lemma of_char_int: "(of_char c :: int) = int (of_char c)"
  by (simp add: of_char_def)

lemma digits_value_show [simp]: "digits_value (show_nat n) = int n"
proof (induction n rule: show_nat.induct)
  case (1 n)
  have d: "(of_char (char_of (48 + k)) :: int) = 48 + int k" if "k < 10" for k :: nat
    using that digit_char [of k] of_char_int [of "char_of (48 + k)"] by simp
  show ?case
  proof (cases "n < 10")
    case True
    then show ?thesis by (subst show_nat.simps) (simp add: digits_value_def d)
  next
    case False
    with 1 have "digits_value (show_nat n) = 10 * int (n div 10) + int (n mod 10)"
      by (subst show_nat.simps) (simp add: digits_value_snoc d)
    then show ?thesis by presburger
  qed
qed

text \<open>Distinct instants give distinct names, and so do distinct prefixes at the same instant.\<close>

lemma show_nat_inj: "show_nat m = show_nat n \<Longrightarrow> m = n"
  by (metis digits_value_show of_nat_eq_iff)

lemma show_nat_no_sign: "show_nat n \<noteq> CHR ''-'' # s"
proof
  assume "show_nat n = CHR ''-'' # s"
  then have "isdigit (CHR ''-'')" using show_nat_digits [of n] by simp
  then show False by (simp add: isdigit_def)
qed

lemma to_string_inj: "to_string i = to_string j \<Longrightarrow> i = j"
  using show_nat_no_sign show_nat_no_sign [symmetric]
  by (auto simp: to_string_def nat_eq_iff split: if_splits dest!: show_nat_inj)

lemma unique_name_inj:
  "unique_name p i = unique_name p j \<longleftrightarrow> i = j" "unique_name p i = unique_name q i \<longleftrightarrow> p = q"
  by (auto simp: unique_name_def dest: to_string_inj)

text \<open>The texts of numbers: \<open>number_text\<close> is what \<^verbatim>\<open>std::stoi\<close> takes for the number, \<open>number_value\<close>.\<close>

datatype sign = No_sign | Plus | Minus

fun sign_text :: "sign \<Rightarrow> string" where
  "sign_text No_sign = []"
| "sign_text Plus = ''+''"
| "sign_text Minus = ''-''"

definition number_text :: "string \<Rightarrow> sign \<Rightarrow> nat \<Rightarrow> string \<Rightarrow> string" where
  "number_text blanks sg n junk = blanks @ sign_text sg @ show_nat n @ junk"

definition number_value :: "sign \<Rightarrow> nat \<Rightarrow> int" where
  "number_value sg n = (if sg = Minus then - int n else int n)"

lemma dropWhile_blanks:
  "\<forall>c \<in> set blanks. P c \<Longrightarrow> (s \<noteq> [] \<Longrightarrow> \<not> P (hd s)) \<Longrightarrow> dropWhile P (blanks @ s) = s"
  by (cases s) (simp_all add: dropWhile_append)

lemma takeWhile_digits:
  "\<forall>c \<in> set ds. P c \<Longrightarrow> (s \<noteq> [] \<Longrightarrow> \<not> P (hd s)) \<Longrightarrow> takeWhile P (ds @ s) = ds"
  by (cases s) (simp_all add: takeWhile_append)

lemma isdigit_simps: "isdigit c \<Longrightarrow> \<not> isspace c" "isdigit c \<Longrightarrow> c \<noteq> CHR ''-''" "isdigit c \<Longrightarrow> c \<noteq> CHR ''+''"
  by (auto simp: isdigit_def isspace_def)

lemma take_sign_text: "take_sign (sign_text sg @ show_nat n @ junk) = (sg = Minus, show_nat n @ junk)"
proof -
  obtain d ds where "show_nat n = d # ds" "isdigit d"
    using show_nat_digits [of n] by (cases "show_nat n") auto
  then show ?thesis using isdigit_simps(2,3) by (cases sg) (auto simp: take_sign_def)
qed

lemma stoi_number:
  assumes "\<forall>c \<in> set blanks. isspace c" and "junk \<noteq> [] \<Longrightarrow> \<not> isdigit (hd junk)"
  shows "stoi (number_text blanks sg n junk) =
    (if - (2 ^ 31) \<le> number_value sg n \<and> number_value sg n < 2 ^ 31 then Inr (number_value sg n)
     else Inl Out_of_range)"
proof -
  have "\<not> isspace (hd (sign_text sg @ show_nat n @ junk))"
    using show_nat_digits [of n] isdigit_simps(1) by (cases sg) (auto simp: isspace_def hd_append)
  then have "dropWhile isspace (number_text blanks sg n junk) = sign_text sg @ show_nat n @ junk"
    unfolding number_text_def using assms(1) by (intro dropWhile_blanks) auto
  moreover have "takeWhile isdigit (show_nat n @ junk) = show_nat n"
    using show_nat_digits assms(2) by (intro takeWhile_digits) auto
  ultimately show ?thesis
    using show_nat_digits [of n] by (auto simp: stoi_def take_sign_text number_value_def)
qed

lemma stoi_show: "n < 2 ^ 31 \<Longrightarrow> stoi (show_nat n) = Inr (int n)"
  using stoi_number [of "[]" "[]" No_sign n] by (simp add: number_text_def number_value_def)

section \<open>The command line\<close>

text \<open>The settings a command line can make. Each has two spellings; \<open>Other\<close> stands for the arguments
  that are no option of the fixture, such as those of Google Test.\<close>

datatype setting = Server string | Port nat | Export string | Other string

fun spell :: "bool \<times> setting \<Rightarrow> string list" where
  "spell (True, Server s) = [''--server'', s]"
| "spell (False, Server s) = [''--server='' @ s]"
| "spell (True, Port n) = [''--port'', show_nat n]"
| "spell (False, Port n) = [''--port='' @ show_nat n]"
| "spell (True, Export s) = [''--export'', s]"
| "spell (False, Export s) = [''--export='' @ s]"
| "spell (_, Other s) = [s]"

fun ok_setting :: "setting \<Rightarrow> bool" where
  "ok_setting (Port n) \<longleftrightarrow> n < 2 ^ 31"
| "ok_setting (Other s) \<longleftrightarrow> \<not> prefix ''--server'' s \<and> \<not> prefix ''--port'' s \<and> \<not> prefix ''--export'' s"
| "ok_setting _ \<longleftrightarrow> True"

fun set_setting :: "setting \<Rightarrow> NFS3TestContext \<Rightarrow> NFS3TestContext" where
  "set_setting (Server s) c = c\<lparr>server_host := s\<rparr>"
| "set_setting (Port n) c = c\<lparr>server_port := word_of_nat n\<rparr>"
| "set_setting (Export s) c = c\<lparr>export_path := s\<rparr>"
| "set_setting (Other s) c = c"

lemma load_args_spell:
  assumes "ok_setting s"
  shows "load_args (spell (b, s) @ rest) c = load_args rest (set_setting s c)"
proof (cases s)
  case (Other x)
  with assms have "\<not> prefix ''--server='' x" "\<not> prefix ''--port='' x" "\<not> prefix ''--export='' x"
    "x \<noteq> ''--server''" "x \<noteq> ''--port''" "x \<noteq> ''--export''"
    by (auto simp: prefix_def)
  with Other show ?thesis by (cases b) simp_all
next
  case (Port n)
  with assms show ?thesis by (cases b) (simp_all add: with_port_def stoi_show)
qed (cases b; simp)+

lemma load_args_spelled:
  "\<forall>x \<in> set ss. ok_setting (snd x) \<Longrightarrow>
   load_args (concat (map spell ss)) c = (Inr (), fold (set_setting \<circ> snd) ss c)"
proof (induction ss arbitrary: c)
  case (Cons x ss)
  then show ?case using load_args_spell [of "snd x" "fst x"] by simp
qed simp

fun servers :: "setting list \<Rightarrow> string list" where
  "servers [] = []" | "servers (Server s # ss) = s # servers ss" | "servers (_ # ss) = servers ss"

fun ports :: "setting list \<Rightarrow> uint16 list" where
  "ports [] = []" | "ports (Port n # ss) = word_of_nat n # ports ss" | "ports (_ # ss) = ports ss"

fun exports :: "setting list \<Rightarrow> string list" where
  "exports [] = []" | "exports (Export s # ss) = s # exports ss" | "exports (_ # ss) = exports ss"

lemma fold_settings:
  "fold set_setting ss c = c\<lparr>server_host := last (server_host c # servers ss),
     server_port := last (server_port c # ports ss), export_path := last (export_path c # exports ss)\<rparr>"
proof (induction ss arbitrary: c)
  case (Cons s ss)
  then show ?case by (cases s) (simp_all add: last_ConsL last_ConsR)
qed simp

definition env_port :: "(string \<Rightarrow> string option) \<Rightarrow> std_exception + uint16" where
  "env_port env = (case env ''NFS_TEST_PORT'' of None \<Rightarrow> Inr 2049 | Some s \<Rightarrow> map_sum id word_of_int (stoi s))"

definition env_text :: "string option \<Rightarrow> string" where
  "env_text x = (case x of None \<Rightarrow> [] | Some s \<Rightarrow> s)"

definition env_context :: "(string \<Rightarrow> string option) \<Rightarrow> uint16 \<Rightarrow> NFS3TestContext \<Rightarrow> NFS3TestContext" where
  "env_context env p c =
     c\<lparr>server_host := env_text (env ''NFS_TEST_SERVER''), server_port := p,
       export_path := env_text (env ''NFS_TEST_EXPORT''),
       require_server := (env ''NFS_TEST_REQUIRE_SERVER'' = Some ''1'')\<rparr>"

lemma load_configuration_env:
  "env_port env = Inr p \<Longrightarrow> load_configuration env argv c = load_args (tl argv) (env_context env p c)"
  by (cases c) (auto simp: load_configuration_def env_port_def env_text_def env_context_def with_port_def
      Let_def map_sum_def split: option.splits sum.splits)

end
