(* ===== verification/TestFixture.thy ===== *)
theory TestFixture
  imports TestContext
begin

text \<open>
  The life of a test fixture: \<^verbatim>\<open>SetUp\<close>, the calls of a test and \<^verbatim>\<open>TearDown\<close> as a step relation, with the
  ownership of descriptors as its invariant, and the properties of the fixture.
\<close>

section \<open>Descriptors\<close>

text \<open>Reading and writing leave the set of open descriptors alone as well.\<close>

definition keeps_open :: "'w posix \<Rightarrow> ('w \<Rightarrow> int set) \<Rightarrow> bool" where
  "keeps_open os opn \<longleftrightarrow> keeps_descriptors os opn \<and>
     (\<forall>d bs w. opn (snd (sys_write os d bs w)) = opn w) \<and>
     (\<forall>d n w. opn (snd (sys_read os d n w)) = opn w)"

lemma keeps_openD:
  assumes "keeps_open os opn"
  shows "keeps_descriptors os opn"
    and "sys_write os d bs w = (r, w1) \<Longrightarrow> opn w1 = opn w"
    and "sys_read os d n w = (q, w1) \<Longrightarrow> opn w1 = opn w"
    and "sys_poll os d ev tm w = (k, w1) \<Longrightarrow> opn w1 = opn w"
proof -
  from assms show kd: "keeps_descriptors os opn" by (simp add: keeps_open_def)
  from assms show "sys_write os d bs w = (r, w1) \<Longrightarrow> opn w1 = opn w"
    by (metis keeps_open_def snd_conv)
  from assms show "sys_read os d n w = (q, w1) \<Longrightarrow> opn w1 = opn w"
    by (metis keeps_open_def snd_conv)
  show "sys_poll os d ev tm w = (k, w1) \<Longrightarrow> opn w1 = opn w"
    by (metis keeps_descriptorsD(7) [OF kd] snd_conv)
qed

lemma write_all_open:
  assumes ko: "keeps_open os opn" and w: "write_all os d bs tm k w = Some (ok, w')"
  shows "opn w' = opn w"
proof -
  let ?P = "\<lambda>os' (d :: int) (bs :: bytes) (tm :: int) (k :: nat) w (r :: bool \<times> _).
    os' = os \<longrightarrow> opn (snd r) = opn w"
  have "?P os d bs tm k w (ok, w')"
    by (rule write_all.raw_induct [where P = ?P, OF _ w])
      (auto split: if_splits sum.splits prod.splits simp: keeps_openD [OF ko])
  then show ?thesis by simp
qed

lemma read_all_open:
  assumes ko: "keeps_open os opn" and w: "read_all os d bs tm k w = Some ((ok, bs'), w')"
  shows "opn w' = opn w"
proof -
  let ?P = "\<lambda>os' (d :: int) (bs :: bytes) (tm :: int) (k :: nat) w (r :: (bool \<times> bytes) \<times> _).
    os' = os \<longrightarrow> opn (snd r) = opn w"
  have "?P os d bs tm k w ((ok, bs'), w')"
    by (rule read_all.raw_induct [where P = ?P, OF _ w])
      (auto split: if_splits sum.splits prod.splits simp: keeps_openD [OF ko])
  then show ?thesis by simp
qed

lemma returns_Ret: "returns x = Ret a \<longleftrightarrow> x = Some a"
  by (cases x) simp_all

lemma send_open:
  assumes ko: "keeps_open os opn" and "TcpTransport_send os t msg tm w = Ret (ok, w')"
  shows "opn w' = opn w"
  using assms(2)
  by (auto simp: TcpTransport_send_def Let_def obind_Ret_iff returns_Ret split: if_splits
      dest!: write_all_open [OF ko])

lemma recv_open:
  assumes ko: "keeps_open os opn" and "TcpTransport_recv os t msg tm w = Ret ((ok, msg'), w')"
  shows "opn w' = opn w"
  using assms(2)
  by (auto simp: TcpTransport_recv_def Let_def obind_Ret_iff returns_Ret split: if_splits
      dest!: read_all_open [OF ko])

lemma call_open:
  assumes ko: "keeps_open os opn" and "RpcClient_call os c prog vers proc args tm w = Ret ((r, c'), w')"
  shows "opn w' = opn w \<and> transport c' = transport c"
  using assms(2)
  by (auto simp: RpcClient_call_def Let_def obind_Ret_iff split: if_splits
      dest!: send_open [OF ko] recv_open [OF ko])

section \<open>Ownership\<close>

text \<open>The descriptors a client, an endpoint, a fixture holds; \<open>owns\<close> says that beside those in \<open>base\<close>
  exactly the fixture's are open.\<close>

definition rpc_holds :: "RpcClient \<Rightarrow> int set" where
  "rpc_holds c = holds (transport c)"

definition endpoint_holds :: "RPCEndpoint \<Rightarrow> int set" where
  "endpoint_holds ep = (case impl ep of None \<Rightarrow> {} | Some im \<Rightarrow> rpc_holds (rpc_client im))"

definition ctx_holds :: "NFS3TestContext \<Rightarrow> int set" where
  "ctx_holds c = (case ctx_client c of None \<Rightarrow> {} | Some cl \<Rightarrow> endpoint_holds (endpoint cl))"

definition owns :: "('w \<Rightarrow> int set) \<Rightarrow> int set \<Rightarrow> NFS3TestContext \<Rightarrow> 'w \<Rightarrow> bool" where
  "owns opn base c w \<longleftrightarrow> opn w = base \<union> ctx_holds c \<and> base \<inter> ctx_holds c = {}"

lemma holds_upto_one: "card (ctx_holds c) \<le> 1"
  by (simp add: ctx_holds_def endpoint_holds_def rpc_holds_def holds_def split: option.split)

lemma rpc_disconnect_open:
  assumes "keeps_descriptors os opn" and "RpcClient_disconnect os c w = (c', w')"
  shows "opn w' = opn w - rpc_holds c" and "rpc_holds c' = {}"
  using assms(2) disconnect_descriptors [OF assms(1), of "transport c" w]
  by (auto simp: RpcClient_disconnect_def rpc_holds_def split: prod.splits)

lemma rpc_connect_open:
  assumes "keeps_descriptors os opn" and "RpcClient_connect os RpcClient_init h p tm w = ((ok, c), w')"
  shows "opn w' = opn w \<union> rpc_holds c" and "opn w \<inter> rpc_holds c = {}"
proof -
  from assms(2) have t: "TcpTransport_connect os TcpTransport_init h p tm w = ((ok, transport c), w')"
    by (auto simp: RpcClient_connect_def RpcClient_init_def split: prod.splits)
  have "holds TcpTransport_init = {}" by (simp add: holds_def TcpTransport_init_def)
  with connect_descriptors [OF assms(1) t] show "opn w' = opn w \<union> rpc_holds c" "opn w \<inter> rpc_holds c = {}"
    by (auto simp: rpc_holds_def holds_def TcpTransport_is_connected_def)
qed

lemma endpoint_create_open:
  assumes "keeps_descriptors os opn" and "RPCEndpoint_create os h p tm w = (ep, w')"
  shows "opn w' = opn w \<union> endpoint_holds ep" and "opn w \<inter> endpoint_holds ep = {}"
  using assms(2) rpc_connect_open [OF assms(1), of h p "int_of_count tm" w]
  by (auto simp: RPCEndpoint_create_def endpoint_holds_def split: prod.splits)

lemma endpoint_destroy_open:
  assumes "keeps_descriptors os opn"
  shows "opn (RPCEndpoint_destroy os ep w) = opn w - endpoint_holds ep"
proof (cases "impl ep")
  case (Some im)
  obtain c' w' where d: "RpcClient_disconnect os (rpc_client im) w = (c', w')" by fastforce
  obtain t'' w'' where d2: "TcpTransport_disconnect os (transport c') w' = (t'', w'')" by fastforce
  from Some d d2 rpc_disconnect_open [OF assms d] disconnect_descriptors [OF assms d2] show ?thesis
    by (simp add: RPCEndpoint_destroy_def RPCEndpointImpl_destroy_def endpoint_holds_def rpc_holds_def)
qed (simp add: RPCEndpoint_destroy_def RPCEndpointImpl_destroy_def endpoint_holds_def)

lemma endpoint_shutdown_open:
  assumes "keeps_descriptors os opn" and "RPCEndpoint_shutdown os ep w = (ep', w')"
  shows "opn w' = opn w - endpoint_holds ep \<and> endpoint_holds ep' = {}"
  using assms(2) rpc_disconnect_open [OF assms(1)]
  by (auto simp: RPCEndpoint_shutdown_def endpoint_holds_def split: option.splits prod.splits)

lemma mounter_destroy_open:
  assumes "keeps_descriptors os opn"
  shows "opn (MountClient_destroy os m w) = opn w - rpc_holds (mount_rpc m)"
proof -
  obtain c1 w1 where d1: "RpcClient_disconnect os (mount_rpc m) w = (c1, w1)" by fastforce
  obtain c2 w2 where d2: "RpcClient_disconnect os c1 w1 = (c2, w2)" by fastforce
  obtain t3 w3 where d3: "TcpTransport_disconnect os (transport c2) w2 = (t3, w3)" by fastforce
  from d1 d2 d3 rpc_disconnect_open [OF assms d1] rpc_disconnect_open [OF assms d2]
    disconnect_descriptors [OF assms d3] show ?thesis
    by (simp add: MountClient_destroy_def rpc_holds_def)
qed

lemma mnt_open:
  assumes ko: "keeps_open os opn" and "mount_mnt os m path w = Ret ((r, m'), w')"
  shows "opn w' = opn w" and "rpc_holds (mount_rpc m') = rpc_holds (mount_rpc m)"
proof -
  from assms(2) have "(m', w') = (m, w) \<or>
      (\<exists>args q c. RpcClient_call os (mount_rpc m) MOUNTPROG MOUNTVERS MOUNTPROC_MNT args 10000 w = Ret ((q, c), w') \<and>
        m' = m\<lparr>mount_rpc := c\<rparr>)"
    by (auto simp: mount_mnt_def obind_Ret_iff Let_def split: if_splits prod.splits sum.splits)
  with call_open [OF ko] show "opn w' = opn w" "rpc_holds (mount_rpc m') = rpc_holds (mount_rpc m)"
    by (auto simp: rpc_holds_def)
qed

section \<open>The life of a fixture\<close>

text \<open>What happens to a fixture: the framework sets it up and tears it down, and a test makes calls on
  its client, shuts its endpoint down or gives it another root handle.\<close>

inductive fixture_step ::
    "'w posix \<Rightarrow> (string \<Rightarrow> string option) \<Rightarrow> string list \<Rightarrow> NFS3TestContext \<times> 'w \<Rightarrow> NFS3TestContext \<times> 'w \<Rightarrow> bool"
  for os env argv where
  set_up: "SetUp os env argv c w = Ret ((r, c'), w') \<Longrightarrow> fixture_step os env argv (c, w) (c', w')"
| tear_down: "TearDown os c w = (c', w') \<Longrightarrow> fixture_step os env argv (c, w) (c', w')"
| a_call: "ctx_client c = Some cl \<Longrightarrow> impl (endpoint cl) = Some im \<Longrightarrow>
    RpcClient_call os (rpc_client im) prog vers proc args tm w = Ret ((r, rc), w') \<Longrightarrow>
    fixture_step os env argv (c, w)
      (c\<lparr>ctx_client := Some (cl\<lparr>endpoint := (endpoint cl)\<lparr>impl := Some (im\<lparr>rpc_client := rc\<rparr>)\<rparr>\<rparr>)\<rparr>, w')"
| a_shutdown: "ctx_client c = Some cl \<Longrightarrow> RPCEndpoint_shutdown os (endpoint cl) w = (ep, w') \<Longrightarrow>
    fixture_step os env argv (c, w) (c\<lparr>ctx_client := Some (cl\<lparr>endpoint := ep\<rparr>)\<rparr>, w')"
| a_root: "ctx_client c = Some cl \<Longrightarrow>
    fixture_step os env argv (c, w) (c\<lparr>ctx_client := Some (set_root_handle cl fh)\<rparr>, w)"

text \<open>A call of the endpoint is a call of its RPC client, or nothing; so a method of the client is at
  most one step.\<close>

lemma endpoint_call_steps:
  assumes "RPCEndpoint_call os ser des r0 ep p args w = Ret ((r, ep'), w')"
  obtains (unchanged) "ep' = ep" "w' = w"
  | (call) im b q rc where "impl ep = Some im"
      "RpcClient_call os (rpc_client im) 100003 3 p b (int_of_count (timeout im)) w = Ret ((q, rc), w')"
      "ep' = ep\<lparr>impl := Some (im\<lparr>rpc_client := rc\<rparr>)\<rparr>"
proof (cases "\<not> RPCEndpoint_is_connected ep \<or> isl (fst (ser args XdrBuffer_new))")
  case True
  with assms have "ep' = ep \<and> w' = w"
    by (auto simp: RPCEndpoint_call_def split: if_splits prod.splits sum.splits)
  with unchanged show thesis by blast
next
  case False
  then obtain im where im: "impl ep = Some im"
    by (auto simp: RPCEndpoint_is_connected_def split: option.splits)
  obtain s b where sb: "ser args XdrBuffer_new = (s, b)" by fastforce
  with False obtain u where "s = Inr u" by (cases s) auto
  with assms False im sb obtain q rc where
    "RpcClient_call os (rpc_client im) 100003 3 p (buffer b) (int_of_count (timeout im)) w = Ret ((q, rc), w')"
    "ep' = ep\<lparr>impl := Some (im\<lparr>rpc_client := rc\<rparr>)\<rparr>"
    by (auto simp: RPCEndpoint_call_def obind_Ret_iff Let_def split: option.splits)
  with im call show thesis by blast
qed

lemma invoke_is_step:
  assumes "ctx_client c = Some cl" and "nfs3_invoke os ser des cl p args w = Ret ((r, cl'), w')"
  shows "(fixture_step os env argv)\<^sup>*\<^sup>* (c, w) (c\<lparr>ctx_client := Some cl'\<rparr>, w')"
proof -
  from assms(2) obtain r1 ep where e: "RPCEndpoint_call os ser des \<lparr>status = 0, resok = None\<rparr> (endpoint cl)
      (proc_val p) args w = Ret ((r1, ep), w')" and cl': "cl' = cl\<lparr>endpoint := ep\<rparr>"
    by (auto simp: nfs3_invoke_def obind_Ret_iff)
  from e show ?thesis
  proof (cases rule: endpoint_call_steps)
    case unchanged
    with assms(1) cl' have "c\<lparr>ctx_client := Some cl'\<rparr> = c" by simp
    with unchanged show ?thesis by simp
  next
    case (call im b q rc)
    from fixture_step.a_call [OF assms(1) call(1,2)] call(3) cl' show ?thesis by (simp add: r_into_rtranclp)
  qed
qed

lemma load_args_keeps:
  "ctx_client (snd (load_args args c)) = ctx_client c \<and> has_root_fh (snd (load_args args c)) = has_root_fh c \<and>
   ctx_root_fh (snd (load_args args c)) = ctx_root_fh c"
proof (induction args c rule: load_args.induct)
  case (2 arg rest c)
  then show ?case
    by (auto simp: with_port_def split: sum.split)
qed simp

lemma load_configuration_keeps:
  assumes "load_configuration env argv c = (r, c')"
  shows "ctx_client c' = ctx_client c" "has_root_fh c' = has_root_fh c" "ctx_root_fh c' = ctx_root_fh c"
proof -
  have "ctx_client c' = ctx_client c \<and> has_root_fh c' = has_root_fh c \<and> ctx_root_fh c' = ctx_root_fh c"
  proof (cases "env_port env")
    case (Inl e)
    with assms show ?thesis
      by (auto simp: load_configuration_def env_port_def with_port_def Let_def map_sum_def
          split: option.splits sum.splits)
  next
    case (Inr p)
    with load_configuration_env [OF Inr] assms have "c' = snd (load_args (tl argv) (env_context env p c))"
      by (metis snd_conv)
    with load_args_keeps [of "tl argv" "env_context env p c"] show ?thesis by (simp add: env_context_def)
  qed
  then show "ctx_client c' = ctx_client c" "has_root_fh c' = has_root_fh c" "ctx_root_fh c' = ctx_root_fh c"
    by blast+
qed

lemma ctx_holds_cong: "ctx_client c' = ctx_client c \<Longrightarrow> ctx_holds c' = ctx_holds c"
  by (simp add: ctx_holds_def)

lemma connect_client_owns:
  assumes kd: "keeps_descriptors os opn" and "owns opn base c w" and "connect_client os c w = (c', w')"
  shows "owns opn base c' w'"
proof -
  obtain ep w1 where e: "RPCEndpoint_create os (server_host c) (server_port c) 25000 w = (ep, w1)" by fastforce
  note new = endpoint_create_open [OF kd e]
  from assms(3) e have c': "ctx_holds c' = endpoint_holds ep"
    and w': "w' = (case ctx_client c of None \<Rightarrow> w1 | Some old \<Rightarrow> RPCEndpoint_destroy os (endpoint old) w1)"
    by (auto simp: connect_client_def ctx_holds_def NFS3TestClient_new_def RPCEndpoint_move_def endpoint_holds_def)
  have "opn w' = opn w1 - ctx_holds c"
    by (simp add: w' ctx_holds_def endpoint_destroy_open [OF kd] split: option.split)
  with assms(2) new c' show ?thesis by (auto simp: owns_def)
qed

lemma fetch_root_cases:
  assumes "fetch_root os c w = Ret ((r, c'), w')" and m: "MountClient_new os (server_host c) w = (m, w1)"
  obtains (unreachable) "w' = MountClient_destroy os m w1" "ctx_client c' = ctx_client c"
  | (asked) res m' w2 where "mount_mnt os m (export_path c) w1 = Ret ((res, m'), w2)"
      "w' = MountClient_destroy os m' w2" "ctx_client c' = ctx_client c"
proof (cases "MountClient_is_connected m")
  case True
  with assms obtain res m' w2 where mnt: "mount_mnt os m (export_path c) w1 = Ret ((res, m'), w2)"
    by (fastforce simp: fetch_root_def obind_Ret_iff)
  with assms True have "w' = MountClient_destroy os m' w2 \<and> ctx_client c' = ctx_client c"
    by (auto simp: fetch_root_def Let_def split: sum.splits expected.splits)
  with mnt asked show thesis by blast
qed (use assms unreachable in \<open>simp add: fetch_root_def\<close>)

lemma fetch_root_open:
  assumes ko: "keeps_open os opn" and "fetch_root os c w = Ret ((r, c'), w')"
  shows "opn w' = opn w" and "ctx_client c' = ctx_client c"
proof -
  note kd = keeps_openD(1) [OF ko]
  obtain m w1 where m: "MountClient_new os (server_host c) w = (m, w1)" by fastforce
  then obtain ok where "RpcClient_connect os RpcClient_init (server_host c) 111 3000 w = ((ok, mount_rpc m), w1)"
    by (auto simp: MountClient_new_def split: prod.splits)
  note o1 = rpc_connect_open [OF kd this]
  have close: "opn (MountClient_destroy os m' w2) = opn w"
    if "opn w2 = opn w1" "rpc_holds (mount_rpc m') = rpc_holds (mount_rpc m)" for m' w2
    using that o1 mounter_destroy_open [OF kd, of m' w2] by auto
  from assms(2) m have "opn w' = opn w \<and> ctx_client c' = ctx_client c"
  proof (cases rule: fetch_root_cases)
    case unreachable
    with close [of w1 m] show ?thesis by simp
  next
    case (asked res m' w2)
    with close [of w2 m'] mnt_open [OF ko asked(1)] show ?thesis by simp
  qed
  then show "opn w' = opn w" and "ctx_client c' = ctx_client c" by blast+
qed

lemma ctx_holds_root:
  "ctx_holds (c\<lparr>ctx_client := map_option (\<lambda>cl. set_root_handle cl fh) (ctx_client c)\<rparr>) = ctx_holds c"
  by (simp add: ctx_holds_def set_root_handle_def split: option.split)

lemma set_up_cases:
  assumes up: "SetUp os env argv c w = Ret ((r, c'), w')"
  obtains (early) "ctx_holds c' = ctx_holds c" "w' = w"
  | (connected) c1 c2 w2 c3 where "ctx_holds c1 = ctx_holds c" "connect_client os c1 w = (c2, w2)"
      "fetch_root os c2 w2 = Ret ((r, c3), w') \<or> (c3, w') = (c2, w2)" "ctx_holds c' = ctx_holds c3"
proof -
  obtain l c1 where l: "load_configuration env argv c = (l, c1)" by fastforce
  note same = ctx_holds_cong [OF load_configuration_keeps(1) [OF l]]
  obtain c2 w2 where cc: "connect_client os c1 w = (c2, w2)" by fastforce
  show thesis
  proof (cases "l = Inr () \<and> server_host c1 \<noteq> [] \<and> export_path c1 \<noteq> []")
    case False
    with up l have "c' = c1 \<and> w' = w"
      by (cases l) (auto simp: SetUp_def split: if_splits)
    with same early show thesis by simp
  next
    case True
    with up l cc obtain r3 c3 where
      "(if \<not> has_root_fh c2 then fetch_root os c2 w2 else Ret ((Ready, c2), w2)) = Ret ((r3, c3), w')"
      and c': "c' = c3 \<and> r = r3 \<or>
        r = r3 \<and> c' = c3\<lparr>ctx_client := map_option (\<lambda>cl. set_root_handle cl (ctx_root_fh c3)) (ctx_client c3)\<rparr>"
      by (fastforce simp: SetUp_def obind_Ret_iff split: if_splits)
    then have "fetch_root os c2 w2 = Ret ((r, c3), w') \<or> (c3, w') = (c2, w2)"
      by (auto split: if_splits)
    moreover from c' have "ctx_holds c' = ctx_holds c3" by (auto simp: ctx_holds_root)
    ultimately show thesis using connected [OF same cc] by blast
  qed
qed

lemma set_up_owns:
  assumes ko: "keeps_open os opn" and own: "owns opn base c w"
    and up: "SetUp os env argv c w = Ret ((r, c'), w')"
  shows "owns opn base c' w'"
  using up
proof (cases rule: set_up_cases)
  case early
  with own show ?thesis by (simp add: owns_def)
next
  case (connected c1 c2 w2 c3)
  from connected(1) own have "owns opn base c1 w" by (simp add: owns_def)
  from connect_client_owns [OF keeps_openD(1) [OF ko] this connected(2)]
  have "owns opn base c2 w2" .
  moreover from connected(3) have "opn w' = opn w2 \<and> ctx_holds c3 = ctx_holds c2"
  proof
    assume "fetch_root os c2 w2 = Ret ((r, c3), w')"
    from fetch_root_open [OF ko this] show ?thesis by (simp add: ctx_holds_def)
  qed simp
  ultimately show ?thesis using connected(4) by (simp add: owns_def)
qed

lemma tear_down_owns:
  assumes kd: "keeps_descriptors os opn" and own: "owns opn base c w" and down: "TearDown os c w = (c', w')"
  shows "owns opn base c' w'" and "ctx_client c' = None"
proof -
  show "ctx_client c' = None"
    using down by (auto simp: TearDown_def split: option.splits prod.splits)
  show "owns opn base c' w'"
  proof (cases "ctx_client c")
    case (Some cl)
    obtain ep w1 where s: "RPCEndpoint_shutdown os (endpoint cl) w = (ep, w1)" by fastforce
    from Some s down endpoint_shutdown_open [OF kd s] endpoint_destroy_open [OF kd, of ep w1] own
    show ?thesis by (auto simp: TearDown_def owns_def ctx_holds_def)
  qed (use own down in \<open>simp add: TearDown_def\<close>)
qed

lemma fixture_step_owns:
  assumes ko: "keeps_open os opn" and own: "owns opn base c w"
    and "fixture_step os env argv (c, w) (c', w')"
  shows "owns opn base c' w'"
  using assms(3)
proof (cases rule: fixture_step.cases)
  case set_up
  with set_up_owns [OF ko own] show ?thesis by simp
next
  case tear_down
  with tear_down_owns(1) [OF keeps_openD(1) [OF ko] own] show ?thesis by simp
next
  case a_call
  with own show ?thesis
    by (auto simp: owns_def ctx_holds_def endpoint_holds_def rpc_holds_def
        dest!: call_open [OF ko])
next
  case a_shutdown
  with own show ?thesis
    by (auto simp: owns_def ctx_holds_def dest!: endpoint_shutdown_open [OF keeps_openD(1) [OF ko]])
next
  case a_root
  with own show ?thesis by (auto simp: owns_def ctx_holds_def set_root_handle_def)
qed

lemma fixture_steps_own:
  assumes ko: "keeps_open os opn" and "(fixture_step os env argv)\<^sup>*\<^sup>* s s'"
  shows "owns opn base (fst s) (snd s) \<Longrightarrow> owns opn base (fst s') (snd s')"
  using assms(2)
proof (induction rule: rtranclp_induct)
  case (step t u)
  with fixture_step_owns [OF ko, of base "fst t" "snd t" env argv "fst u" "snd u"] show ?case by simp
qed

section \<open>Reading the configuration again\<close>

text \<open>The configuration does not depend on the members that are not part of it.\<close>

definition with_members :: "nfs_fh3 \<Rightarrow> bool \<Rightarrow> NFS3TestClient option \<Rightarrow> NFS3TestContext \<Rightarrow> NFS3TestContext" where
  "with_members fh has cl c = c\<lparr>ctx_root_fh := fh, has_root_fh := has, ctx_client := cl\<rparr>"

lemma with_members_config:
  "with_members fh has cl (c\<lparr>server_host := s\<rparr>) = (with_members fh has cl c)\<lparr>server_host := s\<rparr>"
  "with_members fh has cl (c\<lparr>server_port := p\<rparr>) = (with_members fh has cl c)\<lparr>server_port := p\<rparr>"
  "with_members fh has cl (c\<lparr>export_path := s\<rparr>) = (with_members fh has cl c)\<lparr>export_path := s\<rparr>"
  "with_members fh has cl (c\<lparr>require_server := b\<rparr>) = (with_members fh has cl c)\<lparr>require_server := b\<rparr>"
  by (simp_all add: with_members_def)

lemma with_port_members:
  assumes "\<And>c. k (with_members fh has cl c) = apsnd (with_members fh has cl) (k c)"
  shows "with_port s (with_members fh has cl c) k = apsnd (with_members fh has cl) (with_port s c k)"
  using assms by (simp add: with_port_def with_members_config [symmetric] split: sum.split)

lemma load_args_members:
  "load_args args (with_members fh has cl c) = apsnd (with_members fh has cl) (load_args args c)"
proof (induction args arbitrary: c rule: measure_induct_rule [where f = length])
  case (less args)
  show ?case
  proof (cases args)
    case (Cons arg rest)
    have "load_args (tl rest) (with_members fh has cl c) = apsnd (with_members fh has cl) (load_args (tl rest) c)"
      and "load_args rest (with_members fh has cl c) = apsnd (with_members fh has cl) (load_args rest c)" for c
      using less [of "tl rest"] less [of rest] Cons by simp_all
    with Cons show ?thesis by (simp add: with_port_members with_members_config [symmetric])
  qed simp
qed

lemma load_configuration_members:
  "load_configuration env argv (with_members fh has cl c) =
     apsnd (with_members fh has cl) (load_configuration env argv c)"
  by (simp add: load_configuration_def Let_def with_members_config [symmetric] load_args_members
      with_port_members split: option.split)

lemma load_configuration_reset:
  "load_configuration env argv (c\<lparr>server_host := h, export_path := e, server_port := p, require_server := q\<rparr>) =
   load_configuration env argv c"
  by (simp add: load_configuration_def)

lemma load_configuration_again:
  assumes "load_configuration env argv c = (Inr (), c1)"
  shows "load_configuration env argv (with_members fh has cl c1) = (Inr (), with_members fh has cl c1)"
proof -
  note keeps = load_configuration_keeps [OF assms]
  have "c1 = c\<lparr>server_host := server_host c1, export_path := export_path c1, server_port := server_port c1,
      require_server := require_server c1\<rparr>"
    using keeps by simp
  then have "load_configuration env argv c1 = (Inr (), c1)"
    using load_configuration_reset assms by metis
  then show ?thesis by (simp add: load_configuration_members)
qed

lemma fst_move: "fst (RPCEndpoint_move ep) = ep"
  by (simp add: RPCEndpoint_move_def)

section \<open>Properties of the fixture\<close>

text \<open>
  C15: the configuration. Whatever mix of spellings the command line uses (\<^verbatim>\<open>--server X\<close> or
  \<^verbatim>\<open>--server=X\<close>), among whatever other arguments, each setting is that of the last option that
  makes it, else that of the environment, else the default; nothing else of the fixture
  changes.
\<close>

theorem configuration_read:
  assumes "env_port env = Inr p" and "\<forall>x \<in> set ss. ok_setting (snd x)"
  shows "load_configuration env (prog # concat (map spell ss)) c =
    (Inr (), c\<lparr>server_host := last (env_text (env ''NFS_TEST_SERVER'') # servers (map snd ss)),
      server_port := last (p # ports (map snd ss)),
      export_path := last (env_text (env ''NFS_TEST_EXPORT'') # exports (map snd ss)),
      require_server := (env ''NFS_TEST_REQUIRE_SERVER'' = Some ''1'')\<rparr>)"
proof -
  have "load_configuration env (prog # concat (map spell ss)) c =
      (Inr (), fold set_setting (map snd ss) (env_context env p c))"
    by (simp add: load_configuration_env [OF assms(1)] load_args_spelled [OF assms(2)] fold_map comp_def)
  then show ?thesis by (simp add: fold_settings) (simp add: env_context_def)
qed

definition sample_env :: "string \<Rightarrow> string option" where
  "sample_env = [''NFS_TEST_SERVER'' \<mapsto> ''nfs1'', ''NFS_TEST_PORT'' \<mapsto> ''2050'',
     ''NFS_TEST_REQUIRE_SERVER'' \<mapsto> ''1'']"

definition sample_settings :: "(bool \<times> setting) list" where
  "sample_settings = [(True, Export ''/srv''), (False, Other ''--gtest_repeat=2''),
     (False, Server ''nfs2''), (True, Server ''localhost'')]"

lemma sample_settings_args:
  "concat (map spell sample_settings) =
     [''--export'', ''/srv'', ''--gtest_repeat=2'', ''--server=nfs2'', ''--server'', ''localhost'']"
  by (simp add: sample_settings_def)

lemma sample_env_port: "env_port sample_env = Inr 2050"
  by (simp add: env_port_def sample_env_def stoi_def take_sign_def isspace_def isdigit_def digits_value_def)

theorem configuration_read_witness:
  "load_configuration sample_env [''test'', ''--export'', ''/srv'', ''--gtest_repeat=2'', ''--server=nfs2'',
      ''--server'', ''localhost''] NFS3TestContext_init =
    (Inr (), NFS3TestContext_init\<lparr>server_host := ''localhost'', server_port := 2050, export_path := ''/srv'',
      require_server := True\<rparr>)"
proof -
  have "\<forall>x \<in> set sample_settings. ok_setting (snd x)"
    by (simp add: sample_settings_def prefix_def)
  from configuration_read [OF sample_env_port this, of "''test''" NFS3TestContext_init]
  show ?thesis
    unfolding sample_settings_args by (simp add: sample_settings_def sample_env_def env_text_def)
qed

text \<open>
  C16: the number of a port: blanks, a sign, digits and anything after them are accepted. A value an
  \<^verbatim>\<open>int\<close> can hold is cut to its low 16 bits without a word, so 70000 is port 4464 and -1 is 65535;
  a larger one leaves \<^verbatim>\<open>SetUp\<close> as an exception before anything is opened.
\<close>

theorem port_option_bounds:
  assumes "env_port env = Inr p" and "\<forall>b \<in> set blanks. isspace b"
    and "junk \<noteq> [] \<longrightarrow> \<not> isdigit (hd junk)"
  shows "(if - (2 ^ 31) \<le> number_value sg n \<and> number_value sg n < 2 ^ 31
     then \<exists>c'. load_configuration env [prog, ''--port'', number_text blanks sg n junk] c = (Inr (), c') \<and>
        uint (server_port c') = number_value sg n mod 65536
     else \<exists>c'. SetUp os env [prog, ''--port'', number_text blanks sg n junk] c w = Ret ((Threw Out_of_range, c'), w))"
  using stoi_number [OF assms(2), of junk sg n] assms(3)
  by (auto simp: SetUp_def load_configuration_env [OF assms(1)] with_port_def uint_word_of_int)

theorem port_option_bounds_witness:
  "\<exists>c'. load_configuration sample_env [''test'', ''--port'', ''70000''] NFS3TestContext_init = (Inr (), c') \<and>
     uint (server_port c') = 4464"
proof -
  have t: "number_text [] No_sign 70000 [] = ''70000''"
    by (simp add: number_text_def show_nat.simps char_of_eq_iff)
  from port_option_bounds [OF sample_env_port, of "[]" "[]" No_sign 70000 "''test''" NFS3TestContext_init, unfolded t]
  show ?thesis by (simp add: number_value_def)
qed

text \<open>
  C13: the fixture leaks no descriptor: whatever sequence of set-ups that succeed, fail, are skipped or
  throw, of calls, shutdowns and tear-downs it goes through, the descriptors open beside those
  that were open before are exactly the one its client holds, if any; after a tear-down there
  is none.
\<close>

theorem fixture_descriptors:
  assumes "keeps_open os opn" and "ctx_client c = None"
    and "(fixture_step os env argv)\<^sup>*\<^sup>* (c, w) (c', w')"
  shows "opn w' = opn w \<union> ctx_holds c' \<and> opn w \<inter> ctx_holds c' = {} \<and> card (ctx_holds c') \<le> 1 \<and>
    opn (snd (TearDown os c' w')) = opn w"
proof -
  have "owns opn (opn w) c w" using assms(2) by (simp add: owns_def ctx_holds_def)
  with fixture_steps_own [OF assms(1,3), of "opn w"] have own: "owns opn (opn w) c' w'" by simp
  from tear_down_owns [OF keeps_openD(1) [OF assms(1)] own, of "fst (TearDown os c' w')" "snd (TearDown os c' w')"]
  have "opn (snd (TearDown os c' w')) = opn w" by (simp add: owns_def ctx_holds_def)
  with own holds_upto_one show ?thesis by (simp add: owns_def)
qed

lemma net_os_keeps_open: "keeps_open (net_os peer) (\<lambda>w. set (net_open w))"
  using net_os_descriptors [of peer] by (simp add: keeps_open_def net_os_def)

lemma set_up_mounts:
  assumes "load_configuration env argv c = (Inr (), c1)" and "server_host c1 \<noteq> []" and "export_path c1 \<noteq> []"
    and "length (export_path c1) \<le> UINT32_MAX" and "\<not> has_root_fh c"
    and "length fh \<le> UINT32_MAX" and "length flavors \<le> 10"
    and "connect_client os c1 w = (c2, w2)" and "MountClient_new os (server_host c1) w2 = (m, w3)"
    and "mount_served os out rcv inp stall m w3 MOUNTPROC_MNT (enc_string (export_path c1))
      (enc_mountres fh flavors) rest"
  obtains ep w' where "SetUp os env argv c w = Ret ((Ready,
      with_members \<lparr>nfs_fh3.data = fh\<rparr> True (Some (set_root_handle (NFS3TestClient_new ep) \<lparr>nfs_fh3.data = fh\<rparr>)) c1), w')"
proof -
  let ?fh = "\<lparr>nfs_fh3.data = fh\<rparr>"
  obtain w4 where mnt: "mount_mnt os m (export_path c1) w3 =
      Ret ((Inr (Value \<lparr>mount_root_handle = ?fh, mount_auth_flavors = []\<rparr>),
        m\<lparr>mount_rpc := (mount_rpc m)\<lparr>xid := xid (mount_rpc m) + 1\<rparr>\<rparr>), w4)"
    using mnt_accepted [OF assms(4,6,7,10)] by blast
  have conn: "MountClient_is_connected m" using mount_call [OF assms(10)] by blast
  obtain ep where c2: "c2 = c1\<lparr>ctx_client := Some (NFS3TestClient_new ep)\<rparr>"
    using assms(8) by (auto simp: connect_client_def fst_move split: prod.splits)
  let ?cl = "set_root_handle (NFS3TestClient_new ep) ?fh"
  let ?c = "with_members ?fh True (Some ?cl) c1"
  have root1: "\<not> has_root_fh c1" using load_configuration_keeps(2) [OF assms(1)] assms(5) by simp
  have "\<exists>w'. SetUp os env argv c w = Ret ((Ready, ?c), w')"
    using assms(1-3,8,9) root1 conn mnt by (auto simp: SetUp_def fetch_root_def c2 with_members_def)
  then show thesis using that by blast
qed

text \<open>
  C14: the first set-up with a server that exports the path mounts it: the client's root handle is the
  handle of the reply, and the mounter is gone. Every later one, on whatever system and
  configured alike, only opens the NFS connection and takes the handle that was kept; and
  it reports no failure even where that connection could not be made.
\<close>

theorem set_up_mounts_once:
  assumes "load_configuration env argv c = (Inr (), c1)" and "server_host c1 \<noteq> []" and "export_path c1 \<noteq> []"
    and "length (export_path c1) \<le> UINT32_MAX" and "\<not> has_root_fh c"
    and "length fh \<le> UINT32_MAX" and "length flavors \<le> 10"
    and "connect_client os c1 w = (c2, w2)" and "MountClient_new os (server_host c1) w2 = (m, w3)"
    and "mount_served os out rcv inp stall m w3 MOUNTPROC_MNT (enc_string (export_path c1))
      (enc_mountres fh flavors) rest"
  shows "\<exists>c' w' cl. SetUp os env argv c w = Ret ((Ready, c'), w') \<and>
    ctx_client c' = Some cl \<and> root_handle cl = \<lparr>nfs_fh3.data = fh\<rparr> \<and>
    (\<forall>(os2 :: 'v posix) w2. \<exists>c''. SetUp os2 env argv (fst (TearDown os c' w')) w2 =
        Ret ((Ready, c''), snd (RPCEndpoint_create os2 (server_host c1) (server_port c1) 25000 w2)) \<and>
      ctx_client c'' = Some (set_root_handle
        (NFS3TestClient_new (fst (RPCEndpoint_create os2 (server_host c1) (server_port c1) 25000 w2)))
        \<lparr>nfs_fh3.data = fh\<rparr>))"
proof -
  let ?fh = "\<lparr>nfs_fh3.data = fh\<rparr>"
  obtain ep w' where up: "SetUp os env argv c w =
      Ret ((Ready, with_members ?fh True (Some (set_root_handle (NFS3TestClient_new ep) ?fh)) c1), w')"
    using set_up_mounts [OF assms] by metis
  let ?cl = "set_root_handle (NFS3TestClient_new ep) ?fh"
  let ?c = "with_members ?fh True (Some ?cl) c1"
  have down: "fst (TearDown os ?c w') = with_members ?fh True None c1"
    by (simp add: TearDown_def with_members_def split: prod.split)
  have "\<exists>c''. SetUp os2 env argv (with_members ?fh True None c1) w2 =
      Ret ((Ready, c''), snd (RPCEndpoint_create os2 (server_host c1) (server_port c1) 25000 w2)) \<and>
    ctx_client c'' = Some (set_root_handle
      (NFS3TestClient_new (fst (RPCEndpoint_create os2 (server_host c1) (server_port c1) 25000 w2))) ?fh)"
    for os2 :: "'v posix" and w2 :: 'v
    using assms(2,3) load_configuration_again [OF assms(1), of ?fh True None]
    by (auto simp: SetUp_def connect_client_def with_members_def fst_move split: prod.splits)
  with up show ?thesis
    by (intro exI [of _ ?c] exI [of _ w'] exI [of _ ?cl])
      (simp add: down, simp add: with_members_def root_handle_def set_root_handle_def)
qed

text \<open>A server that exports \<^verbatim>\<open>/srv\<close>, on the system of \<open>net0\<close>.\<close>

definition sample_peer :: "bytes \<Rightarrow> bytes" where
  "sample_peer _ = frame (enc_accepted_reply 1 AUTH_NONE [] 0 (enc_mountres [1, 2, 3, 4] [1]))"

abbreviation sample_os :: "net posix" where
  "sample_os \<equiv> net_os sample_peer"

definition sample_argv :: "string list" where
  "sample_argv = ''test'' # concat (map spell sample_settings)"

definition sample_context :: NFS3TestContext where
  "sample_context = NFS3TestContext_init\<lparr>server_host := ''localhost'', server_port := 2050,
     export_path := ''/srv'', require_server := True\<rparr>"

lemma sample_configuration: "load_configuration sample_env sample_argv NFS3TestContext_init = (Inr (), sample_context)"
proof -
  have "\<forall>x \<in> set sample_settings. ok_setting (snd x)"
    by (simp add: sample_settings_def prefix_def)
  from load_args_spelled [OF this, of "env_context sample_env 2050 NFS3TestContext_init"]
  have "load_configuration sample_env sample_argv NFS3TestContext_init =
      (Inr (), fold (set_setting \<circ> snd) sample_settings (env_context sample_env 2050 NFS3TestContext_init))"
    unfolding sample_argv_def load_configuration_env [OF sample_env_port] by simp
  then show ?thesis
    by (simp add: sample_settings_def sample_context_def env_context_def sample_env_def env_text_def)
qed

lemma sample_connect:
  "RpcClient_connect sample_os RpcClient_init ''localhost'' p tm w =
     ((True, \<lparr>transport = \<lparr>fd = 1 + foldr max (net_open w) 2\<rparr>, xid = 1\<rparr>),
      w\<lparr>net_open := (1 + foldr max (net_open w) 2) # net_open w\<rparr>)"
  using foldr_max_ge [of 2 "net_open w"]
  by (simp add: RpcClient_connect_def RpcClient_init_def TcpTransport_connect_def TcpTransport_init_def
      TcpTransport_disconnect_def net_os_def Let_def)

lemma sample_served:
  "\<exists>c2 w2 m w3. connect_client sample_os sample_context net0 = (c2, w2) \<and>
     MountClient_new sample_os (server_host sample_context) w2 = (m, w3) \<and>
     mount_served sample_os net_sent net_got (net_coming sample_peer) net_interrupts m w3 MOUNTPROC_MNT
       (enc_string (export_path sample_context)) (enc_mountres [1, 2, 3, 4] [1]) []"
proof -
  let ?w2 = "net0\<lparr>net_open := [4, 3]\<rparr>" and ?w3 = "net0\<lparr>net_open := [5, 4, 3]\<rparr>"
  let ?m = "\<lparr>mount_rpc = \<lparr>transport = \<lparr>fd = 5\<rparr>, xid = 1\<rparr>, mount_host = ''localhost''\<rparr>"
  obtain c2 where "connect_client sample_os sample_context net0 = (c2, ?w2)"
    by (simp add: connect_client_def RPCEndpoint_create_def sample_context_def NFS3TestContext_init_def
        sample_connect net0_def RpcClient_init_def [symmetric])
  moreover have "MountClient_new sample_os (server_host sample_context) ?w2 = (?m, ?w3)"
    by (simp add: MountClient_new_def sample_context_def sample_connect net0_def)
  moreover have "exchange sample_os net_sent net_got (net_coming sample_peer) net_interrupts (mount_rpc ?m) ?w3 req
      (enc_accepted_reply 1 AUTH_NONE [] 0 (enc_mountres [1, 2, 3, 4] [1])) []" for req
    by (rule net_exchange)
      (simp_all add: RpcClient_is_connected_def TcpTransport_is_connected_def sample_peer_def net0_def
        enc_accepted_reply_def enc_opaque_auth_def enc_mountres_def enc_opaque_def pad4_def)
  moreover have "AUTH_NONE \<noteq> AUTH_SYS" by (simp add: AUTH_NONE_def AUTH_SYS_def)
  ultimately show ?thesis unfolding mount_served_def by fastforce
qed

theorem set_up_mounts_once_witness:
  "\<exists>c' w' cl. SetUp sample_os sample_env sample_argv NFS3TestContext_init net0 = Ret ((Ready, c'), w') \<and>
     ctx_client c' = Some cl \<and> root_handle cl = \<lparr>nfs_fh3.data = [1, 2, 3, 4]\<rparr>"
proof -
  from sample_served obtain c2 w2 m w3 where
    c: "connect_client sample_os sample_context net0 = (c2, w2)"
      "MountClient_new sample_os (server_host sample_context) w2 = (m, w3)"
      "mount_served sample_os net_sent net_got (net_coming sample_peer) net_interrupts m w3 MOUNTPROC_MNT
       (enc_string (export_path sample_context)) (enc_mountres [1, 2, 3, 4] [1]) []" by blast
  from set_up_mounts_once [OF sample_configuration _ _ _ _ _ _ c] show ?thesis
    by (fastforce simp: sample_context_def NFS3TestContext_init_def)
qed

theorem fixture_descriptors_witness:
  "\<exists>c' w'. (fixture_step sample_os sample_env sample_argv)\<^sup>*\<^sup>* (NFS3TestContext_init, net0) (c', w') \<and>
     ctx_client c' \<noteq> None \<and> set (net_open w') = {3} \<union> ctx_holds c' \<and>
     set (net_open (snd (TearDown sample_os c' w'))) = {3}"
proof -
  from sample_served obtain c2 w2 m w3 where
    c: "connect_client sample_os sample_context net0 = (c2, w2)"
      "MountClient_new sample_os (server_host sample_context) w2 = (m, w3)"
      "mount_served sample_os net_sent net_got (net_coming sample_peer) net_interrupts m w3 MOUNTPROC_MNT
       (enc_string (export_path sample_context)) (enc_mountres [1, 2, 3, 4] [1]) []" by blast
  obtain c' w' where up: "SetUp sample_os sample_env sample_argv NFS3TestContext_init net0 = Ret ((Ready, c'), w')"
    and cl: "ctx_client c' \<noteq> None"
    by (rule set_up_mounts [OF sample_configuration _ _ _ _ _ _ c])
      (auto simp: sample_context_def NFS3TestContext_init_def with_members_def)
  from up have steps: "(fixture_step sample_os sample_env sample_argv)\<^sup>*\<^sup>* (NFS3TestContext_init, net0) (c', w')"
    by (intro r_into_rtranclp set_up)
  have "ctx_client NFS3TestContext_init = None" by (simp add: NFS3TestContext_init_def)
  from fixture_descriptors [OF net_os_keeps_open this steps] steps cl show ?thesis
    by (intro exI [of _ c'] exI [of _ w']) (simp add: net0_def)
qed

end
