(* ===== verification/TirpcContext.thy ===== *)
theory TirpcContext
  imports TestFixture TirpcClient TirpcMount TirpcLifetime
begin

text \<open>
  The fixture of the tests in the build with libtirpc: \<^verbatim>\<open>test_context.hpp\<close> over the endpoint and the MOUNT
  client of that build. The configuration is read by the same code; the object has the other
  client. \<open>maxsize\<close> is what \<^verbatim>\<open>xdr_string\<close> finds in its third argument.
\<close>

section \<open>class NFS3TestContext over libtirpc\<close>

record TTestContext =
  tconfig :: NFS3TestContext
  tctx_client :: "TNFS3TestClient option"

datatype tset_up_end = TReady | TSkipped | TNot_configured | TNo_mount_service | TMnt_failed MountError
  | TThrew std_exception

definition tirpc_connect_client :: "'w clnt_lib \<Rightarrow> TTestContext \<Rightarrow> 'w \<Rightarrow> TTestContext \<times> 'w" where
  "tirpc_connect_client L c w =
     (let (ep, w) = TRPCEndpoint_create L (server_host (tconfig c)) (server_port (tconfig c)) 25000 w;
          cl = TNFS3TestClient_new (fst (TRPCEndpoint_move ep));
          w = (case tctx_client c of None \<Rightarrow> w | Some old \<Rightarrow> TRPCEndpoint_destroy L (tendpoint old) w)
      in (c\<lparr>tctx_client := Some cl\<rparr>, w))"

definition tirpc_fetch_root ::
    "'x tirpc \<Rightarrow> (cptr, fhstatus, 'x, 'w) clnt_call \<Rightarrow> nat \<Rightarrow> 'w clnt_lib \<Rightarrow> TTestContext \<Rightarrow> 'w \<Rightarrow>
     ((tset_up_end \<times> TTestContext) \<times> 'w) fres" where
  "tirpc_fetch_root T clnt_call maxsize L c w =
     (let (mounter, w) = TMountClient_new L (server_host (tconfig c)) w
      in if \<not> TMountClient_is_connected mounter
      then Fin ((TNo_mount_service, c), TMountClient_destroy L mounter w)
      else fbind (tirpc_mnt T clnt_call maxsize mounter (export_path (tconfig c)) w) (\<lambda>(result, w).
        let w = TMountClient_destroy L mounter w
        in case result of
          Unexpected e \<Rightarrow> Fin ((TMnt_failed e, c), w)
        | Value r \<Rightarrow>
            Fin ((TReady, c\<lparr>tconfig := (tconfig c)\<lparr>ctx_root_fh := mount_root_handle r, has_root_fh := True\<rparr>\<rparr>), w)))"

definition tirpc_SetUp ::
    "'x tirpc \<Rightarrow> (cptr, fhstatus, 'x, 'w) clnt_call \<Rightarrow> nat \<Rightarrow> 'w clnt_lib \<Rightarrow> (string \<Rightarrow> string option) \<Rightarrow>
     string list \<Rightarrow> TTestContext \<Rightarrow> 'w \<Rightarrow> ((tset_up_end \<times> TTestContext) \<times> 'w) fres" where
  "tirpc_SetUp T clnt_call maxsize L env argv c w =
     (case load_configuration env argv (tconfig c) of
        (Inl e, cf) \<Rightarrow> Fin ((TThrew e, c\<lparr>tconfig := cf\<rparr>), w)
      | (Inr _, cf) \<Rightarrow>
          if server_host cf = [] \<or> export_path cf = []
          then Fin ((if require_server cf then TNot_configured else TSkipped, c\<lparr>tconfig := cf\<rparr>), w)
          else
            let (c, w) = tirpc_connect_client L (c\<lparr>tconfig := cf\<rparr>) w
            in fbind (if \<not> has_root_fh (tconfig c) then tirpc_fetch_root T clnt_call maxsize L c w
                      else Fin ((TReady, c), w))
              (\<lambda>((r, c), w).
                if r \<noteq> TReady then Fin ((r, c), w)
                else Fin ((TReady, c\<lparr>tctx_client :=
                       map_option (\<lambda>cl. cl\<lparr>troot_fh := ctx_root_fh (tconfig c)\<rparr>) (tctx_client c)\<rparr>), w)))"

definition tirpc_TearDown :: "'w clnt_lib \<Rightarrow> TTestContext \<Rightarrow> 'w \<Rightarrow> TTestContext \<times> 'w" where
  "tirpc_TearDown L c w =
     (case tctx_client c of
        None \<Rightarrow> (c, w)
      | Some cl \<Rightarrow>
          (case TRPCEndpoint_shutdown L (tendpoint cl) w of
             (ep, w) \<Rightarrow> (c\<lparr>tctx_client := None\<rparr>, TRPCEndpoint_destroy L ep w)))"

section \<open>Handles\<close>

text \<open>\<open>towns\<close>: beside those in \<open>base\<close> exactly the handle of the fixture's client exists.\<close>

definition theld :: "TTestContext \<Rightarrow> nat set" where
  "theld c = (case tctx_client c of None \<Rightarrow> {} | Some cl \<Rightarrow> set (handle (tendpoint cl)))"

definition towns :: "('w \<Rightarrow> nat set) \<Rightarrow> nat set \<Rightarrow> TTestContext \<Rightarrow> 'w \<Rightarrow> bool" where
  "towns live base c w \<longleftrightarrow> live w = base \<union> theld c \<and> base \<inter> theld c = {}"

lemma destroy_live:
  assumes "keeps_handles L call live" and "set (handle ep) \<subseteq> live w"
  shows "live (TRPCEndpoint_destroy L ep w) = live w - set (handle ep)"
  using assms unfolding keeps_handles_def
  by (auto simp: TRPCEndpoint_destroy_def TRPCEndpoint_impl_destroy_def handle_def split: option.splits)

lemma create_live:
  assumes "keeps_handles L call live" and "TRPCEndpoint_create L h p tm w = (ep, w')"
  shows "live w' = live w \<union> set (handle ep) \<and> live w \<inter> set (handle ep) = {}"
  by (rule create_handle [OF assms]) auto

lemma tirpc_connect_owns:
  assumes kh: "keeps_handles L call live" and own: "towns live base c w"
    and "tirpc_connect_client L c w = (c', w')"
  shows "towns live base c' w'"
proof -
  obtain ep w1 where e: "TRPCEndpoint_create L (server_host (tconfig c)) (server_port (tconfig c)) 25000 w = (ep, w1)"
    by fastforce
  note new = create_live [OF kh e]
  from assms(3) e have c': "theld c' = set (handle ep)"
    and w': "w' = (case tctx_client c of None \<Rightarrow> w1 | Some old \<Rightarrow> TRPCEndpoint_destroy L (tendpoint old) w1)"
    by (auto simp: tirpc_connect_client_def theld_def TNFS3TestClient_new_def TRPCEndpoint_move_def handle_def)
  have "live w' = live w1 - theld c"
  proof (cases "tctx_client c")
    case (Some old)
    then have "set (handle (tendpoint old)) \<subseteq> live w1" using own new by (auto simp: towns_def theld_def)
    from destroy_live [OF kh this] Some show ?thesis by (simp add: w' theld_def)
  qed (simp add: w' theld_def)
  with own new c' show ?thesis by (auto simp: towns_def)
qed

lemma tirpc_mounter_live:
  assumes kh: "keeps_handles L call live" and "TMountClient_new L h w = (m, w1)"
  shows "live (TMountClient_destroy L m w1) = live w"
    and "live w2 = live w1 \<Longrightarrow> live (TMountClient_destroy L m w2) = live w"
proof -
  obtain c w0 where c: "clnt_create L (c_string h) MOUNTPROG MOUNTVERS ''tcp'' w = (c, w0)" by fastforce
  from kh have law: "case clnt_create L (c_string h) MOUNTPROG MOUNTVERS ''tcp'' w of
        (None, w') \<Rightarrow> live w' = live w
      | (Some c, w') \<Rightarrow> c \<notin> live w \<and> live w' = insert c (live w)"
    unfolding keeps_handles_def by (elim conjE allE)
  from kh have ends: "k \<in> live w3 \<Longrightarrow> live (clnt_destroy L k w3) = live w3 - {k}" for k w3
    unfolding keeps_handles_def by (elim conjE) blast
  show any: "live w2 = live w1 \<Longrightarrow> live (TMountClient_destroy L m w2) = live w" for w2
    using assms(2) c law ends live_use_auth_unix [OF kh]
    by (cases c) (auto simp: TMountClient_new_def TMountClient_destroy_def)
  from any [of w1] show "live (TMountClient_destroy L m w1) = live w" by simp
qed

lemma tirpc_mnt_live:
  assumes kh: "keeps_handles L call live" and "tirpc_mnt T call maxsize m path w = Fin (r, w')"
  shows "live w' = live w"
proof (cases "TMountClient_is_connected m")
  case True
  let ?run = "call (the (tmount_client m)) MOUNTPROC_MNT (prim (xdr_string T maxsize)) (c_str path)
    (xdr_fhstatus T) \<lparr>tfhs_status = 0, tfhs_fhandle = [], tauth_flavors = []\<rparr> (10, 0) w"
  from assms(2) True obtain st z where "?run = Fin (st, z, w')"
    unfolding tirpc_mnt_def by (cases ?run) (auto split: if_splits)
  with kh show ?thesis unfolding keeps_handles_def by blast
qed (use assms(2) in \<open>simp add: tirpc_mnt_def\<close>)

lemma fbind_Fin_iff: "fbind m f = Fin c \<longleftrightarrow> (\<exists>a. m = Fin a \<and> f a = Fin c)"
  by (cases m) simp_all

lemma tirpc_fetch_root_live:
  assumes kh: "keeps_handles L call live" and "tirpc_fetch_root T call maxsize L c w = Fin ((r, c'), w')"
  shows "live w' = live w \<and> tctx_client c' = tctx_client c"
proof -
  obtain m w1 where m: "TMountClient_new L (server_host (tconfig c)) w = (m, w1)" by fastforce
  note mounter = tirpc_mounter_live [OF kh m]
  show ?thesis
  proof (cases "TMountClient_is_connected m")
    case True
    with assms(2) m obtain res w2 where mnt: "tirpc_mnt T call maxsize m (export_path (tconfig c)) w1 = Fin (res, w2)"
      by (auto simp: tirpc_fetch_root_def fbind_Fin_iff)
    from tirpc_mnt_live [OF kh mnt] mounter(2) have "live (TMountClient_destroy L m w2) = live w" by simp
    with assms(2) m True mnt show ?thesis
      by (cases res) (auto simp: tirpc_fetch_root_def)
  qed (use assms(2) m mounter(1) in \<open>simp add: tirpc_fetch_root_def\<close>)
qed

text \<open>Setting up and tearing down, however they end, keep the ownership of handles.\<close>

lemma tirpc_set_up_owns:
  assumes kh: "keeps_handles L call live" and own: "towns live base c w"
    and up: "tirpc_SetUp T call maxsize L env argv c w = Fin ((r, c'), w')"
  shows "towns live base c' w'"
proof -
  obtain l cf where l: "load_configuration env argv (tconfig c) = (l, cf)" by fastforce
  let ?c1 = "c\<lparr>tconfig := cf\<rparr>"
  have own1: "towns live base ?c1 w" using own by (simp add: towns_def theld_def)
  show ?thesis
  proof (cases "l = Inr () \<and> server_host cf \<noteq> [] \<and> export_path cf \<noteq> []")
    case False
    with up l own1 show ?thesis by (cases l) (auto simp: tirpc_SetUp_def split: if_splits)
  next
    case True
    obtain c2 w2 where cc: "tirpc_connect_client L ?c1 w = (c2, w2)" by fastforce
    note own2 = tirpc_connect_owns [OF kh own1 cc]
    from True up l cc obtain r3 c3 where
      f: "(if \<not> has_root_fh (tconfig c2) then tirpc_fetch_root T call maxsize L c2 w2 else Fin ((TReady, c2), w2)) =
        Fin ((r3, c3), w')"
      and c': "c' = c3 \<or>
        c' = c3\<lparr>tctx_client := map_option (\<lambda>cl. cl\<lparr>troot_fh := ctx_root_fh (tconfig c3)\<rparr>) (tctx_client c3)\<rparr>"
      by (fastforce simp: tirpc_SetUp_def fbind_Fin_iff split: if_splits)
    from f have "live w' = live w2 \<and> tctx_client c3 = tctx_client c2"
    proof (cases "has_root_fh (tconfig c2)")
      case False
      with f have "tirpc_fetch_root T call maxsize L c2 w2 = Fin ((r3, c3), w')" by simp
      from tirpc_fetch_root_live [OF kh this] show ?thesis .
    qed (use f in simp)
    moreover have "theld c' = theld c3"
      using c' by (auto simp: theld_def split: option.splits)
    ultimately show ?thesis using own2 by (simp add: towns_def theld_def)
  qed
qed

lemma tirpc_tear_down_owns:
  assumes kh: "keeps_handles L call live" and own: "towns live base c w" and down: "tirpc_TearDown L c w = (c', w')"
  shows "towns live base c' w' \<and> tctx_client c' = None \<and> live w' = base"
proof (cases "tctx_client c")
  case (Some cl)
  let ?ep = "tendpoint cl"
  from own Some have sub: "set (handle ?ep) \<subseteq> live w" by (auto simp: towns_def theld_def)
  obtain ep w1 where s: "TRPCEndpoint_shutdown L ?ep w = (ep, w1)" by fastforce
  then have "w1 = TRPCEndpoint_destroy L ?ep w" "handle ep = []"
    by (auto simp: TRPCEndpoint_shutdown_def TRPCEndpoint_destroy_def TRPCEndpoint_impl_destroy_def handle_def
        split: option.splits)
  with destroy_live [OF kh sub] destroy_live [OF kh, of ep w1] have "live (TRPCEndpoint_destroy L ep w1) = live w - theld c"
    by (simp add: theld_def Some)
  with Some s down own show ?thesis by (auto simp: tirpc_TearDown_def towns_def theld_def)
qed (use own down in \<open>simp add: tirpc_TearDown_def towns_def theld_def\<close>)

text \<open>A test from its set-up to its tear-down leaves the handles that existed before it.\<close>

lemma tirpc_fixture_handles:
  assumes "keeps_handles L call live" and "tctx_client c = None"
    and "tirpc_SetUp T call maxsize L env argv c w = Fin ((r, c'), w')"
  shows "live w' = live w \<union> theld c' \<and> live (snd (tirpc_TearDown L c' w')) = live w"
proof -
  have "towns live (live w) c w" using assms(2) by (simp add: towns_def theld_def)
  from tirpc_set_up_owns [OF assms(1) this assms(3)] have own: "towns live (live w) c' w'" .
  from tirpc_tear_down_owns [OF assms(1) own, of "fst (tirpc_TearDown L c' w')" "snd (tirpc_TearDown L c' w')"] own
  show ?thesis by (auto simp: towns_def)
qed

end
