(* ===== verification/CNfs3Constants.thy ===== *)
theory CNfs3Constants
  imports Nfs3Constants
begin

text \<open>
  \<^verbatim>\<open>nfs3_rpc_tests_c/include/nfs3_c/nfs3_constants.h\<close>: the constants of the C port, each under its name with
  \<open>C_\<close> before it, and their agreement with those of the C++ headers. A member of an enumeration
  type holds whatever 32-bit value was decoded into it, so these types are words too.
\<close>

section \<open>Macros\<close>

definition C_NFS_PROGRAM :: uint32 where "C_NFS_PROGRAM = 100003"
definition C_NFS_V3 :: uint32 where "C_NFS_V3 = 3"
definition C_NFS3_FHSIZE :: uint32 where "C_NFS3_FHSIZE = 64"
definition C_NFS3_ACCESS_READ :: uint32 where "C_NFS3_ACCESS_READ = 1"
definition C_NFS3_ACCESS_LOOKUP :: uint32 where "C_NFS3_ACCESS_LOOKUP = 2"
definition C_NFS3_ACCESS_MODIFY :: uint32 where "C_NFS3_ACCESS_MODIFY = 4"
definition C_NFS3_ACCESS_EXTEND :: uint32 where "C_NFS3_ACCESS_EXTEND = 8"
definition C_NFS3_ACCESS_DELETE :: uint32 where "C_NFS3_ACCESS_DELETE = 16"
definition C_NFS3_ACCESS_EXECUTE :: uint32 where "C_NFS3_ACCESS_EXECUTE = 32"

section \<open>\<^verbatim>\<open>nfsstat3_t\<close>\<close>

type_synonym nfsstat3_t = uint32

definition C_NFS3_OK :: nfsstat3_t where "C_NFS3_OK = 0"
definition C_NFS3ERR_PERM :: nfsstat3_t where "C_NFS3ERR_PERM = 1"
definition C_NFS3ERR_NOENT :: nfsstat3_t where "C_NFS3ERR_NOENT = 2"
definition C_NFS3ERR_IO :: nfsstat3_t where "C_NFS3ERR_IO = 5"
definition C_NFS3ERR_NXIO :: nfsstat3_t where "C_NFS3ERR_NXIO = 6"
definition C_NFS3ERR_ACCES :: nfsstat3_t where "C_NFS3ERR_ACCES = 13"
definition C_NFS3ERR_EXIST :: nfsstat3_t where "C_NFS3ERR_EXIST = 17"
definition C_NFS3ERR_XDEV :: nfsstat3_t where "C_NFS3ERR_XDEV = 18"
definition C_NFS3ERR_NODEV :: nfsstat3_t where "C_NFS3ERR_NODEV = 19"
definition C_NFS3ERR_NOTDIR :: nfsstat3_t where "C_NFS3ERR_NOTDIR = 20"
definition C_NFS3ERR_ISDIR :: nfsstat3_t where "C_NFS3ERR_ISDIR = 21"
definition C_NFS3ERR_INVAL :: nfsstat3_t where "C_NFS3ERR_INVAL = 22"
definition C_NFS3ERR_FBIG :: nfsstat3_t where "C_NFS3ERR_FBIG = 27"
definition C_NFS3ERR_NOSPC :: nfsstat3_t where "C_NFS3ERR_NOSPC = 28"
definition C_NFS3ERR_ROFS :: nfsstat3_t where "C_NFS3ERR_ROFS = 30"
definition C_NFS3ERR_MLINK :: nfsstat3_t where "C_NFS3ERR_MLINK = 31"
definition C_NFS3ERR_NAMETOOLONG :: nfsstat3_t where "C_NFS3ERR_NAMETOOLONG = 63"
definition C_NFS3ERR_NOTEMPTY :: nfsstat3_t where "C_NFS3ERR_NOTEMPTY = 66"
definition C_NFS3ERR_DQUOT :: nfsstat3_t where "C_NFS3ERR_DQUOT = 69"
definition C_NFS3ERR_STALE :: nfsstat3_t where "C_NFS3ERR_STALE = 70"
definition C_NFS3ERR_REMOTE :: nfsstat3_t where "C_NFS3ERR_REMOTE = 71"
definition C_NFS3ERR_BADHANDLE :: nfsstat3_t where "C_NFS3ERR_BADHANDLE = 10001"
definition C_NFS3ERR_NOT_SYNC :: nfsstat3_t where "C_NFS3ERR_NOT_SYNC = 10002"
definition C_NFS3ERR_BAD_COOKIE :: nfsstat3_t where "C_NFS3ERR_BAD_COOKIE = 10003"
definition C_NFS3ERR_NOTSUPP :: nfsstat3_t where "C_NFS3ERR_NOTSUPP = 10004"
definition C_NFS3ERR_TOOSMALL :: nfsstat3_t where "C_NFS3ERR_TOOSMALL = 10005"
definition C_NFS3ERR_SERVERFAULT :: nfsstat3_t where "C_NFS3ERR_SERVERFAULT = 10006"
definition C_NFS3ERR_BADTYPE :: nfsstat3_t where "C_NFS3ERR_BADTYPE = 10007"
definition C_NFS3ERR_JUKEBOX :: nfsstat3_t where "C_NFS3ERR_JUKEBOX = 10008"

section \<open>\<^verbatim>\<open>ftype3_t\<close>\<close>

type_synonym ftype3_t = uint32

definition C_NF3NON :: ftype3_t where "C_NF3NON = 0"
definition C_NF3REG :: ftype3_t where "C_NF3REG = 1"
definition C_NF3DIR :: ftype3_t where "C_NF3DIR = 2"
definition C_NF3BLK :: ftype3_t where "C_NF3BLK = 3"
definition C_NF3CHR :: ftype3_t where "C_NF3CHR = 4"
definition C_NF3LNK :: ftype3_t where "C_NF3LNK = 5"
definition C_NF3SOCK :: ftype3_t where "C_NF3SOCK = 6"
definition C_NF3FIFO :: ftype3_t where "C_NF3FIFO = 7"

section \<open>\<^verbatim>\<open>stable_how_t\<close>\<close>

type_synonym stable_how_t = uint32

definition C_UNSTABLE :: stable_how_t where "C_UNSTABLE = 0"
definition C_DATA_SYNC :: stable_how_t where "C_DATA_SYNC = 1"
definition C_FILE_SYNC :: stable_how_t where "C_FILE_SYNC = 2"

section \<open>\<^verbatim>\<open>proc_num_t\<close>\<close>

type_synonym proc_num_t = uint32

definition C_NFSPROC3_NULL :: proc_num_t where "C_NFSPROC3_NULL = 0"
definition C_NFSPROC3_GETATTR :: proc_num_t where "C_NFSPROC3_GETATTR = 1"
definition C_NFSPROC3_SETATTR :: proc_num_t where "C_NFSPROC3_SETATTR = 2"
definition C_NFSPROC3_LOOKUP :: proc_num_t where "C_NFSPROC3_LOOKUP = 3"
definition C_NFSPROC3_ACCESS :: proc_num_t where "C_NFSPROC3_ACCESS = 4"
definition C_NFSPROC3_READLINK :: proc_num_t where "C_NFSPROC3_READLINK = 5"
definition C_NFSPROC3_READ :: proc_num_t where "C_NFSPROC3_READ = 6"
definition C_NFSPROC3_WRITE :: proc_num_t where "C_NFSPROC3_WRITE = 7"
definition C_NFSPROC3_CREATE :: proc_num_t where "C_NFSPROC3_CREATE = 8"
definition C_NFSPROC3_MKDIR :: proc_num_t where "C_NFSPROC3_MKDIR = 9"
definition C_NFSPROC3_SYMLINK :: proc_num_t where "C_NFSPROC3_SYMLINK = 10"
definition C_NFSPROC3_MKNOD :: proc_num_t where "C_NFSPROC3_MKNOD = 11"
definition C_NFSPROC3_REMOVE :: proc_num_t where "C_NFSPROC3_REMOVE = 12"
definition C_NFSPROC3_RMDIR :: proc_num_t where "C_NFSPROC3_RMDIR = 13"
definition C_NFSPROC3_RENAME :: proc_num_t where "C_NFSPROC3_RENAME = 14"
definition C_NFSPROC3_LINK :: proc_num_t where "C_NFSPROC3_LINK = 15"
definition C_NFSPROC3_READDIR :: proc_num_t where "C_NFSPROC3_READDIR = 16"
definition C_NFSPROC3_READDIRPLUS :: proc_num_t where "C_NFSPROC3_READDIRPLUS = 17"
definition C_NFSPROC3_FSSTAT :: proc_num_t where "C_NFSPROC3_FSSTAT = 18"
definition C_NFSPROC3_FSINFO :: proc_num_t where "C_NFSPROC3_FSINFO = 19"
definition C_NFSPROC3_PATHCONF :: proc_num_t where "C_NFSPROC3_PATHCONF = 20"
definition C_NFSPROC3_COMMIT :: proc_num_t where "C_NFSPROC3_COMMIT = 21"

section \<open>\<^verbatim>\<open>createmode3_t\<close>\<close>

type_synonym createmode3_t = uint32

definition C_UNCHECKED :: createmode3_t where "C_UNCHECKED = 0"
definition C_GUARDED :: createmode3_t where "C_GUARDED = 1"
definition C_EXCLUSIVE :: createmode3_t where "C_EXCLUSIVE = 2"

section \<open>\<^verbatim>\<open>ftype4_t\<close>\<close>

type_synonym ftype4_t = uint32

definition C_NF4REG :: ftype4_t where "C_NF4REG = 1"
definition C_NF4DIR :: ftype4_t where "C_NF4DIR = 2"
definition C_NF4BLK :: ftype4_t where "C_NF4BLK = 3"
definition C_NF4CHR :: ftype4_t where "C_NF4CHR = 4"
definition C_NF4LNK :: ftype4_t where "C_NF4LNK = 5"
definition C_NF4SOCK :: ftype4_t where "C_NF4SOCK = 6"
definition C_NF4FIFO :: ftype4_t where "C_NF4FIFO = 7"
definition C_NF4ATTR :: ftype4_t where "C_NF4ATTR = 8"
definition C_NF4NAMED :: ftype4_t where "C_NF4NAMED = 9"

section \<open>Agreement\<close>

text \<open>Every constant of the port has the value of the C++ constant of its name.\<close>

lemma c_macros_agree:
  "[
     C_NFS_PROGRAM, C_NFS_V3, C_NFS3_FHSIZE, C_NFS3_ACCESS_READ, C_NFS3_ACCESS_LOOKUP,
     C_NFS3_ACCESS_MODIFY, C_NFS3_ACCESS_EXTEND, C_NFS3_ACCESS_DELETE, C_NFS3_ACCESS_EXECUTE] =
   [
     NFS_PROGRAM, NFS_V3, NFS3_FHSIZE, NFS3_ACCESS_READ, NFS3_ACCESS_LOOKUP,
     NFS3_ACCESS_MODIFY, NFS3_ACCESS_EXTEND, NFS3_ACCESS_DELETE, NFS3_ACCESS_EXECUTE]"
  by (simp add:
      C_NFS_PROGRAM_def C_NFS_V3_def C_NFS3_FHSIZE_def C_NFS3_ACCESS_READ_def
      C_NFS3_ACCESS_LOOKUP_def C_NFS3_ACCESS_MODIFY_def C_NFS3_ACCESS_EXTEND_def
      C_NFS3_ACCESS_DELETE_def C_NFS3_ACCESS_EXECUTE_def NFS3_FHSIZE_def NFS3_ACCESS_READ_def
      NFS3_ACCESS_LOOKUP_def NFS3_ACCESS_MODIFY_def NFS3_ACCESS_EXTEND_def
      NFS3_ACCESS_DELETE_def NFS3_ACCESS_EXECUTE_def)

lemma c_nfsstat3_agree:
  "[
     C_NFS3_OK, C_NFS3ERR_PERM, C_NFS3ERR_NOENT, C_NFS3ERR_IO, C_NFS3ERR_NXIO, C_NFS3ERR_ACCES,
     C_NFS3ERR_EXIST, C_NFS3ERR_XDEV, C_NFS3ERR_NODEV, C_NFS3ERR_NOTDIR, C_NFS3ERR_ISDIR,
     C_NFS3ERR_INVAL, C_NFS3ERR_FBIG, C_NFS3ERR_NOSPC, C_NFS3ERR_ROFS, C_NFS3ERR_MLINK,
     C_NFS3ERR_NAMETOOLONG, C_NFS3ERR_NOTEMPTY, C_NFS3ERR_DQUOT, C_NFS3ERR_STALE,
     C_NFS3ERR_REMOTE, C_NFS3ERR_BADHANDLE, C_NFS3ERR_NOT_SYNC, C_NFS3ERR_BAD_COOKIE,
     C_NFS3ERR_NOTSUPP, C_NFS3ERR_TOOSMALL, C_NFS3ERR_SERVERFAULT, C_NFS3ERR_BADTYPE,
     C_NFS3ERR_JUKEBOX] =
   [
     NFS3_OK, NFS3ERR_PERM, NFS3ERR_NOENT, NFS3ERR_IO, NFS3ERR_NXIO, NFS3ERR_ACCES,
     NFS3ERR_EXIST, NFS3ERR_XDEV, NFS3ERR_NODEV, NFS3ERR_NOTDIR, NFS3ERR_ISDIR, NFS3ERR_INVAL,
     NFS3ERR_FBIG, NFS3ERR_NOSPC, NFS3ERR_ROFS, NFS3ERR_MLINK, NFS3ERR_NAMETOOLONG,
     NFS3ERR_NOTEMPTY, NFS3ERR_DQUOT, NFS3ERR_STALE, NFS3ERR_REMOTE, NFS3ERR_BADHANDLE,
     NFS3ERR_NOT_SYNC, NFS3ERR_BAD_COOKIE, NFS3ERR_NOTSUPP, NFS3ERR_TOOSMALL,
     NFS3ERR_SERVERFAULT, NFS3ERR_BADTYPE, NFS3ERR_JUKEBOX]"
  by (simp add:
      C_NFS3_OK_def C_NFS3ERR_PERM_def C_NFS3ERR_NOENT_def C_NFS3ERR_IO_def C_NFS3ERR_NXIO_def
      C_NFS3ERR_ACCES_def C_NFS3ERR_EXIST_def C_NFS3ERR_XDEV_def C_NFS3ERR_NODEV_def
      C_NFS3ERR_NOTDIR_def C_NFS3ERR_ISDIR_def C_NFS3ERR_INVAL_def C_NFS3ERR_FBIG_def
      C_NFS3ERR_NOSPC_def C_NFS3ERR_ROFS_def C_NFS3ERR_MLINK_def C_NFS3ERR_NAMETOOLONG_def
      C_NFS3ERR_NOTEMPTY_def C_NFS3ERR_DQUOT_def C_NFS3ERR_STALE_def C_NFS3ERR_REMOTE_def
      C_NFS3ERR_BADHANDLE_def C_NFS3ERR_NOT_SYNC_def C_NFS3ERR_BAD_COOKIE_def
      C_NFS3ERR_NOTSUPP_def C_NFS3ERR_TOOSMALL_def C_NFS3ERR_SERVERFAULT_def
      C_NFS3ERR_BADTYPE_def C_NFS3ERR_JUKEBOX_def NFS3_OK_def NFS3ERR_PERM_def
      NFS3ERR_NOENT_def NFS3ERR_IO_def NFS3ERR_NXIO_def NFS3ERR_ACCES_def NFS3ERR_EXIST_def
      NFS3ERR_XDEV_def NFS3ERR_NODEV_def NFS3ERR_NOTDIR_def NFS3ERR_ISDIR_def NFS3ERR_INVAL_def
      NFS3ERR_FBIG_def NFS3ERR_NOSPC_def NFS3ERR_ROFS_def NFS3ERR_MLINK_def
      NFS3ERR_NAMETOOLONG_def NFS3ERR_NOTEMPTY_def NFS3ERR_DQUOT_def NFS3ERR_STALE_def
      NFS3ERR_REMOTE_def NFS3ERR_BADHANDLE_def NFS3ERR_NOT_SYNC_def NFS3ERR_BAD_COOKIE_def
      NFS3ERR_NOTSUPP_def NFS3ERR_TOOSMALL_def NFS3ERR_SERVERFAULT_def NFS3ERR_BADTYPE_def
      NFS3ERR_JUKEBOX_def)

lemma c_ftype3_agree:
  "[
     C_NF3NON, C_NF3REG, C_NF3DIR, C_NF3BLK, C_NF3CHR, C_NF3LNK, C_NF3SOCK, C_NF3FIFO] =
   [
     NF3NON, NF3REG, NF3DIR, NF3BLK, NF3CHR, NF3LNK, NF3SOCK, NF3FIFO]"
  by (simp add:
      C_NF3NON_def C_NF3REG_def C_NF3DIR_def C_NF3BLK_def C_NF3CHR_def C_NF3LNK_def
      C_NF3SOCK_def C_NF3FIFO_def NF3NON_def NF3REG_def NF3DIR_def NF3BLK_def NF3CHR_def
      NF3LNK_def NF3SOCK_def NF3FIFO_def)

lemma c_stable_how_agree:
  "[
     C_UNSTABLE, C_DATA_SYNC, C_FILE_SYNC] =
   [
     UNSTABLE, DATA_SYNC, FILE_SYNC]"
  by (simp add:
      C_UNSTABLE_def C_DATA_SYNC_def C_FILE_SYNC_def UNSTABLE_def DATA_SYNC_def FILE_SYNC_def)

lemma c_proc_num_agree:
  "[
     C_NFSPROC3_NULL, C_NFSPROC3_GETATTR, C_NFSPROC3_SETATTR, C_NFSPROC3_LOOKUP,
     C_NFSPROC3_ACCESS, C_NFSPROC3_READLINK, C_NFSPROC3_READ, C_NFSPROC3_WRITE,
     C_NFSPROC3_CREATE, C_NFSPROC3_MKDIR, C_NFSPROC3_SYMLINK, C_NFSPROC3_MKNOD,
     C_NFSPROC3_REMOVE, C_NFSPROC3_RMDIR, C_NFSPROC3_RENAME, C_NFSPROC3_LINK,
     C_NFSPROC3_READDIR, C_NFSPROC3_READDIRPLUS, C_NFSPROC3_FSSTAT, C_NFSPROC3_FSINFO,
     C_NFSPROC3_PATHCONF, C_NFSPROC3_COMMIT] =
   [
     proc_val NFSPROC3_NULL, proc_val NFSPROC3_GETATTR, proc_val NFSPROC3_SETATTR,
     proc_val NFSPROC3_LOOKUP, proc_val NFSPROC3_ACCESS, proc_val NFSPROC3_READLINK,
     proc_val NFSPROC3_READ, proc_val NFSPROC3_WRITE, proc_val NFSPROC3_CREATE,
     proc_val NFSPROC3_MKDIR, proc_val NFSPROC3_SYMLINK, proc_val NFSPROC3_MKNOD,
     proc_val NFSPROC3_REMOVE, proc_val NFSPROC3_RMDIR, proc_val NFSPROC3_RENAME,
     proc_val NFSPROC3_LINK, proc_val NFSPROC3_READDIR, proc_val NFSPROC3_READDIRPLUS,
     proc_val NFSPROC3_FSSTAT, proc_val NFSPROC3_FSINFO, proc_val NFSPROC3_PATHCONF,
     proc_val NFSPROC3_COMMIT]"
  by (simp add:
      C_NFSPROC3_NULL_def C_NFSPROC3_GETATTR_def C_NFSPROC3_SETATTR_def C_NFSPROC3_LOOKUP_def
      C_NFSPROC3_ACCESS_def C_NFSPROC3_READLINK_def C_NFSPROC3_READ_def C_NFSPROC3_WRITE_def
      C_NFSPROC3_CREATE_def C_NFSPROC3_MKDIR_def C_NFSPROC3_SYMLINK_def C_NFSPROC3_MKNOD_def
      C_NFSPROC3_REMOVE_def C_NFSPROC3_RMDIR_def C_NFSPROC3_RENAME_def C_NFSPROC3_LINK_def
      C_NFSPROC3_READDIR_def C_NFSPROC3_READDIRPLUS_def C_NFSPROC3_FSSTAT_def
      C_NFSPROC3_FSINFO_def C_NFSPROC3_PATHCONF_def C_NFSPROC3_COMMIT_def)

lemma c_createmode3_agree:
  "[
     C_UNCHECKED, C_GUARDED, C_EXCLUSIVE] =
   [
     UNCHECKED, GUARDED, EXCLUSIVE]"
  by (simp add:
      C_UNCHECKED_def C_GUARDED_def C_EXCLUSIVE_def UNCHECKED_def GUARDED_def EXCLUSIVE_def)

lemma c_ftype4_agree:
  "[
     C_NF4REG, C_NF4DIR, C_NF4BLK, C_NF4CHR, C_NF4LNK, C_NF4SOCK, C_NF4FIFO, C_NF4ATTR,
     C_NF4NAMED] =
   [
     NF4REG, NF4DIR, NF4BLK, NF4CHR, NF4LNK, NF4SOCK, NF4FIFO, NF4ATTR, NF4NAMED]"
  by (simp add:
      C_NF4REG_def C_NF4DIR_def C_NF4BLK_def C_NF4CHR_def C_NF4LNK_def C_NF4SOCK_def
      C_NF4FIFO_def C_NF4ATTR_def C_NF4NAMED_def NF4REG_def NF4DIR_def NF4BLK_def NF4CHR_def
      NF4LNK_def NF4SOCK_def NF4FIFO_def NF4ATTR_def NF4NAMED_def)

text \<open>No two statuses have the same number, and each access bit is a bit of its own.\<close>

lemma c_nfsstat3_distinct:
  "distinct [
     C_NFS3_OK, C_NFS3ERR_PERM, C_NFS3ERR_NOENT, C_NFS3ERR_IO, C_NFS3ERR_NXIO, C_NFS3ERR_ACCES,
     C_NFS3ERR_EXIST, C_NFS3ERR_XDEV, C_NFS3ERR_NODEV, C_NFS3ERR_NOTDIR, C_NFS3ERR_ISDIR,
     C_NFS3ERR_INVAL, C_NFS3ERR_FBIG, C_NFS3ERR_NOSPC, C_NFS3ERR_ROFS, C_NFS3ERR_MLINK,
     C_NFS3ERR_NAMETOOLONG, C_NFS3ERR_NOTEMPTY, C_NFS3ERR_DQUOT, C_NFS3ERR_STALE,
     C_NFS3ERR_REMOTE, C_NFS3ERR_BADHANDLE, C_NFS3ERR_NOT_SYNC, C_NFS3ERR_BAD_COOKIE,
     C_NFS3ERR_NOTSUPP, C_NFS3ERR_TOOSMALL, C_NFS3ERR_SERVERFAULT, C_NFS3ERR_BADTYPE,
     C_NFS3ERR_JUKEBOX]"
  by (simp add:
      C_NFS3_OK_def C_NFS3ERR_PERM_def C_NFS3ERR_NOENT_def C_NFS3ERR_IO_def C_NFS3ERR_NXIO_def
      C_NFS3ERR_ACCES_def C_NFS3ERR_EXIST_def C_NFS3ERR_XDEV_def C_NFS3ERR_NODEV_def
      C_NFS3ERR_NOTDIR_def C_NFS3ERR_ISDIR_def C_NFS3ERR_INVAL_def C_NFS3ERR_FBIG_def
      C_NFS3ERR_NOSPC_def C_NFS3ERR_ROFS_def C_NFS3ERR_MLINK_def C_NFS3ERR_NAMETOOLONG_def
      C_NFS3ERR_NOTEMPTY_def C_NFS3ERR_DQUOT_def C_NFS3ERR_STALE_def C_NFS3ERR_REMOTE_def
      C_NFS3ERR_BADHANDLE_def C_NFS3ERR_NOT_SYNC_def C_NFS3ERR_BAD_COOKIE_def
      C_NFS3ERR_NOTSUPP_def C_NFS3ERR_TOOSMALL_def C_NFS3ERR_SERVERFAULT_def
      C_NFS3ERR_BADTYPE_def C_NFS3ERR_JUKEBOX_def)

lemma c_access_bits:
  "[C_NFS3_ACCESS_READ, C_NFS3_ACCESS_LOOKUP, C_NFS3_ACCESS_MODIFY,
     C_NFS3_ACCESS_EXTEND, C_NFS3_ACCESS_DELETE, C_NFS3_ACCESS_EXECUTE] = map (\<lambda>i. 2 ^ i) [0..<6]"
  by (simp add: upt_rec
      C_NFS3_ACCESS_READ_def C_NFS3_ACCESS_LOOKUP_def C_NFS3_ACCESS_MODIFY_def
      C_NFS3_ACCESS_EXTEND_def C_NFS3_ACCESS_DELETE_def C_NFS3_ACCESS_EXECUTE_def)

end
