(* ===== verification/Examples.thy ===== *)
theory Examples
  imports TestFixture
begin

text \<open>
  The two example programs, \<^verbatim>\<open>nfs3_rpc_tests/examples/basic_connect.cpp\<close> and
  \<^verbatim>\<open>nfs3_rpc_tests/examples/nfs_operations.cpp\<close>, in the build without libtirpc. A program is a function of
  its arguments; it gives the statements it prints, in order, with the values in them, and its
  exit status or the exception that ends it. On a return the endpoint and the client are
  destroyed; an exception that is not caught ends the process, and nothing is destroyed.
\<close>

section \<open>The programs\<close>

datatype uncaught = Std std_exception | Xdr XdrError

text \<open>The server and the port, from \<^verbatim>\<open>argv\<close> or by default.\<close>

definition target_of :: "string list \<Rightarrow> std_exception + (string \<times> uint16)" where
  "target_of argv =
     (let server = (if length argv \<ge> 2 then argv ! 1 else ''localhost'')
      in if length argv \<ge> 3
         then (case stoi (argv ! 2) of Inl e \<Rightarrow> Inl e | Inr n \<Rightarrow> Inr (server, word_of_int n))
         else Inr (server, 2049))"

datatype basic_line = Connecting string uint16 | Cannot_connect | Connected | Null_succeeded | Null_failed
  | Server_responds

definition basic_connect_main ::
    "'w posix \<Rightarrow> string list \<Rightarrow> 'w \<Rightarrow> ((basic_line list \<times> (uncaught + int)) \<times> 'w) outcome" where
  "basic_connect_main os argv w =
     (case target_of argv of
        Inl e \<Rightarrow> Ret (([], Inl (Std e)), w)
      | Inr (server, p) \<Rightarrow>
          let (ep, w) = RPCEndpoint_create os server p 25000 w
          in if \<not> RPCEndpoint_is_connected ep
          then Ret (([Connecting server p, Cannot_connect], Inr 1), RPCEndpoint_destroy os ep w)
          else obind (nfs3_null os (NFS3TestClient_new (fst (RPCEndpoint_move ep))) w) (\<lambda>((null_result, cl), w).
            let w = RPCEndpoint_destroy os (endpoint cl) w
            in if has_value null_result
            then Ret (([Connecting server p, Connected, Null_succeeded, Server_responds], Inr 0), w)
            else Ret (([Connecting server p, Connected, Null_failed], Inr 1), w)))"

datatype file_kind = Kind_file | Kind_directory | Kind_block | Kind_char | Kind_link | Kind_socket | Kind_fifo
  | Kind_unknown

definition kind_of :: "ftype3 \<Rightarrow> file_kind" where
  "kind_of t =
     (if t = NF3REG then Kind_file else if t = NF3DIR then Kind_directory else if t = NF3BLK then Kind_block
      else if t = NF3CHR then Kind_char else if t = NF3LNK then Kind_link else if t = NF3SOCK then Kind_socket
      else if t = NF3FIFO then Kind_fifo else Kind_unknown)"

datatype line = Banner | No_connection string uint16 | Null_failure | Null_success
  | Trying_getattr | Getattr_success | Getattr_failure
  | Type_line file_kind | Size_line uint64 | Mode_line uint32 | Ids_line uint32 uint32 | Links_line uint32
  | Trying_fsinfo | Fsinfo_success | Rtmax_line uint32 | Wtmax_line uint32 | Fsinfo_failure
  | Trying_fsstat | Fsstat_success | Tbytes_line uint64 | Fbytes_line uint64 | Tfiles_line uint64 | Fsstat_failure
  | Finished

definition attribute_lines :: "fattr3 \<Rightarrow> line list" where
  "attribute_lines attr =
     [Type_line (kind_of (fattr3.type3 attr)), Size_line (fattr3.size3 attr), Mode_line (fattr3.mode attr),
      Ids_line (fattr3.uid attr) (fattr3.gid attr), Links_line (fattr3.nlink attr)]"

text \<open>One attempt: its heading, the call, and what is printed of its result; an exception of
  the call is not caught.\<close>

definition attempt ::
    "line \<Rightarrow> ('r \<Rightarrow> line list) \<Rightarrow> line \<Rightarrow> (NFS3TestClient \<Rightarrow> 'w \<Rightarrow> ('r, 'w) nfs3_result) \<Rightarrow> line list \<Rightarrow>
     NFS3TestClient \<Rightarrow> 'w \<Rightarrow>
     (line list \<Rightarrow> NFS3TestClient \<Rightarrow> 'w \<Rightarrow> ((line list \<times> (uncaught + int)) \<times> 'w) outcome) \<Rightarrow>
     ((line list \<times> (uncaught + int)) \<times> 'w) outcome" where
  "attempt heading success failure method out cl w k =
     obind (method cl w) (\<lambda>((result, cl), w).
       case result of
         Inl e \<Rightarrow> Ret ((out @ [heading], Inl (Xdr e)), w)
       | Inr (Value r) \<Rightarrow> k (out @ [heading] @ success r) cl w
       | Inr (Unexpected _) \<Rightarrow> k (out @ [heading, failure]) cl w)"

definition example_root :: nfs_fh3 where
  "example_root = \<lparr>nfs_fh3.data = [0]\<rparr>"

definition nfs_operations_main ::
    "'w posix \<Rightarrow> string list \<Rightarrow> 'w \<Rightarrow> ((line list \<times> (uncaught + int)) \<times> 'w) outcome" where
  "nfs_operations_main os argv w =
     (case target_of argv of
        Inl e \<Rightarrow> Ret (([], Inl (Std e)), w)
      | Inr (server, p) \<Rightarrow>
          let (ep, w) = RPCEndpoint_create os server p 25000 w
          in if \<not> RPCEndpoint_is_connected ep
          then Ret (([Banner, No_connection server p], Inr 1), RPCEndpoint_destroy os ep w)
          else obind (nfs3_null os (NFS3TestClient_new (fst (RPCEndpoint_move ep))) w) (\<lambda>((null_result, cl), w).
            if \<not> has_value null_result
            then Ret (([Banner, Null_failure], Inr 1), RPCEndpoint_destroy os (endpoint cl) w)
            else
              attempt Trying_getattr
                (\<lambda>r. Getattr_success # attribute_lines (GETATTR3resok.obj_attributes r)) Getattr_failure
                (\<lambda>cl. nfs3_getattr os cl example_root) [Banner, Null_success] cl w (\<lambda>out cl w.
              attempt Trying_fsinfo
                (\<lambda>r. [Fsinfo_success, Rtmax_line (FSINFO3resok.rtmax r), Wtmax_line (FSINFO3resok.wtmax r)]) Fsinfo_failure
                (\<lambda>cl. nfs3_fsinfo os cl example_root) out cl w (\<lambda>out cl w.
              attempt Trying_fsstat
                (\<lambda>r. [Fsstat_success, Tbytes_line (FSSTAT3resok.tbytes r), Fbytes_line (FSSTAT3resok.fbytes r),
                  Tfiles_line (FSSTAT3resok.tfiles r)])
                Fsstat_failure
                (\<lambda>cl. nfs3_fsstat os cl example_root) out cl w (\<lambda>out cl w.
              Ret ((out @ [Finished], Inr 0), RPCEndpoint_destroy os (endpoint cl) w))))))"

section \<open>What a call leaves behind\<close>

lemma invoke_open:
  assumes ko: "keeps_open os opn" and "nfs3_invoke os ser des cl p args w = Ret ((r, cl'), w')"
  shows "opn w' = opn w \<and> endpoint_holds (endpoint cl') = endpoint_holds (endpoint cl)"
proof -
  from assms(2) obtain r1 ep where e: "RPCEndpoint_call os ser des \<lparr>status = 0, resok = None\<rparr> (endpoint cl)
      (proc_val p) args w = Ret ((r1, ep), w')" and cl': "cl' = cl\<lparr>endpoint := ep\<rparr>"
    by (auto simp: nfs3_invoke_def obind_Ret_iff)
  from e show ?thesis
  proof (cases rule: endpoint_call_steps)
    case (call im b q rc)
    with call_open [OF ko call(2)] cl' show ?thesis by (simp add: endpoint_holds_def rpc_holds_def)
  qed (simp add: cl')
qed

lemma null_open:
  assumes ko: "keeps_open os opn" and "nfs3_null os cl w = Ret ((r, cl'), w')"
  shows "opn w' = opn w \<and> endpoint_holds (endpoint cl') = endpoint_holds (endpoint cl)"
proof (cases "RPCEndpoint_is_connected (endpoint cl)")
  case True
  then obtain im where im: "impl (endpoint cl) = Some im"
    by (auto simp: RPCEndpoint_is_connected_def split: option.splits)
  with assms(2) True obtain q rc where
    "RpcClient_call os (rpc_client im) 100003 3 0 [] (int_of_count (timeout im)) w = Ret ((q, rc), w')"
    "endpoint cl' = (endpoint cl)\<lparr>impl := Some (im\<lparr>rpc_client := rc\<rparr>)\<rparr>"
    by (fastforce simp: nfs3_null_def RPCEndpoint_call_void_def obind_Ret_iff Let_def
        split: if_splits option.splits)
  with call_open [OF ko] im show ?thesis by (auto simp: endpoint_holds_def rpc_holds_def)
qed (use assms(2) in \<open>auto simp: nfs3_null_def RPCEndpoint_call_void_def split: if_splits\<close>)

lemma invoke_no_throw:
  "ser args XdrBuffer_new = (Inr u, b) \<Longrightarrow> nfs3_invoke os ser des cl p args w = Ret ((r, cl'), w') \<Longrightarrow> \<not> isl r"
  by (auto simp: nfs3_invoke_def RPCEndpoint_call_def obind_Ret_iff Let_def
      split: if_splits option.splits)

text \<open>A method that throws nothing and leaves the descriptors as they are.\<close>

definition quiet :: "('w \<Rightarrow> int set) \<Rightarrow> (NFS3TestClient \<Rightarrow> 'w \<Rightarrow> ('r, 'w) nfs3_result) \<Rightarrow> bool" where
  "quiet opn method \<longleftrightarrow> (\<forall>cl w r cl' w'. method cl w = Ret ((r, cl'), w') \<longrightarrow>
     opn w' = opn w \<and> endpoint_holds (endpoint cl') = endpoint_holds (endpoint cl) \<and> \<not> isl r)"

lemma quiet_invoke:
  assumes "keeps_open os opn" and "ser args XdrBuffer_new = (Inr u, b)"
  shows "quiet opn (\<lambda>cl. nfs3_invoke os ser des cl p args)"
  unfolding quiet_def
proof (intro allI impI)
  fix cl w r cl' w' assume m: "nfs3_invoke os ser des cl p args w = Ret ((r, cl'), w')"
  from invoke_open [OF assms(1) m] invoke_no_throw [where ser = ser and args = args, OF assms(2) m]
  show "opn w' = opn w \<and> endpoint_holds (endpoint cl') = endpoint_holds (endpoint cl) \<and> \<not> isl r" by blast
qed

lemma quiet_methods:
  assumes ko: "keeps_open os opn"
  shows "quiet opn (\<lambda>cl. nfs3_getattr os cl example_root)" "quiet opn (\<lambda>cl. nfs3_fsinfo os cl example_root)"
    "quiet opn (\<lambda>cl. nfs3_fsstat os cl example_root)"
proof -
  have "ok_GETATTR3args \<lparr>GETATTR3args.object = example_root\<rparr>" "ok_FSINFO3args \<lparr>FSINFO3args.fsroot = example_root\<rparr>"
    "ok_FSSTAT3args \<lparr>FSSTAT3args.fsroot = example_root\<rparr>"
    by (simp_all add: ok_GETATTR3args_def ok_FSINFO3args_def ok_FSSTAT3args_def ok_nfs_fh3_def example_root_def)
  note ok = GETATTR3args_xdr.pack_new [OF this(1)] FSINFO3args_xdr.pack_new [OF this(2)]
    FSSTAT3args_xdr.pack_new [OF this(3)]
  show "quiet opn (\<lambda>cl. nfs3_getattr os cl example_root)" "quiet opn (\<lambda>cl. nfs3_fsinfo os cl example_root)"
    "quiet opn (\<lambda>cl. nfs3_fsstat os cl example_root)"
    unfolding nfs3_getattr_def nfs3_fsinfo_def nfs3_fsstat_def
    by (rule quiet_invoke [OF ko], rule ok)+
qed

lemma attempt_quiet:
  assumes "quiet opn method" and "attempt heading success failure method out cl w k = Ret (r, w'')"
  obtains out' cl' w' where "k (out @ heading # out') cl' w' = Ret (r, w'')" "opn w' = opn w"
    "endpoint_holds (endpoint cl') = endpoint_holds (endpoint cl)"
proof -
  from assms(2) obtain q cl' w' where m: "method cl w = Ret ((q, cl'), w')"
    by (auto simp: attempt_def obind_Ret_iff)
  with assms(1) have q: "opn w' = opn w" "endpoint_holds (endpoint cl') = endpoint_holds (endpoint cl)" "\<not> isl q"
    by (auto simp: quiet_def)
  from q(3) obtain e where e: "q = Inr e" by (cases q) auto
  show thesis
  proof (cases e)
    case (Value v)
    with assms(2) m e have "k (out @ heading # success v) cl' w' = Ret (r, w'')" by (simp add: attempt_def)
    with q that show thesis by blast
  next
    case (Unexpected v)
    with assms(2) m e have "k (out @ heading # [failure]) cl' w' = Ret (r, w'')" by (simp add: attempt_def)
    with q that show thesis by blast
  qed
qed

lemma destroyed_again:
  assumes ko: "keeps_open os opn" and ep: "RPCEndpoint_create os server p tm w = (ep, w1)"
    and "opn w2 = opn w1" and "endpoint_holds ep' = endpoint_holds ep"
  shows "opn (RPCEndpoint_destroy os ep' w2) = opn w"
  using endpoint_destroy_open [OF keeps_openD(1) [OF ko], of ep' w2]
    endpoint_create_open [OF keeps_openD(1) [OF ko] ep] assms(3,4) by auto

lemma client_of_endpoint: "endpoint (NFS3TestClient_new ep) = ep"
  by (simp add: NFS3TestClient_new_def)

section \<open>The properties of the programs\<close>

text \<open>
  C17: \<^verbatim>\<open>nfs_operations\<close>: it is ended by an exception exactly when the port is no number an \<^verbatim>\<open>int\<close> can hold,
  and then before it has opened anything; otherwise it exits with 0 or 1, with 0 exactly if it has
  got to its end, whichever of its three attempts failed, and every descriptor it opened is
  closed.
\<close>

theorem nfs_operations_exit:
  assumes ko: "keeps_open os opn" and run: "nfs_operations_main os argv w = Ret ((out, res), w')"
  shows "opn w' = opn w \<and>
    (case res of Inl e \<Rightarrow> (\<exists>x. e = Std x \<and> target_of argv = Inl x) \<and> out = [] \<and> w' = w
     | Inr st \<Rightarrow> \<not> isl (target_of argv) \<and> st \<in> {0, 1} \<and> (st = 0 \<longleftrightarrow> last out = Finished))"
proof (cases "target_of argv")
  case (Inl e)
  with run show ?thesis by (auto simp: nfs_operations_main_def)
next
  case (Inr t)
  obtain server p where t: "t = (server, p)" by (cases t)
  obtain ep w1 where ep: "RPCEndpoint_create os server p 25000 w = (ep, w1)" by fastforce
  note shut = destroyed_again [OF ko ep]
  show ?thesis
  proof (cases "RPCEndpoint_is_connected ep")
    case False
    with run Inr t ep shut [of w1 ep] show ?thesis by (auto simp: nfs_operations_main_def)
  next
    case True
    with run Inr t ep obtain nr cl w2 where null: "nfs3_null os (NFS3TestClient_new ep) w1 = Ret ((nr, cl), w2)"
      by (auto simp: nfs_operations_main_def fst_move obind_Ret_iff)
    note n = null_open [OF ko null, unfolded client_of_endpoint]
    show ?thesis
    proof (cases "has_value nr")
      case False
      with run Inr t ep True null n shut [of w2 "endpoint cl"] show ?thesis
        by (auto simp: nfs_operations_main_def fst_move)
    next
      case hv: True
      note q = quiet_methods [OF ko]
      from run Inr t ep True null hv show ?thesis
        apply (simp add: nfs_operations_main_def fst_move)
        apply (erule attempt_quiet [OF q(1)], erule attempt_quiet [OF q(2)], erule attempt_quiet [OF q(3)])
        using n shut by auto
    qed
  qed
qed

theorem nfs_operations_exit_witness:
  "\<exists>w'. nfs_operations_main (net_os (\<lambda>_. [])) [''nfs_operations'', ''nowhere'', ''2049''] net0 =
      Ret (([Banner, No_connection ''nowhere'' 2049], Inr 1), w') \<and> set (net_open w') = {3}"
proof -
  let ?os = "net_os (\<lambda>_. [])" and ?argv = "[''nfs_operations'', ''nowhere'', ''2049'']"
  have "stoi ''2049'' = Inr 2049"
    by (simp add: stoi_def take_sign_def isspace_def isdigit_def digits_value_def)
  then have "target_of ?argv = Inr (''nowhere'', 2049)" by (simp add: target_of_def)
  then obtain w' where run: "nfs_operations_main ?os ?argv net0 =
      Ret (([Banner, No_connection ''nowhere'' 2049], Inr 1), w')"
    by (simp add: nfs_operations_main_def RPCEndpoint_create_def RpcClient_connect_def RpcClient_init_def
        TcpTransport_connect_def TcpTransport_init_def TcpTransport_disconnect_def net_os_def Let_def
        RPCEndpoint_is_connected_def RpcClient_is_connected_def TcpTransport_is_connected_def net0_def)
  from nfs_operations_exit [OF net_os_keeps_open run] run show ?thesis by (simp add: net0_def)
qed

text \<open>\<^verbatim>\<open>basic_connect\<close> exits with 0 exactly if the server answered NULL, and closes what it opened.\<close>

lemma basic_connect_exit:
  assumes ko: "keeps_open os opn" and run: "basic_connect_main os argv w = Ret ((out, Inr st), w')"
  shows "opn w' = opn w" and "st = 0 \<longleftrightarrow> last out = Server_responds"
proof -
  from run obtain server p where t: "target_of argv = Inr (server, p)"
    by (auto simp: basic_connect_main_def split: sum.splits prod.splits)
  obtain ep w1 where ep: "RPCEndpoint_create os server p 25000 w = (ep, w1)" by fastforce
  note shut = destroyed_again [OF ko ep]
  from run t ep show "opn w' = opn w"
    by (auto simp: basic_connect_main_def fst_move obind_Ret_iff Let_def client_of_endpoint shut
        split: if_splits dest!: null_open [OF ko])
  from run t ep show "st = 0 \<longleftrightarrow> last out = Server_responds"
    by (auto simp: basic_connect_main_def obind_Ret_iff Let_def split: if_splits)
qed

end
