(* ===== verification/Spec2Isabelle.thy ===== *)
theory Spec2Isabelle
  imports CProperties CodecProperties RpcProperties TirpcCallProperties TirpcBridge TirpcContext CNfs3Constants Examples
begin

text \<open>
  A verification of the NFSv3 RPC test client (\<^verbatim>\<open>src/nfs3_rpc_tests\<close>, \<^verbatim>\<open>src/simple_rpc\<close>) in both of its
  builds, the one where the repository's own RPC client carries the calls and the one on libtirpc,
  and of its port to C (\<^verbatim>\<open>src/nfs3_rpc_tests_c\<close>), which has the codec and the types a second time,
  over \<^verbatim>\<open>malloc\<close>.

  The program. A test calls a method of \<^verbatim>\<open>NFS3TestClient\<close> (\<^verbatim>\<open>nfs3_client.cpp\<close>). The method fills the
  argument struct of its procedure and calls \<^verbatim>\<open>RPCEndpoint::call\<close> (\<^verbatim>\<open>rpc_endpoint.hpp\<close>), which
  serializes the arguments with \<^verbatim>\<open>XdrBuffer\<close> (\<^verbatim>\<open>xdr_codec.cpp\<close>) and the \<^verbatim>\<open>serialize\<close> functions of
  \<^verbatim>\<open>nfs3_types.hpp\<close>, and hands the bytes to \<^verbatim>\<open>RpcClient::call\<close> (\<^verbatim>\<open>rpc_client.cpp\<close>). That builds an
  RPC message (\<^verbatim>\<open>rpc_protocol.hpp\<close>), sends it as one record over \<^verbatim>\<open>TcpTransport\<close>
  (\<^verbatim>\<open>rpc_transport.cpp\<close>), receives one record, and parses the reply; the endpoint deserializes the
  body and the method checks the status. \<^verbatim>\<open>MountClient\<close> (\<^verbatim>\<open>mount_client.cpp\<close>) uses the same RPC client
  for the MOUNT protocol. Where \<^verbatim>\<open>HAVE_LIBTIRPC\<close> is defined, the methods call \<^verbatim>\<open>call_with_xdr\<close> with the
  filters of \<^verbatim>\<open>nfs3_xdr.cpp\<close> in place of \<^verbatim>\<open>call\<close>, and \<^verbatim>\<open>clnt_call\<close> of libtirpc in place of \<^verbatim>\<open>RpcClient::call\<close>.

  The theories, each with the part of the source it models:
  \<^item> \<^verbatim>\<open>Prelude\<close>: machine types, padding, lists as memory, and the outcome of a call (a value,
    undefined behaviour, or no return).
  \<^item> \<^verbatim>\<open>XdrPrimitive\<close>: \<^verbatim>\<open>detail/xdr_primitive.hpp\<close>, with the byte order of the host as an argument.
  \<^item> \<^verbatim>\<open>XdrCodec\<close>: \<^verbatim>\<open>XdrBuffer\<close>; a member function is a state transformer that keeps the buffer also
    when it throws. The locale \<open>xdr_codec\<close> is the contract of a \<^verbatim>\<open>serialize\<close>/\<^verbatim>\<open>deserialize\<close> pair
    against a reference encoding, \<open>xdr_roundtrip\<close> adds what makes a fresh object read back equal.
  \<^item> \<^verbatim>\<open>Nfs3Constants\<close>, \<^verbatim>\<open>Nfs3Types\<close>, \<^verbatim>\<open>Nfs3Res\<close>, \<^verbatim>\<open>Nfs3Dir\<close>, \<^verbatim>\<open>Nfs3ProcsA\<close>, \<^verbatim>\<open>Nfs3ProcsB\<close>, \<^verbatim>\<open>Nfs3ProcsC\<close>:
    \<^verbatim>\<open>nfs3_constants.hpp\<close> and every struct of \<^verbatim>\<open>nfs3_types.hpp\<close>, one record or datatype each, with
    an interpretation of the contract for each. The linked entries of a directory listing are
    read by a recursion that ends because every entry consumes bytes.
  \<^item> \<^verbatim>\<open>Expected\<close>: \<^verbatim>\<open>expected.hpp\<close>.
  \<^item> \<^verbatim>\<open>RpcProtocol\<close>: \<^verbatim>\<open>rpc_protocol.hpp\<close>; 32-bit arithmetic stays 32-bit, and a read outside the reply
    is the outcome \<open>UB\<close>.
  \<^item> \<^verbatim>\<open>RpcTransport\<close>: \<^verbatim>\<open>rpc_transport.cpp\<close>; the system calls are the parameter \<open>'w posix\<close>, the two loops
    are partial functions. The predicates \<open>tcp_stream\<close>, \<open>tcp_up\<close> and \<open>keeps_descriptors\<close> state what
    POSIX documents of them, and \<^verbatim>\<open>NetInstance\<close> gives an instance that satisfies all three.
  \<^item> \<^verbatim>\<open>RpcClient\<close>: \<^verbatim>\<open>rpc_client.cpp\<close> with the C interface; the locale \<open>rpc_caller\<close> is what the layers
    above rely on.
  \<^item> \<^verbatim>\<open>RpcEndpoint\<close>, \<^verbatim>\<open>Nfs3Client\<close>: the endpoint and the 22 methods; the locale \<open>nfs_procedure\<close> derives
    from two codecs what a method returns, and is interpreted for the 21 procedures with
    arguments.
  \<^item> \<^verbatim>\<open>MountClient\<close>: the MOUNT client and its two reply readers.
  \<^item> \<^verbatim>\<open>CMemory\<close>: blocks, pointers and the allocator of the C port. A pointer is null, owns a block or
    dangles; a run ends, commits one of three faults, or loops. Any call of the allocator may be
    refused.
  \<^item> \<^verbatim>\<open>CXdrCodec\<close>: \<^verbatim>\<open>xdr_codec.c\<close>. A decoder of an integer returns \<open>None\<close> where the source returns 0;
    \<open>into\<close> and \<open>into_local\<close> are the two ways its callers ignore that. \<^verbatim>\<open>CXdrRules\<close> has the invariant of a
    buffer, the rules by which codecs compose, and the locales: \<open>c_pair\<close> and \<open>c_codec\<close> for an encoder and
    a decoder, \<open>c_object\<close> for an object that owns blocks, \<open>c_fresh\<close> and \<open>c_managed\<close> for both together.
  \<^item> \<^verbatim>\<open>CNfs3Types\<close>, \<^verbatim>\<open>CNfs3Res\<close>, \<^verbatim>\<open>CNfs3Dir\<close>, \<^verbatim>\<open>CNfs3ProcsA\<close>, \<^verbatim>\<open>CNfs3ProcsB\<close>, \<^verbatim>\<open>CNfs3ProcsC\<close>: \<^verbatim>\<open>nfs3_types.h\<close>,
    \<^verbatim>\<open>nfs3_types.c\<close> and \<^verbatim>\<open>nfs3_xdr.c\<close>, one record per struct, with its interpretation of those locales.
  \<^item> \<^verbatim>\<open>CRefine\<close>, \<^verbatim>\<open>CInterop\<close>: the C buffer as a refinement of \<^verbatim>\<open>XdrBuffer\<close>, and the locale \<open>interop\<close>,
    interpreted for every type that has the same wire format in both languages.
  \<^item> \<^verbatim>\<open>TirpcXdr\<close>: the shapes of the filters in \<^verbatim>\<open>nfs3_xdr.cpp\<close>, over the primitives of libtirpc. That
    library is not in the repository: its primitives are the parameter \<open>'x tirpc\<close>, and \<open>xdr_writer\<close> and
    \<open>xdr_reader\<close> state what its manual pages promise of them. \<^verbatim>\<open>TirpcRules\<close> has the rules by which
    filters compose and the locales \<open>tirpc_writer\<close> and \<open>tirpc_filter\<close>, the contract of a filter against a
    reference encoding; \<^verbatim>\<open>TirpcMemory\<close> gives streams over memory that satisfy the laws.
  \<^item> \<^verbatim>\<open>TirpcTypes\<close>, \<^verbatim>\<open>TirpcProcsA\<close>, \<^verbatim>\<open>TirpcProcsB\<close>, \<^verbatim>\<open>TirpcProcsC\<close>, \<^verbatim>\<open>TirpcDir\<close>: every filter of
    \<^verbatim>\<open>nfs3_xdr.cpp\<close>, in each direction a stream can have, with an interpretation of the contract.
    Filters for arguments with a name only satisfy its first half: they cannot decode.
  \<^item> \<^verbatim>\<open>TirpcEndpoint\<close>: the branches of \<^verbatim>\<open>rpc_endpoint.hpp\<close> and \<^verbatim>\<open>rpc_endpoint.cpp\<close> for libtirpc. Its client
    functions are the parameters \<open>'w clnt_lib\<close> and \<open>clnt_call\<close>; \<open>calls_through\<close> states what a call does with
    the two filters it is given. \<^verbatim>\<open>TirpcLifetime\<close> has the programs that use endpoints as a step
    relation, with the ownership of handles as its invariant; \<^verbatim>\<open>TirpcNet\<close> gives an instance of the laws.
  \<^item> \<^verbatim>\<open>TirpcClient\<close>: the methods in that build; the locale \<open>tirpc_procedure\<close> derives from two filters what a
    method does, and is interpreted for the 21 procedures with arguments. \<^verbatim>\<open>TirpcMount\<close>: the MOUNT
    client in that build, with its own filters. \<^verbatim>\<open>TirpcBridge\<close>: the filters of \<^verbatim>\<open>xdr_bridge.hpp\<close>.
  \<^item> \<^verbatim>\<open>CNfs3Constants\<close>: \<^verbatim>\<open>nfs3_constants.h\<close>, and its agreement with the C++ constants, which the C
    codecs here use.
  \<^item> \<^verbatim>\<open>TestContext\<close>: \<^verbatim>\<open>test_context.hpp\<close>, the fixture of the tests, with the environment, the command line
    and the clock as arguments, and with \<^verbatim>\<open>std::stoi\<close> written out. \<^verbatim>\<open>TestFixture\<close>: its life as a step
    relation over both clients, with the ownership of descriptors as the invariant, and its
    properties. \<^verbatim>\<open>TirpcContext\<close>: the fixture in the build with libtirpc, and that it leaves no
    handle behind. \<^verbatim>\<open>Examples\<close>: the two example programs, with what they print and their exit status.

  What is shown. \<^verbatim>\<open>CodecProperties\<close>: byte order, padding, length bounds, round trips, safety on any
  input, and where a value is lost. \<^verbatim>\<open>CProperties\<close>: refinement of the C++ buffer and codecs by the C
  ones, memory safety and ownership in C on any input, what a refused allocation, a message cut
  short or a wrong length does, and where the two languages differ on the wire. \<^verbatim>\<open>TirpcProperties\<close>: the
  libtirpc filters as a second codec of the results, safety of decoding a reply, and what the
  filters lose or corrupt. \<^verbatim>\<open>TirpcCallProperties\<close>: the methods of both clients over libtirpc, the
  templates of the endpoint and the life of its handles. \<^verbatim>\<open>RpcProperties\<close>: the layout of a call against RFC 5531, what is
  made of every reply, that the socket loops end and move exactly what they say, records,
  descriptors, one call end to end. \<^verbatim>\<open>TestFixture\<close> and \<^verbatim>\<open>Examples\<close>: how the configuration is read, that
  the export is mounted once and its handle kept, that neither the fixture nor a program leaks a
  descriptor. This theory: the methods of the two clients from their
  arguments to the bytes on the wire and back, and their errors.

  Bounds. There is no fuel: every loop is either proved to end or, for the two socket loops,
  proved to return on every system that satisfies \<open>tcp_stream\<close>. Lengths of strings and opaque data
  are bounded by the 32-bit length word where the code checks it, and records by the 31 bits
  of the fragment header.

  The sizes of the C buffer are \<^verbatim>\<open>size_t\<close> in the source and natural numbers here: buffers are taken to
  stay below \<open>2 ^ 64\<close> bytes. Safety of the C decoders is shown for messages of less than four
  gigabytes; longer ones reach the wrap-around of \<^verbatim>\<open>malloc(len + 1)\<close>.

  Not modelled: the tests themselves, which only call the code above, and the scripts; the headers that
  only declare functions (\<^verbatim>\<open>nfs3_xdr.h\<close>, \<^verbatim>\<open>nfs3_xdr.hpp\<close>); the examples in the build with
  libtirpc; in the C++ sources the capacity of vectors and exhaustion of memory; the wording of
  messages. Storage that the libtirpc filters allocate and lose is not counted.
\<close>

section \<open>A client and a server to talk to\<close>

text \<open>The instance on which the hypotheses of the theorems below hold: a client on the connection
  of \<open>net0\<close> and a peer that accepts its call.\<close>

definition impl0 :: RPCEndpointImpl where
  "impl0 = \<lparr>rpc_client = client0, host = ''localhost'', port = 2049, timeout = 25000\<rparr>"

definition nfs0 :: NFS3TestClient where
  "nfs0 = \<lparr>endpoint = \<lparr>impl = Some impl0\<rparr>, root_fh = nfs_fh3_init\<rparr>"

definition mount0 :: MountClient where
  "mount0 = \<lparr>mount_rpc = client0, mount_host = ''localhost''\<rparr>"

definition answer :: "bytes \<Rightarrow> bytes \<Rightarrow> bytes" where
  "answer body _ = frame (enc_accepted_reply 7 AUTH_NONE [] 0 body)"

lemma answer_exchange:
  assumes "length body < 1000"
  shows "exchange (net_os (answer body)) net_sent net_got (net_coming (answer body)) net_interrupts
     client0 net0 req (enc_accepted_reply (xid client0) AUTH_NONE [] 0 body) []"
proof -
  have "xid client0 = 7" by (simp add: client0_def)
  moreover have "answer body = (\<lambda>_. frame (enc_accepted_reply 7 AUTH_NONE [] 0 body))"
    by (rule ext) (simp add: answer_def)
  moreover have "length (enc_accepted_reply 7 AUTH_NONE [] 0 body) < 2 ^ 31"
    using assms by (simp add: enc_accepted_reply_def enc_opaque_auth_def enc_opaque_def pad4_def)
  ultimately show ?thesis using net0_exchange by simp
qed

lemma auth_flavors_differ: "AUTH_NONE \<noteq> AUTH_SYS"
  by (simp add: AUTH_NONE_def AUTH_SYS_def)

lemma nfs0_served:
  "length body < 1000 \<Longrightarrow>
   served (net_os (answer body)) net_sent net_got (net_coming (answer body)) net_interrupts nfs0 impl0 net0
     p req body []"
  unfolding served_def using answer_exchange [of body]
  by (intro conjI exI [of _ AUTH_NONE] exI [of _ "[]"])
    (simp_all add: nfs0_def impl0_def auth_flavors_differ)

lemma mount0_served:
  "length body < 1000 \<Longrightarrow>
   mount_served (net_os (answer body)) net_sent net_got (net_coming (answer body)) net_interrupts mount0 net0
     p req body []"
  unfolding mount_served_def using answer_exchange [of body]
  by (intro conjI exI [of _ AUTH_NONE] exI [of _ "[]"]) (simp_all add: mount0_def auth_flavors_differ)

lemmas small_encodings = enc_res_def enc_optional_def enc_bool_def enc_string_def enc_opaque_def
  enc_nfs_fh3_def enc_post_op_attr_def post_op_attr_init_def pad4_def

section \<open>The methods of the NFS client\<close>

text \<open>
  C1: LOOKUP, from the method's arguments to the bytes on the wire and back: on a connection that
  stays up, to a server that accepts the call and returns a handle, the method sends one
  record, the call of procedure 3 of the NFS program with the directory handle and the name,
  and returns the server's result, whatever short or interrupted reads and writes it takes.
\<close>

theorem lookup_end_to_end:
  assumes "ok_nfs_fh3 d" and "length n \<le> UINT32_MAX"
    and "ok_LOOKUP3resok r" and "canon_LOOKUP3resok r"
    and "served os out rcv inp stall cl im w NFSPROC3_LOOKUP (enc_nfs_fh3 d @ enc_string n)
      (enc_res enc_LOOKUP3resok \<lparr>status = NFS3_OK, resok = Some r\<rparr>) rest"
  shows "\<exists>w'. nfs3_lookup os cl d n w = Ret ((Inr (Value r), called cl im), w') \<and>
    out w' = out w @ frame (build_call (xid (rpc_client im)) 100003 3 3 (enc_nfs_fh3 d @ enc_string n)) \<and>
    inp w' = rest"
proof -
  let ?a = "\<lparr>LOOKUP3args.what_dir = d, LOOKUP3args.what_name = n\<rparr>"
  have a: "enc_LOOKUP3args ?a = enc_nfs_fh3 d @ enc_string n" by (simp add: enc_LOOKUP3args_def)
  have "ok_LOOKUP3args ?a" using assms(1,2) by (simp add: ok_LOOKUP3args_def)
  from lookup_op.invoke_ok [OF this assms(3,4), unfolded a, OF assms(5)] show ?thesis
    by (simp add: nfs3_lookup_def deserialize_LOOKUP3res_def)
qed

definition lookup_res0 :: LOOKUP3resok where
  "lookup_res0 = \<lparr>LOOKUP3resok.object = \<lparr>nfs_fh3.data = [4, 5, 6]\<rparr>,
     LOOKUP3resok.obj_attributes = post_op_attr_init, LOOKUP3resok.dir_attributes = post_op_attr_init\<rparr>"

abbreviation lookup_body0 :: bytes where
  "lookup_body0 \<equiv> enc_res enc_LOOKUP3resok \<lparr>status = NFS3_OK, resok = Some lookup_res0\<rparr>"

theorem lookup_end_to_end_witness:
  "\<exists>w'. nfs3_lookup (net_os (answer lookup_body0)) nfs0 nfs_fh3_init ''etc'' net0 =
      Ret ((Inr (Value lookup_res0), called nfs0 impl0), w') \<and>
    net_sent w' = net_sent net0 @
      frame (build_call (xid (rpc_client impl0)) 100003 3 3 (enc_nfs_fh3 nfs_fh3_init @ enc_string ''etc'')) \<and>
    net_coming (answer lookup_body0) w' = []"
proof (rule lookup_end_to_end)
  show "served (net_os (answer lookup_body0)) net_sent net_got (net_coming (answer lookup_body0))
      net_interrupts nfs0 impl0 net0 NFSPROC3_LOOKUP (enc_nfs_fh3 nfs_fh3_init @ enc_string ''etc'')
      lookup_body0 []"
    by (rule nfs0_served) (simp add: small_encodings lookup_res0_def enc_LOOKUP3resok_def)
qed (simp_all add: lookup_res0_def ok_LOOKUP3resok_def canon_LOOKUP3resok_def ok_nfs_fh3_def
    nfs_fh3_init_def canon_post_op_attr_def post_op_attr_init_def)



















text \<open>
  C7: on a client that is not connected every method returns \<^verbatim>\<open>RPC_ERROR\<close> at once, without
  touching the world, the transaction ids, or the arguments, which are not even packed.
\<close>

theorem methods_offline:
  assumes "\<not> RPCEndpoint_is_connected (endpoint cl)"
  shows "nfs3_invoke os ser des cl p args w = Ret ((Inr (Unexpected Nfs3Error.RPC_ERROR), cl), w) \<and>
    nfs3_null os cl w = Ret ((Unexpected Nfs3Error.RPC_ERROR, cl), w)"
  using assms
  by (simp add: nfs3_invoke_def nfs3_null_def endpoint_offline RPCEndpoint_call_void_def)

theorem methods_offline_witness:
  "nfs3_invoke (net_os (\<lambda>_. [])) serialize_LOOKUP3args deserialize_LOOKUP3res
      (NFS3TestClient_new \<lparr>impl = None\<rparr>) NFSPROC3_LOOKUP lookup_args0 net0 =
      Ret ((Inr (Unexpected Nfs3Error.RPC_ERROR), NFS3TestClient_new \<lparr>impl = None\<rparr>), net0) \<and>
   nfs3_null (net_os (\<lambda>_. [])) (NFS3TestClient_new \<lparr>impl = None\<rparr>) net0 =
      Ret ((Unexpected Nfs3Error.RPC_ERROR, NFS3TestClient_new \<lparr>impl = None\<rparr>), net0)"
  by (rule methods_offline) (simp add: NFS3TestClient_new_def RPCEndpoint_is_connected_def)

section \<open>The mount client\<close>

text \<open>
  C18: MNT: the call carries the path, and the method returns the file handle of the server's
  reply, byte for byte; the list of authentication flavors in the reply, up to the ten the
  code allows, is read over and not returned.
\<close>

theorem mnt_end_to_end:
  assumes "length path \<le> UINT32_MAX" and "length fh \<le> UINT32_MAX" and "length flavors \<le> 10"
    and "mount_served os out rcv inp stall m w MOUNTPROC_MNT (enc_string path) (enc_mountres fh flavors) rest"
  shows "\<exists>w'. mount_mnt os m path w =
      Ret ((Inr (Value \<lparr>mount_root_handle = \<lparr>nfs_fh3.data = fh\<rparr>, mount_auth_flavors = []\<rparr>),
        m\<lparr>mount_rpc := (mount_rpc m)\<lparr>xid := xid (mount_rpc m) + 1\<rparr>\<rparr>), w') \<and>
    out w' = out w @ frame (build_call (xid (mount_rpc m)) 100005 3 1 (enc_string path)) \<and>
    inp w' = rest"
  using mnt_accepted [OF assms] by (simp add: MOUNTPROG_def MOUNTVERS_def MOUNTPROC_MNT_def)

theorem mnt_end_to_end_witness:
  "\<exists>w'. mount_mnt (net_os (answer (enc_mountres [1, 2, 3, 4] [1]))) mount0 ''/srv'' net0 =
      Ret ((Inr (Value \<lparr>mount_root_handle = \<lparr>nfs_fh3.data = [1, 2, 3, 4]\<rparr>, mount_auth_flavors = []\<rparr>),
        mount0\<lparr>mount_rpc := (mount_rpc mount0)\<lparr>xid := xid (mount_rpc mount0) + 1\<rparr>\<rparr>), w') \<and>
    net_sent w' = net_sent net0 @ frame (build_call (xid (mount_rpc mount0)) 100005 3 1 (enc_string ''/srv'')) \<and>
    net_coming (answer (enc_mountres [1, 2, 3, 4] [1])) w' = []"
proof (rule mnt_end_to_end)
  show "mount_served (net_os (answer (enc_mountres [1, 2, 3, 4] [1]))) net_sent net_got
      (net_coming (answer (enc_mountres [1, 2, 3, 4] [1]))) net_interrupts mount0 net0 MOUNTPROC_MNT
      (enc_string ''/srv'') (enc_mountres [1, 2, 3, 4] [1]) []"
    by (rule mount0_served) (simp add: enc_mountres_def enc_opaque_def pad4_def)
qed simp_all

text \<open>
  C19: a MNT that the server refuses is reported under the error of its status, and a status the
  enumeration does not have under \<^verbatim>\<open>RPC_ERROR\<close>; that is the same value as \<^verbatim>\<open>PERM\<close>, so the caller
  cannot tell a refusal for lack of permission from a failed call.
\<close>

theorem mnt_refused:
  assumes "length path \<le> UINT32_MAX" and "st \<noteq> 0"
    and "mount_served os out rcv inp stall m w MOUNTPROC_MNT (enc_string path) (be32 st @ tail) rest"
  shows "\<exists>w'. mount_mnt os m path w =
      Ret ((Inr (Unexpected (if st \<in> {1, 2, 5, 13, 20, 63} then uint st else MountError_RPC_ERROR)),
        m\<lparr>mount_rpc := (mount_rpc m)\<lparr>xid := xid (mount_rpc m) + 1\<rparr>\<rparr>), w') \<and>
    MountError_PERM = MountError_RPC_ERROR"
proof -
  from mount_call [OF assms(3), of 10000] obtain w' where "MountClient_is_connected m"
    "RpcClient_call os (mount_rpc m) MOUNTPROG MOUNTVERS MOUNTPROC_MNT (enc_string path) 10000 w =
      Ret (((RpcStatus.OK, be32 st @ tail), (mount_rpc m)\<lparr>xid := xid (mount_rpc m) + 1\<rparr>), w')"
    by blast
  moreover have "xdr_unpack_fhstatus (be32 st @ tail) = Inr \<lparr>fhs_status = st, fhandle = [], auth_flavors = []\<rparr>"
    using decodesD [OF decodes_uint32, of 0 "[]" st tail] assms(2)
    by (simp add: xdr_unpack_fhstatus_def XdrBuffer_of_def xbind_def xret_def)
  moreover have "mount_error st =
      (if st \<in> {1, 2, 5, 13, 20, 63} then uint st else MountError_RPC_ERROR)"
    by (auto simp: mount_error_def MountError_defs)
  ultimately show ?thesis
    using string_xdr.pack_new [OF assms(1)] assms(2)
    by (intro exI [of _ w']) (simp add: mount_mnt_def XdrBuffer_of_def MountError_defs)
qed

theorem mnt_refused_witness:
  "\<exists>w'. mount_mnt (net_os (answer (be32 13 @ []))) mount0 ''/srv'' net0 =
      Ret ((Inr (Unexpected 13),
        mount0\<lparr>mount_rpc := (mount_rpc mount0)\<lparr>xid := xid (mount_rpc mount0) + 1\<rparr>\<rparr>), w')"
proof -
  have "mount_served (net_os (answer (be32 13 @ []))) net_sent net_got
      (net_coming (answer (be32 13 @ []))) net_interrupts mount0 net0 MOUNTPROC_MNT
      (enc_string ''/srv'') (be32 13 @ []) []"
    by (rule mount0_served) simp
  from mnt_refused [OF _ _ this] show ?thesis by simp
qed

text \<open>
  The export list of a server with no export, or with a single export open to all, is read
  as RFC 1813 defines it.
\<close>

theorem exports_upto_one:
  assumes "length d \<le> UINT32_MAX"
  shows "xdr_unpack_exports (enc_rfc_exports []) [] = Inr [] \<and>
    xdr_unpack_exports (enc_rfc_exports [(d, [])]) [] = Inr [d]"
proof -
  have "xdr_unpack_exports (enc_rfc_exports []) [] = Inr []"
    using decodesD [OF decodes_bool, of False "[]" False "[]"]
    by (simp add: xdr_unpack_exports_def XdrBuffer_of_def unpack_exports.simps xbind_def xret_def)
  moreover have "xdr_unpack_exports (enc_rfc_exports [(d, [])]) [] = Inr [d]"
    using decodesD [OF decodes_exports_step [OF assms], of "[]" "[]" "[]"]
    by (simp add: xdr_unpack_exports_def XdrBuffer_of_def)
  ultimately show ?thesis by blast
qed

theorem exports_upto_one_witness:
  "xdr_unpack_exports (enc_rfc_exports []) [] = Inr [] \<and>
   xdr_unpack_exports (enc_rfc_exports [(''/srv'', [])]) [] = Inr [''/srv'']"
  by (rule exports_upto_one) simp



text \<open>
  The loop expects a flag of its own between two entries: the export list of a server with
  two exports or more, in the format of RFC 1813, is not read but refused, for lack of data
  that is not lacking, because the first characters of the second path are taken for a
  length.
\<close>

theorem exports_of_two_refused:
  assumes "length d1 \<le> UINT32_MAX" and "d2 = CHR ''/'' # t" and "length d2 \<le> UINT32_MAX"
    and "length (enc_rfc_exports ((d1, []) # (d2, gs) # es)) < 0x2F000000"
  shows "\<exists>n p h. xdr_unpack_exports (enc_rfc_exports ((d1, []) # (d2, gs) # es)) [] =
    Inl (InsufficientData n p h)"
  using assms by (rule exports_two_entries)

theorem exports_of_two_refused_witness:
  "\<exists>n p h. xdr_unpack_exports (enc_rfc_exports [(''/a'', []), (''/b'', [])]) [] =
    Inl (InsufficientData n p h)"
  by (rule exports_of_two_refused [where t = "''b''"])
    (simp_all add: enc_bool_def enc_string_def enc_opaque_def pad4_def)

end
